(* ===== verification/Prelude.thy ===== *)
theory Prelude
  imports Main "HOL-Library.Word" "HOL-Library.Sublist"
begin

text \<open>
  Shared vocabulary of the development: machine integer types, Rust's \<open>Result\<close> with the
  early return of the question-mark operator, the checked and saturating integer operations the
  sources call, list positions, and an ordered map that stands for \<open>BTreeMap\<close>.
  The map is a key-sorted association list; the interface the components rely on is the locale
  \<open>ordered_map\<close>, interpreted on it as \<open>bt\<close>.
\<close>

section \<open>Collections of rules\<close>

named_theorems res_simps \<open>unfolding of Result plumbing\<close>
named_theorems tr_def \<open>definitions of scheduler handlers\<close>

section \<open>Machine integers\<close>

type_synonym u64 = "64 word"
type_synonym u32 = "32 word"
type_synonym u16 = "16 word"
type_synonym u8 = "8 word"

text \<open>Rust's \<open>usize\<close> on a 64-bit target is kept as a natural number with its largest value named.\<close>

definition usize_max :: nat where
  "usize_max = 2 ^ 64 - 1"

definition checked_add :: "'a::len word \<Rightarrow> 'a word \<Rightarrow> 'a word option" where
  "checked_add a b = (if unat a + unat b < 2 ^ LENGTH('a) then Some (a + b) else None)"

definition checked_sub :: "'a::len word \<Rightarrow> 'a word \<Rightarrow> 'a word option" where
  "checked_sub a b = (if unat b \<le> unat a then Some (a - b) else None)"

definition checked_mul :: "'a::len word \<Rightarrow> 'a word \<Rightarrow> 'a word option" where
  "checked_mul a b = (if unat a * unat b < 2 ^ LENGTH('a) then Some (a * b) else None)"

definition saturating_add :: "'a::len word \<Rightarrow> 'a word \<Rightarrow> 'a word" where
  "saturating_add a b = (case checked_add a b of Some c \<Rightarrow> c | None \<Rightarrow> - 1)"

section \<open>Results\<close>

type_synonym ('e, 'a) result = "'e + 'a"

definition ok_or :: "'e \<Rightarrow> 'a option \<Rightarrow> ('e, 'a) result" where
  "ok_or e x = (case x of None \<Rightarrow> Inl e | Some a \<Rightarrow> Inr a)"

definition and_then :: "('e, 'a) result \<Rightarrow> ('a \<Rightarrow> ('e, 'b) result) \<Rightarrow> ('e, 'b) result" where
  "and_then r f = (case r of Inl e \<Rightarrow> Inl e | Inr a \<Rightarrow> f a)"

definition map_err :: "('e \<Rightarrow> 'f) \<Rightarrow> ('e, 'a) result \<Rightarrow> ('f, 'a) result" where
  "map_err f r = (case r of Inl e \<Rightarrow> Inl (f e) | Inr a \<Rightarrow> Inr a)"

definition is_ok :: "('e, 'a) result \<Rightarrow> bool" where
  "is_ok r = (case r of Inl _ \<Rightarrow> False | Inr _ \<Rightarrow> True)"

text \<open>
  A fallible method on \<open>&mut self\<close> is a function from the state to a result and the state at
  the moment of return. \<open>try_in s r k\<close> is the question-mark operator inside such a method: on an
  error it returns at once with the state \<open>s\<close> reached so far.
\<close>

definition try_in :: "'s \<Rightarrow> ('e, 'a) result \<Rightarrow> ('a \<Rightarrow> ('e, 'b) result \<times> 's) \<Rightarrow> ('e, 'b) result \<times> 's" where
  "try_in s r k = (case r of Inl e \<Rightarrow> (Inl e, s) | Inr a \<Rightarrow> k a)"

section \<open>Lists by position\<close>

fun position :: "'a \<Rightarrow> 'a list \<Rightarrow> nat option" where
  "position x [] = None"
| "position x (y # ys) = (if y = x then Some 0 else map_option Suc (position x ys))"

definition remove_at :: "nat \<Rightarrow> 'a list \<Rightarrow> 'a list" where
  "remove_at i xs = take i xs @ drop (Suc i) xs"

definition insert_at :: "nat \<Rightarrow> 'a \<Rightarrow> 'a list \<Rightarrow> 'a list" where
  "insert_at i x xs = take i xs @ x # drop i xs"

text \<open>\<open>Iterator::find_map\<close> on a list.\<close>

fun find_map :: "('a \<Rightarrow> 'b option) \<Rightarrow> 'a list \<Rightarrow> 'b option" where
  "find_map f [] = None"
| "find_map f (x # xs) = (case f x of Some y \<Rightarrow> Some y | None \<Rightarrow> find_map f xs)"

section \<open>Ordered maps\<close>

type_synonym ('k, 'v) btree = "('k \<times> 'v) list"

fun bt_get :: "('k, 'v) btree \<Rightarrow> 'k \<Rightarrow> 'v option" where
  "bt_get [] k = None"
| "bt_get ((k', v) # m) k = (if k = k' then Some v else bt_get m k)"

fun bt_insert :: "'k::linorder \<Rightarrow> 'v \<Rightarrow> ('k, 'v) btree \<Rightarrow> ('k, 'v) btree" where
  "bt_insert k v [] = [(k, v)]"
| "bt_insert k v ((k', v') # m) =
     (if k < k' then (k, v) # (k', v') # m
      else if k = k' then (k, v) # m
      else (k', v') # bt_insert k v m)"

definition bt_remove :: "'k \<Rightarrow> ('k, 'v) btree \<Rightarrow> ('k, 'v) btree" where
  "bt_remove k m = filter (\<lambda>(k', _). k' \<noteq> k) m"

definition bt_wf :: "('k::linorder, 'v) btree \<Rightarrow> bool" where
  "bt_wf m \<longleftrightarrow> sorted_wrt (<) (map fst m)"

definition bt_keys :: "('k, 'v) btree \<Rightarrow> 'k list" where
  "bt_keys m = map fst m"

definition bt_values :: "('k, 'v) btree \<Rightarrow> 'v list" where
  "bt_values m = map snd m"

definition bt_map_values :: "('v \<Rightarrow> 'w) \<Rightarrow> ('k, 'v) btree \<Rightarrow> ('k, 'w) btree" where
  "bt_map_values f m = map (\<lambda>(k, v). (k, f v)) m"

section \<open>Lemmas on results and integers\<close>

lemma ok_or_simps [simp, res_simps]:
  "ok_or e None = Inl e" "ok_or e (Some a) = Inr a"
  by (simp_all add: ok_or_def)

lemma and_then_simps [simp, res_simps]:
  "and_then (Inl e) f = Inl e" "and_then (Inr a) f = f a"
  by (simp_all add: and_then_def)

lemma map_err_simps [simp, res_simps]:
  "map_err f (Inl e) = Inl (f e)" "map_err f (Inr a) = Inr a"
  by (simp_all add: map_err_def)

lemma is_ok_simps [simp, res_simps]: "\<not> is_ok (Inl e)" "is_ok (Inr a)"
  by (simp_all add: is_ok_def)

lemma try_in_simps [simp, res_simps]:
  "try_in s (Inl e) k = (Inl e, s)" "try_in s (Inr a) k = k a"
  by (simp_all add: try_in_def)

lemma ok_or_eq_Inr [simp]: "ok_or e x = Inr a \<longleftrightarrow> x = Some a"
  by (cases x) simp_all

lemma ok_or_eq_Inl [simp]: "ok_or e x = Inl f \<longleftrightarrow> x = None \<and> f = e"
  by (cases x) auto

lemma and_then_eq_Inr: "and_then r f = Inr b \<longleftrightarrow> (\<exists>a. r = Inr a \<and> f a = Inr b)"
  by (cases r) simp_all

lemma map_err_eq_Inr [simp]: "map_err f r = Inr b \<longleftrightarrow> r = Inr b"
  by (cases r) simp_all

lemma try_in_eq_ok: "try_in s r k = (Inr b, s') \<longleftrightarrow> (\<exists>a. r = Inr a \<and> k a = (Inr b, s'))"
  by (cases r) simp_all

lemma try_in_cases:
  assumes "try_in s r k = (res, s')"
  obtains (early) e where "r = Inl e" "res = Inl e" "s' = s"
    | (continue) a where "r = Inr a" "k a = (res, s')"
  using assms by (cases r) auto

lemma try_in_preserves:
  "P (Inl e, s) \<Longrightarrow> (\<And>a. r = Inr a \<Longrightarrow> P (k a)) \<Longrightarrow> (\<And>e. r = Inl e \<Longrightarrow> P (Inl e, s)) \<Longrightarrow> P (try_in s r k)"
  by (cases r) auto

lemma checked_add_Some: "checked_add a b = Some c \<Longrightarrow> unat c = unat a + unat b"
  by (auto simp: checked_add_def unat_word_ariths split: if_splits)

lemma checked_add_None_iff:
  "checked_add (a :: 'a::len word) b = None \<longleftrightarrow> 2 ^ LENGTH('a) \<le> unat a + unat b"
  by (auto simp: checked_add_def)

lemma checked_sub_Some: "checked_sub a b = Some c \<Longrightarrow> unat b \<le> unat a \<and> unat c = unat a - unat b"
  by (auto simp: checked_sub_def unat_sub word_le_nat_alt split: if_splits)

lemma checked_mul_Some: "checked_mul a b = Some c \<Longrightarrow> unat c = unat a * unat b"
  by (auto simp: checked_mul_def unat_word_ariths split: if_splits)

lemma unat_max_word: "unat (- 1 :: 'a::len word) = 2 ^ LENGTH('a) - 1"
  by (metis mask_eq_exp_minus_1 unsigned_minus_1_eq_mask)

lemma unat_saturating_add:
  "unat (saturating_add (a :: 'a::len word) b) = min (unat a + unat b) (2 ^ LENGTH('a) - 1)"
proof (cases "checked_add a b")
  case None
  then have le: "2 ^ LENGTH('a) \<le> unat a + unat b"
    by (simp add: checked_add_None_iff)
  with None show ?thesis
    by (simp add: saturating_add_def unat_max_word)
next
  case (Some c)
  then have "unat c = unat a + unat b" by (rule checked_add_Some)
  moreover have "unat c < 2 ^ LENGTH('a)" by simp
  ultimately show ?thesis using Some by (simp add: saturating_add_def)
qed

section \<open>Lemmas on list positions\<close>

lemma position_Some_iff:
  "position x xs = Some i \<longleftrightarrow> i < length xs \<and> xs ! i = x \<and> (\<forall>j < i. xs ! j \<noteq> x)"
proof (induction xs arbitrary: i)
  case Nil
  then show ?case by simp
next
  case (Cons y ys)
  show ?case
  proof (cases i)
    case 0
    then show ?thesis by auto
  next
    case (Suc k)
    with Cons.IH [of k] show ?thesis
      by (auto simp: less_Suc_eq_0_disj nth_Cons split: nat.splits)
  qed
qed

lemma position_None_iff [simp]: "position x xs = None \<longleftrightarrow> x \<notin> set xs"
  by (induction xs) auto

lemma position_SomeD: "position x xs = Some i \<Longrightarrow> i < length xs \<and> xs ! i = x"
  by (simp add: position_Some_iff)

lemma position_ex: "x \<in> set xs \<Longrightarrow> \<exists>i. position x xs = Some i"
  using position_None_iff [of x xs] by (cases "position x xs") auto

lemma position_Some_mem: "position x xs = Some i \<Longrightarrow> x \<in> set xs"
  using position_None_iff [of x xs] by force

lemma remove_at_position:
  "position x xs = Some i \<Longrightarrow> remove_at i xs = remove1 x xs"
proof (induction xs arbitrary: i)
  case Nil
  then show ?case by simp
next
  case (Cons y ys)
  then show ?case
    by (auto simp: remove_at_def split: if_splits)
qed

lemma set_insert_at [simp]: "set (insert_at i x xs) = insert x (set xs)"
proof -
  have "set xs = set (take i xs) \<union> set (drop i xs)"
    by (metis append_take_drop_id set_append)
  then show ?thesis by (auto simp: insert_at_def)
qed

lemma distinct_insert_at [simp]: "distinct (insert_at i x xs) \<longleftrightarrow> x \<notin> set xs \<and> distinct xs"
proof -
  have "distinct (insert_at i x xs) \<longleftrightarrow> distinct (x # take i xs @ drop i xs)"
    unfolding insert_at_def by (simp only: distinct.simps distinct_append set_append list.set) blast
  then show ?thesis by simp
qed

lemma length_insert_at [simp]: "length (insert_at i x xs) = Suc (length xs)"
  by (simp add: insert_at_def)

lemma nth_insert_at: "i \<le> length xs \<Longrightarrow> insert_at i x xs ! i = x"
  by (simp add: insert_at_def nth_append)

lemma insert_at_remove1: "x \<notin> set xs \<Longrightarrow> remove1 x (insert_at i x xs) = xs"
  using in_set_takeD [of x i xs] by (auto simp: insert_at_def remove1_append)

lemma find_Some_mem: "List.find P xs = Some x \<Longrightarrow> x \<in> set xs \<and> P x"
  by (auto simp: find_Some_iff)

lemma find_map_Some: "find_map f xs = Some y \<Longrightarrow> \<exists>x \<in> set xs. f x = Some y"
  by (induction xs) (auto split: option.splits)

lemma find_map_None: "find_map f xs = None \<longleftrightarrow> (\<forall>x \<in> set xs. f x = None)"
  by (induction xs) (auto split: option.splits)

section \<open>The ordered-map interface\<close>

text \<open>
  What the components rely on: a lookup after an insertion or a removal, the invariant that
  every operation keeps, the entries in key order, and the number of entries.
\<close>

locale ordered_map =
  fixes empty :: "'m"
    and get :: "'m \<Rightarrow> 'k::linorder \<Rightarrow> 'v option"
    and ins :: "'k \<Rightarrow> 'v \<Rightarrow> 'm \<Rightarrow> 'm"
    and rem :: "'k \<Rightarrow> 'm \<Rightarrow> 'm"
    and entries :: "'m \<Rightarrow> ('k \<times> 'v) list"
    and wf :: "'m \<Rightarrow> bool"
  assumes wf_empty: "wf empty"
    and wf_ins: "wf m \<Longrightarrow> wf (ins k v m)"
    and wf_rem: "wf m \<Longrightarrow> wf (rem k m)"
    and get_empty: "get empty j = None"
    and get_ins: "get (ins k v m) j = (if j = k then Some v else get m j)"
    and get_rem: "get (rem k m) j = (if j = k then None else get m j)"
    and entries_sorted: "wf m \<Longrightarrow> sorted_wrt (<) (map fst (entries m))"
    and entries_get: "wf m \<Longrightarrow> (k, v) \<in> set (entries m) \<longleftrightarrow> get m k = Some v"
begin

lemma distinct_entries: "wf m \<Longrightarrow> distinct (map fst (entries m))"
  using entries_sorted strict_sorted_iff by blast

lemma entries_set: "wf m \<Longrightarrow> set (entries m) = {(k, v). get m k = Some v}"
  using entries_get by auto

lemma finite_dom: "wf m \<Longrightarrow> finite {k. get m k \<noteq> None}"
proof -
  assume "wf m"
  then have "{k. get m k \<noteq> None} = fst ` set (entries m)"
    by (force simp: entries_set)
  then show ?thesis by simp
qed

lemma keys_set: "wf m \<Longrightarrow> set (map fst (entries m)) = {k. get m k \<noteq> None}"
  by (force simp: entries_set)

lemma length_entries: "wf m \<Longrightarrow> length (entries m) = card {k. get m k \<noteq> None}"
  using distinct_card [OF distinct_entries] keys_set by (metis length_map)

text \<open>Counting the entries that satisfy a predicate is counting keys.\<close>

lemma length_filter_entries:
  assumes "wf m"
  shows "length (filter (\<lambda>e. P (snd e)) (entries m)) = card {k. \<exists>v. get m k = Some v \<and> P v}"
proof -
  let ?es = "filter (\<lambda>e. P (snd e)) (entries m)"
  have "distinct (map fst ?es)"
    using distinct_entries [OF assms] by (rule distinct_map_filter)
  then have "length ?es = card (set (map fst ?es))"
    using distinct_card by (metis length_map)
  also have "set (map fst ?es) = {k. \<exists>v. get m k = Some v \<and> P v}"
    using entries_set [OF assms] by force
  finally show ?thesis .
qed

lemma size_ins:
  assumes "wf m"
  shows "length (entries (ins k v m)) = length (entries m) + (if get m k = None then 1 else 0)"
proof -
  have "{j. get (ins k v m) j \<noteq> None} = insert k {j. get m j \<noteq> None}"
    by (auto simp: get_ins)
  then show ?thesis
    using length_entries [OF wf_ins [OF assms]] length_entries [OF assms] finite_dom [OF assms]
    by (simp add: card_insert_if del: not_None_eq)
qed

lemma size_rem:
  assumes "wf m"
  shows "length (entries (rem k m)) \<le> length (entries m)"
proof -
  have "{j. get (rem k m) j \<noteq> None} \<subseteq> {j. get m j \<noteq> None}"
    by (auto simp: get_rem split: if_splits)
  then show ?thesis
    using length_entries [OF wf_rem [OF assms]] length_entries [OF assms] finite_dom [OF assms]
    by (simp add: card_mono del: not_None_eq)
qed

text \<open>
  Replacing or adding one entry changes a count only where that entry did or does satisfy the
  predicate.
\<close>

lemma count_ins:
  assumes "wf m"
  shows "length (filter (\<lambda>e. P (snd e)) (entries (ins k v m)))
       = card ({j. j \<noteq> k \<and> (\<exists>w. get m j = Some w \<and> P w)} \<union> (if P v then {k} else {}))"
proof -
  have "{j. \<exists>w. get (ins k v m) j = Some w \<and> P w}
      = {j. j \<noteq> k \<and> (\<exists>w. get m j = Some w \<and> P w)} \<union> (if P v then {k} else {})"
    by (auto simp: get_ins)
  then show ?thesis
    using length_filter_entries [OF wf_ins [OF assms]] by simp
qed

lemma count_ins_le:
  assumes "wf m"
  shows "length (filter (\<lambda>e. P (snd e)) (entries (ins k v m)))
      \<le> length (filter (\<lambda>e. P (snd e)) (entries m)) + (if P v then 1 else 0)"
proof -
  let ?old = "{j. \<exists>w. get m j = Some w \<and> P w}"
  have fin: "finite ?old"
    by (rule finite_subset [OF _ finite_dom [OF assms]]) auto
  have "{j. j \<noteq> k \<and> (\<exists>w. get m j = Some w \<and> P w)} \<union> (if P v then {k} else {})
      \<subseteq> ?old \<union> (if P v then {k} else {})"
    by auto
  then have "card ({j. j \<noteq> k \<and> (\<exists>w. get m j = Some w \<and> P w)} \<union> (if P v then {k} else {}))
      \<le> card (?old \<union> (if P v then {k} else {}))"
    by (rule card_mono [rotated]) (simp add: fin)
  also have "\<dots> \<le> card ?old + (if P v then 1 else 0)"
    using card_Un_le [of ?old "if P v then {k} else {}"] by (auto split: if_splits)
  finally show ?thesis
    using assms by (simp add: count_ins length_filter_entries)
qed

lemma count_ins_mono:
  assumes "wf m" and "get m k = Some w" and "P v \<Longrightarrow> P w"
  shows "length (filter (\<lambda>e. P (snd e)) (entries (ins k v m)))
      \<le> length (filter (\<lambda>e. P (snd e)) (entries m))"
proof -
  let ?old = "{j. \<exists>w. get m j = Some w \<and> P w}"
  have fin: "finite ?old"
    by (rule finite_subset [OF _ finite_dom [OF assms(1)]]) auto
  have "{j. j \<noteq> k \<and> (\<exists>w. get m j = Some w \<and> P w)} \<union> (if P v then {k} else {}) \<subseteq> ?old"
    using assms(2,3) by auto
  then show ?thesis
    using fin assms(1) by (simp add: count_ins length_filter_entries card_mono)
qed

lemma count_rem_le:
  assumes "wf m"
  shows "length (filter (\<lambda>e. P (snd e)) (entries (rem k m)))
      \<le> length (filter (\<lambda>e. P (snd e)) (entries m))"
proof -
  let ?old = "{j. \<exists>w. get m j = Some w \<and> P w}"
  have fin: "finite ?old"
    by (rule finite_subset [OF _ finite_dom [OF assms]]) auto
  have "{j. \<exists>w. get (rem k m) j = Some w \<and> P w} \<subseteq> ?old"
    by (auto simp: get_rem split: if_splits)
  then show ?thesis
    using fin assms by (simp add: length_filter_entries wf_rem card_mono)
qed

end

section \<open>The association list provides the interface\<close>

lemma bt_get_insert [simp]: "bt_get (bt_insert k v m) j = (if j = k then Some v else bt_get m j)"
  by (induction k v m rule: bt_insert.induct) auto

lemma bt_get_remove [simp]: "bt_get (bt_remove k m) j = (if j = k then None else bt_get m j)"
  by (induction m) (auto simp: bt_remove_def)

lemma bt_insert_keys: "fst ` set (bt_insert k v m) = insert k (fst ` set m)"
  by (induction k v m rule: bt_insert.induct) auto

lemma bt_wf_Nil [simp]: "bt_wf []"
  by (simp add: bt_wf_def)

lemma bt_wf_Cons: "bt_wf ((k, v) # m) \<longleftrightarrow> (\<forall>j \<in> fst ` set m. k < j) \<and> bt_wf m"
  by (auto simp: bt_wf_def)

lemma bt_wf_insert [simp]: "bt_wf m \<Longrightarrow> bt_wf (bt_insert k v m)"
proof (induction k v m rule: bt_insert.induct)
  case (1 k v)
  then show ?case by (simp add: bt_wf_def)
next
  case (2 k v k' v' m)
  then show ?case
    by (fastforce simp: bt_wf_Cons bt_insert_keys)
qed

lemma bt_wf_remove [simp]: "bt_wf m \<Longrightarrow> bt_wf (bt_remove k m)"
  by (simp add: bt_remove_def bt_wf_def sorted_wrt_map sorted_wrt_filter)

lemma bt_get_mem: "bt_wf m \<Longrightarrow> (k, v) \<in> set m \<longleftrightarrow> bt_get m k = Some v"
proof (induction m)
  case Nil
  then show ?case by simp
next
  case (Cons e m)
  obtain k' v' where e: "e = (k', v')" by (cases e)
  with Cons.prems have lt: "\<forall>j \<in> fst ` set m. k' < j" and wf: "bt_wf m"
    by (simp_all add: bt_wf_Cons)
  show ?case
  proof (cases "k = k'")
    case True
    have "(k', v) \<notin> set m"
    proof
      assume "(k', v) \<in> set m"
      then have "k' \<in> fst ` set m" by force
      with lt show False by blast
    qed
    with True e show ?thesis by auto
  next
    case False
    with Cons.IH [OF wf] e show ?thesis by auto
  qed
qed

interpretation bt: ordered_map "[]" bt_get bt_insert bt_remove "\<lambda>m. m" bt_wf
proof unfold_locales
  fix m :: "('k::linorder, 'v) btree" and k :: 'k and v :: 'v
  show "bt_wf m \<Longrightarrow> sorted_wrt (<) (map fst m)" by (simp add: bt_wf_def)
  show "bt_wf m \<Longrightarrow> ((k, v) \<in> set m) = (bt_get m k = Some v)" by (rule bt_get_mem)
qed simp_all

lemma bt_values_iff: "bt_wf m \<Longrightarrow> v \<in> set (bt_values m) \<longleftrightarrow> (\<exists>k. bt_get m k = Some v)"
  by (force simp: bt_values_def bt.entries_set)

lemma bt_keys_iff: "bt_wf m \<Longrightarrow> k \<in> set (bt_keys m) \<longleftrightarrow> bt_get m k \<noteq> None"
  by (simp add: bt_keys_def bt.keys_set [simplified])

lemma bt_get_map_values [simp]: "bt_get (bt_map_values f m) k = map_option f (bt_get m k)"
  by (induction m) (auto simp: bt_map_values_def split: prod.splits)

lemma bt_keys_map_values [simp]: "map fst (bt_map_values f m) = map fst m"
  by (induction m) (auto simp: bt_map_values_def split: prod.splits)

lemma bt_wf_map_values [simp]: "bt_wf (bt_map_values f m) \<longleftrightarrow> bt_wf m"
  by (simp add: bt_wf_def)

lemma length_bt_map_values [simp]: "length (bt_map_values f m) = length m"
  by (simp add: bt_map_values_def)

text \<open>A well-formed map is determined by its lookups, as two equal \<open>BTreeMap\<close>s are.\<close>

lemma bt_extensional: "bt_wf m \<Longrightarrow> bt_wf m' \<Longrightarrow> bt_get m = bt_get m' \<Longrightarrow> m = m'"
proof -
  assume wf: "bt_wf m" "bt_wf m'" and eq: "bt_get m = bt_get m'"
  have "set m = set m'"
    using wf eq bt.entries_set [of m] bt.entries_set [of m'] by simp
  moreover have "sorted_wrt (\<lambda>x y. fst x < fst y) m" "sorted_wrt (\<lambda>x y. fst x < fst y) m'"
    using wf by (simp_all add: bt_wf_def sorted_wrt_map)
  ultimately show "m = m'"
  proof (induction m arbitrary: m')
    case Nil
    then show ?case by simp
  next
    case (Cons e m)
    from Cons.prems(1) obtain e' n where m': "m' = e' # n" by (cases m') auto
    have e: "e = e'"
    proof (rule ccontr)
      assume ne: "e \<noteq> e'"
      from ne Cons.prems(1) m' have "e \<in> set n" "e' \<in> set m" by auto
      with Cons.prems(2,3) m' have "fst e' < fst e" "fst e < fst e'" by auto
      then show False by simp
    qed
    have "e \<notin> set m" "e' \<notin> set n" using Cons.prems(2,3) m' by auto
    with Cons.prems(1) m' e have "set m = set n" by auto
    with Cons.IH Cons.prems(2,3) m' have "m = n" by auto
    with e m' show ?case by simp
  qed
qed

end
