(* ===== verification/Ids.thy ===== *)
theory Ids
  imports Prelude "HOL-Library.Char_ord"
begin

text \<open>
  Identifiers of \<open>ariax-core/src/ids.rs\<close>: the nonzero 64-bit identifiers, the task GID with
  its sixteen-digit wire form, GID prefixes and their resolution, generations, the plain
  integer identifiers, and host-key challenge identifiers. Text is a list of bytes, as a Rust
  \<open>str\<close> is. The SHA-256 digest belongs to another package and is a parameter.
\<close>

section \<open>Nonzero identifiers\<close>

text \<open>
  \<open>NonZeroU64::new\<close>: every identifier made by the macro is built through it, so zero is never
  the value of an identifier that a constructor function returned.
\<close>

definition nonzero_u64_new :: "u64 \<Rightarrow> u64 option" where
  "nonzero_u64_new v = (if v = 0 then None else Some v)"

datatype task_id = TaskId (task_id_get: u64)

definition task_id_new :: "u64 \<Rightarrow> task_id option" where
  "task_id_new v = map_option TaskId (nonzero_u64_new v)"

datatype transfer_attempt_id = TransferAttemptId (transfer_attempt_id_get: u64)

definition transfer_attempt_id_new :: "u64 \<Rightarrow> transfer_attempt_id option" where
  "transfer_attempt_id_new v = map_option TransferAttemptId (nonzero_u64_new v)"

datatype lease_id = LeaseId (lease_id_get: u64)

definition lease_id_new :: "u64 \<Rightarrow> lease_id option" where
  "lease_id_new v = map_option LeaseId (nonzero_u64_new v)"

datatype overlap_group_id = OverlapGroupId (overlap_group_id_get: u64)

definition overlap_group_id_new :: "u64 \<Rightarrow> overlap_group_id option" where
  "overlap_group_id_new v = map_option OverlapGroupId (nonzero_u64_new v)"

datatype buffer_id = BufferId (buffer_id_get: u64)

definition buffer_id_new :: "u64 \<Rightarrow> buffer_id option" where
  "buffer_id_new v = map_option BufferId (nonzero_u64_new v)"

datatype option_patch_id = OptionPatchId (option_patch_id_get: u64)

definition option_patch_id_new :: "u64 \<Rightarrow> option_patch_id option" where
  "option_patch_id_new v = map_option OptionPatchId (nonzero_u64_new v)"

datatype retry_timer_id = RetryTimerId (retry_timer_id_get: u64)

definition retry_timer_id_new :: "u64 \<Rightarrow> retry_timer_id option" where
  "retry_timer_id_new v = map_option RetryTimerId (nonzero_u64_new v)"

datatype slow_readmission_id = SlowReadmissionId (slow_readmission_id_get: u64)

definition slow_readmission_id_new :: "u64 \<Rightarrow> slow_readmission_id option" where
  "slow_readmission_id_new v = map_option SlowReadmissionId (nonzero_u64_new v)"

datatype no_space_probe_id = NoSpaceProbeId (no_space_probe_id_get: u64)

definition no_space_probe_id_new :: "u64 \<Rightarrow> no_space_probe_id option" where
  "no_space_probe_id_new v = map_option NoSpaceProbeId (nonzero_u64_new v)"

datatype host_key_resolution_id = HostKeyResolutionId (host_key_resolution_id_get: u64)

definition host_key_resolution_id_new :: "u64 \<Rightarrow> host_key_resolution_id option" where
  "host_key_resolution_id_new v = map_option HostKeyResolutionId (nonzero_u64_new v)"

datatype stopped_result_deletion_id = StoppedResultDeletionId (stopped_result_deletion_id_get: u64)

definition stopped_result_deletion_id_new :: "u64 \<Rightarrow> stopped_result_deletion_id option" where
  "stopped_result_deletion_id_new v = map_option StoppedResultDeletionId (nonzero_u64_new v)"

section \<open>GIDs\<close>

datatype gid = Gid (gid_get: u64)

definition gid_new :: "u64 \<Rightarrow> gid option" where
  "gid_new v = map_option Gid (nonzero_u64_new v)"

text \<open>
  Hexadecimal text. \<open>hex_digits\<close> is what \<open>{:x}\<close> prints, \<open>pad_zero\<close> the zero padding of a
  width, and \<open>u64_from_str_radix16\<close> is \<open>u64::from_str_radix(_, 16)\<close>: an optional plus sign, then
  digits of either case, with an overflow check at every digit.
\<close>

definition hex_char :: "nat \<Rightarrow> char" where
  "hex_char d = (if d < 10 then char_of (48 + d) else char_of (87 + d))"

fun hex_digits :: "nat \<Rightarrow> string" where
  "hex_digits n = (if n < 16 then [hex_char n] else hex_digits (n div 16) @ [hex_char (n mod 16)])"

declare hex_digits.simps [simp del]

definition pad_zero :: "nat \<Rightarrow> string \<Rightarrow> string" where
  "pad_zero w s = replicate (w - length s) (CHR ''0'') @ s"

definition hex_val :: "char \<Rightarrow> nat option" where
  "hex_val c = (let n = of_char c in
     if 48 \<le> n \<and> n \<le> 57 then Some (n - 48)
     else if 97 \<le> n \<and> n \<le> 102 then Some (n - 87)
     else if 65 \<le> n \<and> n \<le> 70 then Some (n - 55)
     else None)"

definition is_ascii_hexdigit :: "char \<Rightarrow> bool" where
  "is_ascii_hexdigit c \<longleftrightarrow> hex_val c \<noteq> None"

fun radix16_digits :: "nat \<Rightarrow> string \<Rightarrow> nat option" where
  "radix16_digits acc [] = Some acc"
| "radix16_digits acc (c # cs) =
     (case hex_val c of
        None \<Rightarrow> None
      | Some d \<Rightarrow> if acc * 16 + d < 2 ^ 64 then radix16_digits (acc * 16 + d) cs else None)"

definition u64_from_str_radix16 :: "string \<Rightarrow> u64 option" where
  "u64_from_str_radix16 s =
     (if s = [] \<or> s = [CHR ''+''] \<or> s = [CHR ''-''] then None
      else map_option of_nat
        (radix16_digits 0 (if hd s = CHR ''+'' then tl s else s)))"

definition gid_display :: "gid \<Rightarrow> string" where
  "gid_display g = pad_zero 16 (hex_digits (unat (gid_get g)))"

datatype parse_gid_error = PG_InvalidLength | PG_InvalidHex | PG_Zero

definition gid_from_str :: "string \<Rightarrow> (parse_gid_error, gid) result" where
  "gid_from_str input =
     (if length input \<noteq> 16 then Inl PG_InvalidLength
      else if \<not> list_all is_ascii_hexdigit input then Inl PG_InvalidHex
      else and_then (ok_or PG_InvalidHex (u64_from_str_radix16 input))
             (\<lambda>v. ok_or PG_Zero (gid_new v)))"

section \<open>GID prefixes\<close>

record gid_prefix =
  gp_value :: u64
  gp_digits :: u8

text \<open>
  \<open>(16 - self.digits as u32) * 4\<close> in u32 arithmetic, then a right shift of the GID; the only
  constructor keeps the digits between one and sixteen, so the subtraction never wraps.
\<close>

definition gid_prefix_matches :: "gid_prefix \<Rightarrow> gid \<Rightarrow> bool" where
  "gid_prefix_matches p g \<longleftrightarrow>
     (let shift = (16 - (ucast (gp_digits p) :: u32)) * 4
      in drop_bit (unat shift) (gid_get g) = gp_value p)"

definition gid_prefix_display :: "gid_prefix \<Rightarrow> string" where
  "gid_prefix_display p = pad_zero (unat (gp_digits p)) (hex_digits (unat (gp_value p)))"

datatype parse_gid_prefix_error = PP_InvalidLength | PP_InvalidHex | PP_Zero

definition gid_prefix_from_str :: "string \<Rightarrow> (parse_gid_prefix_error, gid_prefix) result" where
  "gid_prefix_from_str input =
     (if input = [] \<or> length input > 16 then Inl PP_InvalidLength
      else if \<not> list_all is_ascii_hexdigit input then Inl PP_InvalidHex
      else and_then (ok_or PP_InvalidHex (u64_from_str_radix16 input))
             (\<lambda>v. if v = 0 then Inl PP_Zero
                  else Inr \<lparr>gp_value = v, gp_digits = of_nat (length input)\<rparr>))"

datatype gid_lookup_error = GL_NotFound | GL_Ambiguous

text \<open>The loop of \<open>resolve_gid_prefix\<close> with its accumulator \<open>matched\<close>.\<close>

fun resolve_gid_loop :: "gid_prefix \<Rightarrow> gid option \<Rightarrow> gid list \<Rightarrow> (gid_lookup_error, gid) result" where
  "resolve_gid_loop p matched [] = ok_or GL_NotFound matched"
| "resolve_gid_loop p matched (g # gs) =
     (if \<not> gid_prefix_matches p g then resolve_gid_loop p matched gs
      else case matched of
             None \<Rightarrow> resolve_gid_loop p (Some g) gs
           | Some existing \<Rightarrow>
               if existing = g then resolve_gid_loop p matched gs else Inl GL_Ambiguous)"

definition resolve_gid_prefix :: "gid_prefix \<Rightarrow> gid list \<Rightarrow> (gid_lookup_error, gid) result" where
  "resolve_gid_prefix p gids = resolve_gid_loop p None gids"

section \<open>Generations and plain identifiers\<close>

datatype generation = Generation (generation_get: u64)

definition generation_initial :: generation where
  "generation_initial = Generation 0"

definition generation_checked_next :: "generation \<Rightarrow> generation option" where
  "generation_checked_next g = map_option Generation (checked_add (generation_get g) 1)"

datatype piece_id = PieceId (piece_id_get: u64)
datatype file_id = FileId (file_id_get: u32)
datatype uri_id = UriId (uri_id_get: u32)

section \<open>Host-key identifiers\<close>

text \<open>Fixed-size byte arrays are byte lists; their length is fixed by the type in the source.\<close>

datatype host_key_challenge_id = HostKeyChallengeId (host_key_challenge_id_bytes: "u8 list")
datatype host_key_fingerprint = HostKeyFingerprint (host_key_fingerprint_bytes: "u8 list")

definition fingerprint_for_presented_key ::
  "(u8 list \<Rightarrow> u8 list) \<Rightarrow> u8 list \<Rightarrow> host_key_fingerprint" where
  "fingerprint_for_presented_key sha256 key = HostKeyFingerprint (sha256 key)"

section \<open>Orders of the identifier types\<close>

text \<open>The derived orders compare the wrapped integer.\<close>

instantiation gid :: linorder
begin

definition less_eq_gid :: "gid \<Rightarrow> gid \<Rightarrow> bool" where
  "less_eq_gid a b \<longleftrightarrow> gid_get a \<le> gid_get b"

definition less_gid :: "gid \<Rightarrow> gid \<Rightarrow> bool" where
  "less_gid a b \<longleftrightarrow> gid_get a < gid_get b"

instance
  by standard (auto simp: less_eq_gid_def less_gid_def intro: gid.expand)

end

instantiation task_id :: linorder
begin

definition less_eq_task_id :: "task_id \<Rightarrow> task_id \<Rightarrow> bool" where
  "less_eq_task_id a b \<longleftrightarrow> task_id_get a \<le> task_id_get b"

definition less_task_id :: "task_id \<Rightarrow> task_id \<Rightarrow> bool" where
  "less_task_id a b \<longleftrightarrow> task_id_get a < task_id_get b"

instance
  by standard (auto simp: less_eq_task_id_def less_task_id_def intro: task_id.expand)

end

instantiation option_patch_id :: linorder
begin

definition less_eq_option_patch_id :: "option_patch_id \<Rightarrow> option_patch_id \<Rightarrow> bool" where
  "less_eq_option_patch_id a b \<longleftrightarrow> option_patch_id_get a \<le> option_patch_id_get b"

definition less_option_patch_id :: "option_patch_id \<Rightarrow> option_patch_id \<Rightarrow> bool" where
  "less_option_patch_id a b \<longleftrightarrow> option_patch_id_get a < option_patch_id_get b"

instance
  by standard (auto simp: less_eq_option_patch_id_def less_option_patch_id_def intro: option_patch_id.expand)

end

instantiation generation :: linorder
begin

definition less_eq_generation :: "generation \<Rightarrow> generation \<Rightarrow> bool" where
  "less_eq_generation a b \<longleftrightarrow> generation_get a \<le> generation_get b"

definition less_generation :: "generation \<Rightarrow> generation \<Rightarrow> bool" where
  "less_generation a b \<longleftrightarrow> generation_get a < generation_get b"

instance
  by standard (auto simp: less_eq_generation_def less_generation_def intro: generation.expand)

end

section \<open>Fixed-width hexadecimal\<close>

text \<open>
  The reference form of the printed text: exactly \<open>w\<close> digits, most significant first.
\<close>

fun hex_fixed :: "nat \<Rightarrow> nat \<Rightarrow> string" where
  "hex_fixed 0 n = []"
| "hex_fixed (Suc w) n = hex_fixed w (n div 16) @ [hex_char (n mod 16)]"

definition ascii_lower :: "char \<Rightarrow> char" where
  "ascii_lower c = (let n = of_char c :: nat in if 65 \<le> n \<and> n \<le> 90 then char_of (n + 32) else c)"

lemma length_hex_fixed [simp]: "length (hex_fixed w n) = w"
  by (induction w arbitrary: n) simp_all

lemma hex_digits_fixed: "n < 16 ^ w \<Longrightarrow> 0 < w \<Longrightarrow> pad_zero w (hex_digits n) = hex_fixed w n"
proof (induction w arbitrary: n)
  case 0
  then show ?case by simp
next
  case (Suc w)
  show ?case
  proof (cases "n < 16")
    case True
    have "hex_fixed v 0 = replicate v (CHR ''0'')" for v
    proof (induction v)
      case (Suc v)
      have "hex_char 0 = CHR ''0''" by code_simp
      with Suc show ?case by (simp add: replicate_append_same)
    qed simp
    with True show ?thesis
      by (simp add: hex_digits.simps [of n] pad_zero_def)
  next
    case False
    then have "0 < w" using Suc.prems by (cases w) simp_all
    moreover have "n div 16 < 16 ^ w"
      using Suc.prems by (simp add: less_mult_imp_div_less mult.commute)
    ultimately have "pad_zero w (hex_digits (n div 16)) = hex_fixed w (n div 16)"
      by (rule Suc.IH [rotated])
    with False show ?thesis
      by (simp add: hex_digits.simps [of n] pad_zero_def)
  qed
qed

lemma hex_val_char [simp]: "d < 16 \<Longrightarrow> hex_val (hex_char d) = Some d"
  by (auto simp: hex_val_def hex_char_def Let_def)

lemma hex_val_bound: "hex_val c = Some d \<Longrightarrow> d < 16"
  by (auto simp: hex_val_def Let_def split: if_splits)

lemma hex_val_lower: "hex_val c = Some d \<Longrightarrow> ascii_lower c = hex_char d"
  by (auto simp: hex_val_def hex_char_def ascii_lower_def Let_def split: if_splits
      intro: of_char_eq_iff [THEN iffD1])

lemma lower_hex_char: "ascii_lower c = hex_char d \<Longrightarrow> d < 16 \<Longrightarrow> hex_val c = Some d"
proof -
  assume eq: "ascii_lower c = hex_char d" and d: "d < 16"
  define n where "n = (of_char c :: nat)"
  have bound: "n < 256" unfolding n_def by (cases c) (simp add: of_char_def)
  from eq have "(of_char (ascii_lower c) :: nat) = of_char (hex_char d)" by simp
  then have "(if 65 \<le> n \<and> n \<le> 90 then n + 32 else n) = (if d < 10 then 48 + d else 87 + d)"
    using d bound unfolding ascii_lower_def hex_char_def Let_def n_def [symmetric]
    by (simp add: n_def split: if_splits)
  with d show ?thesis
    by (auto simp: hex_val_def Let_def n_def [symmetric] split: if_splits)
qed


text \<open>The value of a digit string, without the overflow check.\<close>

fun hex_value :: "nat \<Rightarrow> string \<Rightarrow> nat" where
  "hex_value acc [] = acc"
| "hex_value acc (c # cs) = hex_value (acc * 16 + the (hex_val c)) cs"

lemma hex_value_snoc: "hex_value acc (cs @ [c]) = hex_value acc cs * 16 + the (hex_val c)"
  by (induction cs arbitrary: acc) simp_all

lemma hex_value_bound:
  "list_all is_ascii_hexdigit cs \<Longrightarrow> hex_value 0 cs < 16 ^ length cs"
proof (induction cs rule: rev_induct)
  case Nil
  then show ?case by simp
next
  case (snoc c cs)
  then obtain d where d: "hex_val c = Some d" by (auto simp: is_ascii_hexdigit_def)
  then have "d < 16" by (rule hex_val_bound)
  with snoc d show ?case by (simp add: hex_value_snoc)
qed

lemma hex_value_ge: "acc \<le> hex_value acc cs"
proof (induction cs arbitrary: acc)
  case (Cons c cs)
  have "acc \<le> acc * 16 + the (hex_val c)" by simp
  also have "\<dots> \<le> hex_value (acc * 16 + the (hex_val c)) cs" by (rule Cons.IH)
  finally show ?case by simp
qed simp

lemma radix16_digits_value:
  "list_all is_ascii_hexdigit cs \<Longrightarrow> hex_value acc cs < 2 ^ 64 \<Longrightarrow>
   radix16_digits acc cs = Some (hex_value acc cs)"
proof (induction cs arbitrary: acc)
  case Nil
  then show ?case by simp
next
  case (Cons c cs)
  then obtain d where d: "hex_val c = Some d" by (auto simp: is_ascii_hexdigit_def)
  with Cons.prems have "acc * 16 + d < 2 ^ 64"
    using hex_value_ge [of "acc * 16 + d" cs] by simp
  with d Cons show ?case by simp
qed

lemma is_ascii_hexdigit_not_sign:
  "is_ascii_hexdigit c \<Longrightarrow> c \<noteq> CHR ''+'' \<and> c \<noteq> CHR ''-''"
  by (auto simp: is_ascii_hexdigit_def hex_val_def)

lemma u64_from_str_radix16_digits:
  assumes "list_all is_ascii_hexdigit s" and "s \<noteq> []" and "length s \<le> 16"
  shows "u64_from_str_radix16 s = Some (of_nat (hex_value 0 s))"
    and "hex_value 0 s < 16 ^ length s" and "hex_value 0 s < 2 ^ 64"
proof -
  show b: "hex_value 0 s < 16 ^ length s" using assms(1) by (rule hex_value_bound)
  also have "(16 :: nat) ^ length s \<le> 16 ^ 16" using assms(3) by (intro power_increasing) simp_all
  finally show lt: "hex_value 0 s < 2 ^ 64" by simp
  have "is_ascii_hexdigit (hd s)" using assms(1,2) by (cases s) simp_all
  then have "hd s \<noteq> CHR ''+''" "hd s \<noteq> CHR ''-''" by (auto dest: is_ascii_hexdigit_not_sign)
  with assms(2) radix16_digits_value [OF assms(1) lt]
  show "u64_from_str_radix16 s = Some (of_nat (hex_value 0 s))"
    by (auto simp: u64_from_str_radix16_def)
qed

lemma hex_fixed_value:
  "list_all is_ascii_hexdigit s \<Longrightarrow> hex_fixed (length s) (hex_value 0 s) = map ascii_lower s"
proof (induction s rule: rev_induct)
  case Nil
  then show ?case by simp
next
  case (snoc c cs)
  then obtain d where d: "hex_val c = Some d" by (auto simp: is_ascii_hexdigit_def)
  then have "d < 16" by (rule hex_val_bound)
  with snoc d show ?case by (simp add: hex_value_snoc hex_val_lower)
qed

lemma hex_value_fixed:
  "map ascii_lower s = hex_fixed w n \<Longrightarrow> n < 16 ^ w \<Longrightarrow>
   list_all is_ascii_hexdigit s \<and> hex_value 0 s = n"
proof (induction w arbitrary: s n)
  case 0
  then show ?case by simp
next
  case (Suc w)
  from Suc.prems(1) obtain cs c where s: "s = cs @ [c]"
    by (cases s rule: rev_cases) auto
  with Suc.prems(1) have low: "ascii_lower c = hex_char (n mod 16)"
    and cs: "map ascii_lower cs = hex_fixed w (n div 16)" by auto
  have c: "hex_val c = Some (n mod 16)" using lower_hex_char [OF low] by simp
  moreover have "n div 16 < 16 ^ w"
    using Suc.prems(2) by (simp add: less_mult_imp_div_less mult.commute)
  ultimately show ?case
    using Suc.IH [OF cs] s c by (simp add: hex_value_snoc is_ascii_hexdigit_def)
qed

lemma hex_fixed_inject:
  "m < 16 ^ w \<Longrightarrow> n < 16 ^ w \<Longrightarrow> hex_fixed w m = hex_fixed w n \<Longrightarrow> m = n"
proof (induction w arbitrary: m n)
  case 0
  then show ?case by simp
next
  case (Suc w)
  then have "hex_char (m mod 16) = hex_char (n mod 16)" by simp
  then have "hex_val (hex_char (m mod 16)) = hex_val (hex_char (n mod 16))" by simp
  then have md: "m mod 16 = n mod 16" by simp
  have "m div 16 < 16 ^ w" "n div 16 < 16 ^ w"
    using Suc.prems by (simp_all add: less_mult_imp_div_less mult.commute)
  with Suc have "m div 16 = n div 16" by simp
  with md show ?case by (metis mod_mult_div_eq)
qed

lemma take_hex_fixed: "k \<le> w \<Longrightarrow> take k (hex_fixed w n) = hex_fixed k (n div 16 ^ (w - k))"
proof (induction w arbitrary: n)
  case 0
  then show ?case by simp
next
  case (Suc w)
  show ?case
  proof (cases "k = Suc w")
    case True
    then show ?thesis by simp
  next
    case False
    with Suc.prems have le: "k \<le> w" by simp
    have "n div 16 div 16 ^ (w - k) = n div 16 ^ Suc (w - k)" by (simp add: div_mult2_eq)
    with Suc.IH [OF le] le show ?thesis by (simp add: Suc_diff_le)
  qed
qed


section \<open>Correctness of GID text and lookup\<close>

lemma unat_less_pow16: "unat (v :: u64) < 16 ^ 16"
  using unsigned_less [of v] by simp

lemma gid_display_fixed: "gid_display g = hex_fixed 16 (unat (gid_get g))"
  unfolding gid_display_def by (rule hex_digits_fixed [OF unat_less_pow16]) simp

lemma gid_from_str_ok_iff:
  "gid_from_str s = Inr g \<longleftrightarrow> gid_get g \<noteq> 0 \<and> map ascii_lower s = gid_display g"
proof
  assume ok: "gid_from_str s = Inr g"
  then have len: "length s = 16" and hex: "list_all is_ascii_hexdigit s"
    by (auto simp: gid_from_str_def split: if_splits)
  from len hex have rad: "u64_from_str_radix16 s = Some (of_nat (hex_value 0 s))"
    and lt: "hex_value 0 s < 2 ^ 64"
    using u64_from_str_radix16_digits [OF hex] by (fastforce, fastforce)
  with ok len hex have g: "gid_get g = of_nat (hex_value 0 s)" and nz: "gid_get g \<noteq> 0"
    by (auto simp: gid_from_str_def gid_new_def nonzero_u64_new_def split: if_splits)
  have "unat (gid_get g) = hex_value 0 s"
    using g lt by (simp add: unat_of_nat)
  with nz hex len show "gid_get g \<noteq> 0 \<and> map ascii_lower s = gid_display g"
    using hex_fixed_value [OF hex] by (simp add: gid_display_fixed)
next
  assume "gid_get g \<noteq> 0 \<and> map ascii_lower s = gid_display g"
  then have nz: "gid_get g \<noteq> 0" and eq: "map ascii_lower s = hex_fixed 16 (unat (gid_get g))"
    by (simp_all add: gid_display_fixed)
  from hex_value_fixed [OF eq unat_less_pow16]
  have hex: "list_all is_ascii_hexdigit s" and v: "hex_value 0 s = unat (gid_get g)" by simp_all
  have len: "length s = 16" using arg_cong [OF eq, of length] by simp
  then have "u64_from_str_radix16 s = Some (gid_get g)"
    using u64_from_str_radix16_digits(1) [OF hex] v by fastforce
  with nz hex len show "gid_from_str s = Inr g"
    by (cases g) (simp add: gid_from_str_def gid_new_def nonzero_u64_new_def)
qed

lemma gid_prefix_from_str_ok:
  assumes "gid_prefix_from_str s = Inr p"
  shows "s \<noteq> []" "length s \<le> 16" "list_all is_ascii_hexdigit s"
    "unat (gp_value p) = hex_value 0 s" "unat (gp_digits p) = length s" "gp_value p \<noteq> 0"
proof -
  show ne: "s \<noteq> []" and len: "length s \<le> 16" and hex: "list_all is_ascii_hexdigit s"
    using assms by (auto simp: gid_prefix_from_str_def split: if_splits)
  note rad = u64_from_str_radix16_digits [OF hex ne len]
  have p: "p = \<lparr>gp_value = of_nat (hex_value 0 s), gp_digits = of_nat (length s)\<rparr>" "gp_value p \<noteq> 0"
    using assms ne len hex rad(1) by (auto simp: gid_prefix_from_str_def split: if_splits)
  then show "gp_value p \<noteq> 0" by simp
  show "unat (gp_value p) = hex_value 0 s" using p(1) rad(3) by (simp add: unat_of_nat)
  show "unat (gp_digits p) = length s" using p(1) len by (simp add: unat_of_nat)
qed

lemma prefix_shift:
  assumes "1 \<le> unat (d :: u8)" and "unat d \<le> 16"
  shows "unat ((16 - (ucast d :: u32)) * 4) = (16 - unat d) * 4"
proof -
  have "unat (ucast d :: u32) = unat d"
    by (simp add: unsigned_ucast_eq take_bit_nat_eq_self_iff) (use assms(2) in linarith)
  then have "unat (16 - (ucast d :: u32)) = 16 - unat d"
    using assms by (subst unat_sub) (auto simp: word_le_nat_alt)
  then show ?thesis by (simp add: unat_word_ariths del: left_diff_distrib_numeral)
qed

lemma hex_fixed_prefix:
  "k \<le> w \<Longrightarrow> m < 16 ^ k \<Longrightarrow> n < 16 ^ w \<Longrightarrow>
   prefix (hex_fixed k m) (hex_fixed w n) \<longleftrightarrow> n div 16 ^ (w - k) = m"
proof -
  assume k: "k \<le> w" and m: "m < 16 ^ k" and n: "n < 16 ^ w"
  have "prefix (hex_fixed k m) (hex_fixed w n) \<longleftrightarrow> hex_fixed k m = take k (hex_fixed w n)"
    using k by (metis length_hex_fixed prefix_def append_eq_conv_conj append_take_drop_id)
  also have "\<dots> \<longleftrightarrow> hex_fixed k m = hex_fixed k (n div 16 ^ (w - k))"
    using take_hex_fixed [OF k] by simp
  also have "\<dots> \<longleftrightarrow> m = n div 16 ^ (w - k)"
  proof -
    have "n < 16 ^ (w - k) * 16 ^ k"
      using n k by (simp flip: power_add)
    then have "n div 16 ^ (w - k) < 16 ^ k"
      by (simp add: less_mult_imp_div_less mult.commute)
    with m show ?thesis using hex_fixed_inject by blast
  qed
  finally show ?thesis by auto
qed

text \<open>
  A prefix that was accepted from a text matches a GID exactly when the text, letter case
  aside, is a prefix of the printed GID; the shift by four bits per missing digit is right for
  every length from one to sixteen.
\<close>

lemma gid_prefix_matches_iff:
  assumes "gid_prefix_from_str s = Inr p"
  shows "gid_prefix_matches p g \<longleftrightarrow> prefix (map ascii_lower s) (gid_display g)"
proof -
  note ok = gid_prefix_from_str_ok [OF assms]
  let ?k = "length s"
  have k: "1 \<le> ?k" using ok(1) by (cases s) simp_all
  have shift: "unat ((16 - (ucast (gp_digits p) :: u32)) * 4) = (16 - ?k) * 4"
    using prefix_shift [of "gp_digits p"] k ok(2,5) by simp
  have "gid_prefix_matches p g \<longleftrightarrow> unat (drop_bit ((16 - ?k) * 4) (gid_get g)) = unat (gp_value p)"
    by (simp add: gid_prefix_matches_def Let_def shift word_unat_eq_iff del: left_diff_distrib_numeral)
  also have "\<dots> \<longleftrightarrow> unat (gid_get g) div 16 ^ (16 - ?k) = hex_value 0 s"
  proof -
    have "unat (drop_bit ((16 - ?k) * 4) (gid_get g)) = drop_bit ((16 - ?k) * 4) (unat (gid_get g))"
      by (rule unat_drop_bit_eq)
    then show ?thesis using ok(4) by (simp add: drop_bit_eq_div power_mult mult.commute [of _ 4])
  qed
  also have "\<dots> \<longleftrightarrow> prefix (hex_fixed ?k (hex_value 0 s)) (hex_fixed 16 (unat (gid_get g)))"
    using hex_fixed_prefix [OF ok(2) hex_value_bound [OF ok(3)] unat_less_pow16] by simp
  finally show ?thesis
    by (simp add: hex_fixed_value [OF ok(3)] gid_display_fixed)
qed

lemma resolve_gid_loop_spec:
  "resolve_gid_loop p matched gs =
     (let ms = set_option matched \<union> {g \<in> set gs. gid_prefix_matches p g} in
      if ms = {} then Inl GL_NotFound
      else if \<exists>g. ms = {g} then Inr (the_elem ms)
      else Inl GL_Ambiguous)"
proof (induction p matched gs rule: resolve_gid_loop.induct)
  case (1 p matched)
  then show ?case by (cases matched) (auto simp: Let_def)
next
  case (2 p matched g gs)
  show ?case
  proof (cases "gid_prefix_matches p g")
    case False
    then have "{h \<in> set (g # gs). gid_prefix_matches p h} = {h \<in> set gs. gid_prefix_matches p h}"
      by auto
    with 2(1) False show ?thesis by simp
  next
    case True
    then have ins: "{h \<in> set (g # gs). gid_prefix_matches p h}
        = insert g {h \<in> set gs. gid_prefix_matches p h}" by auto
    show ?thesis
    proof (cases matched)
      case None
      with 2(2) True ins show ?thesis by (simp del: set_simps)
    next
      case (Some e)
      show ?thesis
      proof (cases "e = g")
        case True
        with 2(3) Some \<open>gid_prefix_matches p g\<close> ins show ?thesis by (simp del: set_simps)
      next
        case False
        with Some \<open>gid_prefix_matches p g\<close> ins show ?thesis by (auto simp: Let_def)
      qed
    qed
  qed
qed

text \<open>
  Resolution against any list of GIDs, repetitions allowed, returns the one GID that
  matches, reports that none does, or reports an ambiguity, according to the set of matching
  GIDs.
\<close>

lemma resolve_gid_prefix_spec:
  "resolve_gid_prefix p gids =
     (let ms = {g \<in> set gids. gid_prefix_matches p g} in
      if ms = {} then Inl GL_NotFound
      else if card ms = 1 then Inr (the_elem ms)
      else Inl GL_Ambiguous)"
  unfolding resolve_gid_prefix_def resolve_gid_loop_spec Let_def
  by (simp add: card_1_singleton_iff)

section \<open>Generations\<close>

lemma generation_checked_next_Some:
  "generation_checked_next g = Some h \<Longrightarrow>
   unat (generation_get h) = Suc (unat (generation_get g)) \<and> g < h"
  by (cases g; cases h)
    (auto simp: generation_checked_next_def less_generation_def word_less_nat_alt dest!: checked_add_Some)

lemma generation_checked_next_None:
  "generation_checked_next g = None \<longleftrightarrow> generation_get g = - 1"
proof -
  have "generation_checked_next g = None \<longleftrightarrow> 2 ^ 64 \<le> unat (generation_get g) + 1"
    by (simp add: generation_checked_next_def checked_add_None_iff)
  also have "\<dots> \<longleftrightarrow> unat (generation_get g) = 2 ^ 64 - 1"
    using unsigned_less [of "generation_get g", where 'a = nat] by auto
  also have "\<dots> \<longleftrightarrow> generation_get g = - 1"
    by (simp add: word_unat_eq_iff unsigned_minus_1_eq_mask mask_eq_exp_minus_1)
  finally show ?thesis .
qed

end
