(* ===== verification/Errors.thy ===== *)
theory Errors
  imports Prelude
begin

text \<open>
  Public errors of \<open>ariax-core/src/error.rs\<close>: the closed vocabulary of error kinds with its
  journal numbers, retry guidance, the bounded public error, and the reasons for rejecting an
  option patch.
\<close>

section \<open>Error kinds\<close>

datatype error_kind = ErrorKind_Config | ErrorKind_UnsupportedOption
  | ErrorKind_OptionPatchRejected | ErrorKind_InvalidGid | ErrorKind_GidAmbiguous
  | ErrorKind_GidNotFound | ErrorKind_GidCollision | ErrorKind_InvalidPath
  | ErrorKind_PathEscape | ErrorKind_Network | ErrorKind_Timeout | ErrorKind_Retryable
  | ErrorKind_InvalidRange | ErrorKind_StaleValidator | ErrorKind_ChecksumMismatch
  | ErrorKind_HostKeyApprovalRequired | ErrorKind_StaleChallenge | ErrorKind_Disk
  | ErrorKind_NoSpace | ErrorKind_Permission | ErrorKind_JournalCorrupt
  | ErrorKind_DirtyCheckpoint | ErrorKind_NeedsCredentials | ErrorKind_SlowConsumer
  | ErrorKind_ResponseTooLarge | ErrorKind_ResourceLimit | ErrorKind_BackendUnavailable
  | ErrorKind_Cancelled | ErrorKind_InternalInvariant

definition ALL_ERROR_KINDS :: "error_kind list" where
  "ALL_ERROR_KINDS =
    [ErrorKind_Config, ErrorKind_UnsupportedOption, ErrorKind_OptionPatchRejected,
     ErrorKind_InvalidGid, ErrorKind_GidAmbiguous, ErrorKind_GidNotFound,
     ErrorKind_GidCollision, ErrorKind_InvalidPath, ErrorKind_PathEscape,
     ErrorKind_Network, ErrorKind_Timeout, ErrorKind_Retryable, ErrorKind_InvalidRange,
     ErrorKind_StaleValidator, ErrorKind_ChecksumMismatch,
     ErrorKind_HostKeyApprovalRequired, ErrorKind_StaleChallenge, ErrorKind_Disk,
     ErrorKind_NoSpace, ErrorKind_Permission, ErrorKind_JournalCorrupt,
     ErrorKind_DirtyCheckpoint, ErrorKind_NeedsCredentials, ErrorKind_SlowConsumer,
     ErrorKind_ResponseTooLarge, ErrorKind_ResourceLimit, ErrorKind_BackendUnavailable,
     ErrorKind_Cancelled, ErrorKind_InternalInvariant]"

primrec error_kind_number :: "error_kind \<Rightarrow> u8" where
  "error_kind_number ErrorKind_Config = 1"
| "error_kind_number ErrorKind_UnsupportedOption = 2"
| "error_kind_number ErrorKind_OptionPatchRejected = 3"
| "error_kind_number ErrorKind_InvalidGid = 4"
| "error_kind_number ErrorKind_GidAmbiguous = 5"
| "error_kind_number ErrorKind_GidNotFound = 6"
| "error_kind_number ErrorKind_GidCollision = 7"
| "error_kind_number ErrorKind_InvalidPath = 8"
| "error_kind_number ErrorKind_PathEscape = 9"
| "error_kind_number ErrorKind_Network = 10"
| "error_kind_number ErrorKind_Timeout = 11"
| "error_kind_number ErrorKind_Retryable = 12"
| "error_kind_number ErrorKind_InvalidRange = 13"
| "error_kind_number ErrorKind_StaleValidator = 14"
| "error_kind_number ErrorKind_ChecksumMismatch = 15"
| "error_kind_number ErrorKind_HostKeyApprovalRequired = 16"
| "error_kind_number ErrorKind_StaleChallenge = 17"
| "error_kind_number ErrorKind_Disk = 18"
| "error_kind_number ErrorKind_NoSpace = 19"
| "error_kind_number ErrorKind_Permission = 20"
| "error_kind_number ErrorKind_JournalCorrupt = 21"
| "error_kind_number ErrorKind_DirtyCheckpoint = 22"
| "error_kind_number ErrorKind_NeedsCredentials = 23"
| "error_kind_number ErrorKind_SlowConsumer = 24"
| "error_kind_number ErrorKind_ResponseTooLarge = 25"
| "error_kind_number ErrorKind_ResourceLimit = 26"
| "error_kind_number ErrorKind_BackendUnavailable = 27"
| "error_kind_number ErrorKind_Cancelled = 28"
| "error_kind_number ErrorKind_InternalInvariant = 29"

primrec error_kind_code :: "error_kind \<Rightarrow> string" where
  "error_kind_code ErrorKind_Config = ''Config''"
| "error_kind_code ErrorKind_UnsupportedOption = ''UnsupportedOption''"
| "error_kind_code ErrorKind_OptionPatchRejected = ''OptionPatchRejected''"
| "error_kind_code ErrorKind_InvalidGid = ''InvalidGid''"
| "error_kind_code ErrorKind_GidAmbiguous = ''GidAmbiguous''"
| "error_kind_code ErrorKind_GidNotFound = ''GidNotFound''"
| "error_kind_code ErrorKind_GidCollision = ''GidCollision''"
| "error_kind_code ErrorKind_InvalidPath = ''InvalidPath''"
| "error_kind_code ErrorKind_PathEscape = ''PathEscape''"
| "error_kind_code ErrorKind_Network = ''Network''"
| "error_kind_code ErrorKind_Timeout = ''Timeout''"
| "error_kind_code ErrorKind_Retryable = ''Retryable''"
| "error_kind_code ErrorKind_InvalidRange = ''InvalidRange''"
| "error_kind_code ErrorKind_StaleValidator = ''StaleValidator''"
| "error_kind_code ErrorKind_ChecksumMismatch = ''ChecksumMismatch''"
| "error_kind_code ErrorKind_HostKeyApprovalRequired = ''HostKeyApprovalRequired''"
| "error_kind_code ErrorKind_StaleChallenge = ''StaleChallenge''"
| "error_kind_code ErrorKind_Disk = ''Disk''"
| "error_kind_code ErrorKind_NoSpace = ''NoSpace''"
| "error_kind_code ErrorKind_Permission = ''Permission''"
| "error_kind_code ErrorKind_JournalCorrupt = ''JournalCorrupt''"
| "error_kind_code ErrorKind_DirtyCheckpoint = ''DirtyCheckpoint''"
| "error_kind_code ErrorKind_NeedsCredentials = ''NeedsCredentials''"
| "error_kind_code ErrorKind_SlowConsumer = ''SlowConsumer''"
| "error_kind_code ErrorKind_ResponseTooLarge = ''ResponseTooLarge''"
| "error_kind_code ErrorKind_ResourceLimit = ''ResourceLimit''"
| "error_kind_code ErrorKind_BackendUnavailable = ''BackendUnavailable''"
| "error_kind_code ErrorKind_Cancelled = ''Cancelled''"
| "error_kind_code ErrorKind_InternalInvariant = ''InternalInvariant''"

definition error_kind_try_from :: "u8 \<Rightarrow> (unit, error_kind) result" where
  "error_kind_try_from value = ok_or () (List.find (\<lambda>kind. error_kind_number kind = value) ALL_ERROR_KINDS)"

section \<open>Public errors\<close>

datatype retry_class =
  RetryClass_Never | RetryClass_SameSource | RetryClass_AnotherSource
  | RetryClass_RestartGeneration | RetryClass_UserAction

definition MAX_PUBLIC_ERROR_MESSAGE_BYTES :: nat where
  "MAX_PUBLIC_ERROR_MESSAGE_BYTES = 4096"

record public_error =
  pe_kind :: error_kind
  pe_safe_message :: string
  pe_diagnostic_id :: "u64 option"
  pe_retry :: retry_class

text \<open>
  \<open>str::is_char_boundary\<close>: position zero and the end are boundaries, and an inner position is one
  unless its byte is a UTF-8 continuation byte (128 to 191).
\<close>

definition is_char_boundary :: "string \<Rightarrow> nat \<Rightarrow> bool" where
  "is_char_boundary s i \<longleftrightarrow>
     i = 0 \<or> i = length s \<or> (i < length s \<and> \<not> (128 \<le> (of_char (s ! i) :: nat) \<and> (of_char (s ! i) :: nat) < 192))"

text \<open>The loop \<open>while !safe_message.is_char_boundary(end) { end -= 1; }\<close>.\<close>

fun char_boundary_below :: "string \<Rightarrow> nat \<Rightarrow> nat" where
  "char_boundary_below s e =
     (if is_char_boundary s e then e else if e = 0 then 0 else char_boundary_below s (e - 1))"

declare char_boundary_below.simps [simp del]

definition public_error_new :: "error_kind \<Rightarrow> string \<Rightarrow> retry_class \<Rightarrow> public_error" where
  "public_error_new kind message retry =
     \<lparr>pe_kind = kind,
      pe_safe_message =
        (if length message > MAX_PUBLIC_ERROR_MESSAGE_BYTES
         then take (char_boundary_below message MAX_PUBLIC_ERROR_MESSAGE_BYTES) message
         else message),
      pe_diagnostic_id = None,
      pe_retry = retry\<rparr>"

definition with_diagnostic_id :: "u64 \<Rightarrow> public_error \<Rightarrow> public_error" where
  "with_diagnostic_id d e = e\<lparr>pe_diagnostic_id := Some d\<rparr>"

definition public_error_display :: "public_error \<Rightarrow> string" where
  "public_error_display e = error_kind_code (pe_kind e) @ '': '' @ pe_safe_message e"

section \<open>Option-patch rejection reasons\<close>

datatype option_patch_reject_reason = OPR_InvalidValue | OPR_Unsupported | OPR_NotRuntimeMutable
  | OPR_RequiresNewGeneration | OPR_RequiresExplicitBtRestart | OPR_UnsafeCompatRequired

definition ALL_OPTION_PATCH_REJECT_REASONS :: "option_patch_reject_reason list" where
  "ALL_OPTION_PATCH_REJECT_REASONS =
    [OPR_InvalidValue, OPR_Unsupported, OPR_NotRuntimeMutable, OPR_RequiresNewGeneration,
     OPR_RequiresExplicitBtRestart, OPR_UnsafeCompatRequired]"

primrec option_patch_reject_reason_code :: "option_patch_reject_reason \<Rightarrow> string" where
  "option_patch_reject_reason_code OPR_InvalidValue = ''invalid_value''"
| "option_patch_reject_reason_code OPR_Unsupported = ''unsupported''"
| "option_patch_reject_reason_code OPR_NotRuntimeMutable = ''not_runtime_mutable''"
| "option_patch_reject_reason_code OPR_RequiresNewGeneration = ''requires_new_generation''"
| "option_patch_reject_reason_code OPR_RequiresExplicitBtRestart = ''requires_explicit_bt_restart''"
| "option_patch_reject_reason_code OPR_UnsafeCompatRequired = ''unsafe_compat_required''"

section \<open>Correctness\<close>

lemma error_kind_code_inj: "error_kind_code a = error_kind_code b \<longleftrightarrow> a = b"
  by (cases a; cases b) simp_all

lemma ALL_ERROR_KINDS_complete: "k \<in> set ALL_ERROR_KINDS"
  by (cases k) (simp_all add: ALL_ERROR_KINDS_def)

lemma error_kind_number_inj: "error_kind_number a = error_kind_number b \<longleftrightarrow> a = b"
  by (cases a; cases b) simp_all

lemma error_kind_try_from_number: "error_kind_try_from (error_kind_number k) = Inr k"
  by (cases k) (simp_all add: error_kind_try_from_def ALL_ERROR_KINDS_def)

lemma error_kind_number_range: "1 \<le> unat (error_kind_number k) \<and> unat (error_kind_number k) \<le> 29"
  by (cases k) simp_all

text \<open>
  Decoding a journal byte gives an error kind exactly when the byte is that kind's number, and
  the bytes that decode are 1 to 29; no byte stands for two kinds and no kind is unreachable.
\<close>

lemma error_kind_try_from_iff:
  "(error_kind_try_from v = Inr k \<longleftrightarrow> error_kind_number k = v)
   \<and> (is_ok (error_kind_try_from v) \<longleftrightarrow> 1 \<le> unat v \<and> unat v \<le> 29)"
proof
  show one: "error_kind_try_from v = Inr k \<longleftrightarrow> error_kind_number k = v"
    using error_kind_try_from_number [of k]
    by (auto simp: error_kind_try_from_def find_Some_iff)
  show "is_ok (error_kind_try_from v) \<longleftrightarrow> 1 \<le> unat v \<and> unat v \<le> 29"
  proof
    assume "is_ok (error_kind_try_from v)"
    then obtain j where "error_kind_try_from v = Inr j" by (cases "error_kind_try_from v") simp_all
    then have "error_kind_number j = v" by (auto simp: error_kind_try_from_def find_Some_iff)
    then show "1 \<le> unat v \<and> unat v \<le> 29" using error_kind_number_range by blast
  next
    assume "1 \<le> unat v \<and> unat v \<le> 29"
    then have "unat v \<in> {1..29}" by simp
    also have "{1..29} = (unat \<circ> error_kind_number) ` set ALL_ERROR_KINDS"
      by (simp add: ALL_ERROR_KINDS_def) code_simp
    finally obtain j where "unat v = unat (error_kind_number j)" by auto
    then have "v = error_kind_number j" by (simp add: word_unat_eq_iff)
    then show "is_ok (error_kind_try_from v)" by (simp add: error_kind_try_from_number)
  qed
qed

lemma char_boundary_below_spec:
  "char_boundary_below s e \<le> e \<and> is_char_boundary s (char_boundary_below s e)
   \<and> (\<forall>j. char_boundary_below s e < j \<and> j \<le> e \<longrightarrow> \<not> is_char_boundary s j)"
proof (induction s e rule: char_boundary_below.induct)
  case (1 s e)
  show ?case
  proof (cases "is_char_boundary s e")
    case True
    then have "char_boundary_below s e = e" by (simp add: char_boundary_below.simps [of s e])
    with True show ?thesis by auto
  next
    case False
    then have "e \<noteq> 0" by (auto simp: is_char_boundary_def)
    with 1 False have ih: "char_boundary_below s (e - 1) \<le> e - 1"
      "is_char_boundary s (char_boundary_below s (e - 1))"
      "\<forall>j. char_boundary_below s (e - 1) < j \<and> j \<le> e - 1 \<longrightarrow> \<not> is_char_boundary s j" by auto
    have step: "char_boundary_below s e = char_boundary_below s (e - 1)"
      using False \<open>e \<noteq> 0\<close> by (simp add: char_boundary_below.simps [of s e])
    have "\<not> is_char_boundary s j" if "char_boundary_below s (e - 1) < j" "j \<le> e" for j
      using that ih(3) False by (cases "j = e") auto
    with ih step show ?thesis by auto
  qed
qed

text \<open>
  A public error keeps the longest prefix of the message that fits in 4096 bytes and ends at a
  character boundary; a message that fits is kept whole.
\<close>

lemma public_error_message_bound:
  "let m = pe_safe_message (public_error_new kind message retry) in
   prefix m message \<and> length m \<le> 4096 \<and> is_char_boundary message (length m)
   \<and> (\<forall>j. is_char_boundary message j \<and> j \<le> 4096 \<and> j \<le> length message \<longrightarrow> j \<le> length m)"
proof (cases "length message > 4096")
  case False
  then show ?thesis
    by (simp add: Let_def public_error_new_def MAX_PUBLIC_ERROR_MESSAGE_BYTES_def is_char_boundary_def)
next
  case True
  note b = char_boundary_below_spec [of message 4096]
  from True b have len: "length (take (char_boundary_below message 4096) message)
      = char_boundary_below message 4096" by simp
  with True b show ?thesis
    by (auto simp: Let_def public_error_new_def MAX_PUBLIC_ERROR_MESSAGE_BYTES_def take_is_prefix
        not_less [symmetric])
qed

end
