(* ===== verification/States.thy ===== *)
theory States
  imports Ids Errors
begin

text \<open>
  Task states of \<open>ariax-core/src/state.rs\<close>: the internal states, the closed wire status
  vocabulary, admission conditions, and the projection of an internal state onto a wire status.
  A monotonic instant is a number of nanoseconds; addition is checked against the range of the
  64-bit Unix representation of \<open>std::time::Instant\<close> (signed 64-bit seconds and a nanosecond part).
\<close>

section \<open>Instants\<close>

datatype monotonic_instant = MonotonicInstant (instant_nanos: nat)

definition INSTANT_MAX_NANOS :: nat where
  "INSTANT_MAX_NANOS = 2 ^ 63 * 10 ^ 9 - 1"

definition duration_from_millis :: "u64 \<Rightarrow> nat" where
  "duration_from_millis ms = unat ms * 10 ^ 6"

definition instant_checked_add :: "monotonic_instant \<Rightarrow> nat \<Rightarrow> monotonic_instant option" where
  "instant_checked_add t duration =
     (if instant_nanos t + duration \<le> INSTANT_MAX_NANOS
      then Some (MonotonicInstant (instant_nanos t + duration)) else None)"

definition instant_duration_since :: "monotonic_instant \<Rightarrow> monotonic_instant \<Rightarrow> nat" where
  "instant_duration_since t earlier = instant_nanos t - instant_nanos earlier"

section \<open>Task states and wire statuses\<close>

datatype task_state = TS_Accepted | TS_Waiting | TS_WaitingSlow | TS_Allocating | TS_Active
  | TS_RetryWait | TS_Paused | TS_PausedSlow | TS_PausedHostKey | TS_PausedRestarting
  | TS_Verifying | TS_Seeding | TS_Complete | TS_Error | TS_Removed | TS_StoppedResult

definition ALL_TASK_STATES :: "task_state list" where
  "ALL_TASK_STATES =
    [TS_Accepted, TS_Waiting, TS_WaitingSlow, TS_Allocating, TS_Active, TS_RetryWait,
     TS_Paused, TS_PausedSlow, TS_PausedHostKey, TS_PausedRestarting, TS_Verifying,
     TS_Seeding, TS_Complete, TS_Error, TS_Removed, TS_StoppedResult]"

primrec task_state_code :: "task_state \<Rightarrow> string" where
  "task_state_code TS_Accepted = ''accepted''"
| "task_state_code TS_Waiting = ''waiting''"
| "task_state_code TS_WaitingSlow = ''waiting_slow''"
| "task_state_code TS_Allocating = ''allocating''"
| "task_state_code TS_Active = ''active''"
| "task_state_code TS_RetryWait = ''retry_wait''"
| "task_state_code TS_Paused = ''paused''"
| "task_state_code TS_PausedSlow = ''paused_slow''"
| "task_state_code TS_PausedHostKey = ''paused_host_key''"
| "task_state_code TS_PausedRestarting = ''paused_restarting''"
| "task_state_code TS_Verifying = ''verifying''"
| "task_state_code TS_Seeding = ''seeding''"
| "task_state_code TS_Complete = ''complete''"
| "task_state_code TS_Error = ''error''"
| "task_state_code TS_Removed = ''removed''"
| "task_state_code TS_StoppedResult = ''stopped_result''"

definition is_terminal :: "task_state \<Rightarrow> bool" where
  "is_terminal s \<longleftrightarrow> s \<in> {TS_Complete, TS_Error, TS_Removed, TS_StoppedResult}"

definition is_terminal_pending :: "task_state \<Rightarrow> bool" where
  "is_terminal_pending s \<longleftrightarrow> s \<in> {TS_Complete, TS_Error, TS_Removed}"

definition is_retained_result :: "task_state \<Rightarrow> bool" where
  "is_retained_result s \<longleftrightarrow> s = TS_StoppedResult"

datatype aria2_status = AS_Active | AS_Waiting | AS_Paused | AS_Error | AS_Complete | AS_Removed

definition ALL_ARIA2_STATUSES :: "aria2_status list" where
  "ALL_ARIA2_STATUSES =
    [AS_Active, AS_Waiting, AS_Paused, AS_Error, AS_Complete, AS_Removed]"

primrec aria2_status_as_str :: "aria2_status \<Rightarrow> string" where
  "aria2_status_as_str AS_Active = ''active''"
| "aria2_status_as_str AS_Waiting = ''waiting''"
| "aria2_status_as_str AS_Paused = ''paused''"
| "aria2_status_as_str AS_Error = ''error''"
| "aria2_status_as_str AS_Complete = ''complete''"
| "aria2_status_as_str AS_Removed = ''removed''"

definition aria2_is_terminal :: "aria2_status \<Rightarrow> bool" where
  "aria2_is_terminal s \<longleftrightarrow> s \<in> {AS_Error, AS_Complete, AS_Removed}"

section \<open>Admission conditions\<close>

datatype credential_kind = CK_SourceUri | CK_HttpAuthentication | CK_ProxyAuthentication
  | CK_FtpAuthentication | CK_SftpAuthentication | CK_PrivateKeyPassphrase

record credential_requirement_key =
  crk_kind :: credential_kind
  crk_source :: "uri_id option"

record credential_requirement =
  cr_kind :: credential_kind
  cr_source :: "uri_id option"
  cr_safe_description :: string

record no_space_condition =
  nsc_redacted_path :: string
  nsc_retry_at :: "monotonic_instant option"

record task_conditions =
  tc_needs_credentials :: "credential_requirement option"
  tc_no_space :: "no_space_condition option"

record task_conditions_snapshot =
  tcs_needs_credentials :: bool
  tcs_no_space :: bool

datatype task_conditions_error = TCE_CredentialDescriptionTooLong | TCE_RedactedPathTooLong

definition MAX_CONDITION_DESCRIPTION_BYTES :: nat where
  "MAX_CONDITION_DESCRIPTION_BYTES = 4096"

definition MAX_REDACTED_PATH_BYTES :: nat where
  "MAX_REDACTED_PATH_BYTES = 4096"

definition task_conditions_default :: task_conditions where
  "task_conditions_default = \<lparr>tc_needs_credentials = None, tc_no_space = None\<rparr>"

definition credential_requirement_key_of :: "credential_requirement \<Rightarrow> credential_requirement_key" where
  "credential_requirement_key_of r = \<lparr>crk_kind = cr_kind r, crk_source = cr_source r\<rparr>"

definition credential_requirement_validate ::
  "credential_requirement \<Rightarrow> (task_conditions_error, unit) result" where
  "credential_requirement_validate r =
     (if length (cr_safe_description r) > MAX_CONDITION_DESCRIPTION_BYTES
      then Inl TCE_CredentialDescriptionTooLong else Inr ())"

definition no_space_condition_validate ::
  "no_space_condition \<Rightarrow> (task_conditions_error, unit) result" where
  "no_space_condition_validate c =
     (if length (nsc_redacted_path c) > MAX_REDACTED_PATH_BYTES
      then Inl TCE_RedactedPathTooLong else Inr ())"

definition blocks_admission :: "task_conditions \<Rightarrow> bool" where
  "blocks_admission c \<longleftrightarrow> tc_needs_credentials c \<noteq> None \<or> tc_no_space c \<noteq> None"

definition task_conditions_to_snapshot :: "task_conditions \<Rightarrow> task_conditions_snapshot" where
  "task_conditions_to_snapshot c =
     \<lparr>tcs_needs_credentials = (tc_needs_credentials c \<noteq> None), tcs_no_space = (tc_no_space c \<noteq> None)\<rparr>"

definition task_conditions_validate :: "task_conditions \<Rightarrow> (task_conditions_error, unit) result" where
  "task_conditions_validate c =
     and_then (case tc_needs_credentials c of
                 None \<Rightarrow> Inr () | Some r \<Rightarrow> credential_requirement_validate r)
       (\<lambda>_. case tc_no_space c of
              None \<Rightarrow> Inr () | Some n \<Rightarrow> no_space_condition_validate n)"

section \<open>Wire projection\<close>

record wire_projection =
  wp_conditions :: task_conditions_snapshot
  wp_desired_paused :: bool
  wp_retry_wait_holds_slot :: bool
  wp_stopped_status :: "aria2_status option"
  wp_terminal_persisted :: bool

datatype wire_projection_error =
  WPE_InvalidConditionState | WPE_TerminalNotPersisted | WPE_TerminalPendingRetention
  | WPE_MissingStoppedStatus | WPE_InvalidStoppedStatus

text \<open>The inner match on the state that yields the terminal status, if the state has one.\<close>

definition projected_terminal ::
  "wire_projection \<Rightarrow> task_state \<Rightarrow> (wire_projection_error, aria2_status option) result" where
  "projected_terminal wp state =
     (case state of
        TS_Complete \<Rightarrow> Inr (Some AS_Complete)
      | TS_Error \<Rightarrow> Inr (Some AS_Error)
      | TS_Removed \<Rightarrow> Inr (Some AS_Removed)
      | TS_StoppedResult \<Rightarrow>
          and_then (ok_or WPE_MissingStoppedStatus (wp_stopped_status wp))
            (\<lambda>status. if \<not> aria2_is_terminal status then Inl WPE_InvalidStoppedStatus
                      else Inr (Some status))
      | _ \<Rightarrow> Inr None)"

text \<open>
  The closing match; its terminal arm is \<open>unreachable!\<close> in the source, because a terminal state has
  returned before, and any value may stand there.
\<close>

definition projected_live :: "wire_projection \<Rightarrow> task_state \<Rightarrow> aria2_status" where
  "projected_live wp state =
     (case state of
        TS_Accepted \<Rightarrow> AS_Waiting
      | TS_Waiting \<Rightarrow> AS_Waiting
      | TS_WaitingSlow \<Rightarrow> AS_Waiting
      | TS_Allocating \<Rightarrow> AS_Waiting
      | TS_PausedRestarting \<Rightarrow> AS_Waiting
      | TS_Active \<Rightarrow> AS_Active
      | TS_Verifying \<Rightarrow> AS_Active
      | TS_Seeding \<Rightarrow> AS_Active
      | TS_RetryWait \<Rightarrow> (if wp_retry_wait_holds_slot wp then AS_Active else AS_Waiting)
      | TS_Paused \<Rightarrow> AS_Paused
      | TS_PausedSlow \<Rightarrow> AS_Paused
      | TS_PausedHostKey \<Rightarrow> AS_Paused
      | TS_Complete \<Rightarrow> undefined
      | TS_Error \<Rightarrow> undefined
      | TS_Removed \<Rightarrow> undefined
      | TS_StoppedResult \<Rightarrow> undefined)"

definition project ::
  "wire_projection \<Rightarrow> task_state \<Rightarrow> (wire_projection_error, aria2_status) result" where
  "project wp state =
     (if (tcs_no_space (wp_conditions wp) \<or> tcs_needs_credentials (wp_conditions wp))
         \<and> state \<notin> {TS_Waiting, TS_WaitingSlow, TS_RetryWait, TS_Paused, TS_PausedSlow}
      then Inl WPE_InvalidConditionState
      else and_then (projected_terminal wp state) (\<lambda>terminal.
        case terminal of
          Some status \<Rightarrow>
            if \<not> wp_terminal_persisted wp then Inl WPE_TerminalNotPersisted else Inr status
        | None \<Rightarrow>
            if tcs_no_space (wp_conditions wp) then Inr AS_Paused
            else if tcs_needs_credentials (wp_conditions wp) then
              Inr (if wp_desired_paused wp then AS_Paused else AS_Waiting)
            else Inr (projected_live wp state)))"

datatype planned_span_state =
  Span_Pending
  | Span_Leased lease_id
  | Span_RetryWait (span_until: monotonic_instant) (span_attempt: u32) (span_error: error_kind)
  | Span_Done

section \<open>Correctness of the projection\<close>

lemmas terminal_defs = is_terminal_def is_terminal_pending_def is_retained_result_def

lemma ALL_TASK_STATES_complete: "s \<in> set ALL_TASK_STATES" "distinct ALL_TASK_STATES"
  by (cases s; simp add: ALL_TASK_STATES_def) (simp add: ALL_TASK_STATES_def)

lemma task_state_code_inj: "task_state_code a = task_state_code b \<longleftrightarrow> a = b"
  by (cases a; cases b) simp_all

lemma task_conditions_validate_ok:
  "task_conditions_validate c = Inr () \<longleftrightarrow>
     (\<forall>r. tc_needs_credentials c = Some r \<longrightarrow> length (cr_safe_description r) \<le> 4096)
     \<and> (\<forall>n. tc_no_space c = Some n \<longrightarrow> length (nsc_redacted_path n) \<le> 4096)"
  by (auto simp: task_conditions_validate_def credential_requirement_validate_def
      no_space_condition_validate_def MAX_CONDITION_DESCRIPTION_BYTES_def
      MAX_REDACTED_PATH_BYTES_def and_then_eq_Inr split: option.splits)

lemma task_conditions_validate_default [simp]:
  "task_conditions_validate task_conditions_default = Inr ()"
  by (simp add: task_conditions_validate_def task_conditions_default_def)

text \<open>The states that may carry an admission condition.\<close>

definition condition_state :: "task_state \<Rightarrow> bool" where
  "condition_state s \<longleftrightarrow> s \<in> {TS_Waiting, TS_WaitingSlow, TS_RetryWait, TS_Paused, TS_PausedSlow}"

lemma project_live_ok:
  assumes "\<not> is_terminal s"
    and "tcs_no_space (wp_conditions wp) \<or> tcs_needs_credentials (wp_conditions wp) \<Longrightarrow> condition_state s"
  shows "\<exists>st. project wp s = Inr st \<and> \<not> aria2_is_terminal st"
  using assms
  by (cases s) (auto simp: project_def projected_terminal_def projected_live_def is_terminal_def
      condition_state_def aria2_is_terminal_def)

lemma project_stopped_ok:
  "project wp TS_StoppedResult = Inr st \<longleftrightarrow>
     \<not> tcs_no_space (wp_conditions wp) \<and> \<not> tcs_needs_credentials (wp_conditions wp)
     \<and> wp_stopped_status wp = Some st \<and> aria2_is_terminal st \<and> wp_terminal_persisted wp"
  by (auto simp: project_def projected_terminal_def and_then_eq_Inr split: option.splits if_splits)

text \<open>
  Whenever a state projects to a wire status, the status is terminal exactly when the state is,
  a terminal status needs an acknowledged terminal persistence, a disk-space condition always shows
  as paused, and a state that is not one of the five admissible ones carries no condition.
\<close>

lemma project_sound:
  assumes "project wp s = Inr st"
  shows "(aria2_is_terminal st \<longleftrightarrow> is_terminal s)
       \<and> (is_terminal s \<longrightarrow> wp_terminal_persisted wp)
       \<and> (tcs_no_space (wp_conditions wp) \<longrightarrow> st = AS_Paused)
       \<and> (tcs_no_space (wp_conditions wp) \<or> tcs_needs_credentials (wp_conditions wp) \<longrightarrow> condition_state s)
       \<and> (st = AS_Active \<longrightarrow> s \<in> {TS_Active, TS_Verifying, TS_Seeding, TS_RetryWait})"
  using assms
  by (cases s) (auto simp: project_def projected_terminal_def projected_live_def is_terminal_def
      condition_state_def aria2_is_terminal_def and_then_eq_Inr split: if_splits option.splits)

end
