(* ===== verification/Vocabulary.thy ===== *)
theory Vocabulary
  imports States
begin

text \<open>
  Closed vocabularies of \<open>ariax-core/src/command.rs\<close> that carry no payload: configuration policy,
  queue classes, slot ownership, drain targets, command kinds, event kinds, event tokens and effect
  kinds, with their stable codes.
\<close>

section \<open>Slow readmission policy\<close>

datatype slow_readmission_policy = SRP_Front | SRP_OriginalPosition | SRP_Back

section \<open>Queue classes\<close>

datatype queue_class = QC_Waiting | QC_Demoted | QC_Paused | QC_Active | QC_Stopped

definition ALL_QUEUE_CLASSES :: "queue_class list" where
  "ALL_QUEUE_CLASSES =
    [QC_Waiting, QC_Demoted, QC_Paused, QC_Active, QC_Stopped]"

primrec queue_class_code :: "queue_class \<Rightarrow> string" where
  "queue_class_code QC_Waiting = ''waiting''"
| "queue_class_code QC_Demoted = ''demoted''"
| "queue_class_code QC_Paused = ''paused''"
| "queue_class_code QC_Active = ''active''"
| "queue_class_code QC_Stopped = ''stopped''"

section \<open>Slot ownership\<close>

datatype slot_ownership = SO_None | SO_Reserved | SO_Active | SO_RetryRetained

definition ALL_SLOT_OWNERSHIP :: "slot_ownership list" where
  "ALL_SLOT_OWNERSHIP =
    [SO_None, SO_Reserved, SO_Active, SO_RetryRetained]"

primrec slot_ownership_code :: "slot_ownership \<Rightarrow> string" where
  "slot_ownership_code SO_None = ''none''"
| "slot_ownership_code SO_Reserved = ''reserved''"
| "slot_ownership_code SO_Active = ''active''"
| "slot_ownership_code SO_RetryRetained = ''retry_retained''"

definition owns_slot :: "slot_ownership \<Rightarrow> bool" where
  "owns_slot s \<longleftrightarrow> s \<noteq> SO_None"

section \<open>Drain targets\<close>

datatype drain_target = DT_Paused | DT_PausedSlow | DT_Waiting | DT_WaitingSlow
  | DT_PausedRestarting | DT_Error | DT_Removed

definition ALL_DRAIN_TARGETS :: "drain_target list" where
  "ALL_DRAIN_TARGETS =
    [DT_Paused, DT_PausedSlow, DT_Waiting, DT_WaitingSlow, DT_PausedRestarting, DT_Error,
     DT_Removed]"

primrec drain_target_code :: "drain_target \<Rightarrow> string" where
  "drain_target_code DT_Paused = ''paused''"
| "drain_target_code DT_PausedSlow = ''paused_slow''"
| "drain_target_code DT_Waiting = ''waiting''"
| "drain_target_code DT_WaitingSlow = ''waiting_slow''"
| "drain_target_code DT_PausedRestarting = ''paused_restarting''"
| "drain_target_code DT_Error = ''error''"
| "drain_target_code DT_Removed = ''removed''"

primrec drain_target_state :: "drain_target \<Rightarrow> task_state" where
  "drain_target_state DT_Paused = TS_Paused"
| "drain_target_state DT_PausedSlow = TS_PausedSlow"
| "drain_target_state DT_Waiting = TS_Waiting"
| "drain_target_state DT_WaitingSlow = TS_WaitingSlow"
| "drain_target_state DT_PausedRestarting = TS_PausedRestarting"
| "drain_target_state DT_Error = TS_Error"
| "drain_target_state DT_Removed = TS_Removed"

section \<open>Command kinds\<close>

datatype scheduler_command_kind = CMK_AddValidatedTask | CMK_Pause | CMK_Resume
  | CMK_ApproveHostKey | CMK_ApplyOptionPatch | CMK_BeginSourceReplacement
  | CMK_CommitSourceReplacement | CMK_Remove | CMK_RemoveStoppedResult | CMK_ChangePosition
  | CMK_OrderlyShutdown

definition ALL_SCHEDULER_COMMAND_KINDS :: "scheduler_command_kind list" where
  "ALL_SCHEDULER_COMMAND_KINDS =
    [CMK_AddValidatedTask, CMK_Pause, CMK_Resume, CMK_ApproveHostKey, CMK_ApplyOptionPatch,
     CMK_BeginSourceReplacement, CMK_CommitSourceReplacement, CMK_Remove,
     CMK_RemoveStoppedResult, CMK_ChangePosition, CMK_OrderlyShutdown]"

primrec scheduler_command_kind_code :: "scheduler_command_kind \<Rightarrow> string" where
  "scheduler_command_kind_code CMK_AddValidatedTask = ''add_validated_task''"
| "scheduler_command_kind_code CMK_Pause = ''pause''"
| "scheduler_command_kind_code CMK_Resume = ''resume''"
| "scheduler_command_kind_code CMK_ApproveHostKey = ''approve_host_key''"
| "scheduler_command_kind_code CMK_ApplyOptionPatch = ''apply_option_patch''"
| "scheduler_command_kind_code CMK_BeginSourceReplacement = ''begin_source_replacement''"
| "scheduler_command_kind_code CMK_CommitSourceReplacement = ''commit_source_replacement''"
| "scheduler_command_kind_code CMK_Remove = ''remove''"
| "scheduler_command_kind_code CMK_RemoveStoppedResult = ''remove_stopped_result''"
| "scheduler_command_kind_code CMK_ChangePosition = ''change_position''"
| "scheduler_command_kind_code CMK_OrderlyShutdown = ''orderly_shutdown''"

section \<open>Command handling\<close>

datatype scheduler_command_handling = CMH_StateMatrix | CMH_QueueOperation | CMH_BatchOperation

definition ALL_SCHEDULER_COMMAND_HANDLINGS :: "scheduler_command_handling list" where
  "ALL_SCHEDULER_COMMAND_HANDLINGS =
    [CMH_StateMatrix, CMH_QueueOperation, CMH_BatchOperation]"

primrec scheduler_command_handling_code :: "scheduler_command_handling \<Rightarrow> string" where
  "scheduler_command_handling_code CMH_StateMatrix = ''state_matrix''"
| "scheduler_command_handling_code CMH_QueueOperation = ''queue_operation''"
| "scheduler_command_handling_code CMH_BatchOperation = ''batch_operation''"

definition command_handling :: "scheduler_command_kind \<Rightarrow> scheduler_command_handling" where
  "command_handling k =
     (if k = CMK_ChangePosition then CMH_QueueOperation
      else if k = CMK_OrderlyShutdown then CMH_BatchOperation
      else CMH_StateMatrix)"

section \<open>Probe origins\<close>

datatype no_space_probe_origin = NPO_ExplicitResume | NPO_AutomaticRetry

definition ALL_NO_SPACE_PROBE_ORIGINS :: "no_space_probe_origin list" where
  "ALL_NO_SPACE_PROBE_ORIGINS =
    [NPO_ExplicitResume, NPO_AutomaticRetry]"

primrec no_space_probe_origin_code :: "no_space_probe_origin \<Rightarrow> string" where
  "no_space_probe_origin_code NPO_ExplicitResume = ''explicit_resume''"
| "no_space_probe_origin_code NPO_AutomaticRetry = ''automatic_retry''"

section \<open>Event tokens\<close>

datatype task_event_token =
  Token_RetryTimer retry_timer_id
  | Token_SlowReadmission slow_readmission_id
  | Token_NoSpaceProbe no_space_probe_id
  | Token_OptionPatch option_patch_id
  | Token_HostKeyResolution host_key_resolution_id
  | Token_StoppedResultDeletion stopped_result_deletion_id

section \<open>Event kinds\<close>

datatype task_event_kind = EK_GenerationPersisted | EK_OptionPatchPersisted
  | EK_OptionPatchPersistenceFailed | EK_OptionPatchApplied | EK_OptionPatchApplicationFailed
  | EK_AllocationSucceeded | EK_AllocationRetryable | EK_ActiveHostKeyChallenge
  | EK_AllocationHostKeyChallenge | EK_AllocationFailed | EK_RetryReady | EK_ActiveRetryIdle
  | EK_ActiveRepresentationRestart | EK_DataComplete | EK_BitTorrentPayloadComplete | EK_NoSpace
  | EK_TerminalFailure | EK_SlowDemoted | EK_SlowPaused | EK_SlowReadmit
  | EK_VerificationSucceeded | EK_VerificationRecoverable | EK_VerificationFailed
  | EK_SeedingComplete | EK_SeedingFailed | EK_CancellationDrained | EK_NoSpaceProbeCompleted
  | EK_TerminalPersisted | EK_HostKeyResolutionPersisted | EK_HostKeyResolutionFailed
  | EK_StoppedResultDeleted | EK_StoppedResultDeletionFailed

definition ALL_TASK_EVENT_KINDS :: "task_event_kind list" where
  "ALL_TASK_EVENT_KINDS =
    [EK_GenerationPersisted, EK_OptionPatchPersisted, EK_OptionPatchPersistenceFailed,
     EK_OptionPatchApplied, EK_OptionPatchApplicationFailed, EK_AllocationSucceeded,
     EK_AllocationRetryable, EK_ActiveHostKeyChallenge, EK_AllocationHostKeyChallenge,
     EK_AllocationFailed, EK_RetryReady, EK_ActiveRetryIdle,
     EK_ActiveRepresentationRestart, EK_DataComplete, EK_BitTorrentPayloadComplete,
     EK_NoSpace, EK_TerminalFailure, EK_SlowDemoted, EK_SlowPaused, EK_SlowReadmit,
     EK_VerificationSucceeded, EK_VerificationRecoverable, EK_VerificationFailed,
     EK_SeedingComplete, EK_SeedingFailed, EK_CancellationDrained,
     EK_NoSpaceProbeCompleted, EK_TerminalPersisted, EK_HostKeyResolutionPersisted,
     EK_HostKeyResolutionFailed, EK_StoppedResultDeleted, EK_StoppedResultDeletionFailed]"

primrec task_event_kind_code :: "task_event_kind \<Rightarrow> string" where
  "task_event_kind_code EK_GenerationPersisted = ''generation_persisted''"
| "task_event_kind_code EK_OptionPatchPersisted = ''option_patch_persisted''"
| "task_event_kind_code EK_OptionPatchPersistenceFailed = ''option_patch_persistence_failed''"
| "task_event_kind_code EK_OptionPatchApplied = ''option_patch_applied''"
| "task_event_kind_code EK_OptionPatchApplicationFailed = ''option_patch_application_failed''"
| "task_event_kind_code EK_AllocationSucceeded = ''allocation_succeeded''"
| "task_event_kind_code EK_AllocationRetryable = ''allocation_retryable''"
| "task_event_kind_code EK_ActiveHostKeyChallenge = ''active_host_key_challenge''"
| "task_event_kind_code EK_AllocationHostKeyChallenge = ''allocation_host_key_challenge''"
| "task_event_kind_code EK_AllocationFailed = ''allocation_failed''"
| "task_event_kind_code EK_RetryReady = ''retry_ready''"
| "task_event_kind_code EK_ActiveRetryIdle = ''active_retry_idle''"
| "task_event_kind_code EK_ActiveRepresentationRestart = ''active_representation_restart''"
| "task_event_kind_code EK_DataComplete = ''data_complete''"
| "task_event_kind_code EK_BitTorrentPayloadComplete = ''bt_payload_complete''"
| "task_event_kind_code EK_NoSpace = ''no_space''"
| "task_event_kind_code EK_TerminalFailure = ''terminal_failure''"
| "task_event_kind_code EK_SlowDemoted = ''slow_demoted''"
| "task_event_kind_code EK_SlowPaused = ''slow_paused''"
| "task_event_kind_code EK_SlowReadmit = ''slow_readmit''"
| "task_event_kind_code EK_VerificationSucceeded = ''verification_succeeded''"
| "task_event_kind_code EK_VerificationRecoverable = ''verification_recoverable''"
| "task_event_kind_code EK_VerificationFailed = ''verification_failed''"
| "task_event_kind_code EK_SeedingComplete = ''seeding_complete''"
| "task_event_kind_code EK_SeedingFailed = ''seeding_failed''"
| "task_event_kind_code EK_CancellationDrained = ''cancellation_drained''"
| "task_event_kind_code EK_NoSpaceProbeCompleted = ''no_space_probe_completed''"
| "task_event_kind_code EK_TerminalPersisted = ''terminal_persisted''"
| "task_event_kind_code EK_HostKeyResolutionPersisted = ''host_key_resolution_persisted''"
| "task_event_kind_code EK_HostKeyResolutionFailed = ''host_key_resolution_failed''"
| "task_event_kind_code EK_StoppedResultDeleted = ''stopped_result_deleted''"
| "task_event_kind_code EK_StoppedResultDeletionFailed = ''stopped_result_deletion_failed''"

section \<open>Effect kinds\<close>

datatype transition_effect_kind = TEK_PersistTask | TEK_PersistQueueTransition
  | TEK_StageOptionPatch | TEK_ApplyOptionPatch | TEK_PersistGenerationStarted
  | TEK_StartAllocation | TEK_CancelGeneration | TEK_ReleaseSlot | TEK_ScheduleRetry
  | TEK_CancelRetry | TEK_ScheduleSlowReadmission | TEK_CancelSlowReadmission | TEK_ProbeNoSpace
  | TEK_PersistConditions | TEK_PersistHostKeyChallenge | TEK_PersistHostKeyPinAndClearChallenge
  | TEK_PersistHostKeyChallengeRejected | TEK_PersistTerminal | TEK_DeleteStoppedTaskMetadata
  | TEK_PublishSnapshot

definition ALL_TRANSITION_EFFECT_KINDS :: "transition_effect_kind list" where
  "ALL_TRANSITION_EFFECT_KINDS =
    [TEK_PersistTask, TEK_PersistQueueTransition, TEK_StageOptionPatch,
     TEK_ApplyOptionPatch, TEK_PersistGenerationStarted, TEK_StartAllocation,
     TEK_CancelGeneration, TEK_ReleaseSlot, TEK_ScheduleRetry, TEK_CancelRetry,
     TEK_ScheduleSlowReadmission, TEK_CancelSlowReadmission, TEK_ProbeNoSpace,
     TEK_PersistConditions, TEK_PersistHostKeyChallenge,
     TEK_PersistHostKeyPinAndClearChallenge, TEK_PersistHostKeyChallengeRejected,
     TEK_PersistTerminal, TEK_DeleteStoppedTaskMetadata, TEK_PublishSnapshot]"

primrec transition_effect_kind_code :: "transition_effect_kind \<Rightarrow> string" where
  "transition_effect_kind_code TEK_PersistTask = ''persist_task''"
| "transition_effect_kind_code TEK_PersistQueueTransition = ''persist_queue_transition''"
| "transition_effect_kind_code TEK_StageOptionPatch = ''stage_option_patch''"
| "transition_effect_kind_code TEK_ApplyOptionPatch = ''apply_option_patch''"
| "transition_effect_kind_code TEK_PersistGenerationStarted = ''persist_generation_started''"
| "transition_effect_kind_code TEK_StartAllocation = ''start_allocation''"
| "transition_effect_kind_code TEK_CancelGeneration = ''cancel_generation''"
| "transition_effect_kind_code TEK_ReleaseSlot = ''release_slot''"
| "transition_effect_kind_code TEK_ScheduleRetry = ''schedule_retry''"
| "transition_effect_kind_code TEK_CancelRetry = ''cancel_retry''"
| "transition_effect_kind_code TEK_ScheduleSlowReadmission = ''schedule_slow_readmission''"
| "transition_effect_kind_code TEK_CancelSlowReadmission = ''cancel_slow_readmission''"
| "transition_effect_kind_code TEK_ProbeNoSpace = ''probe_no_space''"
| "transition_effect_kind_code TEK_PersistConditions = ''persist_conditions''"
| "transition_effect_kind_code TEK_PersistHostKeyChallenge = ''persist_host_key_challenge''"
| "transition_effect_kind_code TEK_PersistHostKeyPinAndClearChallenge = ''persist_host_key_pin_and_clear_challenge''"
| "transition_effect_kind_code TEK_PersistHostKeyChallengeRejected = ''persist_host_key_challenge_rejected''"
| "transition_effect_kind_code TEK_PersistTerminal = ''persist_terminal''"
| "transition_effect_kind_code TEK_DeleteStoppedTaskMetadata = ''delete_stopped_task_metadata''"
| "transition_effect_kind_code TEK_PublishSnapshot = ''publish_snapshot''"

section \<open>Codes are unambiguous\<close>

lemma queue_class_code_inj: "queue_class_code a = queue_class_code b \<longleftrightarrow> a = b"
  by (cases a; cases b) simp_all

lemma slot_ownership_code_inj: "slot_ownership_code a = slot_ownership_code b \<longleftrightarrow> a = b"
  by (cases a; cases b) simp_all

lemma drain_target_code_is_state_code: "drain_target_code d = task_state_code (drain_target_state d)"
  by (cases d) simp_all

lemma drain_target_state_inj: "drain_target_state a = drain_target_state b \<longleftrightarrow> a = b"
  by (cases a; cases b) simp_all

lemma command_kind_code_inj: "scheduler_command_kind_code a = scheduler_command_kind_code b \<longleftrightarrow> a = b"
  by (cases a; cases b) simp_all

lemma owns_slot_simps [simp]:
  "\<not> owns_slot SO_None" "owns_slot SO_Reserved" "owns_slot SO_Active" "owns_slot SO_RetryRetained"
  by (simp_all add: owns_slot_def)

end
