(* ===== verification/Actions.thy ===== *)
theory Actions
  imports Vocabulary
begin

text \<open>
  The vocabulary of \<open>ariax-core/src/transition.rs\<close>: reasons, semantic actions and their sources,
  the selection of an action from validated context, and the disposition of asynchronous events.
\<close>

section \<open>Reasons\<close>

datatype (plugins only: code) state_reason = SR_ValidationSucceeded | SR_ValidationFailed
  | SR_UserPause | SR_UserResume | SR_UserRemove | SR_SchedulerAdmission | SR_AdmissionBlocked
  | SR_PlanningFailed | SR_OptionPatch | SR_OptionPatchApplicationFailed
  | SR_CredentialsSatisfied | SR_CredentialUpdateFailed | SR_NoSpaceProbeRequested
  | SR_NoSpaceProbeSucceeded | SR_NoSpaceProbeFailed | SR_GenerationPersistenceSucceeded
  | SR_AllocationSucceeded | SR_AllocationRetryableFailure | SR_HostKeyChallenge
  | SR_HostKeyApprovalRequired | SR_AllocationTerminalFailure | SR_LeaseRetry
  | SR_RepresentationRestart | SR_PayloadReceived | SR_BitTorrentSeeding | SR_SlowSlotDemotion
  | SR_SlowSlotPause | SR_NoSpace | SR_TerminalWorkFailure | SR_RetryReadmission
  | SR_RetryExhausted | SR_SlowReadmission | SR_HostKeyApproved | SR_HostKeyResolutionFailed
  | SR_OptionPatchPersistenceSucceeded | SR_OptionPatchPersistenceFailed
  | SR_CancellationDrained | SR_RestartQuiesced | SR_SourceReplacement
  | SR_RestartApplicationSucceeded | SR_RestartApplicationFailed | SR_VerificationSucceeded
  | SR_VerificationRecoverableFailure | SR_VerificationTerminalFailure | SR_SeedingStopped
  | SR_BitTorrentFailure | SR_TerminalPersistenceSucceeded | SR_StoppedResultRemovalRequested
  | SR_StoppedResultRemovalFailed | SR_StoppedResultRemoved | SR_OrderlyShutdown
  | SR_DuplicateEventIgnored | SR_StaleEventIgnored | SR_Idempotent | SR_Conflict

definition ALL_STATE_REASONS :: "state_reason list" where
  "ALL_STATE_REASONS =
    [SR_ValidationSucceeded, SR_ValidationFailed, SR_UserPause, SR_UserResume,
     SR_UserRemove, SR_SchedulerAdmission, SR_AdmissionBlocked, SR_PlanningFailed,
     SR_OptionPatch, SR_OptionPatchApplicationFailed, SR_CredentialsSatisfied,
     SR_CredentialUpdateFailed, SR_NoSpaceProbeRequested, SR_NoSpaceProbeSucceeded,
     SR_NoSpaceProbeFailed, SR_GenerationPersistenceSucceeded, SR_AllocationSucceeded,
     SR_AllocationRetryableFailure, SR_HostKeyChallenge, SR_HostKeyApprovalRequired,
     SR_AllocationTerminalFailure, SR_LeaseRetry, SR_RepresentationRestart,
     SR_PayloadReceived, SR_BitTorrentSeeding, SR_SlowSlotDemotion, SR_SlowSlotPause,
     SR_NoSpace, SR_TerminalWorkFailure, SR_RetryReadmission, SR_RetryExhausted,
     SR_SlowReadmission, SR_HostKeyApproved, SR_HostKeyResolutionFailed,
     SR_OptionPatchPersistenceSucceeded, SR_OptionPatchPersistenceFailed,
     SR_CancellationDrained, SR_RestartQuiesced, SR_SourceReplacement,
     SR_RestartApplicationSucceeded, SR_RestartApplicationFailed, SR_VerificationSucceeded,
     SR_VerificationRecoverableFailure, SR_VerificationTerminalFailure, SR_SeedingStopped,
     SR_BitTorrentFailure, SR_TerminalPersistenceSucceeded,
     SR_StoppedResultRemovalRequested, SR_StoppedResultRemovalFailed,
     SR_StoppedResultRemoved, SR_OrderlyShutdown, SR_DuplicateEventIgnored,
     SR_StaleEventIgnored, SR_Idempotent, SR_Conflict]"

primrec state_reason_code :: "state_reason \<Rightarrow> string" where
  "state_reason_code SR_ValidationSucceeded = ''validation_succeeded''"
| "state_reason_code SR_ValidationFailed = ''validation_failed''"
| "state_reason_code SR_UserPause = ''user_pause''"
| "state_reason_code SR_UserResume = ''user_resume''"
| "state_reason_code SR_UserRemove = ''user_remove''"
| "state_reason_code SR_SchedulerAdmission = ''scheduler_admission''"
| "state_reason_code SR_AdmissionBlocked = ''admission_blocked''"
| "state_reason_code SR_PlanningFailed = ''planning_failed''"
| "state_reason_code SR_OptionPatch = ''option_patch''"
| "state_reason_code SR_OptionPatchApplicationFailed = ''option_patch_application_failed''"
| "state_reason_code SR_CredentialsSatisfied = ''credentials_satisfied''"
| "state_reason_code SR_CredentialUpdateFailed = ''credential_update_failed''"
| "state_reason_code SR_NoSpaceProbeRequested = ''no_space_probe_requested''"
| "state_reason_code SR_NoSpaceProbeSucceeded = ''no_space_probe_succeeded''"
| "state_reason_code SR_NoSpaceProbeFailed = ''no_space_probe_failed''"
| "state_reason_code SR_GenerationPersistenceSucceeded = ''generation_persistence_succeeded''"
| "state_reason_code SR_AllocationSucceeded = ''allocation_succeeded''"
| "state_reason_code SR_AllocationRetryableFailure = ''allocation_retryable_failure''"
| "state_reason_code SR_HostKeyChallenge = ''host_key_challenge''"
| "state_reason_code SR_HostKeyApprovalRequired = ''host_key_approval_required''"
| "state_reason_code SR_AllocationTerminalFailure = ''allocation_terminal_failure''"
| "state_reason_code SR_LeaseRetry = ''lease_retry''"
| "state_reason_code SR_RepresentationRestart = ''representation_restart''"
| "state_reason_code SR_PayloadReceived = ''payload_received''"
| "state_reason_code SR_BitTorrentSeeding = ''bit_torrent_seeding''"
| "state_reason_code SR_SlowSlotDemotion = ''slow_slot_demotion''"
| "state_reason_code SR_SlowSlotPause = ''slow_slot_pause''"
| "state_reason_code SR_NoSpace = ''no_space''"
| "state_reason_code SR_TerminalWorkFailure = ''terminal_work_failure''"
| "state_reason_code SR_RetryReadmission = ''retry_readmission''"
| "state_reason_code SR_RetryExhausted = ''retry_exhausted''"
| "state_reason_code SR_SlowReadmission = ''slow_readmission''"
| "state_reason_code SR_HostKeyApproved = ''host_key_approved''"
| "state_reason_code SR_HostKeyResolutionFailed = ''host_key_resolution_failed''"
| "state_reason_code SR_OptionPatchPersistenceSucceeded = ''option_patch_persistence_succeeded''"
| "state_reason_code SR_OptionPatchPersistenceFailed = ''option_patch_persistence_failed''"
| "state_reason_code SR_CancellationDrained = ''cancellation_drained''"
| "state_reason_code SR_RestartQuiesced = ''restart_quiesced''"
| "state_reason_code SR_SourceReplacement = ''source_replacement''"
| "state_reason_code SR_RestartApplicationSucceeded = ''restart_application_succeeded''"
| "state_reason_code SR_RestartApplicationFailed = ''restart_application_failed''"
| "state_reason_code SR_VerificationSucceeded = ''verification_succeeded''"
| "state_reason_code SR_VerificationRecoverableFailure = ''verification_recoverable_failure''"
| "state_reason_code SR_VerificationTerminalFailure = ''verification_terminal_failure''"
| "state_reason_code SR_SeedingStopped = ''seeding_stopped''"
| "state_reason_code SR_BitTorrentFailure = ''bit_torrent_failure''"
| "state_reason_code SR_TerminalPersistenceSucceeded = ''terminal_persistence_succeeded''"
| "state_reason_code SR_StoppedResultRemovalRequested = ''stopped_result_removal_requested''"
| "state_reason_code SR_StoppedResultRemovalFailed = ''stopped_result_removal_failed''"
| "state_reason_code SR_StoppedResultRemoved = ''stopped_result_removed''"
| "state_reason_code SR_OrderlyShutdown = ''orderly_shutdown''"
| "state_reason_code SR_DuplicateEventIgnored = ''duplicate_event_ignored''"
| "state_reason_code SR_StaleEventIgnored = ''stale_event_ignored''"
| "state_reason_code SR_Idempotent = ''idempotent''"
| "state_reason_code SR_Conflict = ''conflict''"

section \<open>Transitions and deletions\<close>

record state_transition =
  st_task :: task_id
  st_gid :: gid
  st_generation :: generation
  st_from :: task_state
  st_to :: task_state
  st_reason :: state_reason
  st_at :: monotonic_instant

record task_deletion =
  td_task :: task_id
  td_gid :: gid
  td_generation :: generation
  td_from :: task_state
  td_reason :: state_reason
  td_at :: monotonic_instant

section \<open>Actions\<close>

datatype (plugins only: code) scheduler_action = SA_ValidationSucceeded
  | SA_ValidationSucceededPaused | SA_ValidationFailed | SA_Pause | SA_PauseDeferred | SA_Resume
  | SA_ResumeDeferred | SA_Remove | SA_RemoveDeferred | SA_SchedulerAdmission
  | SA_AdmissionBlocked | SA_PlanningFailed | SA_InPlaceOptionPatchAccepted
  | SA_InPlaceOptionPatchApplied | SA_InPlaceOptionPatchApplicationFailed
  | SA_CredentialsSatisfied | SA_CredentialSatisfactionFailed | SA_ExplicitNoSpaceProbeRequested
  | SA_WaitingNoSpaceProbeSucceeded | SA_WaitingNoSpaceProbeFailed
  | SA_PausedNoSpaceResumeProbeSucceeded | SA_PausedNoSpaceResumeProbeFailed
  | SA_PausedNoSpacePausePreservingProbeSucceeded | SA_PausedNoSpacePausePreservingProbeFailed
  | SA_GenerationPersistenceSucceeded | SA_AllocationSucceeded | SA_AllocationRetryableFailure
  | SA_ActiveHostKeyChallengeRequired | SA_HostKeyChallengeRequired
  | SA_AllocationTerminalFailure | SA_ActiveRestartOptionPatchAccepted
  | SA_SourceReplacementRequested | SA_SourceReplacementCommitted
  | SA_ActiveRestartOptionPatchPersisted | SA_ActiveRestartOptionPatchPersistenceFailed
  | SA_LeaseRetryableWithRunnableWork | SA_LeaseRetryableWithoutRunnableWork
  | SA_RepresentationRestart | SA_AllRequiredDataReceived | SA_BitTorrentPayloadComplete
  | SA_SlowSlotDemote | SA_SlowSlotPause | SA_MidTransferNoSpace | SA_TerminalWorkFailure
  | SA_RetryReadmissionSucceeded | SA_RetryReadmissionBlocked | SA_RetryExhausted
  | SA_SlowReadmissionSucceeded | SA_SlowReadmissionBlocked | SA_ApproveHostKey
  | SA_ApplyMatchingHostKeyOption | SA_HostKeyResolutionSucceeded
  | SA_HostKeyResolutionSucceededPreservingPause | SA_HostKeyResolutionFailed
  | SA_CancellationDrainSucceeded | SA_RestartQuiesced | SA_RestartApplicationScheduled
  | SA_RestartApplicationSucceeded | SA_RestartApplicationFailed | SA_DeferredPauseCompleted
  | SA_DeferredResumeCompleted | SA_DeferredRemoveCompleted | SA_VerificationSucceeded
  | SA_VerificationRecoverableFailure | SA_VerificationTerminalFailure | SA_SeedingStopped
  | SA_BitTorrentFailure | SA_TerminalPersistenceSucceeded | SA_RemoveStoppedResult
  | SA_StoppedResultDeletionSucceeded | SA_StoppedResultDeletionFailed | SA_OrderlyShutdown
  | SA_DuplicateEventIgnored | SA_StaleEventIgnored

definition ALL_SCHEDULER_ACTIONS :: "scheduler_action list" where
  "ALL_SCHEDULER_ACTIONS =
    [SA_ValidationSucceeded, SA_ValidationSucceededPaused, SA_ValidationFailed, SA_Pause,
     SA_PauseDeferred, SA_Resume, SA_ResumeDeferred, SA_Remove, SA_RemoveDeferred,
     SA_SchedulerAdmission, SA_AdmissionBlocked, SA_PlanningFailed,
     SA_InPlaceOptionPatchAccepted, SA_InPlaceOptionPatchApplied,
     SA_InPlaceOptionPatchApplicationFailed, SA_CredentialsSatisfied,
     SA_CredentialSatisfactionFailed, SA_ExplicitNoSpaceProbeRequested,
     SA_WaitingNoSpaceProbeSucceeded, SA_WaitingNoSpaceProbeFailed,
     SA_PausedNoSpaceResumeProbeSucceeded, SA_PausedNoSpaceResumeProbeFailed,
     SA_PausedNoSpacePausePreservingProbeSucceeded,
     SA_PausedNoSpacePausePreservingProbeFailed, SA_GenerationPersistenceSucceeded,
     SA_AllocationSucceeded, SA_AllocationRetryableFailure,
     SA_ActiveHostKeyChallengeRequired, SA_HostKeyChallengeRequired,
     SA_AllocationTerminalFailure, SA_ActiveRestartOptionPatchAccepted,
     SA_SourceReplacementRequested, SA_SourceReplacementCommitted,
     SA_ActiveRestartOptionPatchPersisted, SA_ActiveRestartOptionPatchPersistenceFailed,
     SA_LeaseRetryableWithRunnableWork, SA_LeaseRetryableWithoutRunnableWork,
     SA_RepresentationRestart, SA_AllRequiredDataReceived, SA_BitTorrentPayloadComplete,
     SA_SlowSlotDemote, SA_SlowSlotPause, SA_MidTransferNoSpace, SA_TerminalWorkFailure,
     SA_RetryReadmissionSucceeded, SA_RetryReadmissionBlocked, SA_RetryExhausted,
     SA_SlowReadmissionSucceeded, SA_SlowReadmissionBlocked, SA_ApproveHostKey,
     SA_ApplyMatchingHostKeyOption, SA_HostKeyResolutionSucceeded,
     SA_HostKeyResolutionSucceededPreservingPause, SA_HostKeyResolutionFailed,
     SA_CancellationDrainSucceeded, SA_RestartQuiesced, SA_RestartApplicationScheduled,
     SA_RestartApplicationSucceeded, SA_RestartApplicationFailed,
     SA_DeferredPauseCompleted, SA_DeferredResumeCompleted, SA_DeferredRemoveCompleted,
     SA_VerificationSucceeded, SA_VerificationRecoverableFailure,
     SA_VerificationTerminalFailure, SA_SeedingStopped, SA_BitTorrentFailure,
     SA_TerminalPersistenceSucceeded, SA_RemoveStoppedResult,
     SA_StoppedResultDeletionSucceeded, SA_StoppedResultDeletionFailed, SA_OrderlyShutdown,
     SA_DuplicateEventIgnored, SA_StaleEventIgnored]"

primrec scheduler_action_code :: "scheduler_action \<Rightarrow> string" where
  "scheduler_action_code SA_ValidationSucceeded = ''validation_succeeded''"
| "scheduler_action_code SA_ValidationSucceededPaused = ''validation_succeeded_paused''"
| "scheduler_action_code SA_ValidationFailed = ''validation_failed''"
| "scheduler_action_code SA_Pause = ''pause''"
| "scheduler_action_code SA_PauseDeferred = ''pause_deferred''"
| "scheduler_action_code SA_Resume = ''resume''"
| "scheduler_action_code SA_ResumeDeferred = ''resume_deferred''"
| "scheduler_action_code SA_Remove = ''remove''"
| "scheduler_action_code SA_RemoveDeferred = ''remove_deferred''"
| "scheduler_action_code SA_SchedulerAdmission = ''scheduler_admission''"
| "scheduler_action_code SA_AdmissionBlocked = ''admission_blocked''"
| "scheduler_action_code SA_PlanningFailed = ''planning_failed''"
| "scheduler_action_code SA_InPlaceOptionPatchAccepted = ''in_place_option_patch_accepted''"
| "scheduler_action_code SA_InPlaceOptionPatchApplied = ''in_place_option_patch_applied''"
| "scheduler_action_code SA_InPlaceOptionPatchApplicationFailed = ''in_place_option_patch_application_failed''"
| "scheduler_action_code SA_CredentialsSatisfied = ''credentials_satisfied''"
| "scheduler_action_code SA_CredentialSatisfactionFailed = ''credential_satisfaction_failed''"
| "scheduler_action_code SA_ExplicitNoSpaceProbeRequested = ''explicit_no_space_probe_requested''"
| "scheduler_action_code SA_WaitingNoSpaceProbeSucceeded = ''waiting_no_space_probe_succeeded''"
| "scheduler_action_code SA_WaitingNoSpaceProbeFailed = ''waiting_no_space_probe_failed''"
| "scheduler_action_code SA_PausedNoSpaceResumeProbeSucceeded = ''paused_no_space_resume_probe_succeeded''"
| "scheduler_action_code SA_PausedNoSpaceResumeProbeFailed = ''paused_no_space_resume_probe_failed''"
| "scheduler_action_code SA_PausedNoSpacePausePreservingProbeSucceeded = ''paused_no_space_pause_preserving_probe_succeeded''"
| "scheduler_action_code SA_PausedNoSpacePausePreservingProbeFailed = ''paused_no_space_pause_preserving_probe_failed''"
| "scheduler_action_code SA_GenerationPersistenceSucceeded = ''generation_persistence_succeeded''"
| "scheduler_action_code SA_AllocationSucceeded = ''allocation_succeeded''"
| "scheduler_action_code SA_AllocationRetryableFailure = ''allocation_retryable_failure''"
| "scheduler_action_code SA_ActiveHostKeyChallengeRequired = ''active_host_key_challenge_required''"
| "scheduler_action_code SA_HostKeyChallengeRequired = ''host_key_challenge_required''"
| "scheduler_action_code SA_AllocationTerminalFailure = ''allocation_terminal_failure''"
| "scheduler_action_code SA_ActiveRestartOptionPatchAccepted = ''active_restart_option_patch_accepted''"
| "scheduler_action_code SA_SourceReplacementRequested = ''source_replacement_requested''"
| "scheduler_action_code SA_SourceReplacementCommitted = ''source_replacement_committed''"
| "scheduler_action_code SA_ActiveRestartOptionPatchPersisted = ''active_restart_option_patch_persisted''"
| "scheduler_action_code SA_ActiveRestartOptionPatchPersistenceFailed = ''active_restart_option_patch_persistence_failed''"
| "scheduler_action_code SA_LeaseRetryableWithRunnableWork = ''lease_retryable_with_runnable_work''"
| "scheduler_action_code SA_LeaseRetryableWithoutRunnableWork = ''lease_retryable_without_runnable_work''"
| "scheduler_action_code SA_RepresentationRestart = ''representation_restart''"
| "scheduler_action_code SA_AllRequiredDataReceived = ''all_required_data_received''"
| "scheduler_action_code SA_BitTorrentPayloadComplete = ''bit_torrent_payload_complete''"
| "scheduler_action_code SA_SlowSlotDemote = ''slow_slot_demote''"
| "scheduler_action_code SA_SlowSlotPause = ''slow_slot_pause''"
| "scheduler_action_code SA_MidTransferNoSpace = ''mid_transfer_no_space''"
| "scheduler_action_code SA_TerminalWorkFailure = ''terminal_work_failure''"
| "scheduler_action_code SA_RetryReadmissionSucceeded = ''retry_readmission_succeeded''"
| "scheduler_action_code SA_RetryReadmissionBlocked = ''retry_readmission_blocked''"
| "scheduler_action_code SA_RetryExhausted = ''retry_exhausted''"
| "scheduler_action_code SA_SlowReadmissionSucceeded = ''slow_readmission_succeeded''"
| "scheduler_action_code SA_SlowReadmissionBlocked = ''slow_readmission_blocked''"
| "scheduler_action_code SA_ApproveHostKey = ''approve_host_key''"
| "scheduler_action_code SA_ApplyMatchingHostKeyOption = ''apply_matching_host_key_option''"
| "scheduler_action_code SA_HostKeyResolutionSucceeded = ''host_key_resolution_succeeded''"
| "scheduler_action_code SA_HostKeyResolutionSucceededPreservingPause = ''host_key_resolution_succeeded_preserving_pause''"
| "scheduler_action_code SA_HostKeyResolutionFailed = ''host_key_resolution_failed''"
| "scheduler_action_code SA_CancellationDrainSucceeded = ''cancellation_drain_succeeded''"
| "scheduler_action_code SA_RestartQuiesced = ''restart_quiesced''"
| "scheduler_action_code SA_RestartApplicationScheduled = ''restart_application_scheduled''"
| "scheduler_action_code SA_RestartApplicationSucceeded = ''restart_application_succeeded''"
| "scheduler_action_code SA_RestartApplicationFailed = ''restart_application_failed''"
| "scheduler_action_code SA_DeferredPauseCompleted = ''deferred_pause_completed''"
| "scheduler_action_code SA_DeferredResumeCompleted = ''deferred_resume_completed''"
| "scheduler_action_code SA_DeferredRemoveCompleted = ''deferred_remove_completed''"
| "scheduler_action_code SA_VerificationSucceeded = ''verification_succeeded''"
| "scheduler_action_code SA_VerificationRecoverableFailure = ''verification_recoverable_failure''"
| "scheduler_action_code SA_VerificationTerminalFailure = ''verification_terminal_failure''"
| "scheduler_action_code SA_SeedingStopped = ''seeding_stopped''"
| "scheduler_action_code SA_BitTorrentFailure = ''bit_torrent_failure''"
| "scheduler_action_code SA_TerminalPersistenceSucceeded = ''terminal_persistence_succeeded''"
| "scheduler_action_code SA_RemoveStoppedResult = ''remove_stopped_result''"
| "scheduler_action_code SA_StoppedResultDeletionSucceeded = ''stopped_result_deletion_succeeded''"
| "scheduler_action_code SA_StoppedResultDeletionFailed = ''stopped_result_deletion_failed''"
| "scheduler_action_code SA_OrderlyShutdown = ''orderly_shutdown''"
| "scheduler_action_code SA_DuplicateEventIgnored = ''duplicate_event_ignored''"
| "scheduler_action_code SA_StaleEventIgnored = ''stale_event_ignored''"

section \<open>Sources of actions\<close>

datatype scheduler_action_source =
  Source_Command scheduler_command_kind
  | Source_TaskEvent task_event_kind
  | Source_AnyTaskEvent
  | Source_Internal

definition source_kind_code :: "scheduler_action_source \<Rightarrow> string" where
  "source_kind_code s =
     (case s of
        Source_Command _ \<Rightarrow> ''command''
      | Source_TaskEvent _ \<Rightarrow> ''task_event''
      | Source_AnyTaskEvent \<Rightarrow> ''any_task_event''
      | Source_Internal \<Rightarrow> ''internal'')"

definition source_input_code :: "scheduler_action_source \<Rightarrow> string option" where
  "source_input_code s =
     (case s of
        Source_Command kind \<Rightarrow> Some (scheduler_command_kind_code kind)
      | Source_TaskEvent kind \<Rightarrow> Some (task_event_kind_code kind)
      | Source_AnyTaskEvent \<Rightarrow> None
      | Source_Internal \<Rightarrow> None)"

definition matches_command :: "scheduler_action_source \<Rightarrow> scheduler_command_kind \<Rightarrow> bool" where
  "matches_command s command \<longleftrightarrow> s = Source_Command command"

definition matches_task_event :: "scheduler_action_source \<Rightarrow> task_event_kind \<Rightarrow> bool" where
  "matches_task_event s event \<longleftrightarrow> s = Source_TaskEvent event"

primrec action_source :: "scheduler_action \<Rightarrow> scheduler_action_source" where
  "action_source SA_ValidationSucceeded = Source_Command CMK_AddValidatedTask"
| "action_source SA_ValidationSucceededPaused = Source_Command CMK_AddValidatedTask"
| "action_source SA_ValidationFailed = Source_Internal"
| "action_source SA_Pause = Source_Command CMK_Pause"
| "action_source SA_PauseDeferred = Source_Command CMK_Pause"
| "action_source SA_Resume = Source_Command CMK_Resume"
| "action_source SA_ResumeDeferred = Source_Command CMK_Resume"
| "action_source SA_Remove = Source_Command CMK_Remove"
| "action_source SA_RemoveDeferred = Source_Command CMK_Remove"
| "action_source SA_SchedulerAdmission = Source_Internal"
| "action_source SA_AdmissionBlocked = Source_Internal"
| "action_source SA_PlanningFailed = Source_Internal"
| "action_source SA_InPlaceOptionPatchAccepted = Source_Command CMK_ApplyOptionPatch"
| "action_source SA_InPlaceOptionPatchApplied = Source_TaskEvent EK_OptionPatchApplied"
| "action_source SA_InPlaceOptionPatchApplicationFailed = Source_TaskEvent EK_OptionPatchApplicationFailed"
| "action_source SA_CredentialsSatisfied = Source_TaskEvent EK_OptionPatchApplied"
| "action_source SA_CredentialSatisfactionFailed = Source_TaskEvent EK_OptionPatchApplicationFailed"
| "action_source SA_ExplicitNoSpaceProbeRequested = Source_Command CMK_Resume"
| "action_source SA_WaitingNoSpaceProbeSucceeded = Source_TaskEvent EK_NoSpaceProbeCompleted"
| "action_source SA_WaitingNoSpaceProbeFailed = Source_TaskEvent EK_NoSpaceProbeCompleted"
| "action_source SA_PausedNoSpaceResumeProbeSucceeded = Source_TaskEvent EK_NoSpaceProbeCompleted"
| "action_source SA_PausedNoSpaceResumeProbeFailed = Source_TaskEvent EK_NoSpaceProbeCompleted"
| "action_source SA_PausedNoSpacePausePreservingProbeSucceeded = Source_TaskEvent EK_NoSpaceProbeCompleted"
| "action_source SA_PausedNoSpacePausePreservingProbeFailed = Source_TaskEvent EK_NoSpaceProbeCompleted"
| "action_source SA_GenerationPersistenceSucceeded = Source_TaskEvent EK_GenerationPersisted"
| "action_source SA_AllocationSucceeded = Source_TaskEvent EK_AllocationSucceeded"
| "action_source SA_AllocationRetryableFailure = Source_TaskEvent EK_AllocationRetryable"
| "action_source SA_ActiveHostKeyChallengeRequired = Source_TaskEvent EK_ActiveHostKeyChallenge"
| "action_source SA_HostKeyChallengeRequired = Source_TaskEvent EK_AllocationHostKeyChallenge"
| "action_source SA_AllocationTerminalFailure = Source_TaskEvent EK_AllocationFailed"
| "action_source SA_ActiveRestartOptionPatchAccepted = Source_Command CMK_ApplyOptionPatch"
| "action_source SA_SourceReplacementRequested = Source_Command CMK_BeginSourceReplacement"
| "action_source SA_SourceReplacementCommitted = Source_Command CMK_CommitSourceReplacement"
| "action_source SA_ActiveRestartOptionPatchPersisted = Source_TaskEvent EK_OptionPatchPersisted"
| "action_source SA_ActiveRestartOptionPatchPersistenceFailed = Source_TaskEvent EK_OptionPatchPersistenceFailed"
| "action_source SA_LeaseRetryableWithRunnableWork = Source_Internal"
| "action_source SA_LeaseRetryableWithoutRunnableWork = Source_TaskEvent EK_ActiveRetryIdle"
| "action_source SA_RepresentationRestart = Source_TaskEvent EK_ActiveRepresentationRestart"
| "action_source SA_AllRequiredDataReceived = Source_TaskEvent EK_DataComplete"
| "action_source SA_BitTorrentPayloadComplete = Source_TaskEvent EK_BitTorrentPayloadComplete"
| "action_source SA_SlowSlotDemote = Source_TaskEvent EK_SlowDemoted"
| "action_source SA_SlowSlotPause = Source_TaskEvent EK_SlowPaused"
| "action_source SA_MidTransferNoSpace = Source_TaskEvent EK_NoSpace"
| "action_source SA_TerminalWorkFailure = Source_TaskEvent EK_TerminalFailure"
| "action_source SA_RetryReadmissionSucceeded = Source_TaskEvent EK_RetryReady"
| "action_source SA_RetryReadmissionBlocked = Source_TaskEvent EK_RetryReady"
| "action_source SA_RetryExhausted = Source_Internal"
| "action_source SA_SlowReadmissionSucceeded = Source_TaskEvent EK_SlowReadmit"
| "action_source SA_SlowReadmissionBlocked = Source_TaskEvent EK_SlowReadmit"
| "action_source SA_ApproveHostKey = Source_Command CMK_ApproveHostKey"
| "action_source SA_ApplyMatchingHostKeyOption = Source_Command CMK_ApplyOptionPatch"
| "action_source SA_HostKeyResolutionSucceeded = Source_TaskEvent EK_HostKeyResolutionPersisted"
| "action_source SA_HostKeyResolutionSucceededPreservingPause = Source_TaskEvent EK_HostKeyResolutionPersisted"
| "action_source SA_HostKeyResolutionFailed = Source_TaskEvent EK_HostKeyResolutionFailed"
| "action_source SA_CancellationDrainSucceeded = Source_TaskEvent EK_CancellationDrained"
| "action_source SA_RestartQuiesced = Source_TaskEvent EK_CancellationDrained"
| "action_source SA_RestartApplicationScheduled = Source_Internal"
| "action_source SA_RestartApplicationSucceeded = Source_TaskEvent EK_OptionPatchApplied"
| "action_source SA_RestartApplicationFailed = Source_TaskEvent EK_OptionPatchApplicationFailed"
| "action_source SA_DeferredPauseCompleted = Source_Internal"
| "action_source SA_DeferredResumeCompleted = Source_Internal"
| "action_source SA_DeferredRemoveCompleted = Source_Internal"
| "action_source SA_VerificationSucceeded = Source_TaskEvent EK_VerificationSucceeded"
| "action_source SA_VerificationRecoverableFailure = Source_TaskEvent EK_VerificationRecoverable"
| "action_source SA_VerificationTerminalFailure = Source_TaskEvent EK_VerificationFailed"
| "action_source SA_SeedingStopped = Source_TaskEvent EK_SeedingComplete"
| "action_source SA_BitTorrentFailure = Source_TaskEvent EK_SeedingFailed"
| "action_source SA_TerminalPersistenceSucceeded = Source_TaskEvent EK_TerminalPersisted"
| "action_source SA_RemoveStoppedResult = Source_Command CMK_RemoveStoppedResult"
| "action_source SA_StoppedResultDeletionSucceeded = Source_TaskEvent EK_StoppedResultDeleted"
| "action_source SA_StoppedResultDeletionFailed = Source_TaskEvent EK_StoppedResultDeletionFailed"
| "action_source SA_OrderlyShutdown = Source_Command CMK_OrderlyShutdown"
| "action_source SA_DuplicateEventIgnored = Source_AnyTaskEvent"
| "action_source SA_StaleEventIgnored = Source_AnyTaskEvent"

section \<open>Selection of actions from validated context\<close>

definition for_validated_add :: "bool \<Rightarrow> scheduler_action" where
  "for_validated_add desired_paused =
     (if desired_paused then SA_ValidationSucceededPaused else SA_ValidationSucceeded)"

definition for_resume :: "task_state \<Rightarrow> task_conditions_snapshot \<Rightarrow> scheduler_action" where
  "for_resume state conditions =
     (if tcs_no_space conditions
         \<and> state \<in> {TS_Waiting, TS_WaitingSlow, TS_RetryWait, TS_Paused, TS_PausedSlow}
      then SA_ExplicitNoSpaceProbeRequested else SA_Resume)"

definition for_host_key_resolution :: "bool \<Rightarrow> scheduler_action" where
  "for_host_key_resolution desired_paused =
     (if desired_paused then SA_HostKeyResolutionSucceededPreservingPause
      else SA_HostKeyResolutionSucceeded)"

definition for_no_space_probe_result ::
  "task_state \<Rightarrow> no_space_probe_origin \<Rightarrow> bool \<Rightarrow> bool \<Rightarrow> scheduler_action option" where
  "for_no_space_probe_result state origin desired_paused ready =
     (if state \<in> {TS_Waiting, TS_WaitingSlow, TS_RetryWait} \<and> ready
        then Some SA_WaitingNoSpaceProbeSucceeded
      else if state \<in> {TS_Waiting, TS_WaitingSlow, TS_RetryWait} \<and> \<not> ready
        then Some SA_WaitingNoSpaceProbeFailed
      else if state = TS_Paused \<and> \<not> desired_paused \<and> ready
        then Some SA_PausedNoSpaceResumeProbeSucceeded
      else if state = TS_Paused \<and> \<not> desired_paused \<and> \<not> ready
        then Some SA_PausedNoSpaceResumeProbeFailed
      else if state \<in> {TS_Paused, TS_PausedSlow} \<and> desired_paused \<and> ready
        then Some SA_PausedNoSpacePausePreservingProbeSucceeded
      else if state \<in> {TS_Paused, TS_PausedSlow} \<and> desired_paused \<and> \<not> ready
        then Some SA_PausedNoSpacePausePreservingProbeFailed
      else None)"

section \<open>Event disposition\<close>

datatype scheduler_action_source_error =
  EventActionMismatch task_event_kind scheduler_action

datatype event_disposition = ED_Fresh | ED_Duplicate | ED_Stale

primrec event_disposition_code :: "event_disposition \<Rightarrow> string" where
  "event_disposition_code ED_Fresh = ''fresh''"
| "event_disposition_code ED_Duplicate = ''duplicate''"
| "event_disposition_code ED_Stale = ''stale''"

definition disposition_resolve ::
  "event_disposition \<Rightarrow> task_event_kind \<Rightarrow> scheduler_action \<Rightarrow>
   (scheduler_action_source_error, scheduler_action) result" where
  "disposition_resolve d event fresh =
     (if \<not> matches_task_event (action_source fresh) event
      then Inl (EventActionMismatch event fresh)
      else Inr (case d of
                  ED_Fresh \<Rightarrow> fresh
                | ED_Duplicate \<Rightarrow> SA_DuplicateEventIgnored
                | ED_Stale \<Rightarrow> SA_StaleEventIgnored))"

section \<open>Resolution\<close>

lemma disposition_resolve_ok:
  "disposition_resolve d event fresh = Inr action \<longleftrightarrow>
     action_source fresh = Source_TaskEvent event
     \<and> action = (case d of ED_Fresh \<Rightarrow> fresh | ED_Duplicate \<Rightarrow> SA_DuplicateEventIgnored
                          | ED_Stale \<Rightarrow> SA_StaleEventIgnored)"
  by (auto simp: disposition_resolve_def matches_task_event_def)

end
