(* ===== verification/Transition.thy ===== *)
theory Transition
  imports Actions
begin

text \<open>
  The state-transition contract of \<open>ariax-core/src/transition.rs\<close>: the complete matrix that says for
  every task state and action whether the action is accepted and which states it may produce.
\<close>

section \<open>Contracts\<close>

datatype transition_contract_kind =
  TCK_Transition | TCK_Stay | TCK_Conditional | TCK_Delete | TCK_NoOp | TCK_Ignore | TCK_Conflict

primrec contract_kind_code :: "transition_contract_kind \<Rightarrow> string" where
  "contract_kind_code TCK_Transition = ''transition''"
| "contract_kind_code TCK_Stay = ''stay''"
| "contract_kind_code TCK_Conditional = ''conditional''"
| "contract_kind_code TCK_Delete = ''delete''"
| "contract_kind_code TCK_NoOp = ''no_op''"
| "contract_kind_code TCK_Ignore = ''ignore''"
| "contract_kind_code TCK_Conflict = ''conflict''"

definition kind_accepts :: "transition_contract_kind \<Rightarrow> bool" where
  "kind_accepts k \<longleftrightarrow> k \<noteq> TCK_Conflict"

datatype transition_rejection = TR_Conflict | TR_HostKeyApprovalRequired

record contract_cell =
  ct_kind :: transition_contract_kind
  ct_reason :: state_reason
  ct_targets :: "task_state list"
  ct_rejection :: "transition_rejection option"

definition contract_accepts :: "contract_cell \<Rightarrow> bool" where
  "contract_accepts c \<longleftrightarrow> kind_accepts (ct_kind c)"

definition SHUTDOWN_RECOVERY_TARGETS :: "task_state list" where
  "SHUTDOWN_RECOVERY_TARGETS = [TS_Waiting, TS_Paused, TS_StoppedResult]"

text \<open>\<open>state_target\<close> of the source is the one-element slice of a state.\<close>

definition state_target :: "task_state \<Rightarrow> task_state list" where
  "state_target state = [state]"

definition ct_transition :: "state_reason \<Rightarrow> task_state list \<Rightarrow> contract_cell" where
  "ct_transition reason targets =
     \<lparr>ct_kind = TCK_Transition, ct_reason = reason, ct_targets = targets, ct_rejection = None\<rparr>"

definition ct_stay :: "task_state \<Rightarrow> state_reason \<Rightarrow> contract_cell" where
  "ct_stay state reason =
     \<lparr>ct_kind = TCK_Stay, ct_reason = reason, ct_targets = state_target state, ct_rejection = None\<rparr>"

definition ct_conditional :: "state_reason \<Rightarrow> task_state list \<Rightarrow> contract_cell" where
  "ct_conditional reason targets =
     \<lparr>ct_kind = TCK_Conditional, ct_reason = reason, ct_targets = targets, ct_rejection = None\<rparr>"

definition ct_delete :: "state_reason \<Rightarrow> contract_cell" where
  "ct_delete reason =
     \<lparr>ct_kind = TCK_Delete, ct_reason = reason, ct_targets = [], ct_rejection = None\<rparr>"

definition ct_no_op :: "task_state \<Rightarrow> contract_cell" where
  "ct_no_op state =
     \<lparr>ct_kind = TCK_NoOp, ct_reason = SR_Idempotent, ct_targets = state_target state,
      ct_rejection = None\<rparr>"

definition ct_ignore :: "task_state \<Rightarrow> state_reason \<Rightarrow> contract_cell" where
  "ct_ignore state reason =
     \<lparr>ct_kind = TCK_Ignore, ct_reason = reason, ct_targets = state_target state, ct_rejection = None\<rparr>"

definition ct_conflict :: contract_cell where
  "ct_conflict =
     \<lparr>ct_kind = TCK_Conflict, ct_reason = SR_Conflict, ct_targets = [],
      ct_rejection = Some TR_Conflict\<rparr>"

definition ct_rejected :: "state_reason \<Rightarrow> transition_rejection \<Rightarrow> contract_cell" where
  "ct_rejected reason rejection =
     \<lparr>ct_kind = TCK_Conflict, ct_reason = reason, ct_targets = [], ct_rejection = Some rejection\<rparr>"

section \<open>The matrix\<close>

primrec transition_contract :: "task_state \<Rightarrow> scheduler_action \<Rightarrow> contract_cell" where
  "transition_contract state SA_ValidationSucceeded =
     (if state = TS_Accepted
        then ct_transition SR_ValidationSucceeded [TS_Waiting]
      else ct_conflict)"
| "transition_contract state SA_ValidationSucceededPaused =
     (if state = TS_Accepted
        then ct_transition SR_ValidationSucceeded [TS_Paused]
      else ct_conflict)"
| "transition_contract state SA_ValidationFailed =
     (if state = TS_Accepted
        then ct_transition SR_ValidationFailed [TS_Error]
      else ct_conflict)"
| "transition_contract state SA_Pause =
     (if state \<in> {TS_Accepted, TS_Waiting, TS_WaitingSlow, TS_Allocating, TS_Active,
           TS_RetryWait, TS_PausedRestarting, TS_Verifying, TS_Seeding}
        then ct_transition SR_UserPause [TS_Paused]
      else if state \<in> {TS_Paused, TS_PausedSlow, TS_PausedHostKey}
        then ct_stay state SR_UserPause
      else ct_conflict)"
| "transition_contract state SA_PauseDeferred =
     (if state \<in> {TS_Waiting, TS_WaitingSlow, TS_Allocating, TS_Active,
           TS_RetryWait, TS_Paused, TS_PausedSlow, TS_PausedHostKey,
           TS_PausedRestarting, TS_Verifying, TS_Seeding}
        then ct_stay state SR_UserPause
      else ct_conflict)"
| "transition_contract state SA_Resume =
     (if state \<in> {TS_Accepted, TS_Waiting, TS_Allocating, TS_Active, TS_RetryWait,
           TS_PausedRestarting, TS_Verifying, TS_Seeding}
        then ct_no_op state
      else if state \<in> {TS_WaitingSlow, TS_Paused, TS_PausedSlow}
        then ct_transition SR_UserResume [TS_Waiting]
      else if state = TS_PausedHostKey
        then ct_rejected SR_HostKeyApprovalRequired TR_HostKeyApprovalRequired
      else ct_conflict)"
| "transition_contract state SA_ResumeDeferred =
     (if state \<in> {TS_Waiting, TS_WaitingSlow, TS_Allocating, TS_Active,
           TS_RetryWait, TS_Paused, TS_PausedSlow, TS_PausedHostKey,
           TS_PausedRestarting, TS_Verifying, TS_Seeding}
        then ct_stay state SR_UserResume
      else ct_conflict)"
| "transition_contract state SA_Remove =
     (if state \<in> {TS_Accepted, TS_Waiting, TS_WaitingSlow, TS_Allocating, TS_Active,
           TS_RetryWait, TS_Paused, TS_PausedSlow, TS_PausedHostKey,
           TS_PausedRestarting, TS_Verifying, TS_Seeding}
        then ct_transition SR_UserRemove [TS_Removed]
      else if state = TS_Removed
        then ct_no_op state
      else ct_conflict)"
| "transition_contract state SA_RemoveDeferred =
     (if state \<in> {TS_Accepted, TS_Waiting, TS_WaitingSlow, TS_Allocating, TS_Active,
           TS_RetryWait, TS_Paused, TS_PausedSlow, TS_PausedHostKey,
           TS_PausedRestarting, TS_Verifying, TS_Seeding}
        then ct_stay state SR_UserRemove
      else ct_conflict)"
| "transition_contract state SA_SchedulerAdmission =
     (if state = TS_Waiting
        then ct_transition SR_SchedulerAdmission [TS_Allocating]
      else ct_conflict)"
| "transition_contract state SA_AdmissionBlocked =
     (if state = TS_Waiting
        then ct_stay state SR_AdmissionBlocked
      else ct_conflict)"
| "transition_contract state SA_PlanningFailed =
     (if state = TS_Waiting
        then ct_transition SR_PlanningFailed [TS_Error]
      else ct_conflict)"
| "transition_contract state SA_InPlaceOptionPatchAccepted =
     (if state \<in> {TS_Waiting, TS_WaitingSlow, TS_Allocating, TS_Active,
           TS_RetryWait, TS_Paused, TS_PausedSlow, TS_PausedHostKey,
           TS_PausedRestarting, TS_Verifying, TS_Seeding}
        then ct_stay state SR_OptionPatch
      else ct_conflict)"
| "transition_contract state SA_InPlaceOptionPatchApplied =
     (if state \<in> {TS_Waiting, TS_WaitingSlow, TS_Allocating, TS_Active,
           TS_RetryWait, TS_Paused, TS_PausedSlow, TS_PausedHostKey,
           TS_PausedRestarting, TS_Verifying, TS_Seeding}
        then ct_stay state SR_OptionPatch
      else ct_conflict)"
| "transition_contract state SA_InPlaceOptionPatchApplicationFailed =
     (if state \<in> {TS_Waiting, TS_WaitingSlow, TS_Allocating, TS_Active,
           TS_RetryWait, TS_Paused, TS_PausedSlow, TS_PausedHostKey,
           TS_PausedRestarting, TS_Verifying, TS_Seeding}
        then ct_stay state SR_OptionPatchApplicationFailed
      else ct_conflict)"
| "transition_contract state SA_CredentialsSatisfied =
     (if state \<in> {TS_Waiting, TS_WaitingSlow, TS_RetryWait, TS_Paused, TS_PausedSlow}
        then ct_stay state SR_CredentialsSatisfied
      else ct_conflict)"
| "transition_contract state SA_CredentialSatisfactionFailed =
     (if state \<in> {TS_Waiting, TS_WaitingSlow, TS_RetryWait, TS_Paused, TS_PausedSlow}
        then ct_stay state SR_CredentialUpdateFailed
      else ct_conflict)"
| "transition_contract state SA_ExplicitNoSpaceProbeRequested =
     (if state \<in> {TS_Waiting, TS_RetryWait, TS_Paused}
        then ct_stay state SR_NoSpaceProbeRequested
      else if state \<in> {TS_WaitingSlow, TS_PausedSlow}
        then ct_transition SR_NoSpaceProbeRequested [TS_Waiting]
      else ct_conflict)"
| "transition_contract state SA_WaitingNoSpaceProbeSucceeded =
     (if state \<in> {TS_Waiting, TS_WaitingSlow, TS_RetryWait}
        then ct_stay state SR_NoSpaceProbeSucceeded
      else ct_conflict)"
| "transition_contract state SA_WaitingNoSpaceProbeFailed =
     (if state \<in> {TS_Waiting, TS_WaitingSlow, TS_RetryWait}
        then ct_stay state SR_NoSpaceProbeFailed
      else ct_conflict)"
| "transition_contract state SA_PausedNoSpaceResumeProbeSucceeded =
     (if state = TS_Paused
        then ct_transition SR_NoSpaceProbeSucceeded [TS_Waiting]
      else ct_conflict)"
| "transition_contract state SA_PausedNoSpaceResumeProbeFailed =
     (if state = TS_Paused
        then ct_transition SR_NoSpaceProbeFailed [TS_Waiting]
      else ct_conflict)"
| "transition_contract state SA_PausedNoSpacePausePreservingProbeSucceeded =
     (if state \<in> {TS_Paused, TS_PausedSlow}
        then ct_stay state SR_NoSpaceProbeSucceeded
      else ct_conflict)"
| "transition_contract state SA_PausedNoSpacePausePreservingProbeFailed =
     (if state \<in> {TS_Paused, TS_PausedSlow}
        then ct_stay state SR_NoSpaceProbeFailed
      else ct_conflict)"
| "transition_contract state SA_GenerationPersistenceSucceeded =
     (if state = TS_Allocating
        then ct_stay state SR_GenerationPersistenceSucceeded
      else ct_conflict)"
| "transition_contract state SA_AllocationSucceeded =
     (if state = TS_Allocating
        then ct_transition SR_AllocationSucceeded [TS_Active]
      else ct_conflict)"
| "transition_contract state SA_AllocationRetryableFailure =
     (if state = TS_Allocating
        then ct_transition SR_AllocationRetryableFailure [TS_RetryWait]
      else ct_conflict)"
| "transition_contract state SA_ActiveHostKeyChallengeRequired =
     (if state = TS_Active
        then ct_transition SR_HostKeyChallenge [TS_PausedHostKey]
      else ct_conflict)"
| "transition_contract state SA_HostKeyChallengeRequired =
     (if state = TS_Allocating
        then ct_transition SR_HostKeyChallenge [TS_PausedHostKey]
      else ct_conflict)"
| "transition_contract state SA_AllocationTerminalFailure =
     (if state = TS_Allocating
        then ct_transition SR_AllocationTerminalFailure [TS_Error]
      else ct_conflict)"
| "transition_contract state SA_ActiveRestartOptionPatchAccepted =
     (if state \<in> {TS_Allocating, TS_Active, TS_Verifying}
        then ct_stay state SR_OptionPatch
      else ct_conflict)"
| "transition_contract state SA_SourceReplacementRequested =
     (if state \<in> {TS_Allocating, TS_Active, TS_Verifying, TS_RetryWait}
        then ct_transition SR_SourceReplacement [TS_PausedRestarting]
      else if state \<in> {TS_Waiting, TS_Paused}
        then ct_stay state SR_SourceReplacement
      else ct_conflict)"
| "transition_contract state SA_SourceReplacementCommitted =
     (if state = TS_PausedRestarting
        then ct_transition SR_SourceReplacement [TS_Waiting]
      else if state \<in> {TS_Waiting, TS_Paused}
        then ct_stay state SR_SourceReplacement
      else ct_conflict)"
| "transition_contract state SA_ActiveRestartOptionPatchPersisted =
     (if state \<in> {TS_Allocating, TS_Active, TS_Verifying}
        then ct_transition SR_OptionPatchPersistenceSucceeded [TS_PausedRestarting]
      else ct_conflict)"
| "transition_contract state SA_ActiveRestartOptionPatchPersistenceFailed =
     (if state \<in> {TS_Allocating, TS_Active, TS_Verifying}
        then ct_stay state SR_OptionPatchPersistenceFailed
      else ct_conflict)"
| "transition_contract state SA_LeaseRetryableWithRunnableWork =
     (if state = TS_Active
        then ct_stay state SR_LeaseRetry
      else ct_conflict)"
| "transition_contract state SA_LeaseRetryableWithoutRunnableWork =
     (if state = TS_Active
        then ct_transition SR_LeaseRetry [TS_RetryWait]
      else ct_conflict)"
| "transition_contract state SA_RepresentationRestart =
     (if state = TS_Active
        then ct_transition SR_RepresentationRestart [TS_Allocating]
      else ct_conflict)"
| "transition_contract state SA_AllRequiredDataReceived =
     (if state = TS_Active
        then ct_transition SR_PayloadReceived [TS_Verifying]
      else ct_conflict)"
| "transition_contract state SA_BitTorrentPayloadComplete =
     (if state = TS_Active
        then ct_transition SR_BitTorrentSeeding [TS_Seeding]
      else ct_conflict)"
| "transition_contract state SA_SlowSlotDemote =
     (if state = TS_Active
        then ct_transition SR_SlowSlotDemotion [TS_WaitingSlow]
      else if state = TS_WaitingSlow
        then ct_no_op state
      else ct_conflict)"
| "transition_contract state SA_SlowSlotPause =
     (if state = TS_Active
        then ct_transition SR_SlowSlotPause [TS_PausedSlow]
      else if state = TS_PausedSlow
        then ct_no_op state
      else ct_conflict)"
| "transition_contract state SA_MidTransferNoSpace =
     (if state = TS_Active
        then ct_transition SR_NoSpace [TS_Waiting]
      else ct_conflict)"
| "transition_contract state SA_TerminalWorkFailure =
     (if state = TS_Active
        then ct_transition SR_TerminalWorkFailure [TS_Error]
      else ct_conflict)"
| "transition_contract state SA_RetryReadmissionSucceeded =
     (if state = TS_RetryWait
        then ct_transition SR_RetryReadmission [TS_Allocating]
      else ct_conflict)"
| "transition_contract state SA_RetryReadmissionBlocked =
     (if state = TS_RetryWait
        then ct_stay state SR_AdmissionBlocked
      else ct_conflict)"
| "transition_contract state SA_RetryExhausted =
     (if state = TS_RetryWait
        then ct_transition SR_RetryExhausted [TS_Error]
      else ct_conflict)"
| "transition_contract state SA_SlowReadmissionSucceeded =
     (if state = TS_WaitingSlow
        then ct_transition SR_SlowReadmission [TS_Allocating]
      else ct_conflict)"
| "transition_contract state SA_SlowReadmissionBlocked =
     (if state = TS_WaitingSlow
        then ct_stay state SR_AdmissionBlocked
      else ct_conflict)"
| "transition_contract state SA_ApproveHostKey =
     (if state = TS_PausedHostKey
        then ct_stay state SR_HostKeyApproved
      else ct_conflict)"
| "transition_contract state SA_ApplyMatchingHostKeyOption =
     (if state = TS_PausedHostKey
        then ct_stay state SR_OptionPatch
      else ct_conflict)"
| "transition_contract state SA_HostKeyResolutionSucceeded =
     (if state = TS_PausedHostKey
        then ct_transition SR_HostKeyApproved [TS_Waiting]
      else ct_conflict)"
| "transition_contract state SA_HostKeyResolutionSucceededPreservingPause =
     (if state = TS_PausedHostKey
        then ct_transition SR_HostKeyApproved [TS_Paused]
      else ct_conflict)"
| "transition_contract state SA_HostKeyResolutionFailed =
     (if state = TS_PausedHostKey
        then ct_stay state SR_HostKeyResolutionFailed
      else ct_conflict)"
| "transition_contract state SA_CancellationDrainSucceeded =
     (if state \<in> {TS_Waiting, TS_WaitingSlow, TS_Paused, TS_PausedSlow, TS_Error,
           TS_Removed}
        then ct_stay state SR_CancellationDrained
      else ct_conflict)"
| "transition_contract state SA_RestartQuiesced =
     (if state = TS_PausedRestarting
        then ct_stay state SR_RestartQuiesced
      else ct_conflict)"
| "transition_contract state SA_RestartApplicationScheduled =
     (if state = TS_Waiting
        then ct_stay state SR_OptionPatch
      else ct_conflict)"
| "transition_contract state SA_RestartApplicationSucceeded =
     (if state = TS_PausedRestarting
        then ct_transition SR_RestartApplicationSucceeded [TS_Waiting]
      else if state = TS_Waiting
        then ct_stay state SR_RestartApplicationSucceeded
      else ct_conflict)"
| "transition_contract state SA_RestartApplicationFailed =
     (if state \<in> {TS_PausedRestarting, TS_Waiting}
        then ct_transition SR_RestartApplicationFailed [TS_Error]
      else ct_conflict)"
| "transition_contract state SA_DeferredPauseCompleted =
     (if state \<in> {TS_Accepted, TS_Waiting, TS_WaitingSlow, TS_Allocating, TS_Active,
           TS_RetryWait, TS_PausedRestarting, TS_Verifying, TS_Seeding}
        then ct_transition SR_UserPause [TS_Paused]
      else if state \<in> {TS_Paused, TS_PausedSlow}
        then ct_stay state SR_UserPause
      else ct_conflict)"
| "transition_contract state SA_DeferredResumeCompleted =
     (if state \<in> {TS_Paused, TS_PausedSlow}
        then ct_transition SR_UserResume [TS_Waiting]
      else ct_conflict)"
| "transition_contract state SA_DeferredRemoveCompleted =
     (if state \<in> {TS_Accepted, TS_Waiting, TS_WaitingSlow, TS_Allocating, TS_Active,
           TS_RetryWait, TS_Paused, TS_PausedSlow, TS_PausedHostKey,
           TS_PausedRestarting, TS_Verifying, TS_Seeding}
        then ct_transition SR_UserRemove [TS_Removed]
      else ct_conflict)"
| "transition_contract state SA_VerificationSucceeded =
     (if state = TS_Verifying
        then ct_transition SR_VerificationSucceeded [TS_Complete]
      else ct_conflict)"
| "transition_contract state SA_VerificationRecoverableFailure =
     (if state = TS_Verifying
        then ct_transition SR_VerificationRecoverableFailure [TS_Waiting]
      else ct_conflict)"
| "transition_contract state SA_VerificationTerminalFailure =
     (if state = TS_Verifying
        then ct_transition SR_VerificationTerminalFailure [TS_Error]
      else ct_conflict)"
| "transition_contract state SA_SeedingStopped =
     (if state = TS_Seeding
        then ct_transition SR_SeedingStopped [TS_Complete]
      else ct_conflict)"
| "transition_contract state SA_BitTorrentFailure =
     (if state = TS_Seeding
        then ct_transition SR_BitTorrentFailure [TS_Error]
      else ct_conflict)"
| "transition_contract state SA_TerminalPersistenceSucceeded =
     (if state \<in> {TS_Complete, TS_Error, TS_Removed}
        then ct_transition SR_TerminalPersistenceSucceeded [TS_StoppedResult]
      else if state = TS_StoppedResult
        then ct_no_op state
      else ct_conflict)"
| "transition_contract state SA_RemoveStoppedResult =
     (if state = TS_StoppedResult
        then ct_stay state SR_StoppedResultRemovalRequested
      else ct_conflict)"
| "transition_contract state SA_StoppedResultDeletionSucceeded =
     (if state = TS_StoppedResult
        then ct_delete SR_StoppedResultRemoved
      else ct_conflict)"
| "transition_contract state SA_StoppedResultDeletionFailed =
     (if state = TS_StoppedResult
        then ct_stay state SR_StoppedResultRemovalFailed
      else ct_conflict)"
| "transition_contract state SA_OrderlyShutdown =
     (if state \<in> {TS_Accepted, TS_Waiting, TS_WaitingSlow, TS_Allocating, TS_Active,
           TS_RetryWait, TS_Paused, TS_PausedSlow, TS_PausedHostKey,
           TS_PausedRestarting, TS_Verifying, TS_Seeding}
        then ct_conditional SR_OrderlyShutdown SHUTDOWN_RECOVERY_TARGETS
      else ct_no_op state)"
| "transition_contract state SA_DuplicateEventIgnored =
     ct_ignore state SR_DuplicateEventIgnored"
| "transition_contract state SA_StaleEventIgnored =
     ct_ignore state SR_StaleEventIgnored"

declare transition_contract.simps [simp del]

section \<open>Shape of the matrix\<close>

lemmas contract_defs = ct_transition_def ct_stay_def ct_conditional_def ct_delete_def ct_no_op_def
  ct_ignore_def ct_conflict_def ct_rejected_def state_target_def

text \<open>
  The canonical shape of a cell: the kind determines the number of targets, whether the state is
  left, and whether a rejection is attached.
\<close>

definition contract_wf :: "task_state \<Rightarrow> contract_cell \<Rightarrow> bool" where
  "contract_wf state c \<longleftrightarrow>
     (ct_rejection c = None \<longleftrightarrow> contract_accepts c)
     \<and> (case ct_kind c of
          TCK_Transition \<Rightarrow> (\<exists>target. ct_targets c = [target] \<and> target \<noteq> state)
                            \<and> ct_reason c \<notin> {SR_Idempotent, SR_Conflict}
        | TCK_Stay \<Rightarrow> ct_targets c = [state] \<and> ct_reason c \<notin> {SR_Idempotent, SR_Conflict}
        | TCK_Conditional \<Rightarrow> ct_targets c = SHUTDOWN_RECOVERY_TARGETS \<and> ct_reason c = SR_OrderlyShutdown
        | TCK_Delete \<Rightarrow> ct_targets c = [] \<and> ct_reason c = SR_StoppedResultRemoved \<and> state = TS_StoppedResult
        | TCK_NoOp \<Rightarrow> ct_targets c = [state] \<and> ct_reason c = SR_Idempotent
        | TCK_Ignore \<Rightarrow> ct_targets c = [state]
                         \<and> ct_reason c \<in> {SR_DuplicateEventIgnored, SR_StaleEventIgnored}
        | TCK_Conflict \<Rightarrow> ct_targets c = []
                         \<and> (ct_reason c, the (ct_rejection c))
                           \<in> {(SR_Conflict, TR_Conflict),
                              (SR_HostKeyApprovalRequired, TR_HostKeyApprovalRequired)})"

lemma contract_wf_intros:
  "target \<noteq> state \<Longrightarrow> reason \<notin> {SR_Idempotent, SR_Conflict} \<Longrightarrow>
     contract_wf state (ct_transition reason [target])"
  "reason \<notin> {SR_Idempotent, SR_Conflict} \<Longrightarrow> contract_wf state (ct_stay state reason)"
  "contract_wf state (ct_no_op state)"
  "contract_wf state ct_conflict"
  "contract_wf state (ct_conditional SR_OrderlyShutdown SHUTDOWN_RECOVERY_TARGETS)"
  "contract_wf TS_StoppedResult (ct_delete SR_StoppedResultRemoved)"
  "contract_wf state (ct_ignore state SR_DuplicateEventIgnored)"
  "contract_wf state (ct_ignore state SR_StaleEventIgnored)"
  "contract_wf state (ct_rejected SR_HostKeyApprovalRequired TR_HostKeyApprovalRequired)"
  by (auto simp: contract_wf_def contract_defs contract_accepts_def kind_accepts_def)

lemma transition_contract_wf: "contract_wf state (transition_contract state action)"
  by (cases action)
    (auto simp: transition_contract.simps contract_wf_intros)

text \<open>
  Every one of the 1184 cells of the matrix has the canonical shape: a transition names exactly
  one other state, a stay, a no-op and an ignored event keep the state, the conditional cells are
  the shutdown cells, deletion only exists for a retained result, and exactly the rejected cells
  carry a rejection.
\<close>

lemma transition_matrix_canonical:
  "contract_wf state (transition_contract state action)"
  by (rule transition_contract_wf)

lemma transition_contract_targets_terminal:
  "is_terminal state \<Longrightarrow> target \<in> set (ct_targets (transition_contract state action)) \<Longrightarrow>
   target = state \<or> (is_terminal_pending state \<and> target = TS_StoppedResult
                     \<and> action = SA_TerminalPersistenceSucceeded)"
  by (cases action)
    (auto simp: transition_contract.simps contract_defs is_terminal_def is_terminal_pending_def
      split: if_splits)

lemma for_no_space_probe_result_accepted:
  "for_no_space_probe_result state origin paused ready = Some action \<Longrightarrow>
   contract_accepts (transition_contract state action)
   \<and> action_source action = Source_TaskEvent EK_NoSpaceProbeCompleted
   \<and> (ready \<longleftrightarrow> ct_reason (transition_contract state action) = SR_NoSpaceProbeSucceeded)"
  by (auto simp: for_no_space_probe_result_def transition_contract.simps contract_defs
      contract_accepts_def kind_accepts_def split: if_splits)

end
