(* ===== verification/Snapshot.thy ===== *)
theory Snapshot
  imports States
begin

text \<open>
  Status snapshots of \<open>ariax-core/src/snapshot.rs\<close>: the bounded host-key challenge and its
  constructor checks, the immutable task snapshot, and the validation every snapshot passes before
  it is published. SHA-256 is a parameter.
\<close>

section \<open>Host-key challenges\<close>

definition MAX_PRESENTED_HOST_KEY_BYTES :: nat where
  "MAX_PRESENTED_HOST_KEY_BYTES = 16 * 1024"

definition MAX_HOST_KEY_CANONICAL_HOST_BYTES :: nat where
  "MAX_HOST_KEY_CANONICAL_HOST_BYTES = 253"

definition MAX_HOST_KEY_ALGORITHM_BYTES :: nat where
  "MAX_HOST_KEY_ALGORITHM_BYTES = 64"

record host_key_challenge =
  hk_id :: host_key_challenge_id
  hk_canonical_host :: string
  hk_port :: u16
  hk_algorithm :: string
  hk_fingerprint_sha256 :: host_key_fingerprint

record presented_host_key_challenge =
  ph_summary :: host_key_challenge
  ph_presented_public_key :: "u8 list"

datatype presented_host_key_challenge_error =
  PHE_EmptyKey | PHE_KeyTooLarge | PHE_EmptyCanonicalHost | PHE_CanonicalHostTooLong
  | PHE_InvalidPort | PHE_EmptyAlgorithm | PHE_AlgorithmTooLong | PHE_FingerprintMismatch

definition presented_host_key_challenge_new ::
  "(u8 list \<Rightarrow> u8 list) \<Rightarrow> host_key_challenge \<Rightarrow> u8 list \<Rightarrow>
   (presented_host_key_challenge_error, presented_host_key_challenge) result" where
  "presented_host_key_challenge_new sha256 summary key =
     (if key = [] then Inl PHE_EmptyKey
      else if length key > MAX_PRESENTED_HOST_KEY_BYTES then Inl PHE_KeyTooLarge
      else if hk_canonical_host summary = [] then Inl PHE_EmptyCanonicalHost
      else if length (hk_canonical_host summary) > MAX_HOST_KEY_CANONICAL_HOST_BYTES
        then Inl PHE_CanonicalHostTooLong
      else if hk_port summary = 0 then Inl PHE_InvalidPort
      else if hk_algorithm summary = [] then Inl PHE_EmptyAlgorithm
      else if length (hk_algorithm summary) > MAX_HOST_KEY_ALGORITHM_BYTES
        then Inl PHE_AlgorithmTooLong
      else if hk_fingerprint_sha256 summary \<noteq> fingerprint_for_presented_key sha256 key
        then Inl PHE_FingerprintMismatch
      else Inr \<lparr>ph_summary = summary, ph_presented_public_key = key\<rparr>)"

section \<open>Task snapshots\<close>

record task_snapshot =
  sn_gid :: gid
  sn_state :: task_state
  sn_generation :: generation
  sn_total_length :: "u64 option"
  sn_completed_length :: u64
  sn_durable_length :: u64
  sn_current_speed :: u64
  sn_average_speed :: u64
  sn_active_leases :: u32
  sn_retry_wait_leases :: u32
  sn_retry_wait_until :: "monotonic_instant option"
  sn_last_progress_at :: "monotonic_instant option"
  sn_conditions :: task_conditions_snapshot
  sn_desired_paused :: bool
  sn_retry_wait_holds_slot :: bool
  sn_stopped_status :: "aria2_status option"
  sn_host_key_challenge :: "host_key_challenge option"
  sn_error :: "public_error option"
  sn_terminal_persisted :: bool

definition usize_saturating_add :: "nat \<Rightarrow> nat \<Rightarrow> nat" where
  "usize_saturating_add a b = min (a + b) usize_max"

definition snapshot_estimated_clone_bytes :: "task_snapshot \<Rightarrow> nat" where
  "snapshot_estimated_clone_bytes sn =
     (let error = (case sn_error sn of
                     None \<Rightarrow> 0 | Some e \<Rightarrow> usize_saturating_add (length (pe_safe_message e)) 64);
          host_key = (case sn_host_key_challenge sn of
                     None \<Rightarrow> 0
                   | Some c \<Rightarrow> usize_saturating_add
                       (usize_saturating_add (length (hk_canonical_host c)) (length (hk_algorithm c))) 128)
      in usize_saturating_add error host_key)"

definition wire_status :: "task_snapshot \<Rightarrow> (wire_projection_error, aria2_status) result" where
  "wire_status sn =
     and_then
       (project \<lparr>wp_conditions = sn_conditions sn,
                 wp_desired_paused = sn_desired_paused sn,
                 wp_retry_wait_holds_slot = sn_retry_wait_holds_slot sn,
                 wp_stopped_status = sn_stopped_status sn,
                 wp_terminal_persisted = sn_terminal_persisted sn\<rparr> (sn_state sn))
       (\<lambda>status. if is_terminal_pending (sn_state sn) then Inl WPE_TerminalPendingRetention
                 else Inr status)"

definition snapshot_validate :: "task_snapshot \<Rightarrow> (string, unit) result" where
  "snapshot_validate sn =
     (if sn_durable_length sn > sn_completed_length sn
        then Inl ''durable length exceeds completed length''
      else if (case sn_total_length sn of None \<Rightarrow> False | Some total_length \<Rightarrow> sn_completed_length sn > total_length)
        then Inl ''completed length exceeds total length''
      else if sn_state sn = TS_PausedHostKey \<and> sn_host_key_challenge sn = None
        then Inl ''paused host-key state has no challenge''
      else if sn_state sn \<noteq> TS_PausedHostKey \<and> sn_host_key_challenge sn \<noteq> None
        then Inl ''host-key challenge is visible outside paused host-key state''
      else if (sn_state sn = TS_Error
               \<or> (sn_state sn = TS_StoppedResult \<and> sn_stopped_status sn = Some AS_Error))
              \<and> sn_error sn = None
        then Inl ''error terminal result has no public error''
      else if sn_state sn \<noteq> TS_StoppedResult \<and> sn_stopped_status sn \<noteq> None
        then Inl ''retained terminal status is visible outside stopped-result state''
      else if is_terminal_pending (sn_state sn)
        then Inl (if sn_terminal_persisted sn
                  then ''terminal-pending snapshot must be retained before publication''
                  else ''terminal snapshot is not persistence-acknowledged'')
      else if is_retained_result (sn_state sn) \<noteq> sn_terminal_persisted sn
        then Inl (if is_retained_result (sn_state sn)
                  then ''stopped-result snapshot is not persistence-acknowledged''
                  else ''nonterminal snapshot claims terminal persistence'')
      else and_then
             (map_err (\<lambda>_. ''snapshot state cannot be projected to a wire status'') (wire_status sn))
             (\<lambda>_. Inr ()))"

section \<open>Correctness\<close>

lemma presented_host_key_challenge_new_ok:
  "presented_host_key_challenge_new sha256 summary key = Inr c \<longleftrightarrow>
     c = \<lparr>ph_summary = summary, ph_presented_public_key = key\<rparr>
     \<and> key \<noteq> [] \<and> length key \<le> 16384
     \<and> hk_canonical_host summary \<noteq> [] \<and> length (hk_canonical_host summary) \<le> 253
     \<and> hk_port summary \<noteq> 0
     \<and> hk_algorithm summary \<noteq> [] \<and> length (hk_algorithm summary) \<le> 64
     \<and> hk_fingerprint_sha256 summary = HostKeyFingerprint (sha256 key)"
  by (auto simp: presented_host_key_challenge_new_def MAX_PRESENTED_HOST_KEY_BYTES_def
      MAX_HOST_KEY_CANONICAL_HOST_BYTES_def MAX_HOST_KEY_ALGORITHM_BYTES_def
      fingerprint_for_presented_key_def)

text \<open>What a validated snapshot guarantees, in closed form.\<close>

definition snapshot_ok :: "task_snapshot \<Rightarrow> bool" where
  "snapshot_ok sn \<longleftrightarrow>
     sn_durable_length sn \<le> sn_completed_length sn
     \<and> (\<forall>n. sn_total_length sn = Some n \<longrightarrow> sn_completed_length sn \<le> n)
     \<and> (sn_state sn = TS_PausedHostKey \<longleftrightarrow> sn_host_key_challenge sn \<noteq> None)
     \<and> \<not> is_terminal_pending (sn_state sn)
     \<and> (sn_state sn = TS_StoppedResult \<longleftrightarrow> sn_terminal_persisted sn)
     \<and> (sn_state sn = TS_StoppedResult \<longleftrightarrow> sn_stopped_status sn \<noteq> None)
     \<and> (\<forall>st. sn_stopped_status sn = Some st \<longrightarrow> aria2_is_terminal st)
     \<and> (sn_stopped_status sn = Some AS_Error \<longrightarrow> sn_error sn \<noteq> None)
     \<and> (tcs_no_space (sn_conditions sn) \<or> tcs_needs_credentials (sn_conditions sn) \<longrightarrow>
          condition_state (sn_state sn))"

lemma wire_status_live_ok:
  assumes "\<not> is_terminal (sn_state sn)"
    and "tcs_no_space (sn_conditions sn) \<or> tcs_needs_credentials (sn_conditions sn)
         \<Longrightarrow> condition_state (sn_state sn)"
  shows "is_ok (wire_status sn)"
proof -
  have "\<not> is_terminal_pending (sn_state sn)" using assms(1) by (auto simp: terminal_defs)
  then show ?thesis
    using project_live_ok [OF assms(1), of "\<lparr>wp_conditions = sn_conditions sn,
                 wp_desired_paused = sn_desired_paused sn,
                 wp_retry_wait_holds_slot = sn_retry_wait_holds_slot sn,
                 wp_stopped_status = sn_stopped_status sn,
                 wp_terminal_persisted = sn_terminal_persisted sn\<rparr>"] assms(2)
    by (auto simp: wire_status_def)
qed

lemma wire_status_cond: "is_ok (wire_status sn) \<Longrightarrow>
  tcs_no_space (sn_conditions sn) \<or> tcs_needs_credentials (sn_conditions sn) \<Longrightarrow>
  condition_state (sn_state sn)"
  by (auto simp: wire_status_def project_def condition_state_def split: if_splits)

lemma wire_status_stopped: "sn_state sn = TS_StoppedResult \<Longrightarrow>
  is_ok (wire_status sn) \<longleftrightarrow>
     \<not> tcs_no_space (sn_conditions sn) \<and> \<not> tcs_needs_credentials (sn_conditions sn)
     \<and> sn_terminal_persisted sn
     \<and> (\<exists>st. sn_stopped_status sn = Some st \<and> aria2_is_terminal st)"
  by (auto simp: wire_status_def project_def projected_terminal_def is_terminal_pending_def
      ok_or_def split: option.splits)

lemma snapshot_validate_wire:
  "snapshot_validate sn = Inr () \<Longrightarrow> is_ok (wire_status sn)"
  by (cases "wire_status sn") (auto simp: snapshot_validate_def split: if_splits)

lemma snapshot_validate_okI:
  assumes "snapshot_ok sn"
  shows "snapshot_validate sn = Inr ()"
proof -
  have "is_ok (wire_status sn)"
  proof (cases "sn_state sn = TS_StoppedResult")
    case True
    then have "\<not> condition_state (sn_state sn)" by (simp add: condition_state_def)
    with True assms show ?thesis by (auto simp: wire_status_stopped snapshot_ok_def)
  next
    case False
    with assms have "\<not> is_terminal (sn_state sn)" by (auto simp: snapshot_ok_def terminal_defs)
    with assms show ?thesis by (auto intro: wire_status_live_ok simp: snapshot_ok_def)
  qed
  then obtain st where "wire_status sn = Inr st" by (cases "wire_status sn") auto
  with assms show ?thesis
    by (simp add: snapshot_validate_def snapshot_ok_def is_retained_result_def is_terminal_pending_def
        not_less split: option.split) force
qed

lemma snapshot_validate_okD:
  assumes "snapshot_validate sn = Inr ()"
  shows "snapshot_ok sn"
proof -
  note w = snapshot_validate_wire [OF assms]
  note c = wire_status_cond [OF w]
  show ?thesis
  proof (cases "sn_state sn = TS_StoppedResult")
    case True
    with w assms c show ?thesis
      by (auto simp: snapshot_ok_def snapshot_validate_def wire_status_stopped terminal_defs
          split: if_splits option.splits)
  next
    case False
    with assms c show ?thesis
      by (auto simp: snapshot_ok_def snapshot_validate_def terminal_defs
          split: if_splits option.splits)
  qed
qed

text \<open>
  The checks made before a snapshot is published accept exactly the snapshots in which the byte
  counts are ordered, the host-key challenge is shown in its paused state and nowhere else, terminal
  results are only shown once retained and acknowledged, with a terminal status and an error where
  the status is an error, and conditions only occur in states that may carry them.
\<close>

lemma snapshot_validate_iff: "snapshot_validate sn = Inr () \<longleftrightarrow> snapshot_ok sn"
  using snapshot_validate_okI snapshot_validate_okD by blast

end
