(* ===== verification/Delay.thy ===== *)
theory Delay
  imports States
begin

text \<open>
  Persisted delays of \<open>ariax-core/src/persisted_delay.rs\<close>: a wall-clock scheduling decision that
  survives a restart, and its conservative recovery into a fresh monotonic deadline.
\<close>

section \<open>Definitions\<close>

text \<open>\<open>MAX_PERSISTED_MILLISECONDS\<close> is the largest signed 64-bit integer.\<close>

definition MAX_PERSISTED_MILLISECONDS :: u64 where
  "MAX_PERSISTED_MILLISECONDS = 0x7FFFFFFFFFFFFFFF"

record persisted_delay_decision =
  pd_scheduled_at_unix_ms :: u64
  pd_delay_ms :: u64

datatype persisted_delay_error =
  PDE_ScheduledAtOutOfRange | PDE_ZeroDelay | PDE_DelayOutOfRange | PDE_MonotonicDeadlineOutOfRange

datatype recovered_wall_clock = WC_WithinDelay | WC_BeforeScheduled | WC_Expired

record recovered_delay_decision =
  rd_clock :: recovered_wall_clock
  rd_deadline :: monotonic_instant
  rd_remaining_ms :: u64
  rd_recovered_wait_elapsed_ms :: u64

definition persisted_delay_new ::
  "u64 \<Rightarrow> u64 \<Rightarrow> (persisted_delay_error, persisted_delay_decision) result" where
  "persisted_delay_new scheduled_at_unix_ms delay_ms =
     (if scheduled_at_unix_ms > MAX_PERSISTED_MILLISECONDS then Inl PDE_ScheduledAtOutOfRange
      else if delay_ms = 0 then Inl PDE_ZeroDelay
      else if delay_ms > MAX_PERSISTED_MILLISECONDS then Inl PDE_DelayOutOfRange
      else Inr \<lparr>pd_scheduled_at_unix_ms = scheduled_at_unix_ms, pd_delay_ms = delay_ms\<rparr>)"

text \<open>The triple bound at the head of \<open>recover\<close>: clock, recovered elapsed time, remaining time.\<close>

definition recover_parts ::
  "persisted_delay_decision \<Rightarrow> u64 \<Rightarrow> recovered_wall_clock \<times> u64 \<times> u64" where
  "recover_parts d now_wall_unix_ms =
     (if now_wall_unix_ms < pd_scheduled_at_unix_ms d
      then (WC_BeforeScheduled, 0, pd_delay_ms d)
      else
        let wall_elapsed_ms = now_wall_unix_ms - pd_scheduled_at_unix_ms d;
            recovered_wait_elapsed_ms = min wall_elapsed_ms (pd_delay_ms d);
            remaining_ms = pd_delay_ms d - recovered_wait_elapsed_ms;
            clock = (if remaining_ms = 0 then WC_Expired else WC_WithinDelay)
        in (clock, recovered_wait_elapsed_ms, remaining_ms))"

definition recover ::
  "persisted_delay_decision \<Rightarrow> u64 \<Rightarrow> monotonic_instant \<Rightarrow> u64 \<Rightarrow>
   (persisted_delay_error, recovered_delay_decision) result" where
  "recover d now_wall_unix_ms now_monotonic max_wait_ms =
     (case recover_parts d now_wall_unix_ms of
        (clock, recovered_wait_elapsed_ms, remaining) \<Rightarrow>
          let remaining_ms = min remaining max_wait_ms in
          and_then
            (ok_or PDE_MonotonicDeadlineOutOfRange
              (instant_checked_add now_monotonic (duration_from_millis remaining_ms)))
            (\<lambda>deadline. Inr \<lparr>rd_clock = clock, rd_deadline = deadline,
               rd_remaining_ms = remaining_ms,
               rd_recovered_wait_elapsed_ms = recovered_wait_elapsed_ms\<rparr>))"

definition recovered_is_expired :: "recovered_delay_decision \<Rightarrow> bool" where
  "recovered_is_expired r \<longleftrightarrow> rd_remaining_ms r = 0"

definition retry_budget_elapsed_ms :: "recovered_delay_decision \<Rightarrow> u64 \<Rightarrow> u64 \<Rightarrow> u64" where
  "retry_budget_elapsed_ms r elapsed_before_wait_ms max_elapsed_ms =
     (let elapsed = saturating_add elapsed_before_wait_ms (rd_recovered_wait_elapsed_ms r)
      in if elapsed > max_elapsed_ms then max_elapsed_ms else elapsed)"

section \<open>Correctness\<close>

lemma recover_parts_before:
  "now < pd_scheduled_at_unix_ms d \<Longrightarrow>
   recover_parts d now = (WC_BeforeScheduled, 0, pd_delay_ms d)"
  by (simp add: recover_parts_def)

lemma recover_parts_after:
  assumes "pd_scheduled_at_unix_ms d \<le> now" and "recover_parts d now = (c, e, r)"
  shows "unat e = min (unat now - unat (pd_scheduled_at_unix_ms d)) (unat (pd_delay_ms d))"
    and "unat e + unat r = unat (pd_delay_ms d)"
    and "c = (if r = 0 then WC_Expired else WC_WithinDelay)"
proof -
  let ?w = "now - pd_scheduled_at_unix_ms d"
  have w: "unat ?w = unat now - unat (pd_scheduled_at_unix_ms d)"
    using assms(1) by (rule unat_sub)
  from assms have e: "e = min ?w (pd_delay_ms d)" and r: "r = pd_delay_ms d - e"
    and c: "c = (if r = 0 then WC_Expired else WC_WithinDelay)"
    by (auto simp: recover_parts_def Let_def split: if_splits)
  from e w show le: "unat e = min (unat now - unat (pd_scheduled_at_unix_ms d)) (unat (pd_delay_ms d))"
    by (auto simp: min_def word_le_nat_alt)
  have "e \<le> pd_delay_ms d" using e by simp
  then have "unat r = unat (pd_delay_ms d) - unat e" "unat e \<le> unat (pd_delay_ms d)"
    using r by (simp_all add: unat_sub word_le_nat_alt)
  then show "unat e + unat r = unat (pd_delay_ms d)" by simp
  from c show "c = (if r = 0 then WC_Expired else WC_WithinDelay)" .
qed

lemma recover_ok:
  assumes "recover d now now_mono maxw = Inr r" and "recover_parts d now = (c, e, rem)"
  shows "rd_clock r = c" "rd_recovered_wait_elapsed_ms r = e" "rd_remaining_ms r = min rem maxw"
    "instant_nanos (rd_deadline r) = instant_nanos now_mono + unat (rd_remaining_ms r) * 10 ^ 6"
  using assms
  by (auto simp: recover_def Let_def and_then_eq_Inr instant_checked_add_def duration_from_millis_def
      split: if_splits)

text \<open>
  C35: a recovered delay never exceeds the delay chosen before the restart nor the configured maximum,
  its deadline is exactly that far in the future, a wall clock that ran backwards gives the full
  delay again with nothing counted as elapsed, and otherwise the elapsed part and the uncapped rest
  add up to the chosen delay; the timer is expired exactly when the wall clock passed the delay.
\<close>

theorem recover_conservative:
  assumes "recover d now now_mono maxw = Inr r" and "pd_delay_ms d \<noteq> 0" and "maxw \<noteq> 0"
  shows "rd_remaining_ms r \<le> pd_delay_ms d \<and> rd_remaining_ms r \<le> maxw
    \<and> instant_nanos (rd_deadline r) = instant_nanos now_mono + unat (rd_remaining_ms r) * 10 ^ 6
    \<and> (now < pd_scheduled_at_unix_ms d \<longrightarrow>
         rd_recovered_wait_elapsed_ms r = 0 \<and> rd_remaining_ms r = min (pd_delay_ms d) maxw)
    \<and> (pd_scheduled_at_unix_ms d \<le> now \<longrightarrow>
         unat (rd_remaining_ms r)
           = min (unat (pd_delay_ms d) - unat (rd_recovered_wait_elapsed_ms r)) (unat maxw)
         \<and> unat (rd_recovered_wait_elapsed_ms r)
           = min (unat now - unat (pd_scheduled_at_unix_ms d)) (unat (pd_delay_ms d)))
    \<and> (recovered_is_expired r \<longleftrightarrow>
         unat (pd_scheduled_at_unix_ms d) + unat (pd_delay_ms d) \<le> unat now)"
proof -
  obtain c e rem where parts: "recover_parts d now = (c, e, rem)" by (cases "recover_parts d now") auto
  note ok = recover_ok [OF assms(1) parts]
  have min_nat: "unat (min rem maxw) = min (unat rem) (unat maxw)"
    by (simp add: min_def word_le_nat_alt)
  have nz: "unat maxw \<noteq> 0" "unat (pd_delay_ms d) \<noteq> 0"
    using assms(2,3) by (simp_all add: unat_eq_0)
  have zero: "rd_remaining_ms r = 0 \<longleftrightarrow> unat rem = 0"
    using ok(3) min_nat nz by (auto simp: word_unat_eq_iff min_def split: if_splits)
  show ?thesis
  proof (cases "now < pd_scheduled_at_unix_ms d")
    case True
    then have "c = WC_BeforeScheduled" "e = 0" "rem = pd_delay_ms d"
      using parts by (simp_all add: recover_parts_before)
    with True ok zero nz min_nat show ?thesis
      by (auto simp: recovered_is_expired_def word_less_nat_alt)
  next
    case False
    then have le: "pd_scheduled_at_unix_ms d \<le> now" by simp
    note aft = recover_parts_after [OF le parts]
    have "rem \<le> pd_delay_ms d" using aft(2) by (simp add: word_le_nat_alt)
    with False ok zero min_nat aft le show ?thesis
      by (auto simp: recovered_is_expired_def word_le_nat_alt)
  qed
qed

theorem recover_conservative_witness:
  "\<exists>r. recover \<lparr>pd_scheduled_at_unix_ms = 1000, pd_delay_ms = 500\<rparr> 1200 (MonotonicInstant 7) 100 = Inr r
       \<and> unat (rd_remaining_ms r) \<le> 100 \<and> \<not> recovered_is_expired r"
proof -
  let ?d = "\<lparr>pd_scheduled_at_unix_ms = 1000, pd_delay_ms = 500\<rparr>"
  have "\<exists>r. recover ?d 1200 (MonotonicInstant 7) 100 = Inr r"
    by (simp add: recover_def recover_parts_def Let_def instant_checked_add_def
        duration_from_millis_def INSTANT_MAX_NANOS_def min_def)
  then obtain r where r: "recover ?d 1200 (MonotonicInstant 7) 100 = Inr r" by blast
  from recover_conservative [OF r] have "rd_remaining_ms r \<le> 100" "\<not> recovered_is_expired r"
    by simp_all
  with r show ?thesis by (auto simp: word_le_nat_alt)
qed

lemma retry_budget_bounded: "retry_budget_elapsed_ms r b m \<le> m"
  by (auto simp: retry_budget_elapsed_ms_def Let_def)

lemma unat_retry_budget:
  "unat (retry_budget_elapsed_ms r b m)
     = min (unat b + unat (rd_recovered_wait_elapsed_ms r)) (unat m)"
proof -
  let ?e = "saturating_add b (rd_recovered_wait_elapsed_ms r)"
  have e: "unat ?e = min (unat b + unat (rd_recovered_wait_elapsed_ms r)) (2 ^ 64 - 1)"
    by (simp add: unat_saturating_add)
  have "unat m \<le> 2 ^ 64 - 1" using unsigned_less [of m, where 'a = nat] by simp
  then show ?thesis
    using e by (auto simp: retry_budget_elapsed_ms_def Let_def word_less_nat_alt min_def)
qed

end
