(* ===== verification/Commands.thy ===== *)
theory Commands
  imports Transition Snapshot Delay
begin

text \<open>
  Inputs and outputs of the scheduler, \<open>ariax-core/src/command.rs\<close>: configuration, commands,
  asynchronous task events, ordered side effects with their identities, outcomes with their bounded
  effect list, and the deterministic scheduler errors.
\<close>

section \<open>Configuration\<close>

definition MAX_SCHEDULER_EFFECTS :: nat where
  "MAX_SCHEDULER_EFFECTS = 8"

definition MAX_SCHEDULER_TASKS :: nat where
  "MAX_SCHEDULER_TASKS = 100000"

record scheduler_config =
  cfg_max_tasks :: nat
  cfg_max_active_tasks :: nat
  cfg_retry_wait_holds_slot :: bool
  cfg_slow_readmission_policy :: slow_readmission_policy

datatype scheduler_config_error =
  SCE_TaskLimitExceedsPersistenceLimit | SCE_ActiveLimitExceedsTaskLimit

definition scheduler_config_new ::
  "nat \<Rightarrow> nat \<Rightarrow> bool \<Rightarrow> (scheduler_config_error, scheduler_config) result" where
  "scheduler_config_new max_tasks max_active_tasks retry_wait_holds_slot =
     (if max_tasks > MAX_SCHEDULER_TASKS then Inl SCE_TaskLimitExceedsPersistenceLimit
      else if max_active_tasks > max_tasks then Inl SCE_ActiveLimitExceedsTaskLimit
      else Inr \<lparr>cfg_max_tasks = max_tasks,
                cfg_max_active_tasks = max_active_tasks,
                cfg_retry_wait_holds_slot = retry_wait_holds_slot,
                cfg_slow_readmission_policy = SRP_OriginalPosition\<rparr>)"

section \<open>Persisted queue data\<close>

record queue_order =
  qo_class :: queue_class
  qo_order :: "gid list"

record slow_readmission_decision =
  srd_readmit_at :: monotonic_instant
  srd_scheduled_at_ms :: u64
  srd_delay_ms :: u64

record slow_slot_persistence =
  ssp_original_position :: nat
  ssp_demotion_count :: u32
  ssp_decision :: slow_readmission_decision

section \<open>Barriers\<close>

datatype pending_barrier =
    PB_GenerationPersistence generation
  | PB_CancellationDrain generation drain_target bool
  | PB_TerminalPersistence generation aria2_status
  | PB_OptionPatchPersistence generation option_patch_id
  | PB_OptionPatchApplication generation option_patch_id
  | PB_HostKeyResolution generation host_key_resolution_id host_key_challenge_id
  | PB_StoppedResultDeletion generation stopped_result_deletion_id

primrec pending_barrier_code :: "pending_barrier \<Rightarrow> string" where
  "pending_barrier_code (PB_GenerationPersistence f_generation) = ''generation_persistence''"
| "pending_barrier_code (PB_CancellationDrain f_generation f_target f_force) = ''cancellation_drain''"
| "pending_barrier_code (PB_TerminalPersistence f_generation f_status) = ''terminal_persistence''"
| "pending_barrier_code (PB_OptionPatchPersistence f_generation f_patch_id) = ''option_patch_persistence''"
| "pending_barrier_code (PB_OptionPatchApplication f_generation f_patch_id) = ''option_patch_application''"
| "pending_barrier_code (PB_HostKeyResolution f_generation f_resolution_id f_challenge) = ''host_key_resolution''"
| "pending_barrier_code (PB_StoppedResultDeletion f_generation f_deletion_id) = ''stopped_result_deletion''"

section \<open>Commands\<close>

datatype validated_option_patch_kind =
    OPK_InPlace
  | OPK_ActiveRestart
  | OPK_MatchingHostKey host_key_challenge_id host_key_fingerprint

primrec validated_option_patch_kind_code :: "validated_option_patch_kind \<Rightarrow> string" where
  "validated_option_patch_kind_code OPK_InPlace = ''in_place''"
| "validated_option_patch_kind_code OPK_ActiveRestart = ''active_restart''"
| "validated_option_patch_kind_code (OPK_MatchingHostKey f_challenge f_fingerprint_sha256) = ''matching_host_key''"

datatype scheduler_command =
    Cmd_AddValidatedTask task_id gid bool task_conditions
  | Cmd_AddValidatedTaskAt task_id gid bool task_conditions nat
  | Cmd_Pause gid bool
  | Cmd_Resume gid
  | Cmd_ApproveHostKey gid host_key_challenge_id host_key_fingerprint
  | Cmd_ApplyOptionPatch gid option_patch_id validated_option_patch_kind "credential_requirement_key option"
  | Cmd_BeginSourceReplacement gid
  | Cmd_CommitSourceReplacement gid "credential_requirement_key option"
  | Cmd_Remove gid bool
  | Cmd_RemoveStoppedResult gid
  | Cmd_ChangePosition gid nat
  | Cmd_OrderlyShutdown

primrec command_kind :: "scheduler_command \<Rightarrow> scheduler_command_kind" where
  "command_kind (Cmd_AddValidatedTask f_task_id f_gid f_desired_paused f_conditions) = CMK_AddValidatedTask"
| "command_kind (Cmd_AddValidatedTaskAt f_task_id f_gid f_desired_paused f_conditions f_position) = CMK_AddValidatedTask"
| "command_kind (Cmd_Pause f_gid f_force) = CMK_Pause"
| "command_kind (Cmd_Resume f_gid) = CMK_Resume"
| "command_kind (Cmd_ApproveHostKey f_gid f_challenge f_fingerprint_sha256) = CMK_ApproveHostKey"
| "command_kind (Cmd_ApplyOptionPatch f_gid f_patch_id f_kind f_satisfies_credentials) = CMK_ApplyOptionPatch"
| "command_kind (Cmd_BeginSourceReplacement f_gid) = CMK_BeginSourceReplacement"
| "command_kind (Cmd_CommitSourceReplacement f_gid f_satisfies_credentials) = CMK_CommitSourceReplacement"
| "command_kind (Cmd_Remove f_gid f_force) = CMK_Remove"
| "command_kind (Cmd_RemoveStoppedResult f_gid) = CMK_RemoveStoppedResult"
| "command_kind (Cmd_ChangePosition f_gid f_position) = CMK_ChangePosition"
| "command_kind Cmd_OrderlyShutdown = CMK_OrderlyShutdown"

section \<open>Task events\<close>

datatype (plugins only: code) task_event =
    Ev_GenerationPersisted gid generation
  | Ev_OptionPatchPersisted gid generation option_patch_id
  | Ev_OptionPatchPersistenceFailed gid generation option_patch_id
  | Ev_OptionPatchApplied gid generation option_patch_id
  | Ev_OptionPatchApplicationFailed gid generation option_patch_id public_error
  | Ev_AllocationSucceeded gid generation
  | Ev_AllocationRetryable gid generation monotonic_instant
  | Ev_ActiveHostKeyChallenge gid generation presented_host_key_challenge
  | Ev_AllocationHostKeyChallenge gid generation presented_host_key_challenge
  | Ev_AllocationFailed gid generation public_error
  | Ev_RetryReady gid generation retry_timer_id
  | Ev_ActiveRetryIdle gid generation monotonic_instant
  | Ev_ActiveRepresentationRestart gid generation
  | Ev_DataComplete gid generation bool
  | Ev_NoSpace gid generation no_space_condition
  | Ev_TerminalFailure gid generation public_error
  | Ev_SlowDemoted gid generation slow_readmission_decision
  | Ev_SlowPaused gid generation
  | Ev_SlowReadmit gid generation slow_readmission_id
  | Ev_VerificationSucceeded gid generation
  | Ev_VerificationRecoverable gid generation
  | Ev_VerificationFailed gid generation public_error
  | Ev_SeedingComplete gid generation
  | Ev_SeedingFailed gid generation public_error
  | Ev_CancellationDrained gid generation
  | Ev_NoSpaceProbeCompleted gid generation no_space_probe_id no_space_probe_origin bool "monotonic_instant option"
  | Ev_TerminalPersisted gid generation aria2_status
  | Ev_HostKeyResolutionPersisted gid generation host_key_resolution_id
  | Ev_HostKeyResolutionFailed gid generation host_key_resolution_id
  | Ev_StoppedResultDeleted gid generation stopped_result_deletion_id
  | Ev_StoppedResultDeletionFailed gid generation stopped_result_deletion_id

record task_event_envelope =
  env_task_id :: task_id
  env_event :: task_event

definition for_task :: "task_event \<Rightarrow> task_id \<Rightarrow> task_event_envelope" where
  "for_task event issuer = \<lparr>env_task_id = issuer, env_event = event\<rparr>"

primrec event_gid :: "task_event \<Rightarrow> gid" where
  "event_gid (Ev_GenerationPersisted f_gid f_generation) = f_gid"
| "event_gid (Ev_OptionPatchPersisted f_gid f_generation f_patch_id) = f_gid"
| "event_gid (Ev_OptionPatchPersistenceFailed f_gid f_generation f_patch_id) = f_gid"
| "event_gid (Ev_OptionPatchApplied f_gid f_generation f_patch_id) = f_gid"
| "event_gid (Ev_OptionPatchApplicationFailed f_gid f_generation f_patch_id f_error) = f_gid"
| "event_gid (Ev_AllocationSucceeded f_gid f_generation) = f_gid"
| "event_gid (Ev_AllocationRetryable f_gid f_generation f_retry_at) = f_gid"
| "event_gid (Ev_ActiveHostKeyChallenge f_gid f_generation f_challenge) = f_gid"
| "event_gid (Ev_AllocationHostKeyChallenge f_gid f_generation f_challenge) = f_gid"
| "event_gid (Ev_AllocationFailed f_gid f_generation f_error) = f_gid"
| "event_gid (Ev_RetryReady f_gid f_generation f_retry_timer_id) = f_gid"
| "event_gid (Ev_ActiveRetryIdle f_gid f_generation f_retry_at) = f_gid"
| "event_gid (Ev_ActiveRepresentationRestart f_gid f_generation) = f_gid"
| "event_gid (Ev_DataComplete f_gid f_generation f_seed) = f_gid"
| "event_gid (Ev_NoSpace f_gid f_generation f_condition) = f_gid"
| "event_gid (Ev_TerminalFailure f_gid f_generation f_error) = f_gid"
| "event_gid (Ev_SlowDemoted f_gid f_generation f_decision) = f_gid"
| "event_gid (Ev_SlowPaused f_gid f_generation) = f_gid"
| "event_gid (Ev_SlowReadmit f_gid f_generation f_readmission_id) = f_gid"
| "event_gid (Ev_VerificationSucceeded f_gid f_generation) = f_gid"
| "event_gid (Ev_VerificationRecoverable f_gid f_generation) = f_gid"
| "event_gid (Ev_VerificationFailed f_gid f_generation f_error) = f_gid"
| "event_gid (Ev_SeedingComplete f_gid f_generation) = f_gid"
| "event_gid (Ev_SeedingFailed f_gid f_generation f_error) = f_gid"
| "event_gid (Ev_CancellationDrained f_gid f_generation) = f_gid"
| "event_gid (Ev_NoSpaceProbeCompleted f_gid f_generation f_probe_id f_origin f_ready f_next_retry_at) = f_gid"
| "event_gid (Ev_TerminalPersisted f_gid f_generation f_status) = f_gid"
| "event_gid (Ev_HostKeyResolutionPersisted f_gid f_generation f_resolution_id) = f_gid"
| "event_gid (Ev_HostKeyResolutionFailed f_gid f_generation f_resolution_id) = f_gid"
| "event_gid (Ev_StoppedResultDeleted f_gid f_generation f_deletion_id) = f_gid"
| "event_gid (Ev_StoppedResultDeletionFailed f_gid f_generation f_deletion_id) = f_gid"

primrec event_generation :: "task_event \<Rightarrow> generation" where
  "event_generation (Ev_GenerationPersisted f_gid f_generation) = f_generation"
| "event_generation (Ev_OptionPatchPersisted f_gid f_generation f_patch_id) = f_generation"
| "event_generation (Ev_OptionPatchPersistenceFailed f_gid f_generation f_patch_id) = f_generation"
| "event_generation (Ev_OptionPatchApplied f_gid f_generation f_patch_id) = f_generation"
| "event_generation (Ev_OptionPatchApplicationFailed f_gid f_generation f_patch_id f_error) = f_generation"
| "event_generation (Ev_AllocationSucceeded f_gid f_generation) = f_generation"
| "event_generation (Ev_AllocationRetryable f_gid f_generation f_retry_at) = f_generation"
| "event_generation (Ev_ActiveHostKeyChallenge f_gid f_generation f_challenge) = f_generation"
| "event_generation (Ev_AllocationHostKeyChallenge f_gid f_generation f_challenge) = f_generation"
| "event_generation (Ev_AllocationFailed f_gid f_generation f_error) = f_generation"
| "event_generation (Ev_RetryReady f_gid f_generation f_retry_timer_id) = f_generation"
| "event_generation (Ev_ActiveRetryIdle f_gid f_generation f_retry_at) = f_generation"
| "event_generation (Ev_ActiveRepresentationRestart f_gid f_generation) = f_generation"
| "event_generation (Ev_DataComplete f_gid f_generation f_seed) = f_generation"
| "event_generation (Ev_NoSpace f_gid f_generation f_condition) = f_generation"
| "event_generation (Ev_TerminalFailure f_gid f_generation f_error) = f_generation"
| "event_generation (Ev_SlowDemoted f_gid f_generation f_decision) = f_generation"
| "event_generation (Ev_SlowPaused f_gid f_generation) = f_generation"
| "event_generation (Ev_SlowReadmit f_gid f_generation f_readmission_id) = f_generation"
| "event_generation (Ev_VerificationSucceeded f_gid f_generation) = f_generation"
| "event_generation (Ev_VerificationRecoverable f_gid f_generation) = f_generation"
| "event_generation (Ev_VerificationFailed f_gid f_generation f_error) = f_generation"
| "event_generation (Ev_SeedingComplete f_gid f_generation) = f_generation"
| "event_generation (Ev_SeedingFailed f_gid f_generation f_error) = f_generation"
| "event_generation (Ev_CancellationDrained f_gid f_generation) = f_generation"
| "event_generation (Ev_NoSpaceProbeCompleted f_gid f_generation f_probe_id f_origin f_ready f_next_retry_at) = f_generation"
| "event_generation (Ev_TerminalPersisted f_gid f_generation f_status) = f_generation"
| "event_generation (Ev_HostKeyResolutionPersisted f_gid f_generation f_resolution_id) = f_generation"
| "event_generation (Ev_HostKeyResolutionFailed f_gid f_generation f_resolution_id) = f_generation"
| "event_generation (Ev_StoppedResultDeleted f_gid f_generation f_deletion_id) = f_generation"
| "event_generation (Ev_StoppedResultDeletionFailed f_gid f_generation f_deletion_id) = f_generation"

primrec event_kind :: "task_event \<Rightarrow> task_event_kind" where
  "event_kind (Ev_GenerationPersisted f_gid f_generation) = EK_GenerationPersisted"
| "event_kind (Ev_OptionPatchPersisted f_gid f_generation f_patch_id) = EK_OptionPatchPersisted"
| "event_kind (Ev_OptionPatchPersistenceFailed f_gid f_generation f_patch_id) = EK_OptionPatchPersistenceFailed"
| "event_kind (Ev_OptionPatchApplied f_gid f_generation f_patch_id) = EK_OptionPatchApplied"
| "event_kind (Ev_OptionPatchApplicationFailed f_gid f_generation f_patch_id f_error) = EK_OptionPatchApplicationFailed"
| "event_kind (Ev_AllocationSucceeded f_gid f_generation) = EK_AllocationSucceeded"
| "event_kind (Ev_AllocationRetryable f_gid f_generation f_retry_at) = EK_AllocationRetryable"
| "event_kind (Ev_ActiveHostKeyChallenge f_gid f_generation f_challenge) = EK_ActiveHostKeyChallenge"
| "event_kind (Ev_AllocationHostKeyChallenge f_gid f_generation f_challenge) = EK_AllocationHostKeyChallenge"
| "event_kind (Ev_AllocationFailed f_gid f_generation f_error) = EK_AllocationFailed"
| "event_kind (Ev_RetryReady f_gid f_generation f_retry_timer_id) = EK_RetryReady"
| "event_kind (Ev_ActiveRetryIdle f_gid f_generation f_retry_at) = EK_ActiveRetryIdle"
| "event_kind (Ev_ActiveRepresentationRestart f_gid f_generation) = EK_ActiveRepresentationRestart"
| "event_kind (Ev_DataComplete f_gid f_generation f_seed) = (if f_seed then EK_BitTorrentPayloadComplete else EK_DataComplete)"
| "event_kind (Ev_NoSpace f_gid f_generation f_condition) = EK_NoSpace"
| "event_kind (Ev_TerminalFailure f_gid f_generation f_error) = EK_TerminalFailure"
| "event_kind (Ev_SlowDemoted f_gid f_generation f_decision) = EK_SlowDemoted"
| "event_kind (Ev_SlowPaused f_gid f_generation) = EK_SlowPaused"
| "event_kind (Ev_SlowReadmit f_gid f_generation f_readmission_id) = EK_SlowReadmit"
| "event_kind (Ev_VerificationSucceeded f_gid f_generation) = EK_VerificationSucceeded"
| "event_kind (Ev_VerificationRecoverable f_gid f_generation) = EK_VerificationRecoverable"
| "event_kind (Ev_VerificationFailed f_gid f_generation f_error) = EK_VerificationFailed"
| "event_kind (Ev_SeedingComplete f_gid f_generation) = EK_SeedingComplete"
| "event_kind (Ev_SeedingFailed f_gid f_generation f_error) = EK_SeedingFailed"
| "event_kind (Ev_CancellationDrained f_gid f_generation) = EK_CancellationDrained"
| "event_kind (Ev_NoSpaceProbeCompleted f_gid f_generation f_probe_id f_origin f_ready f_next_retry_at) = EK_NoSpaceProbeCompleted"
| "event_kind (Ev_TerminalPersisted f_gid f_generation f_status) = EK_TerminalPersisted"
| "event_kind (Ev_HostKeyResolutionPersisted f_gid f_generation f_resolution_id) = EK_HostKeyResolutionPersisted"
| "event_kind (Ev_HostKeyResolutionFailed f_gid f_generation f_resolution_id) = EK_HostKeyResolutionFailed"
| "event_kind (Ev_StoppedResultDeleted f_gid f_generation f_deletion_id) = EK_StoppedResultDeleted"
| "event_kind (Ev_StoppedResultDeletionFailed f_gid f_generation f_deletion_id) = EK_StoppedResultDeletionFailed"

primrec event_token :: "task_event \<Rightarrow> task_event_token option" where
  "event_token (Ev_GenerationPersisted f_gid f_generation) = None"
| "event_token (Ev_OptionPatchPersisted f_gid f_generation f_patch_id) = Some (Token_OptionPatch f_patch_id)"
| "event_token (Ev_OptionPatchPersistenceFailed f_gid f_generation f_patch_id) = Some (Token_OptionPatch f_patch_id)"
| "event_token (Ev_OptionPatchApplied f_gid f_generation f_patch_id) = Some (Token_OptionPatch f_patch_id)"
| "event_token (Ev_OptionPatchApplicationFailed f_gid f_generation f_patch_id f_error) = Some (Token_OptionPatch f_patch_id)"
| "event_token (Ev_AllocationSucceeded f_gid f_generation) = None"
| "event_token (Ev_AllocationRetryable f_gid f_generation f_retry_at) = None"
| "event_token (Ev_ActiveHostKeyChallenge f_gid f_generation f_challenge) = None"
| "event_token (Ev_AllocationHostKeyChallenge f_gid f_generation f_challenge) = None"
| "event_token (Ev_AllocationFailed f_gid f_generation f_error) = None"
| "event_token (Ev_RetryReady f_gid f_generation f_retry_timer_id) = Some (Token_RetryTimer f_retry_timer_id)"
| "event_token (Ev_ActiveRetryIdle f_gid f_generation f_retry_at) = None"
| "event_token (Ev_ActiveRepresentationRestart f_gid f_generation) = None"
| "event_token (Ev_DataComplete f_gid f_generation f_seed) = None"
| "event_token (Ev_NoSpace f_gid f_generation f_condition) = None"
| "event_token (Ev_TerminalFailure f_gid f_generation f_error) = None"
| "event_token (Ev_SlowDemoted f_gid f_generation f_decision) = None"
| "event_token (Ev_SlowPaused f_gid f_generation) = None"
| "event_token (Ev_SlowReadmit f_gid f_generation f_readmission_id) = Some (Token_SlowReadmission f_readmission_id)"
| "event_token (Ev_VerificationSucceeded f_gid f_generation) = None"
| "event_token (Ev_VerificationRecoverable f_gid f_generation) = None"
| "event_token (Ev_VerificationFailed f_gid f_generation f_error) = None"
| "event_token (Ev_SeedingComplete f_gid f_generation) = None"
| "event_token (Ev_SeedingFailed f_gid f_generation f_error) = None"
| "event_token (Ev_CancellationDrained f_gid f_generation) = None"
| "event_token (Ev_NoSpaceProbeCompleted f_gid f_generation f_probe_id f_origin f_ready f_next_retry_at) = Some (Token_NoSpaceProbe f_probe_id)"
| "event_token (Ev_TerminalPersisted f_gid f_generation f_status) = None"
| "event_token (Ev_HostKeyResolutionPersisted f_gid f_generation f_resolution_id) = Some (Token_HostKeyResolution f_resolution_id)"
| "event_token (Ev_HostKeyResolutionFailed f_gid f_generation f_resolution_id) = Some (Token_HostKeyResolution f_resolution_id)"
| "event_token (Ev_StoppedResultDeleted f_gid f_generation f_deletion_id) = Some (Token_StoppedResultDeletion f_deletion_id)"
| "event_token (Ev_StoppedResultDeletionFailed f_gid f_generation f_deletion_id) = Some (Token_StoppedResultDeletion f_deletion_id)"

section \<open>Effects\<close>

datatype (plugins only: code) transition_effect =
    Eff_PersistTask task_id gid queue_class nat bool u32 task_conditions
  | Eff_PersistQueueTransition task_id gid "queue_class option" "queue_class option" bool u32 "slow_slot_persistence option" "queue_order list"
  | Eff_StageOptionPatch task_id gid option_patch_id "credential_requirement_key option"
  | Eff_ApplyOptionPatch task_id gid option_patch_id "credential_requirement_key option"
  | Eff_PersistGenerationStarted task_id gid generation
  | Eff_StartAllocation task_id gid generation
  | Eff_CancelGeneration task_id gid generation bool
  | Eff_ReleaseSlot task_id gid slot_ownership
  | Eff_ScheduleRetry task_id gid generation retry_timer_id monotonic_instant
  | Eff_CancelRetry task_id gid generation retry_timer_id
  | Eff_ScheduleSlowReadmission task_id gid generation slow_readmission_id monotonic_instant
  | Eff_CancelSlowReadmission task_id gid generation slow_readmission_id
  | Eff_ProbeNoSpace task_id gid generation no_space_probe_id no_space_probe_origin monotonic_instant
  | Eff_PersistConditions task_id gid task_conditions
  | Eff_PersistHostKeyChallenge task_id gid presented_host_key_challenge
  | Eff_PersistHostKeyPinAndClearChallenge task_id gid host_key_resolution_id host_key_challenge_id host_key_fingerprint "u8 list" "option_patch_id option"
  | Eff_PersistHostKeyChallengeRejected task_id gid host_key_challenge_id
  | Eff_PersistTerminal task_id gid generation aria2_status "public_error option" queue_class queue_class bool u32 "slow_slot_persistence option" "queue_order list"
  | Eff_DeleteStoppedTaskMetadata task_id gid stopped_result_deletion_id "gid list"
  | Eff_PublishSnapshot task_id task_snapshot

record transition_effect_identity =
  ei_task_id :: task_id
  ei_gid :: gid
  ei_kind :: transition_effect_kind
  ei_generation :: "generation option"
  ei_token :: "task_event_token option"

primrec effect_kind :: "transition_effect \<Rightarrow> transition_effect_kind" where
  "effect_kind (Eff_PersistTask f_task_id f_gid f_queue f_position f_desired_paused f_slow_demotion_count f_conditions) = TEK_PersistTask"
| "effect_kind (Eff_PersistQueueTransition f_task_id f_gid f_from f_to f_desired_paused f_slow_demotion_count f_slow_slot f_orders) = TEK_PersistQueueTransition"
| "effect_kind (Eff_StageOptionPatch f_task_id f_gid f_patch_id f_satisfies_credentials) = TEK_StageOptionPatch"
| "effect_kind (Eff_ApplyOptionPatch f_task_id f_gid f_patch_id f_satisfies_credentials) = TEK_ApplyOptionPatch"
| "effect_kind (Eff_PersistGenerationStarted f_task_id f_gid f_generation) = TEK_PersistGenerationStarted"
| "effect_kind (Eff_StartAllocation f_task_id f_gid f_generation) = TEK_StartAllocation"
| "effect_kind (Eff_CancelGeneration f_task_id f_gid f_generation f_force) = TEK_CancelGeneration"
| "effect_kind (Eff_ReleaseSlot f_task_id f_gid f_ownership) = TEK_ReleaseSlot"
| "effect_kind (Eff_ScheduleRetry f_task_id f_gid f_generation f_retry_timer_id f_at) = TEK_ScheduleRetry"
| "effect_kind (Eff_CancelRetry f_task_id f_gid f_generation f_retry_timer_id) = TEK_CancelRetry"
| "effect_kind (Eff_ScheduleSlowReadmission f_task_id f_gid f_generation f_readmission_id f_at) = TEK_ScheduleSlowReadmission"
| "effect_kind (Eff_CancelSlowReadmission f_task_id f_gid f_generation f_readmission_id) = TEK_CancelSlowReadmission"
| "effect_kind (Eff_ProbeNoSpace f_task_id f_gid f_generation f_probe_id f_origin f_at) = TEK_ProbeNoSpace"
| "effect_kind (Eff_PersistConditions f_task_id f_gid f_conditions) = TEK_PersistConditions"
| "effect_kind (Eff_PersistHostKeyChallenge f_task_id f_gid f_challenge) = TEK_PersistHostKeyChallenge"
| "effect_kind (Eff_PersistHostKeyPinAndClearChallenge f_task_id f_gid f_resolution_id f_challenge f_fingerprint_sha256 f_presented_public_key f_option_patch) = TEK_PersistHostKeyPinAndClearChallenge"
| "effect_kind (Eff_PersistHostKeyChallengeRejected f_task_id f_gid f_challenge) = TEK_PersistHostKeyChallengeRejected"
| "effect_kind (Eff_PersistTerminal f_task_id f_gid f_generation f_status f_error f_from f_to f_desired_paused f_slow_demotion_count f_slow_slot f_orders) = TEK_PersistTerminal"
| "effect_kind (Eff_DeleteStoppedTaskMetadata f_task_id f_gid f_deletion_id f_remaining_order) = TEK_DeleteStoppedTaskMetadata"
| "effect_kind (Eff_PublishSnapshot f_task_id f_snapshot) = TEK_PublishSnapshot"

primrec effect_task_id :: "transition_effect \<Rightarrow> task_id" where
  "effect_task_id (Eff_PersistTask f_task_id f_gid f_queue f_position f_desired_paused f_slow_demotion_count f_conditions) = f_task_id"
| "effect_task_id (Eff_PersistQueueTransition f_task_id f_gid f_from f_to f_desired_paused f_slow_demotion_count f_slow_slot f_orders) = f_task_id"
| "effect_task_id (Eff_StageOptionPatch f_task_id f_gid f_patch_id f_satisfies_credentials) = f_task_id"
| "effect_task_id (Eff_ApplyOptionPatch f_task_id f_gid f_patch_id f_satisfies_credentials) = f_task_id"
| "effect_task_id (Eff_PersistGenerationStarted f_task_id f_gid f_generation) = f_task_id"
| "effect_task_id (Eff_StartAllocation f_task_id f_gid f_generation) = f_task_id"
| "effect_task_id (Eff_CancelGeneration f_task_id f_gid f_generation f_force) = f_task_id"
| "effect_task_id (Eff_ReleaseSlot f_task_id f_gid f_ownership) = f_task_id"
| "effect_task_id (Eff_ScheduleRetry f_task_id f_gid f_generation f_retry_timer_id f_at) = f_task_id"
| "effect_task_id (Eff_CancelRetry f_task_id f_gid f_generation f_retry_timer_id) = f_task_id"
| "effect_task_id (Eff_ScheduleSlowReadmission f_task_id f_gid f_generation f_readmission_id f_at) = f_task_id"
| "effect_task_id (Eff_CancelSlowReadmission f_task_id f_gid f_generation f_readmission_id) = f_task_id"
| "effect_task_id (Eff_ProbeNoSpace f_task_id f_gid f_generation f_probe_id f_origin f_at) = f_task_id"
| "effect_task_id (Eff_PersistConditions f_task_id f_gid f_conditions) = f_task_id"
| "effect_task_id (Eff_PersistHostKeyChallenge f_task_id f_gid f_challenge) = f_task_id"
| "effect_task_id (Eff_PersistHostKeyPinAndClearChallenge f_task_id f_gid f_resolution_id f_challenge f_fingerprint_sha256 f_presented_public_key f_option_patch) = f_task_id"
| "effect_task_id (Eff_PersistHostKeyChallengeRejected f_task_id f_gid f_challenge) = f_task_id"
| "effect_task_id (Eff_PersistTerminal f_task_id f_gid f_generation f_status f_error f_from f_to f_desired_paused f_slow_demotion_count f_slow_slot f_orders) = f_task_id"
| "effect_task_id (Eff_DeleteStoppedTaskMetadata f_task_id f_gid f_deletion_id f_remaining_order) = f_task_id"
| "effect_task_id (Eff_PublishSnapshot f_task_id f_snapshot) = f_task_id"

primrec effect_gid :: "transition_effect \<Rightarrow> gid" where
  "effect_gid (Eff_PersistTask f_task_id f_gid f_queue f_position f_desired_paused f_slow_demotion_count f_conditions) = f_gid"
| "effect_gid (Eff_PersistQueueTransition f_task_id f_gid f_from f_to f_desired_paused f_slow_demotion_count f_slow_slot f_orders) = f_gid"
| "effect_gid (Eff_StageOptionPatch f_task_id f_gid f_patch_id f_satisfies_credentials) = f_gid"
| "effect_gid (Eff_ApplyOptionPatch f_task_id f_gid f_patch_id f_satisfies_credentials) = f_gid"
| "effect_gid (Eff_PersistGenerationStarted f_task_id f_gid f_generation) = f_gid"
| "effect_gid (Eff_StartAllocation f_task_id f_gid f_generation) = f_gid"
| "effect_gid (Eff_CancelGeneration f_task_id f_gid f_generation f_force) = f_gid"
| "effect_gid (Eff_ReleaseSlot f_task_id f_gid f_ownership) = f_gid"
| "effect_gid (Eff_ScheduleRetry f_task_id f_gid f_generation f_retry_timer_id f_at) = f_gid"
| "effect_gid (Eff_CancelRetry f_task_id f_gid f_generation f_retry_timer_id) = f_gid"
| "effect_gid (Eff_ScheduleSlowReadmission f_task_id f_gid f_generation f_readmission_id f_at) = f_gid"
| "effect_gid (Eff_CancelSlowReadmission f_task_id f_gid f_generation f_readmission_id) = f_gid"
| "effect_gid (Eff_ProbeNoSpace f_task_id f_gid f_generation f_probe_id f_origin f_at) = f_gid"
| "effect_gid (Eff_PersistConditions f_task_id f_gid f_conditions) = f_gid"
| "effect_gid (Eff_PersistHostKeyChallenge f_task_id f_gid f_challenge) = f_gid"
| "effect_gid (Eff_PersistHostKeyPinAndClearChallenge f_task_id f_gid f_resolution_id f_challenge f_fingerprint_sha256 f_presented_public_key f_option_patch) = f_gid"
| "effect_gid (Eff_PersistHostKeyChallengeRejected f_task_id f_gid f_challenge) = f_gid"
| "effect_gid (Eff_PersistTerminal f_task_id f_gid f_generation f_status f_error f_from f_to f_desired_paused f_slow_demotion_count f_slow_slot f_orders) = f_gid"
| "effect_gid (Eff_DeleteStoppedTaskMetadata f_task_id f_gid f_deletion_id f_remaining_order) = f_gid"
| "effect_gid (Eff_PublishSnapshot f_task_id f_snapshot) = sn_gid f_snapshot"

primrec effect_generation :: "transition_effect \<Rightarrow> generation option" where
  "effect_generation (Eff_PersistTask f_task_id f_gid f_queue f_position f_desired_paused f_slow_demotion_count f_conditions) = None"
| "effect_generation (Eff_PersistQueueTransition f_task_id f_gid f_from f_to f_desired_paused f_slow_demotion_count f_slow_slot f_orders) = None"
| "effect_generation (Eff_StageOptionPatch f_task_id f_gid f_patch_id f_satisfies_credentials) = None"
| "effect_generation (Eff_ApplyOptionPatch f_task_id f_gid f_patch_id f_satisfies_credentials) = None"
| "effect_generation (Eff_PersistGenerationStarted f_task_id f_gid f_generation) = Some f_generation"
| "effect_generation (Eff_StartAllocation f_task_id f_gid f_generation) = Some f_generation"
| "effect_generation (Eff_CancelGeneration f_task_id f_gid f_generation f_force) = Some f_generation"
| "effect_generation (Eff_ReleaseSlot f_task_id f_gid f_ownership) = None"
| "effect_generation (Eff_ScheduleRetry f_task_id f_gid f_generation f_retry_timer_id f_at) = Some f_generation"
| "effect_generation (Eff_CancelRetry f_task_id f_gid f_generation f_retry_timer_id) = Some f_generation"
| "effect_generation (Eff_ScheduleSlowReadmission f_task_id f_gid f_generation f_readmission_id f_at) = Some f_generation"
| "effect_generation (Eff_CancelSlowReadmission f_task_id f_gid f_generation f_readmission_id) = Some f_generation"
| "effect_generation (Eff_ProbeNoSpace f_task_id f_gid f_generation f_probe_id f_origin f_at) = Some f_generation"
| "effect_generation (Eff_PersistConditions f_task_id f_gid f_conditions) = None"
| "effect_generation (Eff_PersistHostKeyChallenge f_task_id f_gid f_challenge) = None"
| "effect_generation (Eff_PersistHostKeyPinAndClearChallenge f_task_id f_gid f_resolution_id f_challenge f_fingerprint_sha256 f_presented_public_key f_option_patch) = None"
| "effect_generation (Eff_PersistHostKeyChallengeRejected f_task_id f_gid f_challenge) = None"
| "effect_generation (Eff_PersistTerminal f_task_id f_gid f_generation f_status f_error f_from f_to f_desired_paused f_slow_demotion_count f_slow_slot f_orders) = Some f_generation"
| "effect_generation (Eff_DeleteStoppedTaskMetadata f_task_id f_gid f_deletion_id f_remaining_order) = None"
| "effect_generation (Eff_PublishSnapshot f_task_id f_snapshot) = Some (sn_generation f_snapshot)"

primrec effect_token :: "transition_effect \<Rightarrow> task_event_token option" where
  "effect_token (Eff_PersistTask f_task_id f_gid f_queue f_position f_desired_paused f_slow_demotion_count f_conditions) = None"
| "effect_token (Eff_PersistQueueTransition f_task_id f_gid f_from f_to f_desired_paused f_slow_demotion_count f_slow_slot f_orders) = None"
| "effect_token (Eff_StageOptionPatch f_task_id f_gid f_patch_id f_satisfies_credentials) = Some (Token_OptionPatch f_patch_id)"
| "effect_token (Eff_ApplyOptionPatch f_task_id f_gid f_patch_id f_satisfies_credentials) = Some (Token_OptionPatch f_patch_id)"
| "effect_token (Eff_PersistGenerationStarted f_task_id f_gid f_generation) = None"
| "effect_token (Eff_StartAllocation f_task_id f_gid f_generation) = None"
| "effect_token (Eff_CancelGeneration f_task_id f_gid f_generation f_force) = None"
| "effect_token (Eff_ReleaseSlot f_task_id f_gid f_ownership) = None"
| "effect_token (Eff_ScheduleRetry f_task_id f_gid f_generation f_retry_timer_id f_at) = Some (Token_RetryTimer f_retry_timer_id)"
| "effect_token (Eff_CancelRetry f_task_id f_gid f_generation f_retry_timer_id) = Some (Token_RetryTimer f_retry_timer_id)"
| "effect_token (Eff_ScheduleSlowReadmission f_task_id f_gid f_generation f_readmission_id f_at) = Some (Token_SlowReadmission f_readmission_id)"
| "effect_token (Eff_CancelSlowReadmission f_task_id f_gid f_generation f_readmission_id) = Some (Token_SlowReadmission f_readmission_id)"
| "effect_token (Eff_ProbeNoSpace f_task_id f_gid f_generation f_probe_id f_origin f_at) = Some (Token_NoSpaceProbe f_probe_id)"
| "effect_token (Eff_PersistConditions f_task_id f_gid f_conditions) = None"
| "effect_token (Eff_PersistHostKeyChallenge f_task_id f_gid f_challenge) = None"
| "effect_token (Eff_PersistHostKeyPinAndClearChallenge f_task_id f_gid f_resolution_id f_challenge f_fingerprint_sha256 f_presented_public_key f_option_patch) = Some (Token_HostKeyResolution f_resolution_id)"
| "effect_token (Eff_PersistHostKeyChallengeRejected f_task_id f_gid f_challenge) = None"
| "effect_token (Eff_PersistTerminal f_task_id f_gid f_generation f_status f_error f_from f_to f_desired_paused f_slow_demotion_count f_slow_slot f_orders) = None"
| "effect_token (Eff_DeleteStoppedTaskMetadata f_task_id f_gid f_deletion_id f_remaining_order) = Some (Token_StoppedResultDeletion f_deletion_id)"
| "effect_token (Eff_PublishSnapshot f_task_id f_snapshot) = None"

definition effect_identity :: "transition_effect \<Rightarrow> transition_effect_identity" where
  "effect_identity e =
     \<lparr>ei_task_id = effect_task_id e, ei_gid = effect_gid e, ei_kind = effect_kind e,
      ei_generation = effect_generation e, ei_token = effect_token e\<rparr>"

section \<open>Errors and outcomes\<close>

datatype (plugins only: code) scheduler_error =
    SE_TaskLimitReached
  | SE_GidCollision
  | SE_TaskIdCollision
  | SE_OptionPatchIdCollision
  | SE_TaskNotFound
  | SE_ActiveLimitReached
  | SE_NoEligibleTask
  | SE_InvalidPosition nat nat
  | SE_StaleGeneration generation generation
  | SE_Conflict task_state string
  | SE_PendingBarrier pending_barrier string
  | SE_GenerationExhausted
  | SE_HostKeyApprovalRequired
  | SE_StaleChallenge
  | SE_StaleCredentialRequirement
  | SE_InvalidTaskConditions
  | SE_InvalidSlowReadmissionDecision
  | SE_InvalidTerminalAcknowledgement
  | SE_ShutdownBatchRequired
  | SE_EffectLimitExceeded
  | SE_InternalInvariant

record scheduler_outcome =
  out_transition :: "state_transition option"
  out_deletion :: "task_deletion option"
  out_effects :: "transition_effect list"

definition outcome_default :: scheduler_outcome where
  "outcome_default = \<lparr>out_transition = None, out_deletion = None, out_effects = []\<rparr>"

definition outcome_checked ::
  "state_transition option \<Rightarrow> task_deletion option \<Rightarrow> transition_effect list \<Rightarrow>
   (scheduler_error, scheduler_outcome) result" where
  "outcome_checked transition deletion effects =
     (if length effects > MAX_SCHEDULER_EFFECTS then Inl SE_EffectLimitExceeded
      else Inr \<lparr>out_transition = transition, out_deletion = deletion, out_effects = effects\<rparr>)"

definition outcome_is_noop :: "scheduler_outcome \<Rightarrow> bool" where
  "outcome_is_noop out \<longleftrightarrow> out_transition out = None \<and> out_deletion out = None \<and> out_effects out = []"

section \<open>Elementary facts\<close>

lemma outcome_checked_ok:
  "outcome_checked tr del es = Inr out \<longleftrightarrow>
     length es \<le> 8 \<and> out = \<lparr>out_transition = tr, out_deletion = del, out_effects = es\<rparr>"
  by (auto simp: outcome_checked_def MAX_SCHEDULER_EFFECTS_def)

lemma scheduler_config_new_ok:
  "scheduler_config_new m a r = Inr c \<Longrightarrow>
   cfg_max_active_tasks c \<le> cfg_max_tasks c \<and> cfg_max_tasks c \<le> 100000"
  by (auto simp: scheduler_config_new_def MAX_SCHEDULER_TASKS_def split: if_splits)

end
