(* ===== verification/SchedulerState.thy ===== *)
theory SchedulerState
  imports Commands
begin

text \<open>
  State of the request scheduler, \<open>ariax-core/src/scheduler.rs\<close>: the scheduled task with its queue
  class and its snapshot, the five queues, the counters that issue correlation identifiers, and the
  scheduler record with its read-only accessors.
\<close>

section \<open>Scheduled tasks\<close>

datatype pending_option_patch_mode = POM_InPlace | POM_ActiveRestart | POM_MatchingHostKey

datatype pending_user_control = PUC_Pause bool | PUC_Resume | PUC_Remove bool

record scheduled_task =
  t_task_id :: task_id
  t_gid :: gid
  t_state :: task_state
  t_generation :: generation
  t_generation_started :: bool
  t_desired_paused :: bool
  t_conditions :: task_conditions
  t_slot :: slot_ownership
  t_pending_barrier :: "pending_barrier option"
  t_retry_timer :: "(retry_timer_id \<times> monotonic_instant) option"
  t_retry_ready :: bool
  t_slow_readmission :: "(slow_readmission_id \<times> monotonic_instant) option"
  t_slow_readmission_ready :: bool
  t_pending_slow_readmission :: "slow_readmission_decision option"
  t_slow_demotion_count :: u32
  t_slow_slot :: "slow_slot_persistence option"
  t_slow_remaining_position :: nat
  t_no_space_probe :: "(no_space_probe_id \<times> no_space_probe_origin) option"
  t_pending_option_patch :: "option_patch_id option"
  t_pending_option_patch_mode :: "pending_option_patch_mode option"
  t_pending_credential_requirement :: "credential_requirement_key option"
  t_pending_user_control :: "pending_user_control option"
  t_pending_source_replacement :: bool
  t_host_key_challenge :: "presented_host_key_challenge option"
  t_error :: "public_error option"
  t_stopped_status :: "aria2_status option"
  t_terminal_persisted :: bool
  t_seen_events :: "task_event_kind set"
  t_last_retry_timer :: "retry_timer_id option"
  t_last_slow_readmission :: "slow_readmission_id option"
  t_last_no_space_probe :: "no_space_probe_id option"
  t_highest_option_patch_id :: "option_patch_id option"
  t_last_option_patch_persistence :: "option_patch_id option"
  t_last_option_patch_application :: "option_patch_id option"
  t_last_host_key_resolution :: "host_key_resolution_id option"
  t_last_stopped_deletion :: "stopped_result_deletion_id option"

definition scheduled_task_new :: "task_id \<Rightarrow> gid \<Rightarrow> bool \<Rightarrow> task_conditions \<Rightarrow> scheduled_task" where
  "scheduled_task_new task g desired_paused conditions =
     \<lparr>t_task_id = task,
      t_gid = g,
      t_state = TS_Accepted,
      t_generation = generation_initial,
      t_generation_started = False,
      t_desired_paused = desired_paused,
      t_conditions = conditions,
      t_slot = SO_None,
      t_pending_barrier = None,
      t_retry_timer = None,
      t_retry_ready = False,
      t_slow_readmission = None,
      t_slow_readmission_ready = False,
      t_pending_slow_readmission = None,
      t_slow_demotion_count = 0,
      t_slow_slot = None,
      t_slow_remaining_position = 0,
      t_no_space_probe = None,
      t_pending_option_patch = None,
      t_pending_option_patch_mode = None,
      t_pending_credential_requirement = None,
      t_pending_user_control = None,
      t_pending_source_replacement = False,
      t_host_key_challenge = None,
      t_error = None,
      t_stopped_status = None,
      t_terminal_persisted = False,
      t_seen_events = {},
      t_last_retry_timer = None,
      t_last_slow_readmission = None,
      t_last_no_space_probe = None,
      t_highest_option_patch_id = None,
      t_last_option_patch_persistence = None,
      t_last_option_patch_application = None,
      t_last_host_key_resolution = None,
      t_last_stopped_deletion = None\<rparr>"

definition is_terminal_persistence :: "pending_barrier option \<Rightarrow> bool" where
  "is_terminal_persistence b \<longleftrightarrow> (case b of Some (PB_TerminalPersistence _ _) \<Rightarrow> True | _ \<Rightarrow> False)"

definition task_queue_class :: "scheduled_task \<Rightarrow> queue_class option" where
  "task_queue_class t =
     (if t_state t \<in> {TS_Accepted, TS_Waiting} then Some QC_Waiting
      else if t_state t = TS_WaitingSlow then Some QC_Demoted
      else if t_state t \<in> {TS_Allocating, TS_Active, TS_Verifying, TS_Seeding} then Some QC_Active
      else if t_state t = TS_RetryWait then
        Some (if owns_slot (t_slot t) then QC_Active else QC_Waiting)
      else if t_state t \<in> {TS_Paused, TS_PausedSlow, TS_PausedHostKey} then Some QC_Paused
      else if t_state t = TS_PausedRestarting then
        Some (if owns_slot (t_slot t) then QC_Active else QC_Waiting)
      else if t_state t \<in> {TS_Complete, TS_Error, TS_Removed} then
        (if is_terminal_persistence (t_pending_barrier t) then Some QC_Stopped
         else if owns_slot (t_slot t) then Some QC_Active else None)
      else Some QC_Stopped)"

definition task_snapshot_of :: "scheduled_task \<Rightarrow> bool \<Rightarrow> task_snapshot" where
  "task_snapshot_of t retry_wait_holds_slot =
     \<lparr>sn_gid = t_gid t,
      sn_state = t_state t,
      sn_generation = t_generation t,
      sn_total_length = None,
      sn_completed_length = 0,
      sn_durable_length = 0,
      sn_current_speed = 0,
      sn_average_speed = 0,
      sn_active_leases = 0,
      sn_retry_wait_leases = 0,
      sn_retry_wait_until = map_option snd (t_retry_timer t),
      sn_last_progress_at = None,
      sn_conditions = task_conditions_to_snapshot (t_conditions t),
      sn_desired_paused = t_desired_paused t,
      sn_retry_wait_holds_slot = (retry_wait_holds_slot \<and> t_slot t = SO_RetryRetained),
      sn_stopped_status = t_stopped_status t,
      sn_host_key_challenge = map_option ph_summary (t_host_key_challenge t),
      sn_error = t_error t,
      sn_terminal_persisted = t_terminal_persisted t\<rparr>"

definition scheduled_task_snapshot :: "scheduled_task \<Rightarrow> bool \<Rightarrow> (scheduler_error, task_snapshot) result" where
  "scheduled_task_snapshot t retry_wait_holds_slot =
     (let sn = task_snapshot_of t retry_wait_holds_slot in
      and_then (map_err (\<lambda>_. SE_InternalInvariant) (snapshot_validate sn)) (\<lambda>_. Inr sn))"

definition clear_generation_event_history :: "scheduled_task \<Rightarrow> scheduled_task" where
  "clear_generation_event_history t =
     t\<lparr>t_seen_events := {},
       t_last_retry_timer := None,
       t_last_slow_readmission := None,
       t_last_no_space_probe := None,
       t_last_option_patch_persistence := None,
       t_last_option_patch_application := None,
       t_last_host_key_resolution := None,
       t_slow_slot := None\<rparr>"

section \<open>Task views\<close>

record scheduler_task_view =
  tv_task_id :: task_id
  tv_gid :: gid
  tv_state :: task_state
  tv_generation :: generation
  tv_queue :: "queue_class option"
  tv_slot :: slot_ownership
  tv_desired_paused :: bool
  tv_conditions :: task_conditions_snapshot
  tv_pending_barrier :: "pending_barrier option"
  tv_retry_timer :: "retry_timer_id option"
  tv_slow_readmission :: "slow_readmission_id option"
  tv_slow_demotion_count :: u32
  tv_slow_slot :: "slow_slot_persistence option"
  tv_no_space_probe :: "no_space_probe_id option"
  tv_pending_option_patch :: "option_patch_id option"
  tv_pending_option_patch_mode :: "pending_option_patch_mode option"
  tv_pending_credential_requirement :: "credential_requirement_key option"
  tv_pending_user_control :: "pending_user_control option"
  tv_pending_source_replacement :: bool

definition task_view :: "scheduled_task \<Rightarrow> scheduler_task_view" where
  "task_view t =
     \<lparr>tv_task_id = t_task_id t,
      tv_gid = t_gid t,
      tv_state = t_state t,
      tv_generation = t_generation t,
      tv_queue = task_queue_class t,
      tv_slot = t_slot t,
      tv_desired_paused = t_desired_paused t,
      tv_conditions = task_conditions_to_snapshot (t_conditions t),
      tv_pending_barrier = t_pending_barrier t,
      tv_retry_timer = map_option fst (t_retry_timer t),
      tv_slow_readmission = map_option fst (t_slow_readmission t),
      tv_slow_demotion_count = t_slow_demotion_count t,
      tv_slow_slot = t_slow_slot t,
      tv_no_space_probe = map_option fst (t_no_space_probe t),
      tv_pending_option_patch = t_pending_option_patch t,
      tv_pending_option_patch_mode = t_pending_option_patch_mode t,
      tv_pending_credential_requirement = t_pending_credential_requirement t,
      tv_pending_user_control = t_pending_user_control t,
      tv_pending_source_replacement = t_pending_source_replacement t\<rparr>"

section \<open>Queues\<close>

record scheduler_queues =
  q_waiting :: "gid list"
  q_demoted :: "gid list"
  q_paused :: "gid list"
  q_active :: "gid list"
  q_stopped :: "gid list"

definition queues_default :: scheduler_queues where
  "queues_default = \<lparr>q_waiting = [], q_demoted = [], q_paused = [], q_active = [], q_stopped = []\<rparr>"

primrec queues_get :: "scheduler_queues \<Rightarrow> queue_class \<Rightarrow> gid list" where
  "queues_get q QC_Waiting = q_waiting q"
| "queues_get q QC_Demoted = q_demoted q"
| "queues_get q QC_Paused = q_paused q"
| "queues_get q QC_Active = q_active q"
| "queues_get q QC_Stopped = q_stopped q"

text \<open>An assignment through \<open>get_mut\<close>.\<close>

primrec queues_set :: "gid list \<Rightarrow> scheduler_queues \<Rightarrow> queue_class \<Rightarrow> scheduler_queues" where
  "queues_set xs q QC_Waiting = q\<lparr>q_waiting := xs\<rparr>"
| "queues_set xs q QC_Demoted = q\<lparr>q_demoted := xs\<rparr>"
| "queues_set xs q QC_Paused = q\<lparr>q_paused := xs\<rparr>"
| "queues_set xs q QC_Active = q\<lparr>q_active := xs\<rparr>"
| "queues_set xs q QC_Stopped = q\<lparr>q_stopped := xs\<rparr>"

section \<open>Correlation identifiers\<close>

record id_counters =
  ic_retry_timer :: u64
  ic_slow_readmission :: u64
  ic_no_space_probe :: u64
  ic_host_key_resolution :: u64
  ic_stopped_deletion :: u64

definition id_counters_default :: id_counters where
  "id_counters_default =
     \<lparr>ic_retry_timer = 1, ic_slow_readmission = 1, ic_no_space_probe = 1,
      ic_host_key_resolution = 1, ic_stopped_deletion = 1\<rparr>"

definition next_id :: "u64 \<Rightarrow> (u64 \<Rightarrow> 'a option) \<Rightarrow> (scheduler_error, 'a \<times> u64) result" where
  "next_id next constructor =
     and_then (ok_or SE_InternalInvariant (constructor next))
       (\<lambda>value. Inr (value, case checked_add next 1 of Some n \<Rightarrow> n | None \<Rightarrow> 0))"

definition ids_retry_timer ::
  "id_counters \<Rightarrow> (scheduler_error, retry_timer_id \<times> id_counters) result" where
  "ids_retry_timer ids =
     and_then (next_id (ic_retry_timer ids) retry_timer_id_new)
       (\<lambda>(v, n). Inr (v, ids\<lparr>ic_retry_timer := n\<rparr>))"

definition ids_slow_readmission ::
  "id_counters \<Rightarrow> (scheduler_error, slow_readmission_id \<times> id_counters) result" where
  "ids_slow_readmission ids =
     and_then (next_id (ic_slow_readmission ids) slow_readmission_id_new)
       (\<lambda>(v, n). Inr (v, ids\<lparr>ic_slow_readmission := n\<rparr>))"

definition ids_no_space_probe ::
  "id_counters \<Rightarrow> (scheduler_error, no_space_probe_id \<times> id_counters) result" where
  "ids_no_space_probe ids =
     and_then (next_id (ic_no_space_probe ids) no_space_probe_id_new)
       (\<lambda>(v, n). Inr (v, ids\<lparr>ic_no_space_probe := n\<rparr>))"

definition ids_host_key_resolution ::
  "id_counters \<Rightarrow> (scheduler_error, host_key_resolution_id \<times> id_counters) result" where
  "ids_host_key_resolution ids =
     and_then (next_id (ic_host_key_resolution ids) host_key_resolution_id_new)
       (\<lambda>(v, n). Inr (v, ids\<lparr>ic_host_key_resolution := n\<rparr>))"

definition ids_stopped_deletion ::
  "id_counters \<Rightarrow> (scheduler_error, stopped_result_deletion_id \<times> id_counters) result" where
  "ids_stopped_deletion ids =
     and_then (next_id (ic_stopped_deletion ids) stopped_result_deletion_id_new)
       (\<lambda>(v, n). Inr (v, ids\<lparr>ic_stopped_deletion := n\<rparr>))"

section \<open>The scheduler\<close>

record request_scheduler =
  rs_config :: scheduler_config
  rs_tasks :: "(gid, scheduled_task) btree"
  rs_task_ids :: "(task_id, gid) btree"
  rs_highest_task_id :: "task_id option"
  rs_queues :: scheduler_queues
  rs_published_snapshots :: "(gid, task_snapshot) btree"
  rs_ids :: id_counters

definition scheduler_new :: "scheduler_config \<Rightarrow> request_scheduler" where
  "scheduler_new config =
     \<lparr>rs_config = config,
      rs_tasks = [],
      rs_task_ids = [],
      rs_highest_task_id = None,
      rs_queues = queues_default,
      rs_published_snapshots = [],
      rs_ids = id_counters_default\<rparr>"

definition configure_queue_policies ::
  "request_scheduler \<Rightarrow> bool \<Rightarrow> slow_readmission_policy \<Rightarrow> request_scheduler" where
  "configure_queue_policies s retry_wait_holds_slot policy =
     s\<lparr>rs_config := (rs_config s)\<lparr>cfg_retry_wait_holds_slot := retry_wait_holds_slot,
                                   cfg_slow_readmission_policy := policy\<rparr>\<rparr>"

definition scheduler_len :: "request_scheduler \<Rightarrow> nat" where
  "scheduler_len s = length (rs_tasks s)"

definition presented_host_key :: "request_scheduler \<Rightarrow> gid \<Rightarrow> presented_host_key_challenge option" where
  "presented_host_key s g = Option.bind (bt_get (rs_tasks s) g) t_host_key_challenge"

definition scheduler_task :: "request_scheduler \<Rightarrow> gid \<Rightarrow> scheduler_task_view option" where
  "scheduler_task s g = map_option task_view (bt_get (rs_tasks s) g)"

definition scheduler_credential_requirement_key ::
  "request_scheduler \<Rightarrow> gid \<Rightarrow> credential_requirement_key option" where
  "scheduler_credential_requirement_key s g =
     Option.bind (bt_get (rs_tasks s) g)
       (\<lambda>t. map_option credential_requirement_key_of (tc_needs_credentials (t_conditions t)))"

definition scheduler_snapshot :: "request_scheduler \<Rightarrow> gid \<Rightarrow> (scheduler_error, task_snapshot) result" where
  "scheduler_snapshot s g = ok_or SE_TaskNotFound (bt_get (rs_published_snapshots s) g)"

definition queue_snapshot :: "request_scheduler \<Rightarrow> queue_class \<Rightarrow> gid list" where
  "queue_snapshot s class = queues_get (rs_queues s) class"

definition active_slot_count :: "request_scheduler \<Rightarrow> nat" where
  "active_slot_count s = length (filter (\<lambda>t. owns_slot (t_slot t)) (bt_values (rs_tasks s)))"

section \<open>Elementary facts\<close>

lemma queues_get_set [simp]:
  "queues_get (queues_set xs q c) d = (if d = c then xs else queues_get q d)"
  by (cases c; cases d) simp_all

lemma queues_get_default [simp]: "queues_get queues_default c = []"
  by (cases c) (simp_all add: queues_default_def)

lemma queues_ext: "(\<And>c. queues_get q c = queues_get r c) \<Longrightarrow> q = r"
proof -
  assume eq: "\<And>c. queues_get q c = queues_get r c"
  have "q_waiting q = q_waiting r" "q_demoted q = q_demoted r" "q_paused q = q_paused r"
    "q_active q = q_active r" "q_stopped q = q_stopped r"
    using eq [of QC_Waiting] eq [of QC_Demoted] eq [of QC_Paused] eq [of QC_Active]
      eq [of QC_Stopped] by simp_all
  then show "q = r" by simp
qed

lemma is_terminal_persistence_iff:
  "is_terminal_persistence b \<longleftrightarrow> (\<exists>g s. b = Some (PB_TerminalPersistence g s))"
  by (auto simp: is_terminal_persistence_def split: option.splits pending_barrier.splits)

lemma is_terminal_persistence_simps [simp]:
  "\<not> is_terminal_persistence None"
  "\<not> is_terminal_persistence (Some (PB_GenerationPersistence g))"
  "\<not> is_terminal_persistence (Some (PB_CancellationDrain g d f))"
  "is_terminal_persistence (Some (PB_TerminalPersistence g s))"
  "\<not> is_terminal_persistence (Some (PB_OptionPatchPersistence g p))"
  "\<not> is_terminal_persistence (Some (PB_OptionPatchApplication g p))"
  "\<not> is_terminal_persistence (Some (PB_HostKeyResolution g r c))"
  "\<not> is_terminal_persistence (Some (PB_StoppedResultDeletion g x))"
  by (simp_all add: is_terminal_persistence_def)

lemma next_id_ok:
  assumes "next_id n c = Inr (v, m)"
  shows "c n = Some v" and "m = (if n = - 1 then 0 else n + 1)"
proof -
  show "c n = Some v" using assms by (auto simp: next_id_def and_then_eq_Inr)
  have "unat (- 1 :: u64) = 2 ^ 64 - 1"
    using unat_max_word [where 'a = 64] by simp
  then have max: "n = - 1 \<longleftrightarrow> 2 ^ 64 \<le> unat n + unat (1 :: u64)"
    using unsigned_less [of n, where 'a = nat] by (auto simp: word_unat_eq_iff)
  show "m = (if n = - 1 then 0 else n + 1)"
    using assms max by (auto simp: next_id_def and_then_eq_Inr checked_add_def split: if_splits)
qed

lemma active_slot_count_entries:
  "active_slot_count s = length (filter (\<lambda>e. owns_slot (t_slot (snd e))) (rs_tasks s))"
  by (simp add: active_slot_count_def bt_values_def filter_map comp_def)

lemma scheduled_task_snapshot_ok:
  "scheduled_task_snapshot t h = Inr sn \<longleftrightarrow>
     sn = task_snapshot_of t h \<and> snapshot_ok (task_snapshot_of t h)"
  using snapshot_validate_okI [of "task_snapshot_of t h"]
    snapshot_validate_okD [of "task_snapshot_of t h"]
  by (auto simp: scheduled_task_snapshot_def Let_def and_then_eq_Inr)

text \<open>When a task's snapshot passes validation, in terms of the task.\<close>

lemma snapshot_ok_task:
  "snapshot_ok (task_snapshot_of t h) \<longleftrightarrow>
     (t_state t = TS_PausedHostKey \<longleftrightarrow> t_host_key_challenge t \<noteq> None)
     \<and> \<not> is_terminal_pending (t_state t)
     \<and> (t_state t = TS_StoppedResult \<longleftrightarrow> t_terminal_persisted t)
     \<and> (t_state t = TS_StoppedResult \<longleftrightarrow> t_stopped_status t \<noteq> None)
     \<and> (\<forall>st. t_stopped_status t = Some st \<longrightarrow> aria2_is_terminal st)
     \<and> (t_stopped_status t = Some AS_Error \<longrightarrow> t_error t \<noteq> None)
     \<and> (blocks_admission (t_conditions t) \<longrightarrow> condition_state (t_state t))"
  by (auto simp: snapshot_ok_def task_snapshot_of_def task_conditions_to_snapshot_def
      blocks_admission_def)

end
