(* ===== verification/SchedulerCore.thy ===== *)
theory SchedulerCore
  imports SchedulerState
begin

text \<open>
  Shared machinery of the scheduler handlers in \<open>ariax-core/src/scheduler.rs\<close>: the target of an
  action, queue updates, the atomic planning and commit of one action (\<open>finish_action\<close>), reordering,
  and the helpers that edit the working copy of a task (slot release, timers, probes, cancellation,
  terminal persistence, deferred user control, admission).

  A method that edits a task clone, an effect list or the identifier counters through mutable
  references returns the edited values; on an error the source drops those copies, so the error
  alone is returned.
\<close>

section \<open>Lookups and guards\<close>

definition task_clone :: "request_scheduler \<Rightarrow> gid \<Rightarrow> (scheduler_error, scheduled_task) result" where
  "task_clone s g = ok_or SE_TaskNotFound (bt_get (rs_tasks s) g)"

definition reject_pending :: "scheduled_task \<Rightarrow> string \<Rightarrow> (scheduler_error, unit) result" where
  "reject_pending t operation =
     (case t_pending_barrier t of
        None \<Rightarrow> Inr ()
      | Some barrier \<Rightarrow> Inl (SE_PendingBarrier barrier operation))"

definition defers_user_control :: "pending_barrier \<Rightarrow> bool" where
  "defers_user_control b =
     (case b of
        PB_OptionPatchPersistence _ _ \<Rightarrow> True
      | PB_OptionPatchApplication _ _ \<Rightarrow> True
      | PB_HostKeyResolution _ _ _ \<Rightarrow> True
      | _ \<Rightarrow> False)"

definition stopped_deletion_barrier :: "scheduled_task \<Rightarrow> pending_barrier option" where
  "stopped_deletion_barrier t =
     (case t_pending_barrier t of
        Some (PB_StoppedResultDeletion generation deletion) \<Rightarrow>
          Some (PB_StoppedResultDeletion generation deletion)
      | _ \<Rightarrow> None)"

definition pending_stopped_deletion :: "request_scheduler \<Rightarrow> pending_barrier option" where
  "pending_stopped_deletion s = find_map stopped_deletion_barrier (bt_values (rs_tasks s))"

definition target_for_action ::
  "scheduled_task \<Rightarrow> scheduler_action \<Rightarrow> (scheduler_error, task_state option) result" where
  "target_for_action t action =
     (let contract = transition_contract (t_state t) action;
          first_target =
            (case ct_targets contract of
               [] \<Rightarrow> Inl SE_InternalInvariant
             | target # _ \<Rightarrow> Inr (Some target))
      in case ct_kind contract of
           TCK_Transition \<Rightarrow> first_target
         | TCK_Stay \<Rightarrow> first_target
         | TCK_Delete \<Rightarrow> Inr None
         | TCK_NoOp \<Rightarrow> Inr (Some (t_state t))
         | TCK_Ignore \<Rightarrow> Inr (Some (t_state t))
         | TCK_Conditional \<Rightarrow> Inl SE_ShutdownBatchRequired
         | TCK_Conflict \<Rightarrow>
             Inl (case ct_rejection contract of
                    Some TR_HostKeyApprovalRequired \<Rightarrow> SE_HostKeyApprovalRequired
                  | _ \<Rightarrow> SE_Conflict (t_state t) (scheduler_action_code action)))"

text \<open>\<open>Self::target_for_action(..)?.ok_or(SchedulerError::InternalInvariant)?\<close>\<close>

definition required_target ::
  "scheduled_task \<Rightarrow> scheduler_action \<Rightarrow> (scheduler_error, task_state) result" where
  "required_target t action = and_then (target_for_action t action) (ok_or SE_InternalInvariant)"

section \<open>Queue updates\<close>

record queue_update =
  qu_class :: queue_class
  qu_order :: "gid list"

definition queue_memberships :: "request_scheduler \<Rightarrow> gid \<Rightarrow> queue_class list" where
  "queue_memberships s g =
     filter (\<lambda>c. g \<in> set (queues_get (rs_queues s) c))
       [QC_Waiting, QC_Demoted, QC_Paused, QC_Active, QC_Stopped]"

definition queue_updates ::
  "request_scheduler \<Rightarrow> gid \<Rightarrow> queue_class option \<Rightarrow> queue_class option \<Rightarrow>
   (scheduler_error, queue_update list) result" where
  "queue_updates s g old_class new_class =
     (if queue_memberships s g \<noteq> (case old_class of Some c \<Rightarrow> [c] | None \<Rightarrow> [])
        then Inl SE_InternalInvariant
      else if old_class = new_class then Inr []
      else
        and_then
          (case old_class of
             None \<Rightarrow> Inr []
           | Some c \<Rightarrow>
               and_then (ok_or SE_InternalInvariant (position g (queues_get (rs_queues s) c)))
                 (\<lambda>p. Inr [\<lparr>qu_class = c, qu_order = remove_at p (queues_get (rs_queues s) c)\<rparr>]))
          (\<lambda>updates.
             case new_class of
               None \<Rightarrow> Inr updates
             | Some c \<Rightarrow>
                 and_then
                   (if old_class = Some c
                    then ok_or SE_InternalInvariant
                           (map_option qu_order (List.find (\<lambda>u. qu_class u = c) updates))
                    else Inr (queues_get (rs_queues s) c))
                   (\<lambda>order. if g \<in> set order then Inl SE_InternalInvariant
                            else Inr (updates @ [\<lparr>qu_class = c, qu_order = order @ [g]\<rparr>]))))"

definition queue_update_orders :: "queue_update list \<Rightarrow> queue_order list" where
  "queue_update_orders us = map (\<lambda>u. \<lparr>qo_class = qu_class u, qo_order = qu_order u\<rparr>) us"

text \<open>
  A new task was appended to its queue; every \<open>PersistTask\<close> effect moves it to the position the
  effect records.
\<close>

fun place_in_update ::
  "gid \<Rightarrow> queue_class \<Rightarrow> nat \<Rightarrow> queue_update list \<Rightarrow> (scheduler_error, queue_update list) result" where
  "place_in_update g queue pos [] = Inl SE_InternalInvariant"
| "place_in_update g queue pos (u # us) =
     (if qu_class u = queue then
        (if qu_order u = [] \<or> last (qu_order u) \<noteq> g \<or> pos > length (butlast (qu_order u))
         then Inl SE_InternalInvariant
         else Inr (u\<lparr>qu_order := insert_at pos g (butlast (qu_order u))\<rparr> # us))
      else and_then (place_in_update g queue pos us) (\<lambda>us'. Inr (u # us')))"

fun place_new_task ::
  "gid \<Rightarrow> transition_effect list \<Rightarrow> queue_update list \<Rightarrow> (scheduler_error, queue_update list) result" where
  "place_new_task g [] updates = Inr updates"
| "place_new_task g (effect # effects) updates =
     (case effect of
        Eff_PersistTask _ _ queue pos _ _ _ \<Rightarrow>
          and_then (place_in_update g queue pos updates) (place_new_task g effects)
      | _ \<Rightarrow> place_new_task g effects updates)"

section \<open>The atomic action\<close>

text \<open>Changes of a stopped queue wait for a pending deletion of stopped metadata.\<close>

definition check_stopped_deletion ::
  "request_scheduler \<Rightarrow> scheduler_action \<Rightarrow> queue_update list \<Rightarrow> (scheduler_error, unit) result" where
  "check_stopped_deletion s action updates =
     (if action \<noteq> SA_StoppedResultDeletionSucceeded
         \<and> list_ex (\<lambda>u. qu_class u = QC_Stopped) updates
      then (case pending_stopped_deletion s of
              Some barrier \<Rightarrow> Inl (SE_PendingBarrier barrier (scheduler_action_code action))
            | None \<Rightarrow> Inr ())
      else Inr ())"

definition terminal_persistence_of ::
  "scheduled_task \<Rightarrow> scheduled_task option \<Rightarrow>
   (generation \<times> aria2_status \<times> public_error option) option" where
  "terminal_persistence_of original updated =
     Option.bind updated (\<lambda>task.
       case t_pending_barrier task of
         Some (PB_TerminalPersistence generation status) \<Rightarrow>
           if t_pending_barrier original \<noteq> t_pending_barrier task
           then Some (generation, status, t_error task) else None
       | _ \<Rightarrow> None)"

text \<open>The durable queue effect of an action, placed first for the three probe and challenge actions.\<close>

definition with_queue_effect ::
  "request_scheduler \<Rightarrow> scheduled_task \<Rightarrow> scheduled_task option \<Rightarrow> bool \<Rightarrow> scheduler_action \<Rightarrow>
   transition_effect list \<Rightarrow> queue_class option \<Rightarrow> queue_class option \<Rightarrow> queue_update list \<Rightarrow>
   (scheduler_error, transition_effect list) result" where
  "with_queue_effect s original updated original_present action effects old_class new_class updates =
     (let desired_paused =
            (case updated of None \<Rightarrow> t_desired_paused original | Some task \<Rightarrow> t_desired_paused task);
          desired_changed =
            (case updated of None \<Rightarrow> False
             | Some task \<Rightarrow> t_desired_paused task \<noteq> t_desired_paused original);
          slow_changed =
            (case updated of None \<Rightarrow> False
             | Some task \<Rightarrow> t_slow_demotion_count task \<noteq> t_slow_demotion_count original
                            \<or> t_slow_slot task \<noteq> t_slow_slot original);
          slow_demotion_count =
            (case updated of None \<Rightarrow> t_slow_demotion_count original
             | Some task \<Rightarrow> t_slow_demotion_count task);
          slow_slot = Option.bind updated t_slow_slot
      in case terminal_persistence_of original updated of
           Some (generation, status, error) \<Rightarrow>
             and_then (ok_or SE_InternalInvariant old_class) (\<lambda>from_class.
             and_then (ok_or SE_InternalInvariant new_class) (\<lambda>to_class.
               if to_class \<noteq> QC_Stopped \<or> updates = [] then Inl SE_InternalInvariant
               else Inr (effects @
                 [Eff_PersistTerminal (t_task_id original) (t_gid original) generation status error
                    from_class to_class desired_paused slow_demotion_count slow_slot
                    (queue_update_orders updates)])))
         | None \<Rightarrow>
             if original_present \<and> updated \<noteq> None
                \<and> (updates \<noteq> [] \<or> desired_changed \<or> slow_changed)
             then
               and_then
                 (if updates = [] then
                    and_then (ok_or SE_InternalInvariant
                        (case old_class of
                           None \<Rightarrow> None
                         | Some c \<Rightarrow> if new_class = Some c then Some c else None))
                      (\<lambda>c. Inr [\<lparr>qo_class = c, qo_order = queues_get (rs_queues s) c\<rparr>])
                  else Inr (queue_update_orders updates))
                 (\<lambda>orders.
                    let queue_effect =
                          Eff_PersistQueueTransition (t_task_id original) (t_gid original)
                            old_class new_class desired_paused slow_demotion_count slow_slot orders
                    in if action \<in> {SA_ExplicitNoSpaceProbeRequested, SA_HostKeyChallengeRequired,
                                    SA_ActiveHostKeyChallengeRequired}
                       then Inr (queue_effect # effects)
                       else Inr (effects @ [queue_effect]))
             else Inr effects)"

definition published_snapshot_of ::
  "request_scheduler \<Rightarrow> scheduled_task option \<Rightarrow> bool \<Rightarrow>
   (scheduler_error, task_snapshot option) result" where
  "published_snapshot_of s updated publish =
     (if publish then
        and_then (ok_or SE_InternalInvariant updated) (\<lambda>task.
        and_then (scheduled_task_snapshot task (cfg_retry_wait_holds_slot (rs_config s)))
          (\<lambda>sn. Inr (Some sn)))
      else Inr None)"

definition outcome_parts ::
  "contract_cell \<Rightarrow> scheduled_task \<Rightarrow> scheduled_task option \<Rightarrow> monotonic_instant \<Rightarrow>
   (scheduler_error, state_transition option \<times> task_deletion option) result" where
  "outcome_parts contract original updated at =
     (let moved =
            and_then (ok_or SE_InternalInvariant updated) (\<lambda>task.
              if t_state task \<notin> set (ct_targets contract) then Inl SE_InternalInvariant
              else Inr (Some \<lparr>st_task = t_task_id task, st_gid = t_gid task,
                              st_generation = t_generation task, st_from = t_state original,
                              st_to = t_state task, st_reason = ct_reason contract, st_at = at\<rparr>,
                        None))
      in case ct_kind contract of
           TCK_Transition \<Rightarrow> moved
         | TCK_Stay \<Rightarrow> moved
         | TCK_Delete \<Rightarrow>
             if updated \<noteq> None then Inl SE_InternalInvariant
             else Inr (None, Some \<lparr>td_task = t_task_id original, td_gid = t_gid original,
                                   td_generation = t_generation original,
                                   td_from = t_state original,
                                   td_reason = ct_reason contract, td_at = at\<rparr>)
         | TCK_NoOp \<Rightarrow> Inl SE_InternalInvariant
         | TCK_Ignore \<Rightarrow> Inl SE_InternalInvariant
         | TCK_Conditional \<Rightarrow> Inl SE_ShutdownBatchRequired
         | TCK_Conflict \<Rightarrow> Inl SE_InternalInvariant)"

text \<open>
  The part of \<open>finish_action\<close> before its first assignment to \<open>self\<close>: the outcome, the queue updates
  to commit and the snapshot to publish, or the error it returns.
\<close>

definition plan_action ::
  "request_scheduler \<Rightarrow> scheduled_task \<Rightarrow> scheduled_task option \<Rightarrow> bool \<Rightarrow> scheduler_action \<Rightarrow>
   monotonic_instant \<Rightarrow> transition_effect list \<Rightarrow> bool \<Rightarrow>
   (scheduler_error, scheduler_outcome \<times> queue_update list \<times> task_snapshot option) result" where
  "plan_action s original updated original_present action at effects publish =
     (let contract = transition_contract (t_state original) action in
      if \<not> contract_accepts contract
      then and_then (target_for_action original action) (\<lambda>_. Inl SE_InternalInvariant)
      else
        let old_class = (if original_present then task_queue_class original else None);
            new_class = Option.bind updated task_queue_class in
        and_then (queue_updates s (t_gid original) old_class new_class) (\<lambda>updates0.
        and_then (if original_present then Inr updates0
                  else place_new_task (t_gid original) effects updates0) (\<lambda>updates.
        and_then (check_stopped_deletion s action updates) (\<lambda>_.
        and_then (with_queue_effect s original updated original_present action effects
                    old_class new_class updates) (\<lambda>effects1.
        and_then (published_snapshot_of s updated publish) (\<lambda>snapshot.
        and_then (outcome_parts contract original updated at) (\<lambda>(transition, deletion).
        and_then (outcome_checked transition deletion
                    (effects1 @ (case snapshot of None \<Rightarrow> []
                                 | Some sn \<Rightarrow> [Eff_PublishSnapshot (t_task_id original) sn])))
          (\<lambda>outcome. Inr (outcome, updates, snapshot)))))))))"

definition apply_queue_updates :: "queue_update list \<Rightarrow> scheduler_queues \<Rightarrow> scheduler_queues" where
  "apply_queue_updates updates q = fold (\<lambda>u q. queues_set (qu_order u) q (qu_class u)) updates q"

text \<open>The assignments at the end of \<open>finish_action\<close>.\<close>

definition commit_action ::
  "request_scheduler \<Rightarrow> scheduled_task \<Rightarrow> scheduled_task option \<Rightarrow> queue_update list \<Rightarrow>
   task_snapshot option \<Rightarrow> id_counters \<Rightarrow> request_scheduler" where
  "commit_action s original updated updates snapshot ids =
     (let s1 = s\<lparr>rs_queues := apply_queue_updates updates (rs_queues s)\<rparr>;
          s2 = (case updated of
                  Some task \<Rightarrow>
                    s1\<lparr>rs_task_ids := bt_insert (t_task_id task) (t_gid task) (rs_task_ids s1),
                       rs_tasks := bt_insert (t_gid task) task (rs_tasks s1)\<rparr>
                | None \<Rightarrow>
                    s1\<lparr>rs_tasks := bt_remove (t_gid original) (rs_tasks s1),
                       rs_task_ids := bt_remove (t_task_id original) (rs_task_ids s1),
                       rs_published_snapshots :=
                         bt_remove (t_gid original) (rs_published_snapshots s1)\<rparr>);
          s3 = (case snapshot of
                  Some sn \<Rightarrow>
                    s2\<lparr>rs_published_snapshots :=
                         bt_insert (t_gid original) sn (rs_published_snapshots s2)\<rparr>
                | None \<Rightarrow> s2)
      in s3\<lparr>rs_ids := ids\<rparr>)"

type_synonym step_result = "(scheduler_error, scheduler_outcome) result \<times> request_scheduler"

definition finish_action ::
  "request_scheduler \<Rightarrow> scheduled_task \<Rightarrow> scheduled_task option \<Rightarrow> bool \<Rightarrow> scheduler_action \<Rightarrow>
   monotonic_instant \<Rightarrow> transition_effect list \<Rightarrow> bool \<Rightarrow> id_counters \<Rightarrow> step_result" where
  "finish_action s original updated original_present action at effects publish ids =
     try_in s (plan_action s original updated original_present action at effects publish)
       (\<lambda>(outcome, updates, snapshot).
          (Inr outcome, commit_action s original updated updates snapshot ids))"

definition ignored_outcome ::
  "scheduled_task \<Rightarrow> scheduler_action \<Rightarrow> monotonic_instant \<Rightarrow>
   (scheduler_error, scheduler_outcome) result" where
  "ignored_outcome t action at =
     (let contract = transition_contract (t_state t) action in
      if ct_kind contract \<noteq> TCK_Ignore then Inl SE_InternalInvariant
      else outcome_checked
             (Some \<lparr>st_task = t_task_id t, st_gid = t_gid t, st_generation = t_generation t,
                    st_from = t_state t, st_to = t_state t, st_reason = ct_reason contract,
                    st_at = at\<rparr>) None [])"

definition queue_effects_for_reorder ::
  "request_scheduler \<Rightarrow> gid \<Rightarrow> queue_class \<Rightarrow> nat \<Rightarrow> step_result" where
  "queue_effects_for_reorder s g class pos =
     (let current = queues_get (rs_queues s) class;
          queue_len = length current
      in if pos \<ge> queue_len then (Inl (SE_InvalidPosition pos queue_len), s)
         else
           try_in s (ok_or SE_InternalInvariant (position g current)) (\<lambda>old_position.
             if old_position = pos then (Inr outcome_default, s)
             else
               let order = insert_at pos g (remove_at old_position current) in
               try_in s (ok_or SE_TaskNotFound (bt_get (rs_tasks s) g)) (\<lambda>task.
               try_in s
                 (outcome_checked None None
                    [Eff_PersistQueueTransition (t_task_id task) g (Some class) (Some class)
                       (t_desired_paused task) (t_slow_demotion_count task) (t_slow_slot task)
                       [\<lparr>qo_class = class, qo_order = order\<rparr>]])
                 (\<lambda>outcome. (Inr outcome, s\<lparr>rs_queues := queues_set order (rs_queues s) class\<rparr>)))))"

section \<open>Edits of a task copy\<close>

definition release_slot ::
  "scheduled_task \<Rightarrow> transition_effect list \<Rightarrow> scheduled_task \<times> transition_effect list" where
  "release_slot t effects =
     (if owns_slot (t_slot t)
      then (t\<lparr>t_slot := SO_None\<rparr>, effects @ [Eff_ReleaseSlot (t_task_id t) (t_gid t) (t_slot t)])
      else (t, effects))"

definition cancel_timers ::
  "scheduled_task \<Rightarrow> transition_effect list \<Rightarrow> scheduled_task \<times> transition_effect list" where
  "cancel_timers t effects =
     (t\<lparr>t_retry_timer := None,
        t_retry_ready := False,
        t_slow_readmission := None,
        t_slow_readmission_ready := False,
        t_pending_slow_readmission := None,
        t_slow_slot := None\<rparr>,
      effects
      @ (case t_retry_timer t of
           None \<Rightarrow> []
         | Some (timer, _) \<Rightarrow> [Eff_CancelRetry (t_task_id t) (t_gid t) (t_generation t) timer])
      @ (case t_slow_readmission t of
           None \<Rightarrow> []
         | Some (readmission, _) \<Rightarrow>
             [Eff_CancelSlowReadmission (t_task_id t) (t_gid t) (t_generation t) readmission]))"

definition schedule_no_space_probe ::
  "scheduled_task \<Rightarrow> no_space_probe_origin \<Rightarrow> monotonic_instant \<Rightarrow> transition_effect list \<Rightarrow>
   id_counters \<Rightarrow>
   (scheduler_error, scheduled_task \<times> transition_effect list \<times> id_counters) result" where
  "schedule_no_space_probe t origin at effects ids =
     (if t_no_space_probe t \<noteq> None then Inr (t, effects, ids)
      else if tc_no_space (t_conditions t) = None then Inl SE_InternalInvariant
      else and_then (ids_no_space_probe ids) (\<lambda>(probe, ids').
        Inr (t\<lparr>t_no_space_probe := Some (probe, origin)\<rparr>,
             effects @ [Eff_ProbeNoSpace (t_task_id t) (t_gid t) (t_generation t) probe origin at],
             ids')))"

definition begin_cancellation ::
  "scheduled_task \<Rightarrow> drain_target \<Rightarrow> bool \<Rightarrow> transition_effect list \<Rightarrow> string \<Rightarrow>
   (scheduler_error, scheduled_task \<times> transition_effect list) result" where
  "begin_cancellation t target force effects operation =
     (let fresh =
            Inr (t\<lparr>t_pending_barrier :=
                     Some (PB_CancellationDrain (t_generation t) target force)\<rparr>,
                 effects @ [Eff_CancelGeneration (t_task_id t) (t_gid t) (t_generation t) force])
      in case t_pending_barrier t of
           None \<Rightarrow> fresh
         | Some (PB_GenerationPersistence _) \<Rightarrow> fresh
         | Some (PB_CancellationDrain generation old_target existing_force) \<Rightarrow>
             if generation = t_generation t then
               Inr (t\<lparr>t_pending_barrier :=
                        Some (PB_CancellationDrain generation target (existing_force \<or> force))\<rparr>,
                    if force \<and> \<not> existing_force
                    then effects @
                      [Eff_CancelGeneration (t_task_id t) (t_gid t) (t_generation t) True]
                    else effects)
             else Inl (SE_PendingBarrier
                         (PB_CancellationDrain generation old_target existing_force) operation)
         | Some barrier \<Rightarrow> Inl (SE_PendingBarrier barrier operation))"

definition begin_terminal ::
  "scheduled_task \<Rightarrow> aria2_status \<Rightarrow> public_error option \<Rightarrow> (scheduler_error, scheduled_task) result" where
  "begin_terminal t status error =
     (if \<not> aria2_is_terminal status \<or> (status = AS_Error \<and> error = None)
      then Inl SE_InternalInvariant
      else Inr (t\<lparr>t_error := error,
                  t_stopped_status := None,
                  t_terminal_persisted := False,
                  t_pending_barrier := Some (PB_TerminalPersistence (t_generation t) status)\<rparr>))"

definition complete_pending_user_control ::
  "scheduled_task \<Rightarrow> scheduled_task \<Rightarrow> transition_effect list \<Rightarrow>
   (scheduler_error, scheduler_action option \<times> scheduled_task \<times> transition_effect list) result" where
  "complete_pending_user_control original updated0 effects =
     (let updated = updated0\<lparr>t_pending_user_control := None\<rparr> in
      case t_pending_user_control updated0 of
        None \<Rightarrow> Inr (None, updated, effects)
      | Some (PUC_Pause force) \<Rightarrow>
          let action = SA_DeferredPauseCompleted in
          and_then (required_target original action) (\<lambda>target.
            let updated = updated\<lparr>t_state := target, t_desired_paused := True\<rparr> in
            if owns_slot (t_slot updated) then
              and_then (begin_cancellation updated DT_Paused force effects ''deferred_pause'')
                (\<lambda>(updated, effects). Inr (Some action, updated, effects))
            else Inr (Some action, updated, effects))
      | Some PUC_Resume \<Rightarrow>
          let action = SA_DeferredResumeCompleted in
          and_then (required_target original action) (\<lambda>target.
            let (updated, effects) =
                  cancel_timers (updated\<lparr>t_state := target, t_desired_paused := False,
                                         t_slow_demotion_count := 0\<rparr>) effects
            in Inr (Some action, updated, effects))
      | Some (PUC_Remove force) \<Rightarrow>
          let action = SA_DeferredRemoveCompleted in
          and_then (required_target original action) (\<lambda>target.
            let (updated, effects) = cancel_timers (updated\<lparr>t_state := target\<rparr>) effects;
                effects = effects @
                  (case t_host_key_challenge updated of
                     None \<Rightarrow> []
                   | Some challenge \<Rightarrow>
                       [Eff_PersistHostKeyChallengeRejected (t_task_id updated) (t_gid updated)
                          (hk_id (ph_summary challenge))]);
                updated = updated\<lparr>t_no_space_probe := None,
                                  t_host_key_challenge := None,
                                  t_pending_option_patch := None,
                                  t_pending_option_patch_mode := None,
                                  t_pending_credential_requirement := None\<rparr>
            in if owns_slot (t_slot updated) then
                 and_then (begin_cancellation updated DT_Removed force effects ''deferred_remove'')
                   (\<lambda>(updated, effects). Inr (Some action, updated, effects))
               else
                 and_then (begin_terminal updated AS_Removed None)
                   (\<lambda>updated. Inr (Some action, updated, effects))))"

definition plan_admission ::
  "request_scheduler \<Rightarrow> scheduled_task \<Rightarrow> scheduler_action \<Rightarrow> transition_effect list \<Rightarrow>
   (scheduler_error, scheduled_task \<times> transition_effect list) result" where
  "plan_admission s t action effects =
     and_then (reject_pending t (scheduler_action_code action)) (\<lambda>_.
       if t_desired_paused t \<or> blocks_admission (t_conditions t) then Inl SE_NoEligibleTask
       else if \<not> owns_slot (t_slot t)
               \<and> active_slot_count s \<ge> cfg_max_active_tasks (rs_config s)
         then Inl SE_ActiveLimitReached
       else
         and_then (required_target t action) (\<lambda>target.
           if target \<noteq> TS_Allocating then Inl SE_InternalInvariant
           else
             and_then (if t_generation_started t
                       then ok_or SE_GenerationExhausted (generation_checked_next (t_generation t))
                       else Inr (t_generation t)) (\<lambda>generation.
               let t1 = (if generation \<noteq> t_generation t
                         then clear_generation_event_history (t\<lparr>t_generation := generation\<rparr>)
                         else t);
                   t2 = t1\<lparr>t_generation_started := True,
                           t_state := target,
                           t_slot := SO_Reserved,
                           t_retry_ready := False,
                           t_slow_readmission_ready := False,
                           t_pending_barrier := Some (PB_GenerationPersistence generation)\<rparr>
               in Inr (t2, effects @
                    [Eff_PersistGenerationStarted (t_task_id t2) (t_gid t2) generation]))))"

end
