(* ===== verification/SchedulerCommands.thy ===== *)
theory SchedulerCommands
  imports SchedulerCore
begin

text \<open>
  Command handlers of \<open>ariax-core/src/scheduler.rs\<close> (\<open>execute_command_at\<close> and the methods it calls).

  Every handler clones the addressed task, edits the clone and an effect list, and ends in an error,
  in an outcome that leaves the scheduler alone, or in one call of \<open>finish_action\<close>. A handler is
  therefore a function to a \<open>plan_result\<close>, the arguments of that final call, and \<open>run_plan\<close> performs
  the call.
\<close>

section \<open>Plans\<close>

record action_plan =
  ap_updated :: "scheduled_task option"
  ap_action :: scheduler_action
  ap_effects :: "transition_effect list"
  ap_publish :: bool
  ap_ids :: id_counters

datatype handler_plan = Plan_Return scheduler_outcome | Plan_Finish action_plan

type_synonym plan_result = "(scheduler_error, handler_plan) result"

definition plan_finish ::
  "scheduled_task \<Rightarrow> scheduler_action \<Rightarrow> transition_effect list \<Rightarrow> bool \<Rightarrow> id_counters \<Rightarrow> plan_result" where
  "plan_finish updated action effects publish ids =
     Inr (Plan_Finish \<lparr>ap_updated = Some updated, ap_action = action, ap_effects = effects,
                       ap_publish = publish, ap_ids = ids\<rparr>)"

definition run_plan ::
  "request_scheduler \<Rightarrow> scheduled_task \<Rightarrow> monotonic_instant \<Rightarrow> plan_result \<Rightarrow> step_result" where
  "run_plan s original at r =
     try_in s r (\<lambda>p. case p of
       Plan_Return outcome \<Rightarrow> (Inr outcome, s)
     | Plan_Finish a \<Rightarrow>
         finish_action s original (ap_updated a) True (ap_action a) at (ap_effects a)
           (ap_publish a) (ap_ids a))"

definition on_task ::
  "request_scheduler \<Rightarrow> gid \<Rightarrow> monotonic_instant \<Rightarrow> (scheduled_task \<Rightarrow> plan_result) \<Rightarrow> step_result" where
  "on_task s g at h = try_in s (task_clone s g) (\<lambda>t. run_plan s t at (h t))"

definition is_cancellation_drain :: "pending_barrier option \<Rightarrow> bool" where
  "is_cancellation_drain b =
     (case b of Some (PB_CancellationDrain _ _ _) \<Rightarrow> True | _ \<Rightarrow> False)"

definition is_host_key_resolution :: "pending_barrier \<Rightarrow> bool" where
  "is_host_key_resolution b = (case b of PB_HostKeyResolution _ _ _ \<Rightarrow> True | _ \<Rightarrow> False)"

definition pending_remove :: "scheduled_task \<Rightarrow> bool" where
  "pending_remove t = (case t_pending_user_control t of Some (PUC_Remove _) \<Rightarrow> True | _ \<Rightarrow> False)"

definition pending_pause :: "scheduled_task \<Rightarrow> bool" where
  "pending_pause t = (case t_pending_user_control t of Some (PUC_Pause _) \<Rightarrow> True | _ \<Rightarrow> False)"

definition deferring_barrier :: "scheduled_task \<Rightarrow> pending_barrier option" where
  "deferring_barrier t =
     (case t_pending_barrier t of
        None \<Rightarrow> None
      | Some barrier \<Rightarrow> if defers_user_control barrier then Some barrier else None)"

section \<open>Adding a task\<close>

definition add_validated_task ::
  "request_scheduler \<Rightarrow> task_id \<Rightarrow> gid \<Rightarrow> bool \<Rightarrow> task_conditions \<Rightarrow> nat option \<Rightarrow>
   monotonic_instant \<Rightarrow> step_result" where
  "add_validated_task s task g desired_paused conditions pos at =
     try_in s (map_err (\<lambda>_. SE_InvalidTaskConditions) (task_conditions_validate conditions)) (\<lambda>_.
       if length (rs_tasks s) \<ge> cfg_max_tasks (rs_config s) then (Inl SE_TaskLimitReached, s)
       else if bt_get (rs_tasks s) g \<noteq> None then (Inl SE_GidCollision, s)
       else if bt_get (rs_task_ids s) task \<noteq> None then (Inl SE_TaskIdCollision, s)
       else if (case rs_highest_task_id s of None \<Rightarrow> False | Some highest \<Rightarrow> task \<le> highest)
         then (Inl SE_TaskIdCollision, s)
       else
         let original = scheduled_task_new task g desired_paused conditions;
             action = for_validated_add desired_paused
         in try_in s (required_target original action) (\<lambda>target.
              let updated = original\<lparr>t_state := target\<rparr> in
              try_in s (ok_or SE_InternalInvariant (task_queue_class updated)) (\<lambda>queue.
                let effects =
                      [Eff_PersistTask task g queue
                         (min (case pos of None \<Rightarrow> usize_max | Some p \<Rightarrow> p)
                              (length (queues_get (rs_queues s) queue)))
                         desired_paused 0 conditions];
                    (res, s') =
                      finish_action s original (Some updated) False action at effects True (rs_ids s)
                in try_in s' res (\<lambda>outcome.
                     (Inr outcome, s'\<lparr>rs_highest_task_id := Some task\<rparr>)))))"

section \<open>Pause\<close>

definition pause_deferred ::
  "request_scheduler \<Rightarrow> scheduled_task \<Rightarrow> pending_barrier \<Rightarrow> bool \<Rightarrow> plan_result" where
  "pause_deferred s original barrier force =
     (if pending_remove original then Inl (SE_PendingBarrier barrier ''pause_after_remove'')
      else
        let (updated, effects) = cancel_timers (original\<lparr>t_desired_paused := True\<rparr>) [];
            updated =
              (if is_host_key_resolution barrier then updated
               else updated\<lparr>t_pending_user_control :=
                 Some (PUC_Pause (force \<or> t_pending_user_control original = Some (PUC_Pause True)))\<rparr>)
        in plan_finish updated SA_PauseDeferred effects True (rs_ids s))"

definition pause_now :: "request_scheduler \<Rightarrow> scheduled_task \<Rightarrow> bool \<Rightarrow> plan_result" where
  "pause_now s original force =
     (if ct_kind (transition_contract (t_state original) SA_Pause) = TCK_NoOp
      then Inr (Plan_Return outcome_default)
      else
        and_then (required_target original SA_Pause) (\<lambda>target.
          let (updated, effects) = cancel_timers (original\<lparr>t_desired_paused := True\<rparr>) [] in
          and_then
            (if t_state original \<in> {TS_Allocating, TS_Active, TS_PausedRestarting, TS_Verifying,
                                     TS_Seeding}
                \<or> is_cancellation_drain (t_pending_barrier original)
             then begin_cancellation updated DT_Paused force effects ''pause''
             else if t_state original = TS_RetryWait then Inr (release_slot updated effects)
             else case t_pending_barrier original of
                    None \<Rightarrow> Inr (updated, effects)
                  | Some barrier \<Rightarrow>
                      if t_state original = TS_PausedHostKey \<and> is_host_key_resolution barrier
                      then Inr (updated, effects)
                      else Inl (SE_PendingBarrier barrier ''pause''))
            (\<lambda>(updated, effects).
               plan_finish (updated\<lparr>t_state := target\<rparr>) SA_Pause effects True (rs_ids s))))"

definition pause_plan :: "request_scheduler \<Rightarrow> scheduled_task \<Rightarrow> bool \<Rightarrow> plan_result" where
  "pause_plan s original force =
     (case deferring_barrier original of
        Some barrier \<Rightarrow> pause_deferred s original barrier force
      | None \<Rightarrow> pause_now s original force)"

section \<open>Resume\<close>

text \<open>The repeated block that cancels the slow readmission of \<open>updated\<close>.\<close>

definition cancel_slow_readmission ::
  "scheduled_task \<Rightarrow> transition_effect list \<Rightarrow> scheduled_task \<times> transition_effect list" where
  "cancel_slow_readmission t effects =
     (t\<lparr>t_slow_readmission := None\<rparr>,
      effects @ (case t_slow_readmission t of
                   None \<Rightarrow> []
                 | Some (readmission, _) \<Rightarrow>
                     [Eff_CancelSlowReadmission (t_task_id t) (t_gid t) (t_generation t) readmission]))"

definition reset_slow_demotions :: "scheduled_task \<Rightarrow> scheduled_task \<Rightarrow> scheduled_task" where
  "reset_slow_demotions original t =
     (if t_state original \<in> {TS_WaitingSlow, TS_PausedSlow}
      then t\<lparr>t_slow_demotion_count := 0\<rparr> else t)"

definition resume_deferred ::
  "request_scheduler \<Rightarrow> scheduled_task \<Rightarrow> pending_barrier \<Rightarrow> plan_result" where
  "resume_deferred s original barrier =
     (if pending_remove original then Inl (SE_PendingBarrier barrier ''resume_after_remove'')
      else if \<not> t_desired_paused original \<and> \<not> pending_pause original
        then Inr (Plan_Return outcome_default)
      else
        let (updated, effects) =
              cancel_slow_readmission
                (reset_slow_demotions original (original\<lparr>t_desired_paused := False\<rparr>)) [];
            updated =
              updated\<lparr>t_slow_readmission_ready := False,
                      t_slow_slot := None,
                      t_pending_user_control :=
                        (if is_host_key_resolution barrier then None
                         else if t_state original \<in> {TS_Paused, TS_PausedSlow} then Some PUC_Resume
                         else None)\<rparr>
        in plan_finish updated SA_ResumeDeferred effects True (rs_ids s))"

definition resume_no_space_probe ::
  "request_scheduler \<Rightarrow> scheduled_task \<Rightarrow> task_state \<Rightarrow> monotonic_instant \<Rightarrow> plan_result" where
  "resume_no_space_probe s original target at =
     (if t_no_space_probe original \<noteq> None \<and> \<not> t_desired_paused original
         \<and> t_state original \<notin> {TS_WaitingSlow, TS_PausedSlow}
      then Inr (Plan_Return outcome_default)
      else
        let updated = original\<lparr>t_desired_paused := False, t_state := target\<rparr>;
            (updated, effects) =
              (if t_state original \<in> {TS_WaitingSlow, TS_PausedSlow} then
                 let (u, e) = cancel_slow_readmission (updated\<lparr>t_slow_demotion_count := 0\<rparr>) []
                 in (u\<lparr>t_slow_readmission_ready := False,
                       t_pending_slow_readmission := None,
                       t_slow_slot := None\<rparr>, e)
               else (updated, []))
        in and_then (schedule_no_space_probe updated NPO_ExplicitResume at effects (rs_ids s))
             (\<lambda>(updated, effects, ids).
                plan_finish updated SA_ExplicitNoSpaceProbeRequested effects True ids))"

definition resume_now :: "request_scheduler \<Rightarrow> scheduled_task \<Rightarrow> monotonic_instant \<Rightarrow> plan_result" where
  "resume_now s original at =
     and_then (reject_pending original ''resume'') (\<lambda>_.
       let action =
             for_resume (t_state original) (task_conditions_to_snapshot (t_conditions original))
       in if ct_kind (transition_contract (t_state original) action) = TCK_NoOp
          then Inr (Plan_Return outcome_default)
          else
            and_then (required_target original action) (\<lambda>target.
              if action = SA_ExplicitNoSpaceProbeRequested
              then resume_no_space_probe s original target at
              else
                let (updated, effects) =
                      cancel_slow_readmission
                        (reset_slow_demotions original (original\<lparr>t_desired_paused := False\<rparr>)) []
                in plan_finish
                     (updated\<lparr>t_slow_readmission_ready := False, t_slow_slot := None,
                              t_state := target\<rparr>) action effects True (rs_ids s)))"

definition resume_plan :: "request_scheduler \<Rightarrow> scheduled_task \<Rightarrow> monotonic_instant \<Rightarrow> plan_result" where
  "resume_plan s original at =
     (if t_pending_source_replacement original
      then Inl (SE_Conflict (t_state original) ''source_replacement_pending'')
      else case deferring_barrier original of
             Some barrier \<Rightarrow> resume_deferred s original barrier
           | None \<Rightarrow> resume_now s original at)"

section \<open>Host-key approval\<close>

text \<open>The challenge a command names, checked against the one the task presents.\<close>

definition matching_challenge ::
  "scheduled_task \<Rightarrow> host_key_challenge_id \<Rightarrow> host_key_fingerprint \<Rightarrow>
   (scheduler_error, presented_host_key_challenge) result" where
  "matching_challenge t challenge fingerprint =
     and_then (ok_or SE_StaleChallenge (t_host_key_challenge t)) (\<lambda>presented.
       if hk_id (ph_summary presented) \<noteq> challenge
          \<or> hk_fingerprint_sha256 (ph_summary presented) \<noteq> fingerprint
       then Inl SE_StaleChallenge else Inr presented)"

definition approve_host_key_plan ::
  "request_scheduler \<Rightarrow> scheduled_task \<Rightarrow> host_key_challenge_id \<Rightarrow> host_key_fingerprint \<Rightarrow>
   plan_result" where
  "approve_host_key_plan s original challenge fingerprint =
     and_then (reject_pending original ''approve_host_key'') (\<lambda>_.
     and_then (matching_challenge original challenge fingerprint) (\<lambda>presented.
     and_then (required_target original SA_ApproveHostKey) (\<lambda>target.
     and_then (ids_host_key_resolution (rs_ids s)) (\<lambda>(resolution, ids).
       plan_finish
         (original\<lparr>t_state := target,
                   t_pending_barrier :=
                     Some (PB_HostKeyResolution (t_generation original) resolution challenge)\<rparr>)
         SA_ApproveHostKey
         [Eff_PersistHostKeyPinAndClearChallenge (t_task_id original) (t_gid original) resolution
            challenge fingerprint (ph_presented_public_key presented) None]
         False ids))))"

section \<open>Source replacement\<close>

definition begin_source_replacement_plan ::
  "request_scheduler \<Rightarrow> scheduled_task \<Rightarrow> plan_result" where
  "begin_source_replacement_plan s original =
     and_then (reject_pending original ''begin_source_replacement'') (\<lambda>_.
       if t_pending_source_replacement original \<or> t_pending_option_patch original \<noteq> None
       then Inl (SE_Conflict (t_state original) ''source_replacement_pending'')
       else
         and_then (required_target original SA_SourceReplacementRequested) (\<lambda>target.
           let (updated, effects) =
                 cancel_timers
                   (original\<lparr>t_state := target, t_pending_source_replacement := True\<rparr>) []
           in and_then
                (if owns_slot (t_slot updated)
                 then begin_cancellation updated DT_PausedRestarting False effects
                        ''source_replacement''
                 else Inr (updated, effects))
                (\<lambda>(updated, effects).
                   plan_finish updated SA_SourceReplacementRequested effects True (rs_ids s))))"

definition needed_credential_key :: "scheduled_task \<Rightarrow> credential_requirement_key option" where
  "needed_credential_key t =
     map_option credential_requirement_key_of (tc_needs_credentials (t_conditions t))"

definition clear_needs_credentials :: "scheduled_task \<Rightarrow> scheduled_task" where
  "clear_needs_credentials t = t\<lparr>t_conditions := (t_conditions t)\<lparr>tc_needs_credentials := None\<rparr>\<rparr>"

definition commit_source_replacement_plan ::
  "request_scheduler \<Rightarrow> scheduled_task \<Rightarrow> credential_requirement_key option \<Rightarrow> plan_result" where
  "commit_source_replacement_plan s original satisfies_credentials =
     and_then (reject_pending original ''commit_source_replacement'') (\<lambda>_.
       if (case satisfies_credentials of
             None \<Rightarrow> False
           | Some key \<Rightarrow> crk_kind key \<notin> {CK_SourceUri, CK_HttpAuthentication})
          \<or> (satisfies_credentials \<noteq> None \<and> needed_credential_key original \<noteq> satisfies_credentials)
       then Inl SE_StaleCredentialRequirement
       else if \<not> t_pending_source_replacement original \<or> owns_slot (t_slot original)
       then Inl (SE_Conflict (t_state original) ''source_replacement_not_quiesced'')
       else
         and_then (required_target original SA_SourceReplacementCommitted) (\<lambda>target.
           let updated = original\<lparr>t_state := target, t_pending_source_replacement := False\<rparr>;
               updated = (if satisfies_credentials \<noteq> None then clear_needs_credentials updated
                          else updated)
           in and_then (ok_or SE_InternalInvariant (task_queue_class original)) (\<lambda>queue.
                if task_queue_class updated \<noteq> Some queue then Inl SE_InternalInvariant
                else
                  plan_finish updated SA_SourceReplacementCommitted
                    [Eff_PersistQueueTransition (t_task_id original) (t_gid original) (Some queue)
                       (Some queue) (t_desired_paused updated) (t_slow_demotion_count updated)
                       (t_slow_slot updated)
                       [\<lparr>qo_class = queue, qo_order = queues_get (rs_queues s) queue\<rparr>]]
                    True (rs_ids s))))"

section \<open>Option patches\<close>

text \<open>The action a patch kind selects in the current state.\<close>

definition option_patch_action ::
  "scheduled_task \<Rightarrow> validated_option_patch_kind \<Rightarrow> (scheduler_error, scheduler_action) result" where
  "option_patch_action original kind =
     (case kind of
        OPK_InPlace \<Rightarrow> Inr SA_InPlaceOptionPatchAccepted
      | OPK_ActiveRestart \<Rightarrow>
          Inr (if t_state original \<in> {TS_Allocating, TS_Active, TS_Verifying}
               then SA_ActiveRestartOptionPatchAccepted else SA_InPlaceOptionPatchAccepted)
      | OPK_MatchingHostKey challenge fingerprint \<Rightarrow>
          and_then (matching_challenge original challenge fingerprint)
            (\<lambda>_. Inr SA_ApplyMatchingHostKeyOption))"

definition apply_in_place_patch ::
  "scheduled_task \<Rightarrow> option_patch_id \<Rightarrow> credential_requirement_key option \<Rightarrow>
   scheduled_task \<times> transition_effect list" where
  "apply_in_place_patch updated patch satisfies_credentials =
     (updated\<lparr>t_pending_option_patch := Some patch,
              t_pending_option_patch_mode := Some POM_InPlace,
              t_pending_credential_requirement := satisfies_credentials,
              t_pending_barrier := Some (PB_OptionPatchApplication (t_generation updated) patch)\<rparr>,
      [Eff_ApplyOptionPatch (t_task_id updated) (t_gid updated) patch satisfies_credentials])"

definition stage_restart_patch ::
  "scheduled_task \<Rightarrow> option_patch_id \<Rightarrow> credential_requirement_key option \<Rightarrow>
   scheduled_task \<times> transition_effect list" where
  "stage_restart_patch updated patch satisfies_credentials =
     (updated\<lparr>t_pending_option_patch := Some patch,
              t_pending_option_patch_mode := Some POM_ActiveRestart,
              t_pending_credential_requirement := satisfies_credentials,
              t_pending_barrier := Some (PB_OptionPatchPersistence (t_generation updated) patch)\<rparr>,
      [Eff_StageOptionPatch (t_task_id updated) (t_gid updated) patch satisfies_credentials])"

definition stale_credential_patch ::
  "scheduled_task \<Rightarrow> validated_option_patch_kind \<Rightarrow> credential_requirement_key option \<Rightarrow>
   (scheduler_error, unit) result" where
  "stale_credential_patch original kind satisfies_credentials =
     (case satisfies_credentials of
        None \<Rightarrow> Inr ()
      | Some expected \<Rightarrow>
          if needed_credential_key original \<noteq> Some expected then Inl SE_StaleCredentialRequirement
          else case kind of
                 OPK_MatchingHostKey _ _ \<Rightarrow>
                   Inl (SE_Conflict (t_state original) ''credential_satisfying_host_key_patch'')
               | _ \<Rightarrow> Inr ())"

definition apply_option_patch_plan ::
  "request_scheduler \<Rightarrow> scheduled_task \<Rightarrow> option_patch_id \<Rightarrow> validated_option_patch_kind \<Rightarrow>
   credential_requirement_key option \<Rightarrow> plan_result" where
  "apply_option_patch_plan s original patch kind satisfies_credentials =
     and_then (reject_pending original ''apply_option_patch'') (\<lambda>_.
       if t_pending_source_replacement original
       then Inl (SE_Conflict (t_state original) ''source_replacement_pending'')
       else if (case t_highest_option_patch_id original of
                  None \<Rightarrow> False | Some highest \<Rightarrow> patch \<le> highest)
       then Inl SE_OptionPatchIdCollision
       else
         and_then (stale_credential_patch original kind satisfies_credentials) (\<lambda>_.
         and_then (option_patch_action original kind) (\<lambda>action.
         and_then (required_target original action) (\<lambda>target.
           let updated = original\<lparr>t_state := target, t_highest_option_patch_id := Some patch\<rparr> in
           case kind of
             OPK_MatchingHostKey challenge fingerprint \<Rightarrow>
               and_then (ok_or SE_StaleChallenge (t_host_key_challenge original)) (\<lambda>presented.
               and_then (ids_host_key_resolution (rs_ids s)) (\<lambda>(resolution, ids).
                 plan_finish
                   (updated\<lparr>t_pending_option_patch := Some patch,
                            t_pending_option_patch_mode := Some POM_MatchingHostKey,
                            t_pending_barrier :=
                              Some (PB_HostKeyResolution (t_generation updated) resolution challenge)\<rparr>)
                   action
                   [Eff_PersistHostKeyPinAndClearChallenge (t_task_id updated) (t_gid updated)
                      resolution challenge fingerprint (ph_presented_public_key presented)
                      (Some patch)]
                   False ids))
           | _ \<Rightarrow>
               if action = SA_InPlaceOptionPatchAccepted then
                 let (updated, effects) = apply_in_place_patch updated patch satisfies_credentials
                 in plan_finish updated action effects False (rs_ids s)
               else if kind = OPK_ActiveRestart then
                 let (updated, effects) = stage_restart_patch updated patch satisfies_credentials
                 in plan_finish updated action effects False (rs_ids s)
               else Inl SE_InternalInvariant))))"

section \<open>Removal\<close>

definition remove_deferred :: "request_scheduler \<Rightarrow> scheduled_task \<Rightarrow> bool \<Rightarrow> plan_result" where
  "remove_deferred s original force =
     (let (updated, effects) = cancel_timers original []
      in plan_finish
           (updated\<lparr>t_no_space_probe := None,
                    t_pending_user_control :=
                      Some (PUC_Remove
                        (force \<or> t_pending_user_control original = Some (PUC_Remove True)))\<rparr>)
           SA_RemoveDeferred effects False (rs_ids s))"

definition reject_challenge_effects :: "scheduled_task \<Rightarrow> transition_effect list" where
  "reject_challenge_effects t =
     (case t_host_key_challenge t of
        None \<Rightarrow> []
      | Some challenge \<Rightarrow>
          [Eff_PersistHostKeyChallengeRejected (t_task_id t) (t_gid t)
             (hk_id (ph_summary challenge))])"

definition remove_now :: "request_scheduler \<Rightarrow> scheduled_task \<Rightarrow> bool \<Rightarrow> plan_result" where
  "remove_now s original force =
     (if ct_kind (transition_contract (t_state original) SA_Remove) = TCK_NoOp
      then Inr (Plan_Return outcome_default)
      else
        and_then (required_target original SA_Remove) (\<lambda>target.
          let (updated, effects) = cancel_timers original [];
              effects = effects @ reject_challenge_effects updated;
              updated = updated\<lparr>t_no_space_probe := None,
                                t_host_key_challenge := None,
                                t_pending_option_patch := None,
                                t_pending_option_patch_mode := None,
                                t_pending_credential_requirement := None,
                                t_pending_user_control := None,
                                t_state := target\<rparr>
          in and_then
               (if t_state original \<in> {TS_Allocating, TS_Active, TS_PausedRestarting, TS_Verifying,
                                        TS_Seeding}
                   \<or> is_cancellation_drain (t_pending_barrier original)
                then begin_cancellation updated DT_Removed force effects ''remove''
                else case t_pending_barrier original of
                       Some barrier \<Rightarrow> Inl (SE_PendingBarrier barrier ''remove'')
                     | None \<Rightarrow>
                         let (updated, effects) = release_slot updated effects
                         in and_then (begin_terminal updated AS_Removed None)
                              (\<lambda>updated. Inr (updated, effects)))
               (\<lambda>(updated, effects). plan_finish updated SA_Remove effects False (rs_ids s))))"

definition remove_plan :: "request_scheduler \<Rightarrow> scheduled_task \<Rightarrow> bool \<Rightarrow> plan_result" where
  "remove_plan s original force =
     (case deferring_barrier original of
        Some barrier \<Rightarrow> remove_deferred s original force
      | None \<Rightarrow> remove_now s original force)"

definition remove_stopped_result_plan :: "request_scheduler \<Rightarrow> scheduled_task \<Rightarrow> plan_result" where
  "remove_stopped_result_plan s original =
     and_then (reject_pending original ''remove_stopped_result'') (\<lambda>_.
       case pending_stopped_deletion s of
         Some barrier \<Rightarrow> Inl (SE_PendingBarrier barrier ''remove_stopped_result'')
       | None \<Rightarrow>
           and_then (required_target original SA_RemoveStoppedResult) (\<lambda>target.
           and_then (ids_stopped_deletion (rs_ids s)) (\<lambda>(deletion, ids).
             let stopped = queues_get (rs_queues s) QC_Stopped in
             and_then (ok_or SE_InternalInvariant (position (t_gid original) stopped)) (\<lambda>p.
               plan_finish
                 (original\<lparr>t_state := target,
                           t_pending_barrier :=
                             Some (PB_StoppedResultDeletion (t_generation original) deletion)\<rparr>)
                 SA_RemoveStoppedResult
                 [Eff_DeleteStoppedTaskMetadata (t_task_id original) (t_gid original) deletion
                    (remove_at p stopped)]
                 False ids))))"

section \<open>Position\<close>

definition change_position :: "request_scheduler \<Rightarrow> gid \<Rightarrow> nat \<Rightarrow> step_result" where
  "change_position s g pos =
     try_in s (task_clone s g) (\<lambda>task.
     try_in s (reject_pending task ''change_position'') (\<lambda>_.
     try_in s (ok_or (SE_Conflict (t_state task) ''change_position'') (task_queue_class task)) (\<lambda>class.
       case (if class = QC_Stopped then pending_stopped_deletion s else None) of
         Some barrier \<Rightarrow> (Inl (SE_PendingBarrier barrier ''change_position''), s)
       | None \<Rightarrow> queue_effects_for_reorder s g class pos)))"

section \<open>Dispatch\<close>

primrec execute_command_at ::
  "request_scheduler \<Rightarrow> monotonic_instant \<Rightarrow> scheduler_command \<Rightarrow> step_result" where
  "execute_command_at s at (Cmd_AddValidatedTask task g paused conditions) =
     add_validated_task s task g paused conditions None at"
| "execute_command_at s at (Cmd_AddValidatedTaskAt task g paused conditions pos) =
     add_validated_task s task g paused conditions (Some pos) at"
| "execute_command_at s at (Cmd_Pause g force) = on_task s g at (\<lambda>t. pause_plan s t force)"
| "execute_command_at s at (Cmd_Resume g) = on_task s g at (\<lambda>t. resume_plan s t at)"
| "execute_command_at s at (Cmd_ApproveHostKey g challenge fingerprint) =
     on_task s g at (\<lambda>t. approve_host_key_plan s t challenge fingerprint)"
| "execute_command_at s at (Cmd_ApplyOptionPatch g patch kind credentials) =
     on_task s g at (\<lambda>t. apply_option_patch_plan s t patch kind credentials)"
| "execute_command_at s at (Cmd_BeginSourceReplacement g) =
     on_task s g at (begin_source_replacement_plan s)"
| "execute_command_at s at (Cmd_CommitSourceReplacement g credentials) =
     on_task s g at (\<lambda>t. commit_source_replacement_plan s t credentials)"
| "execute_command_at s at (Cmd_Remove g force) = on_task s g at (\<lambda>t. remove_plan s t force)"
| "execute_command_at s at (Cmd_RemoveStoppedResult g) = on_task s g at (remove_stopped_result_plan s)"
| "execute_command_at s at (Cmd_ChangePosition g pos) = change_position s g pos"
| "execute_command_at s at Cmd_OrderlyShutdown = (Inl SE_ShutdownBatchRequired, s)"

end
