(* ===== verification/SchedulerEvents.thy ===== *)
theory SchedulerEvents
  imports SchedulerCommands
begin

text \<open>
  Admission (\<open>admit_next_at\<close>) and the handlers of asynchronous task events (\<open>handle_event_at\<close> and the
  methods it calls) of \<open>ariax-core/src/scheduler.rs\<close>, as plans that \<open>run_plan\<close> executes.
\<close>

section \<open>Admission\<close>

definition task_with :: "request_scheduler \<Rightarrow> (scheduled_task \<Rightarrow> bool) \<Rightarrow> gid \<Rightarrow> bool" where
  "task_with s P g = (case bt_get (rs_tasks s) g of None \<Rightarrow> False | Some t \<Rightarrow> P t)"

definition unblocked :: "scheduled_task \<Rightarrow> bool" where
  "unblocked t \<longleftrightarrow>
     t_pending_barrier t = None \<and> \<not> t_desired_paused t \<and> \<not> blocks_admission (t_conditions t)"

definition find_in_queue ::
  "request_scheduler \<Rightarrow> queue_class \<Rightarrow> (scheduled_task \<Rightarrow> bool) \<Rightarrow> gid option" where
  "find_in_queue s class P = List.find (task_with s P) (queues_get (rs_queues s) class)"

definition pending_restart_patch_task :: "scheduled_task \<Rightarrow> bool" where
  "pending_restart_patch_task t \<longleftrightarrow>
     t_state t = TS_Waiting \<and> t_pending_barrier t = None \<and> \<not> t_desired_paused t
     \<and> t_pending_option_patch t \<noteq> None \<and> t_pending_option_patch_mode t = Some POM_ActiveRestart"

definition retained_retry_task :: "scheduled_task \<Rightarrow> bool" where
  "retained_retry_task t \<longleftrightarrow>
     t_state t = TS_RetryWait \<and> t_retry_ready t \<and> t_slot t = SO_RetryRetained \<and> unblocked t"

definition waiting_task :: "scheduled_task \<Rightarrow> bool" where
  "waiting_task t \<longleftrightarrow>
     (\<not> t_pending_source_replacement t
      \<and> (t_state t = TS_Waiting \<or> (t_state t = TS_RetryWait \<and> t_retry_ready t)))
     \<and> unblocked t"

definition demoted_task :: "scheduled_task \<Rightarrow> bool" where
  "demoted_task t \<longleftrightarrow> t_state t = TS_WaitingSlow \<and> t_slow_readmission_ready t \<and> unblocked t"

definition preferred_demoted :: "request_scheduler \<Rightarrow> gid \<Rightarrow> bool" where
  "preferred_demoted s g =
     (case cfg_slow_readmission_policy (rs_config s) of
        SRP_Front \<Rightarrow> True
      | SRP_OriginalPosition \<Rightarrow> task_with s (\<lambda>t. t_slow_remaining_position t = 0) g
      | SRP_Back \<Rightarrow> False)"

definition or_else :: "'a option \<Rightarrow> 'a option \<Rightarrow> 'a option" where
  "or_else x y = (case x of Some a \<Rightarrow> Some a | None \<Rightarrow> y)"

definition slot_blocked_task :: "scheduled_task \<Rightarrow> bool" where
  "slot_blocked_task t \<longleftrightarrow>
     \<not> owns_slot (t_slot t) \<and> unblocked t
     \<and> (t_state t = TS_Waiting
        \<or> (t_state t = TS_RetryWait \<and> t_retry_ready t)
        \<or> (t_state t = TS_WaitingSlow \<and> t_slow_readmission_ready t))"

definition admission_candidate :: "request_scheduler \<Rightarrow> (scheduler_error, gid) result" where
  "admission_candidate s =
     (let pending_restart_patch = find_in_queue s QC_Waiting pending_restart_patch_task;
          retained_retry = find_in_queue s QC_Active retained_retry_task;
          waiting = find_in_queue s QC_Waiting waiting_task;
          demoted = find_in_queue s QC_Demoted demoted_task;
          preferred = (case demoted of
                         None \<Rightarrow> None
                       | Some g \<Rightarrow> if preferred_demoted s g then Some g else None)
      in case or_else pending_restart_patch
                (or_else retained_retry (or_else preferred (or_else waiting demoted))) of
           Some g \<Rightarrow> Inr g
         | None \<Rightarrow>
             Inl (if list_ex slot_blocked_task (bt_values (rs_tasks s))
                     \<and> active_slot_count s \<ge> cfg_max_active_tasks (rs_config s)
                  then SE_ActiveLimitReached else SE_NoEligibleTask))"

text \<open>A restart patch that outlived its generation is applied before the task is readmitted.\<close>

definition restart_application_plan :: "request_scheduler \<Rightarrow> scheduled_task \<Rightarrow> plan_result" where
  "restart_application_plan s original =
     and_then (ok_or SE_InternalInvariant (t_pending_option_patch original)) (\<lambda>patch.
       plan_finish
         (original\<lparr>t_pending_barrier :=
                     Some (PB_OptionPatchApplication (t_generation original) patch)\<rparr>)
         SA_RestartApplicationScheduled
         [Eff_ApplyOptionPatch (t_task_id original) (t_gid original) patch
            (t_pending_credential_requirement original)]
         False (rs_ids s))"

definition admission_action :: "task_state \<Rightarrow> (scheduler_error, scheduler_action) result" where
  "admission_action state =
     (if state = TS_Waiting then Inr SA_SchedulerAdmission
      else if state = TS_RetryWait then Inr SA_RetryReadmissionSucceeded
      else if state = TS_WaitingSlow then Inr SA_SlowReadmissionSucceeded
      else Inl SE_InternalInvariant)"

definition admission_plan :: "request_scheduler \<Rightarrow> scheduled_task \<Rightarrow> plan_result" where
  "admission_plan s original =
     and_then (admission_action (t_state original)) (\<lambda>action.
     and_then (plan_admission s original action []) (\<lambda>(updated, effects).
       plan_finish updated action effects True (rs_ids s)))"

definition decrement_slow_position :: "scheduled_task \<Rightarrow> scheduled_task" where
  "decrement_slow_position t =
     (if t_slow_readmission_ready t
      then t\<lparr>t_slow_remaining_position := t_slow_remaining_position t - 1\<rparr> else t)"

definition admit_next_at :: "request_scheduler \<Rightarrow> monotonic_instant \<Rightarrow> step_result" where
  "admit_next_at s at =
     try_in s (admission_candidate s) (\<lambda>g.
     try_in s (task_clone s g) (\<lambda>original.
       if t_state original = TS_Waiting
          \<and> t_pending_option_patch_mode original = Some POM_ActiveRestart
       then run_plan s original at (restart_application_plan s original)
       else
         let (res, s') = run_plan s original at (admission_plan s original) in
         try_in s' res (\<lambda>outcome.
           (Inr outcome,
            if t_state original \<noteq> TS_WaitingSlow
            then s'\<lparr>rs_tasks := bt_map_values decrement_slow_position (rs_tasks s')\<rparr>
            else s'))))"

section \<open>Dispositions\<close>

definition generation_disposition ::
  "generation \<Rightarrow> generation \<Rightarrow> (scheduler_error, event_disposition) result" where
  "generation_disposition expected actual =
     (if actual < expected then Inr ED_Stale
      else if actual > expected then Inl (SE_StaleGeneration expected actual)
      else Inr ED_Fresh)"

definition token_disposition :: "'a option \<Rightarrow> 'a option \<Rightarrow> 'a \<Rightarrow> event_disposition" where
  "token_disposition expected last_seen actual =
     (if expected = Some actual then ED_Fresh
      else if last_seen = Some actual then ED_Duplicate
      else ED_Stale)"

definition ignored_for_disposition ::
  "scheduled_task \<Rightarrow> event_disposition \<Rightarrow> monotonic_instant \<Rightarrow>
   (scheduler_error, scheduler_outcome) result" where
  "ignored_for_disposition t disposition at =
     (case disposition of
        ED_Fresh \<Rightarrow> Inl SE_InternalInvariant
      | ED_Duplicate \<Rightarrow> ignored_outcome t SA_DuplicateEventIgnored at
      | ED_Stale \<Rightarrow> ignored_outcome t SA_StaleEventIgnored at)"

definition plan_ignored ::
  "scheduled_task \<Rightarrow> event_disposition \<Rightarrow> monotonic_instant \<Rightarrow> plan_result" where
  "plan_ignored t disposition at =
     and_then (ignored_for_disposition t disposition at) (\<lambda>outcome. Inr (Plan_Return outcome))"

definition stale_if_rejected_event ::
  "scheduled_task \<Rightarrow> scheduler_action \<Rightarrow> monotonic_instant \<Rightarrow>
   (scheduler_error, scheduler_outcome option) result" where
  "stale_if_rejected_event t action at =
     (if contract_accepts (transition_contract (t_state t) action) then Inr None
      else and_then (ignored_for_disposition t ED_Stale at) (\<lambda>outcome. Inr (Some outcome)))"

text \<open>\<open>if let Some(outcome) = stale_if_rejected_event(..)? { return Ok(outcome); }\<close>, then go on.\<close>

definition unless_stale ::
  "scheduled_task \<Rightarrow> scheduler_action \<Rightarrow> monotonic_instant \<Rightarrow> plan_result \<Rightarrow> plan_result" where
  "unless_stale t action at continue =
     and_then (stale_if_rejected_event t action at) (\<lambda>ignored.
       case ignored of Some outcome \<Rightarrow> Inr (Plan_Return outcome) | None \<Rightarrow> continue)"

definition mark_non_token_event :: "task_event_kind \<Rightarrow> scheduled_task \<Rightarrow> scheduled_task" where
  "mark_non_token_event kind t = t\<lparr>t_seen_events := insert kind (t_seen_events t)\<rparr>"

section \<open>Generation and option patches\<close>

definition generation_persisted_plan ::
  "request_scheduler \<Rightarrow> scheduled_task \<Rightarrow> generation \<Rightarrow> monotonic_instant \<Rightarrow> plan_result" where
  "generation_persisted_plan s original g at =
     (let action = SA_GenerationPersistenceSucceeded in
      if t_pending_barrier original \<noteq> Some (PB_GenerationPersistence g)
      then plan_ignored original ED_Stale at
      else unless_stale original action at
        (plan_finish
           (mark_non_token_event EK_GenerationPersisted
              (original\<lparr>t_pending_barrier := None, t_slot := SO_Active\<rparr>))
           action [Eff_StartAllocation (t_task_id original) (t_gid original) g] True (rs_ids s)))"

definition expected_patch_persistence :: "scheduled_task \<Rightarrow> option_patch_id option" where
  "expected_patch_persistence t =
     (case t_pending_barrier t of
        Some (PB_OptionPatchPersistence g patch) \<Rightarrow>
          if g = t_generation t then Some patch else None
      | _ \<Rightarrow> None)"

definition expected_patch_application :: "scheduled_task \<Rightarrow> option_patch_id option" where
  "expected_patch_application t =
     (case t_pending_barrier t of
        Some (PB_OptionPatchApplication g patch) \<Rightarrow>
          if g = t_generation t then Some patch else None
      | _ \<Rightarrow> None)"

definition option_patch_persistence_plan ::
  "request_scheduler \<Rightarrow> scheduled_task \<Rightarrow> option_patch_id \<Rightarrow> bool \<Rightarrow> monotonic_instant \<Rightarrow> plan_result" where
  "option_patch_persistence_plan s original patch succeeded at =
     (let disposition =
            token_disposition (expected_patch_persistence original)
              (t_last_option_patch_persistence original) patch
      in if disposition \<noteq> ED_Fresh then plan_ignored original disposition at
         else if t_pending_option_patch original \<noteq> Some patch then Inl SE_InternalInvariant
         else if t_pending_option_patch_mode original \<noteq> Some POM_ActiveRestart
           then Inl SE_InternalInvariant
         else
           let updated = original\<lparr>t_pending_barrier := None,
                                  t_last_option_patch_persistence := Some patch\<rparr>;
               updated = (if succeeded then updated
                          else updated\<lparr>t_pending_option_patch := None,
                                       t_pending_option_patch_mode := None,
                                       t_pending_credential_requirement := None\<rparr>)
           in and_then (complete_pending_user_control original updated [])
                (\<lambda>(completed, updated, effects).
                   case completed of
                     Some action \<Rightarrow>
                       plan_finish updated action effects
                         (action \<noteq> SA_DeferredRemoveCompleted
                          \<and> (succeeded \<or> action \<in> {SA_DeferredPauseCompleted,
                                                   SA_DeferredResumeCompleted}))
                         (rs_ids s)
                   | None \<Rightarrow>
                       let action = (if succeeded then SA_ActiveRestartOptionPatchPersisted
                                     else SA_ActiveRestartOptionPatchPersistenceFailed)
                       in unless_stale original action at
                            (and_then (required_target original action) (\<lambda>target.
                             and_then
                               (if succeeded
                                then begin_cancellation (updated\<lparr>t_state := target\<rparr>)
                                       DT_PausedRestarting False effects ''option_patch_persisted''
                                else Inr (updated\<lparr>t_state := target\<rparr>, effects))
                               (\<lambda>(updated, effects).
                                  plan_finish updated action effects succeeded (rs_ids s))))))"

text \<open>The action of an acknowledged patch application that completes no deferred control.\<close>

definition patch_application_action ::
  "pending_option_patch_mode \<Rightarrow> credential_requirement_key option \<Rightarrow> bool \<Rightarrow>
   (scheduler_error, scheduler_action) result" where
  "patch_application_action mode credentials succeeded =
     (case mode of
        POM_ActiveRestart \<Rightarrow>
          (if succeeded then Inr SA_RestartApplicationSucceeded else Inl SE_InternalInvariant)
      | POM_InPlace \<Rightarrow>
          Inr (case credentials of
                 Some _ \<Rightarrow>
                   (if succeeded then SA_CredentialsSatisfied else SA_CredentialSatisfactionFailed)
               | None \<Rightarrow>
                   (if succeeded then SA_InPlaceOptionPatchApplied
                    else SA_InPlaceOptionPatchApplicationFailed))
      | POM_MatchingHostKey \<Rightarrow> Inl SE_InternalInvariant)"

definition application_publishes :: "scheduler_action \<Rightarrow> bool" where
  "application_publishes action \<longleftrightarrow>
     action \<in> {SA_DeferredPauseCompleted, SA_DeferredResumeCompleted,
               SA_RestartApplicationSucceeded, SA_CredentialsSatisfied}"

text \<open>The task copy after the acknowledgement, before any action is chosen.\<close>

definition patch_application_updated :: "scheduled_task \<Rightarrow> option_patch_id \<Rightarrow> bool \<Rightarrow> scheduled_task" where
  "patch_application_updated original patch succeeded =
     (let updated = original\<lparr>t_pending_barrier := None,
                             t_pending_option_patch := None,
                             t_pending_option_patch_mode := None,
                             t_pending_credential_requirement := None,
                             t_last_option_patch_application := Some patch\<rparr>
      in if succeeded \<and> t_pending_credential_requirement original \<noteq> None
         then clear_needs_credentials updated else updated)"

definition option_patch_application_plan ::
  "request_scheduler \<Rightarrow> scheduled_task \<Rightarrow> option_patch_id \<Rightarrow> public_error option \<Rightarrow>
   monotonic_instant \<Rightarrow> plan_result" where
  "option_patch_application_plan s original patch error at =
     (let disposition =
            token_disposition (expected_patch_application original)
              (t_last_option_patch_application original) patch
      in if disposition \<noteq> ED_Fresh then plan_ignored original disposition at
         else if t_pending_option_patch original \<noteq> Some patch then Inl SE_InternalInvariant
         else
           and_then (ok_or SE_InternalInvariant (t_pending_option_patch_mode original)) (\<lambda>mode.
             if mode = POM_MatchingHostKey then Inl SE_InternalInvariant
             else
               let succeeded = (error = None);
                   credentials = t_pending_credential_requirement original
               in if credentials \<noteq> None \<and> needed_credential_key original \<noteq> credentials
                  then Inl SE_StaleCredentialRequirement
                  else
                    let updated = patch_application_updated original patch succeeded in
                    if pending_remove updated then
                      and_then (complete_pending_user_control original updated [])
                        (\<lambda>(completed, updated, effects).
                           and_then (ok_or SE_InternalInvariant completed) (\<lambda>action.
                             plan_finish updated action effects (application_publishes action)
                               (rs_ids s)))
                    else if mode = POM_ActiveRestart \<and> \<not> succeeded then
                      unless_stale original SA_RestartApplicationFailed at
                        (and_then (required_target original SA_RestartApplicationFailed) (\<lambda>target.
                         and_then (ok_or SE_InternalInvariant error) (\<lambda>e.
                         and_then
                           (begin_terminal
                              (updated\<lparr>t_pending_user_control := None, t_state := target\<rparr>)
                              AS_Error (Some e))
                           (\<lambda>updated.
                              plan_finish updated SA_RestartApplicationFailed []
                                (application_publishes SA_RestartApplicationFailed) (rs_ids s)))))
                    else
                      and_then (complete_pending_user_control original updated [])
                        (\<lambda>(completed, updated, effects).
                           case completed of
                             Some action \<Rightarrow>
                               plan_finish updated action effects (application_publishes action)
                                 (rs_ids s)
                           | None \<Rightarrow>
                               and_then (patch_application_action mode credentials succeeded)
                                 (\<lambda>action. unless_stale original action at
                                    (and_then (required_target original action) (\<lambda>target.
                                       plan_finish (updated\<lparr>t_state := target\<rparr>) action effects
                                         (application_publishes action) (rs_ids s)))))))"

section \<open>Host keys\<close>

definition expected_resolution ::
  "scheduled_task \<Rightarrow> (host_key_resolution_id \<times> host_key_challenge_id) option" where
  "expected_resolution t =
     (case t_pending_barrier t of
        Some (PB_HostKeyResolution g resolution challenge) \<Rightarrow>
          if g = t_generation t then Some (resolution, challenge) else None
      | _ \<Rightarrow> None)"

definition host_key_resolution_plan ::
  "request_scheduler \<Rightarrow> scheduled_task \<Rightarrow> host_key_resolution_id \<Rightarrow> bool \<Rightarrow> monotonic_instant \<Rightarrow>
   plan_result" where
  "host_key_resolution_plan s original resolution succeeded at =
     (let disposition =
            token_disposition (map_option fst (expected_resolution original))
              (t_last_host_key_resolution original) resolution
      in if disposition \<noteq> ED_Fresh then plan_ignored original disposition at
         else if map_option (\<lambda>c. hk_id (ph_summary c)) (t_host_key_challenge original)
                 \<noteq> map_option snd (expected_resolution original)
           then Inl SE_InternalInvariant
         else if t_pending_option_patch original \<noteq> None
                 \<and> t_pending_option_patch_mode original \<noteq> Some POM_MatchingHostKey
           then Inl SE_InternalInvariant
         else
           let updated = original\<lparr>t_pending_barrier := None,
                                  t_pending_option_patch := None,
                                  t_pending_option_patch_mode := None,
                                  t_last_host_key_resolution := Some resolution\<rparr>;
               updated = (if succeeded then updated\<lparr>t_host_key_challenge := None\<rparr> else updated)
           in if pending_remove updated then
                and_then (complete_pending_user_control original updated [])
                  (\<lambda>(completed, updated, effects).
                     and_then (ok_or SE_InternalInvariant completed) (\<lambda>action.
                       plan_finish updated action effects
                         (succeeded \<and> action \<noteq> SA_DeferredRemoveCompleted) (rs_ids s)))
              else
                let action = (if succeeded then for_host_key_resolution (t_desired_paused original)
                              else SA_HostKeyResolutionFailed)
                in unless_stale original action at
                     (and_then (required_target original action) (\<lambda>target.
                        plan_finish (updated\<lparr>t_state := target\<rparr>) action []
                          (succeeded \<and> action \<noteq> SA_DeferredRemoveCompleted) (rs_ids s))))"

section \<open>Allocation\<close>

definition allocation_succeeded_plan ::
  "request_scheduler \<Rightarrow> scheduled_task \<Rightarrow> monotonic_instant \<Rightarrow> plan_result" where
  "allocation_succeeded_plan s original at =
     (let action = SA_AllocationSucceeded in
      unless_stale original action at
        (and_then (required_target original action) (\<lambda>target.
           plan_finish (mark_non_token_event EK_AllocationSucceeded (original\<lparr>t_state := target\<rparr>))
             action [] True (rs_ids s))))"

text \<open>Common to a retryable allocation and an idle active task; they differ in action and event kind.\<close>

definition retry_wait_plan ::
  "request_scheduler \<Rightarrow> scheduled_task \<Rightarrow> scheduler_action \<Rightarrow> task_event_kind \<Rightarrow>
   monotonic_instant \<Rightarrow> monotonic_instant \<Rightarrow> plan_result" where
  "retry_wait_plan s original action kind retry_at at =
     unless_stale original action at
       (and_then (ids_retry_timer (rs_ids s)) (\<lambda>(timer, ids).
        and_then (required_target original action) (\<lambda>target.
          let updated = original\<lparr>t_state := target,
                                 t_retry_timer := Some (timer, retry_at),
                                 t_retry_ready := False\<rparr>;
              (updated, effects) =
                (if cfg_retry_wait_holds_slot (rs_config s)
                 then (updated\<lparr>t_slot := SO_RetryRetained\<rparr>, [])
                 else release_slot updated [])
          in plan_finish (mark_non_token_event kind updated) action
               (effects @ [Eff_ScheduleRetry (t_task_id updated) (t_gid updated)
                             (t_generation updated) timer retry_at])
               True ids)))"

definition allocation_retryable_plan ::
  "request_scheduler \<Rightarrow> scheduled_task \<Rightarrow> monotonic_instant \<Rightarrow> monotonic_instant \<Rightarrow> plan_result" where
  "allocation_retryable_plan s original retry_at at =
     retry_wait_plan s original SA_AllocationRetryableFailure EK_AllocationRetryable retry_at at"

definition active_retry_idle_plan ::
  "request_scheduler \<Rightarrow> scheduled_task \<Rightarrow> monotonic_instant \<Rightarrow> monotonic_instant \<Rightarrow> plan_result" where
  "active_retry_idle_plan s original retry_at at =
     retry_wait_plan s original SA_LeaseRetryableWithoutRunnableWork EK_ActiveRetryIdle retry_at at"

definition allocation_host_key_challenge_plan ::
  "request_scheduler \<Rightarrow> scheduled_task \<Rightarrow> presented_host_key_challenge \<Rightarrow> bool \<Rightarrow> monotonic_instant \<Rightarrow>
   plan_result" where
  "allocation_host_key_challenge_plan s original challenge active at =
     (let action = (if active then SA_ActiveHostKeyChallengeRequired else SA_HostKeyChallengeRequired)
      in unless_stale original action at
        (and_then (required_target original action) (\<lambda>target.
           let (updated, effects) =
                 release_slot
                   (original\<lparr>t_state := target, t_host_key_challenge := Some challenge\<rparr>)
                   [Eff_PersistHostKeyChallenge (t_task_id original) (t_gid original) challenge]
           in plan_finish
                (mark_non_token_event
                   (if active then EK_ActiveHostKeyChallenge else EK_AllocationHostKeyChallenge)
                   updated)
                action effects True (rs_ids s))))"

text \<open>
  Common to the five handlers that release the slot and start terminal persistence: allocation
  failure, verification success and failure, and the end of seeding, complete or failed.
\<close>

definition terminal_plan ::
  "request_scheduler \<Rightarrow> scheduled_task \<Rightarrow> scheduler_action \<Rightarrow> task_event_kind \<Rightarrow> aria2_status \<Rightarrow>
   public_error option \<Rightarrow> monotonic_instant \<Rightarrow> plan_result" where
  "terminal_plan s original action kind status error at =
     unless_stale original action at
       (and_then (required_target original action) (\<lambda>target.
          let (updated, effects) = release_slot (original\<lparr>t_state := target\<rparr>) []
          in and_then (begin_terminal updated status error) (\<lambda>updated.
               plan_finish (mark_non_token_event kind updated) action effects False (rs_ids s))))"

definition allocation_failed_plan ::
  "request_scheduler \<Rightarrow> scheduled_task \<Rightarrow> public_error \<Rightarrow> monotonic_instant \<Rightarrow> plan_result" where
  "allocation_failed_plan s original error at =
     terminal_plan s original SA_AllocationTerminalFailure EK_AllocationFailed AS_Error (Some error) at"

section \<open>Retry and restart of a generation\<close>

definition retry_ready_plan ::
  "request_scheduler \<Rightarrow> scheduled_task \<Rightarrow> retry_timer_id \<Rightarrow> monotonic_instant \<Rightarrow> plan_result" where
  "retry_ready_plan s original timer at =
     (let disposition =
            token_disposition (map_option fst (t_retry_timer original))
              (t_last_retry_timer original) timer
      in if disposition \<noteq> ED_Fresh then plan_ignored original disposition at
         else
           let can_admit = (owns_slot (t_slot original)
                            \<or> active_slot_count s < cfg_max_active_tasks (rs_config s));
               action = (if can_admit \<and> \<not> t_desired_paused original
                            \<and> \<not> blocks_admission (t_conditions original)
                         then SA_RetryReadmissionSucceeded else SA_RetryReadmissionBlocked)
           in unless_stale original action at
                (let updated = original\<lparr>t_retry_timer := None,
                                        t_last_retry_timer := Some timer,
                                        t_retry_ready := True\<rparr>
                 in and_then
                      (if action = SA_RetryReadmissionSucceeded
                       then plan_admission s updated action [] else Inr (updated, []))
                      (\<lambda>(updated, effects). plan_finish updated action effects True (rs_ids s))))"

definition active_representation_restart_plan ::
  "request_scheduler \<Rightarrow> scheduled_task \<Rightarrow> monotonic_instant \<Rightarrow> plan_result" where
  "active_representation_restart_plan s original at =
     (let action = SA_RepresentationRestart in
      unless_stale original action at
        (and_then (plan_admission s original action []) (\<lambda>(updated, effects).
           plan_finish (mark_non_token_event EK_ActiveRepresentationRestart updated) action effects
             True (rs_ids s))))"

section \<open>Active work\<close>

definition data_complete_plan ::
  "request_scheduler \<Rightarrow> scheduled_task \<Rightarrow> bool \<Rightarrow> monotonic_instant \<Rightarrow> plan_result" where
  "data_complete_plan s original seed at =
     (let action = (if seed then SA_BitTorrentPayloadComplete else SA_AllRequiredDataReceived) in
      unless_stale original action at
        (and_then (required_target original action) (\<lambda>target.
           plan_finish
             (mark_non_token_event (if seed then EK_BitTorrentPayloadComplete else EK_DataComplete)
                (original\<lparr>t_state := target\<rparr>))
             action [] True (rs_ids s))))"

definition no_space_plan ::
  "request_scheduler \<Rightarrow> scheduled_task \<Rightarrow> no_space_condition \<Rightarrow> monotonic_instant \<Rightarrow> plan_result" where
  "no_space_plan s original condition at =
     and_then (map_err (\<lambda>_. SE_InvalidTaskConditions) (no_space_condition_validate condition)) (\<lambda>_.
       let action = SA_MidTransferNoSpace in
       unless_stale original action at
         (and_then (required_target original action) (\<lambda>target.
            let updated =
                  original\<lparr>t_state := target,
                           t_conditions := (t_conditions original)\<lparr>tc_no_space := Some condition\<rparr>\<rparr>
            in and_then
                 (begin_cancellation updated DT_Waiting False
                    [Eff_PersistConditions (t_task_id updated) (t_gid updated) (t_conditions updated)]
                    ''no_space'')
                 (\<lambda>(updated, effects).
                    plan_finish (mark_non_token_event EK_NoSpace updated) action effects True
                      (rs_ids s)))))"

definition terminal_failure_plan ::
  "request_scheduler \<Rightarrow> scheduled_task \<Rightarrow> public_error \<Rightarrow> monotonic_instant \<Rightarrow> plan_result" where
  "terminal_failure_plan s original error at =
     (let action = SA_TerminalWorkFailure in
      unless_stale original action at
        (and_then (required_target original action) (\<lambda>target.
         and_then
           (begin_cancellation (original\<lparr>t_state := target, t_error := Some error\<rparr>) DT_Error False []
              ''terminal_failure'')
           (\<lambda>(updated, effects).
              plan_finish (mark_non_token_event EK_TerminalFailure updated) action effects False
                (rs_ids s)))))"

definition slow_demoted_plan ::
  "request_scheduler \<Rightarrow> scheduled_task \<Rightarrow> slow_readmission_decision \<Rightarrow> monotonic_instant \<Rightarrow>
   plan_result" where
  "slow_demoted_plan s original decision at =
     (if srd_delay_ms decision = 0 \<or> srd_scheduled_at_ms decision > MAX_PERSISTED_MILLISECONDS
      then Inl SE_InvalidSlowReadmissionDecision
      else
        let action = SA_SlowSlotDemote in
        unless_stale original action at
          (and_then (required_target original action) (\<lambda>target.
           and_then (ok_or SE_InternalInvariant
                       (position (t_gid original) (queues_get (rs_queues s) QC_Active)))
             (\<lambda>original_position.
           and_then (ok_or SE_InternalInvariant (checked_add (t_slow_demotion_count original) 1))
             (\<lambda>demotion_count.
           and_then
             (begin_cancellation
                (original\<lparr>t_state := target,
                          t_pending_slow_readmission := Some decision,
                          t_slow_demotion_count := demotion_count,
                          t_slow_slot := Some \<lparr>ssp_original_position = original_position,
                                               ssp_demotion_count = demotion_count,
                                               ssp_decision = decision\<rparr>,
                          t_slow_remaining_position := original_position\<rparr>)
                DT_WaitingSlow False [] ''slow_demoted'')
             (\<lambda>(updated, effects).
                plan_finish (mark_non_token_event EK_SlowDemoted updated) action effects True
                  (rs_ids s)))))))"

definition slow_paused_plan ::
  "request_scheduler \<Rightarrow> scheduled_task \<Rightarrow> monotonic_instant \<Rightarrow> plan_result" where
  "slow_paused_plan s original at =
     (let action = SA_SlowSlotPause in
      unless_stale original action at
        (and_then (required_target original action) (\<lambda>target.
         and_then
           (begin_cancellation (original\<lparr>t_state := target, t_desired_paused := True\<rparr>)
              DT_PausedSlow False [] ''slow_paused'')
           (\<lambda>(updated, effects).
              plan_finish (mark_non_token_event EK_SlowPaused updated) action effects True
                (rs_ids s)))))"

text \<open>Whether an eligible waiting task goes before a demoted one under the readmission policy.\<close>

definition waiting_first :: "request_scheduler \<Rightarrow> scheduled_task \<Rightarrow> bool" where
  "waiting_first s original \<longleftrightarrow>
     list_ex (task_with s (\<lambda>t. unblocked t
         \<and> (t_state t = TS_Waiting \<or> (t_state t = TS_RetryWait \<and> t_retry_ready t))))
       (queues_get (rs_queues s) QC_Waiting)
     \<and> (case cfg_slow_readmission_policy (rs_config s) of
          SRP_Front \<Rightarrow> False
        | SRP_OriginalPosition \<Rightarrow> t_slow_remaining_position original \<noteq> 0
        | SRP_Back \<Rightarrow> True)"

definition slow_readmit_plan ::
  "request_scheduler \<Rightarrow> scheduled_task \<Rightarrow> slow_readmission_id \<Rightarrow> monotonic_instant \<Rightarrow> plan_result" where
  "slow_readmit_plan s original readmission at =
     (let disposition =
            token_disposition (map_option fst (t_slow_readmission original))
              (t_last_slow_readmission original) readmission
      in if disposition \<noteq> ED_Fresh then plan_ignored original disposition at
         else
           let can_admit = (\<not> waiting_first s original
                            \<and> active_slot_count s < cfg_max_active_tasks (rs_config s)
                            \<and> \<not> t_desired_paused original
                            \<and> \<not> blocks_admission (t_conditions original));
               action = (if can_admit then SA_SlowReadmissionSucceeded
                         else SA_SlowReadmissionBlocked)
           in unless_stale original action at
                (let updated = original\<lparr>t_slow_readmission := None,
                                        t_last_slow_readmission := Some readmission,
                                        t_slow_readmission_ready := True\<rparr>
                 in and_then
                      (if action = SA_SlowReadmissionSucceeded
                       then plan_admission s updated action [] else Inr (updated, []))
                      (\<lambda>(updated, effects). plan_finish updated action effects True (rs_ids s))))"

section \<open>Verification and seeding\<close>

definition verification_succeeded_plan ::
  "request_scheduler \<Rightarrow> scheduled_task \<Rightarrow> monotonic_instant \<Rightarrow> plan_result" where
  "verification_succeeded_plan s original at =
     terminal_plan s original SA_VerificationSucceeded EK_VerificationSucceeded AS_Complete None at"

definition verification_recoverable_plan ::
  "request_scheduler \<Rightarrow> scheduled_task \<Rightarrow> monotonic_instant \<Rightarrow> plan_result" where
  "verification_recoverable_plan s original at =
     (let action = SA_VerificationRecoverableFailure in
      unless_stale original action at
        (and_then (required_target original action) (\<lambda>target.
           let (updated, effects) = release_slot (original\<lparr>t_state := target\<rparr>) []
           in plan_finish (mark_non_token_event EK_VerificationRecoverable updated) action effects
                True (rs_ids s))))"

definition verification_failed_plan ::
  "request_scheduler \<Rightarrow> scheduled_task \<Rightarrow> public_error \<Rightarrow> monotonic_instant \<Rightarrow> plan_result" where
  "verification_failed_plan s original error at =
     terminal_plan s original SA_VerificationTerminalFailure EK_VerificationFailed AS_Error
       (Some error) at"

definition seeding_complete_plan ::
  "request_scheduler \<Rightarrow> scheduled_task \<Rightarrow> monotonic_instant \<Rightarrow> plan_result" where
  "seeding_complete_plan s original at =
     terminal_plan s original SA_SeedingStopped EK_SeedingComplete AS_Complete None at"

definition seeding_failed_plan ::
  "request_scheduler \<Rightarrow> scheduled_task \<Rightarrow> public_error \<Rightarrow> monotonic_instant \<Rightarrow> plan_result" where
  "seeding_failed_plan s original error at =
     terminal_plan s original SA_BitTorrentFailure EK_SeedingFailed AS_Error (Some error) at"

section \<open>Cancellation\<close>

text \<open>The match on the drain target: whether to publish, and the edited task, effects and counters.\<close>

definition drain_target_effects ::
  "scheduled_task \<Rightarrow> scheduler_action \<Rightarrow> drain_target \<Rightarrow> scheduled_task \<Rightarrow> transition_effect list \<Rightarrow>
   id_counters \<Rightarrow>
   (scheduler_error, bool \<times> scheduled_task \<times> transition_effect list \<times> id_counters) result" where
  "drain_target_effects original action target updated effects ids =
     (case target of
        DT_PausedRestarting \<Rightarrow>
          if t_pending_source_replacement updated then Inr (True, updated, effects, ids)
          else
            and_then (ok_or SE_InternalInvariant (t_pending_option_patch updated)) (\<lambda>patch.
              if t_pending_option_patch_mode updated \<noteq> Some POM_ActiveRestart
              then Inl SE_InternalInvariant
              else
                and_then (required_target original action) (\<lambda>state.
                  Inr (False,
                       updated\<lparr>t_state := state,
                               t_pending_barrier :=
                                 Some (PB_OptionPatchApplication (t_generation updated) patch)\<rparr>,
                       effects @
                         [Eff_ApplyOptionPatch (t_task_id updated) (t_gid updated) patch
                            (t_pending_credential_requirement updated)],
                       ids)))
      | DT_WaitingSlow \<Rightarrow>
          (case t_pending_slow_readmission updated of
             Some decision \<Rightarrow>
               and_then (ids_slow_readmission ids) (\<lambda>(readmission, ids).
                 Inr (True,
                      updated\<lparr>t_pending_slow_readmission := None,
                              t_slow_readmission := Some (readmission, srd_readmit_at decision)\<rparr>,
                      effects @
                        [Eff_ScheduleSlowReadmission (t_task_id updated) (t_gid updated)
                           (t_generation updated) readmission (srd_readmit_at decision)],
                      ids))
           | None \<Rightarrow> Inr (True, updated, effects, ids))
      | DT_Error \<Rightarrow>
          and_then (ok_or SE_InternalInvariant (t_error updated)) (\<lambda>error.
          and_then (begin_terminal updated AS_Error (Some error)) (\<lambda>updated.
            Inr (False, updated, effects, ids)))
      | DT_Removed \<Rightarrow>
          and_then (begin_terminal updated AS_Removed None) (\<lambda>updated.
            Inr (False, updated, effects, ids))
      | DT_Paused \<Rightarrow> Inr (True, updated, effects, ids)
      | DT_PausedSlow \<Rightarrow> Inr (True, updated, effects, ids)
      | DT_Waiting \<Rightarrow> Inr (True, updated, effects, ids))"

definition probe_after_drain ::
  "scheduled_task \<Rightarrow> transition_effect list \<Rightarrow> id_counters \<Rightarrow>
   (scheduler_error, scheduled_task \<times> transition_effect list \<times> id_counters) result" where
  "probe_after_drain updated effects ids =
     (if t_state updated \<in> {TS_Waiting, TS_WaitingSlow, TS_RetryWait, TS_Paused, TS_PausedSlow} then
        (case Option.bind (tc_no_space (t_conditions updated)) nsc_retry_at of
           Some probe_at \<Rightarrow>
             schedule_no_space_probe updated NPO_AutomaticRetry probe_at effects ids
         | None \<Rightarrow> Inr (updated, effects, ids))
      else Inr (updated, effects, ids))"

definition drain_target_of :: "scheduled_task \<Rightarrow> generation \<Rightarrow> drain_target option" where
  "drain_target_of t g =
     (case t_pending_barrier t of
        Some (PB_CancellationDrain expected target _) \<Rightarrow> if expected = g then Some target else None
      | _ \<Rightarrow> None)"

definition cancellation_drained_plan ::
  "request_scheduler \<Rightarrow> scheduled_task \<Rightarrow> generation \<Rightarrow> monotonic_instant \<Rightarrow> plan_result" where
  "cancellation_drained_plan s original g at =
     (case drain_target_of original g of
        None \<Rightarrow> plan_ignored original ED_Stale at
      | Some target \<Rightarrow>
          let action = (if target = DT_PausedRestarting then SA_RestartQuiesced
                        else SA_CancellationDrainSucceeded)
          in unless_stale original action at
               (if target \<noteq> DT_PausedRestarting \<and> t_state original \<noteq> drain_target_state target
                then Inl SE_InternalInvariant
                else
                  let (updated, effects) = release_slot (original\<lparr>t_pending_barrier := None\<rparr>) []
                  in and_then (drain_target_effects original action target updated effects (rs_ids s))
                       (\<lambda>(publish, updated, effects, ids).
                     and_then (probe_after_drain updated effects ids)
                       (\<lambda>(updated, effects, ids).
                          plan_finish (mark_non_token_event EK_CancellationDrained updated) action
                            effects publish ids))))"

section \<open>Disk space\<close>

definition no_space_probe_completed_plan ::
  "request_scheduler \<Rightarrow> scheduled_task \<Rightarrow> no_space_probe_id \<Rightarrow> no_space_probe_origin \<Rightarrow> bool \<Rightarrow>
   monotonic_instant option \<Rightarrow> monotonic_instant \<Rightarrow> plan_result" where
  "no_space_probe_completed_plan s original probe origin ready next_retry_at at =
     (let disposition =
            token_disposition (map_option fst (t_no_space_probe original))
              (t_last_no_space_probe original) probe
      in if disposition \<noteq> ED_Fresh \<or> map_option snd (t_no_space_probe original) \<noteq> Some origin
         then plan_ignored original
                (if disposition = ED_Duplicate then ED_Duplicate else ED_Stale) at
         else
           and_then
             (ok_or (SE_Conflict (t_state original) ''no_space_probe_completed'')
                (for_no_space_probe_result (t_state original) origin (t_desired_paused original) ready))
             (\<lambda>action. unless_stale original action at
                (and_then
                   (if ready then Inr ((t_conditions original)\<lparr>tc_no_space := None\<rparr>)
                    else case tc_no_space (t_conditions original) of
                           Some condition \<Rightarrow>
                             Inr ((t_conditions original)
                                    \<lparr>tc_no_space := Some (condition\<lparr>nsc_retry_at := next_retry_at\<rparr>)\<rparr>)
                         | None \<Rightarrow> Inl SE_InternalInvariant)
                   (\<lambda>conditions.
                 and_then (required_target original action) (\<lambda>target.
                   let updated = original\<lparr>t_no_space_probe := None,
                                          t_last_no_space_probe := Some probe,
                                          t_conditions := conditions,
                                          t_state := target\<rparr>;
                       effects = [Eff_PersistConditions (t_task_id updated) (t_gid updated)
                                    (t_conditions updated)]
                   in and_then
                        (case next_retry_at of
                           Some probe_at \<Rightarrow>
                             (if \<not> ready then
                                schedule_no_space_probe updated NPO_AutomaticRetry probe_at effects
                                  (rs_ids s)
                              else Inr (updated, effects, rs_ids s))
                         | None \<Rightarrow> Inr (updated, effects, rs_ids s))
                        (\<lambda>(updated, effects, ids). plan_finish updated action effects True ids))))))"

section \<open>Terminal results\<close>

definition terminal_persisted_plan ::
  "request_scheduler \<Rightarrow> scheduled_task \<Rightarrow> generation \<Rightarrow> aria2_status \<Rightarrow> monotonic_instant \<Rightarrow>
   plan_result" where
  "terminal_persisted_plan s original g status at =
     (if t_pending_barrier original \<noteq> Some (PB_TerminalPersistence g status) then
        (if t_state original = TS_StoppedResult \<and> t_stopped_status original = Some status
            \<and> t_terminal_persisted original
         then plan_ignored original ED_Duplicate at
         else Inl SE_InvalidTerminalAcknowledgement)
      else
        let action = SA_TerminalPersistenceSucceeded in
        unless_stale original action at
          (and_then (required_target original action) (\<lambda>target.
             plan_finish
               (mark_non_token_event EK_TerminalPersisted
                  (original\<lparr>t_pending_barrier := None,
                            t_state := target,
                            t_stopped_status := Some status,
                            t_terminal_persisted := True\<rparr>))
               action [] True (rs_ids s))))"

definition expected_deletion :: "scheduled_task \<Rightarrow> stopped_result_deletion_id option" where
  "expected_deletion t =
     (case t_pending_barrier t of
        Some (PB_StoppedResultDeletion g deletion) \<Rightarrow>
          if g = t_generation t then Some deletion else None
      | _ \<Rightarrow> None)"

definition stopped_result_deletion_plan ::
  "request_scheduler \<Rightarrow> scheduled_task \<Rightarrow> stopped_result_deletion_id \<Rightarrow> bool \<Rightarrow> monotonic_instant \<Rightarrow>
   plan_result" where
  "stopped_result_deletion_plan s original deletion succeeded at =
     (let disposition =
            token_disposition (expected_deletion original) (t_last_stopped_deletion original) deletion
      in if disposition \<noteq> ED_Fresh then plan_ignored original disposition at
         else
           let action = (if succeeded then SA_StoppedResultDeletionSucceeded
                         else SA_StoppedResultDeletionFailed)
           in unless_stale original action at
                (if succeeded then
                   Inr (Plan_Finish \<lparr>ap_updated = None, ap_action = action, ap_effects = [],
                                     ap_publish = False, ap_ids = rs_ids s\<rparr>)
                 else
                   plan_finish
                     (original\<lparr>t_pending_barrier := None,
                               t_last_stopped_deletion := Some deletion\<rparr>)
                     action [] False (rs_ids s)))"

section \<open>Dispatch\<close>

text \<open>Whether the pending barrier lets an event of this kind through.\<close>

definition barrier_accepts_event :: "pending_barrier option \<Rightarrow> task_event_kind \<Rightarrow> bool" where
  "barrier_accepts_event b kind =
     (case b of
        None \<Rightarrow> True
      | Some barrier \<Rightarrow>
          (case barrier of
             PB_GenerationPersistence _ \<Rightarrow> kind = EK_GenerationPersisted
           | PB_OptionPatchPersistence _ _ \<Rightarrow>
               kind \<in> {EK_OptionPatchPersisted, EK_OptionPatchPersistenceFailed}
           | PB_OptionPatchApplication _ _ \<Rightarrow>
               kind \<in> {EK_OptionPatchApplied, EK_OptionPatchApplicationFailed}
           | PB_HostKeyResolution _ _ _ \<Rightarrow>
               kind \<in> {EK_HostKeyResolutionPersisted, EK_HostKeyResolutionFailed}
           | PB_TerminalPersistence _ _ \<Rightarrow> kind = EK_TerminalPersisted
           | PB_StoppedResultDeletion _ _ \<Rightarrow>
               kind \<in> {EK_StoppedResultDeleted, EK_StoppedResultDeletionFailed}
           | PB_CancellationDrain _ _ _ \<Rightarrow> True))"

primrec event_plan ::
  "request_scheduler \<Rightarrow> scheduled_task \<Rightarrow> monotonic_instant \<Rightarrow> task_event \<Rightarrow> plan_result" where
  "event_plan s t at (Ev_GenerationPersisted _ g) = generation_persisted_plan s t g at"
| "event_plan s t at (Ev_OptionPatchPersisted _ _ patch) =
     option_patch_persistence_plan s t patch True at"
| "event_plan s t at (Ev_OptionPatchPersistenceFailed _ _ patch) =
     option_patch_persistence_plan s t patch False at"
| "event_plan s t at (Ev_OptionPatchApplied _ _ patch) =
     option_patch_application_plan s t patch None at"
| "event_plan s t at (Ev_OptionPatchApplicationFailed _ _ patch error) =
     option_patch_application_plan s t patch (Some error) at"
| "event_plan s t at (Ev_AllocationSucceeded _ _) = allocation_succeeded_plan s t at"
| "event_plan s t at (Ev_AllocationRetryable _ _ retry_at) =
     allocation_retryable_plan s t retry_at at"
| "event_plan s t at (Ev_ActiveHostKeyChallenge _ _ challenge) =
     allocation_host_key_challenge_plan s t challenge True at"
| "event_plan s t at (Ev_AllocationHostKeyChallenge _ _ challenge) =
     allocation_host_key_challenge_plan s t challenge False at"
| "event_plan s t at (Ev_AllocationFailed _ _ error) = allocation_failed_plan s t error at"
| "event_plan s t at (Ev_RetryReady _ _ timer) = retry_ready_plan s t timer at"
| "event_plan s t at (Ev_ActiveRetryIdle _ _ retry_at) = active_retry_idle_plan s t retry_at at"
| "event_plan s t at (Ev_ActiveRepresentationRestart _ _) =
     active_representation_restart_plan s t at"
| "event_plan s t at (Ev_DataComplete _ _ seed) = data_complete_plan s t seed at"
| "event_plan s t at (Ev_NoSpace _ _ condition) = no_space_plan s t condition at"
| "event_plan s t at (Ev_TerminalFailure _ _ error) = terminal_failure_plan s t error at"
| "event_plan s t at (Ev_SlowDemoted _ _ decision) = slow_demoted_plan s t decision at"
| "event_plan s t at (Ev_SlowPaused _ _) = slow_paused_plan s t at"
| "event_plan s t at (Ev_SlowReadmit _ _ readmission) = slow_readmit_plan s t readmission at"
| "event_plan s t at (Ev_VerificationSucceeded _ _) = verification_succeeded_plan s t at"
| "event_plan s t at (Ev_VerificationRecoverable _ _) = verification_recoverable_plan s t at"
| "event_plan s t at (Ev_VerificationFailed _ _ error) = verification_failed_plan s t error at"
| "event_plan s t at (Ev_SeedingComplete _ _) = seeding_complete_plan s t at"
| "event_plan s t at (Ev_SeedingFailed _ _ error) = seeding_failed_plan s t error at"
| "event_plan s t at (Ev_CancellationDrained _ g) = cancellation_drained_plan s t g at"
| "event_plan s t at (Ev_NoSpaceProbeCompleted _ _ probe origin ready next_retry_at) =
     no_space_probe_completed_plan s t probe origin ready next_retry_at at"
| "event_plan s t at (Ev_TerminalPersisted _ g status) = terminal_persisted_plan s t g status at"
| "event_plan s t at (Ev_HostKeyResolutionPersisted _ _ resolution) =
     host_key_resolution_plan s t resolution True at"
| "event_plan s t at (Ev_HostKeyResolutionFailed _ _ resolution) =
     host_key_resolution_plan s t resolution False at"
| "event_plan s t at (Ev_StoppedResultDeleted _ _ deletion) =
     stopped_result_deletion_plan s t deletion True at"
| "event_plan s t at (Ev_StoppedResultDeletionFailed _ _ deletion) =
     stopped_result_deletion_plan s t deletion False at"

definition no_space_event_validate :: "task_event \<Rightarrow> (scheduler_error, unit) result" where
  "no_space_event_validate event =
     (case event of
        Ev_NoSpace _ _ condition \<Rightarrow>
          map_err (\<lambda>_. SE_InvalidTaskConditions) (no_space_condition_validate condition)
      | _ \<Rightarrow> Inr ())"

definition guarded_event_plan ::
  "request_scheduler \<Rightarrow> scheduled_task \<Rightarrow> monotonic_instant \<Rightarrow> task_event_envelope \<Rightarrow> plan_result" where
  "guarded_event_plan s original at envelope =
     (let event = env_event envelope; kind = event_kind event in
      if t_task_id original \<noteq> env_task_id envelope then plan_ignored original ED_Stale at
      else
        and_then (generation_disposition (t_generation original) (event_generation event))
          (\<lambda>disposition.
             if disposition \<noteq> ED_Fresh then plan_ignored original disposition at
             else if event_token event = None \<and> kind \<noteq> EK_TerminalPersisted
                     \<and> kind \<in> t_seen_events original
               then plan_ignored original ED_Duplicate at
             else if \<not> barrier_accepts_event (t_pending_barrier original) kind
               then and_then (ok_or SE_InternalInvariant (t_pending_barrier original)) (\<lambda>barrier.
                      Inl (SE_PendingBarrier barrier (task_event_kind_code kind)))
             else
               and_then (no_space_event_validate event) (\<lambda>_. event_plan s original at event)))"

definition handle_event_at ::
  "request_scheduler \<Rightarrow> task_event_envelope \<Rightarrow> monotonic_instant \<Rightarrow> step_result" where
  "handle_event_at s envelope at =
     on_task s (event_gid (env_event envelope)) at
       (\<lambda>original. guarded_event_plan s original at envelope)"

end
