(* ===== verification/ClassQueues.thy ===== *)
theory ClassQueues
  imports SchedulerCore "HOL-Library.Multiset"
begin

text \<open>
  Queue membership as a contract. A family of queues indexed by a class refines a map from members to
  classes when every queue is free of repetitions and holds exactly the members of its class. The
  locale states what a client needs of a container of such queues, and proves once what removing,
  inserting, moving and reordering a member does to the refined map; the interpretation is the
  scheduler's own queue record, and the rest of the theory relates \<open>queue_updates\<close> to it.
\<close>

section \<open>The contract\<close>

definition queues_match :: "('c \<Rightarrow> 'g list) \<Rightarrow> ('g \<Rightarrow> 'c option) \<Rightarrow> bool" where
  "queues_match get cls \<longleftrightarrow>
     (\<forall>c. distinct (get c)) \<and> (\<forall>c g. g \<in> set (get c) \<longleftrightarrow> cls g = Some c)"

lemma queues_matchD:
  "queues_match get cls \<Longrightarrow> distinct (get c)"
  "queues_match get cls \<Longrightarrow> g \<in> set (get c) \<longleftrightarrow> cls g = Some c"
  by (auto simp: queues_match_def)

locale class_queues =
  fixes qget :: "'q \<Rightarrow> 'c \<Rightarrow> 'g list"
    and qset :: "'g list \<Rightarrow> 'q \<Rightarrow> 'c \<Rightarrow> 'q"
  assumes get_set: "qget (qset xs q c) d = (if d = c then xs else qget q d)"
begin

lemma match_remove:
  assumes "queues_match (qget q) cls" and "cls g = Some c"
  shows "queues_match (qget (qset (remove1 g (qget q c)) q c)) (cls(g := None))"
  using assms by (auto simp: queues_match_def get_set)

lemma match_insert:
  assumes "queues_match (qget q) cls" and "cls g = None"
  shows "queues_match (qget (qset (insert_at i g (qget q c)) q c)) (cls(g := Some c))"
  using assms by (auto simp: queues_match_def get_set)

lemma match_append:
  assumes "queues_match (qget q) cls" and "cls g = None"
  shows "queues_match (qget (qset (qget q c @ [g]) q c)) (cls(g := Some c))"
  using assms by (auto simp: queues_match_def get_set)

lemma match_move:
  assumes "queues_match (qget q) cls" and "cls g = Some c" and "d \<noteq> c"
  shows "queues_match (qget (qset (qget q d @ [g]) (qset (remove1 g (qget q c)) q c) d))
           (cls(g := Some d))"
proof -
  have "queues_match (qget (qset (remove1 g (qget q c)) q c)) (cls(g := None))"
    using assms(1,2) by (rule match_remove)
  from match_append [OF this, of g d] assms(3) show ?thesis
    by (simp add: get_set)
qed

lemma match_reorder:
  assumes "queues_match (qget q) cls" and "mset xs = mset (qget q c)"
  shows "queues_match (qget (qset xs q c)) cls"
proof -
  have "set xs = set (qget q c)" "distinct xs \<longleftrightarrow> distinct (qget q c)"
    using assms(2) mset_eq_setD mset_eq_imp_distinct_iff by blast+
  with assms(1) show ?thesis by (auto simp: queues_match_def get_set)
qed

end

interpretation sq: class_queues queues_get queues_set
  by unfold_locales simp

section \<open>Queue updates\<close>

text \<open>The class each task belongs to.\<close>

definition task_class :: "request_scheduler \<Rightarrow> gid \<Rightarrow> queue_class option" where
  "task_class s g = Option.bind (bt_get (rs_tasks s) g) task_queue_class"

text \<open>The updates that move a member, in closed form.\<close>

definition moved_orders :: "scheduler_queues \<Rightarrow> gid \<Rightarrow> queue_class option \<Rightarrow> queue_class option \<Rightarrow> queue_update list" where
  "moved_orders q g old_class new_class =
     (if old_class = new_class then []
      else (case old_class of
              None \<Rightarrow> []
            | Some c \<Rightarrow> [\<lparr>qu_class = c, qu_order = remove1 g (queues_get q c)\<rparr>])
         @ (case new_class of
              None \<Rightarrow> []
            | Some c \<Rightarrow> [\<lparr>qu_class = c, qu_order = queues_get q c @ [g]\<rparr>]))"

lemma queue_memberships_match:
  assumes "queues_match (queues_get (rs_queues s)) cls"
  shows "queue_memberships s g = (case cls g of None \<Rightarrow> [] | Some c \<Rightarrow> [c])"
proof (cases "cls g")
  case None
  with queues_matchD(2) [OF assms] show ?thesis by (simp add: queue_memberships_def)
next
  case (Some c)
  with queues_matchD(2) [OF assms] show ?thesis
    by (cases c) (simp_all add: queue_memberships_def)
qed

lemma queue_updates_match:
  assumes "queues_match (queues_get (rs_queues s)) cls" and "cls g = old_class"
  shows "queue_updates s g old_class new_class = Inr (moved_orders (rs_queues s) g old_class new_class)"
proof (cases "old_class = new_class")
  case True
  then show ?thesis
    using queue_memberships_match [OF assms(1), of g] assms(2)
    by (auto simp: queue_updates_def moved_orders_def)
next
  case False
  note mem = queue_memberships_match [OF assms(1), of g]
  have pos: "\<exists>i. position g (queues_get (rs_queues s) c) = Some i" if "old_class = Some c" for c
    using that assms queues_matchD(2) [OF assms(1), of g c] by (auto intro: position_ex)
  have new: "g \<notin> set (queues_get (rs_queues s) c)" if "new_class = Some c" for c
    using that assms False queues_matchD(2) [OF assms(1), of g c] by auto
  show ?thesis
    using False mem assms(2) pos new
    by (cases old_class; cases new_class)
      (auto simp: queue_updates_def moved_orders_def remove_at_position)
qed

lemma apply_moved_orders:
  assumes "queues_match (queues_get q) cls" and "cls g = old_class"
  shows "queues_match (queues_get (apply_queue_updates (moved_orders q g old_class new_class) q))
           (cls(g := new_class))"
proof (cases "old_class = new_class")
  case True
  have "cls(g := cls g) = cls" by simp
  with True assms show ?thesis by (simp add: moved_orders_def apply_queue_updates_def)
next
  case False
  show ?thesis
  proof (cases old_class)
    case None
    then obtain d where "new_class = Some d" using False by (cases new_class) auto
    with None assms sq.match_append [OF assms(1), of g d] show ?thesis
      by (simp add: moved_orders_def apply_queue_updates_def)
  next
    case (Some c)
    show ?thesis
    proof (cases new_class)
      case None
      with Some assms sq.match_remove [OF assms(1), of g c] show ?thesis
        by (simp add: moved_orders_def apply_queue_updates_def)
    next
      case (Some d)
      with \<open>old_class = Some c\<close> False assms sq.match_move [OF assms(1), of g c d] show ?thesis
        by (auto simp: moved_orders_def apply_queue_updates_def)
    qed
  qed
qed

text \<open>Placing a new task keeps the shape: the appended member moves to a position of its queue.\<close>

lemma place_in_update_append:
  assumes "pos \<le> length xs"
  shows "place_in_update g c pos [\<lparr>qu_class = c, qu_order = xs @ [g]\<rparr>]
       = Inr [\<lparr>qu_class = c, qu_order = insert_at pos g xs\<rparr>]"
  using assms by simp

lemma mset_insert_at: "mset (insert_at i x xs) = add_mset x (mset xs)"
proof -
  have "mset xs = mset (take i xs) + mset (drop i xs)"
    by (metis append_take_drop_id mset_append)
  then show ?thesis by (simp add: insert_at_def)
qed

lemma queues_match_cong: "(\<And>g. cls g = cls' g) \<Longrightarrow> queues_match get cls = queues_match get cls'"
  by (simp add: queues_match_def)

end
