(* ===== verification/SchedulerInv.thy ===== *)
theory SchedulerInv
  imports SchedulerEvents ClassQueues
begin

text \<open>
  The invariant of the request scheduler and the effect of one atomic action on it. \<open>task_ok\<close> is the
  consistency of a single task (slot, barrier, terminal data, host key, conditions, timers, pending
  patch and deferred control); \<open>sched_inv\<close> adds the agreement of the maps, the five queues, the
  limits and the published snapshots. The central lemmas say that \<open>finish_action\<close> keeps
  \<open>sched_inv\<close> whenever the new version of the task is \<open>task_ok\<close> and takes no slot beyond the limit.
\<close>

section \<open>Consistency of a task\<close>

definition working_state :: "task_state \<Rightarrow> bool" where
  "working_state st \<longleftrightarrow> st \<in> {TS_Allocating, TS_Active, TS_Verifying, TS_Seeding}"

definition patchable_state :: "task_state \<Rightarrow> bool" where
  "patchable_state st \<longleftrightarrow> \<not> is_terminal st \<and> st \<noteq> TS_Accepted"

primrec terminal_state :: "aria2_status \<Rightarrow> task_state option" where
  "terminal_state AS_Active = None"
| "terminal_state AS_Waiting = None"
| "terminal_state AS_Paused = None"
| "terminal_state AS_Error = Some TS_Error"
| "terminal_state AS_Complete = Some TS_Complete"
| "terminal_state AS_Removed = Some TS_Removed"

text \<open>The kind of a pending barrier.\<close>

definition is_patch_application :: "pending_barrier option \<Rightarrow> bool" where
  "is_patch_application b = (case b of Some (PB_OptionPatchApplication _ _) \<Rightarrow> True | _ \<Rightarrow> False)"

definition is_patch_persistence :: "pending_barrier option \<Rightarrow> bool" where
  "is_patch_persistence b = (case b of Some (PB_OptionPatchPersistence _ _) \<Rightarrow> True | _ \<Rightarrow> False)"

definition is_resolution :: "pending_barrier option \<Rightarrow> bool" where
  "is_resolution b = (case b of Some (PB_HostKeyResolution _ _ _) \<Rightarrow> True | _ \<Rightarrow> False)"

definition is_deferring :: "pending_barrier option \<Rightarrow> bool" where
  "is_deferring b \<longleftrightarrow> is_patch_application b \<or> is_patch_persistence b \<or> is_resolution b"

lemmas barrier_kind_defs = is_patch_application_def is_patch_persistence_def is_resolution_def
  is_deferring_def is_cancellation_drain_def is_terminal_persistence_def

lemma barrier_kind_simps [simp]:
  "\<not> is_cancellation_drain None"
  "\<not> is_cancellation_drain (Some (PB_GenerationPersistence g))"
  "is_cancellation_drain (Some (PB_CancellationDrain g target f))"
  "\<not> is_cancellation_drain (Some (PB_TerminalPersistence g status))"
  "\<not> is_cancellation_drain (Some (PB_OptionPatchPersistence g p))"
  "\<not> is_cancellation_drain (Some (PB_OptionPatchApplication g p))"
  "\<not> is_cancellation_drain (Some (PB_HostKeyResolution g r c))"
  "\<not> is_cancellation_drain (Some (PB_StoppedResultDeletion g d))"
  "\<not> is_terminal_persistence None"
  "\<not> is_terminal_persistence (Some (PB_GenerationPersistence g))"
  "\<not> is_terminal_persistence (Some (PB_CancellationDrain g target f))"
  "is_terminal_persistence (Some (PB_TerminalPersistence g status))"
  "\<not> is_terminal_persistence (Some (PB_OptionPatchPersistence g p))"
  "\<not> is_terminal_persistence (Some (PB_OptionPatchApplication g p))"
  "\<not> is_terminal_persistence (Some (PB_HostKeyResolution g r c))"
  "\<not> is_terminal_persistence (Some (PB_StoppedResultDeletion g d))"
  "\<not> is_patch_persistence None"
  "\<not> is_patch_persistence (Some (PB_GenerationPersistence g))"
  "\<not> is_patch_persistence (Some (PB_CancellationDrain g target f))"
  "\<not> is_patch_persistence (Some (PB_TerminalPersistence g status))"
  "is_patch_persistence (Some (PB_OptionPatchPersistence g p))"
  "\<not> is_patch_persistence (Some (PB_OptionPatchApplication g p))"
  "\<not> is_patch_persistence (Some (PB_HostKeyResolution g r c))"
  "\<not> is_patch_persistence (Some (PB_StoppedResultDeletion g d))"
  "\<not> is_patch_application None"
  "\<not> is_patch_application (Some (PB_GenerationPersistence g))"
  "\<not> is_patch_application (Some (PB_CancellationDrain g target f))"
  "\<not> is_patch_application (Some (PB_TerminalPersistence g status))"
  "\<not> is_patch_application (Some (PB_OptionPatchPersistence g p))"
  "is_patch_application (Some (PB_OptionPatchApplication g p))"
  "\<not> is_patch_application (Some (PB_HostKeyResolution g r c))"
  "\<not> is_patch_application (Some (PB_StoppedResultDeletion g d))"
  "\<not> is_resolution None"
  "\<not> is_resolution (Some (PB_GenerationPersistence g))"
  "\<not> is_resolution (Some (PB_CancellationDrain g target f))"
  "\<not> is_resolution (Some (PB_TerminalPersistence g status))"
  "\<not> is_resolution (Some (PB_OptionPatchPersistence g p))"
  "\<not> is_resolution (Some (PB_OptionPatchApplication g p))"
  "is_resolution (Some (PB_HostKeyResolution g r c))"
  "\<not> is_resolution (Some (PB_StoppedResultDeletion g d))"
  "\<not> is_deferring None"
  "\<not> is_deferring (Some (PB_GenerationPersistence g))"
  "\<not> is_deferring (Some (PB_CancellationDrain g target f))"
  "\<not> is_deferring (Some (PB_TerminalPersistence g status))"
  "is_deferring (Some (PB_OptionPatchPersistence g p))"
  "is_deferring (Some (PB_OptionPatchApplication g p))"
  "is_deferring (Some (PB_HostKeyResolution g r c))"
  "\<not> is_deferring (Some (PB_StoppedResultDeletion g d))"
  by (simp_all add: barrier_kind_defs)

lemma barrier_kind_exclusive:
  "is_deferring b \<Longrightarrow> \<not> is_cancellation_drain b \<and> \<not> is_terminal_persistence b"
  "is_patch_application b \<Longrightarrow> \<not> is_resolution b \<and> \<not> is_patch_persistence b"
  "is_patch_persistence b \<Longrightarrow> \<not> is_resolution b"
  "is_cancellation_drain b \<Longrightarrow> \<not> is_terminal_persistence b"
  by (auto simp: barrier_kind_defs split: option.splits pending_barrier.splits)

lemma deferring_barrier_Some:
  "deferring_barrier t = Some b \<longleftrightarrow> t_pending_barrier t = Some b \<and> is_deferring (Some b)"
  by (cases b) (auto simp: deferring_barrier_def defers_user_control_def barrier_kind_defs
      split: option.splits)

lemma deferring_barrier_None:
  "deferring_barrier t = None \<longleftrightarrow> \<not> is_deferring (t_pending_barrier t)"
  by (auto simp: deferring_barrier_def defers_user_control_def barrier_kind_defs
      split: option.splits pending_barrier.splits)

text \<open>
  Each clause is a predicate on the fields it constrains, so that an edit of other fields leaves it
  literally unchanged.
\<close>

definition slot_inv :: "task_state \<Rightarrow> slot_ownership \<Rightarrow> pending_barrier option \<Rightarrow> bool \<Rightarrow> bool" where
  "slot_inv st slot b started \<longleftrightarrow>
     (working_state st \<longrightarrow> owns_slot slot)
     \<and> (owns_slot slot \<longrightarrow>
          started \<and> (working_state st \<or> (st = TS_RetryWait \<and> slot = SO_RetryRetained)
                     \<or> is_cancellation_drain b))"

primrec barrier_inv ::
  "scheduled_task \<Rightarrow> task_state \<Rightarrow> slot_ownership \<Rightarrow> pending_barrier \<Rightarrow> bool" where
  "barrier_inv t st slot (PB_GenerationPersistence g) \<longleftrightarrow> g = t_generation t \<and> st = TS_Allocating"
| "barrier_inv t st slot (PB_CancellationDrain g target force) \<longleftrightarrow>
     g = t_generation t
     \<and> (st = drain_target_state target \<or> (st = TS_PausedSlow \<and> target = DT_Paused))
     \<and> (target = DT_Error \<longrightarrow> t_error t \<noteq> None)
     \<and> (target = DT_PausedRestarting \<longrightarrow>
          t_pending_source_replacement t
          \<or> (t_pending_option_patch t \<noteq> None
             \<and> t_pending_option_patch_mode t = Some POM_ActiveRestart))"
| "barrier_inv t st slot (PB_TerminalPersistence g status) \<longleftrightarrow>
     g = t_generation t \<and> terminal_state status = Some st \<and> slot = SO_None
     \<and> (status = AS_Error \<longrightarrow> t_error t \<noteq> None)"
| "barrier_inv t st slot (PB_OptionPatchPersistence g patch) \<longleftrightarrow>
     g = t_generation t \<and> t_pending_option_patch t = Some patch
     \<and> t_pending_option_patch_mode t = Some POM_ActiveRestart
     \<and> st \<in> {TS_Allocating, TS_Active, TS_Verifying}"
| "barrier_inv t st slot (PB_OptionPatchApplication g patch) \<longleftrightarrow>
     g = t_generation t \<and> t_pending_option_patch t = Some patch
     \<and> ((t_pending_option_patch_mode t = Some POM_InPlace \<and> patchable_state st)
        \<or> (t_pending_option_patch_mode t = Some POM_ActiveRestart
           \<and> st \<in> {TS_PausedRestarting, TS_Waiting}))"
| "barrier_inv t st slot (PB_HostKeyResolution g resolution challenge) \<longleftrightarrow>
     g = t_generation t \<and> st = TS_PausedHostKey
     \<and> map_option (\<lambda>c. hk_id (ph_summary c)) (t_host_key_challenge t) = Some challenge
     \<and> (t_pending_option_patch t \<noteq> None \<longrightarrow>
          t_pending_option_patch_mode t = Some POM_MatchingHostKey)"
| "barrier_inv t st slot (PB_StoppedResultDeletion g deletion) \<longleftrightarrow>
     g = t_generation t \<and> st = TS_StoppedResult"

lemma barrier_inv_update [simp]:
  "barrier_inv (t\<lparr>t_task_id := x0\<rparr>) st slot b = barrier_inv t st slot b"
  "barrier_inv (t\<lparr>t_gid := x1\<rparr>) st slot b = barrier_inv t st slot b"
  "barrier_inv (t\<lparr>t_state := x2\<rparr>) st slot b = barrier_inv t st slot b"
  "barrier_inv (t\<lparr>t_generation_started := x3\<rparr>) st slot b = barrier_inv t st slot b"
  "barrier_inv (t\<lparr>t_desired_paused := x4\<rparr>) st slot b = barrier_inv t st slot b"
  "barrier_inv (t\<lparr>t_conditions := x5\<rparr>) st slot b = barrier_inv t st slot b"
  "barrier_inv (t\<lparr>t_slot := x6\<rparr>) st slot b = barrier_inv t st slot b"
  "barrier_inv (t\<lparr>t_pending_barrier := x7\<rparr>) st slot b = barrier_inv t st slot b"
  "barrier_inv (t\<lparr>t_retry_timer := x8\<rparr>) st slot b = barrier_inv t st slot b"
  "barrier_inv (t\<lparr>t_retry_ready := x9\<rparr>) st slot b = barrier_inv t st slot b"
  "barrier_inv (t\<lparr>t_slow_readmission := x10\<rparr>) st slot b = barrier_inv t st slot b"
  "barrier_inv (t\<lparr>t_slow_readmission_ready := x11\<rparr>) st slot b = barrier_inv t st slot b"
  "barrier_inv (t\<lparr>t_pending_slow_readmission := x12\<rparr>) st slot b = barrier_inv t st slot b"
  "barrier_inv (t\<lparr>t_slow_demotion_count := x13\<rparr>) st slot b = barrier_inv t st slot b"
  "barrier_inv (t\<lparr>t_slow_slot := x14\<rparr>) st slot b = barrier_inv t st slot b"
  "barrier_inv (t\<lparr>t_slow_remaining_position := x15\<rparr>) st slot b = barrier_inv t st slot b"
  "barrier_inv (t\<lparr>t_no_space_probe := x16\<rparr>) st slot b = barrier_inv t st slot b"
  "barrier_inv (t\<lparr>t_pending_credential_requirement := x17\<rparr>) st slot b = barrier_inv t st slot b"
  "barrier_inv (t\<lparr>t_pending_user_control := x18\<rparr>) st slot b = barrier_inv t st slot b"
  "barrier_inv (t\<lparr>t_stopped_status := x19\<rparr>) st slot b = barrier_inv t st slot b"
  "barrier_inv (t\<lparr>t_terminal_persisted := x20\<rparr>) st slot b = barrier_inv t st slot b"
  "barrier_inv (t\<lparr>t_seen_events := x21\<rparr>) st slot b = barrier_inv t st slot b"
  "barrier_inv (t\<lparr>t_last_retry_timer := x22\<rparr>) st slot b = barrier_inv t st slot b"
  "barrier_inv (t\<lparr>t_last_slow_readmission := x23\<rparr>) st slot b = barrier_inv t st slot b"
  "barrier_inv (t\<lparr>t_last_no_space_probe := x24\<rparr>) st slot b = barrier_inv t st slot b"
  "barrier_inv (t\<lparr>t_highest_option_patch_id := x25\<rparr>) st slot b = barrier_inv t st slot b"
  "barrier_inv (t\<lparr>t_last_option_patch_persistence := x26\<rparr>) st slot b = barrier_inv t st slot b"
  "barrier_inv (t\<lparr>t_last_option_patch_application := x27\<rparr>) st slot b = barrier_inv t st slot b"
  "barrier_inv (t\<lparr>t_last_host_key_resolution := x28\<rparr>) st slot b = barrier_inv t st slot b"
  "barrier_inv (t\<lparr>t_last_stopped_deletion := x29\<rparr>) st slot b = barrier_inv t st slot b"
  by (cases b; simp)+

definition barrier_ok :: "scheduled_task \<Rightarrow> bool" where
  "barrier_ok t \<longleftrightarrow>
     (case t_pending_barrier t of None \<Rightarrow> True | Some b \<Rightarrow> barrier_inv t (t_state t) (t_slot t) b)"

definition terminal_inv ::
  "task_state \<Rightarrow> pending_barrier option \<Rightarrow> bool \<Rightarrow> aria2_status option \<Rightarrow> public_error option \<Rightarrow>
   presented_host_key_challenge option \<Rightarrow> bool" where
  "terminal_inv st b persisted stopped error challenge \<longleftrightarrow>
     st \<noteq> TS_Accepted
     \<and> (is_terminal_pending st \<longrightarrow> is_terminal_persistence b \<or> is_cancellation_drain b)
     \<and> (st = TS_StoppedResult \<longleftrightarrow> persisted)
     \<and> (st = TS_StoppedResult \<longleftrightarrow> stopped \<noteq> None)
     \<and> (\<forall>status. stopped = Some status \<longrightarrow>
          aria2_is_terminal status \<and> (status = AS_Error \<longrightarrow> error \<noteq> None))
     \<and> (st = TS_PausedHostKey \<longleftrightarrow> challenge \<noteq> None)"

definition conditions_inv ::
  "task_conditions \<Rightarrow> task_state \<Rightarrow> (no_space_probe_id \<times> no_space_probe_origin) option \<Rightarrow>
   slot_ownership \<Rightarrow> pending_barrier option \<Rightarrow> bool" where
  "conditions_inv c st probe slot b \<longleftrightarrow>
     task_conditions_validate c = Inr ()
     \<and> (blocks_admission c \<longrightarrow> condition_state st \<or> is_terminal_pending st)
     \<and> (probe \<noteq> None \<longrightarrow> tc_no_space c \<noteq> None \<and> \<not> is_cancellation_drain b)
     \<and> (owns_slot slot \<and> blocks_admission c \<longrightarrow> is_cancellation_drain b)"

definition timers_inv ::
  "task_state \<Rightarrow> pending_barrier option \<Rightarrow> bool \<Rightarrow> bool \<Rightarrow> bool \<Rightarrow> bool \<Rightarrow> bool \<Rightarrow> bool" where
  "timers_inv st b retry_armed retry_ready slow_armed slow_ready slow_pending \<longleftrightarrow>
     (retry_armed \<or> retry_ready \<longrightarrow> st = TS_RetryWait)
     \<and> \<not> (retry_armed \<and> retry_ready)
     \<and> (slow_armed \<or> slow_ready \<longrightarrow> st = TS_WaitingSlow \<and> \<not> is_cancellation_drain b)
     \<and> \<not> (slow_armed \<and> slow_ready)
     \<and> (slow_pending \<longrightarrow> st = TS_WaitingSlow \<and> is_cancellation_drain b)"

definition patch_inv ::
  "task_state \<Rightarrow> pending_barrier option \<Rightarrow> option_patch_id option \<Rightarrow>
   pending_option_patch_mode option \<Rightarrow> credential_requirement_key option \<Rightarrow>
   option_patch_id option \<Rightarrow> bool" where
  "patch_inv st b patch mode credentials highest \<longleftrightarrow>
     (mode = None \<longleftrightarrow> patch = None)
     \<and> (patch = None \<longrightarrow> credentials = None)
     \<and> (patch \<noteq> None \<longrightarrow> highest = patch)
     \<and> (mode = Some POM_InPlace \<longrightarrow> is_patch_application b)
     \<and> (mode = Some POM_MatchingHostKey \<longrightarrow> is_resolution b \<and> credentials = None)
     \<and> (mode = Some POM_ActiveRestart \<longrightarrow>
          is_patch_persistence b \<or> st \<in> {TS_PausedRestarting, TS_Paused, TS_Waiting})"

definition control_inv ::
  "pending_user_control option \<Rightarrow> task_state \<Rightarrow> pending_barrier option \<Rightarrow> bool \<Rightarrow> bool \<Rightarrow> bool \<Rightarrow> bool \<Rightarrow> bool"
  where
  "control_inv control st b retry_armed retry_ready slow_armed slow_ready \<longleftrightarrow>
     control \<noteq> None \<longrightarrow>
       is_deferring b
       \<and> \<not> retry_armed \<and> \<not> retry_ready \<and> \<not> slow_armed \<and> \<not> slow_ready
       \<and> (control = Some PUC_Resume \<longrightarrow> st \<in> {TS_Paused, TS_PausedSlow} \<and> \<not> is_resolution b)
       \<and> (is_resolution b \<longrightarrow> (\<exists>force. control = Some (PUC_Remove force)))"

definition task_ok :: "scheduled_task \<Rightarrow> bool" where
  "task_ok t \<longleftrightarrow>
     slot_inv (t_state t) (t_slot t) (t_pending_barrier t) (t_generation_started t)
     \<and> barrier_ok t
     \<and> terminal_inv (t_state t) (t_pending_barrier t) (t_terminal_persisted t)
         (t_stopped_status t) (t_error t) (t_host_key_challenge t)
     \<and> conditions_inv (t_conditions t) (t_state t) (t_no_space_probe t) (t_slot t)
         (t_pending_barrier t)
     \<and> timers_inv (t_state t) (t_pending_barrier t) (t_retry_timer t \<noteq> None) (t_retry_ready t)
         (t_slow_readmission t \<noteq> None) (t_slow_readmission_ready t)
         (t_pending_slow_readmission t \<noteq> None)
     \<and> patch_inv (t_state t) (t_pending_barrier t) (t_pending_option_patch t)
         (t_pending_option_patch_mode t) (t_pending_credential_requirement t)
         (t_highest_option_patch_id t)
     \<and> control_inv (t_pending_user_control t) (t_state t) (t_pending_barrier t)
         (t_retry_timer t \<noteq> None) (t_retry_ready t) (t_slow_readmission t \<noteq> None)
         (t_slow_readmission_ready t)"

section \<open>Consistency of the scheduler\<close>

definition maps_ok :: "request_scheduler \<Rightarrow> bool" where
  "maps_ok s \<longleftrightarrow>
     bt_wf (rs_tasks s) \<and> bt_wf (rs_task_ids s) \<and> bt_wf (rs_published_snapshots s)
     \<and> (\<forall>g t. bt_get (rs_tasks s) g = Some t \<longrightarrow>
          t_gid t = g \<and> bt_get (rs_task_ids s) (t_task_id t) = Some g)
     \<and> (\<forall>i g. bt_get (rs_task_ids s) i = Some g \<longrightarrow>
          (\<exists>t. bt_get (rs_tasks s) g = Some t \<and> t_task_id t = i)
          \<and> (\<exists>h. rs_highest_task_id s = Some h \<and> i \<le> h))"

definition published_ok :: "request_scheduler \<Rightarrow> bool" where
  "published_ok s \<longleftrightarrow>
     (\<forall>g. bt_get (rs_published_snapshots s) g \<noteq> None \<longleftrightarrow> bt_get (rs_tasks s) g \<noteq> None)
     \<and> (\<forall>g sn. bt_get (rs_published_snapshots s) g = Some sn \<longrightarrow> snapshot_ok sn \<and> sn_gid sn = g)"

definition limits_ok :: "request_scheduler \<Rightarrow> bool" where
  "limits_ok s \<longleftrightarrow>
     length (rs_tasks s) \<le> cfg_max_tasks (rs_config s)
     \<and> active_slot_count s \<le> cfg_max_active_tasks (rs_config s)"

definition sched_inv :: "request_scheduler \<Rightarrow> bool" where
  "sched_inv s \<longleftrightarrow>
     maps_ok s
     \<and> (\<forall>g t. bt_get (rs_tasks s) g = Some t \<longrightarrow> task_ok t)
     \<and> queues_match (queues_get (rs_queues s)) (task_class s)
     \<and> limits_ok s \<and> published_ok s"

lemma sched_invD:
  assumes "sched_inv s"
  shows "maps_ok s" "\<And>g t. bt_get (rs_tasks s) g = Some t \<Longrightarrow> task_ok t"
    "queues_match (queues_get (rs_queues s)) (task_class s)" "limits_ok s" "published_ok s"
    "bt_wf (rs_tasks s)" "\<And>g t. bt_get (rs_tasks s) g = Some t \<Longrightarrow> t_gid t = g"
  using assms by (auto simp: sched_inv_def maps_ok_def)

lemma maps_okD:
  assumes "maps_ok s"
  shows "bt_wf (rs_tasks s)" "bt_wf (rs_task_ids s)" "bt_wf (rs_published_snapshots s)"
    "\<And>g t. bt_get (rs_tasks s) g = Some t \<Longrightarrow> t_gid t = g"
    "\<And>g t. bt_get (rs_tasks s) g = Some t \<Longrightarrow> bt_get (rs_task_ids s) (t_task_id t) = Some g"
    "\<And>i g. bt_get (rs_task_ids s) i = Some g \<Longrightarrow> \<exists>t. bt_get (rs_tasks s) g = Some t \<and> t_task_id t = i"
    "\<And>i g. bt_get (rs_task_ids s) i = Some g \<Longrightarrow> \<exists>h. rs_highest_task_id s = Some h \<and> i \<le> h"
  using assms by (simp_all add: maps_ok_def)

lemma maps_okI:
  assumes "bt_wf (rs_tasks s)" "bt_wf (rs_task_ids s)" "bt_wf (rs_published_snapshots s)"
    "\<And>g t. bt_get (rs_tasks s) g = Some t \<Longrightarrow>
       t_gid t = g \<and> bt_get (rs_task_ids s) (t_task_id t) = Some g"
    "\<And>i g. bt_get (rs_task_ids s) i = Some g \<Longrightarrow>
       (\<exists>t. bt_get (rs_tasks s) g = Some t \<and> t_task_id t = i)
       \<and> (\<exists>h. rs_highest_task_id s = Some h \<and> i \<le> h)"
  shows "maps_ok s"
  using assms by (simp add: maps_ok_def)

lemma maps_ok_task_id_iff:
  assumes "maps_ok s" "bt_get (rs_tasks s) g = Some t"
  shows "bt_get (rs_task_ids s) i = Some g \<longleftrightarrow> i = t_task_id t"
  using maps_okD(5,6) [OF assms(1)] assms(2) by fastforce

lemma maps_ok_task_id_inj:
  assumes "maps_ok s" "bt_get (rs_tasks s) g = Some t" "bt_get (rs_tasks s) h = Some x"
  shows "t_task_id x = t_task_id t \<longleftrightarrow> h = g"
  using maps_okD(5) [OF assms(1,2)] maps_okD(5) [OF assms(1,3)] assms(2,3) by auto

lemma maps_ok_insert:
  assumes m: "maps_ok s" and t: "bt_get (rs_tasks s) g = Some t"
    and u: "t_gid u = g" "t_task_id u = t_task_id t"
    and s': "rs_tasks s' = bt_insert g u (rs_tasks s)"
      "rs_task_ids s' = bt_insert (t_task_id t) g (rs_task_ids s)"
      "rs_highest_task_id s' = rs_highest_task_id s" "bt_wf (rs_published_snapshots s')"
  shows "maps_ok s'"
proof (rule maps_okI)
  fix h x assume "bt_get (rs_tasks s') h = Some x"
  then show "t_gid x = h \<and> bt_get (rs_task_ids s') (t_task_id x) = Some h"
    using maps_okD(4,5) [OF m] maps_ok_task_id_inj [OF m t] u by (auto simp: s' split: if_splits)
next
  fix i h assume "bt_get (rs_task_ids s') i = Some h"
  then have "bt_get (rs_task_ids s) i = Some h"
    using maps_okD(5) [OF m t] by (simp add: s' split: if_splits)
  then show "(\<exists>x. bt_get (rs_tasks s') h = Some x \<and> t_task_id x = i)
      \<and> (\<exists>k. rs_highest_task_id s' = Some k \<and> i \<le> k)"
    using maps_okD(6,7) [OF m] maps_ok_task_id_iff [OF m t] u by (auto simp: s')
qed (use s' maps_okD(1,2) [OF m] in simp_all)

lemma maps_ok_remove:
  assumes m: "maps_ok s" and t: "bt_get (rs_tasks s) g = Some t"
    and s': "rs_tasks s' = bt_remove g (rs_tasks s)"
      "rs_task_ids s' = bt_remove (t_task_id t) (rs_task_ids s)"
      "rs_highest_task_id s' = rs_highest_task_id s" "bt_wf (rs_published_snapshots s')"
  shows "maps_ok s'"
proof (rule maps_okI)
  fix h x assume "bt_get (rs_tasks s') h = Some x"
  then show "t_gid x = h \<and> bt_get (rs_task_ids s') (t_task_id x) = Some h"
    using maps_okD(1,2,4,5) [OF m] maps_ok_task_id_inj [OF m t] by (auto simp: s' split: if_splits)
next
  fix i h assume "bt_get (rs_task_ids s') i = Some h"
  then show "(\<exists>x. bt_get (rs_tasks s') h = Some x \<and> t_task_id x = i)
      \<and> (\<exists>k. rs_highest_task_id s' = Some k \<and> i \<le> k)"
    using maps_okD(1,2,6,7) [OF m] maps_ok_task_id_iff [OF m t] by (auto simp: s' split: if_splits)
qed (use s' maps_okD(1,2) [OF m] in simp_all)

section \<open>What a planned action consists of\<close>

lemma plan_action_okE:
  assumes "plan_action s t u present a at es pub = Inr (out, us, sn)"
  obtains us0 es1 tr del where
    "contract_accepts (transition_contract (t_state t) a)"
    "queue_updates s (t_gid t) (if present then task_queue_class t else None)
       (Option.bind u task_queue_class) = Inr us0"
    "(if present then Inr us0 else place_new_task (t_gid t) es us0) = Inr us"
    "check_stopped_deletion s a us = Inr ()"
    "with_queue_effect s t u present a es (if present then task_queue_class t else None)
       (Option.bind u task_queue_class) us = Inr es1"
    "published_snapshot_of s u pub = Inr sn"
    "outcome_parts (transition_contract (t_state t) a) t u at = Inr (tr, del)"
    "out = \<lparr>out_transition = tr, out_deletion = del,
            out_effects = es1 @ (case sn of None \<Rightarrow> [] | Some x \<Rightarrow> [Eff_PublishSnapshot (t_task_id t) x])\<rparr>"
    "length (out_effects out) \<le> 8"
  using assms
  by (auto simp: plan_action_def Let_def and_then_eq_Inr outcome_checked_ok split: if_splits)

text \<open>The states an action may leave a task in when it is carried out.\<close>

definition step_targets :: "contract_cell \<Rightarrow> task_state set" where
  "step_targets c = (if ct_kind c \<in> {TCK_Transition, TCK_Stay} then set (ct_targets c) else {})"

lemma outcome_parts_Some:
  assumes "outcome_parts c t (Some u) at = Inr (tr, del)"
  shows "t_state u \<in> step_targets c" "del = None"
    "tr = Some \<lparr>st_task = t_task_id u, st_gid = t_gid u, st_generation = t_generation u,
                st_from = t_state t, st_to = t_state u, st_reason = ct_reason c, st_at = at\<rparr>"
  using assms
  by (cases "ct_kind c"; simp add: outcome_parts_def step_targets_def and_then_eq_Inr split: if_splits)+

lemma outcome_parts_None:
  assumes "outcome_parts c t None at = Inr (tr, del)"
  shows "ct_kind c = TCK_Delete" "tr = None"
  using assms by (cases "ct_kind c"; simp add: outcome_parts_def)+

lemma published_snapshot_ofD:
  assumes "published_snapshot_of s u pub = Inr sn"
  shows "sn = (if pub then map_option (\<lambda>x. task_snapshot_of x (cfg_retry_wait_holds_slot (rs_config s))) u
               else None)"
    and "pub \<Longrightarrow> \<exists>x. u = Some x \<and> snapshot_ok (task_snapshot_of x (cfg_retry_wait_holds_slot (rs_config s)))"
  using assms
  by (auto simp: published_snapshot_of_def and_then_eq_Inr scheduled_task_snapshot_ok split: if_splits)

section \<open>A committed update of an existing task\<close>

lemma commit_update_get [simp]:
  "rs_tasks (commit_action s t (Some u) us sn ids) = bt_insert (t_gid u) u (rs_tasks s)"
  "rs_task_ids (commit_action s t (Some u) us sn ids) = bt_insert (t_task_id u) (t_gid u) (rs_task_ids s)"
  "rs_queues (commit_action s t w us sn ids) = apply_queue_updates us (rs_queues s)"
  "rs_config (commit_action s t w us sn ids) = rs_config s"
  "rs_highest_task_id (commit_action s t w us sn ids) = rs_highest_task_id s"
  "rs_ids (commit_action s t w us sn ids) = ids"
  "rs_published_snapshots (commit_action s t (Some u) us sn ids) =
     (case sn of None \<Rightarrow> rs_published_snapshots s
      | Some x \<Rightarrow> bt_insert (t_gid t) x (rs_published_snapshots s))"
  by (cases w; cases sn; simp add: commit_action_def Let_def)+

lemma commit_delete_get [simp]:
  "rs_tasks (commit_action s t None us sn ids) = bt_remove (t_gid t) (rs_tasks s)"
  "rs_task_ids (commit_action s t None us sn ids) = bt_remove (t_task_id t) (rs_task_ids s)"
  "rs_published_snapshots (commit_action s t None us None ids) =
     bt_remove (t_gid t) (rs_published_snapshots s)"
  by (cases sn; simp add: commit_action_def Let_def)+

lemma active_slot_count_insert:
  assumes "bt_wf (rs_tasks s)" and "rs_tasks s' = bt_insert g u (rs_tasks s)"
    and "bt_get (rs_tasks s) g = Some t"
    and "owns_slot (t_slot u) \<Longrightarrow> owns_slot (t_slot t) \<or> active_slot_count s < n"
    and "active_slot_count s \<le> n"
  shows "active_slot_count s' \<le> n"
proof (cases "owns_slot (t_slot u) \<longrightarrow> owns_slot (t_slot t)")
  case True
  then have "active_slot_count s' \<le> active_slot_count s"
    using bt.count_ins_mono [OF assms(1,3), of "\<lambda>x. owns_slot (t_slot x)" u] assms(2)
    by (simp add: active_slot_count_entries)
  with assms(5) show ?thesis by simp
next
  case False
  then have "active_slot_count s < n" using assms(4) by blast
  then show ?thesis
    using bt.count_ins_le [OF assms(1), of "\<lambda>x. owns_slot (t_slot x)" g u] assms(2)
    by (auto simp: active_slot_count_entries split: if_splits)
qed

lemma task_class_insert:
  "rs_tasks s' = bt_insert g u (rs_tasks s) \<Longrightarrow> task_class s' = (task_class s)(g := task_queue_class u)"
  by (auto simp: task_class_def fun_eq_iff)

text \<open>What a handler owes for the new version of a task.\<close>

definition update_ok :: "request_scheduler \<Rightarrow> scheduled_task \<Rightarrow> scheduled_task \<Rightarrow> bool" where
  "update_ok s t u \<longleftrightarrow>
     t_gid u = t_gid t \<and> t_task_id u = t_task_id t
     \<and> (owns_slot (t_slot u) \<longrightarrow>
          owns_slot (t_slot t) \<or> active_slot_count s < cfg_max_active_tasks (rs_config s))"

lemma finish_update_inv:
  assumes inv: "sched_inv s" and t: "bt_get (rs_tasks s) g = Some t"
    and up: "update_ok s t u" and ok: "task_ok u"
    and plan: "plan_action s t (Some u) True a at es pub = Inr (out, us, sn)"
  shows "sched_inv (commit_action s t (Some u) us sn ids)" (is "sched_inv ?s'")
proof -
  note inv_parts = sched_invD [OF inv]
  have gid: "t_gid t = g" using inv_parts(7) t by blast
  with up have gid': "t_gid u = g" and tid: "t_task_id u = t_task_id t"
    by (simp_all add: update_ok_def)
  have tasks': "rs_tasks ?s' = bt_insert g u (rs_tasks s)" by (simp add: gid')
  from plan obtain us0 where q0: "queue_updates s (t_gid t) (task_queue_class t) (task_queue_class u) = Inr us0"
    and us: "us = us0" and pub: "published_snapshot_of s (Some u) pub = Inr sn"
    by (elim plan_action_okE) auto
  have cls: "task_class s g = task_queue_class t" using t by (simp add: task_class_def)
  have us_eq: "us = moved_orders (rs_queues s) g (task_queue_class t) (task_queue_class u)"
    using queue_updates_match [OF inv_parts(3) cls] q0 us gid by simp
  have "queues_match (queues_get (rs_queues ?s')) (task_class ?s')"
    using apply_moved_orders [OF inv_parts(3) cls] us_eq task_class_insert [OF tasks'] by simp
  moreover have "limits_ok ?s'"
  proof -
    have "length (rs_tasks ?s') = length (rs_tasks s)"
      using bt.size_ins [OF inv_parts(6), of g u] t by (simp add: gid')
    moreover have "active_slot_count ?s' \<le> cfg_max_active_tasks (rs_config s)"
      using active_slot_count_insert [OF inv_parts(6) tasks' t] up inv_parts(4)
      by (simp add: update_ok_def limits_ok_def)
    ultimately show ?thesis using inv_parts(4) by (simp add: limits_ok_def)
  qed
  moreover have "maps_ok ?s'"
    using maps_okD(3) [OF inv_parts(1)]
    by (intro maps_ok_insert [OF inv_parts(1) t gid' tid]) (simp_all add: gid' tid split: option.split)
  moreover have "published_ok ?s'"
    using inv_parts(5) t gid gid' published_snapshot_ofD [OF pub]
    by (auto simp: published_ok_def task_snapshot_of_def split: option.splits if_splits)
  moreover have "\<forall>h x. bt_get (rs_tasks ?s') h = Some x \<longrightarrow> task_ok x"
    using inv_parts(2) ok by (simp add: gid')
  ultimately show ?thesis by (simp add: sched_inv_def)
qed

lemma finish_delete_inv:
  assumes inv: "sched_inv s" and t: "bt_get (rs_tasks s) g = Some t"
    and plan: "plan_action s t None True a at es False = Inr (out, us, sn)"
  shows "sched_inv (commit_action s t None us sn ids)" (is "sched_inv ?s'")
proof -
  note inv_parts = sched_invD [OF inv]
  have gid: "t_gid t = g" using inv_parts(7) t by blast
  from plan obtain us0 where q0: "queue_updates s (t_gid t) (task_queue_class t) None = Inr us0"
    and us: "us = us0" and sn: "sn = None"
    by (elim plan_action_okE) (auto dest: published_snapshot_ofD)
  have cls: "task_class s g = task_queue_class t" using t by (simp add: task_class_def)
  have us_eq: "us = moved_orders (rs_queues s) g (task_queue_class t) None"
    using queue_updates_match [OF inv_parts(3) cls] q0 us gid by simp
  have cls': "task_class ?s' = (task_class s)(g := None)"
    by (auto simp: task_class_def fun_eq_iff gid)
  have "queues_match (queues_get (rs_queues ?s')) (task_class ?s')"
    using apply_moved_orders [OF inv_parts(3) cls, of None] us_eq cls' by simp
  moreover have "limits_ok ?s'"
    using inv_parts(4) bt.size_rem [OF inv_parts(6), of g]
      bt.count_rem_le [OF inv_parts(6), of "\<lambda>x. owns_slot (t_slot x)" g]
    by (simp add: limits_ok_def active_slot_count_entries gid)
  moreover have "maps_ok ?s'"
    using maps_okD(3) [OF inv_parts(1)] by (intro maps_ok_remove [OF inv_parts(1) t]) (simp_all add: sn gid)
  moreover have "published_ok ?s'"
    using inv_parts(5) by (simp add: published_ok_def sn gid)
  moreover have "\<forall>h x. bt_get (rs_tasks ?s') h = Some x \<longrightarrow> task_ok x"
    using inv_parts(2) by (simp add: gid)
  ultimately show ?thesis by (simp add: sched_inv_def)
qed

section \<open>Running a plan\<close>

text \<open>
  A plan is admissible when it deletes the task only without publishing a snapshot, and when the task
  it writes is consistent, provided the action passes the checks of \<open>finish_action\<close> on the contract,
  the target state and the snapshot.
\<close>

definition plan_ok :: "request_scheduler \<Rightarrow> scheduled_task \<Rightarrow> plan_result \<Rightarrow> bool" where
  "plan_ok s t r \<longleftrightarrow>
     (\<forall>a. r = Inr (Plan_Finish a) \<longrightarrow>
        (case ap_updated a of
           None \<Rightarrow> \<not> ap_publish a
         | Some u \<Rightarrow>
             t_state u \<in> step_targets (transition_contract (t_state t) (ap_action a)) \<longrightarrow>
             (ap_publish a \<longrightarrow>
                snapshot_ok (task_snapshot_of u (cfg_retry_wait_holds_slot (rs_config s)))) \<longrightarrow>
             update_ok s t u \<and> task_ok u))"

lemma run_plan_cases:
  assumes "run_plan s t at r = (res, s')"
  obtains (unchanged) "s' = s"
    | (finished) a out us sn where "r = Inr (Plan_Finish a)" "res = Inr out"
        "plan_action s t (ap_updated a) True (ap_action a) at (ap_effects a) (ap_publish a)
           = Inr (out, us, sn)"
        "s' = commit_action s t (ap_updated a) us sn (ap_ids a)"
proof -
  from assms show ?thesis
    unfolding run_plan_def
  proof (elim try_in_cases)
    fix p
    assume p: "r = Inr p" and eq: "(case p of Plan_Return outcome \<Rightarrow> (Inr outcome, s)
        | Plan_Finish a \<Rightarrow> finish_action s t (ap_updated a) True (ap_action a) at (ap_effects a)
            (ap_publish a) (ap_ids a)) = (res, s')"
    show ?thesis
    proof (cases p)
      case (Plan_Return out)
      with eq show ?thesis by (intro unchanged) simp
    next
      case (Plan_Finish a)
      with eq have "finish_action s t (ap_updated a) True (ap_action a) at (ap_effects a)
            (ap_publish a) (ap_ids a) = (res, s')" by simp
      then show ?thesis
        unfolding finish_action_def
        by (elim try_in_cases) (use p Plan_Finish unchanged finished in auto)
    qed
  qed (rule unchanged)
qed

lemma run_plan_inv:
  assumes inv: "sched_inv s" and t: "bt_get (rs_tasks s) g = Some t" and plan: "plan_ok s t r"
  shows "sched_inv (snd (run_plan s t at r))"
proof -
  obtain res s' where run: "run_plan s t at r = (res, s')" by (cases "run_plan s t at r")
  then show ?thesis
  proof (cases rule: run_plan_cases)
    case unchanged
    with run inv show ?thesis by simp
  next
    case (finished a out us sn)
    show ?thesis
    proof (cases "ap_updated a")
      case None
      with finished plan have "\<not> ap_publish a" by (simp add: plan_ok_def)
      with None finished finish_delete_inv [OF inv t] run show ?thesis by simp
    next
      case (Some u)
      from finished(3) Some
      have "t_state u \<in> step_targets (transition_contract (t_state t) (ap_action a))"
        and "ap_publish a \<Longrightarrow> snapshot_ok (task_snapshot_of u (cfg_retry_wait_holds_slot (rs_config s)))"
        by (auto elim!: plan_action_okE dest: outcome_parts_Some published_snapshot_ofD)
      with Some finished(1) plan have "update_ok s t u" "task_ok u" by (auto simp: plan_ok_def)
      with Some finished finish_update_inv [OF inv t] run show ?thesis by simp
    qed
  qed
qed

lemma on_task_inv:
  assumes "sched_inv s" and "\<And>t. bt_get (rs_tasks s) g = Some t \<Longrightarrow> plan_ok s t (h t)"
  shows "sched_inv (snd (on_task s g at h))"
  using assms run_plan_inv
  by (cases "bt_get (rs_tasks s) g") (simp_all add: on_task_def task_clone_def)

end
