(* ===== verification/TaskFacts.thy ===== *)
theory TaskFacts
  imports SchedulerInv
begin

text \<open>
  Reasoning about the plans of the handlers: rules that reduce the admissibility of a plan to the
  consistency of the task it writes, and facts about consistent tasks that the handlers share.
\<close>

section \<open>A calculus of admissible plans\<close>

named_theorems plan_intros

lemma plan_ok_Inl [plan_intros]: "plan_ok s t (Inl e)"
  by (simp add: plan_ok_def)

lemma plan_ok_return [plan_intros]: "plan_ok s t (Inr (Plan_Return out))"
  by (simp add: plan_ok_def)

lemma plan_ok_finish [plan_intros]:
  assumes "t_state u \<in> step_targets (transition_contract (t_state t) a) \<Longrightarrow>
    (pub \<Longrightarrow> snapshot_ok (task_snapshot_of u (cfg_retry_wait_holds_slot (rs_config s)))) \<Longrightarrow>
    update_ok s t u \<and> task_ok u"
  shows "plan_ok s t (plan_finish u a es pub ids)"
  using assms by (simp add: plan_ok_def plan_finish_def)

lemma plan_ok_and_then:
  "(\<And>a. r = Inr a \<Longrightarrow> plan_ok s t (f a)) \<Longrightarrow> plan_ok s t (and_then r f)"
  by (cases r) (simp_all add: plan_ok_Inl)

lemma plan_ok_ignored [plan_intros]: "plan_ok s t (plan_ignored t d at)"
  unfolding plan_ignored_def by (intro plan_ok_and_then plan_ok_return)

lemma plan_ok_unless_stale [plan_intros]:
  "plan_ok s t c \<Longrightarrow> plan_ok s t (unless_stale t a at c)"
  unfolding unless_stale_def by (intro plan_ok_and_then) (simp add: plan_ok_return split: option.split)

lemma plan_ok_branch [plan_intros]:
  "(c \<Longrightarrow> plan_ok s t x) \<Longrightarrow> (\<not> c \<Longrightarrow> plan_ok s t y) \<Longrightarrow> plan_ok s t (if c then x else y)"
  "(r = None \<Longrightarrow> plan_ok s t x) \<Longrightarrow> (\<And>a. r = Some a \<Longrightarrow> plan_ok s t (h a)) \<Longrightarrow>
   plan_ok s t (case r of None \<Rightarrow> x | Some a \<Rightarrow> h a)"
  "plan_ok s t (k a b) \<Longrightarrow> plan_ok s t (case (a, b) of (a, b) \<Rightarrow> k a b)"
  by (cases r; simp)+

lemma plan_ok_split_if [plan_intros]:
  "(c \<Longrightarrow> plan_ok s t (case x of (a, b) \<Rightarrow> k a b)) \<Longrightarrow> (\<not> c \<Longrightarrow> plan_ok s t (case y of (a, b) \<Rightarrow> k a b)) \<Longrightarrow>
   plan_ok s t (case if c then x else y of (a, b) \<Rightarrow> k a b)"
  by simp

lemma plan_ok_and_then_value [plan_intros]:
  "plan_ok s t (f a) \<Longrightarrow> plan_ok s t (and_then (Inr a) f)"
  "plan_ok s t (and_then (Inl e) f)"
  "(c \<Longrightarrow> plan_ok s t (and_then x f)) \<Longrightarrow> (\<not> c \<Longrightarrow> plan_ok s t (and_then y f)) \<Longrightarrow>
   plan_ok s t (and_then (if c then x else y) f)"
  "(r = None \<Longrightarrow> plan_ok s t (and_then x f)) \<Longrightarrow> (\<And>a. r = Some a \<Longrightarrow> plan_ok s t (and_then (h a) f)) \<Longrightarrow>
   plan_ok s t (and_then (case r of None \<Rightarrow> x | Some a \<Rightarrow> h a) f)"
  "plan_ok s t (and_then (k a b) f) \<Longrightarrow> plan_ok s t (and_then (case (a, b) of (a, b) \<Rightarrow> k a b) f)"
  by (cases r; simp add: plan_ok_Inl)+

lemma plan_ok_and_then_call [plan_intros]:
  "(\<And>x. required_target t a = Inr x \<Longrightarrow> plan_ok s t (f x)) \<Longrightarrow>
   plan_ok s t (and_then (required_target t a) f)"
  "(\<And>x. r = Some x \<Longrightarrow> plan_ok s t (k x)) \<Longrightarrow> plan_ok s t (and_then (ok_or e r) k)"
  "(t_pending_barrier t = None \<Longrightarrow> plan_ok s t (g ())) \<Longrightarrow>
   plan_ok s t (and_then (reject_pending t op) g)"
  "(\<And>x. matching_challenge t c fp = Inr x \<Longrightarrow> plan_ok s t (h x)) \<Longrightarrow>
   plan_ok s t (and_then (matching_challenge t c fp) h)"
  by (auto intro!: plan_ok_and_then plan_ok_Inl simp: reject_pending_def ok_or_def split: option.splits)

lemma plan_ok_ids [plan_intros]:
  "(\<And>a j. ids_retry_timer i = Inr (a, j) \<Longrightarrow> plan_ok s t (f1 (a, j))) \<Longrightarrow>
   plan_ok s t (and_then (ids_retry_timer i) f1)"
  "(\<And>b j. ids_host_key_resolution i = Inr (b, j) \<Longrightarrow> plan_ok s t (f2 (b, j))) \<Longrightarrow>
   plan_ok s t (and_then (ids_host_key_resolution i) f2)"
  "(\<And>c j. ids_stopped_deletion i = Inr (c, j) \<Longrightarrow> plan_ok s t (f3 (c, j))) \<Longrightarrow>
   plan_ok s t (and_then (ids_stopped_deletion i) f3)"
  by (auto intro!: plan_ok_and_then)

text \<open>The targets of a cell as a condition on the state.\<close>

lemma targets_simps:
  "x \<in> step_targets (if c then a else b) \<longleftrightarrow>
     c \<and> x \<in> step_targets a \<or> \<not> c \<and> x \<in> step_targets b"
  "step_targets (ct_transition r ts) = set ts"
  "step_targets (ct_stay st r) = {st}"
  "step_targets (ct_no_op st) = {}"
  "step_targets (ct_conditional r ts) = {}"
  "step_targets (ct_ignore st r) = {}"
  "step_targets (ct_delete r) = {}"
  "step_targets ct_conflict = {}"
  "step_targets (ct_rejected r e) = {}"
  by (simp_all add: contract_defs step_targets_def)

text \<open>The helpers that edit the copy of the task; the effects they emit do not matter here.\<close>

lemma plan_ok_cancel_timers [plan_intros]:
  "(\<And>es'. plan_ok s t (f (u\<lparr>t_retry_timer := None, t_retry_ready := False, t_slow_readmission := None,
       t_slow_readmission_ready := False, t_pending_slow_readmission := None, t_slow_slot := None\<rparr>) es')) \<Longrightarrow>
   plan_ok s t (case cancel_timers u es of (u', es') \<Rightarrow> f u' es')"
  by (simp add: cancel_timers_def)

lemma release_slot_eq: "release_slot t es = (u, es') \<Longrightarrow> u = t\<lparr>t_slot := SO_None\<rparr>"
  by (cases "t_slot t") (auto simp: release_slot_def owns_slot_def split: if_splits)

lemma plan_ok_release_slot [plan_intros]:
  "(\<And>es'. plan_ok s t (f (u\<lparr>t_slot := SO_None\<rparr>) es')) \<Longrightarrow>
   plan_ok s t (case release_slot u es of (u', es') \<Rightarrow> f u' es')"
  "(\<And>es'. plan_ok s t (and_then (g (u\<lparr>t_slot := SO_None\<rparr>) es') k)) \<Longrightarrow>
   plan_ok s t (and_then (case release_slot u es of (u', es') \<Rightarrow> g u' es') k)"
  "(\<And>es'. plan_ok s t (h (u\<lparr>t_slot := SO_None\<rparr>, es'))) \<Longrightarrow>
   plan_ok s t (and_then (Inr (release_slot u es)) h)"
  by (cases "release_slot u es"; simp; metis release_slot_eq)+

lemma begin_cancellation_ok:
  assumes "begin_cancellation t target force es op = Inr (u, es')"
  shows "\<exists>f. u = t\<lparr>t_pending_barrier := Some (PB_CancellationDrain (t_generation t) target f)\<rparr>"
    and "t_pending_barrier t = None \<or> (\<exists>g. t_pending_barrier t = Some (PB_GenerationPersistence g))
      \<or> is_cancellation_drain (t_pending_barrier t)"
  using assms
  by (auto simp: begin_cancellation_def Let_def split: option.splits pending_barrier.splits if_splits)

definition drain_startable :: "pending_barrier option \<Rightarrow> bool" where
  "drain_startable b \<longleftrightarrow>
     b = None \<or> (\<exists>g. b = Some (PB_GenerationPersistence g)) \<or> is_cancellation_drain b"

lemma plan_ok_begin_cancellation [plan_intros]:
  assumes "\<And>b es'. drain_startable (t_pending_barrier u) \<Longrightarrow>
     plan_ok s t (f (u\<lparr>t_pending_barrier := Some (PB_CancellationDrain (t_generation u) target b)\<rparr>, es'))"
  shows "plan_ok s t (and_then (begin_cancellation u target force es op) f)"
proof (rule plan_ok_and_then)
  fix p assume p: "begin_cancellation u target force es op = Inr p"
  obtain u' es' where "p = (u', es')" by (cases p)
  with p begin_cancellation_ok [of u target force es op u' es'] assms show "plan_ok s t (f p)"
    by (auto simp: drain_startable_def)
qed

lemma begin_terminal_ok:
  "begin_terminal t status e = Inr u \<longleftrightarrow>
   aria2_is_terminal status \<and> (status = AS_Error \<longrightarrow> e \<noteq> None)
   \<and> u = t\<lparr>t_error := e, t_stopped_status := None, t_terminal_persisted := False,
           t_pending_barrier := Some (PB_TerminalPersistence (t_generation t) status)\<rparr>"
  by (auto simp: begin_terminal_def)

lemma plan_ok_begin_terminal [plan_intros]:
  "plan_ok s t (f (u\<lparr>t_error := e, t_stopped_status := None, t_terminal_persisted := False,
       t_pending_barrier := Some (PB_TerminalPersistence (t_generation u) status)\<rparr>)) \<Longrightarrow>
   plan_ok s t (and_then (begin_terminal u status e) f)"
  "plan_ok s t (and_then (g (u\<lparr>t_error := e, t_stopped_status := None, t_terminal_persisted := False,
       t_pending_barrier := Some (PB_TerminalPersistence (t_generation u) status)\<rparr>)) k) \<Longrightarrow>
   plan_ok s t (and_then (and_then (begin_terminal u status e) g) k)"
  by (auto simp: begin_terminal_def plan_ok_Inl)

lemma schedule_no_space_probe_ok:
  assumes "schedule_no_space_probe u origin at es ids = Inr (v, es', ids')"
  shows "\<exists>p. v = u\<lparr>t_no_space_probe := p\<rparr>
    \<and> (p = t_no_space_probe u \<or> tc_no_space (t_conditions u) \<noteq> None)"
  using assms
  by (cases u) (auto simp: schedule_no_space_probe_def and_then_eq_Inr split: if_splits)

lemma plan_ok_schedule_probe [plan_intros]:
  assumes "\<And>p es' ids'. p = t_no_space_probe u \<or> tc_no_space (t_conditions u) \<noteq> None \<Longrightarrow>
     plan_ok s t (f (u\<lparr>t_no_space_probe := p\<rparr>, es', ids'))"
  shows "plan_ok s t (and_then (schedule_no_space_probe u origin at es ids) f)"
proof (rule plan_ok_and_then)
  fix p assume p: "schedule_no_space_probe u origin at es ids = Inr p"
  obtain v es' ids' where "p = (v, es', ids')" by (cases p)
  with p schedule_no_space_probe_ok [of u origin at es ids v es' ids'] assms show "plan_ok s t (f p)"
    by auto
qed

lemma plan_ok_finish_simple:
  "update_ok s t u \<Longrightarrow> task_ok u \<Longrightarrow> plan_ok s t (plan_finish u a es pub ids)"
  by (intro plan_intros) simp

lemmas inv_defs = slot_inv_def terminal_inv_def conditions_inv_def timers_inv_def patch_inv_def
  control_inv_def

lemmas state_defs = working_state_def patchable_state_def is_terminal_def is_terminal_pending_def
  condition_state_def

section \<open>Facts about consistent tasks\<close>

lemma task_okD:
  assumes "task_ok t"
  shows "slot_inv (t_state t) (t_slot t) (t_pending_barrier t) (t_generation_started t)"
    "\<And>b. t_pending_barrier t = Some b \<Longrightarrow> barrier_inv t (t_state t) (t_slot t) b"
    "terminal_inv (t_state t) (t_pending_barrier t) (t_terminal_persisted t)
       (t_stopped_status t) (t_error t) (t_host_key_challenge t)"
    "conditions_inv (t_conditions t) (t_state t) (t_no_space_probe t) (t_slot t)
       (t_pending_barrier t)"
    "timers_inv (t_state t) (t_pending_barrier t) (t_retry_timer t \<noteq> None) (t_retry_ready t)
       (t_slow_readmission t \<noteq> None) (t_slow_readmission_ready t)
       (t_pending_slow_readmission t \<noteq> None)"
    "patch_inv (t_state t) (t_pending_barrier t) (t_pending_option_patch t)
       (t_pending_option_patch_mode t) (t_pending_credential_requirement t)
       (t_highest_option_patch_id t)"
    "control_inv (t_pending_user_control t) (t_state t) (t_pending_barrier t)
       (t_retry_timer t \<noteq> None) (t_retry_ready t) (t_slow_readmission t \<noteq> None)
       (t_slow_readmission_ready t)"
  using assms by (simp_all add: task_ok_def barrier_ok_def)

lemma is_cancellation_drain_iff:
  "is_cancellation_drain b \<longleftrightarrow> (\<exists>g target f. b = Some (PB_CancellationDrain g target f))"
  by (auto simp: is_cancellation_drain_def split: option.splits pending_barrier.splits)

lemma drain_state:
  assumes "task_ok t" "is_cancellation_drain (t_pending_barrier t)"
  shows "t_state t \<in> {TS_Paused, TS_PausedSlow, TS_PausedRestarting, TS_Waiting, TS_WaitingSlow,
                      TS_Error, TS_Removed}"
proof -
  obtain g target f where b: "t_pending_barrier t = Some (PB_CancellationDrain g target f)"
    using assms(2) by (auto simp: is_cancellation_drain_iff)
  from task_okD(2) [OF assms(1) b] show ?thesis by (cases target) auto
qed

lemma owns_slot_state:
  assumes "task_ok t" "owns_slot (t_slot t)" "\<not> is_cancellation_drain (t_pending_barrier t)"
  shows "t_state t \<in> {TS_Allocating, TS_Active, TS_Verifying, TS_Seeding, TS_RetryWait}"
    and "t_generation_started t"
  using task_okD(1) [OF assms(1)] assms(2,3) by (auto simp: slot_inv_def working_state_def)

text \<open>
  A generation can be cancelled when the task holds a slot or restarts or drains already, and no
  barrier but generation persistence or a drain is pending.
\<close>

definition drainable :: "scheduled_task \<Rightarrow> bool" where
  "drainable t \<longleftrightarrow>
     drain_startable (t_pending_barrier t)
     \<and> (owns_slot (t_slot t) \<or> t_state t = TS_PausedRestarting
        \<or> is_cancellation_drain (t_pending_barrier t))"

lemma drainable_barrier:
  assumes "drainable t"
  shows "\<not> is_deferring (t_pending_barrier t)" "\<not> is_patch_application (t_pending_barrier t)"
    "\<not> is_resolution (t_pending_barrier t)" "\<not> is_patch_persistence (t_pending_barrier t)"
    "\<not> is_terminal_persistence (t_pending_barrier t)"
  using assms by (auto simp: drainable_def drain_startable_def is_cancellation_drain_iff barrier_kind_defs)

lemma drainable_state:
  assumes "task_ok t" "drainable t"
  shows "t_state t \<notin> {TS_StoppedResult, TS_PausedHostKey, TS_Accepted, TS_Complete}"
  using drain_state [OF assms(1)] owns_slot_state(1) [OF assms(1)] assms(2)
  by (cases "is_cancellation_drain (t_pending_barrier t)") (auto simp: drainable_def)

lemma drainable_facts:
  assumes ok: "task_ok t" and dr: "drainable t"
  shows "t_no_space_probe t = None" "t_pending_user_control t = None" "\<not> t_terminal_persisted t"
    "t_stopped_status t = None" "t_host_key_challenge t = None"
    "task_conditions_validate (t_conditions t) = Inr ()"
    "owns_slot (t_slot t) \<Longrightarrow> t_generation_started t"
    "t_pending_option_patch_mode t = None \<or> t_pending_option_patch_mode t = Some POM_ActiveRestart"
    "t_pending_option_patch_mode t = None \<longleftrightarrow> t_pending_option_patch t = None"
    "t_pending_option_patch t = None \<Longrightarrow> t_pending_credential_requirement t = None"
    "t_pending_option_patch t \<noteq> None \<Longrightarrow> t_highest_option_patch_id t = t_pending_option_patch t"
    "blocks_admission (t_conditions t) \<Longrightarrow> is_cancellation_drain (t_pending_barrier t)"
    "t_pending_option_patch_mode t = Some POM_ActiveRestart \<Longrightarrow>
       t_state t \<in> {TS_PausedRestarting, TS_Paused, TS_Waiting}"
proof -
  note bar = drainable_barrier [OF dr] and st = drainable_state [OF ok dr]
  note cond = task_okD(4) [OF ok, unfolded conditions_inv_def]
  show blocked: "is_cancellation_drain (t_pending_barrier t)" if "blocks_admission (t_conditions t)"
    using that cond dr by (auto simp: drainable_def condition_state_def is_terminal_pending_def)
  show "t_no_space_probe t = None"
  proof (rule ccontr)
    assume "t_no_space_probe t \<noteq> None"
    with cond have "blocks_admission (t_conditions t)" "\<not> is_cancellation_drain (t_pending_barrier t)"
      by (auto simp: blocks_admission_def)
    with blocked show False by simp
  qed
  show "t_pending_user_control t = None"
    using task_okD(7) [OF ok] bar by (auto simp: control_inv_def)
  show "t_pending_option_patch_mode t = None \<or> t_pending_option_patch_mode t = Some POM_ActiveRestart"
    using task_okD(6) [OF ok] bar
    by (cases "t_pending_option_patch_mode t"; cases "the (t_pending_option_patch_mode t)")
      (auto simp: patch_inv_def)
  show "t_state t \<in> {TS_PausedRestarting, TS_Paused, TS_Waiting}"
    if "t_pending_option_patch_mode t = Some POM_ActiveRestart"
    using task_okD(6) [OF ok] bar that by (auto simp: patch_inv_def)
  show "\<not> t_terminal_persisted t" "t_stopped_status t = None" "t_host_key_challenge t = None"
    using task_okD(3) [OF ok] st by (auto simp: terminal_inv_def)
qed (use task_okD(1,4,6) [OF ok] in \<open>auto simp: conditions_inv_def slot_inv_def patch_inv_def\<close>)

lemma not_deferring_barrier:
  assumes "task_ok t" "deferring_barrier t = None"
    "\<not> is_terminal (t_state t)" "t_state t \<noteq> TS_Allocating"
    "\<not> is_cancellation_drain (t_pending_barrier t)"
  shows "t_pending_barrier t = None"
proof (cases "t_pending_barrier t")
  case (Some b)
  have "terminal_state st \<noteq> Some (t_state t)" for st
    using assms(3) by (cases st) (auto simp: is_terminal_def)
  with Some task_okD(2) [OF assms(1) Some] assms(2-5) show ?thesis
    by (cases b) (auto simp: deferring_barrier_None is_terminal_def)
qed simp

text \<open>Fields that hold an option are compared with \<^const>\<open>None\<close> throughout.\<close>

declare not_None_eq [iff del]

text \<open>Clauses that only ask for a drain do not distinguish the other barriers.\<close>

lemma inv_no_drain [simp]:
  "\<not> is_cancellation_drain (Some b) \<Longrightarrow> slot_inv st slot (Some b) started = slot_inv st slot None started"
  "\<not> is_cancellation_drain (Some b) \<Longrightarrow>
     conditions_inv c st probe slot (Some b) = conditions_inv c st probe slot None"
  "\<not> is_cancellation_drain (Some b) \<Longrightarrow>
     timers_inv st (Some b) ra rr sa sr sp = timers_inv st None ra rr sa sr sp"
  "\<not> is_cancellation_drain (Some b) \<Longrightarrow> \<not> is_terminal_persistence (Some b) \<Longrightarrow>
     terminal_inv st (Some b) persisted stopped error challenge
     = terminal_inv st None persisted stopped error challenge"
  by (simp_all add: slot_inv_def conditions_inv_def timers_inv_def terminal_inv_def)

lemma timers_inv_clear_slow:
  "timers_inv st b ra rr sa sr sp \<Longrightarrow> timers_inv st b ra rr False False sp"
  by (simp add: timers_inv_def)

lemma control_inv_None [simp]: "control_inv None st b ra rr sa sr"
  by (simp add: control_inv_def)

lemma control_inv_plain [simp]:
  "\<not> is_deferring b \<Longrightarrow> control_inv c st b ra rr sa sr \<longleftrightarrow> c = None"
  by (auto simp: control_inv_def)

lemma patch_inv_plain [simp]:
  "\<not> is_deferring b \<Longrightarrow>
   patch_inv st b patch mode credentials highest \<longleftrightarrow>
     mode = None \<and> patch = None \<and> credentials = None
     \<or> mode = Some POM_ActiveRestart \<and> patch \<noteq> None \<and> highest = patch
       \<and> st \<in> {TS_PausedRestarting, TS_Paused, TS_Waiting}"
  by (cases mode; cases "the mode") (auto simp: patch_inv_def is_deferring_def not_None_eq)

lemma patch_inv_deferring [simp]:
  "patch_inv st (Some (PB_OptionPatchPersistence g q)) patch mode credentials highest \<longleftrightarrow>
     mode = None \<and> patch = None \<and> credentials = None
     \<or> mode = Some POM_ActiveRestart \<and> patch \<noteq> None \<and> highest = patch"
  "patch_inv st (Some (PB_OptionPatchApplication g q)) patch mode credentials highest \<longleftrightarrow>
     mode = None \<and> patch = None \<and> credentials = None
     \<or> mode = Some POM_InPlace \<and> patch \<noteq> None \<and> highest = patch
     \<or> mode = Some POM_ActiveRestart \<and> patch \<noteq> None \<and> highest = patch
       \<and> st \<in> {TS_PausedRestarting, TS_Paused, TS_Waiting}"
  "patch_inv st (Some (PB_HostKeyResolution g r c)) patch mode credentials highest \<longleftrightarrow>
     mode = None \<and> patch = None \<and> credentials = None
     \<or> mode = Some POM_MatchingHostKey \<and> patch \<noteq> None \<and> highest = patch \<and> credentials = None
     \<or> mode = Some POM_ActiveRestart \<and> patch \<noteq> None \<and> highest = patch
       \<and> st \<in> {TS_PausedRestarting, TS_Paused, TS_Waiting}"
  by (cases mode; cases "the mode"; auto simp: patch_inv_def barrier_kind_defs not_None_eq)+

lemmas task_ok_unfold = task_ok_def update_ok_def barrier_ok_def slot_inv_def terminal_inv_def
  conditions_inv_def timers_inv_def state_defs

lemma task_ok_draining:
  assumes barrier: "t_pending_barrier u = Some (PB_CancellationDrain g target force)"
      "barrier_inv u (t_state u) (t_slot u) (PB_CancellationDrain g target force)"
    and slot: "owns_slot (t_slot u) \<Longrightarrow> t_generation_started u"
    and terminal: "\<not> t_terminal_persisted u" "t_stopped_status u = None" "t_host_key_challenge u = None"
    and conditions: "task_conditions_validate (t_conditions u) = Inr ()"
      "blocks_admission (t_conditions u) \<Longrightarrow> condition_state (t_state u) \<or> is_terminal_pending (t_state u)"
      "t_no_space_probe u = None"
    and timers: "t_retry_timer u = None" "\<not> t_retry_ready u" "t_slow_readmission u = None"
      "\<not> t_slow_readmission_ready u" "t_pending_slow_readmission u \<noteq> None \<Longrightarrow> t_state u = TS_WaitingSlow"
    and patch: "t_pending_option_patch_mode u = None \<and> t_pending_option_patch u = None
         \<and> t_pending_credential_requirement u = None
       \<or> t_pending_option_patch_mode u = Some POM_ActiveRestart \<and> t_pending_option_patch u \<noteq> None
         \<and> t_highest_option_patch_id u = t_pending_option_patch u
         \<and> t_state u \<in> {TS_PausedRestarting, TS_Paused, TS_Waiting}"
    and control: "t_pending_user_control u = None"
  shows "task_ok u"
proof -
  have "t_state u \<in> {TS_Paused, TS_PausedSlow, TS_PausedRestarting, TS_Waiting, TS_WaitingSlow,
                      TS_Error, TS_Removed}"
    using barrier(2) by (cases target) auto
  then have "\<not> working_state (t_state u)" "t_state u \<notin> {TS_Accepted, TS_StoppedResult, TS_PausedHostKey}"
    by (auto simp: working_state_def)
  then show ?thesis
    using assms
    by (simp add: task_ok_def barrier_ok_def slot_inv_def terminal_inv_def conditions_inv_def
        timers_inv_def)
qed

lemma task_ok_drain:
  assumes ok: "task_ok t" and dr: "drainable t"
    and frame: "t_generation u = t_generation t" "t_generation_started u = t_generation_started t"
      "t_slot u = t_slot t" "t_no_space_probe u = t_no_space_probe t \<or> t_no_space_probe u = None"
      "t_pending_user_control u = t_pending_user_control t \<or> t_pending_user_control u = None"
      "t_terminal_persisted u = t_terminal_persisted t" "t_stopped_status u = t_stopped_status t"
      "t_host_key_challenge u = t_host_key_challenge t \<or> t_host_key_challenge u = None"
      "t_highest_option_patch_id u = t_highest_option_patch_id t"
      "\<not> t_retry_ready u" "t_retry_timer u = None"
      "\<not> t_slow_readmission_ready u" "t_slow_readmission u = None"
      "t_pending_slow_readmission u \<noteq> None \<Longrightarrow> t_state u = TS_WaitingSlow"
    and patch: "(t_pending_option_patch u = t_pending_option_patch t
        \<and> t_pending_option_patch_mode u = t_pending_option_patch_mode t
        \<and> t_pending_credential_requirement u = t_pending_credential_requirement t
        \<and> (t_pending_option_patch_mode t = Some POM_ActiveRestart \<longrightarrow>
             t_state u \<in> {TS_PausedRestarting, TS_Paused, TS_Waiting}))
      \<or> (t_pending_option_patch u = None \<and> t_pending_option_patch_mode u = None
         \<and> t_pending_credential_requirement u = None)"
    and conditions: "task_conditions_validate (t_conditions u) = Inr ()"
      "blocks_admission (t_conditions u) \<Longrightarrow> condition_state (t_state u) \<or> is_terminal_pending (t_state u)"
    and barrier: "t_pending_barrier u = Some (PB_CancellationDrain (t_generation t) target force)"
      "barrier_inv u (t_state u) (t_slot u) (PB_CancellationDrain (t_generation t) target force)"
  shows "task_ok u"
proof -
  note facts = drainable_facts [OF ok dr]
  have "t_pending_option_patch_mode u = None \<and> t_pending_option_patch u = None
      \<and> t_pending_credential_requirement u = None
    \<or> t_pending_option_patch_mode u = Some POM_ActiveRestart \<and> t_pending_option_patch u \<noteq> None
      \<and> t_highest_option_patch_id u = t_pending_option_patch u
      \<and> t_state u \<in> {TS_PausedRestarting, TS_Paused, TS_Waiting}"
    using patch facts(8-11) frame(9) by auto
  moreover have "t_no_space_probe u = None" "t_pending_user_control u = None" "t_host_key_challenge u = None"
    using facts(1,2,5) frame(4,5,8) by auto
  ultimately show ?thesis
    by (intro task_ok_draining [OF barrier]) (simp_all add: frame facts conditions)
qed

lemma terminal_state_pending:
  "terminal_state status = Some st \<Longrightarrow>
   is_terminal_pending st \<and> \<not> working_state st
   \<and> st \<notin> {TS_Accepted, TS_StoppedResult, TS_PausedHostKey, TS_RetryWait, TS_WaitingSlow}"
  by (cases status) (auto simp: state_defs)

lemma task_ok_terminal:
  assumes "t_pending_barrier u = Some (PB_TerminalPersistence (t_generation u) status)"
    "terminal_state status = Some (t_state u)" "status = AS_Error \<Longrightarrow> t_error u \<noteq> None"
    "t_slot u = SO_None" "t_host_key_challenge u = None"
    "\<not> t_terminal_persisted u" "t_stopped_status u = None"
    "task_conditions_validate (t_conditions u) = Inr ()"
    "t_no_space_probe u \<noteq> None \<Longrightarrow> tc_no_space (t_conditions u) \<noteq> None"
    "t_retry_timer u = None" "\<not> t_retry_ready u" "t_slow_readmission u = None"
    "\<not> t_slow_readmission_ready u" "t_pending_slow_readmission u = None"
    "t_pending_option_patch u = None" "t_pending_option_patch_mode u = None"
    "t_pending_credential_requirement u = None" "t_pending_user_control u = None"
  shows "task_ok u"
  using assms terminal_state_pending [OF assms(2)]
  by (auto simp: task_ok_def barrier_ok_def slot_inv_def terminal_inv_def conditions_inv_def
      timers_inv_def owns_slot_def)

lemma clear_needs_credentials_conditions:
  assumes "conditions_inv c st probe slot b"
  shows "conditions_inv (c\<lparr>tc_needs_credentials := None\<rparr>) st probe slot b"
  using assms by (auto simp: conditions_inv_def task_conditions_validate_ok blocks_admission_def)

lemma token_fresh: "token_disposition expected seen actual = ED_Fresh \<longleftrightarrow> expected = Some actual"
  by (simp add: token_disposition_def)

end
