(* ===== verification/PlanFrames.thy ===== *)
theory PlanFrames
  imports TaskFacts
begin

text \<open>
  What every plan of a handler respects, whatever the task: it keeps the identity of the task, never
  lowers its generation, takes an action from the set its input permits, emits at most six effects and
  only for this task, and issues correlation identifiers from the counters. The rules walk through a
  handler like the rules of \<open>TaskFacts\<close>, with the emitted effects and the counters tracked.
\<close>

section \<open>Effects and identifiers of one plan\<close>

definition effects_for :: "task_id \<Rightarrow> gid \<Rightarrow> transition_effect list \<Rightarrow> bool" where
  "effects_for i g es \<longleftrightarrow> (\<forall>e \<in> set es. effect_task_id e = i \<and> effect_gid e = g)"

lemma effects_for_simps [simp]:
  "effects_for i g []"
  "effects_for i g (e # es) \<longleftrightarrow> effect_task_id e = i \<and> effect_gid e = g \<and> effects_for i g es"
  "effects_for i g (es @ fs) \<longleftrightarrow> effects_for i g es \<and> effects_for i g fs"
  by (auto simp: effects_for_def)

text \<open>A counter stays or gives out its value and moves on, to zero after the last value.\<close>

definition counter_next :: "u64 \<Rightarrow> u64" where
  "counter_next n = (if n = - 1 then 0 else n + 1)"

definition counter_step :: "u64 \<Rightarrow> u64 \<Rightarrow> bool" where
  "counter_step n m \<longleftrightarrow> m = n \<or> n \<noteq> 0 \<and> m = counter_next n"

definition ids_step :: "id_counters \<Rightarrow> id_counters \<Rightarrow> bool" where
  "ids_step i j \<longleftrightarrow>
     counter_step (ic_retry_timer i) (ic_retry_timer j)
     \<and> counter_step (ic_slow_readmission i) (ic_slow_readmission j)
     \<and> counter_step (ic_no_space_probe i) (ic_no_space_probe j)
     \<and> counter_step (ic_host_key_resolution i) (ic_host_key_resolution j)
     \<and> counter_step (ic_stopped_deletion i) (ic_stopped_deletion j)"

definition issued :: "u64 \<Rightarrow> u64 \<Rightarrow> u64 \<Rightarrow> bool" where
  "issued n m v \<longleftrightarrow> v = n \<and> n \<noteq> 0 \<and> m = counter_next n"

lemma counter_step_same [simp]: "counter_step n n"
  by (simp add: counter_step_def)

lemma ids_step_same [simp]: "ids_step i i"
  by (simp add: ids_step_def)

lemma issued_step: "issued n m v \<Longrightarrow> counter_step n m"
  by (simp add: issued_def counter_step_def)

text \<open>The identifiers a task waits for.\<close>

definition retry_token :: "scheduled_task \<Rightarrow> u64 option" where
  "retry_token t = map_option (retry_timer_id_get \<circ> fst) (t_retry_timer t)"

definition readmission_token :: "scheduled_task \<Rightarrow> u64 option" where
  "readmission_token t = map_option (slow_readmission_id_get \<circ> fst) (t_slow_readmission t)"

definition probe_token :: "scheduled_task \<Rightarrow> u64 option" where
  "probe_token t = map_option (no_space_probe_id_get \<circ> fst) (t_no_space_probe t)"

definition resolution_token :: "scheduled_task \<Rightarrow> u64 option" where
  "resolution_token t =
     (case t_pending_barrier t of
        Some (PB_HostKeyResolution g r c) \<Rightarrow> Some (host_key_resolution_id_get r) | _ \<Rightarrow> None)"

definition deletion_token :: "scheduled_task \<Rightarrow> u64 option" where
  "deletion_token t =
     (case t_pending_barrier t of
        Some (PB_StoppedResultDeletion g d) \<Rightarrow> Some (stopped_result_deletion_id_get d) | _ \<Rightarrow> None)"

text \<open>The tokens depend on one field each.\<close>

lemma token_updates [simp]:
  "retry_token (t\<lparr>t_task_id := x0\<rparr>) = retry_token t"
  "retry_token (t\<lparr>t_gid := x1\<rparr>) = retry_token t"
  "retry_token (t\<lparr>t_state := x2\<rparr>) = retry_token t"
  "retry_token (t\<lparr>t_generation := x3\<rparr>) = retry_token t"
  "retry_token (t\<lparr>t_generation_started := x4\<rparr>) = retry_token t"
  "retry_token (t\<lparr>t_desired_paused := x5\<rparr>) = retry_token t"
  "retry_token (t\<lparr>t_conditions := x6\<rparr>) = retry_token t"
  "retry_token (t\<lparr>t_slot := x7\<rparr>) = retry_token t"
  "retry_token (t\<lparr>t_pending_barrier := x8\<rparr>) = retry_token t"
  "retry_token (t\<lparr>t_retry_ready := x10\<rparr>) = retry_token t"
  "retry_token (t\<lparr>t_slow_readmission := x11\<rparr>) = retry_token t"
  "retry_token (t\<lparr>t_slow_readmission_ready := x12\<rparr>) = retry_token t"
  "retry_token (t\<lparr>t_pending_slow_readmission := x13\<rparr>) = retry_token t"
  "retry_token (t\<lparr>t_slow_demotion_count := x14\<rparr>) = retry_token t"
  "retry_token (t\<lparr>t_slow_slot := x15\<rparr>) = retry_token t"
  "retry_token (t\<lparr>t_slow_remaining_position := x16\<rparr>) = retry_token t"
  "retry_token (t\<lparr>t_no_space_probe := x17\<rparr>) = retry_token t"
  "retry_token (t\<lparr>t_pending_option_patch := x18\<rparr>) = retry_token t"
  "retry_token (t\<lparr>t_pending_option_patch_mode := x19\<rparr>) = retry_token t"
  "retry_token (t\<lparr>t_pending_credential_requirement := x20\<rparr>) = retry_token t"
  "retry_token (t\<lparr>t_pending_user_control := x21\<rparr>) = retry_token t"
  "retry_token (t\<lparr>t_pending_source_replacement := x22\<rparr>) = retry_token t"
  "retry_token (t\<lparr>t_host_key_challenge := x23\<rparr>) = retry_token t"
  "retry_token (t\<lparr>t_error := x24\<rparr>) = retry_token t"
  "retry_token (t\<lparr>t_stopped_status := x25\<rparr>) = retry_token t"
  "retry_token (t\<lparr>t_terminal_persisted := x26\<rparr>) = retry_token t"
  "retry_token (t\<lparr>t_seen_events := x27\<rparr>) = retry_token t"
  "retry_token (t\<lparr>t_last_retry_timer := x28\<rparr>) = retry_token t"
  "retry_token (t\<lparr>t_last_slow_readmission := x29\<rparr>) = retry_token t"
  "retry_token (t\<lparr>t_last_no_space_probe := x30\<rparr>) = retry_token t"
  "retry_token (t\<lparr>t_highest_option_patch_id := x31\<rparr>) = retry_token t"
  "retry_token (t\<lparr>t_last_option_patch_persistence := x32\<rparr>) = retry_token t"
  "retry_token (t\<lparr>t_last_option_patch_application := x33\<rparr>) = retry_token t"
  "retry_token (t\<lparr>t_last_host_key_resolution := x34\<rparr>) = retry_token t"
  "retry_token (t\<lparr>t_last_stopped_deletion := x35\<rparr>) = retry_token t"
  "readmission_token (t\<lparr>t_task_id := x0\<rparr>) = readmission_token t"
  "readmission_token (t\<lparr>t_gid := x1\<rparr>) = readmission_token t"
  "readmission_token (t\<lparr>t_state := x2\<rparr>) = readmission_token t"
  "readmission_token (t\<lparr>t_generation := x3\<rparr>) = readmission_token t"
  "readmission_token (t\<lparr>t_generation_started := x4\<rparr>) = readmission_token t"
  "readmission_token (t\<lparr>t_desired_paused := x5\<rparr>) = readmission_token t"
  "readmission_token (t\<lparr>t_conditions := x6\<rparr>) = readmission_token t"
  "readmission_token (t\<lparr>t_slot := x7\<rparr>) = readmission_token t"
  "readmission_token (t\<lparr>t_pending_barrier := x8\<rparr>) = readmission_token t"
  "readmission_token (t\<lparr>t_retry_timer := x9\<rparr>) = readmission_token t"
  "readmission_token (t\<lparr>t_retry_ready := x10\<rparr>) = readmission_token t"
  "readmission_token (t\<lparr>t_slow_readmission_ready := x12\<rparr>) = readmission_token t"
  "readmission_token (t\<lparr>t_pending_slow_readmission := x13\<rparr>) = readmission_token t"
  "readmission_token (t\<lparr>t_slow_demotion_count := x14\<rparr>) = readmission_token t"
  "readmission_token (t\<lparr>t_slow_slot := x15\<rparr>) = readmission_token t"
  "readmission_token (t\<lparr>t_slow_remaining_position := x16\<rparr>) = readmission_token t"
  "readmission_token (t\<lparr>t_no_space_probe := x17\<rparr>) = readmission_token t"
  "readmission_token (t\<lparr>t_pending_option_patch := x18\<rparr>) = readmission_token t"
  "readmission_token (t\<lparr>t_pending_option_patch_mode := x19\<rparr>) = readmission_token t"
  "readmission_token (t\<lparr>t_pending_credential_requirement := x20\<rparr>) = readmission_token t"
  "readmission_token (t\<lparr>t_pending_user_control := x21\<rparr>) = readmission_token t"
  "readmission_token (t\<lparr>t_pending_source_replacement := x22\<rparr>) = readmission_token t"
  "readmission_token (t\<lparr>t_host_key_challenge := x23\<rparr>) = readmission_token t"
  "readmission_token (t\<lparr>t_error := x24\<rparr>) = readmission_token t"
  "readmission_token (t\<lparr>t_stopped_status := x25\<rparr>) = readmission_token t"
  "readmission_token (t\<lparr>t_terminal_persisted := x26\<rparr>) = readmission_token t"
  "readmission_token (t\<lparr>t_seen_events := x27\<rparr>) = readmission_token t"
  "readmission_token (t\<lparr>t_last_retry_timer := x28\<rparr>) = readmission_token t"
  "readmission_token (t\<lparr>t_last_slow_readmission := x29\<rparr>) = readmission_token t"
  "readmission_token (t\<lparr>t_last_no_space_probe := x30\<rparr>) = readmission_token t"
  "readmission_token (t\<lparr>t_highest_option_patch_id := x31\<rparr>) = readmission_token t"
  "readmission_token (t\<lparr>t_last_option_patch_persistence := x32\<rparr>) = readmission_token t"
  "readmission_token (t\<lparr>t_last_option_patch_application := x33\<rparr>) = readmission_token t"
  "readmission_token (t\<lparr>t_last_host_key_resolution := x34\<rparr>) = readmission_token t"
  "readmission_token (t\<lparr>t_last_stopped_deletion := x35\<rparr>) = readmission_token t"
  "probe_token (t\<lparr>t_task_id := x0\<rparr>) = probe_token t"
  "probe_token (t\<lparr>t_gid := x1\<rparr>) = probe_token t"
  "probe_token (t\<lparr>t_state := x2\<rparr>) = probe_token t"
  "probe_token (t\<lparr>t_generation := x3\<rparr>) = probe_token t"
  "probe_token (t\<lparr>t_generation_started := x4\<rparr>) = probe_token t"
  "probe_token (t\<lparr>t_desired_paused := x5\<rparr>) = probe_token t"
  "probe_token (t\<lparr>t_conditions := x6\<rparr>) = probe_token t"
  "probe_token (t\<lparr>t_slot := x7\<rparr>) = probe_token t"
  "probe_token (t\<lparr>t_pending_barrier := x8\<rparr>) = probe_token t"
  "probe_token (t\<lparr>t_retry_timer := x9\<rparr>) = probe_token t"
  "probe_token (t\<lparr>t_retry_ready := x10\<rparr>) = probe_token t"
  "probe_token (t\<lparr>t_slow_readmission := x11\<rparr>) = probe_token t"
  "probe_token (t\<lparr>t_slow_readmission_ready := x12\<rparr>) = probe_token t"
  "probe_token (t\<lparr>t_pending_slow_readmission := x13\<rparr>) = probe_token t"
  "probe_token (t\<lparr>t_slow_demotion_count := x14\<rparr>) = probe_token t"
  "probe_token (t\<lparr>t_slow_slot := x15\<rparr>) = probe_token t"
  "probe_token (t\<lparr>t_slow_remaining_position := x16\<rparr>) = probe_token t"
  "probe_token (t\<lparr>t_pending_option_patch := x18\<rparr>) = probe_token t"
  "probe_token (t\<lparr>t_pending_option_patch_mode := x19\<rparr>) = probe_token t"
  "probe_token (t\<lparr>t_pending_credential_requirement := x20\<rparr>) = probe_token t"
  "probe_token (t\<lparr>t_pending_user_control := x21\<rparr>) = probe_token t"
  "probe_token (t\<lparr>t_pending_source_replacement := x22\<rparr>) = probe_token t"
  "probe_token (t\<lparr>t_host_key_challenge := x23\<rparr>) = probe_token t"
  "probe_token (t\<lparr>t_error := x24\<rparr>) = probe_token t"
  "probe_token (t\<lparr>t_stopped_status := x25\<rparr>) = probe_token t"
  "probe_token (t\<lparr>t_terminal_persisted := x26\<rparr>) = probe_token t"
  "probe_token (t\<lparr>t_seen_events := x27\<rparr>) = probe_token t"
  "probe_token (t\<lparr>t_last_retry_timer := x28\<rparr>) = probe_token t"
  "probe_token (t\<lparr>t_last_slow_readmission := x29\<rparr>) = probe_token t"
  "probe_token (t\<lparr>t_last_no_space_probe := x30\<rparr>) = probe_token t"
  "probe_token (t\<lparr>t_highest_option_patch_id := x31\<rparr>) = probe_token t"
  "probe_token (t\<lparr>t_last_option_patch_persistence := x32\<rparr>) = probe_token t"
  "probe_token (t\<lparr>t_last_option_patch_application := x33\<rparr>) = probe_token t"
  "probe_token (t\<lparr>t_last_host_key_resolution := x34\<rparr>) = probe_token t"
  "probe_token (t\<lparr>t_last_stopped_deletion := x35\<rparr>) = probe_token t"
  "resolution_token (t\<lparr>t_task_id := x0\<rparr>) = resolution_token t"
  "resolution_token (t\<lparr>t_gid := x1\<rparr>) = resolution_token t"
  "resolution_token (t\<lparr>t_state := x2\<rparr>) = resolution_token t"
  "resolution_token (t\<lparr>t_generation := x3\<rparr>) = resolution_token t"
  "resolution_token (t\<lparr>t_generation_started := x4\<rparr>) = resolution_token t"
  "resolution_token (t\<lparr>t_desired_paused := x5\<rparr>) = resolution_token t"
  "resolution_token (t\<lparr>t_conditions := x6\<rparr>) = resolution_token t"
  "resolution_token (t\<lparr>t_slot := x7\<rparr>) = resolution_token t"
  "resolution_token (t\<lparr>t_retry_timer := x9\<rparr>) = resolution_token t"
  "resolution_token (t\<lparr>t_retry_ready := x10\<rparr>) = resolution_token t"
  "resolution_token (t\<lparr>t_slow_readmission := x11\<rparr>) = resolution_token t"
  "resolution_token (t\<lparr>t_slow_readmission_ready := x12\<rparr>) = resolution_token t"
  "resolution_token (t\<lparr>t_pending_slow_readmission := x13\<rparr>) = resolution_token t"
  "resolution_token (t\<lparr>t_slow_demotion_count := x14\<rparr>) = resolution_token t"
  "resolution_token (t\<lparr>t_slow_slot := x15\<rparr>) = resolution_token t"
  "resolution_token (t\<lparr>t_slow_remaining_position := x16\<rparr>) = resolution_token t"
  "resolution_token (t\<lparr>t_no_space_probe := x17\<rparr>) = resolution_token t"
  "resolution_token (t\<lparr>t_pending_option_patch := x18\<rparr>) = resolution_token t"
  "resolution_token (t\<lparr>t_pending_option_patch_mode := x19\<rparr>) = resolution_token t"
  "resolution_token (t\<lparr>t_pending_credential_requirement := x20\<rparr>) = resolution_token t"
  "resolution_token (t\<lparr>t_pending_user_control := x21\<rparr>) = resolution_token t"
  "resolution_token (t\<lparr>t_pending_source_replacement := x22\<rparr>) = resolution_token t"
  "resolution_token (t\<lparr>t_host_key_challenge := x23\<rparr>) = resolution_token t"
  "resolution_token (t\<lparr>t_error := x24\<rparr>) = resolution_token t"
  "resolution_token (t\<lparr>t_stopped_status := x25\<rparr>) = resolution_token t"
  "resolution_token (t\<lparr>t_terminal_persisted := x26\<rparr>) = resolution_token t"
  "resolution_token (t\<lparr>t_seen_events := x27\<rparr>) = resolution_token t"
  "resolution_token (t\<lparr>t_last_retry_timer := x28\<rparr>) = resolution_token t"
  "resolution_token (t\<lparr>t_last_slow_readmission := x29\<rparr>) = resolution_token t"
  "resolution_token (t\<lparr>t_last_no_space_probe := x30\<rparr>) = resolution_token t"
  "resolution_token (t\<lparr>t_highest_option_patch_id := x31\<rparr>) = resolution_token t"
  "resolution_token (t\<lparr>t_last_option_patch_persistence := x32\<rparr>) = resolution_token t"
  "resolution_token (t\<lparr>t_last_option_patch_application := x33\<rparr>) = resolution_token t"
  "resolution_token (t\<lparr>t_last_host_key_resolution := x34\<rparr>) = resolution_token t"
  "resolution_token (t\<lparr>t_last_stopped_deletion := x35\<rparr>) = resolution_token t"
  "deletion_token (t\<lparr>t_task_id := x0\<rparr>) = deletion_token t"
  "deletion_token (t\<lparr>t_gid := x1\<rparr>) = deletion_token t"
  "deletion_token (t\<lparr>t_state := x2\<rparr>) = deletion_token t"
  "deletion_token (t\<lparr>t_generation := x3\<rparr>) = deletion_token t"
  "deletion_token (t\<lparr>t_generation_started := x4\<rparr>) = deletion_token t"
  "deletion_token (t\<lparr>t_desired_paused := x5\<rparr>) = deletion_token t"
  "deletion_token (t\<lparr>t_conditions := x6\<rparr>) = deletion_token t"
  "deletion_token (t\<lparr>t_slot := x7\<rparr>) = deletion_token t"
  "deletion_token (t\<lparr>t_retry_timer := x9\<rparr>) = deletion_token t"
  "deletion_token (t\<lparr>t_retry_ready := x10\<rparr>) = deletion_token t"
  "deletion_token (t\<lparr>t_slow_readmission := x11\<rparr>) = deletion_token t"
  "deletion_token (t\<lparr>t_slow_readmission_ready := x12\<rparr>) = deletion_token t"
  "deletion_token (t\<lparr>t_pending_slow_readmission := x13\<rparr>) = deletion_token t"
  "deletion_token (t\<lparr>t_slow_demotion_count := x14\<rparr>) = deletion_token t"
  "deletion_token (t\<lparr>t_slow_slot := x15\<rparr>) = deletion_token t"
  "deletion_token (t\<lparr>t_slow_remaining_position := x16\<rparr>) = deletion_token t"
  "deletion_token (t\<lparr>t_no_space_probe := x17\<rparr>) = deletion_token t"
  "deletion_token (t\<lparr>t_pending_option_patch := x18\<rparr>) = deletion_token t"
  "deletion_token (t\<lparr>t_pending_option_patch_mode := x19\<rparr>) = deletion_token t"
  "deletion_token (t\<lparr>t_pending_credential_requirement := x20\<rparr>) = deletion_token t"
  "deletion_token (t\<lparr>t_pending_user_control := x21\<rparr>) = deletion_token t"
  "deletion_token (t\<lparr>t_pending_source_replacement := x22\<rparr>) = deletion_token t"
  "deletion_token (t\<lparr>t_host_key_challenge := x23\<rparr>) = deletion_token t"
  "deletion_token (t\<lparr>t_error := x24\<rparr>) = deletion_token t"
  "deletion_token (t\<lparr>t_stopped_status := x25\<rparr>) = deletion_token t"
  "deletion_token (t\<lparr>t_terminal_persisted := x26\<rparr>) = deletion_token t"
  "deletion_token (t\<lparr>t_seen_events := x27\<rparr>) = deletion_token t"
  "deletion_token (t\<lparr>t_last_retry_timer := x28\<rparr>) = deletion_token t"
  "deletion_token (t\<lparr>t_last_slow_readmission := x29\<rparr>) = deletion_token t"
  "deletion_token (t\<lparr>t_last_no_space_probe := x30\<rparr>) = deletion_token t"
  "deletion_token (t\<lparr>t_highest_option_patch_id := x31\<rparr>) = deletion_token t"
  "deletion_token (t\<lparr>t_last_option_patch_persistence := x32\<rparr>) = deletion_token t"
  "deletion_token (t\<lparr>t_last_option_patch_application := x33\<rparr>) = deletion_token t"
  "deletion_token (t\<lparr>t_last_host_key_resolution := x34\<rparr>) = deletion_token t"
  "deletion_token (t\<lparr>t_last_stopped_deletion := x35\<rparr>) = deletion_token t"
  "retry_token (t\<lparr>t_retry_timer := None\<rparr>) = None"
  "readmission_token (t\<lparr>t_slow_readmission := None\<rparr>) = None"
  "probe_token (t\<lparr>t_no_space_probe := None\<rparr>) = None"
  "resolution_token (t\<lparr>t_pending_barrier := None\<rparr>) = None"
  "deletion_token (t\<lparr>t_pending_barrier := None\<rparr>) = None"
  by (simp_all add: retry_token_def readmission_token_def probe_token_def resolution_token_def
      deletion_token_def)

text \<open>A token of the new version was pending before or has just been issued.\<close>

definition token_step :: "u64 option \<Rightarrow> u64 option \<Rightarrow> u64 \<Rightarrow> u64 \<Rightarrow> bool" where
  "token_step old new n m \<longleftrightarrow> new = None \<or> new = old \<or> (\<exists>v. new = Some v \<and> issued n m v)"

lemma token_step_simps [simp]:
  "token_step old None n m" "token_step old old n m"
  by (simp_all add: token_step_def)

definition tokens_step :: "scheduled_task \<Rightarrow> scheduled_task \<Rightarrow> id_counters \<Rightarrow> id_counters \<Rightarrow> bool" where
  "tokens_step t u i j \<longleftrightarrow>
     token_step (retry_token t) (retry_token u) (ic_retry_timer i) (ic_retry_timer j)
     \<and> token_step (readmission_token t) (readmission_token u) (ic_slow_readmission i) (ic_slow_readmission j)
     \<and> token_step (probe_token t) (probe_token u) (ic_no_space_probe i) (ic_no_space_probe j)
     \<and> token_step (resolution_token t) (resolution_token u)
         (ic_host_key_resolution i) (ic_host_key_resolution j)
     \<and> token_step (deletion_token t) (deletion_token u) (ic_stopped_deletion i) (ic_stopped_deletion j)"

definition patch_step :: "option_patch_id option \<Rightarrow> option_patch_id option \<Rightarrow> bool" where
  "patch_step old new \<longleftrightarrow> (\<forall>x. old = Some x \<longrightarrow> (\<exists>y. new = Some y \<and> x \<le> y))"

lemma patch_step_same [simp]: "patch_step x x"
  by (simp add: patch_step_def)

text \<open>A terminal status is recorded only when its persistence was pending.\<close>

definition stopped_step :: "scheduled_task \<Rightarrow> scheduled_task \<Rightarrow> bool" where
  "stopped_step t u \<longleftrightarrow>
     t_stopped_status u = None \<or> t_stopped_status u = t_stopped_status t
     \<or> (\<exists>g st. t_pending_barrier t = Some (PB_TerminalPersistence g st) \<and> t_stopped_status u = Some st)"

lemma stopped_step_same [simp]: "t_stopped_status u = t_stopped_status t \<Longrightarrow> stopped_step t u"
  by (simp add: stopped_step_def)

lemma stopped_step_None [simp]: "t_stopped_status u = None \<Longrightarrow> stopped_step t u"
  by (simp add: stopped_step_def)

definition plan_frame ::
  "id_counters \<Rightarrow> scheduled_task \<Rightarrow> scheduler_action set \<Rightarrow> action_plan \<Rightarrow> bool" where
  "plan_frame i t A a \<longleftrightarrow>
     ap_action a \<in> A
     \<and> length (ap_effects a) \<le> 6 \<and> effects_for (t_task_id t) (t_gid t) (ap_effects a)
     \<and> ids_step i (ap_ids a)
     \<and> (\<forall>u. ap_updated a = Some u \<longrightarrow>
          t_gid u = t_gid t \<and> t_task_id u = t_task_id t \<and> t_generation t \<le> t_generation u
          \<and> patch_step (t_highest_option_patch_id t) (t_highest_option_patch_id u)
          \<and> tokens_step t u i (ap_ids a) \<and> stopped_step t u)"

section \<open>Rules\<close>

named_theorems frame_intros

definition res_all :: "('a \<Rightarrow> bool) \<Rightarrow> ('e, 'a) result \<Rightarrow> bool" where
  "res_all P r \<longleftrightarrow> (case r of Inl e \<Rightarrow> True | Inr x \<Rightarrow> P x)"

definition on_finish :: "(action_plan \<Rightarrow> bool) \<Rightarrow> handler_plan \<Rightarrow> bool" where
  "on_finish P p \<longleftrightarrow> (case p of Plan_Return out \<Rightarrow> True | Plan_Finish a \<Rightarrow> P a)"

abbreviation plan_all :: "(action_plan \<Rightarrow> bool) \<Rightarrow> plan_result \<Rightarrow> bool" where
  "plan_all P r \<equiv> res_all (on_finish P) r"

lemma res_all_simps [simp]: "res_all P (Inl e)" "res_all P (Inr x) \<longleftrightarrow> P x"
  by (simp_all add: res_all_def)

lemma on_finish_simps [simp]: "on_finish P (Plan_Return out)" "on_finish P (Plan_Finish a) \<longleftrightarrow> P a"
  by (simp_all add: on_finish_def)

lemma res_allD: "res_all P r \<Longrightarrow> r = Inr x \<Longrightarrow> P x"
  by simp

lemma plan_all_Inl [frame_intros]: "res_all P (Inl e)"
  by simp

lemma plan_all_return [frame_intros]: "plan_all P (Inr (Plan_Return out))"
  by simp

lemma plan_all_finish [frame_intros]:
  "P \<lparr>ap_updated = Some u, ap_action = a, ap_effects = es, ap_publish = pub, ap_ids = ids\<rparr> \<Longrightarrow>
   plan_all P (plan_finish u a es pub ids)"
  "P p \<Longrightarrow> plan_all P (Inr (Plan_Finish p))"
  by (simp_all add: plan_finish_def)

lemma res_all_and_then:
  "res_all Q r \<Longrightarrow> (\<And>x. Q x \<Longrightarrow> res_all P (f x)) \<Longrightarrow> res_all P (and_then r f)"
  by (cases r) simp_all

lemma plan_all_and_then:
  "(\<And>x. r = Inr x \<Longrightarrow> res_all P (f x)) \<Longrightarrow> res_all P (and_then r f)"
  by (cases r) (simp_all add: plan_all_Inl)

lemma plan_all_ignored [frame_intros]: "plan_all P (plan_ignored t d at)"
  unfolding plan_ignored_def by (intro plan_all_and_then plan_all_return)

lemma plan_all_unless_stale [frame_intros]:
  "plan_all P c \<Longrightarrow> plan_all P (unless_stale t a at c)"
  unfolding unless_stale_def by (intro plan_all_and_then) (simp add: plan_all_return split: option.split)

lemma plan_all_branch [frame_intros]:
  "(c \<Longrightarrow> res_all P x) \<Longrightarrow> (\<not> c \<Longrightarrow> res_all P y) \<Longrightarrow> res_all P (if c then x else y)"
  "(r = None \<Longrightarrow> res_all P x) \<Longrightarrow> (\<And>a. r = Some a \<Longrightarrow> res_all P (h a)) \<Longrightarrow>
   res_all P (case r of None \<Rightarrow> x | Some a \<Rightarrow> h a)"
  "res_all P (k a b) \<Longrightarrow> res_all P (case (a, b) of (a, b) \<Rightarrow> k a b)"
  by (cases r; simp)+

lemma plan_all_split_if [frame_intros]:
  "(c \<Longrightarrow> res_all P (case x of (a, b) \<Rightarrow> k a b)) \<Longrightarrow> (\<not> c \<Longrightarrow> res_all P (case y of (a, b) \<Rightarrow> k a b)) \<Longrightarrow>
   res_all P (case if c then x else y of (a, b) \<Rightarrow> k a b)"
  by simp

lemma plan_all_and_then_value [frame_intros]:
  "res_all P (f a) \<Longrightarrow> res_all P (and_then (Inr a) f)"
  "res_all P (and_then (Inl e) f)"
  "(c \<Longrightarrow> res_all P (and_then x f)) \<Longrightarrow> (\<not> c \<Longrightarrow> res_all P (and_then y f)) \<Longrightarrow>
   res_all P (and_then (if c then x else y) f)"
  "(r = None \<Longrightarrow> res_all P (and_then x f)) \<Longrightarrow> (\<And>a. r = Some a \<Longrightarrow> res_all P (and_then (h a) f)) \<Longrightarrow>
   res_all P (and_then (case r of None \<Rightarrow> x | Some a \<Rightarrow> h a) f)"
  "res_all P (and_then (k a b) f) \<Longrightarrow> res_all P (and_then (case (a, b) of (a, b) \<Rightarrow> k a b) f)"
  by (cases r; simp add: plan_all_Inl)+

lemma plan_all_and_then_call [frame_intros]:
  "(\<And>x. required_target t a = Inr x \<Longrightarrow> res_all P (f x)) \<Longrightarrow>
   res_all P (and_then (required_target t a) f)"
  "(\<And>x. r = Some x \<Longrightarrow> res_all P (k x)) \<Longrightarrow> res_all P (and_then (ok_or e r) k)"
  "(t_pending_barrier t = None \<Longrightarrow> res_all P (g ())) \<Longrightarrow>
   res_all P (and_then (reject_pending t op) g)"
  "(\<And>x. matching_challenge t c fp = Inr x \<Longrightarrow> res_all P (h x)) \<Longrightarrow>
   res_all P (and_then (matching_challenge t c fp) h)"
  by (auto intro!: plan_all_and_then plan_all_Inl simp: reject_pending_def ok_or_def split: option.splits)

lemma next_id_issued:
  assumes "next_id n c = Inr (v, m)"
  shows "c n = Some v \<and> m = counter_next n"
  using next_id_ok [OF assms] by (simp add: counter_next_def)

lemma ids_issued:
  "ids_retry_timer i = Inr (a, j) \<Longrightarrow>
     j = i\<lparr>ic_retry_timer := ic_retry_timer j\<rparr>
     \<and> issued (ic_retry_timer i) (ic_retry_timer j) (retry_timer_id_get a)"
  "ids_slow_readmission i = Inr (b, j) \<Longrightarrow>
     j = i\<lparr>ic_slow_readmission := ic_slow_readmission j\<rparr>
     \<and> issued (ic_slow_readmission i) (ic_slow_readmission j) (slow_readmission_id_get b)"
  "ids_no_space_probe i = Inr (c, j) \<Longrightarrow>
     j = i\<lparr>ic_no_space_probe := ic_no_space_probe j\<rparr>
     \<and> issued (ic_no_space_probe i) (ic_no_space_probe j) (no_space_probe_id_get c)"
  "ids_host_key_resolution i = Inr (d, j) \<Longrightarrow>
     j = i\<lparr>ic_host_key_resolution := ic_host_key_resolution j\<rparr>
     \<and> issued (ic_host_key_resolution i) (ic_host_key_resolution j) (host_key_resolution_id_get d)"
  "ids_stopped_deletion i = Inr (f, j) \<Longrightarrow>
     j = i\<lparr>ic_stopped_deletion := ic_stopped_deletion j\<rparr>
     \<and> issued (ic_stopped_deletion i) (ic_stopped_deletion j) (stopped_result_deletion_id_get f)"
  by (auto simp: ids_retry_timer_def ids_slow_readmission_def ids_no_space_probe_def
      ids_host_key_resolution_def ids_stopped_deletion_def and_then_eq_Inr issued_def
      retry_timer_id_new_def slow_readmission_id_new_def no_space_probe_id_new_def
      host_key_resolution_id_new_def stopped_result_deletion_id_new_def nonzero_u64_new_def
      dest!: next_id_issued split: if_splits)

lemma plan_all_ids [frame_intros]:
  "(\<And>a x. issued (ic_retry_timer i) x (retry_timer_id_get a) \<Longrightarrow>
      res_all P (f1 (a, i\<lparr>ic_retry_timer := x\<rparr>))) \<Longrightarrow>
   res_all P (and_then (ids_retry_timer i) f1)"
  "(\<And>a x. issued (ic_host_key_resolution i) x (host_key_resolution_id_get a) \<Longrightarrow>
      res_all P (f2 (a, i\<lparr>ic_host_key_resolution := x\<rparr>))) \<Longrightarrow>
   res_all P (and_then (ids_host_key_resolution i) f2)"
  "(\<And>a x. issued (ic_stopped_deletion i) x (stopped_result_deletion_id_get a) \<Longrightarrow>
      res_all P (f3 (a, i\<lparr>ic_stopped_deletion := x\<rparr>))) \<Longrightarrow>
   res_all P (and_then (ids_stopped_deletion i) f3)"
  by (rule plan_all_and_then, clarify, drule ids_issued, metis)+

lemma plan_all_cancel_timers [frame_intros]:
  assumes "\<And>xs. length xs \<le> 2 \<Longrightarrow> effects_for (t_task_id u) (t_gid u) xs \<Longrightarrow>
    res_all P (f (u\<lparr>t_retry_timer := None, t_retry_ready := False, t_slow_readmission := None,
       t_slow_readmission_ready := False, t_pending_slow_readmission := None, t_slow_slot := None\<rparr>) (es @ xs))"
  shows "res_all P (case cancel_timers u es of (u', es') \<Rightarrow> f u' es')"
  unfolding cancel_timers_def prod.case by (rule assms) (auto split: option.split)

lemma plan_all_cancel_slow_readmission [frame_intros]:
  assumes "\<And>xs. length xs \<le> 1 \<Longrightarrow> effects_for (t_task_id u) (t_gid u) xs \<Longrightarrow>
    res_all P (f (u\<lparr>t_slow_readmission := None\<rparr>) (es @ xs))"
  shows "res_all P (case cancel_slow_readmission u es of (u', es') \<Rightarrow> f u' es')"
  unfolding cancel_slow_readmission_def prod.case by (rule assms) (auto split: option.split)

lemma release_slot_effects:
  obtains xs where "release_slot u es = (u\<lparr>t_slot := SO_None\<rparr>, es @ xs)" "length xs \<le> 1"
    "effects_for (t_task_id u) (t_gid u) xs"
proof (cases "owns_slot (t_slot u)")
  case True
  then show ?thesis using that by (simp add: release_slot_def)
next
  case False
  then have "t_slot u = SO_None" by (cases "t_slot u") (simp_all add: owns_slot_def)
  then have "u\<lparr>t_slot := SO_None\<rparr> = u" by simp
  with False that [of "[]"] show ?thesis by (simp add: release_slot_def)
qed

lemma plan_all_release_slot [frame_intros]:
  "(\<And>xs. length xs \<le> 1 \<Longrightarrow> effects_for (t_task_id u) (t_gid u) xs \<Longrightarrow>
      res_all P (f (u\<lparr>t_slot := SO_None\<rparr>) (es @ xs))) \<Longrightarrow>
   res_all P (case release_slot u es of (u', es') \<Rightarrow> f u' es')"
  "(\<And>xs. length xs \<le> 1 \<Longrightarrow> effects_for (t_task_id u) (t_gid u) xs \<Longrightarrow>
      res_all P (and_then (g (u\<lparr>t_slot := SO_None\<rparr>) (es @ xs)) k)) \<Longrightarrow>
   res_all P (and_then (case release_slot u es of (u', es') \<Rightarrow> g u' es') k)"
  "(\<And>xs. length xs \<le> 1 \<Longrightarrow> effects_for (t_task_id u) (t_gid u) xs \<Longrightarrow>
      res_all P (h (u\<lparr>t_slot := SO_None\<rparr>, es @ xs))) \<Longrightarrow>
   res_all P (and_then (Inr (release_slot u es)) h)"
  by (rule release_slot_effects [of u es]; simp)+

lemma begin_cancellation_effects:
  assumes "begin_cancellation u target force es op = Inr (v, es')"
  obtains b xs where "v = u\<lparr>t_pending_barrier := Some (PB_CancellationDrain (t_generation u) target b)\<rparr>"
    "es' = es @ xs" "length xs \<le> 1" "effects_for (t_task_id u) (t_gid u) xs"
  using assms
  by (auto simp: begin_cancellation_def Let_def split: option.splits pending_barrier.splits if_splits)

lemma plan_all_begin_cancellation [frame_intros]:
  assumes "\<And>b xs. length xs \<le> 1 \<Longrightarrow> effects_for (t_task_id u) (t_gid u) xs \<Longrightarrow>
     res_all P (f (u\<lparr>t_pending_barrier := Some (PB_CancellationDrain (t_generation u) target b)\<rparr>, es @ xs))"
  shows "res_all P (and_then (begin_cancellation u target force es op) f)"
proof (rule plan_all_and_then, clarify)
  fix v es' assume "begin_cancellation u target force es op = Inr (v, es')"
  then show "res_all P (f (v, es'))"
    by (rule begin_cancellation_effects) (use assms in simp)
qed

lemma plan_all_begin_terminal [frame_intros]:
  "res_all P (f (u\<lparr>t_error := e, t_stopped_status := None, t_terminal_persisted := False,
       t_pending_barrier := Some (PB_TerminalPersistence (t_generation u) status)\<rparr>)) \<Longrightarrow>
   res_all P (and_then (begin_terminal u status e) f)"
  "res_all P (and_then (g (u\<lparr>t_error := e, t_stopped_status := None, t_terminal_persisted := False,
       t_pending_barrier := Some (PB_TerminalPersistence (t_generation u) status)\<rparr>)) k) \<Longrightarrow>
   res_all P (and_then (and_then (begin_terminal u status e) g) k)"
  by (auto simp: begin_terminal_def plan_all_Inl)

lemma schedule_no_space_probe_effects:
  assumes "schedule_no_space_probe u origin at es ids = Inr (v, es', ids')"
  obtains "v = u" "es' = es" "ids' = ids"
  | p x where "t_no_space_probe u = None" "v = u\<lparr>t_no_space_probe := Some (p, origin)\<rparr>"
      "es' = es @ [Eff_ProbeNoSpace (t_task_id u) (t_gid u) (t_generation u) p origin at]"
      "ids' = ids\<lparr>ic_no_space_probe := x\<rparr>" "issued (ic_no_space_probe ids) x (no_space_probe_id_get p)"
proof (cases "t_no_space_probe u")
  case None
  with assms obtain p where p: "ids_no_space_probe ids = Inr (p, ids')"
    and "v = u\<lparr>t_no_space_probe := Some (p, origin)\<rparr>"
    "es' = es @ [Eff_ProbeNoSpace (t_task_id u) (t_gid u) (t_generation u) p origin at]"
    by (auto simp: schedule_no_space_probe_def and_then_eq_Inr split: if_splits)
  with None ids_issued(3) [OF p] that(2) show ?thesis by blast
next
  case (Some q)
  with assms that(1) show ?thesis by (simp add: schedule_no_space_probe_def)
qed

lemma plan_all_schedule_probe [frame_intros]:
  assumes "res_all P (f (u, es, ids))"
    and "\<And>p x. t_no_space_probe u = None \<Longrightarrow> issued (ic_no_space_probe ids) x (no_space_probe_id_get p) \<Longrightarrow>
      res_all P (f (u\<lparr>t_no_space_probe := Some (p, origin)\<rparr>,
        es @ [Eff_ProbeNoSpace (t_task_id u) (t_gid u) (t_generation u) p origin at],
        ids\<lparr>ic_no_space_probe := x\<rparr>))"
  shows "res_all P (and_then (schedule_no_space_probe u origin at es ids) f)"
proof (rule plan_all_and_then, clarify)
  fix v es' ids' assume "schedule_no_space_probe u origin at es ids = Inr (v, es', ids')"
  then show "res_all P (f (v, es', ids'))"
    by (rule schedule_no_space_probe_effects) (use assms in simp_all)
qed

section \<open>Command handlers\<close>

lemmas frame_simps = plan_frame_def tokens_step_def retry_token_def readmission_token_def
  probe_token_def resolution_token_def deletion_token_def ids_step_def token_step_def issued_step

definition command_actions :: "scheduler_command_kind \<Rightarrow> scheduler_action set" where
  "command_actions k = {a. matches_command (action_source a) k}"

lemma command_actions_mem [simp]: "a \<in> command_actions k \<longleftrightarrow> action_source a = Source_Command k"
  by (simp add: command_actions_def matches_command_def)

lemma pause_frame: "plan_all (plan_frame (rs_ids s) t (command_actions CMK_Pause)) (pause_plan s t force)"
  unfolding pause_plan_def pause_deferred_def pause_now_def Let_def
  by (intro frame_intros) (simp_all add: frame_simps)

lemma plan_all_nested_pair [frame_intros]:
  "res_all P (case x of (u, e) \<Rightarrow> (case h u e of (a, b) \<Rightarrow> k a b)) \<Longrightarrow>
   res_all P (case (case x of (u, e) \<Rightarrow> h u e) of (a, b) \<Rightarrow> k a b)"
  by (cases x) simp

lemma reset_slow_demotions_simps [simp]:
  "t_gid (reset_slow_demotions o' t) = t_gid t" "t_task_id (reset_slow_demotions o' t) = t_task_id t"
  "t_generation (reset_slow_demotions o' t) = t_generation t"
  "t_highest_option_patch_id (reset_slow_demotions o' t) = t_highest_option_patch_id t"
  "t_retry_timer (reset_slow_demotions o' t) = t_retry_timer t"
  "t_no_space_probe (reset_slow_demotions o' t) = t_no_space_probe t"
  "t_pending_barrier (reset_slow_demotions o' t) = t_pending_barrier t"
  "t_stopped_status (reset_slow_demotions o' t) = t_stopped_status t"
  by (simp_all add: reset_slow_demotions_def)

lemma for_resume_source: "action_source (for_resume st c) = Source_Command CMK_Resume"
  by (simp add: for_resume_def)

lemma resume_frame: "plan_all (plan_frame (rs_ids s) t (command_actions CMK_Resume)) (resume_plan s t at)"
  unfolding resume_plan_def resume_deferred_def resume_now_def resume_no_space_probe_def Let_def
  by (intro frame_intros) (auto simp: frame_simps for_resume_source)

lemma approve_host_key_frame:
  "plan_all (plan_frame (rs_ids s) t (command_actions CMK_ApproveHostKey)) (approve_host_key_plan s t c fp)"
  unfolding approve_host_key_plan_def Let_def
  by (intro frame_intros) (auto simp: frame_simps split_beta intro!: frame_intros)

lemma begin_source_replacement_frame:
  "plan_all (plan_frame (rs_ids s) t (command_actions CMK_BeginSourceReplacement))
     (begin_source_replacement_plan s t)"
  unfolding begin_source_replacement_plan_def Let_def
  by (intro frame_intros) (simp_all add: frame_simps)

lemma commit_source_replacement_frame:
  "plan_all (plan_frame (rs_ids s) t (command_actions CMK_CommitSourceReplacement))
     (commit_source_replacement_plan s t c)"
  unfolding commit_source_replacement_plan_def Let_def
  by (intro frame_intros) (simp_all add: frame_simps clear_needs_credentials_def)

lemma remove_frame: "plan_all (plan_frame (rs_ids s) t (command_actions CMK_Remove)) (remove_plan s t force)"
  unfolding remove_plan_def remove_deferred_def remove_now_def Let_def
  by (intro frame_intros) (simp_all add: frame_simps reject_challenge_effects_def split: option.split)

lemma remove_stopped_result_frame:
  "plan_all (plan_frame (rs_ids s) t (command_actions CMK_RemoveStoppedResult))
     (remove_stopped_result_plan s t)"
  unfolding remove_stopped_result_plan_def Let_def
  by (intro frame_intros) (simp_all add: frame_simps)

lemma option_patch_action_source:
  "option_patch_action t k = Inr a \<Longrightarrow> action_source a = Source_Command CMK_ApplyOptionPatch"
  by (cases k) (auto simp: option_patch_action_def and_then_eq_Inr)

lemma patch_step_new:
  "\<not> (case h of None \<Rightarrow> False | Some x \<Rightarrow> p \<le> x) \<Longrightarrow> patch_step h (Some p)"
  by (auto simp: patch_step_def split: option.splits)

lemma plan_all_patch_kind [frame_intros]:
  "(k = OPK_InPlace \<Longrightarrow> plan_all P x) \<Longrightarrow> (k = OPK_ActiveRestart \<Longrightarrow> plan_all P y) \<Longrightarrow>
   (\<And>c f. k = OPK_MatchingHostKey c f \<Longrightarrow> plan_all P (z c f)) \<Longrightarrow>
   plan_all P (case k of OPK_InPlace \<Rightarrow> x | OPK_ActiveRestart \<Rightarrow> y | OPK_MatchingHostKey c f \<Rightarrow> z c f)"
  by (cases k) simp_all

lemma plan_all_patch_checks [frame_intros]:
  "(stale_credential_patch t k c = Inr () \<Longrightarrow> plan_all P (f ())) \<Longrightarrow>
   plan_all P (and_then (stale_credential_patch t k c) f)"
  "(\<And>a. option_patch_action t k = Inr a \<Longrightarrow> plan_all P (h a)) \<Longrightarrow>
   plan_all P (and_then (option_patch_action t k) h)"
  by (auto intro!: plan_all_and_then)

lemma apply_option_patch_frame:
  "plan_all (plan_frame (rs_ids s) t (command_actions CMK_ApplyOptionPatch))
     (apply_option_patch_plan s t p k c)"
  unfolding apply_option_patch_plan_def Let_def apply_in_place_patch_def stage_restart_patch_def
    prod.case
  by (intro frame_intros)
    (auto simp: frame_simps patch_step_new dest: option_patch_action_source)

end
