(* ===== verification/EventFrames.thy ===== *)
theory EventFrames
  imports PlanFrames
begin

text \<open>
  What the plan of every worker event (handle_event of scheduler.rs) may do to the addressed
  task: the action it takes, its effects, and the identifiers it issues or consumes.
\<close>

section \<open>Event handlers\<close>

definition event_actions :: "task_event_kind \<Rightarrow> scheduler_action set" where
  "event_actions k =
     {a. matches_task_event (action_source a) k}
     \<union> {SA_DeferredPauseCompleted, SA_DeferredResumeCompleted, SA_DeferredRemoveCompleted}"

lemma event_actions_mem [simp]:
  "a \<in> event_actions k \<longleftrightarrow> action_source a = Source_TaskEvent k
     \<or> a \<in> {SA_DeferredPauseCompleted, SA_DeferredResumeCompleted, SA_DeferredRemoveCompleted}"
  by (auto simp: event_actions_def matches_task_event_def)

text \<open>The new version of a task that an admission or a deferred control writes.\<close>

definition kept :: "'a option \<Rightarrow> 'a option \<Rightarrow> bool" where
  "kept old new \<longleftrightarrow> new = None \<or> new = old"

lemma kept_simps [simp]: "kept old None" "kept old old"
  by (simp_all add: kept_def)

lemma kept_trans: "kept a b \<Longrightarrow> kept b c \<Longrightarrow> kept a c"
  by (auto simp: kept_def)

definition follows :: "scheduled_task \<Rightarrow> scheduled_task \<Rightarrow> bool" where
  "follows u v \<longleftrightarrow>
     t_gid v = t_gid u \<and> t_task_id v = t_task_id u \<and> t_generation u \<le> t_generation v
     \<and> t_highest_option_patch_id v = t_highest_option_patch_id u
     \<and> kept (retry_token u) (retry_token v)
     \<and> kept (readmission_token u) (readmission_token v)
     \<and> kept (probe_token u) (probe_token v)
     \<and> kept (resolution_token u) (resolution_token v)
     \<and> kept (deletion_token u) (deletion_token v)
     \<and> kept (t_stopped_status u) (t_stopped_status v)"

lemma follows_updates [simp]:
  "follows (u\<lparr>t_state := x2\<rparr>) v = follows u v" "follows u (v\<lparr>t_state := x2\<rparr>) = follows u v"
  "follows (u\<lparr>t_generation_started := x4\<rparr>) v = follows u v" "follows u (v\<lparr>t_generation_started := x4\<rparr>) = follows u v"
  "follows (u\<lparr>t_desired_paused := x5\<rparr>) v = follows u v" "follows u (v\<lparr>t_desired_paused := x5\<rparr>) = follows u v"
  "follows (u\<lparr>t_conditions := x6\<rparr>) v = follows u v" "follows u (v\<lparr>t_conditions := x6\<rparr>) = follows u v"
  "follows (u\<lparr>t_slot := x7\<rparr>) v = follows u v" "follows u (v\<lparr>t_slot := x7\<rparr>) = follows u v"
  "follows (u\<lparr>t_retry_ready := x10\<rparr>) v = follows u v" "follows u (v\<lparr>t_retry_ready := x10\<rparr>) = follows u v"
  "follows (u\<lparr>t_slow_readmission_ready := x12\<rparr>) v = follows u v" "follows u (v\<lparr>t_slow_readmission_ready := x12\<rparr>) = follows u v"
  "follows (u\<lparr>t_pending_slow_readmission := x13\<rparr>) v = follows u v" "follows u (v\<lparr>t_pending_slow_readmission := x13\<rparr>) = follows u v"
  "follows (u\<lparr>t_slow_demotion_count := x14\<rparr>) v = follows u v" "follows u (v\<lparr>t_slow_demotion_count := x14\<rparr>) = follows u v"
  "follows (u\<lparr>t_slow_slot := x15\<rparr>) v = follows u v" "follows u (v\<lparr>t_slow_slot := x15\<rparr>) = follows u v"
  "follows (u\<lparr>t_slow_remaining_position := x16\<rparr>) v = follows u v" "follows u (v\<lparr>t_slow_remaining_position := x16\<rparr>) = follows u v"
  "follows (u\<lparr>t_pending_option_patch := x18\<rparr>) v = follows u v" "follows u (v\<lparr>t_pending_option_patch := x18\<rparr>) = follows u v"
  "follows (u\<lparr>t_pending_option_patch_mode := x19\<rparr>) v = follows u v" "follows u (v\<lparr>t_pending_option_patch_mode := x19\<rparr>) = follows u v"
  "follows (u\<lparr>t_pending_credential_requirement := x20\<rparr>) v = follows u v" "follows u (v\<lparr>t_pending_credential_requirement := x20\<rparr>) = follows u v"
  "follows (u\<lparr>t_pending_user_control := x21\<rparr>) v = follows u v" "follows u (v\<lparr>t_pending_user_control := x21\<rparr>) = follows u v"
  "follows (u\<lparr>t_pending_source_replacement := x22\<rparr>) v = follows u v" "follows u (v\<lparr>t_pending_source_replacement := x22\<rparr>) = follows u v"
  "follows (u\<lparr>t_host_key_challenge := x23\<rparr>) v = follows u v" "follows u (v\<lparr>t_host_key_challenge := x23\<rparr>) = follows u v"
  "follows (u\<lparr>t_error := x24\<rparr>) v = follows u v" "follows u (v\<lparr>t_error := x24\<rparr>) = follows u v"
  "follows (u\<lparr>t_terminal_persisted := x26\<rparr>) v = follows u v" "follows u (v\<lparr>t_terminal_persisted := x26\<rparr>) = follows u v"
  "follows (u\<lparr>t_seen_events := x27\<rparr>) v = follows u v" "follows u (v\<lparr>t_seen_events := x27\<rparr>) = follows u v"
  "follows (u\<lparr>t_last_retry_timer := x28\<rparr>) v = follows u v" "follows u (v\<lparr>t_last_retry_timer := x28\<rparr>) = follows u v"
  "follows (u\<lparr>t_last_slow_readmission := x29\<rparr>) v = follows u v" "follows u (v\<lparr>t_last_slow_readmission := x29\<rparr>) = follows u v"
  "follows (u\<lparr>t_last_no_space_probe := x30\<rparr>) v = follows u v" "follows u (v\<lparr>t_last_no_space_probe := x30\<rparr>) = follows u v"
  "follows (u\<lparr>t_last_option_patch_persistence := x32\<rparr>) v = follows u v" "follows u (v\<lparr>t_last_option_patch_persistence := x32\<rparr>) = follows u v"
  "follows (u\<lparr>t_last_option_patch_application := x33\<rparr>) v = follows u v" "follows u (v\<lparr>t_last_option_patch_application := x33\<rparr>) = follows u v"
  "follows (u\<lparr>t_last_host_key_resolution := x34\<rparr>) v = follows u v" "follows u (v\<lparr>t_last_host_key_resolution := x34\<rparr>) = follows u v"
  "follows (u\<lparr>t_last_stopped_deletion := x35\<rparr>) v = follows u v" "follows u (v\<lparr>t_last_stopped_deletion := x35\<rparr>) = follows u v"
  by (simp_all add: follows_def)

lemma follows_refl [simp]: "follows u u" "follows u (u\<lparr>t_pending_barrier := None\<rparr>)"
  by (simp_all add: follows_def)

lemma follows_unstopped [simp]: "follows u v \<Longrightarrow> follows u (v\<lparr>t_stopped_status := None\<rparr>)"
  by (simp add: follows_def)

lemma token_step_kept: "kept old new \<Longrightarrow> token_step old new n m"
  by (auto simp: token_step_def kept_def)

lemma stopped_step_kept: "kept (t_stopped_status t) (t_stopped_status u) \<Longrightarrow> stopped_step t u"
  by (auto simp: stopped_step_def kept_def)

lemma follows_trans: "follows t u \<Longrightarrow> follows u v \<Longrightarrow> follows t v"
  by (auto simp: follows_def intro: kept_trans)

lemma follows_identity: "follows t u \<Longrightarrow> t_task_id u = t_task_id t \<and> t_gid u = t_gid t"
  by (simp add: follows_def)

lemma follows_barrier:
  assumes "follows t v"
  shows "follows t (v\<lparr>t_pending_barrier := None\<rparr>)"
    "follows t (v\<lparr>t_pending_barrier := Some (PB_CancellationDrain g d f)\<rparr>)"
    "follows t (v\<lparr>t_pending_barrier := Some (PB_TerminalPersistence g st)\<rparr>)"
    "follows t (v\<lparr>t_pending_barrier := Some (PB_OptionPatchApplication g p)\<rparr>)"
  using assms unfolding follows_def by (simp_all add: resolution_token_def deletion_token_def)

lemma plan_frame_follows:
  assumes "follows t v" "a \<in> A" "length es \<le> 6" "effects_for (t_task_id t) (t_gid t) es"
  shows "plan_frame i t A \<lparr>ap_updated = Some v, ap_action = a, ap_effects = es, ap_publish = pub, ap_ids = i\<rparr>"
  using assms by (simp add: plan_frame_def follows_def tokens_step_def token_step_kept stopped_step_kept)

lemma plan_admission_follows:
  assumes "plan_admission s u a es = Inr (v, es')"
  shows "follows u v \<and> es' = es @ [Eff_PersistGenerationStarted (t_task_id u) (t_gid u) (t_generation v)]"
  using assms
  by (auto simp: plan_admission_def and_then_eq_Inr Let_def follows_def retry_token_def
      readmission_token_def probe_token_def resolution_token_def deletion_token_def
      clear_generation_event_history_def
      dest: generation_checked_next_Some split: if_splits)

lemma plan_all_admission [frame_intros]:
  assumes "\<And>v. follows u v \<Longrightarrow>
      plan_all P (f (v, es @ [Eff_PersistGenerationStarted (t_task_id u) (t_gid u) (t_generation v)]))"
  shows "plan_all P (and_then (plan_admission s u a es) f)"
proof (rule plan_all_and_then, clarify)
  fix v es' assume "plan_admission s u a es = Inr (v, es')"
  from plan_admission_follows [OF this] assms show "plan_all P (f (v, es'))" by blast
qed

lemmas token_defs = retry_token_def readmission_token_def probe_token_def resolution_token_def
  deletion_token_def

definition deferred_actions :: "scheduler_action option set" where
  "deferred_actions =
     {None, Some SA_DeferredPauseCompleted, Some SA_DeferredResumeCompleted, Some SA_DeferredRemoveCompleted}"

definition completes ::
  "scheduled_task \<Rightarrow> transition_effect list \<Rightarrow>
   scheduler_action option \<times> scheduled_task \<times> transition_effect list \<Rightarrow> bool" where
  "completes u es r \<longleftrightarrow>
     (case r of (c, v, es') \<Rightarrow>
        c \<in> deferred_actions \<and> follows u v
        \<and> (\<exists>xs. es' = es @ xs \<and> length xs \<le> 4 \<and> effects_for (t_task_id u) (t_gid u) xs))"

lemma complete_pending_completes:
  "res_all (completes u es) (complete_pending_user_control t u es)"
proof (cases "t_pending_user_control u")
  case None
  then show ?thesis
    by (simp add: complete_pending_user_control_def Let_def completes_def follows_def token_defs
        deferred_actions_def)
next
  case (Some ctl)
  show ?thesis
    unfolding complete_pending_user_control_def Let_def Some option.case
    by (cases ctl; simp only: pending_user_control.case; intro frame_intros; simp add: completes_def follows_def token_defs
        deferred_actions_def split: option.split)
qed

lemma plan_all_complete:
  assumes "follows t u"
    and "\<And>c v xs. c \<in> deferred_actions \<Longrightarrow> follows t v \<Longrightarrow> length xs \<le> 4 \<Longrightarrow>
      effects_for (t_task_id t) (t_gid t) xs \<Longrightarrow> res_all P (f (c, v, es @ xs))"
  shows "res_all P (and_then (complete_pending_user_control t u es) f)"
proof (rule res_all_and_then [OF complete_pending_completes], clarify)
  fix c v es' assume "completes u es (c, v, es')"
  then obtain xs where "c \<in> deferred_actions" "follows t v" "es' = es @ xs" "length xs \<le> 4"
    "effects_for (t_task_id t) (t_gid t) xs"
    using assms(1) follows_identity [OF assms(1)] by (auto simp: completes_def intro: follows_trans)
  with assms(2) show "res_all P (f (c, v, es'))" by simp
qed

lemmas event_frame_simps = plan_frame_def tokens_step_def ids_step_def token_step_def issued_step
  mark_non_token_event_def follows_def kept_def

lemma generation_persisted_frame:
  "plan_all (plan_frame (rs_ids s) t (event_actions EK_GenerationPersisted)) (generation_persisted_plan s t g at)"
  unfolding generation_persisted_plan_def Let_def
  by (intro frame_intros) (auto simp: event_frame_simps token_defs)

lemma retry_wait_frame:
  "a \<in> A \<Longrightarrow> plan_all (plan_frame (rs_ids s) t A) (retry_wait_plan s t a k ra at)"
  unfolding retry_wait_plan_def Let_def
  by (intro frame_intros) (auto simp: event_frame_simps token_defs)

lemma terminal_frame:
  "a \<in> A \<Longrightarrow> plan_all (plan_frame (rs_ids s) t A) (terminal_plan s t a k st e at)"
  unfolding terminal_plan_def Let_def
  by (intro frame_intros) (auto simp: event_frame_simps token_defs)

lemma allocation_succeeded_frame:
  "plan_all (plan_frame (rs_ids s) t (event_actions EK_AllocationSucceeded)) (allocation_succeeded_plan s t at)"
  unfolding allocation_succeeded_plan_def Let_def
  by (intro frame_intros) (auto simp: event_frame_simps token_defs)

lemma host_key_challenge_frame:
  "plan_all (plan_frame (rs_ids s) t
       (event_actions (if active then EK_ActiveHostKeyChallenge else EK_AllocationHostKeyChallenge)))
     (allocation_host_key_challenge_plan s t c active at)"
  unfolding allocation_host_key_challenge_plan_def Let_def
  by (intro frame_intros) (auto simp: event_frame_simps token_defs)

lemma retry_ready_frame:
  "plan_all (plan_frame (rs_ids s) t (event_actions EK_RetryReady)) (retry_ready_plan s t timer at)"
  unfolding retry_ready_plan_def Let_def
  by (intro frame_intros) (auto simp: event_frame_simps token_defs)

lemma active_representation_restart_frame:
  "plan_all (plan_frame (rs_ids s) t (event_actions EK_ActiveRepresentationRestart))
     (active_representation_restart_plan s t at)"
  unfolding active_representation_restart_plan_def Let_def
  by (intro frame_intros) (auto simp: event_frame_simps token_defs)

lemma data_complete_frame:
  "plan_all (plan_frame (rs_ids s) t
       (event_actions (if seed then EK_BitTorrentPayloadComplete else EK_DataComplete)))
     (data_complete_plan s t seed at)"
  unfolding data_complete_plan_def Let_def
  by (intro frame_intros) (auto simp: event_frame_simps token_defs)

lemma no_space_frame:
  "plan_all (plan_frame (rs_ids s) t (event_actions EK_NoSpace)) (no_space_plan s t c at)"
  unfolding no_space_plan_def Let_def
  by (rule plan_all_and_then, intro frame_intros) (auto simp: event_frame_simps token_defs)

lemma terminal_failure_frame:
  "plan_all (plan_frame (rs_ids s) t (event_actions EK_TerminalFailure)) (terminal_failure_plan s t e at)"
  unfolding terminal_failure_plan_def Let_def
  by (intro frame_intros) (auto simp: event_frame_simps token_defs)

lemma slow_demoted_frame:
  "plan_all (plan_frame (rs_ids s) t (event_actions EK_SlowDemoted)) (slow_demoted_plan s t d at)"
  unfolding slow_demoted_plan_def Let_def
  by (intro frame_intros) (auto simp: event_frame_simps token_defs)

lemma slow_paused_frame:
  "plan_all (plan_frame (rs_ids s) t (event_actions EK_SlowPaused)) (slow_paused_plan s t at)"
  unfolding slow_paused_plan_def Let_def
  by (intro frame_intros) (auto simp: event_frame_simps token_defs)

lemma slow_readmit_frame:
  "plan_all (plan_frame (rs_ids s) t (event_actions EK_SlowReadmit)) (slow_readmit_plan s t r at)"
  unfolding slow_readmit_plan_def Let_def
  by (intro frame_intros) (auto simp: event_frame_simps token_defs)

lemma verification_recoverable_frame:
  "plan_all (plan_frame (rs_ids s) t (event_actions EK_VerificationRecoverable))
     (verification_recoverable_plan s t at)"
  unfolding verification_recoverable_plan_def Let_def
  by (intro frame_intros) (auto simp: event_frame_simps token_defs)

lemma terminal_persisted_frame:
  "plan_all (plan_frame (rs_ids s) t (event_actions EK_TerminalPersisted)) (terminal_persisted_plan s t g st at)"
  unfolding terminal_persisted_plan_def Let_def
  by (intro frame_intros) (auto simp: event_frame_simps stopped_step_def token_defs)

lemma stopped_result_deletion_frame:
  "plan_all (plan_frame (rs_ids s) t
       (event_actions (if ok then EK_StoppedResultDeleted else EK_StoppedResultDeletionFailed)))
     (stopped_result_deletion_plan s t d ok at)"
  unfolding stopped_result_deletion_plan_def Let_def
  by (intro frame_intros) (auto simp: event_frame_simps token_defs)

lemma no_space_probe_completed_frame:
  "plan_all (plan_frame (rs_ids s) t (event_actions EK_NoSpaceProbeCompleted))
     (no_space_probe_completed_plan s t p origin ready next at)"
  unfolding no_space_probe_completed_plan_def Let_def
  by (intro frame_intros plan_all_and_then) (auto simp: event_frame_simps token_defs dest: for_no_space_probe_result_accepted)

lemma token_updates_barrier [simp]:
  "resolution_token (t\<lparr>t_pending_barrier := Some (PB_CancellationDrain g d f)\<rparr>) = None"
  "deletion_token (t\<lparr>t_pending_barrier := Some (PB_CancellationDrain g d f)\<rparr>) = None"
  "resolution_token (t\<lparr>t_pending_barrier := Some (PB_TerminalPersistence g st)\<rparr>) = None"
  "deletion_token (t\<lparr>t_pending_barrier := Some (PB_TerminalPersistence g st)\<rparr>) = None"
  "resolution_token (t\<lparr>t_pending_barrier := Some (PB_OptionPatchApplication g p)\<rparr>) = None"
  "deletion_token (t\<lparr>t_pending_barrier := Some (PB_OptionPatchApplication g p)\<rparr>) = None"
  by (simp_all add: token_defs)

lemma deferred_action_event: "Some a \<in> deferred_actions \<Longrightarrow> a \<in> event_actions k"
  by (auto simp: deferred_actions_def)

lemma host_key_resolution_frame:
  "plan_all (plan_frame (rs_ids s) t
       (event_actions (if ok then EK_HostKeyResolutionPersisted else EK_HostKeyResolutionFailed)))
     (host_key_resolution_plan s t r ok at)"
  unfolding host_key_resolution_plan_def Let_def
  by (intro frame_intros plan_all_complete plan_frame_follows)
    (simp_all add: for_host_key_resolution_def deferred_action_event follows_barrier del: event_actions_mem, simp_all)

lemma option_patch_persistence_frame:
  "plan_all (plan_frame (rs_ids s) t
       (event_actions (if ok then EK_OptionPatchPersisted else EK_OptionPatchPersistenceFailed)))
     (option_patch_persistence_plan s t p ok at)"
  unfolding option_patch_persistence_plan_def Let_def
  by (intro frame_intros plan_all_complete plan_frame_follows)
    (simp_all add: deferred_action_event follows_barrier del: event_actions_mem, auto dest: follows_identity)

lemma follows_application [simp]: "follows t (patch_application_updated t p ok)"
  by (simp add: patch_application_updated_def Let_def clear_needs_credentials_def)

lemma patch_application_action_source:
  "patch_application_action m c ok = Inr a \<Longrightarrow>
   a \<in> event_actions (if ok then EK_OptionPatchApplied else EK_OptionPatchApplicationFailed)"
  by (cases m) (auto simp: patch_application_action_def split: if_splits option.splits)

lemma plan_all_application_action [frame_intros]:
  "(\<And>a. patch_application_action m c ok = Inr a \<Longrightarrow> res_all P (f a)) \<Longrightarrow>
   res_all P (and_then (patch_application_action m c ok) f)"
  by (rule plan_all_and_then)

lemma option_patch_application_frame:
  "plan_all (plan_frame (rs_ids s) t
       (event_actions (if e = None then EK_OptionPatchApplied else EK_OptionPatchApplicationFailed)))
     (option_patch_application_plan s t p e at)"
  unfolding option_patch_application_plan_def Let_def
  by (intro frame_intros plan_all_complete plan_frame_follows)
    (simp_all add: patch_application_action_source [where ok = "e = None"] deferred_action_event follows_barrier del: event_actions_mem, auto dest: follows_identity)

definition drains ::
  "scheduled_task \<Rightarrow> id_counters \<Rightarrow> transition_effect list \<Rightarrow>
   bool \<times> scheduled_task \<times> transition_effect list \<times> id_counters \<Rightarrow> bool" where
  "drains u i es r \<longleftrightarrow>
     (case r of (pub, v, es', j) \<Rightarrow>
        t_gid v = t_gid u \<and> t_task_id v = t_task_id u \<and> t_generation v = t_generation u
        \<and> t_highest_option_patch_id v = t_highest_option_patch_id u
        \<and> retry_token v = retry_token u \<and> probe_token v = probe_token u
        \<and> token_step (readmission_token u) (readmission_token v) (ic_slow_readmission i) (ic_slow_readmission j)
        \<and> kept (resolution_token u) (resolution_token v) \<and> kept (deletion_token u) (deletion_token v)
        \<and> kept (t_stopped_status u) (t_stopped_status v)
        \<and> ids_step i j \<and> ic_no_space_probe j = ic_no_space_probe i
        \<and> (\<exists>xs. es' = es @ xs \<and> length xs \<le> 1 \<and> effects_for (t_task_id u) (t_gid u) xs))"

lemma ids_slow_readmission_step:
  assumes "ids_slow_readmission i = Inr (b, j)"
  obtains x where "j = i\<lparr>ic_slow_readmission := x\<rparr>" "issued (ic_slow_readmission i) x (slow_readmission_id_get b)"
  using ids_issued(2) [OF assms] that by blast

lemma drain_target_drains: "res_all (drains u i es) (drain_target_effects t a target u es i)"
proof (cases target)
  case DT_WaitingSlow
  have "drains u i es
      (True, u\<lparr>t_pending_slow_readmission := None, t_slow_readmission := Some (b, at)\<rparr>,
       es @ [Eff_ScheduleSlowReadmission (t_task_id u) (t_gid u) (t_generation u) b at], j)"
    if "ids_slow_readmission i = Inr (b, j)" for b j at
    by (rule ids_slow_readmission_step [OF that])
      (auto simp: drains_def readmission_token_def token_step_def ids_step_def issued_step)
  then show ?thesis
    by (auto simp: DT_WaitingSlow drain_target_effects_def drains_def and_then_def
        split: option.splits sum.splits)
qed (auto simp: drain_target_effects_def drains_def and_then_def ok_or_def begin_terminal_def
      split: option.splits sum.splits)

lemma plan_all_probe_after_drain [frame_intros]:
  assumes "res_all P (f (u, es, ids))"
    and "\<And>p x at. t_no_space_probe u = None \<Longrightarrow> issued (ic_no_space_probe ids) x (no_space_probe_id_get p) \<Longrightarrow>
      res_all P (f (u\<lparr>t_no_space_probe := Some (p, NPO_AutomaticRetry)\<rparr>,
        es @ [Eff_ProbeNoSpace (t_task_id u) (t_gid u) (t_generation u) p NPO_AutomaticRetry at],
        ids\<lparr>ic_no_space_probe := x\<rparr>))"
  shows "res_all P (and_then (probe_after_drain u es ids) f)"
  unfolding probe_after_drain_def by (intro frame_intros assms)

lemma cancellation_drained_frame:
  "plan_all (plan_frame (rs_ids s) t (event_actions EK_CancellationDrained)) (cancellation_drained_plan s t g at)"
  unfolding cancellation_drained_plan_def Let_def
  apply (intro frame_intros res_all_and_then [OF drain_target_drains])
  apply clarify
  apply (intro frame_intros)
  apply (auto simp: event_frame_simps drains_def probe_token_def)
  done

section \<open>Every event and every admission\<close>

lemmas frames_by_result =
  option_patch_persistence_frame [where ok = True, simplified]
  option_patch_persistence_frame [where ok = False, simplified]
  option_patch_application_frame [where e = None, simplified]
  option_patch_application_frame [where e = "Some x" for x, simplified]
  host_key_challenge_frame [where active = True, simplified]
  host_key_challenge_frame [where active = False, simplified]
  data_complete_frame [where seed = True, simplified]
  data_complete_frame [where seed = False, simplified]
  host_key_resolution_frame [where ok = True, simplified]
  host_key_resolution_frame [where ok = False, simplified]
  stopped_result_deletion_frame [where ok = True, simplified]
  stopped_result_deletion_frame [where ok = False, simplified]

lemma event_plan_frame:
  "plan_all (plan_frame (rs_ids s) t (event_actions (event_kind ev))) (event_plan s t at ev)"
  by (cases ev)
    (simp_all add: frames_by_result generation_persisted_frame retry_wait_frame terminal_frame allocation_succeeded_frame
      retry_ready_frame active_representation_restart_frame 
      no_space_frame terminal_failure_frame slow_demoted_frame slow_paused_frame slow_readmit_frame
      verification_recoverable_frame terminal_persisted_frame 
      no_space_probe_completed_frame cancellation_drained_frame
      allocation_retryable_plan_def active_retry_idle_plan_def allocation_failed_plan_def
      verification_succeeded_plan_def verification_failed_plan_def seeding_complete_plan_def
      seeding_failed_plan_def)

lemma guarded_event_plan_frame:
  "plan_all (plan_frame (rs_ids s) t (event_actions (event_kind (env_event envelope))))
     (guarded_event_plan s t at envelope)"
  unfolding guarded_event_plan_def Let_def
  by (intro plan_all_branch(1) plan_all_ignored plan_all_and_then plan_all_Inl event_plan_frame)

definition admission_actions :: "scheduler_action set" where
  "admission_actions =
     {SA_SchedulerAdmission, SA_RestartApplicationScheduled, SA_RetryReadmissionSucceeded,
      SA_SlowReadmissionSucceeded}"

lemma restart_application_frame:
  "plan_all (plan_frame (rs_ids s) t admission_actions) (restart_application_plan s t)"
  unfolding restart_application_plan_def
  by (intro frame_intros) (auto simp: event_frame_simps token_defs admission_actions_def)

lemma admission_action_in: "admission_action st = Inr a \<Longrightarrow> a \<in> admission_actions"
  by (auto simp: admission_action_def admission_actions_def split: if_splits)

lemma admission_frame: "plan_all (plan_frame (rs_ids s) t admission_actions) (admission_plan s t)"
  unfolding admission_plan_def
  by (rule plan_all_and_then, drule admission_action_in, intro frame_intros)
    (simp add: plan_frame_follows)

end
