(* ===== verification/DeferredControl.thy ===== *)
theory DeferredControl
  imports TaskFacts
begin

text \<open>
  While a barrier of option-patch persistence, option-patch application or host-key resolution is
  pending, pause, resume and remove are recorded and completed when the acknowledgement arrives
  (\<open>complete_pending_user_control\<close>). The completed task is consistent again.
\<close>

section \<open>Deferred user control\<close>

lemma deferred_pause_target:
  assumes "x \<in> step_targets (transition_contract st SA_DeferredPauseCompleted)"
  shows "x = (if st = TS_PausedSlow then st else TS_Paused) \<and> patchable_state st \<and> st \<noteq> TS_PausedHostKey \<or> st = TS_Accepted"
  using assms by (auto simp: transition_contract.simps targets_simps state_defs split: if_splits)

lemma deferred_resume_target:
  assumes "x \<in> step_targets (transition_contract st SA_DeferredResumeCompleted)"
  shows "x = TS_Waiting \<and> (st = TS_Paused \<or> st = TS_PausedSlow)"
  using assms by (auto simp: transition_contract.simps targets_simps split: if_splits)

lemma deferred_remove_target:
  assumes "x \<in> step_targets (transition_contract st SA_DeferredRemoveCompleted)"
  shows "x = TS_Removed \<and> \<not> is_terminal st"
  using assms by (auto simp: transition_contract.simps targets_simps state_defs split: if_splits)

text \<open>What an acknowledgement may have changed before a deferred control completes.\<close>

definition acknowledged :: "scheduled_task \<Rightarrow> scheduled_task \<Rightarrow> bool" where
  "acknowledged t u \<longleftrightarrow>
     t_gid u = t_gid t \<and> t_task_id u = t_task_id t \<and> t_generation u = t_generation t
     \<and> t_generation_started u = t_generation_started t \<and> t_slot u = t_slot t
     \<and> t_pending_barrier u = None
     \<and> t_pending_user_control u = t_pending_user_control t
     \<and> t_retry_timer u = t_retry_timer t \<and> t_retry_ready u = t_retry_ready t
     \<and> t_slow_readmission u = t_slow_readmission t
     \<and> t_slow_readmission_ready u = t_slow_readmission_ready t
     \<and> t_pending_slow_readmission u = t_pending_slow_readmission t
     \<and> t_no_space_probe u = t_no_space_probe t
     \<and> t_terminal_persisted u = t_terminal_persisted t \<and> t_stopped_status u = t_stopped_status t
     \<and> t_error u = t_error t
     \<and> (t_host_key_challenge u = t_host_key_challenge t \<or> t_host_key_challenge u = None)
     \<and> conditions_inv (t_conditions u) (t_state t) (t_no_space_probe t) (t_slot t) None
     \<and> (t_pending_option_patch_mode u = None \<and> t_pending_option_patch u = None
          \<and> t_pending_credential_requirement u = None
        \<or> t_pending_option_patch_mode u = Some POM_ActiveRestart
          \<and> t_pending_option_patch u \<noteq> None
          \<and> t_highest_option_patch_id u = t_pending_option_patch u
          \<and> working_state (t_state t))"

lemma deferring_facts:
  assumes ok: "task_ok t" and d: "is_deferring (t_pending_barrier t)"
  shows "\<not> is_terminal (t_state t)" "t_state t \<noteq> TS_Accepted" "\<not> t_terminal_persisted t"
    "t_stopped_status t = None" "t_pending_slow_readmission t = None"
    "owns_slot (t_slot t) \<Longrightarrow>
       t_generation_started t \<and> \<not> blocks_admission (t_conditions t)
       \<and> t_state t \<in> {TS_Allocating, TS_Active, TS_Verifying, TS_Seeding, TS_RetryWait}"
    "t_state t \<noteq> TS_PausedHostKey \<Longrightarrow> t_host_key_challenge t = None"
proof -
  obtain b where b: "t_pending_barrier t = Some b" using d by (cases "t_pending_barrier t") auto
  have nd: "\<not> is_cancellation_drain (t_pending_barrier t)" "\<not> is_terminal_persistence (t_pending_barrier t)"
    using barrier_kind_exclusive(1) [OF d] by auto
  show nt: "\<not> is_terminal (t_state t)" and na: "t_state t \<noteq> TS_Accepted"
    using task_okD(2) [OF ok b] d b by (cases b; auto simp: state_defs)+
  show "\<not> t_terminal_persisted t" "t_stopped_status t = None"
    "t_state t \<noteq> TS_PausedHostKey \<Longrightarrow> t_host_key_challenge t = None"
    using task_okD(3) [OF ok] nt by (auto simp: terminal_inv_def is_terminal_def)
  show "t_pending_slow_readmission t = None"
    using task_okD(5) [OF ok] nd by (auto simp: timers_inv_def)
  show "t_generation_started t \<and> \<not> blocks_admission (t_conditions t)
       \<and> t_state t \<in> {TS_Allocating, TS_Active, TS_Verifying, TS_Seeding, TS_RetryWait}"
    if "owns_slot (t_slot t)"
    using owns_slot_state [OF ok that nd(1)] task_okD(4) [OF ok] that nd(1)
    by (auto simp: conditions_inv_def)
qed

lemma acknowledgedD:
  assumes "acknowledged t u"
  shows "t_gid u = t_gid t" "t_task_id u = t_task_id t" "t_generation u = t_generation t"
    "t_generation_started u = t_generation_started t" "t_slot u = t_slot t"
    "t_pending_barrier u = None" "t_pending_user_control u = t_pending_user_control t"
    "t_retry_timer u = t_retry_timer t" "t_retry_ready u = t_retry_ready t"
    "t_slow_readmission u = t_slow_readmission t"
    "t_slow_readmission_ready u = t_slow_readmission_ready t"
    "t_pending_slow_readmission u = t_pending_slow_readmission t"
    "t_no_space_probe u = t_no_space_probe t"
    "t_terminal_persisted u = t_terminal_persisted t" "t_stopped_status u = t_stopped_status t"
    "t_error u = t_error t"
    "t_host_key_challenge u = t_host_key_challenge t \<or> t_host_key_challenge u = None"
    "conditions_inv (t_conditions u) (t_state t) (t_no_space_probe t) (t_slot t) None"
    "t_pending_option_patch_mode u = None \<and> t_pending_option_patch u = None
          \<and> t_pending_credential_requirement u = None
        \<or> t_pending_option_patch_mode u = Some POM_ActiveRestart
          \<and> t_pending_option_patch u \<noteq> None
          \<and> t_highest_option_patch_id u = t_pending_option_patch u
          \<and> working_state (t_state t)"
  using assms unfolding acknowledged_def by blast+

lemma acknowledged_conditions:
  assumes "acknowledged t u" "\<not> is_terminal (t_state t)"
  shows "task_conditions_validate (t_conditions u) = Inr ()"
    "t_no_space_probe t \<noteq> None \<Longrightarrow> tc_no_space (t_conditions u) \<noteq> None"
    "owns_slot (t_slot t) \<Longrightarrow> \<not> blocks_admission (t_conditions u) \<and> t_no_space_probe t = None"
    "blocks_admission (t_conditions u) \<Longrightarrow> condition_state (t_state t)"
  using acknowledgedD(18) [OF assms(1)] assms(2)
  by (auto simp: conditions_inv_def blocks_admission_def state_defs)

lemma deferred_pause_ok:
  assumes ok: "task_ok t" and d: "is_deferring (t_pending_barrier t)" and ack: "acknowledged t u"
    and control: "t_pending_user_control t = Some (PUC_Pause force)"
    and x: "x \<in> step_targets (transition_contract (t_state t) SA_DeferredPauseCompleted)"
  shows "owns_slot (t_slot t) \<Longrightarrow>
      task_ok (u\<lparr>t_pending_user_control := None, t_state := x, t_desired_paused := True,
                 t_pending_barrier := Some (PB_CancellationDrain (t_generation t) DT_Paused f)\<rparr>)"
    and "\<not> owns_slot (t_slot t) \<Longrightarrow>
      task_ok (u\<lparr>t_pending_user_control := None, t_state := x, t_desired_paused := True\<rparr>)"
proof -
  note facts = deferring_facts [OF ok d] and ctrl = task_okD(7) [OF ok, unfolded control_inv_def]
    and fr = acknowledgedD [OF ack] and cond = acknowledged_conditions [OF ack facts(1)]
  have x': "x = (if t_state t = TS_PausedSlow then t_state t else TS_Paused)"
    "t_state t \<noteq> TS_PausedHostKey"
    using deferred_pause_target [OF x] facts(2) by auto
  then have xs: "x = TS_Paused \<or> x = TS_PausedSlow" "condition_state x" "working_state (t_state t) \<Longrightarrow> x = TS_Paused"
    by (auto simp: state_defs)
  have challenge: "t_host_key_challenge u = None"
    using facts(7) [OF x'(2)] fr(17) by auto
  have timers: "t_retry_timer t = None" "\<not> t_retry_ready t" "t_slow_readmission t = None"
    "\<not> t_slow_readmission_ready t" using ctrl control by auto
  show "task_ok (u\<lparr>t_pending_user_control := None, t_state := x, t_desired_paused := True,
                 t_pending_barrier := Some (PB_CancellationDrain (t_generation t) DT_Paused f)\<rparr>)"
    if owns: "owns_slot (t_slot t)"
    by (rule task_ok_draining [where g = "t_generation t" and target = DT_Paused and force = f])
      (use fr facts(3-6) cond(1,3) timers challenge xs owns in auto)
  show "task_ok (u\<lparr>t_pending_user_control := None, t_state := x, t_desired_paused := True\<rparr>)"
    if "\<not> owns_slot (t_slot t)"
    using xs fr facts(3-5) cond(1,2) timers challenge that
    by (auto simp: task_ok_def barrier_ok_def slot_inv_def terminal_inv_def conditions_inv_def
       timers_inv_def working_state_def is_terminal_pending_def)
qed

lemma deferred_resume_ok:
  assumes ok: "task_ok t" and d: "is_deferring (t_pending_barrier t)" and ack: "acknowledged t u"
    and x: "x \<in> step_targets (transition_contract (t_state t) SA_DeferredResumeCompleted)"
  shows "task_ok (u\<lparr>t_pending_user_control := None, t_state := x, t_desired_paused := False,
      t_slow_demotion_count := 0, t_retry_timer := None, t_retry_ready := False,
      t_slow_readmission := None, t_slow_readmission_ready := False,
      t_pending_slow_readmission := None, t_slow_slot := None\<rparr>)"
proof -
  note facts = deferring_facts [OF ok d] and fr = acknowledgedD [OF ack]
    and cond = acknowledged_conditions [OF ack facts(1)]
  have x': "x = TS_Waiting" "t_state t = TS_Paused \<or> t_state t = TS_PausedSlow"
    using deferred_resume_target [OF x] by auto
  then have "t_host_key_challenge u = None" "\<not> owns_slot (t_slot t)"
    using facts(6,7) fr(17) by auto
  with x' fr facts(3,4) cond(1,2) show ?thesis
    by (auto simp: task_ok_def barrier_ok_def slot_inv_def terminal_inv_def conditions_inv_def
       timers_inv_def working_state_def is_terminal_pending_def condition_state_def)
qed

lemma deferred_remove_ok:
  assumes ok: "task_ok t" and d: "is_deferring (t_pending_barrier t)" and ack: "acknowledged t u"
    and x: "x \<in> step_targets (transition_contract (t_state t) SA_DeferredRemoveCompleted)"
    and v: "v = u\<lparr>t_pending_user_control := None, t_state := x, t_retry_timer := None,
      t_retry_ready := False, t_slow_readmission := None, t_slow_readmission_ready := False,
      t_pending_slow_readmission := None, t_slow_slot := None, t_no_space_probe := None,
      t_host_key_challenge := None, t_pending_option_patch := None,
      t_pending_option_patch_mode := None, t_pending_credential_requirement := None\<rparr>"
  shows "owns_slot (t_slot t) \<Longrightarrow>
      task_ok (v\<lparr>t_pending_barrier := Some (PB_CancellationDrain (t_generation t) DT_Removed f)\<rparr>)"
    and "\<not> owns_slot (t_slot t) \<Longrightarrow>
      task_ok (v\<lparr>t_error := None, t_stopped_status := None, t_terminal_persisted := False,
                 t_pending_barrier := Some (PB_TerminalPersistence (t_generation t) AS_Removed)\<rparr>)"
proof -
  note facts = deferring_facts [OF ok d] and fr = acknowledgedD [OF ack]
    and cond = acknowledged_conditions [OF ack facts(1)]
  have x': "x = TS_Removed" using deferred_remove_target [OF x] by auto
  show "task_ok (v\<lparr>t_pending_barrier := Some (PB_CancellationDrain (t_generation t) DT_Removed f)\<rparr>)"
    if owns: "owns_slot (t_slot t)"
    unfolding v x'
    by (rule task_ok_draining [where g = "t_generation t" and target = DT_Removed and force = f])
      (use fr(3-5,14,15) facts(3,4,6) cond(1) owns in \<open>auto simp: is_terminal_pending_def\<close>)
  show "task_ok (v\<lparr>t_error := None, t_stopped_status := None, t_terminal_persisted := False,
                 t_pending_barrier := Some (PB_TerminalPersistence (t_generation t) AS_Removed)\<rparr>)"
    if "\<not> owns_slot (t_slot t)"
    unfolding v x' using that fr(3,5) cond(1)
    by (intro task_ok_terminal [where status = AS_Removed]) (simp_all add: owns_slot_def)
qed

lemma complete_pending_user_control_ok:
  assumes ok: "task_ok t" and d: "is_deferring (t_pending_barrier t)" and ack: "acknowledged t u"
    and run: "complete_pending_user_control t u es = Inr (Some a, v, es')"
    and v: "t_state v \<in> step_targets (transition_contract (t_state t) a)"
  shows "update_ok s t v \<and> task_ok v"
proof -
  note fr = acknowledgedD [OF ack]
  obtain c where c: "t_pending_user_control t = Some c"
    using run fr(7) by (cases "t_pending_user_control t") (auto simp: complete_pending_user_control_def Let_def)
  show ?thesis
  proof (cases c)
    case (PUC_Pause force)
    show ?thesis
      using run v c PUC_Pause fr(1-7) deferred_pause_ok [OF ok d ack, of force]
      by (auto simp: complete_pending_user_control_def Let_def and_then_eq_Inr update_ok_def
          begin_cancellation_def split: if_splits)
  next
    case PUC_Resume
    show ?thesis
      using run v c PUC_Resume fr(1-7) deferred_resume_ok [OF ok d ack]
      by (auto simp: complete_pending_user_control_def Let_def and_then_eq_Inr update_ok_def
          cancel_timers_def split: if_splits)
  next
    case (PUC_Remove force)
    show ?thesis
      using run v c PUC_Remove fr(1-7) deferred_remove_ok [OF ok d ack _ refl]
      by (auto simp: complete_pending_user_control_def Let_def and_then_eq_Inr update_ok_def
          cancel_timers_def begin_cancellation_def begin_terminal_ok split: if_splits)
  qed
qed

lemma complete_pending_user_control_None:
  assumes run: "complete_pending_user_control t u es = Inr (None, v, es')"
  shows "t_pending_user_control u = None \<and> v = u\<lparr>t_pending_user_control := None\<rparr>"
proof (cases "t_pending_user_control u")
  case (Some c)
  with run show ?thesis
    by (cases c) (auto simp: complete_pending_user_control_def Let_def and_then_eq_Inr cancel_timers_def
        split: if_splits)
qed (use run in \<open>simp add: complete_pending_user_control_def Let_def\<close>)

text \<open>A handler that completes a deferred control and otherwise goes on.\<close>

lemma plan_ok_complete:
  assumes ok: "task_ok t" and d: "is_deferring (t_pending_barrier t)" and ack: "acknowledged t u"
    and k: "\<And>a v es'. (t_state v \<in> step_targets (transition_contract (t_state t) a) \<Longrightarrow>
        update_ok s t v \<and> task_ok v) \<Longrightarrow> plan_ok s t (k (Some a, v, es'))"
      "t_pending_user_control t = None \<Longrightarrow> plan_ok s t (k (None, u\<lparr>t_pending_user_control := None\<rparr>, es))"
  shows "plan_ok s t (and_then (complete_pending_user_control t u es) k)"
proof (rule plan_ok_and_then)
  fix p assume p: "complete_pending_user_control t u es = Inr p"
  obtain c v es' where pe: "p = (c, v, es')" by (cases p)
  show "plan_ok s t (k p)"
  proof (cases c)
    case None
    have "t_pending_user_control u = None \<and> v = u\<lparr>t_pending_user_control := None\<rparr>"
      using complete_pending_user_control_None p pe None by blast
    moreover have "es' = es"
      using p pe None calculation by (simp add: complete_pending_user_control_def Let_def)
    ultimately show ?thesis
      using k(2) pe None acknowledgedD(7) [OF ack] by simp
  next
    case (Some a)
    then show ?thesis
      using k(1) complete_pending_user_control_ok [OF ok d ack] p pe by blast
  qed
qed

end
