(* ===== verification/PatchesInv.thy ===== *)
theory PatchesInv
  imports DeferredControl
begin

text \<open>
  Acknowledgements of option patches and host-key resolutions produce admissible plans: every branch
  of their handlers, with and without a deferred user control, writes a consistent task.
\<close>

section \<open>Option patches and host keys\<close>

lemma expected_patch_persistence_Some:
  "expected_patch_persistence t = Some p \<longleftrightarrow>
     t_pending_barrier t = Some (PB_OptionPatchPersistence (t_generation t) p)"
  by (auto simp: expected_patch_persistence_def split: option.splits pending_barrier.splits)

lemma expected_patch_application_Some:
  "expected_patch_application t = Some p \<longleftrightarrow>
     t_pending_barrier t = Some (PB_OptionPatchApplication (t_generation t) p)"
  by (auto simp: expected_patch_application_def split: option.splits pending_barrier.splits)

lemma option_patch_persistence_plan_ok:
  assumes ok: "task_ok t"
  shows "plan_ok s t (option_patch_persistence_plan s t patch succeeded at)"
proof (cases "t_pending_barrier t = Some (PB_OptionPatchPersistence (t_generation t) patch)")
  case b: True
  let ?u = "if succeeded then t\<lparr>t_pending_barrier := None, t_last_option_patch_persistence := Some patch\<rparr>
     else t\<lparr>t_pending_barrier := None, t_last_option_patch_persistence := Some patch,
            t_pending_option_patch := None, t_pending_option_patch_mode := None,
            t_pending_credential_requirement := None\<rparr>"
  have facts: "t_pending_option_patch t = Some patch" "t_pending_option_patch_mode t = Some POM_ActiveRestart"
    "t_state t \<in> {TS_Allocating, TS_Active, TS_Verifying}"
    using task_okD(2) [OF ok b] by auto
  have d: "is_deferring (t_pending_barrier t)" by (simp add: b)
  have ack: "acknowledged t ?u"
    using facts task_okD(4,6) [OF ok] b by (auto simp: acknowledged_def working_state_def)
  note df = deferring_facts [OF ok d]
  have owns: "owns_slot (t_slot t)" using task_okD(1) [OF ok] facts(3) by (auto simp: slot_inv_def working_state_def)
  have timers: "t_retry_timer t = None" "\<not> t_retry_ready t" "t_slow_readmission t = None"
    "\<not> t_slow_readmission_ready t"
    using task_okD(5) [OF ok] facts(3) by (auto simp: timers_inv_def)
  show ?thesis
    unfolding option_patch_persistence_plan_def Let_def
  proof (intro plan_ok_branch(1) plan_ok_ignored plan_ok_Inl plan_ok_complete [OF ok d ack], goal_cases)
    case (1 a v es)
    then show ?case by (simp add: plan_ok_finish)
  next
    case 2
    show ?case
      unfolding prod.case option.case
    proof (intro plan_intros, goal_cases)
      case (1 x f es)
      have x: "x = TS_PausedRestarting"
        using 1(2,4) by (auto simp: transition_contract.simps targets_simps split: if_splits)
      show ?case
        unfolding x
        by (intro conjI task_ok_draining [where g = "t_generation t" and target = DT_PausedRestarting and force = f])
          (use 1(2) facts(1,2) df(3-7) timers task_okD(4,6) [OF ok] owns b
           in \<open>auto simp: update_ok_def conditions_inv_def blocks_admission_def\<close>)
    next
      case (2 x)
      have x: "x = t_state t"
        using 2(2,3) by (auto simp: transition_contract.simps targets_simps split: if_splits)
      with 2(2) ok b show ?case
        by (auto simp: task_ok_def barrier_ok_def update_ok_def)
    qed
  qed
qed (simp add: option_patch_persistence_plan_def Let_def token_fresh expected_patch_persistence_Some plan_ok_ignored)

lemma clear_needs_credentials_fields [simp]:
  "t_state (clear_needs_credentials t) = t_state t" "t_gid (clear_needs_credentials t) = t_gid t"
  by (simp_all add: clear_needs_credentials_def)

lemma patch_application_acknowledged:
  assumes ok: "task_ok t" and d: "is_patch_application (t_pending_barrier t)"
  shows "acknowledged t (patch_application_updated t patch succeeded)"
proof -
  have "conditions_inv (t_conditions t) (t_state t) (t_no_space_probe t) (t_slot t) None"
    using task_okD(4) [OF ok] d
    by (auto simp: is_patch_application_def split: option.splits pending_barrier.splits)
  then show ?thesis
    by (simp add: acknowledged_def patch_application_updated_def Let_def clear_needs_credentials_def
        clear_needs_credentials_conditions)
qed

lemma patch_application_none:
  "t_pending_option_patch_mode (patch_application_updated t patch sc) = None"
  "t_pending_option_patch (patch_application_updated t patch sc) = None"
  "t_pending_credential_requirement (patch_application_updated t patch sc) = None"
  "t_host_key_challenge (patch_application_updated t patch sc) = t_host_key_challenge t"
  by (simp_all add: patch_application_updated_def Let_def clear_needs_credentials_def)

lemma acknowledged_same_state:
  assumes ok: "task_ok t" and d: "is_deferring (t_pending_barrier t)" and ack: "acknowledged t u"
    and patch: "t_pending_option_patch_mode u = None"
    and challenge: "t_host_key_challenge u = t_host_key_challenge t"
  shows "task_ok (u\<lparr>t_pending_user_control := None, t_state := t_state t\<rparr>)"
proof -
  obtain b where b: "t_pending_barrier t = Some b" "is_deferring (Some b)"
    using d by (cases "t_pending_barrier t") auto
  note nd = barrier_kind_exclusive(1) [OF b(2)]
  show ?thesis
    using acknowledgedD [OF ack] task_okD(1,3,5) [OF ok] b nd patch challenge
    by (simp add: task_ok_def barrier_ok_def)
qed

lemma restarting_waits:
  assumes ok: "task_ok t" and d: "is_deferring (t_pending_barrier t)" and ack: "acknowledged t u"
    and patch: "t_pending_option_patch_mode u = None"
    and st: "t_state t \<in> {TS_PausedRestarting, TS_Waiting}"
  shows "task_ok (u\<lparr>t_pending_user_control := None, t_state := TS_Waiting\<rparr>)"
proof -
  note facts = deferring_facts [OF ok d] and fr = acknowledgedD [OF ack]
    and cond = acknowledged_conditions [OF ack facts(1)]
  have "\<not> owns_slot (t_slot t)" "t_host_key_challenge u = None"
    using facts(6,7) fr(17) st by auto
  moreover have "t_retry_timer t = None" "\<not> t_retry_ready t" "t_slow_readmission t = None"
    "\<not> t_slow_readmission_ready t"
    using task_okD(5) [OF ok] st by (auto simp: timers_inv_def)
  ultimately show ?thesis
    using fr facts(3-5) cond(1,2) patch
    by (simp add: task_ok_def barrier_ok_def slot_inv_def terminal_inv_def conditions_inv_def
        timers_inv_def state_defs)
qed

lemma application_target:
  assumes "patch_application_action mode credentials succeeded = Inr a"
    "x \<in> step_targets (transition_contract st a)"
  shows "x = st \<or> mode = POM_ActiveRestart \<and> x = TS_Waiting"
  using assms by (cases mode)
   (auto simp: patch_application_action_def transition_contract.simps targets_simps split: if_splits option.splits)

lemma option_patch_application_plan_ok:
  assumes ok: "task_ok t"
  shows "plan_ok s t (option_patch_application_plan s t patch error at)"
proof (cases "t_pending_barrier t = Some (PB_OptionPatchApplication (t_generation t) patch)")
  case b: True
  have d: "is_deferring (t_pending_barrier t)" by (simp add: b)
  have ack: "acknowledged t (patch_application_updated t patch sc)" for sc
    using patch_application_acknowledged [OF ok] b by simp
  note df = deferring_facts [OF ok d]
  show ?thesis
    unfolding option_patch_application_plan_def Let_def
  proof (intro plan_ok_branch(1) plan_ok_ignored plan_ok_Inl plan_ok_and_then_call(2)
      plan_ok_complete [OF ok d ack] plan_ok_unless_stale, goal_cases)
    case (1 mode a v es)
    then show ?case by (simp add: plan_ok_finish)
  next
    case (2 mode)
    then show ?case by (simp add: plan_ok_Inl ok_or_def)
  next
    case (3 mode)
    show ?case
    proof (intro plan_intros, goal_cases)
      case (1 x e)
      have x: "x = TS_Error" using 1(3) by (auto simp: transition_contract.simps targets_simps split: if_splits)
      have st: "t_state t \<in> {TS_PausedRestarting, TS_Waiting}"
        using task_okD(2) [OF ok b] 3 by auto
      have "t_retry_timer t = None" "\<not> t_retry_ready t" "t_slow_readmission t = None"
        "\<not> t_slow_readmission_ready t"
        using task_okD(5) [OF ok] st by (auto simp: timers_inv_def)
      moreover have "\<not> owns_slot (t_slot t)" "t_host_key_challenge t = None"
        using df(6,7) st by auto
      ultimately show ?case
        using acknowledgedD [OF ack] acknowledged_conditions [OF ack df(1)] df(5) x
        by (intro conjI task_ok_terminal [where status = AS_Error])
          (simp_all add: update_ok_def patch_application_none owns_slot_def)
    qed
  next
    case (4 mode a v es)
    then show ?case by (simp add: plan_ok_finish)
  next
    case (5 mode)
    show ?case
      unfolding prod.case option.case
    proof (intro plan_ok_and_then plan_ok_unless_stale plan_ok_finish, goal_cases)
      case (1 a x)
      have x: "x = t_state t \<or> mode = POM_ActiveRestart \<and> x = TS_Waiting"
        using application_target [OF 1(1)] 1(3) by simp
      have st: "t_state t \<in> {TS_PausedRestarting, TS_Waiting}" if "mode = POM_ActiveRestart"
        using task_okD(2) [OF ok b] 5 that by auto
      show ?case
        using x st acknowledged_same_state [OF ok d ack patch_application_none(1,4)] restarting_waits [OF ok d ack patch_application_none(1)]
          acknowledgedD(1,2,5) [OF ack]
        by (auto simp: update_ok_def)
    qed
  qed
qed (simp add: option_patch_application_plan_def Let_def token_fresh expected_patch_application_Some plan_ok_ignored)

lemma expected_resolution_Some:
  "expected_resolution t = Some (r, c) \<longleftrightarrow>
     t_pending_barrier t = Some (PB_HostKeyResolution (t_generation t) r c)"
  by (auto simp: expected_resolution_def split: option.splits pending_barrier.splits)

lemma resolution_target:
  assumes "x \<in> step_targets (transition_contract st
      (if succeeded then for_host_key_resolution paused else SA_HostKeyResolutionFailed))"
  shows "if succeeded then x = TS_Waiting \<or> x = TS_Paused else x = st"
  using assms by (auto simp: for_host_key_resolution_def transition_contract.simps targets_simps split: if_splits)

lemma host_key_resolution_plan_ok:
  assumes ok: "task_ok t"
  shows "plan_ok s t (host_key_resolution_plan s t r succeeded at)"
proof (cases "\<exists>c. t_pending_barrier t = Some (PB_HostKeyResolution (t_generation t) r c)")
  case True
  then obtain c where b: "t_pending_barrier t = Some (PB_HostKeyResolution (t_generation t) r c)" by blast
  let ?u0 = "t\<lparr>t_pending_barrier := None, t_pending_option_patch := None,
      t_pending_option_patch_mode := None, t_last_host_key_resolution := Some r\<rparr>"
  let ?u = "if succeeded then ?u0\<lparr>t_host_key_challenge := None\<rparr> else ?u0"
  have d: "is_deferring (t_pending_barrier t)" by (simp add: b)
  note df = deferring_facts [OF ok d]
  have st: "t_state t = TS_PausedHostKey" using task_okD(2) [OF ok b] by simp
  then have slot: "\<not> owns_slot (t_slot t)" using df(6) by auto
  have cr: "t_pending_credential_requirement t = None"
    using task_okD(6) [OF ok] b st by auto
  have ack: "acknowledged t ?u"
    using task_okD(4) [OF ok] b cr by (auto simp: acknowledged_def)
  show ?thesis
    unfolding host_key_resolution_plan_def Let_def
  proof (intro plan_ok_branch(1) plan_ok_ignored plan_ok_Inl 
      plan_ok_complete [OF ok d ack] plan_ok_unless_stale plan_ok_and_then_call(1) plan_ok_finish, goal_cases)
    case (1 a v es)
    then show ?case by (simp add: plan_ok_finish)
  next
    case 2
    then show ?case by (simp add: plan_ok_Inl ok_or_def)
  next
    case (3 x)
    have control: "t_pending_user_control t = None"
      using task_okD(7) [OF ok] b 3(4)
      by (auto simp: control_inv_def pending_remove_def split: if_splits)
    note x = resolution_target [OF 3(6) [simplified]]
    have timers: "t_retry_timer t = None" "\<not> t_retry_ready t" "t_slow_readmission t = None"
        "\<not> t_slow_readmission_ready t"
      using task_okD(5) [OF ok] st by (auto simp: timers_inv_def)
    show ?case
    proof (cases succeeded)
      case True
      with x have "x = TS_Waiting \<or> x = TS_Paused" by simp
      with True ok b st slot cr control timers show ?thesis
        by (auto simp: task_ok_def barrier_ok_def update_ok_def slot_inv_def terminal_inv_def
            conditions_inv_def timers_inv_def state_defs)
    next
      case False
      with x st have "x = TS_PausedHostKey" by simp
      with False ok b st slot cr control timers show ?thesis
        by (auto simp: task_ok_def barrier_ok_def update_ok_def)
    qed
  qed
next
  case False
  then have "token_disposition (map_option fst (expected_resolution t)) (t_last_host_key_resolution t) r \<noteq> ED_Fresh"
    by (auto simp: token_fresh expected_resolution_Some)
  then show ?thesis by (simp only: host_key_resolution_plan_def Let_def if_True simp_thms plan_ok_ignored)
qed

end
