(* ===== verification/GenerationInv.thy ===== *)
theory GenerationInv
  imports TaskFacts
begin

text \<open>
  Events of a running generation (allocation, data, verification, seeding, slow slots, disk space) and
  admission produce admissible plans.
\<close>

section \<open>Work of a generation\<close>

definition plain_event :: "task_event_kind \<Rightarrow> bool" where
  "plain_event k \<longleftrightarrow>
     k \<notin> {EK_GenerationPersisted, EK_OptionPatchPersisted, EK_OptionPatchPersistenceFailed,
          EK_OptionPatchApplied, EK_OptionPatchApplicationFailed, EK_HostKeyResolutionPersisted,
          EK_HostKeyResolutionFailed, EK_TerminalPersisted, EK_StoppedResultDeleted,
          EK_StoppedResultDeletionFailed}"

lemma barrier_accepts_plain:
  "barrier_accepts_event b k \<Longrightarrow> plain_event k \<Longrightarrow> b = None \<or> is_cancellation_drain b"
  by (auto simp: barrier_accepts_event_def plain_event_def split: option.splits pending_barrier.splits)

text \<open>A task that works and has no barrier: everything but its slot and generation is at rest.\<close>

lemma working_facts:
  assumes ok: "task_ok t" and b: "t_pending_barrier t = None \<or> is_cancellation_drain (t_pending_barrier t)"
    and w: "working_state (t_state t)"
  shows "t_pending_barrier t = None" "owns_slot (t_slot t)" "t_generation_started t"
    "\<not> blocks_admission (t_conditions t)" "t_no_space_probe t = None"
    "task_conditions_validate (t_conditions t) = Inr ()"
    "t_retry_timer t = None" "\<not> t_retry_ready t" "t_slow_readmission t = None"
    "\<not> t_slow_readmission_ready t" "t_pending_slow_readmission t = None"
    "t_pending_option_patch_mode t = None" "t_pending_option_patch t = None"
    "t_pending_credential_requirement t = None" "t_pending_user_control t = None"
    "\<not> t_terminal_persisted t" "t_stopped_status t = None" "t_host_key_challenge t = None"
proof -
  have b': "t_pending_barrier t = None"
    using b drain_state [OF ok] w by (auto simp: working_state_def)
  then show "t_pending_barrier t = None" .
  show "owns_slot (t_slot t)" "t_generation_started t"
    using task_okD(1) [OF ok] w by (auto simp: slot_inv_def)
  show nb: "\<not> blocks_admission (t_conditions t)" "task_conditions_validate (t_conditions t) = Inr ()"
    using task_okD(4) [OF ok] w by (auto simp: conditions_inv_def state_defs)
  then show "t_no_space_probe t = None"
    using task_okD(4) [OF ok] by (auto simp: conditions_inv_def blocks_admission_def)
  show "t_retry_timer t = None" "\<not> t_retry_ready t" "t_slow_readmission t = None"
    "\<not> t_slow_readmission_ready t" "t_pending_slow_readmission t = None"
    using task_okD(5) [OF ok] w by (auto simp: timers_inv_def working_state_def)
  show "t_pending_option_patch_mode t = None" "t_pending_option_patch t = None"
    "t_pending_credential_requirement t = None" "t_pending_user_control t = None"
    using task_okD(6,7) [OF ok] w b' by (auto simp: working_state_def)
  show "\<not> t_terminal_persisted t" "t_stopped_status t = None" "t_host_key_challenge t = None"
    using task_okD(3) [OF ok] w by (auto simp: terminal_inv_def working_state_def)
qed

text \<open>A working task that stays or becomes another working state.\<close>

lemma task_ok_at_rest:
  assumes "t_pending_barrier u = None" "working_state (t_state u) \<longleftrightarrow> owns_slot (t_slot u)"
    "owns_slot (t_slot u) \<Longrightarrow> t_generation_started u"
    "t_state u \<notin> {TS_Accepted, TS_StoppedResult, TS_PausedHostKey}" "\<not> is_terminal_pending (t_state u)"
    "\<not> blocks_admission (t_conditions u)" "t_no_space_probe u = None"
    "task_conditions_validate (t_conditions u) = Inr ()"
    "t_retry_timer u = None" "\<not> t_retry_ready u" "t_slow_readmission u = None"
    "\<not> t_slow_readmission_ready u" "t_pending_slow_readmission u = None"
    "t_pending_option_patch_mode u = None" "t_pending_option_patch u = None"
    "t_pending_credential_requirement u = None" "t_pending_user_control u = None"
    "\<not> t_terminal_persisted u" "t_stopped_status u = None" "t_host_key_challenge u = None"
  shows "task_ok u"
  using assms
  by (auto simp: task_ok_def barrier_ok_def slot_inv_def terminal_inv_def conditions_inv_def timers_inv_def)

lemma mark_non_token_event_fields [simp]:
  "t_gid (mark_non_token_event k t) = t_gid t" "t_task_id (mark_non_token_event k t) = t_task_id t"
  "t_slot (mark_non_token_event k t) = t_slot t" "t_state (mark_non_token_event k t) = t_state t"
  "task_ok (mark_non_token_event k t) = task_ok t"
  by (simp_all add: mark_non_token_event_def task_ok_def barrier_ok_def split: option.split)

lemma generation_persisted_plan_ok:
  assumes ok: "task_ok t"
  shows "plan_ok s t (generation_persisted_plan s t g at)"
proof (cases "t_pending_barrier t = Some (PB_GenerationPersistence g)")
  case True
  have st: "t_state t = TS_Allocating" using task_okD(2) [OF ok True] by simp
  have "owns_slot (t_slot t)" "t_generation_started t"
    using task_okD(1) [OF ok] st by (auto simp: slot_inv_def working_state_def)
  with ok True st show ?thesis
    unfolding generation_persisted_plan_def Let_def
    apply (intro plan_intros)
    apply (auto simp: mark_non_token_event_def task_ok_def barrier_ok_def update_ok_def slot_inv_def
        conditions_inv_def working_state_def)
    done
qed (simp add: generation_persisted_plan_def Let_def plan_ok_ignored)


lemma allocation_succeeded_plan_ok:
  assumes ok: "task_ok t" and b: "t_pending_barrier t = None \<or> is_cancellation_drain (t_pending_barrier t)"
  shows "plan_ok s t (allocation_succeeded_plan s t at)"
  unfolding allocation_succeeded_plan_def Let_def
proof (intro plan_intros, goal_cases)
  case (1 x)
  have x: "x = TS_Active" "t_state t = TS_Allocating"
    using 1(2) by (auto simp: mark_non_token_event_def transition_contract.simps targets_simps split: if_splits)
  then have "working_state (t_state t)" by (simp add: working_state_def)
  note f = working_facts [OF ok b this]
  show ?case
    unfolding x mark_non_token_event_def
    by (intro conjI task_ok_at_rest) (simp_all add: f update_ok_def state_defs)
qed

lemma retry_wait_plan_ok:
  assumes ok: "task_ok t" and b: "t_pending_barrier t = None \<or> is_cancellation_drain (t_pending_barrier t)"
    and a: "a \<in> {SA_AllocationRetryableFailure, SA_LeaseRetryableWithoutRunnableWork}"
  shows "plan_ok s t (retry_wait_plan s t a k retry_at at)"
  unfolding retry_wait_plan_def Let_def
proof (intro plan_intros, goal_cases)
  case (1 timer ids x)
  have x: "x = TS_RetryWait" "working_state (t_state t)"
    using 1(4) a by (auto simp: mark_non_token_event_def transition_contract.simps targets_simps
        working_state_def split: if_splits)
  note f = working_facts [OF ok b x(2)]
  from f show ?case
    unfolding x mark_non_token_event_def
    by (auto simp: task_ok_unfold)
next
  case (2 timer ids x es)
  have x: "x = TS_RetryWait" "working_state (t_state t)"
    using 2(4) a by (auto simp: mark_non_token_event_def transition_contract.simps targets_simps
        working_state_def split: if_splits)
  note f = working_facts [OF ok b x(2)]
  from f show ?case
    unfolding x mark_non_token_event_def
    by (auto simp: task_ok_unfold)
qed

lemma allocation_host_key_challenge_plan_ok:
  assumes ok: "task_ok t" and b: "t_pending_barrier t = None \<or> is_cancellation_drain (t_pending_barrier t)"
  shows "plan_ok s t (allocation_host_key_challenge_plan s t c active at)"
  unfolding allocation_host_key_challenge_plan_def Let_def
proof (intro plan_intros, goal_cases)
  case (1 x es)
  have x: "x = TS_PausedHostKey" "working_state (t_state t)"
    using 1(2) by (auto simp: mark_non_token_event_def transition_contract.simps targets_simps
        working_state_def split: if_splits)
  note f = working_facts [OF ok b x(2)]
  from f show ?case
    unfolding x mark_non_token_event_def
    by (auto simp: task_ok_unfold)
qed

lemma terminal_plan_ok:
  assumes ok: "task_ok t" and b: "t_pending_barrier t = None \<or> is_cancellation_drain (t_pending_barrier t)"
    and a: "\<And>x. x \<in> step_targets (transition_contract (t_state t) a) \<Longrightarrow>
       working_state (t_state t) \<and> terminal_state status = Some x"
    and e: "status = AS_Error \<Longrightarrow> e \<noteq> None"
  shows "plan_ok s t (terminal_plan s t a k status e at)"
  unfolding terminal_plan_def Let_def
proof (intro plan_intros, goal_cases)
  case (1 x es)
  have x: "working_state (t_state t)" "terminal_state status = Some x"
    using a 1(2) by (auto simp: mark_non_token_event_def)
  note f = working_facts [OF ok b x(1)]
  from f e x(2) show ?case
    unfolding mark_non_token_event_def
    by (intro conjI task_ok_terminal [where status = status]) (simp_all add: update_ok_def)
qed

lemma terminal_event_plans_ok:
  assumes ok: "task_ok t" and b: "t_pending_barrier t = None \<or> is_cancellation_drain (t_pending_barrier t)"
  shows "plan_ok s t (allocation_failed_plan s t e at)"
    "plan_ok s t (verification_succeeded_plan s t at)"
    "plan_ok s t (verification_failed_plan s t e at)"
    "plan_ok s t (seeding_complete_plan s t at)"
    "plan_ok s t (seeding_failed_plan s t e at)"
  unfolding allocation_failed_plan_def verification_succeeded_plan_def verification_failed_plan_def
    seeding_complete_plan_def seeding_failed_plan_def
  by (rule terminal_plan_ok [OF ok b];
      auto simp: transition_contract.simps targets_simps working_state_def split: if_splits)+

lemma data_complete_plan_ok:
  assumes ok: "task_ok t" and b: "t_pending_barrier t = None \<or> is_cancellation_drain (t_pending_barrier t)"
  shows "plan_ok s t (data_complete_plan s t seed at)"
  unfolding data_complete_plan_def Let_def
proof (intro plan_intros, goal_cases)
  case (1 x)
  have x: "working_state x" "working_state (t_state t)"
    using 1(2) by (auto simp: mark_non_token_event_def transition_contract.simps targets_simps
       working_state_def split: if_splits)
  then have x': "x \<notin> {TS_Accepted, TS_StoppedResult, TS_PausedHostKey}" "\<not> is_terminal_pending x"
    by (auto simp: state_defs)
  note f = working_facts [OF ok b x(2)]
  show ?case
    unfolding mark_non_token_event_def
    by (intro conjI task_ok_at_rest) (use x' in \<open>simp_all add: f update_ok_def x\<close>)
qed

lemma verification_recoverable_plan_ok:
  assumes ok: "task_ok t" and b: "t_pending_barrier t = None \<or> is_cancellation_drain (t_pending_barrier t)"
  shows "plan_ok s t (verification_recoverable_plan s t at)"
  unfolding verification_recoverable_plan_def Let_def
proof (intro plan_intros, goal_cases)
  case (1 x es)
  have x: "x = TS_Waiting" "working_state (t_state t)"
    using 1(2) by (auto simp: mark_non_token_event_def transition_contract.simps targets_simps
        working_state_def split: if_splits)
  note f = working_facts [OF ok b x(2)]
  show ?case
    unfolding x mark_non_token_event_def
    by (intro conjI task_ok_at_rest) (simp_all add: f update_ok_def state_defs)
qed

lemma no_space_conditions:
  assumes "task_conditions_validate c = Inr ()" "no_space_condition_validate n = Inr ()"
  shows "task_conditions_validate (c\<lparr>tc_no_space := Some n\<rparr>) = Inr ()"
  using assms by (auto simp: task_conditions_validate_def and_then_eq_Inr split: option.splits)

lemma working_drainable:
  assumes "task_ok t" "t_pending_barrier t = None \<or> is_cancellation_drain (t_pending_barrier t)"
    "working_state (t_state t)"
  shows "drainable t"
  using working_facts(1,2) [OF assms] by (simp add: drainable_def drain_startable_def)

lemma no_space_plan_ok:
  assumes ok: "task_ok t" and b: "t_pending_barrier t = None \<or> is_cancellation_drain (t_pending_barrier t)"
  shows "plan_ok s t (no_space_plan s t c at)"
proof (cases "no_space_condition_validate c = Inr ()")
  case True
  show ?thesis
    unfolding no_space_plan_def Let_def
  proof (rule plan_ok_and_then, intro plan_intros, goal_cases)
    case (1 _ x f es)
    have x: "x = TS_Waiting" "working_state (t_state t)"
      using 1(4) by (auto simp: mark_non_token_event_def transition_contract.simps targets_simps
          working_state_def split: if_splits)
    note f = working_facts [OF ok b x(2)]
    show ?case
      unfolding x mark_non_token_event_def
      by (intro conjI task_ok_draining [where g = "t_generation t" and target = DT_Waiting and force = f])
        (simp_all add: f True no_space_conditions update_ok_def condition_state_def)
  qed
next
  case False
  then show ?thesis
    by (cases "no_space_condition_validate c") (simp_all add: no_space_plan_def plan_ok_Inl)
qed

lemma terminal_failure_plan_ok:
  assumes ok: "task_ok t" and b: "t_pending_barrier t = None \<or> is_cancellation_drain (t_pending_barrier t)"
  shows "plan_ok s t (terminal_failure_plan s t e at)"
  unfolding terminal_failure_plan_def Let_def
proof (intro plan_intros, goal_cases)
  case (1 x f es)
  have x: "x = TS_Error" "working_state (t_state t)"
    using 1(3) by (auto simp: mark_non_token_event_def transition_contract.simps targets_simps
        working_state_def split: if_splits)
  note f = working_facts [OF ok b x(2)]
  show ?case
    unfolding x mark_non_token_event_def
    by (intro conjI task_ok_draining [where g = "t_generation t" and target = DT_Error and force = f])
      (simp_all add: f update_ok_def is_terminal_pending_def)
qed

lemma slow_demoted_plan_ok:
  assumes ok: "task_ok t" and b: "t_pending_barrier t = None \<or> is_cancellation_drain (t_pending_barrier t)"
  shows "plan_ok s t (slow_demoted_plan s t d at)"
  unfolding slow_demoted_plan_def Let_def
proof (intro plan_intros, goal_cases)
  case (1 x p n f es)
  have x: "x = TS_WaitingSlow" "working_state (t_state t)"
    using 1(6) by (auto simp: mark_non_token_event_def transition_contract.simps targets_simps
        working_state_def split: if_splits)
  note f = working_facts [OF ok b x(2)]
  show ?case
    unfolding x mark_non_token_event_def
    by (intro conjI task_ok_draining [where g = "t_generation t" and target = DT_WaitingSlow and force = f])
      (simp_all add: f update_ok_def condition_state_def)
qed

lemma slow_paused_plan_ok:
  assumes ok: "task_ok t" and b: "t_pending_barrier t = None \<or> is_cancellation_drain (t_pending_barrier t)"
  shows "plan_ok s t (slow_paused_plan s t at)"
  unfolding slow_paused_plan_def Let_def
proof (intro plan_intros, goal_cases)
  case (1 x f es)
  have x: "x = TS_PausedSlow" "working_state (t_state t)"
    using 1(3) by (auto simp: mark_non_token_event_def transition_contract.simps targets_simps
        working_state_def split: if_splits)
  note f = working_facts [OF ok b x(2)]
  show ?case
    unfolding x mark_non_token_event_def
    by (intro conjI task_ok_draining [where g = "t_generation t" and target = DT_PausedSlow and force = f])
      (simp_all add: f update_ok_def condition_state_def)
qed

section \<open>Admission\<close>

text \<open>The task an admission writes, by the generation it runs as.\<close>

definition admitted :: "scheduled_task \<Rightarrow> generation \<Rightarrow> scheduled_task" where
  "admitted t g =
     (if g \<noteq> t_generation t then clear_generation_event_history (t\<lparr>t_generation := g\<rparr>) else t)
       \<lparr>t_generation_started := True, t_state := TS_Allocating, t_slot := SO_Reserved,
        t_retry_ready := False, t_slow_readmission_ready := False,
        t_pending_barrier := Some (PB_GenerationPersistence g)\<rparr>"

lemma admitted_fields [simp]:
  "t_gid (admitted t g) = t_gid t" "t_task_id (admitted t g) = t_task_id t"
  "t_state (admitted t g) = TS_Allocating" "t_slot (admitted t g) = SO_Reserved"
  "t_generation (admitted t g) = g" "t_conditions (admitted t g) = t_conditions t"
  by (simp_all add: admitted_def clear_generation_event_history_def)

lemma plan_admission_ok:
  assumes "plan_admission s t a es = Inr (u, es')"
  shows "t_pending_barrier t = None" "\<not> t_desired_paused t" "\<not> blocks_admission (t_conditions t)"
    "owns_slot (t_slot t) \<or> active_slot_count s < cfg_max_active_tasks (rs_config s)"
    "required_target t a = Inr TS_Allocating"
    "\<exists>g. u = admitted t g
        \<and> (if t_generation_started t then generation_checked_next (t_generation t) = Some g
           else g = t_generation t)
        \<and> es' = es @ [Eff_PersistGenerationStarted (t_task_id t) (t_gid t) g]"
proof -
  have b: "t_pending_barrier t = None"
    using assms by (cases "t_pending_barrier t") (simp_all add: plan_admission_def reject_pending_def)
  then have r: "reject_pending t op = Inr ()" for op by (simp add: reject_pending_def)
  show "t_pending_barrier t = None" by (rule b)
  show np: "\<not> t_desired_paused t" "\<not> blocks_admission (t_conditions t)"
    using assms by (auto simp: plan_admission_def r split: if_splits)
  show sl: "owns_slot (t_slot t) \<or> active_slot_count s < cfg_max_active_tasks (rs_config s)"
    using assms np by (auto simp: plan_admission_def r split: if_splits)
  then have sl': "\<not> (\<not> owns_slot (t_slot t) \<and> cfg_max_active_tasks (rs_config s) \<le> active_slot_count s)"
    by auto
  show tg: "required_target t a = Inr TS_Allocating"
    using assms np sl' by (auto simp: plan_admission_def r and_then_eq_Inr split: if_splits)
  show "\<exists>g. u = admitted t g
        \<and> (if t_generation_started t then generation_checked_next (t_generation t) = Some g
           else g = t_generation t)
        \<and> es' = es @ [Eff_PersistGenerationStarted (t_task_id t) (t_gid t) g]"
  proof -
    have "plan_admission s t a es =
      and_then (if t_generation_started t
                then ok_or SE_GenerationExhausted (generation_checked_next (t_generation t))
                else Inr (t_generation t))
        (\<lambda>g. Inr (admitted t g, es @ [Eff_PersistGenerationStarted (t_task_id t) (t_gid t) g]))"
      unfolding plan_admission_def r Let_def
      by (simp only: and_then_simps np sl' tg if_False if_True simp_thms admitted_fields
          flip: admitted_def)
    with assms show ?thesis
      by (auto simp: and_then_eq_Inr split: if_splits)
  qed
qed

lemma task_ok_admitted:
  assumes "\<not> blocks_admission (t_conditions t)" "task_conditions_validate (t_conditions t) = Inr ()"
    "t_no_space_probe t \<noteq> None \<Longrightarrow> tc_no_space (t_conditions t) \<noteq> None"
    "t_retry_timer t = None" "t_slow_readmission t = None" "t_pending_slow_readmission t = None"
    "t_pending_option_patch_mode t = None" "t_pending_option_patch t = None"
    "t_pending_credential_requirement t = None" "t_pending_user_control t = None"
    "\<not> t_terminal_persisted t" "t_stopped_status t = None" "t_host_key_challenge t = None"
  shows "task_ok (admitted t g)"
  using assms
  by (simp add: admitted_def clear_generation_event_history_def task_ok_def barrier_ok_def slot_inv_def
      terminal_inv_def conditions_inv_def timers_inv_def state_defs)

lemma plan_ok_plan_admission:
  assumes "\<And>g es'. plan_admission s u a es = Inr (admitted u g, es') \<Longrightarrow>
    plan_ok s t (f (admitted u g, es'))"
  shows "plan_ok s t (and_then (plan_admission s u a es) f)"
proof (rule plan_ok_and_then)
  fix p assume p: "plan_admission s u a es = Inr p"
  obtain v es' where pe: "p = (v, es')" by (cases p)
  with p plan_admission_ok(6) obtain g where "v = admitted u g" by blast
  with assms p pe show "plan_ok s t (f p)" by simp
qed

lemma idle_facts:
  assumes ok: "task_ok t" and b: "t_pending_barrier t = None"
    and st: "t_state t \<in> {TS_Waiting, TS_RetryWait, TS_WaitingSlow, TS_Active}"
    and mode: "t_state t = TS_Waiting \<Longrightarrow> t_pending_option_patch_mode t \<noteq> Some POM_ActiveRestart"
  shows "task_conditions_validate (t_conditions t) = Inr ()"
    "t_no_space_probe t \<noteq> None \<Longrightarrow> tc_no_space (t_conditions t) \<noteq> None"
    "t_pending_slow_readmission t = None"
    "t_pending_option_patch_mode t = None" "t_pending_option_patch t = None"
    "t_pending_credential_requirement t = None" "t_pending_user_control t = None"
    "\<not> t_terminal_persisted t" "t_stopped_status t = None" "t_host_key_challenge t = None"
    "t_state t \<noteq> TS_RetryWait \<Longrightarrow> t_retry_timer t = None \<and> \<not> t_retry_ready t"
    "t_state t \<noteq> TS_WaitingSlow \<Longrightarrow> t_slow_readmission t = None \<and> \<not> t_slow_readmission_ready t"
    "t_retry_ready t \<Longrightarrow> t_retry_timer t = None"
    "t_slow_readmission_ready t \<Longrightarrow> t_slow_readmission t = None"
proof -
  show "t_pending_option_patch_mode t = None" "t_pending_option_patch t = None"
    "t_pending_credential_requirement t = None" "t_pending_user_control t = None"
    using task_okD(6,7) [OF ok] st mode b by auto
  show "\<not> t_terminal_persisted t" "t_stopped_status t = None" "t_host_key_challenge t = None"
    using task_okD(3) [OF ok] st by (auto simp: terminal_inv_def)
  show "t_pending_slow_readmission t = None"
    "t_state t \<noteq> TS_RetryWait \<Longrightarrow> t_retry_timer t = None \<and> \<not> t_retry_ready t"
    "t_state t \<noteq> TS_WaitingSlow \<Longrightarrow> t_slow_readmission t = None \<and> \<not> t_slow_readmission_ready t"
    "t_retry_ready t \<Longrightarrow> t_retry_timer t = None"
    "t_slow_readmission_ready t \<Longrightarrow> t_slow_readmission t = None"
    using task_okD(5) [OF ok] b by (auto simp: timers_inv_def)
qed (use task_okD(4) [OF ok] in \<open>auto simp: conditions_inv_def\<close>)

lemma retry_ready_plan_ok:
  assumes ok: "task_ok t" and b: "t_pending_barrier t = None \<or> is_cancellation_drain (t_pending_barrier t)"
  shows "plan_ok s t (retry_ready_plan s t timer at)"
proof (cases "map_option fst (t_retry_timer t) = Some timer")
  case True
  then have st: "t_state t = TS_RetryWait" and nr: "\<not> t_retry_ready t"
    using task_okD(5) [OF ok] by (auto simp: timers_inv_def)
  have b': "t_pending_barrier t = None" using b drain_state [OF ok] st by auto
  note f = idle_facts [OF ok b', unfolded st, simplified]
  show ?thesis
    unfolding retry_ready_plan_def Let_def
  proof (intro plan_ok_branch plan_ok_ignored plan_ok_unless_stale plan_ok_and_then_value
      plan_ok_plan_admission plan_ok_finish, goal_cases)
    case (1 g es)
    note a = plan_admission_ok [OF 1(3)]
    from a(3,4) f show ?case
      by (intro conjI task_ok_admitted) (auto simp: update_ok_def)
  next
    case 2
    with ok st b' show ?case
      by (simp add: task_ok_def barrier_ok_def update_ok_def timers_inv_def)
  qed
qed (simp add: retry_ready_plan_def Let_def token_fresh plan_ok_ignored)

lemma slow_readmit_plan_ok:
  assumes ok: "task_ok t" and b: "t_pending_barrier t = None \<or> is_cancellation_drain (t_pending_barrier t)"
  shows "plan_ok s t (slow_readmit_plan s t readmission at)"
proof (cases "map_option fst (t_slow_readmission t) = Some readmission")
  case True
  then have st: "t_state t = TS_WaitingSlow" and nr: "\<not> t_slow_readmission_ready t"
    and b': "t_pending_barrier t = None"
    using task_okD(5) [OF ok] b by (auto simp: timers_inv_def)
  note f = idle_facts [OF ok b', unfolded st, simplified]
  show ?thesis
    unfolding slow_readmit_plan_def Let_def
  proof (intro plan_ok_branch plan_ok_ignored plan_ok_unless_stale plan_ok_and_then_value
      plan_ok_plan_admission plan_ok_finish, goal_cases)
    case (1 g es)
    note a = plan_admission_ok [OF 1(3)]
    from a(3,4) f show ?case
      by (intro conjI task_ok_admitted) (auto simp: update_ok_def)
  next
    case 2
    with ok st b' show ?case
      by (simp add: task_ok_def barrier_ok_def update_ok_def timers_inv_def)
  qed
qed (simp add: slow_readmit_plan_def Let_def token_fresh plan_ok_ignored)

lemma active_representation_restart_plan_ok:
  assumes ok: "task_ok t"
  shows "plan_ok s t (active_representation_restart_plan s t at)"
  unfolding active_representation_restart_plan_def Let_def
proof (intro plan_ok_branch plan_ok_unless_stale plan_ok_plan_admission plan_ok_finish, goal_cases)
  case (1 g es)
  note a = plan_admission_ok [OF 1(1)]
  have st: "t_state t = TS_Active"
    using 1(2) by (auto simp: mark_non_token_event_def transition_contract.simps targets_simps
        split: if_splits)
  note f = idle_facts [OF ok a(1), unfolded st, simplified]
  have "task_ok (admitted t g)" using a(3) f by (intro task_ok_admitted) auto
  then show ?case
    using a(4) by (simp add: update_ok_def)
qed

lemma restart_application_plan_ok:
  assumes ok: "task_ok t" and b: "t_pending_barrier t = None"
    and st: "t_state t = TS_Waiting" "t_pending_option_patch_mode t = Some POM_ActiveRestart"
  shows "plan_ok s t (restart_application_plan s t)"
  unfolding restart_application_plan_def
  by (intro plan_ok_and_then_call(2) plan_ok_finish)
    (use ok b st in \<open>auto simp: task_ok_def barrier_ok_def update_ok_def\<close>)

lemma admission_plan_ok:
  assumes ok: "task_ok t" and mode: "t_state t = TS_Waiting \<Longrightarrow> t_pending_option_patch_mode t \<noteq> Some POM_ActiveRestart"
    and ready: "t_state t = TS_RetryWait \<Longrightarrow> t_retry_ready t"
      "t_state t = TS_WaitingSlow \<Longrightarrow> t_slow_readmission_ready t"
  shows "plan_ok s t (admission_plan s t)"
  unfolding admission_plan_def
proof (rule plan_ok_and_then, intro plan_ok_plan_admission plan_ok_branch(3) plan_ok_finish, goal_cases)
  case (1 a g es)
  note p = plan_admission_ok [OF 1(2)]
  have st: "t_state t \<in> {TS_Waiting, TS_RetryWait, TS_WaitingSlow}"
    using 1(1) by (auto simp: admission_action_def split: if_splits)
  then have st': "t_state t \<in> {TS_Waiting, TS_RetryWait, TS_WaitingSlow, TS_Active}" by auto
  note f = idle_facts [OF ok p(1) st' mode]
  have "t_retry_timer t = None" "t_slow_readmission t = None"
    using f(11-14) ready by blast+
  with p(3,4) f(1-10) show ?case
    by (intro conjI task_ok_admitted) (auto simp: update_ok_def)
qed

end
