(* ===== verification/CommandsInv.thy ===== *)
theory CommandsInv
  imports TaskFacts
begin

text \<open>
  Every command handler produces an admissible plan from a consistent task, so every command
  preserves the scheduler invariant.
\<close>

section \<open>Pause\<close>

lemma pause_target:
  "x \<in> step_targets (transition_contract st SA_Pause) \<Longrightarrow>
   x = (if st \<in> {TS_PausedSlow, TS_PausedHostKey} then st else TS_Paused)"
  by (auto simp: transition_contract.simps targets_simps split: if_splits)
lemma pause_source:
  "x \<in> step_targets (transition_contract st SA_Pause) \<Longrightarrow> \<not> is_terminal st"
  by (auto simp: transition_contract.simps targets_simps is_terminal_def split: if_splits)

lemma pause_deferred_ok:
  assumes "task_ok t" "deferring_barrier t = Some b"
  shows "plan_ok s t (pause_deferred s t b force)"
  unfolding pause_deferred_def Let_def
  apply (intro plan_ok_branch plan_ok_Inl plan_ok_cancel_timers plan_ok_finish_simple)
  using assms
  by (auto simp: deferring_barrier_Some task_ok_def update_ok_def barrier_ok_def timers_inv_def
      control_inv_def is_resolution_def is_host_key_resolution_def pending_remove_def
      split: pending_barrier.splits)

lemma pause_now_ok:
  assumes ok: "task_ok t" and nd: "deferring_barrier t = None"
  shows "plan_ok s t (pause_now s t force)"
  unfolding pause_now_def Let_def
proof (intro plan_intros, goal_cases)
  case (1 x es b es')
  then have dr: "drainable t"
    using task_okD(1) [OF ok] by (auto simp: drainable_def slot_inv_def working_state_def)
  have x: "x = TS_Paused \<or> x = t_state t \<and> t_state t = TS_PausedSlow"
    using pause_target [OF 1(5) [simplified]] drainable_state [OF ok dr] by auto
  show ?case
    apply (rule conjI)
    apply (simp add: update_ok_def)
    apply (rule task_ok_drain [OF ok dr])
    using x drainable_facts [OF ok dr] by (auto simp: condition_state_def)
next
  case (2 x es es')
  then have b: "t_pending_barrier t = None" by (intro not_deferring_barrier ok nd) (auto simp: is_terminal_def)
  have "x = TS_Paused" using pause_target [OF 2(5) [simplified]] 2(4) by simp
  then show ?case using 2(4) ok b
    by (auto simp: task_ok_def update_ok_def barrier_ok_def inv_defs state_defs)
next
  case (3 x es)
  show ?case using pause_target [OF 3(6) [simplified]] pause_source [OF 3(6) [simplified]] 3(3-5) ok
    by (cases "t_state t") (auto simp: task_ok_def update_ok_def barrier_ok_def inv_defs state_defs)
next
  case (4 x es b)
  then show ?case using nd by (auto simp: deferring_barrier_None is_host_key_resolution_def split: pending_barrier.splits)
qed

lemma pause_plan_ok: "task_ok t \<Longrightarrow> plan_ok s t (pause_plan s t force)"
  unfolding pause_plan_def by (intro plan_intros pause_now_ok pause_deferred_ok)

section \<open>Resume\<close>

lemma plan_ok_cancel_slow_readmission [plan_intros]:
  "(\<And>es'. plan_ok s t (f (u\<lparr>t_slow_readmission := None\<rparr>) es')) \<Longrightarrow>
   plan_ok s t (case cancel_slow_readmission u es of (u', es') \<Rightarrow> f u' es')"
  by (simp add: cancel_slow_readmission_def)

lemma reset_slow_demotions_eq:
  "reset_slow_demotions t u = u\<lparr>t_slow_demotion_count :=
     (if t_state t \<in> {TS_WaitingSlow, TS_PausedSlow} then 0 else t_slow_demotion_count u)\<rparr>"
  by (simp add: reset_slow_demotions_def)

lemma resume_deferred_ok:
  assumes ok: "task_ok t" and b: "deferring_barrier t = Some b"
  shows "plan_ok s t (resume_deferred s t b)"
  unfolding resume_deferred_def Let_def reset_slow_demotions_eq
proof (intro plan_ok_branch plan_ok_Inl plan_ok_return plan_ok_cancel_slow_readmission
    plan_ok_finish_simple, goal_cases)
  case 1
  show ?case by (simp add: update_ok_def)
next
  case (2 es)
  have b: "t_pending_barrier t = Some b" "is_deferring (Some b)"
    using assms(2) by (auto simp: deferring_barrier_Some)
  have "timers_inv (t_state t) (Some b) (t_retry_timer t \<noteq> None) (t_retry_ready t) False False
      (t_pending_slow_readmission t \<noteq> None)"
    using timers_inv_clear_slow [OF task_okD(5) [OF ok]] b by simp
  moreover have "control_inv (if is_host_key_resolution b then None
        else if t_state t \<in> {TS_Paused, TS_PausedSlow} then Some PUC_Resume else None)
      (t_state t) (Some b) (t_retry_timer t \<noteq> None) (t_retry_ready t) False False"
    using b task_okD(5) [OF ok]
    by (cases b) (auto simp: control_inv_def timers_inv_def is_host_key_resolution_def)
  ultimately show ?case
    using ok b by (simp add: task_ok_def barrier_ok_def)
qed

lemma resume_target:
  assumes "x \<in> step_targets (transition_contract st SA_Resume)"
  shows "x = TS_Waiting" "st = TS_WaitingSlow \<or> st = TS_Paused \<or> st = TS_PausedSlow"
  using assms by (auto simp: transition_contract.simps targets_simps split: if_splits)

lemma explicit_probe_target:
  assumes "x \<in> step_targets (transition_contract st SA_ExplicitNoSpaceProbeRequested)"
  shows "x = (if st \<in> {TS_WaitingSlow, TS_PausedSlow} then TS_Waiting else st)"
    "st = TS_Waiting \<or> st = TS_RetryWait \<or> st = TS_Paused \<or> st = TS_WaitingSlow \<or> st = TS_PausedSlow"
  using assms by (auto simp: transition_contract.simps targets_simps split: if_splits)

lemma resume_now_ok:
  assumes ok: "task_ok t" 
  shows "plan_ok s t (resume_now s t at)"
  unfolding resume_now_def Let_def resume_no_space_probe_def cancel_slow_readmission_def prod.case
    reset_slow_demotions_eq
proof (intro plan_intros, goal_cases)
  case (1 x p)
  note x = explicit_probe_target [OF 1(8) [unfolded 1(4)]]
  from x(2) show ?case
    using ok x(1) 1(1,7)
    by (elim disjE) (auto simp: task_ok_unfold)
next
  case (2 x p)
  have "x = t_state t" using explicit_probe_target(1) [OF 2(8) [unfolded 2(4)]] 2(6) by simp
  with ok 2(1,7) show ?case
    by (cases "p = None") (auto simp: task_ok_def update_ok_def barrier_ok_def conditions_inv_def)
next
  case (3 x)
  have a: "for_resume (t_state t) (task_conditions_to_snapshot (t_conditions t)) = SA_Resume" 
   using 3(4) by (simp add: for_resume_def split: if_splits)
  note x = resume_target [OF 3(5) [unfolded a]]
  from x(2) show ?case
    using ok  3(1) x(1)
    by (elim disjE) (auto simp: task_ok_unfold)
qed

lemma resume_plan_ok: "task_ok t \<Longrightarrow> plan_ok s t (resume_plan s t at)"
  unfolding resume_plan_def by (intro plan_intros resume_now_ok resume_deferred_ok)

section \<open>Host-key approval\<close>

lemma approve_host_key_plan_ok:
  assumes ok: "task_ok t" 
  shows "plan_ok s t (approve_host_key_plan s t c f)"
  unfolding approve_host_key_plan_def
proof (intro plan_intros, goal_cases)
  case (1 p x r ids)
  have x: "x = TS_PausedHostKey" "t_state t = TS_PausedHostKey"
    using 1(5) by (auto simp: transition_contract.simps targets_simps split: if_splits)
  have "t_host_key_challenge t = Some p" "hk_id (ph_summary p) = c"
    using 1(2) by (auto simp: matching_challenge_def and_then_eq_Inr ok_or_def split: option.splits if_splits)
  with ok x 1(1) show ?case 
    by (auto simp: task_ok_unfold)
qed

section \<open>Source replacement\<close>

lemma source_request_target:
  assumes "x \<in> step_targets (transition_contract st SA_SourceReplacementRequested)"
  shows "x = (if st \<in> {TS_Waiting, TS_Paused} then st else TS_PausedRestarting)"
    "st \<in> {TS_Waiting, TS_Paused, TS_Allocating, TS_Active, TS_Verifying, TS_RetryWait}"
  using assms by (auto simp: transition_contract.simps targets_simps split: if_splits)

lemma begin_source_replacement_plan_ok:
  assumes ok: "task_ok t" 
  shows "plan_ok s t (begin_source_replacement_plan s t)"
  unfolding begin_source_replacement_plan_def Let_def
proof (intro plan_intros, goal_cases)
  case (1 x es b es')
  then have dr: "drainable t" by (simp add: drainable_def)
  note x = source_request_target [OF 1(6) [simplified]]
  have "t_state t \<in> {TS_Allocating, TS_Active, TS_Verifying, TS_Seeding, TS_RetryWait}"
    using owns_slot_state(1) [OF ok] 1 by simp
  with x have x': "x = TS_PausedRestarting" by auto
  show ?case
    apply (rule conjI)
     apply (simp add: update_ok_def)
    apply (rule task_ok_drain [OF ok dr])
    using x' drainable_facts [OF ok dr] 1(1,2) by auto
next
  case (2 x es)
  note x = source_request_target [OF 2(5) [simplified]]
  show ?case
    using x ok 2(1-4,6)
    by (cases "t_state t") (auto simp: task_ok_unfold snapshot_ok_task)
qed

lemma conditions_inv_state:
  "conditions_inv c st probe slot b \<Longrightarrow> (blocks_admission c \<Longrightarrow> condition_state st') \<Longrightarrow> conditions_inv c st' probe slot b"
  by (simp add: conditions_inv_def)

lemma commit_source_replacement_plan_ok:
  assumes ok: "task_ok t" 
  shows "plan_ok s t (commit_source_replacement_plan s t c)"
  unfolding commit_source_replacement_plan_def Let_def
proof (intro plan_ok_and_then plan_ok_branch plan_ok_Inl plan_ok_finish, goal_cases)
  case (1 _ x)
  have b: "t_pending_barrier t = None" using 1(1) by (simp add: reject_pending_def split: option.splits)
  have x: "x = TS_Waiting \<and> t_state t = TS_PausedRestarting \<or> x = t_state t"
    using 1(7) by (auto simp: transition_contract.simps targets_simps clear_needs_credentials_def split: if_splits)
  have "conditions_inv (t_conditions t) x (t_no_space_probe t) (t_slot t) None"
    using x task_okD(4) [OF ok] b by (auto simp: conditions_inv_def condition_state_def)
  with x ok b 1(3) show ?case 
    apply (elim disjE conjE)
     apply (simp add: task_ok_def update_ok_def barrier_ok_def clear_needs_credentials_def
       clear_needs_credentials_conditions slot_inv_def terminal_inv_def timers_inv_def state_defs)
    apply (simp add: task_ok_def update_ok_def barrier_ok_def clear_needs_credentials_def
       clear_needs_credentials_conditions)
    done
qed

section \<open>Option patches\<close>

lemma patch_accept_target:
  assumes "x \<in> step_targets (transition_contract st SA_InPlaceOptionPatchAccepted)"
  shows "x = st \<and> patchable_state st"
  using assms by (auto simp: transition_contract.simps targets_simps state_defs split: if_splits)

lemma restart_patch_target:
  assumes "x \<in> step_targets (transition_contract st SA_ActiveRestartOptionPatchAccepted)"
  shows "x = st \<and> st \<in> {TS_Allocating, TS_Active, TS_Verifying}"
  using assms by (auto simp: transition_contract.simps targets_simps split: if_splits)

lemma matching_patch_target:
  assumes "x \<in> step_targets (transition_contract st SA_ApplyMatchingHostKeyOption)"
  shows "x = TS_PausedHostKey \<and> st = TS_PausedHostKey"
  using assms by (auto simp: transition_contract.simps targets_simps split: if_splits)

lemma accepted_in_place_ok:
  assumes "task_ok t" "t_pending_barrier t = None" "x = t_state t \<and> patchable_state (t_state t)"
  shows "task_ok (t\<lparr>t_state := x, t_highest_option_patch_id := Some patch,
      t_pending_option_patch := Some patch, t_pending_option_patch_mode := Some POM_InPlace,
      t_pending_credential_requirement := c,
      t_pending_barrier := Some (PB_OptionPatchApplication (t_generation t) patch)\<rparr>)"
  using assms
  by (auto simp: task_ok_def barrier_ok_def)

lemma accepted_restart_ok:
  assumes "task_ok t" "t_pending_barrier t = None"
    "x = t_state t \<and> t_state t \<in> {TS_Allocating, TS_Active, TS_Verifying}"
  shows "task_ok (t\<lparr>t_state := x, t_highest_option_patch_id := Some patch,
      t_pending_option_patch := Some patch, t_pending_option_patch_mode := Some POM_ActiveRestart,
      t_pending_credential_requirement := c,
      t_pending_barrier := Some (PB_OptionPatchPersistence (t_generation t) patch)\<rparr>)"
  using assms
  by (auto simp: task_ok_def barrier_ok_def)

lemma accepted_matching_ok:
  assumes "task_ok t" "t_pending_barrier t = None" "t_state t = TS_PausedHostKey"
    "t_host_key_challenge t = Some p" "hk_id (ph_summary p) = ch"
  shows "task_ok (t\<lparr>t_state := TS_PausedHostKey, t_highest_option_patch_id := Some patch,
      t_pending_option_patch := Some patch, t_pending_option_patch_mode := Some POM_MatchingHostKey,
      t_pending_barrier := Some (PB_HostKeyResolution (t_generation t) r ch)\<rparr>)"
  using assms by (auto simp: task_ok_unfold)

lemma apply_option_patch_plan_ok:
  assumes ok: "task_ok t" 
  shows "plan_ok s t (apply_option_patch_plan s t patch kind c)"
  unfolding apply_option_patch_plan_def Let_def apply_in_place_patch_def stage_restart_patch_def prod.case
proof (intro plan_ok_and_then plan_ok_branch plan_ok_Inl, goal_cases)
  case (1 _ _ action x)
  have b: "t_pending_barrier t = None" using 1(1) by (simp add: reject_pending_def split: option.splits)
  show ?case
  proof (cases kind)
    case (OPK_MatchingHostKey ch f)
    then have "action = SA_ApplyMatchingHostKeyOption"
     and "\<exists>p. t_host_key_challenge t = Some p \<and> hk_id (ph_summary p) = ch" 
      using 1(5) by (auto simp: option_patch_action_def matching_challenge_def and_then_eq_Inr ok_or_def split: option.splits if_splits)
    then show ?thesis
      unfolding OPK_MatchingHostKey validated_option_patch_kind.case
      by (intro plan_intros) (auto simp: update_ok_def dest!: matching_patch_target intro!: accepted_matching_ok ok b)
  next
    case OPK_InPlace
    then have "action = SA_InPlaceOptionPatchAccepted" using 1(5) by (simp add: option_patch_action_def)
    then show ?thesis
      unfolding OPK_InPlace validated_option_patch_kind.case
      by (intro plan_intros)
        (auto simp: update_ok_def intro!: accepted_in_place_ok [OF ok b] patch_accept_target)
  next
    case OPK_ActiveRestart
    then have "action = SA_InPlaceOptionPatchAccepted \<or> action = SA_ActiveRestartOptionPatchAccepted" 
      using 1(5) by (simp add: option_patch_action_def split: if_splits)
    then show ?thesis
      unfolding OPK_ActiveRestart validated_option_patch_kind.case
      by (intro plan_intros)
        (auto simp: update_ok_def simp del: insert_iff intro!: accepted_in_place_ok [OF ok b]
          accepted_restart_ok [OF ok b] patch_accept_target restart_patch_target)
  qed
qed

section \<open>Removal\<close>

lemma remove_deferred_ok:
  assumes ok: "task_ok t" and "deferring_barrier t = Some b"
  shows "plan_ok s t (remove_deferred s t force)"
  unfolding remove_deferred_def Let_def
  apply (intro plan_ok_cancel_timers plan_ok_finish_simple)
  using assms
  by (auto simp: deferring_barrier_Some task_ok_def update_ok_def barrier_ok_def timers_inv_def
      control_inv_def conditions_inv_def)

lemma remove_target:
  assumes "x \<in> step_targets (transition_contract st SA_Remove)"
  shows "x = TS_Removed" "\<not> is_terminal st"
  using assms by (auto simp: transition_contract.simps targets_simps state_defs split: if_splits)

lemma remove_now_ok:
  assumes ok: "task_ok t" and nd: "deferring_barrier t = None"
  shows "plan_ok s t (remove_now s t force)"
  unfolding remove_now_def Let_def
proof (intro plan_intros, goal_cases)
  case (1 x es b es')
  then have dr: "drainable t"
    using task_okD(1) [OF ok] by (auto simp: drainable_def slot_inv_def working_state_def)
  have x: "x = TS_Removed" using remove_target(1) [OF 1(5)] by simp
  show ?case
    apply (rule conjI)
    apply (simp add: update_ok_def)
    apply (rule task_ok_drain [OF ok dr])
    using x drainable_facts [OF ok dr] by (auto simp: state_defs)
next
  case (2 x es)
  note x = remove_target [OF 2(5)]
  show ?case
    using x task_okD(4) [OF ok]
    by (intro conjI task_ok_terminal [where status = AS_Removed]) (simp_all add: update_ok_def conditions_inv_def)
qed

lemma remove_plan_ok: "task_ok t \<Longrightarrow> plan_ok s t (remove_plan s t force)"
  unfolding remove_plan_def by (intro plan_intros remove_now_ok remove_deferred_ok)

lemma remove_stopped_result_plan_ok:
  assumes ok: "task_ok t" 
  shows "plan_ok s t (remove_stopped_result_plan s t)"
  unfolding remove_stopped_result_plan_def Let_def
proof (intro plan_intros, goal_cases)
  case (1 x d ids p)
  have x: "x = TS_StoppedResult" "t_state t = TS_StoppedResult"
    using 1(6) by (auto simp: transition_contract.simps targets_simps split: if_splits)
  with ok 1(1) show ?case by (auto simp: task_ok_unfold)
qed

section \<open>Adding a task\<close>

definition new_task :: "task_id \<Rightarrow> gid \<Rightarrow> bool \<Rightarrow> task_conditions \<Rightarrow> scheduled_task" where
  "new_task task g paused conditions =
     (scheduled_task_new task g paused conditions)\<lparr>t_state := (if paused then TS_Paused else TS_Waiting)\<rparr>"

definition new_task_class :: "bool \<Rightarrow> queue_class" where
  "new_task_class paused = (if paused then QC_Paused else QC_Waiting)"

definition add_accepts :: "request_scheduler \<Rightarrow> task_id \<Rightarrow> gid \<Rightarrow> task_conditions \<Rightarrow> bool" where
  "add_accepts s task g conditions \<longleftrightarrow>
     task_conditions_validate conditions = Inr ()
     \<and> length (rs_tasks s) < cfg_max_tasks (rs_config s)
     \<and> bt_get (rs_tasks s) g = None \<and> bt_get (rs_task_ids s) task = None
     \<and> (\<forall>h. rs_highest_task_id s = Some h \<longrightarrow> h < task)"

definition added :: "request_scheduler \<Rightarrow> task_id \<Rightarrow> gid \<Rightarrow> bool \<Rightarrow> task_conditions \<Rightarrow> nat \<Rightarrow> request_scheduler" where
  "added s task g paused conditions p =
     (let t = new_task task g paused conditions; c = new_task_class paused in
      s\<lparr>rs_tasks := bt_insert g t (rs_tasks s),
        rs_task_ids := bt_insert task g (rs_task_ids s),
        rs_highest_task_id := Some task,
        rs_queues := queues_set (insert_at p g (queues_get (rs_queues s) c)) (rs_queues s) c,
        rs_published_snapshots :=
          bt_insert g (task_snapshot_of t (cfg_retry_wait_holds_slot (rs_config s)))
            (rs_published_snapshots s)\<rparr>)"

definition add_position :: "request_scheduler \<Rightarrow> bool \<Rightarrow> nat option \<Rightarrow> nat" where
  "add_position s paused pos =
     min (case pos of None \<Rightarrow> usize_max | Some p \<Rightarrow> p)
       (length (queues_get (rs_queues s) (new_task_class paused)))"

lemma new_task_facts [simp]:
  "t_gid (new_task task g paused c) = g" "t_task_id (new_task task g paused c) = task"
  "t_conditions (new_task task g paused c) = c" "t_slot (new_task task g paused c) = SO_None"
  "t_state (new_task task g paused c) = (if paused then TS_Paused else TS_Waiting)"
  "task_queue_class (new_task task g paused c) = Some (new_task_class paused)"
  by (simp_all add: new_task_def scheduled_task_new_def new_task_class_def task_queue_class_def)

lemma new_task_ok: "task_conditions_validate c = Inr () \<Longrightarrow> task_ok (new_task task g paused c)"
  by (simp add: new_task_def scheduled_task_new_def task_ok_unfold owns_slot_def)

lemma new_task_snapshot_ok: "snapshot_ok (task_snapshot_of (new_task task g paused c) h)"
  by (simp add: snapshot_ok_task new_task_def scheduled_task_new_def state_defs)

definition add_outcome ::
  "request_scheduler \<Rightarrow> task_id \<Rightarrow> gid \<Rightarrow> bool \<Rightarrow> task_conditions \<Rightarrow> nat \<Rightarrow> monotonic_instant \<Rightarrow>
   scheduler_outcome" where
  "add_outcome s task g paused conditions p at =
     (let t = new_task task g paused conditions in
      \<lparr>out_transition =
         Some \<lparr>st_task = task, st_gid = g, st_generation = t_generation t, st_from = TS_Accepted,
               st_to = t_state t, st_reason = SR_ValidationSucceeded, st_at = at\<rparr>,
       out_deletion = None,
       out_effects =
         [Eff_PersistTask task g (new_task_class paused) p paused 0 conditions,
          Eff_PublishSnapshot task (task_snapshot_of t (cfg_retry_wait_holds_slot (rs_config s)))]\<rparr>)"

lemma add_validated_task_eq:
  assumes inv: "sched_inv s" and acc: "add_accepts s task g conditions"
  shows "add_validated_task s task g paused conditions pos at =
    (Inr (add_outcome s task g paused conditions (add_position s paused pos) at),
     added s task g paused conditions (add_position s paused pos))"
proof -
  let ?o = "scheduled_task_new task g paused conditions" and ?u = "new_task task g paused conditions"
  let ?a = "for_validated_add paused"
  let ?c = "new_task_class paused"
  have cls: "task_class s g = None" using acc by (simp add: task_class_def add_accepts_def)
  have q: "queue_updates s g None (Some ?c) =
      Inr [\<lparr>qu_class = ?c, qu_order = queues_get (rs_queues s) ?c @ [g]\<rparr>]"
    using queue_updates_match [OF sched_invD(3) [OF inv] cls] by (simp add: moved_orders_def)
  have contract: "transition_contract TS_Accepted ?a =
      ct_transition SR_ValidationSucceeded [if paused then TS_Paused else TS_Waiting]"
    by (simp add: for_validated_add_def transition_contract.simps)
  have tgt: "required_target ?o ?a = Inr (if paused then TS_Paused else TS_Waiting)"
    by (simp add: required_target_def target_for_action_def contract contract_defs scheduled_task_new_def)
  have acts: "?a \<noteq> SA_StoppedResultDeletionSucceeded" by (simp add: for_validated_add_def)
  have snap: "published_snapshot_of s (Some ?u) True = Inr (Some (task_snapshot_of ?u (cfg_retry_wait_holds_slot (rs_config s))))"
    by (simp add: published_snapshot_of_def and_then_eq_Inr scheduled_task_snapshot_ok new_task_snapshot_ok)
  have eff: "with_queue_effect s ?o (Some ?u) False ?a es None (Some ?c) us = Inr es" for es us
    by (simp add: with_queue_effect_def terminal_persistence_of_def new_task_def scheduled_task_new_def)
  have cls_o: "check_stopped_deletion s ?a [\<lparr>qu_class = ?c, qu_order = xs\<rparr>] = Inr ()" for xs
    by (simp add: check_stopped_deletion_def new_task_class_def)
  have o: "t_gid ?o = g" "t_task_id ?o = task" "t_state ?o = TS_Accepted"
    "?o\<lparr>t_state := (if paused then TS_Paused else TS_Waiting)\<rparr> = ?u"
    by (simp_all add: scheduled_task_new_def new_task_def)
  have pos: "add_position s paused pos \<le> length (queues_get (rs_queues s) ?c)"
    by (simp add: add_position_def)
  have finish: "finish_action s ?o (Some ?u) False ?a at
     [Eff_PersistTask task g ?c (add_position s paused pos) paused 0 conditions] True (rs_ids s)
    = (Inr (add_outcome s task g paused conditions (add_position s paused pos) at),
       (added s task g paused conditions (add_position s paused pos))\<lparr>rs_highest_task_id := rs_highest_task_id s\<rparr>)"
    unfolding finish_action_def plan_action_def Let_def o contract
    using q snap eff cls_o pos place_in_update_append [OF pos]
    by (simp add: contract_accepts_def kind_accepts_def contract_defs outcome_parts_def
        outcome_checked_def MAX_SCHEDULER_EFFECTS_def add_outcome_def added_def Let_def
        commit_action_def apply_queue_updates_def o)
  have limit: "\<not> cfg_max_tasks (rs_config s) \<le> length (rs_tasks s)"
    and highest: "\<not> (case rs_highest_task_id s of None \<Rightarrow> False | Some highest \<Rightarrow> task \<le> highest)"
    using acc by (auto simp: add_accepts_def split: option.split)
  show ?thesis
    using acc limit highest finish
    by (simp add: add_validated_task_def add_accepts_def tgt o add_position_def added_def Let_def)
qed

lemma add_validated_task_rejects:
  "\<not> add_accepts s task g conditions \<Longrightarrow>
   \<exists>e. add_validated_task s task g paused conditions pos at = (Inl e, s)"
  by (cases "task_conditions_validate conditions")
    (auto simp: add_validated_task_def add_accepts_def not_less not_le split: option.splits)

lemma task_snapshot_gid: "sn_gid (task_snapshot_of t h) = t_gid t"
  by (simp add: task_snapshot_of_def)

lemma added_inv:
  assumes inv: "sched_inv s" and acc: "add_accepts s task g conditions"
  shows "sched_inv (added s task g paused conditions p)" (is "sched_inv ?s'")
proof -
  note inv_parts = sched_invD [OF inv]
  let ?u = "new_task task g paused conditions"
  have s': "rs_tasks ?s' = bt_insert g ?u (rs_tasks s)"
    "rs_task_ids ?s' = bt_insert task g (rs_task_ids s)" "rs_highest_task_id ?s' = Some task"
    "rs_config ?s' = rs_config s"
    by (simp_all add: added_def Let_def)
  have none: "bt_get (rs_tasks s) g = None" "bt_get (rs_task_ids s) task = None"
    and higher: "\<And>h. rs_highest_task_id s = Some h \<Longrightarrow> h < task"
    using acc by (auto simp: add_accepts_def)
  have "maps_ok ?s'"
  proof (rule maps_okI)
    fix h x assume "bt_get (rs_tasks ?s') h = Some x"
    then show "t_gid x = h \<and> bt_get (rs_task_ids ?s') (t_task_id x) = Some h"
      using maps_okD(4,5) [OF inv_parts(1)] none by (force simp: s' split: if_splits)
  next
    fix i h assume i: "bt_get (rs_task_ids ?s') i = Some h"
    show "(\<exists>x. bt_get (rs_tasks ?s') h = Some x \<and> t_task_id x = i)
      \<and> (\<exists>k. rs_highest_task_id ?s' = Some k \<and> i \<le> k)"
    proof (cases "i = task")
      case False
      with i have old: "bt_get (rs_task_ids s) i = Some h" by (simp add: s')
      from maps_okD(6,7) [OF inv_parts(1) old] higher none False show ?thesis
        by (auto simp: s' intro: less_imp_le le_less_trans)
    next
      case True
      with i have "h = g" by (simp add: s')
      with True show ?thesis by (simp add: s')
    qed
  qed (use maps_okD(1-3) [OF inv_parts(1)] in \<open>simp_all add: added_def Let_def\<close>)
  moreover have "queues_match (queues_get (rs_queues ?s')) (task_class ?s')"
  proof -
    have "task_class s g = None" using none by (simp add: task_class_def)
    from sq.match_insert [OF inv_parts(3) this, of p "new_task_class paused"] show ?thesis
      using task_class_insert [OF s'(1)] by (simp add: added_def Let_def)
  qed
  moreover have "limits_ok ?s'"
  proof -
    have "length (rs_tasks ?s') = Suc (length (rs_tasks s))"
      using bt.size_ins [OF inv_parts(6), of g ?u] none by (simp add: s')
    moreover have "active_slot_count ?s' \<le> active_slot_count s"
      using bt.count_ins_le [OF inv_parts(6), of "\<lambda>x. owns_slot (t_slot x)" g ?u]
      by (simp add: active_slot_count_entries s' owns_slot_def)
    ultimately show ?thesis
      using inv_parts(4) acc by (simp add: limits_ok_def s' add_accepts_def)
  qed
  moreover have "published_ok ?s'"
    using inv_parts(5) new_task_snapshot_ok
    by (auto simp: published_ok_def added_def Let_def task_snapshot_gid)
  moreover have "\<forall>h x. bt_get (rs_tasks ?s') h = Some x \<longrightarrow> task_ok x"
    using inv_parts(2) acc new_task_ok by (simp add: s' add_accepts_def)
  ultimately show ?thesis by (simp add: sched_inv_def)
qed

lemma add_validated_task_inv:
  "sched_inv s \<Longrightarrow> sched_inv (snd (add_validated_task s task g paused conditions pos at))"
  using add_validated_task_eq added_inv add_validated_task_rejects
  by (cases "add_accepts s task g conditions") (simp, metis snd_conv)

section \<open>Position\<close>

lemma reorder_inv:
  assumes inv: "sched_inv s" and "mset order = mset (queues_get (rs_queues s) class)"
  shows "sched_inv (s\<lparr>rs_queues := queues_set order (rs_queues s) class\<rparr>)" (is "sched_inv ?s'")
proof -
  have "task_class ?s' = task_class s" by (simp add: task_class_def fun_eq_iff)
  moreover have "active_slot_count ?s' = active_slot_count s" by (simp add: active_slot_count_def)
  moreover note sq.match_reorder [OF sched_invD(3) [OF inv] assms(2)]
  ultimately show ?thesis
    using inv by (simp add: sched_inv_def maps_ok_def published_ok_def limits_ok_def)
qed

lemma mset_move_position:
  "position g xs = Some i \<Longrightarrow> mset (insert_at p g (remove_at i xs)) = mset xs"
  by (simp add: mset_insert_at remove_at_position position_Some_mem)

lemma try_in_inv:
  "sched_inv s \<Longrightarrow> (\<And>a. r = Inr a \<Longrightarrow> sched_inv (snd (k a))) \<Longrightarrow> sched_inv (snd (try_in s r k))"
  by (cases r) simp_all

lemma queue_effects_for_reorder_inv:
  assumes inv: "sched_inv s"
  shows "sched_inv (snd (queue_effects_for_reorder s g class pos))"
proof -
  have "sched_inv (s\<lparr>rs_queues := queues_set
      (insert_at pos g (remove_at i (queues_get (rs_queues s) class))) (rs_queues s) class\<rparr>)"
    if "position g (queues_get (rs_queues s) class) = Some i" for i
    using reorder_inv [OF inv mset_move_position [OF that]] .
  with inv show ?thesis
    by (auto simp: queue_effects_for_reorder_def Let_def try_in_def ok_or_def
        split: option.split sum.split)
qed

lemma change_position_inv:
  assumes inv: "sched_inv s"
  shows "sched_inv (snd (change_position s g pos))"
  unfolding change_position_def
  by (intro try_in_inv inv) (simp add: queue_effects_for_reorder_inv inv split: option.split)

section \<open>Every command\<close>

lemma execute_command_at_inv:
  assumes "sched_inv s"
  shows "sched_inv (snd (execute_command_at s at cmd))"
  using sched_invD(2) [OF assms] assms
  by (cases cmd)
    (auto intro!: on_task_inv add_validated_task_inv change_position_inv pause_plan_ok resume_plan_ok
      approve_host_key_plan_ok apply_option_patch_plan_ok begin_source_replacement_plan_ok
      commit_source_replacement_plan_ok remove_plan_ok remove_stopped_result_plan_ok)

end
