(* ===== verification/EventsInv.thy ===== *)
theory EventsInv
  imports PatchesInv GenerationInv CommandsInv
begin

text \<open>
  Cancellation drains, disk-space probes, terminal acknowledgements and deletions produce admissible
  plans; with the other event theories, every event and every admission preserves the invariant.
\<close>

section \<open>Cancellation, disk space and terminal results\<close>

lemma drain_target_of_Some:
  "drain_target_of t g = Some target \<longleftrightarrow>
     (\<exists>f. t_pending_barrier t = Some (PB_CancellationDrain g target f))"
  by (auto simp: drain_target_of_def split: option.splits pending_barrier.splits if_splits)

lemma plan_ok_probe_after_drain [plan_intros]:
  assumes "\<And>p es' ids'. p = t_no_space_probe u \<or> tc_no_space (t_conditions u) \<noteq> None \<Longrightarrow>
     plan_ok s t (f (u\<lparr>t_no_space_probe := p\<rparr>, es', ids'))"
  shows "plan_ok s t (and_then (probe_after_drain u es ids) f)"
proof -
  have same: "plan_ok s t (f (u, es, ids))" using assms [of "t_no_space_probe u" es ids] by simp
  then show ?thesis
    unfolding probe_after_drain_def
    by (intro plan_ok_and_then_value plan_ok_schedule_probe assms)
qed

lemma drain_done_facts:
  assumes ok: "task_ok t" and b: "t_pending_barrier t = Some (PB_CancellationDrain g target f)"
  shows "t_no_space_probe t = None" "t_pending_user_control t = None" "\<not> t_terminal_persisted t"
    "t_stopped_status t = None" "t_host_key_challenge t = None"
    "task_conditions_validate (t_conditions t) = Inr ()"
    "t_retry_timer t = None" "\<not> t_retry_ready t" "t_slow_readmission t = None"
    "\<not> t_slow_readmission_ready t"
proof -
  have dr: "drainable t" by (simp add: drainable_def drain_startable_def b)
  note drainable_facts(1-6) [OF ok dr]
  then show "t_no_space_probe t = None" "t_pending_user_control t = None" "\<not> t_terminal_persisted t"
    "t_stopped_status t = None" "t_host_key_challenge t = None"
    "task_conditions_validate (t_conditions t) = Inr ()" by auto
  show "t_retry_timer t = None" "\<not> t_retry_ready t" "t_slow_readmission t = None"
    "\<not> t_slow_readmission_ready t"
    using task_okD(5) [OF ok] drain_state [OF ok] b by (auto simp: timers_inv_def)
qed

text \<open>A drained task that keeps its state and has no barrier left.\<close>

lemma drained_idle_ok:
  assumes ok: "task_ok t" and b: "t_pending_barrier t = Some (PB_CancellationDrain g target f)"
    and st: "t_state t \<in> {TS_Paused, TS_PausedSlow, TS_Waiting, TS_WaitingSlow, TS_PausedRestarting}"
    and p: "p = t_no_space_probe t \<or> tc_no_space (t_conditions t) \<noteq> None"
    and slow: "slow = None \<or> t_state t = TS_WaitingSlow"
  shows "task_ok (t\<lparr>t_pending_barrier := None, t_slot := SO_None, t_pending_slow_readmission := None,
       t_slow_readmission := slow, t_no_space_probe := p\<rparr>)"
proof -
  note f = drain_done_facts [OF ok b]
  have cond: "blocks_admission (t_conditions t) \<Longrightarrow> condition_state (t_state t)"
    using task_okD(4) [OF ok] st by (auto simp: conditions_inv_def is_terminal_pending_def)
  have "\<not> working_state (t_state t)" "\<not> is_terminal_pending (t_state t)"
    "t_state t \<notin> {TS_Accepted, TS_StoppedResult, TS_PausedHostKey}"
    using st by (auto simp: state_defs)
  then show ?thesis
    using f cond p slow task_okD(6) [OF ok] b
    by (auto simp: task_ok_def barrier_ok_def slot_inv_def terminal_inv_def conditions_inv_def
        timers_inv_def)
qed

lemma drained_terminal_ok:
  assumes ok: "task_ok t" and b: "t_pending_barrier t = Some (PB_CancellationDrain g target f)"
    and st: "terminal_state status = Some (t_state t)" "status = AS_Error \<Longrightarrow> e \<noteq> None"
    and p: "p = t_no_space_probe t \<or> tc_no_space (t_conditions t) \<noteq> None"
  shows "task_ok (t\<lparr>t_pending_barrier := None, t_slot := SO_None, t_error := e, t_stopped_status := None,
      t_terminal_persisted := False, t_pending_barrier := Some (PB_TerminalPersistence (t_generation t) status),
      t_no_space_probe := p\<rparr>)"
proof -
  note f = drain_done_facts [OF ok b]
  have "t_state t \<notin> {TS_PausedRestarting, TS_Paused, TS_Waiting, TS_WaitingSlow}"
    using st(1) by (cases status) auto
  then have "t_pending_option_patch_mode t = None" "t_pending_option_patch t = None"
    "t_pending_credential_requirement t = None" "t_pending_slow_readmission t = None"
    using task_okD(5,6) [OF ok] b by (auto simp: timers_inv_def)
  with f st p show ?thesis
    by (intro task_ok_terminal [where status = status]) auto
qed

lemma drained_application_ok:
  assumes ok: "task_ok t" and b: "t_pending_barrier t = Some (PB_CancellationDrain g target f)"
    and st: "t_state t = TS_PausedRestarting" "t_pending_option_patch t = Some patch"
      "t_pending_option_patch_mode t = Some POM_ActiveRestart"
    and p: "p = t_no_space_probe t \<or> tc_no_space (t_conditions t) \<noteq> None"
  shows "task_ok (t\<lparr>t_pending_barrier := None, t_slot := SO_None, t_state := TS_PausedRestarting,
      t_pending_barrier := Some (PB_OptionPatchApplication (t_generation t) patch),
      t_no_space_probe := p\<rparr>)"
proof -
  note f = drain_done_facts [OF ok b]
  have "t_pending_slow_readmission t = None"
    using task_okD(5) [OF ok] st(1) by (auto simp: timers_inv_def)
  with f st p task_okD(4,6) [OF ok] b show ?thesis
    by (auto simp: task_ok_def barrier_ok_def slot_inv_def terminal_inv_def conditions_inv_def
        timers_inv_def state_defs)
qed

text \<open>The task after the drain-target step, by target.\<close>

definition drained_as :: "scheduled_task \<Rightarrow> scheduler_action \<Rightarrow> scheduled_task \<Rightarrow> scheduled_task \<Rightarrow> drain_target \<Rightarrow> bool" where
  "drained_as t a u v target \<longleftrightarrow>
     (case target of
        DT_PausedRestarting \<Rightarrow>
          v = u \<and> t_pending_source_replacement u
          \<or> (\<exists>patch x. t_pending_option_patch u = Some patch
              \<and> t_pending_option_patch_mode u = Some POM_ActiveRestart
              \<and> v = u\<lparr>t_state := x,
                      t_pending_barrier := Some (PB_OptionPatchApplication (t_generation u) patch)\<rparr>)
      | DT_WaitingSlow \<Rightarrow>
          v = u \<and> t_pending_slow_readmission u = None
          \<or> (\<exists>r. v = u\<lparr>t_pending_slow_readmission := None, t_slow_readmission := Some r\<rparr>)
      | DT_Error \<Rightarrow>
          (\<exists>e. v = u\<lparr>t_error := Some e, t_stopped_status := None, t_terminal_persisted := False,
             t_pending_barrier := Some (PB_TerminalPersistence (t_generation u) AS_Error)\<rparr>)
      | DT_Removed \<Rightarrow>
          v = u\<lparr>t_error := None, t_stopped_status := None, t_terminal_persisted := False,
             t_pending_barrier := Some (PB_TerminalPersistence (t_generation u) AS_Removed)\<rparr>
      | _ \<Rightarrow> v = u)"

lemma drain_target_effects_as:
  "drain_target_effects t a target u es ids = Inr (pub, v, es', ids') \<Longrightarrow> drained_as t a u v target"
  by (cases target)
    (auto simp: drain_target_effects_def drained_as_def and_then_eq_Inr begin_terminal_ok
      split: if_splits option.splits)

lemma plan_ok_drain_target_effects:
  assumes "\<And>pub v es' ids'. drained_as t a u v target \<Longrightarrow> plan_ok s t (k (pub, v, es', ids'))"
  shows "plan_ok s t (and_then (drain_target_effects t a target u es ids) k)"
proof (rule plan_ok_and_then)
  fix p assume p: "drain_target_effects t a target u es ids = Inr p"
  obtain pub v es' ids' where "p = (pub, v, es', ids')" by (cases p)
  with p assms drain_target_effects_as show "plan_ok s t (k p)" by blast
qed

lemma drained_as_ok:
  assumes ok: "task_ok t" and b: "t_pending_barrier t = Some (PB_CancellationDrain g target f)"
    and v: "drained_as t a (t\<lparr>t_pending_barrier := None, t_slot := SO_None\<rparr>) v target"
    and p: "p = t_no_space_probe v \<or> tc_no_space (t_conditions v) \<noteq> None"
    and st: "target \<noteq> DT_PausedRestarting \<Longrightarrow> t_state t = drain_target_state target"
      "target = DT_PausedRestarting \<Longrightarrow> t_state v = TS_PausedRestarting \<and> t_state t = TS_PausedRestarting"
  shows "task_ok (v\<lparr>t_no_space_probe := p\<rparr>)" "t_gid v = t_gid t" "t_task_id v = t_task_id t" "t_slot v = SO_None"
proof -
  let ?u = "t\<lparr>t_pending_barrier := None, t_slot := SO_None\<rparr>"
  note f = drain_done_facts [OF ok b]
  have same: "task_ok (v\<lparr>t_no_space_probe := p\<rparr>)"
    if "v = ?u" "t_pending_slow_readmission t = None"
      "t_state t \<in> {TS_Paused, TS_PausedSlow, TS_Waiting, TS_WaitingSlow, TS_PausedRestarting}"
  proof -
    have "?u\<lparr>t_pending_slow_readmission := None, t_slow_readmission := None, t_no_space_probe := p\<rparr>
      = ?u\<lparr>t_no_space_probe := p\<rparr>"
      using that(2) f(9) by (cases t) simp
    with drained_idle_ok [OF ok b that(3), of p None] p that(1) show ?thesis by simp
  qed
  have slow: "t_pending_slow_readmission t = None" if "t_state t \<noteq> TS_WaitingSlow"
    using task_okD(5) [OF ok] that by (auto simp: timers_inv_def)
  show "task_ok (v\<lparr>t_no_space_probe := p\<rparr>)"
  proof (cases target)
    case DT_WaitingSlow
    show ?thesis
    proof (cases "v = ?u \<and> t_pending_slow_readmission t = None")
      case True
      with same st(1) DT_WaitingSlow show ?thesis by simp
    next
      case False
      then obtain r where r: "v = ?u\<lparr>t_pending_slow_readmission := None, t_slow_readmission := Some r\<rparr>"
        using v DT_WaitingSlow by (auto simp: drained_as_def)
      with drained_idle_ok [OF ok b, of p "Some r"] p st(1) DT_WaitingSlow show ?thesis by simp
    qed
  next
    case DT_PausedRestarting
    show ?thesis
    proof (cases "v = ?u")
      case True
      with same slow st(2) DT_PausedRestarting show ?thesis by simp
    next
      case False
      with v st(2) p DT_PausedRestarting drained_application_ok [OF ok b, of _ p] show ?thesis
        by (auto simp: drained_as_def)
    qed
  next
    case DT_Error
    then obtain e where e: "v = ?u\<lparr>t_error := Some e, t_stopped_status := None, t_terminal_persisted := False,
             t_pending_barrier := Some (PB_TerminalPersistence (t_generation t) AS_Error)\<rparr>"
      using v by (auto simp: drained_as_def)
    with st(1) p drained_terminal_ok [OF ok b, of AS_Error "Some e" p] DT_Error show ?thesis by simp
  next
    case DT_Removed
    with v st(1) p drained_terminal_ok [OF ok b, of AS_Removed None p] show ?thesis by (auto simp: drained_as_def)
  qed (use same slow v st(1) in \<open>auto simp: drained_as_def\<close>)
  show "t_gid v = t_gid t" "t_task_id v = t_task_id t" "t_slot v = SO_None"
    using v by (cases target; auto simp: drained_as_def)+
qed

lemma quiesced_target:
  "x \<in> step_targets (transition_contract st SA_RestartQuiesced) \<Longrightarrow>
   x = TS_PausedRestarting \<and> st = TS_PausedRestarting"
  by (auto simp: transition_contract.simps targets_simps split: if_splits)

lemma cancellation_drained_plan_ok:
  assumes ok: "task_ok t"
  shows "plan_ok s t (cancellation_drained_plan s t g at)"
proof (cases "drain_target_of t g")
  case (Some target)
  then obtain f where b: "t_pending_barrier t = Some (PB_CancellationDrain g target f)"
    by (auto simp: drain_target_of_Some)
  show ?thesis
    unfolding cancellation_drained_plan_def Some option.case Let_def
  proof (intro plan_intros plan_ok_drain_target_effects, goal_cases)
    case (1 es pub v es' ids' p es'' ids'')
    have st: "target \<noteq> DT_PausedRestarting \<Longrightarrow> t_state t = drain_target_state target"
      "target = DT_PausedRestarting \<Longrightarrow> t_state v = TS_PausedRestarting \<and> t_state t = TS_PausedRestarting"
      using 1(1,4) quiesced_target by auto
    note d = drained_as_ok [OF ok b 1(2,3) st]
    show ?case
      using d by (simp add: update_ok_def)
  qed
qed (simp add: cancellation_drained_plan_def plan_ok_ignored)

lemma no_space_retry_conditions:
  "task_conditions_validate c = Inr () \<Longrightarrow> tc_no_space c = Some n \<Longrightarrow>
   task_conditions_validate (c\<lparr>tc_no_space := Some (n\<lparr>nsc_retry_at := r\<rparr>)\<rparr>) = Inr ()"
  "task_conditions_validate c = Inr () \<Longrightarrow> task_conditions_validate (c\<lparr>tc_no_space := None\<rparr>) = Inr ()"
  by (auto simp: task_conditions_validate_ok)

lemma probe_result_target:
  assumes "for_no_space_probe_result st origin paused ready = Some a"
    and "x \<in> step_targets (transition_contract st a)"
  shows "condition_state st" "x = st \<or> st = TS_Paused \<and> x = TS_Waiting"
  using assms
  by (auto simp: for_no_space_probe_result_def transition_contract.simps targets_simps
      condition_state_def split: if_splits)

lemma probe_completed_ok:
  assumes ok: "task_ok t" and b: "t_pending_barrier t = None"
    and x: "condition_state (t_state t)" "x = t_state t \<or> t_state t = TS_Paused \<and> x = TS_Waiting"
    and c: "task_conditions_validate c = Inr ()" "blocks_admission c \<Longrightarrow> blocks_admission (t_conditions t)"
    and p: "p \<noteq> None \<Longrightarrow> tc_no_space c \<noteq> None"
  shows "task_ok (t\<lparr>t_no_space_probe := None, t_last_no_space_probe := l, t_conditions := c, t_state := x,
      t_no_space_probe := p\<rparr>)"
proof -
  have slot: "owns_slot (t_slot t) \<Longrightarrow> \<not> blocks_admission c"
    using task_okD(4) [OF ok] b c(2) by (auto simp: conditions_inv_def)
  have "conditions_inv c x p (t_slot t) None"
    using c p slot x by (auto simp: conditions_inv_def condition_state_def)
  with x(2) show ?thesis
  proof (elim disjE conjE)
    assume "x = t_state t" "conditions_inv c x p (t_slot t) None"
    with ok b show ?thesis by (simp add: task_ok_def barrier_ok_def)
  next
    assume "t_state t = TS_Paused" "x = TS_Waiting" "conditions_inv c x p (t_slot t) None"
    with ok b show ?thesis
      by (simp add: task_ok_def barrier_ok_def slot_inv_def terminal_inv_def timers_inv_def state_defs)
  qed
qed

lemma no_space_probe_completed_plan_ok:
  assumes ok: "task_ok t" and b: "t_pending_barrier t = None \<or> is_cancellation_drain (t_pending_barrier t)"
  shows "plan_ok s t (no_space_probe_completed_plan s t probe origin ready next at)"
proof (cases "map_option fst (t_no_space_probe t) = Some probe")
  case True
  then have b': "t_pending_barrier t = None"
    using b task_okD(4) [OF ok] by (auto simp: conditions_inv_def)
  note v = task_okD(4) [OF ok, unfolded conditions_inv_def]
  let ?u = "\<lambda>c x. t\<lparr>t_no_space_probe := None, t_last_no_space_probe := Some probe, t_conditions := c,
      t_state := x\<rparr>"
  have fin: "update_ok s t (?u c x\<lparr>t_no_space_probe := p\<rparr>) \<and> task_ok (?u c x\<lparr>t_no_space_probe := p\<rparr>)"
    if a: "for_no_space_probe_result (t_state t) origin (t_desired_paused t) ready = Some a"
      "x \<in> step_targets (transition_contract (t_state t) a)"
      and c: "c = (t_conditions t)\<lparr>tc_no_space := None\<rparr>
        \<or> (\<exists>n. tc_no_space (t_conditions t) = Some n
              \<and> c = (t_conditions t)\<lparr>tc_no_space := Some (n\<lparr>nsc_retry_at := next\<rparr>)\<rparr>)"
      and p: "p = None \<or> tc_no_space c \<noteq> None" for a x c p
  proof -
    have "task_conditions_validate c = Inr ()" "blocks_admission c \<Longrightarrow> blocks_admission (t_conditions t)"
      using c v no_space_retry_conditions [of "t_conditions t"] by (auto simp: blocks_admission_def)
    from probe_completed_ok [OF ok b' probe_result_target [OF a] this, of p "Some probe"] p
    show ?thesis by (auto simp: update_ok_def)
  qed
  have fin0: "update_ok s t (?u c x) \<and> task_ok (?u c x)"
    if "for_no_space_probe_result (t_state t) origin (t_desired_paused t) ready = Some a"
      "x \<in> step_targets (transition_contract (t_state t) a)"
      "c = (t_conditions t)\<lparr>tc_no_space := None\<rparr>
        \<or> (\<exists>n. tc_no_space (t_conditions t) = Some n
              \<and> c = (t_conditions t)\<lparr>tc_no_space := Some (n\<lparr>nsc_retry_at := next\<rparr>)\<rparr>)" for a x c
    using fin [OF that, of None] by (cases t) simp
  show ?thesis
    unfolding no_space_probe_completed_plan_def Let_def
    by (intro plan_intros; (rule fin | rule fin0); simp; blast?)
qed (simp add: no_space_probe_completed_plan_def Let_def token_fresh plan_ok_ignored)

lemma terminal_persisted_plan_ok:
  assumes ok: "task_ok t"
  shows "plan_ok s t (terminal_persisted_plan s t g status at)"
proof (cases "t_pending_barrier t = Some (PB_TerminalPersistence g status)")
  case True
  note bi = task_okD(2) [OF ok True]
  note tp = terminal_state_pending [of status "t_state t"]
  have st: "aria2_is_terminal status" using bi by (cases status) (auto simp: aria2_is_terminal_def)
  have patch: "t_pending_option_patch_mode t = None" "t_pending_option_patch t = None"
    "t_pending_credential_requirement t = None" "t_pending_user_control t = None"
    using task_okD(6,7) [OF ok] True bi tp by (auto simp: state_defs)
  show ?thesis
    unfolding terminal_persisted_plan_def Let_def
  proof (intro plan_intros, goal_cases)
    case (1 x)
    have x: "x = TS_StoppedResult"
      using 1(3) by (auto simp: mark_non_token_event_def transition_contract.simps targets_simps
          split: if_splits)
    have "\<not> blocks_admission (t_conditions t)"
      using 1(4) x by (auto simp: snapshot_ok_task mark_non_token_event_def condition_state_def)
    moreover have "t_host_key_challenge t = None"
      using task_okD(3) [OF ok] bi tp by (auto simp: terminal_inv_def)
    moreover have "t_retry_timer t = None" "\<not> t_retry_ready t" "t_slow_readmission t = None"
      "\<not> t_slow_readmission_ready t" "t_pending_slow_readmission t = None"
      using task_okD(5) [OF ok] bi tp by (auto simp: timers_inv_def)
    moreover have "t_no_space_probe t = None"
      using task_okD(4) [OF ok] calculation(1) by (auto simp: conditions_inv_def blocks_admission_def)
    moreover have "task_conditions_validate (t_conditions t) = Inr ()"
      using task_okD(4) [OF ok] by (simp add: conditions_inv_def)
    ultimately show ?case
      using bi patch st
      unfolding x mark_non_token_event_def
      by (simp add: task_ok_def barrier_ok_def update_ok_def slot_inv_def terminal_inv_def
          conditions_inv_def timers_inv_def state_defs)
  qed
qed (auto simp: terminal_persisted_plan_def plan_ok_ignored plan_ok_Inl)

lemma expected_deletion_Some:
  "expected_deletion t = Some d \<longleftrightarrow>
     t_pending_barrier t = Some (PB_StoppedResultDeletion (t_generation t) d)"
  by (auto simp: expected_deletion_def split: option.splits pending_barrier.splits)

lemma stopped_result_deletion_plan_ok:
  assumes ok: "task_ok t"
  shows "plan_ok s t (stopped_result_deletion_plan s t d succeeded at)"
proof (cases "t_pending_barrier t = Some (PB_StoppedResultDeletion (t_generation t) d)")
  case True
  have st: "t_state t = TS_StoppedResult" using task_okD(2) [OF ok True] by simp
  have del: "plan_ok s t (Inr (Plan_Finish \<lparr>ap_updated = None, ap_action = a, ap_effects = [],
      ap_publish = False, ap_ids = ids\<rparr>))" for a ids
    by (simp add: plan_ok_def)
  show ?thesis
    unfolding stopped_result_deletion_plan_def Let_def
    by (intro plan_ok_branch(1) plan_ok_ignored plan_ok_unless_stale del plan_ok_finish)
      (use ok True st in \<open>auto simp: task_ok_def barrier_ok_def update_ok_def\<close>)
qed (simp add: stopped_result_deletion_plan_def Let_def token_fresh expected_deletion_Some plan_ok_ignored)

section \<open>Every event and every admission\<close>

lemma event_plan_ok:
  assumes ok: "task_ok t" and acc: "barrier_accepts_event (t_pending_barrier t) (event_kind ev)"
  shows "plan_ok s t (event_plan s t at ev)"
proof -
  have b: "plain_event (event_kind ev) \<Longrightarrow>
      t_pending_barrier t = None \<or> is_cancellation_drain (t_pending_barrier t)"
    using barrier_accepts_plain [OF acc] .
  show ?thesis
  proof (cases ev)
    case (Ev_AllocationRetryable g gen r)
    with b show ?thesis
      by (simp add: plain_event_def allocation_retryable_plan_def retry_wait_plan_ok [OF ok])
  next
    case (Ev_ActiveRetryIdle g gen r)
    with b show ?thesis
      by (simp add: plain_event_def active_retry_idle_plan_def retry_wait_plan_ok [OF ok])
  qed (use b in \<open>simp_all add: plain_event_def generation_persisted_plan_ok [OF ok]
      option_patch_persistence_plan_ok [OF ok] option_patch_application_plan_ok [OF ok]
      host_key_resolution_plan_ok [OF ok] allocation_succeeded_plan_ok [OF ok]
      allocation_host_key_challenge_plan_ok [OF ok] terminal_event_plans_ok [OF ok]
      retry_ready_plan_ok [OF ok] active_representation_restart_plan_ok [OF ok]
      data_complete_plan_ok [OF ok] no_space_plan_ok [OF ok] terminal_failure_plan_ok [OF ok]
      slow_demoted_plan_ok [OF ok] slow_paused_plan_ok [OF ok] slow_readmit_plan_ok [OF ok]
      verification_recoverable_plan_ok [OF ok] cancellation_drained_plan_ok [OF ok]
      no_space_probe_completed_plan_ok [OF ok] terminal_persisted_plan_ok [OF ok]
      stopped_result_deletion_plan_ok [OF ok]\<close>)
qed

lemma guarded_event_plan_ok:
  assumes ok: "task_ok t"
  shows "plan_ok s t (guarded_event_plan s t at envelope)"
  unfolding guarded_event_plan_def Let_def
  by (intro plan_ok_branch(1) plan_ok_ignored plan_ok_and_then plan_ok_Inl event_plan_ok ok) simp

lemma handle_event_at_inv:
  assumes inv: "sched_inv s"
  shows "sched_inv (snd (handle_event_at s envelope at))"
  unfolding handle_event_at_def
  by (intro on_task_inv inv guarded_event_plan_ok sched_invD(2) [OF inv])

lemma decrement_slow_position_fields [simp]:
  "t_gid (decrement_slow_position t) = t_gid t" "t_task_id (decrement_slow_position t) = t_task_id t"
  "t_slot (decrement_slow_position t) = t_slot t" "t_state (decrement_slow_position t) = t_state t"
  "t_pending_barrier (decrement_slow_position t) = t_pending_barrier t"
  "task_queue_class (decrement_slow_position t) = task_queue_class t"
  "task_ok (decrement_slow_position t) = task_ok t"
  by (simp_all add: decrement_slow_position_def task_queue_class_def task_ok_def barrier_ok_def
      split: option.split)

lemma decrement_slow_position_inv:
  assumes inv: "sched_inv s"
  shows "sched_inv (s\<lparr>rs_tasks := bt_map_values decrement_slow_position (rs_tasks s)\<rparr>)" (is "sched_inv ?s'")
proof -
  have "active_slot_count ?s' = active_slot_count s"
    by (simp add: active_slot_count_def bt_values_def bt_map_values_def comp_def split_def flip: length_map)
  moreover have "task_class ?s' g = task_class s g" for g
    by (cases "bt_get (rs_tasks s) g") (simp_all add: task_class_def)
  moreover have "maps_ok ?s'"
    using sched_invD(1) [OF inv] by (fastforce simp: maps_ok_def)
  ultimately show ?thesis
    using inv queues_match_cong [of "task_class ?s'" "task_class s"]
    by (auto simp: sched_inv_def limits_ok_def published_ok_def)
qed

lemma find_in_queue_Some: "find_in_queue s c P = Some g \<Longrightarrow> task_with s P g"
  unfolding find_in_queue_def by (metis find_Some_iff)

lemma admission_candidate_task:
  assumes "admission_candidate s = Inr g"
  shows "task_with s pending_restart_patch_task g \<or> task_with s retained_retry_task g
    \<or> task_with s waiting_task g \<or> task_with s demoted_task g"
  using assms
  by (auto simp: admission_candidate_def Let_def or_else_def split: option.splits if_splits
      dest: find_in_queue_Some)

lemma admission_candidate_ready:
  assumes "admission_candidate s = Inr g" "bt_get (rs_tasks s) g = Some t"
  shows "t_pending_barrier t = None" "\<not> t_desired_paused t"
    "t_state t \<in> {TS_Waiting, TS_RetryWait, TS_WaitingSlow}"
    "t_state t = TS_RetryWait \<Longrightarrow> t_retry_ready t"
    "t_state t = TS_WaitingSlow \<Longrightarrow> t_slow_readmission_ready t"
  using admission_candidate_task [OF assms(1)] assms(2)
  by (auto simp: task_with_def pending_restart_patch_task_def retained_retry_task_def
      waiting_task_def demoted_task_def unblocked_def)

lemma admit_next_at_inv:
  assumes inv: "sched_inv s"
  shows "sched_inv (snd (admit_next_at s at))"
proof (cases "admission_candidate s")
  case (Inr g)
  show ?thesis
  proof (cases "bt_get (rs_tasks s) g")
    case (Some t)
    note ready = admission_candidate_ready [OF Inr Some] and ok = sched_invD(2) [OF inv Some]
    show ?thesis
    proof (cases "t_state t = TS_Waiting \<and> t_pending_option_patch_mode t = Some POM_ActiveRestart")
      case True
      then show ?thesis
        using run_plan_inv [OF inv Some restart_application_plan_ok [OF ok ready(1)]] Inr Some
        by (simp add: admit_next_at_def task_clone_def)
    next
      case False
      obtain res s' where run: "run_plan s t at (admission_plan s t) = (res, s')" by fastforce
      have "plan_ok s t (admission_plan s t)"
        using False ready(4,5) by (intro admission_plan_ok [OF ok]) auto
      from run_plan_inv [OF inv Some this, of at] run have "sched_inv s'" by simp
      with False Inr Some run show ?thesis
        by (cases res) (auto simp: admit_next_at_def task_clone_def Let_def decrement_slow_position_inv)
    qed
  qed (simp add: admit_next_at_def task_clone_def Inr inv)
qed (simp add: admit_next_at_def inv)

end
