(* ===== verification/SchedulerRestore.thy ===== *)
theory SchedulerRestore
  imports SchedulerState
begin

text \<open>
  Reconstruction of the scheduler at startup, \<open>RequestScheduler::restore\<close> of
  \<open>ariax-core/src/scheduler.rs\<close>: the queue orders and the recovered tasks are validated, every task is
  rebuilt without a slot or a barrier, timers and probes get fresh correlation identifiers, and the
  restore plan hands the timer effects and the initial snapshots to the dispatcher in batches.

  The loops of the source are recursive functions over their lists; the locals they mutate are
  arguments and results, and an early \<open>Err\<close> ends the recursion.
\<close>

section \<open>Recovered tasks and plans\<close>

record recovered_scheduler_task =
  rt_task_id :: task_id
  rt_gid :: gid
  rt_state :: task_state
  rt_generation :: generation
  rt_generation_started :: bool
  rt_desired_paused :: bool
  rt_conditions :: task_conditions
  rt_slow_demotion_count :: u32
  rt_slow_slot :: "slow_slot_persistence option"
  rt_retry_at :: "monotonic_instant option"
  rt_host_key_challenge :: "presented_host_key_challenge option"
  rt_error :: "public_error option"
  rt_stopped_status :: "aria2_status option"

record scheduler_restore_batch =
  rb_tasks :: "recovered_scheduler_task list"
  rb_queues :: "queue_order list"

record scheduler_restore_plan =
  rp_effects :: "transition_effect list"
  rp_initial_effect_count :: nat
  rp_bound_scheduler :: request_scheduler

definition is_bound_to :: "scheduler_restore_plan \<Rightarrow> request_scheduler \<Rightarrow> bool" where
  "is_bound_to plan s \<longleftrightarrow>
     length (rp_effects plan) = rp_initial_effect_count plan \<and> rp_bound_scheduler plan = s"

definition plan_is_empty :: "scheduler_restore_plan \<Rightarrow> bool" where
  "plan_is_empty plan \<longleftrightarrow> rp_effects plan = []"

definition plan_remaining :: "scheduler_restore_plan \<Rightarrow> nat" where
  "plan_remaining plan = length (rp_effects plan)"

definition next_batch :: "scheduler_restore_plan \<Rightarrow> transition_effect list \<times> scheduler_restore_plan" where
  "next_batch plan =
     (let count = min (length (rp_effects plan)) MAX_SCHEDULER_EFFECTS
      in (take count (rp_effects plan), plan\<lparr>rp_effects := drop count (rp_effects plan)\<rparr>))"

datatype scheduler_restore_error =
  RE_TaskLimitReached
| RE_DuplicateTaskId task_id
| RE_DuplicateGid gid
| RE_MissingQueue queue_class
| RE_DuplicateQueue queue_class
| RE_DuplicateQueueMember gid
| RE_UnknownQueueTask gid
| RE_MissingQueueTask gid
| RE_QueueClassMismatch gid queue_class queue_class
| RE_InvalidState gid task_state
| RE_InvalidConditions gid
| RE_InvalidRetryWait gid
| RE_InvalidSlowState gid
| RE_InvalidHostKeyState gid
| RE_InvalidStoppedResult gid
| RE_UnexpectedTaskMetadata gid
| RE_InvalidSnapshot gid
| RE_CorrelationIdExhausted

section \<open>Validation of a recovered task\<close>

definition valid_slow_slot :: "recovered_scheduler_task \<Rightarrow> nat \<Rightarrow> slow_slot_persistence \<Rightarrow> bool" where
  "valid_slow_slot task max_tasks slot \<longleftrightarrow>
     \<not> (rt_slow_demotion_count task = 0
        \<or> ssp_demotion_count slot \<noteq> rt_slow_demotion_count task
        \<or> ssp_original_position slot \<ge> max_tasks
        \<or> srd_delay_ms (ssp_decision slot) = 0
        \<or> srd_scheduled_at_ms (ssp_decision slot) > MAX_PERSISTED_MILLISECONDS)"

definition validate_slow_state ::
  "recovered_scheduler_task \<Rightarrow> nat \<Rightarrow> (scheduler_restore_error, unit) result" where
  "validate_slow_state task max_tasks =
     (if rt_state task = TS_WaitingSlow then
        and_then (ok_or (RE_InvalidSlowState (rt_gid task)) (rt_slow_slot task)) (\<lambda>slot.
          if valid_slow_slot task max_tasks slot then Inr ()
          else Inl (RE_InvalidSlowState (rt_gid task)))
      else if rt_slow_slot task \<noteq> None then Inl (RE_InvalidSlowState (rt_gid task))
      else Inr ())"

definition validate_result_metadata ::
  "recovered_scheduler_task \<Rightarrow> (scheduler_restore_error, unit) result" where
  "validate_result_metadata task =
     (if rt_state task = TS_StoppedResult then
        and_then (ok_or (RE_InvalidStoppedResult (rt_gid task)) (rt_stopped_status task)) (\<lambda>status.
          if \<not> aria2_is_terminal status \<or> (status = AS_Error) \<noteq> (rt_error task \<noteq> None)
          then Inl (RE_InvalidStoppedResult (rt_gid task)) else Inr ())
      else if rt_stopped_status task \<noteq> None \<or> rt_error task \<noteq> None
        then Inl (RE_UnexpectedTaskMetadata (rt_gid task))
      else Inr ())"

definition validate_recovered_task ::
  "recovered_scheduler_task \<Rightarrow> nat \<Rightarrow> (scheduler_restore_error, unit) result" where
  "validate_recovered_task task max_tasks =
     (if rt_state task \<notin> {TS_Waiting, TS_WaitingSlow, TS_RetryWait, TS_Paused, TS_PausedSlow,
                            TS_PausedHostKey, TS_StoppedResult}
      then Inl (RE_InvalidState (rt_gid task) (rt_state task))
      else if (rt_state task = TS_RetryWait) \<noteq> (rt_retry_at task \<noteq> None)
      then Inl (RE_InvalidRetryWait (rt_gid task))
      else
        and_then (validate_slow_state task max_tasks) (\<lambda>_.
          if (rt_state task = TS_PausedHostKey) \<noteq> (rt_host_key_challenge task \<noteq> None)
          then Inl (RE_InvalidHostKeyState (rt_gid task))
          else validate_result_metadata task))"

section \<open>Queues\<close>

fun restore_members ::
  "queue_class \<Rightarrow> gid list \<Rightarrow> (gid, queue_class) btree \<Rightarrow>
   (scheduler_restore_error, (gid, queue_class) btree) result" where
  "restore_members class [] memberships = Inr memberships"
| "restore_members class (g # gs) memberships =
     (if bt_get memberships g \<noteq> None then Inl (RE_DuplicateQueueMember g)
      else restore_members class gs (bt_insert g class memberships))"

type_synonym restored_queues = "scheduler_queues \<times> queue_class set \<times> (gid, queue_class) btree"

fun restore_queues ::
  "nat \<Rightarrow> queue_order list \<Rightarrow> restored_queues \<Rightarrow> (scheduler_restore_error, restored_queues) result" where
  "restore_queues max_tasks [] acc = Inr acc"
| "restore_queues max_tasks (order # orders) (queues, seen, memberships) =
     (if qo_class order \<in> seen then Inl (RE_DuplicateQueue (qo_class order))
      else if length (qo_order order) > max_tasks then Inl RE_TaskLimitReached
      else
        and_then (restore_members (qo_class order) (qo_order order) memberships) (\<lambda>memberships.
          restore_queues max_tasks orders
            (queues_set (qo_order order) queues (qo_class order),
             insert (qo_class order) seen, memberships)))"

definition check_all_queues :: "queue_class set \<Rightarrow> (scheduler_restore_error, unit) result" where
  "check_all_queues seen =
     (case List.find (\<lambda>c. c \<notin> seen) ALL_QUEUE_CLASSES of
        None \<Rightarrow> Inr ()
      | Some c \<Rightarrow> Inl (RE_MissingQueue c))"

section \<open>Tasks\<close>

text \<open>The task before timers and probes are armed.\<close>

definition recovered_task :: "recovered_scheduler_task \<Rightarrow> scheduled_task" where
  "recovered_task r =
     (scheduled_task_new (rt_task_id r) (rt_gid r) (rt_desired_paused r) (rt_conditions r))
       \<lparr>t_state := rt_state r,
        t_generation := rt_generation r,
        t_generation_started := rt_generation_started r,
        t_slow_demotion_count := rt_slow_demotion_count r,
        t_slow_slot := rt_slow_slot r,
        t_slow_remaining_position :=
          (case rt_slow_slot r of None \<Rightarrow> 0 | Some slot \<Rightarrow> ssp_original_position slot),
        t_host_key_challenge := rt_host_key_challenge r,
        t_error := rt_error r,
        t_stopped_status := rt_stopped_status r,
        t_terminal_persisted := (rt_state r = TS_StoppedResult)\<rparr>"

definition exhausted ::
  "(scheduler_error, 'a) result \<Rightarrow> (scheduler_restore_error, 'a) result" where
  "exhausted r = map_err (\<lambda>_. RE_CorrelationIdExhausted) r"

text \<open>The match on the recovered state: the task, its timer effects and the counters.\<close>

definition restore_timers ::
  "recovered_scheduler_task \<Rightarrow> scheduled_task \<Rightarrow> id_counters \<Rightarrow>
   (scheduler_restore_error, scheduled_task \<times> transition_effect list \<times> id_counters) result" where
  "restore_timers r task ids =
     (if rt_state r = TS_RetryWait then
        and_then (ok_or (RE_InvalidRetryWait (rt_gid r)) (rt_retry_at r)) (\<lambda>at.
        and_then (exhausted (ids_retry_timer ids)) (\<lambda>(timer, ids).
          Inr (task\<lparr>t_retry_timer := Some (timer, at)\<rparr>,
               [Eff_ScheduleRetry (rt_task_id r) (rt_gid r) (rt_generation r) timer at], ids)))
      else if rt_state r = TS_WaitingSlow then
        and_then (ok_or (RE_InvalidSlowState (rt_gid r)) (rt_slow_slot r)) (\<lambda>slot.
        and_then (exhausted (ids_slow_readmission ids)) (\<lambda>(readmission, ids).
          Inr (task\<lparr>t_slow_readmission := Some (readmission, srd_readmit_at (ssp_decision slot))\<rparr>,
               [Eff_ScheduleSlowReadmission (rt_task_id r) (rt_gid r) (rt_generation r) readmission
                  (srd_readmit_at (ssp_decision slot))], ids)))
      else Inr (task, [], ids))"

definition restore_probe ::
  "recovered_scheduler_task \<Rightarrow> scheduled_task \<Rightarrow> transition_effect list \<Rightarrow> id_counters \<Rightarrow>
   (scheduler_restore_error, scheduled_task \<times> transition_effect list \<times> id_counters) result" where
  "restore_probe r task effects ids =
     (case Option.bind (tc_no_space (t_conditions task)) nsc_retry_at of
        None \<Rightarrow> Inr (task, effects, ids)
      | Some at \<Rightarrow>
          and_then (exhausted (ids_no_space_probe ids)) (\<lambda>(probe, ids).
            Inr (task\<lparr>t_no_space_probe := Some (probe, NPO_AutomaticRetry)\<rparr>,
                 effects @ [Eff_ProbeNoSpace (rt_task_id r) (rt_gid r) (rt_generation r) probe
                              NPO_AutomaticRetry at], ids)))"

type_synonym timer_effects = "(gid, transition_effect list) btree"

text \<open>\<open>timer_effects.entry(gid).or_default().push(..)\<close>, once per effect.\<close>

definition push_effects :: "gid \<Rightarrow> transition_effect list \<Rightarrow> timer_effects \<Rightarrow> timer_effects" where
  "push_effects g effects timers =
     (if effects = [] then timers
      else bt_insert g ((case bt_get timers g of None \<Rightarrow> [] | Some es \<Rightarrow> es) @ effects) timers)"

definition restore_task ::
  "nat \<Rightarrow> recovered_scheduler_task \<Rightarrow> request_scheduler \<Rightarrow> timer_effects \<Rightarrow>
   (scheduler_restore_error, request_scheduler \<times> timer_effects) result" where
  "restore_task max_tasks r s timers =
     (if bt_get (rs_tasks s) (rt_gid r) \<noteq> None then Inl (RE_DuplicateGid (rt_gid r))
      else if bt_get (rs_task_ids s) (rt_task_id r) \<noteq> None
      then Inl (RE_DuplicateTaskId (rt_task_id r))
      else
        and_then (map_err (\<lambda>_. RE_InvalidConditions (rt_gid r))
                    (task_conditions_validate (rt_conditions r))) (\<lambda>_.
        and_then (validate_recovered_task r max_tasks) (\<lambda>_.
        and_then (restore_timers r (recovered_task r) (rs_ids s)) (\<lambda>(task, effects, ids).
        and_then (restore_probe r task effects ids) (\<lambda>(task, effects, ids).
          Inr (s\<lparr>rs_ids := ids,
                 rs_highest_task_id :=
                   Some (case rs_highest_task_id s of
                           None \<Rightarrow> rt_task_id r
                         | Some current \<Rightarrow> max current (rt_task_id r)),
                 rs_task_ids := bt_insert (rt_task_id r) (rt_gid r) (rs_task_ids s),
                 rs_tasks := bt_insert (rt_gid r) task (rs_tasks s)\<rparr>,
               push_effects (rt_gid r) effects timers))))))"

fun restore_tasks ::
  "nat \<Rightarrow> recovered_scheduler_task list \<Rightarrow> request_scheduler \<Rightarrow> timer_effects \<Rightarrow>
   (scheduler_restore_error, request_scheduler \<times> timer_effects) result" where
  "restore_tasks max_tasks [] s timers = Inr (s, timers)"
| "restore_tasks max_tasks (r # rs) s timers =
     and_then (restore_task max_tasks r s timers)
       (\<lambda>(s, timers). restore_tasks max_tasks rs s timers)"

section \<open>Queue membership\<close>

definition check_membership_count ::
  "(gid, queue_class) btree \<Rightarrow> request_scheduler \<Rightarrow> (scheduler_restore_error, unit) result" where
  "check_membership_count memberships s =
     (if length memberships = length (rs_tasks s) then Inr ()
      else case List.find (\<lambda>g. bt_get memberships g = None) (bt_keys (rs_tasks s)) of
             Some g \<Rightarrow> Inl (RE_MissingQueueTask g)
           | None \<Rightarrow>
               (case List.find (\<lambda>g. bt_get (rs_tasks s) g = None) (bt_keys memberships) of
                  Some g \<Rightarrow> Inl (RE_UnknownQueueTask g)
                | None \<Rightarrow> Inl RE_TaskLimitReached))"

fun check_classes ::
  "(gid, queue_class) btree \<Rightarrow> request_scheduler \<Rightarrow> (scheduler_restore_error, unit) result" where
  "check_classes [] s = Inr ()"
| "check_classes ((g, actual) # rest) s =
     and_then (ok_or (RE_UnknownQueueTask g) (bt_get (rs_tasks s) g)) (\<lambda>task.
     and_then (ok_or (RE_InvalidState g (t_state task)) (task_queue_class task)) (\<lambda>expected.
       if expected \<noteq> actual then Inl (RE_QueueClassMismatch g expected actual)
       else check_classes rest s))"

section \<open>Publication\<close>

text \<open>The body of the publication loop over the queues in order; \<open>effects\<close> accumulates.\<close>

fun restore_publish ::
  "bool \<Rightarrow> gid list \<Rightarrow> request_scheduler \<Rightarrow> timer_effects \<Rightarrow> transition_effect list \<Rightarrow>
   (scheduler_restore_error, request_scheduler \<times> timer_effects \<times> transition_effect list) result" where
  "restore_publish holds [] s timers effects = Inr (s, timers, effects)"
| "restore_publish holds (g # gs) s timers effects =
     (let effects = effects @ (case bt_get timers g of None \<Rightarrow> [] | Some es \<Rightarrow> es);
          timers = bt_remove g timers
      in and_then (ok_or (RE_UnknownQueueTask g) (bt_get (rs_tasks s) g)) (\<lambda>task.
         and_then (map_err (\<lambda>_. RE_InvalidSnapshot g) (scheduled_task_snapshot task holds)) (\<lambda>snapshot.
           restore_publish holds gs
             (s\<lparr>rs_published_snapshots := bt_insert g snapshot (rs_published_snapshots s)\<rparr>)
             timers (effects @ [Eff_PublishSnapshot (t_task_id task) snapshot]))))"

definition queue_members_in_order :: "scheduler_queues \<Rightarrow> gid list" where
  "queue_members_in_order queues = concat (map (queues_get queues) ALL_QUEUE_CLASSES)"

definition restore ::
  "scheduler_config \<Rightarrow> scheduler_restore_batch \<Rightarrow>
   (scheduler_restore_error, request_scheduler \<times> scheduler_restore_plan) result" where
  "restore config batch =
     (if length (rb_tasks batch) > cfg_max_tasks config then Inl RE_TaskLimitReached
      else
        and_then (restore_queues (cfg_max_tasks config) (rb_queues batch) (queues_default, {}, []))
          (\<lambda>(queues, seen, memberships).
        and_then (check_all_queues seen) (\<lambda>_.
        and_then (restore_tasks (cfg_max_tasks config) (rb_tasks batch) (scheduler_new config) [])
          (\<lambda>(s, timers).
        and_then (check_membership_count memberships s) (\<lambda>_.
        and_then (check_classes memberships s) (\<lambda>_.
        and_then (restore_publish (cfg_retry_wait_holds_slot config) (queue_members_in_order queues)
                    (s\<lparr>rs_queues := queues\<rparr>) timers [])
          (\<lambda>(s, timers, effects).
             Inr (s, \<lparr>rp_effects = effects, rp_initial_effect_count = length effects,
                      rp_bound_scheduler = s\<rparr>))))))))"

end
