(* ===== verification/RestoreInv.thy ===== *)
theory RestoreInv
  imports SchedulerRestore TaskFacts
begin

text \<open>
  A successful restore yields a scheduler that satisfies the invariant: the queues it accepts refine
  the classes of the tasks it rebuilds, every rebuilt task is consistent once its snapshot passed
  validation, and exactly the queued tasks have a published snapshot.
\<close>

section \<open>Queues and memberships\<close>

lemma restore_members_ok:
  assumes "restore_members c gs m = Inr m'" and "bt_wf m"
  shows "bt_wf m' \<and> distinct gs \<and> (\<forall>g \<in> set gs. bt_get m g = None)
     \<and> (\<forall>g. bt_get m' g = (if g \<in> set gs then Some c else bt_get m g))"
  using assms
proof (induction gs arbitrary: m)
  case (Cons g gs)
  then have "bt_get m g = None" and "restore_members c gs (bt_insert g c m) = Inr m'"
    by (auto split: if_splits)
  with Cons.IH [of "bt_insert g c m"] Cons.prems(2) show ?case
    by (auto split: if_splits)
qed simp

definition queues_restored :: "restored_queues \<Rightarrow> bool" where
  "queues_restored acc \<longleftrightarrow>
     (case acc of (queues, seen, memberships) \<Rightarrow>
        bt_wf memberships \<and> (\<forall>c. c \<notin> seen \<longrightarrow> queues_get queues c = [])
        \<and> queues_match (queues_get queues) (bt_get memberships))"

lemma restore_queues_ok:
  assumes "restore_queues n orders acc = Inr acc'" and "queues_restored acc"
  shows "queues_restored acc' \<and> fst (snd acc') = fst (snd acc) \<union> qo_class ` set orders
    \<and> (\<forall>order \<in> set orders. queues_get (fst acc') (qo_class order) = qo_order order)
    \<and> (\<forall>c \<in> fst (snd acc). queues_get (fst acc') c = queues_get (fst acc) c)"
  using assms
proof (induction n orders acc rule: restore_queues.induct)
  case (2 n order orders queues seen m)
  let ?c = "qo_class order"
  from "2.prems"(1) obtain m' where new: "?c \<notin> seen" and len: "\<not> n < length (qo_order order)"
    and m': "restore_members ?c (qo_order order) m = Inr m'"
    and rest: "restore_queues n orders (queues_set (qo_order order) queues ?c, insert ?c seen, m') = Inr acc'"
    by (auto simp: and_then_eq_Inr split: if_splits)
  from "2.prems"(2) have wf: "bt_wf m" and empty: "\<And>c. c \<notin> seen \<Longrightarrow> queues_get queues c = []"
    and match: "queues_match (queues_get queues) (bt_get m)"
    by (auto simp: queues_restored_def)
  note ok = restore_members_ok [OF m' wf]
  have "queues_match (queues_get (queues_set (qo_order order) queues ?c)) (bt_get m')"
    using ok match empty [OF new] by (force simp: queues_match_def)
  with ok empty have "queues_restored (queues_set (qo_order order) queues ?c, insert ?c seen, m')"
    by (simp add: queues_restored_def)
  from "2.IH" [OF new len rest this] new show ?case by simp
qed (simp)

lemma check_all_queues_ok: "check_all_queues seen = Inr () \<longleftrightarrow> seen = UNIV"
proof -
  have "(\<forall>c \<in> set ALL_QUEUE_CLASSES. c \<in> seen) \<longleftrightarrow> seen = UNIV"
    by (auto simp: ALL_QUEUE_CLASSES_def) (metis queue_class.exhaust)
  then show ?thesis
    by (auto simp: check_all_queues_def find_None_iff find_Some_iff split: option.splits)
qed

section \<open>Rebuilt tasks\<close>

text \<open>The task a recovered record is rebuilt to, whatever identifiers its timers and probe got.\<close>

definition rebuilt :: "nat \<Rightarrow> recovered_scheduler_task \<Rightarrow> scheduled_task \<Rightarrow> bool" where
  "rebuilt n r t \<longleftrightarrow>
     task_conditions_validate (rt_conditions r) = Inr () \<and> validate_recovered_task r n = Inr ()
     \<and> (\<exists>timer readmission probe.
          t = (recovered_task r)\<lparr>t_retry_timer := timer, t_slow_readmission := readmission,
                                 t_no_space_probe := probe\<rparr>
          \<and> map_option snd timer = rt_retry_at r
          \<and> (readmission \<noteq> None \<longleftrightarrow> rt_state r = TS_WaitingSlow)
          \<and> (probe \<noteq> None \<longrightarrow> tc_no_space (rt_conditions r) \<noteq> None))"

lemma validate_recovered_task_ok:
  "validate_recovered_task r n = Inr () \<longleftrightarrow>
     rt_state r \<in> {TS_Waiting, TS_WaitingSlow, TS_RetryWait, TS_Paused, TS_PausedSlow,
                   TS_PausedHostKey, TS_StoppedResult}
     \<and> (rt_state r = TS_RetryWait \<longleftrightarrow> rt_retry_at r \<noteq> None)
     \<and> (case rt_slow_slot r of None \<Rightarrow> rt_state r \<noteq> TS_WaitingSlow
        | Some slot \<Rightarrow> rt_state r = TS_WaitingSlow \<and> valid_slow_slot r n slot)
     \<and> (rt_state r = TS_PausedHostKey \<longleftrightarrow> rt_host_key_challenge r \<noteq> None)
     \<and> (case rt_stopped_status r of None \<Rightarrow> rt_state r \<noteq> TS_StoppedResult \<and> rt_error r = None
        | Some status \<Rightarrow> rt_state r = TS_StoppedResult \<and> aria2_is_terminal status
            \<and> (status = AS_Error \<longleftrightarrow> rt_error r \<noteq> None))"
  by (cases "rt_state r"; cases "rt_slow_slot r"; cases "rt_stopped_status r")
    (simp_all add: validate_recovered_task_def validate_slow_state_def validate_result_metadata_def)

lemma rebuilt_identity: "rebuilt n r t \<Longrightarrow> t_gid t = rt_gid r \<and> t_task_id t = rt_task_id r"
  by (auto simp: rebuilt_def recovered_task_def scheduled_task_new_def)

lemma rebuilt_no_slot: "rebuilt n r t \<Longrightarrow> t_slot t = SO_None"
  by (auto simp: rebuilt_def recovered_task_def scheduled_task_new_def)

lemma rebuilt_class:
  assumes "rebuilt n r t"
  shows "task_queue_class t \<noteq> None"
proof -
  have "t_state t = rt_state r" "t_slot t = SO_None" "validate_recovered_task r n = Inr ()"
    using assms by (auto simp: rebuilt_def recovered_task_def scheduled_task_new_def)
  then show ?thesis by (cases "rt_state r") (simp_all add: validate_recovered_task_ok task_queue_class_def)
qed

lemma rebuilt_task_ok:
  assumes "rebuilt n r t" and "snapshot_ok (task_snapshot_of t h)"
  shows "task_ok t"
proof -
  from assms(1) obtain timer readmission probe where valid: "validate_recovered_task r n = Inr ()"
    and cond: "task_conditions_validate (rt_conditions r) = Inr ()"
    and t: "t = (recovered_task r)\<lparr>t_retry_timer := timer, t_slow_readmission := readmission,
                                   t_no_space_probe := probe\<rparr>"
    and arm: "map_option snd timer = rt_retry_at r" "readmission \<noteq> None \<longleftrightarrow> rt_state r = TS_WaitingSlow"
      "probe \<noteq> None \<longrightarrow> tc_no_space (rt_conditions r) \<noteq> None"
    unfolding rebuilt_def by blast
  have timer: "timer \<noteq> None \<longleftrightarrow> rt_retry_at r \<noteq> None" using arm(1) by (cases timer; cases "rt_retry_at r") simp_all
  have "blocks_admission (rt_conditions r) \<longrightarrow> condition_state (rt_state r)"
    using assms(2) by (simp add: snapshot_ok_task t recovered_task_def scheduled_task_new_def)
  with valid [unfolded validate_recovered_task_ok] cond arm(2,3) timer show ?thesis
    by (cases "rt_state r"; cases "rt_stopped_status r")
      (simp_all add: task_ok_def barrier_ok_def inv_defs state_defs t recovered_task_def
        scheduled_task_new_def)
qed

text \<open>The effects that arm the timers and the probe of a task.\<close>

definition timer_effects_of :: "scheduled_task \<Rightarrow> transition_effect list" where
  "timer_effects_of t =
     (case t_retry_timer t of None \<Rightarrow> []
      | Some (i, at) \<Rightarrow> [Eff_ScheduleRetry (t_task_id t) (t_gid t) (t_generation t) i at])
     @ (case t_slow_readmission t of None \<Rightarrow> []
        | Some (i, at) \<Rightarrow> [Eff_ScheduleSlowReadmission (t_task_id t) (t_gid t) (t_generation t) i at])"

definition probe_effects_of :: "scheduled_task \<Rightarrow> transition_effect list" where
  "probe_effects_of t =
     (case t_no_space_probe t of None \<Rightarrow> []
      | Some (i, origin) \<Rightarrow>
          (case Option.bind (tc_no_space (t_conditions t)) nsc_retry_at of None \<Rightarrow> []
           | Some at \<Rightarrow> [Eff_ProbeNoSpace (t_task_id t) (t_gid t) (t_generation t) i origin at]))"

definition same_identity :: "recovered_scheduler_task \<Rightarrow> scheduled_task \<Rightarrow> bool" where
  "same_identity r t \<longleftrightarrow>
     t_task_id t = rt_task_id r \<and> t_gid t = rt_gid r \<and> t_generation t = rt_generation r"

lemma timer_effects_of_probe [simp]: "timer_effects_of (t\<lparr>t_no_space_probe := p\<rparr>) = timer_effects_of t"
  by (simp add: timer_effects_of_def split: option.split)

lemma restore_timers_ok:
  assumes "restore_timers r t ids = Inr (u, es, ids')"
    and "rt_state r = TS_RetryWait \<longleftrightarrow> rt_retry_at r \<noteq> None"
    and "t_retry_timer t = None" "t_slow_readmission t = None" and id: "same_identity r t"
  obtains timer readmission where
    "es = timer_effects_of u"
    "u = t\<lparr>t_retry_timer := timer, t_slow_readmission := readmission\<rparr>"
    "map_option snd timer = rt_retry_at r" "readmission \<noteq> None \<longleftrightarrow> rt_state r = TS_WaitingSlow"
proof (cases "rt_retry_at r")
  case None
  with assms(2) have no_retry: "rt_state r \<noteq> TS_RetryWait" by simp
  show ?thesis
  proof (cases "rt_state r = TS_WaitingSlow")
    case True
    with assms(1,3) no_retry id obtain x where "u = t\<lparr>t_slow_readmission := Some x\<rparr>"
      and "es = timer_effects_of u"
      by (auto simp: restore_timers_def and_then_eq_Inr timer_effects_of_def same_identity_def)
    with that [where timer = None and readmission = "Some x"] assms(3) None True show ?thesis by simp
  next
    case False
    with assms(1,3,4) no_retry have "u = t" "es = timer_effects_of u"
      by (simp_all add: restore_timers_def timer_effects_of_def)
    with that [of None None] assms(3,4) None False show ?thesis by simp
  qed
next
  case (Some at)
  with assms(2) have "rt_state r = TS_RetryWait" by simp
  with assms(1,4) Some id obtain i where "u = t\<lparr>t_retry_timer := Some (i, at)\<rparr>"
    and "es = timer_effects_of u"
    by (auto simp: restore_timers_def and_then_eq_Inr timer_effects_of_def same_identity_def)
  with that [where timer = "Some (i, at)" and readmission = None] assms(4) Some \<open>rt_state r = TS_RetryWait\<close> show ?thesis by simp
qed

lemma restore_probe_ok:
  assumes "restore_probe r t es ids = Inr (u, es', ids')" and "t_no_space_probe t = None"
    and id: "same_identity r t"
  obtains p where "es' = es @ probe_effects_of u" "u = t\<lparr>t_no_space_probe := p\<rparr>" "p \<noteq> None \<longrightarrow> tc_no_space (t_conditions t) \<noteq> None"
proof (cases "Option.bind (tc_no_space (t_conditions t)) nsc_retry_at")
  case None
  with assms(1,2) have "u = t" "es' = es @ probe_effects_of u"
    by (simp_all add: restore_probe_def probe_effects_of_def)
  with that [of None] assms(2) show ?thesis by simp
next
  case (Some at)
  then have "tc_no_space (t_conditions t) \<noteq> None" by (cases "tc_no_space (t_conditions t)") simp_all
  moreover from assms(1) Some id obtain a where u: "u = t\<lparr>t_no_space_probe := Some (a, NPO_AutomaticRetry)\<rparr>"
    and "es' = es @ [Eff_ProbeNoSpace (t_task_id t) (t_gid t) (t_generation t) a NPO_AutomaticRetry at]"
    by (auto simp: restore_probe_def and_then_eq_Inr same_identity_def)
  ultimately show ?thesis
    using that [of "Some (a, NPO_AutomaticRetry)"] Some by (simp add: probe_effects_of_def)
qed

lemma restore_task_ok:
  assumes "restore_task n r s tm = Inr (s', tm')"
  obtains t ids where "bt_get (rs_tasks s) (rt_gid r) = None" "bt_get (rs_task_ids s) (rt_task_id r) = None"
    "rebuilt n r t" "tm' = push_effects (rt_gid r) (timer_effects_of t @ probe_effects_of t) tm"
    "s' = s\<lparr>rs_ids := ids,
            rs_highest_task_id := Some (case rs_highest_task_id s of None \<Rightarrow> rt_task_id r
                                        | Some current \<Rightarrow> max current (rt_task_id r)),
            rs_task_ids := bt_insert (rt_task_id r) (rt_gid r) (rs_task_ids s),
            rs_tasks := bt_insert (rt_gid r) t (rs_tasks s)\<rparr>"
proof -
  from assms obtain t1 es1 ids1 t es ids where new: "bt_get (rs_tasks s) (rt_gid r) = None"
      "bt_get (rs_task_ids s) (rt_task_id r) = None"
    and valid: "task_conditions_validate (rt_conditions r) = Inr ()" "validate_recovered_task r n = Inr ()"
    and timers: "restore_timers r (recovered_task r) (rs_ids s) = Inr (t1, es1, ids1)"
    and probe: "restore_probe r t1 es1 ids1 = Inr (t, es, ids)"
    and tm': "tm' = push_effects (rt_gid r) es tm"
    and s': "s' = s\<lparr>rs_ids := ids,
            rs_highest_task_id := Some (case rs_highest_task_id s of None \<Rightarrow> rt_task_id r
                                        | Some current \<Rightarrow> max current (rt_task_id r)),
            rs_task_ids := bt_insert (rt_task_id r) (rt_gid r) (rs_task_ids s),
            rs_tasks := bt_insert (rt_gid r) t (rs_tasks s)\<rparr>"
    by (auto simp: restore_task_def and_then_eq_Inr split: if_splits)
  have base: "same_identity r (recovered_task r)" "t_retry_timer (recovered_task r) = None" "t_slow_readmission (recovered_task r) = None"
    "t_no_space_probe (recovered_task r) = None" "t_conditions (recovered_task r) = rt_conditions r"
    by (simp_all add: recovered_task_def scheduled_task_new_def same_identity_def)
  from valid(2) have retry: "rt_state r = TS_RetryWait \<longleftrightarrow> rt_retry_at r \<noteq> None"
    by (simp add: validate_recovered_task_ok)
  obtain timer readmission where
    es1: "es1 = timer_effects_of t1" and t1: "t1 = (recovered_task r)\<lparr>t_retry_timer := timer, t_slow_readmission := readmission\<rparr>"
    and arm: "map_option snd timer = rt_retry_at r" "readmission \<noteq> None \<longleftrightarrow> rt_state r = TS_WaitingSlow"
    by (rule restore_timers_ok [OF timers retry base(2,3,1)])
  have "t_no_space_probe t1 = None" "same_identity r t1"
    using base(1) by (simp_all add: t1 base same_identity_def)
  from probe this obtain p where es: "es = es1 @ probe_effects_of t"
    and t: "t = t1\<lparr>t_no_space_probe := p\<rparr>"
    and p1: "p \<noteq> None \<longrightarrow> tc_no_space (t_conditions t1) \<noteq> None"
    by (rule restore_probe_ok)
  have p: "p \<noteq> None \<longrightarrow> tc_no_space (rt_conditions r) \<noteq> None" using p1 by (simp add: t1 base)
  have "rebuilt n r t"
    unfolding rebuilt_def using valid arm p
    by (intro conjI exI [of _ timer] exI [of _ readmission] exI [of _ p]) (simp_all add: t t1)
  moreover have "es = timer_effects_of t @ probe_effects_of t"
    by (simp add: es es1 t)
  ultimately show ?thesis using new s' tm' that by blast
qed

section \<open>The rebuilt maps\<close>

lemma maps_ok_add:
  assumes "maps_ok s" and "bt_get (rs_tasks s) (t_gid t) = None" "bt_get (rs_task_ids s) (t_task_id t) = None"
    and s': "rs_tasks s' = bt_insert (t_gid t) t (rs_tasks s)"
      "rs_task_ids s' = bt_insert (t_task_id t) (t_gid t) (rs_task_ids s)"
      "rs_published_snapshots s' = rs_published_snapshots s"
    and high: "rs_highest_task_id s' = Some h" "t_task_id t \<le> h"
      "\<And>k. rs_highest_task_id s = Some k \<Longrightarrow> k \<le> h"
  shows "maps_ok s'"
proof (rule maps_okI)
  fix g x assume "bt_get (rs_tasks s') g = Some x"
  then show "t_gid x = g \<and> bt_get (rs_task_ids s') (t_task_id x) = Some g"
    using maps_okD(4,5) [OF assms(1), of g x] assms(3) by (auto simp: s' split: if_splits)
next
  fix i g assume i: "bt_get (rs_task_ids s') i = Some g"
  show "(\<exists>x. bt_get (rs_tasks s') g = Some x \<and> t_task_id x = i)
      \<and> (\<exists>k. rs_highest_task_id s' = Some k \<and> i \<le> k)"
  proof (cases "i = t_task_id t")
    case False
    with i have "bt_get (rs_task_ids s) i = Some g" by (simp add: s')
    with maps_okD(6,7) [OF assms(1) this] assms(2) high show ?thesis
      by (fastforce simp: s')
  qed (use i high in \<open>auto simp: s'\<close>)
qed (use maps_okD(1-3) [OF assms(1)] s' in simp_all)

lemma restore_task_step:
  assumes "restore_task n r s tm = Inr (s', tm')" and "maps_ok s"
  obtains t where "rebuilt n r t" "bt_get (rs_tasks s) (rt_gid r) = None"
    "rs_tasks s' = bt_insert (rt_gid r) t (rs_tasks s)" "maps_ok s'"
    "rs_config s' = rs_config s" "rs_queues s' = rs_queues s"
    "rs_published_snapshots s' = rs_published_snapshots s"
    "tm' = push_effects (rt_gid r) (timer_effects_of t @ probe_effects_of t) tm"
proof -
  obtain t ids where new: "bt_get (rs_tasks s) (rt_gid r) = None" "bt_get (rs_task_ids s) (rt_task_id r) = None"
    and t: "rebuilt n r t" and tm': "tm' = push_effects (rt_gid r) (timer_effects_of t @ probe_effects_of t) tm"
    and s': "s' = s\<lparr>rs_ids := ids,
            rs_highest_task_id := Some (case rs_highest_task_id s of None \<Rightarrow> rt_task_id r
                                        | Some current \<Rightarrow> max current (rt_task_id r)),
            rs_task_ids := bt_insert (rt_task_id r) (rt_gid r) (rs_task_ids s),
            rs_tasks := bt_insert (rt_gid r) t (rs_tasks s)\<rparr>"
    by (rule restore_task_ok [OF assms(1)])
  have "maps_ok s'"
    using new rebuilt_identity [OF t]
    by (intro maps_ok_add [OF assms(2), of t s' "the (rs_highest_task_id s')"])
      (auto simp: s' split: option.splits)
  with t new s' tm' show ?thesis using that [of t] by simp
qed

definition timers_recorded :: "request_scheduler \<Rightarrow> timer_effects \<Rightarrow> bool" where
  "timers_recorded s tm \<longleftrightarrow>
     (\<forall>g. (case bt_get tm g of None \<Rightarrow> [] | Some es \<Rightarrow> es) =
          (case bt_get (rs_tasks s) g of None \<Rightarrow> []
           | Some t \<Rightarrow> timer_effects_of t @ probe_effects_of t))"

lemma timers_recorded_push:
  assumes "timers_recorded s tm" and "bt_get (rs_tasks s) g = None"
    and "rs_tasks s' = bt_insert g t (rs_tasks s)"
  shows "timers_recorded s' (push_effects g (timer_effects_of t @ probe_effects_of t) tm)"
proof -
  have "(case bt_get tm g of None \<Rightarrow> [] | Some es \<Rightarrow> es) = []"
    using assms(1,2) by (simp add: timers_recorded_def)
  with assms show ?thesis
    by (auto simp: timers_recorded_def push_effects_def)
qed

lemma restore_tasks_ok:
  assumes "restore_tasks n rs s tm = Inr (s', tm')" and "maps_ok s"
  shows "maps_ok s' \<and> rs_config s' = rs_config s \<and> rs_queues s' = rs_queues s
    \<and> rs_published_snapshots s' = rs_published_snapshots s
    \<and> length (rs_tasks s') = length (rs_tasks s) + length rs
    \<and> (\<forall>g t. bt_get (rs_tasks s) g = Some t \<longrightarrow> bt_get (rs_tasks s') g = Some t)
    \<and> (\<forall>g t. bt_get (rs_tasks s') g = Some t \<longrightarrow>
          bt_get (rs_tasks s) g = Some t \<or> (\<exists>r \<in> set rs. rebuilt n r t))
    \<and> (\<forall>r \<in> set rs. \<exists>t. bt_get (rs_tasks s') (rt_gid r) = Some t \<and> rebuilt n r t)"
  using assms
proof (induction rs arbitrary: s tm)
  case (Cons r rs)
  from Cons.prems(1) obtain s1 tm1 where one: "restore_task n r s tm = Inr (s1, tm1)"
    and rest: "restore_tasks n rs s1 tm1 = Inr (s', tm')"
    by (auto simp: and_then_eq_Inr)
  from one Cons.prems(2) obtain t where t: "rebuilt n r t"
    and new: "bt_get (rs_tasks s) (rt_gid r) = None"
    and s1: "rs_tasks s1 = bt_insert (rt_gid r) t (rs_tasks s)" "maps_ok s1"
      "rs_config s1 = rs_config s" "rs_queues s1 = rs_queues s"
      "rs_published_snapshots s1 = rs_published_snapshots s"
    by (rule restore_task_step)
  have "length (rs_tasks s1) = Suc (length (rs_tasks s))"
    using bt.size_ins [OF maps_okD(1) [OF Cons.prems(2)], of "rt_gid r" t] new by (simp add: s1)
  note len = this and ih = Cons.IH [OF rest s1(2)]
  have get1: "bt_get (rs_tasks s1) g = (if g = rt_gid r then Some t else bt_get (rs_tasks s) g)" for g
    by (simp add: s1)
  have "bt_get (rs_tasks s') g = Some x" if "bt_get (rs_tasks s) g = Some x" for g x
    using ih that new get1 [of g] by (metis option.distinct(1))
  moreover have "bt_get (rs_tasks s) g = Some x \<or> (\<exists>r \<in> set (r # rs). rebuilt n r x)"
    if "bt_get (rs_tasks s') g = Some x" for g x
    using ih that t get1 [of g] by (metis list.set_intros option.inject)
  moreover have "\<forall>q \<in> set (r # rs). \<exists>t. bt_get (rs_tasks s') (rt_gid q) = Some t \<and> rebuilt n q t"
    using ih t get1 [of "rt_gid r"] by (metis set_ConsD)
  ultimately show ?case using ih len by (simp add: s1(3-5))
qed simp

lemma restore_tasks_timers:
  assumes "restore_tasks n rs s tm = Inr (s', tm')" and "maps_ok s" and "timers_recorded s tm"
  shows "timers_recorded s' tm'"
  using assms
proof (induction rs arbitrary: s tm)
  case (Cons r rs)
  from Cons.prems(1) obtain s1 tm1 where one: "restore_task n r s tm = Inr (s1, tm1)"
    and rest: "restore_tasks n rs s1 tm1 = Inr (s', tm')"
    by (auto simp: and_then_eq_Inr)
  from one Cons.prems(2) obtain t where "rebuilt n r t" and new: "bt_get (rs_tasks s) (rt_gid r) = None"
    and s1: "rs_tasks s1 = bt_insert (rt_gid r) t (rs_tasks s)" "maps_ok s1"
      "rs_config s1 = rs_config s" "rs_queues s1 = rs_queues s"
      "rs_published_snapshots s1 = rs_published_snapshots s"
    and tm1: "tm1 = push_effects (rt_gid r) (timer_effects_of t @ probe_effects_of t) tm"
    by (rule restore_task_step)
  from Cons.IH [OF rest s1(2)] timers_recorded_push [OF Cons.prems(3) new s1(1)] tm1
  show ?case by simp
qed simp

section \<open>Membership checks\<close>

lemma check_classes_ok:
  "check_classes m s = Inr () \<Longrightarrow> (g, c) \<in> set m \<Longrightarrow> task_class s g = Some c"
  by (induction m s rule: check_classes.induct)
    (auto simp: and_then_eq_Inr task_class_def split: if_splits)

lemma check_membership_count_ok:
  "check_membership_count m s = Inr () \<Longrightarrow> length m = length (rs_tasks s)"
  by (auto simp: check_membership_count_def split: if_splits option.splits)

lemma memberships_are_classes:
  assumes count: "check_membership_count m s = Inr ()" and classes: "check_classes m s = Inr ()"
    and wf: "bt_wf m" "bt_wf (rs_tasks s)"
  shows "task_class s = bt_get m"
proof
  have sub: "{g. bt_get m g \<noteq> None} \<subseteq> {g. bt_get (rs_tasks s) g \<noteq> None}"
  proof
    fix g assume "g \<in> {g. bt_get m g \<noteq> None}"
    then obtain c where "(g, c) \<in> set m" using bt.entries_get [OF wf(1)] by (cases "bt_get m g") simp_all
    from check_classes_ok [OF classes this] show "g \<in> {g. bt_get (rs_tasks s) g \<noteq> None}"
      by (cases "bt_get (rs_tasks s) g") (simp_all add: task_class_def)
  qed
  have "card {g. bt_get m g \<noteq> None} = card {g. bt_get (rs_tasks s) g \<noteq> None}"
    using check_membership_count_ok [OF count] bt.length_entries [OF wf(1)] bt.length_entries [OF wf(2)]
    by simp
  with sub bt.finite_dom [OF wf(2)]
  have same: "{g. bt_get m g \<noteq> None} = {g. bt_get (rs_tasks s) g \<noteq> None}"
    by (intro card_subset_eq)
  fix g
  show "task_class s g = bt_get m g"
  proof (cases "bt_get m g")
    case None
    with same have "bt_get (rs_tasks s) g = None" by blast
    with None show ?thesis by (simp add: task_class_def)
  next
    case (Some c)
    with check_classes_ok [OF classes] bt.entries_get [OF wf(1)] show ?thesis by simp
  qed
qed

section \<open>Publication\<close>

definition published_effects :: "request_scheduler \<Rightarrow> bool \<Rightarrow> gid \<Rightarrow> transition_effect list" where
  "published_effects s holds g =
     (case bt_get (rs_tasks s) g of None \<Rightarrow> []
      | Some t \<Rightarrow> timer_effects_of t @ probe_effects_of t
                 @ [Eff_PublishSnapshot (t_task_id t) (task_snapshot_of t holds)])"

lemma restore_publish_ok:
  assumes "restore_publish holds gs s tm es = Inr (s', tm', es')" and "bt_wf (rs_published_snapshots s)"
  shows "s' = s\<lparr>rs_published_snapshots := rs_published_snapshots s'\<rparr>
    \<and> bt_wf (rs_published_snapshots s')
    \<and> (\<forall>g \<in> set gs. \<exists>t. bt_get (rs_tasks s) g = Some t \<and> snapshot_ok (task_snapshot_of t holds))
    \<and> (\<forall>g. bt_get (rs_published_snapshots s') g =
          (if g \<in> set gs then map_option (\<lambda>t. task_snapshot_of t holds) (bt_get (rs_tasks s) g)
           else bt_get (rs_published_snapshots s) g))"
  using assms
proof (induction gs arbitrary: s tm es)
  case (Cons g gs)
  let ?s1 = "\<lambda>t. s\<lparr>rs_published_snapshots :=
               bt_insert g (task_snapshot_of t holds) (rs_published_snapshots s)\<rparr>"
  from Cons.prems(1) obtain t where t: "bt_get (rs_tasks s) g = Some t" "snapshot_ok (task_snapshot_of t holds)"
    and rest: "restore_publish holds gs (?s1 t) (bt_remove g tm)
        ((es @ (case bt_get tm g of None \<Rightarrow> [] | Some es \<Rightarrow> es))
         @ [Eff_PublishSnapshot (t_task_id t) (task_snapshot_of t holds)]) = Inr (s', tm', es')"
    by (auto simp: Let_def and_then_eq_Inr scheduled_task_snapshot_ok)
  from Cons.IH [OF rest] Cons.prems(2) t show ?case by auto
qed simp

lemma restore_publish_effects:
  assumes "restore_publish holds gs s tm es = Inr (s', tm', es')" and "distinct gs"
    and "\<forall>g \<in> set gs. (case bt_get tm g of None \<Rightarrow> [] | Some es \<Rightarrow> es) =
      (case bt_get (rs_tasks s) g of None \<Rightarrow> [] | Some t \<Rightarrow> timer_effects_of t @ probe_effects_of t)"
  shows "es' = es @ concat (map (published_effects s holds) gs)"
  using assms
proof (induction gs arbitrary: s tm es)
  case (Cons g gs)
  let ?s1 = "\<lambda>t. s\<lparr>rs_published_snapshots :=
               bt_insert g (task_snapshot_of t holds) (rs_published_snapshots s)\<rparr>"
  from Cons.prems(1) obtain t where t: "bt_get (rs_tasks s) g = Some t"
    and rest: "restore_publish holds gs (?s1 t) (bt_remove g tm)
        ((es @ (case bt_get tm g of None \<Rightarrow> [] | Some es \<Rightarrow> es))
         @ [Eff_PublishSnapshot (t_task_id t) (task_snapshot_of t holds)]) = Inr (s', tm', es')"
    by (auto simp: Let_def and_then_eq_Inr scheduled_task_snapshot_ok)
  have "\<forall>h \<in> set gs. h \<noteq> g" using Cons.prems(2) by auto
  with Cons.prems(3) have "\<forall>h \<in> set gs. (case bt_get (bt_remove g tm) h of None \<Rightarrow> [] | Some es \<Rightarrow> es) =
      (case bt_get (rs_tasks (?s1 t)) h of None \<Rightarrow> [] | Some t \<Rightarrow> timer_effects_of t @ probe_effects_of t)"
    by simp
  from Cons.IH [OF rest _ this] Cons.prems(2,3) t show ?case
    by (simp add: published_effects_def)
qed simp

section \<open>The restored scheduler\<close>

lemma queue_members_in_order:
  assumes "queues_match (queues_get q) cls"
  shows "distinct (queue_members_in_order q)" "set (queue_members_in_order q) = {g. cls g \<noteq> None}"
proof -
  note [simp] = queues_matchD(2) [OF assms, of _ QC_Waiting, simplified]
    queues_matchD(2) [OF assms, of _ QC_Demoted, simplified] queues_matchD(2) [OF assms, of _ QC_Paused, simplified]
    queues_matchD(2) [OF assms, of _ QC_Active, simplified] queues_matchD(2) [OF assms, of _ QC_Stopped, simplified]
  note [simp] = queues_matchD(1) [OF assms, of QC_Waiting, simplified]
    queues_matchD(1) [OF assms, of QC_Demoted, simplified] queues_matchD(1) [OF assms, of QC_Paused, simplified]
    queues_matchD(1) [OF assms, of QC_Active, simplified] queues_matchD(1) [OF assms, of QC_Stopped, simplified]
  show "distinct (queue_members_in_order q)"
    by (auto simp: queue_members_in_order_def ALL_QUEUE_CLASSES_def)
  show "set (queue_members_in_order q) = {g. cls g \<noteq> None}"
  proof (rule set_eqI)
    fix g
    show "g \<in> set (queue_members_in_order q) \<longleftrightarrow> g \<in> {g. cls g \<noteq> None}"
    proof (cases "cls g")
      case (Some c)
      then show ?thesis by (cases c) (simp_all add: queue_members_in_order_def ALL_QUEUE_CLASSES_def)
    qed (simp add: queue_members_in_order_def ALL_QUEUE_CLASSES_def)
  qed
qed

lemma restoreE:
  assumes "restore config batch = Inr (s, plan)"
  obtains queues seen m s0 tm tm' where "length (rb_tasks batch) \<le> cfg_max_tasks config"
    "restore_queues (cfg_max_tasks config) (rb_queues batch) (queues_default, {}, []) = Inr (queues, seen, m)"
    "check_all_queues seen = Inr ()"
    "restore_tasks (cfg_max_tasks config) (rb_tasks batch) (scheduler_new config) [] = Inr (s0, tm)"
    "check_membership_count m s0 = Inr ()" "check_classes m s0 = Inr ()"
    "restore_publish (cfg_retry_wait_holds_slot config) (queue_members_in_order queues)
       (s0\<lparr>rs_queues := queues\<rparr>) tm [] = Inr (s, tm', rp_effects plan)"
    "rp_initial_effect_count plan = length (rp_effects plan)" "rp_bound_scheduler plan = s"
  using assms by (auto simp: restore_def and_then_eq_Inr split: if_splits)

lemma scheduler_new_simps [simp]:
  "rs_tasks (scheduler_new config) = []" "rs_task_ids (scheduler_new config) = []"
  "rs_published_snapshots (scheduler_new config) = []" "rs_config (scheduler_new config) = config"
  "rs_queues (scheduler_new config) = queues_default"
  by (simp_all add: scheduler_new_def)

lemma scheduler_new_maps: "maps_ok (scheduler_new config)"
  by (simp add: maps_ok_def)

text \<open>What the phases of a successful restore leave behind.\<close>

lemma restore_phases:
  assumes "restore config batch = Inr (s, plan)"
  shows "maps_ok s \<and> rs_config s = config \<and> queues_match (queues_get (rs_queues s)) (task_class s)"
    and "\<forall>order \<in> set (rb_queues batch). queues_get (rs_queues s) (qo_class order) = qo_order order"
    and "length (rs_tasks s) = length (rb_tasks batch) \<and> length (rb_tasks batch) \<le> cfg_max_tasks config"
    and "\<forall>g t. bt_get (rs_tasks s) g = Some t \<longrightarrow> snapshot_ok (task_snapshot_of t (cfg_retry_wait_holds_slot config))
       \<and> (\<exists>r \<in> set (rb_tasks batch). rebuilt (cfg_max_tasks config) r t)"
    and "\<forall>r \<in> set (rb_tasks batch).
       \<exists>t. bt_get (rs_tasks s) (rt_gid r) = Some t \<and> rebuilt (cfg_max_tasks config) r t"
    and "\<forall>g. bt_get (rs_published_snapshots s) g =
       map_option (\<lambda>t. task_snapshot_of t (cfg_retry_wait_holds_slot config)) (bt_get (rs_tasks s) g)"
    and "is_bound_to plan s"
    and "rp_effects plan = concat (map (published_effects s (cfg_retry_wait_holds_slot config))
       (queue_members_in_order (rs_queues s)))"
proof -
  let ?h = "cfg_retry_wait_holds_slot config" and ?n = "cfg_max_tasks config"
  obtain queues seen m s0 tm tm' where len: "length (rb_tasks batch) \<le> ?n"
    and q: "restore_queues ?n (rb_queues batch) (queues_default, {}, []) = Inr (queues, seen, m)"
    and seen: "check_all_queues seen = Inr ()"
    and t: "restore_tasks ?n (rb_tasks batch) (scheduler_new config) [] = Inr (s0, tm)"
    and count: "check_membership_count m s0 = Inr ()" and classes: "check_classes m s0 = Inr ()"
    and pub: "restore_publish ?h (queue_members_in_order queues) (s0\<lparr>rs_queues := queues\<rparr>) tm []
        = Inr (s, tm', rp_effects plan)"
    and plan: "rp_initial_effect_count plan = length (rp_effects plan)" "rp_bound_scheduler plan = s"
    by (rule restoreE [OF assms])
  have "queues_restored (queues_default, {}, [])"
    by (simp add: queues_restored_def queues_match_def)
  from restore_queues_ok [OF q this]
  have wf_m: "bt_wf m" and match: "queues_match (queues_get queues) (bt_get m)"
    and recorded: "\<forall>order \<in> set (rb_queues batch). queues_get queues (qo_class order) = qo_order order"
    by (simp_all add: queues_restored_def)
  note tasks = restore_tasks_ok [OF t scheduler_new_maps]
  have s0: "maps_ok s0" "rs_config s0 = config" "rs_published_snapshots s0 = []"
    "length (rs_tasks s0) = length (rb_tasks batch)"
    using tasks by simp_all
  have cls: "task_class s0 = bt_get m"
    using memberships_are_classes [OF count classes wf_m maps_okD(1) [OF s0(1)]] .
  have members: "distinct (queue_members_in_order queues)"
    "set (queue_members_in_order queues) = {g. bt_get m g \<noteq> None}"
    using queue_members_in_order [OF match] by simp_all
  note published = restore_publish_ok [OF pub, simplified, unfolded s0(3), simplified]
  define p where "p = rs_published_snapshots s"
  have "s = s0\<lparr>rs_queues := queues, rs_published_snapshots := p\<rparr>"
    using published unfolding p_def by simp
  then have s: "rs_tasks s = rs_tasks s0" "rs_task_ids s = rs_task_ids s0" "rs_queues s = queues"
    "rs_highest_task_id s = rs_highest_task_id s0" "rs_config s = config"
    by (simp_all add: s0(2))
  have cls_s: "task_class s = bt_get m"
    using cls by (simp add: fun_eq_iff task_class_def s(1))
  have rebuilds: "\<exists>r \<in> set (rb_tasks batch). rebuilt ?n r x" if "bt_get (rs_tasks s) g = Some x" for g x
    using tasks that by (simp add: s(1))
  have queued: "g \<in> set (queue_members_in_order queues)" if "bt_get (rs_tasks s) g = Some x" for g x
  proof -
    have "task_queue_class x \<noteq> None" using rebuilds [OF that] rebuilt_class by blast
    then show ?thesis using that members(2) cls_s [THEN fun_cong, of g] by (simp add: task_class_def)
  qed
  show "maps_ok s \<and> rs_config s = config \<and> queues_match (queues_get (rs_queues s)) (task_class s)"
    using s0(1) published match cls_s s by (simp add: maps_ok_def)
  show "\<forall>order \<in> set (rb_queues batch). queues_get (rs_queues s) (qo_class order) = qo_order order"
    using recorded by (simp add: s)
  show "length (rs_tasks s) = length (rb_tasks batch) \<and> length (rb_tasks batch) \<le> ?n"
    using s0(4) len by (simp add: s)
  show "\<forall>g t. bt_get (rs_tasks s) g = Some t \<longrightarrow> snapshot_ok (task_snapshot_of t ?h)
       \<and> (\<exists>r \<in> set (rb_tasks batch). rebuilt ?n r t)"
    using rebuilds queued published by (fastforce simp: s)
  show "\<forall>r \<in> set (rb_tasks batch). \<exists>t. bt_get (rs_tasks s) (rt_gid r) = Some t \<and> rebuilt ?n r t"
    using tasks by (simp add: s)
  show "\<forall>g. bt_get (rs_published_snapshots s) g = map_option (\<lambda>t. task_snapshot_of t ?h) (bt_get (rs_tasks s) g)"
  proof
    fix g
    show "bt_get (rs_published_snapshots s) g = map_option (\<lambda>t. task_snapshot_of t ?h) (bt_get (rs_tasks s) g)"
      using published queued [of g] by (cases "bt_get (rs_tasks s) g") (auto simp: s s0(3))
  qed
  show "is_bound_to plan s" using plan by (simp add: is_bound_to_def)
  have "timers_recorded s0 tm"
    by (rule restore_tasks_timers [OF t scheduler_new_maps]) (simp add: timers_recorded_def)
  with restore_publish_effects [OF pub members(1)]
  have "rp_effects plan = concat (map (published_effects (s0\<lparr>rs_queues := queues\<rparr>) ?h)
      (queue_members_in_order queues))"
    by (simp add: timers_recorded_def)
  moreover have "published_effects (s0\<lparr>rs_queues := queues\<rparr>) ?h = published_effects s ?h"
    by (simp add: fun_eq_iff published_effects_def s)
  ultimately show "rp_effects plan = concat (map (published_effects s ?h) (queue_members_in_order (rs_queues s)))"
    by (simp add: s)
qed

lemma restore_inv:
  assumes "restore config batch = Inr (s, plan)"
  shows "sched_inv s"
proof -
  note phases = restore_phases [OF assms]
  have slots: "\<not> owns_slot (t_slot t)" if "bt_get (rs_tasks s) g = Some t" for g t
    using phases(4) that rebuilt_no_slot by fastforce
  then have "active_slot_count s = 0"
    using bt.entries_get [OF maps_okD(1), of s] phases(1)
    by (auto simp: active_slot_count_entries filter_empty_conv)
  with phases(1,3) have "limits_ok s" by (simp add: limits_ok_def)
  moreover have "published_ok s"
    using phases(4,6) rebuilt_identity maps_okD(4) [of s] phases(1)
    by (fastforce simp: published_ok_def task_snapshot_of_def)
  moreover have "\<forall>g t. bt_get (rs_tasks s) g = Some t \<longrightarrow> task_ok t"
    using phases(4) rebuilt_task_ok by blast
  ultimately show ?thesis using phases(1) by (simp add: sched_inv_def)
qed

end
