(* ===== verification/SchedulerRuns.thy ===== *)
theory SchedulerRuns
  imports EventsInv RestoreInv
begin

text \<open>
  Runs of the request scheduler: a step executes one command, delivers one event, asks for one
  admission or changes the queue policies, as the driver of \<open>ariax-runtime\<close> does, and ends in the state
  the operation leaves, whether it succeeded or returned an error. A run starts from an empty scheduler
  or from one restored at startup.
\<close>

section \<open>Steps\<close>

inductive scheduler_step :: "request_scheduler \<Rightarrow> request_scheduler \<Rightarrow> bool" where
  command: "execute_command_at s at cmd = (res, s') \<Longrightarrow> scheduler_step s s'"
| event: "handle_event_at s envelope at = (res, s') \<Longrightarrow> scheduler_step s s'"
| admission: "admit_next_at s at = (res, s') \<Longrightarrow> scheduler_step s s'"
| policies: "scheduler_step s (configure_queue_policies s holds policy)"

abbreviation scheduler_run :: "request_scheduler \<Rightarrow> request_scheduler \<Rightarrow> bool" where
  "scheduler_run \<equiv> scheduler_step\<^sup>*\<^sup>*"

inductive reachable :: "scheduler_config \<Rightarrow> request_scheduler \<Rightarrow> bool" for config where
  start: "reachable config (scheduler_new config)"
| restored: "restore config batch = Inr (s, plan) \<Longrightarrow> reachable config s"
| step: "reachable config s \<Longrightarrow> scheduler_step s s' \<Longrightarrow> reachable config s'"

lemma scheduler_new_inv: "sched_inv (scheduler_new config)"
  by (simp add: sched_inv_def scheduler_new_def maps_ok_def queues_match_def task_class_def
      limits_ok_def active_slot_count_def bt_values_def published_ok_def)

lemma configure_inv:
  assumes "sched_inv s"
  shows "sched_inv (configure_queue_policies s holds policy)"
proof -
  have "task_class (configure_queue_policies s holds policy) = task_class s"
    by (simp add: fun_eq_iff task_class_def configure_queue_policies_def)
  with assms show ?thesis
    by (simp add: sched_inv_def maps_ok_def limits_ok_def published_ok_def active_slot_count_def
        configure_queue_policies_def)
qed

lemma scheduler_step_inv: "scheduler_step s s' \<Longrightarrow> sched_inv s \<Longrightarrow> sched_inv s'"
proof (induction rule: scheduler_step.induct)
  case (command s at cmd res s')
  then show ?case using execute_command_at_inv [of s at cmd] by simp
next
  case (event s envelope at res s')
  then show ?case using handle_event_at_inv [of s envelope at] by simp
next
  case (admission s at res s')
  then show ?case using admit_next_at_inv [of s at] by simp
qed (rule configure_inv)

lemma reachable_inv: "reachable config s \<Longrightarrow> sched_inv s"
  by (induction rule: reachable.induct) (auto intro: scheduler_new_inv restore_inv scheduler_step_inv)

section \<open>Input sequences\<close>

datatype scheduler_input =
  In_Command monotonic_instant scheduler_command
| In_Event monotonic_instant task_event_envelope
| In_Admission monotonic_instant

primrec run_input :: "request_scheduler \<Rightarrow> scheduler_input \<Rightarrow> step_result" where
  "run_input s (In_Command at cmd) = execute_command_at s at cmd"
| "run_input s (In_Event at envelope) = handle_event_at s envelope at"
| "run_input s (In_Admission at) = admit_next_at s at"

primrec run_inputs :: "request_scheduler \<Rightarrow> scheduler_input list \<Rightarrow> request_scheduler" where
  "run_inputs s [] = s"
| "run_inputs s (i # is) = run_inputs (snd (run_input s i)) is"

lemma run_input_step: "scheduler_step s (snd (run_input s i))"
  by (cases i; simp; rule scheduler_step.intros) (rule prod.collapse [symmetric])+

lemma run_inputs_run: "scheduler_run s (run_inputs s is)"
proof (induction "is" arbitrary: s)
  case (Cons i "is")
  from Cons.IH [of "snd (run_input s i)"] run_input_step [of s i] show ?case
    by (simp add: converse_rtranclp_into_rtranclp)
qed simp

lemma reachable_run: "reachable config s \<Longrightarrow> scheduler_run s s' \<Longrightarrow> reachable config s'"
  by (rotate_tac, induction rule: rtranclp_induct) (auto intro: reachable.step)

lemma reachable_inputs: "reachable config (run_inputs (scheduler_new config) is)"
  by (rule reachable_run [OF reachable.start run_inputs_run])

end
