(* ===== verification/Lifecycle.thy ===== *)
theory Lifecycle
  imports EventFrames SchedulerRuns
begin

text \<open>
  The scheduler against its transition matrix. The abstract machine keeps the lifecycle state of every
  task and moves one of them along a cell of \<open>transition_contract\<close>. Every operation of the scheduler
  leaves the abstract state alone or takes one such step with an action its input permits, and the
  outcome it returns describes that step.
\<close>

section \<open>Accepted actions\<close>

definition acted ::
  "request_scheduler \<Rightarrow> gid \<Rightarrow> scheduler_action set \<Rightarrow> monotonic_instant \<Rightarrow> scheduler_outcome \<Rightarrow>
   request_scheduler \<Rightarrow> bool" where
  "acted s g A at out s' \<longleftrightarrow>
     (\<exists>t a us sn. bt_get (rs_tasks s) g = Some t \<and> plan_frame (rs_ids s) t A a
        \<and> plan_action s t (ap_updated a) True (ap_action a) at (ap_effects a) (ap_publish a)
            = Inr (out, us, sn)
        \<and> s' = commit_action s t (ap_updated a) us sn (ap_ids a))"

lemma actedE:
  assumes "acted s g A at out s'"
  obtains t a us sn where "bt_get (rs_tasks s) g = Some t" "plan_frame (rs_ids s) t A a"
    "plan_action s t (ap_updated a) True (ap_action a) at (ap_effects a) (ap_publish a) = Inr (out, us, sn)"
    "s' = commit_action s t (ap_updated a) us sn (ap_ids a)"
  using assms unfolding acted_def by blast

lemma run_plan_acted:
  assumes "run_plan s t at r = (res, s')" "bt_get (rs_tasks s) g = Some t"
    and "plan_all (plan_frame (rs_ids s) t A) r"
  shows "s' = s \<or> (\<exists>out. res = Inr out \<and> acted s g A at out s')"
  using assms(1)
proof (cases rule: run_plan_cases)
  case (finished a out us sn)
  then have "plan_frame (rs_ids s) t A a" using assms(3) by simp
  with finished assms(2) have "acted s g A at out s'" unfolding acted_def by blast
  with finished show ?thesis by blast
qed simp

lemma run_plan_error: "run_plan s t at r = (Inl e, s') \<Longrightarrow> s' = s"
  by (cases r) (auto simp: run_plan_def finish_action_def try_in_def split: handler_plan.splits sum.splits)

lemma run_plan_finishes:
  assumes "run_plan s t at r = (Inr out, s')" "bt_get (rs_tasks s) g = Some t"
    and "plan_all (plan_frame (rs_ids s) t A) r" "r \<noteq> Inr (Plan_Return out)"
  shows "acted s g A at out s'"
  using assms(1,3,4) unfolding acted_def
  by (cases r) (auto simp: run_plan_def finish_action_def try_in_def assms(2)
      split: handler_plan.splits sum.splits)

lemma on_task_acted:
  assumes "on_task s g at h = (res, s')" "\<And>t. plan_all (plan_frame (rs_ids s) t A) (h t)"
  shows "s' = s \<or> (\<exists>out. res = Inr out \<and> acted s g A at out s')"
proof (cases "bt_get (rs_tasks s) g")
  case (Some t)
  with assms(1) have "run_plan s t at (h t) = (res, s')"
    by (simp add: on_task_def task_clone_def)
  from run_plan_acted [OF this Some assms(2)] show ?thesis .
qed (use assms(1) in \<open>simp add: on_task_def task_clone_def\<close>)

lemma event_acted:
  assumes "handle_event_at s envelope at = (res, s')"
  shows "s' = s \<or> (\<exists>out. res = Inr out
    \<and> acted s (event_gid (env_event envelope)) (event_actions (event_kind (env_event envelope))) at out s')"
  using assms unfolding handle_event_at_def by (rule on_task_acted [OF _ guarded_event_plan_frame])

text \<open>The task a command addresses, unless it adds one or stops the process.\<close>

primrec command_task :: "scheduler_command \<Rightarrow> gid option" where
  "command_task (Cmd_AddValidatedTask task g paused conditions) = None"
| "command_task (Cmd_AddValidatedTaskAt task g paused conditions pos) = None"
| "command_task (Cmd_Pause g force) = Some g"
| "command_task (Cmd_Resume g) = Some g"
| "command_task (Cmd_ApproveHostKey g challenge fingerprint) = Some g"
| "command_task (Cmd_ApplyOptionPatch g patch kind credentials) = Some g"
| "command_task (Cmd_BeginSourceReplacement g) = Some g"
| "command_task (Cmd_CommitSourceReplacement g credentials) = Some g"
| "command_task (Cmd_Remove g force) = Some g"
| "command_task (Cmd_RemoveStoppedResult g) = Some g"
| "command_task (Cmd_ChangePosition g pos) = None"
| "command_task Cmd_OrderlyShutdown = None"

lemma command_acted:
  assumes "execute_command_at s at cmd = (res, s')" "command_task cmd = Some g"
  shows "s' = s \<or> (\<exists>out. res = Inr out \<and> acted s g (command_actions (command_kind cmd)) at out s')"
proof -
  have *: "s' = s \<or> (\<exists>out. res = Inr out \<and> acted s g A at out s')"
    if "on_task s g at h = (res, s')" "\<And>t. plan_all (plan_frame (rs_ids s) t A) (h t)" for h A
    using that by (rule on_task_acted)
  from assms show ?thesis
    by (cases cmd)
      (auto dest!: * [OF _ pause_frame] * [OF _ resume_frame] * [OF _ approve_host_key_frame]
        * [OF _ apply_option_patch_frame] * [OF _ begin_source_replacement_frame]
        * [OF _ commit_source_replacement_frame] * [OF _ remove_frame] * [OF _ remove_stopped_result_frame])
qed

section \<open>What an accepted action leaves\<close>

lemma with_queue_effect_bound:
  assumes "with_queue_effect s t u present a es c d us = Inr es1"
  shows "length es1 \<le> Suc (length es)"
    and "effects_for (t_task_id t) (t_gid t) es \<Longrightarrow> effects_for (t_task_id t) (t_gid t) es1"
  using assms
  by (auto simp: with_queue_effect_def Let_def and_then_eq_Inr split: option.splits if_splits)

text \<open>
  The outcome of a step on the task \<open>g\<close>: the action \<open>a\<close> it names, the task before and after it, the
  transition or deletion it reports, and the effects it asks for.
\<close>

definition describes ::
  "request_scheduler \<Rightarrow> gid \<Rightarrow> scheduler_action \<Rightarrow> monotonic_instant \<Rightarrow> scheduler_outcome \<Rightarrow>
   request_scheduler \<Rightarrow> bool" where
  "describes s g a at out s' \<longleftrightarrow>
     (\<exists>t. bt_get (rs_tasks s) g = Some t
        \<and> effects_for (t_task_id t) g (out_effects out) \<and> length (out_effects out) \<le> 8
        \<and> (let c = transition_contract (t_state t) a in
           case bt_get (rs_tasks s') g of
             Some u \<Rightarrow>
               t_state u \<in> step_targets c \<and> t_task_id u = t_task_id t
               \<and> t_generation t \<le> t_generation u
               \<and> out_deletion out = None
               \<and> out_transition out =
                   Some \<lparr>st_task = t_task_id t, st_gid = g, st_generation = t_generation u,
                         st_from = t_state t, st_to = t_state u, st_reason = ct_reason c, st_at = at\<rparr>
           | None \<Rightarrow>
               ct_kind c = TCK_Delete \<and> out_transition out = None
               \<and> out_deletion out =
                   Some \<lparr>td_task = t_task_id t, td_gid = g, td_generation = t_generation t,
                         td_from = t_state t, td_reason = ct_reason c, td_at = at\<rparr>))
     \<and> (\<forall>h. h \<noteq> g \<longrightarrow> bt_get (rs_tasks s') h = bt_get (rs_tasks s) h)"

lemma outcome_parts_deletion:
  assumes "outcome_parts c t None at = Inr (tr, del)"
  shows "del = Some \<lparr>td_task = t_task_id t, td_gid = t_gid t, td_generation = t_generation t,
                     td_from = t_state t, td_reason = ct_reason c, td_at = at\<rparr>"
  using assms by (cases "ct_kind c"; simp add: outcome_parts_def)

lemma acted_effects:
  assumes "plan_frame i t A a"
    and "plan_action s t (ap_updated a) True (ap_action a) at (ap_effects a) (ap_publish a) = Inr (out, us, sn)"
  shows "effects_for (t_task_id t) (t_gid t) (out_effects out)"
proof (rule plan_action_okE [OF assms(2)])
  fix es1 tr del us0
  assume "with_queue_effect s t (ap_updated a) True (ap_action a) (ap_effects a)
      (if True then task_queue_class t else None) (Option.bind (ap_updated a) task_queue_class) us = Inr es1"
    and sn: "published_snapshot_of s (ap_updated a) (ap_publish a) = Inr sn"
    and out: "out = \<lparr>out_transition = tr, out_deletion = del,
      out_effects = es1 @ (case sn of None \<Rightarrow> [] | Some x \<Rightarrow> [Eff_PublishSnapshot (t_task_id t) x])\<rparr>"
  note eff = this(1) [simplified]
  have "effects_for (t_task_id t) (t_gid t) es1"
    using with_queue_effect_bound(2) [OF eff] assms(1) by (simp add: plan_frame_def)
  moreover have "\<And>x. sn = Some x \<Longrightarrow> sn_gid x = t_gid t"
  proof -
    fix x assume "sn = Some x"
    then obtain u where "ap_updated a = Some u" "x = task_snapshot_of u (cfg_retry_wait_holds_slot (rs_config s))"
      using published_snapshot_ofD(1) [OF sn] by (cases "ap_publish a"; cases "ap_updated a") simp_all
    with assms(1) show "sn_gid x = t_gid t" by (simp add: plan_frame_def task_snapshot_gid)
  qed
  ultimately show ?thesis by (simp add: out split: option.split)
qed

lemma acted_describes:
  assumes inv: "sched_inv s" and act: "acted s g A at out s'"
  shows "\<exists>a \<in> A. describes s g a at out s'"
  using act
proof (rule actedE)
  fix t a us sn
  assume t: "bt_get (rs_tasks s) g = Some t" and frame: "plan_frame (rs_ids s) t A a"
    and plan: "plan_action s t (ap_updated a) True (ap_action a) at (ap_effects a) (ap_publish a)
      = Inr (out, us, sn)"
    and s': "s' = commit_action s t (ap_updated a) us sn (ap_ids a)"
  have g: "t_gid t = g" and wf: "bt_wf (rs_tasks s)" using sched_invD(6,7) [OF inv] t by auto
  obtain tr del where
    parts: "outcome_parts (transition_contract (t_state t) (ap_action a)) t (ap_updated a) at = Inr (tr, del)"
    and out: "out_transition out = tr" "out_deletion out = del" "length (out_effects out) \<le> 8"
    using plan by (rule plan_action_okE) simp
  have eff: "effects_for (t_task_id t) g (out_effects out)"
    using acted_effects [OF frame plan] by (simp add: g)
  have "describes s g (ap_action a) at out s'"
  proof (cases "ap_updated a")
    case None
    note p = parts [unfolded None]
    show ?thesis
      using outcome_parts_None [OF p] outcome_parts_deletion [OF p] t eff out wf None
      by (simp add: describes_def s' g)
  next
    case (Some u)
    with frame have u: "t_gid u = g" "t_task_id u = t_task_id t" "t_generation t \<le> t_generation u"
      by (simp_all add: plan_frame_def g)
    with outcome_parts_Some [of _ t u at tr del] parts Some t eff out show ?thesis
      by (simp add: describes_def s')
  qed
  moreover have "ap_action a \<in> A" using frame by (simp add: plan_frame_def)
  ultimately show ?thesis by blast
qed

text \<open>Six effects of a handler, the queue effect and the snapshot are within the limit of eight.\<close>

lemma and_then_neq_Inl:
  "r \<noteq> Inl e \<Longrightarrow> (\<And>x. r = Inr x \<Longrightarrow> f x \<noteq> Inl e) \<Longrightarrow> and_then r f \<noteq> Inl e"
  by (cases r) simp_all

lemma planning_errors:
  "with_queue_effect s t u present a es c d us \<noteq> Inl SE_EffectLimitExceeded"
  "queue_updates s g c d \<noteq> Inl SE_EffectLimitExceeded"
  "check_stopped_deletion s a us \<noteq> Inl SE_EffectLimitExceeded"
  "published_snapshot_of s u pub \<noteq> Inl SE_EffectLimitExceeded"
  "outcome_parts cell t u at \<noteq> Inl SE_EffectLimitExceeded"
  "target_for_action t a \<noteq> Inl SE_EffectLimitExceeded"
  by (auto simp: with_queue_effect_def queue_updates_def check_stopped_deletion_def
      published_snapshot_of_def outcome_parts_def target_for_action_def scheduled_task_snapshot_def
      map_err_def
      Let_def and_then_def ok_or_def split: option.splits if_splits sum.splits list.splits
      transition_contract_kind.splits transition_rejection.splits)

lemma plan_effects_fit:
  assumes "plan_frame i t A a"
  shows "plan_action s t (ap_updated a) True (ap_action a) at (ap_effects a) (ap_publish a)
    \<noteq> Inl SE_EffectLimitExceeded"
proof -
  have len: "length (ap_effects a) \<le> 6" using assms by (simp add: plan_frame_def)
  have fits: "outcome_checked tr del (es1 @ (case sn of None \<Rightarrow> [] | Some x \<Rightarrow> [f x]))
      \<noteq> Inl SE_EffectLimitExceeded" if "length es1 \<le> Suc (length (ap_effects a))" for tr del es1 sn f
    using that len by (auto simp: outcome_checked_def MAX_SCHEDULER_EFFECTS_def split: option.splits)
  show ?thesis
    unfolding plan_action_def Let_def split_paired_all prod.case
    by (simp, intro conjI impI and_then_neq_Inl planning_errors)
      (simp_all add: split_beta, intro and_then_neq_Inl fits, erule with_queue_effect_bound(1), simp)
qed

section \<open>The abstract machine\<close>

type_synonym lifecycle = "gid \<Rightarrow> task_state option"

definition lifecycle_of :: "request_scheduler \<Rightarrow> lifecycle" where
  "lifecycle_of s g = map_option t_state (bt_get (rs_tasks s) g)"

inductive lifecycle_step :: "scheduler_action set \<Rightarrow> lifecycle \<Rightarrow> lifecycle \<Rightarrow> bool" for A where
  move: "m g = Some st \<Longrightarrow> a \<in> A \<Longrightarrow> st' \<in> step_targets (transition_contract st a) \<Longrightarrow>
    lifecycle_step A m (m(g \<mapsto> st'))"
| delete: "m g = Some st \<Longrightarrow> a \<in> A \<Longrightarrow> ct_kind (transition_contract st a) = TCK_Delete \<Longrightarrow>
    lifecycle_step A m (m(g := None))"
| add: "m g = None \<Longrightarrow> a \<in> A \<Longrightarrow> st' \<in> step_targets (transition_contract TS_Accepted a) \<Longrightarrow>
    lifecycle_step A m (m(g \<mapsto> st'))"

lemma describes_lifecycle:
  assumes "describes s g a at out s'" "a \<in> A"
  shows "lifecycle_step A (lifecycle_of s) (lifecycle_of s')"
proof -
  from assms(1) obtain t where t: "bt_get (rs_tasks s) g = Some t"
    and other: "\<And>h. h \<noteq> g \<Longrightarrow> bt_get (rs_tasks s') h = bt_get (rs_tasks s) h"
    by (auto simp: describes_def)
  have m: "lifecycle_of s g = Some (t_state t)" by (simp add: lifecycle_of_def t)
  show ?thesis
  proof (cases "bt_get (rs_tasks s') g")
    case None
    then have "lifecycle_of s' = (lifecycle_of s)(g := None)"
      using other by (simp add: lifecycle_of_def fun_eq_iff)
    moreover have "ct_kind (transition_contract (t_state t) a) = TCK_Delete"
      using assms(1) t None by (simp add: describes_def Let_def)
    ultimately show ?thesis using lifecycle_step.delete [of "lifecycle_of s" g, OF m assms(2)] by simp
  next
    case (Some u)
    then have "lifecycle_of s' = (lifecycle_of s)(g \<mapsto> t_state u)"
      using other by (simp add: lifecycle_of_def fun_eq_iff)
    moreover have "t_state u \<in> step_targets (transition_contract (t_state t) a)"
      using assms(1) t Some by (simp add: describes_def Let_def)
    ultimately show ?thesis using lifecycle_step.move [of "lifecycle_of s" g, OF m assms(2)] by simp
  qed
qed

lemma change_position_tasks: "rs_tasks (snd (change_position s g pos)) = rs_tasks s"
  unfolding change_position_def queue_effects_for_reorder_def Let_def
  by (auto simp: try_in_def split: sum.splits option.splits)

lemma added_lifecycle:
  assumes "add_accepts s task g conditions"
  shows "lifecycle_step (command_actions CMK_AddValidatedTask) (lifecycle_of s)
    (lifecycle_of (added s task g paused conditions p))"
proof -
  have "lifecycle_of (added s task g paused conditions p)
      = (lifecycle_of s)(g \<mapsto> (if paused then TS_Paused else TS_Waiting))"
    by (auto simp: lifecycle_of_def fun_eq_iff added_def new_task_def Let_def)
  moreover have "lifecycle_of s g = None" using assms by (simp add: lifecycle_of_def add_accepts_def)
  ultimately show ?thesis
    using lifecycle_step.add [of "lifecycle_of s" g "for_validated_add paused"]
    by (auto simp: for_validated_add_def step_targets_def transition_contract.simps contract_defs)
qed

lemma add_lifecycle:
  assumes "sched_inv s" "add_validated_task s task g paused conditions pos at = (res, s')"
  shows "s' = s \<or> lifecycle_step (command_actions CMK_AddValidatedTask) (lifecycle_of s) (lifecycle_of s')"
  using assms add_validated_task_eq [OF assms(1)] added_lifecycle
    add_validated_task_rejects [of s task g conditions paused pos at]
  by (cases "add_accepts s task g conditions") fastforce+

lemma command_lifecycle:
  assumes inv: "sched_inv s" and run: "execute_command_at s at cmd = (res, s')"
  shows "lifecycle_of s' = lifecycle_of s
    \<or> lifecycle_step (command_actions (command_kind cmd)) (lifecycle_of s) (lifecycle_of s')"
proof (cases "command_task cmd")
  case (Some g)
  from command_acted [OF run Some] show ?thesis
    using acted_describes [OF inv] describes_lifecycle by blast
next
  case None
  with run show ?thesis
    using add_lifecycle [OF inv] change_position_tasks
    by (cases cmd) (auto simp: lifecycle_of_def fun_eq_iff, (metis snd_conv)+)
qed

lemma event_lifecycle:
  assumes "sched_inv s" "handle_event_at s envelope at = (res, s')"
  shows "lifecycle_of s' = lifecycle_of s
    \<or> lifecycle_step (event_actions (event_kind (env_event envelope))) (lifecycle_of s) (lifecycle_of s')"
  using event_acted [OF assms(2)] acted_describes [OF assms(1)] describes_lifecycle by blast

text \<open>
  An admission acts on its candidate; afterwards the slow-readmission positions of the other tasks may
  count down.
\<close>

lemma decrement_get:
  "bt_get (bt_map_values decrement_slow_position m) g = map_option decrement_slow_position (bt_get m g)"
  by simp

lemma admission_plan_returns: "admission_plan s t \<noteq> Inr (Plan_Return out)"
  by (auto simp: admission_plan_def plan_finish_def and_then_eq_Inr)

lemma admit_acted:
  assumes "admit_next_at s at = (res, s')"
  obtains (unchanged) "s' = s"
  | (acted) g out s1 where "admission_candidate s = Inr g" "res = Inr out"
      "acted s g admission_actions at out s1"
      "s' = s1 \<or> s' = s1\<lparr>rs_tasks := bt_map_values decrement_slow_position (rs_tasks s1)\<rparr>"
proof (cases "admission_candidate s")
  case (Inr g)
  show ?thesis
  proof (cases "bt_get (rs_tasks s) g")
    case (Some t)
    show ?thesis
    proof (cases "t_state t = TS_Waiting \<and> t_pending_option_patch_mode t = Some POM_ActiveRestart")
      case True
      with assms Inr Some have "run_plan s t at (restart_application_plan s t) = (res, s')"
        by (simp add: admit_next_at_def task_clone_def)
      from run_plan_acted [OF this Some restart_application_frame] show ?thesis
        using that Inr by blast
    next
      case False
      obtain r s1 where run: "run_plan s t at (admission_plan s t) = (r, s1)" by fastforce
      with assms Inr Some False
      have "(res, s') = try_in s1 r (\<lambda>outcome. (Inr outcome,
          if t_state t \<noteq> TS_WaitingSlow
          then s1\<lparr>rs_tasks := bt_map_values decrement_slow_position (rs_tasks s1)\<rparr> else s1))"
        by (simp add: admit_next_at_def task_clone_def Let_def)
      with run_plan_error [of s t at] run_plan_finishes [of s t at _ _ s1, OF _ Some admission_frame admission_plan_returns]
        run Inr that show ?thesis
        by (cases r) (auto split: if_splits)
    qed
  qed (use assms Inr that in \<open>simp add: admit_next_at_def task_clone_def\<close>)
qed (use assms that in \<open>simp add: admit_next_at_def\<close>)

lemma admit_lifecycle:
  assumes inv: "sched_inv s" and run: "admit_next_at s at = (res, s')"
  shows "lifecycle_of s' = lifecycle_of s
    \<or> lifecycle_step admission_actions (lifecycle_of s) (lifecycle_of s')"
  using run
proof (cases rule: admit_acted)
  case (acted g out s1)
  have "lifecycle_of s' = lifecycle_of s1"
    using acted(4) by (auto simp: lifecycle_of_def fun_eq_iff option.map_comp comp_def)
  with acted_describes [OF inv acted(3)] describes_lifecycle show ?thesis by metis
qed simp

section \<open>Inputs\<close>

text \<open>The actions an input permits, the task it addresses and the time it carries.\<close>

primrec input_actions :: "scheduler_input \<Rightarrow> scheduler_action set" where
  "input_actions (In_Command at cmd) = command_actions (command_kind cmd)"
| "input_actions (In_Event at envelope) = event_actions (event_kind (env_event envelope))"
| "input_actions (In_Admission at) = admission_actions"

primrec input_task :: "scheduler_input \<Rightarrow> gid option" where
  "input_task (In_Command at cmd) = command_task cmd"
| "input_task (In_Event at envelope) = Some (event_gid (env_event envelope))"
| "input_task (In_Admission at) = None"

primrec input_time :: "scheduler_input \<Rightarrow> monotonic_instant" where
  "input_time (In_Command at cmd) = at"
| "input_time (In_Event at envelope) = at"
| "input_time (In_Admission at) = at"

lemma input_lifecycle:
  assumes "sched_inv s" "run_input s i = (res, s')"
  shows "lifecycle_of s' = lifecycle_of s
    \<or> lifecycle_step (input_actions i) (lifecycle_of s) (lifecycle_of s')"
  using assms command_lifecycle event_lifecycle admit_lifecycle by (cases i) auto

lemma input_describes:
  assumes "sched_inv s" "run_input s i = (Inr out, s')" "s' \<noteq> s" "input_task i = Some g"
  shows "\<exists>a \<in> input_actions i. describes s g a (input_time i) out s'"
  using assms command_acted event_acted acted_describes [OF assms(1)] by (cases i) fastforce+

text \<open>An error leaves the scheduler as it was.\<close>

lemma on_task_error: "on_task s g at h = (Inl e, s') \<Longrightarrow> s' = s"
  by (cases "bt_get (rs_tasks s) g") (auto simp: on_task_def task_clone_def dest: run_plan_error)

lemma try_in_error:
  "try_in s r k = (Inl e, s') \<Longrightarrow> (\<And>a. k a = (Inl e, s') \<Longrightarrow> s' = s) \<Longrightarrow> s' = s"
  by (cases r) auto

lemma finish_action_error: "finish_action s t u present a at es pub ids = (Inl e, s') \<Longrightarrow> s' = s"
  unfolding finish_action_def by (erule try_in_error) (auto split: prod.splits)

lemma try_in_returns: "try_in s r (\<lambda>x. (Inr (h x), f x)) = (Inl e, s') \<Longrightarrow> r = Inl e \<and> s' = s"
  by (cases r) auto

lemma add_error: "add_validated_task s task g paused conditions pos at = (Inl e, s') \<Longrightarrow> s' = s"
  unfolding add_validated_task_def
  by (auto simp: Let_def elim!: try_in_error split: if_splits option.splits prod.splits
      dest!: try_in_returns dest: finish_action_error)

lemma change_position_error: "change_position s g pos = (Inl e, s') \<Longrightarrow> s' = s"
  unfolding change_position_def queue_effects_for_reorder_def Let_def
  by (erule try_in_error)+ (auto elim!: try_in_error split: option.splits if_splits)

lemma admit_error: "admit_next_at s at = (Inl e, s') \<Longrightarrow> s' = s"
  by (erule admit_acted) auto

lemma input_error: "run_input s i = (Inl e, s') \<Longrightarrow> s' = s"
proof (cases i)
  case (In_Command at cmd)
  moreover assume "run_input s i = (Inl e, s')"
  ultimately show "s' = s" by (cases cmd) (auto dest: on_task_error add_error change_position_error)
qed (auto simp: handle_event_at_def dest: on_task_error admit_error)

end
