(* ===== verification/TaskHistory.thy ===== *)
theory TaskHistory
  imports Lifecycle
begin

text \<open>
  The history of a task over a run: its identity, its generation and its terminal status, and the
  correlation identifiers it waits for. One step changes one task, which the relation \<open>version_step\<close>
  describes; the properties of a run follow by induction over the steps.
\<close>

section \<open>One step\<close>

definition newer :: "task_id \<Rightarrow> request_scheduler \<Rightarrow> bool" where
  "newer i s \<longleftrightarrow> (\<forall>h. rs_highest_task_id s = Some h \<longrightarrow> h < i)"

definition no_tokens :: "scheduled_task \<Rightarrow> bool" where
  "no_tokens t \<longleftrightarrow>
     retry_token t = None \<and> readmission_token t = None \<and> probe_token t = None
     \<and> resolution_token t = None \<and> deletion_token t = None"

definition state_step :: "task_state \<Rightarrow> task_state \<Rightarrow> bool" where
  "state_step st st' \<longleftrightarrow> st' = st \<or> (\<exists>a. st' \<in> step_targets (transition_contract st a))"

definition version_step :: "id_counters \<Rightarrow> id_counters \<Rightarrow> scheduled_task \<Rightarrow> scheduled_task \<Rightarrow> bool" where
  "version_step i j t u \<longleftrightarrow>
     t_task_id u = t_task_id t \<and> t_generation t \<le> t_generation u
     \<and> patch_step (t_highest_option_patch_id t) (t_highest_option_patch_id u)
     \<and> tokens_step t u i j \<and> stopped_step t u \<and> state_step (t_state t) (t_state u)"

lemma version_step_refl [simp]: "version_step i j t t"
  by (simp add: version_step_def tokens_step_def state_step_def)

definition same_task :: "scheduled_task \<Rightarrow> scheduled_task \<Rightarrow> bool" where
  "same_task t u \<longleftrightarrow> u = t \<or> u = decrement_slow_position t"

definition step_on :: "gid \<Rightarrow> request_scheduler \<Rightarrow> request_scheduler \<Rightarrow> bool" where
  "step_on g s s' \<longleftrightarrow>
     ids_step (rs_ids s) (rs_ids s')
     \<and> (\<forall>h. h \<noteq> g \<longrightarrow> rel_option same_task (bt_get (rs_tasks s) h) (bt_get (rs_tasks s') h))
     \<and> (\<forall>u. bt_get (rs_tasks s') g = Some u \<longrightarrow>
          (case bt_get (rs_tasks s) g of
             Some t \<Rightarrow> version_step (rs_ids s) (rs_ids s') t u
           | None \<Rightarrow> newer (t_task_id u) s \<and> rs_highest_task_id s' = Some (t_task_id u) \<and> no_tokens u))
     \<and> (rs_highest_task_id s' = rs_highest_task_id s
        \<or> (\<exists>i. rs_highest_task_id s' = Some i \<and> newer i s))"

lemma step_on_same:
  assumes "rs_tasks s' = rs_tasks s" "rs_ids s' = rs_ids s" "rs_highest_task_id s' = rs_highest_task_id s"
  shows "step_on g s s'"
proof -
  have "rel_option same_task x x" for x by (cases x) (simp_all add: same_task_def)
  then show ?thesis using assms by (simp add: step_on_def split: option.split)
qed

lemma acted_step_on:
  assumes inv: "sched_inv s" and act: "acted s g A at out s'"
  shows "step_on g s s'"
  using act
proof (rule actedE)
  fix t a us sn
  assume t: "bt_get (rs_tasks s) g = Some t" and frame: "plan_frame (rs_ids s) t A a"
    and s': "s' = commit_action s t (ap_updated a) us sn (ap_ids a)"
  have g: "t_gid t = g" and wf: "bt_wf (rs_tasks s)" using sched_invD(6,7) [OF inv] t by auto
  have refl: "rel_option same_task x x" for x by (cases x) (simp_all add: same_task_def)
  show ?thesis
  proof (cases "ap_updated a")
    case None
    with frame g wf refl t show ?thesis by (simp add: step_on_def s' plan_frame_def)
  next
    case (Some u)
    moreover from Some frame g have u: "t_gid u = g" by (simp add: plan_frame_def)
    moreover have "state_step (t_state t) (t_state u)"
      using acted_describes [OF inv act] t u Some
      by (auto simp: describes_def s' state_step_def Let_def)
    ultimately have "t_gid u = g" "version_step (rs_ids s) (ap_ids a) t u"
      using frame by (simp_all add: plan_frame_def version_step_def)
    with Some frame refl t show ?thesis by (simp add: step_on_def s' plan_frame_def)
  qed
qed

lemma decrement_tokens [simp]:
  "retry_token (decrement_slow_position t) = retry_token t"
  "readmission_token (decrement_slow_position t) = readmission_token t"
  "probe_token (decrement_slow_position t) = probe_token t"
  "resolution_token (decrement_slow_position t) = resolution_token t"
  "deletion_token (decrement_slow_position t) = deletion_token t"
  "t_generation (decrement_slow_position t) = t_generation t"
  "t_highest_option_patch_id (decrement_slow_position t) = t_highest_option_patch_id t"
  "t_stopped_status (decrement_slow_position t) = t_stopped_status t"
  by (simp_all add: decrement_slow_position_def)

lemma version_step_decrement [simp]:
  "version_step i j t (decrement_slow_position u) = version_step i j t u"
  "no_tokens (decrement_slow_position u) = no_tokens u"
  by (simp_all add: version_step_def tokens_step_def stopped_step_def no_tokens_def)

lemma admit_step_on:
  assumes inv: "sched_inv s" and run: "admit_next_at s at = (res, s')"
  shows "\<exists>g. step_on g s s'"
  using run
proof (cases rule: admit_acted)
  case unchanged
  then show ?thesis using step_on_same by blast
next
  case (acted g out s1)
  have step: "step_on g s s1" using acted_step_on [OF inv acted(3)] .
  have other: "\<And>h. h \<noteq> g \<Longrightarrow> bt_get (rs_tasks s1) h = bt_get (rs_tasks s) h"
    using acted_describes [OF inv acted(3)] by (auto simp: describes_def)
  have "step_on g s (s1\<lparr>rs_tasks := bt_map_values decrement_slow_position (rs_tasks s1)\<rparr>)"
    using step other
    by (auto simp: step_on_def same_task_def rel_option_iff split: option.splits)
  with acted(4) step show ?thesis by blast
qed

lemma add_step_on:
  assumes inv: "sched_inv s" and run: "add_validated_task s task g paused conditions pos at = (res, s')"
  shows "step_on g s s'"
proof (cases "add_accepts s task g conditions")
  case True
  then have s': "s' = added s task g paused conditions (add_position s paused pos)"
    using add_validated_task_eq [OF inv True, of paused pos at] run by simp
  have refl: "rel_option same_task x x" for x by (cases x) (simp_all add: same_task_def)
  have "no_tokens (new_task task g paused conditions)" "t_task_id (new_task task g paused conditions) = task"
    by (simp_all add: no_tokens_def token_defs new_task_def scheduled_task_new_def)
  with True refl show ?thesis
    by (auto simp: s' step_on_def added_def Let_def add_accepts_def newer_def)
next
  case False
  then show ?thesis using add_validated_task_rejects [OF False] run step_on_same by (metis prod.inject)
qed

definition only_queues :: "request_scheduler \<Rightarrow> request_scheduler \<Rightarrow> bool" where
  "only_queues s s' \<longleftrightarrow>
     rs_tasks s' = rs_tasks s \<and> rs_ids s' = rs_ids s \<and> rs_highest_task_id s' = rs_highest_task_id s"

lemma only_queues_simps [simp]: "only_queues s s" "only_queues s (s\<lparr>rs_queues := q\<rparr>)"
  by (simp_all add: only_queues_def)

lemma only_queues_try_in:
  "(\<And>a. r = Inr a \<Longrightarrow> only_queues s (snd (k a))) \<Longrightarrow> only_queues s (snd (try_in s r k))"
  by (cases r) simp_all

lemma change_position_frame: "only_queues s (snd (change_position s g pos))"
  unfolding change_position_def queue_effects_for_reorder_def Let_def
  by (intro only_queues_try_in) (simp add: only_queues_try_in split: option.split)

lemma command_step_on:
  assumes inv: "sched_inv s" and run: "execute_command_at s at cmd = (res, s')"
  shows "\<exists>g. step_on g s s'"
proof (cases "command_task cmd")
  case (Some g)
  from command_acted [OF run Some] show ?thesis
    using acted_step_on [OF inv] step_on_same by blast
next
  case None
  show ?thesis
  proof (cases cmd)
    case (Cmd_ChangePosition g pos)
    with run change_position_frame [of s g pos] show ?thesis
      by (auto simp: only_queues_def intro!: exI step_on_same)
  next
    case Cmd_OrderlyShutdown
    with run show ?thesis by (auto intro!: exI step_on_same)
  qed (use None run in \<open>auto dest!: add_step_on [OF inv]\<close>)
qed

lemma scheduler_step_on:
  assumes "scheduler_step s s'" "sched_inv s"
  shows "\<exists>g. step_on g s s'"
  using assms
proof (induction rule: scheduler_step.induct)
  case (event s envelope at res s')
  from event_acted [OF event(1)] show ?case
    using acted_step_on [OF event(2)] step_on_same by blast
next
  case (policies s holds policy)
  show ?case by (rule exI, rule step_on_same) (simp_all add: configure_queue_policies_def)
qed (use command_step_on admit_step_on in blast)+

section \<open>Runs\<close>

lemma scheduler_run_inv: "scheduler_run s s' \<Longrightarrow> sched_inv s \<Longrightarrow> sched_inv s'"
  by (induction rule: rtranclp_induct) (auto intro: scheduler_step_inv)

lemma version_identity:
  "version_step i j t u \<Longrightarrow> t_task_id u = t_task_id t \<and> t_generation t \<le> t_generation u
     \<and> patch_step (t_highest_option_patch_id t) (t_highest_option_patch_id u)"
  by (simp add: version_step_def)

lemma same_version: "same_task t u \<Longrightarrow> version_step i j t u"
  by (auto simp: same_task_def)

text \<open>Every task of the new state continues a task of the old one or carries a new identifier.\<close>

lemma step_on_tasks:
  assumes "step_on g s s'" "bt_get (rs_tasks s') h = Some u"
  shows "(\<exists>t. bt_get (rs_tasks s) h = Some t \<and> version_step (rs_ids s) (rs_ids s') t u)
    \<or> bt_get (rs_tasks s) h = None \<and> newer (t_task_id u) s \<and> no_tokens u"
proof (cases "h = g")
  case True
  with assms show ?thesis by (cases "bt_get (rs_tasks s) g") (simp_all add: step_on_def)
next
  case False
  with assms have "rel_option same_task (bt_get (rs_tasks s) h) (Some u)" by (metis step_on_def)
  then show ?thesis by (cases "bt_get (rs_tasks s) h") (simp_all add: same_version)
qed

lemma newer_step: "step_on g s s' \<Longrightarrow> newer i s' \<Longrightarrow> newer i s"
  by (auto simp: step_on_def newer_def)

lemma patch_step_trans: "patch_step a b \<Longrightarrow> patch_step b c \<Longrightarrow> patch_step a c"
  by (fastforce simp: patch_step_def)

definition continues :: "scheduled_task \<Rightarrow> scheduled_task \<Rightarrow> bool" where
  "continues t u \<longleftrightarrow>
     t_task_id u = t_task_id t \<and> t_generation t \<le> t_generation u
     \<and> patch_step (t_highest_option_patch_id t) (t_highest_option_patch_id u)"

lemma continues_trans: "continues t u \<Longrightarrow> continues u v \<Longrightarrow> continues t v"
  by (auto simp: continues_def intro: patch_step_trans)

lemma run_tasks:
  assumes "scheduler_run s s'" "sched_inv s"
  shows "(bt_get (rs_tasks s') h = Some u \<longrightarrow>
      (\<exists>t. bt_get (rs_tasks s) h = Some t \<and> continues t u) \<or> newer (t_task_id u) s)
    \<and> (newer i s' \<longrightarrow> newer i s)"
  using assms
proof (induction arbitrary: u i rule: rtranclp_induct)
  case base
  then show ?case by (auto simp: continues_def)
next
  case (step s1 s2)
  obtain g where on: "step_on g s1 s2"
    using scheduler_step_on [OF step(2)] scheduler_run_inv [OF step(1,4)] by blast
  show ?case
  proof (intro conjI impI)
    assume "bt_get (rs_tasks s2) h = Some u"
    from step_on_tasks [OF on this] show "(\<exists>t. bt_get (rs_tasks s) h = Some t \<and> continues t u) \<or> newer (t_task_id u) s"
    proof
      assume "\<exists>t. bt_get (rs_tasks s1) h = Some t \<and> version_step (rs_ids s1) (rs_ids s2) t u"
      then obtain v where v: "bt_get (rs_tasks s1) h = Some v" and "version_step (rs_ids s1) (rs_ids s2) v u"
        by blast
      then have "continues v u" by (auto simp: continues_def dest: version_identity)
      moreover from this have "t_task_id u = t_task_id v" by (simp add: continues_def)
      ultimately show ?thesis using step.IH [OF step(4), of v] v continues_trans by metis
    next
      assume "bt_get (rs_tasks s1) h = None \<and> newer (t_task_id u) s1 \<and> no_tokens u"
      with step.IH [OF step(4)] show ?thesis by blast
    qed
  next
    assume "newer i s2"
    with newer_step [OF on] step.IH [OF step(4)] show "newer i s" by blast
  qed
qed

lemma task_not_newer:
  assumes "sched_inv s" "bt_get (rs_tasks s) g = Some t"
  shows "\<not> newer (t_task_id t) s"
  using maps_okD(5,7) [OF sched_invD(1) [OF assms(1)]] assms(2) by (fastforce simp: newer_def)

lemma run_same_task:
  assumes inv: "sched_inv s" and run: "scheduler_run s s'"
    and t: "bt_get (rs_tasks s) g = Some t" and u: "bt_get (rs_tasks s') h = Some u"
    and id: "t_task_id u = t_task_id t"
  shows "h = g" "continues t u"
proof -
  have "\<not> newer (t_task_id u) s" using task_not_newer [OF inv t] id by simp
  with run_tasks [OF run inv, of h u] u obtain v where v: "bt_get (rs_tasks s) h = Some v" "continues v u"
    by blast
  then have "t_task_id v = t_task_id t" using id by (simp add: continues_def)
  with maps_ok_task_id_inj [OF sched_invD(1) [OF inv] t v(1)] show "h = g" by simp
  with v t show "continues t u" by simp
qed

section \<open>Terminal status\<close>

definition final_status :: "scheduled_task \<Rightarrow> aria2_status option" where
  "final_status t =
     (case t_state t of
        TS_Complete \<Rightarrow> Some AS_Complete
      | TS_Error \<Rightarrow> Some AS_Error
      | TS_Removed \<Rightarrow> Some AS_Removed
      | TS_StoppedResult \<Rightarrow> t_stopped_status t
      | _ \<Rightarrow> None)"

lemma final_status_terminal: "final_status t = Some x \<Longrightarrow> is_terminal (t_state t)"
  by (cases "t_state t") (simp_all add: final_status_def is_terminal_def)

lemma terminal_final_status: "task_ok t \<Longrightarrow> is_terminal (t_state t) \<Longrightarrow> final_status t \<noteq> None"
  by (cases "t_state t") (auto simp: final_status_def is_terminal_def is_terminal_pending_def task_ok_def terminal_inv_def)

lemma final_status_step:
  assumes ok: "task_ok t" "task_ok u" and step: "version_step i j t u" and final: "final_status t = Some x"
  shows "final_status u = Some x"
proof -
  have over: "is_terminal (t_state t)" using final_status_terminal [OF final] .
  have st: "t_state u = t_state t \<or> (is_terminal_pending (t_state t) \<and> t_state u = TS_StoppedResult)"
    using step transition_contract_targets_terminal [OF over]
    by (auto simp: version_step_def state_step_def step_targets_def split: if_splits)
  have inv: "t_state t = TS_StoppedResult \<longleftrightarrow> t_stopped_status t \<noteq> None"
    "t_state u = TS_StoppedResult \<longleftrightarrow> t_stopped_status u \<noteq> None"
    using ok unfolding task_ok_def terminal_inv_def by blast+
  have bar: "terminal_state y = Some (t_state t)" if "t_pending_barrier t = Some (PB_TerminalPersistence g y)" for g y
    using task_okD(2) [OF ok(1) that] by simp
  have stop: "t_stopped_status u = None \<or> t_stopped_status u = t_stopped_status t
      \<or> (\<exists>g y. t_pending_barrier t = Some (PB_TerminalPersistence g y) \<and> t_stopped_status u = Some y)"
    using step by (simp add: version_step_def stopped_step_def)
  show ?thesis
  proof (cases "t_state u = TS_StoppedResult")
    case False
    with st have "t_state u = t_state t" by blast
    with final False show ?thesis by (cases "t_state t") (simp_all add: final_status_def)
  next
    case True
    with inv(2) stop consider "t_stopped_status u = t_stopped_status t" "t_stopped_status t \<noteq> None"
      | y where "terminal_state y = Some (t_state t)" "t_stopped_status u = Some y"
      using bar by auto
    then show ?thesis
    proof cases
      case 1
      with inv(1) have "t_state t = TS_StoppedResult" by blast
      with 1 True final show ?thesis by (simp add: final_status_def)
    next
      case 2
      with True final show ?thesis by (cases y) (auto simp: final_status_def)
    qed
  qed
qed

lemma run_final_status:
  assumes run: "scheduler_run s s'" and inv: "sched_inv s"
    and t: "bt_get (rs_tasks s) g = Some t" and final: "final_status t = Some x"
  shows "\<forall>u. bt_get (rs_tasks s') g = Some u \<longrightarrow> t_task_id u = t_task_id t \<longrightarrow> final_status u = Some x"
  using run
proof (induction rule: rtranclp_induct)
  case base
  with t final show ?case by simp
next
  case (step s1 s2)
  have inv1: "sched_inv s1" and inv2: "sched_inv s2"
    using scheduler_run_inv [OF step(1) inv] scheduler_step_inv [OF step(2)] by blast+
  obtain h where on: "step_on h s1 s2" using scheduler_step_on [OF step(2) inv1] by blast
  show ?case
  proof (intro allI impI)
    fix u assume u: "bt_get (rs_tasks s2) g = Some u" and id: "t_task_id u = t_task_id t"
    have "\<not> newer (t_task_id u) s1"
      using task_not_newer [OF inv t] run_tasks [OF step(1) inv] id by metis
    with step_on_tasks [OF on u] obtain v where
      v: "bt_get (rs_tasks s1) g = Some v" "version_step (rs_ids s1) (rs_ids s2) v u" by blast
    then have "final_status v = Some x" using step.IH id version_identity by metis
    then show "final_status u = Some x"
      using final_status_step [OF sched_invD(2) [OF inv1 v(1)] sched_invD(2) [OF inv2 u] v(2)] by blast
  qed
qed

section \<open>Correlation identifiers\<close>

text \<open>
  The identifiers of one kind that tasks wait for: all of them have been issued, and no two tasks wait
  for the same one.
\<close>

definition tokens_ok :: "(scheduled_task \<Rightarrow> u64 option) \<Rightarrow> u64 \<Rightarrow> request_scheduler \<Rightarrow> bool" where
  "tokens_ok tok n s \<longleftrightarrow>
     (\<forall>g t v. bt_get (rs_tasks s) g = Some t \<longrightarrow> tok t = Some v \<longrightarrow> v \<noteq> 0 \<and> (n = 0 \<or> v < n))
     \<and> (\<forall>g h t u v. bt_get (rs_tasks s) g = Some t \<longrightarrow> bt_get (rs_tasks s) h = Some u \<longrightarrow>
          tok t = Some v \<longrightarrow> tok u = Some v \<longrightarrow> g = h)"

lemma counter_less: "n \<noteq> 0 \<Longrightarrow> counter_next n = 0 \<or> n < counter_next n"
proof (cases "1 + n = 0")
  case False
  from unatSuc [OF this] show ?thesis by (simp add: counter_next_def word_less_nat_alt add.commute)
next
  case True
  then have "n = - 1" by (metis add.commute add_eq_0_iff)
  then show ?thesis by (simp add: counter_next_def)
qed

lemma counter_step_bound:
  assumes "counter_step n m" "n = 0 \<or> v < n"
  shows "m = 0 \<or> v < m"
  using assms counter_less [of n] by (auto simp: counter_step_def)

lemma tokens_ok_step:
  assumes ok: "tokens_ok tok n s" and counter: "counter_step n m"
    and other: "\<And>h x. h \<noteq> g \<Longrightarrow> bt_get (rs_tasks s') h = Some x \<Longrightarrow>
      \<exists>t. bt_get (rs_tasks s) h = Some t \<and> tok x = tok t"
    and here: "\<And>u v. bt_get (rs_tasks s') g = Some u \<Longrightarrow> tok u = Some v \<Longrightarrow>
      issued n m v \<or> (\<exists>t. bt_get (rs_tasks s) g = Some t \<and> tok t = Some v)"
  shows "tokens_ok tok m s'"
proof -
  have old: "v \<noteq> 0 \<and> (n = 0 \<or> v < n)" if "bt_get (rs_tasks s) h = Some t" "tok t = Some v" for h t v
    using ok that by (simp add: tokens_ok_def)
  have token: "(\<exists>t. bt_get (rs_tasks s) h = Some t \<and> tok t = Some v) \<or> (h = g \<and> issued n m v)"
    if "bt_get (rs_tasks s') h = Some u" "tok u = Some v" for h u v
  proof (cases "h = g")
    case True
    with here [of u] that show ?thesis by blast
  qed (use other [OF _ that(1)] that in auto)
  have fresh: "\<not> issued n m v" if "bt_get (rs_tasks s) h = Some t" "tok t = Some v" for h t v
    using old [OF that] by (auto simp: issued_def)
  show ?thesis
    unfolding tokens_ok_def
  proof (intro conjI allI impI)
    fix h u v assume u: "bt_get (rs_tasks s') h = Some u" "tok u = Some v"
    from token [OF u] show "v \<noteq> 0" "m = 0 \<or> v < m"
      using old counter_step_bound [OF counter] counter_less [of n] by (auto simp: issued_def)
  next
    fix h k t u v
    assume t: "bt_get (rs_tasks s') h = Some t" "tok t = Some v"
      and u: "bt_get (rs_tasks s') k = Some u" "tok u = Some v"
    from token [OF t] token [OF u] show "h = k"
      using fresh ok unfolding tokens_ok_def by blast
  qed
qed

definition ids_ok :: "request_scheduler \<Rightarrow> bool" where
  "ids_ok s \<longleftrightarrow>
     tokens_ok retry_token (ic_retry_timer (rs_ids s)) s
     \<and> tokens_ok readmission_token (ic_slow_readmission (rs_ids s)) s
     \<and> tokens_ok probe_token (ic_no_space_probe (rs_ids s)) s
     \<and> tokens_ok resolution_token (ic_host_key_resolution (rs_ids s)) s
     \<and> tokens_ok deletion_token (ic_stopped_deletion (rs_ids s)) s"

lemma ids_ok_step_on:
  assumes "ids_ok s" "step_on g s s'"
  shows "ids_ok s'"
proof -
  have ids: "ids_step (rs_ids s) (rs_ids s')" using assms(2) by (simp add: step_on_def)
  have other: "\<exists>t. bt_get (rs_tasks s) h = Some t \<and> same_task t x"
    if "h \<noteq> g" "bt_get (rs_tasks s') h = Some x" for h x
  proof -
    have "rel_option same_task (bt_get (rs_tasks s) h) (Some x)"
      using assms(2) that by (metis step_on_def)
    then show ?thesis by (cases "bt_get (rs_tasks s) h") simp_all
  qed
  have main: "tokens_ok tok m s'"
    if "tokens_ok tok n s" "counter_step n m"
      and "\<And>t. tok (decrement_slow_position t) = tok t" "\<And>t. no_tokens t \<Longrightarrow> tok t = None"
      and "\<And>t u. tokens_step t u (rs_ids s) (rs_ids s') \<Longrightarrow> token_step (tok t) (tok u) n m" for tok n m
  proof (rule tokens_ok_step [OF that(1,2)])
    fix h x assume "h \<noteq> g" "bt_get (rs_tasks s') h = Some x"
    from other [OF this] that(3) show "\<exists>t. bt_get (rs_tasks s) h = Some t \<and> tok x = tok t"
      by (auto simp: same_task_def)
  next
    fix u v assume u: "bt_get (rs_tasks s') g = Some u" "tok u = Some v"
    from step_on_tasks [OF assms(2) u(1)] that(4,5) u(2)
    show "issued n m v \<or> (\<exists>t. bt_get (rs_tasks s) g = Some t \<and> tok t = Some v)"
      by (fastforce simp: version_step_def token_step_def)
  qed
  show ?thesis
    using assms(1) ids unfolding ids_ok_def ids_step_def
    by (auto intro!: main simp: no_tokens_def tokens_step_def)
qed

lemma ids_ok_step: "scheduler_step s s' \<Longrightarrow> sched_inv s \<Longrightarrow> ids_ok s \<Longrightarrow> ids_ok s'"
  using scheduler_step_on ids_ok_step_on by blast

lemma ids_ok_new: "ids_ok (scheduler_new config)"
  by (simp add: ids_ok_def tokens_ok_def scheduler_new_def)

text \<open>Restoring arms the timers and probes of the recovered tasks from the same counters.\<close>

definition arms :: "id_counters \<Rightarrow> scheduled_task \<times> transition_effect list \<times> id_counters \<Rightarrow> bool" where
  "arms i r \<longleftrightarrow>
     (case r of (t, es, j) \<Rightarrow>
        ids_step i j \<and> resolution_token t = None \<and> deletion_token t = None
        \<and> token_step None (retry_token t) (ic_retry_timer i) (ic_retry_timer j)
        \<and> token_step None (readmission_token t) (ic_slow_readmission i) (ic_slow_readmission j)
        \<and> token_step None (probe_token t) (ic_no_space_probe i) (ic_no_space_probe j))"

lemma exhausted_ok [simp]: "exhausted r = Inr x \<longleftrightarrow> r = Inr x"
  by (simp add: exhausted_def)

lemma recovered_no_tokens: "no_tokens (recovered_task r)"
  by (simp add: recovered_task_def scheduled_task_new_def no_tokens_def token_defs)

lemma ids_issued_from:
  "ids_retry_timer i = Inr (a, j) \<Longrightarrow>
     \<exists>x. j = i\<lparr>ic_retry_timer := x\<rparr> \<and> issued (ic_retry_timer i) x (retry_timer_id_get a)"
  "ids_slow_readmission i = Inr (b, j) \<Longrightarrow>
     \<exists>x. j = i\<lparr>ic_slow_readmission := x\<rparr> \<and> issued (ic_slow_readmission i) x (slow_readmission_id_get b)"
  by (drule ids_issued, blast)+

lemma restore_timers_arms:
  assumes "restore_timers r (recovered_task r) i = Inr (t, es, j)"
  shows "arms i (t, es, j) \<and> probe_token t = None \<and> ic_no_space_probe j = ic_no_space_probe i"
proof -
  note none = recovered_no_tokens [of r, unfolded no_tokens_def]
  from assms show ?thesis
    using none
    by (auto simp: restore_timers_def and_then_eq_Inr arms_def ids_step_def token_step_def issued_step
        retry_token_def readmission_token_def dest!: ids_issued_from split: if_splits)
qed

lemma restore_probe_arms:
  assumes "restore_probe r t es i = Inr (u, es', k)" "arms i0 (t, es, i)" "probe_token t = None"
    "ic_no_space_probe i = ic_no_space_probe i0"
  shows "arms i0 (u, es', k)"
proof (cases "Option.bind (tc_no_space (t_conditions t)) nsc_retry_at")
  case None
  with assms show ?thesis by (simp add: restore_probe_def)
next
  case (Some at)
  with assms(1) obtain p where "ids_no_space_probe i = Inr (p, k)"
    and u: "u = t\<lparr>t_no_space_probe := Some (p, NPO_AutomaticRetry)\<rparr>"
    by (auto simp: restore_probe_def and_then_eq_Inr)
  from ids_issued(3) [OF this(1)] obtain x where
    "k = i\<lparr>ic_no_space_probe := x\<rparr>" "issued (ic_no_space_probe i) x (no_space_probe_id_get p)" by blast
  with assms(2,4) show ?thesis
    by (auto simp: u arms_def ids_step_def probe_token_def token_step_def issued_step)
qed

lemma restore_task_ids:
  assumes run: "restore_task n r s tm = Inr (s', tm')" and ok: "ids_ok s"
  shows "ids_ok s'"
proof -
  obtain t es i u es' j where
    t: "restore_timers r (recovered_task r) (rs_ids s) = Inr (t, es, i)"
    and u: "restore_probe r t es i = Inr (u, es', j)"
    and s': "rs_tasks s' = bt_insert (rt_gid r) u (rs_tasks s)" "rs_ids s' = j"
    using run by (auto simp: restore_task_def and_then_eq_Inr split: if_splits)
  have arms: "arms (rs_ids s) (u, es', j)"
    using restore_probe_arms [OF u] restore_timers_arms [OF t] by blast
  have main: "tokens_ok tok m s'"
    if "tokens_ok tok c s" "counter_step c m" "token_step None (tok u) c m" for tok c m
  proof (rule tokens_ok_step [OF that(1,2), of "rt_gid r"])
    show "\<exists>t. bt_get (rs_tasks s) h = Some t \<and> tok x = tok t"
      if "h \<noteq> rt_gid r" "bt_get (rs_tasks s') h = Some x" for h x
      using that by (simp add: s')
    show "issued c m v \<or> (\<exists>t. bt_get (rs_tasks s) (rt_gid r) = Some t \<and> tok t = Some v)"
      if "bt_get (rs_tasks s') (rt_gid r) = Some x" "tok x = Some v" for x v
      using that \<open>token_step None (tok u) c m\<close> by (auto simp: s' token_step_def)
  qed
  show ?thesis
    using ok arms unfolding ids_ok_def arms_def ids_step_def s'(2)
    by (auto intro!: main)
qed

lemma restore_tasks_ids:
  assumes "restore_tasks n rs s tm = Inr (s', tm')" "ids_ok s"
  shows "ids_ok s'"
  using assms by (induction rs arbitrary: s tm) (auto simp: and_then_eq_Inr dest: restore_task_ids)

lemma restore_publish_tasks:
  assumes "restore_publish holds gs s tm es = Inr (s', tm', es')"
  shows "rs_tasks s' = rs_tasks s \<and> rs_ids s' = rs_ids s"
  using assms
  by (induction gs arbitrary: s tm es) (fastforce simp: Let_def and_then_eq_Inr)+

lemma ids_ok_cong: "rs_tasks s' = rs_tasks s \<Longrightarrow> rs_ids s' = rs_ids s \<Longrightarrow> ids_ok s' = ids_ok s"
  by (simp add: ids_ok_def tokens_ok_def)

lemma restore_ids:
  assumes "restore config batch = Inr (s, plan)"
  shows "ids_ok s"
  using assms
proof (rule restoreE)
  fix queues seen m s0 tm tm'
  assume tasks: "restore_tasks (cfg_max_tasks config) (rb_tasks batch) (scheduler_new config) [] = Inr (s0, tm)"
    and pub: "restore_publish (cfg_retry_wait_holds_slot config) (queue_members_in_order queues)
       (s0\<lparr>rs_queues := queues\<rparr>) tm [] = Inr (s, tm', rp_effects plan)"
  show ?thesis
    using restore_tasks_ids [OF tasks ids_ok_new] restore_publish_tasks [OF pub] ids_ok_cong [of s s0] by simp
qed

lemma reachable_ids: "reachable config s \<Longrightarrow> ids_ok s"
  by (induction rule: reachable.induct) (auto intro: ids_ok_new restore_ids ids_ok_step reachable_inv)

end
