(* ===== verification/EventOnce.thy ===== *)
theory EventOnce
  imports TaskHistory
begin

text \<open>
  Redelivery of events. Workers and the driver may deliver an event more than once; a task remembers
  the events without a correlation identifier it has seen in its generation and forgets the identifier
  of the others. Once an event has been accepted, delivering it again changes nothing.
\<close>

section \<open>Events a task has dealt with\<close>

definition settled :: "scheduled_task \<Rightarrow> task_event \<Rightarrow> bool" where
  "settled u ev =
     (case ev of
        Ev_OptionPatchPersisted _ _ p \<Rightarrow> expected_patch_persistence u \<noteq> Some p
      | Ev_OptionPatchPersistenceFailed _ _ p \<Rightarrow> expected_patch_persistence u \<noteq> Some p
      | Ev_OptionPatchApplied _ _ p \<Rightarrow> expected_patch_application u \<noteq> Some p
      | Ev_OptionPatchApplicationFailed _ _ p _ \<Rightarrow> expected_patch_application u \<noteq> Some p
      | Ev_RetryReady _ _ timer \<Rightarrow> map_option fst (t_retry_timer u) \<noteq> Some timer
      | Ev_SlowReadmit _ _ readmission \<Rightarrow> map_option fst (t_slow_readmission u) \<noteq> Some readmission
      | Ev_NoSpaceProbeCompleted _ _ probe _ _ _ \<Rightarrow> map_option fst (t_no_space_probe u) \<noteq> Some probe
      | Ev_HostKeyResolutionPersisted _ _ r \<Rightarrow> map_option fst (expected_resolution u) \<noteq> Some r
      | Ev_HostKeyResolutionFailed _ _ r \<Rightarrow> map_option fst (expected_resolution u) \<noteq> Some r
      | Ev_StoppedResultDeleted _ _ d \<Rightarrow> expected_deletion u \<noteq> Some d
      | Ev_StoppedResultDeletionFailed _ _ d \<Rightarrow> expected_deletion u \<noteq> Some d
      | Ev_TerminalPersisted _ g status \<Rightarrow> t_pending_barrier u \<noteq> Some (PB_TerminalPersistence g status)
      | _ \<Rightarrow> event_kind ev \<in> t_seen_events u)"

abbreviation no_finish :: "plan_result \<Rightarrow> bool" where
  "no_finish r \<equiv> plan_all (\<lambda>a. False) r"

text \<open>A settled event plans no action.\<close>

lemma settled_guarded:
  assumes "settled u (env_event envelope)"
  shows "no_finish (guarded_event_plan s u at envelope)"
  using assms
  by (cases "env_event envelope"; unfold guarded_event_plan_def Let_def)
    (auto intro!: plan_all_branch(1) plan_all_ignored plan_all_and_then plan_all_Inl
      simp: settled_def option_patch_persistence_plan_def option_patch_application_plan_def
        retry_ready_plan_def slow_readmit_plan_def no_space_probe_completed_plan_def
        host_key_resolution_plan_def stopped_result_deletion_plan_def terminal_persisted_plan_def
        Let_def token_fresh plan_all_ignored plan_all_Inl)

lemma stale_guarded:
  assumes "event_generation (env_event envelope) < t_generation u"
  shows "no_finish (guarded_event_plan s u at envelope)"
  using assms unfolding guarded_event_plan_def Let_def
  by (auto intro!: plan_all_branch(1) plan_all_ignored plan_all_and_then simp: generation_disposition_def)

section \<open>Accepted events are settled\<close>

definition settles :: "task_event \<Rightarrow> action_plan \<Rightarrow> bool" where
  "settles ev a \<longleftrightarrow> (\<forall>u. ap_updated a = Some u \<longrightarrow> settled u ev)"

lemma settles_marked:
  "event_token ev = None \<Longrightarrow> event_kind ev \<noteq> EK_TerminalPersisted \<Longrightarrow> k = event_kind ev \<Longrightarrow>
   ap_updated a = Some (mark_non_token_event k u) \<Longrightarrow> settles ev a"
  by (cases ev) (auto simp: settles_def settled_def mark_non_token_event_def)

lemma no_expectation_drain [simp]:
  "expected_patch_persistence (u\<lparr>t_pending_barrier := Some (PB_CancellationDrain g d f)\<rparr>) = None"
  "expected_patch_application (u\<lparr>t_pending_barrier := Some (PB_CancellationDrain g d f)\<rparr>) = None"
  "expected_resolution (u\<lparr>t_pending_barrier := Some (PB_CancellationDrain g d f)\<rparr>) = None"
  by (simp_all add: expected_patch_persistence_def expected_patch_application_def expected_resolution_def)

lemma marked_plans:
  assumes "event_token ev = None" "event_kind ev \<noteq> EK_TerminalPersisted"
  shows "plan_all (settles ev) (event_plan s t at ev)"
  using assms
  by (cases ev)
   (auto simp: generation_persisted_plan_def allocation_succeeded_plan_def retry_wait_plan_def
     allocation_retryable_plan_def active_retry_idle_plan_def allocation_host_key_challenge_plan_def
     terminal_plan_def allocation_failed_plan_def active_representation_restart_plan_def
     data_complete_plan_def no_space_plan_def terminal_failure_plan_def slow_demoted_plan_def
     slow_paused_plan_def verification_succeeded_plan_def verification_recoverable_plan_def
     verification_failed_plan_def seeding_complete_plan_def seeding_failed_plan_def
     cancellation_drained_plan_def Let_def
     intro!: plan_all_branch(1) plan_all_branch(2) plan_all_ignored plan_all_unless_stale plan_all_and_then plan_all_finish(1) plan_all_Inl settles_marked
     split: prod.splits)

text \<open>A completed user control leaves no barrier, a drain or terminal persistence.\<close>

definition unexpecting :: "scheduled_task \<Rightarrow> bool" where
  "unexpecting u \<longleftrightarrow>
     expected_patch_persistence u = None \<and> expected_patch_application u = None
     \<and> expected_resolution u = None \<and> expected_deletion u = None"

lemma unexpecting_simps [simp]:
  "t_pending_barrier u = None \<Longrightarrow> unexpecting u"
  "unexpecting (u\<lparr>t_pending_barrier := Some (PB_CancellationDrain g d f)\<rparr>)"
  "unexpecting (u\<lparr>t_pending_barrier := Some (PB_TerminalPersistence g st)\<rparr>)"
  by (simp_all add: unexpecting_def expected_patch_persistence_def expected_patch_application_def
      expected_resolution_def expected_deletion_def)

lemma unexpecting_state [simp]: "unexpecting (u\<lparr>t_state := x\<rparr>) = unexpecting u"
  by (auto simp: unexpecting_def expected_patch_persistence_def expected_patch_application_def
      expected_resolution_def expected_deletion_def split: option.splits pending_barrier.splits)

definition barrier_answer :: "task_event \<Rightarrow> bool" where
  "barrier_answer ev \<longleftrightarrow>
     event_kind ev \<in> {EK_OptionPatchPersisted, EK_OptionPatchPersistenceFailed, EK_OptionPatchApplied,
       EK_OptionPatchApplicationFailed, EK_HostKeyResolutionPersisted, EK_HostKeyResolutionFailed,
       EK_StoppedResultDeleted, EK_StoppedResultDeletionFailed}"

lemma complete_pending_unexpecting:
  assumes "t_pending_barrier u = None"
  shows "res_all (\<lambda>(c, v, es). unexpecting v) (complete_pending_user_control t u es0)"
  using assms
  by (auto simp: complete_pending_user_control_def Let_def cancel_timers_def begin_cancellation_def
      begin_terminal_def unexpecting_def expected_patch_persistence_def expected_patch_application_def
      expected_resolution_def expected_deletion_def
      intro!: plan_all_and_then split: option.split pending_user_control.split)

lemma settles_unexpecting:
  "ap_updated a = Some u \<Longrightarrow> unexpecting u \<Longrightarrow> barrier_answer ev \<Longrightarrow> settles ev a"
  by (cases ev) (auto simp: settles_def settled_def unexpecting_def barrier_answer_def)

lemma plan_all_completed:
  assumes "t_pending_barrier u = None" "\<And>c v es. unexpecting v \<Longrightarrow> res_all P (f (c, v, es))"
  shows "res_all P (and_then (complete_pending_user_control t u es0) f)"
  by (rule res_all_and_then [OF complete_pending_unexpecting [OF assms(1)]]) (auto intro: assms(2))

lemma completed_unexpecting:
  "complete_pending_user_control t u es = Inr (c, v, es') \<Longrightarrow> t_pending_barrier u = None \<Longrightarrow> unexpecting v"
  using res_allD [OF complete_pending_unexpecting, of u t es "(c, v, es')"] by simp

lemma terminal_unexpecting: "begin_terminal u st e = Inr v \<Longrightarrow> unexpecting v"
  by (auto simp: begin_terminal_def split: if_splits)

lemma plan_all_finish_unexpecting:
  "unexpecting u \<Longrightarrow> barrier_answer ev \<Longrightarrow> plan_all (settles ev) (plan_finish u a es pub ids)"
  by (rule plan_all_finish(1), rule settles_unexpecting) simp_all

lemmas answer_intros = plan_all_finish_unexpecting plan_all_unless_stale plan_all_and_then
  plan_all_branch(1) plan_all_Inl plan_all_ignored

lemma patch_persistence_settles:
  "barrier_answer ev \<Longrightarrow> plan_all (settles ev) (option_patch_persistence_plan s t p ok at)"
  unfolding option_patch_persistence_plan_def Let_def
  by (intro plan_all_branch plan_all_ignored plan_all_Inl plan_all_completed)
    (auto intro!: answer_intros split: option.split elim!: begin_cancellation_effects)

lemma patch_application_settles:
  assumes "barrier_answer ev"
  shows "plan_all (settles ev) (option_patch_application_plan s t p err at)"
proof -
  have b: "t_pending_barrier (patch_application_updated t p ok) = None" for ok
    by (simp add: patch_application_updated_def clear_needs_credentials_def Let_def)
  show ?thesis
    unfolding option_patch_application_plan_def Let_def
    by (intro plan_all_branch(1) plan_all_ignored plan_all_Inl plan_all_and_then)
      (auto intro!: answer_intros simp: assms b split: option.split
        dest!: completed_unexpecting [OF _ b] terminal_unexpecting)
qed

lemma host_key_resolution_settles:
  "barrier_answer ev \<Longrightarrow> plan_all (settles ev) (host_key_resolution_plan s t r ok at)"
  unfolding host_key_resolution_plan_def Let_def
  by (intro plan_all_branch(1) plan_all_ignored plan_all_Inl)
    (auto intro!: answer_intros split: option.split dest: completed_unexpecting)

lemma stopped_deletion_settles:
  "barrier_answer ev \<Longrightarrow> plan_all (settles ev) (stopped_result_deletion_plan s t d ok at)"
  unfolding stopped_result_deletion_plan_def Let_def
  by (intro answer_intros plan_all_branch(1)) (auto simp: settles_def)

lemma terminal_persisted_settles:
  "plan_all (settles (Ev_TerminalPersisted g gen st)) (terminal_persisted_plan s t gen st at)"
  unfolding terminal_persisted_plan_def Let_def
  by (intro frame_intros plan_all_and_then) (auto simp: settles_def settled_def mark_non_token_event_def)

lemma retry_ready_settles:
  "plan_all (settles (Ev_RetryReady g gen timer)) (retry_ready_plan s t timer at)"
proof -
  have "settled v (Ev_RetryReady g gen timer)" if "follows u v" "t_retry_timer u = None" for u v
    using that by (auto simp: settled_def follows_def kept_def retry_token_def)
  then show ?thesis
    unfolding retry_ready_plan_def Let_def
    by (intro frame_intros) (auto simp: settles_def settled_def)
qed

lemma slow_readmit_settles:
  "plan_all (settles (Ev_SlowReadmit g gen r)) (slow_readmit_plan s t r at)"
proof -
  have "settled v (Ev_SlowReadmit g gen r)" if "follows u v" "t_slow_readmission u = None" for u v
    using that by (auto simp: settled_def follows_def kept_def readmission_token_def)
  then show ?thesis
    unfolding slow_readmit_plan_def Let_def
    by (intro frame_intros) (auto simp: settles_def settled_def)
qed

text \<open>A failed probe may schedule the next one, under an identifier that no task waits for.\<close>

lemma no_space_probe_settles:
  assumes "probe_token t \<noteq> Some (ic_no_space_probe (rs_ids s))"
  shows "plan_all (settles (Ev_NoSpaceProbeCompleted g gen p origin ready next))
    (no_space_probe_completed_plan s t p origin ready next at)"
  unfolding no_space_probe_completed_plan_def Let_def
  apply (intro frame_intros)
  apply (use assms in \<open>auto simp: settles_def settled_def issued_def probe_token_def token_fresh\<close>)
  done

lemma event_plan_settles:
  assumes "probe_token t \<noteq> Some (ic_no_space_probe (rs_ids s))"
  shows "plan_all (settles ev) (event_plan s t at ev)"
proof (cases "event_token ev = None \<and> event_kind ev \<noteq> EK_TerminalPersisted")
  case False
  then show ?thesis
    by (cases ev) (simp_all add: patch_persistence_settles patch_application_settles
        host_key_resolution_settles stopped_deletion_settles terminal_persisted_settles
        retry_ready_settles slow_readmit_settles no_space_probe_settles [OF assms] barrier_answer_def
        split: if_splits)
qed (simp add: marked_plans)

lemma guarded_event_plan_settles:
  assumes "probe_token t \<noteq> Some (ic_no_space_probe (rs_ids s))"
  shows "plan_all (settles (env_event envelope)) (guarded_event_plan s t at envelope)"
  unfolding guarded_event_plan_def Let_def
  by (intro plan_all_branch(1) plan_all_ignored plan_all_and_then plan_all_Inl event_plan_settles assms)

lemma fresh_probe:
  assumes "ids_ok s" "bt_get (rs_tasks s) g = Some t"
  shows "probe_token t \<noteq> Some (ic_no_space_probe (rs_ids s))"
proof
  let ?n = "ic_no_space_probe (rs_ids s)"
  assume "probe_token t = Some ?n"
  moreover have "tokens_ok probe_token ?n s" using assms(1) by (simp add: ids_ok_def)
  ultimately have "?n \<noteq> 0 \<and> (?n = 0 \<or> ?n < ?n)" using assms(2) unfolding tokens_ok_def by blast
  then show False by simp
qed

lemma no_finish_run: "no_finish r \<Longrightarrow> snd (run_plan s t at r) = s"
  by (cases r) (auto simp: run_plan_def try_in_def split: handler_plan.splits)

lemma accepted_event_settled:
  assumes inv: "sched_inv s" and ids: "ids_ok s" and run: "handle_event_at s envelope at = (res, s')"
    and changed: "s' \<noteq> s" and u: "bt_get (rs_tasks s') (event_gid (env_event envelope)) = Some u"
  shows "settled u (env_event envelope)"
proof -
  let ?g = "event_gid (env_event envelope)"
  obtain t where t: "bt_get (rs_tasks s) ?g = Some t"
    and plan: "run_plan s t at (guarded_event_plan s t at envelope) = (res, s')"
    using run changed
    by (cases "bt_get (rs_tasks s) ?g") (auto simp: handle_event_at_def on_task_def task_clone_def)
  have g: "t_gid t = ?g" and wf: "bt_wf (rs_tasks s)" using sched_invD(6,7) [OF inv] t by auto
  from plan show ?thesis
  proof (cases rule: run_plan_cases)
    case unchanged
    with changed show ?thesis by simp
  next
    case (finished a out us sn)
    have settles: "settles (env_event envelope) a"
      using guarded_event_plan_settles [OF fresh_probe [OF ids t], of envelope at] finished(1) by simp
    show ?thesis
    proof (cases "ap_updated a")
      case None
      with finished(4) u g wf show ?thesis by simp
    next
      case (Some v)
      have "t_gid v = ?g"
        using guarded_event_plan_frame [of s t envelope at] finished(1) Some g
        by (simp add: plan_frame_def)
      with Some finished(4) u have "v = u" by simp
      with settles Some show ?thesis by (simp add: settles_def)
    qed
  qed
qed

lemma settled_event_ignored:
  assumes "\<And>u. bt_get (rs_tasks s) (event_gid (env_event envelope)) = Some u \<Longrightarrow>
    settled u (env_event envelope)"
  shows "snd (handle_event_at s envelope at) = s"
proof (cases "bt_get (rs_tasks s) (event_gid (env_event envelope))")
  case (Some u)
  with no_finish_run [OF settled_guarded [OF assms [OF Some]]] show ?thesis
    by (simp add: handle_event_at_def on_task_def task_clone_def)
qed (simp add: handle_event_at_def on_task_def task_clone_def)

end
