(* ===== verification/EffectLimit.thy ===== *)
theory EffectLimit
  imports Lifecycle
begin

text \<open>
  The limit on the effects of one outcome is never the reason of a rejection: no planning step returns
  \<open>SE_EffectLimitExceeded\<close>, and a finished plan has at most six effects, to which the commit adds a queue
  effect and a snapshot. The rules walk through a handler along its results.
\<close>

named_theorems fits_intros

definition fits :: "(scheduler_error, 'a) result \<Rightarrow> bool" where
  "fits r \<longleftrightarrow> r \<noteq> Inl SE_EffectLimitExceeded"

lemma fits_result [fits_intros]: "e \<noteq> SE_EffectLimitExceeded \<Longrightarrow> fits (Inl e)" "fits (Inr x)"
  by (simp_all add: fits_def)

lemma fits_and_then [fits_intros]: "fits r \<Longrightarrow> (\<And>x. fits (f x)) \<Longrightarrow> fits (and_then r f)"
  by (cases r) (simp_all add: fits_def)

lemma fits_ok_or [fits_intros]: "e \<noteq> SE_EffectLimitExceeded \<Longrightarrow> fits (ok_or e x)"
  by (cases x) (simp_all add: fits_def)

lemma fits_map_err [fits_intros]: "e \<noteq> SE_EffectLimitExceeded \<Longrightarrow> fits (map_err (\<lambda>_. e) r)"
  by (cases r) (simp_all add: fits_def)

lemma fits_branch [fits_intros]:
  "fits x \<Longrightarrow> fits y \<Longrightarrow> fits (if c then x else y)"
  "fits x \<Longrightarrow> (\<And>a. fits (h a)) \<Longrightarrow> fits (case r of None \<Rightarrow> x | Some a \<Rightarrow> h a)"
  "(\<And>a b. fits (k a b)) \<Longrightarrow> fits (case p of (a, b) \<Rightarrow> k a b)"
  by (simp_all split: option.split prod.split)

lemma fits_plan_finish [fits_intros]: "fits (plan_finish u a es pub ids)"
  by (simp add: plan_finish_def fits_def)

lemma fits_ignored [fits_intros]: "fits (plan_ignored t d at)"
  by (cases d) (auto simp: plan_ignored_def ignored_for_disposition_def ignored_outcome_def Let_def
      outcome_checked_def MAX_SCHEDULER_EFFECTS_def intro!: fits_intros)

lemma fits_unless_stale [fits_intros]: "fits r \<Longrightarrow> fits (unless_stale t a at r)"
  by (auto simp: unless_stale_def stale_if_rejected_event_def ignored_for_disposition_def
      ignored_outcome_def Let_def outcome_checked_def MAX_SCHEDULER_EFFECTS_def intro!: fits_intros)

lemma fits_target [fits_intros]: "fits (target_for_action t a)" "fits (required_target t a)"
proof -
  show *: "fits (target_for_action t a)" using planning_errors(6) by (simp add: fits_def)
  show "fits (required_target t a)" unfolding required_target_def by (intro fits_intros *) simp
qed

lemma fits_guards [fits_intros]: "fits (reject_pending t op)" "fits (generation_disposition g h)"
  by (auto simp: reject_pending_def generation_disposition_def fits_def split: option.split)

lemma fits_ids [fits_intros]:
  "fits (ids_retry_timer i)" "fits (ids_slow_readmission i)" "fits (ids_no_space_probe i)"
  "fits (ids_host_key_resolution i)" "fits (ids_stopped_deletion i)"
  by (simp_all add: ids_retry_timer_def ids_slow_readmission_def ids_no_space_probe_def
      ids_host_key_resolution_def ids_stopped_deletion_def next_id_def fits_intros)

lemma fits_helpers [fits_intros]:
  "fits (begin_cancellation t d f es op)" "fits (begin_terminal t st e)"
  "fits (schedule_no_space_probe t origin at es ids)"
  by (auto simp: begin_cancellation_def begin_terminal_def schedule_no_space_probe_def Let_def
      intro!: fits_intros split: option.split pending_barrier.split)

lemma fits_plan_admission [fits_intros]: "fits (plan_admission s t a es)"
  unfolding plan_admission_def Let_def by (intro fits_intros) simp_all

lemma fits_complete [fits_intros]: "fits (complete_pending_user_control t u es)"
  unfolding complete_pending_user_control_def Let_def
  by (auto intro!: fits_intros split: option.split pending_user_control.split)

section \<open>Handlers\<close>

lemma fits_drain [fits_intros]:
  "fits (drain_target_effects t a d u es ids)" "fits (probe_after_drain u es ids)"
  unfolding drain_target_effects_def probe_after_drain_def
  by (cases d) (auto intro!: fits_intros)

lemma fits_patch_action [fits_intros]: "fits (patch_application_action mode c ok)"
  by (cases mode) (auto simp: patch_application_action_def intro!: fits_intros)

lemma fits_no_space [fits_intros]: "fits (no_space_event_validate ev)"
  by (cases ev) (simp_all add: no_space_event_validate_def fits_intros)

lemma event_plan_fits: "fits (event_plan s t at ev)"
  by (cases ev; simp only: event_plan.simps generation_persisted_plan_def option_patch_persistence_plan_def
      option_patch_application_plan_def allocation_succeeded_plan_def retry_wait_plan_def
      allocation_retryable_plan_def active_retry_idle_plan_def allocation_host_key_challenge_plan_def
      terminal_plan_def allocation_failed_plan_def retry_ready_plan_def active_representation_restart_plan_def
      data_complete_plan_def no_space_plan_def terminal_failure_plan_def slow_demoted_plan_def
      slow_paused_plan_def slow_readmit_plan_def verification_succeeded_plan_def
      verification_recoverable_plan_def verification_failed_plan_def seeding_complete_plan_def
      seeding_failed_plan_def cancellation_drained_plan_def no_space_probe_completed_plan_def
      terminal_persisted_plan_def host_key_resolution_plan_def stopped_result_deletion_plan_def Let_def;
      intro fits_intros; simp)

lemma guarded_event_plan_fits: "fits (guarded_event_plan s t at envelope)"
  unfolding guarded_event_plan_def Let_def by (intro fits_intros event_plan_fits) simp_all

lemma fits_patch_choice [fits_intros]:
  "fits (option_patch_action t k)" "fits (matching_challenge t c fp)" 
  by (cases k) (auto simp: option_patch_action_def matching_challenge_def Let_def intro!: fits_intros split: option.split)

lemma command_plans_fit:
  "fits (pause_plan s t force)" "fits (resume_plan s t at)" "fits (approve_host_key_plan s t c fp)"
  "fits (begin_source_replacement_plan s t)"
  "fits (commit_source_replacement_plan s t cr)" "fits (remove_plan s t force)"
  "fits (remove_stopped_result_plan s t)"
  unfolding pause_plan_def pause_deferred_def pause_now_def resume_plan_def resume_deferred_def
    resume_now_def resume_no_space_probe_def approve_host_key_plan_def begin_source_replacement_plan_def
    commit_source_replacement_plan_def remove_plan_def remove_deferred_def remove_now_def
    remove_stopped_result_plan_def Let_def
  by (intro fits_intros; simp)+

lemma apply_option_patch_fits: "fits (apply_option_patch_plan s t p k cr)"
  unfolding apply_option_patch_plan_def apply_in_place_patch_def stage_restart_patch_def
    stale_credential_patch_def Let_def prod.case
  by (cases k) (auto intro!: fits_intros split: option.split)

lemma admission_plans_fit: "fits (admission_plan s t)" "fits (restart_application_plan s t)" "fits (admission_candidate s)"
  unfolding admission_plan_def restart_application_plan_def admission_action_def admission_candidate_def Let_def
  by (intro fits_intros; simp)+

section \<open>Operations\<close>

lemma run_plan_fits:
  assumes "fits r" "plan_all (plan_frame (rs_ids s) t A) r"
  shows "fits (fst (run_plan s t at r))"
proof (cases r)
  case (Inr p)
  then show ?thesis
  proof (cases p)
    case (Plan_Finish a)
    with Inr assms(2) have "plan_frame (rs_ids s) t A a" by simp
    from plan_effects_fit [OF this, of s at] show ?thesis
      by (auto simp: Inr Plan_Finish run_plan_def finish_action_def try_in_def fits_def split: sum.split)
  qed (simp add: run_plan_def fits_def)
qed (use assms(1) in \<open>simp add: run_plan_def fits_def\<close>)

lemma on_task_fits:
  assumes "\<And>t. fits (h t)" "\<And>t. plan_all (plan_frame (rs_ids s) t A) (h t)"
  shows "fits (fst (on_task s g at h))"
  using run_plan_fits [OF assms(1) assms(2)]
  by (cases "bt_get (rs_tasks s) g") (simp_all add: on_task_def task_clone_def fits_intros)

lemma add_fits:
  assumes "sched_inv s"
  shows "fits (fst (add_validated_task s task g paused conditions pos at))"
proof (cases "add_accepts s task g conditions")
  case True
  then show ?thesis using add_validated_task_eq [OF assms True, of paused pos at] by (simp add: fits_intros)
next
  case False
  then show ?thesis
    by (cases "task_conditions_validate conditions")
      (auto simp: add_validated_task_def add_accepts_def not_less not_le fits_intros split: option.splits)
qed

lemma fits_try_in: "fits r \<Longrightarrow> (\<And>x. fits (fst (k x))) \<Longrightarrow> fits (fst (try_in s r k))"
  by (cases r) (simp_all add: fits_def)

lemma change_position_fits: "fits (fst (change_position s g pos))"
  unfolding change_position_def queue_effects_for_reorder_def Let_def task_clone_def
  by (intro fits_try_in fits_intros)
    (auto intro!: fits_try_in fits_intros simp: outcome_checked_def MAX_SCHEDULER_EFFECTS_def split: option.split)

lemma command_fits:
  assumes "sched_inv s"
  shows "fits (fst (execute_command_at s at cmd))"
  by (cases cmd)
    (simp_all add: add_fits [OF assms] change_position_fits fits_intros
      on_task_fits [OF command_plans_fit(1) pause_frame] on_task_fits [OF command_plans_fit(2) resume_frame]
      on_task_fits [OF command_plans_fit(3) approve_host_key_frame]
      on_task_fits [OF apply_option_patch_fits apply_option_patch_frame]
      on_task_fits [OF command_plans_fit(4) begin_source_replacement_frame]
      on_task_fits [OF command_plans_fit(5) commit_source_replacement_frame]
      on_task_fits [OF command_plans_fit(6) remove_frame]
      on_task_fits [OF command_plans_fit(7) remove_stopped_result_frame])

lemma event_fits: "fits (fst (handle_event_at s envelope at))"
  unfolding handle_event_at_def by (rule on_task_fits [OF guarded_event_plan_fits guarded_event_plan_frame])

lemma admission_fits: "fits (fst (admit_next_at s at))"
proof -
  have *: "fits (fst (case run_plan s t at (admission_plan s t) of
      (res, s') \<Rightarrow> try_in s' res (\<lambda>outcome. (Inr outcome, f s'))))" for t f
    using run_plan_fits [OF admission_plans_fit(1) admission_frame, of s t at]
    by (cases "run_plan s t at (admission_plan s t)") (auto intro!: fits_try_in fits_intros)
  show ?thesis
    unfolding admit_next_at_def task_clone_def Let_def
    by (intro fits_try_in admission_plans_fit fits_intros)
      (simp_all add: run_plan_fits [OF admission_plans_fit(2) restart_application_frame] *)
qed

end
