(* ===== verification/Scenarios.thy ===== *)
theory Scenarios
  imports EventOnce EffectLimit
begin

text \<open>
  Runs of the scheduler on a given sequence of inputs, and the rules that evaluate them: the
  definitions of the operations, with congruence rules that leave a continuation alone until its
  argument is known. The scenarios below are complete runs from a fresh scheduler; they serve as
  witnesses that the hypotheses of the properties hold in reachable states.
\<close>

section \<open>Evaluation\<close>

lemma and_then_lazy: "r = r' \<Longrightarrow> and_then r f = and_then r' f"
  by simp

lemma try_in_lazy: "r = r' \<Longrightarrow> try_in s r f = try_in s r' f"
  by simp

lemmas exec_cong = and_then_lazy try_in_lazy let_weak_cong if_weak_cong option.case_cong_weak
  sum.case_cong_weak prod.case_cong_weak list.case_cong_weak handler_plan.case_cong_weak
  pending_barrier.case_cong_weak task_event.case_cong_weak transition_contract_kind.case_cong_weak
  drain_target.case_cong_weak pending_user_control.case_cong_weak

lemmas exec_simps = Let_def retry_timer_id_new_def slow_readmission_id_new_def
  no_space_probe_id_new_def host_key_resolution_id_new_def stopped_result_deletion_id_new_def
  nonzero_u64_new_def generation_checked_next_def task_id_new_def insert_at_def remove_at_def
  bt_remove_def usize_max_def checked_add_def List.find.simps bt_values_def bt_keys_def
  bt_map_values_def generation_initial_def owns_slot_def defers_user_control_def
  transition_contract.simps contract_defs contract_accepts_def kind_accepts_def outcome_checked_def
  outcome_default_def MAX_SCHEDULER_EFFECTS_def for_task_def for_validated_add_def for_resume_def
  for_host_key_resolution_def for_no_space_probe_result_def is_terminal_def is_terminal_pending_def
  is_retained_result_def aria2_is_terminal_def blocks_admission_def task_conditions_to_snapshot_def
  task_conditions_validate_def no_space_condition_validate_def credential_requirement_validate_def
  snapshot_validate_def wire_status_def project_def projected_live_def projected_terminal_def
  scheduled_task_new_def is_terminal_persistence_def task_queue_class_def task_snapshot_of_def
  scheduled_task_snapshot_def clear_generation_event_history_def task_view_def queues_default_def
  id_counters_default_def next_id_def ids_retry_timer_def ids_slow_readmission_def
  ids_no_space_probe_def ids_host_key_resolution_def ids_stopped_deletion_def scheduler_new_def
  configure_queue_policies_def scheduler_len_def presented_host_key_def scheduler_task_def
  scheduler_credential_requirement_key_def scheduler_snapshot_def queue_snapshot_def
  active_slot_count_def task_clone_def reject_pending_def defers_user_control_def
  stopped_deletion_barrier_def pending_stopped_deletion_def target_for_action_def
  required_target_def queue_memberships_def queue_updates_def queue_update_orders_def
  check_stopped_deletion_def terminal_persistence_of_def with_queue_effect_def
  published_snapshot_of_def outcome_parts_def plan_action_def apply_queue_updates_def
  commit_action_def finish_action_def ignored_outcome_def queue_effects_for_reorder_def
  release_slot_def cancel_timers_def schedule_no_space_probe_def begin_cancellation_def
  begin_terminal_def complete_pending_user_control_def plan_admission_def plan_finish_def
  run_plan_def on_task_def is_cancellation_drain_def is_host_key_resolution_def pending_remove_def
  pending_pause_def deferring_barrier_def add_validated_task_def pause_deferred_def pause_now_def
  pause_plan_def cancel_slow_readmission_def reset_slow_demotions_def resume_deferred_def
  resume_no_space_probe_def resume_now_def resume_plan_def matching_challenge_def
  approve_host_key_plan_def begin_source_replacement_plan_def needed_credential_key_def
  clear_needs_credentials_def commit_source_replacement_plan_def option_patch_action_def
  apply_in_place_patch_def stage_restart_patch_def stale_credential_patch_def
  apply_option_patch_plan_def remove_deferred_def reject_challenge_effects_def remove_now_def
  remove_plan_def remove_stopped_result_plan_def change_position_def task_with_def unblocked_def
  find_in_queue_def pending_restart_patch_task_def retained_retry_task_def waiting_task_def
  demoted_task_def preferred_demoted_def or_else_def slot_blocked_task_def admission_candidate_def
  restart_application_plan_def admission_action_def admission_plan_def decrement_slow_position_def
  admit_next_at_def generation_disposition_def token_disposition_def ignored_for_disposition_def
  plan_ignored_def stale_if_rejected_event_def unless_stale_def mark_non_token_event_def
  generation_persisted_plan_def expected_patch_persistence_def expected_patch_application_def
  option_patch_persistence_plan_def patch_application_action_def application_publishes_def
  patch_application_updated_def option_patch_application_plan_def expected_resolution_def
  host_key_resolution_plan_def allocation_succeeded_plan_def retry_wait_plan_def
  allocation_retryable_plan_def active_retry_idle_plan_def allocation_host_key_challenge_plan_def
  terminal_plan_def allocation_failed_plan_def retry_ready_plan_def
  active_representation_restart_plan_def data_complete_plan_def no_space_plan_def
  terminal_failure_plan_def slow_demoted_plan_def slow_paused_plan_def waiting_first_def
  slow_readmit_plan_def verification_succeeded_plan_def verification_recoverable_plan_def
  verification_failed_plan_def seeding_complete_plan_def seeding_failed_plan_def
  drain_target_effects_def probe_after_drain_def drain_target_of_def cancellation_drained_plan_def
  no_space_probe_completed_plan_def terminal_persisted_plan_def expected_deletion_def
  stopped_result_deletion_plan_def barrier_accepts_event_def no_space_event_validate_def
  guarded_event_plan_def handle_event_at_def

definition small_config :: scheduler_config where
  "small_config = \<lparr>cfg_max_tasks = 4, cfg_max_active_tasks = 2, cfg_retry_wait_holds_slot = True,
                   cfg_slow_readmission_policy = SRP_Back\<rparr>"

abbreviation clear_conditions :: task_conditions where
  "clear_conditions \<equiv> \<lparr>tc_needs_credentials = None, tc_no_space = None\<rparr>"

definition download_inputs :: "scheduler_input list" where
  "download_inputs =
     [In_Command (MonotonicInstant 0) (Cmd_AddValidatedTask (TaskId 1) (Gid 7) False clear_conditions),
      In_Admission (MonotonicInstant 1),
      In_Event (MonotonicInstant 2) (for_task (Ev_GenerationPersisted (Gid 7) (Generation 0)) (TaskId 1)),
      In_Event (MonotonicInstant 3) (for_task (Ev_AllocationSucceeded (Gid 7) (Generation 0)) (TaskId 1)),
      In_Event (MonotonicInstant 4) (for_task (Ev_DataComplete (Gid 7) (Generation 0) False) (TaskId 1)),
      In_Event (MonotonicInstant 5) (for_task (Ev_VerificationSucceeded (Gid 7) (Generation 0)) (TaskId 1)),
      In_Event (MonotonicInstant 6) (for_task (Ev_TerminalPersisted (Gid 7) (Generation 0) AS_Complete) (TaskId 1))]"

lemma download_completes:
  "map_option (\<lambda>t. (t_state t, t_stopped_status t))
     (bt_get (rs_tasks (run_inputs (scheduler_new small_config) download_inputs)) (Gid 7))
   = Some (TS_StoppedResult, Some AS_Complete)"
  by (simp add: download_inputs_def small_config_def exec_simps cong: exec_cong)

lemma download_task_ids:
  "map_option t_task_id (bt_get (rs_tasks (run_inputs (scheduler_new small_config) (take 1 download_inputs))) (Gid 7))
     = Some (TaskId 1)"
  "map_option t_task_id (bt_get (rs_tasks (run_inputs (scheduler_new small_config) download_inputs)) (Gid 7))
     = Some (TaskId 1)"
  "map_option (\<lambda>t. (t_task_id t, t_state t))
     (bt_get (rs_tasks (run_inputs (scheduler_new small_config) (take 6 download_inputs))) (Gid 7))
     = Some (TaskId 1, TS_Complete)"
  by (simp_all add: download_inputs_def small_config_def exec_simps cong: exec_cong)

end
