(* ===== verification/Progress.thy ===== *)
theory Progress
  imports Scenarios
begin

text \<open>
  Progress: when an action is carried out. \<open>run_finish\<close> says what a handler must provide so that its
  final \<open>finish_action\<close> succeeds in a consistent scheduler; with it the normal life of a download and of
  a removal is followed event by event, for any task in any reachable scheduler.
\<close>

section \<open>An action that succeeds\<close>

lemma pending_stopped_deletion_None:
  assumes "bt_wf (rs_tasks s)"
  shows "pending_stopped_deletion s = None \<longleftrightarrow>
    (\<forall>g t. bt_get (rs_tasks s) g = Some t \<longrightarrow> deletion_token t = None)"
proof -
  have "find_map stopped_deletion_barrier ts = None \<longleftrightarrow> (\<forall>t \<in> set ts. deletion_token t = None)" for ts
    by (induction ts)
      (auto simp: stopped_deletion_barrier_def deletion_token_def split: option.splits pending_barrier.splits)
  then show ?thesis
    using bt_values_iff [OF assms] by (auto simp: pending_stopped_deletion_def)
qed

definition action_ready ::
  "request_scheduler \<Rightarrow> scheduled_task \<Rightarrow> scheduled_task \<Rightarrow> scheduler_action \<Rightarrow> transition_effect list \<Rightarrow>
   bool \<Rightarrow> bool" where
  "action_ready s t u a es pub \<longleftrightarrow>
     t_gid u = t_gid t \<and> t_task_id u = t_task_id t
     \<and> t_state u \<in> step_targets (transition_contract (t_state t) a)
     \<and> length es \<le> 6 \<and> deletion_token u = None
     \<and> task_queue_class t \<noteq> None \<and> task_queue_class u \<noteq> None
     \<and> (pub \<longrightarrow> snapshot_ok (task_snapshot_of u (cfg_retry_wait_holds_slot (rs_config s))))
     \<and> (terminal_persistence_of t (Some u) \<noteq> None \<longrightarrow>
          task_queue_class u = Some QC_Stopped \<and> task_queue_class t \<noteq> Some QC_Stopped)"

lemma step_targets_accepts: "st \<in> step_targets c \<Longrightarrow> contract_accepts c"
  by (auto simp: step_targets_def contract_accepts_def kind_accepts_def split: if_splits)

lemma outcome_parts_step:
  "t_state u \<in> step_targets c \<Longrightarrow> \<exists>r. outcome_parts c t (Some u) at = Inr r"
  by (cases "ct_kind c") (auto simp: step_targets_def outcome_parts_def split: if_splits)

lemma with_queue_effect_ready:
  assumes "action_ready s t u a es pub"
  shows "\<exists>es1. with_queue_effect s t (Some u) True a es (task_queue_class t) (task_queue_class u)
      (moved_orders q g (task_queue_class t) (task_queue_class u)) = Inr es1 \<and> length es1 \<le> 7"
proof -
  obtain c d where "task_queue_class t = Some c" "task_queue_class u = Some d"
    using assms by (auto simp: action_ready_def)
  with assms show ?thesis
    by (auto simp: action_ready_def with_queue_effect_def Let_def moved_orders_def and_then_eq_Inr
        split: option.splits prod.splits)
qed

lemma published_snapshot_ready:
  "(pub \<Longrightarrow> snapshot_ok (task_snapshot_of u (cfg_retry_wait_holds_slot (rs_config s)))) \<Longrightarrow>
   \<exists>sn. published_snapshot_of s (Some u) pub = Inr sn"
  by (cases pub) (auto simp: published_snapshot_of_def and_then_eq_Inr scheduled_task_snapshot_ok)

lemma plan_action_ready:
  assumes inv: "sched_inv s" and t: "bt_get (rs_tasks s) g = Some t"
    and ready: "action_ready s t u a es pub"
    and free: "pending_stopped_deletion s = None
      \<or> task_queue_class t \<noteq> Some QC_Stopped \<and> task_queue_class u \<noteq> Some QC_Stopped"
  shows "\<exists>r. plan_action s t (Some u) True a at es pub = Inr r"
proof -
  let ?c = "transition_contract (t_state t) a"
  have g: "t_gid t = g" using sched_invD(7) [OF inv t] .
  have cls: "task_class s g = task_queue_class t" using t by (simp add: task_class_def)
  have q: "queue_updates s g (task_queue_class t) (task_queue_class u)
      = Inr (moved_orders (rs_queues s) g (task_queue_class t) (task_queue_class u))"
    using queue_updates_match [OF sched_invD(3) [OF inv] cls] .
  have st: "t_state u \<in> step_targets ?c" using ready by (simp add: action_ready_def)
  obtain r where parts: "outcome_parts ?c t (Some u) at = Inr r" using outcome_parts_step [OF st] by blast
  obtain es1 where eff: "with_queue_effect s t (Some u) True a es (task_queue_class t) (task_queue_class u)
      (moved_orders (rs_queues s) g (task_queue_class t) (task_queue_class u)) = Inr es1" "length es1 \<le> 7"
    using with_queue_effect_ready [OF ready] by blast
  obtain sn where sn: "published_snapshot_of s (Some u) pub = Inr sn"
    using published_snapshot_ready [of pub u s] ready by (auto simp: action_ready_def)
  have del: "check_stopped_deletion s a
      (moved_orders (rs_queues s) g (task_queue_class t) (task_queue_class u)) = Inr ()"
    using free by (auto simp: check_stopped_deletion_def moved_orders_def split: option.split)
  have len: "outcome_checked x y (es1 @ (case sn of None \<Rightarrow> [] | Some z \<Rightarrow> [f z]))
      = Inr \<lparr>out_transition = x, out_deletion = y,
             out_effects = es1 @ (case sn of None \<Rightarrow> [] | Some z \<Rightarrow> [f z])\<rparr>" for x y f
    using eff(2) by (auto simp: outcome_checked_def MAX_SCHEDULER_EFFECTS_def split: option.split)
  show ?thesis
    using step_targets_accepts [OF st] q eff sn parts
    by (simp add: plan_action_def Let_def g del len split_def)
qed

lemma run_finish:
  assumes inv: "sched_inv s" and t: "bt_get (rs_tasks s) g = Some t"
    and ready: "action_ready s t u a es pub"
    and free: "pending_stopped_deletion s = None
      \<or> task_queue_class t \<noteq> Some QC_Stopped \<and> task_queue_class u \<noteq> Some QC_Stopped"
  shows "\<exists>out. fst (run_plan s t at (plan_finish u a es pub ids)) = Inr out"
    and "bt_get (rs_tasks (snd (run_plan s t at (plan_finish u a es pub ids)))) h
      = (if h = g then Some u else bt_get (rs_tasks s) h)"
proof -
  obtain out us sn where plan: "plan_action s t (Some u) True a at es pub = Inr (out, us, sn)"
    using plan_action_ready [OF assms, of at] by (metis prod.exhaust)
  have g: "t_gid u = g" using ready sched_invD(7) [OF inv t] by (simp add: action_ready_def)
  from plan g show "\<exists>out. fst (run_plan s t at (plan_finish u a es pub ids)) = Inr out"
    "bt_get (rs_tasks (snd (run_plan s t at (plan_finish u a es pub ids)))) h
      = (if h = g then Some u else bt_get (rs_tasks s) h)"
    by (simp_all add: run_plan_def plan_finish_def finish_action_def)
qed

section \<open>An event that is accepted\<close>

definition fresh_event :: "scheduled_task \<Rightarrow> task_event \<Rightarrow> bool" where
  "fresh_event t ev \<longleftrightarrow>
     event_gid ev = t_gid t \<and> event_generation ev = t_generation t
     \<and> (event_kind ev \<in> t_seen_events t \<longrightarrow> event_token ev \<noteq> None \<or> event_kind ev = EK_TerminalPersisted)
     \<and> barrier_accepts_event (t_pending_barrier t) (event_kind ev)
     \<and> no_space_event_validate ev = Inr ()"

lemma guarded_fresh:
  "fresh_event t ev \<Longrightarrow> guarded_event_plan s t at (for_task ev (t_task_id t)) = event_plan s t at ev"
  by (auto simp: fresh_event_def guarded_event_plan_def Let_def for_task_def generation_disposition_def)

lemma event_accepted:
  assumes inv: "sched_inv s" and t: "bt_get (rs_tasks s) g = Some t" and fresh: "fresh_event t ev"
    and plan: "event_plan s t at ev = plan_finish u a es pub ids"
    and ready: "action_ready s t u a es pub" and free: "pending_stopped_deletion s = None"
    and s': "s' = snd (handle_event_at s (for_task ev (t_task_id t)) at)"
  shows "sched_inv s'" "bt_get (rs_tasks s') g = Some u" "pending_stopped_deletion s' = None"
    "\<And>h. h \<noteq> g \<Longrightarrow> bt_get (rs_tasks s') h = bt_get (rs_tasks s) h"
proof -
  have g: "event_gid ev = g" using fresh sched_invD(7) [OF inv t] by (simp add: fresh_event_def)
  have "handle_event_at s (for_task ev (t_task_id t)) at = run_plan s t at (plan_finish u a es pub ids)"
    using guarded_fresh [OF fresh, of s at] t plan g
    by (simp add: handle_event_at_def on_task_def task_clone_def, simp add: for_task_def)
  with run_finish(2) [OF inv t ready disjI1 [OF free]] s'
  have get: "bt_get (rs_tasks s') h = (if h = g then Some u else bt_get (rs_tasks s) h)" for h by simp
  show inv': "sched_inv s'" using handle_event_at_inv [OF inv] s' by simp
  show "bt_get (rs_tasks s') g = Some u" by (simp add: get)
  show "bt_get (rs_tasks s') h = bt_get (rs_tasks s) h" if "h \<noteq> g" for h using that by (simp add: get)
  have "deletion_token u = None" using ready by (simp add: action_ready_def)
  with free show "pending_stopped_deletion s' = None"
    using pending_stopped_deletion_None [OF sched_invD(6) [OF inv]]
      pending_stopped_deletion_None [OF sched_invD(6) [OF inv']]
    by (auto simp: get split: if_splits)
qed

text \<open>The life of a download after its admission, one event after the other.\<close>

definition download_events :: "gid \<Rightarrow> generation \<Rightarrow> task_event list" where
  "download_events g gen =
     [Ev_GenerationPersisted g gen, Ev_AllocationSucceeded g gen, Ev_DataComplete g gen False,
      Ev_VerificationSucceeded g gen, Ev_TerminalPersisted g gen AS_Complete]"

definition admitted :: "scheduled_task \<Rightarrow> bool" where
  "admitted t \<longleftrightarrow>
     t_state t = TS_Allocating \<and> t_pending_barrier t = Some (PB_GenerationPersistence (t_generation t))
     \<and> t_seen_events t \<inter> {EK_GenerationPersisted, EK_AllocationSucceeded, EK_DataComplete,
          EK_VerificationSucceeded} = {}"

text \<open>What makes the next event of a task succeed: its plan is an action that can be carried out.\<close>

definition accepts_event ::
  "request_scheduler \<Rightarrow> scheduled_task \<Rightarrow> monotonic_instant \<Rightarrow> task_event \<Rightarrow> scheduled_task \<Rightarrow> bool" where
  "accepts_event s t at ev u \<longleftrightarrow>
     fresh_event t ev
     \<and> (\<exists>a es pub ids. event_plan s t at ev = plan_finish u a es pub ids \<and> action_ready s t u a es pub)"

lemma accepts_eventI:
  "event_plan s t at ev = plan_finish u a es pub ids \<Longrightarrow> fresh_event t ev \<Longrightarrow> action_ready s t u a es pub \<Longrightarrow>
   accepts_event s t at ev u"
  by (auto simp: accepts_event_def)

lemmas plan_simps = unless_stale_def stale_if_rejected_event_def transition_contract.simps contract_defs
  contract_accepts_def kind_accepts_def mark_non_token_event_def required_target_def target_for_action_def
  Let_def

lemmas ready_simps = action_ready_def step_targets_def transition_contract.simps contract_defs
  deletion_token_def task_queue_class_def snapshot_ok_task terminal_inv_def conditions_inv_def
  terminal_persistence_of_def state_defs

lemma generation_persisted_accepted:
  assumes "task_ok t" "admitted t"
  shows "accepts_event s t at (Ev_GenerationPersisted (t_gid t) (t_generation t))
    (t\<lparr>t_pending_barrier := None, t_slot := SO_Active,
       t_seen_events := insert EK_GenerationPersisted (t_seen_events t)\<rparr>)"
proof (rule accepts_eventI)
  show "event_plan s t at (Ev_GenerationPersisted (t_gid t) (t_generation t)) = plan_finish
      (t\<lparr>t_pending_barrier := None, t_slot := SO_Active,
       t_seen_events := insert EK_GenerationPersisted (t_seen_events t)\<rparr>)
      SA_GenerationPersistenceSucceeded
      [Eff_StartAllocation (t_task_id t) (t_gid t) (t_generation t)] True (rs_ids s)"
    using assms(2) by (simp add: generation_persisted_plan_def admitted_def plan_simps)
qed (use assms task_okD(3,4) [OF assms(1)] in \<open>auto simp: fresh_event_def admitted_def
    barrier_accepts_event_def no_space_event_validate_def ready_simps\<close>)

lemma allocation_succeeded_accepted:
  assumes "task_ok t" "t_state t = TS_Allocating" "t_pending_barrier t = None"
    "EK_AllocationSucceeded \<notin> t_seen_events t"
  shows "accepts_event s t at (Ev_AllocationSucceeded (t_gid t) (t_generation t))
    (t\<lparr>t_state := TS_Active, t_seen_events := insert EK_AllocationSucceeded (t_seen_events t)\<rparr>)"
proof (rule accepts_eventI)
  show "event_plan s t at (Ev_AllocationSucceeded (t_gid t) (t_generation t)) = plan_finish
      (t\<lparr>t_state := TS_Active, t_seen_events := insert EK_AllocationSucceeded (t_seen_events t)\<rparr>)
      SA_AllocationSucceeded [] True (rs_ids s)"
    using assms by (simp add: allocation_succeeded_plan_def plan_simps)
qed (use assms task_okD(3,4) [OF assms(1)] in \<open>auto simp: fresh_event_def
    barrier_accepts_event_def no_space_event_validate_def ready_simps condition_state_def\<close>)

lemma data_complete_accepted:
  assumes "task_ok t" "t_state t = TS_Active" "t_pending_barrier t = None" "EK_DataComplete \<notin> t_seen_events t"
  shows "accepts_event s t at (Ev_DataComplete (t_gid t) (t_generation t) False)
    (t\<lparr>t_state := TS_Verifying, t_seen_events := insert EK_DataComplete (t_seen_events t)\<rparr>)"
proof (rule accepts_eventI)
  show "event_plan s t at (Ev_DataComplete (t_gid t) (t_generation t) False) = plan_finish
      (t\<lparr>t_state := TS_Verifying, t_seen_events := insert EK_DataComplete (t_seen_events t)\<rparr>)
      SA_AllRequiredDataReceived [] True (rs_ids s)"
    using assms by (simp add: data_complete_plan_def plan_simps)
qed (use assms task_okD(3,4) [OF assms(1)] in \<open>auto simp: fresh_event_def
    barrier_accepts_event_def no_space_event_validate_def ready_simps condition_state_def\<close>)

lemma verification_succeeded_accepted:
  assumes "task_ok t" "t_state t = TS_Verifying" "t_pending_barrier t = None"
    "EK_VerificationSucceeded \<notin> t_seen_events t"
  shows "accepts_event s t at (Ev_VerificationSucceeded (t_gid t) (t_generation t))
    (t\<lparr>t_state := TS_Complete, t_slot := SO_None, t_error := None, t_stopped_status := None,
       t_terminal_persisted := False, t_pending_barrier := Some (PB_TerminalPersistence (t_generation t) AS_Complete),
       t_seen_events := insert EK_VerificationSucceeded (t_seen_events t)\<rparr>)"
proof (rule accepts_eventI)
  have slot: "owns_slot (t_slot t)" using task_okD(1) [OF assms(1)] assms(2) by (simp add: slot_inv_def state_defs)
  show "event_plan s t at (Ev_VerificationSucceeded (t_gid t) (t_generation t)) = plan_finish
      (t\<lparr>t_state := TS_Complete, t_slot := SO_None, t_error := None, t_stopped_status := None,
         t_terminal_persisted := False, t_pending_barrier := Some (PB_TerminalPersistence (t_generation t) AS_Complete),
         t_seen_events := insert EK_VerificationSucceeded (t_seen_events t)\<rparr>)
      SA_VerificationSucceeded [Eff_ReleaseSlot (t_task_id t) (t_gid t) (t_slot t)] False (rs_ids s)"
    using assms slot
    by (simp add: verification_succeeded_plan_def terminal_plan_def release_slot_def begin_terminal_def
        aria2_is_terminal_def plan_simps)
qed (use assms task_okD(3,4) [OF assms(1)] in \<open>auto simp: fresh_event_def
    barrier_accepts_event_def no_space_event_validate_def ready_simps is_terminal_persistence_def\<close>)

lemma terminal_persisted_accepted:
  assumes "task_ok t" "t_pending_barrier t = Some (PB_TerminalPersistence (t_generation t) st)"
    "\<not> blocks_admission (t_conditions t)"
  shows "accepts_event s t at (Ev_TerminalPersisted (t_gid t) (t_generation t) st)
    (t\<lparr>t_pending_barrier := None, t_state := TS_StoppedResult, t_stopped_status := Some st,
       t_terminal_persisted := True, t_seen_events := insert EK_TerminalPersisted (t_seen_events t)\<rparr>)"
proof (rule accepts_eventI)
  have inv: "terminal_state st = Some (t_state t)" "st = AS_Error \<Longrightarrow> t_error t \<noteq> None"
    using task_okD(2) [OF assms(1,2)] by simp_all
  then have cases: "st = AS_Complete \<and> t_state t = TS_Complete \<or> st = AS_Error \<and> t_state t = TS_Error
      \<or> st = AS_Removed \<and> t_state t = TS_Removed"
    by (cases st) auto
  then show "event_plan s t at (Ev_TerminalPersisted (t_gid t) (t_generation t) st) = plan_finish
      (t\<lparr>t_pending_barrier := None, t_state := TS_StoppedResult, t_stopped_status := Some st,
       t_terminal_persisted := True, t_seen_events := insert EK_TerminalPersisted (t_seen_events t)\<rparr>)
      SA_TerminalPersistenceSucceeded [] True (rs_ids s)"
    using assms by (auto simp: terminal_persisted_plan_def plan_simps)
  show "fresh_event t (Ev_TerminalPersisted (t_gid t) (t_generation t) st)"
    using assms by (simp add: fresh_event_def barrier_accepts_event_def no_space_event_validate_def)
  show "action_ready s t (t\<lparr>t_pending_barrier := None, t_state := TS_StoppedResult, t_stopped_status := Some st,
       t_terminal_persisted := True, t_seen_events := insert EK_TerminalPersisted (t_seen_events t)\<rparr>)
      SA_TerminalPersistenceSucceeded [] True"
    using cases assms inv task_okD(3) [OF assms(1)]
    by (auto simp: ready_simps is_terminal_persistence_def aria2_is_terminal_def)
qed

section \<open>The life of a download\<close>

lemma accepted_step:
  assumes "sched_inv s" "bt_get (rs_tasks s) g = Some t" "pending_stopped_deletion s = None"
    and "accepts_event s t at ev u"
  defines "s' \<equiv> snd (handle_event_at s (for_task ev (t_task_id t)) at)"
  shows "sched_inv s'" "bt_get (rs_tasks s') g = Some u" "pending_stopped_deletion s' = None"
    "\<And>h. h \<noteq> g \<Longrightarrow> bt_get (rs_tasks s') h = bt_get (rs_tasks s) h"
proof -
  obtain a es pub ids where "fresh_event t ev" "event_plan s t at ev = plan_finish u a es pub ids"
    "action_ready s t u a es pub"
    using assms(4) by (auto simp: accepts_event_def)
  note step = event_accepted [OF assms(1,2) this assms(3) s'_def [THEN meta_eq_to_obj_eq]]
  show "sched_inv s'" "bt_get (rs_tasks s') g = Some u" "pending_stopped_deletion s' = None"
    "\<And>h. h \<noteq> g \<Longrightarrow> bt_get (rs_tasks s') h = bt_get (rs_tasks s) h"
    using step by blast+
qed

definition deliver :: "task_id \<Rightarrow> monotonic_instant \<Rightarrow> task_event list \<Rightarrow> request_scheduler \<Rightarrow> request_scheduler" where
  "deliver i at evs s = run_inputs s (map (\<lambda>ev. In_Event at (for_task ev i)) evs)"

lemma deliver_Cons:
  "deliver i at [] s = s"
  "deliver i at (ev # evs) s = deliver i at evs (snd (handle_event_at s (for_task ev i) at))"
  by (simp_all add: deliver_def)

text \<open>The state of one task and the frame around it, from one event to the next.\<close>

definition standing :: "request_scheduler \<Rightarrow> gid \<Rightarrow> request_scheduler \<Rightarrow> scheduled_task \<Rightarrow> bool" where
  "standing s0 g s t \<longleftrightarrow>
     sched_inv s \<and> bt_get (rs_tasks s) g = Some t \<and> pending_stopped_deletion s = None
     \<and> (\<forall>h. h \<noteq> g \<longrightarrow> bt_get (rs_tasks s) h = bt_get (rs_tasks s0) h)"

lemma standingD:
  assumes "standing s0 g s t"
  shows "sched_inv s" "bt_get (rs_tasks s) g = Some t" "pending_stopped_deletion s = None" "task_ok t" "t_gid t = g"
  using assms sched_invD(2,7) [of s g t] by (auto simp: standing_def)

lemma standing_event:
  assumes st: "standing s0 g s t" and acc: "accepts_event s t at ev u" and i: "i = t_task_id t"
  shows "standing s0 g (snd (handle_event_at s (for_task ev i) at)) u"
  using accepted_step [OF standingD(1-3) [OF st] acc] st by (simp add: standing_def i)

lemma download_completes_run:
  assumes st: "standing s0 g s t" and adm: "admitted t"
  shows "\<exists>u. standing s0 g (deliver (t_task_id t) at (download_events g (t_generation t)) s) u
    \<and> t_state u = TS_StoppedResult \<and> t_stopped_status u = Some AS_Complete \<and> t_slot u = SO_None
    \<and> t_task_id u = t_task_id t"
proof -
  note g = standingD(5) [OF st]
  note s1 = standing_event [OF st generation_persisted_accepted [OF standingD(4) [OF st] adm] refl]
  note s2 = standing_event [OF s1 allocation_succeeded_accepted [OF standingD(4) [OF s1]] refl]
  note s3 = standing_event [OF s2 data_complete_accepted [OF standingD(4) [OF s2]] refl]
  note s4 = standing_event [OF s3 verification_succeeded_accepted [OF standingD(4) [OF s3]] refl]
  note s5 = standing_event [OF s4 terminal_persisted_accepted [where st = AS_Complete, OF standingD(4) [OF s4]] refl]
  have "\<not> blocks_admission (t_conditions t)"
    using task_okD(4) [OF standingD(4) [OF st]] adm by (auto simp: conditions_inv_def admitted_def condition_state_def state_defs)
  define u where "u = t\<lparr>t_slot := SO_None, t_error := None, t_pending_barrier := None, t_state := TS_StoppedResult,
      t_stopped_status := Some AS_Complete, t_terminal_persisted := True,
      t_seen_events := insert EK_TerminalPersisted (insert EK_VerificationSucceeded
        (insert EK_DataComplete (insert EK_AllocationSucceeded (insert EK_GenerationPersisted (t_seen_events t)))))\<rparr>"
  have "standing s0 g (deliver (t_task_id t) at (download_events g (t_generation t)) s) u"
    using s5 adm g \<open>\<not> blocks_admission (t_conditions t)\<close>
    by (simp add: admitted_def download_events_def deliver_Cons u_def)
  moreover have "t_state u = TS_StoppedResult" "t_stopped_status u = Some AS_Complete" "t_slot u = SO_None"
    "t_task_id u = t_task_id t"
    by (simp_all add: u_def)
  ultimately show ?thesis by blast
qed

section \<open>Commands\<close>

text \<open>A command whose plan can be carried out.\<close>

lemma standing_command:
  assumes st: "standing s0 g s t" and run: "execute_command_at s at cmd = on_task s g at h"
    and plan: "h t = plan_finish u a es pub ids" and ready: "action_ready s t u a es pub"
  shows "standing s0 g (snd (execute_command_at s at cmd)) u"
proof -
  note d = standingD [OF st]
  have eq: "execute_command_at s at cmd = run_plan s t at (plan_finish u a es pub ids)"
    using run d(2) plan by (simp add: on_task_def task_clone_def)
  have get: "bt_get (rs_tasks (snd (execute_command_at s at cmd))) h
      = (if h = g then Some u else bt_get (rs_tasks s) h)" for h
    using run_finish(2) [OF d(1,2) ready disjI1 [OF d(3)]] by (simp add: eq)
  have inv: "sched_inv (snd (execute_command_at s at cmd))" using execute_command_at_inv [OF d(1)] .
  have "deletion_token u = None" using ready by (simp add: action_ready_def)
  with d(3) have "pending_stopped_deletion (snd (execute_command_at s at cmd)) = None"
    using pending_stopped_deletion_None [OF sched_invD(6) [OF d(1)]]
      pending_stopped_deletion_None [OF sched_invD(6) [OF inv]]
    by (auto simp: get split: if_splits)
  with inv get st show ?thesis by (simp add: standing_def)
qed

definition undisturbed :: "scheduled_task \<Rightarrow> bool" where
  "undisturbed t \<longleftrightarrow>
     working_state (t_state t) \<and> t_pending_barrier t = None \<and> EK_CancellationDrained \<notin> t_seen_events t"

lemma undisturbed_facts:
  assumes ok: "task_ok t" and un: "undisturbed t"
  shows "owns_slot (t_slot t)" "t_retry_timer t = None \<and> t_slow_readmission t = None"
    "\<not> blocks_admission (t_conditions t)" "t_host_key_challenge t = None" "deferring_barrier t = None"
    "t_stopped_status t = None \<and> \<not> t_terminal_persisted t"
proof -
  have st: "t_state t \<in> {TS_Allocating, TS_Active, TS_Verifying, TS_Seeding}" and b: "t_pending_barrier t = None"
    using un by (simp_all add: undisturbed_def working_state_def)
  then have ne: "t_state t \<noteq> TS_RetryWait" "t_state t \<noteq> TS_WaitingSlow" "t_state t \<noteq> TS_PausedHostKey"
    "t_state t \<noteq> TS_StoppedResult"
    by auto
  show "owns_slot (t_slot t)" using task_okD(1) [OF ok] st by (auto simp: slot_inv_def working_state_def)
  show "t_retry_timer t = None \<and> t_slow_readmission t = None"
    using task_okD(5) [OF ok] ne unfolding timers_inv_def by blast
  show "\<not> blocks_admission (t_conditions t)"
    using task_okD(4) [OF ok] st b \<open>owns_slot (t_slot t)\<close> unfolding conditions_inv_def by simp
  show "t_host_key_challenge t = None" "t_stopped_status t = None \<and> \<not> t_terminal_persisted t"
    using task_okD(3) [OF ok] ne unfolding terminal_inv_def by blast+
  show "deferring_barrier t = None" using b by (simp add: deferring_barrier_def)
qed

definition removing :: "bool \<Rightarrow> scheduled_task \<Rightarrow> scheduled_task" where
  "removing force t =
     t\<lparr>t_retry_timer := None, t_retry_ready := False, t_slow_readmission := None,
       t_slow_readmission_ready := False, t_pending_slow_readmission := None, t_slow_slot := None,
       t_no_space_probe := None, t_host_key_challenge := None, t_pending_option_patch := None,
       t_pending_option_patch_mode := None, t_pending_credential_requirement := None,
       t_pending_user_control := None, t_state := TS_Removed,
       t_pending_barrier := Some (PB_CancellationDrain (t_generation t) DT_Removed force)\<rparr>"

lemma remove_accepted:
  assumes ok: "task_ok t" and un: "undisturbed t"
  shows "remove_plan s t force = plan_finish (removing force t) SA_Remove
      [Eff_CancelGeneration (t_task_id t) (t_gid t) (t_generation t) force] False (rs_ids s)"
    and "action_ready s t (removing force t) SA_Remove
      [Eff_CancelGeneration (t_task_id t) (t_gid t) (t_generation t) force] False"
proof -
  note f = undisturbed_facts [OF ok un]
  have st: "t_state t \<in> {TS_Allocating, TS_Active, TS_Verifying, TS_Seeding}" and b: "t_pending_barrier t = None"
    using un by (simp_all add: undisturbed_def working_state_def)
  show "remove_plan s t force = plan_finish (removing force t) SA_Remove
      [Eff_CancelGeneration (t_task_id t) (t_gid t) (t_generation t) force] False (rs_ids s)"
    using st f b
    by (auto simp: remove_plan_def remove_now_def plan_simps cancel_timers_def reject_challenge_effects_def
        begin_cancellation_def removing_def)
  show "action_ready s t (removing force t) SA_Remove
      [Eff_CancelGeneration (t_task_id t) (t_gid t) (t_generation t) force] False"
    using st f by (auto simp: removing_def ready_simps)
qed

definition removed :: "bool \<Rightarrow> scheduled_task \<Rightarrow> scheduled_task" where
  "removed force t =
     (removing force t)\<lparr>t_slot := SO_None, t_error := None, t_stopped_status := None,
       t_terminal_persisted := False, t_pending_barrier := Some (PB_TerminalPersistence (t_generation t) AS_Removed),
       t_seen_events := insert EK_CancellationDrained (t_seen_events t)\<rparr>"

lemma removal_drained_accepted:
  assumes ok: "task_ok t" and un: "undisturbed t"
  shows "accepts_event s (removing force t) at (Ev_CancellationDrained (t_gid t) (t_generation t)) (removed force t)"
proof (rule accepts_eventI)
  note f = undisturbed_facts [OF ok un]
  show "event_plan s (removing force t) at (Ev_CancellationDrained (t_gid t) (t_generation t)) = plan_finish
      (removed force t) SA_CancellationDrainSucceeded [Eff_ReleaseSlot (t_task_id t) (t_gid t) (t_slot t)] False (rs_ids s)"
    using f by (simp add: cancellation_drained_plan_def drain_target_of_def plan_simps removing_def removed_def
        release_slot_def drain_target_effects_def begin_terminal_def aria2_is_terminal_def probe_after_drain_def)
  show "fresh_event (removing force t) (Ev_CancellationDrained (t_gid t) (t_generation t))"
    using un by (simp add: fresh_event_def removing_def barrier_accepts_event_def no_space_event_validate_def undisturbed_def)
  show "action_ready s (removing force t) (removed force t) SA_CancellationDrainSucceeded
      [Eff_ReleaseSlot (t_task_id t) (t_gid t) (t_slot t)] False"
    using f by (simp add: removing_def removed_def ready_simps is_terminal_persistence_def)
qed

text \<open>The removal of a working task: the command, the end of its workers and the persisted result.\<close>

lemma removal_completes_run:
  assumes st: "standing s0 g s t" and un: "undisturbed t"
  shows "\<exists>u. standing s0 g (deliver (t_task_id t) at
      [Ev_CancellationDrained g (t_generation t), Ev_TerminalPersisted g (t_generation t) AS_Removed]
      (snd (execute_command_at s at (Cmd_Remove g force)))) u
    \<and> t_state u = TS_StoppedResult \<and> t_stopped_status u = Some AS_Removed \<and> t_slot u = SO_None
    \<and> t_task_id u = t_task_id t"
proof -
  note d = standingD [OF st]
  let ?s1 = "snd (execute_command_at s at (Cmd_Remove g force))"
  let ?s2 = "snd (handle_event_at ?s1 (for_task (Ev_CancellationDrained g (t_generation t)) (t_task_id t)) at)"
  have s1: "standing s0 g ?s1 (removing force t)"
    by (rule standing_command [OF st, where h = "\<lambda>t. remove_plan s t force",
          OF _ remove_accepted [OF d(4) un]]) simp
  have s2: "standing s0 g ?s2 (removed force t)"
    using standing_event [OF s1 removal_drained_accepted [OF d(4) un], of "t_task_id t" at] d(5)
    by (simp add: removing_def)
  have f: "t_gid (removed force t) = g" "t_generation (removed force t) = t_generation t"
    "t_task_id (removed force t) = t_task_id t" "\<not> blocks_admission (t_conditions (removed force t))"
    "t_pending_barrier (removed force t) = Some (PB_TerminalPersistence (t_generation t) AS_Removed)"
    using d(5) undisturbed_facts(3) [OF d(4) un] by (simp_all add: removed_def removing_def)
  define u where "u = (removed force t)\<lparr>t_pending_barrier := None, t_state := TS_StoppedResult,
      t_stopped_status := Some AS_Removed, t_terminal_persisted := True,
      t_seen_events := insert EK_TerminalPersisted (t_seen_events (removed force t))\<rparr>"
  have "standing s0 g (deliver (t_task_id t) at
      [Ev_CancellationDrained g (t_generation t), Ev_TerminalPersisted g (t_generation t) AS_Removed]
      (snd (execute_command_at s at (Cmd_Remove g force)))) u"
    using standing_event [OF s2 terminal_persisted_accepted [where st = AS_Removed, OF standingD(4) [OF s2]], of "t_task_id t" at] f
    by (simp add: deliver_Cons u_def)
  moreover have "t_state u = TS_StoppedResult" "t_stopped_status u = Some AS_Removed" "t_slot u = SO_None"
    "t_task_id u = t_task_id t"
    by (simp_all add: u_def removed_def removing_def)
  ultimately show ?thesis by blast
qed

section \<open>Admission\<close>

text \<open>A task that admission may pick and whose generation can start.\<close>

definition eligible :: "scheduled_task \<Rightarrow> bool" where
  "eligible t \<longleftrightarrow>
     (waiting_task t \<and> task_queue_class t = Some QC_Waiting \<or> demoted_task t \<or> retained_retry_task t)"

definition generation_available :: "scheduled_task \<Rightarrow> bool" where
  "generation_available t \<longleftrightarrow> t_generation_started t \<longrightarrow> generation_checked_next (t_generation t) \<noteq> None"

lemma find_task:
  assumes "g \<in> set (queues_get (rs_queues s) c)" "task_with s P g"
  shows "find_in_queue s c P \<noteq> None"
  unfolding find_in_queue_def using assms by (auto simp: find_None_iff)

lemma eligible_candidate:
  assumes inv: "sched_inv s" and t: "bt_get (rs_tasks s) g = Some t" and el: "eligible t"
  shows "\<exists>h. admission_candidate s = Inr h"
proof -
  have mem: "g \<in> set (queues_get (rs_queues s) c)" if "task_queue_class t = Some c" for c
    using queues_matchD(2) [OF sched_invD(3) [OF inv]] t that by (simp add: task_class_def)
  have "find_in_queue s QC_Waiting waiting_task \<noteq> None \<or> find_in_queue s QC_Demoted demoted_task \<noteq> None
      \<or> find_in_queue s QC_Active retained_retry_task \<noteq> None"
    using el mem t find_task
    by (auto simp: eligible_def task_with_def demoted_task_def retained_retry_task_def task_queue_class_def
        owns_slot_def)
  then show ?thesis
    by (auto simp: admission_candidate_def Let_def or_else_def split: option.splits)
qed

lemma admission_action_target:
  assumes "t_state t \<in> {TS_Waiting, TS_RetryWait, TS_WaitingSlow}"
  shows "\<exists>a. admission_action (t_state t) = Inr a \<and> required_target t a = Inr TS_Allocating
    \<and> TS_Allocating \<in> step_targets (transition_contract (t_state t) a)"
  using assms by (auto simp: admission_action_def plan_simps step_targets_def)

lemma plan_admission_succeeds:
  assumes un: "unblocked t" and tgt: "required_target t a = Inr TS_Allocating"
    and slot: "active_slot_count s < cfg_max_active_tasks (rs_config s)" and gen: "generation_available t"
  obtains u es where "plan_admission s t a [] = Inr (u, es)" "length es = 1" "t_state u = TS_Allocating"
    "t_gid u = t_gid t" "t_task_id u = t_task_id t" "t_conditions u = t_conditions t"
    "t_host_key_challenge u = t_host_key_challenge t" "t_terminal_persisted u = t_terminal_persisted t"
    "t_stopped_status u = t_stopped_status t"
    "t_pending_barrier u = Some (PB_GenerationPersistence (t_generation u))"
proof -
  obtain n where n: "(if t_generation_started t
      then ok_or SE_GenerationExhausted (generation_checked_next (t_generation t)) else Inr (t_generation t)) = Inr n"
    using gen by (cases "t_generation_started t") (auto simp: generation_available_def)
  define u where "u = (if n \<noteq> t_generation t then clear_generation_event_history (t\<lparr>t_generation := n\<rparr>) else t)
     \<lparr>t_generation_started := True, t_state := TS_Allocating, t_slot := SO_Reserved, t_retry_ready := False,
      t_slow_readmission_ready := False, t_pending_barrier := Some (PB_GenerationPersistence n)\<rparr>"
  have "plan_admission s t a [] = Inr (u, [Eff_PersistGenerationStarted (t_task_id u) (t_gid u) n])"
    using un slot tgt n
    by (simp add: plan_admission_def reject_pending_def unblocked_def u_def Let_def)
  then show ?thesis
    by (rule that) (simp_all add: u_def clear_generation_event_history_def)
qed

lemma admission_plan_ready:
  assumes ok: "task_ok t" and un: "unblocked t" and st: "t_state t \<in> {TS_Waiting, TS_RetryWait, TS_WaitingSlow}"
    and slot: "active_slot_count s < cfg_max_active_tasks (rs_config s)" and gen: "generation_available t"
  obtains u a es where "admission_plan s t = plan_finish u a es True (rs_ids s)" "action_ready s t u a es True"
    "t_state u = TS_Allocating" "t_pending_barrier u = Some (PB_GenerationPersistence (t_generation u))"
proof -
  obtain a where a: "admission_action (t_state t) = Inr a" "required_target t a = Inr TS_Allocating"
    "TS_Allocating \<in> step_targets (transition_contract (t_state t) a)"
    using admission_action_target [OF st] by blast
  obtain u es where plan: "plan_admission s t a [] = Inr (u, es)" and u: "length es = 1" "t_state u = TS_Allocating"
    "t_gid u = t_gid t" "t_task_id u = t_task_id t" "t_conditions u = t_conditions t"
    "t_host_key_challenge u = t_host_key_challenge t" "t_terminal_persisted u = t_terminal_persisted t"
    "t_stopped_status u = t_stopped_status t"
    "t_pending_barrier u = Some (PB_GenerationPersistence (t_generation u))"
    by (rule plan_admission_succeeds [OF un a(2) slot gen])
  have cls: "task_queue_class t \<noteq> None" "task_queue_class u = Some QC_Active"
    using st u(2) by (auto simp: task_queue_class_def)
  have "t_host_key_challenge t = None" "\<not> t_terminal_persisted t" "t_stopped_status t = None"
    using task_okD(3) [OF ok] st by (auto simp: terminal_inv_def)
  moreover have "\<not> blocks_admission (t_conditions t)" using un by (simp add: unblocked_def)
  ultimately have "action_ready s t u a es True"
    using u a(3) cls
    by (auto simp: action_ready_def snapshot_ok_task deletion_token_def terminal_persistence_of_def state_defs)
  moreover have "admission_plan s t = plan_finish u a es True (rs_ids s)"
    by (simp add: admission_plan_def a plan)
  ultimately show ?thesis using that u(2,9) by blast
qed

lemma restart_application_ready:
  assumes ok: "task_ok t" and t: "pending_restart_patch_task t"
  obtains u es where "restart_application_plan s t = plan_finish u SA_RestartApplicationScheduled es False (rs_ids s)"
    "action_ready s t u SA_RestartApplicationScheduled es False" "t_state u = TS_Waiting"
    "is_patch_application (t_pending_barrier u)"
proof -
  obtain p where p: "t_pending_option_patch t = Some p" using t by (auto simp: pending_restart_patch_task_def)
  show ?thesis
    by (rule that [of "t\<lparr>t_pending_barrier := Some (PB_OptionPatchApplication (t_generation t) p)\<rparr>"
          "[Eff_ApplyOptionPatch (t_task_id t) (t_gid t) p (t_pending_credential_requirement t)]"])
      (use t p in \<open>auto simp: restart_application_plan_def pending_restart_patch_task_def ready_simps\<close>)
qed

lemma candidate_task:
  assumes inv: "sched_inv s" and cand: "admission_candidate s = Inr g"
  obtains t where "bt_get (rs_tasks s) g = Some t" "t_state t \<in> {TS_Waiting, TS_RetryWait, TS_WaitingSlow}"
    "if t_state t = TS_Waiting \<and> t_pending_option_patch_mode t = Some POM_ActiveRestart
     then pending_restart_patch_task t else unblocked t"
proof -
  obtain t where t: "bt_get (rs_tasks s) g = Some t"
    using admission_candidate_task [OF cand] by (auto simp: task_with_def split: option.splits)
  note ready = admission_candidate_ready [OF cand t]
  have patch: "t_pending_option_patch_mode t = None \<longleftrightarrow> t_pending_option_patch t = None"
    using task_okD(6) [OF sched_invD(2) [OF inv t]] by (simp add: patch_inv_def)
  have "if t_state t = TS_Waiting \<and> t_pending_option_patch_mode t = Some POM_ActiveRestart
     then pending_restart_patch_task t else unblocked t"
    using admission_candidate_task [OF cand] t ready patch
    by (auto simp: task_with_def pending_restart_patch_task_def retained_retry_task_def waiting_task_def
        demoted_task_def)
  with that t ready(3) show ?thesis by blast
qed

lemma admission_succeeds:
  assumes inv: "sched_inv s" and cand: "admission_candidate s = Inr g"
    and slot: "active_slot_count s < cfg_max_active_tasks (rs_config s)"
    and gen: "\<And>t. bt_get (rs_tasks s) g = Some t \<Longrightarrow> generation_available t"
  shows "\<exists>out u. fst (admit_next_at s at) = Inr out
    \<and> bt_get (rs_tasks (snd (admit_next_at s at))) g = Some u
    \<and> (t_state u = TS_Allocating \<and> t_pending_barrier u = Some (PB_GenerationPersistence (t_generation u))
       \<or> t_state u = TS_Waiting \<and> is_patch_application (t_pending_barrier u))"
proof -
  obtain t where t: "bt_get (rs_tasks s) g = Some t" "t_state t \<in> {TS_Waiting, TS_RetryWait, TS_WaitingSlow}"
    "if t_state t = TS_Waiting \<and> t_pending_option_patch_mode t = Some POM_ActiveRestart
     then pending_restart_patch_task t else unblocked t"
    by (rule candidate_task [OF inv cand])
  note ok = sched_invD(2) [OF inv t(1)]
  have queue: "task_queue_class t \<noteq> Some QC_Stopped" using t(2) by (auto simp: task_queue_class_def)
  show ?thesis
  proof (cases "t_state t = TS_Waiting \<and> t_pending_option_patch_mode t = Some POM_ActiveRestart")
    case True
    with t(3) have "pending_restart_patch_task t" by simp
    from restart_application_ready [OF ok this] obtain u es where
      plan: "restart_application_plan s t = plan_finish u SA_RestartApplicationScheduled es False (rs_ids s)"
      and ready: "action_ready s t u SA_RestartApplicationScheduled es False" and u: "t_state u = TS_Waiting"
      and b: "is_patch_application (t_pending_barrier u)" .
    have "task_queue_class u \<noteq> Some QC_Stopped" using u by (simp add: task_queue_class_def)
    with run_finish [OF inv t(1) ready, of at] queue u b True cand t(1) plan show ?thesis
      by (fastforce simp: admit_next_at_def task_clone_def)
  next
    case False
    with t(3) have un: "unblocked t" by (simp split: if_splits)
    obtain u a es where plan: "admission_plan s t = plan_finish u a es True (rs_ids s)"
      and ready: "action_ready s t u a es True" and u: "t_state u = TS_Allocating"
      and b: "t_pending_barrier u = Some (PB_GenerationPersistence (t_generation u))"
      by (rule admission_plan_ready [OF ok un t(2) slot gen [OF t(1)]])
    have "task_queue_class u \<noteq> Some QC_Stopped" using u by (simp add: task_queue_class_def)
    with run_finish [OF inv t(1) ready, where at = at and ids = "rs_ids s"] queue obtain out where
      out: "fst (run_plan s t at (admission_plan s t)) = Inr out"
      and get: "bt_get (rs_tasks (snd (run_plan s t at (admission_plan s t)))) g = Some u"
      unfolding plan by auto
    from out get u b False cand t(1) show ?thesis
      by (cases "run_plan s t at (admission_plan s t)")
        (auto simp: admit_next_at_def task_clone_def decrement_slow_position_def)
  qed
qed

end
