(* ===== verification/StuckTasks.thy ===== *)
theory StuckTasks
  imports Scenarios
begin

text \<open>
  Runs in which a task is left in a state it cannot leave, or an event is lost. Each theorem is one
  complete run from a fresh scheduler, evaluated on the definitions of the operations.
\<close>

section \<open>Inputs\<close>

abbreviation event_at :: "nat \<Rightarrow> task_event \<Rightarrow> scheduler_input" where
  "event_at n ev \<equiv> In_Event (MonotonicInstant n) (for_task ev (TaskId 1))"

abbreviation command_at :: "nat \<Rightarrow> scheduler_command \<Rightarrow> scheduler_input" where
  "command_at n cmd \<equiv> In_Command (MonotonicInstant n) cmd"

abbreviation drained :: task_event_envelope where
  "drained \<equiv> for_task (Ev_CancellationDrained (Gid 7) (Generation 0)) (TaskId 1)"

text \<open>The state of the only task after the inputs, once it is transferring data.\<close>

definition after_active :: "scheduler_input list \<Rightarrow> request_scheduler" where
  "after_active is = run_inputs (scheduler_new small_config) (take 4 download_inputs @ is)"

definition situation :: "request_scheduler \<Rightarrow> (task_state \<times> slot_ownership \<times> pending_barrier option) option" where
  "situation s = map_option (\<lambda>t. (t_state t, t_slot t, t_pending_barrier t)) (bt_get (rs_tasks s) (Gid 7))"

lemmas scenario_simps = after_active_def situation_def download_inputs_def small_config_def exec_simps

lemma after_active_reachable: "reachable small_config (after_active is)"
  unfolding after_active_def by (rule reachable_inputs)

section \<open>Runs\<close>






definition sample_challenge :: presented_host_key_challenge where
  "sample_challenge =
     \<lparr>ph_summary = \<lparr>hk_id = HostKeyChallengeId [1], hk_canonical_host = ''h'', hk_port = 22,
                    hk_algorithm = ''a'', hk_fingerprint_sha256 = HostKeyFingerprint [1]\<rparr>,
      ph_presented_public_key = [1]\<rparr>"


end
