(* ===== verification/RestorePlan.thy ===== *)
theory RestorePlan
  imports Scenarios
begin

text \<open>
  What a restored scheduler holds, record by record, and what the batches of its restore plan
  (\<open>SchedulerRestorePlan::next_batch\<close>) hand to the dispatcher.
\<close>

section \<open>Restoration\<close>


definition retry_record :: recovered_scheduler_task where
  "retry_record = \<lparr>rt_task_id = TaskId 3, rt_gid = Gid 7, rt_state = TS_RetryWait, rt_generation = Generation 2,
     rt_generation_started = True, rt_desired_paused = False, rt_conditions = clear_conditions,
     rt_slow_demotion_count = 0, rt_slow_slot = None, rt_retry_at = Some (MonotonicInstant 50),
     rt_host_key_challenge = None, rt_error = None, rt_stopped_status = None\<rparr>"

definition retry_batch :: scheduler_restore_batch where
  "retry_batch = \<lparr>rb_tasks = [retry_record], rb_queues =
     map (\<lambda>c. \<lparr>qo_class = c, qo_order = (if c = QC_Waiting then [Gid 7] else [])\<rparr>) ALL_QUEUE_CLASSES\<rparr>"

lemmas restore_simps = restore_def check_all_queues_def recovered_task_def exhausted_def restore_timers_def
  restore_probe_def push_effects_def restore_task_def check_membership_count_def queue_members_in_order_def
  validate_recovered_task_def validate_slow_state_def validate_result_metadata_def ALL_QUEUE_CLASSES_def

lemma retry_batch_restored: "\<exists>s plan. restore small_config retry_batch = Inr (s, plan)"
  by (simp add: retry_batch_def retry_record_def small_config_def restore_simps exec_simps cong: exec_cong)


text \<open>The dispatcher takes batches until the plan is empty.\<close>

function restore_batches :: "scheduler_restore_plan \<Rightarrow> transition_effect list list" where
  "restore_batches plan =
     (if plan_is_empty plan then [] else fst (next_batch plan) # restore_batches (snd (next_batch plan)))"
  by auto
termination
  by (relation "measure plan_remaining")
    (auto simp: plan_remaining_def next_batch_def Let_def plan_is_empty_def MAX_SCHEDULER_EFFECTS_def)

declare restore_batches.simps [simp del]

lemma restore_batches_ok:
  "concat (restore_batches plan) = rp_effects plan
   \<and> (\<forall>b \<in> set (restore_batches plan). b \<noteq> [] \<and> length b \<le> MAX_SCHEDULER_EFFECTS)"
proof (induction plan rule: restore_batches.induct)
  case (1 plan)
  show ?case
  proof (cases "plan_is_empty plan")
    case True
    then show ?thesis by (simp add: restore_batches.simps plan_is_empty_def)
  next
    case False
    have "restore_batches plan = fst (next_batch plan) # restore_batches (snd (next_batch plan))"
      using False by (simp add: restore_batches.simps [of plan])
    moreover have "fst (next_batch plan) @ rp_effects (snd (next_batch plan)) = rp_effects plan"
      "fst (next_batch plan) \<noteq> []" "length (fst (next_batch plan)) \<le> MAX_SCHEDULER_EFFECTS"
      using False by (auto simp: next_batch_def Let_def plan_is_empty_def MAX_SCHEDULER_EFFECTS_def)
    ultimately show ?thesis using "1.IH" [OF False] by simp
  qed
qed

text \<open>
  C18: the effects of a restoration are complete and in order. Taking batches until the plan is empty
  ends, no batch is empty or larger than a scheduler outcome may be, and together they arm the timers
  and the disk-space probe of every task and publish its snapshot, in queue order.
\<close>

theorem restore_effects_complete:
  assumes "restore config batch = Inr (s, plan)"
  shows "concat (restore_batches plan) = concat (map (\<lambda>g. case bt_get (rs_tasks s) g of None \<Rightarrow> []
        | Some t \<Rightarrow> timer_effects_of t @ probe_effects_of t
            @ [Eff_PublishSnapshot (t_task_id t) (task_snapshot_of t (cfg_retry_wait_holds_slot config))])
      (queue_members_in_order (rs_queues s)))
    \<and> (\<forall>b \<in> set (restore_batches plan). b \<noteq> [] \<and> length b \<le> MAX_SCHEDULER_EFFECTS)"
  using restore_batches_ok restore_phases(8) [OF assms]
  by (simp add: published_effects_def [abs_def])

theorem restore_effects_complete_witness:
  "\<exists>s plan. restore small_config retry_batch = Inr (s, plan)
     \<and> (\<forall>b \<in> set (restore_batches plan). b \<noteq> [] \<and> length b \<le> MAX_SCHEDULER_EFFECTS)"
  using restore_effects_complete retry_batch_restored by blast

end
