(* ===== verification/Bytes.thy ===== *)
theory Bytes
  imports Prelude "HOL-Library.List_Lexorder" "HOL-Library.Char_ord"
begin

text \<open>
  Bytes and text as the storage crate uses them: fixed-width integers in little-endian order
  (\<open>to_le_bytes\<close>, \<open>from_le_bytes\<close>), the bytes of a text and the check that bytes are UTF-8
  (\<open>str::from_utf8\<close>), and the code points of a text. A text is a list of characters of one byte each, as
  a Rust \<open>str\<close> is a sequence of bytes; only sequences that pass \<open>utf8_valid\<close> arise as a \<open>str\<close>. Texts are
  compared byte by byte, which is the lexicographic order of the library.
\<close>

named_theorems codec_simps \<open>reading back what an encoder wrote\<close>

text \<open>The digest of a byte sequence\<close>

type_synonym sha256 = "u8 list \<Rightarrow> u8 list"

section \<open>Little-endian integers\<close>

primrec nat_to_le :: "nat \<Rightarrow> nat \<Rightarrow> u8 list" where
  "nat_to_le 0 n = []"
| "nat_to_le (Suc k) n = word_of_nat (n mod 256) # nat_to_le k (n div 256)"

primrec nat_from_le :: "u8 list \<Rightarrow> nat" where
  "nat_from_le [] = 0"
| "nat_from_le (b # bs) = unat b + 256 * nat_from_le bs"

definition u16_le :: "u16 \<Rightarrow> u8 list" where "u16_le v = nat_to_le 2 (unat v)"
definition u32_le :: "u32 \<Rightarrow> u8 list" where "u32_le v = nat_to_le 4 (unat v)"
definition u64_le :: "u64 \<Rightarrow> u8 list" where "u64_le v = nat_to_le 8 (unat v)"

definition u16_from_le :: "u8 list \<Rightarrow> u16" where "u16_from_le bs = word_of_nat (nat_from_le bs)"
definition u32_from_le :: "u8 list \<Rightarrow> u32" where "u32_from_le bs = word_of_nat (nat_from_le bs)"
definition u64_from_le :: "u8 list \<Rightarrow> u64" where "u64_from_le bs = word_of_nat (nat_from_le bs)"

text \<open>\<open>input[offset..offset + length]\<close>\<close>

definition byte_slice :: "u8 list \<Rightarrow> nat \<Rightarrow> nat \<Rightarrow> u8 list" where
  "byte_slice input offset n = take n (drop offset input)"

section \<open>Text\<close>

definition byte_of_char :: "char \<Rightarrow> u8" where
  "byte_of_char c = word_of_nat (of_char c)"

definition char_of_byte :: "u8 \<Rightarrow> char" where
  "char_of_byte b = char_of (unat b)"

definition as_bytes :: "string \<Rightarrow> u8 list" where
  "as_bytes s = map byte_of_char s"

definition text_of :: "u8 list \<Rightarrow> string" where
  "text_of bs = map char_of_byte bs"

text \<open>
  The code points of a byte sequence, or nothing when it is not UTF-8: overlong forms, surrogates and
  values above the last code point are refused.
\<close>

definition is_continuation :: "u8 \<Rightarrow> bool" where
  "is_continuation b \<longleftrightarrow> 0x80 \<le> b \<and> b \<le> 0xBF"

fun utf8_chars :: "u8 list \<Rightarrow> nat list option" where
  "utf8_chars [] = Some []"
| "utf8_chars (a # bs) =
     (if a < 0x80 then map_option (Cons (unat a)) (utf8_chars bs)
      else
        (case bs of [] \<Rightarrow> None
         | b # bs1 \<Rightarrow>
             if 0xC2 \<le> a \<and> a \<le> 0xDF then
               (if is_continuation b
                then map_option (Cons ((unat a - 0xC0) * 0x40 + (unat b - 0x80))) (utf8_chars bs1)
                else None)
             else
               (case bs1 of [] \<Rightarrow> None
                | c # bs2 \<Rightarrow>
                    if 0xE0 \<le> a \<and> a \<le> 0xEF then
                      (if is_continuation b \<and> is_continuation c
                          \<and> (a = 0xE0 \<longrightarrow> 0xA0 \<le> b) \<and> (a = 0xED \<longrightarrow> b \<le> 0x9F)
                       then map_option (Cons ((unat a - 0xE0) * 0x1000 + (unat b - 0x80) * 0x40
                              + (unat c - 0x80))) (utf8_chars bs2)
                       else None)
                    else
                      (case bs2 of [] \<Rightarrow> None
                       | d # bs3 \<Rightarrow>
                           if 0xF0 \<le> a \<and> a \<le> 0xF4 \<and> is_continuation b \<and> is_continuation c
                              \<and> is_continuation d \<and> (a = 0xF0 \<longrightarrow> 0x90 \<le> b) \<and> (a = 0xF4 \<longrightarrow> b \<le> 0x8F)
                           then map_option (Cons ((unat a - 0xF0) * 0x40000 + (unat b - 0x80) * 0x1000
                                  + (unat c - 0x80) * 0x40 + (unat d - 0x80))) (utf8_chars bs3)
                           else None))))"

definition utf8_valid :: "u8 list \<Rightarrow> bool" where
  "utf8_valid bs \<longleftrightarrow> utf8_chars bs \<noteq> None"

text \<open>\<open>str::from_utf8\<close>\<close>

definition from_utf8 :: "u8 list \<Rightarrow> string option" where
  "from_utf8 bs = (if utf8_valid bs then Some (text_of bs) else None)"

definition is_text :: "string \<Rightarrow> bool" where
  "is_text s \<longleftrightarrow> utf8_valid (as_bytes s)"

section \<open>Lemmas on integers\<close>

lemma length_nat_to_le [simp]: "length (nat_to_le k n) = k"
  by (induction k arbitrary: n) simp_all

lemma length_le [simp, codec_simps]: "length (u16_le a) = 2" "length (u32_le b) = 4" "length (u64_le c) = 8"
  by (simp_all add: u16_le_def u32_le_def u64_le_def)

lemma nat_from_to_le: "nat_from_le (nat_to_le k n) = n mod 256 ^ k"
proof (induction k arbitrary: n)
  case (Suc k)
  have "unat (word_of_nat (n mod 256) :: u8) = n mod 256" by (simp add: unat_of_nat)
  then show ?case by (simp add: Suc mod_mult2_eq)
qed simp

lemma nat_to_from_le: "nat_to_le (length bs) (nat_from_le bs) = bs"
proof (induction bs)
  case (Cons b bs)
  have "unat b < 256" using unsigned_less [of b] by simp
  with Cons show ?case by (simp add: div_add1_eq)
qed simp

lemma nat_from_le_bound: "nat_from_le bs < 256 ^ length bs"
proof (induction bs)
  case (Cons b bs)
  have "unat b < 256" using unsigned_less [of b] by simp
  with Cons show ?case by simp
qed simp

lemma from_le_le [simp, codec_simps]:
  "u16_from_le (u16_le a) = a" "u32_from_le (u32_le b) = b" "u64_from_le (u64_le c) = c"
proof -
  have "unat a < 65536" "unat b < 4294967296" "unat c < 18446744073709551616"
    using unsigned_less [of a] unsigned_less [of b] unsigned_less [of c] by simp_all
  then show "u16_from_le (u16_le a) = a" "u32_from_le (u32_le b) = b" "u64_from_le (u64_le c) = c"
    by (simp_all add: u16_from_le_def u16_le_def u32_from_le_def u32_le_def u64_from_le_def u64_le_def nat_from_to_le)
qed

lemma le_from_le [simp]:
  "length bs = 2 \<Longrightarrow> u16_le (u16_from_le bs) = bs"
  "length bs = 4 \<Longrightarrow> u32_le (u32_from_le bs) = bs"
  "length bs = 8 \<Longrightarrow> u64_le (u64_from_le bs) = bs"
  using nat_from_le_bound [of bs] nat_to_from_le [of bs]
  by (simp_all add: u16_from_le_def u16_le_def u32_from_le_def u32_le_def u64_from_le_def u64_le_def unat_of_nat)

lemma le_eq_iff:
  "u16_le a = bs \<longleftrightarrow> length bs = 2 \<and> u16_from_le bs = a"
  "u32_le b = bs \<longleftrightarrow> length bs = 4 \<and> u32_from_le bs = b"
  "u64_le c = bs \<longleftrightarrow> length bs = 8 \<and> u64_from_le bs = c"
  by auto

lemma le_inject [simp]:
  "u16_le a = u16_le a' \<longleftrightarrow> a = a'" "u32_le b = u32_le b' \<longleftrightarrow> b = b'" "u64_le c = u64_le c' \<longleftrightarrow> c = c'"
  by (metis from_le_le)+

section \<open>Lemmas on text\<close>

lemma char_byte [simp]: "char_of_byte (byte_of_char c) = c" "byte_of_char (char_of_byte b) = b"
proof -
  have "(of_char c :: nat) < 256" by simp
  then show "char_of_byte (byte_of_char c) = c"
    by (simp add: char_of_byte_def byte_of_char_def unat_of_nat)
  have "unat b < 256" using unsigned_less [of b] by simp
  then show "byte_of_char (char_of_byte b) = b"
    by (simp add: char_of_byte_def byte_of_char_def)
qed

lemma text_bytes [simp]: "text_of (as_bytes s) = s" "as_bytes (text_of bs) = bs"
  by (simp_all add: text_of_def as_bytes_def comp_def)

lemma length_text [simp]: "length (as_bytes s) = length s" "length (text_of bs) = length bs"
  by (simp_all add: text_of_def as_bytes_def)

lemma as_bytes_append [simp]: "as_bytes (s @ t) = as_bytes s @ as_bytes t"
  by (simp add: as_bytes_def)

lemma as_bytes_inject [simp]: "as_bytes s = as_bytes t \<longleftrightarrow> s = t"
  by (metis text_bytes(1))

lemma from_utf8_iff: "from_utf8 bs = Some s \<longleftrightarrow> bs = as_bytes s \<and> is_text s"
  by (auto simp: from_utf8_def is_text_def)

lemma from_utf8_as_bytes [simp]: "is_text s \<Longrightarrow> from_utf8 (as_bytes s) = Some s"
  by (simp add: from_utf8_iff)

end
