(* ===== verification/Journal.thy ===== *)
theory Journal
  imports Bytes Ids
begin

text \<open>
  The append-only task journal of \<open>ariax-storage/src/journal.rs\<close>: segment headers, framed records with
  their checksum and commit mark, the encoder that assigns sequence numbers, and the replay of a set of
  segments up to the first invalid byte. CRC-32C and SHA-256 belong to other packages and are
  parameters. A reservation of memory (\<open>try_reserve\<close>) is taken to succeed.
\<close>

section \<open>Constants and identifiers\<close>

definition HEADER_MAGIC :: "u8 list" where "HEADER_MAGIC = as_bytes ''ARXJ''"
definition RECORD_MAGIC :: "u8 list" where "RECORD_MAGIC = as_bytes ''ARXR''"
definition COMMIT_MAGIC :: "u8 list" where "COMMIT_MAGIC = as_bytes ''CMIT''"
definition JOURNAL_FORMAT_VERSION :: u16 where "JOURNAL_FORMAT_VERSION = 1"
definition JOURNAL_ENDIANNESS_ASSERTION :: u8 where "JOURNAL_ENDIANNESS_ASSERTION = 1"
definition SEGMENT_HEADER_LEN :: nat where "SEGMENT_HEADER_LEN = 104"
definition RECORD_PREFIX_LEN :: nat where "RECORD_PREFIX_LEN = 28"
definition RECORD_OVERHEAD :: nat where "RECORD_OVERHEAD = 36"
definition MAX_RECORD_PAYLOAD :: nat where "MAX_RECORD_PAYLOAD = 16 * 1024 * 1024"
definition SEGMENT_HASH_DOMAIN :: "u8 list" where
  "SEGMENT_HASH_DOMAIN = as_bytes ''ariax/segment/v1'' @ [0]"
definition HEADER_CRC_OFFSET :: nat where "HEADER_CRC_OFFSET = SEGMENT_HEADER_LEN - 4"

type_synonym crc32c = "u8 list \<Rightarrow> u32"

definition all_zero :: "u8 list \<Rightarrow> bool" where
  "all_zero bytes \<longleftrightarrow> list_all (\<lambda>b. b = 0) bytes"

datatype journal_id = JournalId (journal_id_bytes: "u8 list")

definition journal_id_new :: "u8 list \<Rightarrow> journal_id option" where
  "journal_id_new bytes = (if all_zero bytes then None else Some (JournalId bytes))"

datatype segment_hash = SegmentHash (segment_hash_bytes: "u8 list")

definition segment_hash_zero :: segment_hash where
  "segment_hash_zero = SegmentHash (replicate 32 0)"

section \<open>Record types\<close>

datatype (plugins only: code) record_type =
  RT_TaskCreated | RT_OptionsSnapshot | RT_LayoutCommitted | RT_GenerationStarted | RT_LeaseStarted
| RT_PieceStarted | RT_PieceWritten | RT_LeaseCommitted | RT_LeaseAborted | RT_PieceVerified
| RT_PieceFailed | RT_PieceDurable | RT_RetryState | RT_TaskPaused | RT_TaskComplete | RT_TaskError
| RT_TaskRemoved | RT_CleanShutdown | RT_CheckpointStart | RT_CheckpointEnd | RT_LayoutChunk
| RT_FinalizeIntent | RT_FinalizeDone | RT_PieceStateChunk | RT_HttpStrongValidator
| RT_HttpRangeIdentity | RT_VerificationManifest | RT_VerificationManifestChunk
| RT_ProtocolValidator | RT_WholeFileVerified | RT_HostKeyState | RT_MetadataComplete

primrec record_type_number :: "record_type \<Rightarrow> u16" where
  "record_type_number RT_TaskCreated = 1"
| "record_type_number RT_OptionsSnapshot = 2"
| "record_type_number RT_LayoutCommitted = 3"
| "record_type_number RT_GenerationStarted = 4"
| "record_type_number RT_LeaseStarted = 5"
| "record_type_number RT_PieceStarted = 6"
| "record_type_number RT_PieceWritten = 7"
| "record_type_number RT_LeaseCommitted = 8"
| "record_type_number RT_LeaseAborted = 9"
| "record_type_number RT_PieceVerified = 10"
| "record_type_number RT_PieceFailed = 11"
| "record_type_number RT_PieceDurable = 12"
| "record_type_number RT_RetryState = 13"
| "record_type_number RT_TaskPaused = 14"
| "record_type_number RT_TaskComplete = 15"
| "record_type_number RT_TaskError = 16"
| "record_type_number RT_TaskRemoved = 17"
| "record_type_number RT_CleanShutdown = 18"
| "record_type_number RT_CheckpointStart = 19"
| "record_type_number RT_CheckpointEnd = 20"
| "record_type_number RT_LayoutChunk = 21"
| "record_type_number RT_FinalizeIntent = 22"
| "record_type_number RT_FinalizeDone = 23"
| "record_type_number RT_PieceStateChunk = 24"
| "record_type_number RT_HttpStrongValidator = 25"
| "record_type_number RT_HttpRangeIdentity = 26"
| "record_type_number RT_VerificationManifest = 27"
| "record_type_number RT_VerificationManifestChunk = 28"
| "record_type_number RT_ProtocolValidator = 29"
| "record_type_number RT_WholeFileVerified = 30"
| "record_type_number RT_HostKeyState = 31"
| "record_type_number RT_MetadataComplete = 32"

definition ALL_RECORD_TYPES :: "record_type list" where
  "ALL_RECORD_TYPES =
    [RT_TaskCreated, RT_OptionsSnapshot, RT_LayoutCommitted, RT_GenerationStarted, RT_LeaseStarted,
     RT_PieceStarted, RT_PieceWritten, RT_LeaseCommitted, RT_LeaseAborted, RT_PieceVerified,
     RT_PieceFailed, RT_PieceDurable, RT_RetryState, RT_TaskPaused, RT_TaskComplete, RT_TaskError,
     RT_TaskRemoved, RT_CleanShutdown, RT_CheckpointStart, RT_CheckpointEnd, RT_LayoutChunk,
     RT_FinalizeIntent, RT_FinalizeDone, RT_PieceStateChunk, RT_HttpStrongValidator,
     RT_HttpRangeIdentity, RT_VerificationManifest, RT_VerificationManifestChunk,
     RT_ProtocolValidator, RT_WholeFileVerified, RT_HostKeyState, RT_MetadataComplete]"

definition record_type_try_from :: "u16 \<Rightarrow> (unit, record_type) result" where
  "record_type_try_from value = ok_or () (List.find (\<lambda>t. record_type_number t = value) ALL_RECORD_TYPES)"

section \<open>Segment headers\<close>

record segment_header =
  sh_task_gid :: gid
  sh_journal_id :: journal_id
  sh_segment_index :: u32
  sh_first_sequence :: u64
  sh_starting_generation :: generation
  sh_previous_segment_last_sequence :: u64
  sh_previous_segment_hash :: segment_hash
  sh_created_at_unix_ms :: u64

definition segment_header_first :: "gid \<Rightarrow> journal_id \<Rightarrow> generation \<Rightarrow> u64 \<Rightarrow> segment_header" where
  "segment_header_first task_gid journal_id starting_generation created_at_unix_ms =
     \<lparr>sh_task_gid = task_gid,
      sh_journal_id = journal_id,
      sh_segment_index = 0,
      sh_first_sequence = 1,
      sh_starting_generation = starting_generation,
      sh_previous_segment_last_sequence = 0,
      sh_previous_segment_hash = segment_hash_zero,
      sh_created_at_unix_ms = created_at_unix_ms\<rparr>"

definition segment_header_body :: "segment_header \<Rightarrow> u8 list" where
  "segment_header_body h =
     HEADER_MAGIC @ u16_le JOURNAL_FORMAT_VERSION @ [JOURNAL_ENDIANNESS_ASSERTION] @ [0]
     @ u64_le (gid_get (sh_task_gid h))
     @ journal_id_bytes (sh_journal_id h)
     @ u32_le (sh_segment_index h)
     @ u64_le (sh_first_sequence h)
     @ u64_le (generation_get (sh_starting_generation h))
     @ u64_le (sh_previous_segment_last_sequence h)
     @ segment_hash_bytes (sh_previous_segment_hash h)
     @ u64_le (sh_created_at_unix_ms h)"

definition segment_header_encode :: "crc32c \<Rightarrow> segment_header \<Rightarrow> u8 list" where
  "segment_header_encode crc h = segment_header_body h @ u32_le (crc (segment_header_body h))"

datatype header_decode_error =
  HD_Truncated | HD_InvalidMagic | HD_BadCrc | HD_UnsupportedVersion | HD_InvalidEndianness
| HD_UnknownFlags | HD_ZeroGid | HD_ZeroJournalId | HD_InvalidFirstSequence
| HD_UnexpectedPreviousLink | HD_MissingPreviousLink

definition read_u16 :: "u8 list \<Rightarrow> nat \<Rightarrow> u16" where
  "read_u16 input offset = u16_from_le (byte_slice input offset 2)"

definition read_u32 :: "u8 list \<Rightarrow> nat \<Rightarrow> u32" where
  "read_u32 input offset = u32_from_le (byte_slice input offset 4)"

definition read_u64 :: "u8 list \<Rightarrow> nat \<Rightarrow> u64" where
  "read_u64 input offset = u64_from_le (byte_slice input offset 8)"

text \<open>The checks on the links between segments at the end of \<open>SegmentHeader::decode\<close>.\<close>

definition check_header_links :: "segment_header \<Rightarrow> (header_decode_error, segment_header) result" where
  "check_header_links h =
     (if sh_segment_index h = 0 then
        (if sh_first_sequence h \<noteq> 1 then Inl HD_InvalidFirstSequence
         else if sh_previous_segment_last_sequence h \<noteq> 0
                 \<or> sh_previous_segment_hash h \<noteq> segment_hash_zero
           then Inl HD_UnexpectedPreviousLink
         else Inr h)
      else
        (if sh_previous_segment_last_sequence h = 0
            \<or> sh_previous_segment_hash h = segment_hash_zero
           then Inl HD_MissingPreviousLink
         else if checked_add (sh_previous_segment_last_sequence h) 1 \<noteq> Some (sh_first_sequence h)
           then Inl HD_InvalidFirstSequence
         else Inr h))"

definition segment_header_decode :: "crc32c \<Rightarrow> u8 list \<Rightarrow> (header_decode_error, segment_header) result" where
  "segment_header_decode crc input =
     (if length input < SEGMENT_HEADER_LEN then Inl HD_Truncated
      else if byte_slice input 0 4 \<noteq> HEADER_MAGIC then Inl HD_InvalidMagic
      else if crc (take HEADER_CRC_OFFSET input) \<noteq> read_u32 input HEADER_CRC_OFFSET then Inl HD_BadCrc
      else if read_u16 input 4 \<noteq> JOURNAL_FORMAT_VERSION then Inl HD_UnsupportedVersion
      else if input ! 6 \<noteq> JOURNAL_ENDIANNESS_ASSERTION then Inl HD_InvalidEndianness
      else if input ! 7 \<noteq> 0 then Inl HD_UnknownFlags
      else
        and_then (ok_or HD_ZeroGid (gid_new (read_u64 input 8))) (\<lambda>task_gid.
        and_then (ok_or HD_ZeroJournalId (journal_id_new (byte_slice input 16 16))) (\<lambda>journal_id.
          check_header_links
            \<lparr>sh_task_gid = task_gid,
             sh_journal_id = journal_id,
             sh_segment_index = read_u32 input 32,
             sh_first_sequence = read_u64 input 36,
             sh_starting_generation = Generation (read_u64 input 44),
             sh_previous_segment_last_sequence = read_u64 input 52,
             sh_previous_segment_hash = SegmentHash (byte_slice input 60 32),
             sh_created_at_unix_ms = read_u64 input 92\<rparr>)))"

datatype journal_encode_error =
  JE_GenerationBeforeSegment | JE_PayloadTooLarge nat | JE_AllocationFailed | JE_SequenceExhausted
| JE_SegmentIndexExhausted | JE_CannotRotateEmptySegment

text \<open>The common tail of \<open>successor\<close> and \<open>recovery_successor\<close>.\<close>

definition next_header ::
  "segment_header \<Rightarrow> u64 \<Rightarrow> segment_hash \<Rightarrow> generation \<Rightarrow> u64 \<Rightarrow> (journal_encode_error, segment_header) result" where
  "next_header h last_sequence hash starting_generation created_at_unix_ms =
     and_then (ok_or JE_SegmentIndexExhausted (checked_add (sh_segment_index h) 1)) (\<lambda>segment_index.
     and_then (ok_or JE_SequenceExhausted (checked_add last_sequence 1)) (\<lambda>first_sequence.
       Inr \<lparr>sh_task_gid = sh_task_gid h,
            sh_journal_id = sh_journal_id h,
            sh_segment_index = segment_index,
            sh_first_sequence = first_sequence,
            sh_starting_generation = starting_generation,
            sh_previous_segment_last_sequence = last_sequence,
            sh_previous_segment_hash = hash,
            sh_created_at_unix_ms = created_at_unix_ms\<rparr>))"

definition header_successor ::
  "segment_header \<Rightarrow> u64 \<Rightarrow> segment_hash \<Rightarrow> generation \<Rightarrow> u64 \<Rightarrow> (journal_encode_error, segment_header) result" where
  "header_successor h last_sequence hash starting_generation created_at_unix_ms =
     (if last_sequence < sh_first_sequence h then Inl JE_CannotRotateEmptySegment
      else next_header h last_sequence hash starting_generation created_at_unix_ms)"

definition recovery_successor ::
  "segment_header \<Rightarrow> u64 \<Rightarrow> segment_hash \<Rightarrow> generation \<Rightarrow> u64 \<Rightarrow> (journal_encode_error, segment_header) result" where
  "recovery_successor h last_sequence hash starting_generation created_at_unix_ms =
     (if last_sequence < sh_first_sequence h
         \<and> (sh_segment_index h = 0 \<or> checked_add last_sequence 1 \<noteq> Some (sh_first_sequence h))
        then Inl JE_CannotRotateEmptySegment
      else next_header h last_sequence hash starting_generation created_at_unix_ms)"

section \<open>Records\<close>

record journal_record =
  jr_record_type :: record_type
  jr_generation :: generation
  jr_sequence :: u64
  jr_payload :: "u8 list"

text \<open>The bytes under the checksum of a record.\<close>

definition record_body :: "record_type \<Rightarrow> generation \<Rightarrow> u64 \<Rightarrow> u8 list \<Rightarrow> u8 list" where
  "record_body record_type generation sequence payload =
     RECORD_MAGIC @ u32_le (word_of_nat (length payload)) @ u16_le (record_type_number record_type)
     @ u16_le 0 @ u64_le (generation_get generation) @ u64_le sequence @ payload"

definition encode_record ::
  "crc32c \<Rightarrow> record_type \<Rightarrow> generation \<Rightarrow> u64 \<Rightarrow> u8 list \<Rightarrow> (journal_encode_error, u8 list) result" where
  "encode_record crc record_type generation sequence payload =
     (if length payload > 2 ^ 32 - 1 then Inl (JE_PayloadTooLarge (length payload))
      else if RECORD_PREFIX_LEN + length payload + 8 > usize_max then Inl JE_AllocationFailed
      else
        let body = record_body record_type generation sequence payload
        in Inr (body @ u32_le (crc body) @ COMMIT_MAGIC))"

definition hash_segment :: "sha256 \<Rightarrow> u8 list \<Rightarrow> segment_hash" where
  "hash_segment sha bytes = SegmentHash (sha (SEGMENT_HASH_DOMAIN @ u64_le (word_of_nat (length bytes)) @ bytes))"

section \<open>Encoding a segment\<close>

record encoded_segment =
  es_header :: segment_header
  es_bytes :: "u8 list"
  es_last_sequence :: u64
  es_hash :: segment_hash

record segment_encoder =
  se_header :: segment_header
  se_bytes :: "u8 list"
  se_next_sequence :: u64

definition encoder_from_header :: "crc32c \<Rightarrow> segment_header \<Rightarrow> segment_encoder" where
  "encoder_from_header crc h =
     \<lparr>se_header = h, se_bytes = segment_header_encode crc h, se_next_sequence = sh_first_sequence h\<rparr>"

definition encoder_first :: "crc32c \<Rightarrow> gid \<Rightarrow> journal_id \<Rightarrow> generation \<Rightarrow> u64 \<Rightarrow> segment_encoder" where
  "encoder_first crc task_gid journal_id starting_generation created_at_unix_ms =
     encoder_from_header crc
       (segment_header_first task_gid journal_id starting_generation created_at_unix_ms)"

definition encoder_append ::
  "crc32c \<Rightarrow> segment_encoder \<Rightarrow> record_type \<Rightarrow> generation \<Rightarrow> u8 list \<Rightarrow>
   (journal_encode_error, u64) result \<times> segment_encoder" where
  "encoder_append crc e record_type generation payload =
     (if generation < sh_starting_generation (se_header e) then (Inl JE_GenerationBeforeSegment, e)
      else if length payload > MAX_RECORD_PAYLOAD then (Inl (JE_PayloadTooLarge (length payload)), e)
      else
        let sequence = se_next_sequence e in
        try_in e (ok_or JE_SequenceExhausted (checked_add sequence 1)) (\<lambda>next_sequence.
        try_in e (encode_record crc record_type generation sequence payload) (\<lambda>encoded.
          (Inr sequence, e\<lparr>se_bytes := se_bytes e @ encoded, se_next_sequence := next_sequence\<rparr>))))"

definition encoder_finish :: "sha256 \<Rightarrow> segment_encoder \<Rightarrow> encoded_segment" where
  "encoder_finish sha e =
     \<lparr>es_header = se_header e,
      es_bytes = se_bytes e,
      es_last_sequence = se_next_sequence e - 1,
      es_hash = hash_segment sha (se_bytes e)\<rparr>"

definition segment_rotate ::
  "crc32c \<Rightarrow> encoded_segment \<Rightarrow> generation \<Rightarrow> u64 \<Rightarrow> (journal_encode_error, segment_encoder) result" where
  "segment_rotate crc es starting_generation created_at_unix_ms =
     and_then (header_successor (es_header es) (es_last_sequence es) (es_hash es)
                 starting_generation created_at_unix_ms)
       (\<lambda>h. Inr (encoder_from_header crc h))"

section \<open>Decoding a record\<close>

datatype record_stop_reason =
  RS_TruncatedFraming | RS_InvalidMagic | RS_PayloadTooLarge | RS_UnknownRecordType | RS_UnknownFlags
| RS_SequenceGap u64 u64 | RS_GenerationBeforeSegment | RS_LengthOverflow | RS_TruncatedRecord
| RS_BadCrc | RS_MissingCommit

record decoded_record =
  dr_record_type :: record_type
  dr_generation :: generation
  dr_sequence :: u64
  dr_payload :: "u8 list"
  dr_consumed :: nat

definition decode_record ::
  "crc32c \<Rightarrow> u8 list \<Rightarrow> u64 \<Rightarrow> generation \<Rightarrow> (record_stop_reason, decoded_record) result" where
  "decode_record crc input expected_sequence starting_generation =
     (if length input < RECORD_PREFIX_LEN then Inl RS_TruncatedFraming
      else if byte_slice input 0 4 \<noteq> RECORD_MAGIC then Inl RS_InvalidMagic
      else
        let payload_len = unat (read_u32 input 4) in
        if payload_len > MAX_RECORD_PAYLOAD then Inl RS_PayloadTooLarge
        else
          and_then (map_err (\<lambda>_. RS_UnknownRecordType) (record_type_try_from (read_u16 input 8)))
            (\<lambda>record_type.
               if read_u16 input 10 \<noteq> 0 then Inl RS_UnknownFlags
               else
                 let generation = Generation (read_u64 input 12); sequence = read_u64 input 20 in
                 if generation < starting_generation then Inl RS_GenerationBeforeSegment
                 else if sequence \<noteq> expected_sequence
                   then Inl (RS_SequenceGap expected_sequence sequence)
                 else
                   let crc_offset = RECORD_PREFIX_LEN + payload_len;
                       commit_offset = crc_offset + 4;
                       total = commit_offset + 4 in
                   if total > usize_max then Inl RS_LengthOverflow
                   else if length input < commit_offset then Inl RS_TruncatedRecord
                   else if length input < total then Inl RS_MissingCommit
                   else if crc (take crc_offset input) \<noteq> read_u32 input crc_offset then Inl RS_BadCrc
                   else if byte_slice input commit_offset 4 \<noteq> COMMIT_MAGIC then Inl RS_MissingCommit
                   else Inr \<lparr>dr_record_type = record_type,
                             dr_generation = generation,
                             dr_sequence = sequence,
                             dr_payload = byte_slice input RECORD_PREFIX_LEN payload_len,
                             dr_consumed = total\<rparr>))"

definition validate_record ::
  "crc32c \<Rightarrow> u8 list \<Rightarrow> u64 \<Rightarrow> generation \<Rightarrow> (record_stop_reason, nat) result" where
  "validate_record crc input expected_sequence starting_generation =
     and_then (decode_record crc input expected_sequence starting_generation) (\<lambda>d. Inr (dr_consumed d))"

section \<open>Replay\<close>

record replay_limits =
  rl_max_segments :: nat
  rl_max_records :: nat
  rl_max_payload_bytes :: nat

definition replay_limits_default :: replay_limits where
  "replay_limits_default =
     \<lparr>rl_max_segments = 1024, rl_max_records = 262144, rl_max_payload_bytes = 64 * 1024 * 1024\<rparr>"

datatype replay_resource = RR_Segments | RR_Records | RR_PayloadBytes

datatype replay_stop =
  Stop_CleanEnd
| Stop_NoSegments
| Stop_Header nat header_decode_error
| Stop_SegmentIndex u32 u32
| Stop_TaskMismatch
| Stop_JournalMismatch
| Stop_FirstSequenceMismatch u64 u64
| Stop_PreviousSequenceMismatch
| Stop_PreviousHashMismatch
| Stop_Record u32 nat record_stop_reason
| Stop_ResourceLimit replay_resource

record journal_replay =
  rp_records :: "journal_record list"
  rp_last_sequence :: u64
  rp_valid_segment_prefixes :: "nat list"
  rp_payload_bytes :: nat
  rp_stop :: replay_stop

text \<open>The collection stops inside a segment: its valid prefix is noted with the reason.\<close>

definition stop_at :: "journal_replay \<Rightarrow> nat \<Rightarrow> replay_stop \<Rightarrow> journal_replay" where
  "stop_at r offset stop =
     r\<lparr>rp_valid_segment_prefixes := rp_valid_segment_prefixes r @ [offset], rp_stop := stop\<rparr>"

text \<open>
  One iteration of the loop over the records of a segment: either the collection stops (\<open>Inl\<close>) or it
  goes on with the next sequence number and offset.
\<close>

definition replay_record ::
  "crc32c \<Rightarrow> replay_limits \<Rightarrow> segment_header \<Rightarrow> u8 list \<Rightarrow> nat \<Rightarrow> u64 \<Rightarrow> journal_replay \<Rightarrow>
   journal_replay + (nat \<times> u64 \<times> journal_replay)" where
  "replay_record crc limits header bytes offset expected_sequence r =
     (if length (rp_records r) \<ge> rl_max_records limits
        then Inl (stop_at r offset (Stop_ResourceLimit RR_Records))
      else
        case decode_record crc (drop offset bytes) expected_sequence (sh_starting_generation header) of
          Inl reason \<Rightarrow> Inl (stop_at r offset (Stop_Record (sh_segment_index header) offset reason))
        | Inr d \<Rightarrow>
            (let total = rp_payload_bytes r + length (dr_payload d) in
             if total > usize_max \<or> total > rl_max_payload_bytes limits
               then Inl (stop_at r offset (Stop_ResourceLimit RR_PayloadBytes))
             else
               let r1 = r\<lparr>rp_payload_bytes := total, rp_last_sequence := dr_sequence d\<rparr> in
               case checked_add expected_sequence 1 of
                 None \<Rightarrow> Inl (stop_at r1 (offset + dr_consumed d) (Stop_ResourceLimit RR_Records))
               | Some next \<Rightarrow>
                   Inr (offset + dr_consumed d, next,
                        r1\<lparr>rp_records := rp_records r1 @
                             [\<lparr>jr_record_type = dr_record_type d,
                               jr_generation = dr_generation d,
                               jr_sequence = dr_sequence d,
                               jr_payload = dr_payload d\<rparr>]\<rparr>)))"

lemma decode_record_consumed:
  "decode_record crc input n g = Inr d \<Longrightarrow> 36 \<le> dr_consumed d \<and> dr_consumed d \<le> length input"
  by (auto simp: decode_record_def Let_def and_then_eq_Inr RECORD_PREFIX_LEN_def split: if_splits)

lemma replay_record_advances:
  "replay_record crc limits header bytes offset n r = Inr (offset', n', r') \<Longrightarrow>
   offset < offset' \<and> offset' - offset \<le> length bytes - offset"
  by (auto simp: replay_record_def Let_def split: if_splits sum.splits option.splits
      dest!: decode_record_consumed)

function replay_records ::
  "crc32c \<Rightarrow> replay_limits \<Rightarrow> segment_header \<Rightarrow> u8 list \<Rightarrow> nat \<Rightarrow> u64 \<Rightarrow> journal_replay \<Rightarrow>
   journal_replay + (nat \<times> u64 \<times> journal_replay)" where
  "replay_records crc limits header bytes offset expected_sequence r =
     (if offset < length bytes then
        (case replay_record crc limits header bytes offset expected_sequence r of
           Inl stopped \<Rightarrow> Inl stopped
         | Inr (offset', next, r') \<Rightarrow> replay_records crc limits header bytes offset' next r')
      else Inr (offset, expected_sequence, r))"
  by pat_completeness auto
termination
  by (relation "measure (\<lambda>(_, _, _, bytes, offset, _). length bytes - offset)")
    (auto dest!: replay_record_advances)

text \<open>What the loop over the segments carries besides the collection.\<close>

record replay_cursor =
  rc_expected_gid :: "gid option"
  rc_expected_journal :: "journal_id option"
  rc_expected_index :: u32
  rc_expected_sequence :: u64
  rc_previous_hash :: segment_hash

text \<open>The checks of a header against the cursor; nothing means that the header continues the set.\<close>

definition header_mismatch :: "replay_cursor \<Rightarrow> u64 \<Rightarrow> segment_header \<Rightarrow> replay_stop option" where
  "header_mismatch c last_sequence h =
     (if sh_segment_index h \<noteq> rc_expected_index c
        then Some (Stop_SegmentIndex (rc_expected_index c) (sh_segment_index h))
      else if (case rc_expected_gid c of None \<Rightarrow> False | Some g \<Rightarrow> g \<noteq> sh_task_gid h)
        then Some Stop_TaskMismatch
      else if (case rc_expected_journal c of None \<Rightarrow> False | Some j \<Rightarrow> j \<noteq> sh_journal_id h)
        then Some Stop_JournalMismatch
      else if sh_first_sequence h \<noteq> rc_expected_sequence c
        then Some (Stop_FirstSequenceMismatch (rc_expected_sequence c) (sh_first_sequence h))
      else if rc_expected_index c > 0 \<and> sh_previous_segment_last_sequence h \<noteq> last_sequence
        then Some Stop_PreviousSequenceMismatch
      else if rc_expected_index c > 0 \<and> sh_previous_segment_hash h \<noteq> rc_previous_hash c
        then Some Stop_PreviousHashMismatch
      else None)"

fun replay_segments ::
  "crc32c \<Rightarrow> sha256 \<Rightarrow> replay_limits \<Rightarrow> nat \<Rightarrow> u8 list list \<Rightarrow> replay_cursor \<Rightarrow> journal_replay \<Rightarrow>
   journal_replay" where
  "replay_segments crc sha limits input_index [] c r = r\<lparr>rp_stop := Stop_CleanEnd\<rparr>"
| "replay_segments crc sha limits input_index (bytes # rest) c r =
     (if input_index \<ge> rl_max_segments limits
        then r\<lparr>rp_stop := Stop_ResourceLimit RR_Segments\<rparr>
      else
        case segment_header_decode crc bytes of
          Inl error \<Rightarrow> r\<lparr>rp_stop := Stop_Header input_index error\<rparr>
        | Inr header \<Rightarrow>
            (case header_mismatch c (rp_last_sequence r) header of
               Some stop \<Rightarrow> r\<lparr>rp_stop := stop\<rparr>
             | None \<Rightarrow>
                 (case replay_records crc limits header bytes SEGMENT_HEADER_LEN
                         (rc_expected_sequence c) r of
                    Inl stopped \<Rightarrow> stopped
                  | Inr (offset, next, r') \<Rightarrow>
                      (let r1 = r'\<lparr>rp_valid_segment_prefixes := rp_valid_segment_prefixes r' @ [offset]\<rparr> in
                       case checked_add (rc_expected_index c) 1 of
                         None \<Rightarrow> r1\<lparr>rp_stop := Stop_ResourceLimit RR_Segments\<rparr>
                       | Some index \<Rightarrow>
                           replay_segments crc sha limits (Suc input_index) rest
                             \<lparr>rc_expected_gid = Some (case rc_expected_gid c of
                                 None \<Rightarrow> sh_task_gid header | Some g \<Rightarrow> g),
                              rc_expected_journal = Some (case rc_expected_journal c of
                                 None \<Rightarrow> sh_journal_id header | Some j \<Rightarrow> j),
                              rc_expected_index = index,
                              rc_expected_sequence = next,
                              rc_previous_hash = hash_segment sha bytes\<rparr> r1))))"

definition replay_empty :: journal_replay where
  "replay_empty =
     \<lparr>rp_records = [], rp_last_sequence = 0, rp_valid_segment_prefixes = [], rp_payload_bytes = 0,
      rp_stop = Stop_NoSegments\<rparr>"

definition replay_start :: replay_cursor where
  "replay_start =
     \<lparr>rc_expected_gid = None, rc_expected_journal = None, rc_expected_index = 0,
      rc_expected_sequence = 1, rc_previous_hash = segment_hash_zero\<rparr>"

definition replay_ordered_segments ::
  "crc32c \<Rightarrow> sha256 \<Rightarrow> u8 list list \<Rightarrow> replay_limits \<Rightarrow> journal_replay" where
  "replay_ordered_segments crc sha segments limits =
     (if segments = [] then replay_empty
      else replay_segments crc sha limits 0 segments replay_start replay_empty)"

end
