(* ===== verification/JournalTags.thy ===== *)
theory JournalTags
  imports Bytes
begin

text \<open>
  The closed vocabularies of one-byte tags in journal payloads,
  \<^verbatim>\<open>src/crates/ariax-storage/src/journal_tags.rs\<close>. Each invocation of the macro \<^verbatim>\<open>journal_tag_enum!\<close> is a
  datatype and the table of its variants, numbers and codes; \<open>tag_number\<close>, \<open>tag_code\<close> and \<open>tag_try_from\<close> are the
  functions the macro generates. The locale \<open>closed_tags\<close> states what a table must satisfy for the numbers to
  be read back, and is interpreted on every table.
\<close>

record unknown_journal_tag =
  ujt_vocabulary :: string
  ujt_value :: u8

type_synonym 'a tag_table = "('a \<times> u8 \<times> string) list"

definition tag_number :: "'a tag_table \<Rightarrow> 'a \<Rightarrow> u8" where
  "tag_number tags t = fst (the (map_of tags t))"

definition tag_code :: "'a tag_table \<Rightarrow> 'a \<Rightarrow> string" where
  "tag_code tags t = snd (the (map_of tags t))"

definition tag_try_from :: "string \<Rightarrow> 'a tag_table \<Rightarrow> u8 \<Rightarrow> (unknown_journal_tag, 'a) result" where
  "tag_try_from vocabulary tags v =
     (case find (\<lambda>e. fst (snd e) = v) tags of
        Some e \<Rightarrow> Inr (fst e)
      | None \<Rightarrow> Inl \<lparr>ujt_vocabulary = vocabulary, ujt_value = v\<rparr>)"

section \<open>The vocabularies\<close>

datatype durability_mode = DM_Fast | DM_Balanced | DM_Strict

definition durability_tags :: "durability_mode tag_table" where
  "durability_tags = [(DM_Fast, 1, ''fast''), (DM_Balanced, 2, ''balanced''), (DM_Strict, 3, ''strict'')]"

datatype options_snapshot_scope = OS_CurrentGeneration | OS_NextAdmission

definition options_snapshot_scope_tags :: "options_snapshot_scope tag_table" where
  "options_snapshot_scope_tags =
     [(OS_CurrentGeneration, 1, ''current_generation''), (OS_NextAdmission, 2, ''next_admission'')]"

datatype generation_start_reason =
  GR_OptionPatch | GR_RetryReadmission | GR_RepresentationRestart | GR_BackendFailover | GR_RootRebind
| GR_RecoveryRepair | GR_ExplicitRestart

definition generation_start_reason_tags :: "generation_start_reason tag_table" where
  "generation_start_reason_tags =
     [(GR_OptionPatch, 1, ''option_patch''), (GR_RetryReadmission, 2, ''retry_readmission''),
      (GR_RepresentationRestart, 3, ''representation_restart''), (GR_BackendFailover, 4, ''backend_failover''),
      (GR_RootRebind, 5, ''root_rebind''), (GR_RecoveryRepair, 6, ''recovery_repair''),
      (GR_ExplicitRestart, 7, ''explicit_restart'')]"

datatype lease_abort_reason =
  LA_Cancelled | LA_Redirect | LA_ShortBody | LA_OversizedBody | LA_InvalidRange | LA_StaleValidator
| LA_DigestMismatch | LA_StorageRejected | LA_OverlapLost | LA_OverlapUncertain | LA_Retry | LA_GenerationDrain

definition lease_abort_reason_tags :: "lease_abort_reason tag_table" where
  "lease_abort_reason_tags =
     [(LA_Cancelled, 1, ''cancelled''), (LA_Redirect, 2, ''redirect''), (LA_ShortBody, 3, ''short_body''),
      (LA_OversizedBody, 4, ''oversized_body''), (LA_InvalidRange, 5, ''invalid_range''),
      (LA_StaleValidator, 6, ''stale_validator''), (LA_DigestMismatch, 7, ''digest_mismatch''),
      (LA_StorageRejected, 8, ''storage_rejected''), (LA_OverlapLost, 9, ''overlap_lost''),
      (LA_OverlapUncertain, 10, ''overlap_uncertain''), (LA_Retry, 11, ''retry''),
      (LA_GenerationDrain, 12, ''generation_drain'')]"

datatype data_barrier_kind = DB_BalancedGroup | DB_StrictPiece | DB_FastFinalization | DB_RecoveryReadback

definition data_barrier_tags :: "data_barrier_kind tag_table" where
  "data_barrier_tags =
     [(DB_BalancedGroup, 1, ''balanced_group''), (DB_StrictPiece, 2, ''strict_piece''),
      (DB_FastFinalization, 3, ''fast_finalization''), (DB_RecoveryReadback, 4, ''recovery_readback'')]"

datatype retry_scope = RSc_Task | RSc_Uri | RSc_Span | RSc_Piece

definition retry_scope_tags :: "retry_scope tag_table" where
  "retry_scope_tags = [(RSc_Task, 1, ''task''), (RSc_Uri, 2, ''uri''), (RSc_Span, 3, ''span''), (RSc_Piece, 4, ''piece'')]"

datatype retry_reason = RRe_Backoff | RRe_RetryAfter | RRe_PolicyClamp

definition retry_reason_tags :: "retry_reason tag_table" where
  "retry_reason_tags =
     [(RRe_Backoff, 1, ''backoff''), (RRe_RetryAfter, 2, ''retry_after''), (RRe_PolicyClamp, 3, ''policy_clamp'')]"

datatype task_pause_reason =
  TP_User | TP_NoSpace | TP_SlowSlot | TP_HostKeyApproval | TP_Restarting | TP_RecoveryHold

definition task_pause_reason_tags :: "task_pause_reason tag_table" where
  "task_pause_reason_tags =
     [(TP_User, 1, ''user''), (TP_NoSpace, 2, ''no_space''), (TP_SlowSlot, 3, ''slow_slot''),
      (TP_HostKeyApproval, 4, ''host_key_approval''), (TP_Restarting, 5, ''restarting''),
      (TP_RecoveryHold, 6, ''recovery_hold'')]"

datatype task_remove_reason = TR_User | TR_SessionCleanup | TR_Replaced

definition task_remove_reason_tags :: "task_remove_reason tag_table" where
  "task_remove_reason_tags =
     [(TR_User, 1, ''user''), (TR_SessionCleanup, 2, ''session_cleanup''), (TR_Replaced, 3, ''replaced'')]"

section \<open>Numbers are read back\<close>

locale closed_tags =
  fixes tags :: "'a tag_table" and vocabulary :: string
  assumes listed: "t \<in> fst ` set tags"
    and variants: "distinct (map fst tags)"
    and numbers: "distinct (map (fst \<circ> snd) tags)"
begin

lemma entry: "\<exists>c. (t, tag_number tags t, c) \<in> set tags"
proof -
  obtain n c where e: "(t, n, c) \<in> set tags" using listed by force
  then have "map_of tags t = Some (n, c)" using variants by simp
  with e show ?thesis by (auto simp: tag_number_def)
qed

lemma number_of_entry: "(t, n, c) \<in> set tags \<Longrightarrow> tag_number tags t = n"
  using variants by (simp add: tag_number_def)

lemma try_from_iff: "tag_try_from vocabulary tags v = Inr t \<longleftrightarrow> v = tag_number tags t"
proof
  assume "tag_try_from vocabulary tags v = Inr t"
  then obtain n c where "find (\<lambda>e. fst (snd e) = v) tags = Some (t, n, c)"
    by (auto simp: tag_try_from_def split: option.splits)
  then have "(t, n, c) \<in> set tags" "fst (snd (t, n, c)) = v" by (auto simp: find_Some_iff simp del: fst_conv snd_conv)
  then show "v = tag_number tags t" using number_of_entry by fastforce
next
  assume v: "v = tag_number tags t"
  obtain c where c: "(t, v, c) \<in> set tags" using entry v by blast
  then obtain e where e: "find (\<lambda>e. fst (snd e) = v) tags = Some e"
    by (cases "find (\<lambda>e. fst (snd e) = v) tags") (auto simp: find_None_iff)
  then have "e \<in> set tags" "fst (snd e) = v" by (auto simp: find_Some_iff)
  with c have "e = (t, v, c)" using numbers by (auto simp: distinct_map inj_on_def)
  with e show "tag_try_from vocabulary tags v = Inr t" by (simp add: tag_try_from_def)
qed

end

lemmas tag_tables =
  durability_tags_def options_snapshot_scope_tags_def generation_start_reason_tags_def lease_abort_reason_tags_def
  data_barrier_tags_def retry_scope_tags_def retry_reason_tags_def task_pause_reason_tags_def
  task_remove_reason_tags_def

interpretation durability: closed_tags durability_tags "''durability''"
  by unfold_locales (simp_all add: tag_tables, metis durability_mode.exhaust)

interpretation snapshot_scope: closed_tags options_snapshot_scope_tags "''options_snapshot_scope''"
  by unfold_locales (simp_all add: tag_tables, metis options_snapshot_scope.exhaust)

interpretation start_reason: closed_tags generation_start_reason_tags "''generation_start_reason''"
  by unfold_locales (simp_all add: tag_tables, metis generation_start_reason.exhaust)

interpretation abort_reason: closed_tags lease_abort_reason_tags "''lease_abort_reason''"
  by unfold_locales (simp_all add: tag_tables, metis lease_abort_reason.exhaust)

interpretation data_barrier: closed_tags data_barrier_tags "''data_barrier''"
  by unfold_locales (simp_all add: tag_tables, metis data_barrier_kind.exhaust)

interpretation scope: closed_tags retry_scope_tags "''retry_scope''"
  by unfold_locales (simp_all add: tag_tables, metis retry_scope.exhaust)

interpretation reason: closed_tags retry_reason_tags "''retry_reason''"
  by unfold_locales (simp_all add: tag_tables, metis retry_reason.exhaust)

interpretation pause_reason: closed_tags task_pause_reason_tags "''task_pause_reason''"
  by unfold_locales (simp_all add: tag_tables, metis task_pause_reason.exhaust)

interpretation remove_reason: closed_tags task_remove_reason_tags "''task_remove_reason''"
  by unfold_locales (simp_all add: tag_tables, metis task_remove_reason.exhaust)

lemmas tags_read_back =
  durability.try_from_iff snapshot_scope.try_from_iff start_reason.try_from_iff abort_reason.try_from_iff
  data_barrier.try_from_iff scope.try_from_iff reason.try_from_iff pause_reason.try_from_iff
  remove_reason.try_from_iff

end
