(* ===== verification/SafePath.thy ===== *)
theory SafePath
  imports Bytes
begin

text \<open>
  Relative paths from metadata and from users, \<^verbatim>\<open>src/crates/ariax-storage/src/path.rs\<close>: the policy every
  component must pass, the split of a user path on either separator and the combination of a directory with
  a name. Normalisation to NFC belongs to another package and is the argument \<open>nfc\<close>. The comparison with
  reserved Windows names uses full upper-casing in the source; only ASCII letters have an upper-case form
  made of the letters of these names, so upper-casing ASCII decides the comparison. The lemmas show that an
  accepted path cannot leave the directory it is resolved in, and that its text form is read back as the
  same path.
\<close>

section \<open>Splitting and joining\<close>

fun split_on :: "(char \<Rightarrow> bool) \<Rightarrow> string \<Rightarrow> string list" where
  "split_on P [] = [[]]"
| "split_on P (c # cs) =
     (if P c then [] # split_on P cs
      else case split_on P cs of [] \<Rightarrow> [[c]] | w # ws \<Rightarrow> (c # w) # ws)"

fun join_with :: "char \<Rightarrow> string list \<Rightarrow> string" where
  "join_with sep [] = []"
| "join_with sep [w] = w"
| "join_with sep (w # v # ws) = w @ sep # join_with sep (v # ws)"

section \<open>Paths\<close>

definition MAX_SAFE_RELATIVE_BYTES :: nat where
  "MAX_SAFE_RELATIVE_BYTES = 64 * 1024"

datatype path_platform = PP_Unix | PP_Windows

fun path_platform_number :: "path_platform \<Rightarrow> u8" where
  "path_platform_number PP_Unix = 1"
| "path_platform_number PP_Windows = 2"

record safe_relative_path =
  srp_components :: "string list"
  srp_encoded_len :: nat

definition canonical_string :: "safe_relative_path \<Rightarrow> string" where
  "canonical_string p = join_with CHR ''/'' (srp_components p)"

definition collision_key :: "(string \<Rightarrow> string) \<Rightarrow> safe_relative_path \<Rightarrow> path_platform \<Rightarrow> string" where
  "collision_key to_lowercase p platform =
     (case platform of PP_Unix \<Rightarrow> canonical_string p | PP_Windows \<Rightarrow> to_lowercase (canonical_string p))"

datatype path_validation_error =
  PV_EmptyPath | PV_AbsolutePath | PV_WindowsPrefix | PV_NonUtf8Input | PV_EmptyComponent | PV_DotComponent
| PV_SeparatorInComponent | PV_ColonInComponent | PV_ControlCharacter | PV_BidirectionalControl
| PV_ReservedWindowsName | PV_TrailingWindowsDotOrSpace | PV_TooLong

section \<open>The policy for one component\<close>

definition chars_of :: "string \<Rightarrow> nat list" where
  "chars_of s = (case utf8_chars (as_bytes s) of None \<Rightarrow> [] | Some cs \<Rightarrow> cs)"

text \<open>\<open>char::is_control\<close>: the general category Cc\<close>

definition is_control :: "nat \<Rightarrow> bool" where
  "is_control c \<longleftrightarrow> c < 0x20 \<or> (0x7F \<le> c \<and> c \<le> 0x9F)"

definition is_bidirectional_control :: "nat \<Rightarrow> bool" where
  "is_bidirectional_control c \<longleftrightarrow> (0x202A \<le> c \<and> c \<le> 0x202E) \<or> (0x2066 \<le> c \<and> c \<le> 0x2069)"

definition ascii_upper :: "char \<Rightarrow> char" where
  "ascii_upper c = (let n = of_char c :: nat in if 97 \<le> n \<and> n \<le> 122 then char_of (n - 32) else c)"

definition numbered_reserved_name :: "string \<Rightarrow> string \<Rightarrow> bool" where
  "numbered_reserved_name stem pre \<longleftrightarrow>
     take (length pre) stem = pre
     \<and> drop (length pre) stem \<in>
         {''1'', ''2'', ''3'', ''4'', ''5'', ''6'', ''7'', ''8'', ''9'',
          text_of [0xC2, 0xB9], text_of [0xC2, 0xB2], text_of [0xC2, 0xB3]}"

definition is_reserved_windows_name :: "string \<Rightarrow> bool" where
  "is_reserved_windows_name component =
     (let stem = map ascii_upper (hd (split_on (\<lambda>c. c = CHR ''.'') component))
      in stem \<in> {''CON'', ''PRN'', ''AUX'', ''NUL''}
         \<or> numbered_reserved_name stem ''COM'' \<or> numbered_reserved_name stem ''LPT'')"

definition is_separator :: "char \<Rightarrow> bool" where
  "is_separator c \<longleftrightarrow> c = CHR ''/'' \<or> c = CHR 0x5C"

definition validate_component :: "string \<Rightarrow> path_platform \<Rightarrow> (path_validation_error, unit) result" where
  "validate_component component platform =
     (if component \<in> {''.'', ''..''} then Inl PV_DotComponent
      else if list_ex is_separator component then Inl PV_SeparatorInComponent
      else if CHR '':'' \<in> set component then Inl PV_ColonInComponent
      else if list_ex is_control (chars_of component) then Inl PV_ControlCharacter
      else if list_ex is_bidirectional_control (chars_of component) then Inl PV_BidirectionalControl
      else if is_reserved_windows_name component then Inl PV_ReservedWindowsName
      else if platform = PP_Windows \<and> component \<noteq> [] \<and> last component \<in> {CHR ''.'', CHR '' ''}
        then Inl PV_TrailingWindowsDotOrSpace
      else Inr ())"

section \<open>Building a path\<close>

fun build_from ::
  "(string \<Rightarrow> string) \<Rightarrow> path_platform \<Rightarrow> string list \<Rightarrow> nat \<Rightarrow> string list \<Rightarrow>
   (path_validation_error, safe_relative_path) result" where
  "build_from nfc platform normalized encoded_len [] =
     (if normalized = [] then Inl PV_EmptyPath
      else Inr \<lparr>srp_components = normalized, srp_encoded_len = encoded_len\<rparr>)"
| "build_from nfc platform normalized encoded_len (raw # rest) =
     (if raw = [] then Inl PV_EmptyComponent
      else
        let component = nfc raw in
        and_then (validate_component component platform) (\<lambda>_.
          let separated = (if normalized = [] then encoded_len else encoded_len + 1);
              total = separated + length component in
          if separated > usize_max \<or> total > usize_max \<or> total > MAX_SAFE_RELATIVE_BYTES then Inl PV_TooLong
          else build_from nfc platform (normalized @ [component]) total rest))"

definition build_components ::
  "(string \<Rightarrow> string) \<Rightarrow> string list \<Rightarrow> path_platform \<Rightarrow> (path_validation_error, safe_relative_path) result" where
  "build_components nfc components platform = build_from nfc platform [] 0 components"

definition is_ascii_alphabetic :: "char \<Rightarrow> bool" where
  "is_ascii_alphabetic c \<longleftrightarrow>
     (let n = of_char c :: nat in (65 \<le> n \<and> n \<le> 90) \<or> (97 \<le> n \<and> n \<le> 122))"

definition reject_absolute_or_prefixed :: "string \<Rightarrow> (path_validation_error, unit) result" where
  "reject_absolute_or_prefixed v =
     (if v \<noteq> [] \<and> hd v = CHR ''/'' then Inl PV_AbsolutePath
      else if v \<noteq> [] \<and> hd v = CHR 0x5C then Inl PV_WindowsPrefix
      else if length v \<ge> 2 \<and> is_ascii_alphabetic (v ! 0) \<and> v ! 1 = CHR '':'' then Inl PV_WindowsPrefix
      else Inr ())"

definition from_metadata_components ::
  "(string \<Rightarrow> string) \<Rightarrow> string list \<Rightarrow> path_platform \<Rightarrow> (path_validation_error, safe_relative_path) result" where
  "from_metadata_components nfc components platform = build_components nfc components platform"

definition from_user_path ::
  "(string \<Rightarrow> string) \<Rightarrow> string \<Rightarrow> path_platform \<Rightarrow> (path_validation_error, safe_relative_path) result" where
  "from_user_path nfc v platform =
     and_then (reject_absolute_or_prefixed v) (\<lambda>_.
       build_components nfc (filter (\<lambda>c. c \<noteq> []) (split_on is_separator v)) platform)"

text \<open>\<open>dir\<close> is given by its bytes, which need not be text.\<close>

definition path_combine ::
  "(string \<Rightarrow> string) \<Rightarrow> u8 list option \<Rightarrow> string option \<Rightarrow> string list \<Rightarrow> path_platform \<Rightarrow>
   (path_validation_error, safe_relative_path) result" where
  "path_combine nfc dir out metadata_components platform =
     and_then
       (case dir of None \<Rightarrow> Inr []
        | Some bytes \<Rightarrow>
            and_then (ok_or PV_NonUtf8Input (from_utf8 bytes)) (\<lambda>text.
            and_then (from_user_path nfc text platform) (\<lambda>path. Inr (srp_components path))))
       (\<lambda>components.
     and_then
       (case out of
          Some name \<Rightarrow> from_user_path nfc name platform
        | None \<Rightarrow> from_metadata_components nfc metadata_components platform)
       (\<lambda>path. build_components nfc (components @ srp_components path) platform))"

section \<open>Lemmas on splitting and joining\<close>

lemma split_on_nonempty [simp]: "split_on P s \<noteq> []"
  by (cases s) (auto split: list.splits)

lemma split_on_none: "\<not> list_ex P s \<Longrightarrow> split_on P s = [s]"
  by (induction s) auto

lemma split_on_append: "\<not> list_ex P s \<Longrightarrow> P c \<Longrightarrow> split_on P (s @ c # t) = s # split_on P t"
  by (induction s) auto

lemma split_on_join:
  "(\<forall>w\<in>set ws. \<not> list_ex P w) \<Longrightarrow> P sep \<Longrightarrow> ws \<noteq> [] \<Longrightarrow> split_on P (join_with sep ws) = ws"
  by (induction sep ws rule: join_with.induct) (auto simp: split_on_none split_on_append)

lemma split_on_parts: "w \<in> set (split_on P s) \<Longrightarrow> \<not> list_ex P w"
proof (induction s arbitrary: w)
  case (Cons c cs)
  obtain v vs where "split_on P cs = v # vs" by (meson list.exhaust split_on_nonempty)
  with Cons show ?case by (auto split: if_splits)
qed simp

lemma hd_join: "ws \<noteq> [] \<Longrightarrow> hd ws \<noteq> [] \<Longrightarrow> hd (join_with sep ws) = hd (hd ws) \<and> join_with sep ws \<noteq> []"
  by (induction sep ws rule: join_with.induct) auto

lemma length_join: "ws \<noteq> [] \<Longrightarrow> length (join_with sep ws) + 1 = sum_list (map (\<lambda>w. length w + 1) ws)"
  by (induction sep ws rule: join_with.induct) auto

section \<open>What an accepted path looks like\<close>

definition component_ok :: "path_platform \<Rightarrow> string \<Rightarrow> bool" where
  "component_ok platform c \<longleftrightarrow> c \<noteq> [] \<and> validate_component c platform = Inr ()"

text \<open>What is used of NFC: normalising twice is normalising once, and no text becomes empty.\<close>

definition nfc_normalises :: "(string \<Rightarrow> string) \<Rightarrow> bool" where
  "nfc_normalises nfc \<longleftrightarrow> (\<forall>s. nfc (nfc s) = nfc s \<and> (nfc s = [] \<longrightarrow> s = []))"

definition safe_path_ok :: "(string \<Rightarrow> string) \<Rightarrow> path_platform \<Rightarrow> safe_relative_path \<Rightarrow> bool" where
  "safe_path_ok nfc platform p \<longleftrightarrow>
     srp_components p \<noteq> []
     \<and> (\<forall>c\<in>set (srp_components p). component_ok platform c \<and> nfc c = c)
     \<and> srp_encoded_len p = length (canonical_string p)
     \<and> length (canonical_string p) \<le> MAX_SAFE_RELATIVE_BYTES"

lemma component_okD:
  assumes "component_ok platform c"
  shows "c \<noteq> []" "c \<noteq> ''.''" "c \<noteq> ''..''" "\<not> list_ex is_separator c" "CHR '':'' \<notin> set c"
    "\<not> list_ex is_control (chars_of c)" "\<not> list_ex is_bidirectional_control (chars_of c)"
    "\<not> is_reserved_windows_name c"
  using assms by (auto simp: component_ok_def validate_component_def split: if_splits)

definition run_length :: "string list \<Rightarrow> nat" where
  "run_length ws = length (join_with CHR ''/'' ws)"

lemma run_length_snoc:
  "run_length (ws @ [w]) = (if ws = [] then length w else run_length ws + 1 + length w)"
proof (cases "ws = []")
  case False
  then show ?thesis
    using length_join [of ws "CHR ''/''"] length_join [of "ws @ [w]" "CHR ''/''"] by (simp add: run_length_def)
qed (simp add: run_length_def)

lemma run_length_mono: "ws \<noteq> [] \<Longrightarrow> run_length ws \<le> run_length (ws @ vs)"
proof (cases "vs = []")
  case False
  assume "ws \<noteq> []"
  with False show ?thesis
    using length_join [of ws "CHR ''/''"] length_join [of "ws @ vs" "CHR ''/''"]
    by (simp add: run_length_def)
qed simp

lemma build_from_iff:
  "build_from nfc platform normalized (run_length normalized) raws = Inr p \<longleftrightarrow>
     normalized @ map nfc raws \<noteq> [] \<and> (\<forall>r\<in>set raws. r \<noteq> [] \<and> validate_component (nfc r) platform = Inr ())
     \<and> (raws \<noteq> [] \<longrightarrow> run_length (normalized @ map nfc raws) \<le> MAX_SAFE_RELATIVE_BYTES)
     \<and> p = \<lparr>srp_components = normalized @ map nfc raws, srp_encoded_len = run_length (normalized @ map nfc raws)\<rparr>"
proof (induction raws arbitrary: normalized)
  case (Cons r raws)
  let ?n = "normalized @ [nfc r]"
  have len: "(if normalized = [] then run_length normalized else run_length normalized + 1) + length (nfc r)
      = run_length ?n"
    by (simp add: run_length_snoc) (simp add: run_length_def)
  have mono: "run_length ?n \<le> run_length (?n @ map nfc raws)" by (rule run_length_mono) simp
  have max: "MAX_SAFE_RELATIVE_BYTES < usize_max" by (simp add: MAX_SAFE_RELATIVE_BYTES_def usize_max_def)
  have sep: "(if normalized = [] then run_length normalized else run_length normalized + 1) \<le> run_length ?n"
    using len by linarith
  have "build_from nfc platform normalized (run_length normalized) (r # raws) = Inr p \<longleftrightarrow>
      r \<noteq> [] \<and> validate_component (nfc r) platform = Inr () \<and> run_length ?n \<le> MAX_SAFE_RELATIVE_BYTES
      \<and> build_from nfc platform ?n (run_length ?n) raws = Inr p"
    using max sep by (auto simp: Let_def and_then_eq_Inr len)
  then show ?case using mono by (auto simp: Cons.IH)
qed auto

lemma build_components_iff:
  "build_components nfc raws platform = Inr p \<longleftrightarrow>
     raws \<noteq> [] \<and> (\<forall>r\<in>set raws. r \<noteq> [] \<and> validate_component (nfc r) platform = Inr ())
     \<and> run_length (map nfc raws) \<le> MAX_SAFE_RELATIVE_BYTES
     \<and> p = \<lparr>srp_components = map nfc raws, srp_encoded_len = run_length (map nfc raws)\<rparr>"
  using build_from_iff [of nfc platform "[]" raws p] by (auto simp: build_components_def run_length_def)

lemma build_components_ok:
  "nfc_normalises nfc \<Longrightarrow> build_components nfc raws platform = Inr p \<Longrightarrow> safe_path_ok nfc platform p"
  unfolding build_components_iff nfc_normalises_def safe_path_ok_def component_ok_def
  by (auto simp: canonical_string_def run_length_def)

lemma build_components_again:
  "safe_path_ok nfc platform p \<Longrightarrow> build_components nfc (srp_components p) platform = Inr p"
  unfolding build_components_iff safe_path_ok_def component_ok_def
  by (auto simp: canonical_string_def run_length_def map_idI)

section \<open>An accepted path stays inside\<close>

text \<open>
  How an operating system walks a relative path from a directory: an empty name or a dot stays, two dots go to
  the parent, everything else goes down. A Unix system separates at slashes, a Windows system at both slashes.
\<close>

definition walk_step :: "string list \<Rightarrow> string \<Rightarrow> string list" where
  "walk_step dir name =
     (if name \<in> {'''', ''.''} then dir else if name = ''..'' then butlast dir else dir @ [name])"

definition walk_path :: "(char \<Rightarrow> bool) \<Rightarrow> string list \<Rightarrow> string \<Rightarrow> string list" where
  "walk_path separates dir text = foldl walk_step dir (split_on separates text)"

lemma walk_components: "\<forall>c\<in>set cs. component_ok platform c \<Longrightarrow> foldl walk_step dir cs = dir @ cs"
proof (induction cs arbitrary: dir)
  case (Cons c cs)
  then show ?case using component_okD [of platform c] by (simp add: walk_step_def)
qed simp

lemma canonical_split:
  assumes "safe_path_ok nfc platform p" "P = is_separator \<or> P = (\<lambda>c. c = CHR ''/'')"
  shows "split_on P (canonical_string p) = srp_components p"
proof -
  have "\<forall>c\<in>set (srp_components p). \<not> list_ex P c" "P (CHR ''/'')"
    using assms component_okD(4) by (fastforce simp: safe_path_ok_def list_ex_iff is_separator_def)+
  then show ?thesis using assms(1) by (simp add: canonical_string_def split_on_join safe_path_ok_def)
qed

lemma canonical_relative:
  assumes "safe_path_ok nfc platform p"
  shows "reject_absolute_or_prefixed (canonical_string p) = Inr ()"
proof -
  obtain c cs where p: "srp_components p = c # cs" using assms by (cases "srp_components p") (auto simp: safe_path_ok_def)
  note c = component_okD [of platform c]
  have ok: "component_ok platform c" using assms p by (simp add: safe_path_ok_def)
  then obtain x xs where x: "c = x # xs" "\<not> is_separator x" using c(1,4) by (cases c) auto
  have str: "canonical_string p = c \<or> (\<exists>r. canonical_string p = c @ CHR ''/'' # r)"
    using p by (cases cs) (auto simp: canonical_string_def)
  then have "hd (canonical_string p) = x" using x by auto
  moreover have "length (canonical_string p) \<ge> 2 \<longrightarrow> canonical_string p ! 1 \<noteq> CHR '':''"
    using str c(5) [OF ok] x(1) by (cases xs) auto
  ultimately show ?thesis using x(2) by (auto simp: reject_absolute_or_prefixed_def is_separator_def)
qed

lemma from_user_path_ok: "nfc_normalises nfc \<Longrightarrow> from_user_path nfc v platform = Inr p \<Longrightarrow> safe_path_ok nfc platform p"
  using build_components_ok by (auto simp: from_user_path_def and_then_eq_Inr)

lemma from_user_path_canonical:
  assumes "safe_path_ok nfc platform p"
  shows "from_user_path nfc (canonical_string p) platform = Inr p"
proof -
  have "filter (\<lambda>c. c \<noteq> []) (srp_components p) = srp_components p"
    using assms component_okD(1) by (auto simp: safe_path_ok_def filter_id_conv)
  then show ?thesis
    using canonical_split [OF assms] build_components_again [OF assms] canonical_relative [OF assms]
    by (simp add: from_user_path_def and_then_def)
qed

lemma path_combine_ok:
  assumes nfc: "nfc_normalises nfc" and c: "path_combine nfc dir out metadata platform = Inr p"
  shows "safe_path_ok nfc platform p"
  using c build_components_ok [OF nfc]
  by (auto simp: path_combine_def and_then_eq_Inr)

text \<open>
  C36. A path accepted from a user, from metadata or from their combination stays inside the directory it is
  resolved in: walking its text form, at slashes only or at both separators, ends at the directory extended by
  its components, and every directory on the way is below the start. Its components are normalised and free of
  separators, colons, control and bidirectional characters and reserved names, it is at most 64 KiB long, and
  reading its text form again yields the same path.
\<close>

theorem safe_path_inside:
  assumes "nfc_normalises nfc"
    and "from_user_path nfc v platform = Inr p \<or> from_metadata_components nfc cs platform = Inr p
         \<or> path_combine nfc dir out cs platform = Inr p"
    and "separates = is_separator \<or> separates = (\<lambda>c. c = CHR ''/'')"
  shows "walk_path separates root (canonical_string p) = root @ srp_components p
    \<and> (\<forall>n. prefix root (foldl walk_step root (take n (split_on separates (canonical_string p)))))
    \<and> (\<forall>c\<in>set (srp_components p). c \<notin> {'''', ''.'', ''..''} \<and> \<not> list_ex is_separator c \<and> CHR '':'' \<notin> set c
         \<and> \<not> list_ex is_control (chars_of c) \<and> \<not> list_ex is_bidirectional_control (chars_of c)
         \<and> \<not> is_reserved_windows_name c \<and> nfc c = c)
    \<and> srp_encoded_len p = length (canonical_string p) \<and> length (canonical_string p) \<le> 65536
    \<and> from_user_path nfc (canonical_string p) platform = Inr p"
proof -
  have ok: "safe_path_ok nfc platform p"
    using assms(1,2) from_user_path_ok build_components_ok path_combine_ok
    by (auto simp: from_metadata_components_def)
  have comps: "\<forall>c\<in>set (srp_components p). component_ok platform c" using ok by (simp add: safe_path_ok_def)
  have take: "foldl walk_step root (take n (srp_components p)) = root @ take n (srp_components p)" for n
    using comps by (intro walk_components [of _ platform]) (auto dest: in_set_takeD)
  have "\<forall>c\<in>set (srp_components p). c \<notin> {'''', ''.'', ''..''} \<and> \<not> list_ex is_separator c \<and> CHR '':'' \<notin> set c
         \<and> \<not> list_ex is_control (chars_of c) \<and> \<not> list_ex is_bidirectional_control (chars_of c)
         \<and> \<not> is_reserved_windows_name c \<and> nfc c = c"
  proof
    fix c assume "c \<in> set (srp_components p)"
    then have "component_ok platform c" "nfc c = c" using ok by (simp_all add: safe_path_ok_def)
    with component_okD [of platform c] show "c \<notin> {'''', ''.'', ''..''} \<and> \<not> list_ex is_separator c
        \<and> CHR '':'' \<notin> set c \<and> \<not> list_ex is_control (chars_of c)
        \<and> \<not> list_ex is_bidirectional_control (chars_of c) \<and> \<not> is_reserved_windows_name c \<and> nfc c = c"
      by simp
  qed
  moreover have "srp_encoded_len p = length (canonical_string p)" "length (canonical_string p) \<le> 65536"
    using ok by (simp_all add: safe_path_ok_def MAX_SAFE_RELATIVE_BYTES_def)
  ultimately show ?thesis
    using canonical_split [OF ok assms(3)] walk_components [OF comps] from_user_path_canonical [OF ok]
    by (simp add: walk_path_def take)
qed

theorem safe_path_inside_witness:
  "\<exists>p. from_user_path (\<lambda>s. s) ''a//b'' PP_Unix = Inr p \<and> srp_components p = [''a'', ''b'']
     \<and> walk_path is_separator [''srv''] (canonical_string p) = [''srv'', ''a'', ''b'']
     \<and> from_user_path (\<lambda>s. s) (canonical_string p) PP_Unix = Inr p"
proof -
  define p where "p = \<lparr>srp_components = [''a'', ''b''], srp_encoded_len = 3\<rparr>"
  have u: "from_user_path (\<lambda>s. s) ''a//b'' PP_Unix = Inr p"
    by (simp add: from_user_path_def reject_absolute_or_prefixed_def build_components_iff validate_component_def
        is_separator_def and_then_def chars_of_def as_bytes_def byte_of_char_def is_control_def
        is_bidirectional_control_def is_reserved_windows_name_def numbered_reserved_name_def ascii_upper_def Let_def
        run_length_def MAX_SAFE_RELATIVE_BYTES_def text_of_def char_of_byte_def p_def)
  have "nfc_normalises (\<lambda>s. s)" by (simp add: nfc_normalises_def)
  from safe_path_inside [OF this, of "''a//b''" PP_Unix p "[]" None None is_separator "[''srv'']"] u
  show ?thesis by (auto simp: p_def)
qed

end
