(* ===== verification/RootBinding.thy ===== *)
theory RootBinding
  imports SafePath Ids
begin

text \<open>
  The evidence that ties a layout to an opened directory,
  \<^verbatim>\<open>src/crates/ariax-storage/src/root_binding.rs\<close>: native paths, identities of the root and of the files, and
  the hash over them. SHA-256 is the argument \<open>sha\<close>. The lemmas show that the hashed text determines the path,
  the root identity and every file identity.
\<close>

definition MAX_PLATFORM_PATH_BYTES :: nat where
  "MAX_PLATFORM_PATH_BYTES = 64 * 1024"

definition MAX_IDENTITY_BYTES :: nat where
  "MAX_IDENTITY_BYTES = 256"

definition ROOT_BINDING_HASH_DOMAIN :: "u8 list" where
  "ROOT_BINDING_HASH_DOMAIN = as_bytes ''ariax/root-binding/v1'' @ [0]"

instantiation file_id :: linorder
begin

definition less_eq_file_id :: "file_id \<Rightarrow> file_id \<Rightarrow> bool" where
  "less_eq_file_id a b \<longleftrightarrow> file_id_get a \<le> file_id_get b"

definition less_file_id :: "file_id \<Rightarrow> file_id \<Rightarrow> bool" where
  "less_file_id a b \<longleftrightarrow> file_id_get a < file_id_get b"

instance
  by standard (auto simp: less_eq_file_id_def less_file_id_def intro: file_id.expand)

end

datatype root_binding_error =
  RB_UnsupportedPlatform | RB_EmptyPlatformPath | RB_PlatformPathTooLong | RB_InvalidPlatformPath
| RB_EmptyRootIdentity | RB_EmptyFileIdentity | RB_IdentityTooLong | RB_DuplicateFileIdentity file_id

record platform_path =
  pp_platform :: path_platform
  pp_bytes :: "u8 list"

fun wide_units :: "u8 list \<Rightarrow> u16 list" where
  "wide_units (a # b # rest) = u16_from_le [a, b] # wide_units rest"
| "wide_units _ = []"

definition from_native_bytes :: "path_platform \<Rightarrow> u8 list \<Rightarrow> (root_binding_error, platform_path) result" where
  "from_native_bytes platform bytes =
     (if bytes = [] then Inl RB_EmptyPlatformPath
      else if length bytes > MAX_PLATFORM_PATH_BYTES then Inl RB_PlatformPathTooLong
      else if (case platform of
                 PP_Unix \<Rightarrow> 0 \<in> set bytes
               | PP_Windows \<Rightarrow> length bytes mod 2 \<noteq> 0 \<or> 0 \<in> set (wide_units bytes))
        then Inl RB_InvalidPlatformPath
      else Inr \<lparr>pp_platform = platform, pp_bytes = bytes\<rparr>)"

datatype root_identity = RootIdentity (root_identity_bytes: "u8 list")
datatype file_identity = FileIdentity (file_identity_bytes: "u8 list")

definition root_identity_new :: "u8 list \<Rightarrow> (root_binding_error, root_identity) result" where
  "root_identity_new bytes =
     (if bytes = [] then Inl RB_EmptyRootIdentity
      else if length bytes > MAX_IDENTITY_BYTES then Inl RB_IdentityTooLong
      else Inr (RootIdentity bytes))"

definition file_identity_new :: "u8 list \<Rightarrow> (root_binding_error, file_identity) result" where
  "file_identity_new bytes =
     (if bytes = [] then Inl RB_EmptyFileIdentity
      else if length bytes > MAX_IDENTITY_BYTES then Inl RB_IdentityTooLong
      else Inr (FileIdentity bytes))"

record root_binding =
  rb_path :: platform_path
  rb_root_identity :: root_identity
  rb_file_identities :: "(file_id, file_identity) btree"
  rb_hash :: "u8 list"

definition update_bytes :: "u8 list \<Rightarrow> u8 list" where
  "update_bytes bytes = u32_le (word_of_nat (length bytes)) @ bytes"

definition root_binding_text ::
  "platform_path \<Rightarrow> root_identity \<Rightarrow> (file_id, file_identity) btree \<Rightarrow> u8 list" where
  "root_binding_text path root files =
     ROOT_BINDING_HASH_DOMAIN @ [path_platform_number (pp_platform path)]
     @ update_bytes (pp_bytes path) @ update_bytes (root_identity_bytes root)
     @ u32_le (word_of_nat (length files))
     @ concat (map (\<lambda>(file, identity). u32_le (file_id_get file) @ update_bytes (file_identity_bytes identity)) files)"

definition root_binding_hash ::
  "sha256 \<Rightarrow> platform_path \<Rightarrow> root_identity \<Rightarrow> (file_id, file_identity) btree \<Rightarrow> u8 list" where
  "root_binding_hash sha path root files = sha (root_binding_text path root files)"

fun collect_identities ::
  "(file_id, file_identity) btree \<Rightarrow> (file_id \<times> file_identity) list \<Rightarrow>
   (root_binding_error, (file_id, file_identity) btree) result" where
  "collect_identities identities [] = Inr identities"
| "collect_identities identities ((file, identity) # rest) =
     (if bt_get identities file \<noteq> None then Inl (RB_DuplicateFileIdentity file)
      else collect_identities (bt_insert file identity identities) rest)"

definition root_binding_new ::
  "sha256 \<Rightarrow> platform_path \<Rightarrow> root_identity \<Rightarrow> (file_id \<times> file_identity) list \<Rightarrow>
   (root_binding_error, root_binding) result" where
  "root_binding_new sha path root file_identities =
     and_then (collect_identities [] file_identities) (\<lambda>identities.
       Inr \<lparr>rb_path = path, rb_root_identity = root, rb_file_identities = identities,
            rb_hash = root_binding_hash sha path root identities\<rparr>)"

section \<open>The hashed text determines the binding\<close>

text \<open>What the constructors guarantee of the parts of a binding.\<close>

definition binding_parts_ok ::
  "platform_path \<Rightarrow> root_identity \<Rightarrow> (file_id, file_identity) btree \<Rightarrow> bool" where
  "binding_parts_ok path root files \<longleftrightarrow>
     length (pp_bytes path) \<le> MAX_PLATFORM_PATH_BYTES \<and> length (root_identity_bytes root) \<le> MAX_IDENTITY_BYTES
     \<and> (\<forall>(file, identity)\<in>set files. length (file_identity_bytes identity) \<le> MAX_IDENTITY_BYTES)
     \<and> length files < 2 ^ 32"

lemma update_bytes_inject:
  assumes "length bs < 2 ^ 32" "length cs < 2 ^ 32" "update_bytes bs @ r = update_bytes cs @ r'"
  shows "bs = cs \<and> r = r'"
proof -
  have "u32_le (word_of_nat (length bs)) = u32_le (word_of_nat (length cs))" "bs @ r = cs @ r'"
    using assms(3) by (simp_all add: update_bytes_def append_eq_append_conv)
  moreover from this(1) have "length bs = length cs"
    using assms(1,2) by (simp add: le_inject word_unat_eq_iff unat_of_nat)
  ultimately show ?thesis by (simp add: append_eq_append_conv)
qed

lemma identities_inject:
  fixes files files' :: "(file_id, file_identity) btree"
  defines "enc \<equiv> \<lambda>fs. concat (map (\<lambda>(file, identity). u32_le (file_id_get file) @ update_bytes (file_identity_bytes identity)) fs)"
  assumes "length files = length files'" "enc files = enc files'"
    and "\<forall>(file, identity)\<in>set files. length (file_identity_bytes identity) \<le> MAX_IDENTITY_BYTES"
    and "\<forall>(file, identity)\<in>set files'. length (file_identity_bytes identity) \<le> MAX_IDENTITY_BYTES"
  shows "files = files'"
  using assms(2-)
proof (induction files files' rule: list_induct2)
  case (Cons a as b bs)
  obtain f i g j where ab: "a = (f, i)" "b = (g, j)" by (cases a, cases b)
  have eq: "u32_le (file_id_get f) @ update_bytes (file_identity_bytes i) @ enc as =
      u32_le (file_id_get g) @ update_bytes (file_identity_bytes j) @ enc bs"
    using Cons.prems(1) by (simp add: enc_def ab)
  then have fg: "file_id_get f = file_id_get g"
    and up: "update_bytes (file_identity_bytes i) @ enc as = update_bytes (file_identity_bytes j) @ enc bs"
    by (simp_all add: append_eq_append_conv le_inject)
  have "length (file_identity_bytes i) < 2 ^ 32" "length (file_identity_bytes j) < 2 ^ 32"
    using Cons.prems(2,3) by (auto simp: ab MAX_IDENTITY_BYTES_def)
  from update_bytes_inject [OF this up] fg Cons show ?case
    by (auto simp: ab intro: file_id.expand file_identity.expand)
qed simp

lemma path_platform_number_inject: "path_platform_number a = path_platform_number b \<Longrightarrow> a = b"
  by (cases a; cases b) simp_all

lemma root_binding_text_inject:
  assumes "binding_parts_ok path root files" "binding_parts_ok path' root' files'"
    and eq: "root_binding_text path root files = root_binding_text path' root' files'"
  shows "path = path' \<and> root = root' \<and> files = files'"
proof -
  let ?enc = "\<lambda>fs. concat (map (\<lambda>(file, identity). u32_le (file_id_get file) @ update_bytes (file_identity_bytes identity)) fs)"
  have len: "length (pp_bytes path) < 2 ^ 32" "length (pp_bytes path') < 2 ^ 32"
    "length (root_identity_bytes root) < 2 ^ 32" "length (root_identity_bytes root') < 2 ^ 32"
    using assms(1,2) by (auto simp: binding_parts_ok_def MAX_PLATFORM_PATH_BYTES_def MAX_IDENTITY_BYTES_def)
  have 1: "path_platform_number (pp_platform path) = path_platform_number (pp_platform path')"
    and 2: "update_bytes (pp_bytes path) @ update_bytes (root_identity_bytes root)
        @ u32_le (word_of_nat (length files)) @ ?enc files =
      update_bytes (pp_bytes path') @ update_bytes (root_identity_bytes root')
        @ u32_le (word_of_nat (length files')) @ ?enc files'"
    using eq by (simp_all add: root_binding_text_def)
  note p = update_bytes_inject [OF len(1,2) 2]
  note r = update_bytes_inject [OF len(3,4) p [THEN conjunct2]]
  then have "u32_le (word_of_nat (length files)) = u32_le (word_of_nat (length files'))" "?enc files = ?enc files'"
    by (simp_all add: append_eq_append_conv)
  moreover from this(1) have "length files = length files'"
    using assms(1,2) by (simp add: le_inject word_unat_eq_iff unat_of_nat binding_parts_ok_def)
  ultimately have "files = files'" using identities_inject assms(1,2) by (simp add: binding_parts_ok_def)
  moreover have "path = path'" using p 1 path_platform_number_inject by (metis platform_path.equality unit.exhaust)
  moreover have "root = root'" using r by (simp add: root_identity.expand)
  ultimately show ?thesis by simp
qed

end
