(* ===== verification/Layout.thy ===== *)
theory Layout
  imports RootBinding
begin

text \<open>
  File layouts, \<^verbatim>\<open>src/crates/ariax-storage/src/layout.rs\<close>: the validated placement of the files of a task in
  one global byte range, its hash, and the map from global spans to files. Lower-casing of paths on Windows
  is the argument \<open>to_lowercase\<close>, SHA-256 the argument \<open>sha\<close>. The lemmas show that an admitted layout tiles
  the byte range, that mapping a span succeeds exactly when it lies in one selected file, and that the hashed
  text determines the layout.
\<close>

definition MAX_LAYOUT_ENTRIES :: nat where
  "MAX_LAYOUT_ENTRIES = 262144"

definition MAX_LAYOUT_BYTES :: nat where
  "MAX_LAYOUT_BYTES = 64 * 1024 * 1024"

definition LAYOUT_HASH_DOMAIN :: "u8 list" where
  "LAYOUT_HASH_DOMAIN = as_bytes ''ariax/layout/v1'' @ [0]"

datatype layout_hash = LayoutHash (layout_hash_bytes: "u8 list")

record file_entry =
  fe_id :: file_id
  fe_safe_path :: safe_relative_path
  fe_identity :: "file_identity option"
  fe_length :: u64
  fe_global_start :: u64
  fe_global_end :: u64
  fe_selected :: bool

record file_layout =
  fl_task :: task_id
  fl_generation :: generation
  fl_root_binding :: root_binding
  fl_files :: "file_entry list"
  fl_total_length :: "u64 option"
  fl_piece_length :: u64
  fl_layout_hash :: layout_hash
  fl_canonical_bytes :: nat

datatype layout_error =
  LE_EmptyLayout | LE_TooManyFiles | LE_ZeroPieceLength | LE_NonCanonicalFileId | LE_NonContiguousFile
| LE_FileEndOverflow | LE_FileEndMismatch | LE_TotalLengthMismatch | LE_UnknownLengthShape
| LE_SelectedFileMissingIdentity | LE_UnselectedFileHasIdentity | LE_RootBindingMismatch | LE_PathCollision
| LE_CanonicalLayoutTooLarge

section \<open>Admission of a layout\<close>

definition check_identity :: "root_binding \<Rightarrow> file_entry \<Rightarrow> (layout_error, nat) result" where
  "check_identity rb file =
     (case (fe_selected file, fe_identity file) of
        (True, Some identity) \<Rightarrow>
          if bt_get (rb_file_identities rb) (fe_id file) \<noteq> Some identity then Inl LE_RootBindingMismatch else Inr 1
      | (True, None) \<Rightarrow> Inl LE_SelectedFileMissingIdentity
      | (False, Some _) \<Rightarrow> Inl LE_UnselectedFileHasIdentity
      | (False, None) \<Rightarrow>
          if bt_get (rb_file_identities rb) (fe_id file) \<noteq> None then Inl LE_RootBindingMismatch else Inr 0)"

fun check_files ::
  "(string \<Rightarrow> string) \<Rightarrow> root_binding \<Rightarrow> nat \<Rightarrow> u64 \<Rightarrow> string list \<Rightarrow> nat \<Rightarrow> file_entry list \<Rightarrow>
   (layout_error, u64 \<times> nat) result" where
  "check_files to_lowercase rb index expected_start paths selected_count [] = Inr (expected_start, selected_count)"
| "check_files to_lowercase rb index expected_start paths selected_count (file # rest) =
     (if fe_id file \<noteq> FileId (word_of_nat index) then Inl LE_NonCanonicalFileId
      else if fe_global_start file \<noteq> expected_start then Inl LE_NonContiguousFile
      else
        and_then (ok_or LE_FileEndOverflow (checked_add (fe_global_start file) (fe_length file))) (\<lambda>expected_end.
        if fe_global_end file \<noteq> expected_end then Inl LE_FileEndMismatch
        else
          let key = collision_key to_lowercase (fe_safe_path file) (pp_platform (rb_path rb)) in
          if key \<in> set paths then Inl LE_PathCollision
          else
            and_then (check_identity rb file) (\<lambda>n.
              check_files to_lowercase rb (index + 1) (fe_global_end file) (key # paths) (selected_count + n) rest)))"

definition validate_layout ::
  "(string \<Rightarrow> string) \<Rightarrow> root_binding \<Rightarrow> file_entry list \<Rightarrow> u64 option \<Rightarrow> u64 \<Rightarrow> (layout_error, unit) result" where
  "validate_layout to_lowercase rb files total_length piece_length =
     (if files = [] then Inl LE_EmptyLayout
      else if length files > MAX_LAYOUT_ENTRIES then Inl LE_TooManyFiles
      else if piece_length = 0 then Inl LE_ZeroPieceLength
      else if total_length = None
              \<and> (length files \<noteq> 1 \<or> fe_length (hd files) \<noteq> 0 \<or> fe_global_start (hd files) \<noteq> 0
                 \<or> fe_global_end (hd files) \<noteq> 0 \<or> \<not> fe_selected (hd files))
        then Inl LE_UnknownLengthShape
      else
        and_then (check_files to_lowercase rb 0 0 [] 0 files) (\<lambda>(expected_start, selected_count).
          if length (rb_file_identities rb) \<noteq> selected_count then Inl LE_RootBindingMismatch
          else if (case total_length of None \<Rightarrow> False | Some total_len \<Rightarrow> total_len \<noteq> expected_start)
            then Inl LE_TotalLengthMismatch
          else Inr ()))"

fun canonical_size :: "nat \<Rightarrow> file_entry list \<Rightarrow> (layout_error, nat) result" where
  "canonical_size total_len [] = Inr total_len"
| "canonical_size total_len (file # rest) =
     (let identity_len = (case fe_identity file of None \<Rightarrow> 0 | Some i \<Rightarrow> length (file_identity_bytes i));
          n = total_len + (4 + 8 + 8 + 8 + 1 + 4 + srp_encoded_len (fe_safe_path file) + 4 + identity_len)
      in if n > usize_max then Inl LE_CanonicalLayoutTooLarge else canonical_size n rest)"

definition layout_file_text :: "file_entry \<Rightarrow> u8 list" where
  "layout_file_text file =
     u32_le (file_id_get (fe_id file)) @ u64_le (fe_global_start file) @ u64_le (fe_global_end file)
     @ u64_le (fe_length file) @ [if fe_selected file then 1 else 0]
     @ update_bytes (as_bytes (canonical_string (fe_safe_path file)))"

definition layout_text :: "file_entry list \<Rightarrow> u64 option \<Rightarrow> u64 \<Rightarrow> u8 list" where
  "layout_text files total_length piece_length =
     LAYOUT_HASH_DOMAIN
     @ (case total_length of Some total_len \<Rightarrow> 1 # u64_le total_len | None \<Rightarrow> [0])
     @ u64_le piece_length @ u32_le (word_of_nat (length files)) @ concat (map layout_file_text files)"

definition calculate_layout_hash :: "sha256 \<Rightarrow> file_entry list \<Rightarrow> u64 option \<Rightarrow> u64 \<Rightarrow> layout_hash" where
  "calculate_layout_hash sha files total_length piece_length =
     LayoutHash (sha (layout_text files total_length piece_length))"

definition file_layout_new ::
  "sha256 \<Rightarrow> (string \<Rightarrow> string) \<Rightarrow> task_id \<Rightarrow> generation \<Rightarrow> root_binding \<Rightarrow> file_entry list \<Rightarrow> u64 option \<Rightarrow> u64 \<Rightarrow>
   (layout_error, file_layout) result" where
  "file_layout_new sha to_lowercase task gen rb files total_length piece_length =
     and_then (validate_layout to_lowercase rb files total_length piece_length) (\<lambda>_.
     and_then (canonical_size 0 files) (\<lambda>canonical_bytes.
       if canonical_bytes > MAX_LAYOUT_BYTES then Inl LE_CanonicalLayoutTooLarge
       else Inr \<lparr>fl_task = task, fl_generation = gen, fl_root_binding = rb, fl_files = files,
                 fl_total_length = total_length, fl_piece_length = piece_length,
                 fl_layout_hash = calculate_layout_hash sha files total_length piece_length,
                 fl_canonical_bytes = canonical_bytes\<rparr>))"

section \<open>From global spans to files\<close>

record global_span =
  gs_offset :: u64
  gs_len :: nat

record file_span =
  fs_file :: file_id
  fs_file_offset :: u64
  fs_len :: nat

record global_offset_mapper =
  gm_files :: "file_entry list"
  gm_total_length :: u64

datatype map_span_error =
  MS_UnknownTotalLength | MS_EmptySpan | MS_Overflow | MS_OutsideLayout | MS_CrossFileSpan | MS_UnselectedFile

definition mapper_new :: "file_layout \<Rightarrow> (map_span_error, global_offset_mapper) result" where
  "mapper_new l =
     and_then (ok_or MS_UnknownTotalLength (fl_total_length l)) (\<lambda>total_len.
       Inr \<lparr>gm_files = fl_files l, gm_total_length = total_len\<rparr>)"

definition mapper_map :: "global_offset_mapper \<Rightarrow> global_span \<Rightarrow> (map_span_error, file_span) result" where
  "mapper_map m span =
     (if gs_len span = 0 then Inl MS_EmptySpan
      else if gs_len span \<ge> 2 ^ 64 then Inl MS_Overflow
      else
        and_then (ok_or MS_Overflow (checked_add (gs_offset span) (word_of_nat (gs_len span)))) (\<lambda>end_offset.
        if end_offset > gm_total_length m then Inl MS_OutsideLayout
        else
          and_then (ok_or MS_OutsideLayout
            (find (\<lambda>f. gs_offset span \<ge> fe_global_start f \<and> gs_offset span < fe_global_end f) (gm_files m))) (\<lambda>file.
          if end_offset > fe_global_end file then Inl MS_CrossFileSpan
          else if \<not> fe_selected file then Inl MS_UnselectedFile
          else Inr \<lparr>fs_file = fe_id file, fs_file_offset = gs_offset span - fe_global_start file,
                    fs_len = gs_len span\<rparr>)))"

section \<open>An admitted layout tiles the byte range\<close>

fun files_tile :: "nat \<Rightarrow> u64 \<Rightarrow> file_entry list \<Rightarrow> u64 \<Rightarrow> bool" where
  "files_tile i start [] finish \<longleftrightarrow> finish = start"
| "files_tile i start (f # fs) finish \<longleftrightarrow>
     fe_id f = FileId (word_of_nat i) \<and> fe_global_start f = start
     \<and> unat (fe_global_end f) = unat (fe_global_start f) + unat (fe_length f)
     \<and> files_tile (i + 1) (fe_global_end f) fs finish"

lemma check_files_tile:
  "check_files lower rb i start paths n fs = Inr (finish, k) \<Longrightarrow> files_tile i start fs finish"
proof (induction fs arbitrary: i start paths n)
  case (Cons f fs)
  then show ?case
    by (auto simp: and_then_eq_Inr Let_def split: if_splits dest: checked_add_Some)
qed simp

lemma files_tile_mono: "files_tile i start fs finish \<Longrightarrow> start \<le> finish"
proof (induction fs arbitrary: i start)
  case (Cons f fs)
  then have "fe_global_end f \<le> finish" "unat start \<le> unat (fe_global_end f)" by auto
  then show ?case by (simp add: word_le_nat_alt)
qed simp

definition file_holds :: "file_entry \<Rightarrow> u64 \<Rightarrow> bool" where
  "file_holds f x \<longleftrightarrow> fe_global_start f \<le> x \<and> x < fe_global_end f"

lemma files_tile_nth:
  "files_tile i start fs finish \<Longrightarrow> j < length fs \<Longrightarrow>
   fe_id (fs ! j) = FileId (word_of_nat (i + j)) \<and> start \<le> fe_global_start (fs ! j)
   \<and> fe_global_start (fs ! j) \<le> fe_global_end (fs ! j) \<and> fe_global_end (fs ! j) \<le> finish
   \<and> (\<forall>k. j < k \<and> k < length fs \<longrightarrow> fe_global_end (fs ! j) \<le> fe_global_start (fs ! k))"
proof (induction fs arbitrary: i start j)
  case (Cons f fs)
  have f: "start \<le> fe_global_end f" "fe_global_start f = start" "fe_id f = FileId (word_of_nat i)"
    "files_tile (i + 1) (fe_global_end f) fs finish"
    using Cons.prems(1) by (auto simp: word_le_nat_alt)
  note mono = files_tile_mono [OF f(4)]
  have later: "k < length fs \<Longrightarrow> fe_global_end f \<le> fe_global_start (fs ! k)" for k
    using Cons.IH [OF f(4)] by blast
  show ?case
  proof (cases j)
    case 0
    with f mono later show ?thesis by (auto simp: nth_Cons split: nat.splits)
  next
    case (Suc j')
    with Cons.prems have j': "j' < length fs" by simp
    from Suc Cons.IH [OF f(4) j'] f(1) show ?thesis
      by (auto simp: nth_Cons algebra_simps split: nat.splits intro: order.trans)
  qed
qed simp

lemma files_tile_cover:
  "files_tile i start fs finish \<Longrightarrow> start \<le> x \<Longrightarrow> x < finish \<Longrightarrow> \<exists>j<length fs. file_holds (fs ! j) x"
proof (induction fs arbitrary: i start)
  case (Cons f fs)
  show ?case
  proof (cases "x < fe_global_end f")
    case True
    with Cons.prems show ?thesis by (intro exI [of _ 0]) (simp add: file_holds_def)
  next
    case False
    with Cons.prems have "files_tile (i + 1) (fe_global_end f) fs finish" "fe_global_end f \<le> x" by simp_all
    from Cons.IH [OF this Cons.prems(3)] obtain j where "j < length fs" "file_holds (fs ! j) x" by blast
    then show ?thesis by (intro exI [of _ "Suc j"]) simp
  qed
qed simp

lemma files_tile_unique:
  assumes "files_tile i start fs finish" "j < length fs" "k < length fs" "file_holds (fs ! j) x" "file_holds (fs ! k) x"
  shows "j = k"
proof (rule ccontr)
  assume "j \<noteq> k"
  then consider "j < k" | "k < j" by linarith
  then show False
    using files_tile_nth [OF assms(1,2)] files_tile_nth [OF assms(1,3)] assms
    by cases (auto simp: file_holds_def)
qed

lemma file_layout_new_tile:
  assumes "file_layout_new sha lower task gen rb files total_len piece = Inr l"
  shows "fl_files l = files \<and> fl_total_length l = total_len \<and> length files \<le> MAX_LAYOUT_ENTRIES
    \<and> (\<exists>finish. files_tile 0 0 files finish \<and> (\<forall>t. total_len = Some t \<longrightarrow> t = finish))"
  using assms check_files_tile
  by (auto simp: file_layout_new_def and_then_eq_Inr validate_layout_def split: if_splits option.splits)
    blast+

lemma mapper_map_spec:
  assumes t: "files_tile 0 0 files total_len"
  shows "mapper_map \<lparr>gm_files = files, gm_total_length = total_len\<rparr> span = Inr fs \<longleftrightarrow>
    (\<exists>i<length files. fe_selected (files ! i) \<and> 0 < gs_len span
       \<and> fe_global_start (files ! i) \<le> gs_offset span
       \<and> unat (gs_offset span) + gs_len span \<le> unat (fe_global_end (files ! i))
       \<and> fs = \<lparr>fs_file = FileId (word_of_nat i), fs_file_offset = gs_offset span - fe_global_start (files ! i),
               fs_len = gs_len span\<rparr>)" (is "?l \<longleftrightarrow> ?r")
proof
  assume ?l
  then obtain e f where e: "checked_add (gs_offset span) (word_of_nat (gs_len span)) = Some e"
    and f: "find (\<lambda>f. gs_offset span \<ge> fe_global_start f \<and> gs_offset span < fe_global_end f) files = Some f"
    and c: "gs_len span \<noteq> 0" "gs_len span < 2 ^ 64" "e \<le> fe_global_end f" "fe_selected f"
      "fs = \<lparr>fs_file = fe_id f, fs_file_offset = gs_offset span - fe_global_start f, fs_len = gs_len span\<rparr>"
    by (auto simp: mapper_map_def and_then_eq_Inr ok_or_eq_Inr split: if_splits)
  obtain i where i: "i < length files" "f = files ! i" "fe_global_start f \<le> gs_offset span"
    using f by (auto simp: find_Some_iff)
  have "unat e = unat (gs_offset span) + gs_len span"
    using checked_add_Some [OF e] c(2) by (simp add: unat_of_nat)
  with i c files_tile_nth [OF t i(1)] show ?r by (intro exI [of _ i]) (simp add: word_le_nat_alt)
next
  assume ?r
  then obtain i where i: "i < length files" "fe_selected (files ! i)" "0 < gs_len span"
    "fe_global_start (files ! i) \<le> gs_offset span"
    and fin: "unat (gs_offset span) + gs_len span \<le> unat (fe_global_end (files ! i))"
    and fs: "fs = \<lparr>fs_file = FileId (word_of_nat i), fs_file_offset = gs_offset span - fe_global_start (files ! i),
               fs_len = gs_len span\<rparr>" by blast
  let ?f = "files ! i" and ?e = "gs_offset span + word_of_nat (gs_len span)"
  have b: "unat (fe_global_end ?f) < 2 ^ 64" using unsigned_less [of "fe_global_end ?f"] by simp
  then have len: "gs_len span < 2 ^ 64" using fin by linarith
  have e: "checked_add (gs_offset span) (word_of_nat (gs_len span)) = Some ?e"
    using b fin len by (simp add: checked_add_def unat_of_nat)
  then have ue: "unat ?e = unat (gs_offset span) + gs_len span"
    using checked_add_Some len by (fastforce simp: unat_of_nat)
  have n: "fe_id ?f = FileId (word_of_nat i)" "fe_global_end ?f \<le> total_len" using files_tile_nth [OF t i(1)] by simp_all
  have h: "file_holds ?f (gs_offset span)" using i fin by (simp add: file_holds_def word_less_nat_alt)
  have find: "find (\<lambda>f. gs_offset span \<ge> fe_global_start f \<and> gs_offset span < fe_global_end f) files = Some ?f"
  proof -
    have "\<not> file_holds (files ! j) (gs_offset span)" if "j < i" for j
      using files_tile_unique [OF t _ i(1) _ h, of j] that i(1) by auto
    then show ?thesis using h i(1) unfolding find_Some_iff file_holds_def by (intro exI [of _ i]) simp
  qed
  have "?e \<le> fe_global_end ?f" using ue fin by (simp add: word_le_nat_alt)
  moreover from this n(2) have "?e \<le> total_len" by (rule order.trans)
  ultimately show ?l
    using i len e find fs n by (simp add: mapper_map_def and_then_def ok_or_def not_less)
qed

text \<open>
  C37. An admitted layout of known length tiles its byte range: every offset below the total lies in exactly one
  file. A span is mapped exactly when it is not empty and lies in one selected file, and then to that file, to the
  offset counted from the start of the file, with the length unchanged.
\<close>

theorem layout_maps_exactly:
  assumes "file_layout_new sha to_lowercase task gen rb files total_length piece = Inr l" "mapper_new l = Inr m"
  shows "(\<forall>x < gm_total_length m. \<exists>!i. i < length files \<and> file_holds (files ! i) x)
    \<and> (mapper_map m span = Inr fs \<longleftrightarrow>
       (\<exists>i<length files. fe_selected (files ! i) \<and> 0 < gs_len span
          \<and> fe_global_start (files ! i) \<le> gs_offset span
          \<and> unat (gs_offset span) + gs_len span \<le> unat (fe_global_end (files ! i))
          \<and> fs = \<lparr>fs_file = FileId (word_of_nat i), fs_file_offset = gs_offset span - fe_global_start (files ! i),
                  fs_len = gs_len span\<rparr>))"
proof -
  obtain t where m: "m = \<lparr>gm_files = files, gm_total_length = t\<rparr>" and t: "files_tile 0 0 files t"
    using assms file_layout_new_tile [OF assms(1)] by (auto simp: mapper_new_def and_then_eq_Inr)
  have "\<exists>!i. i < length files \<and> file_holds (files ! i) x" if "x < t" for x
    using files_tile_cover [OF t _ that] files_tile_unique [OF t] by auto
  then show ?thesis using mapper_map_spec [OF t] by (simp add: m)
qed

section \<open>The hashed text determines the layout\<close>

text \<open>What the hash covers of one file: its number, place, length and selection, and its path.\<close>

definition file_shape :: "file_entry \<Rightarrow> file_id \<times> u64 \<times> u64 \<times> u64 \<times> bool \<times> string list" where
  "file_shape f =
     (fe_id f, fe_global_start f, fe_global_end f, fe_length f, fe_selected f, srp_components (fe_safe_path f))"

lemma layout_file_text_inject:
  assumes "safe_path_ok nfc platform (fe_safe_path f)" "safe_path_ok nfc' platform' (fe_safe_path g)"
    and eq: "layout_file_text f @ r = layout_file_text g @ r'"
  shows "file_shape f = file_shape g \<and> r = r'"
proof -
  have len: "length (as_bytes (canonical_string (fe_safe_path f))) < 2 ^ 32"
    "length (as_bytes (canonical_string (fe_safe_path g))) < 2 ^ 32"
    using assms(1,2) by (simp_all add: safe_path_ok_def MAX_SAFE_RELATIVE_BYTES_def as_bytes_def)
  have "file_id_get (fe_id f) = file_id_get (fe_id g)" "fe_global_start f = fe_global_start g"
    "fe_global_end f = fe_global_end g" "fe_length f = fe_length g" "fe_selected f = fe_selected g"
    and up: "update_bytes (as_bytes (canonical_string (fe_safe_path f))) @ r =
      update_bytes (as_bytes (canonical_string (fe_safe_path g))) @ r'"
    using eq by (auto simp: layout_file_text_def append_eq_append_conv le_inject split: if_splits)
  moreover note same = update_bytes_inject [OF len up]
  moreover have "srp_components (fe_safe_path f) = srp_components (fe_safe_path g)"
    using same canonical_split [OF assms(1), of is_separator] canonical_split [OF assms(2), of is_separator]
    by (simp add: as_bytes_inject)
  ultimately show ?thesis by (simp add: file_shape_def file_id.expand)
qed

lemma layout_files_text_inject:
  assumes "length files = length files'"
    and "concat (map layout_file_text files) = concat (map layout_file_text files')"
    and "\<forall>f\<in>set files. safe_path_ok nfc platform (fe_safe_path f)"
    and "\<forall>f\<in>set files'. safe_path_ok nfc' platform' (fe_safe_path f)"
  shows "map file_shape files = map file_shape files'"
  using assms
proof (induction files files' rule: list_induct2)
  case (Cons f fs g gs)
  from layout_file_text_inject [of nfc platform f nfc' platform' g] Cons show ?case by auto
qed simp

lemma layout_file_text_shape: "file_shape f = file_shape g \<Longrightarrow> layout_file_text f = layout_file_text g"
  by (simp add: file_shape_def layout_file_text_def canonical_string_def)

text \<open>
  C38. The text under the layout hash determines the layout: two admitted layouts have the same text exactly when
  they have the same total length, the same piece length and the same files, each with its number, place, length,
  selection and path. The root directory and the identities of the files do not enter.
\<close>

theorem layout_text_determines_layout:
  assumes "file_layout_new sha to_lowercase task gen rb files total_length piece = Inr l"
    and "file_layout_new sha to_lowercase task' gen' rb' files' total_length' piece' = Inr l'"
    and "\<forall>f\<in>set files. safe_path_ok nfc platform (fe_safe_path f)"
    and "\<forall>f\<in>set files'. safe_path_ok nfc platform' (fe_safe_path f)"
  shows "layout_text files total_length piece = layout_text files' total_length' piece' \<longleftrightarrow>
    total_length = total_length' \<and> piece = piece' \<and> map file_shape files = map file_shape files'"
proof
  assume eq: "layout_text files total_length piece = layout_text files' total_length' piece'"
  have len: "length files < 2 ^ 32" "length files' < 2 ^ 32"
    using file_layout_new_tile [OF assms(1)] file_layout_new_tile [OF assms(2)] by (simp_all add: MAX_LAYOUT_ENTRIES_def)
  have "total_length = total_length'" "piece = piece'"
    "u32_le (word_of_nat (length files)) = u32_le (word_of_nat (length files'))"
    "concat (map layout_file_text files) = concat (map layout_file_text files')"
    using eq by (auto simp: layout_text_def append_eq_append_conv le_inject split: option.splits)
  moreover from this(3) have "length files = length files'"
    using len by (simp add: le_inject word_unat_eq_iff unat_of_nat)
  ultimately show "total_length = total_length' \<and> piece = piece' \<and> map file_shape files = map file_shape files'"
    using layout_files_text_inject assms(3,4) by blast
next
  assume same: "total_length = total_length' \<and> piece = piece' \<and> map file_shape files = map file_shape files'"
  then have "length files = length files'" by (metis length_map)
  then have "map layout_file_text files = map layout_file_text files'"
    using same by (induction files files' rule: list_induct2) (auto intro: layout_file_text_shape)
  with same show "layout_text files total_length piece = layout_text files' total_length' piece'"
    by (metis layout_text_def length_map)
qed

section \<open>A layout of two files\<close>

definition sample_path :: "string \<Rightarrow> safe_relative_path" where
  "sample_path name = \<lparr>srp_components = [name], srp_encoded_len = length name\<rparr>"

definition sample_files :: "string \<Rightarrow> file_entry list" where
  "sample_files name =
     [\<lparr>fe_id = FileId 0, fe_safe_path = sample_path name, fe_identity = Some (FileIdentity [7]),
       fe_length = 10, fe_global_start = 0, fe_global_end = 10, fe_selected = True\<rparr>,
      \<lparr>fe_id = FileId 1, fe_safe_path = sample_path ''b'', fe_identity = None,
       fe_length = 5, fe_global_start = 10, fe_global_end = 15, fe_selected = False\<rparr>]"

definition sample_root :: root_binding where
  "sample_root =
     \<lparr>rb_path = \<lparr>pp_platform = PP_Unix, pp_bytes = [47]\<rparr>, rb_root_identity = RootIdentity [1],
      rb_file_identities = [(FileId 0, FileIdentity [7])], rb_hash = []\<rparr>"

definition sample_layout :: "string \<Rightarrow> file_layout" where
  "sample_layout name =
     \<lparr>fl_task = TaskId 1, fl_generation = Generation 0, fl_root_binding = sample_root, fl_files = sample_files name,
      fl_total_length = Some 15, fl_piece_length = 4,
      fl_layout_hash = calculate_layout_hash (\<lambda>_. []) (sample_files name) (Some 15) 4, fl_canonical_bytes = 76 + length name\<rparr>"

lemma sample_path_ok:
  "safe_path_ok (\<lambda>s. s) PP_Unix (sample_path ''a'')" "safe_path_ok (\<lambda>s. s) PP_Unix (sample_path ''b'')"
  "safe_path_ok (\<lambda>s. s) PP_Unix (sample_path ''c'')"
  by (simp_all add: sample_path_def safe_path_ok_def component_ok_def validate_component_def
      is_separator_def chars_of_def as_bytes_def byte_of_char_def is_control_def canonical_string_def
      is_bidirectional_control_def is_reserved_windows_name_def numbered_reserved_name_def ascii_upper_def Let_def
      MAX_SAFE_RELATIVE_BYTES_def text_of_def char_of_byte_def)

lemma sample_layout_new:
  assumes "name \<in> {''a'', ''c''}"
  shows "file_layout_new (\<lambda>_. []) (\<lambda>s. s) (TaskId 1) (Generation 0) sample_root (sample_files name) (Some 15) 4 =
    Inr (sample_layout name)"
  using assms
  by (auto simp: file_layout_new_def validate_layout_def sample_files_def sample_root_def MAX_LAYOUT_ENTRIES_def
      check_identity_def checked_add_def and_then_def ok_or_def collision_key_def canonical_string_def
      sample_path_def usize_max_def MAX_LAYOUT_BYTES_def sample_layout_def Let_def)

theorem layout_maps_exactly_witness:
  "mapper_map \<lparr>gm_files = sample_files ''a'', gm_total_length = 15\<rparr> \<lparr>gs_offset = 3, gs_len = 4\<rparr> =
     Inr \<lparr>fs_file = FileId 0, fs_file_offset = 3, fs_len = 4\<rparr>
   \<and> (\<exists>!i. i < length (sample_files ''a'') \<and> file_holds (sample_files ''a'' ! i) 12)"
proof -
  have new: "file_layout_new (\<lambda>_. []) (\<lambda>s. s) (TaskId 1) (Generation 0) sample_root (sample_files ''a'') (Some 15) 4 =
    Inr (sample_layout ''a'')" by (rule sample_layout_new) simp
  have "mapper_new (sample_layout ''a'') = Inr \<lparr>gm_files = sample_files ''a'', gm_total_length = 15\<rparr>"
    by (simp add: mapper_new_def sample_layout_def and_then_def ok_or_def)
  from layout_maps_exactly [OF new this, of "\<lparr>gs_offset = 3, gs_len = 4\<rparr>"
      "\<lparr>fs_file = FileId 0, fs_file_offset = 3, fs_len = 4\<rparr>"]
  show ?thesis by (auto simp: sample_files_def)
qed

theorem layout_text_determines_layout_witness:
  "layout_text (sample_files ''a'') (Some 15) 4 \<noteq> layout_text (sample_files ''c'') (Some 15) 4"
proof -
  have ok: "\<forall>f\<in>set (sample_files name). safe_path_ok (\<lambda>s. s) PP_Unix (fe_safe_path f)" if "name \<in> {''a'', ''c''}" for name
    using that sample_path_ok by (auto simp: sample_files_def)
  have "layout_text (sample_files ''a'') (Some 15) 4 = layout_text (sample_files ''c'') (Some 15) 4 \<longleftrightarrow>
    Some (15 :: u64) = Some 15 \<and> (4 :: u64) = 4 \<and> map file_shape (sample_files ''a'') = map file_shape (sample_files ''c'')"
    using layout_text_determines_layout [OF sample_layout_new [of "''a''"] sample_layout_new [of "''c''"]
        ok [of "''a''"] ok [of "''c''"]]
    by simp
  then show ?thesis by (simp add: sample_files_def file_shape_def sample_path_def)
qed

end
