(* ===== verification/PayloadTypes.thy ===== *)
theory PayloadTypes
  imports Journal JournalTags Layout Snapshot
begin

text \<open>
  The data that journal payloads carry: the first part of
  \<^verbatim>\<open>src/crates/ariax-storage/src/journal_payload.rs\<close> with the source-local validator of \<^verbatim>\<open>verification.rs\<close> and
  the parent record of \<^verbatim>\<open>metadata_expansion.rs\<close>. A type whose fields are private in the source has a
  predicate \<open>_wf\<close> that says what its constructor guarantees. NFC and SHA-256 are arguments; where the source
  expects a digest to be different from zero, the model takes \<open>the\<close> of the checked constructor.
\<close>

section \<open>Errors\<close>

datatype (plugins only: code) payload_codec_error =
  PC_PayloadTooLarge | PC_Truncated | PC_TrailingBytes | PC_InvalidPresence u8 | PC_InvalidBoolean u8 | PC_ZeroId
| PC_ZeroCheckpointId | PC_ZeroHash | PC_ZeroSpanLength | PC_SpanOverflow | PC_InvalidDigestAlgorithm
| PC_InvalidDigestLength | PC_InvalidUtf8 | PC_InvalidTag unknown_journal_tag | PC_InvalidErrorKind u8
| PC_InvalidOptionKey | PC_OptionKeyTooLong | PC_OptionValueTooLong | PC_TooManyOptions | PC_DuplicateOptionKey
| PC_NonCanonicalOptionOrder | PC_OptionMapTooLarge | PC_FieldTooLong | PC_InvalidPlatformTag u8
| PC_InvalidPlatformPath | PC_InvalidRootIdentity | PC_RelativePathTooLong | PC_InvalidRelativePath
| PC_InvalidFileId | PC_TooManyLayoutEntries | PC_InvalidLayoutEntry | PC_InvalidFileIdentity
| PC_NonCanonicalLayoutOrder | PC_ZeroPieceLength | PC_InvalidFileCount | PC_InvalidChunk | PC_InvalidFinalization
| PC_InvalidBitmap | PC_TooManyEvidenceRuns | PC_InvalidEvidenceRun | PC_ZeroCreatorVersion | PC_ZeroAttempt
| PC_ZeroSourceSequence | PC_ZeroStateRecordCount | PC_InvalidHttpStrongValidator | PC_InvalidHttpRangeIdentity
| PC_InvalidVerificationManifest | PC_InvalidProtocolValidator | PC_InvalidHostKeyState | PC_AllocationFailed

section \<open>Identifiers, hashes and spans\<close>

datatype persisted_id = PersistedId (persisted_id_get: u64)

definition persisted_id_new :: "u64 \<Rightarrow> persisted_id option" where
  "persisted_id_new v = (if v = 0 then None else Some (PersistedId v))"

datatype checkpoint_id = CheckpointId (checkpoint_id_bytes: "u8 list")

definition checkpoint_id_new :: "u8 list \<Rightarrow> checkpoint_id option" where
  "checkpoint_id_new bytes = (if all_zero bytes then None else Some (CheckpointId bytes))"

datatype journal_hash = JournalHash (journal_hash_bytes: "u8 list")

definition journal_hash_new :: "u8 list \<Rightarrow> journal_hash option" where
  "journal_hash_new bytes = (if all_zero bytes then None else Some (JournalHash bytes))"

definition checkpoint_id_wf :: "checkpoint_id \<Rightarrow> bool" where
  "checkpoint_id_wf c \<longleftrightarrow> length (checkpoint_id_bytes c) = 16 \<and> \<not> all_zero (checkpoint_id_bytes c)"

definition journal_hash_wf :: "journal_hash \<Rightarrow> bool" where
  "journal_hash_wf h \<longleftrightarrow> length (journal_hash_bytes h) = 32 \<and> \<not> all_zero (journal_hash_bytes h)"

record persisted_span =
  ps_offset :: u64
  ps_len :: u64

definition persisted_span_new :: "u64 \<Rightarrow> u64 \<Rightarrow> (payload_codec_error, persisted_span) result" where
  "persisted_span_new offset n =
     (if n = 0 then Inl PC_ZeroSpanLength
      else and_then (ok_or PC_SpanOverflow (checked_add offset n)) (\<lambda>_. Inr \<lparr>ps_offset = offset, ps_len = n\<rparr>))"

definition persisted_span_wf :: "persisted_span \<Rightarrow> bool" where
  "persisted_span_wf s \<longleftrightarrow> ps_len s \<noteq> 0 \<and> unat (ps_offset s) + unat (ps_len s) < 2 ^ 64"

section \<open>Digests\<close>

datatype journal_digest_algorithm = DA_Md5 | DA_Sha1 | DA_Sha256 | DA_Sha512

fun digest_algorithm_code :: "journal_digest_algorithm \<Rightarrow> string" where
  "digest_algorithm_code DA_Md5 = ''md5''"
| "digest_algorithm_code DA_Sha1 = ''sha-1''"
| "digest_algorithm_code DA_Sha256 = ''sha-256''"
| "digest_algorithm_code DA_Sha512 = ''sha-512''"

fun digest_value_length :: "journal_digest_algorithm \<Rightarrow> nat" where
  "digest_value_length DA_Md5 = 16"
| "digest_value_length DA_Sha1 = 20"
| "digest_value_length DA_Sha256 = 32"
| "digest_value_length DA_Sha512 = 64"

definition digest_algorithm_try_from :: "string \<Rightarrow> (payload_codec_error, journal_digest_algorithm) result" where
  "digest_algorithm_try_from s =
     (if s = ''md5'' then Inr DA_Md5
      else if s = ''sha-1'' then Inr DA_Sha1
      else if s = ''sha-256'' then Inr DA_Sha256
      else if s = ''sha-512'' then Inr DA_Sha512
      else Inl PC_InvalidDigestAlgorithm)"

record journal_digest =
  jd_algorithm :: journal_digest_algorithm
  jd_value :: "u8 list"

definition journal_digest_new ::
  "journal_digest_algorithm \<Rightarrow> u8 list \<Rightarrow> (payload_codec_error, journal_digest) result" where
  "journal_digest_new algorithm bytes =
     (if length bytes \<noteq> digest_value_length algorithm then Inl PC_InvalidDigestLength
      else Inr \<lparr>jd_algorithm = algorithm, jd_value = bytes\<rparr>)"

definition journal_digest_wf :: "journal_digest \<Rightarrow> bool" where
  "journal_digest_wf d \<longleftrightarrow> length (jd_value d) = digest_value_length (jd_algorithm d)"

section \<open>Option maps\<close>

definition MAX_OPTION_MAP_ENTRIES :: nat where "MAX_OPTION_MAP_ENTRIES = 4096"
definition MAX_OPTION_KEY_BYTES :: nat where "MAX_OPTION_KEY_BYTES = 256"
definition MAX_OPTION_VALUE_BYTES :: nat where "MAX_OPTION_VALUE_BYTES = 64 * 1024"
definition MAX_OPTION_MAP_BYTES :: nat where "MAX_OPTION_MAP_BYTES = 4 * 1024 * 1024"

definition is_ascii_lowercase :: "char \<Rightarrow> bool" where
  "is_ascii_lowercase c \<longleftrightarrow> (let n = of_char c :: nat in 97 \<le> n \<and> n \<le> 122)"

definition is_ascii_digit :: "char \<Rightarrow> bool" where
  "is_ascii_digit c \<longleftrightarrow> (let n = of_char c :: nat in 48 \<le> n \<and> n \<le> 57)"

definition validate_option_key :: "string \<Rightarrow> (payload_codec_error, unit) result" where
  "validate_option_key key =
     (if key = [] \<or> \<not> list_all (\<lambda>c. is_ascii_lowercase c \<or> is_ascii_digit c \<or> c = CHR ''-'') key
         \<or> \<not> (is_ascii_alphabetic (hd key) \<or> is_ascii_digit (hd key))
         \<or> \<not> (is_ascii_alphabetic (last key) \<or> is_ascii_digit (last key))
        then Inl PC_InvalidOptionKey
      else if length key > MAX_OPTION_KEY_BYTES then Inl PC_OptionKeyTooLong
      else Inr ())"

record sanitized_option_map =
  som_entries :: "(string, string) btree"
  som_canonical_bytes :: nat

fun option_map_insert ::
  "(string, string) btree \<Rightarrow> nat \<Rightarrow> (string \<times> string) list \<Rightarrow> (payload_codec_error, sanitized_option_map) result" where
  "option_map_insert output canonical_bytes [] =
     Inr \<lparr>som_entries = output, som_canonical_bytes = canonical_bytes\<rparr>"
| "option_map_insert output canonical_bytes ((key, v) # rest) =
     and_then (validate_option_key key) (\<lambda>_.
       if length v > MAX_OPTION_VALUE_BYTES then Inl PC_OptionValueTooLong
       else
         let n = canonical_bytes + 8 + length key + length v in
         if n > usize_max \<or> n > MAX_OPTION_MAP_BYTES then Inl PC_OptionMapTooLarge
         else if bt_get output key \<noteq> None then Inl PC_DuplicateOptionKey
         else
           let output' = bt_insert key v output in
           if length output' > MAX_OPTION_MAP_ENTRIES then Inl PC_TooManyOptions
           else option_map_insert output' n rest)"

definition sanitized_option_map_new ::
  "(string \<times> string) list \<Rightarrow> (payload_codec_error, sanitized_option_map) result" where
  "sanitized_option_map_new entries = option_map_insert [] 4 entries"

definition OPTIONS_SNAPSHOT_HASH_DOMAIN :: "u8 list" where
  "OPTIONS_SNAPSHOT_HASH_DOMAIN = as_bytes ''ariax/options-snapshot/v1'' @ [0]"

definition option_map_text :: "sanitized_option_map \<Rightarrow> u8 list" where
  "option_map_text m =
     OPTIONS_SNAPSHOT_HASH_DOMAIN @ u32_le (word_of_nat (length (som_entries m)))
     @ concat (map (\<lambda>(key, v). update_bytes (as_bytes key) @ update_bytes (as_bytes v)) (som_entries m))"

definition options_snapshot_hash :: "sha256 \<Rightarrow> sanitized_option_map \<Rightarrow> journal_hash" where
  "options_snapshot_hash sha m = the (journal_hash_new (sha (option_map_text m)))"

definition option_entry_size :: "string \<times> string \<Rightarrow> nat" where
  "option_entry_size e = 8 + length (fst e) + length (snd e)"

definition sanitized_option_map_wf :: "sanitized_option_map \<Rightarrow> bool" where
  "sanitized_option_map_wf m \<longleftrightarrow>
     bt_wf (som_entries m)
     \<and> (\<forall>(key, v)\<in>set (som_entries m). validate_option_key key = Inr () \<and> length v \<le> MAX_OPTION_VALUE_BYTES
          \<and> is_text key \<and> is_text v)
     \<and> length (som_entries m) \<le> MAX_OPTION_MAP_ENTRIES
     \<and> som_canonical_bytes m = 4 + sum_list (map option_entry_size (som_entries m))
     \<and> som_canonical_bytes m \<le> MAX_OPTION_MAP_BYTES"

section \<open>Paths and file entries\<close>

datatype journal_relative_path = JournalRelativePath (journal_relative_path_str: string)

definition journal_relative_path_new ::
  "(string \<Rightarrow> string) \<Rightarrow> string \<Rightarrow> (payload_codec_error, journal_relative_path) result" where
  "journal_relative_path_new nfc v =
     (if length v > MAX_SAFE_RELATIVE_BYTES then Inl PC_RelativePathTooLong
      else
        and_then (map_err (\<lambda>_. PC_InvalidRelativePath) (from_user_path nfc v PP_Unix)) (\<lambda>safe.
          if canonical_string safe \<noteq> v then Inl PC_InvalidRelativePath
          else Inr (JournalRelativePath v)))"

definition journal_relative_path_wf :: "(string \<Rightarrow> string) \<Rightarrow> journal_relative_path \<Rightarrow> bool" where
  "journal_relative_path_wf nfc p \<longleftrightarrow>
     is_text (journal_relative_path_str p)
     \<and> journal_relative_path_new nfc (journal_relative_path_str p) = Inr p"

record journal_file_layout_entry =
  jf_file_id :: file_id
  jf_global_start :: u64
  jf_global_end :: u64
  jf_length :: u64
  jf_selected :: bool
  jf_safe_relative_path :: journal_relative_path
  jf_file_identity :: "u8 list"

definition journal_file_layout_entry_new ::
  "file_id \<Rightarrow> u64 \<Rightarrow> u64 \<Rightarrow> u64 \<Rightarrow> bool \<Rightarrow> journal_relative_path \<Rightarrow> u8 list \<Rightarrow>
   (payload_codec_error, journal_file_layout_entry) result" where
  "journal_file_layout_entry_new file_id global_start global_end n selected path identity =
     (if checked_add global_start n \<noteq> Some global_end then Inl PC_InvalidLayoutEntry
      else if length identity > MAX_IDENTITY_BYTES \<or> selected \<noteq> (identity \<noteq> []) then Inl PC_InvalidFileIdentity
      else Inr \<lparr>jf_file_id = file_id, jf_global_start = global_start, jf_global_end = global_end, jf_length = n,
                jf_selected = selected, jf_safe_relative_path = path, jf_file_identity = identity\<rparr>)"

definition journal_file_layout_entry_wf :: "(string \<Rightarrow> string) \<Rightarrow> journal_file_layout_entry \<Rightarrow> bool" where
  "journal_file_layout_entry_wf nfc e \<longleftrightarrow>
     checked_add (jf_global_start e) (jf_length e) = Some (jf_global_end e)
     \<and> length (jf_file_identity e) \<le> MAX_IDENTITY_BYTES \<and> jf_selected e = (jf_file_identity e \<noteq> [])
     \<and> journal_relative_path_wf nfc (jf_safe_relative_path e)"

section \<open>Evidence of durable pieces\<close>

record durable_evidence_run =
  er_first_piece_delta :: u32
  er_piece_count :: u32
  er_validator_set_fingerprint :: journal_hash
  er_digest_algorithm :: "journal_digest_algorithm option"
  er_digest_value_len :: u16
  er_digest_values :: "u8 list"

definition durable_evidence_run_new ::
  "u32 \<Rightarrow> u32 \<Rightarrow> journal_hash \<Rightarrow> journal_digest_algorithm option \<Rightarrow> u8 list \<Rightarrow>
   (payload_codec_error, durable_evidence_run) result" where
  "durable_evidence_run_new first_piece_delta piece_count fingerprint algorithm values =
     (if piece_count = 0 then Inl PC_InvalidEvidenceRun
      else
        and_then
          (case algorithm of
             Some a \<Rightarrow>
               (let expected = unat piece_count * digest_value_length a in
                if expected > usize_max then Inl PC_InvalidEvidenceRun
                else if length values \<noteq> expected then Inl PC_InvalidEvidenceRun
                else Inr (word_of_nat (digest_value_length a)))
           | None \<Rightarrow> if values = [] then Inr 0 else Inl PC_InvalidEvidenceRun)
          (\<lambda>digest_value_len.
             Inr \<lparr>er_first_piece_delta = first_piece_delta, er_piece_count = piece_count,
                  er_validator_set_fingerprint = fingerprint, er_digest_algorithm = algorithm,
                  er_digest_value_len = digest_value_len, er_digest_values = values\<rparr>))"

definition durable_evidence_run_wf :: "durable_evidence_run \<Rightarrow> bool" where
  "durable_evidence_run_wf r \<longleftrightarrow>
     er_piece_count r \<noteq> 0 \<and> journal_hash_wf (er_validator_set_fingerprint r)
     \<and> (case er_digest_algorithm r of
          Some a \<Rightarrow> length (er_digest_values r) = unat (er_piece_count r) * digest_value_length a
            \<and> er_digest_value_len r = word_of_nat (digest_value_length a)
        | None \<Rightarrow> er_digest_values r = [] \<and> er_digest_value_len r = 0)"

section \<open>Host keys, validators and followed metadata\<close>

datatype host_key_decision = HKD_Pending | HKD_Approved | HKD_Rejected

record journal_host_key_state =
  hks_challenge :: presented_host_key_challenge
  hks_decision :: host_key_decision
  hks_created_ms :: u64

record protocol_validator =
  pv_protocol :: u8
  pv_source :: journal_hash
  pv_total_length :: u64
  pv_modified_unix_seconds :: "u64 option"
  pv_host_key :: "journal_hash option"

definition protocol_validator_validate :: "protocol_validator \<Rightarrow> bool" where
  "protocol_validator_validate v \<longleftrightarrow>
     1 \<le> pv_protocol v \<and> pv_protocol v \<le> 3 \<and> ((pv_protocol v = 3) = (pv_host_key v \<noteq> None))"

definition SESSION_MAX_IMPORT_TASKS :: nat where "SESSION_MAX_IMPORT_TASKS = 1000"

record metadata_parent =
  mp_gid :: gid
  mp_generation :: generation
  mp_snapshot_hash :: journal_hash
  mp_document_hash :: journal_hash
  mp_document_bytes :: u64
  mp_retained :: bool

record metadata_expansion =
  me_parent :: metadata_parent
  me_children :: "gid list"

definition metadata_expansion_validate :: "metadata_expansion \<Rightarrow> bool" where
  "metadata_expansion_validate e \<longleftrightarrow>
     me_children e \<noteq> [] \<and> length (me_children e) \<le> SESSION_MAX_IMPORT_TASKS
     \<and> mp_document_bytes (me_parent e) \<le> 256 * 1024 * 1024
     \<and> mp_gid (me_parent e) \<notin> set (me_children e) \<and> distinct (me_children e)"

end
