(* ===== verification/JournalPayload.thy ===== *)
theory JournalPayload
  imports PayloadTypes
begin

text \<open>
  The typed payloads of journal records and their validation, the middle part of
  \<^verbatim>\<open>src/crates/ariax-storage/src/journal_payload.rs\<close>: the enumeration \<^verbatim>\<open>JournalPayload\<close>, whose fields are
  arguments in the order of the source, \<^verbatim>\<open>validate_payload\<close> and the checks it calls.
\<close>

unbundle bit_operations_syntax

datatype (plugins only: code) journal_payload =
  JP_TaskCreated durability_mode u16
| JP_OptionsSnapshot options_snapshot_scope "option_patch_id option" journal_hash sanitized_option_map
| JP_LayoutCommitted journal_hash journal_hash platform_path "u8 list" "u64 option" u64 u32 u32
    "journal_file_layout_entry list"
| JP_GenerationStarted generation generation_start_reason journal_hash "option_patch_id option"
| JP_LeaseStarted transfer_attempt_id lease_id persisted_span journal_hash
| JP_PieceStarted lease_id piece_id persisted_span
| JP_PieceWritten lease_id piece_id persisted_span
| JP_LeaseCommitted lease_id persisted_span journal_hash "journal_digest option"
| JP_LeaseAborted lease_id lease_abort_reason
| JP_PieceVerified piece_id persisted_span journal_hash journal_digest
| JP_PieceFailed "lease_id option" piece_id persisted_span error_kind u32
| JP_PieceDurable piece_id persisted_span journal_hash journal_hash "journal_digest option" data_barrier_kind
| JP_RetryState retry_scope persisted_id u32 u64 u64 u64 error_kind retry_reason
| JP_TaskPaused task_pause_reason
| JP_TaskComplete journal_hash u64 "journal_digest option" u64
| JP_TaskError error_kind bool u64
| JP_TaskRemoved task_remove_reason
| JP_CleanShutdown u64 u64
| JP_CheckpointStart checkpoint_id u64 journal_hash u32 u64
| JP_CheckpointEnd checkpoint_id u32 journal_hash
| JP_LayoutChunk journal_hash journal_hash u32 u32 "journal_file_layout_entry list"
| JP_FinalizeIntent journal_hash journal_hash file_id journal_relative_path journal_relative_path u64 "u8 list"
| JP_FinalizeDone journal_hash journal_hash file_id journal_relative_path
| JP_PieceStateChunk journal_hash journal_hash u32 u32 piece_id u32 "u8 list" "durable_evidence_run list"
| JP_HttpStrongValidator journal_hash journal_hash u64 "u8 list"
| JP_HttpRangeIdentity journal_hash u64 journal_digest
| JP_VerificationManifest journal_hash u32 u32 "u8 list"
| JP_VerificationManifestChunk journal_hash u32 u32 "u8 list"
| JP_ProtocolValidator protocol_validator
| JP_WholeFileVerified journal_hash "journal_digest list"
| JP_HostKeyState journal_host_key_state
| JP_MetadataComplete metadata_expansion u64

fun payload_record_type :: "journal_payload \<Rightarrow> record_type" where
  "payload_record_type (JP_TaskCreated _ _) = RT_TaskCreated"
| "payload_record_type (JP_OptionsSnapshot _ _ _ _) = RT_OptionsSnapshot"
| "payload_record_type (JP_LayoutCommitted _ _ _ _ _ _ _ _ _) = RT_LayoutCommitted"
| "payload_record_type (JP_GenerationStarted _ _ _ _) = RT_GenerationStarted"
| "payload_record_type (JP_LeaseStarted _ _ _ _) = RT_LeaseStarted"
| "payload_record_type (JP_PieceStarted _ _ _) = RT_PieceStarted"
| "payload_record_type (JP_PieceWritten _ _ _) = RT_PieceWritten"
| "payload_record_type (JP_LeaseCommitted _ _ _ _) = RT_LeaseCommitted"
| "payload_record_type (JP_LeaseAborted _ _) = RT_LeaseAborted"
| "payload_record_type (JP_PieceVerified _ _ _ _) = RT_PieceVerified"
| "payload_record_type (JP_PieceFailed _ _ _ _ _) = RT_PieceFailed"
| "payload_record_type (JP_PieceDurable _ _ _ _ _ _) = RT_PieceDurable"
| "payload_record_type (JP_RetryState _ _ _ _ _ _ _ _) = RT_RetryState"
| "payload_record_type (JP_TaskPaused _) = RT_TaskPaused"
| "payload_record_type (JP_TaskComplete _ _ _ _) = RT_TaskComplete"
| "payload_record_type (JP_TaskError _ _ _) = RT_TaskError"
| "payload_record_type (JP_TaskRemoved _) = RT_TaskRemoved"
| "payload_record_type (JP_CleanShutdown _ _) = RT_CleanShutdown"
| "payload_record_type (JP_CheckpointStart _ _ _ _ _) = RT_CheckpointStart"
| "payload_record_type (JP_CheckpointEnd _ _ _) = RT_CheckpointEnd"
| "payload_record_type (JP_LayoutChunk _ _ _ _ _) = RT_LayoutChunk"
| "payload_record_type (JP_FinalizeIntent _ _ _ _ _ _ _) = RT_FinalizeIntent"
| "payload_record_type (JP_FinalizeDone _ _ _ _) = RT_FinalizeDone"
| "payload_record_type (JP_PieceStateChunk _ _ _ _ _ _ _ _) = RT_PieceStateChunk"
| "payload_record_type (JP_HttpStrongValidator _ _ _ _) = RT_HttpStrongValidator"
| "payload_record_type (JP_HttpRangeIdentity _ _ _) = RT_HttpRangeIdentity"
| "payload_record_type (JP_VerificationManifest _ _ _ _) = RT_VerificationManifest"
| "payload_record_type (JP_VerificationManifestChunk _ _ _ _) = RT_VerificationManifestChunk"
| "payload_record_type (JP_ProtocolValidator _) = RT_ProtocolValidator"
| "payload_record_type (JP_WholeFileVerified _ _) = RT_WholeFileVerified"
| "payload_record_type (JP_HostKeyState _) = RT_HostKeyState"
| "payload_record_type (JP_MetadataComplete _ _) = RT_MetadataComplete"

section \<open>Checks\<close>

definition MAX_HTTP_STRONG_ETAG_BYTES :: nat where "MAX_HTTP_STRONG_ETAG_BYTES = 8 * 1024"
definition MAX_PIECE_STATE_COVERED_PIECES :: nat where "MAX_PIECE_STATE_COVERED_PIECES = 131072"
definition MAX_VERIFICATION_MANIFEST_BYTES :: nat where "MAX_VERIFICATION_MANIFEST_BYTES = 64 * 1024 * 1024"
definition VERIFICATION_MANIFEST_PART_BYTES :: nat where "VERIFICATION_MANIFEST_PART_BYTES = 64 * 1024"

definition div_ceil :: "nat \<Rightarrow> nat \<Rightarrow> nat" where
  "div_ceil a b = (a + b - 1) div b"

definition validate_http_strong_etag :: "u8 list \<Rightarrow> (payload_codec_error, unit) result" where
  "validate_http_strong_etag etag =
     (if length etag < 2 \<or> length etag > MAX_HTTP_STRONG_ETAG_BYTES \<or> hd etag \<noteq> 0x22 \<or> last etag \<noteq> 0x22
         \<or> \<not> list_all (\<lambda>b. b = 0x21 \<or> (0x23 \<le> b \<and> b \<le> 0x7E) \<or> 0x80 \<le> b) (butlast (tl etag))
        then Inl PC_InvalidHttpStrongValidator
      else Inr ())"

definition http_strong_validator_fingerprint ::
  "sha256 \<Rightarrow> u8 list \<Rightarrow> u64 \<Rightarrow> (payload_codec_error, journal_hash) result" where
  "http_strong_validator_fingerprint sha etag total_length =
     and_then (validate_http_strong_etag etag) (\<lambda>_.
       if length etag \<ge> 2 ^ 32 then Inl PC_InvalidHttpStrongValidator
       else Inr (the (journal_hash_new (sha
         (as_bytes ''ariax/http-strong-validator/v1'' @ [0] @ u64_le total_length
          @ u32_le (word_of_nat (length etag)) @ etag)))))"

definition http_range_identity_fingerprint ::
  "sha256 \<Rightarrow> journal_digest \<Rightarrow> u64 \<Rightarrow> (payload_codec_error, journal_hash) result" where
  "http_range_identity_fingerprint sha digest total_length =
     (if jd_algorithm digest \<noteq> DA_Sha256 \<or> length (jd_value digest) \<noteq> digest_value_length DA_Sha256
        then Inl PC_InvalidHttpRangeIdentity
      else Inr (the (journal_hash_new (sha
         (as_bytes ''ariax/http-shared-range-digest/v1'' @ [0] @ u64_le total_length @ jd_value digest)))))"

fun consecutive_entries :: "journal_file_layout_entry list \<Rightarrow> bool" where
  "consecutive_entries (a # b # rest) \<longleftrightarrow>
     checked_add (file_id_get (jf_file_id a)) 1 = Some (file_id_get (jf_file_id b))
     \<and> jf_global_end a = jf_global_start b \<and> consecutive_entries (b # rest)"
| "consecutive_entries _ \<longleftrightarrow> True"

definition validate_layout_entries ::
  "journal_file_layout_entry list \<Rightarrow> bool \<Rightarrow> (payload_codec_error, unit) result" where
  "validate_layout_entries entries require_origin =
     (if length entries > MAX_LAYOUT_ENTRIES then Inl PC_TooManyLayoutEntries
      else if require_origin
              \<and> (case entries of [] \<Rightarrow> True
                 | e # _ \<Rightarrow> file_id_get (jf_file_id e) \<noteq> 0 \<or> jf_global_start e \<noteq> 0)
        then Inl PC_NonCanonicalLayoutOrder
      else if \<not> consecutive_entries entries then Inl PC_NonCanonicalLayoutOrder
      else Inr ())"

fun check_platform_paths ::
  "(string \<Rightarrow> string) \<Rightarrow> path_platform \<Rightarrow> journal_file_layout_entry list \<Rightarrow> (payload_codec_error, unit) result" where
  "check_platform_paths nfc platform [] = Inr ()"
| "check_platform_paths nfc platform (e # rest) =
     (let path = journal_relative_path_str (jf_safe_relative_path e) in
      and_then (map_err (\<lambda>_. PC_InvalidRelativePath) (from_user_path nfc path platform)) (\<lambda>safe.
        if canonical_string safe \<noteq> path then Inl PC_InvalidRelativePath
        else check_platform_paths nfc platform rest))"

definition validate_layout_committed ::
  "(string \<Rightarrow> string) \<Rightarrow> platform_path \<Rightarrow> u8 list \<Rightarrow> u64 option \<Rightarrow> u64 \<Rightarrow> u32 \<Rightarrow> u32 \<Rightarrow>
   journal_file_layout_entry list \<Rightarrow> (payload_codec_error, unit) result" where
  "validate_layout_committed nfc root_display root_identity total_length piece_length total_file_count chunk_count
       inline_files =
     (if root_identity = [] \<or> length root_identity > MAX_IDENTITY_BYTES then Inl PC_InvalidRootIdentity
      else if piece_length = 0 then Inl PC_ZeroPieceLength
      else
        let count = unat total_file_count in
        if count = 0 \<or> count > MAX_LAYOUT_ENTRIES then Inl PC_InvalidFileCount
        else if chunk_count = 0 \<or> inline_files = [] \<or> length inline_files > count
                \<or> (chunk_count = 1 \<and> length inline_files \<noteq> count)
                \<or> (chunk_count > 1 \<and> length inline_files = count)
          then Inl PC_InvalidChunk
        else
          and_then (validate_layout_entries inline_files True) (\<lambda>_.
          and_then (check_platform_paths nfc (pp_platform root_display) inline_files) (\<lambda>_.
            if chunk_count = 1
               \<and> (case total_length of None \<Rightarrow> False
                  | Some n \<Rightarrow> inline_files = [] \<or> jf_global_end (last inline_files) \<noteq> n)
              then Inl PC_InvalidFileCount
            else Inr ())))"

definition validate_layout_chunk ::
  "u32 \<Rightarrow> u32 \<Rightarrow> journal_file_layout_entry list \<Rightarrow> (payload_codec_error, unit) result" where
  "validate_layout_chunk chunk_index chunk_count files =
     (if chunk_count \<le> 1 \<or> chunk_index = 0 \<or> chunk_index \<ge> chunk_count \<or> files = [] then Inl PC_InvalidChunk
      else
        and_then (validate_layout_entries files False) (\<lambda>_.
          if file_id_get (jf_file_id (hd files)) = 0 then Inl PC_NonCanonicalLayoutOrder else Inr ()))"

section \<open>Piece bitmaps\<close>

definition bitmap_get :: "u8 list \<Rightarrow> nat \<Rightarrow> bool" where
  "bitmap_get bitmap index \<longleftrightarrow> (bitmap ! (index div 8)) AND push_bit (index mod 8) 1 \<noteq> 0"

definition bitmap_set :: "u8 list \<Rightarrow> nat \<Rightarrow> u8 list" where
  "bitmap_set bitmap index = bitmap[index div 8 := (bitmap ! (index div 8)) OR push_bit (index mod 8) 1]"

definition same_evidence_class :: "durable_evidence_run \<Rightarrow> durable_evidence_run \<Rightarrow> bool" where
  "same_evidence_class left right \<longleftrightarrow>
     er_validator_set_fingerprint left = er_validator_set_fingerprint right
     \<and> er_digest_algorithm left = er_digest_algorithm right
     \<and> er_digest_value_len left = er_digest_value_len right"

text \<open>The loop over the pieces of one run; the last argument counts the pieces left.\<close>

fun account_pieces :: "u8 list \<Rightarrow> u8 list \<Rightarrow> nat \<Rightarrow> nat \<Rightarrow> (payload_codec_error, u8 list) result" where
  "account_pieces bitmap accounted piece 0 = Inr accounted"
| "account_pieces bitmap accounted piece (Suc n) =
     (if \<not> bitmap_get bitmap piece \<or> bitmap_get accounted piece then Inl PC_InvalidEvidenceRun
      else account_pieces bitmap (bitmap_set accounted piece) (piece + 1) n)"

fun account_runs ::
  "nat \<Rightarrow> u8 list \<Rightarrow> u8 list \<Rightarrow> nat \<Rightarrow> durable_evidence_run option \<Rightarrow> durable_evidence_run list \<Rightarrow>
   (payload_codec_error, u8 list) result" where
  "account_runs covered bitmap accounted previous_end previous [] = Inr accounted"
| "account_runs covered bitmap accounted previous_end previous (run # rest) =
     (let first = unat (er_first_piece_delta run); n = unat (er_piece_count run); after = first + n in
      if after > usize_max then Inl PC_InvalidEvidenceRun
      else if first < previous_end \<or> after > covered then Inl PC_InvalidEvidenceRun
      else if first = previous_end
              \<and> (case previous of None \<Rightarrow> False | Some p \<Rightarrow> same_evidence_class p run)
        then Inl PC_InvalidEvidenceRun
      else
        and_then (account_pieces bitmap accounted first n) (\<lambda>accounted'.
          account_runs covered bitmap accounted' after (Some run) rest))"

definition validate_piece_state_chunk ::
  "u32 \<Rightarrow> u32 \<Rightarrow> piece_id \<Rightarrow> u32 \<Rightarrow> u8 list \<Rightarrow> durable_evidence_run list \<Rightarrow> (payload_codec_error, unit) result" where
  "validate_piece_state_chunk chunk_index chunk_count first_piece_id covered_piece_count durable_bitmap evidence_runs =
     (if chunk_count = 0 \<or> chunk_index \<ge> chunk_count then Inl PC_InvalidChunk
      else
        let covered = unat covered_piece_count in
        if covered = 0 \<or> covered > MAX_PIECE_STATE_COVERED_PIECES then Inl PC_InvalidBitmap
        else if checked_add (piece_id_get first_piece_id) (ucast (covered_piece_count - 1)) = None
          then Inl PC_InvalidBitmap
        else
          let expected_bytes = div_ceil covered 8 in
          if length durable_bitmap \<noteq> expected_bytes \<or> \<not> bitmap_get durable_bitmap 0 then Inl PC_InvalidBitmap
          else if covered mod 8 \<noteq> 0
                  \<and> (durable_bitmap ! (expected_bytes - 1)) AND NOT (push_bit (covered mod 8) 1 - 1) \<noteq> 0
            then Inl PC_InvalidBitmap
          else if length evidence_runs > covered then Inl PC_TooManyEvidenceRuns
          else
            and_then (account_runs covered durable_bitmap (replicate expected_bytes 0) 0 None evidence_runs)
              (\<lambda>accounted.
                 if accounted \<noteq> durable_bitmap then Inl PC_InvalidEvidenceRun else Inr ()))"

section \<open>Validation of a payload\<close>

fun validate_payload ::
  "(string \<Rightarrow> string) \<Rightarrow> sha256 \<Rightarrow> journal_payload \<Rightarrow> (payload_codec_error, unit) result" where
  "validate_payload nfc sha (JP_VerificationManifest _ total_bytes chunk_count bytes) =
     (let n = unat total_bytes in
      if n = 0 \<or> n > MAX_VERIFICATION_MANIFEST_BYTES
         \<or> unat chunk_count \<noteq> div_ceil n VERIFICATION_MANIFEST_PART_BYTES
         \<or> length bytes \<noteq> min n VERIFICATION_MANIFEST_PART_BYTES
        then Inl PC_InvalidVerificationManifest
      else Inr ())"
| "validate_payload nfc sha (JP_VerificationManifestChunk _ chunk_index chunk_count bytes) =
     (if chunk_index = 0 \<or> chunk_index \<ge> chunk_count
         \<or> unat chunk_count > MAX_VERIFICATION_MANIFEST_BYTES div VERIFICATION_MANIFEST_PART_BYTES
         \<or> bytes = [] \<or> length bytes > VERIFICATION_MANIFEST_PART_BYTES
        then Inl PC_InvalidVerificationManifest
      else Inr ())"
| "validate_payload nfc sha (JP_ProtocolValidator validator) =
     (if protocol_validator_validate validator then Inr () else Inl PC_InvalidProtocolValidator)"
| "validate_payload nfc sha (JP_WholeFileVerified _ digests) =
     (if length digests > 2 then Inl PC_InvalidVerificationManifest else Inr ())"
| "validate_payload nfc sha (JP_TaskCreated _ creator_version) =
     (if creator_version = 0 then Inl PC_ZeroCreatorVersion else Inr ())"
| "validate_payload nfc sha (JP_PieceFailed _ _ _ _ attempt) = (if attempt = 0 then Inl PC_ZeroAttempt else Inr ())"
| "validate_payload nfc sha (JP_RetryState _ _ attempt _ _ _ _ _) =
     (if attempt = 0 then Inl PC_ZeroAttempt else Inr ())"
| "validate_payload nfc sha (JP_CheckpointStart _ source_last_sequence _ state_record_count _) =
     (if source_last_sequence = 0 then Inl PC_ZeroSourceSequence
      else if state_record_count = 0 then Inl PC_ZeroStateRecordCount
      else Inr ())"
| "validate_payload nfc sha (JP_CheckpointEnd _ state_record_count _) =
     (if state_record_count = 0 then Inl PC_ZeroStateRecordCount else Inr ())"
| "validate_payload nfc sha (JP_LayoutCommitted _ _ root_display root_identity total_length piece_length
       total_file_count chunk_count inline_files) =
     validate_layout_committed nfc root_display root_identity total_length piece_length total_file_count chunk_count
       inline_files"
| "validate_payload nfc sha (JP_LayoutChunk _ _ chunk_index chunk_count files) =
     validate_layout_chunk chunk_index chunk_count files"
| "validate_payload nfc sha (JP_FinalizeIntent _ _ _ temp_path final_path _ identity) =
     (if temp_path = final_path \<or> identity = [] \<or> length identity > MAX_IDENTITY_BYTES
        then Inl PC_InvalidFinalization
      else Inr ())"
| "validate_payload nfc sha (JP_PieceStateChunk _ _ chunk_index chunk_count first_piece_id covered bitmap runs) =
     validate_piece_state_chunk chunk_index chunk_count first_piece_id covered bitmap runs"
| "validate_payload nfc sha (JP_HttpStrongValidator _ fingerprint total_length etag) =
     and_then (http_strong_validator_fingerprint sha etag total_length) (\<lambda>calculated.
       if calculated \<noteq> fingerprint then Inl PC_InvalidHttpStrongValidator else Inr ())"
| "validate_payload nfc sha (JP_HttpRangeIdentity fingerprint total_length digest) =
     and_then (http_range_identity_fingerprint sha digest total_length) (\<lambda>calculated.
       if calculated \<noteq> fingerprint then Inl PC_InvalidHttpRangeIdentity else Inr ())"
| "validate_payload nfc sha _ = Inr ()"

end
