(* ===== verification/MetadataExpansion.thy ===== *)
theory MetadataExpansion
  imports PayloadTypes
begin

text \<open>
  The text form of the link between a followed metadata document and its children,
  \<^verbatim>\<open>src/crates/ariax-storage/src/metadata_expansion.rs\<close>: printing, parsing, and the option that carries it.
  Integers are printed in decimal and read by \<^verbatim>\<open>str::parse\<close>, which takes a plus sign and leading zeros;
  hash bytes are read by \<^verbatim>\<open>u8::from_str_radix\<close>, which takes a plus sign and digits of either case. The
  lemmas show that printing and parsing a valid record returns it, and that parsing also accepts texts that
  printing never yields.
\<close>

section \<open>Text of integers and hashes\<close>

fun decimal :: "nat \<Rightarrow> string" where
  "decimal n = (if n < 10 then [char_of (48 + n)] else decimal (n div 10) @ [char_of (48 + n mod 10)])"

declare decimal.simps [simp del]

definition dec_val :: "char \<Rightarrow> nat option" where
  "dec_val c = (let n = of_char c in if 48 \<le> n \<and> n \<le> 57 then Some (n - 48) else None)"

fun decimal_digits :: "nat \<Rightarrow> string \<Rightarrow> nat option" where
  "decimal_digits acc [] = Some acc"
| "decimal_digits acc (c # cs) =
     (case dec_val c of
        None \<Rightarrow> None
      | Some d \<Rightarrow> if acc * 10 + d < 2 ^ 64 then decimal_digits (acc * 10 + d) cs else None)"

definition u64_parse :: "string \<Rightarrow> u64 option" where
  "u64_parse s =
     (if s = [] \<or> s = [CHR ''+''] \<or> s = [CHR ''-''] then None
      else map_option word_of_nat (decimal_digits 0 (if hd s = CHR ''+'' then tl s else s)))"

definition hash_display :: "journal_hash \<Rightarrow> string" where
  "hash_display h = concat (map (\<lambda>b. pad_zero 2 (hex_digits (unat b))) (journal_hash_bytes h))"

text \<open>\<open>u8::from_str_radix(_, 16)\<close> on two characters, whose value cannot overflow\<close>

definition u8_from_hex_pair :: "char \<Rightarrow> char \<Rightarrow> u8 option" where
  "u8_from_hex_pair a b =
     (if a = CHR ''+'' then map_option word_of_nat (hex_val b)
      else case (hex_val a, hex_val b) of
             (Some x, Some y) \<Rightarrow> Some (word_of_nat (16 * x + y))
           | _ \<Rightarrow> None)"

fun hash_bytes_of_text :: "string \<Rightarrow> u8 list option" where
  "hash_bytes_of_text (a # b # rest) =
     (case u8_from_hex_pair a b of
        None \<Rightarrow> None
      | Some byte \<Rightarrow> map_option (Cons byte) (hash_bytes_of_text rest))"
| "hash_bytes_of_text _ = Some []"

definition is_ascii :: "string \<Rightarrow> bool" where
  "is_ascii s \<longleftrightarrow> list_all (\<lambda>c. (of_char c :: nat) < 128) s"

definition parse_hash :: "string \<Rightarrow> journal_hash option" where
  "parse_hash text =
     (if length text \<noteq> 64 \<or> \<not> is_ascii text then None
      else Option.bind (hash_bytes_of_text text) journal_hash_new)"

section \<open>The record\<close>

definition METADATA_EXPANSION_OPTION :: string where
  "METADATA_EXPANSION_OPTION = ''metadata-expansion''"

definition expansion_fields :: "metadata_expansion \<Rightarrow> string list" where
  "expansion_fields e =
     (let p = me_parent e in
      [''1'', gid_display (mp_gid p), decimal (unat (generation_get (mp_generation p))),
       hash_display (mp_snapshot_hash p), hash_display (mp_document_hash p), decimal (unat (mp_document_bytes p)),
       (if mp_retained p then ''1'' else ''0''), join_with CHR '','' (map gid_display (me_children e))])"

definition expansion_canonical :: "metadata_expansion \<Rightarrow> string" where
  "expansion_canonical e = join_with CHR ''|'' (expansion_fields e)"

fun parse_gids :: "string list \<Rightarrow> gid list option" where
  "parse_gids [] = Some []"
| "parse_gids (s # rest) =
     (case gid_from_str s of
        Inl _ \<Rightarrow> None
      | Inr g \<Rightarrow> map_option (Cons g) (parse_gids rest))"

definition expansion_parse :: "string \<Rightarrow> metadata_expansion option" where
  "expansion_parse text =
     (if length text > 64 * 1024 then None
      else
        case split_on (\<lambda>c. c = CHR ''|'') text of
          [version, gid_text, generation_text, snapshot_text, document_text, bytes_text, retained_text, children_text] \<Rightarrow>
            if version \<noteq> ''1'' then None
            else
              Option.bind (case gid_from_str gid_text of Inl _ \<Rightarrow> None | Inr g \<Rightarrow> Some g) (\<lambda>gid.
              Option.bind (u64_parse generation_text) (\<lambda>generation.
              Option.bind (parse_hash snapshot_text) (\<lambda>snapshot_hash.
              Option.bind (parse_hash document_text) (\<lambda>document_hash.
              Option.bind (u64_parse bytes_text) (\<lambda>document_bytes.
              Option.bind (if retained_text = ''0'' then Some False
                           else if retained_text = ''1'' then Some True else None) (\<lambda>retained.
              Option.bind (parse_gids (take (SESSION_MAX_IMPORT_TASKS + 1)
                             (split_on (\<lambda>c. c = CHR '','') children_text))) (\<lambda>children.
                let e = \<lparr>me_parent = \<lparr>mp_gid = gid, mp_generation = Generation generation,
                           mp_snapshot_hash = snapshot_hash, mp_document_hash = document_hash,
                           mp_document_bytes = document_bytes, mp_retained = retained\<rparr>,
                         me_children = children\<rparr>
                in if metadata_expansion_validate e then Some e else None)))))))
        | _ \<Rightarrow> None)"

definition expansion_with_options ::
  "metadata_expansion \<Rightarrow> sanitized_option_map \<Rightarrow> (payload_codec_error, sanitized_option_map) result" where
  "expansion_with_options e options =
     sanitized_option_map_new
       (filter (\<lambda>(name, _). name \<noteq> METADATA_EXPANSION_OPTION) (som_entries options)
        @ [(METADATA_EXPANSION_OPTION, expansion_canonical e)])"

section \<open>Decimal text\<close>

lemma decimal_range: "c \<in> set (decimal n) \<Longrightarrow> 48 \<le> (of_char c :: nat) \<and> (of_char c :: nat) \<le> 57"
proof (induction n rule: decimal.induct)
  case (1 n)
  show ?case
  proof (cases "n < 10")
    case True
    with "1.prems" show ?thesis by (subst (asm) decimal.simps) simp
  next
    case False
    with 1 show ?thesis by (subst (asm) (2) decimal.simps) auto
  qed
qed

lemma decimal_nonempty [simp]: "decimal n \<noteq> []"
  by (subst decimal.simps) simp

lemma dec_val_digit: "d < 10 \<Longrightarrow> dec_val (char_of (48 + d)) = Some d"
  by (simp add: dec_val_def)

lemma decimal_digits_append:
  "decimal_digits acc (s @ t) = Option.bind (decimal_digits acc s) (\<lambda>v. decimal_digits v t)"
  by (induction s arbitrary: acc) (auto split: option.splits)

lemma decimal_digits_decimal: "n < 2 ^ 64 \<Longrightarrow> decimal_digits 0 (decimal n) = Some n"
proof (induction n rule: decimal.induct)
  case (1 n)
  show ?case
  proof (cases "n < 10")
    case True
    then show ?thesis by (subst decimal.simps) (simp add: dec_val_digit)
  next
    case False
    have "n div 10 < 2 ^ 64" using "1.prems" by (simp add: div_le_dividend order.strict_trans1)
    with False "1.IH" have "decimal_digits 0 (decimal (n div 10)) = Some (n div 10)" by simp
    with False "1.prems" show ?thesis
      by (subst decimal.simps) (simp add: decimal_digits_append dec_val_digit)
  qed
qed

lemma decimal_sign: "hd (decimal n) \<noteq> CHR ''+''" "decimal n \<noteq> ''-''" "decimal n \<noteq> ''+''"
proof -
  have no: "c \<noteq> CHR ''+'' \<and> c \<noteq> CHR ''-''" if "c \<in> set (decimal n)" for c
    using decimal_range [OF that] by auto
  then show "hd (decimal n) \<noteq> CHR ''+''" using hd_in_set [OF decimal_nonempty] by blast
  show "decimal n \<noteq> ''-''" "decimal n \<noteq> ''+''" using no by force+
qed

lemma u64_parse_decimal: "u64_parse (decimal (unat w)) = Some w"
proof -
  have "unat w < 2 ^ 64" using unsigned_less [of w] by simp
  then show ?thesis using decimal_sign [of "unat w"] by (simp add: u64_parse_def decimal_digits_decimal)
qed

lemma decimal_length: "n < 10 ^ k \<Longrightarrow> 0 < k \<Longrightarrow> length (decimal n) \<le> k"
proof (induction k arbitrary: n)
  case (Suc k)
  show ?case
  proof (cases "n < 10")
    case True
    then show ?thesis by (subst decimal.simps) simp
  next
    case False
    then have "k \<noteq> 0" using Suc.prems by (cases k) auto
    moreover have "n div 10 < 10 ^ k" using Suc.prems by (simp add: less_mult_imp_div_less mult.commute)
    ultimately have "length (decimal (n div 10)) \<le> k" using Suc.IH by simp
    with False show ?thesis by (subst decimal.simps) simp
  qed
qed simp

section \<open>Hash text\<close>

lemma hex_byte: "pad_zero 2 (hex_digits (unat (b :: u8))) = [hex_char (unat b div 16), hex_char (unat b mod 16)]"
proof -
  have "unat b < 16 ^ 2" using unsigned_less [of b] by simp
  from hex_digits_fixed [OF this] show ?thesis using \<open>unat b < 16 ^ 2\<close> by (simp add: numeral_2_eq_2)
qed

lemma hex_char_code: "d < 16 \<Longrightarrow> (of_char (hex_char d) :: nat) = (if d < 10 then 48 + d else 87 + d)"
  by (simp add: hex_char_def)

lemma hex_char_plain: "d < 16 \<Longrightarrow> hex_char d \<notin> {CHR ''+'', CHR ''|'', CHR '',''} \<and> (of_char (hex_char d) :: nat) < 128"
  using hex_char_code [of d] by (auto split: if_splits dest: arg_cong [where f = "of_char :: char \<Rightarrow> nat"])

lemma byte_digits: "unat (b :: u8) div 16 < 16" "unat b mod 16 < 16"
proof -
  have "unat b < 256" using unsigned_less [of b] by simp
  then show "unat b div 16 < 16" by (simp add: less_mult_imp_div_less)
qed simp

lemma hash_bytes_of_display: "hash_bytes_of_text (concat (map (\<lambda>b. pad_zero 2 (hex_digits (unat b))) bs)) = Some bs"
proof (induction bs)
  case (Cons b bs)
  then show ?case
    using hex_char_plain [OF byte_digits(1) [of b]] byte_digits [of b] by (simp add: hex_byte u8_from_hex_pair_def)
qed simp

lemma hash_display_chars: "c \<in> set (hash_display h) \<Longrightarrow> c \<notin> {CHR ''|'', CHR '',''} \<and> (of_char c :: nat) < 128"
  using hex_char_plain byte_digits by (force simp: hash_display_def hex_byte)

lemma length_hash_display: "length (hash_display h) = 2 * length (journal_hash_bytes h)"
  by (simp add: hash_display_def hex_byte length_concat comp_def sum_list_triv)

lemma parse_hash_display: "journal_hash_wf h \<Longrightarrow> parse_hash (hash_display h) = Some h"
  using hash_display_chars [of _ h]
  by (auto simp: parse_hash_def is_ascii_def list_all_iff length_hash_display journal_hash_wf_def journal_hash_new_def)
    (simp add: hash_display_def hash_bytes_of_display journal_hash_new_def)

section \<open>Identifiers\<close>

lemma hex_fixed_chars: "c \<in> set (hex_fixed w n) \<Longrightarrow> \<exists>d<16. c = hex_char d"
proof (induction w arbitrary: n)
  case (Suc w)
  then show ?case by (cases "c = hex_char (n mod 16)") (auto intro: exI [of _ "n mod 16"])
qed simp

lemma gid_display_chars: "c \<in> set (gid_display g) \<Longrightarrow> c \<notin> {CHR ''|'', CHR '',''}"
  using hex_fixed_chars hex_char_plain by (fastforce simp: gid_display_fixed)

lemma gid_display_lower: "map ascii_lower (gid_display g) = gid_display g"
  using hex_fixed_chars hex_val_lower [OF hex_val_char]
  by (fastforce simp: gid_display_fixed intro!: map_idI)

lemma length_gid_display: "length (gid_display g) = 16"
  by (simp add: gid_display_fixed)

lemma gid_from_display: "gid_get g \<noteq> 0 \<Longrightarrow> gid_from_str (gid_display g) = Inr g"
  by (simp add: gid_from_str_ok_iff gid_display_lower)

lemma parse_gids_display: "\<forall>g\<in>set gs. gid_get g \<noteq> 0 \<Longrightarrow> parse_gids (map gid_display gs) = Some gs"
  by (induction gs) (simp_all add: gid_from_display)

lemma decimal_chars: "c \<in> set (decimal n) \<Longrightarrow> c \<notin> {CHR ''|'', CHR '',''}"
  using decimal_range by fastforce

section \<open>Printing and parsing a record\<close>

text \<open>What the types of the fields guarantee: hashes have 32 bytes and are not zero, identifiers are not zero.\<close>

definition metadata_expansion_wf :: "metadata_expansion \<Rightarrow> bool" where
  "metadata_expansion_wf e \<longleftrightarrow>
     journal_hash_wf (mp_snapshot_hash (me_parent e)) \<and> journal_hash_wf (mp_document_hash (me_parent e))
     \<and> gid_get (mp_gid (me_parent e)) \<noteq> 0 \<and> (\<forall>g\<in>set (me_children e). gid_get g \<noteq> 0)"

lemma set_join: "set (join_with sep ws) \<subseteq> insert sep (\<Union>w\<in>set ws. set w)"
  by (induction sep ws rule: join_with.induct) auto

text \<open>The printed form with another text for the generation.\<close>

definition expansion_text :: "metadata_expansion \<Rightarrow> string \<Rightarrow> string" where
  "expansion_text e t = join_with CHR ''|'' ((expansion_fields e)[2 := t])"

lemma expansion_text_canonical:
  "expansion_text e (decimal (unat (generation_get (mp_generation (me_parent e))))) = expansion_canonical e"
  by (simp add: expansion_text_def expansion_canonical_def expansion_fields_def Let_def)

lemma expansion_fields_plain:
  assumes "CHR ''|'' \<notin> set t" "w \<in> set ((expansion_fields e)[2 := t])"
  shows "\<not> list_ex (\<lambda>c. c = CHR ''|'') w"
proof -
  have "CHR ''|'' \<notin> set (join_with CHR '','' (map gid_display gs))" for gs
    using set_join [of "CHR '',''" "map gid_display gs"] gid_display_chars by fastforce
  then show ?thesis
    using assms gid_display_chars [of "CHR ''|''"] decimal_chars [of "CHR ''|''"] hash_display_chars [of "CHR ''|''"]
    by (auto simp: expansion_fields_def Let_def list_ex_iff split: if_splits)
qed

lemma decimal_u64_length: "length (decimal (unat (w :: u64))) \<le> 20"
proof -
  have "unat w < 2 ^ 64" using unsigned_less [of w] by simp
  then show ?thesis by (intro decimal_length) simp_all
qed

lemma expansion_length:
  assumes "metadata_expansion_wf e" "length (me_children e) \<le> 1000" "me_children e \<noteq> []" "length t \<le> 21"
  shows "length (expansion_text e t) \<le> 64 * 1024"
proof -
  have kids: "length (join_with CHR '','' (map gid_display (me_children e))) + 1 = 17 * length (me_children e)"
    using length_join [of "map gid_display (me_children e)" "CHR '',''"] assms(3)
    by (simp add: comp_def length_gid_display sum_list_triv)
  have hashes: "length (hash_display (mp_snapshot_hash (me_parent e))) = 64"
    "length (hash_display (mp_document_hash (me_parent e))) = 64"
    using assms(1) by (simp_all add: metadata_expansion_wf_def journal_hash_wf_def length_hash_display)
  have "length (expansion_text e t) + 1 = sum_list (map (\<lambda>w. length w + 1) ((expansion_fields e)[2 := t]))"
    unfolding expansion_text_def by (rule length_join) (simp add: expansion_fields_def Let_def)
  also have "\<dots> \<le> 17 * length (me_children e) + 300"
    using kids assms(4) decimal_u64_length [of "mp_document_bytes (me_parent e)"] hashes
    by (simp add: expansion_fields_def Let_def length_gid_display)
  finally show ?thesis using assms(2) by simp
qed

lemma expansion_parse_text:
  assumes wf: "metadata_expansion_wf e" and valid: "metadata_expansion_validate e"
    and t: "u64_parse t = Some (generation_get (mp_generation (me_parent e)))" "CHR ''|'' \<notin> set t" "length t \<le> 21"
  shows "expansion_parse (expansion_text e t) = Some e"
proof -
  have kids: "me_children e \<noteq> []" "length (me_children e) \<le> 1000"
    using valid by (simp_all add: metadata_expansion_validate_def SESSION_MAX_IMPORT_TASKS_def)
  have split: "split_on (\<lambda>c. c = CHR ''|'') (expansion_text e t) = (expansion_fields e)[2 := t]"
    unfolding expansion_text_def
    by (rule split_on_join) (use expansion_fields_plain [OF t(2)] in \<open>auto simp: expansion_fields_def Let_def\<close>)
  have gids: "split_on (\<lambda>c. c = CHR '','') (join_with CHR '','' (map gid_display (me_children e))) = map gid_display (me_children e)"
    by (rule split_on_join) (use gid_display_chars kids in \<open>auto simp: list_ex_iff\<close>)
  have parsed: "parse_gids (map gid_display (me_children e)) = Some (me_children e)"
    using wf by (intro parse_gids_display) (simp add: metadata_expansion_wf_def)
  obtain g gen sh dh db r where p: "me_parent e = \<lparr>mp_gid = g, mp_generation = gen, mp_snapshot_hash = sh,
      mp_document_hash = dh, mp_document_bytes = db, mp_retained = r\<rparr>" by (cases "me_parent e")
  then have e: "\<lparr>me_parent = \<lparr>mp_gid = g, mp_generation = gen, mp_snapshot_hash = sh, mp_document_hash = dh,
      mp_document_bytes = db, mp_retained = r\<rparr>, me_children = me_children e\<rparr> = e" by (cases e) simp
  have ok: "journal_hash_wf sh" "journal_hash_wf dh" "gid_get g \<noteq> 0"
    using wf by (simp_all add: metadata_expansion_wf_def p)
  let ?e = "\<lparr>me_parent = \<lparr>mp_gid = g, mp_generation = gen, mp_snapshot_hash = sh, mp_document_hash = dh,
      mp_document_bytes = db, mp_retained = r\<rparr>, me_children = me_children e\<rparr>"
  have "expansion_parse (expansion_text e t) = (if metadata_expansion_validate ?e then Some ?e else None)"
    using kids expansion_length [OF wf kids(2,1) t(3)] t(1)
    by (simp add: expansion_parse_def split)
      (cases r, simp_all add: expansion_fields_def Let_def p gids parsed gid_from_display ok u64_parse_decimal
        parse_hash_display SESSION_MAX_IMPORT_TASKS_def)
  then show ?thesis using valid by (simp add: e)
qed

lemma expansion_parse_canonical:
  assumes "metadata_expansion_wf e" "metadata_expansion_validate e"
  shows "expansion_parse (expansion_canonical e) = Some e"
  unfolding expansion_text_canonical [symmetric]
  by (rule expansion_parse_text [OF assms])
    (use decimal_chars [of "CHR ''|''"] decimal_u64_length [of "generation_get (mp_generation (me_parent e))"]
      in \<open>auto simp: u64_parse_decimal\<close>)

lemma hash_bytes_of_text_length: "hash_bytes_of_text s = Some bs \<Longrightarrow> length bs = length s div 2"
  by (induction s arbitrary: bs rule: hash_bytes_of_text.induct) (auto split: option.splits)

lemma parse_hash_wf: "parse_hash s = Some h \<Longrightarrow> journal_hash_wf h"
  by (auto simp: parse_hash_def journal_hash_new_def journal_hash_wf_def bind_eq_Some_conv
      dest: hash_bytes_of_text_length split: if_splits)

lemma parse_gids_nonzero: "parse_gids ss = Some gs \<Longrightarrow> g \<in> set gs \<Longrightarrow> gid_get g \<noteq> 0"
  by (induction ss arbitrary: gs) (auto simp: gid_from_str_ok_iff split: sum.splits)

lemma expansion_parse_ok:
  assumes "expansion_parse s = Some e"
  shows "metadata_expansion_wf e \<and> metadata_expansion_validate e"
  using assms parse_hash_wf parse_gids_nonzero
  by (auto simp: expansion_parse_def metadata_expansion_wf_def bind_eq_Some_conv Let_def gid_from_str_ok_iff
      split: if_splits list.splits sum.splits)

text \<open>
  C40. Reading a record of followed metadata is not canonical: besides its printed form, a valid record is also
  read from the text with a plus sign before the generation, which printing never yields.
\<close>

theorem metadata_text_not_canonical:
  assumes "metadata_expansion_wf e" "metadata_expansion_validate e"
  defines "t \<equiv> CHR ''+'' # decimal (unat (generation_get (mp_generation (me_parent e))))"
  shows "expansion_parse (expansion_canonical e) = Some e
    \<and> expansion_parse (expansion_text e t) = Some e \<and> expansion_text e t \<noteq> expansion_canonical e"
proof -
  let ?d = "decimal (unat (generation_get (mp_generation (me_parent e))))"
  have bar: "CHR ''|'' \<notin> set ?d" using decimal_chars [of "CHR ''|''"] by blast
  have "decimal_digits 0 ?d = Some (unat (generation_get (mp_generation (me_parent e))))"
    using unsigned_less [of "generation_get (mp_generation (me_parent e))"] by (intro decimal_digits_decimal) simp
  then have "u64_parse t = Some (generation_get (mp_generation (me_parent e)))" by (simp add: u64_parse_def t_def)
  then have "expansion_parse (expansion_text e t) = Some e"
    using bar decimal_u64_length by (intro expansion_parse_text assms) (simp_all add: t_def)
  moreover have "expansion_text e t \<noteq> expansion_text e ?d"
  proof
    assume "expansion_text e t = expansion_text e ?d"
    then have "split_on (\<lambda>c. c = CHR ''|'') (expansion_text e t) = split_on (\<lambda>c. c = CHR ''|'') (expansion_text e ?d)" by simp
    moreover have "split_on (\<lambda>c. c = CHR ''|'') (expansion_text e s) = (expansion_fields e)[2 := s]"
      if "CHR ''|'' \<notin> set s" for s
      unfolding expansion_text_def
      by (rule split_on_join) (use expansion_fields_plain [OF that] in \<open>auto simp: expansion_fields_def Let_def\<close>)
    ultimately have "(expansion_fields e)[2 := t] = (expansion_fields e)[2 := ?d]" using bar by (simp add: t_def)
    then show False by (simp add: expansion_fields_def Let_def t_def)
  qed
  ultimately show ?thesis using expansion_parse_canonical [OF assms(1,2)] by (simp add: expansion_text_canonical)
qed

definition sample_expansion :: metadata_expansion where
  "sample_expansion =
     \<lparr>me_parent = \<lparr>mp_gid = Gid 1, mp_generation = Generation 3, mp_snapshot_hash = JournalHash (replicate 32 1),
        mp_document_hash = JournalHash (replicate 32 2), mp_document_bytes = 10, mp_retained = True\<rparr>,
      me_children = [Gid 2]\<rparr>"

theorem metadata_text_not_canonical_witness:
  "expansion_parse (expansion_text sample_expansion ''+3'') = Some sample_expansion
   \<and> expansion_text sample_expansion ''+3'' \<noteq> expansion_canonical sample_expansion"
proof -
  have "char_of (51 :: nat) = CHR ''3''"
    by (rule injD [OF inj_of_char [where 'a = nat]]) simp
  then have "decimal (unat (generation_get (mp_generation (me_parent sample_expansion)))) = ''3''"
    by (simp add: sample_expansion_def decimal.simps)
  moreover have "metadata_expansion_wf sample_expansion" "metadata_expansion_validate sample_expansion"
    by (simp_all add: sample_expansion_def metadata_expansion_wf_def journal_hash_wf_def all_zero_def list_all_iff
        metadata_expansion_validate_def SESSION_MAX_IMPORT_TASKS_def word_le_nat_alt)
  ultimately show ?thesis using metadata_text_not_canonical [of sample_expansion] by simp
qed

end
