(* ===== verification/PayloadCodec.thy ===== *)
theory PayloadCodec
  imports JournalPayload MetadataExpansion
begin

text \<open>
  The byte codec of journal payloads, the last part of
  \<^verbatim>\<open>src/crates/ariax-storage/src/journal_payload.rs\<close>. \<^verbatim>\<open>PayloadEncoder\<close> appends to one buffer: an
  operation of it is the bytes it appends or its error, and \<open>enc_all\<close> is a sequence of operations, which
  stops at the first error. \<^verbatim>\<open>PayloadDecoder\<close> is the input not yet read, and \<open>dec_then\<close> is the question-mark
  operator on it. Allocation is taken to succeed.
\<close>

section \<open>Encoder\<close>

type_synonym encoding = "(payload_codec_error, u8 list) result"

fun enc_all :: "encoding list \<Rightarrow> encoding" where
  "enc_all [] = Inr []"
| "enc_all (e # rest) = and_then e (\<lambda>bytes. and_then (enc_all rest) (\<lambda>more_bytes. Inr (bytes @ more_bytes)))"

definition enc_fixed :: "u8 list \<Rightarrow> encoding" where "enc_fixed v = Inr v"
definition enc_u8 :: "u8 \<Rightarrow> encoding" where "enc_u8 v = enc_fixed [v]"
definition enc_bool :: "bool \<Rightarrow> encoding" where "enc_bool v = enc_u8 (if v then 1 else 0)"
definition enc_u16 :: "u16 \<Rightarrow> encoding" where "enc_u16 v = enc_fixed (u16_le v)"
definition enc_u32 :: "u32 \<Rightarrow> encoding" where "enc_u32 v = enc_fixed (u32_le v)"
definition enc_u64 :: "u64 \<Rightarrow> encoding" where "enc_u64 v = enc_fixed (u64_le v)"
definition enc_hash :: "journal_hash \<Rightarrow> encoding" where "enc_hash h = enc_fixed (journal_hash_bytes h)"

definition enc_span :: "persisted_span \<Rightarrow> encoding" where
  "enc_span s = enc_all [enc_u64 (ps_offset s), enc_u64 (ps_len s)]"

definition enc_optional_id :: "u64 option \<Rightarrow> encoding" where
  "enc_optional_id v =
     (case v of
        Some x \<Rightarrow> if x = 0 then Inl PC_ZeroId else enc_all [enc_u8 1, enc_u64 x]
      | None \<Rightarrow> enc_u8 0)"

definition enc_optional_u64 :: "u64 option \<Rightarrow> encoding" where
  "enc_optional_u64 v = (case v of Some x \<Rightarrow> enc_all [enc_u8 1, enc_u64 x] | None \<Rightarrow> enc_u8 0)"

definition enc_bytes :: "u8 list \<Rightarrow> encoding" where
  "enc_bytes v =
     (if length v \<ge> 2 ^ 32 then Inl PC_PayloadTooLarge
      else enc_all [enc_u32 (word_of_nat (length v)), enc_fixed v])"

definition enc_digest :: "journal_digest \<Rightarrow> encoding" where
  "enc_digest d = enc_all [enc_bytes (as_bytes (digest_algorithm_code (jd_algorithm d))), enc_bytes (jd_value d)]"

definition enc_optional_digest :: "journal_digest option \<Rightarrow> encoding" where
  "enc_optional_digest v = (case v of Some d \<Rightarrow> enc_all [enc_u8 1, enc_digest d] | None \<Rightarrow> enc_u8 0)"

definition enc_count :: "payload_codec_error \<Rightarrow> 'a list \<Rightarrow> encoding" where
  "enc_count too_many xs = (if length xs \<ge> 2 ^ 32 then Inl too_many else enc_u32 (word_of_nat (length xs)))"

definition enc_option_entry :: "string \<times> string \<Rightarrow> encoding" where
  "enc_option_entry e = enc_all [enc_bytes (as_bytes (fst e)), enc_bytes (as_bytes (snd e))]"

definition enc_option_map :: "sanitized_option_map \<Rightarrow> encoding" where
  "enc_option_map m =
     enc_all [enc_count PC_TooManyOptions (som_entries m), enc_all (map enc_option_entry (som_entries m))]"

definition enc_platform_path :: "platform_path \<Rightarrow> encoding" where
  "enc_platform_path p = enc_all [enc_u8 (path_platform_number (pp_platform p)), enc_bytes (pp_bytes p)]"

definition enc_file_entry :: "journal_file_layout_entry \<Rightarrow> encoding" where
  "enc_file_entry e =
     enc_all [enc_u64 (ucast (file_id_get (jf_file_id e))), enc_u64 (jf_global_start e), enc_u64 (jf_global_end e),
       enc_u64 (jf_length e), enc_bool (jf_selected e),
       enc_bytes (as_bytes (journal_relative_path_str (jf_safe_relative_path e))), enc_bytes (jf_file_identity e)]"

definition enc_file_entries :: "journal_file_layout_entry list \<Rightarrow> encoding" where
  "enc_file_entries es = enc_all (map enc_file_entry es)"

definition enc_evidence_run :: "durable_evidence_run \<Rightarrow> encoding" where
  "enc_evidence_run r =
     enc_all [enc_u32 (er_first_piece_delta r), enc_u32 (er_piece_count r), enc_hash (er_validator_set_fingerprint r),
       enc_bytes (case er_digest_algorithm r of Some a \<Rightarrow> as_bytes (digest_algorithm_code a) | None \<Rightarrow> []),
       enc_u16 (er_digest_value_len r), enc_bytes (er_digest_values r)]"

definition enc_evidence_runs :: "durable_evidence_run list \<Rightarrow> encoding" where
  "enc_evidence_runs rs = enc_all (map enc_evidence_run rs)"

definition enc_validator :: "protocol_validator \<Rightarrow> encoding" where
  "enc_validator v =
     enc_all [enc_u8 (pv_protocol v), enc_hash (pv_source v), enc_u64 (pv_total_length v),
       enc_optional_u64 (pv_modified_unix_seconds v), enc_u8 (if pv_host_key v = None then 0 else 1),
       (case pv_host_key v of Some key \<Rightarrow> enc_hash key | None \<Rightarrow> enc_fixed [])]"

fun host_key_decision_number :: "host_key_decision \<Rightarrow> u8" where
  "host_key_decision_number HKD_Pending = 0"
| "host_key_decision_number HKD_Approved = 1"
| "host_key_decision_number HKD_Rejected = 2"

definition enc_host_key_state :: "journal_host_key_state \<Rightarrow> encoding" where
  "enc_host_key_state s =
     (let key = ph_summary (hks_challenge s) in
      enc_all [enc_u8 (host_key_decision_number (hks_decision s)),
        enc_fixed (host_key_challenge_id_bytes (hk_id key)), enc_bytes (as_bytes (hk_canonical_host key)),
        enc_u16 (hk_port key), enc_bytes (as_bytes (hk_algorithm key)),
        enc_fixed (host_key_fingerprint_bytes (hk_fingerprint_sha256 key)),
        enc_bytes (ph_presented_public_key (hks_challenge s)), enc_u64 (hks_created_ms s)])"

fun encode_body :: "journal_payload \<Rightarrow> encoding" where
  "encode_body (JP_TaskCreated durability creator_version) =
     enc_all [enc_u8 (tag_number durability_tags durability), enc_u16 creator_version]"
| "encode_body (JP_OptionsSnapshot snapshot_scope patch_id snapshot_hash options) =
     enc_all [enc_u8 (tag_number options_snapshot_scope_tags snapshot_scope),
       enc_optional_id (map_option option_patch_id_get patch_id), enc_hash snapshot_hash, enc_option_map options]"
| "encode_body (JP_LayoutCommitted layout_hash root_hash root_display root_identity total_length piece_length
       total_file_count chunk_count inline_files) =
     enc_all [enc_hash layout_hash, enc_hash root_hash, enc_platform_path root_display, enc_bytes root_identity,
       enc_optional_u64 total_length, enc_u64 piece_length, enc_u32 total_file_count, enc_u32 chunk_count,
       enc_count PC_TooManyLayoutEntries inline_files, enc_file_entries inline_files]"
| "encode_body (JP_GenerationStarted previous_generation start next_snapshot_hash patch_id) =
     enc_all [enc_u64 (generation_get previous_generation), enc_u8 (tag_number generation_start_reason_tags start),
       enc_hash next_snapshot_hash, enc_optional_id (map_option option_patch_id_get patch_id)]"
| "encode_body (JP_LeaseStarted transfer_attempt_id lease_id span fingerprint) =
     enc_all [enc_u64 (transfer_attempt_id_get transfer_attempt_id), enc_u64 (lease_id_get lease_id), enc_span span,
       enc_hash fingerprint]"
| "encode_body (JP_PieceStarted lease_id piece_id piece_span) =
     enc_all [enc_u64 (lease_id_get lease_id), enc_u64 (piece_id_get piece_id), enc_span piece_span]"
| "encode_body (JP_PieceWritten lease_id piece_id written_span) =
     enc_all [enc_u64 (lease_id_get lease_id), enc_u64 (piece_id_get piece_id), enc_span written_span]"
| "encode_body (JP_LeaseCommitted lease_id span fingerprint response_digest) =
     enc_all [enc_u64 (lease_id_get lease_id), enc_span span, enc_hash fingerprint,
       enc_optional_digest response_digest]"
| "encode_body (JP_LeaseAborted lease_id abort) =
     enc_all [enc_u64 (lease_id_get lease_id), enc_u8 (tag_number lease_abort_reason_tags abort)]"
| "encode_body (JP_PieceVerified piece_id piece_span contributors_hash digest) =
     enc_all [enc_u64 (piece_id_get piece_id), enc_span piece_span, enc_hash contributors_hash, enc_digest digest]"
| "encode_body (JP_PieceFailed lease_id piece_id piece_span error_class attempt) =
     enc_all [enc_optional_id (map_option lease_id_get lease_id), enc_u64 (piece_id_get piece_id),
       enc_span piece_span, enc_u8 (error_kind_number error_class), enc_u32 attempt]"
| "encode_body (JP_PieceDurable piece_id piece_span contributors_hash fingerprint digest barrier) =
     enc_all [enc_u64 (piece_id_get piece_id), enc_span piece_span, enc_hash contributors_hash, enc_hash fingerprint,
       enc_optional_digest digest, enc_u8 (tag_number data_barrier_tags barrier)]"
| "encode_body (JP_RetryState retry_scope scope_id attempt elapsed scheduled_at delay error_class retry_reason) =
     enc_all [enc_u8 (tag_number retry_scope_tags retry_scope), enc_u64 (persisted_id_get scope_id), enc_u32 attempt,
       enc_u64 elapsed, enc_u64 scheduled_at, enc_u64 delay, enc_u8 (error_kind_number error_class),
       enc_u8 (tag_number retry_reason_tags retry_reason)]"
| "encode_body (JP_TaskPaused pause) = enc_u8 (tag_number task_pause_reason_tags pause)"
| "encode_body (JP_TaskComplete layout_hash final_length final_digest completed_at) =
     enc_all [enc_hash layout_hash, enc_u64 final_length, enc_optional_digest final_digest, enc_u64 completed_at]"
| "encode_body (JP_TaskError error_class retriable diagnostic_id) =
     enc_all [enc_u8 (error_kind_number error_class), enc_bool retriable, enc_u64 diagnostic_id]"
| "encode_body (JP_TaskRemoved removal) = enc_u8 (tag_number task_remove_reason_tags removal)"
| "encode_body (JP_CleanShutdown checkpoint_sequence shutdown_at) =
     enc_all [enc_u64 checkpoint_sequence, enc_u64 shutdown_at]"
| "encode_body (JP_CheckpointStart checkpoint_id source_last_sequence source_segment_hash count created_at) =
     enc_all [enc_fixed (checkpoint_id_bytes checkpoint_id), enc_u64 source_last_sequence,
       enc_hash source_segment_hash, enc_u32 count, enc_u64 created_at]"
| "encode_body (JP_CheckpointEnd checkpoint_id count state_hash) =
     enc_all [enc_fixed (checkpoint_id_bytes checkpoint_id), enc_u32 count, enc_hash state_hash]"
| "encode_body (JP_LayoutChunk layout_hash root_hash chunk_index chunk_count files) =
     enc_all [enc_hash layout_hash, enc_hash root_hash, enc_u32 chunk_index, enc_u32 chunk_count,
       enc_count PC_TooManyLayoutEntries files, enc_file_entries files]"
| "encode_body (JP_FinalizeIntent layout_hash root_hash file_id temp_path final_path final_length identity) =
     enc_all [enc_hash layout_hash, enc_hash root_hash, enc_u64 (ucast (file_id_get file_id)),
       enc_bytes (as_bytes (journal_relative_path_str temp_path)),
       enc_bytes (as_bytes (journal_relative_path_str final_path)), enc_u64 final_length, enc_bytes identity]"
| "encode_body (JP_FinalizeDone layout_hash root_hash file_id final_path) =
     enc_all [enc_hash layout_hash, enc_hash root_hash, enc_u64 (ucast (file_id_get file_id)),
       enc_bytes (as_bytes (journal_relative_path_str final_path))]"
| "encode_body (JP_PieceStateChunk layout_hash root_hash chunk_index chunk_count first_piece_id covered bitmap runs) =
     enc_all [enc_hash layout_hash, enc_hash root_hash, enc_u32 chunk_index, enc_u32 chunk_count,
       enc_u64 (piece_id_get first_piece_id), enc_u32 covered, enc_bytes bitmap,
       enc_count PC_TooManyEvidenceRuns runs, enc_evidence_runs runs]"
| "encode_body (JP_HttpStrongValidator resource_fingerprint fingerprint total_length etag) =
     enc_all [enc_hash resource_fingerprint, enc_hash fingerprint, enc_u64 total_length, enc_bytes etag]"
| "encode_body (JP_HttpRangeIdentity fingerprint total_length digest) =
     enc_all [enc_hash fingerprint, enc_u64 total_length, enc_digest digest]"
| "encode_body (JP_VerificationManifest fingerprint total_bytes chunk_count bytes) =
     enc_all [enc_hash fingerprint, enc_u32 total_bytes, enc_u32 chunk_count, enc_bytes bytes]"
| "encode_body (JP_VerificationManifestChunk fingerprint chunk_index chunk_count bytes) =
     enc_all [enc_hash fingerprint, enc_u32 chunk_index, enc_u32 chunk_count, enc_bytes bytes]"
| "encode_body (JP_ProtocolValidator validator) = enc_validator validator"
| "encode_body (JP_WholeFileVerified fingerprint digests) =
     enc_all [enc_hash fingerprint, enc_u8 (word_of_nat (length digests)), enc_all (map enc_digest digests)]"
| "encode_body (JP_HostKeyState state) = enc_host_key_state state"
| "encode_body (JP_MetadataComplete expansion completed_at) =
     (if \<not> metadata_expansion_validate expansion then Inl PC_InvalidVerificationManifest
      else enc_all [enc_bytes (as_bytes (expansion_canonical expansion)), enc_u64 completed_at])"

definition payload_encode :: "(string \<Rightarrow> string) \<Rightarrow> sha256 \<Rightarrow> journal_payload \<Rightarrow> encoding" where
  "payload_encode nfc sha payload =
     and_then (validate_payload nfc sha payload) (\<lambda>_.
     and_then (encode_body payload) (\<lambda>output.
       if length output > MAX_RECORD_PAYLOAD then Inl PC_PayloadTooLarge else Inr output))"

datatype append_payload_error = AP_Codec payload_codec_error | AP_Journal journal_encode_error

definition payload_append_to ::
  "(string \<Rightarrow> string) \<Rightarrow> sha256 \<Rightarrow> crc32c \<Rightarrow> journal_payload \<Rightarrow> segment_encoder \<Rightarrow> generation \<Rightarrow>
   (append_payload_error, u64) result \<times> segment_encoder" where
  "payload_append_to nfc sha crc payload encoder generation =
     try_in encoder (map_err AP_Codec (payload_encode nfc sha payload)) (\<lambda>bytes.
       let (r, encoder') = encoder_append crc encoder (payload_record_type payload) generation bytes
       in (map_err AP_Journal r, encoder'))"

section \<open>Decoder\<close>

type_synonym 'a decoder = "u8 list \<Rightarrow> (payload_codec_error, 'a \<times> u8 list) result"

definition dec_then :: "'a decoder \<Rightarrow> ('a \<Rightarrow> 'b decoder) \<Rightarrow> 'b decoder" where
  "dec_then d k r = and_then (d r) (\<lambda>(a, r'). k a r')"

definition dec_return :: "'a \<Rightarrow> 'a decoder" where "dec_return a r = Inr (a, r)"

definition dec_of :: "(payload_codec_error, 'a) result \<Rightarrow> 'a decoder" where
  "dec_of res r = and_then res (\<lambda>a. Inr (a, r))"

fun dec_repeat :: "nat \<Rightarrow> 'a decoder \<Rightarrow> 'a list decoder" where
  "dec_repeat 0 d = dec_return []"
| "dec_repeat (Suc n) d = dec_then d (\<lambda>a. dec_then (dec_repeat n d) (\<lambda>as. dec_return (a # as)))"

definition dec_take :: "nat \<Rightarrow> u8 list decoder" where
  "dec_take n r = (if length r < n then Inl PC_Truncated else Inr (take n r, drop n r))"

definition dec_u8 :: "u8 decoder" where
  "dec_u8 = dec_then (dec_take 1) (\<lambda>bs. dec_return (bs ! 0))"

definition dec_bool :: "bool decoder" where
  "dec_bool = dec_then dec_u8 (\<lambda>v.
     dec_of (if v = 0 then Inr False else if v = 1 then Inr True else Inl (PC_InvalidBoolean v)))"

definition dec_u16 :: "u16 decoder" where
  "dec_u16 = dec_then (dec_take 2) (\<lambda>bs. dec_return (u16_from_le bs))"

definition dec_u32 :: "u32 decoder" where
  "dec_u32 = dec_then (dec_take 4) (\<lambda>bs. dec_return (u32_from_le bs))"

definition dec_u64 :: "u64 decoder" where
  "dec_u64 = dec_then (dec_take 8) (\<lambda>bs. dec_return (u64_from_le bs))"

definition dec_required_id :: "u64 decoder" where
  "dec_required_id = dec_then dec_u64 (\<lambda>v. dec_of (if v = 0 then Inl PC_ZeroId else Inr v))"

definition dec_optional :: "'a decoder \<Rightarrow> 'a option decoder" where
  "dec_optional d = dec_then dec_u8 (\<lambda>v.
     if v = 0 then dec_return None
     else if v = 1 then dec_then d (\<lambda>a. dec_return (Some a))
     else dec_of (Inl (PC_InvalidPresence v)))"

definition dec_optional_id :: "u64 option decoder" where "dec_optional_id = dec_optional dec_required_id"
definition dec_optional_u64 :: "u64 option decoder" where "dec_optional_u64 = dec_optional dec_u64"

definition dec_hash :: "journal_hash decoder" where
  "dec_hash = dec_then (dec_take 32) (\<lambda>bs. dec_of (ok_or PC_ZeroHash (journal_hash_new bs)))"

definition dec_checkpoint_id :: "checkpoint_id decoder" where
  "dec_checkpoint_id = dec_then (dec_take 16) (\<lambda>bs. dec_of (ok_or PC_ZeroCheckpointId (checkpoint_id_new bs)))"

definition dec_span :: "persisted_span decoder" where
  "dec_span = dec_then dec_u64 (\<lambda>offset. dec_then dec_u64 (\<lambda>n. dec_of (persisted_span_new offset n)))"

definition dec_bytes_with_error :: "nat \<Rightarrow> payload_codec_error \<Rightarrow> u8 list decoder" where
  "dec_bytes_with_error maximum too_long = dec_then dec_u32 (\<lambda>n.
     if unat n > maximum then dec_of (Inl too_long) else dec_take (unat n))"

definition dec_bytes :: "nat \<Rightarrow> u8 list decoder" where
  "dec_bytes maximum = dec_bytes_with_error maximum PC_FieldTooLong"

definition dec_text :: "u8 list \<Rightarrow> string decoder" where
  "dec_text bs = dec_of (ok_or PC_InvalidUtf8 (from_utf8 bs))"

definition dec_text_field :: "nat \<Rightarrow> payload_codec_error \<Rightarrow> string decoder" where
  "dec_text_field maximum too_long = dec_then (dec_bytes_with_error maximum too_long) dec_text"

definition dec_digest :: "journal_digest decoder" where
  "dec_digest =
     dec_then (dec_text_field 32 PC_InvalidDigestAlgorithm) (\<lambda>text.
     dec_then (dec_of (digest_algorithm_try_from text)) (\<lambda>algorithm.
     dec_then (dec_bytes_with_error 64 PC_InvalidDigestLength) (\<lambda>v.
       dec_of (journal_digest_new algorithm v))))"

definition dec_optional_digest :: "journal_digest option decoder" where
  "dec_optional_digest = dec_optional dec_digest"

definition dec_error_kind :: "error_kind decoder" where
  "dec_error_kind = dec_then dec_u8 (\<lambda>v. dec_of (map_err (\<lambda>_. PC_InvalidErrorKind v) (error_kind_try_from v)))"

definition dec_tag :: "string \<Rightarrow> 'a tag_table \<Rightarrow> 'a decoder" where
  "dec_tag vocabulary tags = dec_then dec_u8 (\<lambda>v. dec_of (map_err PC_InvalidTag (tag_try_from vocabulary tags v)))"

text \<open>The loop of \<open>option_map\<close>: \<open>start\<close> is the number of bytes left where the map begins.\<close>

fun dec_option_entries :: "nat \<Rightarrow> string option \<Rightarrow> nat \<Rightarrow> (string \<times> string) list decoder" where
  "dec_option_entries start previous 0 = dec_return []"
| "dec_option_entries start previous (Suc n) =
     dec_then (dec_text_field MAX_OPTION_KEY_BYTES PC_OptionKeyTooLong) (\<lambda>key.
     dec_then (dec_of (validate_option_key key)) (\<lambda>_.
     dec_then (dec_of (case previous of
                 None \<Rightarrow> Inr ()
               | Some p \<Rightarrow> if p \<ge> key
                   then Inl (if p = key then PC_DuplicateOptionKey else PC_NonCanonicalOptionOrder)
                   else Inr ())) (\<lambda>_.
     dec_then (dec_text_field MAX_OPTION_VALUE_BYTES PC_OptionValueTooLong) (\<lambda>v.
     dec_then (\<lambda>r. if start - length r > MAX_OPTION_MAP_BYTES then Inl PC_OptionMapTooLarge else Inr ((), r)) (\<lambda>_.
     dec_then (dec_option_entries start (Some key) n) (\<lambda>rest.
       dec_return ((key, v) # rest)))))))"

definition dec_option_map :: "sanitized_option_map decoder" where
  "dec_option_map r0 =
     dec_then dec_u32 (\<lambda>n r.
       if unat n > MAX_OPTION_MAP_ENTRIES then Inl PC_TooManyOptions
       else if unat n * 8 > length r then Inl PC_Truncated
       else
         dec_then (dec_option_entries (length r0) None (unat n)) (\<lambda>entries.
           dec_of (sanitized_option_map_new entries)) r) r0"

definition dec_platform_path :: "platform_path decoder" where
  "dec_platform_path =
     dec_then dec_u8 (\<lambda>v.
     dec_then (dec_of (if v = 1 then Inr PP_Unix else if v = 2 then Inr PP_Windows
                       else Inl (PC_InvalidPlatformTag v))) (\<lambda>platform.
     dec_then (dec_bytes_with_error MAX_PLATFORM_PATH_BYTES PC_InvalidPlatformPath) (\<lambda>bytes.
       dec_of (map_err (\<lambda>_. PC_InvalidPlatformPath) (from_native_bytes platform bytes)))))"

definition dec_relative_path :: "(string \<Rightarrow> string) \<Rightarrow> journal_relative_path decoder" where
  "dec_relative_path nfc =
     dec_then (dec_text_field MAX_SAFE_RELATIVE_BYTES PC_RelativePathTooLong) (\<lambda>text.
       dec_of (journal_relative_path_new nfc text))"

definition dec_file_id :: "file_id decoder" where
  "dec_file_id = dec_then dec_u64 (\<lambda>v.
     dec_of (if unat v \<ge> 2 ^ 32 then Inl PC_InvalidFileId else Inr (FileId (ucast v))))"

definition dec_file_entry :: "(string \<Rightarrow> string) \<Rightarrow> journal_file_layout_entry decoder" where
  "dec_file_entry nfc =
     dec_then dec_file_id (\<lambda>file_id.
     dec_then dec_u64 (\<lambda>global_start.
     dec_then dec_u64 (\<lambda>global_end.
     dec_then dec_u64 (\<lambda>n.
     dec_then dec_bool (\<lambda>selected.
     dec_then (dec_relative_path nfc) (\<lambda>path.
     dec_then (dec_bytes_with_error MAX_IDENTITY_BYTES PC_InvalidFileIdentity) (\<lambda>identity.
       dec_of (journal_file_layout_entry_new file_id global_start global_end n selected path identity))))))))"

definition dec_file_entries :: "(string \<Rightarrow> string) \<Rightarrow> u32 \<Rightarrow> journal_file_layout_entry list decoder" where
  "dec_file_entries nfc count r =
     (if unat count > MAX_LAYOUT_ENTRIES then Inl PC_TooManyLayoutEntries
      else if unat count * 42 > length r then Inl PC_Truncated
      else dec_repeat (unat count) (dec_file_entry nfc) r)"

definition dec_evidence_run :: "durable_evidence_run decoder" where
  "dec_evidence_run =
     dec_then dec_u32 (\<lambda>first_piece_delta.
     dec_then dec_u32 (\<lambda>piece_count.
     dec_then dec_hash (\<lambda>fingerprint.
     dec_then (dec_bytes_with_error 32 PC_InvalidDigestAlgorithm) (\<lambda>name.
     dec_then (if name = [] then dec_return None
               else dec_then (dec_text name) (\<lambda>text.
                    dec_then (dec_of (digest_algorithm_try_from text)) (\<lambda>a. dec_return (Some a)))) (\<lambda>algorithm.
     dec_then dec_u16 (\<lambda>value_len.
     dec_then (dec_bytes_with_error MAX_RECORD_PAYLOAD PC_InvalidEvidenceRun) (\<lambda>values.
     dec_then (dec_of (durable_evidence_run_new first_piece_delta piece_count fingerprint algorithm values)) (\<lambda>run.
       dec_of (if er_digest_value_len run \<noteq> value_len then Inl PC_InvalidEvidenceRun else Inr run)))))))))"

definition dec_evidence_runs :: "u32 \<Rightarrow> durable_evidence_run list decoder" where
  "dec_evidence_runs count r =
     (if unat count > MAX_PIECE_STATE_COVERED_PIECES then Inl PC_TooManyEvidenceRuns
      else if unat count * 50 > length r then Inl PC_Truncated
      else dec_repeat (unat count) dec_evidence_run r)"

definition dec_validator :: "protocol_validator decoder" where
  "dec_validator =
     dec_then dec_u8 (\<lambda>protocol.
     dec_then dec_hash (\<lambda>source.
     dec_then dec_u64 (\<lambda>total_length.
     dec_then dec_optional_u64 (\<lambda>modified.
     dec_then (dec_optional dec_hash) (\<lambda>host_key.
       dec_return \<lparr>pv_protocol = protocol, pv_source = source, pv_total_length = total_length,
                   pv_modified_unix_seconds = modified, pv_host_key = host_key\<rparr>)))))"

definition dec_host_key_state :: "sha256 \<Rightarrow> journal_host_key_state decoder" where
  "dec_host_key_state sha =
     dec_then dec_u8 (\<lambda>v.
     dec_then (dec_of (if v = 0 then Inr HKD_Pending else if v = 1 then Inr HKD_Approved
                       else if v = 2 then Inr HKD_Rejected else Inl PC_InvalidHostKeyState)) (\<lambda>decision.
     dec_then (dec_take 16) (\<lambda>id.
     dec_then (dec_text_field MAX_HOST_KEY_CANONICAL_HOST_BYTES PC_FieldTooLong) (\<lambda>canonical_host.
     dec_then dec_u16 (\<lambda>port.
     dec_then (dec_text_field MAX_HOST_KEY_ALGORITHM_BYTES PC_FieldTooLong) (\<lambda>algorithm.
     dec_then (dec_take 32) (\<lambda>fingerprint.
     dec_then (dec_bytes MAX_PRESENTED_HOST_KEY_BYTES) (\<lambda>public_key.
     dec_then (dec_of (map_err (\<lambda>_. PC_InvalidHostKeyState) (presented_host_key_challenge_new sha
         \<lparr>hk_id = HostKeyChallengeId id, hk_canonical_host = canonical_host, hk_port = port,
          hk_algorithm = algorithm, hk_fingerprint_sha256 = HostKeyFingerprint fingerprint\<rparr> public_key)))
       (\<lambda>challenge.
     dec_then dec_u64 (\<lambda>created_ms.
       dec_return \<lparr>hks_challenge = challenge, hks_decision = decision, hks_created_ms = created_ms\<rparr>))))))))))"

fun decode_body :: "(string \<Rightarrow> string) \<Rightarrow> sha256 \<Rightarrow> record_type \<Rightarrow> journal_payload decoder" where
  "decode_body nfc sha RT_TaskCreated =
     dec_then (dec_tag ''durability'' durability_tags) (\<lambda>durability.
     dec_then dec_u16 (\<lambda>creator_version. dec_return (JP_TaskCreated durability creator_version)))"
| "decode_body nfc sha RT_OptionsSnapshot =
     dec_then (dec_tag ''options_snapshot_scope'' options_snapshot_scope_tags) (\<lambda>snapshot_scope.
     dec_then dec_optional_id (\<lambda>patch_id.
     dec_then dec_hash (\<lambda>snapshot_hash.
     dec_then dec_option_map (\<lambda>options.
       dec_return (JP_OptionsSnapshot snapshot_scope (map_option OptionPatchId patch_id) snapshot_hash options)))))"
| "decode_body nfc sha RT_LayoutCommitted =
     dec_then dec_hash (\<lambda>layout_hash.
     dec_then dec_hash (\<lambda>root_hash.
     dec_then dec_platform_path (\<lambda>root_display.
     dec_then (dec_bytes MAX_IDENTITY_BYTES) (\<lambda>root_identity.
     dec_then dec_optional_u64 (\<lambda>total_length.
     dec_then dec_u64 (\<lambda>piece_length.
     dec_then dec_u32 (\<lambda>total_file_count.
     dec_then dec_u32 (\<lambda>chunk_count.
     dec_then dec_u32 (\<lambda>inline_file_count.
     dec_then (dec_file_entries nfc inline_file_count) (\<lambda>inline_files.
       dec_return (JP_LayoutCommitted layout_hash root_hash root_display root_identity total_length piece_length
         total_file_count chunk_count inline_files)))))))))))"
| "decode_body nfc sha RT_GenerationStarted =
     dec_then dec_u64 (\<lambda>previous_generation.
     dec_then (dec_tag ''generation_start_reason'' generation_start_reason_tags) (\<lambda>start.
     dec_then dec_hash (\<lambda>next_snapshot_hash.
     dec_then dec_optional_id (\<lambda>patch_id.
       dec_return (JP_GenerationStarted (Generation previous_generation) start next_snapshot_hash
         (map_option OptionPatchId patch_id))))))"
| "decode_body nfc sha RT_LeaseStarted =
     dec_then dec_required_id (\<lambda>attempt.
     dec_then dec_required_id (\<lambda>lease.
     dec_then dec_span (\<lambda>span.
     dec_then dec_hash (\<lambda>fingerprint.
       dec_return (JP_LeaseStarted (TransferAttemptId attempt) (LeaseId lease) span fingerprint)))))"
| "decode_body nfc sha RT_PieceStarted =
     dec_then dec_required_id (\<lambda>lease.
     dec_then dec_u64 (\<lambda>piece.
     dec_then dec_span (\<lambda>span. dec_return (JP_PieceStarted (LeaseId lease) (PieceId piece) span))))"
| "decode_body nfc sha RT_PieceWritten =
     dec_then dec_required_id (\<lambda>lease.
     dec_then dec_u64 (\<lambda>piece.
     dec_then dec_span (\<lambda>span. dec_return (JP_PieceWritten (LeaseId lease) (PieceId piece) span))))"
| "decode_body nfc sha RT_LeaseCommitted =
     dec_then dec_required_id (\<lambda>lease.
     dec_then dec_span (\<lambda>span.
     dec_then dec_hash (\<lambda>fingerprint.
     dec_then dec_optional_digest (\<lambda>digest.
       dec_return (JP_LeaseCommitted (LeaseId lease) span fingerprint digest)))))"
| "decode_body nfc sha RT_LeaseAborted =
     dec_then dec_required_id (\<lambda>lease.
     dec_then (dec_tag ''lease_abort_reason'' lease_abort_reason_tags) (\<lambda>abort.
       dec_return (JP_LeaseAborted (LeaseId lease) abort)))"
| "decode_body nfc sha RT_PieceVerified =
     dec_then dec_u64 (\<lambda>piece.
     dec_then dec_span (\<lambda>span.
     dec_then dec_hash (\<lambda>contributors_hash.
     dec_then dec_digest (\<lambda>digest. dec_return (JP_PieceVerified (PieceId piece) span contributors_hash digest)))))"
| "decode_body nfc sha RT_PieceFailed =
     dec_then dec_optional_id (\<lambda>lease.
     dec_then dec_u64 (\<lambda>piece.
     dec_then dec_span (\<lambda>span.
     dec_then dec_error_kind (\<lambda>error_class.
     dec_then dec_u32 (\<lambda>attempt.
       dec_return (JP_PieceFailed (map_option LeaseId lease) (PieceId piece) span error_class attempt))))))"
| "decode_body nfc sha RT_PieceDurable =
     dec_then dec_u64 (\<lambda>piece.
     dec_then dec_span (\<lambda>span.
     dec_then dec_hash (\<lambda>contributors_hash.
     dec_then dec_hash (\<lambda>fingerprint.
     dec_then dec_optional_digest (\<lambda>digest.
     dec_then (dec_tag ''data_barrier'' data_barrier_tags) (\<lambda>barrier.
       dec_return (JP_PieceDurable (PieceId piece) span contributors_hash fingerprint digest barrier)))))))"
| "decode_body nfc sha RT_RetryState =
     dec_then (dec_tag ''retry_scope'' retry_scope_tags) (\<lambda>retry_scope.
     dec_then dec_required_id (\<lambda>scope_id.
     dec_then dec_u32 (\<lambda>attempt.
     dec_then dec_u64 (\<lambda>elapsed.
     dec_then dec_u64 (\<lambda>scheduled_at.
     dec_then dec_u64 (\<lambda>delay.
     dec_then dec_error_kind (\<lambda>error_class.
     dec_then (dec_tag ''retry_reason'' retry_reason_tags) (\<lambda>retry_reason.
       dec_return (JP_RetryState retry_scope (PersistedId scope_id) attempt elapsed scheduled_at delay error_class
         retry_reason)))))))))"
| "decode_body nfc sha RT_TaskPaused =
     dec_then (dec_tag ''task_pause_reason'' task_pause_reason_tags) (\<lambda>pause. dec_return (JP_TaskPaused pause))"
| "decode_body nfc sha RT_TaskComplete =
     dec_then dec_hash (\<lambda>layout_hash.
     dec_then dec_u64 (\<lambda>final_length.
     dec_then dec_optional_digest (\<lambda>final_digest.
     dec_then dec_u64 (\<lambda>completed_at.
       dec_return (JP_TaskComplete layout_hash final_length final_digest completed_at)))))"
| "decode_body nfc sha RT_TaskError =
     dec_then dec_error_kind (\<lambda>error_class.
     dec_then dec_bool (\<lambda>retriable.
     dec_then dec_u64 (\<lambda>diagnostic_id. dec_return (JP_TaskError error_class retriable diagnostic_id))))"
| "decode_body nfc sha RT_TaskRemoved =
     dec_then (dec_tag ''task_remove_reason'' task_remove_reason_tags) (\<lambda>removal. dec_return (JP_TaskRemoved removal))"
| "decode_body nfc sha RT_CleanShutdown =
     dec_then dec_u64 (\<lambda>checkpoint_sequence.
     dec_then dec_u64 (\<lambda>shutdown_at. dec_return (JP_CleanShutdown checkpoint_sequence shutdown_at)))"
| "decode_body nfc sha RT_CheckpointStart =
     dec_then dec_checkpoint_id (\<lambda>checkpoint_id.
     dec_then dec_u64 (\<lambda>source_last_sequence.
     dec_then dec_hash (\<lambda>source_segment_hash.
     dec_then dec_u32 (\<lambda>count.
     dec_then dec_u64 (\<lambda>created_at.
       dec_return (JP_CheckpointStart checkpoint_id source_last_sequence source_segment_hash count created_at))))))"
| "decode_body nfc sha RT_CheckpointEnd =
     dec_then dec_checkpoint_id (\<lambda>checkpoint_id.
     dec_then dec_u32 (\<lambda>count.
     dec_then dec_hash (\<lambda>state_hash. dec_return (JP_CheckpointEnd checkpoint_id count state_hash))))"
| "decode_body nfc sha RT_LayoutChunk =
     dec_then dec_hash (\<lambda>layout_hash.
     dec_then dec_hash (\<lambda>root_hash.
     dec_then dec_u32 (\<lambda>chunk_index.
     dec_then dec_u32 (\<lambda>chunk_count.
     dec_then dec_u32 (\<lambda>file_count.
     dec_then (dec_file_entries nfc file_count) (\<lambda>files.
       dec_return (JP_LayoutChunk layout_hash root_hash chunk_index chunk_count files)))))))"
| "decode_body nfc sha RT_FinalizeIntent =
     dec_then dec_hash (\<lambda>layout_hash.
     dec_then dec_hash (\<lambda>root_hash.
     dec_then dec_file_id (\<lambda>file_id.
     dec_then (dec_relative_path nfc) (\<lambda>temp_path.
     dec_then (dec_relative_path nfc) (\<lambda>final_path.
     dec_then dec_u64 (\<lambda>final_length.
     dec_then (dec_bytes MAX_IDENTITY_BYTES) (\<lambda>identity.
       dec_return (JP_FinalizeIntent layout_hash root_hash file_id temp_path final_path final_length identity))))))))"
| "decode_body nfc sha RT_FinalizeDone =
     dec_then dec_hash (\<lambda>layout_hash.
     dec_then dec_hash (\<lambda>root_hash.
     dec_then dec_file_id (\<lambda>file_id.
     dec_then (dec_relative_path nfc) (\<lambda>final_path.
       dec_return (JP_FinalizeDone layout_hash root_hash file_id final_path)))))"
| "decode_body nfc sha RT_PieceStateChunk =
     dec_then dec_hash (\<lambda>layout_hash.
     dec_then dec_hash (\<lambda>root_hash.
     dec_then dec_u32 (\<lambda>chunk_index.
     dec_then dec_u32 (\<lambda>chunk_count.
     dec_then dec_u64 (\<lambda>first_piece.
     dec_then dec_u32 (\<lambda>covered.
     dec_then (dec_bytes (div_ceil MAX_PIECE_STATE_COVERED_PIECES 8)) (\<lambda>bitmap.
     dec_then dec_u32 (\<lambda>run_count.
     dec_then (dec_evidence_runs run_count) (\<lambda>runs.
       dec_return (JP_PieceStateChunk layout_hash root_hash chunk_index chunk_count (PieceId first_piece) covered
         bitmap runs))))))))))"
| "decode_body nfc sha RT_HttpStrongValidator =
     dec_then dec_hash (\<lambda>resource_fingerprint.
     dec_then dec_hash (\<lambda>fingerprint.
     dec_then dec_u64 (\<lambda>total_length.
     dec_then (dec_bytes MAX_HTTP_STRONG_ETAG_BYTES) (\<lambda>etag.
       dec_return (JP_HttpStrongValidator resource_fingerprint fingerprint total_length etag)))))"
| "decode_body nfc sha RT_HttpRangeIdentity =
     dec_then dec_hash (\<lambda>fingerprint.
     dec_then dec_u64 (\<lambda>total_length.
     dec_then dec_digest (\<lambda>digest. dec_return (JP_HttpRangeIdentity fingerprint total_length digest))))"
| "decode_body nfc sha RT_VerificationManifest =
     dec_then dec_hash (\<lambda>fingerprint.
     dec_then dec_u32 (\<lambda>total_bytes.
     dec_then dec_u32 (\<lambda>chunk_count.
     dec_then (dec_bytes VERIFICATION_MANIFEST_PART_BYTES) (\<lambda>bytes.
       dec_return (JP_VerificationManifest fingerprint total_bytes chunk_count bytes)))))"
| "decode_body nfc sha RT_VerificationManifestChunk =
     dec_then dec_hash (\<lambda>fingerprint.
     dec_then dec_u32 (\<lambda>chunk_index.
     dec_then dec_u32 (\<lambda>chunk_count.
     dec_then (dec_bytes VERIFICATION_MANIFEST_PART_BYTES) (\<lambda>bytes.
       dec_return (JP_VerificationManifestChunk fingerprint chunk_index chunk_count bytes)))))"
| "decode_body nfc sha RT_ProtocolValidator =
     dec_then dec_validator (\<lambda>validator. dec_return (JP_ProtocolValidator validator))"
| "decode_body nfc sha RT_WholeFileVerified =
     dec_then dec_hash (\<lambda>fingerprint.
     dec_then dec_u8 (\<lambda>count.
       if count > 2 then dec_of (Inl PC_InvalidVerificationManifest)
       else dec_then (dec_repeat (unat count) dec_digest) (\<lambda>digests.
              dec_return (JP_WholeFileVerified fingerprint digests))))"
| "decode_body nfc sha RT_HostKeyState =
     dec_then (dec_host_key_state sha) (\<lambda>state. dec_return (JP_HostKeyState state))"
| "decode_body nfc sha RT_MetadataComplete =
     dec_then (dec_bytes (64 * 1024)) (\<lambda>bytes.
     dec_then (dec_of (ok_or PC_InvalidVerificationManifest
         (Option.bind (from_utf8 bytes) expansion_parse))) (\<lambda>expansion.
     dec_then dec_u64 (\<lambda>completed_at. dec_return (JP_MetadataComplete expansion completed_at))))"

definition payload_decode ::
  "(string \<Rightarrow> string) \<Rightarrow> sha256 \<Rightarrow> record_type \<Rightarrow> u8 list \<Rightarrow> (payload_codec_error, journal_payload) result" where
  "payload_decode nfc sha record_type input =
     (if length input > MAX_RECORD_PAYLOAD then Inl PC_PayloadTooLarge
      else
        and_then (decode_body nfc sha record_type input) (\<lambda>(payload, rest).
          if rest \<noteq> [] then Inl PC_TrailingBytes
          else and_then (validate_payload nfc sha payload) (\<lambda>_. Inr payload)))"

definition record_decode_payload ::
  "(string \<Rightarrow> string) \<Rightarrow> sha256 \<Rightarrow> journal_record \<Rightarrow> (payload_codec_error, journal_payload) result" where
  "record_decode_payload nfc sha record = payload_decode nfc sha (jr_record_type record) (jr_payload record)"

end
