(* ===== verification/PayloadRoundTrip.thy ===== *)
theory PayloadRoundTrip
  imports PayloadCodec
begin

text \<open>
  The payload codec is exact: decoding the bytes of a record type yields a payload exactly when the payload
  has that type and the bytes are its encoding. The locale \<open>codec\<close> states this contract of a decoder and an
  encoder; it is interpreted on every operation of the two, from integers up to file entries and evidence
  runs, and gives what the payloads need of repetition and of optional fields.
\<close>

named_theorems read_simps \<open>a decoder succeeds exactly on what the encoder wrote\<close>
named_theorems run_simps \<open>a decoder runs over what the encoder wrote\<close>
named_theorems write_simps \<open>what an encoder writes\<close>

section \<open>Sequences of operations\<close>

lemma dec_then_iff: "dec_then d k r = Inr x \<longleftrightarrow> (\<exists>a r'. d r = Inr (a, r') \<and> k a r' = Inr x)"
  by (auto simp: dec_then_def and_then_eq_Inr)

lemma dec_return_iff: "dec_return a r = Inr x \<longleftrightarrow> x = (a, r)"
  by (auto simp: dec_return_def)

lemma dec_of_iff: "dec_of res r = Inr x \<longleftrightarrow> (\<exists>a. res = Inr a \<and> x = (a, r))"
  by (auto simp: dec_of_def and_then_eq_Inr)

lemma dec_run [run_simps]:
  "d r = Inr (a, r') \<Longrightarrow> dec_then d k r = k a r'" "dec_return a r = Inr (a, r)"
  "dec_of (Inr a) r = Inr (a, r)"
  by (simp_all add: dec_then_def dec_return_def dec_of_def and_then_def)

lemma enc_all_Cons_iff:
  "enc_all (e # es) = Inr bs \<longleftrightarrow> (\<exists>b c. e = Inr b \<and> enc_all es = Inr c \<and> bs = b @ c)"
  by (auto simp: and_then_eq_Inr)

lemma enc_all_Nil_iff: "enc_all [] = Inr bs \<longleftrightarrow> bs = []"
  by auto

declare enc_all.simps(2) [simp del]

lemmas seq_simps = dec_then_iff dec_return_iff dec_of_iff enc_all_Cons_iff enc_all_Nil_iff

lemma enc_all_append:
  "enc_all (es @ fs) = Inr bs \<longleftrightarrow> (\<exists>b c. enc_all es = Inr b \<and> enc_all fs = Inr c \<and> bs = b @ c)"
  by (induction es arbitrary: bs) (auto simp: enc_all_Cons_iff)

section \<open>The contract\<close>

locale codec =
  fixes dec :: "'a decoder" and enc :: "'a \<Rightarrow> encoding" and wf :: "'a \<Rightarrow> bool"
  assumes write_read: "enc a = Inr bs \<Longrightarrow> wf a \<Longrightarrow> dec (bs @ r) = Inr (a, r)"
    and read_write: "dec r = Inr (a, r') \<Longrightarrow> wf a \<and> (\<exists>bs. enc a = Inr bs \<and> r = bs @ r')"
begin

lemma read_iff: "dec r = Inr (a, r') \<longleftrightarrow> wf a \<and> (\<exists>bs. enc a = Inr bs \<and> r = bs @ r')"
  using read_write write_read by blast

lemma prefix_free:
  assumes "wf a" "wf b" "enc a = Inr bs" "enc b = Inr cs" "bs @ r = cs @ s"
  shows "a = b \<and> r = s"
  using assms read_iff [of "bs @ r" a r] read_iff [of "cs @ s" b s] by auto

lemma repeat_iff:
  "dec_repeat n dec r = Inr (as, r') \<longleftrightarrow>
     length as = n \<and> (\<forall>a\<in>set as. wf a) \<and> (\<exists>bs. enc_all (map enc as) = Inr bs \<and> r = bs @ r')"
proof (induction n arbitrary: r as)
  case (Suc n)
  show ?case
    by (cases as) (auto simp: seq_simps read_iff Suc)
qed (auto simp: seq_simps)

lemma optional_iff:
  "dec_optional dec r = Inr (v, r') \<longleftrightarrow>
     (case v of None \<Rightarrow> r = 0 # r' | Some a \<Rightarrow> wf a \<and> (\<exists>bs. enc a = Inr bs \<and> r = 1 # bs @ r'))"
proof -
  have "dec_u8 r = Inr (b, r1) \<longleftrightarrow> r = b # r1" for b r1
    by (cases r) (auto simp: dec_u8_def dec_take_def seq_simps)
  then show ?thesis
    by (cases v) (auto simp: dec_optional_def seq_simps read_iff split: if_splits intro: exI [of _ 0])
qed

end

section \<open>Integers, texts and spans\<close>

lemma dec_take_iff: "dec_take n r = Inr (bs, r') \<longleftrightarrow> length bs = n \<and> r = bs @ r'"
  by (auto simp: dec_take_def append_eq_conv_conj)

lemma dec_u8_iff [read_simps]: "dec_u8 r = Inr (b, r') \<longleftrightarrow> r = b # r'"
  by (cases r) (auto simp: dec_u8_def dec_take_def seq_simps)

lemma dec_u16_iff [read_simps]: "dec_u16 r = Inr (w, r') \<longleftrightarrow> r = u16_le w @ r'"
  by (auto simp: dec_u16_def seq_simps dec_take_iff)

lemma dec_u32_iff [read_simps]: "dec_u32 r = Inr (w, r') \<longleftrightarrow> r = u32_le w @ r'"
  by (auto simp: dec_u32_def seq_simps dec_take_iff)

lemma dec_u64_iff [read_simps]: "dec_u64 r = Inr (w, r') \<longleftrightarrow> r = u64_le w @ r'"
  by (auto simp: dec_u64_def seq_simps dec_take_iff)

lemmas enc_defs [write_simps] = enc_fixed_def enc_u8_def enc_bool_def enc_u16_def enc_u32_def enc_u64_def enc_hash_def

lemma dec_bool_iff [read_simps]: "dec_bool r = Inr (b, r') \<longleftrightarrow> r = (if b then 1 else 0) # r'"
  by (auto simp: dec_bool_def seq_simps read_simps split: if_splits intro: exI [of _ 0])

lemma dec_required_id_iff [read_simps]: "dec_required_id r = Inr (w, r') \<longleftrightarrow> w \<noteq> 0 \<and> r = u64_le w @ r'"
  by (auto simp: dec_required_id_def seq_simps read_simps split: if_splits)

lemma dec_hash_iff [read_simps]: "dec_hash r = Inr (h, r') \<longleftrightarrow> journal_hash_wf h \<and> r = journal_hash_bytes h @ r'"
  by (cases h) (auto simp: dec_hash_def seq_simps dec_take_iff journal_hash_new_def journal_hash_wf_def split: if_splits)

lemma dec_checkpoint_id_iff [read_simps]:
  "dec_checkpoint_id r = Inr (c, r') \<longleftrightarrow> checkpoint_id_wf c \<and> r = checkpoint_id_bytes c @ r'"
  by (cases c) (auto simp: dec_checkpoint_id_def seq_simps dec_take_iff checkpoint_id_new_def checkpoint_id_wf_def
      split: if_splits)

lemma enc_span_eq [write_simps]: "enc_span s = Inr (u64_le (ps_offset s) @ u64_le (ps_len s))"
  by (simp add: enc_span_def enc_all.simps and_then_def write_simps)

lemma dec_span_iff [read_simps]:
  "dec_span r = Inr (s, r') \<longleftrightarrow> persisted_span_wf s \<and> r = u64_le (ps_offset s) @ u64_le (ps_len s) @ r'"
  by (cases s) (auto simp: dec_span_def seq_simps read_simps persisted_span_new_def persisted_span_wf_def
      and_then_eq_Inr checked_add_def split: if_splits)

lemma enc_bytes_iff [write_simps]:
  "enc_bytes v = Inr bs \<longleftrightarrow> length v < 2 ^ 32 \<and> bs = u32_le (word_of_nat (length v)) @ v"
  by (auto simp: enc_bytes_def enc_all_Cons_iff write_simps)

lemma dec_bytes_with_error_iff [read_simps]:
  assumes "maximum < 2 ^ 32"
  shows "dec_bytes_with_error maximum e r = Inr (v, r') \<longleftrightarrow>
    length v \<le> maximum \<and> r = u32_le (word_of_nat (length v)) @ v @ r'"
proof -
  have "(\<exists>n :: u32. \<not> maximum < unat n \<and> length v = unat n \<and> r = u32_le n @ v @ r') \<longleftrightarrow>
      length v \<le> maximum \<and> r = u32_le (word_of_nat (length v)) @ v @ r'"
    using assms by (auto simp: unat_of_nat intro!: exI [of _ "word_of_nat (length v) :: u32"])
  then show ?thesis
    by (auto simp: dec_bytes_with_error_def seq_simps read_simps dec_take_iff split: if_splits)
qed

lemma dec_bytes_iff [read_simps]:
  "maximum < 2 ^ 32 \<Longrightarrow> dec_bytes maximum r = Inr (v, r') \<longleftrightarrow>
    length v \<le> maximum \<and> r = u32_le (word_of_nat (length v)) @ v @ r'"
  by (simp add: dec_bytes_def dec_bytes_with_error_iff)

lemma dec_text_iff [read_simps]: "dec_text bs r = Inr (s, r') \<longleftrightarrow> bs = as_bytes s \<and> is_text s \<and> r' = r"
  by (auto simp: dec_text_def seq_simps from_utf8_iff)

lemma dec_text_field_iff [read_simps]:
  "maximum < 2 ^ 32 \<Longrightarrow> dec_text_field maximum e r = Inr (s, r') \<longleftrightarrow>
     length s \<le> maximum \<and> is_text s \<and> r = u32_le (word_of_nat (length s)) @ as_bytes s @ r'"
  by (auto simp: dec_text_field_def seq_simps read_simps)

lemma dec_tag_iff:
  assumes "\<And>v t. tag_try_from vocabulary tags v = Inr t \<longleftrightarrow> v = tag_number tags t"
  shows "dec_tag vocabulary tags r = Inr (t, r') \<longleftrightarrow> r = tag_number tags t # r'"
  by (auto simp: dec_tag_def seq_simps read_simps assms)

lemma dec_primitive_run [run_simps]:
  "dec_u8 (b # r) = Inr (b, r)" "dec_u16 (u16_le x @ r) = Inr (x, r)" "dec_u32 (u32_le y @ r) = Inr (y, r)"
  "dec_u64 (u64_le z @ r) = Inr (z, r)" "z \<noteq> 0 \<Longrightarrow> dec_required_id (u64_le z @ r) = Inr (z, r)"
  "dec_bool ((if c then 1 else 0) # r) = Inr (c, r)"
  "journal_hash_wf h \<Longrightarrow> dec_hash (journal_hash_bytes h @ r) = Inr (h, r)"
  "checkpoint_id_wf i \<Longrightarrow> dec_checkpoint_id (checkpoint_id_bytes i @ r) = Inr (i, r)"
  "persisted_span_wf s \<Longrightarrow> dec_span (u64_le (ps_offset s) @ u64_le (ps_len s) @ r) = Inr (s, r)"
  "length bs \<le> m \<Longrightarrow> m < 2 ^ 32 \<Longrightarrow>
     dec_bytes_with_error m e (u32_le (word_of_nat (length bs)) @ bs @ r) = Inr (bs, r)"
  "length bs \<le> m \<Longrightarrow> m < 2 ^ 32 \<Longrightarrow> dec_bytes m (u32_le (word_of_nat (length bs)) @ bs @ r) = Inr (bs, r)"
  "length t \<le> m \<Longrightarrow> m < 2 ^ 32 \<Longrightarrow> is_text t \<Longrightarrow>
     dec_text_field m e (u32_le (word_of_nat (length t)) @ as_bytes t @ r) = Inr (t, r)"
  by (simp_all add: read_simps)

section \<open>Tags, error kinds and digests\<close>

lemmas dec_tags_iff [read_simps] =
  dec_tag_iff [OF durability.try_from_iff] dec_tag_iff [OF snapshot_scope.try_from_iff]
  dec_tag_iff [OF start_reason.try_from_iff] dec_tag_iff [OF abort_reason.try_from_iff]
  dec_tag_iff [OF data_barrier.try_from_iff] dec_tag_iff [OF scope.try_from_iff]
  dec_tag_iff [OF reason.try_from_iff] dec_tag_iff [OF pause_reason.try_from_iff]
  dec_tag_iff [OF remove_reason.try_from_iff]

lemma dec_error_kind_iff [read_simps]: "dec_error_kind r = Inr (k, r') \<longleftrightarrow> r = error_kind_number k # r'"
  by (auto simp: dec_error_kind_def seq_simps read_simps error_kind_try_from_iff)

lemma digest_algorithm_try_from_iff: "digest_algorithm_try_from s = Inr a \<longleftrightarrow> s = digest_algorithm_code a"
  by (cases a) (auto simp: digest_algorithm_try_from_def)

lemma digest_algorithm_code_text: "is_text (digest_algorithm_code a)" "length (digest_algorithm_code a) \<le> 7"
  "digest_algorithm_code a \<noteq> []"
  by (cases a; simp add: is_text_def utf8_valid_def as_bytes_def byte_of_char_def)+

lemma digest_value_length_bound: "digest_value_length a \<le> 64" "0 < digest_value_length a"
  by (cases a; simp)+

lemma journal_digest_new_iff:
  "journal_digest_new a v = Inr d \<longleftrightarrow> jd_algorithm d = a \<and> jd_value d = v \<and> journal_digest_wf d"
  by (cases d) (auto simp: journal_digest_new_def journal_digest_wf_def split: if_splits)

lemma digest_run [run_simps]:
  "digest_algorithm_try_from (digest_algorithm_code a) = Inr a"
  "journal_digest_wf d \<Longrightarrow> journal_digest_new (jd_algorithm d) (jd_value d) = Inr d"
  by (simp_all add: digest_algorithm_try_from_iff journal_digest_new_iff)

interpretation digest_codec: codec dec_digest enc_digest journal_digest_wf
proof
  fix d :: journal_digest and bs r
  assume "enc_digest d = Inr bs" and wf: "journal_digest_wf d"
  moreover have "length (jd_value d) \<le> 64"
    using wf digest_value_length_bound by (simp add: journal_digest_wf_def)
  ultimately show "dec_digest (bs @ r) = Inr (d, r)"
    using digest_algorithm_code_text [of "jd_algorithm d"]
    by (auto simp: enc_digest_def seq_simps write_simps)
      (simp add: dec_digest_def run_simps)
next
  fix r d r'
  assume "dec_digest r = Inr (d, r')"
  then show "journal_digest_wf d \<and> (\<exists>bs. enc_digest d = Inr bs \<and> r = bs @ r')"
    by (auto simp: dec_digest_def enc_digest_def seq_simps read_simps write_simps journal_digest_new_iff
        digest_algorithm_try_from_iff)
qed

lemmas dec_digest_iff [read_simps] = digest_codec.read_iff

lemma dec_optional_digest_iff [read_simps]:
  "dec_optional_digest r = Inr (v, r') \<longleftrightarrow>
     (case v of None \<Rightarrow> True | Some d \<Rightarrow> journal_digest_wf d) \<and> (\<exists>bs. enc_optional_digest v = Inr bs \<and> r = bs @ r')"
  by (cases v) (auto simp: dec_optional_digest_def digest_codec.optional_iff enc_optional_digest_def seq_simps write_simps)

interpretation id_codec: codec dec_required_id enc_u64 "\<lambda>w. w \<noteq> 0"
  by unfold_locales (auto simp: read_simps write_simps)

interpretation u64_codec: codec dec_u64 enc_u64 "\<lambda>_. True"
  by unfold_locales (auto simp: read_simps write_simps)

interpretation hash_codec: codec dec_hash enc_hash journal_hash_wf
  by unfold_locales (auto simp: read_simps write_simps)

lemma enc_optional_id_iff [write_simps]:
  "enc_optional_id v = Inr bs \<longleftrightarrow> v \<noteq> Some 0 \<and> bs = (case v of None \<Rightarrow> [0] | Some w \<Rightarrow> 1 # u64_le w)"
  by (auto simp: enc_optional_id_def seq_simps write_simps split: option.splits)

lemma dec_optional_id_iff [read_simps]:
  "dec_optional_id r = Inr (v, r') \<longleftrightarrow> v \<noteq> Some 0 \<and> r = (case v of None \<Rightarrow> [0] | Some w \<Rightarrow> 1 # u64_le w) @ r'"
  by (cases v) (auto simp: dec_optional_id_def id_codec.optional_iff write_simps)

lemma enc_optional_u64_eq [write_simps]:
  "enc_optional_u64 v = Inr (case v of None \<Rightarrow> [0] | Some w \<Rightarrow> 1 # u64_le w)"
  by (auto simp: enc_optional_u64_def enc_all.simps and_then_def write_simps split: option.splits)

lemma dec_optional_u64_iff [read_simps]:
  "dec_optional_u64 r = Inr (v, r') \<longleftrightarrow> r = (case v of None \<Rightarrow> [0] | Some w \<Rightarrow> 1 # u64_le w) @ r'"
  by (cases v) (auto simp: dec_optional_u64_def u64_codec.optional_iff write_simps)

section \<open>Paths and file entries\<close>

definition platform_path_wf :: "platform_path \<Rightarrow> bool" where
  "platform_path_wf p \<longleftrightarrow> from_native_bytes (pp_platform p) (pp_bytes p) = Inr p"

lemma from_native_bytes_iff:
  "from_native_bytes platform bytes = Inr p \<longleftrightarrow>
   pp_platform p = platform \<and> pp_bytes p = bytes \<and> platform_path_wf p"
  by (cases p) (auto simp: from_native_bytes_def platform_path_wf_def split: if_splits)

lemma platform_path_wf_length: "platform_path_wf p \<Longrightarrow> length (pp_bytes p) \<le> MAX_PLATFORM_PATH_BYTES"
  by (auto simp: from_native_bytes_def platform_path_wf_def split: if_splits)

lemma platform_tag_iff:
  "(if v = 1 then Inr PP_Unix else if v = 2 then Inr PP_Windows else Inl (PC_InvalidPlatformTag v)) = Inr p \<longleftrightarrow>
   v = path_platform_number p"
  by (cases p) auto

lemma platform_run [run_simps]:
  "(if path_platform_number p = 1 then Inr PP_Unix else if path_platform_number p = 2 then Inr PP_Windows
    else Inl (PC_InvalidPlatformTag v)) = Inr p"
  "platform_path_wf q \<Longrightarrow> from_native_bytes (pp_platform q) (pp_bytes q) = Inr q"
  by (cases p) (simp_all add: from_native_bytes_iff)

interpretation platform_path_codec: codec dec_platform_path enc_platform_path platform_path_wf
proof
  fix p :: platform_path and bs r
  assume "enc_platform_path p = Inr bs" "platform_path_wf p"
  then show "dec_platform_path (bs @ r) = Inr (p, r)"
    using platform_path_wf_length [of p]
    by (auto simp: enc_platform_path_def seq_simps write_simps)
      (simp add: dec_platform_path_def run_simps MAX_PLATFORM_PATH_BYTES_def)
next
  fix r p r'
  assume "dec_platform_path r = Inr (p, r')"
  then show "platform_path_wf p \<and> (\<exists>bs. enc_platform_path p = Inr bs \<and> r = bs @ r')"
    by (auto simp: dec_platform_path_def enc_platform_path_def seq_simps read_simps write_simps from_native_bytes_iff
        platform_tag_iff MAX_PLATFORM_PATH_BYTES_def)
qed

lemma journal_relative_path_new_iff:
  "is_text s \<Longrightarrow> journal_relative_path_new nfc s = Inr p \<longleftrightarrow>
   journal_relative_path_str p = s \<and> journal_relative_path_wf nfc p"
  by (cases p) (auto simp: journal_relative_path_new_def journal_relative_path_wf_def and_then_eq_Inr split: if_splits)

lemma journal_relative_path_wf_text:
  "journal_relative_path_wf nfc p \<Longrightarrow>
   is_text (journal_relative_path_str p) \<and> length (journal_relative_path_str p) \<le> MAX_SAFE_RELATIVE_BYTES"
  by (auto simp: journal_relative_path_new_def journal_relative_path_wf_def and_then_eq_Inr split: if_splits)

definition enc_relative_path :: "journal_relative_path \<Rightarrow> encoding" where
  "enc_relative_path p = enc_bytes (as_bytes (journal_relative_path_str p))"

lemma relative_path_run [run_simps]:
  "journal_relative_path_wf nfc p \<Longrightarrow> journal_relative_path_new nfc (journal_relative_path_str p) = Inr p"
  by (simp add: journal_relative_path_wf_def)

interpretation relative_path_codec: codec "dec_relative_path nfc" enc_relative_path "journal_relative_path_wf nfc"
proof
  fix p bs r
  assume "enc_relative_path p = Inr bs" "journal_relative_path_wf nfc p"
  then show "dec_relative_path nfc (bs @ r) = Inr (p, r)"
    using journal_relative_path_wf_text [of nfc p]
    by (auto simp: enc_relative_path_def write_simps)
      (simp add: dec_relative_path_def run_simps MAX_SAFE_RELATIVE_BYTES_def)
next
  fix r p r'
  assume "dec_relative_path nfc r = Inr (p, r')"
  then show "journal_relative_path_wf nfc p \<and> (\<exists>bs. enc_relative_path p = Inr bs \<and> r = bs @ r')"
    by (auto simp: dec_relative_path_def enc_relative_path_def seq_simps read_simps write_simps
        journal_relative_path_new_iff MAX_SAFE_RELATIVE_BYTES_def)
qed

lemma take_bit_small: "unat (v :: 'a::len word) < 2 ^ n \<Longrightarrow> take_bit n v = v"
  by (simp add: word_unat_eq_iff unsigned_take_bit_eq take_bit_nat_eq_self)

lemma file_id_words:
  "unat (v :: u64) < 2 ^ 32 \<Longrightarrow> ucast (ucast v :: u32) = v" "ucast (ucast (w :: u32) :: u64) = w"
  "unat (ucast (w :: u32) :: u64) < 2 ^ 32"
proof -
  have w: "unat w < 2 ^ 32" using unsigned_less [of w] by simp
  then show u: "unat (ucast w :: u64) < 2 ^ 32"
    by (simp add: unsigned_ucast_eq take_bit_nat_eq_self)
  show "unat v < 2 ^ 32 \<Longrightarrow> ucast (ucast v :: u32) = v"
    by (simp add: unsigned_ucast_eq take_bit_small)
  show "ucast (ucast w :: u64) = w"
    using w by (simp add: unsigned_ucast_eq take_bit_small)
qed

lemma dec_file_id_iff [read_simps]:
  "dec_file_id r = Inr (f, r') \<longleftrightarrow> r = u64_le (ucast (file_id_get f)) @ r'"
proof -
  have "(\<exists>v :: u64. unat v < 2 ^ 32 \<and> f = FileId (ucast v) \<and> r = u64_le v @ r') \<longleftrightarrow>
      r = u64_le (ucast (file_id_get f)) @ r'"
    using file_id_words by (cases f) (auto intro: exI [of _ "ucast (file_id_get f)"])
  then show ?thesis by (auto simp: dec_file_id_def seq_simps read_simps not_le split: if_splits)
qed

lemma dec_file_id_run [run_simps]: "dec_file_id (u64_le (ucast (file_id_get f)) @ r) = Inr (f, r)"
  by (simp add: read_simps)

lemma journal_file_layout_entry_new_iff:
  assumes "journal_relative_path_wf nfc p"
  shows "journal_file_layout_entry_new f s e n sel p i = Inr x \<longleftrightarrow>
    jf_file_id x = f \<and> jf_global_start x = s \<and> jf_global_end x = e \<and> jf_length x = n \<and> jf_selected x = sel
    \<and> jf_safe_relative_path x = p \<and> jf_file_identity x = i \<and> journal_file_layout_entry_wf nfc x"
  using assms
  by (cases x) (auto simp: journal_file_layout_entry_new_def journal_file_layout_entry_wf_def split: if_splits)

lemma file_entry_run [run_simps]:
  "journal_file_layout_entry_wf nfc x \<Longrightarrow>
   journal_file_layout_entry_new (jf_file_id x) (jf_global_start x) (jf_global_end x) (jf_length x) (jf_selected x)
     (jf_safe_relative_path x) (jf_file_identity x) = Inr x"
  by (subst journal_file_layout_entry_new_iff [of nfc]) (simp_all add: journal_file_layout_entry_wf_def)

lemma relative_path_field_run [run_simps]:
  "journal_relative_path_wf nfc p \<Longrightarrow>
   dec_relative_path nfc (u32_le (word_of_nat (length (journal_relative_path_str p)))
     @ as_bytes (journal_relative_path_str p) @ r) = Inr (p, r)"
  using relative_path_codec.write_read [of p _ nfc r] journal_relative_path_wf_text [of nfc p]
  by (simp add: enc_relative_path_def write_simps MAX_SAFE_RELATIVE_BYTES_def)

lemma relative_path_field_iff [read_simps]:
  "dec_relative_path nfc r = Inr (p, r') \<longleftrightarrow> journal_relative_path_wf nfc p
     \<and> r = u32_le (word_of_nat (length (journal_relative_path_str p))) @ as_bytes (journal_relative_path_str p) @ r'"
  using journal_relative_path_wf_text [of nfc p]
  by (auto simp: relative_path_codec.read_iff enc_relative_path_def write_simps MAX_SAFE_RELATIVE_BYTES_def)

interpretation file_entry_codec: codec "dec_file_entry nfc" enc_file_entry "journal_file_layout_entry_wf nfc"
proof
  fix x bs r
  assume enc: "enc_file_entry x = Inr bs" and wf: "journal_file_layout_entry_wf nfc x"
  then have "journal_relative_path_wf nfc (jf_safe_relative_path x)" "length (jf_file_identity x) \<le> MAX_IDENTITY_BYTES"
    by (simp_all add: journal_file_layout_entry_wf_def)
  then show "dec_file_entry nfc (bs @ r) = Inr (x, r)"
    using enc wf
    by (auto simp: enc_file_entry_def seq_simps write_simps split del: if_split)
      (simp_all add: dec_file_entry_def run_simps MAX_IDENTITY_BYTES_def)
next
  fix r x r'
  assume "dec_file_entry nfc r = Inr (x, r')"
  then show "journal_file_layout_entry_wf nfc x \<and> (\<exists>bs. enc_file_entry x = Inr bs \<and> r = bs @ r')"
    using journal_relative_path_wf_text [of nfc "jf_safe_relative_path x"]
    by (auto simp: dec_file_entry_def enc_file_entry_def seq_simps read_simps write_simps
        journal_file_layout_entry_new_iff MAX_IDENTITY_BYTES_def MAX_SAFE_RELATIVE_BYTES_def)
qed

text \<open>A file entry takes at least 42 bytes, so the check on the number of entries refuses no encoding.\<close>

lemma enc_file_entry_size:
  "enc_file_entry x = Inr bs \<Longrightarrow> journal_file_layout_entry_wf nfc x \<Longrightarrow> 42 \<le> length bs"
proof -
  assume enc: "enc_file_entry x = Inr bs" and wf: "journal_file_layout_entry_wf nfc x"
  have "journal_relative_path_str (jf_safe_relative_path x) \<noteq> []"
    using wf by (auto simp: journal_file_layout_entry_wf_def journal_relative_path_wf_def journal_relative_path_new_def
        from_user_path_def and_then_eq_Inr build_components_iff split: if_splits)
  with enc show ?thesis by (cases "journal_relative_path_str (jf_safe_relative_path x)")
      (auto simp: enc_file_entry_def seq_simps write_simps)
qed

lemma enc_all_size:
  assumes "enc_all (map enc xs) = Inr bs" "\<And>x b. x \<in> set xs \<Longrightarrow> enc x = Inr b \<Longrightarrow> m \<le> length b"
  shows "length xs * m \<le> length bs"
  using assms
proof (induction xs arbitrary: bs)
  case (Cons x xs)
  then obtain b c where "enc x = Inr b" "enc_all (map enc xs) = Inr c" "bs = b @ c" by (auto simp: enc_all_Cons_iff)
  with Cons show ?case by force
qed simp

lemma file_entries_run [run_simps]:
  assumes "enc_file_entries xs = Inr bs" "\<forall>x\<in>set xs. journal_file_layout_entry_wf nfc x"
    and "length xs \<le> MAX_LAYOUT_ENTRIES"
  shows "dec_file_entries nfc (word_of_nat (length xs)) (bs @ r) = Inr (xs, r)"
proof -
  have n: "unat (word_of_nat (length xs) :: u32) = length xs"
    using assms(3) by (simp add: unat_of_nat MAX_LAYOUT_ENTRIES_def)
  have "length xs * 42 \<le> length bs"
    using assms(1,2) enc_file_entry_size by (intro enc_all_size [of enc_file_entry]) (auto simp: enc_file_entries_def)
  moreover have "dec_repeat (length xs) (dec_file_entry nfc) (bs @ r) = Inr (xs, r)"
    using assms(1,2) by (auto simp: file_entry_codec.repeat_iff enc_file_entries_def)
  ultimately show ?thesis using assms(3) by (simp add: dec_file_entries_def n)
qed

lemma file_entries_iff [read_simps]:
  "dec_file_entries nfc n r = Inr (xs, r') \<longleftrightarrow>
     n = word_of_nat (length xs) \<and> (\<forall>x\<in>set xs. journal_file_layout_entry_wf nfc x) \<and> length xs \<le> MAX_LAYOUT_ENTRIES
     \<and> (\<exists>bs. enc_file_entries xs = Inr bs \<and> r = bs @ r')"
  using file_entries_run [of xs _ nfc r']
  by (auto simp: dec_file_entries_def file_entry_codec.repeat_iff enc_file_entries_def split: if_splits)

section \<open>Evidence runs\<close>

lemma evidence_algorithm_iff:
  "(if name = [] then dec_return None
    else dec_then (dec_text name) (\<lambda>text. dec_then (dec_of (digest_algorithm_try_from text)) (\<lambda>a. dec_return (Some a)))) r
     = Inr (v, r') \<longleftrightarrow>
   r' = r \<and> name = (case v of Some a \<Rightarrow> as_bytes (digest_algorithm_code a) | None \<Rightarrow> [])"
  using digest_algorithm_code_text
  by (cases v) (auto simp: seq_simps read_simps digest_algorithm_try_from_iff, simp add: as_bytes_def)

lemma durable_evidence_run_new_iff:
  assumes "journal_hash_wf h"
  shows "durable_evidence_run_new f n h a vs = Inr x \<longleftrightarrow>
    er_first_piece_delta x = f \<and> er_piece_count x = n \<and> er_validator_set_fingerprint x = h
    \<and> er_digest_algorithm x = a \<and> er_digest_values x = vs \<and> durable_evidence_run_wf x"
proof -
  have fits: "\<not> usize_max < unat n * digest_value_length al" for al
  proof -
    have "unat n < 2 ^ 32" using unsigned_less [of n] by simp
    then have "unat n * digest_value_length al \<le> 2 ^ 32 * 64" using digest_value_length_bound(1) [of al]
      by (intro mult_mono) simp_all
    then show ?thesis by (simp add: usize_max_def)
  qed
  show ?thesis
    using assms fits
    by (cases x) (auto simp: durable_evidence_run_new_def durable_evidence_run_wf_def and_then_eq_Inr Let_def
        split: if_splits option.splits)
qed

lemma evidence_run_run [run_simps]:
  "durable_evidence_run_wf x \<Longrightarrow> durable_evidence_run_new (er_first_piece_delta x) (er_piece_count x)
     (er_validator_set_fingerprint x) (er_digest_algorithm x) (er_digest_values x) = Inr x"
  by (subst durable_evidence_run_new_iff) (simp_all add: durable_evidence_run_wf_def)

lemma evidence_algorithm_run [run_simps]:
  "(if (case v of Some a \<Rightarrow> as_bytes (digest_algorithm_code a) | None \<Rightarrow> []) = [] then dec_return None
    else dec_then (dec_text (case v of Some a \<Rightarrow> as_bytes (digest_algorithm_code a) | None \<Rightarrow> []))
      (\<lambda>text. dec_then (dec_of (digest_algorithm_try_from text)) (\<lambda>a. dec_return (Some a)))) r = Inr (v, r)"
  by (simp add: evidence_algorithm_iff del: if_split)

lemma evidence_name_length:
  "length (case v of Some a \<Rightarrow> as_bytes (digest_algorithm_code a) | None \<Rightarrow> []) \<le> 7"
  using digest_algorithm_code_text(2) by (auto split: option.splits)

text \<open>The values of one run fit a record: a run that was accepted covers at most 131072 pieces.\<close>

definition evidence_values_fit :: "durable_evidence_run \<Rightarrow> bool" where
  "evidence_values_fit x \<longleftrightarrow> length (er_digest_values x) \<le> MAX_RECORD_PAYLOAD"

interpretation evidence_codec: codec dec_evidence_run enc_evidence_run
  "\<lambda>x. durable_evidence_run_wf x \<and> evidence_values_fit x"
proof
  fix x :: durable_evidence_run and bs r
  assume enc: "enc_evidence_run x = Inr bs" and wf: "durable_evidence_run_wf x \<and> evidence_values_fit x"
  then have "journal_hash_wf (er_validator_set_fingerprint x)" "length (er_digest_values x) \<le> MAX_RECORD_PAYLOAD"
    by (simp_all add: durable_evidence_run_wf_def evidence_values_fit_def)
  then show "dec_evidence_run (bs @ r) = Inr (x, r)"
    using enc wf evidence_name_length [of "er_digest_algorithm x"]
    by (auto simp: enc_evidence_run_def seq_simps write_simps split del: if_split)
      (simp_all add: dec_evidence_run_def run_simps MAX_RECORD_PAYLOAD_def del: if_split)
next
  fix r and x :: durable_evidence_run and r'
  assume "dec_evidence_run r = Inr (x, r')"
  then show "(durable_evidence_run_wf x \<and> evidence_values_fit x) \<and> (\<exists>bs. enc_evidence_run x = Inr bs \<and> r = bs @ r')"
    by (auto simp: dec_evidence_run_def enc_evidence_run_def seq_simps read_simps write_simps evidence_algorithm_iff
        durable_evidence_run_new_iff evidence_values_fit_def MAX_RECORD_PAYLOAD_def split: if_splits)
qed

lemma enc_evidence_run_size: "enc_evidence_run x = Inr bs \<Longrightarrow> durable_evidence_run_wf x \<Longrightarrow> 50 \<le> length bs"
  by (auto simp: enc_evidence_run_def durable_evidence_run_wf_def journal_hash_wf_def seq_simps write_simps)

lemma evidence_runs_run [run_simps]:
  assumes "enc_evidence_runs xs = Inr bs" "\<forall>x\<in>set xs. durable_evidence_run_wf x \<and> evidence_values_fit x"
    and "length xs \<le> MAX_PIECE_STATE_COVERED_PIECES"
  shows "dec_evidence_runs (word_of_nat (length xs)) (bs @ r) = Inr (xs, r)"
proof -
  have n: "unat (word_of_nat (length xs) :: u32) = length xs"
    using assms(3) by (simp add: unat_of_nat MAX_PIECE_STATE_COVERED_PIECES_def)
  have "length xs * 50 \<le> length bs"
    using assms(1,2) enc_evidence_run_size by (intro enc_all_size [of enc_evidence_run]) (auto simp: enc_evidence_runs_def)
  moreover have "dec_repeat (length xs) dec_evidence_run (bs @ r) = Inr (xs, r)"
    using assms(1,2) by (auto simp: evidence_codec.repeat_iff enc_evidence_runs_def)
  ultimately show ?thesis using assms(3) by (simp add: dec_evidence_runs_def n)
qed

lemma evidence_runs_iff [read_simps]:
  "dec_evidence_runs n r = Inr (xs, r') \<longleftrightarrow>
     n = word_of_nat (length xs) \<and> (\<forall>x\<in>set xs. durable_evidence_run_wf x \<and> evidence_values_fit x)
     \<and> length xs \<le> MAX_PIECE_STATE_COVERED_PIECES \<and> (\<exists>bs. enc_evidence_runs xs = Inr bs \<and> r = bs @ r')"
  using evidence_runs_run [of xs _ r']
  by (auto simp: dec_evidence_runs_def evidence_codec.repeat_iff enc_evidence_runs_def split: if_splits)

section \<open>Option maps\<close>

fun option_entries_ok :: "string option \<Rightarrow> (string \<times> string) list \<Rightarrow> bool" where
  "option_entries_ok previous [] \<longleftrightarrow> True"
| "option_entries_ok previous ((key, v) # es) \<longleftrightarrow>
     validate_option_key key = Inr () \<and> is_text key \<and> is_text v \<and> length v \<le> MAX_OPTION_VALUE_BYTES
     \<and> (case previous of None \<Rightarrow> True | Some p \<Rightarrow> p < key) \<and> option_entries_ok (Some key) es"

lemma option_key_length: "validate_option_key key = Inr () \<Longrightarrow> length key \<le> MAX_OPTION_KEY_BYTES"
  by (auto simp: validate_option_key_def split: if_splits)

lemma previous_key_iff:
  "(case previous of None \<Rightarrow> Inr ()
    | Some p \<Rightarrow> if p \<ge> key then Inl (if p = key then PC_DuplicateOptionKey else PC_NonCanonicalOptionOrder) else Inr ())
     = Inr x \<longleftrightarrow> (case previous of None \<Rightarrow> True | Some p \<Rightarrow> p < (key :: string))"
  by (cases previous) auto

lemma enc_option_entry_iff [write_simps]:
  "enc_option_entry (key, v) = Inr bs \<longleftrightarrow> length key < 2 ^ 32 \<and> length v < 2 ^ 32
     \<and> bs = u32_le (word_of_nat (length key)) @ as_bytes key @ u32_le (word_of_nat (length v)) @ as_bytes v"
  by (auto simp: enc_option_entry_def seq_simps write_simps)

lemma option_entries_run:
  assumes "option_entries_ok previous es" "enc_all (map enc_option_entry es) = Inr bs"
    and "es \<noteq> [] \<Longrightarrow> start - length r \<le> MAX_OPTION_MAP_BYTES"
  shows "dec_option_entries start previous (length es) (bs @ r) = Inr (es, r)"
  using assms
proof (induction es arbitrary: previous bs)
  case (Cons e es)
  obtain key v where e: "e = (key, v)" by (cases e)
  from Cons.prems(2) obtain c where c: "enc_all (map enc_option_entry es) = Inr c"
    and bs: "bs = u32_le (word_of_nat (length key)) @ as_bytes key @ u32_le (word_of_nat (length v)) @ as_bytes v @ c"
    by (auto simp: e enc_all_Cons_iff write_simps)
  have ok: "validate_option_key key = Inr ()" "is_text key" "is_text v" "length v \<le> MAX_OPTION_VALUE_BYTES"
    "length key \<le> MAX_OPTION_KEY_BYTES"
    using Cons.prems(1) option_key_length by (auto simp: e)
  have prev: "(case previous of None \<Rightarrow> Inr ()
      | Some p \<Rightarrow> if p \<ge> key then Inl (if p = key then PC_DuplicateOptionKey else PC_NonCanonicalOptionOrder) else Inr ())
       = Inr ()"
    using Cons.prems(1) by (simp add: previous_key_iff e)
  have size: "\<not> MAX_OPTION_MAP_BYTES < start - length (c @ r)" using Cons.prems(3) by simp
  have "dec_option_entries start (Some key) (length es) (c @ r) = Inr (es, r)"
    using Cons.IH [OF _ c] Cons.prems by (simp add: e)
  then show ?case
    using ok prev size
    by (simp add: e bs run_simps MAX_OPTION_KEY_BYTES_def MAX_OPTION_VALUE_BYTES_def)
qed (simp add: run_simps)

lemma option_entries_read:
  "dec_option_entries start previous n r = Inr (es, r') \<Longrightarrow>
     length es = n \<and> option_entries_ok previous es \<and> (es \<noteq> [] \<longrightarrow> start - length r' \<le> MAX_OPTION_MAP_BYTES)
     \<and> (\<exists>bs. enc_all (map enc_option_entry es) = Inr bs \<and> r = bs @ r')"
proof (induction n arbitrary: previous r es)
  case (Suc n)
  from Suc.prems obtain key v r1 rest where es: "es = (key, v) # rest"
    and r: "r = u32_le (word_of_nat (length key)) @ as_bytes key @ u32_le (word_of_nat (length v)) @ as_bytes v @ r1"
    and ok: "validate_option_key key = Inr ()" "is_text key" "is_text v" "length v \<le> MAX_OPTION_VALUE_BYTES"
      "length key \<le> MAX_OPTION_KEY_BYTES" "case previous of None \<Rightarrow> True | Some p \<Rightarrow> p < key"
    and size: "start - length r1 \<le> MAX_OPTION_MAP_BYTES"
    and rec: "dec_option_entries start (Some key) n r1 = Inr (rest, r')"
    by (auto simp: seq_simps read_simps previous_key_iff MAX_OPTION_KEY_BYTES_def MAX_OPTION_VALUE_BYTES_def
        split: if_splits)
  from Suc.IH [OF rec] obtain bs where ih: "length rest = n" "option_entries_ok (Some key) rest"
    "rest \<noteq> [] \<longrightarrow> start - length r' \<le> MAX_OPTION_MAP_BYTES" "enc_all (map enc_option_entry rest) = Inr bs" "r1 = bs @ r'"
    by blast
  have "start - length r' \<le> MAX_OPTION_MAP_BYTES" using ih size by (cases rest) auto
  with ih ok r show ?case
    by (auto simp: es enc_all_Cons_iff write_simps MAX_OPTION_KEY_BYTES_def MAX_OPTION_VALUE_BYTES_def)
qed (auto simp: seq_simps)

lemma bt_insert_last: "\<forall>e\<in>set m. fst e < k \<Longrightarrow> bt_insert k v m = m @ [(k, v)]"
  by (induction m rule: bt_insert.induct) (auto simp: not_less_iff_gr_or_eq)

lemma bt_get_last: "\<forall>e\<in>set m. fst e < k \<Longrightarrow> bt_get m (k :: 'k::linorder) = None"
  by (induction m k rule: bt_get.induct) auto

lemma option_map_insert_sorted:
  assumes "bt_wf (out @ es)" "n = 4 + sum_list (map option_entry_size out)"
    and "\<forall>(key, v)\<in>set es. validate_option_key key = Inr () \<and> length v \<le> MAX_OPTION_VALUE_BYTES"
    and "length (out @ es) \<le> MAX_OPTION_MAP_ENTRIES"
    and "es \<noteq> [] \<Longrightarrow> 4 + sum_list (map option_entry_size (out @ es)) \<le> MAX_OPTION_MAP_BYTES"
  shows "option_map_insert out n es =
    Inr \<lparr>som_entries = out @ es, som_canonical_bytes = 4 + sum_list (map option_entry_size (out @ es))\<rparr>"
  using assms
proof (induction es arbitrary: out n)
  case (Cons e es)
  obtain key v where e: "e = (key, v)" by (cases e)
  have lt: "\<forall>x\<in>set out. fst x < key"
    using Cons.prems(1) by (auto simp: bt_wf_def e sorted_wrt_append)
  let ?n = "n + 8 + length key + length v"
  have n: "?n = 4 + sum_list (map option_entry_size (out @ [e]))" using Cons.prems(2) by (simp add: e option_entry_size_def [of "(key, v)"])
  have "?n \<le> MAX_OPTION_MAP_BYTES" using Cons.prems(2,5) by (simp add: e option_entry_size_def [of "(key, v)"])
  then have size: "\<not> usize_max < ?n" "\<not> MAX_OPTION_MAP_BYTES < ?n"
    by (simp_all add: MAX_OPTION_MAP_BYTES_def usize_max_def)
  have "option_map_insert (out @ [e]) ?n es = Inr \<lparr>som_entries = (out @ [e]) @ es,
      som_canonical_bytes = 4 + sum_list (map option_entry_size ((out @ [e]) @ es))\<rparr>"
    using Cons.prems n by (intro Cons.IH) auto
  then show ?case
    using Cons.prems(3,4) size by (simp add: e and_then_def bt_get_last [OF lt] bt_insert_last [OF lt] Let_def)
qed simp

lemma option_entries_ok_iff:
  "option_entries_ok previous es \<longleftrightarrow>
     bt_wf es \<and> (\<forall>(key, v)\<in>set es. validate_option_key key = Inr () \<and> length v \<le> MAX_OPTION_VALUE_BYTES
       \<and> is_text key \<and> is_text v)
     \<and> (case previous of None \<Rightarrow> True | Some p \<Rightarrow> \<forall>e\<in>set es. p < fst e)"
proof (induction es arbitrary: previous)
  case (Cons e es)
  obtain key v where e: "e = (key, v)" by (cases e)
  show ?case
    by (cases previous) (auto simp: e Cons.IH bt_wf_def intro: order.strict_trans)
qed (simp add: bt_wf_def split: option.splits)

lemma enc_option_entries_length:
  "enc_all (map enc_option_entry es) = Inr bs \<Longrightarrow> length bs = sum_list (map option_entry_size es)"
  by (induction es arbitrary: bs) (auto simp: enc_all_Cons_iff write_simps option_entry_size_def)

lemma enc_option_map_iff:
  "sanitized_option_map_wf m \<Longrightarrow> enc_option_map m = Inr bs \<longleftrightarrow>
     (\<exists>c. enc_all (map enc_option_entry (som_entries m)) = Inr c
        \<and> bs = u32_le (word_of_nat (length (som_entries m))) @ c)"
  by (auto simp: enc_option_map_def enc_count_def seq_simps write_simps sanitized_option_map_wf_def
      MAX_OPTION_MAP_ENTRIES_def)

interpretation option_map_codec: codec dec_option_map enc_option_map sanitized_option_map_wf
proof
  fix m :: sanitized_option_map and bs r
  assume enc: "enc_option_map m = Inr bs" and wf: "sanitized_option_map_wf m"
  let ?es = "som_entries m"
  obtain c where c: "enc_all (map enc_option_entry ?es) = Inr c" "bs = u32_le (word_of_nat (length ?es)) @ c"
    using enc by (auto simp: enc_option_map_iff [OF wf])
  have len: "length ?es \<le> MAX_OPTION_MAP_ENTRIES" using wf by (simp add: sanitized_option_map_wf_def)
  have n: "unat (word_of_nat (length ?es) :: u32) = length ?es"
    using len by (simp add: unat_of_nat MAX_OPTION_MAP_ENTRIES_def)
  have size: "4 + length c \<le> MAX_OPTION_MAP_BYTES"
    using wf enc_option_entries_length [OF c(1)] by (simp add: sanitized_option_map_wf_def)
  have entries: "dec_option_entries (length (bs @ r)) None (length ?es) (c @ r) = Inr (?es, r)"
    using wf c size by (intro option_entries_run) (auto simp: option_entries_ok_iff sanitized_option_map_wf_def)
  have "sum_list (map (\<lambda>_. 8) ?es) \<le> sum_list (map option_entry_size ?es)"
    by (rule sum_list_mono) (simp add: option_entry_size_def)
  then have min: "length ?es * 8 \<le> length (c @ r)"
    using enc_option_entries_length [OF c(1)] by (simp add: sum_list_triv)
  have "sanitized_option_map_new ?es = Inr m"
    using option_map_insert_sorted [of "[]" ?es 4] wf
    by (cases m) (auto simp: sanitized_option_map_new_def sanitized_option_map_wf_def)
  then show "dec_option_map (bs @ r) = Inr (m, r)"
    using entries len min by (simp add: dec_option_map_def c(2) run_simps n)
next
  fix r and m :: sanitized_option_map and r'
  assume "dec_option_map r = Inr (m, r')"
  then obtain n r1 es where r: "r = u32_le n @ r1" and n: "unat n \<le> MAX_OPTION_MAP_ENTRIES"
    and es: "dec_option_entries (length r) None (unat n) r1 = Inr (es, r')" and new: "sanitized_option_map_new es = Inr m"
    by (auto simp: dec_option_map_def seq_simps read_simps split: if_splits)
  from option_entries_read [OF es] obtain bs where ok: "length es = unat n" "option_entries_ok None es"
    "es \<noteq> [] \<longrightarrow> length r - length r' \<le> MAX_OPTION_MAP_BYTES" "enc_all (map enc_option_entry es) = Inr bs" "r1 = bs @ r'"
    by blast
  note len = enc_option_entries_length [OF ok(4)]
  have size: "4 + sum_list (map option_entry_size es) \<le> MAX_OPTION_MAP_BYTES"
    using ok(3) len r ok(5) by (cases "es = []") (simp_all add: MAX_OPTION_MAP_BYTES_def)
  have m: "m = \<lparr>som_entries = es, som_canonical_bytes = 4 + sum_list (map option_entry_size es)\<rparr>"
    using option_map_insert_sorted [of "[]" es 4] new ok n size
    by (auto simp: sanitized_option_map_new_def option_entries_ok_iff)
  have wf: "sanitized_option_map_wf m"
    using ok n size by (auto simp: m sanitized_option_map_wf_def option_entries_ok_iff)
  have "word_of_nat (length es) = n" using ok(1) by simp
  then show "sanitized_option_map_wf m \<and> (\<exists>bs. enc_option_map m = Inr bs \<and> r = bs @ r')"
    using wf ok(4,5) r by (auto simp: enc_option_map_iff m)
qed

section \<open>Validators and host keys\<close>

definition protocol_validator_wf :: "protocol_validator \<Rightarrow> bool" where
  "protocol_validator_wf v \<longleftrightarrow>
     journal_hash_wf (pv_source v) \<and> (case pv_host_key v of None \<Rightarrow> True | Some h \<Rightarrow> journal_hash_wf h)"

interpretation validator_codec: codec dec_validator enc_validator protocol_validator_wf
proof
  fix v :: protocol_validator and bs r
  assume "enc_validator v = Inr bs" "protocol_validator_wf v"
  moreover have "dec_optional_u64 (0 # q) = Inr (None, q)" "dec_optional_u64 (1 # u64_le w @ q) = Inr (Some w, q)" for w q
    by (simp_all add: read_simps)
  moreover have "dec_optional dec_hash (0 # q) = Inr (None, q)"
    "journal_hash_wf h \<Longrightarrow> dec_optional dec_hash (1 # journal_hash_bytes h @ q) = Inr (Some h, q)" for h q
    by (simp_all add: hash_codec.optional_iff write_simps)
  ultimately show "dec_validator (bs @ r) = Inr (v, r)"
    by (cases v) (auto simp: enc_validator_def protocol_validator_wf_def dec_validator_def seq_simps write_simps run_simps
        split: option.splits)
next
  fix r and v :: protocol_validator and r'
  assume "dec_validator r = Inr (v, r')"
  then show "protocol_validator_wf v \<and> (\<exists>bs. enc_validator v = Inr bs \<and> r = bs @ r')"
    by (auto simp: dec_validator_def enc_validator_def protocol_validator_wf_def seq_simps read_simps write_simps
        hash_codec.optional_iff split: option.splits)
qed

definition host_key_state_wf :: "sha256 \<Rightarrow> journal_host_key_state \<Rightarrow> bool" where
  "host_key_state_wf sha s \<longleftrightarrow>
     (let p = hks_challenge s; key = ph_summary p in
      length (host_key_challenge_id_bytes (hk_id key)) = 16
      \<and> length (host_key_fingerprint_bytes (hk_fingerprint_sha256 key)) = 32
      \<and> is_text (hk_canonical_host key) \<and> is_text (hk_algorithm key)
      \<and> presented_host_key_challenge_new sha key (ph_presented_public_key p) = Inr p)"

lemma decision_run [run_simps]:
  "(if host_key_decision_number d = 0 then Inr HKD_Pending else if host_key_decision_number d = 1 then Inr HKD_Approved
    else if host_key_decision_number d = 2 then Inr HKD_Rejected else Inl PC_InvalidHostKeyState) = Inr d"
  by (cases d) simp_all

lemma decision_iff:
  "(if v = 0 then Inr HKD_Pending else if v = 1 then Inr HKD_Approved else if v = 2 then Inr HKD_Rejected
    else Inl PC_InvalidHostKeyState) = Inr d \<longleftrightarrow> v = host_key_decision_number d"
  by (cases d) auto

lemma challenge_ok:
  assumes "presented_host_key_challenge_new sha key bytes = Inr p"
  shows "ph_summary p = key" "ph_presented_public_key p = bytes" "length bytes \<le> MAX_PRESENTED_HOST_KEY_BYTES"
    "length (hk_canonical_host key) \<le> MAX_HOST_KEY_CANONICAL_HOST_BYTES"
    "length (hk_algorithm key) \<le> MAX_HOST_KEY_ALGORITHM_BYTES"
  using assms by (auto simp: presented_host_key_challenge_new_def split: if_splits)

lemmas host_key_limits =
  MAX_PRESENTED_HOST_KEY_BYTES_def MAX_HOST_KEY_CANONICAL_HOST_BYTES_def MAX_HOST_KEY_ALGORITHM_BYTES_def

lemma dec_take_run [run_simps]: "length bs = n \<Longrightarrow> dec_take n (bs @ r) = Inr (bs, r)"
  by (simp add: dec_take_iff)

interpretation host_key_codec: codec "dec_host_key_state sha" enc_host_key_state "host_key_state_wf sha"
proof
  fix s :: journal_host_key_state and bs r
  assume enc: "enc_host_key_state s = Inr bs" and wf: "host_key_state_wf sha s"
  obtain id host port alg fp where key: "ph_summary (hks_challenge s) = \<lparr>hk_id = HostKeyChallengeId id,
      hk_canonical_host = host, hk_port = port, hk_algorithm = alg, hk_fingerprint_sha256 = HostKeyFingerprint fp\<rparr>"
    by (metis host_key_challenge.surjective host_key_challenge_id.exhaust host_key_fingerprint.exhaust old.unit.exhaust)
  have new: "presented_host_key_challenge_new sha \<lparr>hk_id = HostKeyChallengeId id, hk_canonical_host = host, hk_port = port,
      hk_algorithm = alg, hk_fingerprint_sha256 = HostKeyFingerprint fp\<rparr> (ph_presented_public_key (hks_challenge s)) =
      Inr (hks_challenge s)" "length id = 16" "length fp = 32" "is_text host" "is_text alg"
    using wf by (simp_all add: host_key_state_wf_def key Let_def)
  note lim = challenge_ok(3-5) [OF new(1)]
  have "s = \<lparr>hks_challenge = hks_challenge s, hks_decision = hks_decision s, hks_created_ms = hks_created_ms s\<rparr>" by simp
  with enc new lim show "dec_host_key_state sha (bs @ r) = Inr (s, r)"
    by (auto simp: enc_host_key_state_def seq_simps write_simps key Let_def)
      (simp add: dec_host_key_state_def run_simps host_key_limits)
next
  fix r and s :: journal_host_key_state and r'
  assume "dec_host_key_state sha r = Inr (s, r')"
  then show "host_key_state_wf sha s \<and> (\<exists>bs. enc_host_key_state s = Inr bs \<and> r = bs @ r')"
    by (auto simp: dec_host_key_state_def enc_host_key_state_def seq_simps read_simps write_simps host_key_limits
        decision_iff dec_take_iff host_key_state_wf_def Let_def challenge_ok(1,2))
qed

end
