(* ===== verification/JournalReplay.thy ===== *)
theory JournalReplay
  imports Journal
begin

text \<open>
  Correctness of the journal of \<open>ariax-storage/src/journal.rs\<close>: headers and records are read back exactly
  as they were written and nothing else is accepted; what the encoder appended is what a replay returns;
  a torn or damaged tail never costs a record that was committed before it.
\<close>

section \<open>Slices\<close>

lemma slice_append:
  "length xs \<le> k \<Longrightarrow> byte_slice (xs @ ys) k n = byte_slice ys (k - length xs) n"
  "k + n \<le> length xs \<Longrightarrow> byte_slice (xs @ ys) k n = byte_slice xs k n"
  by (simp_all add: byte_slice_def)

lemma slice_whole [simp]: "n = length xs \<Longrightarrow> byte_slice (xs @ ys) 0 n = xs" "n = length xs \<Longrightarrow> byte_slice xs 0 n = xs"
  by (simp_all add: byte_slice_def)

lemma length_slice: "k + n \<le> length xs \<Longrightarrow> length (byte_slice xs k n) = n"
  by (simp add: byte_slice_def)

lemma slice_join:
  "k' = k + a \<Longrightarrow> byte_slice bs k a @ byte_slice bs k' b = byte_slice bs k (a + b)"
  "k' = k + a \<Longrightarrow> byte_slice bs k a @ byte_slice bs k' b @ rest = byte_slice bs k (a + b) @ rest"
  by (simp_all add: byte_slice_def take_add add.commute)

lemma slice_0: "byte_slice bs 0 n = take n bs"
  by (simp add: byte_slice_def)

lemma nth_slice: "k < length xs \<Longrightarrow> byte_slice xs k 1 = [xs ! k]"
  by (simp add: byte_slice_def take_Suc hd_drop_conv_nth)

section \<open>Record types\<close>

lemma record_type_at: "ALL_RECORD_TYPES ! (unat (record_type_number t) - 1) = t"
  by (cases t) (simp_all add: ALL_RECORD_TYPES_def)

lemma record_type_number_inject: "record_type_number s = record_type_number t \<longleftrightarrow> s = t"
  by (metis record_type_at)

lemma record_type_listed: "t \<in> set ALL_RECORD_TYPES"
  by (cases t) (simp_all add: ALL_RECORD_TYPES_def)

lemma record_type_try_from_iff: "record_type_try_from v = Inr t \<longleftrightarrow> record_type_number t = v"
proof
  assume "record_type_try_from v = Inr t"
  then show "record_type_number t = v" by (auto simp: record_type_try_from_def find_Some_iff)
next
  assume v: "record_type_number t = v"
  have "List.find (\<lambda>t. record_type_number t = v) ALL_RECORD_TYPES \<noteq> None"
    using v record_type_listed by (auto simp: find_None_iff)
  then obtain u where u: "List.find (\<lambda>t. record_type_number t = v) ALL_RECORD_TYPES = Some u" by blast
  then have "record_type_number u = v" by (rule find_Some_mem [THEN conjunct2])
  with v have "u = t" by (simp flip: record_type_number_inject)
  with u show "record_type_try_from v = Inr t" by (simp add: record_type_try_from_def)
qed

section \<open>Headers\<close>

definition header_ok :: "segment_header \<Rightarrow> bool" where
  "header_ok h \<longleftrightarrow>
     gid_get (sh_task_gid h) \<noteq> 0
     \<and> length (journal_id_bytes (sh_journal_id h)) = 16 \<and> \<not> all_zero (journal_id_bytes (sh_journal_id h))
     \<and> length (segment_hash_bytes (sh_previous_segment_hash h)) = 32
     \<and> check_header_links h = Inr h"

lemma magic_lengths [simp]: "length HEADER_MAGIC = 4" "length RECORD_MAGIC = 4" "length COMMIT_MAGIC = 4"
  by (simp_all add: HEADER_MAGIC_def RECORD_MAGIC_def COMMIT_MAGIC_def)

lemma check_header_links_same: "check_header_links h = Inr h' \<Longrightarrow> h' = h"
  by (auto simp: check_header_links_def split: if_splits)

lemma header_body_length: "header_ok h \<Longrightarrow> length (segment_header_body h) = 100"
  by (simp add: header_ok_def segment_header_body_def)

lemma header_fields:
  assumes ok: "header_ok h" and bs: "bs = segment_header_body h @ rest"
  shows "byte_slice bs 0 4 = HEADER_MAGIC" "byte_slice bs 4 2 = u16_le JOURNAL_FORMAT_VERSION"
    "bs ! 6 = JOURNAL_ENDIANNESS_ASSERTION" "bs ! 7 = 0"
    "byte_slice bs 8 8 = u64_le (gid_get (sh_task_gid h))" "byte_slice bs 16 16 = journal_id_bytes (sh_journal_id h)"
    "byte_slice bs 32 4 = u32_le (sh_segment_index h)" "byte_slice bs 36 8 = u64_le (sh_first_sequence h)"
    "byte_slice bs 44 8 = u64_le (generation_get (sh_starting_generation h))"
    "byte_slice bs 52 8 = u64_le (sh_previous_segment_last_sequence h)"
    "byte_slice bs 60 32 = segment_hash_bytes (sh_previous_segment_hash h)"
    "byte_slice bs 92 8 = u64_le (sh_created_at_unix_ms h)"
  using ok by (simp_all add: bs segment_header_body_def header_ok_def slice_append byte_slice_def nth_append)

lemma header_eta [simp]:
  "\<lparr>sh_task_gid = sh_task_gid h, sh_journal_id = sh_journal_id h, sh_segment_index = sh_segment_index h,
    sh_first_sequence = sh_first_sequence h, sh_starting_generation = sh_starting_generation h,
    sh_previous_segment_last_sequence = sh_previous_segment_last_sequence h,
    sh_previous_segment_hash = sh_previous_segment_hash h, sh_created_at_unix_ms = sh_created_at_unix_ms h\<rparr> = h"
  by simp

lemma header_decode_encode:
  assumes ok: "header_ok h"
  shows "segment_header_decode crc (segment_header_encode crc h @ rest) = Inr h"
proof -
  let ?bs = "segment_header_encode crc h @ rest"
  have bs: "?bs = segment_header_body h @ u32_le (crc (segment_header_body h)) @ rest"
    by (simp add: segment_header_encode_def)
  note f = header_fields [OF ok bs] and len = header_body_length [OF ok]
  have crc: "take 100 ?bs = segment_header_body h" "byte_slice ?bs 100 4 = u32_le (crc (segment_header_body h))"
    "104 \<le> length ?bs"
    unfolding bs by (simp_all add: len slice_append)
  show ?thesis
    using ok f crc
    by (simp add: segment_header_decode_def SEGMENT_HEADER_LEN_def HEADER_CRC_OFFSET_def read_u16_def read_u32_def
        read_u64_def gid_new_def nonzero_u64_new_def journal_id_new_def header_ok_def)
qed

lemma header_decode_sound:
  assumes "segment_header_decode crc bs = Inr h"
  shows "header_ok h \<and> take 104 bs = segment_header_encode crc h"
proof -
  have len: "104 \<le> length bs"
    and b: "byte_slice bs 0 4 = HEADER_MAGIC" "crc (take 100 bs) = u32_from_le (byte_slice bs 100 4)"
      "u16_from_le (byte_slice bs 4 2) = JOURNAL_FORMAT_VERSION" "bs ! 6 = JOURNAL_ENDIANNESS_ASSERTION" "bs ! 7 = 0"
      "u64_from_le (byte_slice bs 8 8) \<noteq> 0" "\<not> all_zero (byte_slice bs 16 16)"
    and links: "check_header_links h = Inr h"
    and h: "h = \<lparr>sh_task_gid = Gid (u64_from_le (byte_slice bs 8 8)), sh_journal_id = JournalId (byte_slice bs 16 16),
      sh_segment_index = u32_from_le (byte_slice bs 32 4), sh_first_sequence = u64_from_le (byte_slice bs 36 8),
      sh_starting_generation = Generation (u64_from_le (byte_slice bs 44 8)),
      sh_previous_segment_last_sequence = u64_from_le (byte_slice bs 52 8),
      sh_previous_segment_hash = SegmentHash (byte_slice bs 60 32),
      sh_created_at_unix_ms = u64_from_le (byte_slice bs 92 8)\<rparr>"
    using assms check_header_links_same
    by (auto simp: segment_header_decode_def SEGMENT_HEADER_LEN_def HEADER_CRC_OFFSET_def read_u16_def read_u32_def
        read_u64_def gid_new_def nonzero_u64_new_def journal_id_new_def and_then_eq_Inr split: if_splits)
  have l: "length (byte_slice bs k n) = n" if "k + n \<le> 104" for k n
    using len that by (simp add: length_slice)
  have singles: "byte_slice bs 6 1 = [JOURNAL_ENDIANNESS_ASSERTION]" "byte_slice bs 7 1 = [0]"
    using len b nth_slice [of 6 bs] nth_slice [of 7 bs] by simp_all
  have magic: "byte_slice bs 4 2 = u16_le JOURNAL_FORMAT_VERSION"
    using l [of 4 2] le_from_le(1) [of "byte_slice bs 4 2"] b(3) by simp
  have "segment_header_body h = byte_slice bs 0 4 @ byte_slice bs 4 2 @ byte_slice bs 6 1 @ byte_slice bs 7 1
      @ byte_slice bs 8 8 @ byte_slice bs 16 16 @ byte_slice bs 32 4 @ byte_slice bs 36 8 @ byte_slice bs 44 8
      @ byte_slice bs 52 8 @ byte_slice bs 60 32 @ byte_slice bs 92 8"
    by (simp add: segment_header_body_def h b(1) magic singles [simplified] l)
  also have "\<dots> = byte_slice bs 0 100" by (simp add: slice_join)
  finally have body: "segment_header_body h = take 100 bs" by (simp add: slice_0)
  have "u32_le (crc (take 100 bs)) = byte_slice bs 100 4" using b(2) l [of 100 4] by simp
  then have "take 104 bs = segment_header_encode crc h"
    using slice_join(1) [of 100 0 100 bs 4] by (simp add: segment_header_encode_def body slice_0)
  moreover have "header_ok h"
    using b l links by (simp add: header_ok_def h)
  ultimately show ?thesis by blast
qed

section \<open>Records\<close>

definition record_bytes :: "crc32c \<Rightarrow> journal_record \<Rightarrow> u8 list" where
  "record_bytes crc r =
     (let body = record_body (jr_record_type r) (jr_generation r) (jr_sequence r) (jr_payload r)
      in body @ u32_le (crc body) @ COMMIT_MAGIC)"

definition record_ok :: "generation \<Rightarrow> u64 \<Rightarrow> journal_record \<Rightarrow> bool" where
  "record_ok g n r \<longleftrightarrow> length (jr_payload r) \<le> MAX_RECORD_PAYLOAD \<and> g \<le> jr_generation r \<and> jr_sequence r = n"

definition as_record :: "decoded_record \<Rightarrow> journal_record" where
  "as_record d =
     \<lparr>jr_record_type = dr_record_type d, jr_generation = dr_generation d, jr_sequence = dr_sequence d,
      jr_payload = dr_payload d\<rparr>"

lemmas record_defs = record_bytes_def record_body_def Let_def RECORD_PREFIX_LEN_def MAX_RECORD_PAYLOAD_def
  usize_max_def

lemma as_record_fields [simp]:
  "jr_record_type (as_record d) = dr_record_type d" "jr_generation (as_record d) = dr_generation d"
  "jr_sequence (as_record d) = dr_sequence d" "jr_payload (as_record d) = dr_payload d"
  by (simp_all add: as_record_def)

lemma record_bytes_length: "length (record_bytes crc r) = 36 + length (jr_payload r)"
  by (simp add: record_defs)

lemma payload_length_le:
  "n \<le> MAX_RECORD_PAYLOAD \<Longrightarrow> unat (word_of_nat n :: u32) = n"
  by (simp add: unat_of_nat MAX_RECORD_PAYLOAD_def)

lemma encode_record_eq:
  "length payload \<le> MAX_RECORD_PAYLOAD \<Longrightarrow> encode_record crc t g n payload =
     Inr (record_bytes crc \<lparr>jr_record_type = t, jr_generation = g, jr_sequence = n, jr_payload = payload\<rparr>)"
  by (simp add: encode_record_def record_defs)

lemma record_fields:
  assumes ok: "length (jr_payload r) \<le> MAX_RECORD_PAYLOAD" and bs: "bs = record_bytes crc r @ rest"
  defines "n \<equiv> length (jr_payload r)"
  shows "byte_slice bs 0 4 = RECORD_MAGIC" "unat (u32_from_le (byte_slice bs 4 4)) = n"
    "byte_slice bs 8 2 = u16_le (record_type_number (jr_record_type r))" "byte_slice bs 10 2 = u16_le 0"
    "byte_slice bs 12 8 = u64_le (generation_get (jr_generation r))" "byte_slice bs 20 8 = u64_le (jr_sequence r)"
    "byte_slice bs 28 n = jr_payload r"
    "take (28 + n) bs = record_body (jr_record_type r) (jr_generation r) (jr_sequence r) (jr_payload r)"
    "byte_slice bs (28 + n) 4 =
       u32_le (crc (record_body (jr_record_type r) (jr_generation r) (jr_sequence r) (jr_payload r)))"
    "byte_slice bs (32 + n) 4 = COMMIT_MAGIC"
  using ok by (simp_all add: bs n_def record_bytes_def record_body_def Let_def slice_append byte_slice_def
      payload_length_le)

lemma decode_record_encode:
  assumes ok: "record_ok g n r"
  shows "decode_record crc (record_bytes crc r @ rest) n g =
    Inr \<lparr>dr_record_type = jr_record_type r, dr_generation = jr_generation r, dr_sequence = n,
         dr_payload = jr_payload r, dr_consumed = length (record_bytes crc r)\<rparr>"
proof -
  let ?bs = "record_bytes crc r @ rest" and ?n = "length (jr_payload r)"
  have p: "?n \<le> MAX_RECORD_PAYLOAD" and g: "\<not> jr_generation r < g" and s: "jr_sequence r = n"
    using ok by (auto simp: record_ok_def)
  note f = record_fields [OF p refl, of crc rest]
  have t: "record_type_try_from (record_type_number (jr_record_type r)) = Inr (jr_record_type r)"
    by (simp add: record_type_try_from_iff)
  have len: "36 + ?n \<le> length ?bs" by (simp add: record_bytes_length)
  have total: "36 + ?n \<le> usize_max" using p by (simp add: MAX_RECORD_PAYLOAD_def usize_max_def)
  show ?thesis
    using p g s len total f
    by (simp add: decode_record_def Let_def RECORD_PREFIX_LEN_def read_u16_def read_u32_def read_u64_def t
        record_bytes_length)
qed

lemma decode_record_sound:
  assumes "decode_record crc bs n g = Inr d"
  shows "record_ok g n (as_record d) \<and> dr_consumed d = length (record_bytes crc (as_record d))
    \<and> take (dr_consumed d) bs = record_bytes crc (as_record d)"
proof -
  let ?p = "unat (u32_from_le (byte_slice bs 4 4))"
  have len: "36 + ?p \<le> length bs"
    and b: "byte_slice bs 0 4 = RECORD_MAGIC" "?p \<le> MAX_RECORD_PAYLOAD"
      "record_type_number (dr_record_type d) = u16_from_le (byte_slice bs 8 2)" "u16_from_le (byte_slice bs 10 2) = 0"
      "\<not> Generation (u64_from_le (byte_slice bs 12 8)) < g" "u64_from_le (byte_slice bs 20 8) = n"
      "crc (take (28 + ?p) bs) = u32_from_le (byte_slice bs (28 + ?p) 4)" "byte_slice bs (32 + ?p) 4 = COMMIT_MAGIC"
    and d: "dr_generation d = Generation (u64_from_le (byte_slice bs 12 8))" "dr_sequence d = n"
      "dr_payload d = byte_slice bs 28 ?p" "dr_consumed d = 36 + ?p"
    using assms
    by (auto simp: decode_record_def Let_def RECORD_PREFIX_LEN_def read_u16_def read_u32_def read_u64_def
        record_type_try_from_iff and_then_eq_Inr add.commute split: if_splits)
  have l: "length (byte_slice bs k m) = m" if "k + m \<le> 36 + ?p" for k m
    using len that by (simp add: length_slice)
  have zero: "u16_le 0 = byte_slice bs 10 2"
    using le_from_le(1) [of "byte_slice bs 10 2"] l [of 10 2] b(4) by simp
  have "u32_le (word_of_nat (length (dr_payload d))) = byte_slice bs 4 4" using l by (simp add: d)
  then have "record_body (dr_record_type d) (dr_generation d) (dr_sequence d) (dr_payload d) =
      byte_slice bs 0 4 @ byte_slice bs 4 4 @ byte_slice bs 8 2 @ byte_slice bs 10 2 @ byte_slice bs 12 8
      @ byte_slice bs 20 8 @ byte_slice bs 28 ?p"
    using l by (simp add: record_body_def b(1,3) d zero flip: b(6))
  also have "\<dots> = byte_slice bs 0 (28 + ?p)" by (simp add: slice_join)
  finally have body: "record_body (dr_record_type d) (dr_generation d) (dr_sequence d) (dr_payload d) = take (28 + ?p) bs"
    by (simp add: slice_0)
  have "u32_le (crc (take (28 + ?p) bs)) = byte_slice bs (28 + ?p) 4" using b(7) l by simp
  then have "record_bytes crc (as_record d) = byte_slice bs 0 (28 + ?p) @ byte_slice bs (28 + ?p) 4 @ byte_slice bs (32 + ?p) 4"
    by (simp add: record_bytes_def body b(8) slice_0)
  also have "\<dots> = take (36 + ?p) bs" by (simp add: slice_join) (simp add: slice_0)
  finally show ?thesis
    using b(2,5) l len by (simp add: record_ok_def d not_less)
qed

section \<open>Collecting the records of a segment\<close>

primrec records_ok :: "generation \<Rightarrow> u64 \<Rightarrow> journal_record list \<Rightarrow> bool" where
  "records_ok g n [] \<longleftrightarrow> True"
| "records_ok g n (r # rs) \<longleftrightarrow> record_ok g n r \<and> unat n + 1 < 2 ^ 64 \<and> records_ok g (n + 1) rs"

definition records_bytes :: "crc32c \<Rightarrow> journal_record list \<Rightarrow> u8 list" where
  "records_bytes crc rs = concat (map (record_bytes crc) rs)"

definition payload_size :: "journal_record list \<Rightarrow> nat" where
  "payload_size rs = sum_list (map (\<lambda>r. length (jr_payload r)) rs)"

definition collect :: "journal_replay \<Rightarrow> journal_record list \<Rightarrow> journal_replay" where
  "collect r rs =
     r\<lparr>rp_records := rp_records r @ rs,
       rp_last_sequence := (if rs = [] then rp_last_sequence r else jr_sequence (last rs)),
       rp_payload_bytes := rp_payload_bytes r + payload_size rs\<rparr>"

definition fits_limits :: "replay_limits \<Rightarrow> journal_replay \<Rightarrow> journal_record list \<Rightarrow> bool" where
  "fits_limits limits r rs \<longleftrightarrow>
     length (rp_records r) + length rs \<le> rl_max_records limits
     \<and> rp_payload_bytes r + payload_size rs \<le> min usize_max (rl_max_payload_bytes limits)"

lemma records_bytes_simps [simp]:
  "records_bytes crc [] = []" "records_bytes crc (r # rs) = record_bytes crc r @ records_bytes crc rs"
  "records_bytes crc (rs @ qs) = records_bytes crc rs @ records_bytes crc qs"
  by (simp_all add: records_bytes_def)

lemma payload_size_simps [simp]:
  "payload_size [] = 0" "payload_size (r # rs) = length (jr_payload r) + payload_size rs"
  "payload_size (rs @ qs) = payload_size rs + payload_size qs"
  by (simp_all add: payload_size_def)

lemma collect_simps [simp]:
  "collect r [] = r" "collect (collect r rs) qs = collect r (rs @ qs)"
  "rp_records (collect r rs) = rp_records r @ rs" "rp_stop (collect r rs) = rp_stop r"
  "rp_valid_segment_prefixes (collect r rs) = rp_valid_segment_prefixes r"
  "rp_payload_bytes (collect r rs) = rp_payload_bytes r + payload_size rs"
  by (simp_all add: collect_def)

lemma stop_at_simps [simp]:
  "rp_records (stop_at r k st) = rp_records r" "rp_last_sequence (stop_at r k st) = rp_last_sequence r"
  "rp_payload_bytes (stop_at r k st) = rp_payload_bytes r" "rp_stop (stop_at r k st) = st"
  "rp_valid_segment_prefixes (stop_at r k st) = rp_valid_segment_prefixes r @ [k]"
  by (simp_all add: stop_at_def)

lemma checked_add_one: "unat (n :: u64) + 1 < 2 ^ 64 \<Longrightarrow> checked_add n 1 = Some (n + 1)"
  by (simp add: checked_add_def)

lemma unat_add_one: "unat (n :: u64) + 1 < 2 ^ 64 \<Longrightarrow> unat (n + 1) = unat n + 1"
  by (simp add: unat_word_ariths)

lemma records_ok_append:
  "records_ok g n (rs @ qs) \<longleftrightarrow> records_ok g n rs \<and> records_ok g (n + word_of_nat (length rs)) qs"
  by (induction rs arbitrary: n) (auto simp: algebra_simps)

lemma records_ok_bound: "records_ok g n rs \<Longrightarrow> unat n + length rs < 2 ^ 64"
proof (induction rs arbitrary: n)
  case Nil
  then show ?case using unsigned_less [of n] by simp
next
  case (Cons r rs)
  then show ?case using Cons.IH [of "n + 1"] by (simp add: unat_add_one)
qed

declare replay_records.simps [simp del]

lemma replay_records_steps:
  "k < length bytes \<Longrightarrow> replay_record crc limits h bytes k n r = Inr (k', n', r') \<Longrightarrow>
   replay_records crc limits h bytes k n r = replay_records crc limits h bytes k' n' r'"
  "k < length bytes \<Longrightarrow> replay_record crc limits h bytes k n r = Inl r' \<Longrightarrow>
   replay_records crc limits h bytes k n r = Inl r'"
  "\<not> k < length bytes \<Longrightarrow> replay_records crc limits h bytes k n r = Inr (k, n, r)"
  by (simp_all add: replay_records.simps)

lemma replay_record_ok:
  assumes ok: "record_ok (sh_starting_generation h) n x" and fits: "fits_limits limits r [x]"
    and n: "unat n + 1 < 2 ^ 64" and bytes: "drop k bytes = record_bytes crc x @ rest"
  shows "replay_record crc limits h bytes k n r = Inr (k + length (record_bytes crc x), n + 1, collect r [x])"
proof -
  have "jr_sequence x = n" using ok by (simp add: record_ok_def)
  then show ?thesis
    using fits by (simp add: replay_record_def bytes decode_record_encode [OF ok] fits_limits_def checked_add_one [OF n]
        collect_def)
qed

lemma fits_limits_cons: "fits_limits limits r (x # rs) \<Longrightarrow> fits_limits limits r [x] \<and> fits_limits limits (collect r [x]) rs"
  by (auto simp: fits_limits_def)

lemma replay_records_run:
  assumes "records_ok (sh_starting_generation h) n rs" "fits_limits limits r rs"
    and "drop k bytes = records_bytes crc rs @ rest" "k \<le> length bytes"
  shows "replay_records crc limits h bytes k n r =
    replay_records crc limits h bytes (k + length (records_bytes crc rs)) (n + word_of_nat (length rs)) (collect r rs)"
  using assms
proof (induction rs arbitrary: n r k)
  case (Cons x rs)
  let ?k = "k + length (record_bytes crc x)"
  have d: "drop k bytes = record_bytes crc x @ records_bytes crc rs @ rest" using Cons.prems by simp
  then have "k < length bytes" using record_bytes_length [of crc x] by (cases "k < length bytes") simp_all
  then have "replay_records crc limits h bytes k n r = replay_records crc limits h bytes ?k (n + 1) (collect r [x])"
    using replay_record_ok [OF _ _ _ d, of h n limits r] Cons.prems fits_limits_cons [OF Cons.prems(2)]
    by (simp add: replay_records_steps)
  also have "drop ?k bytes = records_bytes crc rs @ rest"
    using d by (metis add.commute append_eq_conv_conj drop_drop)
  moreover have "?k \<le> length bytes"
    using arg_cong [OF d, of length] \<open>k < length bytes\<close> by simp
  ultimately show ?case
    using Cons.IH [of "n + 1" "collect r [x]" ?k] Cons.prems fits_limits_cons [OF Cons.prems(2)]
    by (simp add: algebra_simps)
qed simp

lemma replay_records_complete:
  assumes "records_ok (sh_starting_generation h) n rs" "fits_limits limits r rs" "bytes = pre @ records_bytes crc rs"
  shows "replay_records crc limits h bytes (length pre) n r =
    Inr (length bytes, n + word_of_nat (length rs), collect r rs)"
  using replay_records_run [OF assms(1,2), of "length pre" bytes crc "[]"]
  by (simp add: assms(3) replay_records_steps)

section \<open>Torn and damaged tails\<close>

lemma decode_record_torn:
  assumes ok: "record_ok g n x" and m: "m < length (record_bytes crc x)"
  shows "\<exists>reason \<in> {RS_TruncatedFraming, RS_TruncatedRecord, RS_MissingCommit}.
    decode_record crc (take m (record_bytes crc x)) n g = Inl reason"
proof (cases "m < 28")
  case True
  then show ?thesis using m by (simp add: decode_record_def RECORD_PREFIX_LEN_def)
next
  case False
  let ?bs = "take m (record_bytes crc x)" and ?n = "length (jr_payload x)"
  have p: "?n \<le> MAX_RECORD_PAYLOAD" and g: "\<not> jr_generation x < g" and s: "jr_sequence x = n"
    using ok by (auto simp: record_ok_def)
  have len: "length ?bs = m" using m by simp
  have sl: "byte_slice ?bs a b = byte_slice (record_bytes crc x @ []) a b" if "a + b \<le> 28" for a b
    using False that by (simp add: byte_slice_def take_drop min_def)
  note f = record_fields [OF p refl, of crc "[]"]
  have t: "record_type_try_from (record_type_number (jr_record_type x)) = Inr (jr_record_type x)"
    by (simp add: record_type_try_from_iff)
  have "decode_record crc ?bs n g = Inl (if m < 32 + ?n then RS_TruncatedRecord else RS_MissingCommit)"
    using p g s False m f sl t
    by (simp add: decode_record_def Let_def RECORD_PREFIX_LEN_def read_u16_def read_u32_def read_u64_def
        record_bytes_length MAX_RECORD_PAYLOAD_def usize_max_def)
  then show ?thesis by simp
qed

lemma replay_records_torn:
  assumes ok: "records_ok (sh_starting_generation h) n (rs @ [x])" and fits: "fits_limits limits r (rs @ [x])"
    and m: "0 < m" "m < length (record_bytes crc x)"
    and bytes: "bytes = pre @ records_bytes crc rs @ take m (record_bytes crc x)"
  shows "\<exists>reason \<in> {RS_TruncatedFraming, RS_TruncatedRecord, RS_MissingCommit}.
    replay_records crc limits h bytes (length pre) n r =
      Inl (stop_at (collect r rs) (length pre + length (records_bytes crc rs))
             (Stop_Record (sh_segment_index h) (length pre + length (records_bytes crc rs)) reason))"
proof -
  let ?k = "length pre + length (records_bytes crc rs)" and ?n = "n + word_of_nat (length rs)"
  have oks: "records_ok (sh_starting_generation h) n rs" "record_ok (sh_starting_generation h) ?n x"
    using ok by (simp_all add: records_ok_append)
  have f: "fits_limits limits r rs" "length (rp_records r) + length rs < rl_max_records limits"
    using fits by (auto simp: fits_limits_def)
  have "replay_records crc limits h bytes (length pre) n r = replay_records crc limits h bytes ?k ?n (collect r rs)"
    by (rule replay_records_run [OF oks(1) f(1)]) (simp_all add: bytes)
  moreover have "drop ?k bytes = take m (record_bytes crc x)" "?k < length bytes" using m by (simp_all add: bytes)
  moreover obtain reason where "reason \<in> {RS_TruncatedFraming, RS_TruncatedRecord, RS_MissingCommit}"
    "decode_record crc (take m (record_bytes crc x)) ?n (sh_starting_generation h) = Inl reason"
    using decode_record_torn [OF oks(2) m(2)] by blast
  ultimately show ?thesis using f(2) by (intro bexI [of _ reason]) (simp_all add: replay_record_def replay_records_steps(2))
qed

section \<open>Everything a replay returns was written\<close>

text \<open>What the loop over the records of a segment has accepted when it ends or stops.\<close>

definition accepted ::
  "crc32c \<Rightarrow> segment_header \<Rightarrow> u8 list \<Rightarrow> nat \<Rightarrow> u64 \<Rightarrow> journal_record list \<Rightarrow> nat \<Rightarrow> bool" where
  "accepted crc h bytes k n rs k' \<longleftrightarrow>
     records_ok (sh_starting_generation h) n rs \<and> k' \<le> length bytes
     \<and> take k' bytes = take k bytes @ records_bytes crc rs"

lemma accepted_Cons:
  assumes "record_ok (sh_starting_generation h) n x" "unat n + 1 < 2 ^ 64"
    and "take (k + m) bytes = take k bytes @ record_bytes crc x" "accepted crc h bytes (k + m) (n + 1) rs k'"
  shows "accepted crc h bytes k n (x # rs) k'"
  using assms by (simp add: accepted_def)

lemma replay_record_sound:
  assumes "replay_record crc limits h bytes k n r = Inr (k', n', r')"
  shows "\<exists>x. record_ok (sh_starting_generation h) n x \<and> unat n + 1 < 2 ^ 64 \<and> n' = n + 1 \<and> r' = collect r [x]
    \<and> take k' bytes = take k bytes @ record_bytes crc x"
proof -
  obtain d where d: "decode_record crc (drop k bytes) n (sh_starting_generation h) = Inr d"
    and n: "checked_add n 1 = Some n'" and k: "k' = k + dr_consumed d" and r': "r' = collect r [as_record d]"
    using assms by (auto simp: replay_record_def Let_def collect_def as_record_def
        split: if_splits sum.splits option.splits)
  from decode_record_sound [OF d] have ok: "record_ok (sh_starting_generation h) n (as_record d)"
    and "take (dr_consumed d) (drop k bytes) = record_bytes crc (as_record d)"
    by blast+
  then have "take k' bytes = take k bytes @ record_bytes crc (as_record d)" by (simp add: k take_add)
  with ok n r' show ?thesis by (intro exI [of _ "as_record d"]) (auto simp: checked_add_def split: if_splits)
qed

lemma replay_record_stops:
  assumes "replay_record crc limits h bytes k n r = Inl r'" "unat n + 1 < 2 ^ 64"
  shows "\<exists>stop. r' = stop_at r k stop"
  using assms checked_add_one [OF assms(2)]
  by (auto simp: replay_record_def Let_def split: if_splits sum.splits)

lemma replay_records_sound:
  assumes "k \<le> length bytes" "unat n = Suc (length (rp_records r))" "rl_max_records limits < 2 ^ 64 - 1"
    "length (rp_records r) \<le> rl_max_records limits"
  shows "case replay_records crc limits h bytes k n r of
      Inl r' \<Rightarrow> \<exists>rs k' stop. accepted crc h bytes k n rs k' \<and> r' = stop_at (collect r rs) k' stop
    | Inr (k', n', r') \<Rightarrow> \<exists>rs. accepted crc h bytes k n rs k' \<and> r' = collect r rs \<and> k' = length bytes
        \<and> n' = n + word_of_nat (length rs)"
  using assms
proof (induction crc limits h bytes k n r rule: replay_records.induct)
  case (1 crc limits h bytes k n r)
  show ?case
  proof (cases "k < length bytes")
    case False
    with "1.prems" show ?thesis by (simp add: replay_records_steps accepted_def exI [of _ "[]"])
  next
    case True
    have n: "unat n + 1 < 2 ^ 64" if "length (rp_records r) < rl_max_records limits" using "1.prems" that by simp
    show ?thesis
    proof (cases "replay_record crc limits h bytes k n r")
      case (Inl r')
      have "\<exists>stop. r' = stop_at r k stop"
      proof (cases "length (rp_records r) < rl_max_records limits")
        case True
        then show ?thesis using replay_record_stops [OF Inl n] by simp
      next
        case False
        then show ?thesis using Inl by (auto simp: replay_record_def)
      qed
      then obtain stop where "r' = stop_at r k stop" by blast
      with True Inl "1.prems"(1) show ?thesis
        by (auto simp: replay_records_steps accepted_def intro!: exI [of _ "[]"] exI [of _ k])
    next
      case (Inr p)
      obtain k1 n1 r1 where p: "p = (k1, n1, r1)" by (cases p)
      with Inr obtain x where x: "record_ok (sh_starting_generation h) n x" "unat n + 1 < 2 ^ 64" "n1 = n + 1"
        "r1 = collect r [x]" "take k1 bytes = take k bytes @ record_bytes crc x"
        using replay_record_sound by blast
      have "k < k1 \<and> k1 - k \<le> length bytes - k" using replay_record_advances Inr p by blast
      then have adv: "k < k1" "k1 \<le> length bytes" using True by linarith+
      have lim: "length (rp_records r) < rl_max_records limits"
        using Inr by (auto simp: replay_record_def split: if_splits)
      have k1: "k1 = k + (k1 - k)" using adv by simp
      have "case replay_records crc limits h bytes k1 n1 r1 of
          Inl r' \<Rightarrow> \<exists>rs k' stop. accepted crc h bytes k1 n1 rs k' \<and> r' = stop_at (collect r1 rs) k' stop
        | Inr (k', n', r') \<Rightarrow> \<exists>rs. accepted crc h bytes k1 n1 rs k' \<and> r' = collect r1 rs \<and> k' = length bytes
            \<and> n' = n1 + word_of_nat (length rs)"
        by (rule "1.IH" [OF True Inr p [symmetric] refl]) (use adv x "1.prems" True lim in \<open>simp_all add: unat_add_one\<close>)
      moreover have "accepted crc h bytes k n (x # rs) k'" if "accepted crc h bytes k1 n1 rs k'" for rs k'
        using accepted_Cons [OF x(1,2), of k "k1 - k" bytes crc rs k'] that x(3,5) k1 by simp
      moreover have "replay_records crc limits h bytes k n r = replay_records crc limits h bytes k1 n1 r1"
        using True Inr p by (simp add: replay_records_steps)
      moreover have "collect r1 rs = collect r (x # rs)" for rs using x(4) by simp
      moreover have "n1 + word_of_nat (length rs) = n + word_of_nat (length (x # rs))" for rs using x(3) by simp
      ultimately show ?thesis
        by (cases "replay_records crc limits h bytes k1 n1 r1") (simp_all only: sum.case split_beta, blast+)
    qed
  qed
qed

section \<open>Sets of segments\<close>

type_synonym segment = "segment_header \<times> journal_record list"

definition segment_bytes :: "crc32c \<Rightarrow> segment \<Rightarrow> u8 list" where
  "segment_bytes crc seg = segment_header_encode crc (fst seg) @ records_bytes crc (snd seg)"

definition next_cursor :: "crc32c \<Rightarrow> sha256 \<Rightarrow> replay_cursor \<Rightarrow> segment \<Rightarrow> replay_cursor" where
  "next_cursor crc sha c seg =
     \<lparr>rc_expected_gid = Some (sh_task_gid (fst seg)),
      rc_expected_journal = Some (sh_journal_id (fst seg)),
      rc_expected_index = rc_expected_index c + 1,
      rc_expected_sequence = rc_expected_sequence c + word_of_nat (length (snd seg)),
      rc_previous_hash = hash_segment sha (segment_bytes crc seg)\<rparr>"

text \<open>A segment continues the set that the cursor describes.\<close>

definition continues_set :: "replay_cursor \<Rightarrow> segment \<Rightarrow> bool" where
  "continues_set c seg \<longleftrightarrow>
     header_ok (fst seg) \<and> header_mismatch c (rc_expected_sequence c - 1) (fst seg) = None
     \<and> records_ok (sh_starting_generation (fst seg)) (rc_expected_sequence c) (snd seg)"

fun linked :: "crc32c \<Rightarrow> sha256 \<Rightarrow> replay_cursor \<Rightarrow> segment list \<Rightarrow> bool" where
  "linked crc sha c [] \<longleftrightarrow> True"
| "linked crc sha c [seg] \<longleftrightarrow> continues_set c seg"
| "linked crc sha c (seg # segs) \<longleftrightarrow>
     continues_set c seg \<and> unat (rc_expected_index c) + 1 < 2 ^ 32 \<and> linked crc sha (next_cursor crc sha c seg) segs"

definition all_records :: "segment list \<Rightarrow> journal_record list" where
  "all_records segs = concat (map snd segs)"

text \<open>The collection after the complete segments.\<close>

definition collect_set :: "crc32c \<Rightarrow> journal_replay \<Rightarrow> segment list \<Rightarrow> journal_replay" where
  "collect_set crc r segs =
     (collect r (all_records segs))
       \<lparr>rp_valid_segment_prefixes := rp_valid_segment_prefixes r @ map (length \<circ> segment_bytes crc) segs\<rparr>"

lemma all_records_simps [simp]:
  "all_records [] = []" "all_records (seg # segs) = snd seg @ all_records segs"
  "all_records (segs @ qs) = all_records segs @ all_records qs"
  by (simp_all add: all_records_def)

lemma header_encode_length: "header_ok h \<Longrightarrow> length (segment_header_encode crc h) = 104"
  by (simp add: segment_header_encode_def header_body_length)

lemma header_decode_iff:
  "segment_header_decode crc bs = Inr h \<longleftrightarrow> header_ok h \<and> take 104 bs = segment_header_encode crc h"
proof
  assume "header_ok h \<and> take 104 bs = segment_header_encode crc h"
  then show "segment_header_decode crc bs = Inr h"
    using header_decode_encode [of h crc "drop 104 bs"] by (metis append_take_drop_id)
qed (rule header_decode_sound)

lemma header_match_cursor:
  assumes "header_mismatch c l h = None"
  shows "rc_expected_gid c = Some g \<Longrightarrow> g = sh_task_gid h" "rc_expected_journal c = Some j \<Longrightarrow> j = sh_journal_id h"
    "sh_segment_index h = rc_expected_index c" "sh_first_sequence h = rc_expected_sequence c"
  using assms by (auto simp: header_mismatch_def split: if_splits)

text \<open>One complete segment of the loop over segments.\<close>

lemma replay_segments_step:
  assumes seg: "continues_set c seg" and fits: "fits_limits limits r (snd seg)"
    and last: "rp_last_sequence r = rc_expected_sequence c - 1"
    and i: "i < rl_max_segments limits" and idx: "unat (rc_expected_index c) + 1 < 2 ^ 32"
  shows "replay_segments crc sha limits i (segment_bytes crc seg # rest) c r =
    replay_segments crc sha limits (Suc i) rest (next_cursor crc sha c seg) (collect_set crc r [seg])"
proof -
  obtain h rs where s: "seg = (h, rs)" by (cases seg)
  have ok: "header_ok h" and mm: "header_mismatch c (rp_last_sequence r) h = None"
    and rok: "records_ok (sh_starting_generation h) (rc_expected_sequence c) rs"
    using seg last by (simp_all add: continues_set_def s)
  have dec: "segment_header_decode crc (segment_bytes crc seg) = Inr h"
    using ok by (simp add: header_decode_encode segment_bytes_def s)
  have run: "replay_records crc limits h (segment_bytes crc seg) SEGMENT_HEADER_LEN (rc_expected_sequence c) r =
      Inr (length (segment_bytes crc seg), rc_expected_sequence c + word_of_nat (length rs), collect r rs)"
    using replay_records_complete [OF rok, of limits r "segment_bytes crc seg" "segment_header_encode crc h" crc] fits
    by (simp add: segment_bytes_def s SEGMENT_HEADER_LEN_def header_encode_length [OF ok])
  have add: "checked_add (rc_expected_index c) 1 = Some (rc_expected_index c + 1)"
    using idx by (simp add: checked_add_def)
  have "(case rc_expected_gid c of None \<Rightarrow> sh_task_gid h | Some g \<Rightarrow> g) = sh_task_gid h"
    "(case rc_expected_journal c of None \<Rightarrow> sh_journal_id h | Some j \<Rightarrow> j) = sh_journal_id h"
    using header_match_cursor [OF mm] by (auto split: option.split)
  then show ?thesis
    using i mm add by (simp add: dec [unfolded s] run [unfolded s] s next_cursor_def collect_set_def)
qed

declare replay_segments.simps(2) [simp del]

lemma collect_set_simps [simp]:
  "collect_set crc r [] = r" "collect_set crc (collect_set crc r segs) qs = collect_set crc r (segs @ qs)"
  "rp_records (collect_set crc r segs) = rp_records r @ all_records segs"
  "rp_payload_bytes (collect_set crc r segs) = rp_payload_bytes r + payload_size (all_records segs)"
  by (simp_all add: collect_set_def collect_def)

lemma fits_limits_append:
  "fits_limits limits r (rs @ qs) \<Longrightarrow> fits_limits limits r rs"
  "fits_limits limits r (all_records (seg # segs)) \<Longrightarrow> fits_limits limits (collect_set crc r [seg]) (all_records segs)"
  by (auto simp: fits_limits_def)

lemma records_ok_last:
  "records_ok g n rs \<Longrightarrow> rs \<noteq> [] \<Longrightarrow> jr_sequence (last rs) = n + word_of_nat (length rs) - 1"
proof (induction rs arbitrary: n)
  case (Cons r rs)
  then show ?case using Cons.IH [of "n + 1"] by (cases "rs = []") (simp_all add: record_ok_def)
qed simp

lemma last_sequence_kept:
  assumes "continues_set c seg" "rp_last_sequence r = rc_expected_sequence c - 1"
  shows "rp_last_sequence (collect_set crc r [seg]) = rc_expected_sequence (next_cursor crc sha c seg) - 1"
  using assms records_ok_last [of "sh_starting_generation (fst seg)" "rc_expected_sequence c" "snd seg"]
  by (auto simp: continues_set_def collect_set_def collect_def next_cursor_def)

lemma linked_Cons:
  "linked crc sha c (seg # segs) \<longleftrightarrow> continues_set c seg
     \<and> (segs = [] \<or> unat (rc_expected_index c) + 1 < 2 ^ 32 \<and> linked crc sha (next_cursor crc sha c seg) segs)"
  by (cases segs) simp_all

lemma collect_set_last:
  "rp_last_sequence (collect_set crc r segs) = (if all_records segs = [] then rp_last_sequence r
     else jr_sequence (last (all_records segs)))"
  by (simp add: collect_set_def collect_def)

text \<open>A linked set followed by anything: the set is collected first.\<close>

lemma replay_linked:
  assumes "linked crc sha c (segs @ [seg])" "fits_limits limits r (all_records segs)"
    and "rp_last_sequence r = rc_expected_sequence c - 1" "i + length segs \<le> rl_max_segments limits"
  shows "\<exists>c'. continues_set c' seg
    \<and> rp_last_sequence (collect_set crc r segs) = rc_expected_sequence c' - 1
    \<and> (\<forall>bytes. replay_segments crc sha limits i (map (segment_bytes crc) segs @ bytes) c r =
         replay_segments crc sha limits (i + length segs) bytes c' (collect_set crc r segs))"
  using assms
proof (induction segs arbitrary: c r i)
  case Nil
  then show ?case by auto
next
  case (Cons s segs)
  let ?c = "next_cursor crc sha c s" and ?r = "collect_set crc r [s]"
  have l: "continues_set c s" "unat (rc_expected_index c) + 1 < 2 ^ 32" "linked crc sha ?c (segs @ [seg])"
    using Cons.prems(1) by (simp_all add: linked_Cons)
  have f: "fits_limits limits r (snd s)" "fits_limits limits ?r (all_records segs)"
    using Cons.prems(2) fits_limits_append by (simp, blast)
  have step: "replay_segments crc sha limits i (segment_bytes crc s # rest) c r =
      replay_segments crc sha limits (Suc i) rest ?c ?r" for rest
    using replay_segments_step [OF l(1) f(1) Cons.prems(3) _ l(2)] Cons.prems(4) by simp
  from Cons.IH [OF l(3) f(2) last_sequence_kept [OF l(1) Cons.prems(3)], of "Suc i"] Cons.prems(4)
  show ?case by (simp add: step)
qed

lemma replay_linked_complete:
  assumes l: "linked crc sha c (segs @ [seg])" and f: "fits_limits limits r (all_records (segs @ [seg]))"
    and last: "rp_last_sequence r = rc_expected_sequence c - 1" and i: "i + length segs < rl_max_segments limits"
    and idx: "unat (rc_expected_index c) + length segs + 1 < 2 ^ 32"
  shows "replay_segments crc sha limits i (map (segment_bytes crc) (segs @ [seg])) c r =
    (collect_set crc r (segs @ [seg]))\<lparr>rp_stop := Stop_CleanEnd\<rparr>"
  using l f last i idx
proof (induction segs arbitrary: c r i)
  case Nil
  then show ?case using replay_segments_step [of c seg limits r i crc sha "[]"] by simp
next
  case (Cons s segs)
  let ?c = "next_cursor crc sha c s" and ?r = "collect_set crc r [s]"
  have l: "continues_set c s" "unat (rc_expected_index c) + 1 < 2 ^ 32" "linked crc sha ?c (segs @ [seg])"
    using Cons.prems(1) by (simp_all add: linked_Cons)
  have f: "fits_limits limits r (snd s)" "fits_limits limits ?r (all_records (segs @ [seg]))"
    using Cons.prems(2) fits_limits_append [of limits r] by (simp, simp del: all_records_simps(3))
  have "unat (rc_expected_index ?c) = unat (rc_expected_index c) + 1"
    using l(2) by (simp add: next_cursor_def unat_word_ariths)
  then show ?case
    using Cons.IH [OF l(3) f(2) last_sequence_kept [OF l(1) Cons.prems(3)], of "Suc i"] Cons.prems(4,5)
      replay_segments_step [OF l(1) f(1) Cons.prems(3) _ l(2), of i crc sha]
    by simp
qed

section \<open>Replaying arbitrary bytes\<close>

definition accepted_set ::
  "crc32c \<Rightarrow> sha256 \<Rightarrow> replay_cursor \<Rightarrow> u8 list list \<Rightarrow> journal_replay \<Rightarrow> journal_replay \<Rightarrow> bool" where
  "accepted_set crc sha c segments r r' \<longleftrightarrow>
     (\<exists>segs ks. linked crc sha c segs \<and> rp_records r' = rp_records r @ all_records segs
        \<and> rp_valid_segment_prefixes r' = rp_valid_segment_prefixes r @ ks
        \<and> length ks = length segs \<and> map2 take ks segments = map (segment_bytes crc) segs)"

lemma accepted_set_none:
  "rp_records r' = rp_records r \<Longrightarrow> rp_valid_segment_prefixes r' = rp_valid_segment_prefixes r \<Longrightarrow>
   accepted_set crc sha c segments r r'"
  by (auto simp: accepted_set_def intro!: exI [of _ "[]"])

lemma accepted_set_one:
  assumes "continues_set c seg" "take k bytes = segment_bytes crc seg" "rp_records r' = rp_records r @ snd seg"
    "rp_valid_segment_prefixes r' = rp_valid_segment_prefixes r @ [k]"
  shows "accepted_set crc sha c (bytes # rest) r r'"
  using assms by (auto simp: accepted_set_def intro!: exI [of _ "[seg]"])

lemma accepted_set_Cons:
  assumes "continues_set c seg" "take k bytes = segment_bytes crc seg" "unat (rc_expected_index c) + 1 < 2 ^ 32"
    "rp_records r1 = rp_records r @ snd seg" "rp_valid_segment_prefixes r1 = rp_valid_segment_prefixes r @ [k]"
    and rest: "accepted_set crc sha (next_cursor crc sha c seg) rest r1 r'"
  shows "accepted_set crc sha c (bytes # rest) r r'"
proof -
  obtain segs ks where a: "linked crc sha (next_cursor crc sha c seg) segs" "rp_records r' = rp_records r1 @ all_records segs"
    "rp_valid_segment_prefixes r' = rp_valid_segment_prefixes r1 @ ks" "length ks = length segs"
    "map2 take ks rest = map (segment_bytes crc) segs"
    using rest unfolding accepted_set_def by blast
  have "linked crc sha c (seg # segs)" using assms(1,3) a(1) by (simp add: linked_Cons)
  moreover have "map2 take (k # ks) (bytes # rest) = map (segment_bytes crc) (seg # segs)" using assms(2) a(5) by simp
  ultimately show ?thesis unfolding accepted_set_def using assms(4,5) a(2-4)
    by (intro exI [of _ "seg # segs"] exI [of _ "k # ks"]) simp
qed

lemma replay_records_limit:
  "replay_records crc limits h bytes k n r = Inr (k', n', r') \<Longrightarrow> length (rp_records r) \<le> rl_max_records limits \<Longrightarrow>
   length (rp_records r') \<le> rl_max_records limits"
proof (induction crc limits h bytes k n r rule: replay_records.induct)
  case (1 crc limits h bytes k n r)
  show ?case
  proof (cases "k < length bytes")
    case False
    with "1.prems" show ?thesis by (simp add: replay_records_steps)
  next
    case True
    with "1.prems"(1) obtain k1 n1 r1 where step: "replay_record crc limits h bytes k n r = Inr (k1, n1, r1)"
      by (cases "replay_record crc limits h bytes k n r") (auto simp: replay_records_steps)
    have "length (rp_records r1) \<le> rl_max_records limits"
      using step replay_record_sound [OF step] by (auto simp: replay_record_def split: if_splits)
    with "1.IH" [OF True step refl refl] "1.prems"(1) show ?thesis
      by (simp add: replay_records_steps(1) [OF True step])
  qed
qed

lemma replay_segments_sound:
  assumes "unat (rc_expected_sequence c) = Suc (length (rp_records r))" "rl_max_records limits < 2 ^ 64 - 1"
    "length (rp_records r) \<le> rl_max_records limits" "rp_last_sequence r = rc_expected_sequence c - 1"
  shows "accepted_set crc sha c segments r (replay_segments crc sha limits i segments c r)"
  using assms
proof (induction segments arbitrary: i c r)
  case Nil
  then show ?case by (simp add: accepted_set_none)
next
  case (Cons bytes rest)
  note simps = replay_segments.simps(2)
  show ?case
  proof (cases "i < rl_max_segments limits \<and> (\<exists>h. segment_header_decode crc bytes = Inr h
      \<and> header_mismatch c (rp_last_sequence r) h = None)")
    case False
    then show ?thesis
      by (intro accepted_set_none) (auto simp: simps split: sum.splits option.splits)
  next
    case True
    then obtain h where i: "i < rl_max_segments limits" and h: "segment_header_decode crc bytes = Inr h"
      and mm: "header_mismatch c (rp_last_sequence r) h = None" by blast
    have ok: "header_ok h" "take 104 bytes = segment_header_encode crc h" using header_decode_sound [OF h] by blast+
    have "length (take 104 bytes) = 104" using header_encode_length [OF ok(1)] ok(2) by simp
    then have len: "104 \<le> length bytes" by simp
    have seg: "continues_set c (h, rs)" "take k bytes = segment_bytes crc (h, rs)"
      if "accepted crc h bytes 104 (rc_expected_sequence c) rs k" for rs k
      using that ok mm Cons.prems(4) by (simp_all add: accepted_def continues_set_def segment_bytes_def)
    note sound = replay_records_sound [OF len Cons.prems(1-3), of crc h]
    show ?thesis
    proof (cases "replay_records crc limits h bytes 104 (rc_expected_sequence c) r")
      case (Inl r')
      then obtain rs k stop where "accepted crc h bytes 104 (rc_expected_sequence c) rs k"
        "r' = stop_at (collect r rs) k stop"
        using sound by auto
      then show ?thesis
        using seg i h mm Inl by (intro accepted_set_one) (auto simp: simps SEGMENT_HEADER_LEN_def)
    next
      case (Inr p)
      then obtain rs where rs: "accepted crc h bytes 104 (rc_expected_sequence c) rs (length bytes)"
        "p = (length bytes, rc_expected_sequence c + word_of_nat (length rs), collect r rs)"
        using sound by (cases p) auto
      have bytes: "bytes = segment_bytes crc (h, rs)" using seg(2) [OF rs(1)] by simp
      have lim: "length (rp_records r) + length rs \<le> rl_max_records limits"
        using replay_records_limit Inr rs(2) Cons.prems(3) by fastforce
      let ?r = "collect_set crc r [(h, rs)]" and ?c = "next_cursor crc sha c (h, rs)"
      have cs: "(case rc_expected_gid c of None \<Rightarrow> sh_task_gid h | Some g \<Rightarrow> g) = sh_task_gid h"
        "(case rc_expected_journal c of None \<Rightarrow> sh_journal_id h | Some j \<Rightarrow> j) = sh_journal_id h"
        using header_match_cursor [OF mm] by (auto split: option.split)
      have step: "replay_segments crc sha limits i (bytes # rest) c r =
          (if unat (rc_expected_index c) + 1 < 2 ^ 32 then replay_segments crc sha limits (Suc i) rest ?c ?r
           else ?r\<lparr>rp_stop := Stop_ResourceLimit RR_Segments\<rparr>)"
        using i h mm Inr
        by (simp add: simps SEGMENT_HEADER_LEN_def rs(2) cs checked_add_def collect_set_def next_cursor_def flip: bytes)
      have seq: "unat (rc_expected_sequence ?c) = Suc (length (rp_records ?r))"
        using Cons.prems(1,2) lim by (simp add: next_cursor_def unat_word_ariths unat_of_nat)
      show ?thesis
      proof (cases "unat (rc_expected_index c) + 1 < 2 ^ 32")
        case True
        have "accepted_set crc sha ?c rest ?r (replay_segments crc sha limits (Suc i) rest ?c ?r)"
          using Cons.IH [OF seq Cons.prems(2) _ last_sequence_kept [OF seg(1) [OF rs(1)] Cons.prems(4)]] lim by simp
        then have "accepted_set crc sha c (bytes # rest) r (replay_segments crc sha limits (Suc i) rest ?c ?r)"
          by (rule accepted_set_Cons [OF seg [OF rs(1)] True, rotated 2]) (simp_all add: collect_set_def bytes)
        with True step show ?thesis by simp
      next
        case False
        with step show ?thesis
          by (intro accepted_set_one [OF seg [OF rs(1)]]) (simp_all add: collect_set_def bytes)
      qed
    qed
  qed
qed

lemma replay_record_mono:
  "replay_record crc limits h bytes k n r = Inl r' \<Longrightarrow> rp_records r' = rp_records r"
  "replay_record crc limits h bytes k n r = Inr (k', n', r') \<Longrightarrow> prefix (rp_records r) (rp_records r')"
  by (auto simp: replay_record_def Let_def split: if_splits sum.splits option.splits)

lemma replay_records_mono:
  "case replay_records crc limits h bytes k n r of
     Inl r' \<Rightarrow> prefix (rp_records r) (rp_records r')
   | Inr (k', n', r') \<Rightarrow> prefix (rp_records r) (rp_records r')"
proof (induction crc limits h bytes k n r rule: replay_records.induct)
  case (1 crc limits h bytes k n r)
  show ?case
  proof (cases "k < length bytes")
    case True
    show ?thesis
    proof (cases "replay_record crc limits h bytes k n r")
      case (Inl r')
      with True show ?thesis using replay_record_mono(1) [OF Inl] by (simp add: replay_records_steps)
    next
      case (Inr p)
      obtain k1 n1 r1 where p: "p = (k1, n1, r1)" by (cases p)
      have "replay_records crc limits h bytes k n r = replay_records crc limits h bytes k1 n1 r1"
        using True Inr p by (simp add: replay_records_steps)
      moreover have "prefix (rp_records r) (rp_records r1)" using replay_record_mono(2) Inr p by blast
      ultimately show ?thesis
        using "1.IH" [OF True Inr p [symmetric] refl]
        by (auto split: sum.splits dest: prefix_order.trans)
    qed
  qed (simp add: replay_records_steps)
qed

lemma replay_segments_Cons_prefix:
  assumes dec: "segment_header_decode crc bytes = Inr h" and mm: "header_mismatch c (rp_last_sequence r) h = None"
    and i: "i < rl_max_segments limits"
    and run: "case replay_records crc limits h bytes SEGMENT_HEADER_LEN (rc_expected_sequence c) r of
        Inl r' \<Rightarrow> prefix p (rp_records r') | Inr (k', n', r') \<Rightarrow> prefix p (rp_records r')"
    and rest: "\<And>j c' r'. prefix (rp_records r') (rp_records (replay_segments crc sha limits j rest c' r'))"
  shows "prefix p (rp_records (replay_segments crc sha limits i (bytes # rest) c r))"
proof (cases "replay_records crc limits h bytes SEGMENT_HEADER_LEN (rc_expected_sequence c) r")
  case (Inl r')
  with run i show ?thesis by (simp add: replay_segments.simps(2) dec mm)
next
  case (Inr q)
  obtain k' n' r' where q: "q = (k', n', r')" by (cases q)
  let ?r = "r'\<lparr>rp_valid_segment_prefixes := rp_valid_segment_prefixes r' @ [k']\<rparr>"
  have p: "prefix p (rp_records ?r)" using run Inr q by simp
  note ext = prefix_order.trans [OF p rest [of ?r]]
  show ?thesis
    using i Inr q p by (cases "checked_add (rc_expected_index c) 1")
      (simp_all add: replay_segments.simps(2) dec mm Let_def ext)
qed

lemma replay_segments_mono:
  "prefix (rp_records r) (rp_records (replay_segments crc sha limits i segments c r))"
proof (induction segments arbitrary: i c r)
  case (Cons bytes rest)
  show ?case
  proof (cases "i < rl_max_segments limits \<and> (\<exists>h. segment_header_decode crc bytes = Inr h
      \<and> header_mismatch c (rp_last_sequence r) h = None)")
    case True
    then show ?thesis using replay_segments_Cons_prefix [OF _ _ _ replay_records_mono Cons.IH] by blast
  next
    case False
    then show ?thesis
      by (cases "segment_header_decode crc bytes") (auto simp: replay_segments.simps(2) split: option.splits)
  qed
qed simp

end
