(* ===== verification/JournalWritten.thy ===== *)
theory JournalWritten
  imports JournalReplay
begin

text \<open>
  The journal as its owner writes it (the first segment, appends, rotations, as \<^verbatim>\<open>SegmentEncoder\<close> and
  \<^verbatim>\<open>EncodedSegment\<close> of \<^verbatim>\<open>src/crates/ariax-storage/src/journal.rs\<close> allow), and what replaying it returns:
  everything that was written, also when the last write was torn or the tail was damaged, and nothing else.
\<close>

section \<open>Writing a journal\<close>

text \<open>
  What the owner of a journal does: it creates the first segment, appends records, and from time to time
  finishes the segment and rotates to the next. The last argument lists the records so far.
\<close>

inductive written ::
  "crc32c \<Rightarrow> sha256 \<Rightarrow> encoded_segment list \<Rightarrow> segment_encoder \<Rightarrow> journal_record list \<Rightarrow> bool"
  for crc sha where
  start: "gid_new v = Some g \<Longrightarrow> length bytes = 16 \<Longrightarrow> journal_id_new bytes = Some j \<Longrightarrow>
    written crc sha [] (encoder_first crc g j gen ms) []"
| append: "written crc sha es e rs \<Longrightarrow> encoder_append crc e t g payload = (Inr n, e') \<Longrightarrow>
    written crc sha es e' (rs @ [\<lparr>jr_record_type = t, jr_generation = g, jr_sequence = n, jr_payload = payload\<rparr>])"
| rotate: "written crc sha es e rs \<Longrightarrow> segment_rotate crc (encoder_finish sha e) g ms = Inr e' \<Longrightarrow>
    written crc sha (es @ [encoder_finish sha e]) e' rs"

lemma encoder_append_ok:
  assumes "encoder_append crc e t g payload = (Inr n, e')"
  defines "x \<equiv> \<lparr>jr_record_type = t, jr_generation = g, jr_sequence = n, jr_payload = payload\<rparr>"
  shows "n = se_next_sequence e" "record_ok (sh_starting_generation (se_header e)) (se_next_sequence e) x"
    "unat (se_next_sequence e) + 1 < 2 ^ 64"
    "e' = e\<lparr>se_bytes := se_bytes e @ record_bytes crc x, se_next_sequence := se_next_sequence e + 1\<rparr>"
proof -
  have len: "length payload \<le> MAX_RECORD_PAYLOAD" and g: "\<not> g < sh_starting_generation (se_header e)"
    using assms(1) by (auto simp: encoder_append_def split: if_splits)
  then show "n = se_next_sequence e" "record_ok (sh_starting_generation (se_header e)) (se_next_sequence e) x"
    "unat (se_next_sequence e) + 1 < 2 ^ 64"
    "e' = e\<lparr>se_bytes := se_bytes e @ record_bytes crc x, se_next_sequence := se_next_sequence e + 1\<rparr>"
    using assms(1)
    by (auto simp: encoder_append_def Let_def try_in_eq_ok encode_record_eq record_ok_def x_def checked_add_def
        split: if_splits)
qed

primrec run_cursor :: "crc32c \<Rightarrow> sha256 \<Rightarrow> replay_cursor \<Rightarrow> segment list \<Rightarrow> replay_cursor" where
  "run_cursor crc sha c [] = c"
| "run_cursor crc sha c (seg # segs) = run_cursor crc sha (next_cursor crc sha c seg) segs"

lemma run_cursor_append [simp]:
  "run_cursor crc sha c (segs @ qs) = run_cursor crc sha (run_cursor crc sha c segs) qs"
  by (induction segs arbitrary: c) simp_all

lemma linked_append:
  "linked crc sha c (segs @ [seg, seg']) \<longleftrightarrow> linked crc sha c (segs @ [seg])
     \<and> unat (rc_expected_index (run_cursor crc sha c segs)) + 1 < 2 ^ 32
     \<and> continues_set (run_cursor crc sha c (segs @ [seg])) seg'"
proof (induction segs arbitrary: c)
  case (Cons s segs)
  then show ?case by (auto simp: linked_Cons)
qed (auto simp: linked_Cons)

lemma linked_last: "linked crc sha c (segs @ [seg]) \<Longrightarrow> continues_set (run_cursor crc sha c segs) seg"
  by (induction segs arbitrary: c) (simp_all add: linked_Cons)

lemma linked_replace:
  "linked crc sha c (segs @ [seg]) \<Longrightarrow> continues_set (run_cursor crc sha c segs) seg' \<Longrightarrow>
   linked crc sha c (segs @ [seg'])"
  by (induction segs arbitrary: c) (auto simp: linked_Cons)

lemma cursor_index:
  "rc_expected_index (run_cursor crc sha c segs) = rc_expected_index c + word_of_nat (length segs)"
  "rc_expected_sequence (run_cursor crc sha c segs) = rc_expected_sequence c + word_of_nat (length (all_records segs))"
  by (induction segs arbitrary: c) (simp_all add: next_cursor_def algebra_simps)

text \<open>
  What the journal relies on of SHA-256: it yields 32 bytes, and the hash of a finished segment is not the value
  that stands for the missing predecessor of a first segment.
\<close>

definition sha256_output :: "sha256 \<Rightarrow> encoded_segment list \<Rightarrow> bool" where
  "sha256_output sha es \<longleftrightarrow>
     (\<forall>bytes. length (sha bytes) = 32) \<and> (\<forall>s\<in>set es. hash_segment sha (es_bytes s) \<noteq> segment_hash_zero)"

lemma sha256_output_append [simp]:
  "sha256_output sha (es @ [s]) \<longleftrightarrow> sha256_output sha es \<and> hash_segment sha (es_bytes s) \<noteq> segment_hash_zero"
  by (auto simp: sha256_output_def)

lemma hash_segment_length: "sha256_output sha es \<Longrightarrow> length (segment_hash_bytes (hash_segment sha bytes)) = 32"
  by (simp add: sha256_output_def hash_segment_def)

definition journal_of ::
  "crc32c \<Rightarrow> sha256 \<Rightarrow> encoded_segment list \<Rightarrow> segment_encoder \<Rightarrow> journal_record list \<Rightarrow> segment list \<Rightarrow>
   journal_record list \<Rightarrow> bool" where
  "journal_of crc sha es e rs segs cur \<longleftrightarrow>
     map es_bytes es = map (segment_bytes crc) segs
     \<and> linked crc sha replay_start (segs @ [(se_header e, cur)])
     \<and> se_bytes e = segment_bytes crc (se_header e, cur)
     \<and> rs = all_records segs @ cur \<and> se_next_sequence e = 1 + word_of_nat (length rs)
     \<and> length segs < 2 ^ 32"

lemma journal_of_start:
  assumes "gid_new v = Some g" "length bytes = 16" "journal_id_new bytes = Some j"
  shows "journal_of crc sha [] (encoder_first crc g j gen ms) [] [] []"
  using assms
  by (auto simp: journal_of_def encoder_first_def encoder_from_header_def segment_header_first_def segment_bytes_def
      continues_set_def header_ok_def header_mismatch_def replay_start_def check_header_links_def segment_hash_zero_def
      gid_new_def nonzero_u64_new_def journal_id_new_def split: if_splits)

lemma journal_of_append:
  assumes j: "journal_of crc sha es e rs segs cur" and a: "encoder_append crc e t g payload = (Inr n, e')"
  defines "x \<equiv> \<lparr>jr_record_type = t, jr_generation = g, jr_sequence = n, jr_payload = payload\<rparr>"
  shows "journal_of crc sha es e' (rs @ [x]) segs (cur @ [x])"
proof -
  note ap = encoder_append_ok [OF a, folded x_def]
  let ?c = "run_cursor crc sha replay_start segs"
  have c: "continues_set ?c (se_header e, cur)" using j linked_last unfolding journal_of_def by blast
  have "rc_expected_sequence ?c + word_of_nat (length cur) = se_next_sequence e"
    using j by (simp add: journal_of_def cursor_index replay_start_def algebra_simps)
  then have "continues_set ?c (se_header e, cur @ [x])"
    using c ap(2,3) by (simp add: continues_set_def records_ok_append)
  with j ap(4) show ?thesis
    using linked_replace by (auto simp: journal_of_def segment_bytes_def)
qed

lemma journal_of_rotate:
  assumes j: "journal_of crc sha es e rs segs cur" and sha: "sha256_output sha (es @ [encoder_finish sha e])"
    and rot: "segment_rotate crc (encoder_finish sha e) g ms = Inr e'"
  shows "journal_of crc sha (es @ [encoder_finish sha e]) e' rs (segs @ [(se_header e, cur)]) []"
proof -
  let ?h = "se_header e" and ?l = "se_next_sequence e - 1" and ?c = "run_cursor crc sha replay_start segs"
  let ?h' = "\<lparr>sh_task_gid = sh_task_gid ?h, sh_journal_id = sh_journal_id ?h, sh_segment_index = sh_segment_index ?h + 1,
    sh_first_sequence = ?l + 1, sh_starting_generation = g, sh_previous_segment_last_sequence = ?l,
    sh_previous_segment_hash = hash_segment sha (se_bytes e), sh_created_at_unix_ms = ms\<rparr>"
  have l: "\<not> ?l < sh_first_sequence ?h" and e': "e' = encoder_from_header crc ?h'"
    and idx: "unat (sh_segment_index ?h) + 1 < 2 ^ 32" and seq: "checked_add ?l 1 = Some (?l + 1)"
    using rot by (auto simp: segment_rotate_def encoder_finish_def header_successor_def next_header_def
        and_then_eq_Inr checked_add_def split: if_splits)
  have lk: "linked crc sha replay_start (segs @ [(?h, cur)])" and len: "length segs < 2 ^ 32"
    using j by (simp_all add: journal_of_def)
  have c: "continues_set ?c (?h, cur)" using linked_last [OF lk] .
  then have ok: "header_ok ?h" and mm: "header_mismatch ?c (rc_expected_sequence ?c - 1) ?h = None"
    by (simp_all add: continues_set_def)
  note m = header_match_cursor [OF mm]
  have i: "sh_segment_index ?h = word_of_nat (length segs)"
    using m(3) by (simp add: cursor_index replay_start_def)
  have first: "sh_first_sequence ?h \<noteq> 0"
    using ok by (auto simp: header_ok_def check_header_links_def checked_add_def word_unat_eq_iff unat_word_ariths
        split: if_splits)
  then have l0: "?l \<noteq> 0" using l by (metis not_less_iff_gr_or_eq word_gt_0)
  have i': "sh_segment_index ?h + 1 \<noteq> 0" using idx by (simp add: unat_eq_zero [symmetric] unat_word_ariths)
  have "header_ok ?h'"
    using ok l0 i' seq hash_segment_length [OF sha] sha
    by (simp add: header_ok_def check_header_links_def encoder_finish_def)
  moreover have "header_mismatch (run_cursor crc sha replay_start (segs @ [(?h, cur)]))
      (rc_expected_sequence (run_cursor crc sha replay_start (segs @ [(?h, cur)])) - 1) ?h' = None"
    using m(3) j by (simp add: header_mismatch_def next_cursor_def cursor_index replay_start_def journal_of_def
        algebra_simps)
  ultimately have "continues_set (run_cursor crc sha replay_start (segs @ [(?h, cur)])) (?h', [])"
    by (simp add: continues_set_def)
  then have "linked crc sha replay_start ((segs @ [(?h, cur)]) @ [(?h', [])])"
    using lk idx m(3) by (simp add: linked_append)
  moreover have "length segs + 1 < 2 ^ 32"
    using idx i len by (simp add: unat_of_nat)
  ultimately show ?thesis
    using j by (simp add: journal_of_def e' encoder_from_header_def encoder_finish_def segment_bytes_def algebra_simps)
qed

lemma written_journal:
  assumes "written crc sha es e rs" "sha256_output sha es"
  shows "\<exists>segs cur. journal_of crc sha es e rs segs cur"
  using assms
proof induction
  case start
  then show ?case using journal_of_start by blast
next
  case append
  then show ?case using journal_of_append by blast
next
  case (rotate es e rs g ms e')
  then have "sha256_output sha es" by simp
  with rotate show ?case using journal_of_rotate by blast
qed


lemma written_numbered:
  assumes "written crc sha es e rs"
  shows "se_next_sequence e = 1 + word_of_nat (length rs) \<and> (\<forall>i<length rs. jr_sequence (rs ! i) = word_of_nat (Suc i))"
  using assms
proof induction
  case (append es e rs t g payload n e')
  then show ?case using encoder_append_ok(1,4) [OF append.hyps(2)] by (auto simp: nth_append less_Suc_eq)
next
  case (rotate es e rs g ms e')
  then show ?case
    by (auto simp: segment_rotate_def encoder_finish_def header_successor_def next_header_def encoder_from_header_def
        and_then_eq_Inr checked_add_def split: if_splits)
qed (simp add: encoder_first_def encoder_from_header_def segment_header_first_def)

section \<open>Replaying what was written\<close>

lemma journal_of_replay:
  assumes j: "journal_of crc sha es e rs segs cur" and es: "Suc (length es) < 2 ^ 32" "length es < rl_max_segments limits"
    and f: "fits_limits limits replay_empty rs"
  shows "replay_ordered_segments crc sha (map es_bytes es @ [se_bytes e]) limits =
    (collect_set crc replay_empty (segs @ [(se_header e, cur)]))\<lparr>rp_stop := Stop_CleanEnd\<rparr>"
proof -
  have b: "map es_bytes es @ [se_bytes e] = map (segment_bytes crc) (segs @ [(se_header e, cur)])"
    "length segs = length es" "linked crc sha replay_start (segs @ [(se_header e, cur)])"
    using j map_eq_imp_length_eq by (simp_all add: journal_of_def) fastforce
  have l: "rp_last_sequence replay_empty = rc_expected_sequence replay_start - 1"
    "rc_expected_index replay_start = 0"
    by (simp_all add: replay_empty_def replay_start_def)
  have "fits_limits limits replay_empty (all_records (segs @ [(se_header e, cur)]))"
    using f j by (simp add: journal_of_def)
  from replay_linked_complete [OF b(3) this l(1), of 0] b(2) es l(2)
  show ?thesis unfolding replay_ordered_segments_def b(1) by simp
qed

text \<open>The last segment, whatever its bytes, is replayed after the finished ones.\<close>

lemma journal_of_replay_last:
  assumes j: "journal_of crc sha es e rs segs cur" and es: "length es < rl_max_segments limits"
    and f: "fits_limits limits replay_empty (all_records segs)"
  shows "\<exists>c. continues_set c (se_header e, cur)
    \<and> rp_last_sequence (collect_set crc replay_empty segs) = rc_expected_sequence c - 1
    \<and> (\<forall>bytes rest. replay_ordered_segments crc sha (map es_bytes es @ bytes # rest) limits =
         replay_segments crc sha limits (length es) (bytes # rest) c (collect_set crc replay_empty segs))"
proof -
  have b: "map es_bytes es = map (segment_bytes crc) segs" "length segs = length es"
    "linked crc sha replay_start (segs @ [(se_header e, cur)])"
    using j map_eq_imp_length_eq by (simp_all add: journal_of_def) fastforce
  have "rp_last_sequence replay_empty = rc_expected_sequence replay_start - 1"
    by (simp add: replay_empty_def replay_start_def)
  from replay_linked [OF b(3) f this, of 0] b(2) es show ?thesis
    unfolding replay_ordered_segments_def b(1) by auto
qed

lemma replay_segments_header:
  assumes c: "continues_set c (h, cur)" and last: "rp_last_sequence r = rc_expected_sequence c - 1"
    and i: "i < rl_max_segments limits"
    and run: "replay_records crc limits h (segment_header_encode crc h @ bytes) 104 (rc_expected_sequence c) r = Inl r'"
  shows "replay_segments crc sha limits i ((segment_header_encode crc h @ bytes) # rest) c r = r'"
proof -
  have "header_ok h" "header_mismatch c (rp_last_sequence r) h = None"
    using c last by (simp_all add: continues_set_def)
  then show ?thesis
    using i run by (simp add: replay_segments.simps(2) header_decode_encode SEGMENT_HEADER_LEN_def)
qed

lemma journal_of_torn:
  assumes j: "journal_of crc sha es e rs segs cur" and j': "journal_of crc sha es e' (rs @ [x]) segs (cur @ [x])"
    and h: "se_header e' = se_header e" and es: "length es < rl_max_segments limits"
    and f: "fits_limits limits replay_empty (rs @ [x])" and m: "0 < m" "m < length (record_bytes crc x)"
  shows "let r = replay_ordered_segments crc sha (map es_bytes es @ [se_bytes e @ take m (record_bytes crc x)]) limits
    in rp_records r = rs \<and> rp_valid_segment_prefixes r = map (length \<circ> es_bytes) es @ [length (se_bytes e)]"
proof -
  have rs: "rs = all_records segs @ cur" and bytes: "se_bytes e = segment_header_encode crc (se_header e) @ records_bytes crc cur"
    and maps: "map es_bytes es = map (segment_bytes crc) segs"
    using j by (simp_all add: journal_of_def segment_bytes_def)
  let ?r = "collect_set crc replay_empty segs"
  have fs: "fits_limits limits replay_empty (all_records segs)" "fits_limits limits ?r (cur @ [x])"
    using f by (auto simp: rs fits_limits_def)
  obtain c where c: "continues_set c (se_header e', cur @ [x])"
      "rp_last_sequence ?r = rc_expected_sequence c - 1"
    and rep: "\<And>bytes. replay_ordered_segments crc sha (map es_bytes es @ [bytes]) limits =
      replay_segments crc sha limits (length es) [bytes] c ?r"
    using journal_of_replay_last [OF j' es fs(1)] by blast
  have ok: "records_ok (sh_starting_generation (se_header e)) (rc_expected_sequence c) (cur @ [x])" "header_ok (se_header e)"
    using c(1) by (simp_all add: continues_set_def h)
  have len: "length (segment_header_encode crc (se_header e)) = 104" by (rule header_encode_length [OF ok(2)])
  obtain reason where "replay_records crc limits (se_header e)
      (segment_header_encode crc (se_header e) @ records_bytes crc cur @ take m (record_bytes crc x)) 104
      (rc_expected_sequence c) ?r =
      Inl (stop_at (collect ?r cur) (104 + length (records_bytes crc cur))
        (Stop_Record (sh_segment_index (se_header e)) (104 + length (records_bytes crc cur)) reason))"
    using replay_records_torn [OF ok(1) fs(2) m refl, of "segment_header_encode crc (se_header e)"] len by auto
  from replay_segments_header [OF c(1) [unfolded h] c(2) es this, of sha "[]"]
  show ?thesis
    using arg_cong [OF maps, of "map length"] by (simp add: rep bytes collect_set_def rs len replay_empty_def comp_def)
qed

lemma journal_of_damaged:
  assumes j: "journal_of crc sha es e rs segs cur" and es: "length es < rl_max_segments limits"
    and f: "fits_limits limits replay_empty rs"
  shows "prefix rs (rp_records (replay_ordered_segments crc sha (map es_bytes es @ (se_bytes e @ tail) # rest) limits))"
proof -
  have rs: "rs = all_records segs @ cur" and bytes: "se_bytes e = segment_header_encode crc (se_header e) @ records_bytes crc cur"
    using j by (simp_all add: journal_of_def segment_bytes_def)
  let ?r = "collect_set crc replay_empty segs" and ?h = "se_header e"
  let ?b = "segment_header_encode crc ?h @ records_bytes crc cur @ tail"
  have fs: "fits_limits limits replay_empty (all_records segs)" "fits_limits limits ?r cur"
    using f by (auto simp: rs fits_limits_def)
  obtain c where c: "continues_set c (?h, cur)" "rp_last_sequence ?r = rc_expected_sequence c - 1"
    and rep: "replay_ordered_segments crc sha (map es_bytes es @ (se_bytes e @ tail) # rest) limits =
      replay_segments crc sha limits (length es) (?b # rest) c ?r"
    using journal_of_replay_last [OF j es fs(1)] by (auto simp: bytes)
  have ok: "header_ok ?h" "records_ok (sh_starting_generation ?h) (rc_expected_sequence c) cur"
    "header_mismatch c (rp_last_sequence ?r) ?h = None"
    using c by (simp_all add: continues_set_def)
  have len: "length (segment_header_encode crc ?h) = 104" by (rule header_encode_length [OF ok(1)])
  have recs: "rp_records (collect ?r cur) = rs" by (simp add: rs collect_def replay_empty_def)
  have "replay_records crc limits ?h ?b 104 (rc_expected_sequence c) ?r = replay_records crc limits ?h ?b
      (104 + length (records_bytes crc cur)) (rc_expected_sequence c + word_of_nat (length cur)) (collect ?r cur)"
    by (rule replay_records_run [OF ok(2) fs(2)]) (simp_all add: len)
  then have run: "case replay_records crc limits ?h ?b SEGMENT_HEADER_LEN (rc_expected_sequence c) ?r of
      Inl r' \<Rightarrow> prefix rs (rp_records r') | Inr (k', n', r') \<Rightarrow> prefix rs (rp_records r')"
    using replay_records_mono [of "collect ?r cur" crc limits ?h ?b "104 + length (records_bytes crc cur)"
        "rc_expected_sequence c + word_of_nat (length cur)"]
    by (simp only: recs SEGMENT_HEADER_LEN_def)
  show ?thesis
    unfolding rep
    by (rule replay_segments_Cons_prefix [OF header_decode_encode [OF ok(1)] ok(3) es run replay_segments_mono])
qed

section \<open>The journal is read back as it was written\<close>

lemma records_ok_nth:
  "records_ok g n rs \<Longrightarrow> i < length rs \<Longrightarrow> jr_sequence (rs ! i) = n + word_of_nat i"
  by (induction rs arbitrary: n i) (auto simp: record_ok_def nth_Cons split: nat.splits)

lemma linked_numbered:
  assumes "linked crc sha c segs" "i < length (all_records segs)"
  shows "jr_sequence (all_records segs ! i) = rc_expected_sequence c + word_of_nat i"
  using assms
proof (induction segs arbitrary: c i)
  case (Cons seg segs)
  have c: "records_ok (sh_starting_generation (fst seg)) (rc_expected_sequence c) (snd seg)"
    using Cons.prems by (auto simp: linked_Cons continues_set_def)
  show ?case
  proof (cases "i < length (snd seg)")
    case True
    with c show ?thesis by (simp add: nth_append records_ok_nth)
  next
    case False
    with Cons.prems have "linked crc sha (next_cursor crc sha c seg) segs" by (cases segs) (simp_all add: linked_Cons)
    with False Cons.prems Cons.IH [of "next_cursor crc sha c seg" "i - length (snd seg)"] show ?thesis
      by (simp add: nth_append next_cursor_def of_nat_diff)
  qed
qed simp

lemma written_replayed:
  assumes w: "written crc sha es e rs" and sha: "sha256_output sha es"
    and "Suc (length es) < 2 ^ 32" "length es < rl_max_segments limits" "length rs \<le> rl_max_records limits"
    and "payload_size rs \<le> min usize_max (rl_max_payload_bytes limits)"
  shows "replay_ordered_segments crc sha (map es_bytes es @ [se_bytes e]) limits =
    \<lparr>rp_records = rs, rp_last_sequence = word_of_nat (length rs),
     rp_valid_segment_prefixes = map (length \<circ> es_bytes) es @ [length (se_bytes e)],
     rp_payload_bytes = payload_size rs, rp_stop = Stop_CleanEnd\<rparr>"
proof -
  obtain segs cur where j: "journal_of crc sha es e rs segs cur" using written_journal [OF w sha] by blast
  have f: "fits_limits limits replay_empty rs" using assms by (simp add: fits_limits_def replay_empty_def)
  have s: "map es_bytes es = map (segment_bytes crc) segs" "se_bytes e = segment_bytes crc (se_header e, cur)"
    "rs = all_records segs @ cur"
    using j by (simp_all add: journal_of_def)
  have "map (length \<circ> es_bytes) es = map (length \<circ> segment_bytes crc) segs"
    using arg_cong [OF s(1), of "map length"] by simp
  moreover have "rs \<noteq> [] \<Longrightarrow> jr_sequence (last rs) = word_of_nat (length rs)"
    using written_numbered [OF w] by (cases rs rule: rev_cases) (auto simp: last_conv_nth nth_append)
  ultimately show ?thesis
    unfolding journal_of_replay [OF j assms(3,4) f]
    using s(2,3) by (auto simp: collect_set_def collect_def replay_empty_def)
qed

lemma torn_append_replayed:
  assumes w: "written crc sha es e rs" and sha: "sha256_output sha es"
    and a: "encoder_append crc e t g payload = (Inr n, e')"
    and k: "length (se_bytes e) \<le> k" "k < length (se_bytes e')"
    and es: "Suc (length es) < 2 ^ 32" "length es < rl_max_segments limits"
    and lim: "length rs < rl_max_records limits"
      "payload_size rs + length payload \<le> min usize_max (rl_max_payload_bytes limits)"
  shows "let r = replay_ordered_segments crc sha (map es_bytes es @ [take k (se_bytes e')]) limits
    in rp_records r = rs \<and> rp_valid_segment_prefixes r = map (length \<circ> es_bytes) es @ [length (se_bytes e)]"
proof -
  let ?x = "\<lparr>jr_record_type = t, jr_generation = g, jr_sequence = n, jr_payload = payload\<rparr>"
  obtain segs cur where j: "journal_of crc sha es e rs segs cur" using written_journal [OF w sha] by blast
  note e' = encoder_append_ok(4) [OF a]
  have f: "fits_limits limits replay_empty (rs @ [?x])" "fits_limits limits replay_empty rs"
    using lim by (auto simp: fits_limits_def replay_empty_def)
  show ?thesis
  proof (cases "k = length (se_bytes e)")
    case True
    have s: "map es_bytes es = map (segment_bytes crc) segs" "se_bytes e = segment_bytes crc (se_header e, cur)"
      "rs = all_records segs @ cur"
      using j by (simp_all add: journal_of_def)
    have "map (length \<circ> es_bytes) es = map (length \<circ> segment_bytes crc) segs"
      using arg_cong [OF s(1), of "map length"] by simp
    then show ?thesis
      using journal_of_replay [OF j es f(2)] s(2,3) by (simp add: e' True collect_set_def replay_empty_def collect_def)
  next
    case False
    let ?m = "k - length (se_bytes e)"
    have "take k (se_bytes e') = se_bytes e @ take ?m (record_bytes crc ?x)" "0 < ?m" "?m < length (record_bytes crc ?x)"
      using k False by (simp_all add: e')
    then show ?thesis
      using journal_of_torn [OF j journal_of_append [OF j a] _ es(2) f(1), of ?m] by (simp add: e')
  qed
qed

text \<open>
  C19. A journal is read back exactly: whatever sequence of appends and rotations produced the segments, replaying
  them in order returns the records that were appended, the number of the last one, the full length of every
  segment as its valid prefix, and a clean end. The limits of the replay must admit the journal.
\<close>

theorem journal_replay_written:
  assumes w: "written crc sha es e rs" and sha: "sha256_output sha es"
    and "Suc (length es) < 2 ^ 32" "length es < rl_max_segments limits" "length rs \<le> rl_max_records limits"
    and "payload_size rs \<le> min usize_max (rl_max_payload_bytes limits)"
  shows "replay_ordered_segments crc sha (map es_bytes es @ [se_bytes e]) limits =
    \<lparr>rp_records = rs, rp_last_sequence = word_of_nat (length rs),
     rp_valid_segment_prefixes = map (length \<circ> es_bytes) es @ [length (se_bytes e)],
     rp_payload_bytes = payload_size rs, rp_stop = Stop_CleanEnd\<rparr>"
  by (rule written_replayed [OF assms])

text \<open>
  C20. A torn append loses nothing but itself: when the write of a further record stops at any byte, the replay
  returns the records before it, and reports the end of the last of them as the valid prefix of the segment.
\<close>

theorem journal_replay_torn_append:
  assumes w: "written crc sha es e rs" and sha: "sha256_output sha es"
    and a: "encoder_append crc e t g payload = (Inr n, e')"
    and k: "length (se_bytes e) \<le> k" "k < length (se_bytes e')"
    and es: "Suc (length es) < 2 ^ 32" "length es < rl_max_segments limits"
    and lim: "length rs < rl_max_records limits"
      "payload_size rs + length payload \<le> min usize_max (rl_max_payload_bytes limits)"
  shows "let r = replay_ordered_segments crc sha (map es_bytes es @ [take k (se_bytes e')]) limits
    in rp_records r = rs \<and> rp_valid_segment_prefixes r = map (length \<circ> es_bytes) es @ [length (se_bytes e)]"
  by (rule torn_append_replayed [OF assms])

text \<open>
  Damage behind the written part does not reach it: with any bytes after the last record of the newest
  segment and any further segments behind it, the replay still returns all records that were written, in order,
  before whatever it finds in the added bytes.
\<close>

lemma journal_replay_damaged_tail:
  assumes w: "written crc sha es e rs" and sha: "sha256_output sha es"
    and es: "length es < rl_max_segments limits" and lim: "length rs \<le> rl_max_records limits"
      "payload_size rs \<le> min usize_max (rl_max_payload_bytes limits)"
  shows "prefix rs (rp_records (replay_ordered_segments crc sha (map es_bytes es @ (se_bytes e @ junk) # rest) limits))"
proof -
  obtain segs cur where j: "journal_of crc sha es e rs segs cur" using written_journal [OF w sha] by blast
  have "fits_limits limits replay_empty rs" using lim by (simp add: fits_limits_def replay_empty_def)
  then show ?thesis by (rule journal_of_damaged [OF j es])
qed

text \<open>
  C21. Replay accepts nothing else: on arbitrary bytes, the valid prefixes it reports are exactly the encodings of
  headers and records that form one chain (the same task and journal, consecutive indices, every header naming the
  hash and the last sequence of the segment before it), the records returned are the records of these encodings,
  and they are numbered from one without a gap.
\<close>

theorem journal_replay_sound:
  assumes "rl_max_records limits < 2 ^ 64 - 1"
  shows "let r = replay_ordered_segments crc sha segments limits
    in \<exists>segs. linked crc sha replay_start segs \<and> rp_records r = all_records segs
         \<and> length (rp_valid_segment_prefixes r) = length segs
         \<and> map2 take (rp_valid_segment_prefixes r) segments = map (segment_bytes crc) segs
         \<and> (\<forall>i<length (rp_records r). jr_sequence (rp_records r ! i) = word_of_nat (Suc i))"
proof -
  let ?r = "replay_ordered_segments crc sha segments limits"
  have "accepted_set crc sha replay_start segments replay_empty ?r"
    using replay_segments_sound [of replay_start replay_empty limits crc sha segments 0] assms
    by (simp add: replay_ordered_segments_def accepted_set_none) (simp add: replay_start_def replay_empty_def)
  then obtain segs where "linked crc sha replay_start segs" "rp_records ?r = all_records segs"
    "length (rp_valid_segment_prefixes ?r) = length segs"
    "map2 take (rp_valid_segment_prefixes ?r) segments = map (segment_bytes crc) segs"
    by (auto simp: accepted_set_def replay_empty_def)
  then show ?thesis
    using linked_numbered [of crc sha replay_start segs] by (auto simp: Let_def replay_start_def intro!: exI [of _ segs])
qed

text \<open>A journal of two segments and two records, with a constant checksum and a constant digest.\<close>

definition sample_sha :: sha256 where
  "sample_sha = (\<lambda>_. 1 # replicate 31 0)"

definition sample_crc :: crc32c where
  "sample_crc = (\<lambda>_. 0)"

definition sample_first :: segment_encoder where
  "sample_first = encoder_first sample_crc (Gid 5) (JournalId (replicate 16 1)) (Generation 0) 7"

definition sample_one :: segment_encoder where
  "sample_one = snd (encoder_append sample_crc sample_first RT_TaskCreated (Generation 0) [1, 2])"

definition sample_two :: segment_encoder where
  "sample_two = projr (segment_rotate sample_crc (encoder_finish sample_sha sample_one) (Generation 3) 9)"

definition sample_three :: segment_encoder where
  "sample_three = snd (encoder_append sample_crc sample_two RT_TaskCreated (Generation 4) [9])"

definition sample_record :: "generation \<Rightarrow> u64 \<Rightarrow> u8 list \<Rightarrow> journal_record" where
  "sample_record g n payload =
     \<lparr>jr_record_type = RT_TaskCreated, jr_generation = g, jr_sequence = n, jr_payload = payload\<rparr>"

lemma sample_run:
  "encoder_append sample_crc sample_first RT_TaskCreated (Generation 0) [1, 2] = (Inr 1, sample_one)"
  "segment_rotate sample_crc (encoder_finish sample_sha sample_one) (Generation 3) 9 = Inr sample_two"
  "encoder_append sample_crc sample_two RT_TaskCreated (Generation 4) [9] = (Inr 2, sample_three)"
  by (simp_all add: sample_one_def sample_two_def sample_three_def sample_first_def encoder_append_def Let_def
      MAX_RECORD_PAYLOAD_def encoder_first_def encoder_from_header_def segment_header_first_def less_generation_def
      try_in_def checked_add_def ok_or_def encode_record_def RECORD_PREFIX_LEN_def usize_max_def segment_rotate_def
      encoder_finish_def header_successor_def next_header_def and_then_def)

lemma sample_written:
  "written sample_crc sample_sha [] sample_one [sample_record (Generation 0) 1 [1, 2]]"
  "written sample_crc sample_sha [encoder_finish sample_sha sample_one] sample_two [sample_record (Generation 0) 1 [1, 2]]"
  "written sample_crc sample_sha [encoder_finish sample_sha sample_one] sample_three
     [sample_record (Generation 0) 1 [1, 2], sample_record (Generation 4) 2 [9]]"
proof -
  have "written sample_crc sample_sha [] sample_first []"
    unfolding sample_first_def
    by (rule written.start [of 5 _ "replicate 16 1"])
      (simp_all add: gid_new_def nonzero_u64_new_def journal_id_new_def all_zero_def list_all_iff)
  from written.append [OF this sample_run(1)]
  show one: "written sample_crc sample_sha [] sample_one [sample_record (Generation 0) 1 [1, 2]]"
    by (simp add: sample_record_def)
  from written.rotate [OF one sample_run(2)]
  show two: "written sample_crc sample_sha [encoder_finish sample_sha sample_one] sample_two
      [sample_record (Generation 0) 1 [1, 2]]" by simp
  from written.append [OF two sample_run(3)]
  show "written sample_crc sample_sha [encoder_finish sample_sha sample_one] sample_three
     [sample_record (Generation 0) 1 [1, 2], sample_record (Generation 4) 2 [9]]"
    by (simp add: sample_record_def)
qed

lemma sample_sha_output: "sha256_output sample_sha es"
  by (simp add: sha256_output_def sample_sha_def hash_segment_def segment_hash_zero_def numeral_eq_Suc)

lemmas sample_simps = sample_sha_output replay_limits_default_def payload_size_def sample_record_def usize_max_def

theorem journal_replay_written_witness:
  "replay_ordered_segments sample_crc sample_sha [se_bytes sample_one, se_bytes sample_three] replay_limits_default =
    \<lparr>rp_records = [sample_record (Generation 0) 1 [1, 2], sample_record (Generation 4) 2 [9]],
     rp_last_sequence = 2,
     rp_valid_segment_prefixes = [length (se_bytes sample_one), length (se_bytes sample_three)],
     rp_payload_bytes = 3, rp_stop = Stop_CleanEnd\<rparr>"
  using journal_replay_written [OF sample_written(3), of replay_limits_default]
  by (simp add: sample_simps encoder_finish_def)

theorem journal_replay_torn_append_witness:
  "let r = replay_ordered_segments sample_crc sample_sha
     [se_bytes sample_one, take (length (se_bytes sample_two) + 5) (se_bytes sample_three)] replay_limits_default
   in rp_records r = [sample_record (Generation 0) 1 [1, 2]]
     \<and> rp_valid_segment_prefixes r = [length (se_bytes sample_one), length (se_bytes sample_two)]"
proof -
  have "length (se_bytes sample_two) + 5 < length (se_bytes sample_three)"
    using arg_cong [OF encoder_append_ok(4) [OF sample_run(3)], of se_bytes] by (simp add: record_bytes_length)
  then show ?thesis
    using journal_replay_torn_append [OF sample_written(2) _ sample_run(3),
        of "length (se_bytes sample_two) + 5" replay_limits_default]
    by (simp add: sample_simps encoder_finish_def)
qed

theorem journal_replay_sound_witness:
  "let r = replay_ordered_segments sample_crc sample_sha [[1, 2, 3]] replay_limits_default
    in \<exists>segs. linked sample_crc sample_sha replay_start segs \<and> rp_records r = all_records segs
         \<and> length (rp_valid_segment_prefixes r) = length segs
         \<and> map2 take (rp_valid_segment_prefixes r) [[1, 2, 3]] = map (segment_bytes sample_crc) segs
         \<and> (\<forall>i<length (rp_records r). jr_sequence (rp_records r ! i) = word_of_nat (Suc i))"
  by (rule journal_replay_sound) (simp add: replay_limits_default_def)

end
