(* ===== verification/PayloadExact.thy ===== *)
theory PayloadExact
  imports PayloadRoundTrip JournalWritten
begin

text \<open>
  Whole payloads: \<open>payload_wf\<close> collects what the types of the fields guarantee, and the encoder and the decoder
  of \<^verbatim>\<open>src/crates/ariax-storage/src/journal_payload.rs\<close> are inverse to each other on every record type. With the
  journal of segments this gives that the payloads appended to a journal are the payloads its replay decodes.
\<close>

section \<open>Payloads\<close>

text \<open>
  What the types of the fields guarantee of a payload: \<open>payload_wf\<close> collects the invariants of the private
  types, \<open>payload_bounded\<close> the bounds of the fields that the decoder refuses before it validates.
\<close>

definition optional_wf :: "('a \<Rightarrow> bool) \<Rightarrow> 'a option \<Rightarrow> bool" where
  "optional_wf P v \<longleftrightarrow> (case v of None \<Rightarrow> True | Some a \<Rightarrow> P a)"

fun payload_wf :: "(string \<Rightarrow> string) \<Rightarrow> sha256 \<Rightarrow> journal_payload \<Rightarrow> bool" where
  "payload_wf nfc sha (JP_OptionsSnapshot _ patch_id snapshot_hash options) \<longleftrightarrow>
     patch_id \<noteq> Some (OptionPatchId 0) \<and> journal_hash_wf snapshot_hash \<and> sanitized_option_map_wf options"
| "payload_wf nfc sha (JP_LayoutCommitted layout_hash root_hash root_display _ _ _ _ _ files) \<longleftrightarrow>
     journal_hash_wf layout_hash \<and> journal_hash_wf root_hash \<and> platform_path_wf root_display
     \<and> (\<forall>e\<in>set files. journal_file_layout_entry_wf nfc e)"
| "payload_wf nfc sha (JP_GenerationStarted _ _ next_snapshot_hash patch_id) \<longleftrightarrow>
     journal_hash_wf next_snapshot_hash \<and> patch_id \<noteq> Some (OptionPatchId 0)"
| "payload_wf nfc sha (JP_LeaseStarted attempt lease span fingerprint) \<longleftrightarrow>
     transfer_attempt_id_get attempt \<noteq> 0 \<and> lease_id_get lease \<noteq> 0 \<and> persisted_span_wf span
     \<and> journal_hash_wf fingerprint"
| "payload_wf nfc sha (JP_PieceStarted lease _ span) \<longleftrightarrow> lease_id_get lease \<noteq> 0 \<and> persisted_span_wf span"
| "payload_wf nfc sha (JP_PieceWritten lease _ span) \<longleftrightarrow> lease_id_get lease \<noteq> 0 \<and> persisted_span_wf span"
| "payload_wf nfc sha (JP_LeaseCommitted lease span fingerprint digest) \<longleftrightarrow>
     lease_id_get lease \<noteq> 0 \<and> persisted_span_wf span \<and> journal_hash_wf fingerprint
     \<and> optional_wf journal_digest_wf digest"
| "payload_wf nfc sha (JP_LeaseAborted lease _) \<longleftrightarrow> lease_id_get lease \<noteq> 0"
| "payload_wf nfc sha (JP_PieceVerified _ span contributors_hash digest) \<longleftrightarrow>
     persisted_span_wf span \<and> journal_hash_wf contributors_hash \<and> journal_digest_wf digest"
| "payload_wf nfc sha (JP_PieceFailed lease _ span _ _) \<longleftrightarrow> lease \<noteq> Some (LeaseId 0) \<and> persisted_span_wf span"
| "payload_wf nfc sha (JP_PieceDurable _ span contributors_hash fingerprint digest _) \<longleftrightarrow>
     persisted_span_wf span \<and> journal_hash_wf contributors_hash \<and> journal_hash_wf fingerprint
     \<and> optional_wf journal_digest_wf digest"
| "payload_wf nfc sha (JP_RetryState _ scope_id _ _ _ _ _ _) \<longleftrightarrow> persisted_id_get scope_id \<noteq> 0"
| "payload_wf nfc sha (JP_TaskComplete layout_hash _ digest _) \<longleftrightarrow>
     journal_hash_wf layout_hash \<and> optional_wf journal_digest_wf digest"
| "payload_wf nfc sha (JP_CheckpointStart checkpoint_id _ source_segment_hash _ _) \<longleftrightarrow>
     checkpoint_id_wf checkpoint_id \<and> journal_hash_wf source_segment_hash"
| "payload_wf nfc sha (JP_CheckpointEnd checkpoint_id _ state_hash) \<longleftrightarrow>
     checkpoint_id_wf checkpoint_id \<and> journal_hash_wf state_hash"
| "payload_wf nfc sha (JP_LayoutChunk layout_hash root_hash _ _ files) \<longleftrightarrow>
     journal_hash_wf layout_hash \<and> journal_hash_wf root_hash \<and> (\<forall>e\<in>set files. journal_file_layout_entry_wf nfc e)"
| "payload_wf nfc sha (JP_FinalizeIntent layout_hash root_hash _ temp_path final_path _ _) \<longleftrightarrow>
     journal_hash_wf layout_hash \<and> journal_hash_wf root_hash \<and> journal_relative_path_wf nfc temp_path
     \<and> journal_relative_path_wf nfc final_path"
| "payload_wf nfc sha (JP_FinalizeDone layout_hash root_hash _ final_path) \<longleftrightarrow>
     journal_hash_wf layout_hash \<and> journal_hash_wf root_hash \<and> journal_relative_path_wf nfc final_path"
| "payload_wf nfc sha (JP_PieceStateChunk layout_hash root_hash _ _ _ _ _ runs) \<longleftrightarrow>
     journal_hash_wf layout_hash \<and> journal_hash_wf root_hash \<and> (\<forall>run\<in>set runs. durable_evidence_run_wf run)"
| "payload_wf nfc sha (JP_HttpStrongValidator resource_fingerprint fingerprint _ _) \<longleftrightarrow>
     journal_hash_wf resource_fingerprint \<and> journal_hash_wf fingerprint"
| "payload_wf nfc sha (JP_HttpRangeIdentity fingerprint _ digest) \<longleftrightarrow>
     journal_hash_wf fingerprint \<and> journal_digest_wf digest"
| "payload_wf nfc sha (JP_VerificationManifest fingerprint _ _ _) \<longleftrightarrow> journal_hash_wf fingerprint"
| "payload_wf nfc sha (JP_VerificationManifestChunk fingerprint _ _ _) \<longleftrightarrow> journal_hash_wf fingerprint"
| "payload_wf nfc sha (JP_ProtocolValidator validator) \<longleftrightarrow> protocol_validator_wf validator"
| "payload_wf nfc sha (JP_WholeFileVerified fingerprint digests) \<longleftrightarrow>
     journal_hash_wf fingerprint \<and> (\<forall>d\<in>set digests. journal_digest_wf d)"
| "payload_wf nfc sha (JP_HostKeyState state) \<longleftrightarrow> host_key_state_wf sha state"
| "payload_wf nfc sha (JP_MetadataComplete expansion _) \<longleftrightarrow> metadata_expansion_wf expansion"
| "payload_wf nfc sha _ \<longleftrightarrow> True"

fun payload_bounded :: "journal_payload \<Rightarrow> bool" where
  "payload_bounded (JP_LayoutCommitted _ _ _ root_identity _ _ _ _ files) \<longleftrightarrow>
     length root_identity \<le> MAX_IDENTITY_BYTES \<and> length files \<le> MAX_LAYOUT_ENTRIES"
| "payload_bounded (JP_LayoutChunk _ _ _ _ files) \<longleftrightarrow> length files \<le> MAX_LAYOUT_ENTRIES"
| "payload_bounded (JP_FinalizeIntent _ _ _ _ _ _ identity) \<longleftrightarrow> length identity \<le> MAX_IDENTITY_BYTES"
| "payload_bounded (JP_PieceStateChunk _ _ _ _ _ _ bitmap runs) \<longleftrightarrow>
     length bitmap \<le> div_ceil MAX_PIECE_STATE_COVERED_PIECES 8 \<and> length runs \<le> MAX_PIECE_STATE_COVERED_PIECES
     \<and> (\<forall>run\<in>set runs. evidence_values_fit run)"
| "payload_bounded (JP_HttpStrongValidator _ _ _ etag) \<longleftrightarrow> length etag \<le> MAX_HTTP_STRONG_ETAG_BYTES"
| "payload_bounded (JP_VerificationManifest _ _ _ bytes) \<longleftrightarrow> length bytes \<le> VERIFICATION_MANIFEST_PART_BYTES"
| "payload_bounded (JP_VerificationManifestChunk _ _ _ bytes) \<longleftrightarrow> length bytes \<le> VERIFICATION_MANIFEST_PART_BYTES"
| "payload_bounded (JP_WholeFileVerified _ digests) \<longleftrightarrow> length digests \<le> 2"
| "payload_bounded _ \<longleftrightarrow> True"

lemmas payload_limits = MAX_IDENTITY_BYTES_def MAX_LAYOUT_ENTRIES_def MAX_PIECE_STATE_COVERED_PIECES_def div_ceil_def
  MAX_HTTP_STRONG_ETAG_BYTES_def VERIFICATION_MANIFEST_PART_BYTES_def MAX_VERIFICATION_MANIFEST_BYTES_def

lemma map_option_wrap:
  "map_option OptionPatchId (map_option option_patch_id_get p) = p" "map_option LeaseId (map_option lease_id_get l) = l"
  "map_option option_patch_id_get (map_option OptionPatchId v) = v" "map_option lease_id_get (map_option LeaseId v) = v"
  by (simp_all add: option.map_comp comp_def option.map_ident)

lemma relative_path_short: "journal_relative_path_wf nfc p \<Longrightarrow> length (journal_relative_path_str p) < 4294967296"
  using journal_relative_path_wf_text [of nfc p] by (simp add: MAX_SAFE_RELATIVE_BYTES_def)

lemma wrap_zero_iff:
  "map_option option_patch_id_get p = Some 0 \<longleftrightarrow> p = Some (OptionPatchId 0)"
  "map_option lease_id_get l = Some 0 \<longleftrightarrow> l = Some (LeaseId 0)"
  by (cases p; auto simp: option_patch_id.expand) (cases l; auto simp: lease_id.expand)

lemma dec_field_run [run_simps]:
  "v \<noteq> Some 0 \<Longrightarrow> dec_optional_id ((case v of None \<Rightarrow> [0] | Some w \<Rightarrow> 1 # u64_le w) @ r) = Inr (v, r)"
  "dec_optional_u64 ((case v of None \<Rightarrow> [0] | Some w \<Rightarrow> 1 # u64_le w) @ r) = Inr (v, r)"
  "dec_error_kind (error_kind_number k # r) = Inr (k, r)"
  "enc_optional_digest d = Inr bs \<Longrightarrow> optional_wf journal_digest_wf d \<Longrightarrow> dec_optional_digest (bs @ r) = Inr (d, r)"
  by (simp_all add: read_simps optional_wf_def)

lemmas dec_tags_run [run_simps] = dec_tags_iff [THEN iffD2, OF refl]

lemmas codec_runs [run_simps] =
  digest_codec.write_read platform_path_codec.write_read option_map_codec.write_read validator_codec.write_read
  host_key_codec.write_read

lemmas codec_reads [read_simps] =
  platform_path_codec.read_iff option_map_codec.read_iff validator_codec.read_iff host_key_codec.read_iff

lemma enc_count_iff [write_simps]:
  "enc_count e xs = Inr bs \<longleftrightarrow> length xs < 2 ^ 32 \<and> bs = u32_le (word_of_nat (length xs))"
  by (auto simp: enc_count_def write_simps)

lemma dec_digests_run:
  assumes "enc_all (map enc_digest ds) = Inr bs" "\<forall>d\<in>set ds. journal_digest_wf d" "length ds \<le> 2"
  shows "dec_repeat (unat (word_of_nat (length ds) :: u8)) dec_digest (bs @ r) = Inr (ds, r)"
    and "\<not> (2 :: u8) < word_of_nat (length ds)"
proof -
  have "unat (word_of_nat (length ds) :: u8) = length ds" using assms(3) by (simp add: unat_of_nat)
  then show "dec_repeat (unat (word_of_nat (length ds) :: u8)) dec_digest (bs @ r) = Inr (ds, r)"
    "\<not> (2 :: u8) < word_of_nat (length ds)"
    using assms by (simp_all add: digest_codec.repeat_iff word_less_nat_alt)
qed

lemma ascii_text: "\<forall>c\<in>set s. (of_char c :: nat) < 128 \<Longrightarrow> is_text s"
proof -
  have "\<forall>c\<in>set s. (of_char c :: nat) < 128 \<Longrightarrow> utf8_chars (as_bytes s) \<noteq> None"
  proof (induction s)
    case (Cons c s)
    then have "byte_of_char c < 0x80" by (simp add: byte_of_char_def word_less_nat_alt unat_of_nat)
    with Cons show ?case by (auto simp: as_bytes_def)
  qed (simp add: as_bytes_def)
  then show "\<forall>c\<in>set s. (of_char c :: nat) < 128 \<Longrightarrow> is_text s" by (simp add: is_text_def utf8_valid_def)
qed

lemma metadata_bytes_run:
  assumes "metadata_expansion_wf e" "metadata_expansion_validate e"
  shows "from_utf8 (as_bytes (expansion_canonical e)) = Some (expansion_canonical e)"
    "length (expansion_canonical e) \<le> 64 * 1024"
proof -
  have gid: "(of_char c :: nat) < 128" if "c \<in> set (gid_display g)" for c g
    using that hex_fixed_chars hex_char_plain by (fastforce simp: gid_display_fixed)
  have dec: "(of_char c :: nat) < 128" if "c \<in> set (decimal n)" for c n
    using decimal_range [OF that] by simp
  have kids: "(of_char c :: nat) < 128" if "c \<in> set (join_with CHR '','' (map gid_display gs))" for c gs
    using that set_join [of "CHR '',''" "map gid_display gs"] gid by auto
  have "\<forall>w\<in>set (expansion_fields e). \<forall>c\<in>set w. (of_char c :: nat) < 128"
    using gid dec kids hash_display_chars by (auto simp: expansion_fields_def Let_def)
  then have "\<forall>c\<in>set (expansion_canonical e). (of_char c :: nat) < 128"
    using set_join [of "CHR ''|''" "expansion_fields e"] by (auto simp: expansion_canonical_def)
  then show "from_utf8 (as_bytes (expansion_canonical e)) = Some (expansion_canonical e)" by (simp add: ascii_text)
  show "length (expansion_canonical e) \<le> 64 * 1024"
    unfolding expansion_text_canonical [symmetric]
    using assms decimal_u64_length [of "generation_get (mp_generation (me_parent e))"]
    by (intro expansion_length) (simp_all add: metadata_expansion_validate_def SESSION_MAX_IMPORT_TASKS_def)
qed

lemma body_write_read:
  assumes "encode_body p = Inr bs" "payload_wf nfc sha p" "payload_bounded p"
  shows "decode_body nfc sha (payload_record_type p) (bs @ r) = Inr (p, r)"
proof (cases "payload_record_type p = RT_WholeFileVerified \<or> payload_record_type p = RT_MetadataComplete")
  case True
  then consider f ds where "p = JP_WholeFileVerified f ds" | e t where "p = JP_MetadataComplete e t"
    by (cases p) auto
  then show ?thesis
  proof cases
    case 1
    then obtain c where c: "enc_all (map enc_digest ds) = Inr c" and bs: "bs = journal_hash_bytes f @ word_of_nat (length ds) # c"
      using assms(1) by (auto simp: seq_simps write_simps)
    show ?thesis using assms(2,3) dec_digests_run [OF c] by (simp add: 1 bs run_simps del: if_split)
  next
    case 2
    then have valid: "metadata_expansion_wf e" "metadata_expansion_validate e"
      using assms by (simp_all split: if_splits)
    note run = metadata_bytes_run [OF this] expansion_parse_canonical [OF this]
    have "bs = u32_le (word_of_nat (length (expansion_canonical e))) @ as_bytes (expansion_canonical e) @ u64_le t"
      using assms(1) valid by (auto simp: 2 seq_simps write_simps)
    then show ?thesis using run dec_primitive_run(11) [of "as_bytes (expansion_canonical e)" "64 * 1024"]
      by (simp add: 2 run_simps)
  qed
next
  case False
  then show ?thesis
    using assms
    by (cases p; (auto simp: seq_simps write_simps simp del: case_map_option split del: if_split)[1];
        simp add: run_simps map_option_wrap wrap_zero_iff payload_limits del: case_map_option)
qed

lemma body_read_write:
  assumes "decode_body nfc sha rt r = Inr (p, r')"
  shows "payload_record_type p = rt \<and> payload_wf nfc sha p \<and> payload_bounded p
    \<and> (rt \<noteq> RT_MetadataComplete \<longrightarrow> (\<exists>bs. encode_body p = Inr bs \<and> r = bs @ r'))"
proof (cases "rt = RT_WholeFileVerified \<or> rt = RT_MetadataComplete")
  case True
  then show ?thesis
  proof
    assume rt: "rt = RT_WholeFileVerified"
    then obtain f and n :: u8 and ds c where p: "p = JP_WholeFileVerified f ds" and n: "\<not> n > 2" "length ds = unat n"
      and wf: "journal_hash_wf f" "\<forall>d\<in>set ds. journal_digest_wf d"
      and c: "enc_all (map enc_digest ds) = Inr c" "r = journal_hash_bytes f @ n # c @ r'"
      using assms by (auto simp: seq_simps read_simps digest_codec.repeat_iff split: if_splits)
    have "word_of_nat (length ds) = n" "length ds \<le> 2" using n by (simp_all add: word_less_nat_alt)
    then show ?thesis using wf c by (auto simp: rt p seq_simps write_simps)
  next
    assume rt: "rt = RT_MetadataComplete"
    then obtain b s e t where "from_utf8 b = Some s" "expansion_parse s = Some e" and p: "p = JP_MetadataComplete e t"
      using assms by (auto simp: seq_simps bind_eq_Some_conv)
    then show ?thesis using expansion_parse_ok by (simp add: rt)
  qed
next
  case False
  then show ?thesis
    using assms
    by (cases rt; (auto simp: seq_simps read_simps write_simps map_option_wrap wrap_zero_iff payload_limits optional_wf_def
          simp del: case_map_option option.map_comp intro: relative_path_short)[1])
qed

lemma account_runs_within:
  "account_runs covered bitmap accounted previous_end previous runs = Inr a \<Longrightarrow> run \<in> set runs \<Longrightarrow>
   unat (er_first_piece_delta run) + unat (er_piece_count run) \<le> covered"
  by (induction covered bitmap accounted previous_end previous runs rule: account_runs.induct)
    (auto simp: Let_def and_then_eq_Inr split: if_splits)

lemma evidence_fits:
  assumes "durable_evidence_run_wf run" "unat (er_piece_count run) \<le> MAX_PIECE_STATE_COVERED_PIECES"
  shows "evidence_values_fit run"
proof (cases "er_digest_algorithm run")
  case (Some a)
  have "unat (er_piece_count run) * digest_value_length a \<le> MAX_PIECE_STATE_COVERED_PIECES * 64"
    using assms(2) digest_value_length_bound(1) [of a] by (rule mult_le_mono)
  with assms(1) Some show ?thesis
    by (simp add: durable_evidence_run_wf_def evidence_values_fit_def MAX_RECORD_PAYLOAD_def
        MAX_PIECE_STATE_COVERED_PIECES_def)
qed (use assms(1) in \<open>simp add: durable_evidence_run_wf_def evidence_values_fit_def\<close>)

lemma validate_bounded:
  assumes "validate_payload nfc sha p = Inr ()" "payload_wf nfc sha p"
  shows "payload_bounded p"
proof (cases "\<exists>a b c d e f g runs. p = JP_PieceStateChunk a b c d e f g runs")
  case True
  then obtain a b c d e f g runs where p: "p = JP_PieceStateChunk a b c d e f g runs" by blast
  from assms(1) obtain acc where runs: "account_runs (unat f) g (replicate (div_ceil (unat f) 8) 0) 0 None runs = Inr acc"
    and cov: "unat f \<le> MAX_PIECE_STATE_COVERED_PIECES" "length g = div_ceil (unat f) 8" "length runs \<le> unat f"
    by (auto simp: p validate_piece_state_chunk_def Let_def and_then_eq_Inr split: if_splits)
  have "evidence_values_fit run" if "run \<in> set runs" for run
    using account_runs_within [OF runs that] cov(1) assms(2) that by (intro evidence_fits) (auto simp: p)
  moreover have "div_ceil (unat f) 8 \<le> div_ceil MAX_PIECE_STATE_COVERED_PIECES 8"
    using cov(1) unfolding div_ceil_def by (intro div_le_mono) simp
  ultimately show ?thesis using cov by (simp add: p)
next
  case False
  with assms(1) show ?thesis
    by (cases p) (auto simp: validate_layout_committed_def validate_layout_chunk_def validate_layout_entries_def
        validate_http_strong_etag_def http_strong_validator_fingerprint_def and_then_eq_Inr Let_def split: if_splits)
qed

lemma payload_write_read:
  assumes "payload_wf nfc sha p" "payload_encode nfc sha p = Inr bs"
  shows "payload_decode nfc sha (payload_record_type p) bs = Inr p"
proof -
  from assms(2) have valid: "validate_payload nfc sha p = Inr ()" and body: "encode_body p = Inr bs"
    and size: "\<not> length bs > MAX_RECORD_PAYLOAD"
    by (auto simp: payload_encode_def and_then_eq_Inr split: if_splits)
  show ?thesis
    using body_write_read [OF body assms(1) validate_bounded [OF valid assms(1)], of "[]"] valid size
    by (simp add: payload_decode_def and_then_def)
qed

lemma payload_read_write:
  assumes "payload_decode nfc sha rt bs = Inr p"
  shows "payload_record_type p = rt \<and> payload_wf nfc sha p \<and> validate_payload nfc sha p = Inr ()
    \<and> (rt \<noteq> RT_MetadataComplete \<longrightarrow> payload_encode nfc sha p = Inr bs)"
proof -
  from assms have "decode_body nfc sha rt bs = Inr (p, [])" "validate_payload nfc sha p = Inr ()"
    "length bs \<le> MAX_RECORD_PAYLOAD"
    by (auto simp: payload_decode_def and_then_eq_Inr split: if_splits)
  then show ?thesis using body_read_write [of nfc sha rt bs p "[]"] by (auto simp: payload_encode_def and_then_def)
qed

section \<open>The codec is exact\<close>

text \<open>
  C28. The codec of journal payloads is exact. A payload whose fields satisfy the invariants of their types, once
  encoded, is decoded to itself under its record type. A payload decoded under a record type has that type, satisfies the
  invariants, passes the validation, and, for every type but \<open>MetadataComplete\<close>, the bytes were the only ones
  that decode to it: they are its encoding.
\<close>

theorem payload_codec_exact:
  "(payload_wf nfc sha p \<and> payload_encode nfc sha p = Inr bs \<longrightarrow>
      payload_decode nfc sha (payload_record_type p) bs = Inr p)
   \<and> (payload_decode nfc sha rt bs = Inr p \<longrightarrow>
      payload_record_type p = rt \<and> payload_wf nfc sha p \<and> validate_payload nfc sha p = Inr ()
      \<and> (rt \<noteq> RT_MetadataComplete \<longrightarrow> payload_encode nfc sha p = Inr bs))"
  using payload_write_read [of nfc sha p bs] payload_read_write [of nfc sha rt bs p] by blast

definition sample_payload :: journal_payload where
  "sample_payload = JP_PieceFailed (Some (LeaseId 3)) (PieceId 9) \<lparr>ps_offset = 16, ps_len = 8\<rparr> ErrorKind_ChecksumMismatch 2"

definition sample_payload_bytes :: "u8 list" where
  "sample_payload_bytes = 1 # u64_le 3 @ u64_le 9 @ u64_le 16 @ u64_le 8 @ error_kind_number ErrorKind_ChecksumMismatch # u32_le 2"

lemma sample_payload_encode:
  "payload_record_type sample_payload = RT_PieceFailed" "payload_wf nfc sha sample_payload"
  "payload_encode nfc sha sample_payload = Inr sample_payload_bytes"
  by (simp_all add: sample_payload_def sample_payload_bytes_def persisted_span_wf_def payload_encode_def and_then_def
      enc_all.simps enc_optional_id_def write_simps MAX_RECORD_PAYLOAD_def)

theorem payload_codec_exact_witness:
  "payload_decode id sample_sha RT_PieceFailed sample_payload_bytes = Inr sample_payload"
  using payload_codec_exact [of id sample_sha sample_payload sample_payload_bytes RT_PieceFailed]
    sample_payload_encode(1) sample_payload_encode(2,3) [of id sample_sha]
  by simp

section \<open>A journal of payloads\<close>

text \<open>A journal to which only payloads are appended; the last argument lists them.\<close>

inductive payloads_written ::
  "(string \<Rightarrow> string) \<Rightarrow> sha256 \<Rightarrow> crc32c \<Rightarrow> encoded_segment list \<Rightarrow> segment_encoder \<Rightarrow> journal_payload list \<Rightarrow> bool"
  for nfc sha crc where
  start: "gid_new v = Some g \<Longrightarrow> length bytes = 16 \<Longrightarrow> journal_id_new bytes = Some j \<Longrightarrow>
    payloads_written nfc sha crc [] (encoder_first crc g j gen ms) []"
| append: "payloads_written nfc sha crc es e ps \<Longrightarrow> payload_wf nfc sha p \<Longrightarrow>
    payload_append_to nfc sha crc p e g = (Inr n, e') \<Longrightarrow> payloads_written nfc sha crc es e' (ps @ [p])"
| rotate: "payloads_written nfc sha crc es e ps \<Longrightarrow> segment_rotate crc (encoder_finish sha e) g ms = Inr e' \<Longrightarrow>
    payloads_written nfc sha crc (es @ [encoder_finish sha e]) e' ps"

definition encoded_size :: "(string \<Rightarrow> string) \<Rightarrow> sha256 \<Rightarrow> journal_payload \<Rightarrow> nat" where
  "encoded_size nfc sha p = (case payload_encode nfc sha p of Inl _ \<Rightarrow> 0 | Inr bs \<Rightarrow> length bs)"

lemma payload_append_ok:
  assumes "payload_append_to nfc sha crc p e g = (Inr n, e')"
  obtains bs where "payload_encode nfc sha p = Inr bs" "encoder_append crc e (payload_record_type p) g bs = (Inr n, e')"
proof -
  obtain bs where bs: "payload_encode nfc sha p = Inr bs"
    using assms by (auto simp: payload_append_to_def try_in_eq_ok map_err_eq_Inr)
  obtain r e1 where r: "encoder_append crc e (payload_record_type p) g bs = (r, e1)" by (cases "encoder_append crc e (payload_record_type p) g bs")
  show thesis using assms bs r that by (auto simp: payload_append_to_def try_in_eq_ok map_err_eq_Inr)
qed

lemma payloads_written_records:
  assumes "payloads_written nfc sha crc es e ps"
  shows "\<exists>rs. written crc sha es e rs \<and> map (record_decode_payload nfc sha) rs = map Inr ps
    \<and> payload_size rs = sum_list (map (encoded_size nfc sha) ps)"
  using assms
proof induction
  case start
  then show ?case using written.start [of _ _ _ _ crc sha] by (fastforce simp: payload_size_def)
next
  case (append es e ps p g n e')
  obtain bs where bs: "payload_encode nfc sha p = Inr bs" "encoder_append crc e (payload_record_type p) g bs = (Inr n, e')"
    using payload_append_ok [OF append.hyps(3)] .
  from append.IH obtain rs where rs: "written crc sha es e rs" "map (record_decode_payload nfc sha) rs = map Inr ps"
    "payload_size rs = sum_list (map (encoded_size nfc sha) ps)" by blast
  let ?x = "\<lparr>jr_record_type = payload_record_type p, jr_generation = g, jr_sequence = n, jr_payload = bs\<rparr>"
  have "record_decode_payload nfc sha ?x = Inr p" "encoded_size nfc sha p = length bs"
    using payload_write_read [OF append.hyps(2) bs(1)] bs(1) by (simp_all add: record_decode_payload_def encoded_size_def)
  then show ?case
    using written.append [OF rs(1) bs(2)] rs(2,3) by (intro exI [of _ "rs @ [?x]"]) (simp add: payload_size_def)
next
  case rotate
  then show ?case using written.rotate by blast
qed

text \<open>
  C27. A journal returns the payloads that were appended to it. Whatever sequence of appends and rotations produced
  the segments, cutting the newest segment at any byte of the last append (or behind it) and replaying yields
  records that decode to the appended payloads in order: all of them when the last append is complete, all
  but the last one when it is torn.
\<close>

theorem payload_journal_replay:
  assumes w: "payloads_written nfc sha crc es e ps" and p: "payload_wf nfc sha p"
    and a: "payload_append_to nfc sha crc p e g = (Inr n, e')"
    and sha: "sha256_output sha es" and k: "length (se_bytes e) \<le> k"
    and es: "Suc (length es) < 2 ^ 32" "length es < rl_max_segments limits"
    and lim: "length ps < rl_max_records limits"
      "sum_list (map (encoded_size nfc sha) (ps @ [p])) \<le> min usize_max (rl_max_payload_bytes limits)"
  shows "map (record_decode_payload nfc sha)
      (rp_records (replay_ordered_segments crc sha (map es_bytes es @ [take k (se_bytes e')]) limits)) =
    map Inr (if k < length (se_bytes e') then ps else ps @ [p])"
proof (cases "k < length (se_bytes e')")
  case True
  obtain bs where bs: "payload_encode nfc sha p = Inr bs" "encoder_append crc e (payload_record_type p) g bs = (Inr n, e')"
    using payload_append_ok [OF a] .
  obtain rs where rs: "written crc sha es e rs" "map (record_decode_payload nfc sha) rs = map Inr ps"
    "payload_size rs = sum_list (map (encoded_size nfc sha) ps)" using payloads_written_records [OF w] by blast
  have "length rs = length ps" using arg_cong [OF rs(2), of length] by simp
  with torn_append_replayed [OF rs(1) sha bs(2) k True es] rs(2,3) lim bs(1) True show ?thesis
    by (simp add: encoded_size_def Let_def)
next
  case False
  obtain rs where rs: "written crc sha es e' rs" "map (record_decode_payload nfc sha) rs = map Inr (ps @ [p])"
    "payload_size rs = sum_list (map (encoded_size nfc sha) (ps @ [p]))"
    using payloads_written_records [OF payloads_written.append [OF w p a]] by blast
  have "length rs = length (ps @ [p])" using arg_cong [OF rs(2), of length] by simp
  with written_replayed [OF rs(1) sha es] rs(2,3) lim False show ?thesis by simp
qed

definition sample_payload_journal :: segment_encoder where
  "sample_payload_journal = snd (payload_append_to id sample_sha sample_crc sample_payload sample_first (Generation 1))"

lemma sample_payload_append:
  "payload_append_to id sample_sha sample_crc sample_payload sample_first (Generation 1) = (Inr 1, sample_payload_journal)"
  using sample_payload_encode(3) [of id sample_sha]
  by (simp add: sample_payload_journal_def payload_append_to_def try_in_def sample_first_def encoder_append_def Let_def
      MAX_RECORD_PAYLOAD_def encoder_first_def encoder_from_header_def segment_header_first_def less_generation_def
      checked_add_def ok_or_def encode_record_def RECORD_PREFIX_LEN_def usize_max_def sample_payload_bytes_def)

theorem payload_journal_replay_witness:
  "map (record_decode_payload id sample_sha)
     (rp_records (replay_ordered_segments sample_crc sample_sha [se_bytes sample_payload_journal] replay_limits_default)) =
   [Inr sample_payload]"
proof -
  have "payloads_written id sample_sha sample_crc [] sample_first []"
    unfolding sample_first_def
    by (rule payloads_written.start [of 5 _ "replicate 16 1"])
      (simp_all add: gid_new_def nonzero_u64_new_def journal_id_new_def all_zero_def list_all_iff)
  moreover have "length (se_bytes sample_first) \<le> length (se_bytes sample_payload_journal)"
  proof (rule payload_append_ok [OF sample_payload_append])
    fix bs assume "encoder_append sample_crc sample_first (payload_record_type sample_payload) (Generation 1) bs = (Inr 1, sample_payload_journal)"
    from arg_cong [OF encoder_append_ok(4) [OF this], of se_bytes]
    show "length (se_bytes sample_first) \<le> length (se_bytes sample_payload_journal)" by simp
  qed
  ultimately show ?thesis
    using payload_journal_replay [OF _ sample_payload_encode(2) sample_payload_append, of "[]" "[]"
        "length (se_bytes sample_payload_journal)" replay_limits_default] sample_payload_encode(3) [of id sample_sha]
    by (simp add: sample_sha_output replay_limits_default_def encoded_size_def sample_payload_bytes_def usize_max_def)
qed

end
