(* ===== verification/Manifest.thy ===== *)
theory Manifest
  imports PayloadExact
begin

text \<open>
  The verification manifest and the source-local resume validator of
  \<^verbatim>\<open>src/crates/ariax-storage/src/verification.rs\<close>: construction, the canonical bytes and their decoder, the
  spans of the chunks, and the journal payloads that carry the manifest. The lemmas show that the codec is
  exact, that the parts put together are the manifest and each is a valid payload, and that the chunks
  partition the file.
\<close>

section \<open>Manifests\<close>

definition MAX_VERIFICATION_CHUNKS :: nat where "MAX_VERIFICATION_CHUNKS = 1048576"

definition VERIFICATION_MANIFEST_DOMAIN :: "u8 list" where
  "VERIFICATION_MANIFEST_DOMAIN = as_bytes ''ariax/verification-manifest/v1'' @ [0]"

datatype manifest_error = VM_InvalidGeometry | VM_InvalidDigestSet | VM_Limit | VM_Malformed

record verification_manifest =
  vm_total_length :: u64
  vm_chunk_length :: u64
  vm_chunks :: "journal_digest list"
  vm_whole :: "journal_digest list"
  vm_fingerprint :: journal_hash

fun algorithm_tag :: "journal_digest_algorithm \<Rightarrow> u8" where
  "algorithm_tag DA_Md5 = 1"
| "algorithm_tag DA_Sha1 = 2"
| "algorithm_tag DA_Sha256 = 3"
| "algorithm_tag DA_Sha512 = 4"

definition digest_entry :: "journal_digest \<Rightarrow> u8 list" where
  "digest_entry d = algorithm_tag (jd_algorithm d) # jd_value d"

definition manifest_encode :: "verification_manifest \<Rightarrow> u8 list" where
  "manifest_encode m =
     [1] @ u64_le (vm_total_length m) @ u64_le (vm_chunk_length m)
     @ u32_le (word_of_nat (length (vm_chunks m))) @ [word_of_nat (length (vm_whole m))]
     @ concat (map digest_entry (vm_chunks m @ vm_whole m))"

definition manifest_hash_bytes :: "sha256 \<Rightarrow> u8 list \<Rightarrow> journal_hash" where
  "manifest_hash_bytes sha bytes = the (journal_hash_new (sha (VERIFICATION_MANIFEST_DOMAIN @ bytes)))"

definition digest_weight :: "journal_digest list \<Rightarrow> nat" where
  "digest_weight ds = sum_list (map (\<lambda>d. length (jd_value d) + 48) ds)"

fun mixed_algorithms :: "journal_digest list \<Rightarrow> bool" where
  "mixed_algorithms (a # b # rest) \<longleftrightarrow> jd_algorithm a \<noteq> jd_algorithm b \<or> mixed_algorithms (b # rest)"
| "mixed_algorithms _ \<longleftrightarrow> False"

definition manifest_new ::
  "sha256 \<Rightarrow> u64 \<Rightarrow> u64 \<Rightarrow> journal_digest list \<Rightarrow> journal_digest list \<Rightarrow>
   (manifest_error, verification_manifest) result" where
  "manifest_new sha total_length chunk_length chunks whole =
     (if chunk_length = 0
         \<or> (chunks \<noteq> [] \<and> div_ceil (unat total_length) (unat chunk_length) \<noteq> length chunks)
        then Inl VM_InvalidGeometry
      else if length chunks > MAX_VERIFICATION_CHUNKS \<or> length whole > 2
              \<or> digest_weight (chunks @ whole) > MAX_VERIFICATION_MANIFEST_BYTES
        then Inl VM_Limit
      else if mixed_algorithms chunks
              \<or> (length whole = 2 \<and> jd_algorithm (whole ! 0) = jd_algorithm (whole ! 1) \<and> whole ! 0 \<noteq> whole ! 1)
        then Inl VM_InvalidDigestSet
      else
        let manifest = \<lparr>vm_total_length = total_length, vm_chunk_length = chunk_length, vm_chunks = chunks,
                        vm_whole = whole, vm_fingerprint = JournalHash (replicate 32 1)\<rparr>
        in Inr (manifest\<lparr>vm_fingerprint := manifest_hash_bytes sha (manifest_encode manifest)\<rparr>))"

definition manifest_retained_bytes :: "verification_manifest \<Rightarrow> nat" where
  "manifest_retained_bytes m = 128 + digest_weight (vm_chunks m @ vm_whole m)"

definition strong_digest :: "journal_digest \<Rightarrow> bool" where
  "strong_digest d \<longleftrightarrow> jd_algorithm d = DA_Sha256 \<or> jd_algorithm d = DA_Sha512"

definition proves_strict_identity :: "verification_manifest \<Rightarrow> bool" where
  "proves_strict_identity m \<longleftrightarrow>
     list_ex strong_digest (vm_whole m) \<or> (vm_chunks m \<noteq> [] \<and> list_all strong_digest (vm_chunks m))"

definition chunk_span :: "verification_manifest \<Rightarrow> u64 \<Rightarrow> persisted_span option" where
  "chunk_span m index =
     Option.bind (checked_mul index (vm_chunk_length m)) (\<lambda>start.
     Option.bind (checked_sub (vm_total_length m) start) (\<lambda>left.
       case persisted_span_new start (min (vm_chunk_length m) left) of Inl _ \<Rightarrow> None | Inr s \<Rightarrow> Some s))"

section \<open>Decoding\<close>

definition manifest_take :: "u8 list \<Rightarrow> nat \<Rightarrow> (manifest_error, u8 list \<times> u8 list) result" where
  "manifest_take bytes n = (if length bytes < n then Inl VM_Malformed else Inr (take n bytes, drop n bytes))"

definition algorithm_of_tag :: "u8 \<Rightarrow> (manifest_error, journal_digest_algorithm) result" where
  "algorithm_of_tag v =
     (if v = 1 then Inr DA_Md5 else if v = 2 then Inr DA_Sha1 else if v = 3 then Inr DA_Sha256
      else if v = 4 then Inr DA_Sha512 else Inl VM_Malformed)"

fun manifest_digests :: "nat \<Rightarrow> u8 list \<Rightarrow> (manifest_error, journal_digest list \<times> u8 list) result" where
  "manifest_digests 0 bytes = Inr ([], bytes)"
| "manifest_digests (Suc n) bytes =
     and_then (manifest_take bytes 1) (\<lambda>(tag, bytes).
     and_then (algorithm_of_tag (tag ! 0)) (\<lambda>algorithm.
     and_then (manifest_take bytes (digest_value_length algorithm)) (\<lambda>(v, bytes).
     and_then (map_err (\<lambda>_. VM_Malformed) (journal_digest_new algorithm v)) (\<lambda>digest.
     and_then (manifest_digests n bytes) (\<lambda>(digests, bytes). Inr (digest # digests, bytes))))))"

definition manifest_decode :: "sha256 \<Rightarrow> u8 list \<Rightarrow> (manifest_error, verification_manifest) result" where
  "manifest_decode sha bytes =
     (if length bytes > MAX_VERIFICATION_MANIFEST_BYTES then Inl VM_Limit
      else
        and_then (manifest_take bytes 1) (\<lambda>(version, bytes).
        if version \<noteq> [1] then Inl VM_Malformed
        else
          and_then (manifest_take bytes 8) (\<lambda>(total_bytes, bytes).
          and_then (manifest_take bytes 8) (\<lambda>(length_bytes, bytes).
          and_then (manifest_take bytes 4) (\<lambda>(count_bytes, bytes).
          let count = unat (u32_from_le count_bytes) in
          and_then (manifest_take bytes 1) (\<lambda>(whole_bytes, bytes).
          let whole_count = unat (whole_bytes ! 0) in
          if count > MAX_VERIFICATION_CHUNKS \<or> whole_count > 2 then Inl VM_Limit
          else if (count + whole_count) * 17 > length bytes then Inl VM_Malformed
          else
            and_then (manifest_digests (count + whole_count) bytes) (\<lambda>(digests, bytes).
            if bytes \<noteq> [] then Inl VM_Malformed
            else manifest_new sha (u64_from_le total_bytes) (u64_from_le length_bytes)
              (take count digests) (drop count digests))))))))"

section \<open>Journal payloads of a manifest\<close>

text \<open>\<open>chunks\<close> of a slice; the loop index counts the parts from the first one.\<close>

function slice_chunks :: "nat \<Rightarrow> 'a list \<Rightarrow> 'a list list" where
  "slice_chunks n xs = (if n = 0 \<or> xs = [] then [] else take n xs # slice_chunks n (drop n xs))"
  by pat_completeness auto
termination
  by (relation "measure (\<lambda>(n, xs). length xs)") (auto simp: length_greater_0_conv [symmetric] simp del: length_greater_0_conv)

declare slice_chunks.simps [simp del]

definition manifest_part :: "journal_hash \<Rightarrow> nat \<Rightarrow> u32 \<Rightarrow> nat \<times> u8 list \<Rightarrow> journal_payload" where
  "manifest_part fingerprint total_bytes count =
     (\<lambda>(index, part).
        if index = 0 then JP_VerificationManifest fingerprint (word_of_nat total_bytes) count part
        else JP_VerificationManifestChunk fingerprint (word_of_nat index) count part)"

definition journal_payloads :: "verification_manifest \<Rightarrow> journal_payload list" where
  "journal_payloads m =
     (let bytes = manifest_encode m;
          count = word_of_nat (div_ceil (length bytes) VERIFICATION_MANIFEST_PART_BYTES)
      in map (manifest_part (vm_fingerprint m) (length bytes) count)
           (enumerate 0 (slice_chunks VERIFICATION_MANIFEST_PART_BYTES bytes)))"

section \<open>Resume validators\<close>

definition protocol_validator_text :: "protocol_validator \<Rightarrow> u8 list" where
  "protocol_validator_text v =
     as_bytes ''ariax/protocol-validator/v1'' @ [0, pv_protocol v] @ journal_hash_bytes (pv_source v)
     @ u64_le (pv_total_length v) @ [if pv_modified_unix_seconds v \<noteq> None then 1 else 0]
     @ u64_le (case pv_modified_unix_seconds v of None \<Rightarrow> 0 | Some s \<Rightarrow> s)
     @ (case pv_host_key v of None \<Rightarrow> replicate 32 0 | Some k \<Rightarrow> journal_hash_bytes k)"

definition protocol_validator_fingerprint :: "sha256 \<Rightarrow> protocol_validator \<Rightarrow> journal_hash" where
  "protocol_validator_fingerprint sha v = the (journal_hash_new (sha (protocol_validator_text v)))"

definition permits_resume :: "protocol_validator \<Rightarrow> protocol_validator \<Rightarrow> bool \<Rightarrow> bool" where
  "permits_resume v previous has_checksum \<longleftrightarrow>
     v = previous \<and> (pv_modified_unix_seconds v \<noteq> None \<or> has_checksum)"

section \<open>The codec of manifests\<close>

lemma manifest_take_iff: "manifest_take bytes n = Inr (a, b) \<longleftrightarrow> length a = n \<and> bytes = a @ b"
  by (auto simp: manifest_take_def append_eq_conv_conj)

lemma manifest_take_run: "length a = n \<Longrightarrow> manifest_take (a @ b) n = Inr (a, b)"
  by (simp add: manifest_take_iff)

lemma algorithm_of_tag_iff: "algorithm_of_tag v = Inr a \<longleftrightarrow> v = algorithm_tag a"
  by (cases a) (auto simp: algorithm_of_tag_def)

lemma manifest_digests_run:
  "\<forall>d\<in>set ds. journal_digest_wf d \<Longrightarrow> manifest_digests (length ds) (concat (map digest_entry ds) @ r) = Inr (ds, r)"
proof (induction ds)
  case (Cons d ds)
  have "algorithm_of_tag (algorithm_tag (jd_algorithm d)) = Inr (jd_algorithm d)" by (simp add: algorithm_of_tag_iff)
  moreover have "manifest_take (algorithm_tag (jd_algorithm d) # v) 1 = Inr ([algorithm_tag (jd_algorithm d)], v)" for v
    by (simp add: manifest_take_iff)
  moreover have "journal_digest_new (jd_algorithm d) (jd_value d) = Inr d" "length (jd_value d) = digest_value_length (jd_algorithm d)"
    using Cons.prems by (simp_all add: journal_digest_new_iff journal_digest_wf_def)
  ultimately show ?case using Cons by (simp add: digest_entry_def manifest_take_run and_then_def map_err_def)
qed simp

lemma manifest_digests_read:
  "manifest_digests n bytes = Inr (ds, r) \<Longrightarrow>
   length ds = n \<and> (\<forall>d\<in>set ds. journal_digest_wf d) \<and> bytes = concat (map digest_entry ds) @ r"
proof (induction n arbitrary: bytes ds)
  case (Suc n)
  from Suc.prems obtain tag b1 a v b2 d ds' where tag: "length tag = 1" "bytes = tag @ b1" "algorithm_of_tag (tag ! 0) = Inr a"
    and v: "b1 = v @ b2" "journal_digest_new a v = Inr d"
    and rec: "manifest_digests n b2 = Inr (ds', r)" and ds: "ds = d # ds'"
    by (auto simp: and_then_eq_Inr map_err_eq_Inr manifest_take_iff)
  have "tag = [algorithm_tag a]" using tag by (cases tag) (auto simp: algorithm_of_tag_iff)
  then show ?case using Suc.IH [OF rec] tag v by (auto simp: ds digest_entry_def journal_digest_new_iff)
qed simp

text \<open>What the constructor guarantees of a manifest, and what the digests' type guarantees.\<close>

definition manifest_wf :: "sha256 \<Rightarrow> verification_manifest \<Rightarrow> bool" where
  "manifest_wf sha m \<longleftrightarrow>
     manifest_new sha (vm_total_length m) (vm_chunk_length m) (vm_chunks m) (vm_whole m) = Inr m
     \<and> (\<forall>d\<in>set (vm_chunks m) \<union> set (vm_whole m). journal_digest_wf d)"

lemma manifest_new_wf:
  assumes "manifest_new sha total_length chunk_length chunks whole = Inr m" "\<forall>d\<in>set chunks \<union> set whole. journal_digest_wf d"
  shows "manifest_wf sha m \<and> vm_total_length m = total_length \<and> vm_chunk_length m = chunk_length \<and> vm_chunks m = chunks
    \<and> vm_whole m = whole"
proof -
  have "vm_total_length m = total_length \<and> vm_chunk_length m = chunk_length \<and> vm_chunks m = chunks \<and> vm_whole m = whole"
    using assms(1) unfolding manifest_new_def Let_def by (simp split: if_splits) (hypsubst, simp)
  with assms show ?thesis by (simp add: manifest_wf_def)
qed

lemma manifest_bounds:
  assumes "manifest_wf sha m"
  shows "length (vm_chunks m) \<le> MAX_VERIFICATION_CHUNKS" "length (vm_whole m) \<le> 2"
    "digest_weight (vm_chunks m @ vm_whole m) \<le> MAX_VERIFICATION_MANIFEST_BYTES" "vm_chunk_length m \<noteq> 0"
    "vm_chunks m \<noteq> [] \<Longrightarrow> div_ceil (unat (vm_total_length m)) (unat (vm_chunk_length m)) = length (vm_chunks m)"
  using assms by (auto simp: manifest_wf_def manifest_new_def split: if_splits)

lemma digest_entries_length:
  "length (concat (map digest_entry ds)) + 47 * length ds = digest_weight ds"
  by (induction ds) (auto simp: digest_entry_def digest_weight_def)

lemma digest_entries_min: "\<forall>d\<in>set ds. journal_digest_wf d \<Longrightarrow> length ds * 17 \<le> length (concat (map digest_entry ds))"
proof (induction ds)
  case (Cons d ds)
  have "16 \<le> length (jd_value d)" using Cons.prems by (cases "jd_algorithm d") (auto simp: journal_digest_wf_def)
  with Cons show ?case by (simp add: digest_entry_def)
qed simp

lemma manifest_encode_length:
  "length (manifest_encode m) = 22 + length (concat (map digest_entry (vm_chunks m @ vm_whole m)))"
  by (simp add: manifest_encode_def)

lemma manifest_encode_bound:
  assumes "manifest_wf sha m"
  shows "length (manifest_encode m) \<le> MAX_VERIFICATION_MANIFEST_BYTES"
proof (cases "vm_chunks m @ vm_whole m")
  case Nil
  then show ?thesis unfolding manifest_encode_length by (simp add: MAX_VERIFICATION_MANIFEST_BYTES_def)
next
  case (Cons d ds)
  then have "47 \<le> 47 * length (vm_chunks m @ vm_whole m)" by simp
  then show ?thesis
    using digest_entries_length [of "vm_chunks m @ vm_whole m"] manifest_bounds(3) [OF assms]
    unfolding manifest_encode_length by linarith
qed

lemma manifest_write_read:
  assumes "manifest_wf sha m"
  shows "manifest_decode sha (manifest_encode m) = Inr m"
proof -
  let ?ds = "vm_chunks m @ vm_whole m"
  note b = manifest_bounds [OF assms]
  have n: "unat (word_of_nat (length (vm_chunks m)) :: u32) = length (vm_chunks m)"
    "unat (word_of_nat (length (vm_whole m)) :: u8) = length (vm_whole m)"
    using b(1,2) by (simp_all add: unat_of_nat MAX_VERIFICATION_CHUNKS_def)
  have wf: "\<forall>d\<in>set ?ds. journal_digest_wf d" using assms by (auto simp: manifest_wf_def)
  have run: "manifest_digests (length (vm_chunks m) + length (vm_whole m)) (concat (map digest_entry ?ds)) = Inr (?ds, [])"
    using manifest_digests_run [OF wf, of "[]"] by (simp del: map_append)
  have size: "\<not> (length (vm_chunks m) + length (vm_whole m)) * 17 > length (concat (map digest_entry ?ds))"
    using digest_entries_min [OF wf] by (simp del: map_append)
  have one: "manifest_take (v # r) (Suc 0) = Inr ([v], r)" for v r by (simp add: manifest_take_iff)
  have "manifest_new sha (vm_total_length m) (vm_chunk_length m) (vm_chunks m) (vm_whole m) = Inr m"
    using assms by (simp add: manifest_wf_def)
  with run size b(1,2) manifest_encode_bound [OF assms] show ?thesis
    unfolding manifest_decode_def manifest_encode_def
    by (simp add: manifest_take_run one and_then_def n Let_def del: map_append)
qed

lemma manifest_take_then:
  "and_then (manifest_take bytes n) (\<lambda>(a, b). f a b) = Inr m \<longleftrightarrow>
   (\<exists>a b. length a = n \<and> bytes = a @ b \<and> f a b = Inr m)"
  by (auto simp: and_then_eq_Inr manifest_take_iff)

lemma manifest_digests_then:
  "and_then (manifest_digests n bytes) (\<lambda>(ds, b). f ds b) = Inr m \<longleftrightarrow>
   (\<exists>ds b. manifest_digests n bytes = Inr (ds, b) \<and> f ds b = Inr m)"
  by (auto simp: and_then_eq_Inr)

lemma manifest_read_write:
  assumes "manifest_decode sha bytes = Inr m"
  shows "manifest_wf sha m \<and> bytes = manifest_encode m"
proof -
  from assms obtain t l c w r ds where v: "length t = 8" "length l = 8" "length c = 4" "length w = 1"
    and bytes: "bytes = [1] @ t @ l @ c @ w @ r"
    and ds: "manifest_digests (unat (u32_from_le c) + unat (w ! 0)) r = Inr (ds, [])"
    and new: "manifest_new sha (u64_from_le t) (u64_from_le l) (take (unat (u32_from_le c)) ds) (drop (unat (u32_from_le c)) ds) = Inr m"
    unfolding manifest_decode_def manifest_take_then manifest_digests_then Let_def if_distrib [of "\<lambda>r. r = Inr m"]
    by (auto split: if_splits)
  note d = manifest_digests_read [OF ds]
  have wf: "\<forall>d\<in>set (take (unat (u32_from_le c)) ds) \<union> set (drop (unat (u32_from_le c)) ds). journal_digest_wf d"
    using d by (auto dest: in_set_takeD in_set_dropD)
  note m = manifest_new_wf [OF new wf]
  have c: "u32_le (word_of_nat (length (vm_chunks m))) = c"
    using m d v(3) by (simp add: min_def)
  have w: "[word_of_nat (length (vm_whole m))] = w"
    using m d v(4) by (cases w) simp_all
  show ?thesis
    using m c w d v(1,2) unfolding bytes manifest_encode_def by (simp flip: map_append concat_append)
qed

text \<open>
  The byte form of a verification manifest is canonical: decoding accepts exactly the encodings of the manifests that
  the constructor builds, and returns the manifest that was encoded, its fingerprint included.
\<close>

lemma manifest_codec_exact:
  "manifest_decode sha bytes = Inr m \<longleftrightarrow> manifest_wf sha m \<and> bytes = manifest_encode m"
  using manifest_write_read manifest_read_write by blast

section \<open>The parts of a manifest\<close>

lemma slice_chunks_step: "0 < n \<Longrightarrow> xs \<noteq> [] \<Longrightarrow> slice_chunks n xs = take n xs # slice_chunks n (drop n xs)"
  by (subst slice_chunks.simps) simp

lemma slice_chunks_Nil [simp]: "slice_chunks n [] = []"
  by (subst slice_chunks.simps) simp

lemma concat_slice_chunks: "0 < n \<Longrightarrow> concat (slice_chunks n xs) = xs"
  by (induction n xs rule: slice_chunks.induct) (case_tac "xs = []"; simp add: slice_chunks_step)

lemma slice_chunks_part: "part \<in> set (slice_chunks n xs) \<Longrightarrow> part \<noteq> [] \<and> length part \<le> n"
proof (induction n xs rule: slice_chunks.induct)
  case (1 n xs)
  then show ?case by (cases "n = 0 \<or> xs = []") (auto simp: slice_chunks.simps [of n xs])
qed

lemma length_slice_chunks: "0 < n \<Longrightarrow> length (slice_chunks n xs) = div_ceil (length xs) n"
proof (induction n xs rule: slice_chunks.induct)
  case (1 n xs)
  show ?case
  proof (cases "xs = []")
    case True
    with 1 show ?thesis by (simp add: div_ceil_def)
  next
    case False
    then have ih: "length (slice_chunks n (drop n xs)) = div_ceil (length xs - n) n" using 1 by simp
    show ?thesis
    proof (cases "length xs \<le> n")
      case True
      have "(length xs + n - 1) div n = 1"
        using True False "1.prems" by (intro div_nat_eqI) (cases xs; simp)+
      with True ih False "1.prems" show ?thesis by (simp add: slice_chunks_step div_ceil_def)
    next
      case long: False
      have "length xs + n - 1 = (length xs - n + n - 1) + n" using long by simp
      then have "div_ceil (length xs) n = Suc (div_ceil (length xs - n) n)"
        using "1.prems" unfolding div_ceil_def by (simp only: div_add_self2)
      then show ?thesis using ih False "1.prems" by (simp add: slice_chunks_step)
    qed
  qed
qed

lemma slice_chunks_first: "0 < n \<Longrightarrow> xs \<noteq> [] \<Longrightarrow> slice_chunks n xs ! 0 = take n xs"
  by (simp add: slice_chunks_step)

fun manifest_part_bytes :: "journal_payload \<Rightarrow> u8 list" where
  "manifest_part_bytes (JP_VerificationManifest _ _ _ bytes) = bytes"
| "manifest_part_bytes (JP_VerificationManifestChunk _ _ _ bytes) = bytes"
| "manifest_part_bytes _ = []"

lemma manifest_part_bytes_part [simp]: "manifest_part_bytes (manifest_part h n c x) = snd x"
  by (cases x) (simp add: manifest_part_def)

lemma manifest_encode_nonempty: "manifest_encode m \<noteq> []"
  by (simp add: manifest_encode_def)

lemma manifest_part_count:
  assumes "n \<le> MAX_VERIFICATION_MANIFEST_BYTES"
  shows "div_ceil n VERIFICATION_MANIFEST_PART_BYTES \<le> 1024"
proof -
  have "div_ceil n VERIFICATION_MANIFEST_PART_BYTES \<le> div_ceil MAX_VERIFICATION_MANIFEST_BYTES VERIFICATION_MANIFEST_PART_BYTES"
    using assms unfolding div_ceil_def by (intro div_le_mono) simp
  then show ?thesis by (simp add: payload_limits)
qed

lemma manifest_part_valid:
  assumes n: "0 < n" "n \<le> MAX_VERIFICATION_MANIFEST_BYTES" and i: "i < div_ceil n VERIFICATION_MANIFEST_PART_BYTES"
    and part: "part \<noteq> []" "length part \<le> VERIFICATION_MANIFEST_PART_BYTES"
      "i = 0 \<Longrightarrow> length part = min n VERIFICATION_MANIFEST_PART_BYTES"
  shows "validate_payload nfc sha (manifest_part h n (word_of_nat (div_ceil n VERIFICATION_MANIFEST_PART_BYTES)) (i, part)) = Inr ()"
proof -
  let ?c = "div_ceil n VERIFICATION_MANIFEST_PART_BYTES"
  have c: "?c \<le> 1024" by (rule manifest_part_count [OF n(2)])
  have w: "unat (word_of_nat ?c :: u32) = ?c" "unat (word_of_nat i :: u32) = i" "unat (word_of_nat n :: u32) = n"
    using c i n(2) by (simp_all add: unat_of_nat MAX_VERIFICATION_MANIFEST_BYTES_def)
  have "i \<noteq> 0 \<Longrightarrow> (word_of_nat i :: u32) \<noteq> 0" using w(2) by force
  moreover have "\<not> (word_of_nat ?c :: u32) \<le> word_of_nat i" using i w by (simp add: word_le_nat_alt)
  moreover have "MAX_VERIFICATION_MANIFEST_BYTES div VERIFICATION_MANIFEST_PART_BYTES = 1024" by (simp add: payload_limits)
  ultimately show ?thesis using assms c w by (simp add: manifest_part_def Let_def)
qed

lemma manifest_part_size:
  assumes "length part \<le> VERIFICATION_MANIFEST_PART_BYTES" "journal_hash_wf h"
  shows "\<exists>bs. encode_body (manifest_part h n c (i, part)) = Inr bs \<and> length bs \<le> MAX_RECORD_PAYLOAD"
proof -
  have "length part < 2 ^ 32" using assms(1) by (simp add: payload_limits)
  then show ?thesis
    using assms by (auto simp: manifest_part_def seq_simps write_simps journal_hash_wf_def payload_limits MAX_RECORD_PAYLOAD_def)
qed

text \<open>
  A manifest fits the journal: its parts, in order, put together give the encoded manifest; the first part is
  the manifest record and names the full size and the number of parts, part \<open>i\<close> behind it is a chunk record with the index \<open>i\<close>;
  and every part encodes as a payload that passes the validation and the size limit of a record.
\<close>

lemma manifest_parts_fit_journal:
  assumes wf: "manifest_wf sha m" and h: "journal_hash_wf (vm_fingerprint m)"
  shows "concat (map manifest_part_bytes (journal_payloads m)) = manifest_encode m
    \<and> (\<forall>i < length (journal_payloads m). let part = journal_payloads m ! i; n = length (manifest_encode m);
         count = word_of_nat (length (journal_payloads m)) in
         part = (if i = 0 then JP_VerificationManifest (vm_fingerprint m) (word_of_nat n) count (manifest_part_bytes part)
                 else JP_VerificationManifestChunk (vm_fingerprint m) (word_of_nat i) count (manifest_part_bytes part))
         \<and> (\<exists>bs. payload_encode nfc sha part = Inr bs))"
proof -
  let ?b = "manifest_encode m" and ?p = VERIFICATION_MANIFEST_PART_BYTES
  have p: "0 < ?p" by (simp add: VERIFICATION_MANIFEST_PART_BYTES_def)
  have pos: "0 < length ?b" using manifest_encode_nonempty by blast
  let ?s = "slice_chunks ?p ?b"
  have len: "length (journal_payloads m) = div_ceil (length ?b) ?p" "length ?s = div_ceil (length ?b) ?p"
    using length_slice_chunks [OF p] by (simp_all add: journal_payloads_def Let_def)
  have "map manifest_part_bytes (journal_payloads m) = ?s"
    by (simp add: journal_payloads_def Let_def comp_def)
  then have cat: "concat (map manifest_part_bytes (journal_payloads m)) = ?b" by (simp add: concat_slice_chunks [OF p])
  have nth: "journal_payloads m ! i = manifest_part (vm_fingerprint m) (length ?b)
      (word_of_nat (div_ceil (length ?b) ?p)) (i, ?s ! i)" if "i < div_ceil (length ?b) ?p" for i
    using that len(2) by (simp add: journal_payloads_def Let_def nth_enumerate_eq)
  have enc: "\<exists>bs. payload_encode nfc sha (journal_payloads m ! i) = Inr bs" if i: "i < div_ceil (length ?b) ?p" for i
  proof -
    have part: "?s ! i \<noteq> []" "length (?s ! i) \<le> ?p"
      using slice_chunks_part [of "?s ! i" ?p ?b] i len(2) by auto
    have first: "i = 0 \<Longrightarrow> length (?s ! i) = min (length ?b) ?p"
      using slice_chunks_first [OF p manifest_encode_nonempty [of m]] by simp
    show ?thesis
      using manifest_part_valid [OF pos manifest_encode_bound [OF wf] i part first, of nfc sha "vm_fingerprint m"]
        manifest_part_size [OF part(2) h, of "length ?b" "word_of_nat (div_ceil (length ?b) ?p)" i]
      by (auto simp: nth [OF i] payload_encode_def and_then_def)
  qed
  show ?thesis using cat enc nth by (auto simp: len Let_def manifest_part_def)
qed

section \<open>The chunks of the file\<close>

lemma div_ceil_less: "0 < c \<Longrightarrow> i < div_ceil t c \<longleftrightarrow> i * c < t"
proof -
  assume c: "0 < c"
  have "i < div_ceil t c \<longleftrightarrow> Suc i * c \<le> t + c - 1"
    using c by (simp add: div_ceil_def Suc_le_eq [symmetric] less_eq_div_iff_mult_less_eq)
  also have "\<dots> \<longleftrightarrow> i * c < t" using c by auto
  finally show ?thesis .
qed

lemma chunk_span_eq:
  "chunk_span m i =
     (let c = unat (vm_chunk_length m); t = unat (vm_total_length m) in
      if c \<noteq> 0 \<and> unat i * c < t
        then Some \<lparr>ps_offset = i * vm_chunk_length m, ps_len = word_of_nat (min c (t - unat i * c))\<rparr>
      else None)"
proof -
  let ?c = "unat (vm_chunk_length m)" and ?t = "unat (vm_total_length m)"
  have t: "?t < 2 ^ 64" using unsigned_less [of "vm_total_length m"] by simp
  show ?thesis
  proof (cases "unat i * ?c < ?t")
    case False
    have "chunk_span m i = None"
    proof (cases "checked_mul i (vm_chunk_length m)")
      case (Some a)
      show ?thesis
      proof (cases "checked_sub (vm_total_length m) a")
        case sub: (Some l)
        have "unat l = 0" using checked_mul_Some [OF Some] checked_sub_Some [OF sub] False by simp
        then have "l = 0" by (simp add: unat_eq_zero)
        then show ?thesis by (simp add: chunk_span_def Some sub persisted_span_new_def min_def)
      qed (simp add: chunk_span_def Some)
    qed (simp add: chunk_span_def)
    with False show ?thesis by simp
  next
    case True
    then have mul: "checked_mul i (vm_chunk_length m) = Some (i * vm_chunk_length m)"
      and off: "unat (i * vm_chunk_length m) = unat i * ?c"
      using t by (simp_all add: checked_mul_def unat_word_ariths)
    define left where "left = vm_total_length m - i * vm_chunk_length m"
    have sub: "checked_sub (vm_total_length m) (i * vm_chunk_length m) = Some left"
      using True by (simp add: checked_sub_def off left_def)
    have left: "unat left = ?t - unat i * ?c" using checked_sub_Some [OF sub] off by simp
    have min: "unat (min (vm_chunk_length m) left) = min ?c (?t - unat i * ?c)"
      using left by (simp add: min_def word_le_nat_alt)
    have "min (vm_chunk_length m) left = word_of_nat (unat (min (vm_chunk_length m) left))" by simp
    then have len: "min (vm_chunk_length m) left = word_of_nat (min ?c (?t - unat i * ?c))" by (simp only: min)
    moreover have "?c \<noteq> 0 \<Longrightarrow> persisted_span_new (i * vm_chunk_length m) (min (vm_chunk_length m) left) =
        Inr \<lparr>ps_offset = i * vm_chunk_length m, ps_len = min (vm_chunk_length m) left\<rparr>"
      using min True off t by (auto simp: persisted_span_new_def and_then_def checked_add_def ok_or_def word_unat_eq_iff)
    moreover have "?c = 0 \<Longrightarrow> min (vm_chunk_length m) left = 0" using min by (simp add: word_unat_eq_iff)
    ultimately show ?thesis
      using True by (cases "?c = 0") (simp_all add: chunk_span_def mul sub Let_def, simp add: persisted_span_new_def)
  qed
qed

definition span_covers :: "persisted_span \<Rightarrow> nat \<Rightarrow> bool" where
  "span_covers s x \<longleftrightarrow> unat (ps_offset s) \<le> x \<and> x < unat (ps_offset s) + unat (ps_len s)"

lemma chunk_span_cover:
  assumes "vm_chunk_length m \<noteq> 0"
  shows "(\<exists>s. chunk_span m i = Some s \<and> span_covers s x)
    \<longleftrightarrow> x < unat (vm_total_length m) \<and> unat i = x div unat (vm_chunk_length m)"
proof -
  let ?c = "unat (vm_chunk_length m)" and ?t = "unat (vm_total_length m)"
  have c: "0 < ?c" using assms by (simp add: unat_gt_0)
  have t: "?t < 2 ^ 64" using unsigned_less [of "vm_total_length m"] by simp
  show ?thesis
  proof (cases "unat i * ?c < ?t")
    case True
    then have off: "unat (i * vm_chunk_length m) = unat i * ?c" using t by (simp add: unat_word_ariths)
    have len: "unat (word_of_nat (min ?c (?t - unat i * ?c)) :: u64) = min ?c (?t - unat i * ?c)"
      using t by (simp add: unat_of_nat)
    have "unat i = x div ?c \<longleftrightarrow> unat i * ?c \<le> x \<and> x < Suc (unat i) * ?c"
      using c by (metis div_nat_eqI div_times_less_eq_dividend dividend_less_div_times mult.commute mult_Suc)
    then show ?thesis using True c by (auto simp: chunk_span_eq span_covers_def off len Let_def)
  next
    case False
    moreover have "x < ?t \<Longrightarrow> x div ?c * ?c < ?t" by (rule le_less_trans [OF div_times_less_eq_dividend])
    ultimately show ?thesis by (auto simp: chunk_span_eq Let_def)
  qed
qed

lemma chunk_index_unique:
  assumes "x < unat (t :: u64)"
  shows "\<exists>!i :: u64. unat i = x div c"
proof -
  have "unat t < 2 ^ 64" using unsigned_less [of t] by simp
  then have "x div c < 2 ^ 64" using assms by (meson div_le_dividend le_less_trans less_trans)
  then have "unat (word_of_nat (x div c) :: u64) = x div c" by (simp add: unat_of_nat)
  then show ?thesis by (intro ex1I [of _ "word_of_nat (x div c)"]) (simp_all add: word_unat_eq_iff)
qed

lemma chunk_span_some:
  assumes "manifest_wf sha m" "vm_chunks m \<noteq> []"
  shows "vm_chunk_length m \<noteq> 0" "chunk_span m i \<noteq> None \<longleftrightarrow> unat i < length (vm_chunks m)"
proof -
  let ?c = "unat (vm_chunk_length m)" and ?t = "unat (vm_total_length m)"
  show nz: "vm_chunk_length m \<noteq> 0" using manifest_bounds(4,5) [OF assms(1)] by simp
  have c: "0 < ?c" and n: "div_ceil ?t ?c = length (vm_chunks m)"
    using manifest_bounds(4,5) [OF assms(1)] assms(2) by (simp_all add: unat_gt_0)
  show "chunk_span m i \<noteq> None \<longleftrightarrow> unat i < length (vm_chunks m)"
    using div_ceil_less [OF c, of "unat i" ?t] c by (simp add: chunk_span_eq n Let_def)
qed

text \<open>
  The chunks of a manifest partition the file: a chunk index has a span exactly when the manifest has a digest
  for it, and every byte of the file lies in the span of exactly one chunk.
\<close>

lemma manifest_chunks_partition:
  assumes wf: "manifest_wf sha m" and chunks: "vm_chunks m \<noteq> []"
  shows "(\<forall>i. chunk_span m i \<noteq> None \<longleftrightarrow> unat i < length (vm_chunks m))
    \<and> (\<forall>x < unat (vm_total_length m). \<exists>!i. \<exists>s. chunk_span m i = Some s \<and> span_covers s x)"
  using chunk_span_some [OF assms] chunk_index_unique by (simp add: chunk_span_cover)

section \<open>A sample digest\<close>

definition sample_digest :: "u8 \<Rightarrow> journal_digest" where
  "sample_digest b = \<lparr>jd_algorithm = DA_Md5, jd_value = replicate 16 b\<rparr>"

end
