(* ===== verification/RecoveredState.thy ===== *)
theory RecoveredState
  imports Manifest "HOL-Library.Product_Lexorder"
begin

text \<open>
  The data of semantic replay, the first part of \<^verbatim>\<open>src/crates/ariax-storage/src/journal_state.rs\<close>: the state that
  recovery reconstructs from the payloads of a journal, its limits and errors, the hashes over contributors,
  validators and checkpoint records, the reassembly of a layout and the spans of its pieces. A \<open>BTreeSet\<close> that is
  only tested for membership and size is a set.
\<close>

section \<open>Orders on keys\<close>

instantiation lease_id :: linorder
begin

definition less_eq_lease_id :: "lease_id \<Rightarrow> lease_id \<Rightarrow> bool" where
  "less_eq_lease_id a b \<longleftrightarrow> lease_id_get a \<le> lease_id_get b"

definition less_lease_id :: "lease_id \<Rightarrow> lease_id \<Rightarrow> bool" where
  "less_lease_id a b \<longleftrightarrow> lease_id_get a < lease_id_get b"

instance
  by standard (auto simp: less_eq_lease_id_def less_lease_id_def intro: lease_id.expand)

end

instantiation piece_id :: linorder
begin

definition less_eq_piece_id :: "piece_id \<Rightarrow> piece_id \<Rightarrow> bool" where
  "less_eq_piece_id a b \<longleftrightarrow> piece_id_get a \<le> piece_id_get b"

definition less_piece_id :: "piece_id \<Rightarrow> piece_id \<Rightarrow> bool" where
  "less_piece_id a b \<longleftrightarrow> piece_id_get a < piece_id_get b"

instance
  by standard (auto simp: less_eq_piece_id_def less_piece_id_def intro: piece_id.expand)

end

instantiation journal_hash :: linorder
begin

definition less_eq_journal_hash :: "journal_hash \<Rightarrow> journal_hash \<Rightarrow> bool" where
  "less_eq_journal_hash a b \<longleftrightarrow> journal_hash_bytes a \<le> journal_hash_bytes b"

definition less_journal_hash :: "journal_hash \<Rightarrow> journal_hash \<Rightarrow> bool" where
  "less_journal_hash a b \<longleftrightarrow> journal_hash_bytes a < journal_hash_bytes b"

instance
  by standard (auto simp: less_eq_journal_hash_def less_journal_hash_def intro: journal_hash.expand)

end

section \<open>Recovered values\<close>

record journal_state_limits =
  jl_max_records :: nat
  jl_max_leases :: nat
  jl_max_durable_pieces :: nat
  jl_max_retry_states :: nat
  jl_max_finalizations :: nat

definition journal_state_limits_default :: journal_state_limits where
  "journal_state_limits_default =
     \<lparr>jl_max_records = 262144, jl_max_leases = 65536, jl_max_durable_pieces = 262144, jl_max_retry_states = 65536,
      jl_max_finalizations = MAX_LAYOUT_ENTRIES\<rparr>"

record recovered_option_snapshot =
  os_patch_id :: "option_patch_id option"
  os_snapshot_hash :: journal_hash
  os_options :: sanitized_option_map

record journal_contributor =
  jc_lease_id :: lease_id
  jc_span :: persisted_span
  jc_validator_fingerprint :: journal_hash

record recovered_layout =
  rcl_layout :: file_layout
  rcl_layout_hash :: journal_hash
  rcl_root_binding_hash :: journal_hash

definition has_same_identity_evidence :: "recovered_layout \<Rightarrow> recovered_layout \<Rightarrow> bool" where
  "has_same_identity_evidence a b \<longleftrightarrow>
     (let l = fl_root_binding (rcl_layout a); r = fl_root_binding (rcl_layout b);
          lf = fl_files (rcl_layout a); rf = fl_files (rcl_layout b) in
      \<not> (rcl_layout_hash a \<noteq> rcl_layout_hash b \<or> pp_platform (rb_path l) \<noteq> pp_platform (rb_path r)
         \<or> rb_root_identity l \<noteq> rb_root_identity r \<or> length lf \<noteq> length rf)
      \<and> list_all (\<lambda>(left, right). fe_id left = fe_id right
            \<and> map_option file_identity_bytes (fe_identity left) = map_option file_identity_bytes (fe_identity right))
          (zip lf rf))"

datatype durable_piece_origin = DO_Live journal_hash data_barrier_kind | DO_Checkpoint

record recovered_durable_piece =
  dp_piece_id :: piece_id
  dp_piece_span :: persisted_span
  dp_validator_set_fingerprint :: journal_hash
  dp_digest :: "journal_digest option"
  dp_origin :: durable_piece_origin

record recovered_retry_state =
  rr_scope :: retry_scope
  rr_scope_id :: persisted_id
  rr_attempt :: u32
  rr_elapsed_before_wait_ms :: u64
  rr_scheduled_at_unix_ms :: u64
  rr_delay_ms :: u64
  rr_error_class :: error_kind
  rr_retry_reason :: retry_reason

record recovered_http_strong_validator =
  hv_resource_fingerprint :: journal_hash
  hv_validator_fingerprint :: journal_hash
  hv_total_length :: u64
  hv_etag :: "u8 list"

record recovered_http_range_identity =
  hr_identity_fingerprint :: journal_hash
  hr_total_length :: u64
  hr_representation_digest :: journal_digest

record recovered_finalization =
  rf_layout_hash :: journal_hash
  rf_root_binding_hash :: journal_hash
  rf_file_id :: file_id
  rf_temp_relative_path :: journal_relative_path
  rf_final_relative_path :: journal_relative_path
  rf_final_length :: u64
  rf_file_identity :: "u8 list"
  rf_done :: bool

datatype recovered_terminal =
  Term_Complete journal_hash u64 "journal_digest option" u64
| Term_Error error_kind bool u64
| Term_Removed task_remove_reason

record recovered_checkpoint =
  rcp_checkpoint_id :: checkpoint_id
  rcp_source_last_sequence :: u64
  rcp_source_segment_hash :: journal_hash
  rcp_state_record_count :: u32
  rcp_state_hash :: journal_hash
  rcp_end_sequence :: u64

record recovered_clean_shutdown =
  rcs_checkpoint_sequence :: u64
  rcs_shutdown_at_unix_ms :: u64
  rcs_record_sequence :: u64

record recovered_journal_state =
  js_task :: task_id
  js_durability :: durability_mode
  js_creator_version :: u16
  js_generation :: generation
  js_current_options :: "recovered_option_snapshot option"
  js_pending_options :: "recovered_option_snapshot option"
  js_layout :: "recovered_layout option"
  js_http_strong_validator :: "recovered_http_strong_validator option"
  js_http_range_identity :: "recovered_http_range_identity option"
  js_verification_manifest :: "verification_manifest option"
  js_protocol_validators :: "(journal_hash, protocol_validator) btree"
  js_whole_file_verified :: bool
  js_committed_spans :: "(lease_id, journal_contributor) btree"
  js_durable_pieces :: "(piece_id, recovered_durable_piece) btree"
  js_retry_states :: "(u8 \<times> u64, recovered_retry_state) btree"
  js_paused :: "task_pause_reason option"
  js_host_key_state :: "journal_host_key_state option"
  js_finalizations :: "(file_id, recovered_finalization) btree"
  js_terminal :: "recovered_terminal option"
  js_checkpoint :: "recovered_checkpoint option"
  js_rebind_source_root_binding_hash :: "journal_hash option"
  js_clean_shutdown :: "recovered_clean_shutdown option"
  js_last_sequence :: u64

datatype journal_state_resource =
  JR_Records | JR_Leases | JR_DurablePieces | JR_RetryStates | JR_Finalizations

datatype (plugins only: code) journal_state_error =
  JE_ResourceLimit journal_state_resource | JE_AllocationFailed | JE_SequenceMismatch u64 u64
| JE_Payload payload_codec_error | JE_CheckpointNotFirst | JE_CheckpointIncomplete | JE_CheckpointCountMismatch
| JE_CheckpointIdMismatch | JE_CheckpointHashMismatch | JE_CheckpointRecordForbidden | JE_NonCanonicalCheckpointOrder
| JE_TaskCreatedMissing | JE_DuplicateTaskCreated | JE_InvalidInitialGeneration | JE_RecordAfterTerminal
| JE_GenerationMismatch generation generation | JE_GenerationAdvanceMismatch | JE_CurrentSnapshotMissing
| JE_DuplicateCurrentSnapshot | JE_SnapshotHashMismatch | JE_ForbiddenPersistedOption string
| JE_InvalidStagedSnapshotReplacement | JE_StagedSnapshotMissing | JE_StagedSnapshotMismatch | JE_PatchReasonMismatch
| JE_GenerationNotDrained | JE_LayoutMissing | JE_DuplicateLayout | JE_UnexpectedLayoutChunk
| JE_IncompleteLayoutSequence | JE_LayoutChunkMismatch | JE_LayoutCountMismatch | JE_Layout layout_error
| JE_LayoutPath path_validation_error | JE_RootBinding root_binding_error | JE_LayoutHashMismatch
| JE_RootBindingHashMismatch | JE_InvalidHttpStrongValidator | JE_InvalidHttpRangeIdentity
| JE_InvalidVerificationManifest | JE_InvalidProtocolValidator | JE_InvalidHostKeyState | JE_SpanOutsideLayout
| JE_PieceSpanMismatch | JE_DuplicateLease | JE_UnknownLease | JE_LeaseMismatch | JE_PieceLeaseMismatch
| JE_NonCanonicalContributors | JE_VerificationMismatch | JE_DurabilityBarrierMismatch | JE_DuplicateDurablePiece
| JE_PieceStateOutsideCheckpoint | JE_DuplicatePieceState | JE_IncompletePieceStateSequence
| JE_PieceStateChunkMismatch | JE_FinalizationMismatch | JE_DuplicateTerminal | JE_InvalidCleanShutdown

datatype journal_state_stop =
  JS_NoRecords
| JS_CleanEnd
| JS_IncompleteVerificationManifest u32 u32
| JS_IncompleteLayout u32 u32
| JS_InvalidRecord nat u64 journal_state_error

record journal_state_replay =
  jsr_state :: "recovered_journal_state option"
  jsr_accepted_records :: nat
  jsr_last_sequence :: u64
  jsr_stop :: journal_state_stop

section \<open>Hashes\<close>

definition nonzero_hash :: "u8 list \<Rightarrow> journal_hash" where
  "nonzero_hash bytes = the (journal_hash_new bytes)"

definition CHECKPOINT_STATE_HASH_DOMAIN :: "u8 list" where
  "CHECKPOINT_STATE_HASH_DOMAIN = as_bytes ''ariax/checkpoint-state/v1'' @ [0]"

definition CONTRIBUTORS_HASH_DOMAIN :: "u8 list" where
  "CONTRIBUTORS_HASH_DOMAIN = as_bytes ''ariax/contributors/v1'' @ [0]"

definition VALIDATOR_SET_HASH_DOMAIN :: "u8 list" where
  "VALIDATOR_SET_HASH_DOMAIN = as_bytes ''ariax/validator-set/v1'' @ [0]"

definition REBIND_VALIDATOR_SET_HASH_DOMAIN :: "u8 list" where
  "REBIND_VALIDATOR_SET_HASH_DOMAIN = as_bytes ''ariax/rebind-validator-set/v1'' @ [0]"

fun checkpoint_records_text :: "journal_record list \<Rightarrow> (journal_state_error, u8 list) result" where
  "checkpoint_records_text [] = Inr []"
| "checkpoint_records_text (r # rs) =
     (if length (jr_payload r) \<ge> 2 ^ 32 then Inl (JE_Payload PC_PayloadTooLarge)
      else and_then (checkpoint_records_text rs) (\<lambda>rest.
        Inr (u16_le (record_type_number (jr_record_type r)) @ u64_le (generation_get (jr_generation r))
             @ u32_le (word_of_nat (length (jr_payload r))) @ jr_payload r @ rest)))"

definition calculate_checkpoint_state_hash ::
  "sha256 \<Rightarrow> journal_record list \<Rightarrow> (journal_state_error, journal_hash) result" where
  "calculate_checkpoint_state_hash sha records =
     (if length records \<ge> 2 ^ 32 then Inl (JE_ResourceLimit JR_Records)
      else and_then (checkpoint_records_text records) (\<lambda>text_bytes.
        Inr (nonzero_hash (sha (CHECKPOINT_STATE_HASH_DOMAIN @ u32_le (word_of_nat (length records)) @ text_bytes)))))"

definition contributor_text :: "journal_contributor \<Rightarrow> u8 list" where
  "contributor_text c =
     u64_le (lease_id_get (jc_lease_id c)) @ u64_le (ps_offset (jc_span c)) @ u64_le (ps_len (jc_span c))
     @ journal_hash_bytes (jc_validator_fingerprint c)"

definition calculate_contributors_hash ::
  "sha256 \<Rightarrow> journal_contributor list \<Rightarrow> (journal_state_error, journal_hash) result" where
  "calculate_contributors_hash sha contributors =
     (if \<not> sorted_wrt (<) (map (lease_id_get \<circ> jc_lease_id) contributors) then Inl JE_NonCanonicalContributors
      else if length contributors \<ge> 2 ^ 32 then Inl (JE_ResourceLimit JR_Leases)
      else Inr (nonzero_hash (sha (CONTRIBUTORS_HASH_DOMAIN @ u32_le (word_of_nat (length contributors))
             @ concat (map contributor_text contributors)))))"

definition calculate_validator_set_fingerprint ::
  "sha256 \<Rightarrow> journal_contributor list \<Rightarrow> (journal_state_error, journal_hash) result" where
  "calculate_validator_set_fingerprint sha contributors =
     (let validators = sort (remdups (map jc_validator_fingerprint contributors)) in
      if length validators \<ge> 2 ^ 32 then Inl (JE_ResourceLimit JR_Leases)
      else Inr (nonzero_hash (sha (VALIDATOR_SET_HASH_DOMAIN @ u32_le (word_of_nat (length validators))
             @ concat (map journal_hash_bytes validators)))))"

definition calculate_rebind_validator_set_fingerprint ::
  "sha256 \<Rightarrow> journal_hash \<Rightarrow> journal_hash \<Rightarrow> journal_digest \<Rightarrow> journal_hash" where
  "calculate_rebind_validator_set_fingerprint sha previous_root_binding_hash new_root_binding_hash d =
     (let algorithm = as_bytes (digest_algorithm_code (jd_algorithm d)) in
      nonzero_hash (sha (REBIND_VALIDATOR_SET_HASH_DOMAIN @ journal_hash_bytes previous_root_binding_hash
        @ journal_hash_bytes new_root_binding_hash @ update_bytes algorithm @ update_bytes (jd_value d))))"

section \<open>Spans of pieces\<close>

definition expected_piece_span :: "file_layout \<Rightarrow> piece_id \<Rightarrow> (journal_state_error, persisted_span) result" where
  "expected_piece_span layout piece_id =
     and_then (ok_or JE_SpanOutsideLayout (fl_total_length layout)) (\<lambda>total_len.
     and_then (ok_or JE_PieceSpanMismatch (checked_mul (piece_id_get piece_id) (fl_piece_length layout))) (\<lambda>start.
       if start \<ge> total_len then Inl JE_PieceSpanMismatch
       else map_err JE_Payload (persisted_span_new start (min (fl_piece_length layout) (total_len - start)))))"

definition span_contains :: "persisted_span \<Rightarrow> persisted_span \<Rightarrow> bool" where
  "span_contains outer inner \<longleftrightarrow>
     ps_offset inner \<ge> ps_offset outer \<and> ps_offset inner + ps_len inner \<le> ps_offset outer + ps_len outer"

definition spans_intersect :: "persisted_span \<Rightarrow> persisted_span \<Rightarrow> bool" where
  "spans_intersect left right \<longleftrightarrow>
     ps_offset left < ps_offset right + ps_len right \<and> ps_offset right < ps_offset left + ps_len left"

section \<open>Reassembly of a layout\<close>

record pending_layout =
  pl_generation :: generation
  pl_layout_hash :: journal_hash
  pl_root_binding_hash :: journal_hash
  pl_root_display :: platform_path
  pl_root_identity :: "u8 list"
  pl_total_length :: "u64 option"
  pl_piece_length :: u64
  pl_total_file_count :: nat
  pl_chunk_count :: u32
  pl_next_chunk :: u32
  pl_files :: "journal_file_layout_entry list"
  pl_previous_layout :: "recovered_layout option"
  pl_previous_durable_pieces :: "(piece_id, recovered_durable_piece) btree"

text \<open>The loop over the entries; it collects the identities of the selected files and the file entries.\<close>

fun assemble_files ::
  "(string \<Rightarrow> string) \<Rightarrow> path_platform \<Rightarrow> journal_file_layout_entry list \<Rightarrow>
   (journal_state_error, (file_id \<times> file_identity) list \<times> file_entry list) result" where
  "assemble_files nfc platform [] = Inr ([], [])"
| "assemble_files nfc platform (entry # rest) =
     and_then (map_err JE_LayoutPath
         (from_user_path nfc (journal_relative_path_str (jf_safe_relative_path entry)) platform)) (\<lambda>safe_path.
     and_then
       (if jf_selected entry then
          and_then (map_err JE_RootBinding (file_identity_new (jf_file_identity entry))) (\<lambda>identity. Inr (Some identity))
        else Inr None) (\<lambda>identity.
     and_then (assemble_files nfc platform rest) (\<lambda>(identities, files).
       Inr ((case identity of None \<Rightarrow> [] | Some i \<Rightarrow> [(jf_file_id entry, i)]) @ identities,
            \<lparr>fe_id = jf_file_id entry, fe_safe_path = safe_path, fe_identity = identity, fe_length = jf_length entry,
             fe_global_start = jf_global_start entry, fe_global_end = jf_global_end entry,
             fe_selected = jf_selected entry\<rparr> # files))))"

definition assemble_layout ::
  "(string \<Rightarrow> string) \<Rightarrow> (string \<Rightarrow> string) \<Rightarrow> sha256 \<Rightarrow> task_id \<Rightarrow> pending_layout \<Rightarrow>
   (journal_state_error, recovered_layout) result" where
  "assemble_layout nfc to_lowercase sha task pending =
     and_then (map_err JE_RootBinding (root_identity_new (pl_root_identity pending))) (\<lambda>root_identity.
     and_then (assemble_files nfc (pp_platform (pl_root_display pending)) (pl_files pending)) (\<lambda>(identities, files).
     and_then (map_err JE_RootBinding (root_binding_new sha (pl_root_display pending) root_identity identities)) (\<lambda>rb.
     and_then (map_err JE_Layout (file_layout_new sha to_lowercase task (pl_generation pending) rb files
         (pl_total_length pending) (pl_piece_length pending))) (\<lambda>layout.
       if layout_hash_bytes (fl_layout_hash layout) \<noteq> journal_hash_bytes (pl_layout_hash pending)
         then Inl JE_LayoutHashMismatch
       else if rb_hash (fl_root_binding layout) \<noteq> journal_hash_bytes (pl_root_binding_hash pending)
         then Inl JE_RootBindingHashMismatch
       else Inr \<lparr>rcl_layout = layout, rcl_layout_hash = pl_layout_hash pending,
                 rcl_root_binding_hash = pl_root_binding_hash pending\<rparr>))))"

end
