(* ===== verification/JournalMachine.thy ===== *)
theory JournalMachine
  imports RecoveredState
begin

text \<open>
  The machine of semantic replay, \<^verbatim>\<open>SemanticMachine\<close> in \<^verbatim>\<open>src/crates/ariax-storage/src/journal_state.rs\<close> and
  \<^verbatim>\<open>journal_state/verification_state.rs\<close>: one function per handler, from the machine to the result and the machine
  at the moment of return, and \<open>machine_apply\<close>, which dispatches a payload. The policy on persisted options is a
  field of the machine as in the source; NFC, lower case and SHA-256 are arguments. Allocation is taken to succeed.
\<close>

section \<open>The machine\<close>

record pending_manifest =
  pm_fingerprint :: journal_hash
  pm_total :: nat
  pm_count :: u32
  pm_next :: u32
  pm_bytes :: "u8 list"

record pending_piece_state =
  pps_layout_hash :: journal_hash
  pps_root_binding_hash :: journal_hash
  pps_chunk_count :: u32
  pps_next_chunk :: u32
  pps_previous_covered_end :: u64

record lease_state =
  ls_span :: persisted_span
  ls_validator_fingerprint :: journal_hash

record verified_piece =
  vp_span :: persisted_span
  vp_contributors_hash :: journal_hash
  vp_validator_set_fingerprint :: journal_hash
  vp_digest :: journal_digest

record semantic_machine =
  sm_task :: task_id
  sm_option_policy :: "string \<Rightarrow> bool"
  sm_limits :: journal_state_limits
  sm_checkpoint_state :: bool
  sm_expected_checkpoint_generation :: "generation option"
  sm_checkpoint_rank :: nat
  sm_checkpoint_retry_key :: "(u8 \<times> u64) option"
  sm_state :: "recovered_journal_state option"
  sm_pending_manifest :: "pending_manifest option"
  sm_pending_layout :: "pending_layout option"
  sm_pending_piece_state :: "pending_piece_state option"
  sm_seen_piece_state :: bool
  sm_layout_record_generation :: "generation option"
  sm_active_leases :: "(lease_id, lease_state) btree"
  sm_committed_leases :: "(lease_id, lease_state) btree"
  sm_seen_leases :: "lease_id set"
  sm_piece_leases :: "(lease_id \<times> piece_id) set"
  sm_verified_pieces :: "(piece_id, verified_piece) btree"
  sm_network_started :: bool

type_synonym step = "(journal_state_error, unit) result \<times> semantic_machine"

definition machine_new ::
  "task_id \<Rightarrow> (string \<Rightarrow> bool) \<Rightarrow> journal_state_limits \<Rightarrow> bool \<Rightarrow> generation option \<Rightarrow> semantic_machine" where
  "machine_new task option_policy limits checkpoint_state expected_checkpoint_generation =
     \<lparr>sm_task = task, sm_option_policy = option_policy, sm_limits = limits, sm_checkpoint_state = checkpoint_state,
      sm_expected_checkpoint_generation = expected_checkpoint_generation, sm_checkpoint_rank = 0,
      sm_checkpoint_retry_key = None, sm_state = None, sm_pending_manifest = None, sm_pending_layout = None,
      sm_pending_piece_state = None, sm_seen_piece_state = False, sm_layout_record_generation = None,
      sm_active_leases = [], sm_committed_leases = [], sm_seen_leases = {}, sm_piece_leases = {},
      sm_verified_pieces = [], sm_network_started = False\<rparr>"

section \<open>Requirements\<close>

definition the_state :: "semantic_machine \<Rightarrow> (journal_state_error, recovered_journal_state) result" where
  "the_state m = ok_or JE_TaskCreatedMissing (sm_state m)"

definition set_state :: "semantic_machine \<Rightarrow> recovered_journal_state \<Rightarrow> step" where
  "set_state m state = (Inr (), m\<lparr>sm_state := Some state\<rparr>)"

definition require_current_generation :: "semantic_machine \<Rightarrow> journal_record \<Rightarrow> (journal_state_error, unit) result" where
  "require_current_generation m record =
     and_then (the_state m) (\<lambda>state.
       if jr_generation record \<noteq> js_generation state
         then Inl (JE_GenerationMismatch (js_generation state) (jr_generation record))
       else Inr ())"

definition require_ready_nonterminal :: "semantic_machine \<Rightarrow> journal_record \<Rightarrow> (journal_state_error, unit) result" where
  "require_ready_nonterminal m record =
     and_then (require_current_generation m record) (\<lambda>_.
     and_then (the_state m) (\<lambda>state.
       if js_current_options state = None then Inl JE_CurrentSnapshotMissing
       else if js_terminal state \<noteq> None then Inl JE_RecordAfterTerminal
       else Inr ()))"

definition require_layout :: "semantic_machine \<Rightarrow> (journal_state_error, recovered_layout) result" where
  "require_layout m = ok_or JE_LayoutMissing (Option.bind (sm_state m) js_layout)"

definition require_span_in_layout :: "semantic_machine \<Rightarrow> persisted_span \<Rightarrow> (journal_state_error, unit) result" where
  "require_span_in_layout m span =
     and_then (require_layout m) (\<lambda>layout.
     and_then (ok_or JE_SpanOutsideLayout (fl_total_length (rcl_layout layout))) (\<lambda>total_len.
       if (case checked_add (ps_offset span) (ps_len span) of None \<Rightarrow> True | Some e \<Rightarrow> e > total_len)
         then Inl JE_SpanOutsideLayout
       else Inr ()))"

definition machine_piece_span :: "semantic_machine \<Rightarrow> piece_id \<Rightarrow> (journal_state_error, persisted_span) result" where
  "machine_piece_span m piece_id =
     and_then (require_layout m) (\<lambda>layout. expected_piece_span (rcl_layout layout) piece_id)"

definition manifest_option :: "recovered_journal_state \<Rightarrow> string option" where
  "manifest_option state =
     Option.bind (js_current_options state) (\<lambda>snapshot.
       bt_get (som_entries (os_options snapshot)) ''verification-manifest'')"

definition require_manifest_ready :: "semantic_machine \<Rightarrow> (journal_state_error, unit) result" where
  "require_manifest_ready m =
     and_then (the_state m) (\<lambda>state.
       if sm_pending_manifest m \<noteq> None
          \<or> (case manifest_option state of
               None \<Rightarrow> False
             | Some expected \<Rightarrow>
                 (case js_verification_manifest state of
                    None \<Rightarrow> True
                  | Some manifest \<Rightarrow> expected \<noteq> hash_display (vm_fingerprint manifest)))
         then Inl JE_InvalidVerificationManifest
       else
         case js_verification_manifest state of
           None \<Rightarrow> Inr ()
         | Some manifest \<Rightarrow>
             and_then (require_layout m) (\<lambda>layout.
               if fl_total_length (rcl_layout layout) \<noteq> Some (vm_total_length manifest)
                  \<or> fl_piece_length (rcl_layout layout) \<noteq> vm_chunk_length manifest
                 then Inl JE_InvalidVerificationManifest
               else Inr ()))"

section \<open>Tasks, options and generations\<close>

fun checkpoint_rank :: "journal_payload \<Rightarrow> nat option" where
  "checkpoint_rank (JP_TaskCreated _ _) = Some 1"
| "checkpoint_rank (JP_OptionsSnapshot OS_CurrentGeneration _ _ _) = Some 2"
| "checkpoint_rank (JP_LayoutCommitted _ _ _ _ _ _ _ _ _) = Some 3"
| "checkpoint_rank (JP_LayoutChunk _ _ _ _ _) = Some 3"
| "checkpoint_rank (JP_HttpStrongValidator _ _ _ _) = Some 4"
| "checkpoint_rank (JP_HttpRangeIdentity _ _ _) = Some 4"
| "checkpoint_rank (JP_ProtocolValidator _) = Some 4"
| "checkpoint_rank (JP_VerificationManifest _ _ _ _) = Some 4"
| "checkpoint_rank (JP_VerificationManifestChunk _ _ _ _) = Some 4"
| "checkpoint_rank (JP_WholeFileVerified _ _) = Some 6"
| "checkpoint_rank (JP_RetryState _ _ _ _ _ _ _ _) = Some 5"
| "checkpoint_rank (JP_PieceStateChunk _ _ _ _ _ _ _ _) = Some 6"
| "checkpoint_rank (JP_TaskPaused _) = Some 7"
| "checkpoint_rank (JP_HostKeyState _) = Some 7"
| "checkpoint_rank (JP_FinalizeIntent _ _ _ _ _ _ _) = Some 8"
| "checkpoint_rank (JP_FinalizeDone _ _ _ _) = Some 8"
| "checkpoint_rank (JP_TaskComplete _ _ _ _) = Some 9"
| "checkpoint_rank (JP_MetadataComplete _ _) = Some 9"
| "checkpoint_rank (JP_TaskError _ _ _) = Some 9"
| "checkpoint_rank (JP_TaskRemoved _) = Some 9"
| "checkpoint_rank _ = None"

fun retry_key :: "journal_payload \<Rightarrow> (u8 \<times> u64) option" where
  "retry_key (JP_RetryState retry_scope scope_id _ _ _ _ _ _) =
     Some (tag_number retry_scope_tags retry_scope, persisted_id_get scope_id)"
| "retry_key _ = None"

definition validate_checkpoint_order :: "semantic_machine \<Rightarrow> journal_payload \<Rightarrow> step" where
  "validate_checkpoint_order m payload =
     (case checkpoint_rank payload of
        None \<Rightarrow> (Inl JE_CheckpointRecordForbidden, m)
      | Some rank \<Rightarrow>
          if (case (retry_key payload, sm_checkpoint_retry_key m) of
                (Some key, Some previous) \<Rightarrow> previous \<ge> key
              | _ \<Rightarrow> False)
            then (Inl JE_NonCanonicalCheckpointOrder, m)
          else
            let m1 = (case retry_key payload of None \<Rightarrow> m | Some key \<Rightarrow> m\<lparr>sm_checkpoint_retry_key := Some key\<rparr>) in
            if rank < sm_checkpoint_rank m1 \<or> (rank = 1 \<and> sm_checkpoint_rank m1 \<noteq> 0)
               \<or> (rank = 2 \<and> sm_checkpoint_rank m1 = 2)
              then (Inl JE_NonCanonicalCheckpointOrder, m1)
            else (Inr (), m1\<lparr>sm_checkpoint_rank := rank\<rparr>))"

definition apply_task_created :: "semantic_machine \<Rightarrow> journal_record \<Rightarrow> durability_mode \<Rightarrow> u16 \<Rightarrow> step" where
  "apply_task_created m record durability creator_version =
     (if sm_state m \<noteq> None then (Inl JE_DuplicateTaskCreated, m)
      else
        try_in m
          (case sm_expected_checkpoint_generation m of
             Some expected \<Rightarrow>
               if jr_generation record \<noteq> expected then Inl (JE_GenerationMismatch expected (jr_generation record))
               else Inr ()
           | None \<Rightarrow>
               if jr_generation record \<noteq> generation_initial then Inl JE_InvalidInitialGeneration else Inr ())
          (\<lambda>_. set_state m
             \<lparr>js_task = sm_task m, js_durability = durability, js_creator_version = creator_version,
              js_generation = jr_generation record, js_current_options = None, js_pending_options = None,
              js_layout = None, js_http_strong_validator = None, js_http_range_identity = None,
              js_verification_manifest = None, js_protocol_validators = [], js_whole_file_verified = False,
              js_committed_spans = [], js_durable_pieces = [], js_retry_states = [], js_paused = None,
              js_host_key_state = None, js_finalizations = [], js_terminal = None, js_checkpoint = None,
              js_rebind_source_root_binding_hash = None, js_clean_shutdown = None,
              js_last_sequence = jr_sequence record\<rparr>))"

definition apply_options ::
  "sha256 \<Rightarrow> semantic_machine \<Rightarrow> journal_record \<Rightarrow> options_snapshot_scope \<Rightarrow> option_patch_id option \<Rightarrow> journal_hash \<Rightarrow>
   sanitized_option_map \<Rightarrow> step" where
  "apply_options sha m record snapshot_scope patch_id snapshot_hash options =
     try_in m (require_current_generation m record) (\<lambda>_.
       if options_snapshot_hash sha options \<noteq> snapshot_hash then (Inl JE_SnapshotHashMismatch, m)
       else
         case find (\<lambda>(name, _). \<not> sm_option_policy m name) (som_entries options) of
           Some (name, _) \<Rightarrow> (Inl (JE_ForbiddenPersistedOption name), m)
         | None \<Rightarrow>
             let snapshot = \<lparr>os_patch_id = patch_id, os_snapshot_hash = snapshot_hash, os_options = options\<rparr> in
             try_in m (the_state m) (\<lambda>state.
               case snapshot_scope of
                 OS_CurrentGeneration \<Rightarrow>
                   if js_current_options state \<noteq> None then (Inl JE_DuplicateCurrentSnapshot, m)
                   else if \<not> sm_checkpoint_state m \<and> js_generation state \<noteq> generation_initial
                     then (Inl JE_DuplicateCurrentSnapshot, m)
                   else set_state m (state\<lparr>js_current_options := Some snapshot\<rparr>)
               | OS_NextAdmission \<Rightarrow>
                   if sm_checkpoint_state m then (Inl JE_CheckpointRecordForbidden, m)
                   else if js_current_options state = None then (Inl JE_CurrentSnapshotMissing, m)
                   else if (case js_pending_options state of
                              None \<Rightarrow> False
                            | Some previous \<Rightarrow> patch_id = None \<or> patch_id = os_patch_id previous)
                     then (Inl JE_InvalidStagedSnapshotReplacement, m)
                   else set_state m (state\<lparr>js_pending_options := Some snapshot\<rparr>)))"

text \<open>What a new generation keeps of the state of the one before it.\<close>

definition next_generation_state ::
  "recovered_journal_state \<Rightarrow> generation \<Rightarrow> generation_start_reason \<Rightarrow> recovered_option_snapshot \<Rightarrow>
   recovered_journal_state" where
  "next_generation_state state generation reason pending =
     (let retain_range_retries =
            (reason = GR_RetryReadmission \<or> reason = GR_RecoveryRepair)
            \<and> (case js_current_options state of None \<Rightarrow> False | Some current \<Rightarrow> os_options current = os_options pending);
          s1 = state\<lparr>js_pending_options := None, js_generation := generation, js_current_options := Some pending,
                 js_retry_states :=
                   (if retain_range_retries
                      then filter (\<lambda>(_, retry). rr_scope retry = RSc_Piece \<or> rr_scope retry = RSc_Span)
                             (js_retry_states state)
                    else []),
                 js_paused := None, js_host_key_state := None, js_http_strong_validator := None,
                 js_http_range_identity := None, js_protocol_validators := [], js_committed_spans := [],
                 js_whole_file_verified := False\<rparr>;
          s2 = (if (case js_verification_manifest s1 of
                      None \<Rightarrow> False
                    | Some manifest \<Rightarrow> manifest_option s1 \<noteq> Some (hash_display (vm_fingerprint manifest)))
                  then s1\<lparr>js_verification_manifest := None, js_durable_pieces := []\<rparr>
                else s1);
          s3 = (if reason = GR_RepresentationRestart then s2\<lparr>js_durable_pieces := [], js_finalizations := []\<rparr> else s2)
      in s3\<lparr>js_rebind_source_root_binding_hash := None, js_clean_shutdown := None\<rparr>)"

definition apply_generation_started ::
  "semantic_machine \<Rightarrow> journal_record \<Rightarrow> generation \<Rightarrow> generation_start_reason \<Rightarrow> journal_hash \<Rightarrow>
   option_patch_id option \<Rightarrow> step" where
  "apply_generation_started m record previous_generation reason next_snapshot_hash patch_id =
     (if sm_checkpoint_state m then (Inl JE_CheckpointRecordForbidden, m)
      else if sm_active_leases m \<noteq> [] then (Inl JE_GenerationNotDrained, m)
      else
        try_in m (the_state m) (\<lambda>state.
          if previous_generation \<noteq> js_generation state
             \<or> generation_checked_next (js_generation state) \<noteq> Some (jr_generation record)
            then (Inl JE_GenerationAdvanceMismatch, m)
          else if (reason = GR_OptionPatch) \<noteq> (patch_id \<noteq> None) then (Inl JE_PatchReasonMismatch, m)
          else
            try_in m (ok_or JE_StagedSnapshotMissing (js_pending_options state)) (\<lambda>pending.
              if os_snapshot_hash pending \<noteq> next_snapshot_hash \<or> os_patch_id pending \<noteq> patch_id
                then (Inl JE_StagedSnapshotMismatch, m)
              else
                (Inr (), m\<lparr>sm_state := Some (next_generation_state state (jr_generation record) reason pending),
                           sm_committed_leases := [], sm_seen_leases := {}, sm_piece_leases := {},
                           sm_verified_pieces := [], sm_network_started := False,
                           sm_layout_record_generation := None\<rparr>))))"

section \<open>Layouts\<close>

definition install_layout ::
  "semantic_machine \<Rightarrow> recovered_layout \<Rightarrow> recovered_layout option \<Rightarrow> (piece_id, recovered_durable_piece) btree \<Rightarrow> step" where
  "install_layout m layout previous_layout previous_durable_pieces =
     (let retain_durable = (case previous_layout of
                              None \<Rightarrow> False
                            | Some previous \<Rightarrow> has_same_identity_evidence previous layout);
          rebind_source = (if retain_durable then None else map_option rcl_root_binding_hash previous_layout) in
      try_in m (the_state m) (\<lambda>state.
        (Inr (), m\<lparr>sm_state := Some (state
             \<lparr>js_durable_pieces := (if retain_durable then previous_durable_pieces else []),
              js_finalizations := [], js_http_strong_validator := None, js_http_range_identity := None,
              js_rebind_source_root_binding_hash := rebind_source, js_layout := Some layout\<rparr>),
           sm_layout_record_generation := Some (js_generation state)\<rparr>)))"

definition apply_layout_committed ::
  "(string \<Rightarrow> string) \<Rightarrow> (string \<Rightarrow> string) \<Rightarrow> sha256 \<Rightarrow> semantic_machine \<Rightarrow> journal_record \<Rightarrow> pending_layout \<Rightarrow> step" where
  "apply_layout_committed nfc to_lowercase sha m record pending =
     try_in m (require_ready_nonterminal m record) (\<lambda>_.
       if sm_active_leases m \<noteq> [] \<or> sm_network_started m then (Inl JE_GenerationNotDrained, m)
       else if sm_layout_record_generation m = Some (jr_generation record) then (Inl JE_DuplicateLayout, m)
       else if pl_chunk_count pending = 1 then
         try_in m (assemble_layout nfc to_lowercase sha (sm_task m) pending) (\<lambda>layout.
         try_in m (the_state m) (\<lambda>state.
           install_layout (m\<lparr>sm_state := Some (state\<lparr>js_layout := None, js_durable_pieces := []\<rparr>)\<rparr>)
             layout (js_layout state) (js_durable_pieces state)))
       else
         try_in m (the_state m) (\<lambda>state.
           (Inr (), m\<lparr>sm_state := Some (state\<lparr>js_layout := None, js_durable_pieces := [], js_finalizations := []\<rparr>),
              sm_pending_layout := Some (pending\<lparr>pl_previous_layout := js_layout state,
                pl_previous_durable_pieces := js_durable_pieces state\<rparr>)\<rparr>)))"

definition finish_layout ::
  "(string \<Rightarrow> string) \<Rightarrow> (string \<Rightarrow> string) \<Rightarrow> sha256 \<Rightarrow> semantic_machine \<Rightarrow> pending_layout \<Rightarrow> step" where
  "finish_layout nfc to_lowercase sha m pending =
     (if length (pl_files pending) \<noteq> pl_total_file_count pending then (Inl JE_LayoutCountMismatch, m)
      else
        try_in m (assemble_layout nfc to_lowercase sha (sm_task m) pending) (\<lambda>layout.
          install_layout m layout (pl_previous_layout pending) (pl_previous_durable_pieces pending)))"

definition apply_layout_chunk ::
  "(string \<Rightarrow> string) \<Rightarrow> (string \<Rightarrow> string) \<Rightarrow> sha256 \<Rightarrow> semantic_machine \<Rightarrow> journal_record \<Rightarrow> journal_hash \<Rightarrow>
   journal_hash \<Rightarrow> u32 \<Rightarrow> u32 \<Rightarrow> journal_file_layout_entry list \<Rightarrow> step" where
  "apply_layout_chunk nfc to_lowercase sha m record layout_hash binding_hash chunk_index chunk_count files =
     try_in m (require_current_generation m record) (\<lambda>_.
     try_in m (ok_or JE_UnexpectedLayoutChunk (sm_pending_layout m)) (\<lambda>pending.
       let m1 = m\<lparr>sm_pending_layout := None\<rparr> in
       if pl_generation pending \<noteq> jr_generation record \<or> pl_layout_hash pending \<noteq> layout_hash
          \<or> pl_root_binding_hash pending \<noteq> binding_hash \<or> pl_chunk_count pending \<noteq> chunk_count
          \<or> pl_next_chunk pending \<noteq> chunk_index
         then (Inl JE_LayoutChunkMismatch, m1)
       else if (let n = length (pl_files pending) + length files in
                n > usize_max \<or> n > pl_total_file_count pending \<or> n > MAX_LAYOUT_ENTRIES)
         then (Inl JE_LayoutCountMismatch, m1)
       else if pl_files pending = [] \<or> files = []
               \<or> checked_add (file_id_get (jf_file_id (last (pl_files pending)))) 1
                   \<noteq> Some (file_id_get (jf_file_id (hd files)))
               \<or> jf_global_end (last (pl_files pending)) \<noteq> jf_global_start (hd files)
         then (Inl JE_LayoutChunkMismatch, m1)
       else
         let pending' = pending\<lparr>pl_files := pl_files pending @ files, pl_next_chunk := pl_next_chunk pending + 1\<rparr> in
         if pl_next_chunk pending' = pl_chunk_count pending' then
           if length (pl_files pending') \<noteq> pl_total_file_count pending' then (Inl JE_LayoutCountMismatch, m1)
           else finish_layout nfc to_lowercase sha m1 pending'
         else (Inr (), m1\<lparr>sm_pending_layout := Some pending'\<rparr>)))"


section \<open>Validators of a representation\<close>

definition layout_total_length :: "recovered_journal_state \<Rightarrow> u64 option" where
  "layout_total_length state = Option.bind (js_layout state) (\<lambda>layout. fl_total_length (rcl_layout layout))"

definition apply_http_strong_validator :: "semantic_machine \<Rightarrow> journal_record \<Rightarrow> recovered_http_strong_validator \<Rightarrow> step" where
  "apply_http_strong_validator m record validator =
     try_in m (require_ready_nonterminal m record) (\<lambda>_.
       if sm_network_started m then (Inl JE_InvalidHttpStrongValidator, m)
       else
         try_in m (the_state m) (\<lambda>state.
         try_in m (ok_or JE_InvalidHttpStrongValidator (layout_total_length state)) (\<lambda>total_length.
           if js_http_strong_validator state \<noteq> None \<or> js_http_range_identity state \<noteq> None
              \<or> total_length \<noteq> hv_total_length validator
             then (Inl JE_InvalidHttpStrongValidator, m)
           else set_state m (state\<lparr>js_http_strong_validator := Some validator\<rparr>))))"

definition apply_http_range_identity ::
  "sha256 \<Rightarrow> semantic_machine \<Rightarrow> journal_record \<Rightarrow> recovered_http_range_identity \<Rightarrow> step" where
  "apply_http_range_identity sha m record identity =
     try_in m (require_ready_nonterminal m record) (\<lambda>_.
       if sm_network_started m then (Inl JE_InvalidHttpRangeIdentity, m)
       else
         try_in m (the_state m) (\<lambda>state.
         try_in m (ok_or JE_InvalidHttpRangeIdentity (layout_total_length state)) (\<lambda>total_length.
           if js_http_range_identity state \<noteq> None \<or> js_http_strong_validator state \<noteq> None
              \<or> total_length \<noteq> hr_total_length identity
             then (Inl JE_InvalidHttpRangeIdentity, m)
           else
             try_in m (map_err (\<lambda>_. JE_InvalidHttpRangeIdentity)
                 (http_range_identity_fingerprint sha (hr_representation_digest identity) (hr_total_length identity)))
               (\<lambda>calculated.
                  if calculated \<noteq> hr_identity_fingerprint identity then (Inl JE_InvalidHttpRangeIdentity, m)
                  else set_state m (state\<lparr>js_http_range_identity := Some identity\<rparr>)))))"

definition apply_protocol_validator :: "semantic_machine \<Rightarrow> journal_record \<Rightarrow> protocol_validator \<Rightarrow> step" where
  "apply_protocol_validator m record validator =
     try_in m (require_ready_nonterminal m record) (\<lambda>_.
     try_in m (the_state m) (\<lambda>state.
       if \<not> protocol_validator_validate validator
          \<or> layout_total_length state \<noteq> Some (pv_total_length validator)
          \<or> (case bt_get (js_protocol_validators state) (pv_source validator) of
               None \<Rightarrow> False | Some old \<Rightarrow> old \<noteq> validator)
          \<or> (length (js_protocol_validators state) \<ge> 1024
             \<and> bt_get (js_protocol_validators state) (pv_source validator) = None)
         then (Inl JE_InvalidProtocolValidator, m)
       else set_state m (state\<lparr>js_protocol_validators :=
              bt_insert (pv_source validator) validator (js_protocol_validators state)\<rparr>)))"

section \<open>Verification manifests\<close>

definition finish_manifest :: "sha256 \<Rightarrow> semantic_machine \<Rightarrow> step" where
  "finish_manifest sha m =
     try_in m (ok_or JE_InvalidVerificationManifest (sm_pending_manifest m)) (\<lambda>pending.
       if pm_next pending \<noteq> pm_count pending then (Inr (), m)
       else if length (pm_bytes pending) \<noteq> pm_total pending
               \<or> manifest_hash_bytes sha (pm_bytes pending) \<noteq> pm_fingerprint pending
         then (Inl JE_InvalidVerificationManifest, m)
       else
         try_in m (map_err (\<lambda>_. JE_InvalidVerificationManifest) (manifest_decode sha (pm_bytes pending))) (\<lambda>manifest.
           if length (vm_chunks manifest) > jl_max_durable_pieces (sm_limits m)
             then (Inl (JE_ResourceLimit JR_DurablePieces), m)
           else
             try_in m (the_state m) (\<lambda>state.
               if (case manifest_option state of
                     None \<Rightarrow> False | Some expected \<Rightarrow> expected \<noteq> hash_display (vm_fingerprint manifest))
                 then (Inl JE_InvalidVerificationManifest, m)
               else if (case js_layout state of
                          None \<Rightarrow> False
                        | Some layout \<Rightarrow>
                            fl_total_length (rcl_layout layout) \<noteq> Some (vm_total_length manifest)
                            \<or> fl_piece_length (rcl_layout layout) \<noteq> vm_chunk_length manifest)
                 then (Inl JE_InvalidVerificationManifest, m)
               else (Inr (), m\<lparr>sm_state := Some (state\<lparr>js_verification_manifest := Some manifest\<rparr>),
                              sm_pending_manifest := None\<rparr>))))"

definition apply_manifest ::
  "sha256 \<Rightarrow> semantic_machine \<Rightarrow> journal_record \<Rightarrow> journal_hash \<Rightarrow> u32 \<Rightarrow> u32 \<Rightarrow> u8 list \<Rightarrow> step" where
  "apply_manifest sha m record fingerprint total_bytes count bytes =
     try_in m (require_current_generation m record) (\<lambda>_.
       if sm_network_started m
          \<or> (case sm_state m of None \<Rightarrow> True | Some state \<Rightarrow> js_verification_manifest state \<noteq> None)
         then (Inl JE_InvalidVerificationManifest, m)
       else if unat total_bytes > MAX_VERIFICATION_MANIFEST_BYTES \<or> unat total_bytes < length bytes
               \<or> unat count \<noteq> div_ceil (unat total_bytes) VERIFICATION_MANIFEST_PART_BYTES
         then (Inl JE_InvalidVerificationManifest, m)
       else
         finish_manifest sha (m\<lparr>sm_pending_manifest := Some
           \<lparr>pm_fingerprint = fingerprint, pm_total = unat total_bytes, pm_count = count, pm_next = 1,
            pm_bytes = bytes\<rparr>\<rparr>))"

definition apply_manifest_chunk ::
  "sha256 \<Rightarrow> semantic_machine \<Rightarrow> journal_record \<Rightarrow> journal_hash \<Rightarrow> u32 \<Rightarrow> u32 \<Rightarrow> u8 list \<Rightarrow> step" where
  "apply_manifest_chunk sha m record fingerprint index count bytes =
     try_in m (require_current_generation m record) (\<lambda>_.
     try_in m (ok_or JE_InvalidVerificationManifest (sm_pending_manifest m)) (\<lambda>pending.
       if pm_fingerprint pending \<noteq> fingerprint \<or> pm_next pending \<noteq> index \<or> pm_count pending \<noteq> count
          \<or> length bytes \<noteq> min (pm_total pending - length (pm_bytes pending)) VERIFICATION_MANIFEST_PART_BYTES
         then (Inl JE_InvalidVerificationManifest, m)
       else
         finish_manifest sha (m\<lparr>sm_pending_manifest := Some (pending
           \<lparr>pm_bytes := pm_bytes pending @ bytes, pm_next := pm_next pending + 1\<rparr>)\<rparr>)))"

definition apply_whole_verified ::
  "semantic_machine \<Rightarrow> journal_record \<Rightarrow> journal_hash \<Rightarrow> journal_digest list \<Rightarrow> step" where
  "apply_whole_verified m record fingerprint digests =
     try_in m (require_ready_nonterminal m record) (\<lambda>_.
     try_in m (require_manifest_ready m) (\<lambda>_.
     try_in m (the_state m) (\<lambda>state.
     try_in m (ok_or JE_InvalidVerificationManifest (js_verification_manifest state)) (\<lambda>manifest.
       if fingerprint \<noteq> vm_fingerprint manifest \<or> digests \<noteq> vm_whole manifest
          \<or> length (js_durable_pieces state)
              \<noteq> div_ceil (unat (vm_total_length manifest)) (unat (vm_chunk_length manifest))
          \<or> sm_active_leases m \<noteq> []
         then (Inl JE_VerificationMismatch, m)
       else set_state m (state\<lparr>js_whole_file_verified := True\<rparr>)))))"

section \<open>Leases\<close>

definition apply_lease_started ::
  "semantic_machine \<Rightarrow> journal_record \<Rightarrow> lease_id \<Rightarrow> persisted_span \<Rightarrow> journal_hash \<Rightarrow> step" where
  "apply_lease_started m record lease_id span validator_fingerprint =
     try_in m (require_ready_nonterminal m record) (\<lambda>_.
     try_in m (require_manifest_ready m) (\<lambda>_.
     try_in m (require_span_in_layout m span) (\<lambda>_.
       if (case Option.bind (sm_state m) js_http_strong_validator of
             None \<Rightarrow> False | Some validator \<Rightarrow> hv_validator_fingerprint validator \<noteq> validator_fingerprint)
         then (Inl JE_InvalidHttpStrongValidator, m)
       else if (case Option.bind (sm_state m) js_http_range_identity of
                  None \<Rightarrow> False | Some identity \<Rightarrow> hr_identity_fingerprint identity \<noteq> validator_fingerprint)
         then (Inl JE_InvalidHttpRangeIdentity, m)
       else if lease_id \<in> sm_seen_leases m then (Inl JE_DuplicateLease, m)
       else if card (sm_seen_leases m) \<ge> jl_max_leases (sm_limits m) then (Inl (JE_ResourceLimit JR_Leases), m)
       else
         (Inr (), m\<lparr>sm_seen_leases := insert lease_id (sm_seen_leases m),
            sm_active_leases := bt_insert lease_id
              \<lparr>ls_span = span, ls_validator_fingerprint = validator_fingerprint\<rparr> (sm_active_leases m),
            sm_network_started := True\<rparr>))))"

definition apply_piece_started ::
  "semantic_machine \<Rightarrow> journal_record \<Rightarrow> lease_id \<Rightarrow> piece_id \<Rightarrow> persisted_span \<Rightarrow> step" where
  "apply_piece_started m record lease_id piece_id piece_span =
     try_in m (require_ready_nonterminal m record) (\<lambda>_.
     try_in m (machine_piece_span m piece_id) (\<lambda>expected.
       if expected \<noteq> piece_span then (Inl JE_PieceSpanMismatch, m)
       else
         try_in m (ok_or JE_UnknownLease (bt_get (sm_active_leases m) lease_id)) (\<lambda>lease.
           if \<not> spans_intersect (ls_span lease) piece_span \<or> (lease_id, piece_id) \<in> sm_piece_leases m
             then (Inl JE_PieceLeaseMismatch, m)
           else (Inr (), m\<lparr>sm_piece_leases := insert (lease_id, piece_id) (sm_piece_leases m)\<rparr>))))"

definition apply_piece_written ::
  "semantic_machine \<Rightarrow> journal_record \<Rightarrow> lease_id \<Rightarrow> piece_id \<Rightarrow> persisted_span \<Rightarrow> step" where
  "apply_piece_written m record lease_id piece_id written_span =
     try_in m (require_ready_nonterminal m record) (\<lambda>_.
     try_in m (ok_or JE_UnknownLease (bt_get (sm_active_leases m) lease_id)) (\<lambda>lease.
     try_in m (machine_piece_span m piece_id) (\<lambda>piece_span.
       if (lease_id, piece_id) \<notin> sm_piece_leases m \<or> \<not> span_contains (ls_span lease) written_span
          \<or> \<not> span_contains piece_span written_span
         then (Inl JE_PieceLeaseMismatch, m)
       else (Inr (), m))))"

definition apply_lease_committed ::
  "semantic_machine \<Rightarrow> journal_record \<Rightarrow> lease_id \<Rightarrow> persisted_span \<Rightarrow> journal_hash \<Rightarrow> step" where
  "apply_lease_committed m record lease_id span validator_fingerprint =
     try_in m (require_ready_nonterminal m record) (\<lambda>_.
     try_in m (ok_or JE_UnknownLease (bt_get (sm_active_leases m) lease_id)) (\<lambda>lease.
       let m1 = m\<lparr>sm_active_leases := bt_remove lease_id (sm_active_leases m)\<rparr> in
       if ls_span lease \<noteq> span \<or> ls_validator_fingerprint lease \<noteq> validator_fingerprint
         then (Inl JE_LeaseMismatch, m1)
       else
         let m2 = m1\<lparr>sm_committed_leases := bt_insert lease_id lease (sm_committed_leases m1)\<rparr> in
         try_in m2 (the_state m2) (\<lambda>state.
           set_state m2 (state\<lparr>js_committed_spans := bt_insert lease_id
             \<lparr>jc_lease_id = lease_id, jc_span = span, jc_validator_fingerprint = validator_fingerprint\<rparr>
             (js_committed_spans state)\<rparr>))))"

definition apply_lease_aborted :: "semantic_machine \<Rightarrow> journal_record \<Rightarrow> lease_id \<Rightarrow> step" where
  "apply_lease_aborted m record lease_id =
     try_in m (require_ready_nonterminal m record) (\<lambda>_.
       if bt_get (sm_active_leases m) lease_id = None then (Inl JE_UnknownLease, m)
       else (Inr (), m\<lparr>sm_active_leases := bt_remove lease_id (sm_active_leases m),
                       sm_piece_leases := {(lease, piece) \<in> sm_piece_leases m. lease \<noteq> lease_id}\<rparr>))"

section \<open>Pieces\<close>

fun spans_tile :: "u64 \<Rightarrow> (u64 \<times> u64) list \<Rightarrow> u64 option" where
  "spans_tile next_offset [] = Some next_offset"
| "spans_tile next_offset ((start, stop) # rest) =
     (if start \<noteq> next_offset \<or> stop \<le> start then None else spans_tile stop rest)"

definition lease_contributor :: "lease_id \<times> lease_state \<Rightarrow> journal_contributor" where
  "lease_contributor =
     (\<lambda>(lease_id, lease). \<lparr>jc_lease_id = lease_id, jc_span = ls_span lease,
        jc_validator_fingerprint = ls_validator_fingerprint lease\<rparr>)"

definition clip_span :: "persisted_span \<Rightarrow> persisted_span \<Rightarrow> u64 \<times> u64" where
  "clip_span piece_span span =
     (max (ps_offset span) (ps_offset piece_span),
      min (ps_offset span + ps_len span) (ps_offset piece_span + ps_len piece_span))"

definition contributors_for_piece ::
  "semantic_machine \<Rightarrow> piece_id \<Rightarrow> persisted_span \<Rightarrow> (journal_state_error, journal_contributor list) result" where
  "contributors_for_piece m piece_id piece_span =
     (let contributors = map lease_contributor
            (filter (\<lambda>(lease_id, lease). (lease_id, piece_id) \<in> sm_piece_leases m
                       \<and> spans_intersect (ls_span lease) piece_span) (sm_committed_leases m)) in
      if contributors = [] then Inl JE_VerificationMismatch
      else
        case spans_tile (ps_offset piece_span) (sort (map (clip_span piece_span \<circ> jc_span) contributors)) of
          None \<Rightarrow> Inl JE_VerificationMismatch
        | Some next_offset \<Rightarrow>
            if next_offset \<noteq> ps_offset piece_span + ps_len piece_span then Inl JE_VerificationMismatch
            else Inr contributors)"

definition apply_piece_verified ::
  "sha256 \<Rightarrow> semantic_machine \<Rightarrow> journal_record \<Rightarrow> piece_id \<Rightarrow> persisted_span \<Rightarrow> journal_hash \<Rightarrow> journal_digest \<Rightarrow> step" where
  "apply_piece_verified sha m record piece_id piece_span contributors_hash digest =
     try_in m (require_ready_nonterminal m record) (\<lambda>_.
     try_in m (machine_piece_span m piece_id) (\<lambda>expected.
       if expected \<noteq> piece_span then (Inl JE_VerificationMismatch, m)
       else
         try_in m (require_manifest_ready m) (\<lambda>_.
           if (case Option.bind (sm_state m) js_verification_manifest of
                 None \<Rightarrow> False
               | Some manifest \<Rightarrow>
                   vm_chunks manifest \<noteq> []
                   \<and> (let i = unat (piece_id_get piece_id) in
                      \<not> (i < length (vm_chunks manifest) \<and> vm_chunks manifest ! i = digest)))
             then (Inl JE_VerificationMismatch, m)
           else
             try_in m (contributors_for_piece m piece_id piece_span) (\<lambda>contributors.
             try_in m (calculate_contributors_hash sha contributors) (\<lambda>calculated.
               if calculated \<noteq> contributors_hash then (Inl JE_VerificationMismatch, m)
               else
                 try_in m (calculate_validator_set_fingerprint sha contributors) (\<lambda>validator_set_fingerprint.
                   (Inr (), m\<lparr>sm_verified_pieces := bt_insert piece_id
                      \<lparr>vp_span = piece_span, vp_contributors_hash = contributors_hash,
                       vp_validator_set_fingerprint = validator_set_fingerprint, vp_digest = digest\<rparr>
                      (sm_verified_pieces m)\<rparr>)))))))"

definition apply_piece_failed ::
  "semantic_machine \<Rightarrow> journal_record \<Rightarrow> lease_id option \<Rightarrow> piece_id \<Rightarrow> persisted_span \<Rightarrow> step" where
  "apply_piece_failed m record lease_id piece_id piece_span =
     try_in m (require_ready_nonterminal m record) (\<lambda>_.
     try_in m (machine_piece_span m piece_id) (\<lambda>expected.
       if expected \<noteq> piece_span
          \<or> (case lease_id of None \<Rightarrow> False | Some lease \<Rightarrow> lease \<notin> sm_seen_leases m)
         then (Inl JE_VerificationMismatch, m)
       else
         (Inr (), m\<lparr>sm_verified_pieces := bt_remove piece_id (sm_verified_pieces m),
            sm_piece_leases := {(lease, piece) \<in> sm_piece_leases m. piece \<noteq> piece_id},
            sm_state := map_option (\<lambda>state. state
              \<lparr>js_durable_pieces := bt_remove piece_id (js_durable_pieces state),
               js_committed_spans := filter (\<lambda>(_, contributor). \<not> spans_intersect (jc_span contributor) piece_span)
                                       (js_committed_spans state),
               js_whole_file_verified := False\<rparr>) (sm_state m)\<rparr>)))"

fun mode_barrier :: "durability_mode \<Rightarrow> data_barrier_kind" where
  "mode_barrier DM_Balanced = DB_BalancedGroup"
| "mode_barrier DM_Strict = DB_StrictPiece"
| "mode_barrier DM_Fast = DB_FastFinalization"

text \<open>The match on the barrier: what each kind asks of the record and the machine.\<close>

definition check_barrier ::
  "sha256 \<Rightarrow> semantic_machine \<Rightarrow> journal_hash \<Rightarrow> journal_hash \<Rightarrow> journal_digest option \<Rightarrow> data_barrier_kind \<Rightarrow>
   (journal_state_error, unit) result" where
  "check_barrier sha m contributors_hash validator_set_fingerprint digest data_barrier =
     and_then (the_state m) (\<lambda>state.
       if data_barrier = DB_RecoveryReadback then
         case (digest, js_rebind_source_root_binding_hash state) of
           (Some digest_value, Some previous_root_binding_hash) \<Rightarrow>
             and_then (ok_or JE_LayoutMissing (js_layout state)) (\<lambda>layout.
               if sm_network_started m then Inl JE_DurabilityBarrierMismatch
               else
                 and_then (calculate_contributors_hash sha []) (\<lambda>empty_hash.
                   if contributors_hash \<noteq> empty_hash
                      \<or> validator_set_fingerprint \<noteq> calculate_rebind_validator_set_fingerprint sha
                          previous_root_binding_hash (rcl_root_binding_hash layout) digest_value
                     then Inl JE_DurabilityBarrierMismatch
                   else Inr ()))
         | _ \<Rightarrow> Inl JE_DurabilityBarrierMismatch
       else if data_barrier = mode_barrier (js_durability state) then Inr ()
       else Inl JE_DurabilityBarrierMismatch)"

definition check_verified ::
  "semantic_machine \<Rightarrow> piece_id \<Rightarrow> persisted_span \<Rightarrow> journal_hash \<Rightarrow> journal_hash \<Rightarrow> journal_digest option \<Rightarrow>
   (journal_state_error, unit) result" where
  "check_verified m piece_id piece_span contributors_hash validator_set_fingerprint digest =
     and_then (ok_or JE_VerificationMismatch (bt_get (sm_verified_pieces m) piece_id)) (\<lambda>verified.
       if vp_span verified \<noteq> piece_span \<or> vp_contributors_hash verified \<noteq> contributors_hash
          \<or> vp_validator_set_fingerprint verified \<noteq> validator_set_fingerprint
          \<or> (case digest of None \<Rightarrow> False | Some v \<Rightarrow> v \<noteq> vp_digest verified)
         then Inl JE_VerificationMismatch
       else Inr ())"

definition apply_piece_durable ::
  "sha256 \<Rightarrow> semantic_machine \<Rightarrow> journal_record \<Rightarrow> piece_id \<Rightarrow> persisted_span \<Rightarrow> journal_hash \<Rightarrow> journal_hash \<Rightarrow>
   journal_digest option \<Rightarrow> data_barrier_kind \<Rightarrow> step" where
  "apply_piece_durable sha m record piece_id piece_span contributors_hash validator_set_fingerprint digest data_barrier =
     try_in m (require_ready_nonterminal m record) (\<lambda>_.
     try_in m (machine_piece_span m piece_id) (\<lambda>expected.
       if expected \<noteq> piece_span then (Inl JE_PieceSpanMismatch, m)
       else
         try_in m (check_barrier sha m contributors_hash validator_set_fingerprint digest data_barrier) (\<lambda>_.
         try_in m
           (if data_barrier \<noteq> DB_RecoveryReadback
              then check_verified m piece_id piece_span contributors_hash validator_set_fingerprint digest
            else Inr ()) (\<lambda>_.
         try_in m (the_state m) (\<lambda>state.
           if bt_get (js_durable_pieces state) piece_id \<noteq> None then (Inl JE_DuplicateDurablePiece, m)
           else if length (js_durable_pieces state) \<ge> jl_max_durable_pieces (sm_limits m)
             then (Inl (JE_ResourceLimit JR_DurablePieces), m)
           else
             set_state m (state\<lparr>js_durable_pieces := bt_insert piece_id
               \<lparr>dp_piece_id = piece_id, dp_piece_span = piece_span,
                dp_validator_set_fingerprint = validator_set_fingerprint, dp_digest = digest,
                dp_origin = DO_Live contributors_hash data_barrier\<rparr> (js_durable_pieces state)\<rparr>))))))"

section \<open>Retries, pauses and host keys\<close>

definition apply_retry :: "semantic_machine \<Rightarrow> journal_record \<Rightarrow> recovered_retry_state \<Rightarrow> step" where
  "apply_retry m record retry =
     try_in m (require_ready_nonterminal m record) (\<lambda>_.
       let key = (tag_number retry_scope_tags (rr_scope retry), persisted_id_get (rr_scope_id retry)) in
       try_in m (the_state m) (\<lambda>state.
         if bt_get (js_retry_states state) key = None
            \<and> length (js_retry_states state) \<ge> jl_max_retry_states (sm_limits m)
           then (Inl (JE_ResourceLimit JR_RetryStates), m)
         else set_state m (state\<lparr>js_retry_states := bt_insert key retry (js_retry_states state)\<rparr>)))"

definition SESSION_HOST_KEY_PIN_OPTION :: string where
  "SESSION_HOST_KEY_PIN_OPTION = ''sftp-host-key-sha256''"

definition session_host_key_pin_value :: "host_key_fingerprint \<Rightarrow> string" where
  "session_host_key_pin_value fingerprint =
     concat (map (\<lambda>b. [hex_char (unat b div 16), hex_char (unat b mod 16)]) (host_key_fingerprint_bytes fingerprint))"

definition pin_host_key ::
  "sha256 \<Rightarrow> recovered_option_snapshot \<Rightarrow> journal_host_key_state \<Rightarrow>
   (journal_state_error, recovered_option_snapshot) result" where
  "pin_host_key sha current trust =
     and_then (map_err JE_Payload (sanitized_option_map_new
         (filter (\<lambda>(name, _). name \<noteq> SESSION_HOST_KEY_PIN_OPTION) (som_entries (os_options current))
          @ [(SESSION_HOST_KEY_PIN_OPTION,
              session_host_key_pin_value (hk_fingerprint_sha256 (ph_summary (hks_challenge trust))))]))) (\<lambda>options.
       Inr (current\<lparr>os_options := options, os_snapshot_hash := options_snapshot_hash sha options\<rparr>))"

definition apply_host_key_state ::
  "sha256 \<Rightarrow> semantic_machine \<Rightarrow> journal_record \<Rightarrow> journal_host_key_state \<Rightarrow> step" where
  "apply_host_key_state sha m record trust =
     try_in m (require_ready_nonterminal m record) (\<lambda>_.
       if sm_active_leases m \<noteq> [] then (Inl JE_GenerationNotDrained, m)
       else
         try_in m (the_state m) (\<lambda>state.
           if (if sm_checkpoint_state m then js_host_key_state state \<noteq> None
               else
                 case hks_decision trust of
                   HKD_Pending \<Rightarrow> js_host_key_state state \<noteq> None
                 | _ \<Rightarrow>
                     js_paused state \<noteq> Some TP_HostKeyApproval
                     \<or> (case js_host_key_state state of
                          None \<Rightarrow> True
                        | Some previous \<Rightarrow>
                            hks_decision previous \<noteq> HKD_Pending \<or> hks_challenge previous \<noteq> hks_challenge trust))
             then (Inl JE_InvalidHostKeyState, m)
           else
             case hks_decision trust of
               HKD_Pending \<Rightarrow>
                 set_state m (state\<lparr>js_paused := Some TP_HostKeyApproval, js_host_key_state := Some trust\<rparr>)
             | HKD_Approved \<Rightarrow>
                 try_in m (ok_or JE_CurrentSnapshotMissing (js_current_options state)) (\<lambda>current.
                 try_in m (pin_host_key sha current trust) (\<lambda>current'.
                   set_state m (state\<lparr>js_current_options := Some current', js_paused := None,
                                      js_host_key_state := Some trust\<rparr>)))
             | HKD_Rejected \<Rightarrow>
                 set_state m (state\<lparr>js_paused := Some TP_RecoveryHold, js_host_key_state := Some trust\<rparr>)))"

definition apply_paused :: "semantic_machine \<Rightarrow> journal_record \<Rightarrow> task_pause_reason \<Rightarrow> step" where
  "apply_paused m record reason =
     try_in m (require_ready_nonterminal m record) (\<lambda>_.
       if sm_active_leases m \<noteq> [] then (Inl JE_GenerationNotDrained, m)
       else try_in m (the_state m) (\<lambda>state. set_state m (state\<lparr>js_paused := Some reason\<rparr>)))"

section \<open>Terminal states and shutdown\<close>

definition apply_terminal :: "semantic_machine \<Rightarrow> journal_record \<Rightarrow> recovered_terminal \<Rightarrow> step" where
  "apply_terminal m record terminal =
     try_in m (require_current_generation m record) (\<lambda>_.
     try_in m (the_state m) (\<lambda>state.
       if js_terminal state \<noteq> None then (Inl JE_DuplicateTerminal, m)
       else set_state m (state\<lparr>js_terminal := Some terminal\<rparr>)))"

definition verification_unfinished :: "recovered_journal_state \<Rightarrow> bool" where
  "verification_unfinished state \<longleftrightarrow>
     (case js_verification_manifest state of
        None \<Rightarrow> False
      | Some manifest \<Rightarrow>
          (vm_whole manifest \<noteq> [] \<and> \<not> js_whole_file_verified state)
          \<or> (vm_chunks manifest \<noteq> [] \<and> length (js_durable_pieces state) \<noteq> length (vm_chunks manifest)))"

definition finalization_open :: "recovered_journal_state \<Rightarrow> bool" where
  "finalization_open state \<longleftrightarrow> list_ex (\<lambda>finalization. \<not> rf_done finalization) (bt_values (js_finalizations state))"

definition apply_complete ::
  "semantic_machine \<Rightarrow> journal_record \<Rightarrow> journal_hash \<Rightarrow> u64 \<Rightarrow> journal_digest option \<Rightarrow> u64 \<Rightarrow> step" where
  "apply_complete m record layout_hash final_length final_digest completed_at_unix_ms =
     try_in m (require_ready_nonterminal m record) (\<lambda>_.
       if sm_active_leases m \<noteq> []
          \<or> (case sm_state m of None \<Rightarrow> False | Some state \<Rightarrow> finalization_open state)
         then (Inl JE_FinalizationMismatch, m)
       else
         try_in m (require_manifest_ready m) (\<lambda>_.
           if (case sm_state m of None \<Rightarrow> False | Some state \<Rightarrow> verification_unfinished state)
             then (Inl JE_VerificationMismatch, m)
           else
             try_in m (require_layout m) (\<lambda>layout.
               if rcl_layout_hash layout \<noteq> layout_hash
                  \<or> (case fl_total_length (rcl_layout layout) of None \<Rightarrow> False | Some n \<Rightarrow> n \<noteq> final_length)
                 then (Inl JE_FinalizationMismatch, m)
               else
                 apply_terminal m record (Term_Complete layout_hash final_length final_digest completed_at_unix_ms))))"

definition apply_metadata_complete ::
  "sha256 \<Rightarrow> semantic_machine \<Rightarrow> journal_record \<Rightarrow> metadata_expansion \<Rightarrow> u64 \<Rightarrow> step" where
  "apply_metadata_complete sha m record expansion completed_at_unix_ms =
     try_in m (require_ready_nonterminal m record) (\<lambda>_.
       if sm_active_leases m \<noteq> [] then (Inl JE_GenerationNotDrained, m)
       else
         let parent = me_parent expansion in
         try_in m (the_state m) (\<lambda>state.
         try_in m (ok_or JE_CurrentSnapshotMissing (js_current_options state)) (\<lambda>current.
         try_in m (map_err JE_Payload (sanitized_option_map_new
             (filter (\<lambda>(name, _). name \<noteq> METADATA_EXPANSION_OPTION) (som_entries (os_options current))))) (\<lambda>base.
           if \<not> metadata_expansion_validate expansion \<or> mp_generation parent > jr_generation record
              \<or> mp_snapshot_hash parent \<noteq> options_snapshot_hash sha base \<or> js_verification_manifest state \<noteq> None
             then (Inl JE_VerificationMismatch, m)
           else
             try_in m
               (if mp_retained parent then
                  and_then (ok_or JE_LayoutMissing (js_layout state)) (\<lambda>layout.
                    if fl_total_length (rcl_layout layout) \<noteq> Some (mp_document_bytes parent)
                      then Inl JE_VerificationMismatch
                    else Inr (rcl_layout_hash layout, mp_document_bytes parent))
                else if js_layout state \<noteq> None then Inl JE_VerificationMismatch
                else Inr (mp_document_hash parent, 0)) (\<lambda>(layout_hash, final_length).
             try_in m (map_err JE_Payload (expansion_with_options expansion (os_options current))) (\<lambda>options.
               set_state m (state
                 \<lparr>js_current_options := Some (current
                    \<lparr>os_options := options, os_snapshot_hash := options_snapshot_hash sha options\<rparr>),
                  js_terminal := Some (Term_Complete layout_hash final_length None completed_at_unix_ms),
                  js_paused := None\<rparr>)))))))"

definition apply_clean_shutdown :: "semantic_machine \<Rightarrow> journal_record \<Rightarrow> u64 \<Rightarrow> u64 \<Rightarrow> step" where
  "apply_clean_shutdown m record checkpoint_sequence shutdown_at_unix_ms =
     (if sm_checkpoint_state m then (Inl JE_CheckpointRecordForbidden, m)
      else
        try_in m (require_current_generation m record) (\<lambda>_.
          if checkpoint_sequence \<ge> jr_sequence record then (Inl JE_InvalidCleanShutdown, m)
          else
            try_in m (the_state m) (\<lambda>state.
              set_state m (state\<lparr>js_clean_shutdown := Some
                \<lparr>rcs_checkpoint_sequence = checkpoint_sequence, rcs_shutdown_at_unix_ms = shutdown_at_unix_ms,
                 rcs_record_sequence = jr_sequence record\<rparr>\<rparr>))))"

section \<open>Finalization\<close>

definition apply_finalize_intent :: "semantic_machine \<Rightarrow> journal_record \<Rightarrow> recovered_finalization \<Rightarrow> step" where
  "apply_finalize_intent m record finalization =
     try_in m (require_ready_nonterminal m record) (\<lambda>_.
     try_in m (require_layout m) (\<lambda>layout.
       if rcl_layout_hash layout \<noteq> rf_layout_hash finalization
          \<or> rcl_root_binding_hash layout \<noteq> rf_root_binding_hash finalization
         then (Inl JE_FinalizationMismatch, m)
       else
         let files = fl_files (rcl_layout layout); i = unat (file_id_get (rf_file_id finalization)) in
         try_in m (ok_or JE_FinalizationMismatch (if i < length files then Some (files ! i) else None)) (\<lambda>entry.
           if \<not> fe_selected entry \<or> fe_length entry \<noteq> rf_final_length finalization
              \<or> canonical_string (fe_safe_path entry)
                  \<noteq> journal_relative_path_str (rf_final_relative_path finalization)
              \<or> map_option file_identity_bytes (fe_identity entry) \<noteq> Some (rf_file_identity finalization)
             then (Inl JE_FinalizationMismatch, m)
           else
             try_in m (the_state m) (\<lambda>state.
               if finalization_open state
                  \<or> bt_get (js_finalizations state) (rf_file_id finalization) \<noteq> None
                  \<or> (js_finalizations state \<noteq> [] \<and> fst (last (js_finalizations state)) \<ge> rf_file_id finalization)
                 then (Inl JE_FinalizationMismatch, m)
               else if length (js_finalizations state) \<ge> jl_max_finalizations (sm_limits m)
                 then (Inl (JE_ResourceLimit JR_Finalizations), m)
               else
                 set_state m (state\<lparr>js_finalizations :=
                   bt_insert (rf_file_id finalization) finalization (js_finalizations state)\<rparr>)))))"

definition apply_finalize_done ::
  "semantic_machine \<Rightarrow> journal_record \<Rightarrow> journal_hash \<Rightarrow> journal_hash \<Rightarrow> file_id \<Rightarrow> journal_relative_path \<Rightarrow> step" where
  "apply_finalize_done m record layout_hash binding_hash file_id final_relative_path =
     try_in m (require_ready_nonterminal m record) (\<lambda>_.
     try_in m (the_state m) (\<lambda>state.
     try_in m (ok_or JE_FinalizationMismatch (bt_get (js_finalizations state) file_id)) (\<lambda>finalization.
       if rf_done finalization \<or> rf_layout_hash finalization \<noteq> layout_hash
          \<or> rf_root_binding_hash finalization \<noteq> binding_hash
          \<or> rf_final_relative_path finalization \<noteq> final_relative_path
         then (Inl JE_FinalizationMismatch, m)
       else
         set_state m (state\<lparr>js_finalizations :=
           bt_insert file_id (finalization\<lparr>rf_done := True\<rparr>) (js_finalizations state)\<rparr>))))"

section \<open>Piece state of a checkpoint\<close>

record piece_state_input =
  pi_layout_hash :: journal_hash
  pi_root_binding_hash :: journal_hash
  pi_chunk_index :: u32
  pi_chunk_count :: u32
  pi_first_piece_id :: piece_id
  pi_covered_piece_count :: u32
  pi_durable_bitmap :: "u8 list"
  pi_evidence_runs :: "durable_evidence_run list"

definition count_ones :: "u8 \<Rightarrow> nat" where
  "count_ones b = length (filter (bit b) [0 ..< 8])"

definition run_digest :: "durable_evidence_run \<Rightarrow> nat \<Rightarrow> (journal_state_error, journal_digest option) result" where
  "run_digest run index =
     (case er_digest_algorithm run of
        None \<Rightarrow> Inr None
      | Some algorithm \<Rightarrow>
          (let digest_len = unat (er_digest_value_len run); start = index * digest_len; stop = start + digest_len in
           if start > usize_max \<or> stop > usize_max \<or> stop > length (er_digest_values run)
             then Inl JE_PieceStateChunkMismatch
           else
             and_then (map_err JE_Payload
                 (journal_digest_new algorithm (take digest_len (drop start (er_digest_values run))))) (\<lambda>digest.
               Inr (Some digest))))"

definition run_piece ::
  "file_layout \<Rightarrow> piece_id \<Rightarrow> durable_evidence_run \<times> nat \<Rightarrow> (journal_state_error, recovered_durable_piece) result" where
  "run_piece layout first_piece_id =
     (\<lambda>(run, index).
        and_then (ok_or JE_PieceStateChunkMismatch
            (checked_add (piece_id_get first_piece_id) (ucast (er_first_piece_delta run) + word_of_nat index)))
          (\<lambda>piece_value.
        and_then (expected_piece_span layout (PieceId piece_value)) (\<lambda>piece_span.
        and_then (run_digest run index) (\<lambda>digest.
          Inr \<lparr>dp_piece_id = PieceId piece_value, dp_piece_span = piece_span,
               dp_validator_set_fingerprint = er_validator_set_fingerprint run, dp_digest = digest,
               dp_origin = DO_Checkpoint\<rparr>))))"

fun try_map :: "('a \<Rightarrow> ('e, 'b) result) \<Rightarrow> 'a list \<Rightarrow> ('e, 'b list) result" where
  "try_map f [] = Inr []"
| "try_map f (x # xs) = and_then (f x) (\<lambda>y. and_then (try_map f xs) (\<lambda>ys. Inr (y # ys)))"

text \<open>The two nested loops over the runs and the pieces of a run.\<close>

definition run_indices :: "durable_evidence_run list \<Rightarrow> (durable_evidence_run \<times> nat) list" where
  "run_indices runs = concat (map (\<lambda>run. map (Pair run) [0 ..< unat (er_piece_count run)]) runs)"

fun insert_pieces ::
  "(piece_id, recovered_durable_piece) btree \<Rightarrow> recovered_durable_piece list \<Rightarrow>
   (journal_state_error, unit) result \<times> (piece_id, recovered_durable_piece) btree" where
  "insert_pieces durable [] = (Inr (), durable)"
| "insert_pieces durable (piece # rest) =
     (let durable' = bt_insert (dp_piece_id piece) piece durable in
      if bt_get durable (dp_piece_id piece) \<noteq> None then (Inl JE_DuplicateDurablePiece, durable')
      else insert_pieces durable' rest)"

definition piece_state_sequence :: "semantic_machine \<Rightarrow> piece_state_input \<Rightarrow> step" where
  "piece_state_sequence m input =
     (if pi_chunk_index input = 0 then
        if sm_seen_piece_state m \<or> sm_pending_piece_state m \<noteq> None then (Inl JE_DuplicatePieceState, m)
        else
          let m1 = m\<lparr>sm_seen_piece_state := True\<rparr> in
          try_in m1 (the_state m1) (\<lambda>state. set_state m1 (state\<lparr>js_durable_pieces := []\<rparr>))
      else
        try_in m (ok_or JE_PieceStateChunkMismatch (sm_pending_piece_state m)) (\<lambda>pending.
          if pps_layout_hash pending \<noteq> pi_layout_hash input \<or> pps_root_binding_hash pending \<noteq> pi_root_binding_hash input
             \<or> pps_chunk_count pending \<noteq> pi_chunk_count input \<or> pps_next_chunk pending \<noteq> pi_chunk_index input
             \<or> piece_id_get (pi_first_piece_id input) < pps_previous_covered_end pending
            then (Inl JE_PieceStateChunkMismatch, m)
          else (Inr (), m)))"

definition install_pieces :: "semantic_machine \<Rightarrow> piece_state_input \<Rightarrow> step" where
  "install_pieces m input =
     (let durable_count = sum_list (map count_ones (pi_durable_bitmap input)) in
      try_in m (the_state m) (\<lambda>state.
        if length (js_durable_pieces state) + durable_count > usize_max
           \<or> length (js_durable_pieces state) + durable_count > jl_max_durable_pieces (sm_limits m)
          then (Inl (JE_ResourceLimit JR_DurablePieces), m)
        else
          try_in m (require_layout m) (\<lambda>layout.
          try_in m (try_map (run_piece (rcl_layout layout) (pi_first_piece_id input))
              (run_indices (pi_evidence_runs input))) (\<lambda>decoded.
            case insert_pieces (js_durable_pieces state) decoded of
              (r, durable) \<Rightarrow>
                let m1 = m\<lparr>sm_state := Some (state\<lparr>js_durable_pieces := durable\<rparr>)\<rparr> in
                try_in m1 r (\<lambda>_.
                try_in m1 (ok_or JE_PieceStateChunkMismatch (checked_add (piece_id_get (pi_first_piece_id input))
                    (ucast (pi_covered_piece_count input)))) (\<lambda>previous_covered_end.
                  (Inr (), m1\<lparr>sm_pending_piece_state :=
                     (if pi_chunk_index input + 1 = pi_chunk_count input then None
                      else Some \<lparr>pps_layout_hash = pi_layout_hash input,
                        pps_root_binding_hash = pi_root_binding_hash input, pps_chunk_count = pi_chunk_count input,
                        pps_next_chunk = pi_chunk_index input + 1,
                        pps_previous_covered_end = previous_covered_end\<rparr>)\<rparr>)))))))"

definition apply_piece_state_chunk :: "semantic_machine \<Rightarrow> journal_record \<Rightarrow> piece_state_input \<Rightarrow> step" where
  "apply_piece_state_chunk m record input =
     (if \<not> sm_checkpoint_state m then (Inl JE_PieceStateOutsideCheckpoint, m)
      else
        try_in m (require_ready_nonterminal m record) (\<lambda>_.
        try_in m (require_layout m) (\<lambda>layout.
          if rcl_layout_hash layout \<noteq> pi_layout_hash input \<or> rcl_root_binding_hash layout \<noteq> pi_root_binding_hash input
            then (Inl JE_PieceStateChunkMismatch, m)
          else
            case piece_state_sequence m input of
              (Inl e, m1) \<Rightarrow> (Inl e, m1)
            | (Inr _, m1) \<Rightarrow> install_pieces m1 input)))"

section \<open>Dispatch\<close>

fun machine_dispatch ::
  "(string \<Rightarrow> string) \<Rightarrow> (string \<Rightarrow> string) \<Rightarrow> sha256 \<Rightarrow> semantic_machine \<Rightarrow> journal_record \<Rightarrow> journal_payload \<Rightarrow> step" where
  "machine_dispatch nfc to_lowercase sha m record (JP_TaskCreated durability creator_version) =
     apply_task_created m record durability creator_version"
| "machine_dispatch nfc to_lowercase sha m record (JP_OptionsSnapshot snapshot_scope patch_id snapshot_hash options) =
     apply_options sha m record snapshot_scope patch_id snapshot_hash options"
| "machine_dispatch nfc to_lowercase sha m record (JP_LayoutCommitted layout_hash binding_hash root_display
       root_identity total_length piece_length total_file_count chunk_count inline_files) =
     apply_layout_committed nfc to_lowercase sha m record
       \<lparr>pl_generation = jr_generation record, pl_layout_hash = layout_hash, pl_root_binding_hash = binding_hash,
        pl_root_display = root_display, pl_root_identity = root_identity, pl_total_length = total_length,
        pl_piece_length = piece_length, pl_total_file_count = unat total_file_count, pl_chunk_count = chunk_count,
        pl_next_chunk = 1, pl_files = inline_files, pl_previous_layout = None, pl_previous_durable_pieces = []\<rparr>"
| "machine_dispatch nfc to_lowercase sha m record (JP_LayoutChunk layout_hash binding_hash chunk_index chunk_count files) =
     apply_layout_chunk nfc to_lowercase sha m record layout_hash binding_hash chunk_index chunk_count files"
| "machine_dispatch nfc to_lowercase sha m record (JP_GenerationStarted previous_generation reason next_snapshot_hash patch_id) =
     apply_generation_started m record previous_generation reason next_snapshot_hash patch_id"
| "machine_dispatch nfc to_lowercase sha m record (JP_LeaseStarted _ lease_id span validator_fingerprint) =
     apply_lease_started m record lease_id span validator_fingerprint"
| "machine_dispatch nfc to_lowercase sha m record (JP_PieceStarted lease_id piece_id piece_span) =
     apply_piece_started m record lease_id piece_id piece_span"
| "machine_dispatch nfc to_lowercase sha m record (JP_PieceWritten lease_id piece_id written_span) =
     apply_piece_written m record lease_id piece_id written_span"
| "machine_dispatch nfc to_lowercase sha m record (JP_LeaseCommitted lease_id span validator_fingerprint _) =
     apply_lease_committed m record lease_id span validator_fingerprint"
| "machine_dispatch nfc to_lowercase sha m record (JP_LeaseAborted lease_id _) = apply_lease_aborted m record lease_id"
| "machine_dispatch nfc to_lowercase sha m record (JP_PieceVerified piece_id piece_span contributors_hash digest) =
     apply_piece_verified sha m record piece_id piece_span contributors_hash digest"
| "machine_dispatch nfc to_lowercase sha m record (JP_PieceFailed lease_id piece_id piece_span _ _) =
     apply_piece_failed m record lease_id piece_id piece_span"
| "machine_dispatch nfc to_lowercase sha m record
       (JP_PieceDurable piece_id piece_span contributors_hash validator_set_fingerprint digest data_barrier) =
     apply_piece_durable sha m record piece_id piece_span contributors_hash validator_set_fingerprint digest data_barrier"
| "machine_dispatch nfc to_lowercase sha m record (JP_RetryState retry_scope scope_id attempt elapsed_before_wait_ms
       scheduled_at_unix_ms delay_ms error_class retry_reason) =
     apply_retry m record
       \<lparr>rr_scope = retry_scope, rr_scope_id = scope_id, rr_attempt = attempt,
        rr_elapsed_before_wait_ms = elapsed_before_wait_ms, rr_scheduled_at_unix_ms = scheduled_at_unix_ms,
        rr_delay_ms = delay_ms, rr_error_class = error_class, rr_retry_reason = retry_reason\<rparr>"
| "machine_dispatch nfc to_lowercase sha m record (JP_TaskPaused reason) = apply_paused m record reason"
| "machine_dispatch nfc to_lowercase sha m record (JP_HostKeyState trust) = apply_host_key_state sha m record trust"
| "machine_dispatch nfc to_lowercase sha m record (JP_MetadataComplete expansion completed_at_unix_ms) =
     apply_metadata_complete sha m record expansion completed_at_unix_ms"
| "machine_dispatch nfc to_lowercase sha m record (JP_TaskComplete layout_hash final_length final_digest completed_at_unix_ms) =
     apply_complete m record layout_hash final_length final_digest completed_at_unix_ms"
| "machine_dispatch nfc to_lowercase sha m record (JP_TaskError error_class retriable diagnostic_id) =
     apply_terminal m record (Term_Error error_class retriable diagnostic_id)"
| "machine_dispatch nfc to_lowercase sha m record (JP_TaskRemoved reason) = apply_terminal m record (Term_Removed reason)"
| "machine_dispatch nfc to_lowercase sha m record (JP_CleanShutdown checkpoint_sequence shutdown_at_unix_ms) =
     apply_clean_shutdown m record checkpoint_sequence shutdown_at_unix_ms"
| "machine_dispatch nfc to_lowercase sha m record (JP_FinalizeIntent layout_hash binding_hash file_id
       temp_relative_path final_relative_path final_length file_identity) =
     apply_finalize_intent m record
       \<lparr>rf_layout_hash = layout_hash, rf_root_binding_hash = binding_hash, rf_file_id = file_id,
        rf_temp_relative_path = temp_relative_path, rf_final_relative_path = final_relative_path,
        rf_final_length = final_length, rf_file_identity = file_identity, rf_done = False\<rparr>"
| "machine_dispatch nfc to_lowercase sha m record (JP_FinalizeDone layout_hash binding_hash file_id final_relative_path) =
     apply_finalize_done m record layout_hash binding_hash file_id final_relative_path"
| "machine_dispatch nfc to_lowercase sha m record (JP_PieceStateChunk layout_hash binding_hash chunk_index chunk_count
       first_piece_id covered_piece_count durable_bitmap evidence_runs) =
     apply_piece_state_chunk m record
       \<lparr>pi_layout_hash = layout_hash, pi_root_binding_hash = binding_hash, pi_chunk_index = chunk_index,
        pi_chunk_count = chunk_count, pi_first_piece_id = first_piece_id, pi_covered_piece_count = covered_piece_count,
        pi_durable_bitmap = durable_bitmap, pi_evidence_runs = evidence_runs\<rparr>"
| "machine_dispatch nfc to_lowercase sha m record
       (JP_HttpStrongValidator resource_fingerprint validator_fingerprint total_length etag) =
     apply_http_strong_validator m record
       \<lparr>hv_resource_fingerprint = resource_fingerprint, hv_validator_fingerprint = validator_fingerprint,
        hv_total_length = total_length, hv_etag = etag\<rparr>"
| "machine_dispatch nfc to_lowercase sha m record
       (JP_HttpRangeIdentity identity_fingerprint total_length representation_digest) =
     apply_http_range_identity sha m record
       \<lparr>hr_identity_fingerprint = identity_fingerprint, hr_total_length = total_length,
        hr_representation_digest = representation_digest\<rparr>"
| "machine_dispatch nfc to_lowercase sha m record (JP_VerificationManifest fingerprint total_bytes chunk_count bytes) =
     apply_manifest sha m record fingerprint total_bytes chunk_count bytes"
| "machine_dispatch nfc to_lowercase sha m record (JP_VerificationManifestChunk fingerprint chunk_index chunk_count bytes) =
     apply_manifest_chunk sha m record fingerprint chunk_index chunk_count bytes"
| "machine_dispatch nfc to_lowercase sha m record (JP_ProtocolValidator validator) =
     apply_protocol_validator m record validator"
| "machine_dispatch nfc to_lowercase sha m record (JP_WholeFileVerified fingerprint digests) =
     apply_whole_verified m record fingerprint digests"
| "machine_dispatch nfc to_lowercase sha m record (JP_CheckpointStart _ _ _ _ _) = (Inl JE_CheckpointRecordForbidden, m)"
| "machine_dispatch nfc to_lowercase sha m record (JP_CheckpointEnd _ _ _) = (Inl JE_CheckpointRecordForbidden, m)"

fun is_manifest_chunk :: "journal_payload \<Rightarrow> bool" where
  "is_manifest_chunk (JP_VerificationManifestChunk _ _ _ _) = True"
| "is_manifest_chunk _ = False"

fun is_layout_chunk :: "journal_payload \<Rightarrow> bool" where
  "is_layout_chunk (JP_LayoutChunk _ _ _ _ _) = True"
| "is_layout_chunk _ = False"

fun is_piece_state_chunk :: "journal_payload \<Rightarrow> bool" where
  "is_piece_state_chunk (JP_PieceStateChunk _ _ _ _ _ _ _ _) = True"
| "is_piece_state_chunk _ = False"

fun is_checkpoint_start :: "journal_payload \<Rightarrow> bool" where
  "is_checkpoint_start (JP_CheckpointStart _ _ _ _ _) = True"
| "is_checkpoint_start _ = False"

fun is_clean_shutdown :: "journal_payload \<Rightarrow> bool" where
  "is_clean_shutdown (JP_CleanShutdown _ _) = True"
| "is_clean_shutdown _ = False"

definition machine_apply ::
  "(string \<Rightarrow> string) \<Rightarrow> (string \<Rightarrow> string) \<Rightarrow> sha256 \<Rightarrow> semantic_machine \<Rightarrow> journal_record \<Rightarrow> journal_payload \<Rightarrow> step" where
  "machine_apply nfc to_lowercase sha m record payload =
     (if sm_pending_manifest m \<noteq> None \<and> \<not> is_manifest_chunk payload then (Inl JE_InvalidVerificationManifest, m)
      else if sm_pending_layout m \<noteq> None \<and> \<not> is_layout_chunk payload then (Inl JE_IncompleteLayoutSequence, m)
      else if sm_pending_piece_state m \<noteq> None \<and> \<not> is_piece_state_chunk payload
        then (Inl JE_IncompletePieceStateSequence, m)
      else
        case (if sm_checkpoint_state m then validate_checkpoint_order m payload
              else if is_checkpoint_start payload then (Inl JE_CheckpointNotFirst, m)
              else (Inr (), m)) of
          (Inl e, m1) \<Rightarrow> (Inl e, m1)
        | (Inr _, m1) \<Rightarrow>
            if (case sm_state m1 of None \<Rightarrow> False | Some state \<Rightarrow> js_terminal state \<noteq> None)
               \<and> \<not> is_clean_shutdown payload
              then (Inl JE_RecordAfterTerminal, m1)
            else
              case machine_dispatch nfc to_lowercase sha m1 record payload of
                (Inl e, m2) \<Rightarrow> (Inl e, m2)
              | (Inr _, m2) \<Rightarrow>
                  (Inr (),
                   if is_clean_shutdown payload then m2
                   else m2\<lparr>sm_state := map_option (\<lambda>state. state\<lparr>js_clean_shutdown := None\<rparr>) (sm_state m2)\<rparr>))"

end
