(* ===== verification/JournalRecover.thy ===== *)
theory JournalRecover
  imports JournalMachine
begin

text \<open>
  The drivers of semantic replay in \<^verbatim>\<open>src/crates/ariax-storage/src/journal_state.rs\<close>: the loop over records, the
  recovery of a journal that starts with a task and of one that starts with a checkpoint. The loop returns the
  position and the error at which it stopped together with the machine, as the source leaves it in \<open>&mut machine\<close>.
\<close>

section \<open>The loop over records\<close>

definition note_sequence :: "journal_record \<Rightarrow> semantic_machine \<Rightarrow> semantic_machine" where
  "note_sequence record m =
     m\<lparr>sm_state := map_option (\<lambda>state. state\<lparr>js_last_sequence := jr_sequence record\<rparr>) (sm_state m)\<rparr>"

text \<open>One pass of the loop body, on the record at the absolute position \<open>index\<close>.\<close>

definition process_record ::
  "(string \<Rightarrow> string) \<Rightarrow> (string \<Rightarrow> string) \<Rightarrow> sha256 \<Rightarrow> semantic_machine \<Rightarrow> nat \<Rightarrow> u64 \<Rightarrow> journal_record \<Rightarrow> step" where
  "process_record nfc to_lowercase sha m index expected_sequence record =
     (if jr_sequence record \<noteq> expected_sequence
        then (Inl (JE_SequenceMismatch expected_sequence (jr_sequence record)), m)
      else if index \<ge> jl_max_records (sm_limits m) then (Inl (JE_ResourceLimit JR_Records), m)
      else
        try_in m (map_err JE_Payload (record_decode_payload nfc sha record)) (\<lambda>payload.
          case machine_apply nfc to_lowercase sha m record payload of
            (Inl e, m1) \<Rightarrow> (Inl e, m1)
          | (Inr _, m1) \<Rightarrow> (Inr (), note_sequence record m1)))"

fun process_from ::
  "(string \<Rightarrow> string) \<Rightarrow> (string \<Rightarrow> string) \<Rightarrow> sha256 \<Rightarrow> semantic_machine \<Rightarrow> nat \<Rightarrow> nat \<Rightarrow> u64 \<Rightarrow> journal_record list \<Rightarrow>
   (nat \<times> journal_state_error, unit) result \<times> semantic_machine" where
  "process_from nfc to_lowercase sha m absolute_start relative expected_sequence [] = (Inr (), m)"
| "process_from nfc to_lowercase sha m absolute_start relative expected_sequence (record # rest) =
     (case process_record nfc to_lowercase sha m (absolute_start + relative) expected_sequence record of
        (Inl e, m1) \<Rightarrow> (Inl (relative, e), m1)
      | (Inr _, m1) \<Rightarrow>
          process_from nfc to_lowercase sha m1 absolute_start (Suc relative) (saturating_add expected_sequence 1) rest)"

definition process_records ::
  "(string \<Rightarrow> string) \<Rightarrow> (string \<Rightarrow> string) \<Rightarrow> sha256 \<Rightarrow> semantic_machine \<Rightarrow> journal_record list \<Rightarrow> nat \<Rightarrow> u64 \<Rightarrow>
   (nat \<times> journal_state_error, unit) result \<times> semantic_machine" where
  "process_records nfc to_lowercase sha m records absolute_start expected_sequence =
     process_from nfc to_lowercase sha m absolute_start 0 expected_sequence records"

section \<open>Results of replay\<close>

definition finish_replay :: "semantic_machine \<Rightarrow> nat \<Rightarrow> journal_state_replay" where
  "finish_replay m accepted_records =
     \<lparr>jsr_state = sm_state m, jsr_accepted_records = accepted_records,
      jsr_last_sequence = (case sm_state m of None \<Rightarrow> 0 | Some state \<Rightarrow> js_last_sequence state),
      jsr_stop =
        (case sm_pending_manifest m of
           Some pending \<Rightarrow> JS_IncompleteVerificationManifest (pm_next pending) (pm_count pending)
         | None \<Rightarrow>
             (case sm_pending_layout m of
                Some pending \<Rightarrow> JS_IncompleteLayout (pl_next_chunk pending) (pl_chunk_count pending)
              | None \<Rightarrow> JS_CleanEnd))\<rparr>"

definition invalid_replay ::
  "recovered_journal_state option \<Rightarrow> nat \<Rightarrow> u64 \<Rightarrow> nat \<Rightarrow> u64 \<Rightarrow> journal_state_error \<Rightarrow> journal_state_replay" where
  "invalid_replay state accepted_records last_sequence record_index sequence error =
     \<lparr>jsr_state = state, jsr_accepted_records = accepted_records, jsr_last_sequence = last_sequence,
      jsr_stop = JS_InvalidRecord record_index sequence error\<rparr>"

definition checkpoint_invalid :: "nat \<Rightarrow> u64 \<Rightarrow> journal_state_error \<Rightarrow> journal_state_replay" where
  "checkpoint_invalid record_index sequence error = invalid_replay None 0 0 record_index sequence error"

definition recover_live ::
  "(string \<Rightarrow> string) \<Rightarrow> (string \<Rightarrow> string) \<Rightarrow> sha256 \<Rightarrow> journal_record list \<Rightarrow> task_id \<Rightarrow> (string \<Rightarrow> bool) \<Rightarrow>
   journal_state_limits \<Rightarrow> journal_state_replay" where
  "recover_live nfc to_lowercase sha records task option_policy limits =
     (case process_records nfc to_lowercase sha (machine_new task option_policy limits False None) records 0 1 of
        (Inr _, m) \<Rightarrow> finish_replay m (length records)
      | (Inl (index, error), m) \<Rightarrow>
          invalid_replay (sm_state m) index (if index = 0 then 0 else jr_sequence (records ! (index - 1)))
            index (jr_sequence (records ! index)) error)"

section \<open>Checkpoints\<close>

text \<open>The first record of the state part whose sequence is not its position plus one.\<close>

definition sequence_gap :: "journal_record list \<Rightarrow> nat \<Rightarrow> nat option" where
  "sequence_gap records end_index =
     find (\<lambda>index. jr_sequence (records ! index) \<noteq> word_of_nat index + 1) [1 ..< end_index + 1]"

text \<open>
  The checks on the envelope of a checkpoint, in the order of the source; the result is the fields of the start
  record, the position of the end record and the hash it carries. A start record decodes to a start payload, so
  the last case of the first match is the one the source marks unreachable.
\<close>

definition checkpoint_envelope ::
  "(string \<Rightarrow> string) \<Rightarrow> sha256 \<Rightarrow> journal_record list \<Rightarrow> journal_state_limits \<Rightarrow>
   (journal_state_replay, checkpoint_id \<times> u64 \<times> journal_hash \<times> u32 \<times> nat \<times> journal_hash) result" where
  "checkpoint_envelope nfc sha records limits =
     (let first = hd records; invalid = (\<lambda>index error. Inl (checkpoint_invalid index (jr_sequence (records ! index)) error)) in
      if jr_sequence first \<noteq> 1 then invalid 0 (JE_SequenceMismatch 1 (jr_sequence first))
      else
        case record_decode_payload nfc sha first of
          Inl error \<Rightarrow> invalid 0 (JE_Payload error)
        | Inr (JP_CheckpointStart checkpoint_id source_last_sequence source_segment_hash state_record_count _) \<Rightarrow>
            (let end_index = 1 + unat state_record_count in
             if end_index > usize_max \<or> end_index \<ge> length records
               then invalid (length records - 1) JE_CheckpointIncomplete
             else if end_index \<ge> jl_max_records limits
               then invalid (min (jl_max_records limits) (length records - 1)) (JE_ResourceLimit JR_Records)
             else
               case sequence_gap records end_index of
                 Some index \<Rightarrow>
                   invalid index (JE_SequenceMismatch (word_of_nat index + 1) (jr_sequence (records ! index)))
               | None \<Rightarrow>
                   (case calculate_checkpoint_state_hash sha (take (end_index - 1) (tl records)) of
                      Inl error \<Rightarrow> invalid 0 error
                    | Inr calculated_hash \<Rightarrow>
                        let end_record = records ! end_index in
                        (case record_decode_payload nfc sha end_record of
                           Inl error \<Rightarrow> invalid end_index (JE_Payload error)
                         | Inr (JP_CheckpointEnd end_id end_count state_hash) \<Rightarrow>
                             if jr_record_type end_record \<noteq> RT_CheckpointEnd then invalid end_index JE_CheckpointIncomplete
                             else if jr_generation end_record \<noteq> jr_generation first
                               then invalid end_index
                                 (JE_GenerationMismatch (jr_generation first) (jr_generation end_record))
                             else if end_id \<noteq> checkpoint_id then invalid end_index JE_CheckpointIdMismatch
                             else if end_count \<noteq> state_record_count then invalid end_index JE_CheckpointCountMismatch
                             else if state_hash \<noteq> calculated_hash then invalid end_index JE_CheckpointHashMismatch
                             else Inr (checkpoint_id, source_last_sequence, source_segment_hash, state_record_count,
                                       end_index, state_hash)
                         | Inr _ \<Rightarrow> invalid end_index JE_CheckpointIncomplete)))
        | Inr _ \<Rightarrow> invalid 0 JE_CheckpointIncomplete)"

text \<open>Replay of the records between start and end into a fresh machine in checkpoint mode.\<close>

definition checkpoint_state ::
  "(string \<Rightarrow> string) \<Rightarrow> (string \<Rightarrow> string) \<Rightarrow> sha256 \<Rightarrow> journal_record list \<Rightarrow> task_id \<Rightarrow> (string \<Rightarrow> bool) \<Rightarrow>
   journal_state_limits \<Rightarrow> nat \<Rightarrow> (journal_state_replay, semantic_machine \<times> recovered_journal_state) result" where
  "checkpoint_state nfc to_lowercase sha records task option_policy limits end_index =
     (let invalid = (\<lambda>index error. Inl (checkpoint_invalid index (jr_sequence (records ! index)) error)) in
      case process_records nfc to_lowercase sha
             (machine_new task option_policy limits True (Some (jr_generation (hd records))))
             (take (end_index - 1) (tl records)) 1 2 of
        (Inl (relative, error), _) \<Rightarrow> invalid (relative + 1) error
      | (Inr _, m) \<Rightarrow>
          (case sm_state m of
             None \<Rightarrow> invalid end_index JE_TaskCreatedMissing
           | Some state \<Rightarrow>
               if sm_pending_manifest m \<noteq> None \<or> sm_pending_layout m \<noteq> None \<or> sm_pending_piece_state m \<noteq> None
                 then invalid end_index JE_CheckpointIncomplete
               else if js_current_options state = None then invalid end_index JE_CurrentSnapshotMissing
               else Inr (m, state)))"

definition recover_checkpoint ::
  "(string \<Rightarrow> string) \<Rightarrow> (string \<Rightarrow> string) \<Rightarrow> sha256 \<Rightarrow> journal_record list \<Rightarrow> task_id \<Rightarrow> (string \<Rightarrow> bool) \<Rightarrow>
   journal_state_limits \<Rightarrow> journal_state_replay" where
  "recover_checkpoint nfc to_lowercase sha records task option_policy limits =
     (case checkpoint_envelope nfc sha records limits of
        Inl replay \<Rightarrow> replay
      | Inr (checkpoint_id, source_last_sequence, source_segment_hash, state_record_count, end_index, state_hash) \<Rightarrow>
          (case checkpoint_state nfc to_lowercase sha records task option_policy limits end_index of
             Inl replay \<Rightarrow> replay
           | Inr (m, state) \<Rightarrow>
               let end_sequence = jr_sequence (records ! end_index);
                   m1 = m\<lparr>sm_state := Some (state\<lparr>js_checkpoint := Some
                           \<lparr>rcp_checkpoint_id = checkpoint_id, rcp_source_last_sequence = source_last_sequence,
                            rcp_source_segment_hash = source_segment_hash,
                            rcp_state_record_count = state_record_count, rcp_state_hash = state_hash,
                            rcp_end_sequence = end_sequence\<rparr>,
                          js_last_sequence := end_sequence\<rparr>),
                          sm_checkpoint_state := False, sm_expected_checkpoint_generation := None\<rparr>;
                   tail_start = end_index + 1
               in
               case process_records nfc to_lowercase sha m1 (drop tail_start records) tail_start
                      (saturating_add end_sequence 1) of
                 (Inr _, m2) \<Rightarrow> finish_replay m2 (length records)
               | (Inl (relative, error), m2) \<Rightarrow>
                   let index = tail_start + relative in
                   invalid_replay (sm_state m2) index (jr_sequence (records ! (index - 1))) index
                     (jr_sequence (records ! index)) error))"

definition recover_journal_state ::
  "(string \<Rightarrow> string) \<Rightarrow> (string \<Rightarrow> string) \<Rightarrow> sha256 \<Rightarrow> journal_record list \<Rightarrow> task_id \<Rightarrow> (string \<Rightarrow> bool) \<Rightarrow>
   journal_state_limits \<Rightarrow> journal_state_replay" where
  "recover_journal_state nfc to_lowercase sha records task option_policy limits =
     (if records = [] then
        \<lparr>jsr_state = None, jsr_accepted_records = 0, jsr_last_sequence = 0, jsr_stop = JS_NoRecords\<rparr>
      else if jr_record_type (hd records) = RT_CheckpointStart
        then recover_checkpoint nfc to_lowercase sha records task option_policy limits
      else recover_live nfc to_lowercase sha records task option_policy limits)"

end
