(* ===== verification/JournalSteps.thy ===== *)
theory JournalSteps
  imports JournalRecover
begin

text \<open>
  What the handlers of semantic replay do, read off their definitions once: the guards and the new machine of
  each handler that succeeds, and that a handler that fails outside a checkpoint leaves the recovered state as it
  was. The invariants of recovery rest on these facts.
\<close>


lemmas res_splits = sum.splits option.splits if_splits prod.splits

lemmas require_defs =
  the_state_def set_state_def require_current_generation_def require_ready_nonterminal_def require_layout_def
  require_span_in_layout_def machine_piece_span_def

section \<open>Requirements\<close>

definition at_generation :: "semantic_machine \<Rightarrow> journal_record \<Rightarrow> recovered_journal_state \<Rightarrow> bool" where
  "at_generation m record s \<longleftrightarrow> sm_state m = Some s \<and> jr_generation record = js_generation s"

definition ready :: "semantic_machine \<Rightarrow> journal_record \<Rightarrow> recovered_journal_state \<Rightarrow> bool" where
  "ready m record s \<longleftrightarrow> at_generation m record s \<and> js_current_options s \<noteq> None \<and> js_terminal s = None"

lemma require_current_generation_ok:
  "require_current_generation m record = Inr u \<longleftrightarrow> (\<exists>s. at_generation m record s)"
  by (auto simp: require_defs at_generation_def and_then_def ok_or_def split: res_splits)

lemma require_ready_ok: "require_ready_nonterminal m record = Inr u \<longleftrightarrow> (\<exists>s. ready m record s)"
  by (auto simp: require_defs ready_def at_generation_def and_then_def ok_or_def split: res_splits)

lemma the_state_ok: "the_state m = Inr s \<longleftrightarrow> sm_state m = Some s"
  by (simp add: the_state_def)

lemma require_layout_ok: "require_layout m = Inr l \<longleftrightarrow> (\<exists>s. sm_state m = Some s \<and> js_layout s = Some l)"
  by (auto simp: require_layout_def bind_eq_Some_conv)

lemma readyD: "ready m record s \<Longrightarrow> sm_state m = Some s"
  by (simp add: ready_def at_generation_def)

lemma at_generationD: "at_generation m record s \<Longrightarrow> sm_state m = Some s"
  by (simp add: at_generation_def)

lemmas require_ok = require_current_generation_ok require_ready_ok the_state_ok require_layout_ok

section \<open>A failing handler keeps the recovered state\<close>

definition keeps_state :: "semantic_machine \<Rightarrow> step \<Rightarrow> bool" where
  "keeps_state m r \<longleftrightarrow> (\<forall>e m'. r = (Inl e, m') \<longrightarrow> sm_state m' = sm_state m)"

lemma keeps_state_simps [simp]:
  "keeps_state m (Inr u, m')" "keeps_state m (Inl e, m') \<longleftrightarrow> sm_state m' = sm_state m"
  "keeps_state m (set_state m' s)"
  by (simp_all add: keeps_state_def set_state_def)

lemma keeps_state_try [intro!]:
  "sm_state m0 = sm_state m \<Longrightarrow> (\<And>a. x = Inr a \<Longrightarrow> keeps_state m (k a)) \<Longrightarrow> keeps_state m (try_in m0 x k)"
  by (cases x) simp_all

lemmas handler_defs =
  apply_task_created_def apply_options_def apply_generation_started_def apply_layout_committed_def
  apply_layout_chunk_def finish_layout_def install_layout_def apply_http_strong_validator_def
  apply_http_range_identity_def apply_protocol_validator_def finish_manifest_def apply_manifest_def
  apply_manifest_chunk_def apply_whole_verified_def apply_lease_started_def apply_piece_started_def
  apply_piece_written_def apply_lease_committed_def apply_lease_aborted_def apply_piece_verified_def
  apply_piece_failed_def apply_piece_durable_def apply_retry_def apply_host_key_state_def apply_paused_def
  apply_terminal_def apply_complete_def apply_metadata_complete_def apply_clean_shutdown_def
  apply_finalize_intent_def apply_finalize_done_def

lemma keeps_finish_manifest: "keeps_state m (finish_manifest sha m)"
  by (auto simp: finish_manifest_def)

lemma keeps_finish_manifest': "sm_state m0 = sm_state m \<Longrightarrow> keeps_state m (finish_manifest sha m0)"
  using keeps_finish_manifest [of m0] by (simp add: keeps_state_def)

lemma keeps_install_layout:
  "sm_state m0 \<noteq> None \<Longrightarrow> keeps_state m (install_layout m0 layout previous durable)"
  by (cases "sm_state m0") (simp_all add: install_layout_def the_state_def Let_def)

lemma keeps_apply_terminal: "keeps_state m (apply_terminal m record terminal)"
  by (auto simp: apply_terminal_def)

lemma dispatch_keeps:
  assumes "\<not> sm_checkpoint_state m"
  shows "keeps_state m (machine_dispatch nfc to_lowercase sha m record payload)"
proof (cases payload)
  case (JP_LayoutCommitted a b c d e f g h i)
  show ?thesis unfolding JP_LayoutCommitted machine_dispatch.simps apply_layout_committed_def
    by (auto intro!: keeps_install_layout)
next
  case (JP_LayoutChunk a b c d e)
  show ?thesis unfolding JP_LayoutChunk machine_dispatch.simps apply_layout_chunk_def finish_layout_def Let_def
    by (auto intro!: keeps_install_layout simp: require_ok at_generation_def)
next
  case (JP_PieceStateChunk a b c d e f g h)
  then show ?thesis using assms by (simp add: apply_piece_state_chunk_def)
next
  case (JP_VerificationManifest a b c d)
  show ?thesis unfolding JP_VerificationManifest machine_dispatch.simps apply_manifest_def
    by (auto intro!: keeps_finish_manifest')
next
  case (JP_VerificationManifestChunk a b c d)
  show ?thesis unfolding JP_VerificationManifestChunk machine_dispatch.simps apply_manifest_chunk_def
    by (auto intro!: keeps_finish_manifest')
next
  case (JP_TaskComplete a b c d)
  show ?thesis unfolding JP_TaskComplete machine_dispatch.simps apply_complete_def
    by (auto intro!: keeps_apply_terminal)
qed (auto simp: handler_defs Let_def split: option.splits options_snapshot_scope.splits host_key_decision.splits)

section \<open>What no handler changes\<close>

definition same_setup :: "semantic_machine \<Rightarrow> semantic_machine \<Rightarrow> bool" where
  "same_setup m m' \<longleftrightarrow>
     sm_task m' = sm_task m \<and> sm_option_policy m' = sm_option_policy m \<and> sm_limits m' = sm_limits m
     \<and> sm_checkpoint_state m' = sm_checkpoint_state m
     \<and> sm_expected_checkpoint_generation m' = sm_expected_checkpoint_generation m"

lemma same_setup_refl [simp]: "same_setup m m"
  by (simp add: same_setup_def)

lemma same_setup_trans: "same_setup a b \<Longrightarrow> same_setup b c \<Longrightarrow> same_setup a c"
  by (simp add: same_setup_def)

lemma setup_updates [simp]:
  "same_setup m (m0\<lparr>sm_checkpoint_rank := x0\<rparr>) \<longleftrightarrow> same_setup m m0"
  "same_setup m (m0\<lparr>sm_checkpoint_retry_key := x1\<rparr>) \<longleftrightarrow> same_setup m m0"
  "same_setup m (m0\<lparr>sm_state := x2\<rparr>) \<longleftrightarrow> same_setup m m0"
  "same_setup m (m0\<lparr>sm_pending_manifest := x3\<rparr>) \<longleftrightarrow> same_setup m m0"
  "same_setup m (m0\<lparr>sm_pending_layout := x4\<rparr>) \<longleftrightarrow> same_setup m m0"
  "same_setup m (m0\<lparr>sm_pending_piece_state := x5\<rparr>) \<longleftrightarrow> same_setup m m0"
  "same_setup m (m0\<lparr>sm_seen_piece_state := x6\<rparr>) \<longleftrightarrow> same_setup m m0"
  "same_setup m (m0\<lparr>sm_layout_record_generation := x7\<rparr>) \<longleftrightarrow> same_setup m m0"
  "same_setup m (m0\<lparr>sm_active_leases := x8\<rparr>) \<longleftrightarrow> same_setup m m0"
  "same_setup m (m0\<lparr>sm_committed_leases := x9\<rparr>) \<longleftrightarrow> same_setup m m0"
  "same_setup m (m0\<lparr>sm_seen_leases := x10\<rparr>) \<longleftrightarrow> same_setup m m0"
  "same_setup m (m0\<lparr>sm_piece_leases := x11\<rparr>) \<longleftrightarrow> same_setup m m0"
  "same_setup m (m0\<lparr>sm_verified_pieces := x12\<rparr>) \<longleftrightarrow> same_setup m m0"
  "same_setup m (m0\<lparr>sm_network_started := x13\<rparr>) \<longleftrightarrow> same_setup m m0"
  by (simp_all add: same_setup_def)

lemma setup_try [intro!]:
  "same_setup m m0 \<Longrightarrow> (\<And>a. x = Inr a \<Longrightarrow> same_setup m (snd (k a))) \<Longrightarrow> same_setup m (snd (try_in m0 x k))"
  by (cases x) simp_all

lemma setup_set_state [simp]: "same_setup m (snd (set_state m0 s)) \<longleftrightarrow> same_setup m m0"
  by (simp add: set_state_def)

lemma setup_finish_manifest [intro!]: "same_setup m m0 \<Longrightarrow> same_setup m (snd (finish_manifest sha m0))"
  by (auto simp: finish_manifest_def)

lemma setup_install_layout [intro!]:
  "same_setup m m0 \<Longrightarrow> same_setup m (snd (install_layout m0 layout previous durable))"
  by (auto simp: install_layout_def Let_def)

lemma setup_terminal [intro!]: "same_setup m (snd (apply_terminal m record terminal))"
  by (auto simp: apply_terminal_def)

lemma setup_piece_state [intro!]: "same_setup m (snd (apply_piece_state_chunk m record input))"
proof -
  have seq: "same_setup m (snd (piece_state_sequence m input))"
    by (auto simp: piece_state_sequence_def Let_def)
  have inst: "same_setup m (snd (install_pieces m1 input))" if "same_setup m m1" for m1
    using that unfolding install_pieces_def Let_def
    by (intro setup_try that) (simp_all add: that split_beta setup_try)
  obtain r m1 where r: "piece_state_sequence m input = (r, m1)" by fastforce
  then have "same_setup m m1" using seq by simp
  then have "same_setup m (snd (install_pieces m1 input))" by (rule inst)
  with \<open>same_setup m m1\<close> show ?thesis unfolding apply_piece_state_chunk_def r by (cases r) (auto simp del: split_paired_All)
qed

lemma dispatch_setup: "same_setup m (snd (machine_dispatch nfc to_lowercase sha m record payload))"
proof (cases payload)
  case (JP_LayoutCommitted a b c d e f g h i)
  show ?thesis unfolding JP_LayoutCommitted machine_dispatch.simps apply_layout_committed_def by auto
next
  case (JP_LayoutChunk a b c d e)
  show ?thesis unfolding JP_LayoutChunk machine_dispatch.simps apply_layout_chunk_def finish_layout_def Let_def by auto
next
  case (JP_VerificationManifest a b c d)
  show ?thesis unfolding JP_VerificationManifest machine_dispatch.simps apply_manifest_def by auto
next
  case (JP_VerificationManifestChunk a b c d)
  show ?thesis unfolding JP_VerificationManifestChunk machine_dispatch.simps apply_manifest_chunk_def by auto
next
  case (JP_TaskComplete a b c d)
  show ?thesis unfolding JP_TaskComplete machine_dispatch.simps apply_complete_def by auto
next
  case (JP_PieceStateChunk a b c d e f g h)
  show ?thesis unfolding JP_PieceStateChunk machine_dispatch.simps by auto
qed (auto simp: handler_defs Let_def split: option.splits options_snapshot_scope.splits host_key_decision.splits)

section \<open>Guards and effects of the handlers that succeed\<close>

lemma apply_options_ok:
  "apply_options sha m record snapshot_scope patch_id snapshot_hash options = (Inr u, m') \<Longrightarrow>
   \<exists>s. at_generation m record s \<and> options_snapshot_hash sha options = snapshot_hash
     \<and> list_all (\<lambda>(name, _). sm_option_policy m name) (som_entries options)
     \<and> (m' = m\<lparr>sm_state := Some (s\<lparr>js_current_options := Some
            \<lparr>os_patch_id = patch_id, os_snapshot_hash = snapshot_hash, os_options = options\<rparr>\<rparr>)\<rparr> \<and> js_current_options s = None
        \<or> m' = m\<lparr>sm_state := Some (s\<lparr>js_pending_options := Some
            \<lparr>os_patch_id = patch_id, os_snapshot_hash = snapshot_hash, os_options = options\<rparr>\<rparr>)\<rparr>)"
proof -
  assume ok: "apply_options sha m record snapshot_scope patch_id snapshot_hash options = (Inr u, m')"
  then obtain s where s: "at_generation m record s" "options_snapshot_hash sha options = snapshot_hash"
    by (auto simp: apply_options_def try_in_eq_ok require_ok split: if_splits)
  have policy: "find (\<lambda>(name, _). \<not> sm_option_policy m name) (som_entries options) = None"
    using ok s by (auto simp: apply_options_def try_in_eq_ok require_ok split: option.splits if_splits)
  have "list_all (\<lambda>(name, _). sm_option_policy m name) (som_entries options)"
    using policy by (auto simp: find_None_iff list_all_iff)
  moreover have "require_current_generation m record = Inr ()" "the_state m = Inr s"
    using s by (auto simp: require_ok at_generation_def)
  ultimately show ?thesis
    using ok s policy by (intro exI [of _ s]; cases snapshot_scope) (simp_all add: apply_options_def set_state_def Let_def eq_commute [of _ m'] split: if_splits)
qed

lemma apply_generation_started_ok:
  "apply_generation_started m record previous_generation reason next_snapshot_hash patch_id = (Inr u, m') \<Longrightarrow>
   \<not> sm_checkpoint_state m \<and> sm_active_leases m = []
   \<and> (\<exists>s pending. sm_state m = Some s \<and> previous_generation = js_generation s
        \<and> generation_checked_next (js_generation s) = Some (jr_generation record)
        \<and> (reason = GR_OptionPatch \<longleftrightarrow> patch_id \<noteq> None)
        \<and> js_pending_options s = Some pending \<and> os_snapshot_hash pending = next_snapshot_hash \<and> os_patch_id pending = patch_id
        \<and> m' = m\<lparr>sm_state := Some (next_generation_state s (jr_generation record) reason pending),
             sm_committed_leases := [], sm_seen_leases := {}, sm_piece_leases := {}, sm_verified_pieces := [],
             sm_network_started := False, sm_layout_record_generation := None\<rparr>)"
  by (cases "sm_state m"; simp add: apply_generation_started_def the_state_def try_in_eq_ok split: if_splits)

lemma install_layout_ok:
  "install_layout m layout previous durable = (Inr u, m') \<longleftrightarrow>
   (\<exists>s. sm_state m = Some s
      \<and> (let keep = (case previous of None \<Rightarrow> False | Some p \<Rightarrow> has_same_identity_evidence p layout) in
         m' = m\<lparr>sm_state := Some (s
             \<lparr>js_durable_pieces := (if keep then durable else []), js_finalizations := [],
              js_http_strong_validator := None, js_http_range_identity := None,
              js_rebind_source_root_binding_hash := (if keep then None else map_option rcl_root_binding_hash previous),
              js_layout := Some layout\<rparr>),
           sm_layout_record_generation := Some (js_generation s)\<rparr>))"
  by (auto simp: install_layout_def try_in_eq_ok require_ok Let_def)

lemma apply_http_strong_validator_ok:
  "apply_http_strong_validator m record validator = (Inr u, m') \<longleftrightarrow>
   (\<exists>s. ready m record s \<and> \<not> sm_network_started m \<and> layout_total_length s = Some (hv_total_length validator)
      \<and> js_http_strong_validator s = None \<and> js_http_range_identity s = None
      \<and> m' = m\<lparr>sm_state := Some (s\<lparr>js_http_strong_validator := Some validator\<rparr>)\<rparr>)"
  by (auto simp: apply_http_strong_validator_def try_in_eq_ok require_ok set_state_def ready_def at_generation_def
        split: if_splits)

lemma apply_http_range_identity_ok:
  "apply_http_range_identity sha m record identity = (Inr u, m') \<longleftrightarrow>
   (\<exists>s. ready m record s \<and> \<not> sm_network_started m \<and> layout_total_length s = Some (hr_total_length identity)
      \<and> js_http_strong_validator s = None \<and> js_http_range_identity s = None
      \<and> http_range_identity_fingerprint sha (hr_representation_digest identity) (hr_total_length identity)
          = Inr (hr_identity_fingerprint identity)
      \<and> m' = m\<lparr>sm_state := Some (s\<lparr>js_http_range_identity := Some identity\<rparr>)\<rparr>)"
  by (auto simp: apply_http_range_identity_def try_in_eq_ok require_ok set_state_def ready_def at_generation_def
        map_err_eq_Inr split: if_splits)

lemma apply_protocol_validator_ok:
  "apply_protocol_validator m record validator = (Inr u, m') \<longleftrightarrow>
   (\<exists>s. ready m record s \<and> protocol_validator_validate validator
      \<and> layout_total_length s = Some (pv_total_length validator)
      \<and> (case bt_get (js_protocol_validators s) (pv_source validator) of
           None \<Rightarrow> length (js_protocol_validators s) < 1024 | Some old \<Rightarrow> old = validator)
      \<and> m' = m\<lparr>sm_state := Some (s\<lparr>js_protocol_validators :=
                bt_insert (pv_source validator) validator (js_protocol_validators s)\<rparr>)\<rparr>)"
  by (auto simp: apply_protocol_validator_def try_in_eq_ok require_ok set_state_def ready_def at_generation_def
        not_le split: if_splits option.splits)

lemma finish_manifest_ok:
  "finish_manifest sha m = (Inr u, m') \<Longrightarrow>
   (\<exists>pending. sm_pending_manifest m = Some pending
      \<and> (if pm_next pending \<noteq> pm_count pending then m' = m
         else \<exists>manifest s. length (pm_bytes pending) = pm_total pending
           \<and> manifest_hash_bytes sha (pm_bytes pending) = pm_fingerprint pending
           \<and> manifest_decode sha (pm_bytes pending) = Inr manifest
           \<and> length (vm_chunks manifest) \<le> jl_max_durable_pieces (sm_limits m)
           \<and> sm_state m = Some s
           \<and> (\<forall>expected. manifest_option s = Some expected \<longrightarrow> expected = hash_display (vm_fingerprint manifest))
           \<and> (\<forall>layout. js_layout s = Some layout \<longrightarrow>
                fl_total_length (rcl_layout layout) = Some (vm_total_length manifest)
                \<and> fl_piece_length (rcl_layout layout) = vm_chunk_length manifest)
           \<and> m' = m\<lparr>sm_state := Some (s\<lparr>js_verification_manifest := Some manifest\<rparr>), sm_pending_manifest := None\<rparr>))"
  by (cases "sm_pending_manifest m"; cases "sm_state m")
    (simp_all add: finish_manifest_def try_in_eq_ok the_state_def map_err_eq_Inr not_le split: if_splits,
     (force split: if_splits option.splits)+)

lemma require_manifest_ready_ok:
  "require_manifest_ready m = Inr u \<Longrightarrow>
   (\<exists>s. sm_state m = Some s \<and> sm_pending_manifest m = None
      \<and> (\<forall>expected. manifest_option s = Some expected \<longrightarrow>
           (\<exists>manifest. js_verification_manifest s = Some manifest \<and> expected = hash_display (vm_fingerprint manifest)))
      \<and> (\<forall>manifest. js_verification_manifest s = Some manifest \<longrightarrow>
           (\<exists>layout. js_layout s = Some layout \<and> fl_total_length (rcl_layout layout) = Some (vm_total_length manifest)
              \<and> fl_piece_length (rcl_layout layout) = vm_chunk_length manifest)))"
  by (auto simp: require_manifest_ready_def and_then_eq_Inr require_ok split: if_splits option.splits)

lemma apply_whole_verified_ok:
  "apply_whole_verified m record fingerprint digests = (Inr u, m') \<longleftrightarrow>
   (\<exists>s manifest. ready m record s \<and> require_manifest_ready m = Inr () \<and> js_verification_manifest s = Some manifest
      \<and> fingerprint = vm_fingerprint manifest \<and> digests = vm_whole manifest \<and> sm_active_leases m = []
      \<and> length (js_durable_pieces s) = div_ceil (unat (vm_total_length manifest)) (unat (vm_chunk_length manifest))
      \<and> m' = m\<lparr>sm_state := Some (s\<lparr>js_whole_file_verified := True\<rparr>)\<rparr>)"
  by (auto simp: apply_whole_verified_def try_in_eq_ok require_ok set_state_def ready_def at_generation_def
        split: if_splits)

lemma apply_lease_started_ok:
  "apply_lease_started m record lease_id span validator_fingerprint = (Inr u, m') \<Longrightarrow>
   \<exists>s. ready m record s \<and> require_manifest_ready m = Inr () \<and> require_span_in_layout m span = Inr ()
     \<and> lease_id \<notin> sm_seen_leases m \<and> card (sm_seen_leases m) < jl_max_leases (sm_limits m)
     \<and> m' = m\<lparr>sm_seen_leases := insert lease_id (sm_seen_leases m),
          sm_active_leases := bt_insert lease_id
            \<lparr>ls_span = span, ls_validator_fingerprint = validator_fingerprint\<rparr> (sm_active_leases m),
          sm_network_started := True\<rparr>"
  by (simp add: apply_lease_started_def try_in_eq_ok require_ok not_le split: if_splits)

lemma apply_piece_started_ok:
  "apply_piece_started m record lease_id piece_id piece_span = (Inr u, m') \<Longrightarrow>
   \<exists>s lease. ready m record s \<and> machine_piece_span m piece_id = Inr piece_span
     \<and> bt_get (sm_active_leases m) lease_id = Some lease \<and> spans_intersect (ls_span lease) piece_span
     \<and> m' = m\<lparr>sm_piece_leases := insert (lease_id, piece_id) (sm_piece_leases m)\<rparr>"
  by (auto simp: apply_piece_started_def try_in_eq_ok require_ok split: if_splits)

lemma apply_piece_written_ok:
  "apply_piece_written m record lease_id piece_id written_span = (Inr u, m') \<Longrightarrow> m' = m"
  by (auto simp: apply_piece_written_def try_in_eq_ok split: if_splits)

lemma apply_lease_committed_ok:
  "apply_lease_committed m record lease_id span validator_fingerprint = (Inr u, m') \<Longrightarrow>
   \<exists>s lease. ready m record s \<and> bt_get (sm_active_leases m) lease_id = Some lease
     \<and> ls_span lease = span \<and> ls_validator_fingerprint lease = validator_fingerprint
     \<and> m' = m\<lparr>sm_active_leases := bt_remove lease_id (sm_active_leases m),
          sm_committed_leases := bt_insert lease_id lease (sm_committed_leases m),
          sm_state := Some (s\<lparr>js_committed_spans := bt_insert lease_id
            \<lparr>jc_lease_id = lease_id, jc_span = span, jc_validator_fingerprint = validator_fingerprint\<rparr>
            (js_committed_spans s)\<rparr>)\<rparr>"
  by (auto simp: apply_lease_committed_def try_in_eq_ok require_ok set_state_def Let_def
        ready_def at_generation_def split: if_splits)

lemma apply_lease_aborted_ok:
  "apply_lease_aborted m record lease_id = (Inr u, m') \<Longrightarrow>
   \<exists>s. ready m record s
     \<and> m' = m\<lparr>sm_active_leases := bt_remove lease_id (sm_active_leases m),
          sm_piece_leases := {(lease, piece) \<in> sm_piece_leases m. lease \<noteq> lease_id}\<rparr>"
  by (auto simp: apply_lease_aborted_def try_in_eq_ok require_ok split: if_splits)

lemma apply_piece_verified_ok:
  "apply_piece_verified sha m record piece_id piece_span contributors_hash digest = (Inr u, m') \<Longrightarrow>
   \<exists>s contributors fingerprint. ready m record s \<and> machine_piece_span m piece_id = Inr piece_span
     \<and> require_manifest_ready m = Inr ()
     \<and> (\<forall>manifest. js_verification_manifest s = Some manifest \<longrightarrow> vm_chunks manifest \<noteq> [] \<longrightarrow>
          unat (piece_id_get piece_id) < length (vm_chunks manifest)
          \<and> vm_chunks manifest ! unat (piece_id_get piece_id) = digest)
     \<and> contributors_for_piece m piece_id piece_span = Inr contributors
     \<and> calculate_contributors_hash sha contributors = Inr contributors_hash
     \<and> calculate_validator_set_fingerprint sha contributors = Inr fingerprint
     \<and> m' = m\<lparr>sm_verified_pieces := bt_insert piece_id
          \<lparr>vp_span = piece_span, vp_contributors_hash = contributors_hash,
           vp_validator_set_fingerprint = fingerprint, vp_digest = digest\<rparr> (sm_verified_pieces m)\<rparr>"
  by (cases "sm_state m"; cases "Option.bind (sm_state m) js_verification_manifest")
    (auto simp: apply_piece_verified_def try_in_eq_ok require_ok Let_def ready_def at_generation_def split: if_splits)

lemma apply_piece_failed_ok:
  "apply_piece_failed m record lease_id piece_id piece_span = (Inr u, m') \<Longrightarrow>
   \<exists>s. ready m record s \<and> machine_piece_span m piece_id = Inr piece_span
     \<and> m' = m\<lparr>sm_verified_pieces := bt_remove piece_id (sm_verified_pieces m),
          sm_piece_leases := {(lease, piece) \<in> sm_piece_leases m. piece \<noteq> piece_id},
          sm_state := Some (s
            \<lparr>js_durable_pieces := bt_remove piece_id (js_durable_pieces s),
             js_committed_spans := filter (\<lambda>(_, contributor). \<not> spans_intersect (jc_span contributor) piece_span)
                                     (js_committed_spans s),
             js_whole_file_verified := False\<rparr>)\<rparr>"
  by (cases "sm_state m")
    (auto simp: apply_piece_failed_def try_in_eq_ok require_ok ready_def at_generation_def split: if_splits)

lemma apply_piece_durable_ok:
  "apply_piece_durable sha m record piece_id piece_span contributors_hash fingerprint digest barrier = (Inr u, m') \<Longrightarrow>
   \<exists>s. ready m record s \<and> machine_piece_span m piece_id = Inr piece_span
     \<and> check_barrier sha m contributors_hash fingerprint digest barrier = Inr ()
     \<and> (barrier \<noteq> DB_RecoveryReadback \<longrightarrow>
          check_verified m piece_id piece_span contributors_hash fingerprint digest = Inr ())
     \<and> bt_get (js_durable_pieces s) piece_id = None
     \<and> length (js_durable_pieces s) < jl_max_durable_pieces (sm_limits m)
     \<and> m' = m\<lparr>sm_state := Some (s\<lparr>js_durable_pieces := bt_insert piece_id
          \<lparr>dp_piece_id = piece_id, dp_piece_span = piece_span, dp_validator_set_fingerprint = fingerprint,
           dp_digest = digest, dp_origin = DO_Live contributors_hash barrier\<rparr> (js_durable_pieces s)\<rparr>)\<rparr>"
  by (auto simp: apply_piece_durable_def try_in_eq_ok require_ok set_state_def not_le ready_def at_generation_def
        split: if_splits)

lemma apply_retry_ok:
  "apply_retry m record retry = (Inr u, m') \<Longrightarrow>
   \<exists>s. ready m record s
     \<and> (let key = (tag_number retry_scope_tags (rr_scope retry), persisted_id_get (rr_scope_id retry)) in
        (bt_get (js_retry_states s) key = None \<longrightarrow> length (js_retry_states s) < jl_max_retry_states (sm_limits m))
        \<and> m' = m\<lparr>sm_state := Some (s\<lparr>js_retry_states := bt_insert key retry (js_retry_states s)\<rparr>)\<rparr>)"
  by (auto simp: apply_retry_def try_in_eq_ok require_ok set_state_def not_le ready_def at_generation_def Let_def
        split: if_splits)

lemma apply_host_key_state_ok:
  "apply_host_key_state sha m record trust = (Inr u, m') \<Longrightarrow>
   \<exists>s paused. ready m record s \<and> sm_active_leases m = []
     \<and> (m' = m\<lparr>sm_state := Some (s\<lparr>js_paused := paused, js_host_key_state := Some trust\<rparr>)\<rparr>
        \<or> (\<exists>c c'. js_current_options s = Some c \<and> pin_host_key sha c trust = Inr c'
             \<and> m' = m\<lparr>sm_state := Some (s\<lparr>js_current_options := Some c', js_paused := None,
                                            js_host_key_state := Some trust\<rparr>)\<rparr>))"
proof -
  assume ok: "apply_host_key_state sha m record trust = (Inr u, m')"
  then obtain s where s: "ready m record s" by (auto simp: apply_host_key_state_def try_in_eq_ok require_ok)
  then obtain c where "the_state m = Inr s" "require_ready_nonterminal m record = Inr ()" "js_current_options s = Some c"
    by (auto simp: require_ok ready_def at_generation_def)
  with ok s show ?thesis
    by (intro exI [of _ s]; cases "hks_decision trust"; simp add: apply_host_key_state_def try_in_eq_ok set_state_def split: if_splits;
        auto)
qed

lemma apply_paused_ok:
  "apply_paused m record reason = (Inr u, m') \<Longrightarrow>
   \<exists>s. ready m record s \<and> m' = m\<lparr>sm_state := Some (s\<lparr>js_paused := Some reason\<rparr>)\<rparr>"
  by (auto simp: apply_paused_def try_in_eq_ok require_ok set_state_def ready_def at_generation_def split: if_splits)

lemma apply_terminal_ok:
  "apply_terminal m record terminal = (Inr u, m') \<Longrightarrow>
   \<exists>s. at_generation m record s \<and> js_terminal s = None \<and> m' = m\<lparr>sm_state := Some (s\<lparr>js_terminal := Some terminal\<rparr>)\<rparr>"
  by (auto simp: apply_terminal_def try_in_eq_ok require_ok set_state_def at_generation_def split: if_splits)

lemma apply_complete_ok:
  "apply_complete m record layout_hash final_length final_digest completed_at_unix_ms = (Inr u, m') \<Longrightarrow>
   \<exists>s layout. ready m record s \<and> sm_active_leases m = [] \<and> \<not> finalization_open s \<and> require_manifest_ready m = Inr ()
     \<and> \<not> verification_unfinished s \<and> js_layout s = Some layout \<and> rcl_layout_hash layout = layout_hash
     \<and> (\<forall>n. fl_total_length (rcl_layout layout) = Some n \<longrightarrow> n = final_length)
     \<and> m' = m\<lparr>sm_state := Some (s\<lparr>js_terminal :=
                Some (Term_Complete layout_hash final_length final_digest completed_at_unix_ms)\<rparr>)\<rparr>"
  by (cases "sm_state m")
    (auto simp: apply_complete_def try_in_eq_ok require_ok ready_def at_generation_def dest!: apply_terminal_ok
       split: if_splits option.splits)

lemma apply_metadata_complete_ok:
  "apply_metadata_complete sha m record expansion completed_at_unix_ms = (Inr u, m') \<Longrightarrow>
   \<exists>s current layout_hash final_length. ready m record s \<and> sm_active_leases m = [] \<and> js_verification_manifest s = None
     \<and> m' = m\<lparr>sm_state := Some (s\<lparr>js_current_options := Some current,
                js_terminal := Some (Term_Complete layout_hash final_length None completed_at_unix_ms),
                js_paused := None\<rparr>)\<rparr>"
proof -
  assume ok: "apply_metadata_complete sha m record expansion completed_at_unix_ms = (Inr u, m')"
  then obtain s where s: "ready m record s" by (auto simp: apply_metadata_complete_def try_in_eq_ok require_ok)
  then obtain c where "the_state m = Inr s" "require_ready_nonterminal m record = Inr ()" "js_current_options s = Some c"
    by (auto simp: require_ok ready_def at_generation_def)
  with ok s show ?thesis
    by (intro exI [of _ s]) (auto simp: apply_metadata_complete_def try_in_eq_ok set_state_def Let_def split: if_splits prod.splits)
qed

lemma apply_clean_shutdown_ok:
  "apply_clean_shutdown m record checkpoint_sequence shutdown_at_unix_ms = (Inr u, m') \<Longrightarrow>
   \<exists>s shutdown. at_generation m record s \<and> checkpoint_sequence < jr_sequence record
     \<and> m' = m\<lparr>sm_state := Some (s\<lparr>js_clean_shutdown := Some shutdown\<rparr>)\<rparr>"
  by (auto simp: apply_clean_shutdown_def try_in_eq_ok require_ok set_state_def at_generation_def not_le split: if_splits)

lemma apply_finalize_intent_ok:
  "apply_finalize_intent m record finalization = (Inr u, m') \<Longrightarrow>
   \<exists>s layout entry. ready m record s \<and> js_layout s = Some layout
     \<and> rf_layout_hash finalization = rcl_layout_hash layout
     \<and> rf_root_binding_hash finalization = rcl_root_binding_hash layout
     \<and> unat (file_id_get (rf_file_id finalization)) < length (fl_files (rcl_layout layout))
     \<and> entry = fl_files (rcl_layout layout) ! unat (file_id_get (rf_file_id finalization))
     \<and> fe_selected entry \<and> fe_length entry = rf_final_length finalization
     \<and> canonical_string (fe_safe_path entry) = journal_relative_path_str (rf_final_relative_path finalization)
     \<and> \<not> finalization_open s \<and> bt_get (js_finalizations s) (rf_file_id finalization) = None
     \<and> (js_finalizations s \<noteq> [] \<longrightarrow> fst (last (js_finalizations s)) < rf_file_id finalization)
     \<and> length (js_finalizations s) < jl_max_finalizations (sm_limits m)
     \<and> m' = m\<lparr>sm_state := Some (s\<lparr>js_finalizations :=
                bt_insert (rf_file_id finalization) finalization (js_finalizations s)\<rparr>)\<rparr>"
  by (auto simp: apply_finalize_intent_def try_in_eq_ok require_ok set_state_def ready_def at_generation_def Let_def not_le
        split: if_splits)

lemma apply_finalize_done_ok:
  "apply_finalize_done m record layout_hash binding_hash file_id final_relative_path = (Inr u, m') \<Longrightarrow>
   \<exists>s f. ready m record s \<and> bt_get (js_finalizations s) file_id = Some f \<and> \<not> rf_done f
     \<and> m' = m\<lparr>sm_state := Some (s\<lparr>js_finalizations := bt_insert file_id (f\<lparr>rf_done := True\<rparr>) (js_finalizations s)\<rparr>)\<rparr>"
  by (auto simp: apply_finalize_done_def try_in_eq_ok require_ok set_state_def ready_def at_generation_def split: if_splits)

lemma apply_task_created_ok:
  "apply_task_created m record durability creator_version = (Inr u, m') \<Longrightarrow>
   sm_state m = None \<and> (\<exists>s. m' = m\<lparr>sm_state := Some s\<rparr>
     \<and> js_task s = sm_task m \<and> js_durability s = durability \<and> js_generation s = jr_generation record
     \<and> js_current_options s = None \<and> js_layout s = None \<and> js_http_strong_validator s = None \<and> js_http_range_identity s = None
     \<and> js_verification_manifest s = None \<and> js_protocol_validators s = [] \<and> \<not> js_whole_file_verified s
     \<and> js_committed_spans s = [] \<and> js_durable_pieces s = [] \<and> js_retry_states s = [] \<and> js_finalizations s = []
     \<and> js_terminal s = None)"
  by (auto simp: apply_task_created_def try_in_eq_ok set_state_def split: if_splits)

lemma apply_layout_committed_ok:
  "apply_layout_committed nfc to_lowercase sha m record pending = (Inr u, m') \<Longrightarrow>
   \<exists>s. ready m record s \<and> sm_active_leases m = [] \<and> \<not> sm_network_started m
     \<and> sm_layout_record_generation m \<noteq> Some (jr_generation record)
     \<and> ((\<exists>layout. pl_chunk_count pending = 1 \<and> assemble_layout nfc to_lowercase sha (sm_task m) pending = Inr layout
           \<and> install_layout (m\<lparr>sm_state := Some (s\<lparr>js_layout := None, js_durable_pieces := []\<rparr>)\<rparr>) layout
               (js_layout s) (js_durable_pieces s) = (Inr (), m'))
        \<or> m' = m\<lparr>sm_state := Some (s\<lparr>js_layout := None, js_durable_pieces := [], js_finalizations := []\<rparr>),
              sm_pending_layout := Some (pending\<lparr>pl_previous_layout := js_layout s,
                pl_previous_durable_pieces := js_durable_pieces s\<rparr>)\<rparr>)"
  by (auto simp: apply_layout_committed_def try_in_eq_ok require_ok ready_def at_generation_def split: if_splits)

lemma apply_layout_chunk_ok:
  "apply_layout_chunk nfc to_lowercase sha m record layout_hash binding_hash chunk_index chunk_count files = (Inr u, m') \<Longrightarrow>
   \<exists>s pending pending'. at_generation m record s \<and> sm_pending_layout m = Some pending
     \<and> pending' = pending\<lparr>pl_files := pl_files pending @ files, pl_next_chunk := pl_next_chunk pending + 1\<rparr>
     \<and> pl_generation pending = jr_generation record
     \<and> ((\<exists>layout. pl_next_chunk pending' = pl_chunk_count pending' \<and> length (pl_files pending') = pl_total_file_count pending'
           \<and> assemble_layout nfc to_lowercase sha (sm_task m) pending' = Inr layout
           \<and> install_layout (m\<lparr>sm_pending_layout := None\<rparr>) layout (pl_previous_layout pending)
               (pl_previous_durable_pieces pending) = (Inr (), m'))
        \<or> m' = m\<lparr>sm_pending_layout := Some pending'\<rparr>)"
  by (auto simp: apply_layout_chunk_def finish_layout_def try_in_eq_ok require_ok Let_def split: if_splits)

lemma apply_manifest_ok:
  "apply_manifest sha m record fingerprint total_bytes count bytes = (Inr u, m') \<Longrightarrow>
   \<exists>s pending. at_generation m record s \<and> \<not> sm_network_started m \<and> js_verification_manifest s = None
     \<and> finish_manifest sha (m\<lparr>sm_pending_manifest := Some pending\<rparr>) = (Inr (), m')"
  by (cases "sm_state m") (auto simp: apply_manifest_def try_in_eq_ok require_ok at_generation_def split: if_splits)

lemma apply_manifest_chunk_ok:
  "apply_manifest_chunk sha m record fingerprint index count bytes = (Inr u, m') \<Longrightarrow>
   \<exists>s old pending. at_generation m record s \<and> sm_pending_manifest m = Some old
     \<and> finish_manifest sha (m\<lparr>sm_pending_manifest := Some pending\<rparr>) = (Inr (), m')"
  by (auto simp: apply_manifest_chunk_def try_in_eq_ok require_ok split: if_splits)

lemma piece_state_sequence_ok:
  "piece_state_sequence m input = (Inr u, m') \<Longrightarrow>
   (\<exists>s. sm_state m = Some s \<and> m' = m\<lparr>sm_seen_piece_state := True, sm_state := Some (s\<lparr>js_durable_pieces := []\<rparr>)\<rparr>)
   \<or> m' = m"
  by (auto simp: piece_state_sequence_def try_in_eq_ok set_state_def the_state_def Let_def split: if_splits)

lemma install_pieces_ok:
  "install_pieces m input = (Inr u, m') \<Longrightarrow>
   \<exists>s layout decoded durable pending. sm_state m = Some s \<and> js_layout s = Some layout
     \<and> length (js_durable_pieces s) + sum_list (map count_ones (pi_durable_bitmap input)) \<le> jl_max_durable_pieces (sm_limits m)
     \<and> try_map (run_piece (rcl_layout layout) (pi_first_piece_id input)) (run_indices (pi_evidence_runs input)) = Inr decoded
     \<and> insert_pieces (js_durable_pieces s) decoded = (Inr (), durable)
     \<and> m' = m\<lparr>sm_state := Some (s\<lparr>js_durable_pieces := durable\<rparr>), sm_pending_piece_state := pending\<rparr>"
proof -
  assume ok: "install_pieces m input = (Inr u, m')"
  then obtain s layout decoded where s: "sm_state m = Some s" "js_layout s = Some layout"
      "length (js_durable_pieces s) + sum_list (map count_ones (pi_durable_bitmap input)) \<le> jl_max_durable_pieces (sm_limits m)"
      "try_map (run_piece (rcl_layout layout) (pi_first_piece_id input)) (run_indices (pi_evidence_runs input)) = Inr decoded"
    by (auto simp: install_pieces_def try_in_eq_ok require_ok Let_def not_le not_less split: if_splits)
  moreover obtain r durable where r: "insert_pieces (js_durable_pieces s) decoded = (r, durable)" by fastforce
  moreover have "the_state m = Inr s" "require_layout m = Inr layout" using s by (simp_all add: require_ok)
  ultimately show ?thesis
    using ok by (intro exI [of _ s] exI [of _ layout] exI [of _ decoded] exI [of _ durable])
      (auto simp: install_pieces_def Let_def try_in_eq_ok split: if_splits)
qed

lemma apply_piece_state_chunk_ok:
  "apply_piece_state_chunk m record input = (Inr u, m') \<Longrightarrow>
   \<exists>s layout m1. sm_checkpoint_state m \<and> ready m record s \<and> js_layout s = Some layout
     \<and> piece_state_sequence m input = (Inr (), m1) \<and> install_pieces m1 input = (Inr (), m')"
  by (auto simp: apply_piece_state_chunk_def try_in_eq_ok require_ok ready_def at_generation_def
        split: if_splits prod.splits sum.splits)

section \<open>The step of the machine\<close>

definition next_machine :: "semantic_machine \<Rightarrow> journal_payload \<Rightarrow> semantic_machine" where
  "next_machine m payload =
     (if is_clean_shutdown payload then m
      else m\<lparr>sm_state := map_option (\<lambda>state. state\<lparr>js_clean_shutdown := None\<rparr>) (sm_state m)\<rparr>)"

lemma validate_checkpoint_order_ok:
  "validate_checkpoint_order m payload = (r, m') \<Longrightarrow>
   \<exists>rank key. m' = m\<lparr>sm_checkpoint_rank := rank, sm_checkpoint_retry_key := key\<rparr>"
proof -
  assume "validate_checkpoint_order m payload = (r, m')"
  then consider "m' = m" | key where "m' = m\<lparr>sm_checkpoint_retry_key := key\<rparr>"
    | rank where "m' = m\<lparr>sm_checkpoint_rank := rank\<rparr>"
    | rank key where "m' = m\<lparr>sm_checkpoint_retry_key := key, sm_checkpoint_rank := rank\<rparr>"
    by (auto simp: validate_checkpoint_order_def Let_def split: option.splits if_splits)
  then show ?thesis
  proof cases
    case 1
    then show ?thesis by (intro exI [of _ "sm_checkpoint_rank m"] exI [of _ "sm_checkpoint_retry_key m"]) simp
  next
    case (2 key)
    then show ?thesis by (intro exI [of _ "sm_checkpoint_rank m"] exI [of _ key]) simp
  next
    case (3 rank)
    then show ?thesis by (intro exI [of _ rank] exI [of _ "sm_checkpoint_retry_key m"]) simp
  next
    case (4 rank key)
    then show ?thesis by (intro exI [of _ rank] exI [of _ key]) simp
  qed
qed

lemma machine_apply_ok:
  assumes "machine_apply nfc to_lowercase sha m record payload = (Inr u, m')"
  obtains rank key m2 where
    "\<not> sm_checkpoint_state m \<Longrightarrow> rank = sm_checkpoint_rank m \<and> key = sm_checkpoint_retry_key m"
    "sm_pending_manifest m = None \<or> is_manifest_chunk payload" "sm_pending_layout m = None \<or> is_layout_chunk payload"
    "sm_pending_piece_state m = None \<or> is_piece_state_chunk payload"
    "\<And>s. sm_state m = Some s \<Longrightarrow> js_terminal s = None \<or> is_clean_shutdown payload"
    "machine_dispatch nfc to_lowercase sha (m\<lparr>sm_checkpoint_rank := rank, sm_checkpoint_retry_key := key\<rparr>) record payload
       = (Inr (), m2)"
    "m' = next_machine m2 payload"
proof -
  obtain m1 where pending: "sm_pending_manifest m = None \<or> is_manifest_chunk payload"
      "sm_pending_layout m = None \<or> is_layout_chunk payload" "sm_pending_piece_state m = None \<or> is_piece_state_chunk payload"
    and m1: "(if sm_checkpoint_state m then validate_checkpoint_order m payload
              else if is_checkpoint_start payload then (Inl JE_CheckpointNotFirst, m) else (Inr (), m)) = (Inr (), m1)"
    and live: "\<not> ((case sm_state m1 of None \<Rightarrow> False | Some state \<Rightarrow> js_terminal state \<noteq> None) \<and> \<not> is_clean_shutdown payload)"
    and rest: "(case machine_dispatch nfc to_lowercase sha m1 record payload of (Inl e, m2) \<Rightarrow> (Inl e, m2)
        | (Inr _, m2) \<Rightarrow> (Inr (), next_machine m2 payload)) = (Inr u, m')"
    using assms unfolding machine_apply_def next_machine_def by (auto split: if_splits prod.splits sum.splits)
  obtain rank key where eq: "m1 = m\<lparr>sm_checkpoint_rank := rank, sm_checkpoint_retry_key := key\<rparr>"
      "\<not> sm_checkpoint_state m \<Longrightarrow> rank = sm_checkpoint_rank m \<and> key = sm_checkpoint_retry_key m"
  proof (cases "sm_checkpoint_state m")
    case True
    with m1 that show ?thesis by (auto dest!: validate_checkpoint_order_ok)
  next
    case False
    with m1 show ?thesis by (intro that [where rank = "sm_checkpoint_rank m" and key = "sm_checkpoint_retry_key m"]) (auto split: if_splits)
  qed
  obtain m2 where "machine_dispatch nfc to_lowercase sha m1 record payload = (Inr (), m2)" "m' = next_machine m2 payload"
    using rest by (auto split: prod.splits sum.splits)
  with pending live eq show ?thesis by (intro that [of rank key m2]) (auto split: option.splits)
qed

lemma machine_apply_setup: "same_setup m (snd (machine_apply nfc to_lowercase sha m record payload))"
proof -
  obtain r m1 where order: "(if sm_checkpoint_state m then validate_checkpoint_order m payload
      else if is_checkpoint_start payload then (Inl JE_CheckpointNotFirst, m) else (Inr (), m)) = (r, m1)" (is "?order = _")
    by (rule prod.exhaust)
  then have "same_setup m m1" by (auto split: if_splits dest!: validate_checkpoint_order_ok)
  moreover have "same_setup m1 (snd (machine_dispatch nfc to_lowercase sha m1 record payload))" by (rule dispatch_setup)
  ultimately have "same_setup m (snd (machine_dispatch nfc to_lowercase sha m1 record payload))" by (rule same_setup_trans)
  with \<open>same_setup m m1\<close> show ?thesis
    unfolding machine_apply_def order by (cases "machine_dispatch nfc to_lowercase sha m1 record payload") (auto split: sum.splits)
qed

lemma machine_apply_keeps:
  assumes "\<not> sm_checkpoint_state m"
  shows "keeps_state m (machine_apply nfc to_lowercase sha m record payload)"
  using dispatch_keeps [OF assms, of nfc to_lowercase sha "record" payload] assms
  by (cases "machine_dispatch nfc to_lowercase sha m record payload") (auto simp: machine_apply_def assms split: sum.splits)

lemma no_state_update [simp]: "sm_state m = None \<Longrightarrow> m\<lparr>sm_state := None\<rparr> = m"
  by (cases m) simp

section \<open>The loop over records\<close>

lemma process_record_setup: "same_setup m (snd (process_record nfc to_lowercase sha m index expected record))"
proof (cases "record_decode_payload nfc sha record")
  case (Inr payload)
  have "same_setup m (snd (machine_apply nfc to_lowercase sha m record payload))" by (rule machine_apply_setup)
  then show ?thesis
    by (cases "machine_apply nfc to_lowercase sha m record payload")
      (auto simp: process_record_def Inr note_sequence_def split: sum.splits)
qed (simp add: process_record_def)

lemma process_record_keeps:
  "\<not> sm_checkpoint_state m \<Longrightarrow> process_record nfc to_lowercase sha m index expected record = (Inl e, m') \<Longrightarrow>
   sm_state m' = sm_state m"
  using machine_apply_keeps [of m nfc to_lowercase sha "record"]
  by (auto simp: process_record_def try_in_def keeps_state_def split: if_splits sum.split_asm prod.split_asm)

lemma process_record_ok:
  assumes "process_record nfc to_lowercase sha m index expected record = (Inr u, m')"
  obtains payload m1 where "jr_sequence record = expected" "index < jl_max_records (sm_limits m)"
    "record_decode_payload nfc sha record = Inr payload"
    "machine_apply nfc to_lowercase sha m record payload = (Inr (), m1)" "m' = note_sequence record m1"
proof -
  from assms obtain payload where p: "record_decode_payload nfc sha record = Inr payload"
    by (auto simp: process_record_def try_in_eq_ok map_err_eq_Inr split: if_splits)
  obtain r m1 where "machine_apply nfc to_lowercase sha m record payload = (r, m1)" by fastforce
  with assms p show ?thesis by (intro that [of payload m1]; cases r) (auto simp: process_record_def split: if_splits)
qed

lemma process_from_setup: "same_setup m (snd (process_from nfc to_lowercase sha m start relative expected records))"
proof (induction records arbitrary: m relative expected)
  case (Cons r0 records)
  have "same_setup m (snd (process_record nfc to_lowercase sha m (start + relative) expected r0))"
    by (rule process_record_setup)
  then show ?case using Cons.IH same_setup_trans by (fastforce split: prod.splits sum.splits)
qed simp

lemma process_from_append:
  "process_from nfc to_lowercase sha m start relative expected (xs @ ys) =
   (case process_from nfc to_lowercase sha m start relative expected xs of
      (Inl e, m1) \<Rightarrow> (Inl e, m1)
    | (Inr _, m1) \<Rightarrow>
        process_from nfc to_lowercase sha m1 start (relative + length xs)
          (((\<lambda>q. saturating_add q 1) ^^ length xs) expected) ys)"
  by (induction xs arbitrary: m relative expected) (auto simp: funpow_Suc_right simp del: funpow.simps(2) split: prod.splits sum.splits)

text \<open>A run that stops at a record has accepted the records before it, and a live one leaves the state they gave.\<close>

lemma process_from_stop:
  assumes "process_from nfc to_lowercase sha m start relative expected records = (Inl (i, e), m')"
  obtains k m1 where "i = relative + k" "k < length records"
    "process_from nfc to_lowercase sha m start relative expected (take k records) = (Inr (), m1)"
    "\<not> sm_checkpoint_state m \<Longrightarrow> sm_state m' = sm_state m1"
proof -
  have "\<exists>k m1. i = relative + k \<and> k < length records
    \<and> process_from nfc to_lowercase sha m start relative expected (take k records) = (Inr (), m1)
    \<and> (\<not> sm_checkpoint_state m \<longrightarrow> sm_state m' = sm_state m1)"
    using assms
  proof (induction records arbitrary: m relative expected)
    case (Cons r0 records)
    obtain r m2 where r: "process_record nfc to_lowercase sha m (start + relative) expected r0 = (r, m2)" by fastforce
    show ?case
    proof (cases r)
      case (Inl e')
      then show ?thesis using Cons.prems r process_record_keeps by (intro exI [of _ 0]) (auto simp: r)
    next
      case (Inr u)
      with Cons.prems r have rest: "process_from nfc to_lowercase sha m2 start (Suc relative) (saturating_add expected 1) records = (Inl (i, e), m')"
        by simp
      have mode: "sm_checkpoint_state m2 = sm_checkpoint_state m"
        using process_record_setup [of m nfc to_lowercase sha "start + relative" expected "r0"] r by (simp add: same_setup_def)
      obtain k m1 where "i = Suc relative + k" "k < length records"
        "process_from nfc to_lowercase sha m2 start (Suc relative) (saturating_add expected 1) (take k records) = (Inr (), m1)"
        "\<not> sm_checkpoint_state m2 \<longrightarrow> sm_state m' = sm_state m1"
        using Cons.IH [OF rest] by blast
      then show ?thesis using Inr r mode by (intro exI [of _ "Suc k"] exI [of _ m1]) simp
    qed
  qed simp
  then show ?thesis using that by blast
qed

section \<open>Invariants of replay\<close>

text \<open>
  What a predicate on machines must satisfy to hold of every machine that recovery reaches. The first assumptions
  are about one record, the last two about the start of a run and the end of a checkpoint.
\<close>

locale replay_invariant =
  fixes nfc to_lowercase :: "string \<Rightarrow> string" and sha :: sha256 and P :: "semantic_machine \<Rightarrow> bool"
  assumes fresh: "P (machine_new task option_policy limits checkpoint generation)"
    and ranked: "P m \<Longrightarrow> P (m\<lparr>sm_checkpoint_rank := rank, sm_checkpoint_retry_key := key\<rparr>)"
    and dispatched: "P m \<Longrightarrow> record_decode_payload nfc sha record = Inr payload \<Longrightarrow>
      sm_pending_layout m = None \<or> is_layout_chunk payload \<Longrightarrow>
      (\<And>s. sm_state m = Some s \<Longrightarrow> js_terminal s = None \<or> is_clean_shutdown payload) \<Longrightarrow>
      machine_dispatch nfc to_lowercase sha m record payload = (Inr (), m') \<Longrightarrow> P m'"
    and shutdown_cleared: "P m \<Longrightarrow> sm_state m = Some s \<Longrightarrow> P (m\<lparr>sm_state := Some (s\<lparr>js_clean_shutdown := None\<rparr>)\<rparr>)"
    and sequenced: "P m \<Longrightarrow> sm_state m = Some s \<Longrightarrow> P (m\<lparr>sm_state := Some (s\<lparr>js_last_sequence := q\<rparr>)\<rparr>)"
    and adopted: "P m \<Longrightarrow> sm_state m = Some s \<Longrightarrow> P (m\<lparr>sm_state := Some (s\<lparr>js_checkpoint := c, js_last_sequence := q\<rparr>),
      sm_checkpoint_state := False, sm_expected_checkpoint_generation := None\<rparr>)"
begin

lemma applied:
  assumes "P m" "record_decode_payload nfc sha record = Inr payload"
    "machine_apply nfc to_lowercase sha m record payload = (Inr u, m')"
  shows "P m'"
proof -
  from assms(3) obtain rank key m2 where m2:
    "sm_pending_layout m = None \<or> is_layout_chunk payload"
    "\<And>s. sm_state m = Some s \<Longrightarrow> js_terminal s = None \<or> is_clean_shutdown payload"
    "machine_dispatch nfc to_lowercase sha (m\<lparr>sm_checkpoint_rank := rank, sm_checkpoint_retry_key := key\<rparr>) record payload
       = (Inr (), m2)" "m' = next_machine m2 payload"
    by (rule machine_apply_ok) (rule that; assumption)
  have "P m2" by (rule dispatched [OF ranked [OF assms(1)] assms(2) _ _ m2(3)]) (use m2 in auto)
  then show ?thesis using shutdown_cleared [of m2] by (cases "sm_state m2") (auto simp: m2(4) next_machine_def)
qed

lemma processed_record:
  assumes "P m" "process_record nfc to_lowercase sha m index expected record = (Inr u, m')"
  shows "P m'"
proof -
  from assms(2) obtain payload m1 where "record_decode_payload nfc sha record = Inr payload"
    "machine_apply nfc to_lowercase sha m record payload = (Inr (), m1)" and m': "m' = note_sequence record m1"
    by (rule process_record_ok) (rule that; assumption)
  then have "P m1" using applied assms(1) by blast
  then show ?thesis using sequenced [of m1] by (cases "sm_state m1") (auto simp: m' note_sequence_def)
qed

lemma processed:
  "P m \<Longrightarrow> process_from nfc to_lowercase sha m start relative expected records = (Inr u, m') \<Longrightarrow> P m'"
  by (induction records arbitrary: m relative expected) (auto split: prod.split_asm sum.split_asm dest: processed_record)

lemma stopped:
  assumes "P m" "\<not> sm_checkpoint_state m" "process_from nfc to_lowercase sha m start relative expected records = (r, m')"
  obtains m1 where "P m1" "sm_state m' = sm_state m1" "same_setup m m1"
proof (cases r)
  case (Inr u)
  then show ?thesis using that [of m'] processed assms process_from_setup [of m nfc to_lowercase sha start relative expected records]
    by auto
next
  case (Inl ie)
  obtain k m1 where "process_from nfc to_lowercase sha m start relative expected (take k records) = (Inr (), m1)"
    "sm_state m' = sm_state m1"
    using assms(2,3) Inl process_from_stop [of nfc to_lowercase sha m start relative expected records "fst ie" "snd ie" m']
    by (metis prod.collapse)
  then show ?thesis using that [of m1] processed assms(1)
      process_from_setup [of m nfc to_lowercase sha start relative expected "take k records"] by auto
qed

end

end
