(* ===== verification/JournalPrefix.thy ===== *)
theory JournalPrefix
  imports JournalSteps
begin

text \<open>
  Recovery stops at the first record it cannot accept. This theory shows that what it returns is then what it
  returns for the records before that one: \<open>accepts\<close> says that a whole list of records is accepted and with
  which machine, and every result of \<^const>\<open>recover_journal_state\<close> is described through it. A task that has
  reached a terminal state stays in it.
\<close>

section \<open>Accepted journals\<close>

definition live_start :: "task_id \<Rightarrow> (string \<Rightarrow> bool) \<Rightarrow> journal_state_limits \<Rightarrow> semantic_machine" where
  "live_start task option_policy limits = machine_new task option_policy limits False None"

text \<open>The machine after a checkpoint, with which the records behind it are processed.\<close>

definition adopt_checkpoint ::
  "checkpoint_id \<Rightarrow> u64 \<Rightarrow> journal_hash \<Rightarrow> u32 \<Rightarrow> journal_hash \<Rightarrow> u64 \<Rightarrow> semantic_machine \<Rightarrow> recovered_journal_state \<Rightarrow>
   semantic_machine" where
  "adopt_checkpoint checkpoint_id source_last source_hash count state_hash end_sequence m state =
     m\<lparr>sm_state := Some (state\<lparr>js_checkpoint := Some
         \<lparr>rcp_checkpoint_id = checkpoint_id, rcp_source_last_sequence = source_last,
          rcp_source_segment_hash = source_hash, rcp_state_record_count = count, rcp_state_hash = state_hash,
          rcp_end_sequence = end_sequence\<rparr>,
        js_last_sequence := end_sequence\<rparr>),
       sm_checkpoint_state := False, sm_expected_checkpoint_generation := None\<rparr>"

definition checkpoint_accepts ::
  "(string \<Rightarrow> string) \<Rightarrow> (string \<Rightarrow> string) \<Rightarrow> sha256 \<Rightarrow> task_id \<Rightarrow> (string \<Rightarrow> bool) \<Rightarrow> journal_state_limits \<Rightarrow>
   journal_record list \<Rightarrow> nat \<Rightarrow> semantic_machine \<Rightarrow> bool" where
  "checkpoint_accepts nfc to_lowercase sha task option_policy limits records end_index m \<longleftrightarrow>
     (\<exists>cid last_q source_hash count state_hash m0 state.
        checkpoint_envelope nfc sha records limits = Inr (cid, last_q, source_hash, count, end_index, state_hash)
        \<and> checkpoint_state nfc to_lowercase sha records task option_policy limits end_index = Inr (m0, state)
        \<and> m = adopt_checkpoint cid last_q source_hash count state_hash (jr_sequence (records ! end_index)) m0 state)"

definition accepts ::
  "(string \<Rightarrow> string) \<Rightarrow> (string \<Rightarrow> string) \<Rightarrow> sha256 \<Rightarrow> task_id \<Rightarrow> (string \<Rightarrow> bool) \<Rightarrow> journal_state_limits \<Rightarrow>
   journal_record list \<Rightarrow> semantic_machine \<Rightarrow> bool" where
  "accepts nfc to_lowercase sha task option_policy limits records m \<longleftrightarrow>
     records \<noteq> []
     \<and> (if jr_record_type (hd records) = RT_CheckpointStart then
          \<exists>end_index m1. checkpoint_accepts nfc to_lowercase sha task option_policy limits records end_index m1
            \<and> process_from nfc to_lowercase sha m1 (end_index + 1) 0
                (saturating_add (jr_sequence (records ! end_index)) 1) (drop (end_index + 1) records) = (Inr (), m)
        else
          process_from nfc to_lowercase sha (live_start task option_policy limits) 0 0 1 records = (Inr (), m))"

section \<open>Every accepted record leaves a state\<close>

lemma install_layout_state: "install_layout m l p d = (Inr u, m') \<Longrightarrow> sm_state m' \<noteq> None"
  by (auto simp: install_layout_ok Let_def)

lemma finish_manifest_state: "finish_manifest sha m = (Inr u, m') \<Longrightarrow> sm_state m \<noteq> None \<Longrightarrow> sm_state m' \<noteq> None"
  by (auto dest!: finish_manifest_ok split: if_splits)

lemma dispatch_state:
  assumes "machine_dispatch nfc to_lowercase sha m record payload = (Inr u, m')"
  shows "sm_state m' \<noteq> None"
proof (cases payload)
  case (JP_LayoutCommitted a b c d e f g h i)
  then show ?thesis using assms by (auto dest!: apply_layout_committed_ok install_layout_state)
next
  case (JP_LayoutChunk a b c d e)
  then show ?thesis using assms by (auto dest!: apply_layout_chunk_ok install_layout_state simp: at_generation_def)
next
  case (JP_VerificationManifest a b c d)
  then show ?thesis using assms by (auto dest!: apply_manifest_ok finish_manifest_state simp: at_generation_def)
next
  case (JP_VerificationManifestChunk a b c d)
  then show ?thesis using assms by (auto dest!: apply_manifest_chunk_ok finish_manifest_state simp: at_generation_def)
next
  case (JP_PieceStateChunk a b c d e f g h)
  then show ?thesis using assms by (auto dest!: apply_piece_state_chunk_ok install_pieces_ok)
next
  case (JP_OptionsSnapshot a b c d)
  then show ?thesis using assms by (auto dest!: apply_options_ok)
next
  case (JP_PieceWritten a b c)
  then show ?thesis using assms
    by (auto simp: apply_piece_written_def try_in_eq_ok require_ok ready_def at_generation_def split: if_splits)
next
  case (JP_HostKeyState a)
  then show ?thesis using assms by (auto dest!: apply_host_key_state_ok)
qed (use assms in \<open>auto dest!: apply_task_created_ok apply_generation_started_ok apply_lease_started_ok apply_piece_started_ok
       apply_lease_committed_ok apply_lease_aborted_ok apply_piece_verified_ok apply_piece_failed_ok apply_piece_durable_ok
       apply_retry_ok apply_paused_ok apply_complete_ok apply_terminal_ok apply_clean_shutdown_ok apply_finalize_intent_ok
       apply_finalize_done_ok apply_metadata_complete_ok readyD
       simp: apply_http_strong_validator_ok apply_http_range_identity_ok apply_protocol_validator_ok
         apply_whole_verified_ok Let_def\<close>)

lemma process_record_state:
  assumes "process_record nfc to_lowercase sha m index expected record = (Inr u, m')"
  shows "\<exists>s. sm_state m' = Some s \<and> js_last_sequence s = jr_sequence record"
proof -
  from assms obtain payload m1 where "machine_apply nfc to_lowercase sha m record payload = (Inr (), m1)"
    and m': "m' = note_sequence record m1"
    by (rule process_record_ok) (rule that; assumption)
  then obtain rank key m2 where
    "machine_dispatch nfc to_lowercase sha (m\<lparr>sm_checkpoint_rank := rank, sm_checkpoint_retry_key := key\<rparr>) record payload
       = (Inr (), m2)" "m1 = next_machine m2 payload"
    by (elim machine_apply_ok) (rule that; assumption)
  moreover from this(1) obtain s where "sm_state m2 = Some s" using dispatch_state by blast
  ultimately show ?thesis by (cases "is_clean_shutdown payload") (simp_all add: m' note_sequence_def next_machine_def)
qed

lemma process_from_state:
  "process_from nfc to_lowercase sha m start relative expected records = (Inr u, m') \<Longrightarrow> records \<noteq> [] \<Longrightarrow>
   \<exists>s. sm_state m' = Some s \<and> js_last_sequence s = jr_sequence (last records)"
proof (induction records arbitrary: m relative expected)
  case (Cons r0 records)
  then obtain m1 where m1: "process_record nfc to_lowercase sha m (start + relative) expected r0 = (Inr (), m1)"
    "process_from nfc to_lowercase sha m1 start (Suc relative) (saturating_add expected 1) records = (Inr u, m')"
    by (auto split: prod.split_asm sum.split_asm)
  show ?case
  proof (cases "records = []")
    case True
    then show ?thesis using m1 process_record_state [OF m1(1)] by simp
  next
    case False
    then show ?thesis using Cons.IH [OF m1(2)] by simp
  qed
qed simp

section \<open>Prefixes of a checkpoint journal\<close>

lemma sequence_gap_take: "end_index < n \<Longrightarrow> sequence_gap (take n records) end_index = sequence_gap records end_index"
  unfolding sequence_gap_def by (rule find_cong) auto

lemma take_tl_take: "Suc k < n \<Longrightarrow> take k (tl (take n xs)) = take k (tl xs)"
  by (cases n; cases xs) auto

lemma checkpoint_envelope_end:
  "checkpoint_envelope nfc sha records limits = Inr (cid, q, h, count, end_index, state_hash) \<Longrightarrow>
   1 \<le> end_index \<and> end_index < length records \<and> end_index < jl_max_records limits"
  by (auto simp: checkpoint_envelope_def Let_def
        split: if_splits sum.split_asm journal_payload.split_asm option.split_asm)

lemma checkpoint_envelope_take:
  assumes "checkpoint_envelope nfc sha records limits = Inr (cid, q, h, count, end_index, state_hash)" "end_index < n"
  shows "checkpoint_envelope nfc sha (take n records) limits = Inr (cid, q, h, count, end_index, state_hash)"
proof -
  note bounds = checkpoint_envelope_end [OF assms(1)]
  have eqs: "hd (take n records) = hd records" "sequence_gap (take n records) end_index = sequence_gap records end_index"
    "take (end_index - 1) (tl (take n records)) = take (end_index - 1) (tl records)" "take n records ! end_index = records ! end_index"
    using assms(2) bounds by (simp_all add: sequence_gap_take tl_take min_def)
  show ?thesis using assms bounds
    by (auto simp: checkpoint_envelope_def Let_def eqs take_tl_take sequence_gap_take
          split: if_splits sum.split_asm journal_payload.split_asm option.split_asm)
qed

lemma checkpoint_accepts_take:
  assumes "checkpoint_accepts nfc to_lowercase sha task option_policy limits records end_index m" "end_index < n"
  shows "checkpoint_accepts nfc to_lowercase sha task option_policy limits (take n records) end_index m"
proof -
  obtain cid q h count state_hash m0 state where e:
    "checkpoint_envelope nfc sha records limits = Inr (cid, q, h, count, end_index, state_hash)"
    "checkpoint_state nfc to_lowercase sha records task option_policy limits end_index = Inr (m0, state)"
    "m = adopt_checkpoint cid q h count state_hash (jr_sequence (records ! end_index)) m0 state"
    using assms(1) by (auto simp: checkpoint_accepts_def)
  have "hd (take n records) = hd records" "take (end_index - 1) (tl (take n records)) = take (end_index - 1) (tl records)"
    using assms(2) by (simp_all add: tl_take min_def)
  then have "checkpoint_state nfc to_lowercase sha (take n records) task option_policy limits end_index = Inr (m0, state)"
    using e(2) by (auto simp: checkpoint_state_def Let_def split: prod.split_asm sum.split_asm option.split_asm if_splits)
  moreover have "take n records ! end_index = records ! end_index" using assms(2) by simp
  ultimately show ?thesis using checkpoint_envelope_take [OF e(1) assms(2)] e(3) unfolding checkpoint_accepts_def by metis
qed

lemma checkpoint_accepts_unique:
  "checkpoint_accepts nfc to_lowercase sha task option_policy limits records i m \<Longrightarrow>
   checkpoint_accepts nfc to_lowercase sha task option_policy limits records j m' \<Longrightarrow> i = j \<and> m = m'"
  by (auto simp: checkpoint_accepts_def)

lemma checkpoint_accepts_live:
  assumes "checkpoint_accepts nfc to_lowercase sha task option_policy limits records end_index m"
  shows "\<not> sm_checkpoint_state m \<and> sm_limits m = limits \<and> end_index < length records
    \<and> (\<exists>s. sm_state m = Some s \<and> js_last_sequence s = jr_sequence (records ! end_index))"
proof -
  obtain cid q h count state_hash m0 state where e:
    "checkpoint_envelope nfc sha records limits = Inr (cid, q, h, count, end_index, state_hash)"
    "checkpoint_state nfc to_lowercase sha records task option_policy limits end_index = Inr (m0, state)"
    "m = adopt_checkpoint cid q h count state_hash (jr_sequence (records ! end_index)) m0 state"
    using assms(1) by (auto simp: checkpoint_accepts_def)
  let ?start = "machine_new task option_policy limits True (Some (jr_generation (hd records)))"
  have "process_from nfc to_lowercase sha ?start 1 0 2 (take (end_index - 1) (tl records)) = (Inr (), m0)"
    using e(2) by (auto simp: checkpoint_state_def process_records_def Let_def
        split: prod.split_asm sum.split_asm option.split_asm if_splits)
  then have "sm_limits m0 = limits"
    using process_from_setup [of ?start nfc to_lowercase sha 1 0 2 "take (end_index - 1) (tl records)"]
    by (simp add: same_setup_def machine_new_def)
  then show ?thesis using checkpoint_envelope_end [OF e(1)] by (simp add: e(3) adopt_checkpoint_def)
qed

section \<open>Results of recovery\<close>

lemma process_from_split:
  assumes "process_from nfc to_lowercase sha m start 0 expected records = (Inr (), m')" "k \<le> length records"
  obtains m1 q where "process_from nfc to_lowercase sha m start 0 expected (take k records) = (Inr (), m1)"
    "process_from nfc to_lowercase sha m1 start k q (drop k records) = (Inr (), m')"
proof -
  have split: "process_from nfc to_lowercase sha m start 0 expected (take k records @ drop k records) = (Inr (), m')"
    using assms(1) by simp
  obtain r m1 where r: "process_from nfc to_lowercase sha m start 0 expected (take k records) = (r, m1)" by fastforce
  with split show ?thesis using assms(2) that [of m1] unfolding process_from_append
    by (cases r) (auto simp: min_absorb2)
qed

text \<open>Which records were accepted, and the machine after them.\<close>

lemma recover_accepts:
  assumes "accepts nfc to_lowercase sha task option_policy limits records m"
  shows "recover_journal_state nfc to_lowercase sha records task option_policy limits = finish_replay m (length records)"
proof (cases "jr_record_type (hd records) = RT_CheckpointStart")
  case True
  with assms obtain end_index m1 where m1: "records \<noteq> []"
    "checkpoint_accepts nfc to_lowercase sha task option_policy limits records end_index m1"
    "process_from nfc to_lowercase sha m1 (end_index + 1) 0 (saturating_add (jr_sequence (records ! end_index)) 1)
       (drop (end_index + 1) records) = (Inr (), m)"
    by (auto simp: accepts_def)
  then show ?thesis using True
    by (auto simp: recover_journal_state_def recover_checkpoint_def process_records_def checkpoint_accepts_def
        adopt_checkpoint_def Let_def)
next
  case False
  then show ?thesis using assms
    by (auto simp: accepts_def recover_journal_state_def recover_live_def process_records_def live_start_def)
qed

lemma checkpoint_invalid_sel [simp]:
  "jsr_state (checkpoint_invalid i q e) = None" "jsr_accepted_records (checkpoint_invalid i q e) = 0"
  "jsr_last_sequence (checkpoint_invalid i q e) = 0" "jsr_stop (checkpoint_invalid i q e) = JS_InvalidRecord i q e"
  by (simp_all add: checkpoint_invalid_def invalid_replay_def)

lemma checkpoint_rejected:
  "checkpoint_envelope nfc sha records limits = Inl r \<Longrightarrow> \<exists>i q e. r = checkpoint_invalid i q e"
  "checkpoint_state nfc to_lowercase sha records task option_policy limits end_index = Inl r \<Longrightarrow> \<exists>i q e. r = checkpoint_invalid i q e"
  by (auto simp: checkpoint_envelope_def checkpoint_state_def Let_def
        split: if_splits sum.split_asm journal_payload.split_asm option.split_asm prod.split_asm)

text \<open>A result that is that of the first records of the journal, or of none.\<close>

definition prefix_result ::
  "(string \<Rightarrow> string) \<Rightarrow> (string \<Rightarrow> string) \<Rightarrow> sha256 \<Rightarrow> task_id \<Rightarrow> (string \<Rightarrow> bool) \<Rightarrow> journal_state_limits \<Rightarrow>
   journal_record list \<Rightarrow> journal_state_replay \<Rightarrow> bool" where
  "prefix_result nfc to_lowercase sha task option_policy limits records r \<longleftrightarrow>
     (jsr_state r = None \<and> jsr_accepted_records r = 0 \<and> jsr_last_sequence r = 0)
     \<or> (\<exists>n m. 0 < n \<and> n \<le> length records \<and> accepts nfc to_lowercase sha task option_policy limits (take n records) m
          \<and> jsr_state r = sm_state m \<and> jsr_accepted_records r = n \<and> jsr_last_sequence r = jr_sequence (records ! (n - 1)))"

lemma prefix_resultI:
  assumes "0 < n" "n \<le> length records" "accepts nfc to_lowercase sha task option_policy limits (take n records) m"
    "jsr_state r = sm_state m" "jsr_accepted_records r = n" "jsr_last_sequence r = jr_sequence (records ! (n - 1))"
  shows "prefix_result nfc to_lowercase sha task option_policy limits records r"
  using assms unfolding prefix_result_def by blast

lemma accepts_state:
  assumes "accepts nfc to_lowercase sha task option_policy limits records m"
  shows "\<exists>s. sm_state m = Some s \<and> js_last_sequence s = jr_sequence (last records)"
proof (cases "jr_record_type (hd records) = RT_CheckpointStart")
  case True
  with assms obtain j m1 where j: "records \<noteq> []" "checkpoint_accepts nfc to_lowercase sha task option_policy limits records j m1"
    "process_from nfc to_lowercase sha m1 (j + 1) 0 (saturating_add (jr_sequence (records ! j)) 1) (drop (j + 1) records) = (Inr (), m)"
    by (auto simp: accepts_def)
  note live = checkpoint_accepts_live [OF j(2)]
  show ?thesis
  proof (cases "drop (j + 1) records = []")
    case True
    then have "j = length records - 1" using live by auto
    then show ?thesis using True j live by (auto simp: last_conv_nth)
  next
    case False
    then show ?thesis using process_from_state [OF j(3)] by (simp add: last_drop)
  qed
next
  case False
  then show ?thesis using assms process_from_state by (fastforce simp: accepts_def)
qed

lemma finish_prefix:
  assumes "accepts nfc to_lowercase sha task option_policy limits records m"
  shows "prefix_result nfc to_lowercase sha task option_policy limits records (finish_replay m (length records))"
  using assms accepts_state [OF assms]
  by (intro prefix_resultI [of "length records" _ _ _ _ _ _ _ m]) (auto simp: accepts_def finish_replay_def last_conv_nth)

lemma live_prefix:
  assumes "records \<noteq> []" "jr_record_type (hd records) \<noteq> RT_CheckpointStart"
  shows "prefix_result nfc to_lowercase sha task option_policy limits records
    (recover_live nfc to_lowercase sha records task option_policy limits)" (is "prefix_result _ _ _ _ _ _ _ ?r")
proof -
  obtain res m where run: "process_from nfc to_lowercase sha (live_start task option_policy limits) 0 0 1 records = (res, m)"
    by fastforce
  show ?thesis
  proof (cases res)
    case (Inr u)
    then have "accepts nfc to_lowercase sha task option_policy limits records m" using run assms by (simp add: accepts_def)
    then show ?thesis using finish_prefix run Inr by (simp add: recover_live_def process_records_def live_start_def)
  next
    case (Inl ie)
    obtain i e where ie: "ie = (i, e)" by fastforce
    obtain m1 where m1: "i < length records"
      "process_from nfc to_lowercase sha (live_start task option_policy limits) 0 0 1 (take i records) = (Inr (), m1)"
      "sm_state m = sm_state m1"
      using run Inl ie by (auto elim!: process_from_stop simp: live_start_def machine_new_def)
    have res: "jsr_state ?r = sm_state m1" "jsr_accepted_records ?r = i"
      "jsr_last_sequence ?r = (if i = 0 then 0 else jr_sequence (records ! (i - 1)))"
      using run Inl ie m1(3) by (simp_all add: recover_live_def process_records_def live_start_def invalid_replay_def)
    show ?thesis
    proof (cases "i = 0")
      case True
      then have "sm_state m1 = None" using m1(2) by (auto simp: live_start_def machine_new_def)
      then show ?thesis using res True by (simp add: prefix_result_def)
    next
      case False
      then have "accepts nfc to_lowercase sha task option_policy limits (take i records) m1"
        using m1 assms by (simp add: accepts_def)
      then show ?thesis using res m1(1) False by (intro prefix_resultI [of i _ _ _ _ _ _ _ m1]) auto
    qed
  qed
qed

lemma recover_checkpoint_accepted:
  assumes "checkpoint_accepts nfc to_lowercase sha task option_policy limits records j m0"
  shows "recover_checkpoint nfc to_lowercase sha records task option_policy limits =
    (case process_from nfc to_lowercase sha m0 (j + 1) 0 (saturating_add (jr_sequence (records ! j)) 1) (drop (j + 1) records) of
       (Inr _, m2) \<Rightarrow> finish_replay m2 (length records)
     | (Inl (relative, error), m2) \<Rightarrow>
         invalid_replay (sm_state m2) (j + 1 + relative) (jr_sequence (records ! (j + relative))) (j + 1 + relative)
           (jr_sequence (records ! (j + 1 + relative))) error)"
  using assms unfolding checkpoint_accepts_def recover_checkpoint_def process_records_def adopt_checkpoint_def
  by (elim exE conjE) (simp add: Let_def split: prod.split sum.split)

lemma checkpoint_prefix:
  assumes "records \<noteq> []" "jr_record_type (hd records) = RT_CheckpointStart"
  shows "prefix_result nfc to_lowercase sha task option_policy limits records
    (recover_checkpoint nfc to_lowercase sha records task option_policy limits)" (is "prefix_result _ _ _ _ _ _ _ ?r")
proof (cases "\<exists>j m0. checkpoint_accepts nfc to_lowercase sha task option_policy limits records j m0")
  case False
  then have "\<exists>i q e. ?r = checkpoint_invalid i q e"
    unfolding recover_checkpoint_def checkpoint_accepts_def
    by (auto split: sum.splits prod.splits dest: checkpoint_rejected)
  then show ?thesis by (auto simp: prefix_result_def)
next
  case True
  then obtain j m0 where j: "checkpoint_accepts nfc to_lowercase sha task option_policy limits records j m0" by blast
  note live = checkpoint_accepts_live [OF j]
  let ?q = "saturating_add (jr_sequence (records ! j)) 1"
  have acc: "accepts nfc to_lowercase sha task option_policy limits (take (j + 1 + k) records) m1"
    if "process_from nfc to_lowercase sha m0 (j + 1) 0 ?q (take k (drop (j + 1) records)) = (Inr (), m1)" for k m1
    using that assms checkpoint_accepts_take [OF j, of "j + 1 + k"]
    by (auto simp: accepts_def drop_take intro!: exI [of _ j] exI [of _ m0])
  obtain res m where run: "process_from nfc to_lowercase sha m0 (j + 1) 0 ?q (drop (j + 1) records) = (res, m)" by fastforce
  show ?thesis
  proof (cases res)
    case (Inr u)
    then have "accepts nfc to_lowercase sha task option_policy limits records m"
      using acc [of "length records" m] run by simp
    then show ?thesis using finish_prefix run Inr by (simp add: recover_checkpoint_accepted [OF j])
  next
    case (Inl ie)
    obtain i e where ie: "ie = (i, e)" by fastforce
    obtain m1 where m1: "i < length records - (j + 1)"
      "process_from nfc to_lowercase sha m0 (j + 1) 0 ?q (take i (drop (j + 1) records)) = (Inr (), m1)" "sm_state m = sm_state m1"
      using run Inl ie live by (auto elim!: process_from_stop)
    then show ?thesis using acc [OF m1(2)] run Inl ie
      by (intro prefix_resultI [of "j + 1 + i" _ _ _ _ _ _ _ m1]) (auto simp: recover_checkpoint_accepted [OF j] invalid_replay_def)
  qed
qed

lemma recover_prefix:
  "prefix_result nfc to_lowercase sha task option_policy limits records
     (recover_journal_state nfc to_lowercase sha records task option_policy limits)"
  using live_prefix [of records] checkpoint_prefix [of records]
  by (auto simp: recover_journal_state_def prefix_result_def [of _ _ _ _ _ _ "[]"])

section \<open>The rest of an accepted journal\<close>

lemma checkpoint_envelope_count:
  "checkpoint_envelope nfc sha records limits = Inr (cid, q, h, count, end_index, state_hash) \<Longrightarrow>
   \<exists>t. record_decode_payload nfc sha (hd records) = Inr (JP_CheckpointStart cid q h count t) \<and> end_index = 1 + unat count"
  by (auto simp: checkpoint_envelope_def Let_def
        split: if_splits sum.split_asm journal_payload.split_asm option.split_asm)

lemma checkpoint_accepts_end:
  assumes "checkpoint_accepts nfc to_lowercase sha task option_policy limits records i m"
    "checkpoint_accepts nfc to_lowercase sha task option_policy limits records' j m'" "hd records = hd records'"
  shows "i = j"
  using assms by (auto simp: checkpoint_accepts_def dest!: checkpoint_envelope_count)

lemma accepts_rest:
  assumes "accepts nfc to_lowercase sha task option_policy limits records m"
    "accepts nfc to_lowercase sha task option_policy limits (take n records) m1" "n \<le> length records"
  shows "\<not> sm_checkpoint_state m1
    \<and> (\<exists>start relative q. process_from nfc to_lowercase sha m1 start relative q (drop n records) = (Inr (), m))"
proof -
  have n: "take n records \<noteq> []" using assms(2) by (simp add: accepts_def)
  then have hd: "hd (take n records) = hd records" by simp
  show ?thesis
  proof (cases "jr_record_type (hd records) = RT_CheckpointStart")
    case True
    obtain j m0 where j: "checkpoint_accepts nfc to_lowercase sha task option_policy limits records j m0"
      "process_from nfc to_lowercase sha m0 (j + 1) 0 (saturating_add (jr_sequence (records ! j)) 1) (drop (j + 1) records) = (Inr (), m)"
      using assms(1) True by (auto simp: accepts_def)
    obtain i m2 where i: "checkpoint_accepts nfc to_lowercase sha task option_policy limits (take n records) i m2"
      "process_from nfc to_lowercase sha m2 (i + 1) 0 (saturating_add (jr_sequence (take n records ! i)) 1)
         (drop (i + 1) (take n records)) = (Inr (), m1)"
      using assms(2) True hd by (auto simp: accepts_def)
    have ij: "i = j" using checkpoint_accepts_end [OF i(1) j(1) hd] .
    have lt: "j < n" using checkpoint_accepts_live [OF i(1)] ij by simp
    then have m2: "m2 = m0" using checkpoint_accepts_unique [OF i(1) checkpoint_accepts_take [OF j(1)]] ij by simp
    have "n - (j + 1) \<le> length (drop (j + 1) records)" using assms(3) by simp
    from process_from_split [OF j(2) this] obtain m3 q where m3:
      "process_from nfc to_lowercase sha m0 (j + 1) 0 (saturating_add (jr_sequence (records ! j)) 1)
         (take (n - (j + 1)) (drop (j + 1) records)) = (Inr (), m3)"
      "process_from nfc to_lowercase sha m3 (j + 1) (n - (j + 1)) q (drop (n - (j + 1)) (drop (j + 1) records)) = (Inr (), m)"
      by blast
    have "m3 = m1" using m3(1) i(2) lt by (simp add: ij m2 drop_take)
    moreover have "drop (n - (j + 1)) (drop (j + 1) records) = drop n records" using lt by simp
    moreover have "\<not> sm_checkpoint_state m1"
      using checkpoint_accepts_live [OF j(1)] i(2) m2
        process_from_setup [of m2 nfc to_lowercase sha "i + 1" 0 "saturating_add (jr_sequence (take n records ! i)) 1"
          "drop (i + 1) (take n records)"] by (simp add: same_setup_def)
    ultimately show ?thesis using m3(2) by metis
  next
    case False
    let ?start = "live_start task option_policy limits"
    have "process_from nfc to_lowercase sha ?start 0 0 1 records = (Inr (), m)"
      and run: "process_from nfc to_lowercase sha ?start 0 0 1 (take n records) = (Inr (), m1)"
      using assms False hd by (simp_all add: accepts_def)
    then obtain q where "process_from nfc to_lowercase sha m1 0 n q (drop n records) = (Inr (), m)"
      using assms(3) by (metis process_from_split old.prod.inject)
    moreover have "\<not> sm_checkpoint_state m1"
      using run process_from_setup [of ?start nfc to_lowercase sha 0 0 1 "take n records"]
      by (simp add: same_setup_def live_start_def machine_new_def)
    ultimately show ?thesis by blast
  qed
qed

text \<open>Between two results of recovery on the same journal lies a run over the records that separate them.\<close>

lemma recovered_run:
  assumes "jsr_state (recover_journal_state nfc to_lowercase sha (take k records) task option_policy limits) = Some s"
    "k \<le> jsr_accepted_records (recover_journal_state nfc to_lowercase sha records task option_policy limits)"
  obtains m1 m start relative q rest where "sm_state m1 = Some s" "\<not> sm_checkpoint_state m1"
    "process_from nfc to_lowercase sha m1 start relative q rest = (Inr (), m)"
    "jsr_state (recover_journal_state nfc to_lowercase sha records task option_policy limits) = sm_state m"
proof -
  obtain n1 m1 where n1: "0 < n1" "n1 \<le> length (take k records)"
    "accepts nfc to_lowercase sha task option_policy limits (take n1 (take k records)) m1" "sm_state m1 = Some s"
    using recover_prefix [of nfc to_lowercase sha task option_policy limits "take k records"] assms(1)
    by (auto simp: prefix_result_def)
  let ?n = "jsr_accepted_records (recover_journal_state nfc to_lowercase sha records task option_policy limits)"
  obtain m where m: "?n \<le> length records" "accepts nfc to_lowercase sha task option_policy limits (take ?n records) m"
    "jsr_state (recover_journal_state nfc to_lowercase sha records task option_policy limits) = sm_state m"
    using recover_prefix [of nfc to_lowercase sha task option_policy limits records] assms(2) n1(1,2)
    by (auto simp: prefix_result_def)
  have le: "n1 \<le> ?n" using n1(2) assms(2) by simp
  then have "accepts nfc to_lowercase sha task option_policy limits (take n1 (take ?n records)) m1"
    using n1(2,3) by (simp add: min_def split: if_splits)
  then show ?thesis using accepts_rest [OF m(2)] n1(4) m le that by (metis length_take min_absorb2)
qed

lemma is_clean_shutdown_iff: "is_clean_shutdown payload \<longleftrightarrow> (\<exists>c t. payload = JP_CleanShutdown c t)"
  by (cases payload) simp_all

lemma terminal_kept:
  "process_from nfc to_lowercase sha m start relative q records = (Inr u, m') \<Longrightarrow> sm_state m = Some s \<Longrightarrow>
   js_terminal s \<noteq> None \<Longrightarrow> \<exists>c last_q. sm_state m' = Some (s\<lparr>js_clean_shutdown := c, js_last_sequence := last_q\<rparr>)"
proof (induction records arbitrary: m relative q s)
  case Nil
  then show ?case by (intro exI [of _ "js_clean_shutdown s"] exI [of _ "js_last_sequence s"]) simp
next
  case (Cons r0 records)
  from Cons.prems(1) obtain m1 where m1: "process_record nfc to_lowercase sha m (start + relative) q r0 = (Inr (), m1)"
    and rest: "process_from nfc to_lowercase sha m1 start (Suc relative) (saturating_add q 1) records = (Inr u, m')"
    by (auto split: prod.split_asm sum.split_asm)
  from m1 obtain payload m2 where m2: "machine_apply nfc to_lowercase sha m r0 payload = (Inr (), m2)" "m1 = note_sequence r0 m2"
    by (rule process_record_ok) (rule that; assumption)
  from m2(1) obtain rank key m3 where m3: "\<And>s. sm_state m = Some s \<Longrightarrow> js_terminal s = None \<or> is_clean_shutdown payload"
    "machine_dispatch nfc to_lowercase sha (m\<lparr>sm_checkpoint_rank := rank, sm_checkpoint_retry_key := key\<rparr>) r0 payload = (Inr (), m3)"
    "m2 = next_machine m3 payload"
    by (rule machine_apply_ok) (rule that; assumption)
  have "is_clean_shutdown payload" using m3(1) [OF Cons.prems(2)] Cons.prems(3) by simp
  then obtain c t where p: "payload = JP_CleanShutdown c t" unfolding is_clean_shutdown_iff by blast
  from m3(2) Cons.prems(2) obtain shutdown where "sm_state m3 = Some (s\<lparr>js_clean_shutdown := Some shutdown\<rparr>)"
    by (auto simp: p at_generation_def dest!: apply_clean_shutdown_ok)
  then have "sm_state m1 = Some (s\<lparr>js_clean_shutdown := Some shutdown, js_last_sequence := jr_sequence r0\<rparr>)"
    by (simp add: m2(2) m3(3) p next_machine_def note_sequence_def)
  from Cons.IH [OF rest this] Cons.prems(3) show ?case by simp
qed

section \<open>Properties\<close>

text \<open>
  C22. Recovery of a journal is recovery of the records it accepts. With \<open>n\<close> the number of accepted records, the
  first \<open>n\<close> records alone give the same state, the same count and the same last sequence, and no record of them
  is refused; the last sequence is that of record \<open>n\<close>. So an error in a later record, or in a checkpoint, never
  leaves part of its effect in the state that is returned.
\<close>

theorem recovery_of_accepted_prefix:
  "let recover = (\<lambda>records. recover_journal_state nfc to_lowercase sha records task option_policy limits);
       n = jsr_accepted_records (recover records);
       prefix = recover (take n records)
   in n \<le> length records \<and> jsr_state prefix = jsr_state (recover records) \<and> jsr_accepted_records prefix = n
      \<and> jsr_last_sequence prefix = jsr_last_sequence (recover records)
      \<and> jsr_last_sequence (recover records) = (if n = 0 then 0 else jr_sequence (records ! (n - 1)))
      \<and> \<not> (\<exists>i q e. jsr_stop prefix = JS_InvalidRecord i q e)"
proof -
  let ?r = "recover_journal_state nfc to_lowercase sha records task option_policy limits"
  show ?thesis
  proof (cases "jsr_accepted_records ?r = 0")
    case True
    then show ?thesis using recover_prefix [of nfc to_lowercase sha task option_policy limits records]
      by (auto simp: prefix_result_def recover_journal_state_def [of _ _ _ "[]"] Let_def)
  next
    case False
    then obtain n m where n: "n \<le> length records" "accepts nfc to_lowercase sha task option_policy limits (take n records) m"
      "jsr_state ?r = sm_state m" "jsr_accepted_records ?r = n" "jsr_last_sequence ?r = jr_sequence (records ! (n - 1))" "0 < n"
      using recover_prefix [of nfc to_lowercase sha task option_policy limits records] by (auto simp: prefix_result_def)
    have "last (take n records) = records ! (n - 1)" using n(1,6) by (subst last_conv_nth) (auto simp: min_def)
    then have "\<exists>s. sm_state m = Some s \<and> js_last_sequence s = jr_sequence (records ! (n - 1))"
      using accepts_state [OF n(2)] by simp
    then show ?thesis using n recover_accepts [OF n(2)] by (auto simp: Let_def finish_replay_def split: option.splits)
  qed
qed


text \<open>Records that carry the encoding of a payload, from which the journals of the witnesses are made.\<close>

definition sample_entry :: "u64 \<Rightarrow> journal_payload \<Rightarrow> journal_record" where
  "sample_entry sequence p =
     \<lparr>jr_record_type = payload_record_type p, jr_generation = generation_initial, jr_sequence = sequence,
      jr_payload = (case payload_encode id sample_sha p of Inl _ \<Rightarrow> [] | Inr bs \<Rightarrow> bs)\<rparr>"

definition sample_recover :: "journal_record list \<Rightarrow> journal_state_replay" where
  "sample_recover records =
     recover_journal_state id id sample_sha records (TaskId 1) (\<lambda>_. True) journal_state_limits_default"

lemma sample_entry_simps [simp]:
  "jr_record_type (sample_entry q p) = payload_record_type p" "jr_generation (sample_entry q p) = generation_initial"
  "jr_sequence (sample_entry q p) = q"
  by (simp_all add: sample_entry_def)

lemma sample_entry_decode:
  "payload_wf id sample_sha p \<Longrightarrow> payload_encode id sample_sha p = Inr bs \<Longrightarrow>
   record_decode_payload id sample_sha (sample_entry q p) = Inr p"
  using payload_write_read by (simp add: sample_entry_def record_decode_payload_def)

definition sample_removed_journal :: "journal_record list" where
  "sample_removed_journal =
     [sample_entry 1 (JP_TaskCreated DM_Balanced 1), sample_entry 2 (JP_TaskRemoved TR_User),
      sample_entry 3 (JP_CleanShutdown 1 7)]"

lemma sample_removed_decode:
  "record_decode_payload id sample_sha (sample_entry q (JP_TaskCreated DM_Balanced 1)) = Inr (JP_TaskCreated DM_Balanced 1)"
  "record_decode_payload id sample_sha (sample_entry q (JP_TaskRemoved TR_User)) = Inr (JP_TaskRemoved TR_User)"
  "record_decode_payload id sample_sha (sample_entry q (JP_CleanShutdown 1 7)) = Inr (JP_CleanShutdown 1 7)"
  by (rule sample_entry_decode; simp add: payload_encode_def and_then_def enc_all.simps write_simps MAX_RECORD_PAYLOAD_def)+

lemma sample_sequences:
  "saturating_add (1 :: u64) 1 = 2" "saturating_add (2 :: u64) 1 = 3" "saturating_add (3 :: u64) 1 = 4"
  "saturating_add (4 :: u64) 1 = 5" "saturating_add (5 :: u64) 1 = 6" "saturating_add (6 :: u64) 1 = 7"
  "saturating_add (7 :: u64) 1 = 8" "saturating_add (8 :: u64) 1 = 9"
  by (simp_all add: saturating_add_def checked_add_def)

lemmas sample_run_defs = recover_journal_state_def recover_live_def process_records_def process_record_def machine_apply_def
  machine_new_def journal_state_limits_default_def sample_sequences finish_replay_def note_sequence_def try_in_def
  set_state_def the_state_def require_current_generation_def and_then_def ok_or_def map_err_def


section \<open>Every recovered state\<close>

context replay_invariant
begin

lemma checkpoint_accepted:
  assumes "checkpoint_accepts nfc to_lowercase sha task option_policy limits records end_index m"
  shows "P m"
proof -
  obtain cid q h count state_hash m0 state where e:
    "checkpoint_state nfc to_lowercase sha records task option_policy limits end_index = Inr (m0, state)"
    "m = adopt_checkpoint cid q h count state_hash (jr_sequence (records ! end_index)) m0 state"
    using assms(1) by (auto simp: checkpoint_accepts_def)
  then have "process_from nfc to_lowercase sha (machine_new task option_policy limits True (Some (jr_generation (hd records))))
      1 0 2 (take (end_index - 1) (tl records)) = (Inr (), m0)" and m0: "sm_state m0 = Some state"
    by (auto simp: checkpoint_state_def process_records_def Let_def
        split: prod.split_asm sum.split_asm option.split_asm if_splits)
  then have "P m0" using processed fresh by blast
  then show ?thesis using adopted m0 unfolding e(2) adopt_checkpoint_def by blast
qed

lemma accepted_machine:
  assumes "accepts nfc to_lowercase sha task option_policy limits records m"
  shows "P m \<and> sm_limits m = limits \<and> \<not> sm_checkpoint_state m"
proof (cases "jr_record_type (hd records) = RT_CheckpointStart")
  case True
  with assms obtain j m1 where j: "checkpoint_accepts nfc to_lowercase sha task option_policy limits records j m1"
    "process_from nfc to_lowercase sha m1 (j + 1) 0 (saturating_add (jr_sequence (records ! j)) 1) (drop (j + 1) records) = (Inr (), m)"
    by (auto simp: accepts_def)
  then show ?thesis using processed [OF checkpoint_accepted [OF j(1)] j(2)] checkpoint_accepts_live [OF j(1)]
      process_from_setup [of m1 nfc to_lowercase sha "j + 1" 0 "saturating_add (jr_sequence (records ! j)) 1" "drop (j + 1) records"]
    by (simp add: same_setup_def)
next
  case False
  let ?start = "live_start task option_policy limits"
  from False assms have run: "process_from nfc to_lowercase sha ?start 0 0 1 records = (Inr (), m)" by (simp add: accepts_def)
  moreover have "P ?start" unfolding live_start_def by (rule fresh)
  ultimately show ?thesis using processed process_from_setup [of ?start nfc to_lowercase sha 0 0 1 records]
    by (auto simp: same_setup_def live_start_def machine_new_def)
qed

lemma recovered_machine:
  assumes "jsr_state (recover_journal_state nfc to_lowercase sha records task option_policy limits) = Some s"
  obtains m where "P m" "sm_state m = Some s" "sm_limits m = limits" "\<not> sm_checkpoint_state m"
proof -
  obtain n m where "accepts nfc to_lowercase sha task option_policy limits (take n records) m" "sm_state m = Some s"
    using recover_prefix [of nfc to_lowercase sha task option_policy limits records] assms by (auto simp: prefix_result_def)
  then show ?thesis using accepted_machine that by blast
qed

end

end
