(* ===== verification/PieceBitmap.thy ===== *)
theory PieceBitmap
  imports JournalPayload
begin

text \<open>
  The piece-state chunk of a checkpoint, checked by \<^verbatim>\<open>validate_piece_state_chunk\<close> in
  \<^verbatim>\<open>src/crates/ariax-storage/src/journal_payload.rs\<close>: an accepted bitmap marks exactly the pieces that the
  evidence runs cover, and every marked piece lies in one run only.
\<close>

unbundle bit_operations_syntax

section \<open>Bits\<close>

lemma bit_mask_u8: "bit (push_bit (i mod 8) (1 :: u8)) k \<longleftrightarrow> k = i mod 8"
  by (auto simp: bit_exp_iff possible_bit_word)

lemma bitmap_get_bit: "bitmap_get bm i \<longleftrightarrow> bit (bm ! (i div 8)) (i mod 8)"
proof -
  have "possible_bit TYPE(u8) (i mod 8)" by (simp add: possible_bit_word)
  then show ?thesis
    unfolding bitmap_get_def bit_eq_iff by (auto simp only: bit_and_iff bit_mask_u8 bit_0_eq bot_apply bot_bool_def)
qed

lemma bitmap_get_set:
  assumes "i div 8 < length bm"
  shows "bitmap_get (bitmap_set bm i) j \<longleftrightarrow> j = i \<or> bitmap_get bm j"
proof (cases "j div 8 = i div 8")
  case True
  have "j = i \<longleftrightarrow> j mod 8 = i mod 8" using True by (metis div_mult_mod_eq)
  then show ?thesis
    using assms True bit_mask_u8 [of i] by (auto simp: bitmap_get_bit bitmap_set_def bit_or_iff simp del: push_bit_of_1)
next
  case False
  then have "j \<noteq> i" by auto
  with False show ?thesis by (simp add: bitmap_get_bit bitmap_set_def)
qed

lemma length_bitmap_set [simp]: "length (bitmap_set bm i) = length bm"
  by (simp add: bitmap_set_def)

lemma bitmap_get_zero: "i div 8 < n \<Longrightarrow> \<not> bitmap_get (replicate n 0) i"
  by (simp add: bitmap_get_bit)

section \<open>Accounting\<close>

definition run_pieces :: "durable_evidence_run \<Rightarrow> nat set" where
  "run_pieces run =
     {unat (er_first_piece_delta run) ..< unat (er_first_piece_delta run) + unat (er_piece_count run)}"

lemma account_pieces_ok:
  assumes "account_pieces bm acc k n = Inr acc'" "k + n \<le> 8 * length acc"
  shows "length acc' = length acc
    \<and> (\<forall>j < 8 * length acc. bitmap_get acc' j \<longleftrightarrow> bitmap_get acc j \<or> j \<in> {k ..< k + n})
    \<and> (\<forall>j\<in>{k ..< k + n}. bitmap_get bm j \<and> \<not> bitmap_get acc j)"
  using assms
proof (induction bm acc k n rule: account_pieces.induct)
  case (2 bm acc k n)
  from "2.prems" have k: "bitmap_get bm k" "\<not> bitmap_get acc k"
    and rec: "account_pieces bm (bitmap_set acc k) (k + 1) n = Inr acc'" by (auto split: if_splits)
  have "k div 8 < length acc" using "2.prems"(2) by (simp add: less_mult_imp_div_less)
  note bits = bitmap_get_set [OF this]
  have "length acc' = length acc
    \<and> (\<forall>j < 8 * length acc. bitmap_get acc' j \<longleftrightarrow> bitmap_get (bitmap_set acc k) j \<or> j \<in> {k + 1 ..< k + 1 + n})
    \<and> (\<forall>j\<in>{k + 1 ..< k + 1 + n}. bitmap_get bm j \<and> \<not> bitmap_get (bitmap_set acc k) j)"
    using "2.IH" [OF _ rec] k "2.prems"(2) by simp
  then show ?case using k by (auto simp: bits Suc_le_eq le_eq_less_or_eq)
qed simp

lemma account_runs_ok:
  assumes "account_runs covered bm acc previous_end previous runs = Inr acc'" "covered \<le> 8 * length acc"
  shows "length acc' = length acc
    \<and> (\<forall>j < 8 * length acc. bitmap_get acc' j \<longleftrightarrow> bitmap_get acc j \<or> j \<in> (\<Union>run\<in>set runs. run_pieces run))
    \<and> sorted_wrt (\<lambda>r s. \<forall>i\<in>run_pieces r. \<forall>j\<in>run_pieces s. i < j) runs
    \<and> (\<forall>run\<in>set runs. run_pieces run \<subseteq> {previous_end ..< covered})"
  using assms
proof (induction runs arbitrary: acc previous_end previous)
  case (Cons run rest)
  let ?f = "unat (er_first_piece_delta run)" and ?n = "unat (er_piece_count run)"
  from Cons.prems obtain acc1 where acc1: "account_pieces bm acc ?f ?n = Inr acc1"
    and rec: "account_runs covered bm acc1 (?f + ?n) (Some run) rest = Inr acc'"
    and f: "previous_end \<le> ?f" "?f + ?n \<le> covered"
    by (auto simp: Let_def and_then_eq_Inr split: if_splits)
  have step: "length acc1 = length acc" "\<forall>j < 8 * length acc. bitmap_get acc1 j \<longleftrightarrow> bitmap_get acc j \<or> j \<in> run_pieces run"
    using account_pieces_ok [OF acc1] f(2) Cons.prems(2) by (auto simp: run_pieces_def)
  from Cons.IH [OF rec] step(1) Cons.prems(2)
  have ih: "length acc' = length acc"
    "\<forall>j < 8 * length acc. bitmap_get acc' j \<longleftrightarrow> bitmap_get acc1 j \<or> j \<in> (\<Union>run\<in>set rest. run_pieces run)"
    "sorted_wrt (\<lambda>r s. \<forall>i\<in>run_pieces r. \<forall>j\<in>run_pieces s. i < j) rest"
    "\<forall>r\<in>set rest. run_pieces r \<subseteq> {?f + ?n ..< covered}" by auto
  have "\<forall>r\<in>set rest. \<forall>i\<in>run_pieces run. \<forall>j\<in>run_pieces r. i < j"
    using ih(4) by (fastforce simp: run_pieces_def [of run])
  moreover have "\<forall>r\<in>set rest. run_pieces r \<subseteq> {previous_end ..< covered}"
    using ih(4) f(1) by fastforce
  moreover have "run_pieces run \<subseteq> {previous_end ..< covered}"
    using f by (auto simp: run_pieces_def)
  ultimately show ?case using ih step by auto
qed simp

section \<open>Accepted chunks\<close>

lemma div_ceil_8: "n \<le> 8 * div_ceil n 8"
  by (simp add: div_ceil_def)

lemma piece_state_chunk_facts:
  assumes ok: "validate_piece_state_chunk chunk_index chunk_count first_piece covered bitmap runs = Inr ()"
  shows "(\<forall>i < 8 * length bitmap. bitmap_get bitmap i \<longleftrightarrow> (\<exists>run\<in>set runs. i \<in> run_pieces run))
    \<and> (\<forall>run\<in>set runs. run_pieces run \<subseteq> {..< unat covered})
    \<and> sorted_wrt (\<lambda>r s. \<forall>i\<in>run_pieces r. \<forall>j\<in>run_pieces s. i < j) runs
    \<and> length bitmap = div_ceil (unat covered) 8
    \<and> unat (piece_id_get first_piece) + unat covered \<le> 2 ^ 64"
proof -
  from ok have len: "length bitmap = div_ceil (unat covered) 8" and covered: "covered \<noteq> 0"
    and runs: "account_runs (unat covered) bitmap (replicate (div_ceil (unat covered) 8) 0) 0 None runs = Inr bitmap"
    and add: "checked_add (piece_id_get first_piece) (ucast (covered - 1)) \<noteq> None"
    by (auto simp: validate_piece_state_chunk_def Let_def and_then_eq_Inr unat_eq_zero split: if_splits)
  note acc = account_runs_ok [OF runs, simplified, OF div_ceil_8]
  have "\<forall>run\<in>set runs. run_pieces run \<subseteq> {..< unat covered}"
    "sorted_wrt (\<lambda>r s. \<forall>i\<in>run_pieces r. \<forall>j\<in>run_pieces s. i < j) runs"
    using acc by (simp_all add: atLeast0LessThan)
  moreover have "\<forall>i < 8 * length bitmap. bitmap_get bitmap i \<longleftrightarrow> (\<exists>run\<in>set runs. i \<in> run_pieces run)"
    using acc bitmap_get_zero by (auto simp: len less_mult_imp_div_less mult.commute)
  moreover have "unat (ucast (covered - 1) :: u64) = unat covered - 1"
  proof -
    have "unat (covered - 1) < 2 ^ 32" using unsigned_less [of "covered - 1"] by simp
    then have "unat (ucast (covered - 1) :: u64) = unat (covered - 1)"
      by (simp add: unsigned_ucast_eq take_bit_nat_eq_self)
    then show ?thesis using covered by (simp add: unat_minus_one)
  qed
  moreover have "0 < unat covered" using covered by (simp add: unat_gt_0)
  ultimately show ?thesis using add len by (auto simp: checked_add_def split: if_splits)
qed

text \<open>
  C39. An accepted piece-state chunk is consistent: bit \<open>i\<close> of the bitmap is set exactly when \<open>i\<close> is one of the
  covered pieces and an evidence run covers it; the runs are in order and no piece lies in two of them; and the
  absolute number of every covered piece fits 64 bits.
\<close>

theorem piece_state_chunk_exact:
  assumes ok: "validate_piece_state_chunk chunk_index chunk_count first_piece covered bitmap runs = Inr ()"
  shows "(\<forall>i < 8 * length bitmap. bitmap_get bitmap i \<longleftrightarrow> (\<exists>run\<in>set runs. i \<in> run_pieces run))
    \<and> (\<forall>run\<in>set runs. run_pieces run \<subseteq> {..< unat covered})
    \<and> sorted_wrt (\<lambda>r s. \<forall>i\<in>run_pieces r. \<forall>j\<in>run_pieces s. i < j) runs
    \<and> length bitmap = div_ceil (unat covered) 8
    \<and> unat (piece_id_get first_piece) + unat covered \<le> 2 ^ 64"
  using ok by (rule piece_state_chunk_facts)

definition sample_run :: "u32 \<Rightarrow> u32 \<Rightarrow> u8 \<Rightarrow> durable_evidence_run" where
  "sample_run first count fingerprint =
     \<lparr>er_first_piece_delta = first, er_piece_count = count,
      er_validator_set_fingerprint = JournalHash (replicate 32 fingerprint), er_digest_algorithm = None,
      er_digest_value_len = 0, er_digest_values = []\<rparr>"

lemma sample_accounting:
  "account_pieces [0x0F, 0x02] [0, 0] 0 2 = Inr [0x03, 0]" "account_pieces [0x0F, 0x02] [0x03, 0] 2 2 = Inr [0x0F, 0]"
  "account_pieces [0x0F, 0x02] [0x0F, 0] 9 (Suc 0) = Inr [0x0F, 0x02]"
proof -
  have two: "account_pieces bm acc k 2 = account_pieces bm acc k (Suc (Suc 0))" for bm acc k
    by (simp only: numeral_2_eq_2)
  show "account_pieces [0x0F, 0x02] [0, 0] 0 2 = Inr [0x03, 0]" "account_pieces [0x0F, 0x02] [0x03, 0] 2 2 = Inr [0x0F, 0]"
    "account_pieces [0x0F, 0x02] [0x0F, 0] 9 (Suc 0) = Inr [0x0F, 0x02]"
    by (simp_all add: two bitmap_get_def bitmap_set_def)
qed

theorem piece_state_chunk_exact_witness:
  "validate_piece_state_chunk 0 1 (PieceId 40) 10 [0x0F, 0x02] [sample_run 0 2 1, sample_run 2 2 2, sample_run 9 1 1] = Inr ()
   \<and> bitmap_get [0x0F, 0x02] 9 \<and> \<not> bitmap_get [0x0F, 0x02] 4"
proof -
  let ?runs = "[sample_run 0 2 1, sample_run 2 2 2, sample_run 9 1 1]"
  have runs: "account_runs 10 [0x0F, 0x02] [0, 0] 0 None ?runs = Inr [0x0F, 0x02]"
    by (simp add: sample_run_def sample_accounting and_then_def same_evidence_class_def usize_max_def
        del: account_pieces.simps)
  have ok: "validate_piece_state_chunk 0 1 (PieceId 40) 10 [0x0F, 0x02] ?runs = Inr ()"
  proof -
    have "div_ceil 10 8 = 2" "replicate 2 (0 :: u8) = [0, 0]" "bitmap_get [0x0F, 0x02] 0"
      by (simp_all add: div_ceil_def numeral_2_eq_2 bitmap_get_def)
    with runs show ?thesis
      by (simp add: validate_piece_state_chunk_def Let_def checked_add_def MAX_PIECE_STATE_COVERED_PIECES_def and_then_def
          del: account_runs.simps replicate.simps)
  qed
  from piece_state_chunk_exact [OF this]
  have bits: "\<forall>i < 16. bitmap_get [0x0F, 0x02] i \<longleftrightarrow> (\<exists>run\<in>set ?runs. i \<in> run_pieces run)" by simp
  have "bitmap_get [0x0F, 0x02] 9" "\<not> bitmap_get [0x0F, 0x02] 4"
    using bits [rule_format, of 9] bits [rule_format, of 4] by (simp_all add: run_pieces_def sample_run_def)
  with ok show ?thesis by blast
qed

end
