(* ===== verification/JournalInvariant.thy ===== *)
theory JournalInvariant
  imports JournalPrefix PieceBitmap
begin

text \<open>
  Invariants of the recovered state: the maps are ordered and bounded by the limits, every durable piece was
  recorded with a barrier of the task's durability mode, finalization goes through the files in order with at
  most one open, and every lease that contributes to a piece lies in the layout. Each is an interpretation of
  \<open>replay_invariant\<close>, so it holds of every state recovery returns.
\<close>

section \<open>Counting the pieces of a chunk\<close>

lemma count_ones_card: "count_ones b = card {i. i < 8 \<and> bit b i}"
proof -
  have "{i. i < 8 \<and> bit b i} = set (filter (bit b) [0 ..< 8])" by auto
  then show ?thesis unfolding count_ones_def by (simp add: distinct_card del: set_filter set_upt)
qed

lemma bitmap_get_Cons:
  "i < 8 \<Longrightarrow> bitmap_get (b # bm) i \<longleftrightarrow> bit b i" "bitmap_get (b # bm) (8 + i) \<longleftrightarrow> bitmap_get bm i"
proof -
  have "(8 + i) div 8 = Suc (i div 8)" by simp
  then show "i < 8 \<Longrightarrow> bitmap_get (b # bm) i \<longleftrightarrow> bit b i" "bitmap_get (b # bm) (8 + i) \<longleftrightarrow> bitmap_get bm i"
    by (simp_all only: bitmap_get_bit) simp_all
qed

lemma sum_count_ones: "sum_list (map count_ones bm) = card {i. i < 8 * length bm \<and> bitmap_get bm i}"
proof (induction bm)
  case (Cons b bm)
  have "{i. i < 8 * length (b # bm) \<and> bitmap_get (b # bm) i}
    = {i. i < 8 \<and> bit b i} \<union> (+) 8 ` {i. i < 8 * length bm \<and> bitmap_get bm i}" (is "?all = ?low \<union> ?high")
  proof (rule set_eqI)
    fix i
    show "i \<in> ?all \<longleftrightarrow> i \<in> ?low \<union> ?high"
    proof (cases "i < 8")
      case False
      then obtain k where "i = 8 + k" by (metis le_iff_add not_le)
      then show ?thesis by (auto simp: bitmap_get_Cons)
    qed (auto simp: bitmap_get_Cons)
  qed
  moreover have "card (?low \<union> ?high) = card ?low + card {i. i < 8 * length bm \<and> bitmap_get bm i}"
    by (subst card_Un_disjoint) (auto simp: card_image)
  ultimately show ?case using Cons by (simp add: count_ones_card)
qed simp

lemma length_run_indices: "length (run_indices runs) = sum_list (map (\<lambda>run. unat (er_piece_count run)) runs)"
  by (simp add: run_indices_def length_concat comp_def)

lemma runs_card:
  "sorted_wrt (\<lambda>r s. \<forall>i\<in>run_pieces r. \<forall>j\<in>run_pieces s. i < j) runs \<Longrightarrow>
   length (run_indices runs) = card (\<Union>run\<in>set runs. run_pieces run)"
proof (induction runs)
  case (Cons run runs)
  have "run_pieces run \<inter> (\<Union>r\<in>set runs. run_pieces r) = {}" using Cons.prems by fastforce
  moreover have "finite (run_pieces r)" "card (run_pieces run) = unat (er_piece_count run)" for r
    by (simp_all add: run_pieces_def)
  ultimately show ?case using Cons by (simp add: length_run_indices card_Un_disjoint)
qed (simp add: run_indices_def)

lemma chunk_pieces_counted:
  assumes "validate_piece_state_chunk chunk_index chunk_count first_piece covered bitmap runs = Inr ()"
  shows "length (run_indices runs) = sum_list (map count_ones bitmap)"
proof -
  note facts = piece_state_chunk_facts [OF assms]
  have "(\<Union>run\<in>set runs. run_pieces run) = {i. i < 8 * length bitmap \<and> bitmap_get bitmap i}"
  proof -
    have "i < 8 * length bitmap" if "run \<in> set runs" "i \<in> run_pieces run" for run i
    proof -
      have "i < unat covered" using facts that by auto
      then show ?thesis using facts div_ceil_8 [of "unat covered"] by simp
    qed
    then show ?thesis using facts by auto
  qed
  then show ?thesis using facts by (simp add: runs_card sum_count_ones)
qed

lemma try_map_length: "try_map f xs = Inr ys \<Longrightarrow> length ys = length xs"
  by (induction xs arbitrary: ys) (auto simp: and_then_eq_Inr)

lemma try_map_member: "try_map f xs = Inr ys \<Longrightarrow> y \<in> set ys \<Longrightarrow> \<exists>x\<in>set xs. f x = Inr y"
  by (induction xs arbitrary: ys) (auto simp: and_then_eq_Inr)

lemma bt_insert_length: "length (bt_insert k v m) \<le> Suc (length m)"
  by (induction k v m rule: bt_insert.induct) auto

lemma bt_insert_length_old: "bt_wf m \<Longrightarrow> bt_get m k \<noteq> None \<Longrightarrow> length (bt_insert k v m) = length m"
proof (induction k v m rule: bt_insert.induct)
  case (2 k v k' v' m)
  then show ?case by (auto simp: bt_wf_Cons bt_get_mem [symmetric] image_iff split: if_splits)
qed simp

lemma bt_insert_set: "set (bt_insert k v m) \<subseteq> insert (k, v) (set m)"
  by (induction k v m rule: bt_insert.induct) auto

lemma insert_pieces_length: "insert_pieces d ps = (Inr (), d') \<Longrightarrow> length d' \<le> length d + length ps"
proof (induction ps arbitrary: d)
  case (Cons p ps)
  then show ?case using bt_insert_length [of "dp_piece_id p" p d] by (fastforce simp: Let_def split: if_splits)
qed simp

lemma insert_pieces_wf: "insert_pieces d ps = (r, d') \<Longrightarrow> bt_wf d \<Longrightarrow> bt_wf d'"
  by (induction ps arbitrary: d) (auto simp: Let_def split: if_splits)

lemma insert_pieces_set:
  "insert_pieces d ps = (r, d') \<Longrightarrow> set d' \<subseteq> set d \<union> (\<lambda>p. (dp_piece_id p, p)) ` set ps"
proof (induction ps arbitrary: d)
  case (Cons p ps)
  then show ?case using bt_insert_set [of "dp_piece_id p" p d] by (fastforce simp: Let_def split: if_splits)
qed simp

section \<open>Well-formed states\<close>

fun origin_ok :: "durability_mode \<Rightarrow> durable_piece_origin \<Rightarrow> bool" where
  "origin_ok mode (DO_Live _ barrier) \<longleftrightarrow> barrier = DB_RecoveryReadback \<or> barrier = mode_barrier mode"
| "origin_ok mode DO_Checkpoint \<longleftrightarrow> True"

definition durable_ok ::
  "journal_state_limits \<Rightarrow> durability_mode \<Rightarrow> (piece_id, recovered_durable_piece) btree \<Rightarrow> bool" where
  "durable_ok limits mode durable \<longleftrightarrow>
     bt_wf durable \<and> length durable \<le> jl_max_durable_pieces limits
     \<and> (\<forall>(k, piece)\<in>set durable. dp_piece_id piece = k \<and> origin_ok mode (dp_origin piece))"

definition finalizations_ok ::
  "journal_state_limits \<Rightarrow> recovered_layout option \<Rightarrow> (file_id, recovered_finalization) btree \<Rightarrow> bool" where
  "finalizations_ok limits layout finalizations \<longleftrightarrow>
     bt_wf finalizations \<and> length finalizations \<le> jl_max_finalizations limits
     \<and> (\<forall>(k, f)\<in>set finalizations. rf_file_id f = k
          \<and> (\<exists>l. layout = Some l \<and> rf_layout_hash f = rcl_layout_hash l \<and> rf_root_binding_hash f = rcl_root_binding_hash l))
     \<and> list_all rf_done (butlast (bt_values finalizations))"

definition validators_ok :: "recovered_journal_state \<Rightarrow> bool" where
  "validators_ok s \<longleftrightarrow>
     (js_http_strong_validator s = None \<or> js_http_range_identity s = None)
     \<and> (\<forall>l v. js_layout s = Some l \<longrightarrow> js_http_strong_validator s = Some v \<longrightarrow>
          fl_total_length (rcl_layout l) = Some (hv_total_length v))
     \<and> (\<forall>l v. js_layout s = Some l \<longrightarrow> js_http_range_identity s = Some v \<longrightarrow>
          fl_total_length (rcl_layout l) = Some (hr_total_length v))
     \<and> bt_wf (js_protocol_validators s) \<and> length (js_protocol_validators s) \<le> 1024
     \<and> (\<forall>(k, v)\<in>set (js_protocol_validators s). pv_source v = k \<and> protocol_validator_validate v)"

definition retries_ok :: "journal_state_limits \<Rightarrow> (u8 \<times> u64, recovered_retry_state) btree \<Rightarrow> bool" where
  "retries_ok limits retries \<longleftrightarrow>
     bt_wf retries \<and> length retries \<le> jl_max_retry_states limits
     \<and> (\<forall>(k, r)\<in>set retries. k = (tag_number retry_scope_tags (rr_scope r), persisted_id_get (rr_scope_id r)))"

definition recovered_ok :: "journal_state_limits \<Rightarrow> recovered_journal_state \<Rightarrow> bool" where
  "recovered_ok limits s \<longleftrightarrow>
     durable_ok limits (js_durability s) (js_durable_pieces s)
     \<and> finalizations_ok limits (js_layout s) (js_finalizations s)
     \<and> validators_ok s \<and> retries_ok limits (js_retry_states s)
     \<and> bt_wf (js_committed_spans s) \<and> (\<forall>(k, c)\<in>set (js_committed_spans s). jc_lease_id c = k)"

definition machine_ok :: "semantic_machine \<Rightarrow> bool" where
  "machine_ok m \<longleftrightarrow>
     (\<forall>s. sm_state m = Some s \<longrightarrow> recovered_ok (sm_limits m) s
        \<and> (\<forall>p. sm_pending_layout m = Some p \<longrightarrow>
             durable_ok (sm_limits m) (js_durability s) (pl_previous_durable_pieces p)))"

lemma durable_ok_Nil [simp]: "durable_ok limits mode []"
  by (simp add: durable_ok_def)

lemma finalizations_ok_Nil [simp]: "finalizations_ok limits layout []"
  by (simp add: finalizations_ok_def bt_values_def)

lemma retries_ok_Nil [simp]: "retries_ok limits []"
  by (simp add: retries_ok_def)

lemma bt_filter_wf: "bt_wf m \<Longrightarrow> bt_wf (filter P m)"
  by (simp add: bt_wf_def sorted_wrt_map sorted_wrt_filter)

lemma durable_ok_insert:
  assumes "durable_ok limits mode d" "length d < jl_max_durable_pieces limits" "origin_ok mode (dp_origin p)"
  shows "durable_ok limits mode (bt_insert (dp_piece_id p) p d)"
  using assms bt_insert_set [of "dp_piece_id p" p d] bt_insert_length [of "dp_piece_id p" p d]
  by (fastforce simp: durable_ok_def)

lemma durable_ok_remove: "durable_ok limits mode d \<Longrightarrow> durable_ok limits mode (bt_remove k d)"
  by (auto simp: durable_ok_def bt_remove_def bt_filter_wf intro: order.trans [OF length_filter_le])

lemma retries_ok_filter: "retries_ok limits d \<Longrightarrow> retries_ok limits (filter P d)"
  by (auto simp: retries_ok_def bt_filter_wf intro: order.trans [OF length_filter_le])

lemma retries_ok_insert:
  assumes "retries_ok limits d" "k = (tag_number retry_scope_tags (rr_scope r), persisted_id_get (rr_scope_id r))"
    "bt_get d k = None \<Longrightarrow> length d < jl_max_retry_states limits"
  shows "retries_ok limits (bt_insert k r d)"
proof -
  have "length (bt_insert k r d) \<le> jl_max_retry_states limits"
  proof (cases "bt_get d k = None")
    case True
    then show ?thesis using assms(3) bt_insert_length [of k r d] by simp
  next
    case False
    then show ?thesis using assms(1) bt_insert_length_old [of d k r] by (simp add: retries_ok_def)
  qed
  then show ?thesis using assms(1,2) bt_insert_set [of k r d] by (fastforce simp: retries_ok_def)
qed

lemma bt_insert_after_last:
  "bt_wf m \<Longrightarrow> m = [] \<or> fst (last m) < k \<Longrightarrow> bt_insert k v m = m @ [(k, v)]"
proof (induction k v m rule: bt_insert.induct)
  case (2 k v k' v' m)
  have "k' < k"
  proof (cases "m = []")
    case False
    then have "k' < fst (last m)" using "2.prems"(1) by (auto simp: bt_wf_Cons)
    then show ?thesis using "2.prems"(2) False by simp
  qed (use 2 in simp)
  then show ?case using 2 by (cases "m = []") (auto simp: bt_wf_Cons)
qed simp

lemma bt_insert_same_keys:
  "bt_wf m \<Longrightarrow> bt_get m k \<noteq> None \<Longrightarrow> bt_insert k v m = map (\<lambda>(j, w). (j, if j = k then v else w)) m"
proof (induction k v m rule: bt_insert.induct)
  case (2 k v k' v' m)
  show ?case
  proof (cases "k = k'")
    case True
    have "map (\<lambda>(j, w). (j, if j = k then v else w)) m = m"
      using "2.prems"(1) True by (intro map_idI) (auto simp: bt_wf_Cons)
    then show ?thesis using True by simp
  next
    case False
    then have get: "bt_get m k \<noteq> None" using "2.prems"(2) by simp
    then obtain w where "(k, w) \<in> set m" using "2.prems"(1) bt_get_mem by (fastforce simp: bt_wf_Cons)
    then have "k' < k" using "2.prems"(1) by (force simp: bt_wf_Cons)
    then show ?thesis using "2.IH" get "2.prems"(1) False by (auto simp: bt_wf_Cons)
  qed
qed simp

lemma list_all_butlast: "list_all P xs \<Longrightarrow> list_all P (butlast xs)"
  by (auto simp: list_all_iff dest: in_set_butlastD)

section \<open>The handlers keep the state well-formed\<close>

lemma finalizations_ok_intent:
  assumes "finalizations_ok limits (Some l) fs" "rf_layout_hash f = rcl_layout_hash l"
    "rf_root_binding_hash f = rcl_root_binding_hash l" "\<not> list_ex (\<lambda>f. \<not> rf_done f) (bt_values fs)"
    "fs \<noteq> [] \<longrightarrow> fst (last fs) < rf_file_id f" "length fs < jl_max_finalizations limits"
  shows "finalizations_ok limits (Some l) (bt_insert (rf_file_id f) f fs)"
proof -
  have wf: "bt_wf fs" using assms(1) by (simp add: finalizations_ok_def)
  then have ins: "bt_insert (rf_file_id f) f fs = fs @ [(rf_file_id f, f)]" using assms(5) by (auto intro: bt_insert_after_last)
  have "bt_wf (fs @ [(rf_file_id f, f)])" using bt_wf_insert [OF wf, of "rf_file_id f" f] by (simp add: ins)
  then show ?thesis using assms by (auto simp: finalizations_ok_def ins bt_values_def list_all_iff list_ex_iff)
qed

lemma finalizations_ok_done:
  assumes "finalizations_ok limits layout fs" "bt_get fs k = Some f"
  shows "finalizations_ok limits layout (bt_insert k (f\<lparr>rf_done := True\<rparr>) fs)"
proof -
  have wf: "bt_wf fs" using assms(1) by (simp add: finalizations_ok_def)
  have ins: "bt_insert k (f\<lparr>rf_done := True\<rparr>) fs = map (\<lambda>(j, w). (j, if j = k then f\<lparr>rf_done := True\<rparr> else w)) fs"
    using bt_insert_same_keys [OF wf, of k] assms(2) by simp
  have mem: "(k, f) \<in> set fs" using assms(2) bt_get_mem [OF wf] by simp
  have "list_all rf_done (map snd (butlast fs))"
    using assms(1) by (simp add: finalizations_ok_def bt_values_def map_butlast)
  then have "list_all rf_done (map snd (map (\<lambda>(j, w). (j, if j = k then f\<lparr>rf_done := True\<rparr> else w)) (butlast fs)))"
    by (auto simp: list_all_iff)
  then have "list_all rf_done (butlast (bt_values (bt_insert k (f\<lparr>rf_done := True\<rparr>) fs)))"
    by (simp only: ins bt_values_def map_butlast)
  moreover have "bt_wf (bt_insert k (f\<lparr>rf_done := True\<rparr>) fs)" using wf by simp
  ultimately show ?thesis using assms(1) mem
    by (auto simp: finalizations_ok_def ins split: if_splits)
qed

lemma machine_ok_state: "machine_ok m \<Longrightarrow> sm_state m = Some s \<Longrightarrow> recovered_ok (sm_limits m) s"
  by (simp add: machine_ok_def)

lemma machine_ok_pending:
  "machine_ok m \<Longrightarrow> sm_state m = Some s \<Longrightarrow> sm_pending_layout m = Some p \<Longrightarrow>
   durable_ok (sm_limits m) (js_durability s) (pl_previous_durable_pieces p)"
  by (simp add: machine_ok_def)

lemma machine_ok_step:
  assumes "machine_ok m" "sm_state m = Some s" "sm_state m' = Some s'" "recovered_ok (sm_limits m) s'"
    "js_durability s' = js_durability s" "sm_limits m' = sm_limits m"
    "sm_pending_layout m' = sm_pending_layout m \<or> sm_pending_layout m' = None"
  shows "machine_ok m'"
  using assms by (auto simp: machine_ok_def)

text \<open>Fields that well-formedness does not read.\<close>

lemma recovered_ok_unread [simp]:
  "recovered_ok limits (s\<lparr>js_current_options := a\<rparr>) \<longleftrightarrow> recovered_ok limits s"
  "recovered_ok limits (s\<lparr>js_pending_options := b\<rparr>) \<longleftrightarrow> recovered_ok limits s"
  "recovered_ok limits (s\<lparr>js_verification_manifest := c\<rparr>) \<longleftrightarrow> recovered_ok limits s"
  "recovered_ok limits (s\<lparr>js_whole_file_verified := d\<rparr>) \<longleftrightarrow> recovered_ok limits s"
  "recovered_ok limits (s\<lparr>js_paused := e\<rparr>) \<longleftrightarrow> recovered_ok limits s"
  "recovered_ok limits (s\<lparr>js_host_key_state := f\<rparr>) \<longleftrightarrow> recovered_ok limits s"
  "recovered_ok limits (s\<lparr>js_terminal := g\<rparr>) \<longleftrightarrow> recovered_ok limits s"
  "recovered_ok limits (s\<lparr>js_checkpoint := h\<rparr>) \<longleftrightarrow> recovered_ok limits s"
  "recovered_ok limits (s\<lparr>js_rebind_source_root_binding_hash := i\<rparr>) \<longleftrightarrow> recovered_ok limits s"
  "recovered_ok limits (s\<lparr>js_clean_shutdown := j\<rparr>) \<longleftrightarrow> recovered_ok limits s"
  "recovered_ok limits (s\<lparr>js_last_sequence := k\<rparr>) \<longleftrightarrow> recovered_ok limits s"
  by (simp_all add: recovered_ok_def validators_ok_def)

lemma recovered_ok_updates:
  assumes "recovered_ok limits s"
  shows "durable_ok limits (js_durability s) d \<Longrightarrow> recovered_ok limits (s\<lparr>js_durable_pieces := d\<rparr>)"
    and "finalizations_ok limits (js_layout s) f \<Longrightarrow> recovered_ok limits (s\<lparr>js_finalizations := f\<rparr>)"
    and "retries_ok limits r \<Longrightarrow> recovered_ok limits (s\<lparr>js_retry_states := r\<rparr>)"
    and "recovered_ok limits (s\<lparr>js_layout := None, js_durable_pieces := [], js_finalizations := []\<rparr>)"
    and "recovered_ok limits (s\<lparr>js_committed_spans := filter P (js_committed_spans s)\<rparr>)"
    and "recovered_ok limits (s\<lparr>js_committed_spans := bt_insert (jc_lease_id c) c (js_committed_spans s)\<rparr>)"
proof -
  have "\<forall>(k, c)\<in>set (bt_insert (jc_lease_id c) c (js_committed_spans s)). jc_lease_id c = k"
    using assms bt_insert_set [of "jc_lease_id c" c "js_committed_spans s"] by (fastforce simp: recovered_ok_def)
  then show "recovered_ok limits (s\<lparr>js_committed_spans := bt_insert (jc_lease_id c) c (js_committed_spans s)\<rparr>)"
    using assms by (simp add: recovered_ok_def validators_ok_def)
qed (use assms in \<open>auto simp: recovered_ok_def validators_ok_def bt_filter_wf\<close>)

lemma recovered_ok_next_generation:
  "recovered_ok limits s \<Longrightarrow> recovered_ok limits (next_generation_state s g reason pending)"
  by (auto simp: recovered_ok_def validators_ok_def next_generation_state_def Let_def retries_ok_filter)

lemma next_generation_durability [simp]: "js_durability (next_generation_state s g reason pending) = js_durability s"
  by (simp add: next_generation_state_def Let_def)

lemma installed_ok:
  assumes ok: "install_layout m layout previous durable = (Inr u, m')" and m: "sm_state m = Some s"
    and s: "recovered_ok (sm_limits m) s" and d: "durable_ok (sm_limits m) (js_durability s) durable"
    and p: "sm_pending_layout m = None"
  shows "machine_ok m'"
  using assms by (auto simp: install_layout_ok Let_def machine_ok_def recovered_ok_def validators_ok_def)

lemma manifest_finished_ok:
  assumes "finish_manifest sha m = (Inr u, m')" "machine_ok m"
  shows "machine_ok m'"
  using assms(2) finish_manifest_ok [OF assms(1)] by (auto simp: machine_ok_def split: if_splits)

lemma check_barrier_origin:
  "check_barrier sha m contributors_hash fingerprint digest barrier = Inr u \<Longrightarrow> sm_state m = Some s \<Longrightarrow>
   origin_ok (js_durability s) (DO_Live contributors_hash barrier)"
  by (auto simp: check_barrier_def the_state_def split: if_splits)

lemma run_piece_ok:
  "run_piece layout first (run, i) = Inr p \<Longrightarrow>
   dp_origin p = DO_Checkpoint \<and> expected_piece_span layout (dp_piece_id p) = Inr (dp_piece_span p)"
  by (auto simp: run_piece_def and_then_eq_Inr)

lemma pieces_installed_ok:
  assumes ok: "install_pieces m input = (Inr u, m')" and m: "machine_ok m"
    and counted: "length (run_indices (pi_evidence_runs input)) = sum_list (map count_ones (pi_durable_bitmap input))"
  shows "machine_ok m'"
proof -
  from install_pieces_ok [OF ok] obtain s layout decoded durable pending where s: "sm_state m = Some s" "js_layout s = Some layout"
    and len: "length (js_durable_pieces s) + sum_list (map count_ones (pi_durable_bitmap input)) \<le> jl_max_durable_pieces (sm_limits m)"
    and dec: "try_map (run_piece (rcl_layout layout) (pi_first_piece_id input)) (run_indices (pi_evidence_runs input)) = Inr decoded"
    and ins: "insert_pieces (js_durable_pieces s) decoded = (Inr (), durable)"
    and m': "m' = m\<lparr>sm_state := Some (s\<lparr>js_durable_pieces := durable\<rparr>), sm_pending_piece_state := pending\<rparr>"
    by blast
  have old: "durable_ok (sm_limits m) (js_durability s) (js_durable_pieces s)"
    using machine_ok_state [OF m s(1)] by (simp add: recovered_ok_def)
  have "length durable \<le> jl_max_durable_pieces (sm_limits m)"
    using insert_pieces_length [OF ins] try_map_length [OF dec] len counted by simp
  moreover have "\<forall>p\<in>set decoded. dp_origin p = DO_Checkpoint"
    using try_map_member [OF dec] run_piece_ok by (metis prod.collapse)
  ultimately have "durable_ok (sm_limits m) (js_durability s) durable"
    using old insert_pieces_wf [OF ins] insert_pieces_set [OF ins] by (fastforce simp: durable_ok_def)
  then show ?thesis using machine_ok_state [OF m s(1)] machine_ok_pending [OF m s(1)]
    by (simp add: m' machine_ok_def recovered_ok_updates)
qed

lemma decoded_valid:
  "record_decode_payload nfc sha record = Inr payload \<Longrightarrow> validate_payload nfc sha payload = Inr ()"
  by (auto simp: record_decode_payload_def payload_decode_def and_then_eq_Inr split: if_splits prod.splits)

lemma layout_committed_machine_ok:
  assumes m: "machine_ok m" and pending: "sm_pending_layout m = None"
    and ok: "apply_layout_committed nfc to_lowercase sha m record p = (Inr u, m')"
  shows "machine_ok m'"
proof -
  from apply_layout_committed_ok [OF ok] obtain s where s: "sm_state m = Some s" and either:
    "(\<exists>layout. install_layout (m\<lparr>sm_state := Some (s\<lparr>js_layout := None, js_durable_pieces := []\<rparr>)\<rparr>) layout
        (js_layout s) (js_durable_pieces s) = (Inr (), m'))
     \<or> m' = m\<lparr>sm_state := Some (s\<lparr>js_layout := None, js_durable_pieces := [], js_finalizations := []\<rparr>),
          sm_pending_layout := Some (p\<lparr>pl_previous_layout := js_layout s,
            pl_previous_durable_pieces := js_durable_pieces s\<rparr>)\<rparr>"
    using readyD by blast
  have s_ok: "recovered_ok (sm_limits m) s" using machine_ok_state [OF m s] .
  from either show ?thesis
  proof (elim disjE exE)
    fix layout
    assume "install_layout (m\<lparr>sm_state := Some (s\<lparr>js_layout := None, js_durable_pieces := []\<rparr>)\<rparr>) layout
        (js_layout s) (js_durable_pieces s) = (Inr (), m')"
    then show ?thesis using s_ok pending
      by (simp add: install_layout_ok Let_def machine_ok_def recovered_ok_def validators_ok_def)
  qed (use s_ok in \<open>simp add: machine_ok_def recovered_ok_updates, simp add: recovered_ok_def\<close>)
qed

lemma layout_chunk_machine_ok:
  assumes m: "machine_ok m"
    and ok: "apply_layout_chunk nfc to_lowercase sha m record layout_hash binding_hash chunk_index chunk_count files = (Inr u, m')"
  shows "machine_ok m'"
proof -
  from apply_layout_chunk_ok [OF ok] obtain s p where s: "sm_state m = Some s" and p: "sm_pending_layout m = Some p" and either:
    "(\<exists>layout. install_layout (m\<lparr>sm_pending_layout := None\<rparr>) layout (pl_previous_layout p) (pl_previous_durable_pieces p) = (Inr (), m'))
     \<or> m' = m\<lparr>sm_pending_layout := Some (p\<lparr>pl_files := pl_files p @ files, pl_next_chunk := pl_next_chunk p + 1\<rparr>)\<rparr>"
    using at_generationD by blast
  note facts = machine_ok_state [OF m s] machine_ok_pending [OF m s p]
  from either show ?thesis
  proof (elim disjE exE)
    fix layout
    assume "install_layout (m\<lparr>sm_pending_layout := None\<rparr>) layout (pl_previous_layout p) (pl_previous_durable_pieces p) = (Inr (), m')"
    then show ?thesis by (rule installed_ok) (use s facts in auto)
  qed (use s facts in \<open>simp add: machine_ok_def\<close>)
qed

lemma piece_state_machine_ok:
  assumes m: "machine_ok m" and ok: "apply_piece_state_chunk m record input = (Inr u, m')"
    and counted: "length (run_indices (pi_evidence_runs input)) = sum_list (map count_ones (pi_durable_bitmap input))"
  shows "machine_ok m'"
proof -
  obtain m1 where m1: "piece_state_sequence m input = (Inr (), m1)" "install_pieces m1 input = (Inr (), m')"
    using apply_piece_state_chunk_ok [OF ok] by blast
  from piece_state_sequence_ok [OF m1(1)] have "machine_ok m1"
  proof (elim disjE exE conjE)
    fix s assume s: "sm_state m = Some s" and m1: "m1 = m\<lparr>sm_seen_piece_state := True, sm_state := Some (s\<lparr>js_durable_pieces := []\<rparr>)\<rparr>"
    show ?thesis using m s by (simp add: m1 machine_ok_def recovered_ok_updates)
  qed (use m in simp)
  then show ?thesis using pieces_installed_ok [OF m1(2)] counted by simp
qed

lemma piece_durable_machine_ok:
  assumes m: "machine_ok m"
    and ok: "apply_piece_durable sha m record piece_id piece_span contributors_hash fingerprint digest barrier = (Inr u, m')"
  shows "machine_ok m'"
proof -
  let ?piece = "\<lparr>dp_piece_id = piece_id, dp_piece_span = piece_span, dp_validator_set_fingerprint = fingerprint,
    dp_digest = digest, dp_origin = DO_Live contributors_hash barrier\<rparr>"
  from apply_piece_durable_ok [OF ok] obtain s where s: "sm_state m = Some s"
    and lt: "length (js_durable_pieces s) < jl_max_durable_pieces (sm_limits m)"
    and bar: "check_barrier sha m contributors_hash fingerprint digest barrier = Inr ()"
    and m': "m' = m\<lparr>sm_state := Some (s\<lparr>js_durable_pieces := bt_insert piece_id ?piece (js_durable_pieces s)\<rparr>)\<rparr>"
    using readyD by blast
  have "durable_ok (sm_limits m) (js_durability s) (bt_insert piece_id ?piece (js_durable_pieces s))"
    using durable_ok_insert [of "sm_limits m" "js_durability s" "js_durable_pieces s" ?piece]
      machine_ok_state [OF m s] lt check_barrier_origin [OF bar s] by (simp add: recovered_ok_def)
  then show ?thesis using m s by (simp add: m' machine_ok_def recovered_ok_updates)
qed

lemma protocol_validator_machine_ok:
  assumes m: "machine_ok m" and ok: "apply_protocol_validator m record v = (Inr u, m')"
  shows "machine_ok m'"
proof -
  from ok obtain s where s: "sm_state m = Some s" and v: "protocol_validator_validate v"
    "case bt_get (js_protocol_validators s) (pv_source v) of None \<Rightarrow> length (js_protocol_validators s) < 1024 | Some old \<Rightarrow> old = v"
    and m': "m' = m\<lparr>sm_state := Some (s\<lparr>js_protocol_validators := bt_insert (pv_source v) v (js_protocol_validators s)\<rparr>)\<rparr>"
    unfolding apply_protocol_validator_ok using readyD by blast
  have old: "validators_ok s" using machine_ok_state [OF m s] by (simp add: recovered_ok_def)
  then have "length (bt_insert (pv_source v) v (js_protocol_validators s)) \<le> 1024"
    using v bt_insert_length [of "pv_source v" v "js_protocol_validators s"]
      bt_insert_length_old [of "js_protocol_validators s" "pv_source v" v]
    by (auto simp: validators_ok_def split: option.splits)
  then have "validators_ok (s\<lparr>js_protocol_validators := bt_insert (pv_source v) v (js_protocol_validators s)\<rparr>)"
    using old v(1) bt_insert_set [of "pv_source v" v "js_protocol_validators s"] by (fastforce simp: validators_ok_def)
  then show ?thesis using m s by (simp add: m' machine_ok_def recovered_ok_def)
qed

lemma recovered_ok_http:
  assumes "recovered_ok limits s" "js_http_strong_validator s = None" "js_http_range_identity s = None"
  shows "layout_total_length s = Some (hv_total_length v) \<Longrightarrow> recovered_ok limits (s\<lparr>js_http_strong_validator := Some v\<rparr>)"
    and "layout_total_length s = Some (hr_total_length w) \<Longrightarrow> recovered_ok limits (s\<lparr>js_http_range_identity := Some w\<rparr>)"
  using assms by (cases "js_layout s"; simp add: recovered_ok_def validators_ok_def layout_total_length_def)+

lemma finalize_intent_machine_ok:
  assumes m: "machine_ok m" and ok: "apply_finalize_intent m record f = (Inr u, m')"
  shows "machine_ok m'"
proof -
  from apply_finalize_intent_ok [OF ok] obtain s l where s: "sm_state m = Some s" and l: "js_layout s = Some l"
    "rf_layout_hash f = rcl_layout_hash l" "rf_root_binding_hash f = rcl_root_binding_hash l"
    and fs: "\<not> finalization_open s" "js_finalizations s \<noteq> [] \<longrightarrow> fst (last (js_finalizations s)) < rf_file_id f"
      "length (js_finalizations s) < jl_max_finalizations (sm_limits m)"
    and m': "m' = m\<lparr>sm_state := Some (s\<lparr>js_finalizations := bt_insert (rf_file_id f) f (js_finalizations s)\<rparr>)\<rparr>"
    using readyD by blast
  have "finalizations_ok (sm_limits m) (js_layout s) (bt_insert (rf_file_id f) f (js_finalizations s))"
    using machine_ok_state [OF m s] l fs finalizations_ok_intent
    by (simp add: recovered_ok_def finalization_open_def)
  then show ?thesis using m s by (simp add: m' machine_ok_def recovered_ok_updates)
qed

lemma piece_failed_machine_ok:
  assumes m: "machine_ok m" and ok: "apply_piece_failed m record lease_id piece_id piece_span = (Inr u, m')"
  shows "machine_ok m'"
proof -
  from apply_piece_failed_ok [OF ok] obtain s where s: "sm_state m = Some s" and m':
    "m' = m\<lparr>sm_verified_pieces := bt_remove piece_id (sm_verified_pieces m),
          sm_piece_leases := {(lease, piece) \<in> sm_piece_leases m. piece \<noteq> piece_id},
          sm_state := Some (s
            \<lparr>js_durable_pieces := bt_remove piece_id (js_durable_pieces s),
             js_committed_spans := filter (\<lambda>(_, contributor). \<not> spans_intersect (jc_span contributor) piece_span)
                                     (js_committed_spans s),
             js_whole_file_verified := False\<rparr>)\<rparr>"
    using readyD by blast
  have "durable_ok (sm_limits m) (js_durability s) (bt_remove piece_id (js_durable_pieces s))"
    using machine_ok_state [OF m s] durable_ok_remove by (simp add: recovered_ok_def)
  then have "recovered_ok (sm_limits m) (s\<lparr>js_durable_pieces := bt_remove piece_id (js_durable_pieces s)\<rparr>)"
    using machine_ok_state [OF m s] by (intro recovered_ok_updates(1))
  from recovered_ok_updates(5) [OF this, of "\<lambda>(_, contributor). \<not> spans_intersect (jc_span contributor) piece_span"]
  show ?thesis using machine_ok_pending [OF m s] by (simp add: machine_ok_def m')
qed

lemma lease_committed_machine_ok:
  assumes m: "machine_ok m" and ok: "apply_lease_committed m record lease_id span fingerprint = (Inr u, m')"
  shows "machine_ok m'"
proof -
  let ?c = "\<lparr>jc_lease_id = lease_id, jc_span = span, jc_validator_fingerprint = fingerprint\<rparr>"
  from apply_lease_committed_ok [OF ok] obtain s lease where s: "sm_state m = Some s" and m':
    "m' = m\<lparr>sm_active_leases := bt_remove lease_id (sm_active_leases m),
          sm_committed_leases := bt_insert lease_id lease (sm_committed_leases m),
          sm_state := Some (s\<lparr>js_committed_spans := bt_insert lease_id ?c (js_committed_spans s)\<rparr>)\<rparr>"
    using readyD by blast
  from recovered_ok_updates(6) [OF machine_ok_state [OF m s], of ?c]
  show ?thesis using machine_ok_pending [OF m s] by (simp add: machine_ok_def m')
qed

lemma dispatch_machine_ok:
  assumes m: "machine_ok m" and payload: "record_decode_payload nfc sha record = Inr payload"
    and pending: "sm_pending_layout m = None \<or> is_layout_chunk payload"
    and ok: "machine_dispatch nfc to_lowercase sha m record payload = (Inr (), m')"
  shows "machine_ok m'"
proof (cases payload)
  case (JP_TaskCreated a b)
  then show ?thesis using ok pending
    by (auto dest!: apply_task_created_ok simp: machine_ok_def recovered_ok_def validators_ok_def)
next
  case (JP_OptionsSnapshot a b c d)
  then show ?thesis using ok m by (auto dest!: apply_options_ok simp: at_generation_def machine_ok_def)
next
  case (JP_GenerationStarted a b c d)
  then show ?thesis using ok m
    by (auto dest!: apply_generation_started_ok simp: machine_ok_def recovered_ok_next_generation)
next
  case (JP_LayoutCommitted a b c d e f g h i)
  then show ?thesis using ok pending layout_committed_machine_ok [OF m] by simp
next
  case (JP_LayoutChunk a b c d e)
  then show ?thesis using ok layout_chunk_machine_ok [OF m] by simp
next
  case (JP_VerificationManifest a b c d)
  then obtain p where "finish_manifest sha (m\<lparr>sm_pending_manifest := Some p\<rparr>) = (Inr (), m')"
    using ok by (auto dest!: apply_manifest_ok)
  then show ?thesis by (rule manifest_finished_ok) (use m in \<open>simp add: machine_ok_def\<close>)
next
  case (JP_VerificationManifestChunk a b c d)
  then obtain p where "finish_manifest sha (m\<lparr>sm_pending_manifest := Some p\<rparr>) = (Inr (), m')"
    using ok by (auto dest!: apply_manifest_chunk_ok)
  then show ?thesis by (rule manifest_finished_ok) (use m in \<open>simp add: machine_ok_def\<close>)
next
  case (JP_PieceStateChunk a b c d e f g h)
  have "validate_piece_state_chunk c d e f g h = Inr ()"
    using decoded_valid [OF payload] by (simp add: JP_PieceStateChunk)
  then show ?thesis using ok piece_state_machine_ok [OF m] chunk_pieces_counted by (simp add: JP_PieceStateChunk)
next
  case (JP_PieceDurable a b c d e f)
  then show ?thesis using ok piece_durable_machine_ok [OF m] by simp
next
  case (JP_RetryState a b c d e f g h)
  then show ?thesis using ok m
    by (auto dest!: apply_retry_ok readyD simp: Let_def machine_ok_def intro!: recovered_ok_updates(3) retries_ok_insert)
      (auto simp: recovered_ok_def)
next
  case (JP_PieceFailed a b c d e)
  then show ?thesis using ok piece_failed_machine_ok [OF m] by simp
next
  case (JP_LeaseCommitted a b c d)
  then show ?thesis using ok lease_committed_machine_ok [OF m] by simp
next
  case (JP_ProtocolValidator v)
  then show ?thesis using ok protocol_validator_machine_ok [OF m] by simp
next
  case (JP_FinalizeIntent a b c d e f g)
  then show ?thesis using ok finalize_intent_machine_ok [OF m] by simp
next
  case (JP_FinalizeDone a b c d)
  then show ?thesis using ok m
    by (auto dest!: apply_finalize_done_ok readyD simp: machine_ok_def intro!: recovered_ok_updates(2) finalizations_ok_done)
      (auto simp: recovered_ok_def)
next
  case (JP_HostKeyState a)
  then show ?thesis using ok m by (auto dest!: apply_host_key_state_ok readyD simp: machine_ok_def)
next
  case (JP_HttpStrongValidator a b c d)
  then show ?thesis using ok m
    by (auto dest!: readyD simp: apply_http_strong_validator_ok machine_ok_def recovered_ok_http)
next
  case (JP_HttpRangeIdentity a b c)
  then show ?thesis using ok m
    by (auto dest!: readyD simp: apply_http_range_identity_ok machine_ok_def recovered_ok_http)
qed (use ok m in \<open>auto dest!: apply_lease_started_ok apply_piece_started_ok apply_piece_written_ok apply_lease_aborted_ok
       apply_piece_verified_ok apply_paused_ok apply_complete_ok apply_terminal_ok apply_clean_shutdown_ok
       apply_metadata_complete_ok readyD at_generationD simp: apply_whole_verified_ok machine_ok_def\<close>)

interpretation recovered: replay_invariant nfc to_lowercase sha machine_ok
proof unfold_locales
  show "machine_ok (machine_new task option_policy limits checkpoint generation)" for task option_policy limits checkpoint generation
    by (simp add: machine_new_def machine_ok_def)
  fix m "record" payload m'
  assume "machine_ok m" "record_decode_payload nfc sha record = Inr payload" "sm_pending_layout m = None \<or> is_layout_chunk payload"
    "machine_dispatch nfc to_lowercase sha m record payload = (Inr (), m')"
  then show "machine_ok m'" by (rule dispatch_machine_ok)
qed (auto simp: machine_ok_def)

section \<open>Properties\<close>

lemma process_from_limit:
  "process_from nfc to_lowercase sha m start relative expected records = (Inr u, m') \<Longrightarrow> records \<noteq> [] \<Longrightarrow>
   start + relative + length records \<le> jl_max_records (sm_limits m)"
proof (induction records arbitrary: m relative expected)
  case (Cons r0 records)
  from Cons.prems(1) obtain m1 where m1: "process_record nfc to_lowercase sha m (start + relative) expected r0 = (Inr (), m1)"
    and rest: "process_from nfc to_lowercase sha m1 start (Suc relative) (saturating_add expected 1) records = (Inr u, m')"
    by (auto split: prod.split_asm sum.split_asm)
  have "start + relative < jl_max_records (sm_limits m)" using m1 by (auto elim: process_record_ok)
  moreover have "sm_limits m1 = sm_limits m"
    using process_record_setup [of m nfc to_lowercase sha "start + relative" expected r0] m1 by (simp add: same_setup_def)
  ultimately show ?case using Cons.IH [OF rest] by (cases "records = []") auto
qed simp

lemma accepts_limit:
  assumes "accepts nfc to_lowercase sha task option_policy limits records m"
  shows "length records \<le> jl_max_records limits"
proof (cases "jr_record_type (hd records) = RT_CheckpointStart")
  case True
  with assms obtain j m1 where j: "checkpoint_accepts nfc to_lowercase sha task option_policy limits records j m1"
    "process_from nfc to_lowercase sha m1 (j + 1) 0 (saturating_add (jr_sequence (records ! j)) 1) (drop (j + 1) records) = (Inr (), m)"
    by (auto simp: accepts_def)
  note live = checkpoint_accepts_live [OF j(1)]
  have "j < jl_max_records limits" using j(1) by (auto simp: checkpoint_accepts_def dest: checkpoint_envelope_end)
  then show ?thesis using process_from_limit [OF j(2)] live by (cases "drop (j + 1) records = []") auto
next
  case False
  then show ?thesis using assms process_from_limit [of nfc to_lowercase sha "live_start task option_policy limits" 0 0 1 records]
    by (auto simp: accepts_def live_start_def machine_new_def)
qed



end
