(* ===== verification/JournalCoverage.thy ===== *)
theory JournalCoverage
  imports JournalInvariant
begin

text \<open>
  What a complete task means after recovery. The pieces recorded durable have the spans the layout gives them; a
  task is only recorded complete when the manifest it has is satisfied; so under a manifest with chunks every
  byte of the file lies in exactly one durable piece. Durable pieces survive a new layout with the same hash, so
  the statement assumes that no two layouts of the journal share a hash and differ in length or piece length.
\<close>

section \<open>Pieces fit their layout\<close>

definition same_geometry :: "recovered_layout \<Rightarrow> recovered_layout \<Rightarrow> bool" where
  "same_geometry a b \<longleftrightarrow>
     fl_total_length (rcl_layout a) = fl_total_length (rcl_layout b)
     \<and> fl_piece_length (rcl_layout a) = fl_piece_length (rcl_layout b)"

definition hash_tells_geometry :: "recovered_layout set \<Rightarrow> bool" where
  "hash_tells_geometry layouts \<longleftrightarrow>
     (\<forall>a\<in>layouts. \<forall>b\<in>layouts. rcl_layout_hash a = rcl_layout_hash b \<longrightarrow> same_geometry a b)"

definition pieces_fit :: "recovered_layout option \<Rightarrow> (piece_id, recovered_durable_piece) btree \<Rightarrow> bool" where
  "pieces_fit layout durable \<longleftrightarrow>
     (case layout of
        None \<Rightarrow> durable = []
      | Some l \<Rightarrow> \<forall>(k, p)\<in>set durable. expected_piece_span (rcl_layout l) k = Inr (dp_piece_span p))"

definition machine_fits :: "recovered_layout set \<Rightarrow> semantic_machine \<Rightarrow> bool" where
  "machine_fits layouts m \<longleftrightarrow>
     (\<forall>s. sm_state m = Some s \<longrightarrow>
        pieces_fit (js_layout s) (js_durable_pieces s) \<and> set_option (js_layout s) \<subseteq> layouts
        \<and> (\<forall>p. sm_pending_layout m = Some p \<longrightarrow>
             js_layout s = None \<and> pieces_fit (pl_previous_layout p) (pl_previous_durable_pieces p)
             \<and> set_option (pl_previous_layout p) \<subseteq> layouts))"

lemma pieces_fit_Nil [simp]: "pieces_fit layout []"
  by (simp add: pieces_fit_def split: option.splits)

lemma pieces_fit_subset: "pieces_fit layout d \<Longrightarrow> set d' \<subseteq> set d \<Longrightarrow> pieces_fit layout d'"
  by (auto simp: pieces_fit_def split: option.splits)

lemma pieces_fit_insert:
  "pieces_fit (Some l) d \<Longrightarrow> expected_piece_span (rcl_layout l) k = Inr (dp_piece_span p) \<Longrightarrow>
   pieces_fit (Some l) (bt_insert k p d)"
  using bt_insert_set [of k p d] by (fastforce simp: pieces_fit_def)

lemma expected_span_geometry:
  "same_geometry a b \<Longrightarrow> expected_piece_span (rcl_layout a) k = expected_piece_span (rcl_layout b) k"
  by (simp add: same_geometry_def expected_piece_span_def cong: if_cong)

lemma pieces_fit_retained:
  assumes "pieces_fit (Some a) d" "same_geometry a b"
  shows "pieces_fit (Some b) d"
  using assms expected_span_geometry [OF assms(2)] by (simp add: pieces_fit_def)

lemma same_identity_hash: "has_same_identity_evidence a b \<Longrightarrow> rcl_layout_hash a = rcl_layout_hash b"
  by (auto simp: has_same_identity_evidence_def Let_def)

text \<open>Installing a layout whose geometry the hash tells.\<close>

lemma installed_fits:
  assumes ok: "install_layout m layout previous durable = (Inr u, m')" and tells: "hash_tells_geometry layouts"
    and prev: "pieces_fit previous durable" "set_option previous \<subseteq> layouts" and new: "layout \<in> layouts"
    and p: "sm_pending_layout m = None"
  shows "machine_fits layouts m'"
proof -
  let ?keep = "case previous of None \<Rightarrow> False | Some a \<Rightarrow> has_same_identity_evidence a layout"
  have "pieces_fit (Some layout) (if ?keep then durable else [])"
  proof (cases previous)
    case (Some a)
    then have "?keep \<Longrightarrow> same_geometry a layout"
      using tells prev(2) new same_identity_hash by (auto simp: hash_tells_geometry_def)
    then show ?thesis using pieces_fit_retained prev(1) Some by auto
  qed simp
  then show ?thesis using ok new p by (auto simp: install_layout_ok Let_def machine_fits_def)
qed

lemma next_generation_fits:
  "js_layout (next_generation_state s g reason pending) = js_layout s"
  "pieces_fit layout (js_durable_pieces s) \<Longrightarrow>
   pieces_fit layout (js_durable_pieces (next_generation_state s g reason pending))"
  by (simp_all add: next_generation_state_def Let_def)

lemma inserted_pieces_fit:
  assumes "try_map (run_piece (rcl_layout l) first) indices = Inr decoded" "insert_pieces d decoded = (r, d')" "pieces_fit (Some l) d"
  shows "pieces_fit (Some l) d'"
proof -
  have "\<forall>p\<in>set decoded. expected_piece_span (rcl_layout l) (dp_piece_id p) = Inr (dp_piece_span p)"
    using try_map_member [OF assms(1)] run_piece_ok by (metis prod.collapse)
  then show ?thesis using assms(3) insert_pieces_set [OF assms(2)] by (fastforce simp: pieces_fit_def)
qed

lemma piece_state_fits:
  assumes ok: "apply_piece_state_chunk m record input = (Inr u, m')" and m: "machine_fits layouts m"
  shows "machine_fits layouts m'"
proof -
  obtain m1 where m1: "piece_state_sequence m input = (Inr (), m1)" "install_pieces m1 input = (Inr (), m')"
    using apply_piece_state_chunk_ok [OF ok] by blast
  from piece_state_sequence_ok [OF m1(1)] have fits: "machine_fits layouts m1"
    using m by (elim disjE exE conjE) (auto simp: machine_fits_def)
  from install_pieces_ok [OF m1(2)] obtain s l decoded durable pending where s: "sm_state m1 = Some s" "js_layout s = Some l"
    and dec: "try_map (run_piece (rcl_layout l) (pi_first_piece_id input)) (run_indices (pi_evidence_runs input)) = Inr decoded"
    and ins: "insert_pieces (js_durable_pieces s) decoded = (Inr (), durable)"
    and m': "m' = m1\<lparr>sm_state := Some (s\<lparr>js_durable_pieces := durable\<rparr>), sm_pending_piece_state := pending\<rparr>" by blast
  show ?thesis using fits s inserted_pieces_fit [OF dec ins] by (simp add: m' machine_fits_def)
qed

lemma piece_durable_fits:
  assumes ok: "apply_piece_durable sha m record piece_id piece_span contributors_hash fingerprint digest barrier = (Inr u, m')"
    and m: "machine_fits layouts m"
  shows "machine_fits layouts m'"
proof -
  let ?piece = "\<lparr>dp_piece_id = piece_id, dp_piece_span = piece_span, dp_validator_set_fingerprint = fingerprint,
    dp_digest = digest, dp_origin = DO_Live contributors_hash barrier\<rparr>"
  from apply_piece_durable_ok [OF ok] obtain s where s: "sm_state m = Some s"
    and span: "machine_piece_span m piece_id = Inr piece_span"
    and m': "m' = m\<lparr>sm_state := Some (s\<lparr>js_durable_pieces := bt_insert piece_id ?piece (js_durable_pieces s)\<rparr>)\<rparr>"
    using readyD by blast
  from span s obtain l where l: "js_layout s = Some l" "expected_piece_span (rcl_layout l) piece_id = Inr piece_span"
    by (auto simp: machine_piece_span_def and_then_eq_Inr require_ok)
  have "pieces_fit (Some l) (bt_insert piece_id ?piece (js_durable_pieces s))"
    using m s l by (intro pieces_fit_insert) (auto simp: machine_fits_def)
  then show ?thesis using m s l by (simp add: m' machine_fits_def)
qed

section \<open>Layouts as the journal commits them\<close>

text \<open>One accepted record keeps the pieces fitting, when the layout it leaves is one of those considered.\<close>

lemma dispatch_fits:
  assumes m: "machine_fits layouts m" and tells: "hash_tells_geometry layouts"
    and pending: "sm_pending_layout m = None \<or> is_layout_chunk payload"
    and ok: "machine_dispatch nfc to_lowercase sha m record payload = (Inr (), m')"
    and seen: "\<And>s. sm_state m' = Some s \<Longrightarrow> set_option (js_layout s) \<subseteq> layouts"
  shows "machine_fits layouts m'"
proof (cases payload)
  case (JP_TaskCreated a b)
  then show ?thesis using ok pending by (auto dest!: apply_task_created_ok simp: machine_fits_def)
next
  case (JP_OptionsSnapshot a b c d)
  then show ?thesis using ok m by (auto dest!: apply_options_ok simp: at_generation_def machine_fits_def)
next
  case (JP_GenerationStarted a b c d)
  then show ?thesis using ok m by (auto dest!: apply_generation_started_ok simp: machine_fits_def next_generation_fits)
next
  case (JP_LayoutCommitted a b c d e f g h i)
  then obtain p where "apply_layout_committed nfc to_lowercase sha m record p = (Inr (), m')" using ok by auto
  from apply_layout_committed_ok [OF this] obtain s where s: "sm_state m = Some s" and either:
    "(\<exists>layout. install_layout (m\<lparr>sm_state := Some (s\<lparr>js_layout := None, js_durable_pieces := []\<rparr>)\<rparr>) layout
        (js_layout s) (js_durable_pieces s) = (Inr (), m'))
     \<or> m' = m\<lparr>sm_state := Some (s\<lparr>js_layout := None, js_durable_pieces := [], js_finalizations := []\<rparr>),
          sm_pending_layout := Some (p\<lparr>pl_previous_layout := js_layout s,
            pl_previous_durable_pieces := js_durable_pieces s\<rparr>)\<rparr>"
    using readyD by blast
  have prev: "pieces_fit (js_layout s) (js_durable_pieces s)" "set_option (js_layout s) \<subseteq> layouts"
    using m s by (simp_all add: machine_fits_def)
  from either show ?thesis
  proof (elim disjE exE)
    fix layout
    assume inst: "install_layout (m\<lparr>sm_state := Some (s\<lparr>js_layout := None, js_durable_pieces := []\<rparr>)\<rparr>) layout
        (js_layout s) (js_durable_pieces s) = (Inr (), m')"
    then have "layout \<in> layouts" using seen by (auto simp: install_layout_ok Let_def)
    then show ?thesis using installed_fits [OF inst tells prev] pending JP_LayoutCommitted by simp
  qed (use prev in \<open>simp add: machine_fits_def\<close>)
next
  case (JP_LayoutChunk a b c d e)
  then have "apply_layout_chunk nfc to_lowercase sha m record a b c d e = (Inr (), m')" using ok by simp
  from apply_layout_chunk_ok [OF this] obtain s p where s: "sm_state m = Some s" and p: "sm_pending_layout m = Some p" and either:
    "(\<exists>layout. install_layout (m\<lparr>sm_pending_layout := None\<rparr>) layout (pl_previous_layout p) (pl_previous_durable_pieces p) = (Inr (), m'))
     \<or> m' = m\<lparr>sm_pending_layout := Some (p\<lparr>pl_files := pl_files p @ e, pl_next_chunk := pl_next_chunk p + 1\<rparr>)\<rparr>"
    using at_generationD by blast
  have prev: "pieces_fit (pl_previous_layout p) (pl_previous_durable_pieces p)" "set_option (pl_previous_layout p) \<subseteq> layouts"
    using m s p by (simp_all add: machine_fits_def)
  from either show ?thesis
  proof (elim disjE exE)
    fix layout
    assume inst: "install_layout (m\<lparr>sm_pending_layout := None\<rparr>) layout (pl_previous_layout p) (pl_previous_durable_pieces p) = (Inr (), m')"
    then have "layout \<in> layouts" using seen by (auto simp: install_layout_ok Let_def)
    then show ?thesis using installed_fits [OF inst tells prev] by simp
  qed (use m s p prev in \<open>auto simp: machine_fits_def\<close>)
next
  case (JP_PieceStateChunk a b c d e f g h)
  then show ?thesis using ok m piece_state_fits by simp
next
  case (JP_PieceDurable a b c d e f)
  then show ?thesis using ok m piece_durable_fits by simp
next
  case (JP_PieceFailed a b c d e)
  then have "apply_piece_failed m record a b c = (Inr (), m')" using ok by simp
  from apply_piece_failed_ok [OF this] obtain s where s: "sm_state m = Some s"
    and m': "sm_pending_layout m' = sm_pending_layout m" "map_option js_layout (sm_state m') = Some (js_layout s)"
      "map_option js_durable_pieces (sm_state m') = Some (bt_remove b (js_durable_pieces s))"
    using readyD by (elim exE conjE) simp
  have "pieces_fit (js_layout s) (bt_remove b (js_durable_pieces s))"
    using m s by (auto simp: machine_fits_def bt_remove_def intro: pieces_fit_subset)
  then show ?thesis using m s m' by (auto simp: machine_fits_def)
next
  case (JP_LeaseCommitted a b c d)
  then have "apply_lease_committed m record a b c = (Inr (), m')" using ok by simp
  from apply_lease_committed_ok [OF this] obtain s where s: "sm_state m = Some s"
    and m': "sm_pending_layout m' = sm_pending_layout m" "map_option js_layout (sm_state m') = Some (js_layout s)"
      "map_option js_durable_pieces (sm_state m') = Some (js_durable_pieces s)"
    using readyD by (elim exE conjE) simp
  then show ?thesis using m by (auto simp: machine_fits_def)
next
  case (JP_VerificationManifest a b c d)
  then obtain p where "finish_manifest sha (m\<lparr>sm_pending_manifest := Some p\<rparr>) = (Inr (), m')"
    using ok by (auto dest!: apply_manifest_ok)
  from finish_manifest_ok [OF this] show ?thesis using m by (auto simp: machine_fits_def split: if_splits)
next
  case (JP_VerificationManifestChunk a b c d)
  then obtain p where "finish_manifest sha (m\<lparr>sm_pending_manifest := Some p\<rparr>) = (Inr (), m')"
    using ok by (auto dest!: apply_manifest_chunk_ok)
  from finish_manifest_ok [OF this] show ?thesis using m by (auto simp: machine_fits_def split: if_splits)
next
  case (JP_HostKeyState a)
  then show ?thesis using ok m by (auto dest!: apply_host_key_state_ok readyD simp: machine_fits_def)
qed (use ok m in \<open>auto dest!: apply_lease_started_ok apply_piece_started_ok apply_piece_written_ok apply_lease_aborted_ok
       apply_piece_verified_ok apply_retry_ok apply_paused_ok apply_complete_ok apply_terminal_ok apply_clean_shutdown_ok
       apply_metadata_complete_ok apply_finalize_intent_ok apply_finalize_done_ok readyD at_generationD
       simp: apply_whole_verified_ok apply_http_strong_validator_ok apply_http_range_identity_ok apply_protocol_validator_ok
         Let_def machine_fits_def\<close>)

section \<open>What most records leave alone\<close>

text \<open>The records that may change the layout, the generation or the manifest, and those that end a task.\<close>

fun changes_setup :: "journal_payload \<Rightarrow> bool" where
  "changes_setup (JP_TaskCreated _ _) \<longleftrightarrow> True"
| "changes_setup (JP_GenerationStarted _ _ _ _) \<longleftrightarrow> True"
| "changes_setup (JP_LayoutCommitted _ _ _ _ _ _ _ _ _) \<longleftrightarrow> True"
| "changes_setup (JP_LayoutChunk _ _ _ _ _) \<longleftrightarrow> True"
| "changes_setup (JP_VerificationManifest _ _ _ _) \<longleftrightarrow> True"
| "changes_setup (JP_VerificationManifestChunk _ _ _ _) \<longleftrightarrow> True"
| "changes_setup _ \<longleftrightarrow> False"

fun ends_task :: "journal_payload \<Rightarrow> bool" where
  "ends_task (JP_TaskComplete _ _ _ _) \<longleftrightarrow> True"
| "ends_task (JP_MetadataComplete _ _) \<longleftrightarrow> True"
| "ends_task (JP_TaskError _ _ _) \<longleftrightarrow> True"
| "ends_task (JP_TaskRemoved _) \<longleftrightarrow> True"
| "ends_task _ \<longleftrightarrow> False"

definition same_frame :: "semantic_machine \<Rightarrow> semantic_machine \<Rightarrow> bool" where
  "same_frame m m' \<longleftrightarrow>
     (\<exists>s s'. sm_state m = Some s \<and> sm_state m' = Some s' \<and> js_layout s' = js_layout s \<and> js_generation s' = js_generation s
        \<and> js_verification_manifest s' = js_verification_manifest s)
     \<and> sm_layout_record_generation m' = sm_layout_record_generation m \<and> sm_pending_layout m' = sm_pending_layout m"

lemma dispatch_frame:
  assumes ok: "machine_dispatch nfc to_lowercase sha m record payload = (Inr (), m')" and kind: "\<not> changes_setup payload"
  shows "same_frame m m' \<and> (ends_task payload \<or> map_option js_terminal (sm_state m') = map_option js_terminal (sm_state m))"
proof (cases payload)
  case (JP_PieceStateChunk a b c d e f g h)
  then show ?thesis using ok
    by (auto dest!: apply_piece_state_chunk_ok install_pieces_ok piece_state_sequence_ok simp: same_frame_def)
next
  case (JP_OptionsSnapshot a b c d)
  then show ?thesis using ok by (auto dest!: apply_options_ok simp: at_generation_def same_frame_def)
next
  case (JP_HostKeyState a)
  then show ?thesis using ok by (auto dest!: apply_host_key_state_ok readyD simp: same_frame_def)
next
  case (JP_PieceFailed a b c d e)
  then show ?thesis using ok by (auto dest!: apply_piece_failed_ok readyD simp: same_frame_def)
next
  case (JP_PieceWritten a b c)
  then have "m' = m" using ok by (auto dest: apply_piece_written_ok)
  then show ?thesis using dispatch_state [OF ok] by (auto simp: same_frame_def)
next
  case (JP_LeaseCommitted a b c d)
  then show ?thesis using ok by (auto dest!: apply_lease_committed_ok readyD simp: same_frame_def)
qed (use ok kind in \<open>auto dest!: apply_lease_started_ok apply_piece_started_ok apply_lease_aborted_ok
       apply_piece_verified_ok apply_piece_durable_ok apply_retry_ok apply_paused_ok apply_complete_ok apply_terminal_ok
       apply_clean_shutdown_ok apply_metadata_complete_ok apply_finalize_intent_ok apply_finalize_done_ok readyD at_generationD
       simp: apply_whole_verified_ok apply_http_strong_validator_ok apply_http_range_identity_ok apply_protocol_validator_ok
         Let_def same_frame_def\<close>)

section \<open>Layouts are what their hash says\<close>

definition recovered_layout_text :: "recovered_layout \<Rightarrow> u8 list" where
  "recovered_layout_text l =
     layout_text (fl_files (rcl_layout l)) (fl_total_length (rcl_layout l)) (fl_piece_length (rcl_layout l))"

definition genuine_layout :: "sha256 \<Rightarrow> recovered_layout \<Rightarrow> bool" where
  "genuine_layout sha l \<longleftrightarrow> journal_hash_bytes (rcl_layout_hash l) = sha (recovered_layout_text l)"

definition layouts_genuine :: "sha256 \<Rightarrow> semantic_machine \<Rightarrow> bool" where
  "layouts_genuine sha m \<longleftrightarrow> (\<forall>s l. sm_state m = Some s \<longrightarrow> js_layout s = Some l \<longrightarrow> genuine_layout sha l)"

lemma assembled_layout_genuine:
  "assemble_layout nfc to_lowercase sha task pending = Inr l \<Longrightarrow> genuine_layout sha l"
  by (auto simp: assemble_layout_def and_then_eq_Inr map_err_eq_Inr file_layout_new_def calculate_layout_hash_def
        genuine_layout_def recovered_layout_text_def split: if_splits prod.split_asm)

lemma layout_text_geometry:
  "layout_text files t p = layout_text files' t' p' \<Longrightarrow> t = t' \<and> p = p'"
  by (auto simp: layout_text_def append_eq_append_conv le_inject split: option.splits)

lemma genuine_layouts_tell_geometry:
  assumes "\<forall>l\<in>layouts. genuine_layout sha l" "inj_on sha (recovered_layout_text ` layouts)"
  shows "hash_tells_geometry layouts"
proof -
  have "same_geometry a b"
    if "a \<in> layouts" "b \<in> layouts" "rcl_layout_hash a = rcl_layout_hash b" for a b
  proof -
    have "sha (recovered_layout_text a) = sha (recovered_layout_text b)"
      using that assms(1) by (metis genuine_layout_def)
    then have "recovered_layout_text a = recovered_layout_text b" using that assms(2) by (auto dest: inj_onD)
    then show ?thesis
      using layout_text_geometry unfolding recovered_layout_text_def same_geometry_def by blast
  qed
  then show ?thesis by (simp add: hash_tells_geometry_def)
qed

lemma dispatch_genuine:
  assumes m: "layouts_genuine sha m" and ok: "machine_dispatch nfc to_lowercase sha m record payload = (Inr (), m')"
  shows "layouts_genuine sha m'"
proof (cases "changes_setup payload")
  case False
  then show ?thesis using dispatch_frame [OF ok] m by (auto simp: same_frame_def layouts_genuine_def)
next
  case True
  then show ?thesis
  proof (cases payload)
    case (JP_TaskCreated a b)
    then show ?thesis using ok by (auto dest!: apply_task_created_ok simp: layouts_genuine_def)
  next
    case (JP_GenerationStarted a b c d)
    then show ?thesis using ok m
      by (auto dest!: apply_generation_started_ok simp: layouts_genuine_def next_generation_fits(1))
  next
    case (JP_LayoutCommitted a b c d e f g h i)
    then show ?thesis using ok m
      by (auto dest!: apply_layout_committed_ok simp: install_layout_ok Let_def layouts_genuine_def) (erule assembled_layout_genuine)
  next
    case (JP_LayoutChunk a b c d e)
    then show ?thesis using ok m
      by (auto dest!: apply_layout_chunk_ok simp: install_layout_ok Let_def layouts_genuine_def) (erule assembled_layout_genuine)
  next
    case (JP_VerificationManifest a b c d)
    then obtain p where "finish_manifest sha (m\<lparr>sm_pending_manifest := Some p\<rparr>) = (Inr (), m')"
      using ok by (auto dest!: apply_manifest_ok)
    from finish_manifest_ok [OF this] show ?thesis using m by (auto simp: layouts_genuine_def split: if_splits)
  next
    case (JP_VerificationManifestChunk a b c d)
    then obtain p where "finish_manifest sha (m\<lparr>sm_pending_manifest := Some p\<rparr>) = (Inr (), m')"
      using ok by (auto dest!: apply_manifest_chunk_ok)
    from finish_manifest_ok [OF this] show ?thesis using m by (auto simp: layouts_genuine_def split: if_splits)
  qed simp_all
qed

interpretation genuine: replay_invariant nfc to_lowercase sha "layouts_genuine sha" for nfc to_lowercase sha
proof unfold_locales
  fix m "record" payload m'
  assume "layouts_genuine sha m" "machine_dispatch nfc to_lowercase sha m record payload = (Inr (), m')"
  then show "layouts_genuine sha m'" by (rule dispatch_genuine)
qed (auto simp: layouts_genuine_def machine_new_def)

section \<open>Pieces fit in every recovered state\<close>

definition machine_layouts :: "semantic_machine \<Rightarrow> recovered_layout set" where
  "machine_layouts m = (case sm_state m of None \<Rightarrow> {} | Some s \<Rightarrow> set_option (js_layout s))"

text \<open>In a checkpoint at most one layout is installed, so its pieces fit whatever the hash function does.\<close>

definition one_layout :: "semantic_machine \<Rightarrow> bool" where
  "one_layout m \<longleftrightarrow>
     machine_fits (machine_layouts m) m
     \<and> (\<forall>s. sm_state m = Some s \<longrightarrow> js_layout s \<noteq> None \<longrightarrow> sm_layout_record_generation m = Some (js_generation s))"

lemma machine_fits_mono: "machine_fits a m \<Longrightarrow> a \<subseteq> b \<Longrightarrow> machine_fits b m"
  unfolding machine_fits_def by (meson order_trans)

lemma layout_record_step:
  assumes m: "one_layout m" and cp: "sm_checkpoint_state m"
    and ok: "machine_dispatch nfc to_lowercase sha m record payload = (Inr (), m')"
  shows "machine_layouts m \<subseteq> machine_layouts m'
    \<and> (\<forall>s. sm_state m' = Some s \<longrightarrow> js_layout s \<noteq> None \<longrightarrow> sm_layout_record_generation m' = Some (js_generation s))"
proof (cases "changes_setup payload")
  case False
  then show ?thesis using dispatch_frame [OF ok] m by (auto simp: same_frame_def one_layout_def machine_layouts_def)
next
  case True
  then show ?thesis
  proof (cases payload)
    case (JP_LayoutCommitted a b c d e f g h i)
    then show ?thesis using ok m
      by (auto dest!: apply_layout_committed_ok
          simp: install_layout_ok Let_def one_layout_def machine_layouts_def ready_def at_generation_def)
  next
    case (JP_LayoutChunk a b c d e)
    then show ?thesis using ok m
      by (auto dest!: apply_layout_chunk_ok
          simp: install_layout_ok Let_def one_layout_def machine_layouts_def machine_fits_def at_generation_def)
  next
    case (JP_VerificationManifest a b c d)
    then obtain p where "finish_manifest sha (m\<lparr>sm_pending_manifest := Some p\<rparr>) = (Inr (), m')"
      using ok by (auto dest!: apply_manifest_ok)
    from finish_manifest_ok [OF this] show ?thesis using m
      by (auto simp: one_layout_def machine_layouts_def split: if_splits)
  next
    case (JP_VerificationManifestChunk a b c d)
    then obtain p where "finish_manifest sha (m\<lparr>sm_pending_manifest := Some p\<rparr>) = (Inr (), m')"
      using ok by (auto dest!: apply_manifest_chunk_ok)
    from finish_manifest_ok [OF this] show ?thesis using m
      by (auto simp: one_layout_def machine_layouts_def split: if_splits)
  qed (use ok cp in \<open>auto dest!: apply_task_created_ok apply_generation_started_ok simp: machine_layouts_def\<close>)
qed

lemma one_layout_geometry: "hash_tells_geometry (machine_layouts m)"
  by (auto simp: hash_tells_geometry_def machine_layouts_def same_geometry_def split: option.splits)

lemma one_layout_step:
  assumes "one_layout m" "sm_checkpoint_state m" "sm_pending_layout m = None \<or> is_layout_chunk payload"
    "machine_dispatch nfc to_lowercase sha m record payload = (Inr (), m')"
  shows "one_layout m'"
proof -
  note step = layout_record_step [OF assms(1,2,4)]
  have "machine_fits (machine_layouts m') m"
    using assms(1) step machine_fits_mono unfolding one_layout_def by blast
  then have "machine_fits (machine_layouts m') m'"
    by (rule dispatch_fits [OF _ one_layout_geometry assms(3,4)]) (simp add: machine_layouts_def)
  then show ?thesis using step by (simp add: one_layout_def)
qed

interpretation in_checkpoint: replay_invariant nfc to_lowercase sha "\<lambda>m. sm_checkpoint_state m \<longrightarrow> one_layout m"
  for nfc to_lowercase sha
proof unfold_locales
  fix m "record" payload m'
  assume m: "sm_checkpoint_state m \<longrightarrow> one_layout m" "sm_pending_layout m = None \<or> is_layout_chunk payload"
    and ok: "machine_dispatch nfc to_lowercase sha m record payload = (Inr (), m')"
  have "sm_checkpoint_state m' = sm_checkpoint_state m"
    using dispatch_setup [of m nfc to_lowercase sha "record" payload] ok by (simp add: same_setup_def)
  then show "sm_checkpoint_state m' \<longrightarrow> one_layout m'" using m ok one_layout_step by blast
qed (auto simp: one_layout_def machine_fits_def machine_layouts_def machine_new_def)

text \<open>All layouts a journal has had, as seen by recovering its prefixes.\<close>

definition journal_layouts ::
  "(string \<Rightarrow> string) \<Rightarrow> (string \<Rightarrow> string) \<Rightarrow> sha256 \<Rightarrow> journal_record list \<Rightarrow> task_id \<Rightarrow> (string \<Rightarrow> bool) \<Rightarrow>
   journal_state_limits \<Rightarrow> recovered_layout set" where
  "journal_layouts nfc to_lowercase sha records task option_policy limits =
     {l. \<exists>n s. jsr_state (recover_journal_state nfc to_lowercase sha (take n records) task option_policy limits) = Some s
            \<and> js_layout s = Some l}"

lemma process_record_fits:
  assumes "machine_fits layouts m" "hash_tells_geometry layouts" "machine_layouts m' \<subseteq> layouts"
    and ok: "process_record nfc to_lowercase sha m index expected record = (Inr u, m')"
  shows "machine_fits layouts m'"
proof -
  from ok obtain payload m1 where run: "machine_apply nfc to_lowercase sha m record payload = (Inr (), m1)"
    and m': "m' = note_sequence record m1"
    by (rule process_record_ok) (rule that; assumption)
  from run obtain rank key m2 where m2: "sm_pending_layout m = None \<or> is_layout_chunk payload"
    "machine_dispatch nfc to_lowercase sha (m\<lparr>sm_checkpoint_rank := rank, sm_checkpoint_retry_key := key\<rparr>) record payload
       = (Inr (), m2)" "m1 = next_machine m2 payload"
    by (rule machine_apply_ok) (rule that; assumption)
  have same: "machine_layouts m2 = machine_layouts m'" "machine_fits layouts m2 \<Longrightarrow> machine_fits layouts m'"
    by (cases "sm_state m2"; auto simp: m' m2(3) note_sequence_def next_machine_def machine_layouts_def machine_fits_def)+
  show ?thesis
    by (rule same(2), rule dispatch_fits [OF _ assms(2) _ m2(2)])
      (use assms(1,3) m2(1) same(1) in \<open>auto simp: machine_fits_def machine_layouts_def\<close>)
qed

lemma process_from_fits:
  "process_from nfc to_lowercase sha m start 0 expected records = (Inr u, m') \<Longrightarrow>
   machine_fits layouts m \<Longrightarrow> hash_tells_geometry layouts \<Longrightarrow>
   (\<And>k m1. k \<le> length records \<Longrightarrow> process_from nfc to_lowercase sha m start 0 expected (take k records) = (Inr (), m1) \<Longrightarrow>
      machine_layouts m1 \<subseteq> layouts) \<Longrightarrow>
   machine_fits layouts m'"
proof (induction records arbitrary: m' u rule: rev_induct)
  case (snoc r0 records)
  obtain r m1 where r: "process_from nfc to_lowercase sha m start 0 expected records = (r, m1)" by fastforce
  with snoc.prems(1) obtain q where m1: "r = Inr ()" "process_record nfc to_lowercase sha m1 (start + length records) q r0 = (Inr (), m')"
    unfolding process_from_append by (cases r) (auto split: prod.split_asm sum.split_asm)
  have "machine_fits layouts m1"
  proof (rule snoc.IH [OF r [unfolded m1(1)] snoc.prems(2,3)])
    fix k m2
    assume "k \<le> length records" "process_from nfc to_lowercase sha m start 0 expected (take k records) = (Inr (), m2)"
    then show "machine_layouts m2 \<subseteq> layouts" using snoc.prems(4) [of k m2] by simp
  qed
  then show ?case using process_record_fits [OF _ snoc.prems(3) _ m1(2)] snoc.prems(1) snoc.prems(4) [of "Suc (length records)" m'] by simp
qed simp

lemma accepted_layouts:
  assumes "accepts nfc to_lowercase sha task option_policy limits (take n records) m"
  shows "machine_layouts m \<subseteq> journal_layouts nfc to_lowercase sha records task option_policy limits"
proof
  fix l
  assume "l \<in> machine_layouts m"
  then obtain s where s: "sm_state m = Some s" "js_layout s = Some l" by (auto simp: machine_layouts_def split: option.splits)
  then have "jsr_state (recover_journal_state nfc to_lowercase sha (take n records) task option_policy limits) = Some s"
    using recover_accepts [OF assms] by (simp add: finish_replay_def)
  then show "l \<in> journal_layouts nfc to_lowercase sha records task option_policy limits"
    using s(2) unfolding journal_layouts_def by blast
qed

lemma checkpoint_fits:
  assumes "checkpoint_accepts nfc to_lowercase sha task option_policy limits records end_index m"
  shows "machine_fits (machine_layouts m) m"
proof -
  obtain cid q h count state_hash m0 state where e:
    "checkpoint_state nfc to_lowercase sha records task option_policy limits end_index = Inr (m0, state)"
    "m = adopt_checkpoint cid q h count state_hash (jr_sequence (records ! end_index)) m0 state"
    using assms(1) by (auto simp: checkpoint_accepts_def)
  let ?start = "machine_new task option_policy limits True (Some (jr_generation (hd records)))"
  have run: "process_from nfc to_lowercase sha ?start 1 0 2 (take (end_index - 1) (tl records)) = (Inr (), m0)"
    and m0: "sm_state m0 = Some state"
    using e(1) by (auto simp: checkpoint_state_def process_records_def Let_def
        split: prod.split_asm sum.split_asm option.split_asm if_splits)
  have "sm_checkpoint_state m0"
    using process_from_setup [of ?start nfc to_lowercase sha 1 0 2 "take (end_index - 1) (tl records)"] run
    by (simp add: same_setup_def machine_new_def)
  then have "one_layout m0" using in_checkpoint.processed [OF in_checkpoint.fresh run] by blast
  then show ?thesis
    by (auto simp: one_layout_def machine_fits_def machine_layouts_def e(2) adopt_checkpoint_def m0)
qed

lemma accepted_fits:
  assumes acc: "accepts nfc to_lowercase sha task option_policy limits records m" and 
    tells: "hash_tells_geometry (journal_layouts nfc to_lowercase sha records task option_policy limits)" (is "hash_tells_geometry ?layouts")
  shows "machine_fits ?layouts m"
proof (cases "jr_record_type (hd records) = RT_CheckpointStart")
  case True
  with acc obtain j m1 where ne: "records \<noteq> []"
    and j: "checkpoint_accepts nfc to_lowercase sha task option_policy limits records j m1"
    and run: "process_from nfc to_lowercase sha m1 (j + 1) 0 (saturating_add (jr_sequence (records ! j)) 1) (drop (j + 1) records) = (Inr (), m)"
    by (auto simp: accepts_def)
  have j_len: "j < length records" using checkpoint_accepts_live [OF j] by simp
  have seen: "machine_layouts m2 \<subseteq> ?layouts"
    if "process_from nfc to_lowercase sha m1 (j + 1) 0 (saturating_add (jr_sequence (records ! j)) 1)
          (take k (drop (j + 1) records)) = (Inr (), m2)" for k m2
  proof -
    have "accepts nfc to_lowercase sha task option_policy limits (take (j + 1 + k) records) m2"
      using that True ne j_len checkpoint_accepts_take [OF j, of "j + 1 + k"] unfolding accepts_def
      by (auto simp: take_drop add.commute intro!: exI [of _ j] exI [of _ m1])
    then show ?thesis by (rule accepted_layouts)
  qed
  have "machine_fits ?layouts m1"
    using machine_fits_mono [OF checkpoint_fits [OF j]] seen [of 0 m1] by simp
  then show ?thesis using process_from_fits [OF run _ tells] seen by blast
next
  case False
  then have run: "process_from nfc to_lowercase sha (live_start task option_policy limits) 0 0 1 records = (Inr (), m)"
    and ne: "records \<noteq> []" using acc by (auto simp: accepts_def)
  have start: "machine_fits ?layouts (live_start task option_policy limits)" "machine_layouts (live_start task option_policy limits) = {}"
    by (simp_all add: live_start_def machine_new_def machine_fits_def machine_layouts_def)
  show ?thesis
  proof (rule process_from_fits [OF run start(1) tells])
    fix k m2
    assume m2: "process_from nfc to_lowercase sha (live_start task option_policy limits) 0 0 1 (take k records) = (Inr (), m2)"
    show "machine_layouts m2 \<subseteq> ?layouts"
    proof (cases "take k records = []")
      case True
      then show ?thesis using m2 start(2) by auto
    next
      case nonempty: False
      then have "accepts nfc to_lowercase sha task option_policy limits (take k records) m2"
        using m2 False by (auto simp: accepts_def hd_take)
      then show ?thesis by (rule accepted_layouts)
    qed
  qed
qed

section \<open>Complete tasks\<close>

text \<open>What holds of a task that was recorded complete while it had a manifest.\<close>

definition completion_ok :: "sha256 \<Rightarrow> recovered_journal_state \<Rightarrow> bool" where
  "completion_ok sha s \<longleftrightarrow>
     (\<forall>manifest. js_verification_manifest s = Some manifest \<longrightarrow>
        manifest_wf sha manifest
        \<and> (\<forall>h n d t. js_terminal s = Some (Term_Complete h n d t) \<longrightarrow>
             \<not> verification_unfinished s
             \<and> (\<exists>l. js_layout s = Some l \<and> rcl_layout_hash l = h \<and> fl_total_length (rcl_layout l) = Some n
                  \<and> vm_total_length manifest = n \<and> fl_piece_length (rcl_layout l) = vm_chunk_length manifest)))"

definition machine_completion :: "sha256 \<Rightarrow> semantic_machine \<Rightarrow> bool" where
  "machine_completion sha m \<longleftrightarrow> (\<forall>s. sm_state m = Some s \<longrightarrow> completion_ok sha s)"

lemma completion_open: "js_terminal s = None \<Longrightarrow> completion_ok sha s \<longleftrightarrow>
  (\<forall>manifest. js_verification_manifest s = Some manifest \<longrightarrow> manifest_wf sha manifest)"
  by (simp add: completion_ok_def)

lemma verification_unfinished_update [simp]:
  "verification_unfinished (s\<lparr>js_terminal := t\<rparr>) = verification_unfinished s"
  "verification_unfinished (s\<lparr>js_clean_shutdown := c\<rparr>) = verification_unfinished s"
  "verification_unfinished (s\<lparr>js_last_sequence := q\<rparr>) = verification_unfinished s"
  "verification_unfinished (s\<lparr>js_checkpoint := p\<rparr>) = verification_unfinished s"
  by (simp_all add: verification_unfinished_def split: option.splits)

lemma manifest_decoded_wf: "manifest_decode sha bytes = Inr m \<Longrightarrow> manifest_wf sha m"
  using manifest_read_write by blast

lemma finish_manifest_completion:
  assumes "finish_manifest sha (m\<lparr>sm_pending_manifest := p\<rparr>) = (Inr u, m')" "machine_completion sha m"
    "\<And>s. sm_state m = Some s \<Longrightarrow> js_terminal s = None"
  shows "machine_completion sha m'"
  using finish_manifest_ok [OF assms(1)] assms(2,3)
  by (auto simp: machine_completion_def completion_open split: if_splits) (erule manifest_decoded_wf)+

lemma next_generation_completion:
  "completion_ok sha s \<Longrightarrow> js_terminal s = None \<Longrightarrow> completion_ok sha (next_generation_state s g reason pending)"
  by (auto simp: completion_ok_def next_generation_state_def Let_def split: if_splits)

lemma dispatch_completion:
  assumes m: "machine_completion sha m" and ok: "machine_dispatch nfc to_lowercase sha m record payload = (Inr (), m')"
    and live: "\<And>s. sm_state m = Some s \<Longrightarrow> js_terminal s = None \<or> is_clean_shutdown payload"
  shows "machine_completion sha m'"
proof (cases "is_clean_shutdown payload")
  case True
  then show ?thesis using ok m
    by (cases payload) (auto dest!: apply_clean_shutdown_ok
        simp: machine_completion_def completion_ok_def at_generation_def)
next
  case False
  with live have none: "\<And>s. sm_state m = Some s \<Longrightarrow> js_terminal s = None" by blast
  show ?thesis
  proof (cases "changes_setup payload \<or> ends_task payload")
    case False
    then show ?thesis using dispatch_frame [OF ok] m none
      by (auto simp: same_frame_def machine_completion_def completion_open)
  next
    case True
    then show ?thesis
    proof (cases payload)
      case (JP_GenerationStarted a b c d)
      then show ?thesis using ok m none
        by (auto dest!: apply_generation_started_ok simp: machine_completion_def next_generation_completion)
    next
      case (JP_VerificationManifest a b c d)
      then show ?thesis using ok m none by (auto dest!: apply_manifest_ok intro: finish_manifest_completion)
    next
      case (JP_VerificationManifestChunk a b c d)
      then show ?thesis using ok m none by (auto dest!: apply_manifest_chunk_ok intro: finish_manifest_completion)
    next
      case (JP_TaskComplete h n d t)
      then have "apply_complete m record h n d t = (Inr (), m')" using ok by simp
      from apply_complete_ok [OF this] obtain s l where s: "sm_state m = Some s" "require_manifest_ready m = Inr ()" "\<not> verification_unfinished s"
        "js_layout s = Some l" "rcl_layout_hash l = h" "\<And>x. fl_total_length (rcl_layout l) = Some x \<Longrightarrow> x = n"
        and m': "m' = m\<lparr>sm_state := Some (s\<lparr>js_terminal := Some (Term_Complete h n d t)\<rparr>)\<rparr>"
        using readyD by blast
      show ?thesis using s require_manifest_ready_ok [OF s(2)] m
        by (cases "js_verification_manifest s") (simp_all add: m' machine_completion_def completion_ok_def)
    next
      case (JP_LayoutCommitted a b c d e f g h i)
      then show ?thesis using ok m none
        by (auto dest!: apply_layout_committed_ok readyD
            simp: install_layout_ok Let_def machine_completion_def completion_open)
    next
      case (JP_LayoutChunk a b c d e)
      then show ?thesis using ok m none
        by (auto dest!: apply_layout_chunk_ok at_generationD
            simp: install_layout_ok Let_def machine_completion_def completion_open)
    qed (use ok m True in \<open>auto dest!: apply_task_created_ok apply_terminal_ok apply_metadata_complete_ok readyD at_generationD
           simp: machine_completion_def completion_ok_def\<close>)
  qed
qed

interpretation completed: replay_invariant nfc to_lowercase sha "machine_completion sha" for nfc to_lowercase sha
proof unfold_locales
  fix m "record" payload m'
  assume m: "machine_completion sha m" "\<And>s. sm_state m = Some s \<Longrightarrow> js_terminal s = None \<or> is_clean_shutdown payload"
    "machine_dispatch nfc to_lowercase sha m record payload = (Inr (), m')"
  show "machine_completion sha m'" by (rule dispatch_completion [OF m(1,3)]) (use m(2) in blast)
qed (auto simp: machine_completion_def completion_ok_def machine_new_def)

text \<open>The invariants, read off a recovered state.\<close>

lemma recovered_completion:
  assumes "jsr_state (recover_journal_state nfc to_lowercase sha records task option_policy limits) = Some s"
  shows "completion_ok sha s"
  using assms by (rule completed.recovered_machine) (simp add: machine_completion_def)

lemma recovered_durable:
  assumes "jsr_state (recover_journal_state nfc to_lowercase sha records task option_policy limits) = Some s"
  shows "durable_ok limits (js_durability s) (js_durable_pieces s)"
  using assms by (rule recovered.recovered_machine) (auto dest!: machine_ok_state simp: recovered_ok_def)

lemma journal_layouts_genuine:
  assumes "l \<in> journal_layouts nfc to_lowercase sha records task option_policy limits"
  shows "genuine_layout sha l"
proof -
  obtain n s where s: "jsr_state (recover_journal_state nfc to_lowercase sha (take n records) task option_policy limits) = Some s"
    "js_layout s = Some l" using assms by (auto simp: journal_layouts_def)
  from s(1) show ?thesis by (rule genuine.recovered_machine) (use s(2) in \<open>simp add: layouts_genuine_def\<close>)
qed

lemma journal_layouts_take:
  "journal_layouts nfc to_lowercase sha (take n records) task option_policy limits
     \<subseteq> journal_layouts nfc to_lowercase sha records task option_policy limits"
  unfolding journal_layouts_def take_take by blast

lemma recovered_fits:
  assumes s: "jsr_state (recover_journal_state nfc to_lowercase sha records task option_policy limits) = Some s"
    and inj: "inj_on sha (recovered_layout_text ` journal_layouts nfc to_lowercase sha records task option_policy limits)"
  shows "pieces_fit (js_layout s) (js_durable_pieces s)"
proof -
  obtain n m where m: "accepts nfc to_lowercase sha task option_policy limits (take n records) m" "sm_state m = Some s"
    using recover_prefix [of nfc to_lowercase sha task option_policy limits records] s by (auto simp: prefix_result_def)
  let ?layouts = "journal_layouts nfc to_lowercase sha (take n records) task option_policy limits"
  have "inj_on sha (recovered_layout_text ` ?layouts)" using inj journal_layouts_take by (meson image_mono inj_on_subset)
  then have "hash_tells_geometry ?layouts" by (intro genuine_layouts_tell_geometry ballI) (rule journal_layouts_genuine)
  then have "machine_fits ?layouts m" by (rule accepted_fits [OF m(1)])
  then show ?thesis using m(2) by (simp add: machine_fits_def)
qed

section \<open>Coverage\<close>

lemma piece_id_eqI: "unat (piece_id_get a) = unat (piece_id_get b) \<Longrightarrow> a = b"
  by (cases a; cases b) (simp add: word_unat_eq_iff)

lemma expected_span_chunk:
  assumes "fl_total_length layout = Some (vm_total_length manifest)" "fl_piece_length layout = vm_chunk_length manifest"
    and "expected_piece_span layout k = Inr span"
  shows "chunk_span manifest (piece_id_get k) = Some span"
  using assms
  by (auto simp: expected_piece_span_def chunk_span_def and_then_eq_Inr ok_or_eq_Inr map_err_eq_Inr checked_sub_def
      not_le word_less_nat_alt split: if_splits sum.splits)

lemma all_pieces_durable:
  assumes wf: "bt_wf d" "manifest_wf sha manifest" and chunks: "vm_chunks manifest \<noteq> []" "length d = length (vm_chunks manifest)"
    and fit: "\<forall>(k, p)\<in>set d. chunk_span manifest (piece_id_get k) = Some (dp_piece_span p)" and i: "unat i < length (vm_chunks manifest)"
  shows "\<exists>p. bt_get d (PieceId i) = Some p \<and> chunk_span manifest i = Some (dp_piece_span p)"
proof -
  let ?f = "\<lambda>k. unat (piece_id_get k)" and ?keys = "fst ` set d"
  have "?f k < length (vm_chunks manifest)" if "k \<in> ?keys" for k
    using that fit chunk_span_some(2) [OF wf(2) chunks(1), of "piece_id_get k"] by fastforce
  then have sub: "?f ` ?keys \<subseteq> {..<length (vm_chunks manifest)}" by auto
  have "inj_on ?f ?keys" by (auto intro!: inj_onI piece_id_eqI)
  moreover have "distinct (map fst d)" using wf(1) by (simp add: bt_wf_def strict_sorted_iff)
  then have "card ?keys = length (vm_chunks manifest)" using chunks(2) distinct_card [of "map fst d"] by simp
  ultimately have "card (?f ` ?keys) = length (vm_chunks manifest)" by (simp add: card_image)
  then have "?f ` ?keys = {..<length (vm_chunks manifest)}" using sub by (intro card_subset_eq) simp_all
  with i have "unat i \<in> ?f ` ?keys" by simp
  then obtain k p where k: "(k, p) \<in> set d" "?f k = unat i" by auto
  then have "k = PieceId i" by (intro piece_id_eqI) simp
  then show ?thesis using bspec [OF fit k(1)] k(1) bt_get_mem [OF wf(1)] by auto
qed

lemma covered_once:
  assumes "bt_wf d" "manifest_wf sha manifest" "vm_chunks manifest \<noteq> []" "length d = length (vm_chunks manifest)"
    and fit: "\<forall>(k, p)\<in>set d. chunk_span manifest (piece_id_get k) = Some (dp_piece_span p)" and x: "x < unat (vm_total_length manifest)"
  shows "\<exists>!k. \<exists>p. bt_get d k = Some p \<and> span_covers (dp_piece_span p) x"
proof -
  let ?c = "unat (vm_chunk_length manifest)"
  note cover = chunk_span_cover [OF chunk_span_some(1) [OF assms(2,3)]]
  obtain i :: u64 where i: "unat i = x div ?c" using chunk_index_unique [OF x] by blast
  then obtain span where span: "chunk_span manifest i = Some span" "span_covers span x" using cover x by blast
  then have "unat i < length (vm_chunks manifest)" using chunk_span_some(2) [OF assms(2,3)] by auto
  then obtain p where p: "bt_get d (PieceId i) = Some p" "dp_piece_span p = span"
    using all_pieces_durable [OF assms(1-4) fit, of i] span by auto
  have "k = PieceId i" if "bt_get d k = Some q" "span_covers (dp_piece_span q) x" for k q
  proof -
    have "chunk_span manifest (piece_id_get k) = Some (dp_piece_span q)"
      using that(1) fit bt_get_mem [OF assms(1)] by fastforce
    then have "unat (piece_id_get k) = x div ?c" using cover that(2) by blast
    then show ?thesis using i by (intro piece_id_eqI) simp
  qed
  then show ?thesis using p span by (intro ex1I [of _ "PieceId i"]) blast+
qed

text \<open>
  C23. A task that recovery reports complete, and that has a manifest with chunk digests, is complete: the whole-file
  digests were checked if the manifest has any, the recorded length is the length of the manifest and of the current layout, and
  every byte of the file lies in exactly one piece that the journal records as durable. The statement holds for any
  journal, also one that starts with a checkpoint and one that goes through several layouts; it only assumes that
  SHA-256 gives different hashes to the different layouts this journal has had.
\<close>

theorem complete_task_covered:
  assumes s: "jsr_state (recover_journal_state nfc to_lowercase sha records task option_policy limits) = Some s"
    and complete: "js_terminal s = Some (Term_Complete layout_hash final_length digest at)"
    and manifest: "js_verification_manifest s = Some manifest" "vm_chunks manifest \<noteq> []"
    and no_collision: "inj_on sha (recovered_layout_text ` journal_layouts nfc to_lowercase sha records task option_policy limits)"
  shows "vm_total_length manifest = final_length
    \<and> (vm_whole manifest \<noteq> [] \<longrightarrow> js_whole_file_verified s)
    \<and> (\<exists>l. js_layout s = Some l \<and> rcl_layout_hash l = layout_hash \<and> fl_total_length (rcl_layout l) = Some final_length)
    \<and> (\<forall>x < unat final_length. \<exists>!k. \<exists>p. bt_get (js_durable_pieces s) k = Some p \<and> span_covers (dp_piece_span p) x)"
proof -
  obtain l where wf: "manifest_wf sha manifest" and finished: "\<not> verification_unfinished s" and l: "js_layout s = Some l"
    "rcl_layout_hash l = layout_hash" "fl_total_length (rcl_layout l) = Some final_length"
    "vm_total_length manifest = final_length" "fl_piece_length (rcl_layout l) = vm_chunk_length manifest"
    using complete manifest recovered_completion [OF s] by (auto simp: completion_ok_def)
  have fit: "\<forall>(k, p)\<in>set (js_durable_pieces s). chunk_span manifest (piece_id_get k) = Some (dp_piece_span p)"
    using recovered_fits [OF s no_collision] l expected_span_chunk by (fastforce simp: pieces_fit_def)
  have len: "length (js_durable_pieces s) = length (vm_chunks manifest)" "vm_whole manifest \<noteq> [] \<longrightarrow> js_whole_file_verified s"
    using finished manifest by (auto simp: verification_unfinished_def)
  have d: "bt_wf (js_durable_pieces s)" using recovered_durable [OF s] by (simp add: durable_ok_def)
  have "\<exists>!k. \<exists>p. bt_get (js_durable_pieces s) k = Some p \<and> span_covers (dp_piece_span p) x"
    if "x < unat final_length" for x
    by (rule covered_once [OF d wf manifest(2) len(1) fit]) (simp add: l(4) that)
  then show ?thesis using len(2) l by blast
qed

section \<open>A complete journal\<close>

text \<open>A checkpoint of a complete task: one file of five bytes in one piece, with a manifest of one chunk digest.\<close>

definition sample_hash :: journal_hash where
  "sample_hash = JournalHash (sample_sha [])"

definition sample_one_chunk :: verification_manifest where
  "sample_one_chunk = \<lparr>vm_total_length = 5, vm_chunk_length = 5, vm_chunks = [sample_digest 1], vm_whole = [],
     vm_fingerprint = sample_hash\<rparr>"

definition sample_start_payload :: journal_payload where
  "sample_start_payload = JP_CheckpointStart (CheckpointId (replicate 16 1)) 9 sample_hash 6 0"

definition sample_created_payload :: journal_payload where
  "sample_created_payload = JP_TaskCreated DM_Balanced 1"

definition sample_options_payload :: journal_payload where
  "sample_options_payload =
     JP_OptionsSnapshot OS_CurrentGeneration None sample_hash \<lparr>som_entries = [], som_canonical_bytes = 4\<rparr>"

definition sample_layout_payload :: journal_payload where
  "sample_layout_payload =
     JP_LayoutCommitted sample_hash sample_hash \<lparr>pp_platform = PP_Unix, pp_bytes = [47]\<rparr> [1] (Some 5) 5 1 1
       [\<lparr>jf_file_id = FileId 0, jf_global_start = 0, jf_global_end = 5, jf_length = 5, jf_selected = True,
         jf_safe_relative_path = JournalRelativePath ''a'', jf_file_identity = [7]\<rparr>]"

definition sample_manifest_payload :: journal_payload where
  "sample_manifest_payload =
     JP_VerificationManifest sample_hash (word_of_nat (length (manifest_encode sample_one_chunk))) 1
       (manifest_encode sample_one_chunk)"

definition sample_pieces_payload :: journal_payload where
  "sample_pieces_payload = JP_PieceStateChunk sample_hash sample_hash 0 1 (PieceId 0) 1 [1] [sample_run 0 1 1]"

definition sample_complete_payload :: journal_payload where
  "sample_complete_payload = JP_TaskComplete sample_hash 5 None 100"

definition sample_end_payload :: journal_payload where
  "sample_end_payload = JP_CheckpointEnd (CheckpointId (replicate 16 1)) 6 sample_hash"

lemmas sample_payload_defs = sample_start_payload_def sample_created_payload_def sample_options_payload_def
  sample_layout_payload_def sample_manifest_payload_def sample_pieces_payload_def sample_complete_payload_def sample_end_payload_def

definition sample_payloads :: "journal_payload list" where
  "sample_payloads =
     [sample_start_payload, sample_created_payload, sample_options_payload, sample_layout_payload, sample_manifest_payload,
      sample_pieces_payload, sample_complete_payload, sample_end_payload]"

definition sample_complete_journal :: "journal_record list" where
  "sample_complete_journal = map2 sample_entry [1, 2, 3, 4, 5, 6, 7, 8] sample_payloads"

lemma sample_hash_wf: "journal_hash_wf sample_hash" "journal_hash_bytes sample_hash = sample_sha bs"
  by (simp_all add: sample_hash_def sample_sha_def journal_hash_wf_def all_zero_def)

lemma sample_path_user: "from_user_path id ''a'' PP_Unix = Inr \<lparr>srp_components = [''a''], srp_encoded_len = 1\<rparr>"
  by (simp add: from_user_path_def reject_absolute_or_prefixed_def build_components_iff validate_component_def
      is_separator_def and_then_def chars_of_def as_bytes_def byte_of_char_def is_control_def
      is_bidirectional_control_def is_reserved_windows_name_def numbered_reserved_name_def ascii_upper_def Let_def
      run_length_def MAX_SAFE_RELATIVE_BYTES_def text_of_def char_of_byte_def)

lemma sample_checkpoint_wf: "checkpoint_id_wf (CheckpointId (replicate 16 1))"
  by (simp add: checkpoint_id_wf_def all_zero_def list_all_iff)

lemma sample_options_wf: "sanitized_option_map_wf \<lparr>som_entries = [], som_canonical_bytes = 4\<rparr>"
  by (simp add: sanitized_option_map_wf_def bt_wf_def MAX_OPTION_MAP_BYTES_def)

lemma sample_platform_wf: "platform_path_wf \<lparr>pp_platform = PP_Unix, pp_bytes = [47]\<rparr>"
  by (simp add: platform_path_wf_def from_native_bytes_def MAX_PLATFORM_PATH_BYTES_def)

lemma sample_relative_wf: "journal_relative_path_wf id (JournalRelativePath ''a'')"
  by (simp add: journal_relative_path_wf_def journal_relative_path_new_def sample_path_user and_then_def map_err_def canonical_string_def
      MAX_SAFE_RELATIVE_BYTES_def is_text_def as_bytes_def byte_of_char_def utf8_valid_def)

lemma sample_run_wf: "durable_evidence_run_wf (sample_run 0 1 1)"
  by (simp add: durable_evidence_run_wf_def sample_run_def journal_hash_wf_def all_zero_def list_all_iff)

lemma sample_manifest_size: "length (manifest_encode sample_one_chunk) = 39"
  by (simp add: manifest_encode_def sample_one_chunk_def digest_entry_def sample_digest_def)


lemmas sample_wf = sample_hash_wf(1) sample_checkpoint_wf sample_options_wf sample_platform_wf sample_relative_wf sample_run_wf

lemma sample_payloads_wf: "p \<in> set sample_payloads \<Longrightarrow> payload_wf id sample_sha p"
  by (auto simp: sample_payloads_def sample_payload_defs sample_wf optional_wf_def journal_file_layout_entry_wf_def checked_add_def MAX_IDENTITY_BYTES_def)

lemma sample_pieces_valid: "validate_piece_state_chunk 0 1 (PieceId 0) 1 [1] [sample_run 0 1 1] = Inr ()"
  by (simp add: validate_piece_state_chunk_def sample_run_def bitmap_get_def bitmap_set_def and_then_def checked_add_def
      same_evidence_class_def usize_max_def MAX_PIECE_STATE_COVERED_PIECES_def div_ceil_def Let_def)

lemma sample_payloads_valid: "p \<in> set sample_payloads \<Longrightarrow> validate_payload id sample_sha p = Inr ()"
  by (auto simp: sample_payloads_def sample_payload_defs validate_layout_committed_def validate_layout_entries_def sample_path_user and_then_def map_err_def
      canonical_string_def MAX_IDENTITY_BYTES_def MAX_LAYOUT_ENTRIES_def sample_manifest_size sample_pieces_valid Let_def payload_limits)

lemma sample_payloads_body: "p \<in> set sample_payloads \<Longrightarrow> \<exists>bs. encode_body p = Inr bs \<and> length bs \<le> MAX_RECORD_PAYLOAD"
  using sample_hash_wf(1)
  by (auto simp: sample_payloads_def sample_payload_defs seq_simps write_simps enc_count_def enc_option_map_def enc_optional_id_def
      enc_optional_u64_def enc_platform_path_def enc_file_entries_def enc_file_entry_def enc_evidence_runs_def enc_evidence_run_def
      enc_optional_digest_def enc_bytes_def
      sample_manifest_size MAX_RECORD_PAYLOAD_def journal_hash_wf_def as_bytes_def sample_run_def)

lemma sample_payloads_decode:
  assumes "p \<in> set sample_payloads"
  shows "record_decode_payload id sample_sha (sample_entry q p) = Inr p"
proof -
  obtain bs where "encode_body p = Inr bs" "length bs \<le> MAX_RECORD_PAYLOAD" using sample_payloads_body [OF assms] by blast
  then have "payload_encode id sample_sha p = Inr bs"
    using sample_payloads_valid [OF assms] by (simp add: payload_encode_def and_then_def)
  then show ?thesis using sample_entry_decode sample_payloads_wf [OF assms] by blast
qed

definition sample_complete_layout :: recovered_layout where
  "sample_complete_layout =
     \<lparr>rcl_layout = \<lparr>fl_task = TaskId 1, fl_generation = generation_initial,
        fl_root_binding = \<lparr>rb_path = \<lparr>pp_platform = PP_Unix, pp_bytes = [47]\<rparr>, rb_root_identity = RootIdentity [1],
          rb_file_identities = [(FileId 0, FileIdentity [7])], rb_hash = sample_sha []\<rparr>,
        fl_files = [\<lparr>fe_id = FileId 0, fe_safe_path = \<lparr>srp_components = [''a''], srp_encoded_len = 1\<rparr>,
          fe_identity = Some (FileIdentity [7]), fe_length = 5, fe_global_start = 0, fe_global_end = 5, fe_selected = True\<rparr>],
        fl_total_length = Some 5, fl_piece_length = 5, fl_layout_hash = LayoutHash (sample_sha []), fl_canonical_bytes = 39\<rparr>,
      rcl_layout_hash = sample_hash, rcl_root_binding_hash = sample_hash\<rparr>"

lemma sample_assembled:
  "assemble_layout id id sample_sha (TaskId 1)
     \<lparr>pl_generation = generation_initial, pl_layout_hash = sample_hash, pl_root_binding_hash = sample_hash,
      pl_root_display = \<lparr>pp_platform = PP_Unix, pp_bytes = [47]\<rparr>, pl_root_identity = [1], pl_total_length = Some 5,
      pl_piece_length = 5, pl_total_file_count = 1, pl_chunk_count = 1, pl_next_chunk = 1,
      pl_files = [\<lparr>jf_file_id = FileId 0, jf_global_start = 0, jf_global_end = 5, jf_length = 5, jf_selected = True,
          jf_safe_relative_path = JournalRelativePath ''a'', jf_file_identity = [7]\<rparr>],
      pl_previous_layout = None, pl_previous_durable_pieces = []\<rparr> = Inr sample_complete_layout"
  by (simp add: assemble_layout_def sample_path_user and_then_def map_err_def root_identity_new_def file_identity_new_def
      root_binding_new_def file_layout_new_def validate_layout_def MAX_LAYOUT_ENTRIES_def MAX_IDENTITY_BYTES_def
      check_identity_def checked_add_def ok_or_def collision_key_def canonical_string_def usize_max_def MAX_LAYOUT_BYTES_def
      root_binding_hash_def calculate_layout_hash_def sample_hash_def sample_sha_def sample_complete_layout_def Let_def)

lemma sample_one_chunk_wf: "manifest_wf sample_sha sample_one_chunk"
  by (simp add: manifest_wf_def manifest_new_def sample_one_chunk_def sample_digest_def journal_digest_wf_def div_ceil_def
      MAX_VERIFICATION_CHUNKS_def digest_weight_def MAX_VERIFICATION_MANIFEST_BYTES_def manifest_hash_bytes_def sample_hash_def
      journal_hash_new_def sample_sha_def all_zero_def Let_def)

lemma sample_manifest_read:
  "manifest_decode sample_sha (manifest_encode sample_one_chunk) = Inr sample_one_chunk"
  "manifest_hash_bytes sample_sha bs = sample_hash"
  by (rule manifest_write_read [OF sample_one_chunk_wf])
    (simp add: manifest_hash_bytes_def sample_hash_def journal_hash_new_def sample_sha_def all_zero_def)

lemma sample_options_hash: "options_snapshot_hash sample_sha options = sample_hash"
  by (simp add: options_snapshot_hash_def sample_hash_def journal_hash_new_def sample_sha_def all_zero_def)

lemma sample_entry_size: "p \<in> set sample_payloads \<Longrightarrow> length (jr_payload (sample_entry q p)) < 2 ^ 32"
  using sample_payloads_body [of p] sample_payloads_valid [of p]
  by (auto simp: sample_entry_def payload_encode_def and_then_def MAX_RECORD_PAYLOAD_def)

lemma checkpoint_records_text_ok:
  "\<forall>r\<in>set records. length (jr_payload r) < 2 ^ 32 \<Longrightarrow> \<exists>bs. checkpoint_records_text records = Inr bs"
  by (induction records) (auto simp: and_then_def)

lemma sample_state_hash:
  assumes "\<forall>r\<in>set records. length (jr_payload r) < 2 ^ 32" "length records < 2 ^ 32"
  shows "calculate_checkpoint_state_hash sample_sha records = Inr sample_hash"
  using checkpoint_records_text_ok [OF assms(1)] assms(2)
  by (auto simp: calculate_checkpoint_state_hash_def and_then_def sample_hash_def sample_sha_def nonzero_hash_def
      journal_hash_new_def all_zero_def)

lemma sample_decodes:
  "record_decode_payload id sample_sha (sample_entry q sample_start_payload) = Inr sample_start_payload"
  "record_decode_payload id sample_sha (sample_entry q sample_created_payload) = Inr sample_created_payload"
  "record_decode_payload id sample_sha (sample_entry q sample_options_payload) = Inr sample_options_payload"
  "record_decode_payload id sample_sha (sample_entry q sample_layout_payload) = Inr sample_layout_payload"
  "record_decode_payload id sample_sha (sample_entry q sample_manifest_payload) = Inr sample_manifest_payload"
  "record_decode_payload id sample_sha (sample_entry q sample_pieces_payload) = Inr sample_pieces_payload"
  "record_decode_payload id sample_sha (sample_entry q sample_complete_payload) = Inr sample_complete_payload"
  "record_decode_payload id sample_sha (sample_entry q sample_end_payload) = Inr sample_end_payload"
  by (rule sample_payloads_decode, simp add: sample_payloads_def)+

lemma process_record_step:
  assumes "record_decode_payload nfc sha r = Inr p" "jr_sequence r = expected" "index < jl_max_records (sm_limits m)"
    "machine_apply nfc to_lowercase sha m r p = (Inr (), m1)"
  shows "process_record nfc to_lowercase sha m index expected r = (Inr (), note_sequence r m1)"
  using assms by (simp add: process_record_def map_err_def)

definition sample_machine :: "nat \<Rightarrow> recovered_journal_state option \<Rightarrow> generation option \<Rightarrow> bool \<Rightarrow> semantic_machine" where
  "sample_machine rank s layout_generation seen =
     (machine_new (TaskId 1) (\<lambda>_. True) journal_state_limits_default True (Some generation_initial))
       \<lparr>sm_checkpoint_rank := rank, sm_state := s, sm_layout_record_generation := layout_generation, sm_seen_piece_state := seen\<rparr>"

definition sample_state ::
  "u64 \<Rightarrow> recovered_option_snapshot option \<Rightarrow> recovered_layout option \<Rightarrow> verification_manifest option \<Rightarrow>
   (piece_id, recovered_durable_piece) btree \<Rightarrow> recovered_terminal option \<Rightarrow> recovered_journal_state" where
  "sample_state q options layout manifest pieces terminal =
     \<lparr>js_task = TaskId 1, js_durability = DM_Balanced, js_creator_version = 1, js_generation = generation_initial,
      js_current_options = options, js_pending_options = None, js_layout = layout, js_http_strong_validator = None,
      js_http_range_identity = None, js_verification_manifest = manifest, js_protocol_validators = [],
      js_whole_file_verified = False, js_committed_spans = [], js_durable_pieces = pieces, js_retry_states = [],
      js_paused = None, js_host_key_state = None, js_finalizations = [], js_terminal = terminal, js_checkpoint = None,
      js_rebind_source_root_binding_hash = None, js_clean_shutdown = None, js_last_sequence = q\<rparr>"

definition sample_snapshot :: recovered_option_snapshot where
  "sample_snapshot = \<lparr>os_patch_id = None, os_snapshot_hash = sample_hash,
     os_options = \<lparr>som_entries = [], som_canonical_bytes = 4\<rparr>\<rparr>"

definition sample_durable_piece :: recovered_durable_piece where
  "sample_durable_piece = \<lparr>dp_piece_id = PieceId 0, dp_piece_span = \<lparr>ps_offset = 0, ps_len = 5\<rparr>,
     dp_validator_set_fingerprint = JournalHash (replicate 32 1), dp_digest = None, dp_origin = DO_Checkpoint\<rparr>"

lemma sample_one_chunk_sel:
  "vm_total_length sample_one_chunk = 5" "vm_chunk_length sample_one_chunk = 5" "length (vm_chunks sample_one_chunk) = 1"
  "vm_whole sample_one_chunk = []"
  by (simp_all add: sample_one_chunk_def)

lemma sample_count_ones: "count_ones 1 = 1"
  by (simp add: count_ones_def upt_conv_Cons bit_1_iff)

lemmas sample_step_defs = machine_apply_def sample_machine_def sample_state_def machine_new_def validate_checkpoint_order_def
  journal_state_limits_default_def note_sequence_def try_in_def set_state_def the_state_def and_then_def ok_or_def map_err_def Let_def

lemma sample_created_step:
  "i < 262144 \<Longrightarrow>
   process_record id id sample_sha (sample_machine 0 None None False) i 2 (sample_entry 2 sample_created_payload) =
     (Inr (), sample_machine 1 (Some (sample_state 2 None None None [] None)) None False)"
  by (subst process_record_step [OF sample_decodes(2)])
    (auto simp: sample_step_defs sample_created_payload_def apply_task_created_def)

lemma sample_options_step:
  "i < 262144 \<Longrightarrow>
   process_record id id sample_sha (sample_machine 1 (Some (sample_state 2 None None None [] None)) None False) i 3
       (sample_entry 3 sample_options_payload) =
     (Inr (), sample_machine 2 (Some (sample_state 3 (Some sample_snapshot) None None [] None)) None False)"
  by (subst process_record_step [OF sample_decodes(3)])
    (auto simp: sample_step_defs sample_options_payload_def apply_options_def require_current_generation_def sample_options_hash
      sample_snapshot_def)

lemma sample_layout_step:
  "i < 262144 \<Longrightarrow>
   process_record id id sample_sha (sample_machine 2 (Some (sample_state 3 (Some sample_snapshot) None None [] None)) None False) i 4
       (sample_entry 4 sample_layout_payload) =
     (Inr (), sample_machine 3 (Some (sample_state 4 (Some sample_snapshot) (Some sample_complete_layout) None [] None))
        (Some generation_initial) False)"
  by (subst process_record_step [OF sample_decodes(4)])
    (auto simp: sample_step_defs sample_layout_payload_def apply_layout_committed_def require_current_generation_def
      require_ready_nonterminal_def install_layout_def sample_assembled [simplified])

lemma sample_manifest_step:
  "i < 262144 \<Longrightarrow>
   process_record id id sample_sha
       (sample_machine 3 (Some (sample_state 4 (Some sample_snapshot) (Some sample_complete_layout) None [] None))
          (Some generation_initial) False) i 5 (sample_entry 5 sample_manifest_payload) =
     (Inr (), sample_machine 4 (Some (sample_state 5 (Some sample_snapshot) (Some sample_complete_layout) (Some sample_one_chunk) [] None))
        (Some generation_initial) False)"
  by (subst process_record_step [OF sample_decodes(5)])
    (auto simp: sample_step_defs sample_manifest_payload_def apply_manifest_def require_current_generation_def finish_manifest_def
      sample_manifest_read sample_manifest_size manifest_option_def sample_complete_layout_def sample_one_chunk_sel payload_limits
      sample_snapshot_def)

lemma sample_pieces_step:
  "i < 262144 \<Longrightarrow>
   process_record id id sample_sha
       (sample_machine 4 (Some (sample_state 5 (Some sample_snapshot) (Some sample_complete_layout) (Some sample_one_chunk) [] None))
          (Some generation_initial) False) i 6 (sample_entry 6 sample_pieces_payload) =
     (Inr (), sample_machine 6 (Some (sample_state 6 (Some sample_snapshot) (Some sample_complete_layout) (Some sample_one_chunk)
          [(PieceId 0, sample_durable_piece)] None)) (Some generation_initial) True)"
  by (subst process_record_step [OF sample_decodes(6)])
    (auto simp: sample_step_defs sample_pieces_payload_def apply_piece_state_chunk_def require_current_generation_def
      require_ready_nonterminal_def require_layout_def piece_state_sequence_def install_pieces_def
      sample_complete_layout_def sample_durable_piece_def run_indices_def run_piece_def run_digest_def sample_run_def
      expected_piece_span_def checked_mul_def checked_add_def persisted_span_new_def sample_count_ones usize_max_def)

lemma sample_complete_step:
  "i < 262144 \<Longrightarrow>
   process_record id id sample_sha
       (sample_machine 6 (Some (sample_state 6 (Some sample_snapshot) (Some sample_complete_layout) (Some sample_one_chunk)
          [(PieceId 0, sample_durable_piece)] None)) (Some generation_initial) True) i 7 (sample_entry 7 sample_complete_payload) =
     (Inr (), sample_machine 9 (Some (sample_state 7 (Some sample_snapshot) (Some sample_complete_layout) (Some sample_one_chunk)
          [(PieceId 0, sample_durable_piece)] (Some (Term_Complete sample_hash 5 None 100)))) (Some generation_initial) True)"
  by (subst process_record_step [OF sample_decodes(7)])
    (auto simp: sample_step_defs sample_complete_payload_def apply_complete_def apply_terminal_def require_current_generation_def
      require_ready_nonterminal_def require_layout_def require_manifest_ready_def manifest_option_def verification_unfinished_def
      finalization_open_def bt_values_def sample_complete_layout_def sample_one_chunk_def sample_snapshot_def)

definition sample_final_machine :: semantic_machine where
  "sample_final_machine = sample_machine 9 (Some (sample_state 7 (Some sample_snapshot) (Some sample_complete_layout)
     (Some sample_one_chunk) [(PieceId 0, sample_durable_piece)] (Some (Term_Complete sample_hash 5 None 100))))
     (Some generation_initial) True"

lemma sample_journal_entries:
  "sample_complete_journal = [sample_entry 1 sample_start_payload, sample_entry 2 sample_created_payload,
     sample_entry 3 sample_options_payload, sample_entry 4 sample_layout_payload, sample_entry 5 sample_manifest_payload,
     sample_entry 6 sample_pieces_payload, sample_entry 7 sample_complete_payload, sample_entry 8 sample_end_payload]"
  by (simp add: sample_complete_journal_def sample_payloads_def)

lemma sample_checkpoint_run:
  "process_from id id sample_sha (sample_machine 0 None None False) 1 0 2
     [sample_entry 2 sample_created_payload, sample_entry 3 sample_options_payload, sample_entry 4 sample_layout_payload,
      sample_entry 5 sample_manifest_payload, sample_entry 6 sample_pieces_payload, sample_entry 7 sample_complete_payload]
   = (Inr (), sample_final_machine)"
  by (simp add: sample_created_step sample_options_step sample_layout_step sample_manifest_step sample_pieces_step sample_complete_step
      sample_sequences sample_final_machine_def del: One_nat_def)

lemma sample_envelope_decodes:
  "record_decode_payload id sample_sha (sample_entry q sample_start_payload) =
     Inr (JP_CheckpointStart (CheckpointId (replicate 16 1)) 9 sample_hash 6 0)"
  "record_decode_payload id sample_sha (sample_entry q sample_end_payload) =
     Inr (JP_CheckpointEnd (CheckpointId (replicate 16 1)) 6 sample_hash)"
  unfolding sample_decodes by (simp_all add: sample_payload_defs)

lemma sample_machine_start:
  "machine_new (TaskId 1) (\<lambda>_. True) journal_state_limits_default True (Some generation_initial) = sample_machine 0 None None False"
  by (simp add: sample_machine_def machine_new_def)

lemma sample_accepted:
  "checkpoint_accepts id id sample_sha (TaskId 1) (\<lambda>_. True) journal_state_limits_default sample_complete_journal 7
     (adopt_checkpoint (CheckpointId (replicate 16 1)) 9 sample_hash 6 sample_hash 8 sample_final_machine
        (the (sm_state sample_final_machine)))"
proof -
  have "checkpoint_envelope id sample_sha sample_complete_journal journal_state_limits_default =
      Inr (CheckpointId (replicate 16 1), 9, sample_hash, 6, 7, sample_hash)"
  proof -
    have hash: "calculate_checkpoint_state_hash sample_sha (take 6 (tl sample_complete_journal)) = Inr sample_hash"
      by (rule sample_state_hash)
        (use sample_entry_size in \<open>auto simp: sample_journal_entries sample_payloads_def\<close>)
    have "sequence_gap sample_complete_journal 7 = None"
      by (simp add: sequence_gap_def sample_journal_entries find_None_iff upt_rec numeral_eq_Suc)
    then show ?thesis using hash
      by (simp add: checkpoint_envelope_def sample_journal_entries sample_envelope_decodes usize_max_def
          journal_state_limits_default_def Let_def, simp add: sample_end_payload_def)
  qed
  moreover have "checkpoint_state id id sample_sha sample_complete_journal (TaskId 1) (\<lambda>_. True) journal_state_limits_default 7 =
      Inr (sample_final_machine, the (sm_state sample_final_machine))"
    using sample_checkpoint_run
    by (simp add: checkpoint_state_def process_records_def sample_journal_entries sample_machine_start sample_final_machine_def
        sample_machine_def machine_new_def sample_state_def del: process_from.simps)
  ultimately show ?thesis by (simp add: checkpoint_accepts_def sample_journal_entries)
qed

definition sample_complete_state :: recovered_journal_state where
  "sample_complete_state =
     (sample_state 8 (Some sample_snapshot) (Some sample_complete_layout) (Some sample_one_chunk)
       [(PieceId 0, sample_durable_piece)] (Some (Term_Complete sample_hash 5 None 100)))
       \<lparr>js_checkpoint := Some \<lparr>rcp_checkpoint_id = CheckpointId (replicate 16 1), rcp_source_last_sequence = 9,
          rcp_source_segment_hash = sample_hash, rcp_state_record_count = 6, rcp_state_hash = sample_hash, rcp_end_sequence = 8\<rparr>\<rparr>"

lemma sample_complete_recovered: "jsr_state (sample_recover sample_complete_journal) = Some sample_complete_state"
proof -
  let ?m = "adopt_checkpoint (CheckpointId (replicate 16 1)) 9 sample_hash 6 sample_hash 8 sample_final_machine
    (the (sm_state sample_final_machine))"
  have "accepts id id sample_sha (TaskId 1) (\<lambda>_. True) journal_state_limits_default sample_complete_journal ?m"
    using sample_accepted
    by (auto simp: accepts_def sample_journal_entries sample_start_payload_def intro!: exI [of _ 7] exI [of _ ?m])
  from recover_accepts [OF this] show ?thesis
    by (simp add: sample_recover_def finish_replay_def adopt_checkpoint_def sample_final_machine_def sample_machine_def
        sample_complete_state_def sample_state_def)
qed

lemma sample_complete_layouts:
  "journal_layouts id id sample_sha sample_complete_journal (TaskId 1) (\<lambda>_. True) journal_state_limits_default \<subseteq> {sample_complete_layout}"
proof
  fix l
  assume "l \<in> journal_layouts id id sample_sha sample_complete_journal (TaskId 1) (\<lambda>_. True) journal_state_limits_default"
  then obtain n s where s: "jsr_state (sample_recover (take n sample_complete_journal)) = Some s" "js_layout s = Some l"
    by (auto simp: journal_layouts_def sample_recover_def)
  then obtain k m where m: "accepts id id sample_sha (TaskId 1) (\<lambda>_. True) journal_state_limits_default
      (take k (take n sample_complete_journal)) m"
    using recover_prefix [of id id sample_sha "TaskId 1" "\<lambda>_. True" journal_state_limits_default "take n sample_complete_journal"]
    by (auto simp: sample_recover_def prefix_result_def)
  let ?r = "take k (take n sample_complete_journal)"
  have first: "hd ?r = hd sample_complete_journal" using m by (auto simp: accepts_def hd_take)
  then obtain j m1 where "checkpoint_accepts id id sample_sha (TaskId 1) (\<lambda>_. True) journal_state_limits_default ?r j m1"
    using m by (auto simp: accepts_def sample_journal_entries sample_start_payload_def)
  then have "7 < length ?r"
    using checkpoint_accepts_end [OF _ sample_accepted first] checkpoint_accepts_live by blast
  then have "take n sample_complete_journal = sample_complete_journal" by (simp add: sample_journal_entries)
  then show "l \<in> {sample_complete_layout}"
    using s sample_complete_recovered by (auto simp: sample_complete_state_def sample_state_def)
qed

theorem complete_task_covered_witness:
  "jsr_state (sample_recover sample_complete_journal) = Some sample_complete_state
   \<and> js_terminal sample_complete_state = Some (Term_Complete sample_hash 5 None 100)
   \<and> (\<exists>!k. \<exists>p. bt_get (js_durable_pieces sample_complete_state) k = Some p \<and> span_covers (dp_piece_span p) 4)"
proof -
  have "inj_on sample_sha (recovered_layout_text `
      journal_layouts id id sample_sha sample_complete_journal (TaskId 1) (\<lambda>_. True) journal_state_limits_default)"
    by (rule inj_on_subset [OF inj_on_insert [THEN iffD2]]) (use sample_complete_layouts in \<open>auto\<close>)
  moreover have "js_terminal sample_complete_state = Some (Term_Complete sample_hash 5 None 100)"
    "js_verification_manifest sample_complete_state = Some sample_one_chunk" "vm_chunks sample_one_chunk \<noteq> []"
    by (simp_all add: sample_complete_state_def sample_state_def sample_one_chunk_def)
  moreover note sample_complete_recovered
  ultimately show ?thesis
    using complete_task_covered [of id id sample_sha sample_complete_journal "TaskId 1" "\<lambda>_. True" journal_state_limits_default
        sample_complete_state sample_hash 5 None 100 sample_one_chunk]
    by (simp add: sample_recover_def)
qed

end
