(* ===== verification/JournalLeases.thy ===== *)
theory JournalLeases
  imports JournalCoverage
begin

text \<open>
  Where the bytes of a durable piece come from. A piece is only recorded verified when the committed leases that
  started it cover it without a gap and without an overlap, and only recorded durable, unless it was read back from
  the disk, with the hashes of these leases. This theory carries the evidence along every journal.
\<close>

section \<open>Tiling\<close>

definition range_covers :: "u64 \<times> u64 \<Rightarrow> nat \<Rightarrow> bool" where
  "range_covers r x \<longleftrightarrow> unat (fst r) \<le> x \<and> x < unat (snd r)"

lemma spans_tile_count:
  "spans_tile a rs = Some b \<Longrightarrow>
   unat a \<le> unat b \<and> length (filter (\<lambda>r. range_covers r x) rs) = (if unat a \<le> x \<and> x < unat b then 1 else 0)"
proof (induction a rs rule: spans_tile.induct)
  case (2 a start stop rest)
  then have step: "start = a" "\<not> stop \<le> a" "spans_tile stop rest = Some b" by (auto split: if_splits)
  then have "unat a < unat stop" by (simp add: word_less_nat_alt not_le)
  moreover have "unat stop \<le> unat b"
    "length (filter (\<lambda>r. range_covers r x) rest) = (if unat stop \<le> x \<and> x < unat b then 1 else 0)"
    using 2(1) step by auto
  ultimately show ?case using step(1) by (auto simp: range_covers_def split: if_splits)
qed simp

lemma span_end: "persisted_span_wf s \<Longrightarrow> unat (ps_offset s + ps_len s) = unat (ps_offset s) + unat (ps_len s)"
  by (simp add: persisted_span_wf_def unat_word_ariths)

lemma clip_span_covers:
  assumes "persisted_span_wf piece" "persisted_span_wf s"
  shows "range_covers (clip_span piece s) x \<longleftrightarrow> span_covers piece x \<and> span_covers s x"
  using span_end [OF assms(1)] span_end [OF assms(2)]
  by (auto simp: range_covers_def clip_span_def span_covers_def max_def min_def word_le_nat_alt)

text \<open>Every byte of the span lies in the span of exactly one of the contributors, which are different leases.\<close>

definition piece_tiled :: "persisted_span \<Rightarrow> journal_contributor list \<Rightarrow> bool" where
  "piece_tiled span contributors \<longleftrightarrow>
     distinct (map jc_lease_id contributors)
     \<and> (\<forall>x. span_covers span x \<longrightarrow> (\<exists>!c. c \<in> set contributors \<and> span_covers (jc_span c) x))"

lemma one_in_filter:
  assumes "length (filter P xs) = 1"
  shows "\<exists>!x. x \<in> set xs \<and> P x"
proof -
  obtain y where "filter P xs = [y]" using assms by (auto simp: length_Suc_conv)
  then have "set (filter P xs) = {y}" by simp
  then show ?thesis by (intro ex1I [of _ y]) auto
qed

lemma contributors_tile:
  assumes ok: "contributors_for_piece m piece_id piece = Inr cs" and piece: "persisted_span_wf piece"
    and leases: "bt_wf (sm_committed_leases m)" "\<forall>(k, l)\<in>set (sm_committed_leases m). persisted_span_wf (ls_span l)"
  shows "piece_tiled piece cs"
proof -
  let ?leases = "filter (\<lambda>(lease_id, lease). (lease_id, piece_id) \<in> sm_piece_leases m
    \<and> spans_intersect (ls_span lease) piece) (sm_committed_leases m)"
  from ok have cs: "cs = map lease_contributor ?leases"
    and tile: "spans_tile (ps_offset piece) (sort (map (clip_span piece \<circ> jc_span) cs)) = Some (ps_offset piece + ps_len piece)"
    by (auto simp: contributors_for_piece_def Let_def split: if_splits option.split_asm)
  have wf: "\<forall>c\<in>set cs. persisted_span_wf (jc_span c)" using leases(2) by (auto simp: cs lease_contributor_def)
  have "map jc_lease_id cs = map fst ?leases" by (auto simp: cs lease_contributor_def)
  moreover have "distinct (map fst (sm_committed_leases m))" using leases(1) by (simp add: bt_wf_def strict_sorted_iff)
  ultimately have "distinct (map jc_lease_id cs)" by (simp add: distinct_map_filter)
  moreover have "\<exists>!c. c \<in> set cs \<and> span_covers (jc_span c) x" if x: "span_covers piece x" for x
  proof (rule one_in_filter)
    have "length (filter (\<lambda>r. range_covers r x) (map (clip_span piece \<circ> jc_span) cs)) = 1"
      using spans_tile_count [OF tile, of x] x span_end [OF piece] by (simp add: filter_sort span_covers_def)
    also have "length (filter (\<lambda>r. range_covers r x) (map (clip_span piece \<circ> jc_span) cs)) =
        length (filter (\<lambda>c. range_covers (clip_span piece (jc_span c)) x) cs)"
      by (simp add: filter_map comp_def)
    also have "filter (\<lambda>c. range_covers (clip_span piece (jc_span c)) x) cs = filter (\<lambda>c. span_covers (jc_span c) x) cs"
      using wf x clip_span_covers [OF piece] by (intro filter_cong) auto
    finally show "length (filter (\<lambda>c. span_covers (jc_span c) x) cs) = 1" .
  qed
  ultimately show ?thesis by (simp add: piece_tiled_def)
qed

section \<open>Evidence along a journal\<close>

definition piece_evidence :: "sha256 \<Rightarrow> persisted_span \<Rightarrow> journal_hash \<Rightarrow> journal_hash \<Rightarrow> bool" where
  "piece_evidence sha span contributors_hash fingerprint \<longleftrightarrow>
     (\<exists>cs. calculate_contributors_hash sha cs = Inr contributors_hash
         \<and> calculate_validator_set_fingerprint sha cs = Inr fingerprint \<and> piece_tiled span cs)"

definition durable_evidence :: "sha256 \<Rightarrow> recovered_durable_piece \<Rightarrow> bool" where
  "durable_evidence sha p \<longleftrightarrow>
     (case dp_origin p of
        DO_Checkpoint \<Rightarrow> True
      | DO_Live contributors_hash barrier \<Rightarrow>
          barrier = DB_RecoveryReadback
          \<or> piece_evidence sha (dp_piece_span p) contributors_hash (dp_validator_set_fingerprint p))"

definition pieces_evident :: "sha256 \<Rightarrow> (piece_id, recovered_durable_piece) btree \<Rightarrow> bool" where
  "pieces_evident sha d \<longleftrightarrow> (\<forall>(k, p)\<in>set d. durable_evidence sha p)"

definition leases_wf :: "(lease_id, lease_state) btree \<Rightarrow> bool" where
  "leases_wf leases \<longleftrightarrow> bt_wf leases \<and> (\<forall>(k, l)\<in>set leases. persisted_span_wf (ls_span l))"

definition verified_evident :: "sha256 \<Rightarrow> (piece_id, verified_piece) btree \<Rightarrow> bool" where
  "verified_evident sha vs \<longleftrightarrow>
     bt_wf vs
     \<and> (\<forall>(k, v)\<in>set vs. piece_evidence sha (vp_span v) (vp_contributors_hash v) (vp_validator_set_fingerprint v))"

definition machine_evident :: "sha256 \<Rightarrow> semantic_machine \<Rightarrow> bool" where
  "machine_evident sha m \<longleftrightarrow>
     leases_wf (sm_active_leases m) \<and> leases_wf (sm_committed_leases m) \<and> verified_evident sha (sm_verified_pieces m)
     \<and> (\<forall>s. sm_state m = Some s \<longrightarrow> pieces_evident sha (js_durable_pieces s)
          \<and> (\<forall>p. sm_pending_layout m = Some p \<longrightarrow> pieces_evident sha (pl_previous_durable_pieces p)))"

lemma evident_simps [simp]: "leases_wf []" "verified_evident sha []" "pieces_evident sha []"
  by (simp_all add: leases_wf_def verified_evident_def pieces_evident_def)

lemma pieces_evident_subset: "pieces_evident sha d \<Longrightarrow> set d' \<subseteq> set d \<Longrightarrow> pieces_evident sha d'"
  by (auto simp: pieces_evident_def)

lemma pieces_evident_insert: "pieces_evident sha d \<Longrightarrow> durable_evidence sha p \<Longrightarrow> pieces_evident sha (bt_insert k p d)"
  using bt_insert_set [of k p d] by (fastforce simp: pieces_evident_def)

lemma leases_wf_insert: "leases_wf d \<Longrightarrow> persisted_span_wf (ls_span l) \<Longrightarrow> leases_wf (bt_insert k l d)"
  using bt_insert_set [of k l d] by (fastforce simp: leases_wf_def)

lemma leases_wf_remove: "leases_wf d \<Longrightarrow> leases_wf (bt_remove k d)"
  by (auto simp: leases_wf_def bt_remove_def bt_filter_wf)

lemma verified_evident_insert:
  "verified_evident sha d \<Longrightarrow> piece_evidence sha (vp_span v) (vp_contributors_hash v) (vp_validator_set_fingerprint v) \<Longrightarrow>
   verified_evident sha (bt_insert k v d)"
  using bt_insert_set [of k v d] by (fastforce simp: verified_evident_def)

lemma verified_evident_remove: "verified_evident sha d \<Longrightarrow> verified_evident sha (bt_remove k d)"
  by (auto simp: verified_evident_def bt_remove_def bt_filter_wf)

lemma lease_get_wf: "leases_wf d \<Longrightarrow> bt_get d k = Some l \<Longrightarrow> persisted_span_wf (ls_span l)"
  using bt_get_mem [of d k l] by (auto simp: leases_wf_def)

lemma expected_piece_span_wf: "expected_piece_span layout k = Inr span \<Longrightarrow> persisted_span_wf span"
  by (auto simp: expected_piece_span_def persisted_span_new_def persisted_span_wf_def checked_add_def and_then_eq_Inr ok_or_eq_Inr
      map_err_eq_Inr split: if_splits)

lemma decoded_payload_wf: "record_decode_payload nfc sha record = Inr payload \<Longrightarrow> payload_wf nfc sha payload"
  using payload_read_write by (auto simp: record_decode_payload_def)

lemma piece_verified_evident:
  assumes ok: "apply_piece_verified sha m record piece_id piece_span contributors_hash digest = (Inr u, m')"
    and m: "machine_evident sha m"
  shows "machine_evident sha m'"
proof -
  let ?v = "\<lambda>fingerprint. \<lparr>vp_span = piece_span, vp_contributors_hash = contributors_hash,
    vp_validator_set_fingerprint = fingerprint, vp_digest = digest\<rparr>"
  from apply_piece_verified_ok [OF ok] obtain cs fingerprint where span: "machine_piece_span m piece_id = Inr piece_span"
    and cs: "contributors_for_piece m piece_id piece_span = Inr cs" "calculate_contributors_hash sha cs = Inr contributors_hash"
      "calculate_validator_set_fingerprint sha cs = Inr fingerprint"
    and m': "m' = m\<lparr>sm_verified_pieces := bt_insert piece_id (?v fingerprint) (sm_verified_pieces m)\<rparr>"
    by blast
  have "persisted_span_wf piece_span"
    using span by (auto simp: machine_piece_span_def and_then_eq_Inr expected_piece_span_wf)
  then have "piece_tiled piece_span cs"
    using m by (intro contributors_tile [OF cs(1)]) (auto simp: machine_evident_def leases_wf_def)
  then have "piece_evidence sha piece_span contributors_hash fingerprint" using cs(2,3) by (auto simp: piece_evidence_def)
  then have "verified_evident sha (bt_insert piece_id (?v fingerprint) (sm_verified_pieces m))"
    using m by (intro verified_evident_insert) (simp_all add: machine_evident_def)
  then show ?thesis using m by (simp add: m' machine_evident_def)
qed

lemma piece_durable_evident:
  assumes ok: "apply_piece_durable sha m record piece_id piece_span contributors_hash fingerprint digest barrier = (Inr u, m')"
    and m: "machine_evident sha m"
  shows "machine_evident sha m'"
proof -
  let ?piece = "\<lparr>dp_piece_id = piece_id, dp_piece_span = piece_span, dp_validator_set_fingerprint = fingerprint,
    dp_digest = digest, dp_origin = DO_Live contributors_hash barrier\<rparr>"
  from apply_piece_durable_ok [OF ok] obtain s where s: "sm_state m = Some s"
    and verified: "barrier \<noteq> DB_RecoveryReadback \<longrightarrow>
      check_verified m piece_id piece_span contributors_hash fingerprint digest = Inr ()"
    and m': "m' = m\<lparr>sm_state := Some (s\<lparr>js_durable_pieces := bt_insert piece_id ?piece (js_durable_pieces s)\<rparr>)\<rparr>"
    using readyD by blast
  have "piece_evidence sha piece_span contributors_hash fingerprint" if live: "barrier \<noteq> DB_RecoveryReadback"
  proof -
    obtain v where v: "bt_get (sm_verified_pieces m) piece_id = Some v" "vp_span v = piece_span"
      "vp_contributors_hash v = contributors_hash" "vp_validator_set_fingerprint v = fingerprint"
      using verified live by (auto simp: check_verified_def and_then_eq_Inr ok_or_eq_Inr split: if_splits)
    then have "(piece_id, v) \<in> set (sm_verified_pieces m)"
      using m bt_get_mem [of "sm_verified_pieces m" piece_id v] by (simp add: machine_evident_def verified_evident_def)
    then show ?thesis using m v by (fastforce simp: machine_evident_def verified_evident_def)
  qed
  then have "durable_evidence sha ?piece" by (auto simp: durable_evidence_def)
  then have "pieces_evident sha (bt_insert piece_id ?piece (js_durable_pieces s))"
    using m s by (intro pieces_evident_insert) (simp_all add: machine_evident_def)
  then show ?thesis using m s by (simp add: m' machine_evident_def)
qed

lemma piece_state_evident:
  assumes ok: "apply_piece_state_chunk m record input = (Inr u, m')" and m: "machine_evident sha m"
  shows "machine_evident sha m'"
proof -
  obtain m1 where m1: "piece_state_sequence m input = (Inr (), m1)" "install_pieces m1 input = (Inr (), m')"
    using apply_piece_state_chunk_ok [OF ok] by blast
  from piece_state_sequence_ok [OF m1(1)] have m1_ok: "machine_evident sha m1"
    using m by (elim disjE exE conjE) (auto simp: machine_evident_def)
  from install_pieces_ok [OF m1(2)] obtain s l decoded durable pending where s: "sm_state m1 = Some s" "js_layout s = Some l"
    and dec: "try_map (run_piece (rcl_layout l) (pi_first_piece_id input)) (run_indices (pi_evidence_runs input)) = Inr decoded"
    and ins: "insert_pieces (js_durable_pieces s) decoded = (Inr (), durable)"
    and m': "m' = m1\<lparr>sm_state := Some (s\<lparr>js_durable_pieces := durable\<rparr>), sm_pending_piece_state := pending\<rparr>" by blast
  have "\<forall>p\<in>set decoded. dp_origin p = DO_Checkpoint"
    using try_map_member [OF dec] run_piece_ok by (metis prod.collapse)
  then have "pieces_evident sha durable"
    using m1_ok s insert_pieces_set [OF ins] by (fastforce simp: machine_evident_def pieces_evident_def durable_evidence_def)
  then show ?thesis using m1_ok s by (simp add: m' machine_evident_def)
qed

lemma next_generation_evident:
  "pieces_evident sha (js_durable_pieces s) \<Longrightarrow> pieces_evident sha (js_durable_pieces (next_generation_state s g reason pending))"
  by (simp add: next_generation_state_def Let_def)

lemma layout_committed_evident:
  assumes ok: "apply_layout_committed nfc to_lowercase sha m record pending = (Inr u, m')" and m: "machine_evident sha m"
    and none: "sm_pending_layout m = None"
  shows "machine_evident sha m'"
proof -
  from apply_layout_committed_ok [OF ok] obtain s where s: "sm_state m = Some s" and either:
    "(\<exists>layout. install_layout (m\<lparr>sm_state := Some (s\<lparr>js_layout := None, js_durable_pieces := []\<rparr>)\<rparr>) layout
        (js_layout s) (js_durable_pieces s) = (Inr (), m'))
     \<or> m' = m\<lparr>sm_state := Some (s\<lparr>js_layout := None, js_durable_pieces := [], js_finalizations := []\<rparr>),
          sm_pending_layout := Some (pending\<lparr>pl_previous_layout := js_layout s,
            pl_previous_durable_pieces := js_durable_pieces s\<rparr>)\<rparr>"
    using readyD by blast
  from either show ?thesis using m s none
    by (elim disjE exE) (auto simp: install_layout_ok Let_def machine_evident_def)
qed

lemma layout_chunk_evident:
  assumes ok: "apply_layout_chunk nfc to_lowercase sha m record a b c d e = (Inr u, m')" and m: "machine_evident sha m"
  shows "machine_evident sha m'"
proof -
  from apply_layout_chunk_ok [OF ok] obtain s p where s: "sm_state m = Some s" and p: "sm_pending_layout m = Some p" and either:
    "(\<exists>layout. install_layout (m\<lparr>sm_pending_layout := None\<rparr>) layout (pl_previous_layout p) (pl_previous_durable_pieces p) = (Inr (), m'))
     \<or> m' = m\<lparr>sm_pending_layout := Some (p\<lparr>pl_files := pl_files p @ e, pl_next_chunk := pl_next_chunk p + 1\<rparr>)\<rparr>"
    using at_generationD by blast
  from either show ?thesis using m s p
    by (elim disjE exE) (auto simp: install_layout_ok Let_def machine_evident_def)
qed

lemma dispatch_evident:
  assumes m: "machine_evident sha m" and payload: "record_decode_payload nfc sha record = Inr payload"
    and pending: "sm_pending_layout m = None \<or> is_layout_chunk payload"
    and ok: "machine_dispatch nfc to_lowercase sha m record payload = (Inr (), m')"
  shows "machine_evident sha m'"
proof (cases payload)
  case (JP_TaskCreated a b)
  then show ?thesis using ok m pending by (auto dest!: apply_task_created_ok simp: machine_evident_def)
next
  case (JP_OptionsSnapshot a b c d)
  then show ?thesis using ok m by (auto dest!: apply_options_ok simp: at_generation_def machine_evident_def)
next
  case (JP_GenerationStarted a b c d)
  then show ?thesis using ok m
    by (auto dest!: apply_generation_started_ok simp: machine_evident_def next_generation_evident)
next
  case (JP_LayoutCommitted a b c d e f g h i)
  then show ?thesis using ok pending layout_committed_evident [OF _ m] by simp
next
  case (JP_LayoutChunk a b c d e)
  then show ?thesis using ok layout_chunk_evident [OF _ m] by simp
next
  case (JP_LeaseStarted a b c d)
  then have "persisted_span_wf c" using decoded_payload_wf [OF payload] by simp
  then show ?thesis using JP_LeaseStarted ok m
    by (auto dest!: apply_lease_started_ok simp: machine_evident_def leases_wf_insert)
next
  case (JP_LeaseCommitted a b c d)
  then have "apply_lease_committed m record a b c = (Inr (), m')" using ok by simp
  from apply_lease_committed_ok [OF this] obtain s l where s: "sm_state m = Some s" and l: "bt_get (sm_active_leases m) a = Some l"
    and m': "sm_pending_layout m' = sm_pending_layout m" "map_option js_durable_pieces (sm_state m') = Some (js_durable_pieces s)"
      "sm_active_leases m' = bt_remove a (sm_active_leases m)" "sm_committed_leases m' = bt_insert a l (sm_committed_leases m)"
      "sm_verified_pieces m' = sm_verified_pieces m"
    using readyD by (elim exE conjE) simp
  then show ?thesis using m lease_get_wf by (auto simp: machine_evident_def leases_wf_insert leases_wf_remove)
next
  case (JP_LeaseAborted a b)
  then show ?thesis using ok m by (auto dest!: apply_lease_aborted_ok simp: machine_evident_def leases_wf_remove)
next
  case (JP_PieceVerified a b c d)
  then show ?thesis using ok piece_verified_evident [OF _ m] by simp
next
  case (JP_PieceFailed a b c d e)
  then have "apply_piece_failed m record a b c = (Inr (), m')" using ok by simp
  from apply_piece_failed_ok [OF this] obtain s where s: "sm_state m = Some s"
    and m': "sm_pending_layout m' = sm_pending_layout m" "sm_active_leases m' = sm_active_leases m"
      "sm_committed_leases m' = sm_committed_leases m" "sm_verified_pieces m' = bt_remove b (sm_verified_pieces m)"
      "map_option js_durable_pieces (sm_state m') = Some (bt_remove b (js_durable_pieces s))"
    using readyD by (elim exE conjE) simp
  have "pieces_evident sha (bt_remove b (js_durable_pieces s))"
    using m s by (auto simp: machine_evident_def bt_remove_def intro: pieces_evident_subset)
  then show ?thesis using m s m' by (auto simp: machine_evident_def verified_evident_remove)
next
  case (JP_PieceDurable a b c d e f)
  then show ?thesis using ok piece_durable_evident [OF _ m] by simp
next
  case (JP_PieceStateChunk a b c d e f g h)
  then show ?thesis using ok piece_state_evident [OF _ m] by simp
next
  case (JP_VerificationManifest a b c d)
  then obtain p where "finish_manifest sha (m\<lparr>sm_pending_manifest := Some p\<rparr>) = (Inr (), m')"
    using ok by (auto dest!: apply_manifest_ok)
  from finish_manifest_ok [OF this] show ?thesis using m by (auto simp: machine_evident_def split: if_splits)
next
  case (JP_VerificationManifestChunk a b c d)
  then obtain p where "finish_manifest sha (m\<lparr>sm_pending_manifest := Some p\<rparr>) = (Inr (), m')"
    using ok by (auto dest!: apply_manifest_chunk_ok)
  from finish_manifest_ok [OF this] show ?thesis using m by (auto simp: machine_evident_def split: if_splits)
next
  case (JP_HostKeyState a)
  then show ?thesis using ok m by (auto dest!: apply_host_key_state_ok readyD simp: machine_evident_def)
qed (use ok m in \<open>auto dest!: apply_piece_started_ok apply_piece_written_ok
       apply_retry_ok apply_paused_ok apply_complete_ok apply_terminal_ok apply_clean_shutdown_ok
       apply_metadata_complete_ok apply_finalize_intent_ok apply_finalize_done_ok readyD at_generationD
       simp: apply_whole_verified_ok apply_http_strong_validator_ok apply_http_range_identity_ok apply_protocol_validator_ok
         Let_def machine_evident_def\<close>)

interpretation evident: replay_invariant nfc to_lowercase sha "machine_evident sha" for nfc to_lowercase sha
proof unfold_locales
  fix m "record" payload m'
  assume "machine_evident sha m" "record_decode_payload nfc sha record = Inr payload" "sm_pending_layout m = None \<or> is_layout_chunk payload"
    "machine_dispatch nfc to_lowercase sha m record payload = (Inr (), m')"
  then show "machine_evident sha m'" by (rule dispatch_evident)
qed (auto simp: machine_evident_def machine_new_def)

text \<open>
  C24. Durable pieces have their origin. Take any state recovery returns and any piece it reports durable that was
  neither taken from a checkpoint nor read back from the disk. Then there are contributors, each a different lease, whose hash and whose
  validator fingerprint are the recorded ones and which tile the piece: every byte of it lies in the span of exactly
  one of them. Transfers that overlap or leave a gap therefore never make a piece durable.
\<close>

theorem live_pieces_tiled:
  assumes s: "jsr_state (recover_journal_state nfc to_lowercase sha records task option_policy limits) = Some s"
    and p: "bt_get (js_durable_pieces s) k = Some p" "dp_origin p = DO_Live contributors_hash barrier"
    and live: "barrier \<noteq> DB_RecoveryReadback"
  shows "\<exists>cs. calculate_contributors_hash sha cs = Inr contributors_hash
    \<and> calculate_validator_set_fingerprint sha cs = Inr (dp_validator_set_fingerprint p)
    \<and> distinct (map jc_lease_id cs)
    \<and> (\<forall>x. span_covers (dp_piece_span p) x \<longrightarrow> (\<exists>!c. c \<in> set cs \<and> span_covers (jc_span c) x))"
proof -
  obtain m where "machine_evident sha m" "sm_state m = Some s" using s by (rule evident.recovered_machine)
  then have "pieces_evident sha (js_durable_pieces s)" by (simp add: machine_evident_def)
  moreover have "(k, p) \<in> set (js_durable_pieces s)"
    using recovered_durable [OF s] p(1) bt_get_mem [of "js_durable_pieces s" k p] by (simp add: durable_ok_def)
  ultimately have "durable_evidence sha p" by (auto simp: pieces_evident_def)
  then show ?thesis using p(2) live unfolding durable_evidence_def piece_evidence_def piece_tiled_def by auto
qed

section \<open>A downloaded piece\<close>

text \<open>A journal of a task whose only piece is fetched by one lease, verified and made durable.\<close>

definition sample_span :: persisted_span where
  "sample_span = \<lparr>ps_offset = 0, ps_len = 5\<rparr>"

definition sample_lease_payload :: journal_payload where
  "sample_lease_payload = JP_LeaseStarted (TransferAttemptId 1) (LeaseId 1) sample_span sample_hash"

definition sample_begin_payload :: journal_payload where
  "sample_begin_payload = JP_PieceStarted (LeaseId 1) (PieceId 0) sample_span"

definition sample_commit_payload :: journal_payload where
  "sample_commit_payload = JP_LeaseCommitted (LeaseId 1) sample_span sample_hash None"

definition sample_verified_payload :: journal_payload where
  "sample_verified_payload = JP_PieceVerified (PieceId 0) sample_span sample_hash (sample_digest 1)"

definition sample_durable_payload :: journal_payload where
  "sample_durable_payload = JP_PieceDurable (PieceId 0) sample_span sample_hash sample_hash None DB_BalancedGroup"

lemmas sample_live_defs = sample_lease_payload_def sample_begin_payload_def sample_commit_payload_def sample_verified_payload_def
  sample_durable_payload_def

definition sample_live_journal :: "journal_record list" where
  "sample_live_journal =
     [sample_entry 1 sample_created_payload, sample_entry 2 sample_options_payload, sample_entry 3 sample_layout_payload,
      sample_entry 4 sample_lease_payload, sample_entry 5 sample_begin_payload, sample_entry 6 sample_commit_payload,
      sample_entry 7 sample_verified_payload, sample_entry 8 sample_durable_payload]"

lemma sample_live_decode:
  assumes p: "p \<in> {sample_lease_payload, sample_begin_payload, sample_commit_payload, sample_verified_payload, sample_durable_payload}"
  shows "record_decode_payload id sample_sha (sample_entry q p) = Inr p"
proof -
  have "payload_wf id sample_sha p" using p sample_hash_wf(1)
    by (auto simp: sample_live_defs persisted_span_wf_def sample_span_def optional_wf_def journal_digest_wf_def sample_digest_def)
  moreover have "\<exists>bs. payload_encode id sample_sha p = Inr bs" using p sample_hash_wf(1)
    by (auto simp: sample_live_defs payload_encode_def and_then_def enc_all.simps write_simps enc_optional_digest_def enc_digest_def
        enc_bytes_def MAX_RECORD_PAYLOAD_def journal_hash_wf_def sample_span_def sample_digest_def as_bytes_def)
  ultimately show ?thesis by (auto intro: sample_entry_decode)
qed

lemma sample_live_decodes:
  "record_decode_payload id sample_sha (sample_entry q sample_lease_payload) = Inr sample_lease_payload"
  "record_decode_payload id sample_sha (sample_entry q sample_begin_payload) = Inr sample_begin_payload"
  "record_decode_payload id sample_sha (sample_entry q sample_commit_payload) = Inr sample_commit_payload"
  "record_decode_payload id sample_sha (sample_entry q sample_verified_payload) = Inr sample_verified_payload"
  "record_decode_payload id sample_sha (sample_entry q sample_durable_payload) = Inr sample_durable_payload"
  by (rule sample_live_decode, simp)+

definition sample_live_machine ::
  "recovered_journal_state option \<Rightarrow> generation option \<Rightarrow> (lease_id, lease_state) btree \<Rightarrow> (lease_id, lease_state) btree \<Rightarrow>
   lease_id set \<Rightarrow> (lease_id \<times> piece_id) set \<Rightarrow> (piece_id, verified_piece) btree \<Rightarrow> semantic_machine" where
  "sample_live_machine s layout_generation active committed seen pieces verified =
     (live_start (TaskId 1) (\<lambda>_. True) journal_state_limits_default)
       \<lparr>sm_state := s, sm_layout_record_generation := layout_generation, sm_active_leases := active,
        sm_committed_leases := committed, sm_seen_leases := seen, sm_piece_leases := pieces, sm_verified_pieces := verified,
        sm_network_started := (seen \<noteq> {})\<rparr>"

definition sample_lease :: lease_state where
  "sample_lease = \<lparr>ls_span = sample_span, ls_validator_fingerprint = sample_hash\<rparr>"

definition sample_contributor :: journal_contributor where
  "sample_contributor = \<lparr>jc_lease_id = LeaseId 1, jc_span = sample_span, jc_validator_fingerprint = sample_hash\<rparr>"

definition sample_live_state :: "u64 \<Rightarrow> (lease_id, journal_contributor) btree \<Rightarrow> (piece_id, recovered_durable_piece) btree \<Rightarrow> recovered_journal_state" where
  "sample_live_state q spans pieces =
     (sample_state q (Some sample_snapshot) (Some sample_complete_layout) None pieces None)\<lparr>js_committed_spans := spans\<rparr>"

lemmas sample_live_step_defs = machine_apply_def sample_live_machine_def live_start_def sample_state_def machine_new_def
  journal_state_limits_default_def note_sequence_def try_in_def set_state_def the_state_def and_then_def ok_or_def map_err_def Let_def
  sample_live_state_def require_current_generation_def require_ready_nonterminal_def require_layout_def

lemma sample_live_created:
  "i < 262144 \<Longrightarrow>
   process_record id id sample_sha (sample_live_machine None None [] [] {} {} []) i 1 (sample_entry 1 sample_created_payload) =
     (Inr (), sample_live_machine (Some (sample_state 1 None None None [] None)) None [] [] {} {} [])"
  by (subst process_record_step [OF sample_decodes(2)])
    (auto simp: sample_live_step_defs sample_created_payload_def apply_task_created_def)

lemma sample_live_options:
  "i < 262144 \<Longrightarrow>
   process_record id id sample_sha (sample_live_machine (Some (sample_state 1 None None None [] None)) None [] [] {} {} []) i 2
       (sample_entry 2 sample_options_payload) =
     (Inr (), sample_live_machine (Some (sample_state 2 (Some sample_snapshot) None None [] None)) None [] [] {} {} [])"
  by (subst process_record_step [OF sample_decodes(3)])
    (auto simp: sample_live_step_defs sample_options_payload_def apply_options_def sample_options_hash sample_snapshot_def)

lemma sample_live_layout:
  "i < 262144 \<Longrightarrow>
   process_record id id sample_sha (sample_live_machine (Some (sample_state 2 (Some sample_snapshot) None None [] None)) None [] [] {} {} []) i 3
       (sample_entry 3 sample_layout_payload) =
     (Inr (), sample_live_machine (Some (sample_live_state 3 [] [])) (Some generation_initial) [] [] {} {} [])"
  by (subst process_record_step [OF sample_decodes(4)])
    (auto simp: sample_live_step_defs sample_layout_payload_def apply_layout_committed_def install_layout_def sample_assembled [simplified])

lemma sample_live_lease:
  "i < 262144 \<Longrightarrow>
   process_record id id sample_sha (sample_live_machine (Some (sample_live_state 3 [] [])) (Some generation_initial) [] [] {} {} []) i 4
       (sample_entry 4 sample_lease_payload) =
     (Inr (), sample_live_machine (Some (sample_live_state 4 [] [])) (Some generation_initial)
        [(LeaseId 1, sample_lease)] [] {LeaseId 1} {} [])"
  by (subst process_record_step [OF sample_live_decodes(1)])
    (auto simp: sample_live_step_defs sample_lease_payload_def apply_lease_started_def require_manifest_ready_def manifest_option_def
      require_span_in_layout_def sample_complete_layout_def sample_span_def sample_snapshot_def sample_lease_def checked_add_def)

lemma sample_piece_span:
  "expected_piece_span (rcl_layout sample_complete_layout) (PieceId 0) = Inr sample_span"
  by (simp add: expected_piece_span_def sample_complete_layout_def checked_mul_def persisted_span_new_def checked_add_def sample_span_def
      and_then_def ok_or_def map_err_def)

lemma sample_live_begin:
  "i < 262144 \<Longrightarrow>
   process_record id id sample_sha (sample_live_machine (Some (sample_live_state 4 [] [])) (Some generation_initial)
        [(LeaseId 1, sample_lease)] [] {LeaseId 1} {} []) i 5 (sample_entry 5 sample_begin_payload) =
     (Inr (), sample_live_machine (Some (sample_live_state 5 [] [])) (Some generation_initial)
        [(LeaseId 1, sample_lease)] [] {LeaseId 1} {(LeaseId 1, PieceId 0)} [])"
  by (subst process_record_step [OF sample_live_decodes(2)])
    (auto simp: sample_live_step_defs sample_begin_payload_def apply_piece_started_def machine_piece_span_def sample_piece_span
      sample_lease_def spans_intersect_def sample_span_def)

lemma sample_live_commit:
  "i < 262144 \<Longrightarrow>
   process_record id id sample_sha (sample_live_machine (Some (sample_live_state 5 [] [])) (Some generation_initial)
        [(LeaseId 1, sample_lease)] [] {LeaseId 1} {(LeaseId 1, PieceId 0)} []) i 6 (sample_entry 6 sample_commit_payload) =
     (Inr (), sample_live_machine (Some (sample_live_state 6 [(LeaseId 1, sample_contributor)] [])) (Some generation_initial)
        [] [(LeaseId 1, sample_lease)] {LeaseId 1} {(LeaseId 1, PieceId 0)} [])"
  by (subst process_record_step [OF sample_live_decodes(3)])
    (auto simp: sample_live_step_defs sample_commit_payload_def apply_lease_committed_def sample_lease_def sample_contributor_def
      bt_remove_def)

definition sample_verified_piece :: verified_piece where
  "sample_verified_piece = \<lparr>vp_span = sample_span, vp_contributors_hash = sample_hash,
     vp_validator_set_fingerprint = sample_hash, vp_digest = sample_digest 1\<rparr>"

definition sample_live_piece :: recovered_durable_piece where
  "sample_live_piece = \<lparr>dp_piece_id = PieceId 0, dp_piece_span = sample_span, dp_validator_set_fingerprint = sample_hash,
     dp_digest = None, dp_origin = DO_Live sample_hash DB_BalancedGroup\<rparr>"

lemma sample_lease_hashes:
  "calculate_contributors_hash sample_sha [sample_contributor] = Inr sample_hash"
  "calculate_validator_set_fingerprint sample_sha [sample_contributor] = Inr sample_hash"
  by (simp_all add: calculate_contributors_hash_def calculate_validator_set_fingerprint_def nonzero_hash_def sample_hash_def sample_sha_def
      journal_hash_new_def all_zero_def)

lemma sample_contributors:
  "sm_committed_leases m = [(LeaseId 1, sample_lease)] \<Longrightarrow> sm_piece_leases m = {(LeaseId 1, PieceId 0)} \<Longrightarrow>
   contributors_for_piece m (PieceId 0) sample_span = Inr [sample_contributor]"
  by (simp add: contributors_for_piece_def lease_contributor_def sample_lease_def sample_contributor_def
      spans_intersect_def sample_span_def clip_span_def)

lemma sample_live_verified:
  "i < 262144 \<Longrightarrow>
   process_record id id sample_sha (sample_live_machine (Some (sample_live_state 6 [(LeaseId 1, sample_contributor)] [])) (Some generation_initial)
        [] [(LeaseId 1, sample_lease)] {LeaseId 1} {(LeaseId 1, PieceId 0)} []) i 7 (sample_entry 7 sample_verified_payload) =
     (Inr (), sample_live_machine (Some (sample_live_state 7 [(LeaseId 1, sample_contributor)] [])) (Some generation_initial)
        [] [(LeaseId 1, sample_lease)] {LeaseId 1} {(LeaseId 1, PieceId 0)} [(PieceId 0, sample_verified_piece)])"
  by (subst process_record_step [OF sample_live_decodes(4)])
    (auto simp: sample_live_step_defs sample_verified_payload_def apply_piece_verified_def machine_piece_span_def sample_piece_span
      require_manifest_ready_def manifest_option_def sample_snapshot_def sample_contributors sample_lease_hashes
      sample_verified_piece_def)

lemma sample_live_durable:
  "i < 262144 \<Longrightarrow>
   process_record id id sample_sha (sample_live_machine (Some (sample_live_state 7 [(LeaseId 1, sample_contributor)] [])) (Some generation_initial)
        [] [(LeaseId 1, sample_lease)] {LeaseId 1} {(LeaseId 1, PieceId 0)} [(PieceId 0, sample_verified_piece)]) i 8
       (sample_entry 8 sample_durable_payload) =
     (Inr (), sample_live_machine (Some (sample_live_state 8 [(LeaseId 1, sample_contributor)] [(PieceId 0, sample_live_piece)]))
        (Some generation_initial) [] [(LeaseId 1, sample_lease)] {LeaseId 1} {(LeaseId 1, PieceId 0)} [(PieceId 0, sample_verified_piece)])"
  by (subst process_record_step [OF sample_live_decodes(5)])
    (auto simp: sample_live_step_defs sample_durable_payload_def apply_piece_durable_def machine_piece_span_def sample_piece_span
      check_barrier_def check_verified_def sample_verified_piece_def sample_live_piece_def)

lemma sample_live_recovered:
  "jsr_state (sample_recover sample_live_journal) =
     Some (sample_live_state 8 [(LeaseId 1, sample_contributor)] [(PieceId 0, sample_live_piece)])"
proof -
  have start: "machine_new (TaskId 1) (\<lambda>_. True) journal_state_limits_default False None = sample_live_machine None None [] [] {} {} []"
    by (simp add: sample_live_machine_def live_start_def machine_new_def)
  have "sm_state (sample_live_machine s g a c seen pieces v) = s" for s g a c seen pieces v by (simp add: sample_live_machine_def)
  then show ?thesis
    by (simp add: sample_recover_def recover_journal_state_def sample_live_journal_def sample_created_payload_def [THEN arg_cong, of payload_record_type]
        recover_live_def process_records_def start sample_sequences finish_replay_def sample_live_created sample_live_options sample_live_layout
        sample_live_lease sample_live_begin sample_live_commit sample_live_verified sample_live_durable)
qed

theorem live_pieces_tiled_witness:
  "\<exists>cs. calculate_contributors_hash sample_sha cs = Inr sample_hash
     \<and> (\<exists>!c. c \<in> set cs \<and> span_covers (jc_span c) 4)"
proof -
  have "bt_get (js_durable_pieces (sample_live_state 8 [(LeaseId 1, sample_contributor)] [(PieceId 0, sample_live_piece)])) (PieceId 0)
      = Some sample_live_piece" "dp_origin sample_live_piece = DO_Live sample_hash DB_BalancedGroup"
    "span_covers (dp_piece_span sample_live_piece) 4"
    by (simp_all add: sample_live_state_def sample_state_def sample_live_piece_def sample_span_def span_covers_def)
  then show ?thesis
    using live_pieces_tiled [OF sample_live_recovered [unfolded sample_recover_def], of "PieceId 0" sample_live_piece sample_hash
        DB_BalancedGroup] by blast
qed

end
