(* ===== verification/Spec2Isabelle.thy ===== *)
theory Spec2Isabelle
  imports Progress StuckTasks RestorePlan EffectLimit EventOnce Delay JournalLeases
begin

text \<open>
  \<^bold>\<open>ariax\<close> is a download manager. Its core, the crate \<open>ariax-core\<close>, decides what every download task
  does next; the crate \<open>ariax-storage\<close> keeps what must survive a crash: an append-only journal per task,
  the layout of the files of a task, and the checksums they must have. This development models the core
  crate and the journal, layout, path and verification parts of the storage crate, and proves what the
  rest of the program relies on.

  \<^bold>\<open>The program.\<close> A client adds, pauses, resumes, removes and reorders tasks and changes their options; the
  runtime executes each command with \<open>execute_command_at\<close>. Workers report what happened to a generation
  of a task (allocated, data complete, verified, failed, drained, persisted) and each report goes through
  \<open>handle_event_at\<close>. When a slot may be free the runtime calls \<open>admit_next_at\<close>. Every call returns an
  outcome: at most one transition of one task and an ordered list of at most eight effects, which the
  runtime then performs. A task that waits for an effect carries a barrier, and only the matching
  acknowledgement passes it. At startup \<open>restore\<close> rebuilds the scheduler from the session store and
  returns the effects to perform first.

  Each task owns a journal: a chain of segments, each a header and framed records with a checksum and a
  commit marker. A record carries a typed payload (\<open>JournalPayload\<close>): the layout of the files, leases of
  byte ranges, pieces that were written, verified or made durable, retries, checkpoints and the end of the
  task. After a crash \<open>replay_ordered_segments\<close> reads the segments back up to the first damage,
  \<open>decode_payload\<close> turns records into payloads and \<open>recover_journal_state\<close> applies them one by one to a
  semantic machine, whose state says what of the task survives; it stops at the first record that does not
  follow from the ones before it. A journal may start with a checkpoint that stands for its past. The paths of the files go through \<open>SafePathBuilder\<close>,
  their byte ranges through \<open>FileLayout\<close> and \<open>GlobalOffsetMapper\<close>, and a \<open>VerificationManifest\<close>
  holds the checksums of the chunks.

  \<^bold>\<open>The model\<close>, by file of \<open>ariax-core/src\<close>:
  \<^item> \<open>Prelude\<close>: machine integers as words, \<open>Result\<close> with the question-mark operator, \<open>BTreeMap\<close> as a
    sorted association list behind the locale \<open>ordered_map\<close>, list positions.
  \<^item> \<open>Ids\<close> (\<open>ids.rs\<close>): identifiers, GIDs and their text form, prefixes and prefix lookup.
  \<^item> \<open>Errors\<close> (\<open>error.rs\<close>): error kinds, journal numbers, bounded public errors.
  \<^item> \<open>States\<close> (\<open>state.rs\<close>): task states, conditions, projection onto the wire status.
  \<^item> \<open>Delay\<close> (\<open>persisted_delay.rs\<close>): persisted delays and their recovery.
  \<^item> \<open>Snapshot\<close> (\<open>snapshot.rs\<close>): status snapshots and their validation.
  \<^item> \<open>Vocabulary\<close>, \<open>Commands\<close> (\<open>command.rs\<close>): commands, events, effects, outcomes, errors.
  \<^item> \<open>Actions\<close>, \<open>Transition\<close> (\<open>transition.rs\<close>): actions, dispositions and the transition matrix.
  \<^item> \<open>SchedulerState\<close>, \<open>SchedulerCore\<close>, \<open>SchedulerCommands\<close>, \<open>SchedulerEvents\<close>, \<open>SchedulerRestore\<close>
    (\<open>scheduler.rs\<close>): the record \<open>request_scheduler\<close> is \<open>RequestScheduler\<close>, \<open>scheduled_task\<close> is
    \<open>ScheduledTask\<close>. A handler of the source clones the task, edits the clone and ends in one call of
    \<open>finish_action\<close>; here it is a function to the arguments of that call, a plan, and \<open>run_plan\<close> makes
    the call. A \<open>&mut self\<close> method returns its result and the new scheduler.

  and of \<open>ariax-storage/src\<close>:
  \<^item> \<open>Bytes\<close>: little-endian integers, UTF-8 and text, shared by the theories below.
  \<^item> \<open>Journal\<close>, \<open>JournalReplay\<close> (\<open>journal.rs\<close>): segment headers, record frames, \<open>SegmentEncoder\<close> as the
    record \<open>segment_encoder\<close>, and replay as a recursion over the segments and over the records of one.
  \<^item> \<open>SafePath\<close> (\<open>path.rs\<close>), \<open>RootBinding\<close> (\<open>root_binding.rs\<close>), \<open>Layout\<close> (\<open>layout.rs\<close>).
  \<^item> \<open>JournalTags\<close> (\<open>journal_tags.rs\<close>): the nine vocabularies, with the locale \<open>closed_tags\<close>.
  \<^item> \<open>PayloadTypes\<close>, \<open>JournalPayload\<close>, \<open>PayloadCodec\<close> (\<open>journal_payload.rs\<close>): the data of payloads, their
    validation, and the encoder and decoder. A \<open>&mut\<close> encoder is the bytes it appends, a decoder a function
    from the bytes left to a value and the bytes left behind it.
  \<^item> \<open>MetadataExpansion\<close> (\<open>metadata_expansion.rs\<close>), \<open>Manifest\<close> (\<open>verification.rs\<close>).
  \<^item> \<open>RecoveredState\<close>, \<open>JournalMachine\<close>, \<open>JournalRecover\<close> (\<open>journal_state.rs\<close> and
    \<open>journal_state/verification_state.rs\<close>): the recovered state, \<open>SemanticMachine\<close> as the record
    \<open>semantic_machine\<close> with one operation per payload, and the drivers of recovery. An operation returns its
    result and the machine as the source leaves it, also when it fails halfway.

  \<^bold>\<open>The proofs.\<close>
  \<^item> \<open>ClassQueues\<close> states the contract of the five queues as a locale, interpreted on the queue record.
  \<^item> \<open>SchedulerInv\<close>, \<open>TaskFacts\<close>, \<open>CommandsInv\<close>, \<open>DeferredControl\<close>, \<open>PatchesInv\<close>, \<open>GenerationInv\<close>,
    \<open>EventsInv\<close>, \<open>RestoreInv\<close>: the invariant \<open>sched_inv\<close> and its preservation by every handler.
  \<^item> \<open>SchedulerRuns\<close>: steps, runs and reachable schedulers; every reachable one satisfies the invariant.
  \<^item> \<open>PlanFrames\<close>, \<open>EventFrames\<close>, \<open>Lifecycle\<close>: what a plan may change, and the refinement of the
    abstract lifecycle machine that moves one task along one cell of the transition matrix.
  \<^item> \<open>TaskHistory\<close>: identities, generations, final statuses and correlation identifiers along a run.
  \<^item> \<open>EffectLimit\<close>: the bound on effects is never reached. \<open>EventOnce\<close>: redelivery changes nothing.
  \<^item> \<open>Progress\<close>: admission, the undisturbed download and removal succeed from every reachable state.
  \<^item> \<open>RestorePlan\<close>: what a restoration rebuilds and hands out.
  \<^item> \<open>Scenarios\<close>, \<open>StuckTasks\<close>: complete runs on given inputs; the second theory holds six runs in which
    the code leaves a task stuck or loses an event.

  \<^item> \<open>JournalReplay\<close>, \<open>JournalWritten\<close>: replay returns what was written, also after a torn or damaged
    tail, and accepts nothing else.
  \<^item> \<open>PayloadRoundTrip\<close>: the locale \<open>codec\<close> states that a decoder inverts an encoder and is interpreted on
    the fields of payloads. \<open>PayloadExact\<close> extends it to whole payloads and to a journal of payloads.
  \<^item> \<open>PieceBitmap\<close>: an accepted bitmap and its evidence runs agree. \<open>Manifest\<close>: its codec is exact, its
    parts are valid payloads, its chunks partition the file.
  \<^item> \<open>JournalSteps\<close>: when each operation of the semantic machine succeeds and what it then changes; the locale
    \<open>replay_invariant\<close> carries an invariant of the machine to everything recovery returns. \<open>JournalPrefix\<close>:
    recovery returns what it returns for the records it accepted, and a terminal state is final.
    \<open>JournalInvariant\<close>: every recovered state is well formed. \<open>JournalCoverage\<close>: durable pieces have the spans
    of their layout, and a complete task with a chunk manifest has every byte in exactly one of them. \<open>JournalLeases\<close>: a
    downloaded durable piece is tiled by the leases whose hash it carries.
  \<^item> \<open>SafePath\<close>: an accepted path stays below its directory. \<open>Layout\<close>: spans map to the file that holds
    them, and the hashed text determines the layout.

  \<^bold>\<open>Bounds.\<close> All functions are total; there is no fuel. Times are natural numbers of nanoseconds with the
  checked range of \<open>Instant\<close>; a \<open>usize\<close> is a natural number, bounded by the task limit wherever it is a
  position. Correlation identifiers are 64-bit words and wrap to an exhausted counter as in the code.

  \<^bold>\<open>Parameters.\<close> SHA-256, CRC-32C, Unicode normalisation (NFC) and lower case belong to other packages and
  are arguments of the definitions that use them. What a theorem needs of them is a hypothesis: no collision among
  the layouts of one journal, \<open>sha256_output\<close> (32 bytes, different from the marker of a missing predecessor), \<open>nfc_normalises\<close>
  (normalising twice changes nothing, and only the empty text normalises to the empty text).

  \<^bold>\<open>Not modelled.\<close> Text codes, display and debug formatting, failures of memory allocation, hash and ordering
  derivations beyond those used, and the other parts: the asynchronous appender, the SQLite session store, transport, the libtorrent bridge, configuration and the
  command line.
\<close>

section \<open>Shared facts\<close>

text \<open>The slot counter counts the tasks that own a slot.\<close>

lemma slot_owners:
  assumes "bt_wf (rs_tasks s)"
  shows "finite {g. \<exists>t. bt_get (rs_tasks s) g = Some t \<and> owns_slot (t_slot t)}"
    and "card {g. \<exists>t. bt_get (rs_tasks s) g = Some t \<and> owns_slot (t_slot t)} = active_slot_count s"
proof -
  show "finite {g. \<exists>t. bt_get (rs_tasks s) g = Some t \<and> owns_slot (t_slot t)}"
    by (rule finite_subset [OF _ bt.finite_dom [OF assms]]) auto
  show "card {g. \<exists>t. bt_get (rs_tasks s) g = Some t \<and> owns_slot (t_slot t)} = active_slot_count s"
    using bt.length_filter_entries [OF assms, of "\<lambda>t. owns_slot (t_slot t)"]
    by (simp add: active_slot_count_entries)
qed

lemma task_view_fields: "tv_state (task_view t) = t_state t" "tv_queue (task_view t) = task_queue_class t"
  by (simp_all add: task_view_def)

section \<open>The scheduler invariant\<close>

text \<open>
  C1: whatever commands, events, admission requests and policy changes a scheduler receives, in any
  order, starting empty or from a restored session, it satisfies \<open>sched_inv\<close>: the task maps agree,
  every task is consistent, every queue holds exactly the tasks of its class without repetition, the
  task and slot limits hold and every published snapshot is valid.
\<close>

theorem scheduler_invariant: "reachable config s \<Longrightarrow> sched_inv s"
  by (rule reachable_inv)

theorem scheduler_invariant_witness:
  "reachable small_config (run_inputs (scheduler_new small_config) download_inputs)
   \<and> sched_inv (run_inputs (scheduler_new small_config) download_inputs)"
  using scheduler_invariant [OF reachable_inputs] reachable_inputs by blast

text \<open>
  C5: at most \<open>max_active_tasks\<close> tasks are allocating, transferring, verifying or seeding at any time,
  and at most \<open>max_tasks\<close> are registered.
\<close>

theorem active_tasks_bounded:
  assumes "reachable config s"
  shows "card {g. \<exists>v. scheduler_task s g = Some v
      \<and> tv_state v \<in> {TS_Allocating, TS_Active, TS_Verifying, TS_Seeding}} \<le> cfg_max_active_tasks (rs_config s)
    \<and> scheduler_len s \<le> cfg_max_tasks (rs_config s)"
proof -
  note inv = reachable_inv [OF assms]
  have "{g. \<exists>v. scheduler_task s g = Some v \<and> tv_state v \<in> {TS_Allocating, TS_Active, TS_Verifying, TS_Seeding}}
      \<subseteq> {g. \<exists>t. bt_get (rs_tasks s) g = Some t \<and> owns_slot (t_slot t)}" (is "?A \<subseteq> ?B")
  proof
    fix g assume "g \<in> ?A"
    then obtain t where t: "bt_get (rs_tasks s) g = Some t" "working_state (t_state t)"
      by (auto simp: scheduler_task_def task_view_fields working_state_def)
    with sched_invD(2) [OF inv t(1)] show "g \<in> ?B" by (simp add: task_ok_def slot_inv_def)
  qed
  from card_mono [OF slot_owners(1) [OF sched_invD(6) [OF inv]] this]
  have "card ?A \<le> active_slot_count s" using slot_owners(2) [OF sched_invD(6) [OF inv]] by simp
  then show ?thesis using sched_invD(4) [OF inv] by (simp add: limits_ok_def scheduler_len_def)
qed

text \<open>
  C6: the five queues are exact. A queue lists every task whose view names it, once, and nothing else.
\<close>

theorem queues_exact:
  assumes "reachable config s"
  shows "distinct (queue_snapshot s c)
    \<and> (g \<in> set (queue_snapshot s c) \<longleftrightarrow> (\<exists>v. scheduler_task s g = Some v \<and> tv_queue v = Some c))"
  using queues_matchD [OF sched_invD(3) [OF reachable_inv [OF assms]]]
  by (cases "bt_get (rs_tasks s) g")
    (auto simp: queue_snapshot_def scheduler_task_def task_view_fields task_class_def)

theorem active_tasks_bounded_witness:
  "card {g. \<exists>v. scheduler_task (run_inputs (scheduler_new small_config) download_inputs) g = Some v
      \<and> tv_state v \<in> {TS_Allocating, TS_Active, TS_Verifying, TS_Seeding}}
     \<le> cfg_max_active_tasks (rs_config (run_inputs (scheduler_new small_config) download_inputs))"
  using active_tasks_bounded [OF reachable_inputs [of small_config download_inputs]] by blast

theorem queues_exact_witness: "distinct (queue_snapshot (run_inputs (scheduler_new small_config) download_inputs) QC_Stopped)"
  using queues_exact [OF reachable_inputs [of small_config download_inputs]] by blast

section \<open>Refinement of the transition matrix\<close>

text \<open>
  C2: the scheduler refines the lifecycle machine. A command, an event or an admission leaves the
  lifecycle states alone or moves one task along a cell of the transition matrix, with an action whose
  declared source is that command or event (or a deferred user control the event completes).
\<close>

theorem scheduler_refines_lifecycle:
  assumes "reachable config s" and "run_input s i = (res, s')"
  shows "lifecycle_of s' = lifecycle_of s
    \<or> lifecycle_step (input_actions i) (lifecycle_of s) (lifecycle_of s')"
  using input_lifecycle [OF reachable_inv [OF assms(1)] assms(2)] .

theorem scheduler_refines_lifecycle_witness:
  "lifecycle_step (input_actions (hd download_inputs)) (lifecycle_of (scheduler_new small_config))
     (lifecycle_of (snd (run_input (scheduler_new small_config) (hd download_inputs))))"
proof -
  have "lifecycle_of (snd (run_input (scheduler_new small_config) (hd download_inputs))) (Gid 7) = Some TS_Waiting"
    by (simp add: lifecycle_of_def download_inputs_def small_config_def exec_simps cong: exec_cong)
  moreover have "lifecycle_of (scheduler_new small_config) (Gid 7) = None" by (simp add: lifecycle_of_def)
  ultimately show ?thesis
    using scheduler_refines_lifecycle [OF reachable.start, of small_config "hd download_inputs"]
    by (metis option.distinct(1) prod.collapse)
qed



text \<open>
  C9: a rejected operation has no effect: whenever a command, an event or an admission returns an error,
  the scheduler is unchanged.
\<close>

theorem rejected_operations_change_nothing:
  assumes "run_input s i = (Inl e, s')"
  shows "s' = s"
  using input_error [OF assms] .

theorem rejected_operations_change_nothing_witness:
  "snd (run_input (scheduler_new small_config) (In_Admission (MonotonicInstant 0))) = scheduler_new small_config
   \<and> fst (run_input (scheduler_new small_config) (In_Admission (MonotonicInstant 0))) = Inl SE_NoEligibleTask"
proof -
  have "fst (run_input (scheduler_new small_config) (In_Admission (MonotonicInstant 0))) = Inl SE_NoEligibleTask"
    by (simp add: small_config_def exec_simps cong: exec_cong)
  then show ?thesis using rejected_operations_change_nothing by (metis prod.collapse)
qed

text \<open>
  C15: the bound on effects is sufficient: no command, event or admission is ever refused because its
  effects exceed the limit of an outcome.
\<close>

theorem effect_limit_never_reached:
  assumes "reachable config s" "run_input s i = (res, s')"
  shows "res \<noteq> Inl SE_EffectLimitExceeded"
  using command_fits [OF reachable_inv [OF assms(1)]] event_fits admission_fits assms(2)
  by (cases i) (metis fits_def fst_conv run_input.simps)+

theorem effect_limit_never_reached_witness:
  "fst (run_input (run_inputs (scheduler_new small_config) download_inputs) (In_Admission (MonotonicInstant 9)))
     \<noteq> Inl SE_EffectLimitExceeded"
  using effect_limit_never_reached [OF reachable_inputs] by (metis prod.collapse)

section \<open>Events\<close>

text \<open>
  C4: an accepted event is accepted once. If delivering an event changed the scheduler, delivering the
  same event again, at any time, changes nothing.
\<close>

theorem redelivered_event_changes_nothing:
  assumes "reachable config s" "handle_event_at s envelope at = (res, s')" "s' \<noteq> s"
  shows "snd (handle_event_at s' envelope at') = s'"
  using settled_event_ignored
    accepted_event_settled [OF reachable_inv [OF assms(1)] reachable_ids [OF assms(1)] assms(2,3)] .

theorem redelivered_event_changes_nothing_witness:
  "let s = run_inputs (scheduler_new small_config) (take 3 download_inputs);
       envelope = for_task (Ev_GenerationPersisted (Gid 7) (Generation 0)) (TaskId 1)
   in snd (handle_event_at s envelope (MonotonicInstant 9)) = s"
proof -
  let ?s = "run_inputs (scheduler_new small_config) (take 2 download_inputs)"
  let ?e = "for_task (Ev_GenerationPersisted (Gid 7) (Generation 0)) (TaskId 1)"
  have "bt_get (rs_tasks (snd (handle_event_at ?s ?e (MonotonicInstant 2)))) (Gid 7) \<noteq> bt_get (rs_tasks ?s) (Gid 7)"
    by (simp add: download_inputs_def small_config_def exec_simps cong: exec_cong)
  then have "snd (handle_event_at ?s ?e (MonotonicInstant 2)) \<noteq> ?s" by metis
  moreover have "run_inputs (scheduler_new small_config) (take 3 download_inputs)
      = snd (handle_event_at ?s ?e (MonotonicInstant 2))"
    by (simp add: download_inputs_def)
  ultimately show ?thesis
    using redelivered_event_changes_nothing [OF reachable_inputs [of small_config "take 2 download_inputs"], of ?e]
    by (metis prod.collapse)
qed

text \<open>
  C7: an event for a task that is gone, for another task that has since taken the same GID, for an
  older generation or for a generation that has not started changes nothing.
\<close>

theorem foreign_event_changes_nothing:
  assumes "\<And>t. bt_get (rs_tasks s) (event_gid (env_event envelope)) = Some t \<Longrightarrow>
      t_task_id t \<noteq> env_task_id envelope \<or> t_generation t \<noteq> event_generation (env_event envelope)"
  shows "snd (handle_event_at s envelope at) = s"
proof (cases "bt_get (rs_tasks s) (event_gid (env_event envelope))")
  case (Some t)
  have "no_finish (guarded_event_plan s t at envelope)"
    using assms [OF Some] unfolding guarded_event_plan_def Let_def
    by (auto intro!: plan_all_branch(1) plan_all_ignored plan_all_and_then simp: generation_disposition_def)
  with Some show ?thesis
    by (simp add: handle_event_at_def on_task_def task_clone_def no_finish_run)
qed (simp add: handle_event_at_def on_task_def task_clone_def)

theorem foreign_event_changes_nothing_witness:
  "let s = run_inputs (scheduler_new small_config) (take 2 download_inputs);
       envelope = for_task (Ev_GenerationPersisted (Gid 7) (Generation 0)) (TaskId 2)
   in bt_get (rs_tasks s) (Gid 7) \<noteq> None \<and> snd (handle_event_at s envelope (MonotonicInstant 9)) = s"
proof -
  let ?s = "run_inputs (scheduler_new small_config) (take 2 download_inputs)"
  let ?e = "for_task (Ev_GenerationPersisted (Gid 7) (Generation 0)) (TaskId 2)"
  have t: "map_option t_task_id (bt_get (rs_tasks ?s) (Gid 7)) = Some (TaskId 1)"
    by (simp add: download_inputs_def small_config_def exec_simps cong: exec_cong)
  then have "snd (handle_event_at ?s ?e (MonotonicInstant 9)) = ?s"
    by (intro foreign_event_changes_nothing) (auto simp: for_task_def)
  with t show ?thesis by auto
qed

text \<open>
  C11: correlation identifiers are unique. No two tasks ever wait for the same retry timer, slow
  readmission, disk-space probe, host-key resolution or deletion, and an identifier that a task waits
  for has been issued: it is below the counter, unless the counter is exhausted.
\<close>

theorem correlation_ids_unique: "reachable config s \<Longrightarrow> ids_ok s"
  by (rule reachable_ids)

theorem correlation_ids_unique_witness:
  "ids_ok (run_inputs (scheduler_new small_config) download_inputs)"
  using correlation_ids_unique [OF reachable_inputs] .

section \<open>Histories\<close>

text \<open>
  C12: a task identifier names one task for ever. If the same identifier occurs in a later state of a
  run, it is the task with the same GID, its generation has not gone back, and neither has the highest
  option patch it has accepted.
\<close>

theorem task_identity_stable:
  assumes "reachable config s" "scheduler_run s s'" "bt_get (rs_tasks s) g = Some t"
    "bt_get (rs_tasks s') h = Some u" "t_task_id u = t_task_id t"
  shows "h = g \<and> t_generation t \<le> t_generation u
    \<and> patch_step (t_highest_option_patch_id t) (t_highest_option_patch_id u)"
  using run_same_task [OF reachable_inv [OF assms(1)] assms(2-5)] by (simp add: continues_def)

theorem task_identity_stable_witness:
  "\<exists>t u. bt_get (rs_tasks (run_inputs (scheduler_new small_config) (take 1 download_inputs))) (Gid 7) = Some t
     \<and> bt_get (rs_tasks (run_inputs (scheduler_new small_config) download_inputs)) (Gid 7) = Some u
     \<and> t_generation t \<le> t_generation u"
proof -
  let ?s = "run_inputs (scheduler_new small_config) (take 1 download_inputs)"
  have split: "run_inputs (scheduler_new small_config) download_inputs = run_inputs ?s (drop 1 download_inputs)"
    by (simp add: download_inputs_def)
  obtain t where t: "bt_get (rs_tasks ?s) (Gid 7) = Some t" "t_task_id t = TaskId 1"
    using download_task_ids(1) by auto
  obtain u where u: "bt_get (rs_tasks (run_inputs (scheduler_new small_config) download_inputs)) (Gid 7) = Some u"
    "t_task_id u = TaskId 1"
    using download_task_ids(2) by auto
  from task_identity_stable [OF reachable_inputs run_inputs_run t(1) u(1) [unfolded split]] t u show ?thesis
    by (auto simp: split)
qed

text \<open>
  C10: a terminal result is final. Once a task is complete, failed or removed, then as long as it is
  retained its final status stays the same, through the acknowledgement of its persistence and after it.
\<close>

theorem terminal_status_final:
  assumes "reachable config s" "scheduler_run s s'" "bt_get (rs_tasks s) g = Some t"
    "final_status t = Some x" "bt_get (rs_tasks s') g = Some u" "t_task_id u = t_task_id t"
  shows "final_status u = Some x"
  using run_final_status [OF assms(2) reachable_inv [OF assms(1)] assms(3,4)] assms(5,6) by blast

theorem terminal_status_final_witness:
  "\<exists>u. bt_get (rs_tasks (run_inputs (scheduler_new small_config) download_inputs)) (Gid 7) = Some u
     \<and> final_status u = Some AS_Complete"
proof -
  let ?s = "run_inputs (scheduler_new small_config) (take 6 download_inputs)"
  have split: "run_inputs (scheduler_new small_config) download_inputs = run_inputs ?s (drop 6 download_inputs)"
    by (simp add: download_inputs_def)
  obtain t where t: "bt_get (rs_tasks ?s) (Gid 7) = Some t" "t_task_id t = TaskId 1" "t_state t = TS_Complete"
    using download_task_ids(3) by auto
  obtain u where u: "bt_get (rs_tasks (run_inputs (scheduler_new small_config) download_inputs)) (Gid 7) = Some u"
    "t_task_id u = TaskId 1"
    using download_task_ids(2) by auto
  have "final_status t = Some AS_Complete" using t by (simp add: final_status_def)
  from terminal_status_final [OF reachable_inputs run_inputs_run t(1) this u(1) [unfolded split]] t u
  show ?thesis by auto
qed

section \<open>Progress\<close>





text \<open>
  C14: admission is work conserving. When some task is eligible, a slot is free and no task has used up
  its generations, a request to admit succeeds: a waiting task without a barrier starts a generation and
  waits for its persistence, or the restart patch that it waits for is scheduled.
\<close>

theorem admission_work_conserving:
  assumes "reachable config s" "bt_get (rs_tasks s) g = Some t" "eligible t"
    and "active_slot_count s < cfg_max_active_tasks (rs_config s)"
    and "\<forall>h u. bt_get (rs_tasks s) h = Some u \<longrightarrow> generation_available u"
  shows "\<exists>h old out u. bt_get (rs_tasks s) h = Some old \<and> t_pending_barrier old = None
    \<and> t_state old \<in> {TS_Waiting, TS_RetryWait, TS_WaitingSlow}
    \<and> fst (admit_next_at s at) = Inr out \<and> bt_get (rs_tasks (snd (admit_next_at s at))) h = Some u
    \<and> (t_state u = TS_Allocating \<and> t_pending_barrier u = Some (PB_GenerationPersistence (t_generation u))
       \<or> t_state u = TS_Waiting \<and> is_patch_application (t_pending_barrier u))"
proof -
  note inv = reachable_inv [OF assms(1)]
  obtain h where h: "admission_candidate s = Inr h" using eligible_candidate [OF inv assms(2,3)] by blast
  obtain old where old: "bt_get (rs_tasks s) h = Some old" "t_state old \<in> {TS_Waiting, TS_RetryWait, TS_WaitingSlow}"
    "t_pending_barrier old = None"
    using candidate_task [OF inv h] by (metis pending_restart_patch_task_def unblocked_def)
  have "generation_available u" if "bt_get (rs_tasks s) h = Some u" for u using assms(5) that by blast
  from admission_succeeds [OF inv h assms(4) this] old show ?thesis by blast
qed

theorem admission_work_conserving_witness:
  "let s = run_inputs (scheduler_new small_config) (take 1 download_inputs) in
   \<exists>h old u. bt_get (rs_tasks s) h = Some old \<and> t_pending_barrier old = None
     \<and> bt_get (rs_tasks (snd (admit_next_at s (MonotonicInstant 1)))) h = Some u
     \<and> (t_state u = TS_Allocating \<or> is_patch_application (t_pending_barrier u))"
proof -
  let ?s = "run_inputs (scheduler_new small_config) (take 1 download_inputs)"
  have "\<exists>t. bt_get (rs_tasks ?s) (Gid 7) = Some t \<and> eligible t"
    "active_slot_count ?s < cfg_max_active_tasks (rs_config ?s)"
    "\<forall>h u. bt_get (rs_tasks ?s) h = Some u \<longrightarrow> generation_available u"
    by (simp_all add: download_inputs_def small_config_def exec_simps eligible_def generation_available_def
        cong: exec_cong)
  then obtain t where t: "bt_get (rs_tasks ?s) (Gid 7) = Some t" "eligible t"
    "active_slot_count ?s < cfg_max_active_tasks (rs_config ?s)"
    "\<forall>h u. bt_get (rs_tasks ?s) h = Some u \<longrightarrow> generation_available u"
    by blast
  from admission_work_conserving [OF reachable_inputs t, of "MonotonicInstant 1"] show ?thesis
    unfolding Let_def by blast
qed

section \<open>Operations\<close>

lemma queues_set_same: "queues_set (queues_get qs c) qs c = qs"
  by (cases c) simp_all

text \<open>
  Adding a task. It is accepted exactly when its conditions are valid, the task limit is not
  reached, the GID is free and the identifier is above every identifier so far; then the new task is
  waiting, or paused when so requested, at the requested position of its queue, or at the end when the
  position is beyond it, and nothing else changes. Otherwise the command fails.
\<close>

lemma add_task_effect:
  assumes "reachable config s"
  shows "let (res, s') = execute_command_at s at (Cmd_AddValidatedTaskAt task g paused conditions pos);
             class = (if paused then QC_Paused else QC_Waiting)
    in if task_conditions_validate conditions = Inr () \<and> scheduler_len s < cfg_max_tasks (rs_config s)
          \<and> scheduler_task s g = None \<and> bt_get (rs_task_ids s) task = None
          \<and> (\<forall>h. rs_highest_task_id s = Some h \<longrightarrow> h < task)
       then (\<exists>out. res = Inr out)
         \<and> bt_get (rs_tasks s') = (bt_get (rs_tasks s))
             (g \<mapsto> (scheduled_task_new task g paused conditions)
                     \<lparr>t_state := (if paused then TS_Paused else TS_Waiting)\<rparr>)
         \<and> queue_snapshot s' class
             = insert_at (min pos (length (queue_snapshot s class))) g (queue_snapshot s class)
         \<and> (\<forall>c. c \<noteq> class \<longrightarrow> queue_snapshot s' c = queue_snapshot s c)
       else \<exists>e. res = Inl e"
proof (cases "add_accepts s task g conditions")
  case True
  note inv = reachable_inv [OF assms]
  have "bt_get (bt_insert g t (rs_tasks s)) = (bt_get (rs_tasks s))(g \<mapsto> t)" for t
    by (simp add: fun_eq_iff bt.get_ins)
  with True show ?thesis
    by (simp add: add_validated_task_eq [OF inv True] added_def new_task_def new_task_class_def add_position_def
        queue_snapshot_def add_accepts_def scheduler_len_def scheduler_task_def Let_def)
next
  case False
  obtain e where "add_validated_task s task g paused conditions (Some pos) at = (Inl e, s)"
    using add_validated_task_rejects [OF False] by blast
  moreover have "\<not> (task_conditions_validate conditions = Inr () \<and> scheduler_len s < cfg_max_tasks (rs_config s)
      \<and> scheduler_task s g = None \<and> bt_get (rs_task_ids s) task = None
      \<and> (\<forall>h. rs_highest_task_id s = Some h \<longrightarrow> h < task))"
    using False by (simp add: add_accepts_def scheduler_len_def scheduler_task_def)
  ultimately show ?thesis by (simp only: Let_def execute_command_at.simps split_beta fst_conv if_False) simp
qed

text \<open>
  C16: moving a task. A successful change of position leaves the task at the requested position of its
  queue, keeps the relative order of the others, and changes nothing else.
\<close>

theorem change_position_effect:
  assumes "reachable config s" "execute_command_at s at (Cmd_ChangePosition g pos) = (Inr out, s')"
  shows "\<exists>v c. scheduler_task s g = Some v \<and> tv_queue v = Some c
    \<and> s' = s\<lparr>rs_queues := queues_set (queue_snapshot s' c) (rs_queues s) c\<rparr>
    \<and> pos < length (queue_snapshot s' c) \<and> queue_snapshot s' c ! pos = g
    \<and> remove1 g (queue_snapshot s' c) = remove1 g (queue_snapshot s c)"
proof -
  note inv = reachable_inv [OF assms(1)]
  from assms(2) obtain t c where t: "bt_get (rs_tasks s) g = Some t" "task_queue_class t = Some c"
    and r: "queue_effects_for_reorder s g c pos = (Inr out, s')"
    by (auto simp: change_position_def try_in_eq_ok task_clone_def ok_or_def split: option.splits if_splits)
  let ?q = "queues_get (rs_queues s) c"
  have d: "distinct ?q" using queues_matchD(1) [OF sched_invD(3) [OF inv]] .
  from r obtain i where i: "pos < length ?q" "position g ?q = Some i"
    and s': "i = pos \<and> s' = s \<or>
      s' = s\<lparr>rs_queues := queues_set (insert_at pos g (remove1 g ?q)) (rs_queues s) c\<rparr>"
    by (auto simp: queue_effects_for_reorder_def Let_def try_in_eq_ok ok_or_def remove_at_position not_le
        split: option.splits if_splits)
  have "g \<in> set ?q" "?q ! i = g" using i(2) by (auto dest: position_Some_mem position_SomeD)
  then have "pos \<le> length (remove1 g ?q)" using i(1) by (simp add: length_remove1)
  then have "insert_at pos g (remove1 g ?q) ! pos = g" "remove1 g (insert_at pos g (remove1 g ?q)) = remove1 g ?q"
    "pos < length (insert_at pos g (remove1 g ?q))"
    using d by (simp_all add: nth_insert_at insert_at_remove1)
  with s' i \<open>?q ! i = g\<close> t show ?thesis
    by (auto simp: queue_snapshot_def scheduler_task_def task_view_fields queues_set_same)
qed

theorem change_position_effect_witness:
  "let s = run_inputs (scheduler_new small_config)
        [In_Command (MonotonicInstant 0) (Cmd_AddValidatedTask (TaskId 1) (Gid 7) False clear_conditions),
         In_Command (MonotonicInstant 0) (Cmd_AddValidatedTask (TaskId 2) (Gid 9) False clear_conditions)];
       s' = snd (execute_command_at s (MonotonicInstant 1) (Cmd_ChangePosition (Gid 9) 0))
   in \<exists>v c. scheduler_task s (Gid 9) = Some v \<and> tv_queue v = Some c \<and> queue_snapshot s' c ! 0 = Gid 9"
proof -
  let ?s = "run_inputs (scheduler_new small_config)
        [In_Command (MonotonicInstant 0) (Cmd_AddValidatedTask (TaskId 1) (Gid 7) False clear_conditions),
         In_Command (MonotonicInstant 0) (Cmd_AddValidatedTask (TaskId 2) (Gid 9) False clear_conditions)]"
  let ?r = "execute_command_at ?s (MonotonicInstant 1) (Cmd_ChangePosition (Gid 9) 0)"
  have "\<exists>out. fst ?r = Inr out"
    by (simp add: small_config_def exec_simps less_eq_task_id_def word_le_nat_alt cong: exec_cong)
  then obtain out where "?r = (Inr out, snd ?r)" by (metis prod.collapse)
  from change_position_effect [OF reachable_inputs this] show ?thesis unfolding Let_def by blast
qed

end
